(* ===== verification/Prelude.thy ===== *)
theory Prelude
  imports Complex_Main "HOL-Library.Multiset" "HOL-Library.Code_Target_Numeral"
begin

section \<open>Shared vocabulary of the development\<close>

text \<open>
  The generic layer under every component.  It holds the shallow counterparts of what the
  Rust sources use everywhere: the \<open>Result\<close> type with the question-mark operator, loops that
  return early, fixed-width unsigned arithmetic with its checked and saturating variants, and
  the collections of rewrite rules that the component theories extend.

  A Rust \<open>Result<T, E>\<close> is the sum \<open>'e + 'a\<close> with the error on the left.  A function that
  takes \<open>&mut S\<close> and returns a \<open>Result\<close> is a function \<open>'s \<Rightarrow> ('e + 'a) \<times> 's\<close>: the state is
  returned on the error path too, because what was written before the early return stays
  written.
\<close>

named_theorems result_simps "rewrite rules for results and early returns"
named_theorems width_simps "rewrite rules for fixed-width arithmetic"

subsection \<open>Results\<close>

type_synonym ('e, 'a) result = "'e + 'a"

definition result_bind :: "('e, 'a) result \<Rightarrow> ('a \<Rightarrow> ('e, 'b) result) \<Rightarrow> ('e, 'b) result" where
  "result_bind r f = (case r of Inl e \<Rightarrow> Inl e | Inr x \<Rightarrow> f x)"

definition map_err :: "('e \<Rightarrow> 'f) \<Rightarrow> ('e, 'a) result \<Rightarrow> ('f, 'a) result" where
  "map_err f r = (case r of Inl e \<Rightarrow> Inl (f e) | Inr x \<Rightarrow> Inr x)"

definition ok_or :: "'e \<Rightarrow> 'a option \<Rightarrow> ('e, 'a) result" where
  "ok_or e v = (case v of None \<Rightarrow> Inl e | Some x \<Rightarrow> Inr x)"

definition guard_err :: "bool \<Rightarrow> 'e \<Rightarrow> ('e, unit) result" where
  "guard_err bad e = (if bad then Inl e else Inr ())"

abbreviation is_ok :: "('e, 'a) result \<Rightarrow> bool" where
  "is_ok r \<equiv> (case r of Inl _ \<Rightarrow> False | Inr _ \<Rightarrow> True)"

lemma result_bind_simps [simp]:
  "result_bind (Inl e) f = Inl e"
  "result_bind (Inr x) f = f x"
  by (simp_all add: result_bind_def)

lemma result_bind_Inr_right [simp]: "result_bind r Inr = r"
  by (cases r) simp_all

lemma result_bind_Inr_conv [result_simps]:
  "result_bind r f = Inr y \<longleftrightarrow> (\<exists>x. r = Inr x \<and> f x = Inr y)"
  by (cases r) simp_all

lemma result_bind_Inl_conv [result_simps]:
  "result_bind r f = Inl e \<longleftrightarrow> r = Inl e \<or> (\<exists>x. r = Inr x \<and> f x = Inl e)"
  by (cases r) simp_all

lemma result_bind_assoc:
  "result_bind (result_bind r f) g = result_bind r (\<lambda>x. result_bind (f x) g)"
  by (cases r) simp_all

lemma result_bind_cong [fundef_cong]:
  assumes "r = r'" and "\<And>x. r' = Inr x \<Longrightarrow> f x = g x"
  shows "result_bind r f = result_bind r' g"
  using assms by (cases r') simp_all

lemma map_err_simps [simp]:
  "map_err f (Inl e) = Inl (f e)"
  "map_err f (Inr x) = Inr x"
  by (simp_all add: map_err_def)

lemma map_err_Inr_conv [result_simps]: "map_err f r = Inr x \<longleftrightarrow> r = Inr x"
  by (cases r) simp_all

lemma map_err_Inl_conv [result_simps]: "map_err f r = Inl e \<longleftrightarrow> (\<exists>d. r = Inl d \<and> e = f d)"
  by (cases r) auto

lemma ok_or_simps [simp]:
  "ok_or e None = Inl e"
  "ok_or e (Some x) = Inr x"
  by (simp_all add: ok_or_def)

lemma ok_or_Inr_conv [result_simps]: "ok_or e v = Inr x \<longleftrightarrow> v = Some x"
  by (cases v) simp_all

lemma ok_or_Inl_conv [result_simps]: "ok_or e v = Inl d \<longleftrightarrow> v = None \<and> d = e"
  by (cases v) auto

lemma guard_err_Inr_conv [simp]: "guard_err b e = Inr u \<longleftrightarrow> \<not> b"
  by (simp add: guard_err_def)

lemma guard_err_Inl_conv [simp]: "guard_err b e = Inl d \<longleftrightarrow> b \<and> d = e"
  by (auto simp: guard_err_def)

lemma guard_err_cases [simp]:
  "guard_err True e = Inl e"
  "guard_err False e = Inr ()"
  by (simp_all add: guard_err_def)

lemma is_ok_conv: "is_ok r \<longleftrightarrow> (\<exists>x. r = Inr x)"
  by (cases r) simp_all

subsection \<open>Loops with early return\<close>

text \<open>
  \<open>for x in xs { state = step(state, x)?; }\<close>: a fold that stops at the first error.
\<close>

fun try_fold :: "('s \<Rightarrow> 'a \<Rightarrow> ('e, 's) result) \<Rightarrow> 's \<Rightarrow> 'a list \<Rightarrow> ('e, 's) result" where
  "try_fold f s [] = Inr s"
| "try_fold f s (x # xs) = result_bind (f s x) (\<lambda>s'. try_fold f s' xs)"

lemma try_fold_append:
  "try_fold f s (xs @ ys) = result_bind (try_fold f s xs) (\<lambda>s'. try_fold f s' ys)"
  by (induction xs arbitrary: s) (simp_all add: result_bind_assoc)

lemma try_fold_cong [fundef_cong]:
  assumes "xs = ys" and "s = t" and "\<And>u x. x \<in> set ys \<Longrightarrow> f u x = g u x"
  shows "try_fold f s xs = try_fold g t ys"
  using assms
proof (induction ys arbitrary: xs s t)
  case (Cons y ys)
  then have "f t y = g t y" and "\<And>u. try_fold f u ys = try_fold g u ys" by simp_all
  with Cons.prems show ?case by simp
qed simp

lemma try_fold_invariant:
  assumes "try_fold f s xs = Inr t" and "P s"
    and "\<And>u x u'. x \<in> set xs \<Longrightarrow> P u \<Longrightarrow> f u x = Inr u' \<Longrightarrow> P u'"
  shows "P t"
  using assms
proof (induction xs arbitrary: s)
  case (Cons x xs)
  from Cons.prems(1) obtain s' where s': "f s x = Inr s'" and rest: "try_fold f s' xs = Inr t"
    by (auto simp: result_simps)
  from Cons.prems(2,3) s' have "P s'" by auto
  with rest Cons.IH Cons.prems(3) show ?case by auto
qed simp

text \<open>A loop that ends well has processed every element, from some state.\<close>

lemma try_fold_all:
  "try_fold f s xs = Inr t \<Longrightarrow> \<forall>x \<in> set xs. \<exists>u u'. f u x = Inr u'"
  by (induction xs arbitrary: s) (auto simp: result_simps)

lemma try_fold_error: "try_fold f s xs = Inl e \<Longrightarrow> \<exists>u. \<exists>x \<in> set xs. f u x = Inl e"
  by (induction xs arbitrary: s) (auto simp: result_simps, blast)

lemma try_fold_total:
  assumes "P s" and "\<And>u x. x \<in> set xs \<Longrightarrow> P u \<Longrightarrow> \<exists>u'. f u x = Inr u' \<and> P u'"
  shows "\<exists>t. try_fold f s xs = Inr t \<and> P t"
  using assms
proof (induction xs arbitrary: s)
  case (Cons x xs)
  from Cons.prems obtain s' where "f s x = Inr s'" and "P s'" by auto
  with Cons.IH [of s'] Cons.prems(2) show ?case by simp
qed simp

text \<open>\<open>for x in xs { check(x)?; }\<close>: a loop that only checks.\<close>

fun try_for :: "('a \<Rightarrow> ('e, unit) result) \<Rightarrow> 'a list \<Rightarrow> ('e, unit) result" where
  "try_for f [] = Inr ()"
| "try_for f (x # xs) = result_bind (f x) (\<lambda>_. try_for f xs)"

lemma try_for_Inr_conv [simp]: "try_for f xs = Inr u \<longleftrightarrow> (\<forall>x \<in> set xs. f x = Inr ())"
  by (induction xs) (auto simp: result_simps)

lemma try_for_InlD: "try_for f xs = Inl e \<Longrightarrow> \<exists>x \<in> set xs. f x = Inl e"
  by (induction xs) (auto simp: result_simps)

lemma try_for_cong [fundef_cong]:
  assumes "xs = ys" and "\<And>x. x \<in> set ys \<Longrightarrow> f x = g x"
  shows "try_for f xs = try_for g ys"
  using assms by (induction ys arbitrary: xs) auto

text \<open>\<open>xs.iter().map(f).collect::<Result<Vec<_>, _>>()\<close>.\<close>

fun try_map :: "('a \<Rightarrow> ('e, 'b) result) \<Rightarrow> 'a list \<Rightarrow> ('e, 'b list) result" where
  "try_map f [] = Inr []"
| "try_map f (x # xs) = result_bind (f x) (\<lambda>y. result_bind (try_map f xs) (\<lambda>ys. Inr (y # ys)))"

lemma try_map_Inr_conv: "try_map f xs = Inr ys \<longleftrightarrow> list_all2 (\<lambda>x y. f x = Inr y) xs ys"
  by (induction xs arbitrary: ys) (auto simp: result_simps list_all2_Cons1)

text \<open>A sequence of \<open>check()?;\<close> statements: the first failing check is the result.\<close>

definition checks :: "('e, unit) result list \<Rightarrow> ('e, unit) result" where
  "checks cs = try_for (\<lambda>r. r) cs"

lemma checks_simps [simp]:
  "checks [] = Inr ()"
  "checks (c # cs) = result_bind c (\<lambda>_. checks cs)"
  by (simp_all add: checks_def)

lemma checks_Inr_conv: "checks cs = Inr u \<longleftrightarrow> (\<forall>c \<in> set cs. c = Inr ())"
  by (simp add: checks_def)

text \<open>Indexed loops, \<open>for (index, x) in xs.iter().enumerate()\<close>, recurse into the elements.\<close>

lemma set_enumerate_snd: "(i, x) \<in> set (enumerate n xs) \<Longrightarrow> x \<in> set xs"
  by (auto simp: in_set_enumerate_eq)

lemma set_enumerate_ex: "x \<in> set xs \<Longrightarrow> \<exists>i. (i, x) \<in> set (enumerate n xs)"
proof -
  assume "x \<in> set xs"
  then have "x \<in> snd ` set (enumerate n xs)" by (metis list.set_map map_snd_enumerate)
  then show ?thesis by force
qed

lemma size_enumerate [termination_simp]:
  "(i, x) \<in> set (enumerate n xs) \<Longrightarrow> size x < Suc (size_list size xs)"
  by (drule set_enumerate_snd) (simp add: less_Suc_eq_le size_list_estimation')

lemma ball_enumerate: "(\<forall>(i, x) \<in> set (enumerate n xs). P x) \<longleftrightarrow> (\<forall>x \<in> set xs. P x)"
proof -
  have snds: "snd ` set (enumerate n xs) = set xs" by (metis list.set_map map_snd_enumerate)
  show ?thesis by (simp add: case_prod_unfold flip: snds)
qed

subsection \<open>Results that also carry a mutable argument\<close>

type_synonym ('s, 'e, 'a) stateful = "'s \<Rightarrow> ('e, 'a) result \<times> 's"

definition st_return :: "'a \<Rightarrow> ('s, 'e, 'a) stateful" where
  "st_return x = (\<lambda>s. (Inr x, s))"

definition st_fail :: "'e \<Rightarrow> ('s, 'e, 'a) stateful" where
  "st_fail e = (\<lambda>s. (Inl e, s))"

definition st_lift :: "('e, 'a) result \<Rightarrow> ('s, 'e, 'a) stateful" where
  "st_lift r = (\<lambda>s. (r, s))"

definition st_bind ::
  "('s, 'e, 'a) stateful \<Rightarrow> ('a \<Rightarrow> ('s, 'e, 'b) stateful) \<Rightarrow> ('s, 'e, 'b) stateful" where
  "st_bind m f = (\<lambda>s. case m s of (Inl e, s') \<Rightarrow> (Inl e, s') | (Inr x, s') \<Rightarrow> f x s')"

fun st_fold :: "('b \<Rightarrow> 'a \<Rightarrow> ('s, 'e, 'b) stateful) \<Rightarrow> 'b \<Rightarrow> 'a list \<Rightarrow> ('s, 'e, 'b) stateful" where
  "st_fold f b [] = st_return b"
| "st_fold f b (x # xs) = st_bind (f b x) (\<lambda>b'. st_fold f b' xs)"

fun st_for :: "('a \<Rightarrow> ('s, 'e, unit) stateful) \<Rightarrow> 'a list \<Rightarrow> ('s, 'e, unit) stateful" where
  "st_for f [] = st_return ()"
| "st_for f (x # xs) = st_bind (f x) (\<lambda>_. st_for f xs)"

lemma st_run_simps [simp]:
  "st_return x s = (Inr x, s)"
  "st_fail e s = (Inl e, s)"
  "st_lift r s = (r, s)"
  by (simp_all add: st_return_def st_fail_def st_lift_def)

lemma st_bind_Inr_conv [result_simps]:
  "st_bind m f s = (Inr y, t) \<longleftrightarrow> (\<exists>x u. m s = (Inr x, u) \<and> f x u = (Inr y, t))"
  by (auto simp: st_bind_def split: prod.splits sum.splits)

lemma st_bind_Inl_conv [result_simps]:
  "st_bind m f s = (Inl e, t) \<longleftrightarrow>
     m s = (Inl e, t) \<or> (\<exists>x u. m s = (Inr x, u) \<and> f x u = (Inl e, t))"
  by (auto simp: st_bind_def split: prod.splits sum.splits)

lemma st_bind_run:
  "m s = (Inr x, u) \<Longrightarrow> st_bind m f s = f x u"
  "m s = (Inl e, u) \<Longrightarrow> st_bind m f s = (Inl e, u)"
  by (simp_all add: st_bind_def)

lemma st_bind_cong [fundef_cong]:
  assumes "m = m'" and "s = s'" and "\<And>x u. m' s' = (Inr x, u) \<Longrightarrow> f x u = g x u"
  shows "st_bind m f s = st_bind m' g s'"
  using assms by (auto simp: st_bind_def split: prod.splits sum.splits)

lemma st_for_cong [fundef_cong]:
  assumes "xs = ys" and "s = t" and "\<And>x u. x \<in> set ys \<Longrightarrow> f x u = g x u"
  shows "st_for f xs s = st_for g ys t"
  using assms
proof (induction ys arbitrary: xs s t)
  case (Cons y ys)
  then have "\<And>u. f y u = g y u" and "\<And>u. st_for f ys u = st_for g ys u" by simp_all
  with Cons.prems show ?case by (simp add: st_bind_def split: prod.split sum.split)
qed simp

lemma st_fold_cong [fundef_cong]:
  assumes "xs = ys" and "b = c" and "s = t" and "\<And>d x u. x \<in> set ys \<Longrightarrow> f d x u = g d x u"
  shows "st_fold f b xs s = st_fold g c ys t"
  using assms
proof (induction ys arbitrary: xs b c s t)
  case (Cons y ys)
  then have "\<And>d u. f d y u = g d y u" and "\<And>d u. st_fold f d ys u = st_fold g d ys u"
    by simp_all
  with Cons.prems show ?case by (simp add: st_bind_def split: prod.split sum.split)
qed simp

text \<open>An invariant over the part of the list that has been processed, the result and the state.\<close>

lemma st_fold_prefix:
  assumes "st_fold f b xs s = (Inr c, t)" and "P [] b s"
    and "\<And>pre x post b s c t. xs = pre @ x # post \<Longrightarrow> P pre b s \<Longrightarrow> f b x s = (Inr c, t) \<Longrightarrow> P (pre @ [x]) c t"
  shows "P xs c t"
proof -
  have "P (pre @ ys) c t" if "xs = pre @ ys" and "P pre b s" and "st_fold f b ys s = (Inr c, t)" for pre ys b s
    using that
  proof (induction ys arbitrary: pre b s)
    case (Cons y ys)
    then obtain d u where step: "f b y s = (Inr d, u)" and rest: "st_fold f d ys u = (Inr c, t)"
      by (auto simp: result_simps)
    have "P (pre @ [y]) d u" using assms(3) Cons.prems(1,2) step by blast
    with Cons.IH [of "pre @ [y]" d u] Cons.prems(1) rest show ?case by simp
  qed simp
  from this [of "[]" xs b s] assms(1,2) show ?thesis by simp
qed

text \<open>
  A stateful operation keeps a relation between the state before and after when every step
  does, on the error path as well as on the normal one.
\<close>

definition st_keeps :: "('s \<Rightarrow> 's \<Rightarrow> bool) \<Rightarrow> ('s, 'e, 'a) stateful \<Rightarrow> bool" where
  "st_keeps R m \<longleftrightarrow> (\<forall>s. R s (snd (m s)))"

lemma st_keeps_basic [simp]:
  assumes "reflp R"
  shows "st_keeps R (st_return x)" and "st_keeps R (st_fail e)" and "st_keeps R (st_lift r)"
  using assms by (simp_all add: st_keeps_def reflp_def)

lemma st_keeps_bind:
  assumes "transp R" and "st_keeps R m" and "\<And>x. st_keeps R (f x)"
  shows "st_keeps R (st_bind m f)"
  unfolding st_keeps_def
proof
  fix s
  from assms(2) have m: "R s (snd (m s))" by (simp add: st_keeps_def)
  show "R s (snd (st_bind m f s))"
  proof (cases "m s")
    case (Pair r u)
    show ?thesis
    proof (cases r)
      case (Inl e)
      with Pair m show ?thesis by (simp add: st_bind_def)
    next
      case (Inr x)
      from assms(3) have "R u (snd (f x u))" by (simp add: st_keeps_def)
      with Pair Inr m assms(1) show ?thesis by (auto simp: st_bind_def elim: transpE)
    qed
  qed
qed

lemma st_keeps_for:
  assumes "reflp R" and "transp R" and "\<And>x. x \<in> set xs \<Longrightarrow> st_keeps R (f x)"
  shows "st_keeps R (st_for f xs)"
  using assms(3)
  by (induction xs) (simp_all add: assms(1,2) st_keeps_bind)

lemma st_keeps_fold:
  assumes "reflp R" and "transp R" and "\<And>b x. x \<in> set xs \<Longrightarrow> st_keeps R (f b x)"
  shows "st_keeps R (st_fold f b xs)"
  using assms(3)
  by (induction xs arbitrary: b) (simp_all add: assms(1,2) st_keeps_bind)

subsection \<open>Fixed-width unsigned integers\<close>

text \<open>
  Unsigned machine integers are natural numbers; their width appears where the source can
  notice it, as the bound of the checked and saturating operations.  \<open>usize\<close> is taken to be
  64 bits wide.
\<close>

definition u32_max :: nat where "u32_max = 4294967295"
definition u64_max :: nat where "u64_max = 18446744073709551615"
definition usize_max :: nat where "usize_max = 18446744073709551615"

definition checked_add :: "nat \<Rightarrow> nat \<Rightarrow> nat \<Rightarrow> nat option" where
  "checked_add m a b = (if a + b \<le> m then Some (a + b) else None)"

definition checked_mul :: "nat \<Rightarrow> nat \<Rightarrow> nat \<Rightarrow> nat option" where
  "checked_mul m a b = (if a * b \<le> m then Some (a * b) else None)"

definition saturating_add :: "nat \<Rightarrow> nat \<Rightarrow> nat \<Rightarrow> nat" where
  "saturating_add m a b = min m (a + b)"

definition saturating_mul :: "nat \<Rightarrow> nat \<Rightarrow> nat \<Rightarrow> nat" where
  "saturating_mul m a b = min m (a * b)"

text \<open>\<open>u32::try_from(n).unwrap_or(d)\<close>.\<close>

definition try_from_or :: "nat \<Rightarrow> nat \<Rightarrow> nat \<Rightarrow> nat" where
  "try_from_or m d n = (if n \<le> m then n else d)"

definition div_ceil :: "nat \<Rightarrow> nat \<Rightarrow> nat" where
  "div_ceil a b = (a + b - 1) div b"

lemma checked_add_Some_conv [width_simps]:
  "checked_add m a b = Some c \<longleftrightarrow> c = a + b \<and> a + b \<le> m"
  by (auto simp: checked_add_def)

lemma checked_add_None_conv [width_simps]: "checked_add m a b = None \<longleftrightarrow> m < a + b"
  by (auto simp: checked_add_def)

lemma checked_mul_Some_conv [width_simps]:
  "checked_mul m a b = Some c \<longleftrightarrow> c = a * b \<and> a * b \<le> m"
  by (auto simp: checked_mul_def)

lemma checked_mul_None_conv [width_simps]: "checked_mul m a b = None \<longleftrightarrow> m < a * b"
  by (auto simp: checked_mul_def)

lemma saturating_add_le [simp]: "saturating_add m a b \<le> m"
  by (simp add: saturating_add_def)

lemma saturating_add_exact: "a + b \<le> m \<Longrightarrow> saturating_add m a b = a + b"
  by (simp add: saturating_add_def)

lemma saturating_add_less: "saturating_add m a b < m \<Longrightarrow> saturating_add m a b = a + b"
  by (simp add: saturating_add_def min_def split: if_splits)

lemma div_ceil_mult: "b > 0 \<Longrightarrow> div_ceil a b \<le> n \<longleftrightarrow> a \<le> n * b"
proof -
  assume b: "b > 0"
  have "div_ceil a b \<le> n \<longleftrightarrow> a + b - 1 < (n + 1) * b"
    unfolding div_ceil_def using b by (metis Suc_eq_plus1 div_less_iff_less_mult less_Suc_eq_le)
  also have "\<dots> \<longleftrightarrow> a \<le> n * b" using b by auto
  finally show ?thesis .
qed

end
