(* ===== verification/Rust_Text.thy ===== *)
theory Rust_Text
  imports Prelude "HOL-Library.List_Lexorder" "HOL-Library.Sublist"
begin

section \<open>Strings\<close>

text \<open>
  A Rust \<open>String\<close> is the list of its Unicode scalar values, as natural numbers.  What the source
  reads of a string is then either a function of that list (\<open>chars().count()\<close> is \<open>length\<close>) or of
  its UTF-8 encoding, which is spelled out here: \<open>str_len\<close> is \<open>str::len\<close>, \<open>utf8\<close> the byte
  sequence.  Two facts tie the views together: the encoding is injective, and the byte-wise order
  that Rust uses to compare strings is the lexicographic order on scalar values, which is the
  order \<^term>\<open>(<)\<close> that the development uses for identifiers.

  The Unicode tables are data that the standard library is generated from; they are the
  parameter \<open>ucd\<close>.  \<open>str::to_lowercase\<close> with its final-sigma rule is written over them.
\<close>

subsection \<open>Literals and lengths\<close>

type_synonym uchar = nat
type_synonym str = "uchar list"

definition lit :: "string \<Rightarrow> str" where
  "lit s = map of_char s"

definition scalar_value :: "uchar \<Rightarrow> bool" where
  "scalar_value c \<longleftrightarrow> c < 55296 \<or> 57344 \<le> c \<and> c < 1114112"

definition valid_text :: "str \<Rightarrow> bool" where
  "valid_text t \<longleftrightarrow> list_all scalar_value t"

definition len_utf8 :: "uchar \<Rightarrow> nat" where
  "len_utf8 c = (if c < 128 then 1 else if c < 2048 then 2 else if c < 65536 then 3 else 4)"

definition str_len :: "str \<Rightarrow> nat" where
  "str_len t = sum_list (map len_utf8 t)"

definition utf8_char :: "uchar \<Rightarrow> nat list" where
  "utf8_char c =
     (if c < 128 then [c]
      else if c < 2048 then [192 + c div 64, 128 + c mod 64]
      else if c < 65536 then [224 + c div 4096, 128 + (c div 64) mod 64, 128 + c mod 64]
      else [240 + c div 262144, 128 + (c div 4096) mod 64, 128 + (c div 64) mod 64,
            128 + c mod 64])"

definition utf8 :: "str \<Rightarrow> nat list" where
  "utf8 t = concat (map utf8_char t)"

lemma len_utf8_bounds: "1 \<le> len_utf8 c" "len_utf8 c \<le> 4"
  by (simp_all add: len_utf8_def)

lemma str_len_simps [simp]:
  "str_len [] = 0"
  "str_len (c # t) = len_utf8 c + str_len t"
  "str_len (s @ t) = str_len s + str_len t"
  by (simp_all add: str_len_def)

lemma str_len_rev [simp]: "str_len (rev t) = str_len t"
  by (induction t) simp_all

lemma length_le_str_len: "length t \<le> str_len t"
proof (induction t)
  case (Cons c t)
  then show ?case using len_utf8_bounds(1) [of c] by simp
qed simp

lemma str_len_eq_0 [simp]: "str_len t = 0 \<longleftrightarrow> t = []"
  using length_le_str_len [of t] by (cases t) auto

lemma utf8_simps [simp]:
  "utf8 [] = []"
  "utf8 (c # t) = utf8_char c @ utf8 t"
  "utf8 (s @ t) = utf8 s @ utf8 t"
  by (simp_all add: utf8_def)

lemma length_utf8 [simp]: "length (utf8 t) = str_len t"
  by (induction t) (simp_all add: utf8_char_def len_utf8_def)

lemma scalar_value_bound: "scalar_value c \<Longrightarrow> c < 1114112"
  by (auto simp: scalar_value_def)

lemma utf8_char_bytes: "scalar_value c \<Longrightarrow> b \<in> set (utf8_char c) \<Longrightarrow> b < 256"
  by (drule scalar_value_bound) (auto simp: utf8_char_def split: if_splits)

subsection \<open>The encoding is injective and monotone\<close>

lemma div_mod_less_cases:
  fixes c d k :: nat
  assumes "c < d"
  shows "c div k < d div k \<or> c div k = d div k \<and> c mod k < d mod k"
proof -
  have "c div k \<le> d div k" using assms by (simp add: div_le_mono)
  moreover have "c mod k < d mod k" if "c div k = d div k"
    using assms that div_mult_mod_eq [of c k] div_mult_mod_eq [of d k] by (metis nat_add_left_cancel_less)
  ultimately show ?thesis by linarith
qed

lemma utf8_char_less:
  assumes "c < d" and "d < 1114112"
  shows "utf8_char c @ r < utf8_char d @ s"
proof -
  have div64: "c div 4096 = (c div 64) div 64" "d div 4096 = (d div 64) div 64"
      "c div 262144 = (c div 64) div 64 div 64" "d div 262144 = (d div 64) div 64 div 64"
    by (simp_all add: div_mult2_eq [symmetric])
  note steps = div_mod_less_cases [of c d 64] div_mod_less_cases [of "c div 64" "d div 64" 64]
    div_mod_less_cases [of "c div 64 div 64" "d div 64 div 64" 64]
  consider "d < 128" | "128 \<le> d" "d < 2048" | "2048 \<le> d" "d < 65536" | "65536 \<le> d"
    by linarith
  then show ?thesis
  proof cases
    case 1
    with assms show ?thesis by (simp add: utf8_char_def)
  next
    case 2
    have "c div 64 < 32" if "c < 2048" using that by simp
    with 2 assms steps(1) show ?thesis by (auto simp: utf8_char_def)
  next
    case 3
    show ?thesis
    proof (cases "c < 2048")
      case True
      then have "c div 64 < 32" by simp
      with True 3 show ?thesis by (auto simp: utf8_char_def)
    next
      case False
      with 3 assms steps(1,2) show ?thesis by (auto simp: utf8_char_def div64)
    qed
  next
    case 4
    show ?thesis
    proof (cases "c < 65536")
      case True
      then have "c div 4096 < 16" and "c < 2048 \<Longrightarrow> c div 64 < 32" by simp_all
      with True 4 show ?thesis by (auto simp: utf8_char_def)
    next
      case False
      with 4 assms steps show ?thesis by (auto simp: utf8_char_def div64)
    qed
  qed
qed

lemma list_less_append_cancel: "(xs :: nat list) @ ys < xs @ zs \<longleftrightarrow> ys < zs"
  by (induction xs) simp_all

lemma utf8_char_nonempty: "utf8_char c \<noteq> []"
  by (simp add: utf8_char_def)

lemma utf8_less:
  assumes "valid_text s" and "valid_text t" and "s < t"
  shows "utf8 s < utf8 t"
  using assms
proof (induction s arbitrary: t)
  case Nil
  then obtain c t' where "t = c # t'" by (cases t) auto
  then show ?case using utf8_char_nonempty [of c] by (cases "utf8_char c") auto
next
  case (Cons c s)
  then obtain d t' where t: "t = d # t'" by (cases t) auto
  with Cons.prems have d: "d < 1114112" by (simp add: valid_text_def scalar_value_bound)
  show ?case
  proof (cases "c = d")
    case True
    with Cons t show ?thesis by (auto simp: valid_text_def list_less_append_cancel)
  next
    case False
    with Cons.prems t have "c < d" by simp
    with d t show ?thesis by (simp add: utf8_char_less)
  qed
qed

lemma utf8_less_iff:
  assumes "valid_text s" and "valid_text t"
  shows "utf8 s < utf8 t \<longleftrightarrow> s < t"
  using utf8_less [OF assms] utf8_less [OF assms(2,1)]
  by (metis less_asym linorder_neqE)

lemma utf8_inj: "valid_text s \<Longrightarrow> valid_text t \<Longrightarrow> utf8 s = utf8 t \<Longrightarrow> s = t"
  using utf8_less [of s t] utf8_less [of t s] by (metis less_irrefl linorder_neqE)

subsection \<open>Numbers in messages\<close>

fun show_nat :: "nat \<Rightarrow> str" where
  "show_nat n = (if n < 10 then [48 + n] else show_nat (n div 10) @ [48 + n mod 10])"

declare show_nat.simps [simp del]

lemma show_nat_nonempty [simp]: "show_nat n \<noteq> []"
  by (subst show_nat.simps) simp

fun read_nat :: "str \<Rightarrow> nat" where
  "read_nat t = foldl (\<lambda>a c. 10 * a + (c - 48)) 0 t"

lemma read_show_nat: "read_nat (show_nat n) = n"
proof (induction n rule: show_nat.induct)
  case (1 n)
  then show ?case by (cases "n < 10") (simp_all add: show_nat.simps [of n])
qed

lemma show_nat_inj: "show_nat m = show_nat n \<Longrightarrow> m = n"
  using read_show_nat by metis

subsection \<open>Substrings\<close>

fun contains :: "str \<Rightarrow> str \<Rightarrow> bool" where
  "contains [] needle = (needle = [])"
| "contains (c # hay) needle = (prefix needle (c # hay) \<or> contains hay needle)"

lemma contains_iff_sublist: "contains hay needle \<longleftrightarrow> sublist needle hay"
  by (induction hay) (auto simp: sublist_Cons_right)

text \<open>
  \<open>str::match_indices\<close>: the non-overlapping occurrences from left to right, each as the text
  before it and the text after it.  An empty needle matches at every boundary.
\<close>

function match_from :: "str \<Rightarrow> str \<Rightarrow> str \<Rightarrow> (str \<times> str) list" where
  "match_from needle before rest =
     (if needle = [] then
        (case rest of [] \<Rightarrow> [(before, [])]
         | c # cs \<Rightarrow> (before, rest) # match_from needle (before @ [c]) cs)
      else case rest of [] \<Rightarrow> []
      | c # cs \<Rightarrow>
          if prefix needle rest then
            (before, drop (length needle) rest)
              # match_from needle (before @ needle) (drop (length needle) rest)
          else match_from needle (before @ [c]) cs)"
  by pat_completeness auto
termination
proof (relation "measure (\<lambda>(needle, before, rest). length rest)", goal_cases)
  case (3 needle before rest c cs)
  then show ?case by (cases needle) auto
qed auto

declare match_from.simps [simp del]

definition match_indices :: "str \<Rightarrow> str \<Rightarrow> (str \<times> str) list" where
  "match_indices hay needle = match_from needle [] hay"

lemma match_from_Nil: "match_from needle before [] = (if needle = [] then [(before, [])] else [])"
  by (subst match_from.simps) simp

lemma match_from_Cons:
  "match_from needle before (c # cs) =
     (if needle = [] then (before, c # cs) # match_from needle (before @ [c]) cs
      else if prefix needle (c # cs) then
        (before, drop (length needle) (c # cs))
          # match_from needle (before @ needle) (drop (length needle) (c # cs))
      else match_from needle (before @ [c]) cs)"
  by (subst match_from.simps) simp

lemma match_from_split:
  "(b, a) \<in> set (match_from needle before rest) \<Longrightarrow> before @ rest = b @ needle @ a"
proof (induction needle before rest rule: match_from.induct)
  case (1 needle before rest)
  show ?case
  proof (cases rest)
    case Nil
    with "1.prems" show ?thesis by (auto simp: match_from_Nil split: if_splits)
  next
    case (Cons c cs)
    have pre: "needle @ drop (length needle) (c # cs) = c # cs" if "prefix needle (c # cs)"
      using that by (auto simp: prefix_def)
    from "1.prems" Cons show ?thesis
      using "1.IH"(1) [OF _ Cons] "1.IH"(2) [OF _ Cons] "1.IH"(3) [OF _ Cons] pre
      by (auto simp: match_from_Cons split: if_splits)
  qed
qed

lemma match_indices_split:
  "(b, a) \<in> set (match_indices hay needle) \<Longrightarrow> hay = b @ needle @ a"
  using match_from_split [of b a needle "[]" hay] by (simp add: match_indices_def)

lemma match_from_empty_iff:
  "match_from needle before rest = [] \<longleftrightarrow> \<not> contains rest needle"
proof (induction needle before rest rule: match_from.induct)
  case (1 needle before rest)
  then show ?case
    by (cases rest; cases "needle = []") (auto simp: match_from_Nil match_from_Cons)
qed

lemma match_indices_nonempty: "match_indices hay needle \<noteq> [] \<longleftrightarrow> sublist needle hay"
  by (simp add: match_indices_def match_from_empty_iff contains_iff_sublist)

subsection \<open>Case mapping over the Unicode tables\<close>

record ucd =
  ucd_lower :: "uchar \<Rightarrow> str"
  ucd_cased :: "uchar \<Rightarrow> bool"
  ucd_case_ignorable :: "uchar \<Rightarrow> bool"
  ucd_alphanumeric :: "uchar \<Rightarrow> bool"

definition case_ignorable_then_cased :: "ucd \<Rightarrow> str \<Rightarrow> bool" where
  "case_ignorable_then_cased u cs =
     (case dropWhile (ucd_case_ignorable u) cs of [] \<Rightarrow> False | c # _ \<Rightarrow> ucd_cased u c)"

text \<open>
  Greek capital sigma is U+03A3; it becomes U+03C2 at the end of a word and U+03C3 elsewhere.
  The first text argument is what precedes the current character, nearest first.
\<close>

fun lower_from :: "ucd \<Rightarrow> str \<Rightarrow> str \<Rightarrow> str" where
  "lower_from u before [] = []"
| "lower_from u before (c # cs) =
     (if c = 931
      then [if case_ignorable_then_cased u before \<and> \<not> case_ignorable_then_cased u cs
            then 962 else 963]
      else ucd_lower u c) @ lower_from u (c # before) cs"

definition str_to_lowercase :: "ucd \<Rightarrow> str \<Rightarrow> str" where
  "str_to_lowercase u t = lower_from u [] t"

text \<open>\<open>text.chars().flat_map(char::to_lowercase)\<close>: the same tables, no word context.\<close>

definition chars_to_lowercase :: "ucd \<Rightarrow> str \<Rightarrow> str" where
  "chars_to_lowercase u t = concat (map (ucd_lower u) t)"

lemma lower_from_no_sigma:
  "931 \<notin> set t \<Longrightarrow> lower_from u before t = chars_to_lowercase u t"
  by (induction t arbitrary: before) (auto simp: chars_to_lowercase_def)

lemma str_to_lowercase_no_sigma:
  "931 \<notin> set t \<Longrightarrow> str_to_lowercase u t = chars_to_lowercase u t"
  by (simp add: str_to_lowercase_def lower_from_no_sigma)

lemma chars_to_lowercase_append:
  "chars_to_lowercase u (s @ t) = chars_to_lowercase u s @ chars_to_lowercase u t"
  by (simp add: chars_to_lowercase_def)

subsection \<open>ASCII classes\<close>

definition is_ascii_lowercase :: "uchar \<Rightarrow> bool" where
  "is_ascii_lowercase c \<longleftrightarrow> 97 \<le> c \<and> c \<le> 122"

definition is_ascii_uppercase :: "uchar \<Rightarrow> bool" where
  "is_ascii_uppercase c \<longleftrightarrow> 65 \<le> c \<and> c \<le> 90"

definition is_ascii_digit :: "uchar \<Rightarrow> bool" where
  "is_ascii_digit c \<longleftrightarrow> 48 \<le> c \<and> c \<le> 57"

definition is_ascii_alphanumeric :: "uchar \<Rightarrow> bool" where
  "is_ascii_alphanumeric c \<longleftrightarrow> is_ascii_lowercase c \<or> is_ascii_uppercase c \<or> is_ascii_digit c"

definition is_ascii_hexdigit :: "uchar \<Rightarrow> bool" where
  "is_ascii_hexdigit c \<longleftrightarrow> is_ascii_digit c \<or> 97 \<le> c \<and> c \<le> 102 \<or> 65 \<le> c \<and> c \<le> 70"

end
