(* ===== verification/Rust_Float.thy ===== *)
theory Rust_Float
  imports Prelude
begin

section \<open>Floating-point values\<close>

text \<open>
  An IEEE-754 value is a finite value, an infinity with its sign, or not-a-number.  A finite
  value is the rational number it denotes; the two zeros coincide, as \<open>==\<close> makes them.  The
  engines use floats in three ways only, and each is exact or rounds in a way that is written
  out here:
  \<^item> range checks and comparisons, which are exact;
  \<^item> \<open>f64::from(x) * 1_000_000.0\<close> on an \<open>f32\<close>: a 24-bit significand times a factor with a
    14-bit odd part fits the 53 bits of an \<open>f64\<close>, so the product is exact
    (\<open>f32_scale_exact\<close>), and \<open>round\<close> then rounds half away from zero;
  \<^item> \<open>i as f64\<close> on an \<open>i64\<close>, which rounds to the nearest 53-bit significand, ties to even
    (\<open>i64_to_f64\<close>).
\<close>

datatype float = Finite rat | Infinite bool | NaN

abbreviation is_finite :: "float \<Rightarrow> bool" where
  "is_finite x \<equiv> (case x of Finite _ \<Rightarrow> True | _ \<Rightarrow> False)"

text \<open>\<open>x < y\<close> on floats; \<open>Infinite True\<close> is positive infinity.\<close>

fun float_less :: "float \<Rightarrow> float \<Rightarrow> bool" where
  "float_less (Finite a) (Finite b) = (a < b)"
| "float_less (Finite a) (Infinite p) = p"
| "float_less (Infinite p) (Finite b) = (\<not> p)"
| "float_less (Infinite p) (Infinite q) = (\<not> p \<and> q)"
| "float_less _ _ = False"

text \<open>\<open>x == y\<close> on floats: not-a-number equals nothing.\<close>

fun float_eq :: "float \<Rightarrow> float \<Rightarrow> bool" where
  "float_eq (Finite a) (Finite b) = (a = b)"
| "float_eq (Infinite p) (Infinite q) = (p = q)"
| "float_eq _ _ = False"

text \<open>\<open>(lo..=hi).contains(&x)\<close> for finite bounds.\<close>

fun float_in_range :: "rat \<Rightarrow> rat \<Rightarrow> float \<Rightarrow> bool" where
  "float_in_range lo hi (Finite a) = (lo \<le> a \<and> a \<le> hi)"
| "float_in_range lo hi _ = False"

definition round_half_away :: "rat \<Rightarrow> int" where
  "round_half_away r = (if 0 \<le> r then \<lfloor>r + 1 / 2\<rfloor> else \<lceil>r - 1 / 2\<rceil>)"

text \<open>The saturating cast \<open>x as uN\<close> of \<open>(f64::from(x) * 1_000_000.0).round()\<close>.\<close>

fun millionths_as :: "nat \<Rightarrow> float \<Rightarrow> nat" where
  "millionths_as m (Finite r) = min m (nat (round_half_away (r * 1000000)))"
| "millionths_as m (Infinite p) = (if p then m else 0)"
| "millionths_as m NaN = 0"

fun bit_length :: "nat \<Rightarrow> nat" where
  "bit_length n = (if n = 0 then 0 else Suc (bit_length (n div 2)))"

declare bit_length.simps [simp del]

definition round_to_53_bits :: "nat \<Rightarrow> nat" where
  "round_to_53_bits n =
     (let s = bit_length n - 53; q = n div 2 ^ s; r = n mod 2 ^ s in
      if s = 0 then n
      else if 2 * r > 2 ^ s \<or> 2 * r = 2 ^ s \<and> odd q then (q + 1) * 2 ^ s
      else q * 2 ^ s)"

definition i64_to_f64 :: "int \<Rightarrow> float" where
  "i64_to_f64 i =
     Finite (if i < 0 then - of_nat (round_to_53_bits (nat (- i)))
             else of_nat (round_to_53_bits (nat i)))"

lemma f32_scale_exact:
  fixes m e :: int
  assumes "\<bar>m\<bar> < 2 ^ 24" and "x = of_int m * (2::rat) powi e"
  shows "\<exists>m' e'. x * 1000000 = of_int m' * 2 powi e' \<and> \<bar>m'\<bar> < 2 ^ 53"
proof (intro exI conjI)
  have "(1000000::rat) = 15625 * 2 powi 6" by (simp add: power_int_def)
  then show "x * 1000000 = of_int (m * 15625) * 2 powi (e + 6)"
    using assms(2) by (simp add: power_int_add algebra_simps)
  show "\<bar>m * 15625\<bar> < 2 ^ 53" using assms(1) by (simp add: abs_mult)
qed

lemma round_half_away_mono: "0 \<le> a \<Longrightarrow> a \<le> b \<Longrightarrow> round_half_away a \<le> round_half_away b"
  by (simp add: round_half_away_def floor_mono)

lemma round_half_away_of_int [simp]: "round_half_away (of_int i) = i"
  by (simp add: round_half_away_def floor_unique ceiling_unique)

lemma millionths_as_unit:
  assumes "float_in_range 0 1 x"
  shows "millionths_as m x \<le> 1000000"
proof -
  from assms obtain r where r: "x = Finite r" "0 \<le> r" "r \<le> 1" by (cases x) auto
  then have "round_half_away (r * 1000000) \<le> round_half_away (of_int 1000000)"
    by (intro round_half_away_mono) auto
  with r show ?thesis by (simp only: round_half_away_of_int millionths_as.simps)
qed

lemma millionths_as_mono:
  assumes "0 \<le> a" and "a \<le> b"
  shows "millionths_as m (Finite a) \<le> millionths_as m (Finite b)"
  using round_half_away_mono [of "a * 1000000" "b * 1000000"] assms by (simp add: min.coboundedI2 nat_mono min_le_iff_disj)

end
