(* ===== verification/Rust_Collections.thy ===== *)
theory Rust_Collections
  imports Prelude "HOL-Library.List_Lexorder"
begin

section \<open>Orderings, stable sorting and ordered maps\<close>

text \<open>
  The parts of the Rust standard library that the deterministic engines lean on:
  \<open>std::cmp::Ordering\<close> with \<open>then_with\<close> and \<open>reverse\<close>, the stable \<open>slice::sort_by\<close>, the
  adjacent-duplicate scan over \<open>windows(2)\<close>, and \<open>BTreeMap\<close> as a list of bindings in key order.

  The locale \<open>total_comparator\<close> is the contract \<open>sort_by\<close> asks of its comparator.  Its lemmas
  say what a client gets in return: a sorted permutation, and, where the comparator separates
  the elements, a result that does not depend on the order of the input.  The locale
  \<open>ordered_map\<close> is the contract of \<open>BTreeMap\<close>, interpreted on the binding lists below.
\<close>

subsection \<open>Orderings\<close>

datatype ordering = Less | Equal | Greater

fun then_with :: "ordering \<Rightarrow> ordering \<Rightarrow> ordering" where
  "then_with Equal o2 = o2"
| "then_with o1 o2 = o1"

fun reverse_ordering :: "ordering \<Rightarrow> ordering" where
  "reverse_ordering Less = Greater"
| "reverse_ordering Equal = Equal"
| "reverse_ordering Greater = Less"

definition cmp :: "'a::linorder \<Rightarrow> 'a \<Rightarrow> ordering" where
  "cmp x y = (if x < y then Less else if x = y then Equal else Greater)"

definition cmp_on :: "('a \<Rightarrow> 'k::linorder) \<Rightarrow> 'a \<Rightarrow> 'a \<Rightarrow> ordering" where
  "cmp_on f x y = cmp (f x) (f y)"

text \<open>A descending comparison: the source writes \<open>right.k.cmp(&left.k)\<close>.\<close>

definition cmp_desc :: "('a \<Rightarrow> 'k::linorder) \<Rightarrow> 'a \<Rightarrow> 'a \<Rightarrow> ordering" where
  "cmp_desc f x y = cmp (f y) (f x)"

definition cmp_then :: "('a \<Rightarrow> 'a \<Rightarrow> ordering) \<Rightarrow> ('a \<Rightarrow> 'a \<Rightarrow> ordering) \<Rightarrow> 'a \<Rightarrow> 'a \<Rightarrow> ordering" where
  "cmp_then c d x y = then_with (c x y) (d x y)"

lemma then_with_Equal_iff [simp]: "then_with a b = Equal \<longleftrightarrow> a = Equal \<and> b = Equal"
  by (cases a) simp_all

lemma cmp_simps [simp]:
  "cmp x y = Less \<longleftrightarrow> x < y"
  "cmp x y = Equal \<longleftrightarrow> x = y"
  "cmp x y = Greater \<longleftrightarrow> y < x"
  by (auto simp: cmp_def)

subsection \<open>Stable sorting with a comparator\<close>

fun insert_by :: "('a \<Rightarrow> 'a \<Rightarrow> ordering) \<Rightarrow> 'a \<Rightarrow> 'a list \<Rightarrow> 'a list" where
  "insert_by c x [] = [x]"
| "insert_by c x (y # ys) = (if c x y = Greater then y # insert_by c x ys else x # y # ys)"

fun sort_by :: "('a \<Rightarrow> 'a \<Rightarrow> ordering) \<Rightarrow> 'a list \<Rightarrow> 'a list" where
  "sort_by c [] = []"
| "sort_by c (x # xs) = insert_by c x (sort_by c xs)"

lemma mset_insert_by [simp]: "mset (insert_by c x xs) = add_mset x (mset xs)"
  by (induction xs) auto

lemma mset_sort_by [simp]: "mset (sort_by c xs) = mset xs"
  by (induction xs) simp_all

lemma set_sort_by [simp]: "set (sort_by c xs) = set xs"
  by (metis mset_sort_by set_mset_mset)

lemma length_sort_by [simp]: "length (sort_by c xs) = length xs"
  by (metis mset_sort_by size_mset)

lemma distinct_sort_by [simp]: "distinct (sort_by c xs) = distinct xs"
  by (metis mset_sort_by mset_eq_imp_distinct_iff)

lemma distinct_map_sort_by [simp]: "distinct (map f (sort_by c xs)) = distinct (map f xs)"
  by (metis mset_eq_imp_distinct_iff mset_map mset_sort_by)

lemma sort_by_map: "sort_by (\<lambda>x y. c (f x) (f y)) xs = ys \<Longrightarrow> sort_by c (map f xs) = map f ys"
proof (induction xs arbitrary: ys)
  case (Cons x xs)
  have "insert_by c (f x) (map f zs) = map f (insert_by (\<lambda>x y. c (f x) (f y)) x zs)" for zs
    by (induction zs) simp_all
  with Cons show ?case by auto
qed simp

locale total_comparator =
  fixes c :: "'a \<Rightarrow> 'a \<Rightarrow> ordering"
  assumes c_refl: "c x x = Equal"
    and c_sym: "c y x = reverse_ordering (c x y)"
    and c_trans: "c x y \<noteq> Greater \<Longrightarrow> c y z \<noteq> Greater \<Longrightarrow> c x z \<noteq> Greater"
begin

lemma greater_flip: "c x y = Greater \<Longrightarrow> c y x = Less"
  using c_sym [of y x] by simp

lemma total_le: "c x y = Greater \<Longrightarrow> c y x \<noteq> Greater"
  using greater_flip by simp

lemma sorted_insert_by:
  assumes "sorted_wrt (\<lambda>x y. c x y \<noteq> Greater) ys"
  shows "sorted_wrt (\<lambda>x y. c x y \<noteq> Greater) (insert_by c x ys)"
  using assms
proof (induction ys)
  case (Cons y ys)
  have set_eq: "set (insert_by c x ys) = insert x (set ys)"
    using mset_insert_by [of c x ys] by (metis set_mset_add_mset_insert set_mset_mset)
  show ?case
  proof (cases "c x y = Greater")
    case True
    with Cons set_eq total_le show ?thesis by auto
  next
    case False
    with Cons.prems c_trans show ?thesis by auto
  qed
qed simp

lemma sorted_sort_by: "sorted_wrt (\<lambda>x y. c x y \<noteq> Greater) (sort_by c xs)"
  by (induction xs) (simp_all add: sorted_insert_by)

lemma sorted_unique:
  assumes "mset xs = mset ys"
    and "sorted_wrt (\<lambda>x y. c x y \<noteq> Greater) xs" and "sorted_wrt (\<lambda>x y. c x y \<noteq> Greater) ys"
    and "\<And>x y. x \<in> set xs \<Longrightarrow> y \<in> set xs \<Longrightarrow> c x y = Equal \<Longrightarrow> x = y"
  shows "xs = ys"
  using assms
proof (induction xs arbitrary: ys)
  case Nil
  then show ?case by simp
next
  case (Cons x xs)
  from Cons.prems(1) obtain y ys' where ys: "ys = y # ys'" by (cases ys) auto
  have sets: "set (x # xs) = set (y # ys')" using Cons.prems(1) ys mset_eq_setD by metis
  have eq: "x = y"
  proof (cases "c x y = Greater")
    case True
    have "x \<in> set (y # ys')" using sets by auto
    moreover have "x \<noteq> y" using True c_refl by auto
    ultimately have "c y x \<noteq> Greater" and "y \<in> set (x # xs)" using Cons.prems(3) ys sets by auto
    then have "c x y \<noteq> Greater" using Cons.prems(2) \<open>x \<noteq> y\<close> by auto
    with True show ?thesis by simp
  next
    case False
    have "y \<in> set (x # xs)" using sets by auto
    have "x \<in> set (y # ys')" using sets by auto
    then have "x = y \<or> c y x \<noteq> Greater" using Cons.prems(3) ys by auto
    with False have "x = y \<or> c x y = Equal" using c_sym [of y x] by (cases "c x y") auto
    with Cons.prems(4) \<open>y \<in> set (x # xs)\<close> show ?thesis by auto
  qed
  with Cons.prems ys have "xs = ys'" by (intro Cons.IH) auto
  with eq ys show ?case by simp
qed

lemma sort_by_perm:
  assumes "mset xs = mset ys"
    and "\<And>x y. x \<in> set xs \<Longrightarrow> y \<in> set xs \<Longrightarrow> c x y = Equal \<Longrightarrow> x = y"
  shows "sort_by c xs = sort_by c ys"
  using assms by (intro sorted_unique) (simp_all add: sorted_sort_by)

lemma sort_by_sorted:
  assumes "sorted_wrt (\<lambda>x y. c x y \<noteq> Greater) xs"
  shows "sort_by c xs = xs"
  using assms
proof (induction xs)
  case (Cons x xs)
  then have "sort_by c xs = xs" by simp
  with Cons.prems show ?case by (cases xs) simp_all
qed simp

end

lemma total_comparator_cmp_on: "total_comparator (cmp_on f)"
  by unfold_locales (auto simp: cmp_on_def cmp_def split: if_splits)

lemma total_comparator_cmp_desc: "total_comparator (cmp_desc f)"
  by unfold_locales (auto simp: cmp_desc_def cmp_def split: if_splits)

lemma total_comparator_then:
  assumes "total_comparator c" and "total_comparator d"
  shows "total_comparator (cmp_then c d)"
proof
  fix x y z
  show "cmp_then c d x x = Equal"
    using assms by (simp add: cmp_then_def total_comparator.c_refl)
  show "cmp_then c d y x = reverse_ordering (cmp_then c d x y)"
    using total_comparator.c_sym [OF assms(1), of y x] total_comparator.c_sym [OF assms(2), of y x]
    by (cases "c x y") (simp_all add: cmp_then_def)
  assume xy: "cmp_then c d x y \<noteq> Greater" and yz: "cmp_then c d y z \<noteq> Greater"
  note syms = total_comparator.c_sym [OF assms(1)]
  have "c x y \<noteq> Greater" and "c y z \<noteq> Greater"
    using xy yz by (auto simp: cmp_then_def)
  then have xz: "c x z \<noteq> Greater" by (rule total_comparator.c_trans [OF assms(1)])
  show "cmp_then c d x z \<noteq> Greater"
  proof (cases "c x z")
    case Equal
    then have zx: "c z x \<noteq> Greater" using syms [of z x] by simp
    have "c y x \<noteq> Greater"
      using total_comparator.c_trans [OF assms(1) \<open>c y z \<noteq> Greater\<close> zx] .
    then have "c x y = Equal" using \<open>c x y \<noteq> Greater\<close> syms [of y x] by (cases "c x y") auto
    have "c z y \<noteq> Greater"
      using total_comparator.c_trans [OF assms(1) zx \<open>c x y \<noteq> Greater\<close>] .
    then have "c y z = Equal" using \<open>c y z \<noteq> Greater\<close> syms [of z y] by (cases "c y z") auto
    with \<open>c x y = Equal\<close> Equal xy yz total_comparator.c_trans [OF assms(2)] show ?thesis
      by (simp add: cmp_then_def)
  qed (use xz in \<open>auto simp: cmp_then_def\<close>)
qed

lemmas total_comparator_intros =
  total_comparator_cmp_on total_comparator_cmp_desc total_comparator_then

interpretation by_key: total_comparator "cmp_on f" for f
  by (rule total_comparator_cmp_on)

lemma sorted_map_sort_by: "sorted (map f (sort_by (cmp_on f) xs))"
  using by_key.sorted_sort_by [of f xs]
  by (simp add: cmp_on_def sorted_wrt_map not_less)

lemma sorted_sort_by_cmp: "sorted (sort_by cmp (xs :: 'a::linorder list))"
  using sorted_map_sort_by [of id xs] by (simp add: cmp_on_def [abs_def])

subsection \<open>Adjacent duplicates\<close>

text \<open>\<open>xs.windows(2).find(|pair| pair[0] == pair[1]).map(|pair| pair[0])\<close>.\<close>

fun adjacent_dup :: "'a list \<Rightarrow> 'a option" where
  "adjacent_dup (x # y # xs) = (if x = y then Some x else adjacent_dup (y # xs))"
| "adjacent_dup xs = None"

lemma adjacent_dup_None_sorted:
  "sorted xs \<Longrightarrow> adjacent_dup xs = None \<longleftrightarrow> distinct (xs :: 'a::linorder list)"
proof (induction xs rule: adjacent_dup.induct)
  case (1 x y xs)
  then show ?case by (auto simp: less_le)
qed simp_all

lemma adjacent_dup_sort_distinct:
  "adjacent_dup (sort_by cmp xs) = None \<longleftrightarrow> distinct (xs :: 'a::linorder list)"
  using adjacent_dup_None_sorted [OF sorted_sort_by_cmp, of xs] by simp

lemma adjacent_dup_SomeD: "adjacent_dup xs = Some x \<Longrightarrow> x \<in> set xs"
  by (induction xs rule: adjacent_dup.induct) (auto split: if_splits)

subsection \<open>Ordered maps\<close>

type_synonym ('k, 'v) btree_map = "('k \<times> 'v) list"

fun bt_insert :: "'k::linorder \<Rightarrow> 'v \<Rightarrow> ('k, 'v) btree_map \<Rightarrow> ('k, 'v) btree_map" where
  "bt_insert k v [] = [(k, v)]"
| "bt_insert k v ((k', v') # m) =
     (if k < k' then (k, v) # (k', v') # m
      else if k = k' then (k, v) # m
      else (k', v') # bt_insert k v m)"

abbreviation bt_get :: "('k, 'v) btree_map \<Rightarrow> 'k \<Rightarrow> 'v option" where
  "bt_get m k \<equiv> map_of m k"

text \<open>\<open>if let Some(v) = m.get_mut(k) { *v = f(*v) }\<close>.\<close>

fun bt_modify :: "'k \<Rightarrow> ('v \<Rightarrow> 'v) \<Rightarrow> ('k, 'v) btree_map \<Rightarrow> ('k, 'v) btree_map" where
  "bt_modify k f [] = []"
| "bt_modify k f ((k', v') # m) = (if k = k' then (k', f v') # m else (k', v') # bt_modify k f m)"

definition bt_collect :: "('k::linorder \<times> 'v) list \<Rightarrow> ('k, 'v) btree_map" where
  "bt_collect kvs = fold (\<lambda>(k, v) m. bt_insert k v m) kvs []"

definition bt_inv :: "('k::linorder, 'v) btree_map \<Rightarrow> bool" where
  "bt_inv m \<longleftrightarrow> sorted_wrt (<) (map fst m)"

lemma bt_get_insert: "bt_get (bt_insert k v m) = (bt_get m)(k \<mapsto> v)" if "bt_inv m"
  using that
proof (induction m)
  case (Cons kv m)
  obtain k' v' where kv: "kv = (k', v')" by (cases kv)
  have "map_of m k' = None" if "k < k'" for k :: 'a
    using Cons.prems kv by (auto simp: bt_inv_def map_of_eq_None_iff)
  with Cons kv show ?case by (auto simp: bt_inv_def fun_eq_iff)
qed (auto simp: fun_eq_iff)

lemma set_fst_bt_insert [simp]: "fst ` set (bt_insert k v m) = insert k (fst ` set m)"
  by (induction k v m rule: bt_insert.induct) (simp_all add: insert_commute)

lemma bt_inv_insert: "bt_inv m \<Longrightarrow> bt_inv (bt_insert k v m)"
proof (induction m)
  case (Cons kv m)
  obtain k' v' where kv: "kv = (k', v')" by (cases kv)
  have keys: "\<forall>x \<in> fst ` set m. k' < x" and inv: "bt_inv m"
    using Cons.prems kv by (auto simp: bt_inv_def)
  with Cons.IH have rest: "bt_inv (bt_insert k v m)" by simp
  have "\<forall>x \<in> fst ` set (bt_insert k v m). k' < x" if "k' < k" using keys that by simp
  then have "\<forall>x \<in> set (map fst (bt_insert k v m)). k' < x" if "k' < k" using that by simp
  with rest keys inv Cons.prems kv show ?case
    by (auto simp: bt_inv_def not_less less_le)
qed (simp add: bt_inv_def)

lemma keys_bt_modify [simp]: "map fst (bt_modify k f m) = map fst m"
  by (induction m) auto

lemma bt_inv_modify [simp]: "bt_inv (bt_modify k f m) = bt_inv m"
  by (simp add: bt_inv_def)

lemma bt_get_modify:
  "bt_get (bt_modify k f m) k' = (if k' = k then map_option f (bt_get m k) else bt_get m k')"
  by (induction m) auto

locale ordered_map =
  fixes empty :: "'m" and insert :: "'k::linorder \<Rightarrow> 'v \<Rightarrow> 'm \<Rightarrow> 'm"
    and modify :: "'k \<Rightarrow> ('v \<Rightarrow> 'v) \<Rightarrow> 'm \<Rightarrow> 'm"
    and get :: "'m \<Rightarrow> 'k \<Rightarrow> 'v option" and bindings :: "'m \<Rightarrow> ('k \<times> 'v) list"
    and inv :: "'m \<Rightarrow> bool"
  assumes inv_empty: "inv empty" and get_empty: "get empty k = None"
    and inv_insert: "inv m \<Longrightarrow> inv (insert k v m)"
    and get_insert: "inv m \<Longrightarrow> get (insert k v m) k' = (if k' = k then Some v else get m k')"
    and inv_modify: "inv m \<Longrightarrow> inv (modify k f m)"
    and get_modify: "inv m \<Longrightarrow>
      get (modify k f m) k' = (if k' = k then map_option f (get m k) else get m k')"
    and bindings_sorted: "inv m \<Longrightarrow> sorted_wrt (<) (map fst (bindings m))"
    and bindings_get: "inv m \<Longrightarrow> get m k = Some v \<longleftrightarrow> (k, v) \<in> set (bindings m)"
begin

lemma inv_fold_insert: "inv m \<Longrightarrow> inv (fold (\<lambda>(k, v). insert k v) kvs m)"
  by (induction kvs arbitrary: m) (auto simp: inv_insert)

lemma get_fold_insert:
  "inv m \<Longrightarrow> get (fold (\<lambda>(k, v). insert k v) kvs m) k =
     (case map_of (rev kvs) k of None \<Rightarrow> get m k | Some v \<Rightarrow> Some v)"
  by (induction kvs arbitrary: m) (auto simp: inv_insert get_insert split: option.splits)

lemma keys_distinct: "inv m \<Longrightarrow> distinct (map fst (bindings m))"
  using bindings_sorted strict_sorted_iff by blast

lemma bindings_ext:
  assumes "inv m" and "inv m'" and "\<And>k. get m k = get m' k"
  shows "bindings m = bindings m'"
proof (rule map_sorted_distinct_set_unique [where f = fst])
  show "set (bindings m) = set (bindings m')"
    using assms by (auto simp: bindings_get [symmetric])
  from assms show "inj_on fst (set (bindings m) \<union> set (bindings m'))"
    using keys_distinct \<open>set (bindings m) = set (bindings m')\<close> by (auto simp: distinct_map)
  show "sorted (map fst (bindings m))" "sorted (map fst (bindings m'))"
    using assms bindings_sorted strict_sorted_imp_sorted by blast+
  show "distinct (map fst (bindings m))" "distinct (map fst (bindings m'))"
    using assms keys_distinct by blast+
qed

end

interpretation btree: ordered_map "[]" bt_insert bt_modify map_of "\<lambda>m. m" bt_inv
proof
  show "bt_inv []" by (simp add: bt_inv_def)
  fix m :: "('k::linorder \<times> 'v) list" and k k' :: 'k and v f
  show "bt_get ([] :: ('k, 'v) btree_map) k = None" by simp
  assume inv: "bt_inv m"
  then show "bt_inv (bt_insert k v m)" by (rule bt_inv_insert)
  show "bt_get (bt_insert k v m) k' = (if k' = k then Some v else bt_get m k')"
    by (simp add: bt_get_insert [OF inv])
  show "bt_inv (bt_modify k f m)" using inv by simp
  show "bt_get (bt_modify k f m) k' = (if k' = k then map_option f (bt_get m k) else bt_get m k')"
    by (rule bt_get_modify)
  show "sorted_wrt (<) (map fst m)" using inv by (simp add: bt_inv_def)
  then show "bt_get m k = Some v \<longleftrightarrow> (k, v) \<in> set m"
    using strict_sorted_iff map_of_is_SomeI map_of_SomeD by metis
qed

lemma bt_inv_collect: "bt_inv (bt_collect kvs)"
  unfolding bt_collect_def by (rule btree.inv_fold_insert [OF btree.inv_empty])

lemma bt_get_collect: "bt_get (bt_collect kvs) k = map_of (rev kvs) k"
  unfolding bt_collect_def
  by (simp add: btree.get_fold_insert [OF btree.inv_empty] split: option.splits)

lemma keys_bt_collect: "set (map fst (bt_collect kvs)) = fst ` set kvs"
proof -
  have "fst ` set (fold (\<lambda>(k, v) m. bt_insert k v m) kvs m) = fst ` set m \<union> fst ` set kvs" for m
    by (induction kvs arbitrary: m) (simp_all add: case_prod_unfold)
  then show ?thesis by (simp add: bt_collect_def)
qed

text \<open>
  A map that is built with one binding per element and then only modified in place keeps the
  shape of a table over those elements.
\<close>

lemma map_of_rev_distinct:
  assumes "distinct (map fst kvs)"
  shows "map_of (rev kvs) k = map_of kvs k"
proof -
  have "distinct (map fst (rev kvs))" using assms by (simp add: rev_map [symmetric])
  then have "map_of (rev kvs) k = Some v \<longleftrightarrow> map_of kvs k = Some v" for v
    using assms map_of_eq_Some_iff [of "rev kvs"] map_of_eq_Some_iff [of kvs] by simp
  then show ?thesis by (metis option.exhaust)
qed

lemma bt_collect_table:
  assumes "sorted_wrt (<) (map g rs)"
  shows "bt_collect (map (\<lambda>r. (g r, e r)) rs) = map (\<lambda>r. (g r, e r)) rs"
proof (rule btree.bindings_ext [OF bt_inv_collect])
  show inv: "bt_inv (map (\<lambda>r. (g r, e r)) rs)" using assms by (simp add: bt_inv_def comp_def)
  then have "distinct (map fst (map (\<lambda>r. (g r, e r)) rs))" by (rule btree.keys_distinct)
  then show "bt_get (bt_collect (map (\<lambda>r. (g r, e r)) rs)) k = bt_get (map (\<lambda>r. (g r, e r)) rs) k" for k
    unfolding bt_get_collect by (intro map_of_rev_distinct)
qed

lemma bt_modify_const: "bt_get m k = Some v \<Longrightarrow> bt_modify k (\<lambda>_. f v) m = bt_modify k f m"
  by (induction m) auto

lemma bt_modify_same: "bt_get m k = Some v \<Longrightarrow> bt_modify k (\<lambda>_. v) m = m"
  by (induction m) auto

lemma table_of_keys:
  assumes "distinct (map fst m)"
  shows "m = map (\<lambda>k. (k, the (map_of m k))) (map fst m)"
proof -
  have "map_of m (fst kv) = Some (snd kv)" if "kv \<in> set m" for kv
    using map_of_is_SomeI [OF assms, of "fst kv" "snd kv"] that by simp
  then show ?thesis by (simp add: map_idI)
qed

lemma bt_modify_table:
  assumes "distinct (map g rs)"
  shows "bt_modify k f (map (\<lambda>r. (g r, e r)) rs) =
    map (\<lambda>r. (g r, if g r = k then f (e r) else e r)) rs"
  using assms by (induction rs) (auto simp: image_iff)

lemma fold_bt_modify_table:
  assumes "distinct (map g rs)" and "distinct (map key xs)"
  shows "fold (\<lambda>x. bt_modify (key x) (f x)) xs (map (\<lambda>r. (g r, e r)) rs) =
    map (\<lambda>r. (g r, case find (\<lambda>x. key x = g r) xs of None \<Rightarrow> e r | Some x \<Rightarrow> f x (e r))) rs"
  using assms(2)
proof (induction xs arbitrary: e)
  case (Cons x xs)
  have "find (\<lambda>x'. key x' = g r) xs = None" if "g r = key x" for r
    using Cons.prems that by (auto simp: find_None_iff image_iff)
  with Cons show ?case by (auto simp: bt_modify_table [OF assms(1)])
qed simp

lemma bt_get_table:
  assumes "distinct (map g rs)" and "r \<in> set rs"
  shows "bt_get (map (\<lambda>r. (g r, e r)) rs) (g r) = Some (e r)"
  using assms by (induction rs) (auto simp: image_iff)

lemma length_bt_insert: "bt_get m k = None \<Longrightarrow> length (bt_insert k v m) = Suc (length m)"
  by (induction k v m rule: bt_insert.induct) (auto split: if_splits)

lemma find_map_distinct:
  assumes "distinct (map key xs)"
  shows "find (\<lambda>x. key x = k) xs = Some x \<longleftrightarrow> x \<in> set xs \<and> key x = k"
  using assms by (induction xs) auto

subsection \<open>Positions\<close>

text \<open>\<open>Iterator::position\<close>.\<close>

fun position :: "('a \<Rightarrow> bool) \<Rightarrow> 'a list \<Rightarrow> nat option" where
  "position p [] = None"
| "position p (x # xs) = (if p x then Some 0 else map_option Suc (position p xs))"

lemma position_SomeD: "position p xs = Some i \<Longrightarrow> i < length xs \<and> p (xs ! i) \<and> (\<forall>j < i. \<not> p (xs ! j))"
proof (induction xs arbitrary: i)
  case (Cons x xs)
  show ?case
  proof (cases "p x")
    case False
    with Cons.prems obtain k where k: "position p xs = Some k" "i = Suc k" by auto
    with Cons.IH [OF k(1)] False show ?thesis by (auto simp: less_Suc_eq_0_disj)
  qed (use Cons.prems in simp)
qed simp

lemma position_None: "position p xs = None \<longleftrightarrow> (\<forall>x \<in> set xs. \<not> p x)"
  by (induction xs) simp_all

end
