(* ===== verification/Domain_Types.thy ===== *)
theory Domain_Types
  imports Rust_Text Rust_Float Rust_Collections "HOL-Library.Option_ord"
begin

section \<open>The data model of \<open>crates/domain\<close>\<close>

text \<open>
  The types that the orchestration engines exchange (\<open>crates/domain/src/orchestration.rs\<close>), with
  the source's constructors and fields.  An identifier newtype is the string it wraps; a
  \<open>DateTime<Utc>\<close> is the integer instant it denotes, since it is only ever compared.  Record
  fields carry a prefix for their struct, because Isabelle field names are global.

  The file also holds the two operations of \<open>VariableMap\<close> and their laws.
\<close>

type_synonym date_time = int

subsection \<open>Provenance, variables and conditions\<close>

datatype source_kind =
  ApplicationBuiltIn | UserCreated | ImportedStandard | ImportedPackage | Generated

record provenance =
  pv_source_kind :: source_kind
  pv_source_id :: "str option"
  pv_source_hash :: "str option"
  pv_author :: "str option"
  pv_license :: "str option"
  pv_imported_at :: "date_time option"

datatype variable_value =
    VBool bool
  | VInteger int
  | VDecimal float
  | VText str
  | VEnum str
  | VStringList "str list"

text \<open>\<open>VariableValue: PartialEq\<close>, which compares decimals as floats.\<close>

fun variable_value_eq :: "variable_value \<Rightarrow> variable_value \<Rightarrow> bool" where
  "variable_value_eq (VDecimal a) (VDecimal b) = float_eq a b"
| "variable_value_eq a b = (a = b)"

datatype variable_scope =
    Scope_App | Scope_User | Scope_Persona | Scope_Character | Scope_Conversation
  | Scope_Branch | Scope_Session | Scope_Turn | Scope_Module

fun variable_scope_index :: "variable_scope \<Rightarrow> nat" where
  "variable_scope_index Scope_App = 0"
| "variable_scope_index Scope_User = 1"
| "variable_scope_index Scope_Persona = 2"
| "variable_scope_index Scope_Character = 3"
| "variable_scope_index Scope_Conversation = 4"
| "variable_scope_index Scope_Branch = 5"
| "variable_scope_index Scope_Session = 6"
| "variable_scope_index Scope_Turn = 7"
| "variable_scope_index Scope_Module = 8"

lemma variable_scope_index_inj: "variable_scope_index a = variable_scope_index b \<Longrightarrow> a = b"
  by (cases a; cases b) simp_all

instantiation variable_scope :: linorder
begin

definition less_eq_variable_scope :: "variable_scope \<Rightarrow> variable_scope \<Rightarrow> bool" where
  "less_eq_variable_scope a b \<longleftrightarrow> variable_scope_index a \<le> variable_scope_index b"

definition less_variable_scope :: "variable_scope \<Rightarrow> variable_scope \<Rightarrow> bool" where
  "less_variable_scope a b \<longleftrightarrow> variable_scope_index a < variable_scope_index b"

instance
  by standard
    (auto simp: less_eq_variable_scope_def less_variable_scope_def intro: variable_scope_index_inj)

end

record variable_ref =
  vr_scope :: variable_scope
  vr_namespace :: "str option"
  vr_id :: str

text \<open>The derived \<open>Ord\<close> of \<open>VariableRef\<close>: field by field, \<open>None\<close> before \<open>Some\<close>.\<close>

definition cmp_variable_ref :: "variable_ref \<Rightarrow> variable_ref \<Rightarrow> ordering" where
  "cmp_variable_ref =
     cmp_then (cmp_on vr_scope) (cmp_then (cmp_on vr_namespace) (cmp_on vr_id))"

record variable_binding =
  vb_variable :: variable_ref
  vb_value :: variable_value

type_synonym variable_map = "variable_binding list"

text \<open>\<open>VariableMap::get\<close>: the first binding of the variable.\<close>

fun variable_map_get :: "variable_map \<Rightarrow> variable_ref \<Rightarrow> variable_value option" where
  "variable_map_get [] key = None"
| "variable_map_get (b # bs) key =
     (if vb_variable b = key then Some (vb_value b) else variable_map_get bs key)"

text \<open>\<open>VariableMap::insert\<close>: replace the first binding in place, or append and re-sort.\<close>

fun replace_binding :: "variable_ref \<Rightarrow> variable_value \<Rightarrow> variable_map \<Rightarrow> variable_map" where
  "replace_binding key v [] = []"
| "replace_binding key v (b # bs) =
     (if vb_variable b = key then b\<lparr>vb_value := v\<rparr> # bs else b # replace_binding key v bs)"

definition variable_map_insert :: "variable_ref \<Rightarrow> variable_value \<Rightarrow> variable_map \<Rightarrow> variable_map" where
  "variable_map_insert key v m =
     (if key \<in> vb_variable ` set m then replace_binding key v m
      else sort_by (\<lambda>l r. cmp_variable_ref (vb_variable l) (vb_variable r))
             (m @ [\<lparr>vb_variable = key, vb_value = v\<rparr>]))"

datatype capability_key =
    Streaming | Reasoning | PromptCaching | ToolCalling | ParallelToolCalling
  | StructuredOutput | JsonMode | ImageInput | AudioInput | AudioOutput | Logprobs
  | Cap_Seed | Cap_Batch | Cap_Background | ContextWindow | MaxOutputTokens

datatype condition_expr =
    Cond_True
  | Cond_False
  | Cond_Equals variable_ref variable_value
  | Cond_NotEquals variable_ref variable_value
  | Cond_GreaterThan variable_ref float
  | Cond_Contains variable_ref str
  | Cond_Exists variable_ref
  | Cond_ModelSupports capability_key
  | Cond_All "condition_expr list"
  | Cond_Any "condition_expr list"
  | Cond_Not condition_expr

subsection \<open>Templates and regular expressions\<close>

datatype built_in_template_value =
  CharacterName | UserName | PersonaName | PersonaDescription | CurrentDate | CurrentTime

datatype safe_template =
    SafeTemplate (tpl_parts: "template_part list") (tpl_max_output_chars: nat)
and template_part =
    Part_Text str
  | Part_Variable variable_ref
  | Part_BuiltIn built_in_template_value
  | Part_Slot str
  | Part_Join variable_ref str
  | Part_Conditional condition_expr safe_template "safe_template option"

record safe_regex =
  rx_pattern :: str
  rx_case_insensitive :: bool

subsection \<open>Budgets, tasks and memory\<close>

record token_policy =
  tp_priority :: nat
  tp_min_tokens :: "nat option"
  tp_max_tokens :: "nat option"
  tp_reserve_tokens :: "nat option"

datatype auxiliary_task_kind =
    Task_MemorySummary | Task_MemoryEmbedding | Task_Translation | Task_EmotionClassification
  | Task_StateExtraction | Task_ImagePrompt | Task_TitleGeneration

record rate_limit =
  rl_requests :: nat
  rl_per_seconds :: nat

record task_profile =
  task_id :: str
  task_kind :: auxiliary_task_kind
  task_route_id :: str
  task_generation_preset_id :: str
  task_fallback_route_ids :: "str list"
  task_embedding_dimensions :: "nat option"
  task_timeout_ms :: nat
  task_rate_limit :: rate_limit
  task_concurrency_limit :: nat

record token_budget =
  max_tokens :: nat

datatype memory_kind =
    EpisodicEvent | CharacterFact | RelationshipChange | UserPreference | WorldState
  | UnresolvedThread | ConversationSummary | CreatorPinned

text \<open>\<open>serde_json::Value\<close>, with the text of a number as the source received it.\<close>

datatype json =
    Json_Null
  | Json_Bool bool
  | Json_Number str
  | Json_String str
  | Json_Array "json list"
  | Json_Object "(str \<times> json) list"

record versioned_json =
  vj_schema_version :: nat
  vj_value :: json

record memory_record =
  mr_id :: str
  mr_conversation_id :: str
  mr_branch_id :: str
  mr_source_start_message_id :: str
  mr_source_end_message_id :: str
  mr_kind :: memory_kind
  mr_title :: str
  mr_summary :: str
  mr_structured_data :: versioned_json
  mr_importance :: nat
  mr_keywords :: "str list"
  mr_embedding_ref :: "str option"
  mr_pinned :: bool
  mr_excluded_from_conversation :: bool
  mr_excluded_from_character :: bool
  mr_created_at :: date_time
  mr_updated_at :: date_time
  mr_invalidated_at :: "date_time option"
  mr_provenance :: provenance

record memory_profile =
  mp_id :: str
  mp_name :: str
  mp_schema_version :: nat
  mp_summary_task :: str
  mp_embedding_task :: "str option"
  mp_turns_per_summary :: nat
  mp_recent_raw_budget :: token_budget
  mp_episodic_budget :: token_budget
  mp_semantic_budget :: token_budget
  mp_retrieval_count :: nat
  mp_recency_weight :: float
  mp_similarity_weight :: float
  mp_importance_weight :: float
  mp_preserve_invalidated_records :: bool
  mp_summary_schema :: str
  mp_summary_template :: "safe_template option"
  mp_provenance :: provenance

datatype memory_job_kind = Job_Summary | Job_Embedding | Job_InvalidateRange

datatype memory_job_status =
  Job_Queued | Job_Running | Job_Interrupted | Job_Succeeded | Job_Failed | Job_Cancelled

record memory_job =
  mj_id :: str
  mj_idempotency_key :: str
  mj_kind :: memory_job_kind
  mj_conversation_id :: str
  mj_branch_id :: str
  mj_source_start_message_id :: str
  mj_source_end_message_id :: str
  mj_status :: memory_job_status
  mj_attempt :: nat
  mj_created_at :: date_time
  mj_updated_at :: date_time
  mj_error_code :: "str option"

subsection \<open>Knowledge\<close>

datatype knowledge_placement =
  RetrievedContext | BeforeOlderHistory | BeforeRecentHistory | PostHistory

datatype activation_rule =
    Rule_Always
  | Rule_Manual
  | Rule_Keyword (kw_primary: "str list") (kw_secondary: "str list") (kw_selective: bool)
      (kw_case_sensitive: bool) (kw_whole_word: bool)
  | Rule_Regex "safe_regex list"
  | Rule_Semantic float nat
  | Rule_Condition condition_expr
  | Rule_Any "activation_rule list"
  | Rule_All "activation_rule list"

record knowledge_entry =
  ke_id :: str
  ke_book_id :: str
  ke_name :: str
  ke_content :: str
  ke_enabled :: bool
  ke_activation :: activation_rule
  ke_priority :: int
  ke_importance :: nat
  ke_placement :: knowledge_placement
  ke_token_policy :: token_policy
  ke_parent_id :: "str option"
  ke_activation_probability_basis_points :: nat
  ke_provenance :: provenance

record knowledge_book =
  kb_id :: str
  kb_name :: str
  kb_schema_version :: nat
  kb_entries :: "knowledge_entry list"
  kb_scan_depth :: nat
  kb_token_budget :: token_budget
  kb_recursive :: bool
  kb_max_recursion_depth :: nat
  kb_provenance :: provenance

record semantic_knowledge_score =
  sks_entry_id :: str
  sks_score :: float

datatype knowledge_activation_reason =
    Reason_Always
  | Reason_Manual
  | Reason_Keyword str
  | Reason_Regex str
  | Reason_Semantic nat
  | Reason_Condition
  | Reason_Recursive str

record knowledge_selection_evidence =
  kse_entry_id :: str
  kse_selected :: bool
  kse_reasons :: "knowledge_activation_reason list"
  kse_estimated_tokens :: nat
  kse_exclusion_reason :: "str option"

subsection \<open>Laws of the variable map\<close>

lemma total_comparator_variable_ref:
  "total_comparator (\<lambda>l r. cmp_variable_ref (vb_variable l) (vb_variable r))"
proof -
  have "total_comparator (cmp_then (cmp_on (vr_scope \<circ> vb_variable))
      (cmp_then (cmp_on (vr_namespace \<circ> vb_variable)) (cmp_on (vr_id \<circ> vb_variable))))"
    by (intro total_comparator_intros)
  then show ?thesis
    by (simp add: cmp_variable_ref_def cmp_then_def [abs_def] cmp_on_def [abs_def] comp_def)
qed

interpretation variable_order: total_comparator
  "\<lambda>l r. cmp_variable_ref (vb_variable l) (vb_variable r)"
  by (rule total_comparator_variable_ref)

lemma cmp_variable_ref_Equal [simp]: "cmp_variable_ref a b = Equal \<longleftrightarrow> a = b"
  by (auto simp: cmp_variable_ref_def cmp_then_def cmp_on_def intro: variable_ref.equality)

lemma variable_map_get_None_iff: "variable_map_get m key = None \<longleftrightarrow> key \<notin> vb_variable ` set m"
  by (induction m) auto

lemma variable_map_get_distinct:
  assumes "distinct (map vb_variable m)"
  shows "variable_map_get m key = Some v \<longleftrightarrow> (\<exists>b \<in> set m. vb_variable b = key \<and> vb_value b = v)"
  using assms
proof (induction m)
  case (Cons b m)
  then show ?case by (auto simp: image_iff)
qed simp

lemma replace_binding_keys [simp]: "map vb_variable (replace_binding key v m) = map vb_variable m"
  by (induction m) auto

lemma replace_binding_get:
  "key \<in> vb_variable ` set m \<Longrightarrow>
     variable_map_get (replace_binding key v m) k = (if k = key then Some v else variable_map_get m k)"
  by (induction m) auto

lemma variable_map_insert_distinct:
  assumes "distinct (map vb_variable m)"
  shows "distinct (map vb_variable (variable_map_insert key v m))"
proof (cases "key \<in> vb_variable ` set m")
  case True
  with assms show ?thesis by (simp add: variable_map_insert_def)
next
  case False
  let ?m = "m @ [\<lparr>vb_variable = key, vb_value = v\<rparr>]"
  have "mset (map vb_variable (sort_by (\<lambda>l r. cmp_variable_ref (vb_variable l) (vb_variable r)) ?m))
      = mset (map vb_variable ?m)"
    by (metis mset_map mset_sort_by)
  moreover have "distinct (map vb_variable ?m)" using assms False by auto
  ultimately show ?thesis
    using False by (metis variable_map_insert_def mset_eq_imp_distinct_iff)
qed

lemma variable_map_get_perm:
  assumes "mset m = mset m'" and "distinct (map vb_variable m)"
  shows "variable_map_get m k = variable_map_get m' k"
proof -
  have "distinct (map vb_variable m')" and "set m = set m'"
    using assms by (metis mset_map mset_eq_imp_distinct_iff, metis mset_eq_setD)
  then have "variable_map_get m k = Some v \<longleftrightarrow> variable_map_get m' k = Some v" for v
    using assms(2) by (simp add: variable_map_get_distinct)
  then show ?thesis by (metis option.exhaust)
qed

text \<open>
  \<open>VariableMap\<close> obeys the map laws as long as its keys are distinct, which every insertion
  keeps: an insertion is seen by the next lookup of that variable and by no other.
\<close>

lemma variable_map_get_insert:
  assumes "distinct (map vb_variable m)"
  shows "variable_map_get (variable_map_insert key v m) k =
    (if k = key then Some v else variable_map_get m k)"
proof (cases "key \<in> vb_variable ` set m")
  case True
  then show ?thesis by (simp add: variable_map_insert_def replace_binding_get)
next
  case False
  let ?m = "m @ [\<lparr>vb_variable = key, vb_value = v\<rparr>]"
  have app: "variable_map_get ?m k = (if k = key then Some v else variable_map_get m k)"
    using False by (induction m) auto
  have "distinct (map vb_variable ?m)" using assms False by auto
  then have "variable_map_get (variable_map_insert key v m) k = variable_map_get ?m k"
    using False variable_map_get_perm [of ?m "variable_map_insert key v m"]
    by (simp add: variable_map_insert_def)
  with app show ?thesis by simp
qed

end
