(* ===== verification/Domain_Validation.thy ===== *)
theory Domain_Validation
  imports Domain_Types
begin

section \<open>Validation of persisted data\<close>

text \<open>
  The validators of \<open>crates/domain/src/orchestration.rs\<close> and
  \<open>crates/domain/src/orchestration/compatibility_validation.rs\<close>.  A validator returns the first
  contract violation, with a path to the field and a reason.

  The parameter \<open>hex_ok\<close> is \<open>hex::decode(value).is_ok()\<close> of the \<open>hex\<close> crate.
\<close>

subsection \<open>Limits\<close>

definition MAX_TEMPLATE_NODES :: nat where "MAX_TEMPLATE_NODES = 1024"
definition MAX_TEMPLATE_DEPTH :: nat where "MAX_TEMPLATE_DEPTH = 16"
definition MAX_CONDITION_NODES :: nat where "MAX_CONDITION_NODES = 512"
definition MAX_CONDITION_DEPTH :: nat where "MAX_CONDITION_DEPTH = 16"
definition MAX_TEMPLATE_OUTPUT_CHARS :: nat where "MAX_TEMPLATE_OUTPUT_CHARS = 262144"
definition MAX_BLOCK_TEXT_CHARS :: nat where "MAX_BLOCK_TEXT_CHARS = 262144"
definition DOMAIN_MAX_KNOWLEDGE_ENTRIES :: nat where "DOMAIN_MAX_KNOWLEDGE_ENTRIES = 4096"
definition MAX_SAFE_REGEX_CHARS :: nat where "MAX_SAFE_REGEX_CHARS = 4096"
definition MAX_IDENTIFIER_CHARS :: nat where "MAX_IDENTIFIER_CHARS = 256"
definition MAX_NAME_CHARS :: nat where "MAX_NAME_CHARS = 512"
definition MAX_VARIABLES :: nat where "MAX_VARIABLES = 512"
definition MAX_VARIABLE_TEXT_CHARS :: nat where "MAX_VARIABLE_TEXT_CHARS = 16384"
definition MAX_KNOWLEDGE_ENTRY_TEXT_CHARS :: nat where "MAX_KNOWLEDGE_ENTRY_TEXT_CHARS = 65536"
definition MAX_VARIABLE_LIST_ITEMS :: nat where "MAX_VARIABLE_LIST_ITEMS = 256"

definition UNSUPPORTED_SAFE_REGEX_SYNTAX :: "str list" where
  "UNSUPPORTED_SAFE_REGEX_SYNTAX =
     [lit ''(?='', lit ''(?!'', lit ''(?<='', lit ''(?<!'', [92, 49], [92, 50], [92, 107]]"

lemmas limit_defs =
  MAX_TEMPLATE_NODES_def MAX_TEMPLATE_DEPTH_def MAX_CONDITION_NODES_def MAX_CONDITION_DEPTH_def
  MAX_TEMPLATE_OUTPUT_CHARS_def MAX_BLOCK_TEXT_CHARS_def DOMAIN_MAX_KNOWLEDGE_ENTRIES_def
  MAX_SAFE_REGEX_CHARS_def MAX_IDENTIFIER_CHARS_def MAX_NAME_CHARS_def MAX_VARIABLES_def
  MAX_VARIABLE_TEXT_CHARS_def MAX_KNOWLEDGE_ENTRY_TEXT_CHARS_def MAX_VARIABLE_LIST_ITEMS_def

subsection \<open>Errors and paths\<close>

record validation_error =
  ve_path :: str
  ve_reason :: str

definition validation_error_new :: "str \<Rightarrow> str \<Rightarrow> validation_error" where
  "validation_error_new path reason = \<lparr>ve_path = path, ve_reason = reason\<rparr>"

text \<open>The \<open>Display\<close> of the error, \<open>{path}: {reason}\<close>.\<close>

definition validation_error_to_string :: "validation_error \<Rightarrow> str" where
  "validation_error_to_string e = ve_path e @ lit '': '' @ ve_reason e"

definition path_index :: "str \<Rightarrow> nat \<Rightarrow> str" where
  "path_index path i = path @ lit ''['' @ show_nat i @ lit '']''"

definition reject_if :: "bool \<Rightarrow> str \<Rightarrow> str \<Rightarrow> (validation_error, unit) result" where
  "reject_if bad path reason = guard_err bad (validation_error_new path reason)"

lemma reject_if_Inr [simp]: "reject_if bad path reason = Inr u \<longleftrightarrow> \<not> bad"
  by (simp add: reject_if_def)

subsection \<open>Text, identifiers, provenance\<close>

definition validate_text :: "str \<Rightarrow> str \<Rightarrow> nat \<Rightarrow> nat \<Rightarrow> (validation_error, unit) result" where
  "validate_text path value minimum_chars maximum_chars =
     checks
       [reject_if (length value < minimum_chars \<or> length value > maximum_chars) path
          (lit ''must contain between '' @ show_nat minimum_chars @ lit '' and '' @
           show_nat maximum_chars @ lit '' characters''),
        reject_if (0 \<in> set value) path (lit ''must not contain NUL'')]"

definition validate_id :: "str \<Rightarrow> str \<Rightarrow> (validation_error, unit) result" where
  "validate_id path value = validate_text path value 1 MAX_IDENTIFIER_CHARS"

definition validate_sha256 :: "(str \<Rightarrow> bool) \<Rightarrow> str \<Rightarrow> str \<Rightarrow> (validation_error, unit) result" where
  "validate_sha256 hex_ok path value =
     reject_if (str_len value \<noteq> 64 \<or> list_ex is_ascii_uppercase value \<or> \<not> hex_ok value) path
       (lit ''must be a lowercase 64-character SHA-256 digest'')"

fun validate_optional :: "('a \<Rightarrow> ('e, unit) result) \<Rightarrow> 'a option \<Rightarrow> ('e, unit) result" where
  "validate_optional f None = Inr ()"
| "validate_optional f (Some x) = f x"

definition validate_provenance ::
  "(str \<Rightarrow> bool) \<Rightarrow> provenance \<Rightarrow> str \<Rightarrow> (validation_error, unit) result" where
  "validate_provenance hex_ok p path =
     checks
       [validate_optional (\<lambda>v. validate_text (path @ lit ''.source_id'') v 1 1024) (pv_source_id p),
        validate_optional (\<lambda>v. validate_sha256 hex_ok (path @ lit ''.source_hash'') v)
          (pv_source_hash p),
        validate_optional (\<lambda>v. validate_text (path @ lit ''.author'') v 1 MAX_NAME_CHARS)
          (pv_author p),
        validate_optional (\<lambda>v. validate_text (path @ lit ''.license'') v 1 MAX_NAME_CHARS)
          (pv_license p)]"

subsection \<open>Variables and conditions\<close>

definition validate_variable_ref :: "variable_ref \<Rightarrow> str \<Rightarrow> (validation_error, unit) result" where
  "validate_variable_ref variable path =
     result_bind (validate_id (path @ lit ''.id'') (vr_id variable)) (\<lambda>_.
       case (vr_scope variable, vr_namespace variable) of
         (Scope_Module, Some namespace) \<Rightarrow> validate_id (path @ lit ''.namespace'') namespace
       | (Scope_Module, None) \<Rightarrow>
           Inl (validation_error_new (path @ lit ''.namespace'')
             (lit ''module variables require a module namespace''))
       | (_, Some _) \<Rightarrow>
           Inl (validation_error_new (path @ lit ''.namespace'')
             (lit ''only module variables may carry a module namespace''))
       | (_, None) \<Rightarrow> Inr ())"

fun validate_variable_value :: "variable_value \<Rightarrow> str \<Rightarrow> (validation_error, unit) result" where
  "validate_variable_value (VDecimal v) path =
     reject_if (\<not> is_finite v) path (lit ''decimal must be finite'')"
| "validate_variable_value (VText v) path = validate_text path v 0 MAX_VARIABLE_TEXT_CHARS"
| "validate_variable_value (VEnum v) path = validate_text path v 0 MAX_VARIABLE_TEXT_CHARS"
| "validate_variable_value (VStringList vs) path =
     result_bind
       (reject_if (length vs > MAX_VARIABLE_LIST_ITEMS) path
         (lit ''must contain at most '' @ show_nat MAX_VARIABLE_LIST_ITEMS @ lit '' values''))
       (\<lambda>_. try_for (\<lambda>(i, v). validate_text (path_index path i) v 0 MAX_BLOCK_TEXT_CHARS)
         (enumerate 0 vs))"
| "validate_variable_value _ path = Inr ()"

definition validate_variable_map :: "variable_map \<Rightarrow> str \<Rightarrow> (validation_error, unit) result" where
  "validate_variable_map values path =
     checks
       [reject_if (length values > MAX_VARIABLES) path
          (lit ''must contain at most '' @ show_nat MAX_VARIABLES @ lit '' variables''),
        try_for (\<lambda>(i, b). result_bind
            (validate_variable_ref (vb_variable b) (path_index path i @ lit ''.variable''))
            (\<lambda>_. validate_variable_value (vb_value b) (path_index path i @ lit ''.value'')))
          (enumerate 0 values),
        reject_if (adjacent_dup (sort_by cmp_variable_ref (map vb_variable values)) \<noteq> None) path
          (lit ''variable references must be unique'')]"

text \<open>The node counter is threaded through the walk and returned.\<close>

fun visit_condition ::
  "condition_expr \<Rightarrow> str \<Rightarrow> nat \<Rightarrow> nat \<Rightarrow> (validation_error, nat) result" where
  "visit_condition expression path depth nodes =
     (if depth > MAX_CONDITION_DEPTH then
        Inl (validation_error_new path
          (lit ''condition nesting exceeds '' @ show_nat MAX_CONDITION_DEPTH))
      else let nodes = nodes + 1 in
      if nodes > MAX_CONDITION_NODES then
        Inl (validation_error_new path
          (lit ''condition nodes exceed '' @ show_nat MAX_CONDITION_NODES))
      else case expression of
        Cond_Equals variable v \<Rightarrow>
          result_bind (validate_variable_ref variable (path @ lit ''.variable'')) (\<lambda>_.
          result_bind (validate_variable_value v (path @ lit ''.value'')) (\<lambda>_. Inr nodes))
      | Cond_NotEquals variable v \<Rightarrow>
          result_bind (validate_variable_ref variable (path @ lit ''.variable'')) (\<lambda>_.
          result_bind (validate_variable_value v (path @ lit ''.value'')) (\<lambda>_. Inr nodes))
      | Cond_GreaterThan variable v \<Rightarrow>
          result_bind (validate_variable_ref variable (path @ lit ''.variable'')) (\<lambda>_.
          if is_finite v then Inr nodes
          else Inl (validation_error_new (path @ lit ''.value'')
            (lit ''comparison value must be finite'')))
      | Cond_Contains variable v \<Rightarrow>
          result_bind (validate_variable_ref variable (path @ lit ''.variable'')) (\<lambda>_.
          result_bind (validate_text (path @ lit ''.value'') v 0 MAX_BLOCK_TEXT_CHARS)
            (\<lambda>_. Inr nodes))
      | Cond_Exists variable \<Rightarrow>
          result_bind (validate_variable_ref variable (path @ lit ''.variable'')) (\<lambda>_. Inr nodes)
      | Cond_All expressions \<Rightarrow>
          if expressions = [] then
            Inl (validation_error_new path
              (lit ''logical conditions must contain at least one expression''))
          else try_fold (\<lambda>n (i, child). visit_condition child (path_index path i) (depth + 1) n)
            nodes (enumerate 0 expressions)
      | Cond_Any expressions \<Rightarrow>
          if expressions = [] then
            Inl (validation_error_new path
              (lit ''logical conditions must contain at least one expression''))
          else try_fold (\<lambda>n (i, child). visit_condition child (path_index path i) (depth + 1) n)
            nodes (enumerate 0 expressions)
      | Cond_Not inner \<Rightarrow> visit_condition inner (path @ lit ''.not'') (depth + 1) nodes
      | _ \<Rightarrow> Inr nodes)"

declare visit_condition.simps [simp del]

definition validate_condition :: "condition_expr \<Rightarrow> str \<Rightarrow> (validation_error, unit) result" where
  "validate_condition expression path =
     result_bind (visit_condition expression path 0 0) (\<lambda>_. Inr ())"

definition condition_validate :: "condition_expr \<Rightarrow> (validation_error, unit) result" where
  "condition_validate e = validate_condition e (lit ''condition'')"

subsection \<open>Templates and regular expressions\<close>

fun visit_template :: "safe_template \<Rightarrow> str \<Rightarrow> nat \<Rightarrow> nat \<Rightarrow> (validation_error, nat) result"
and visit_template_part :: "template_part \<Rightarrow> str \<Rightarrow> nat \<Rightarrow> nat \<Rightarrow> (validation_error, nat) result" where
  "visit_template (SafeTemplate parts max_output_chars) path depth nodes =
     (if depth > MAX_TEMPLATE_DEPTH then
        Inl (validation_error_new path
          (lit ''template nesting exceeds '' @ show_nat MAX_TEMPLATE_DEPTH))
      else if max_output_chars = 0 \<or> max_output_chars > MAX_TEMPLATE_OUTPUT_CHARS then
        Inl (validation_error_new (path @ lit ''.max_output_chars'')
          (lit ''must be between 1 and '' @ show_nat MAX_TEMPLATE_OUTPUT_CHARS))
      else try_fold (\<lambda>n (i, part).
          if n + 1 > MAX_TEMPLATE_NODES then
            Inl (validation_error_new path
              (lit ''template nodes exceed '' @ show_nat MAX_TEMPLATE_NODES))
          else visit_template_part part (path_index (path @ lit ''.parts'') i) depth (n + 1))
        nodes (enumerate 0 parts))"
| "visit_template_part (Part_Text v) part_path depth nodes =
     result_bind (validate_text part_path v 0 MAX_BLOCK_TEXT_CHARS) (\<lambda>_. Inr nodes)"
| "visit_template_part (Part_Variable variable) part_path depth nodes =
     result_bind (validate_variable_ref variable (part_path @ lit ''.variable'')) (\<lambda>_. Inr nodes)"
| "visit_template_part (Part_Join variable separator) part_path depth nodes =
     result_bind (validate_variable_ref variable (part_path @ lit ''.variable'')) (\<lambda>_.
     result_bind (validate_text (part_path @ lit ''.separator'') separator 0 MAX_NAME_CHARS)
       (\<lambda>_. Inr nodes))"
| "visit_template_part (Part_Slot slot_name) part_path depth nodes =
     result_bind (validate_text (part_path @ lit ''.name'') slot_name 1 MAX_NAME_CHARS)
       (\<lambda>_. Inr nodes)"
| "visit_template_part (Part_Conditional condition then_template else_template) part_path depth nodes =
     result_bind (validate_condition condition (part_path @ lit ''.condition'')) (\<lambda>_.
     result_bind (visit_template then_template (part_path @ lit ''.then_template'') (depth + 1) nodes)
       (\<lambda>nodes. case else_template of None \<Rightarrow> Inr nodes
         | Some t \<Rightarrow> visit_template t (part_path @ lit ''.else_template'') (depth + 1) nodes))"
| "visit_template_part (Part_BuiltIn _) part_path depth nodes = Inr nodes"

definition validate_template :: "safe_template \<Rightarrow> str \<Rightarrow> (validation_error, unit) result" where
  "validate_template template path =
     result_bind (visit_template template path 0 0) (\<lambda>_. Inr ())"

definition template_validate :: "safe_template \<Rightarrow> (validation_error, unit) result" where
  "template_validate t = validate_template t (lit ''template'')"

definition safe_regex_validate :: "safe_regex \<Rightarrow> (validation_error, unit) result" where
  "safe_regex_validate r =
     checks
       [validate_text (lit ''pattern'') (rx_pattern r) 1 MAX_SAFE_REGEX_CHARS,
        reject_if (list_ex (contains (rx_pattern r)) UNSUPPORTED_SAFE_REGEX_SYNTAX) (lit ''pattern'')
          (lit ''look-around and backreferences are not supported'')]"

end
