(* ===== verification/Memory_Validation.thy ===== *)
theory Memory_Validation
  imports Domain_Validation
begin

section \<open>Validation of memory profiles, task profiles and jobs\<close>

text \<open>
  \<open>ValidateOrchestration\<close> for \<open>MemoryProfile\<close>
  (\<open>crates/domain/src/orchestration/compatibility_validation.rs\<close>), \<open>TaskProfile\<close> and \<open>MemoryJob\<close>
  (\<open>crates/domain/src/orchestration.rs\<close>), with what the memory engine takes from a validated
  profile: positive bounded counts, bounded budgets, finite non-negative weights of which at
  least one is positive.
\<close>

definition memory_profile_weights :: "memory_profile \<Rightarrow> float list" where
  "memory_profile_weights p =
     [mp_recency_weight p, mp_similarity_weight p, mp_importance_weight p]"

definition canonical_schema_char :: "uchar \<Rightarrow> bool" where
  "canonical_schema_char c \<longleftrightarrow> is_ascii_alphanumeric c \<or> c \<in> set (lit ''._-:'')"

text \<open>The loop over the parts of a summary template; the state counts the source slots.\<close>

definition summary_template_part ::
  "nat \<Rightarrow> nat \<times> template_part \<Rightarrow> (validation_error, nat) result" where
  "summary_template_part source_slots ip =
     (case ip of (i, part) \<Rightarrow> case part of
        Part_Text _ \<Rightarrow> Inr source_slots
      | Part_Slot slot_name \<Rightarrow>
          if slot_name = lit ''memory_source'' then Inr (saturating_add usize_max source_slots 1)
          else Inl (validation_error_new (path_index (lit ''summary_template.parts'') i @ lit ''.name'')
            (lit ''only the memory_source slot is available''))
      | _ \<Rightarrow> Inl (validation_error_new (path_index (lit ''summary_template.parts'') i)
          (lit ''memory summary templates allow only literal text and one memory_source slot'')))"

definition validate_summary_template :: "safe_template \<Rightarrow> (validation_error, unit) result" where
  "validate_summary_template template =
     result_bind
       (map_err (\<lambda>e. validation_error_new (lit ''summary_template.'' @ ve_path e) (ve_reason e))
         (template_validate template)) (\<lambda>_.
     result_bind (try_fold summary_template_part 0 (enumerate 0 (tpl_parts template)))
       (\<lambda>source_slots. reject_if (source_slots \<noteq> 1) (lit ''summary_template'')
         (lit ''must contain exactly one memory_source slot'')))"

definition memory_profile_validate ::
  "(str \<Rightarrow> bool) \<Rightarrow> memory_profile \<Rightarrow> (validation_error, unit) result" where
  "memory_profile_validate hex_ok p =
     checks
       [validate_id (lit ''id'') (mp_id p),
        validate_text (lit ''name'') (mp_name p) 1 MAX_NAME_CHARS,
        validate_id (lit ''summary_task'') (mp_summary_task p),
        validate_id (lit ''summary_schema'') (mp_summary_schema p),
        reject_if (\<not> list_all canonical_schema_char (mp_summary_schema p)) (lit ''summary_schema'')
          (lit ''must contain only canonical ASCII identifier characters''),
        validate_optional (validate_id (lit ''embedding_task'')) (mp_embedding_task p),
        reject_if
          (mp_schema_version p = 0
           \<or> mp_turns_per_summary p = 0 \<or> mp_turns_per_summary p > 10000
           \<or> mp_retrieval_count p = 0 \<or> mp_retrieval_count p > 10000
           \<or> max_tokens (mp_recent_raw_budget p) > 10000000
           \<or> max_tokens (mp_episodic_budget p) > 10000000
           \<or> max_tokens (mp_semantic_budget p) > 10000000
           \<or> list_ex (\<lambda>w. \<not> is_finite w \<or> float_less w (Finite 0)) (memory_profile_weights p))
          (lit ''memory_profile'')
          (lit ''schema, counts, and finite non-negative weights are required''),
        reject_if (\<not> list_ex (\<lambda>w. float_less (Finite 0) w) (memory_profile_weights p))
          (lit ''retrieval_weights'') (lit ''at least one retrieval weight must be positive''),
        validate_optional validate_summary_template (mp_summary_template p),
        validate_provenance hex_ok (mp_provenance p) (lit ''provenance'')]"

definition task_profile_validate :: "task_profile \<Rightarrow> (validation_error, unit) result" where
  "task_profile_validate t =
     checks
       [validate_id (lit ''id'') (task_id t),
        validate_id (lit ''route_id'') (task_route_id t),
        validate_id (lit ''generation_preset_id'') (task_generation_preset_id t),
        reject_if (length (task_fallback_route_ids t) > 16) (lit ''fallback_route_ids'')
          (lit ''must contain at most 16 routes''),
        reject_if
          (adjacent_dup (sort_by cmp (task_fallback_route_ids t)) \<noteq> None
           \<or> list_ex (\<lambda>r. r = task_route_id t) (task_fallback_route_ids t))
          (lit ''fallback_route_ids'')
          (lit ''fallback routes must be unique and differ from the primary route''),
        reject_if
          (\<not> (1 \<le> task_timeout_ms t \<and> task_timeout_ms t \<le> 600000)
           \<or> rl_requests (task_rate_limit t) = 0 \<or> rl_requests (task_rate_limit t) > 1000000
           \<or> rl_per_seconds (task_rate_limit t) = 0 \<or> rl_per_seconds (task_rate_limit t) > 86400
           \<or> \<not> (1 \<le> task_concurrency_limit t \<and> task_concurrency_limit t \<le> 128))
          (lit ''task_profile'')
          (lit ''timeout, rate limit, and concurrency must be positive and bounded''),
        (case (task_kind t, task_embedding_dimensions t) of
           (Task_MemoryEmbedding, Some d) \<Rightarrow>
             if 1 \<le> d \<and> d \<le> 32768 then Inr ()
             else Inl (validation_error_new (lit ''embedding_dimensions'')
               (lit ''memory embedding tasks require 1 through 32768 dimensions''))
         | (Task_MemoryEmbedding, None) \<Rightarrow>
             Inl (validation_error_new (lit ''embedding_dimensions'')
               (lit ''memory embedding tasks require 1 through 32768 dimensions''))
         | (_, None) \<Rightarrow> Inr ()
         | (_, Some _) \<Rightarrow>
             Inl (validation_error_new (lit ''embedding_dimensions'')
               (lit ''only memory embedding tasks may declare embedding dimensions''))),
        reject_if (task_kind t = Task_MemoryEmbedding \<and> task_fallback_route_ids t \<noteq> [])
          (lit ''fallback_route_ids'')
          (lit ''memory embedding tasks use one exact model route and cannot declare fallbacks'')]"

definition memory_job_validate :: "memory_job \<Rightarrow> (validation_error, unit) result" where
  "memory_job_validate j =
     checks
       [validate_id (lit ''id'') (mj_id j),
        validate_text (lit ''idempotency_key'') (mj_idempotency_key j) 16 256,
        reject_if (mj_attempt j > 32 \<or> mj_updated_at j < mj_created_at j) (lit ''memory_job'')
          (lit ''attempt count or timestamps are invalid''),
        validate_optional (\<lambda>c. validate_text (lit ''error_code'') c 1 MAX_IDENTIFIER_CHARS)
          (mj_error_code j)]"

subsection \<open>What a validated profile promises\<close>

lemma memory_profile_validate_counts:
  assumes "memory_profile_validate hex_ok p = Inr ()"
  shows "0 < mp_retrieval_count p" and "mp_retrieval_count p \<le> 10000"
    and "max_tokens (mp_episodic_budget p) \<le> 10000000"
    and "max_tokens (mp_semantic_budget p) \<le> 10000000"
  using assms by (auto simp: memory_profile_validate_def result_simps)

lemma memory_profile_validate_weights:
  assumes "memory_profile_validate hex_ok p = Inr ()" and "w \<in> set (memory_profile_weights p)"
  shows "\<exists>r. w = Finite r \<and> 0 \<le> r"
proof -
  from assms have "is_finite w" and "\<not> float_less w (Finite 0)"
    by (auto simp: memory_profile_validate_def result_simps list_ex_iff)
  then show ?thesis by (cases w) auto
qed

lemma summary_template_part_ok:
  assumes "summary_template_part n (i, part) = Inr n'"
  shows "(\<exists>t. part = Part_Text t) \<or> part = Part_Slot (lit ''memory_source'')"
  using assms by (auto simp: summary_template_part_def split: template_part.splits if_splits)

lemma summary_template_parts_ok:
  assumes "try_fold summary_template_part n ips = Inr m" and "(i, part) \<in> set ips"
  shows "(\<exists>t. part = Part_Text t) \<or> part = Part_Slot (lit ''memory_source'')"
  using assms
proof (induction ips arbitrary: n)
  case (Cons ip ips)
  then obtain n' where head: "summary_template_part n ip = Inr n'"
    and rest: "try_fold summary_template_part n' ips = Inr m"
    by (auto simp: result_simps)
  show ?case
  proof (cases "ip = (i, part)")
    case True
    with head show ?thesis using summary_template_part_ok by blast
  next
    case False
    with Cons.prems(2) rest show ?thesis by (intro Cons.IH) simp_all
  qed
qed simp

end
