(* ===== verification/Selection_Common.thy ===== *)
theory Selection_Common
  imports Domain_Types
begin

section \<open>Estimates and fixed-point scores shared by the selection engines\<close>

text \<open>
  \<open>estimate_text_tokens\<close> of \<open>crates/orchestration/src/knowledge.rs\<close>, which both engines fall back to
  when the caller supplies no estimate, and \<open>score_to_millionths\<close>, which the two engines each
  define.
\<close>

definition estimate_text_tokens :: "str \<Rightarrow> nat" where
  "estimate_text_tokens t =
     (if t = [] then 0 else max 1 (try_from_or u32_max u32_max (div_ceil (length t) 4)))"

definition score_to_millionths :: "float \<Rightarrow> nat" where
  "score_to_millionths score = millionths_as u32_max score"

lemma estimate_text_tokens_u32: "estimate_text_tokens t \<le> u32_max"
  by (simp add: estimate_text_tokens_def try_from_or_def u32_max_def)

lemma estimate_text_tokens_0_iff: "estimate_text_tokens t = 0 \<longleftrightarrow> t = []"
  by (simp add: estimate_text_tokens_def)

lemma score_to_millionths_unit: "float_in_range 0 1 s \<Longrightarrow> score_to_millionths s \<le> 1000000"
  by (simp add: score_to_millionths_def millionths_as_unit)

end
