(* ===== verification/Memory_Selection.thy ===== *)
theory Memory_Selection
  imports Memory_Validation Selection_Common
begin

section \<open>The memory engine\<close>

text \<open>
  \<open>MemoryEngine::select\<close> of \<open>crates/orchestration/src/memory.rs\<close>.  The engine normalises its
  inputs (records in id order, the lineage as a map from message id to position, similarity
  scores in millionths), decides per record whether its source range lies on the visible
  lineage, ranks the eligible records in fixed point, and admits them greedily into an episodic
  and a semantic token budget.  For every record it keeps a piece of evidence, in a \<open>BTreeMap\<close>
  that the loops update in place.

  The greedy admission has an abstract counterpart, \<open>admit\<close>, that only computes the sequence of
  decisions.  The loop of the source refines it, and the properties of a selection are read off
  the decisions.
\<close>

subsection \<open>Types\<close>

definition MAX_MEMORY_RECORDS_PER_SELECTION :: nat where
  "MAX_MEMORY_RECORDS_PER_SELECTION = 100000"

definition MAX_VISIBLE_MEMORY_LINEAGE_MESSAGES :: nat where
  "MAX_VISIBLE_MEMORY_LINEAGE_MESSAGES = 100000"

datatype memory_selection_error =
    MSE_InvalidProfile str
  | MSE_TooManyRecords
  | MSE_LineageTooLarge
  | MSE_DuplicateRecordId str
  | MSE_DuplicateLineageMessage str
  | MSE_DuplicateSemanticScore str
  | MSE_InvalidSemanticScore str
  | MSE_InvalidRankingWeights
  | MSE_InvalidImportance str
  | MSE_RankingScoreOverflow
  | MSE_InternalInvariant

record memory_semantic_score =
  mss_record_id :: str
  mss_score :: float

record memory_selection_context =
  mc_conversation_id :: str
  mc_branch_id :: str
  mc_visible_message_ids :: "str list"
  mc_semantic_scores :: "memory_semantic_score list"
  mc_token_estimates :: "(str, nat) btree_map"

datatype memory_selection_lane = Lane_Pinned | Lane_Semantic | Lane_Episodic

datatype memory_selection_reason =
    MReason_Pinned
  | MReason_CurrentBranch
  | MReason_SharedAncestor str
  | MReason_Recency nat
  | MReason_Similarity nat
  | MReason_Importance nat

record selected_memory_record =
  sm_record_id :: str
  sm_kind :: memory_kind
  sm_title :: str
  sm_summary :: str
  sm_lane :: memory_selection_lane
  sm_rank_millionths :: nat
  sm_estimated_tokens :: nat
  sm_reasons :: "memory_selection_reason list"

record memory_selection_evidence =
  me_record_id :: str
  me_selected :: bool
  me_lane :: "memory_selection_lane option"
  me_rank_millionths :: "nat option"
  me_estimated_tokens :: nat
  me_reasons :: "memory_selection_reason list"
  me_exclusion_reason :: "str option"

record memory_selection =
  msel_selected :: "selected_memory_record list"
  msel_evidence :: "memory_selection_evidence list"
  msel_used_episodic_tokens :: nat
  msel_used_semantic_tokens :: nat

record ranked_memory =
  rm_record :: memory_record
  rm_rank_millionths :: nat
  rm_recency_millionths :: nat
  rm_similarity_millionths :: "nat option"
  rm_importance_millionths :: nat
  rm_estimated_tokens :: nat
  rm_shared_ancestor :: bool
  rm_pinned :: bool

subsection \<open>Normalisation\<close>

definition validate_profile ::
  "(str \<Rightarrow> bool) \<Rightarrow> memory_profile \<Rightarrow> (memory_selection_error, unit) result" where
  "validate_profile hex_ok profile =
     result_bind
       (map_err (\<lambda>e. MSE_InvalidProfile (validation_error_to_string e))
         (memory_profile_validate hex_ok profile))
       (\<lambda>_. guard_err
         (list_ex (\<lambda>w. \<not> is_finite w \<or> float_less w (Finite 0)) (memory_profile_weights profile))
         MSE_InvalidRankingWeights)"

definition normalized_records ::
  "memory_record list \<Rightarrow> (memory_selection_error, memory_record list) result" where
  "normalized_records records =
     (let records = sort_by (cmp_on mr_id) records in
      case adjacent_dup (map mr_id records) of
        Some record_id \<Rightarrow> Inl (MSE_DuplicateRecordId record_id)
      | None \<Rightarrow> Inr records)"

text \<open>
  \<open>lineage.insert(id, index).is_some()\<close> for each message of the branch, shared by the selection and
  by the invalidation planner, which differ in the error they return.
\<close>

definition index_lineage :: "(str \<Rightarrow> 'e) \<Rightarrow> str list \<Rightarrow> ('e, (str, nat) btree_map) result" where
  "index_lineage duplicate ids =
     try_fold (\<lambda>lineage (index, message_id).
         if bt_get lineage message_id \<noteq> None then Inl (duplicate message_id)
         else Inr (bt_insert message_id index lineage))
       [] (enumerate 0 ids)"

definition normalized_lineage ::
  "str list \<Rightarrow> (memory_selection_error, (str, nat) btree_map) result" where
  "normalized_lineage visible_message_ids =
     (if length visible_message_ids > MAX_VISIBLE_MEMORY_LINEAGE_MESSAGES
      then Inl MSE_LineageTooLarge
      else index_lineage MSE_DuplicateLineageMessage visible_message_ids)"

definition normalize_memory_scores ::
  "memory_record list \<Rightarrow> memory_semantic_score list \<Rightarrow>
     (memory_selection_error, (str, nat) btree_map) result" where
  "normalize_memory_scores records supplied =
     (let known = mr_id ` set records in
      try_fold (\<lambda>scores score.
        if mss_record_id score \<notin> known then Inr scores
        else if \<not> is_finite (mss_score score) \<or> \<not> float_in_range 0 1 (mss_score score)
        then Inl (MSE_InvalidSemanticScore (mss_record_id score))
        else if bt_get scores (mss_record_id score) \<noteq> None
        then Inl (MSE_DuplicateSemanticScore (mss_record_id score))
        else Inr (bt_insert (mss_record_id score) (score_to_millionths (mss_score score)) scores))
      [] supplied)"

subsection \<open>Eligibility and ranking\<close>

text \<open>
  \<open>eligible_range\<close> returns the range and writes the reason for an exclusion into the evidence.
  \<open>source_range\<close> is its decision, \<open>eligible_range\<close> the pair of the return value and the evidence.
\<close>

definition source_range ::
  "memory_record \<Rightarrow> memory_selection_context \<Rightarrow> (str, nat) btree_map \<Rightarrow>
     (str, nat \<times> nat) result" where
  "source_range record context lineage =
     (if mr_conversation_id record \<noteq> mc_conversation_id context
      then Inl (lit ''memory belongs to another conversation'')
      else if mr_invalidated_at record \<noteq> None then Inl (lit ''memory has been invalidated'')
      else if mr_excluded_from_conversation record
      then Inl (lit ''memory is excluded from this conversation'')
      else if mr_excluded_from_character record
      then Inl (lit ''memory is excluded from this character'')
      else case bt_get lineage (mr_source_start_message_id record) of
        None \<Rightarrow> Inl (lit ''memory source range is not on the active branch lineage'')
      | Some start_index \<Rightarrow>
          (case bt_get lineage (mr_source_end_message_id record) of
             None \<Rightarrow> Inl (lit ''memory source range is not on the active branch lineage'')
           | Some end_index \<Rightarrow>
               if start_index > end_index then Inl (lit ''memory source range is reversed'')
               else Inr (start_index, end_index)))"

definition eligible_range ::
  "memory_record \<Rightarrow> memory_selection_context \<Rightarrow> (str, nat) btree_map \<Rightarrow>
     memory_selection_evidence \<Rightarrow> (nat \<times> nat) option \<times> memory_selection_evidence" where
  "eligible_range record context lineage evidence =
     (case source_range record context lineage of
        Inl reason \<Rightarrow> (None, evidence\<lparr>me_exclusion_reason := Some reason\<rparr>)
      | Inr rg \<Rightarrow> (Some rg, evidence))"

text \<open>The product is a \<open>u64\<close> multiplication; it wraps where it would overflow.\<close>

definition normalized_recency :: "nat \<Rightarrow> nat \<Rightarrow> nat" where
  "normalized_recency end_index lineage_len =
     (if lineage_len \<le> 1 then 1000000
      else try_from_or u32_max 1000000
        (((end_index * 1000000) mod (u64_max + 1)) div (lineage_len - 1)))"

definition weight_to_millionths :: "float \<Rightarrow> (memory_selection_error, nat) result" where
  "weight_to_millionths weight =
     (if \<not> is_finite weight \<or> \<not> float_in_range 0 1000000 weight
      then Inl MSE_RankingScoreOverflow
      else Inr (millionths_as u64_max weight))"

definition weighted_rank ::
  "nat \<Rightarrow> nat \<Rightarrow> nat \<Rightarrow> memory_profile \<Rightarrow> (memory_selection_error, nat) result" where
  "weighted_rank recency similarity importance profile =
     try_fold (\<lambda>total (component, weight).
       result_bind (weight_to_millionths weight) (\<lambda>weight_millionths.
       result_bind (ok_or MSE_RankingScoreOverflow (checked_mul u64_max component weight_millionths))
         (\<lambda>product. ok_or MSE_RankingScoreOverflow (checked_add u64_max total (product div 1000000)))))
     0
     [(recency, mp_recency_weight profile), (similarity, mp_similarity_weight profile),
      (importance, mp_importance_weight profile)]"

definition ranking_reasons :: "ranked_memory \<Rightarrow> memory_selection_reason list" where
  "ranking_reasons candidate =
     (if rm_pinned candidate then [MReason_Pinned] else []) @
     [if rm_shared_ancestor candidate
      then MReason_SharedAncestor (mr_branch_id (rm_record candidate))
      else MReason_CurrentBranch,
      MReason_Recency (rm_recency_millionths candidate)] @
     (case rm_similarity_millionths candidate of None \<Rightarrow> [] | Some s \<Rightarrow> [MReason_Similarity s]) @
     [MReason_Importance (rm_importance_millionths candidate)]"

definition fits_budget :: "nat \<Rightarrow> nat \<Rightarrow> nat \<Rightarrow> bool" where
  "fits_budget used cost budget =
     (case checked_add u32_max used cost of None \<Rightarrow> False | Some next \<Rightarrow> next \<le> budget)"

definition choose_lane ::
  "ranked_memory \<Rightarrow> memory_profile \<Rightarrow> nat \<Rightarrow> nat \<Rightarrow> memory_selection_lane option" where
  "choose_lane candidate profile used_episodic used_semantic =
     (let cost = rm_estimated_tokens candidate;
          episodic = fits_budget used_episodic cost (max_tokens (mp_episodic_budget profile)) in
      if rm_pinned candidate then (if episodic then Some Lane_Pinned else None)
      else if rm_similarity_millionths candidate \<noteq> None
        \<and> fits_budget used_semantic cost (max_tokens (mp_semantic_budget profile))
      then Some Lane_Semantic
      else if episodic then Some Lane_Episodic else None)"

definition memory_tokens :: "memory_record \<Rightarrow> (str, nat) btree_map \<Rightarrow> nat" where
  "memory_tokens record estimates =
     (case bt_get estimates (mr_id record) of
        Some n \<Rightarrow> n | None \<Rightarrow> estimate_text_tokens (mr_summary record))"

definition cmp_ranked :: "ranked_memory \<Rightarrow> ranked_memory \<Rightarrow> ordering" where
  "cmp_ranked =
     cmp_then (cmp_on (\<lambda>c. \<not> rm_pinned c))
    (cmp_then (cmp_desc rm_rank_millionths)
    (cmp_then (cmp_desc rm_recency_millionths)
    (cmp_then (cmp_desc rm_importance_millionths)
    (cmp_then (cmp_on rm_estimated_tokens)
              (cmp_on (\<lambda>c. mr_id (rm_record c)))))))"

subsection \<open>The two loops of \<open>select\<close>\<close>

type_synonym memory_evidence_map = "(str, memory_selection_evidence) btree_map"

definition initial_memory_evidence ::
  "memory_selection_context \<Rightarrow> memory_record \<Rightarrow> memory_selection_evidence" where
  "initial_memory_evidence context record =
     \<lparr>me_record_id = mr_id record, me_selected = False, me_lane = None, me_rank_millionths = None,
      me_estimated_tokens = memory_tokens record (mc_token_estimates context),
      me_reasons = [], me_exclusion_reason = None\<rparr>"

text \<open>The body of the first loop after the range is known.\<close>

definition rank_record ::
  "memory_profile \<Rightarrow> memory_selection_context \<Rightarrow> nat \<Rightarrow> (str, nat) btree_map \<Rightarrow> memory_record \<Rightarrow>
     nat \<Rightarrow> (memory_selection_error, ranked_memory) result" where
  "rank_record profile context lineage_len scores record end_index =
     (let recency = normalized_recency end_index lineage_len in
      if mr_importance record > 100 then Inl (MSE_InvalidImportance (mr_id record))
      else
        let importance = mr_importance record * 10000;
            similarity = bt_get scores (mr_id record) in
        result_bind
          (weighted_rank recency (case similarity of None \<Rightarrow> 0 | Some s \<Rightarrow> s) importance profile)
          (\<lambda>rank. Inr
            \<lparr>rm_record = record, rm_rank_millionths = rank, rm_recency_millionths = recency,
             rm_similarity_millionths = similarity, rm_importance_millionths = importance,
             rm_estimated_tokens = memory_tokens record (mc_token_estimates context),
             rm_shared_ancestor = (mr_branch_id record \<noteq> mc_branch_id context),
             rm_pinned = (mr_pinned record \<or> mr_kind record = CreatorPinned)\<rparr>))"

definition rank_step ::
  "memory_profile \<Rightarrow> memory_selection_context \<Rightarrow> (str, nat) btree_map \<Rightarrow> (str, nat) btree_map \<Rightarrow>
     memory_evidence_map \<times> ranked_memory list \<Rightarrow> memory_record \<Rightarrow>
     (memory_selection_error, memory_evidence_map \<times> ranked_memory list) result" where
  "rank_step profile context lineage scores st record =
     (case st of (evidence, ranked) \<Rightarrow>
      result_bind (ok_or MSE_InternalInvariant (bt_get evidence (mr_id record))) (\<lambda>item.
      case eligible_range record context lineage item of
        (None, item') \<Rightarrow> Inr (bt_modify (mr_id record) (\<lambda>_. item') evidence, ranked)
      | (Some (_, end_index), item') \<Rightarrow>
          result_bind (rank_record profile context (length lineage) scores record end_index)
            (\<lambda>candidate.
              Inr (bt_modify (mr_id record) (\<lambda>_. item') evidence, ranked @ [candidate]))))"

record memory_select_state =
  mst_evidence :: memory_evidence_map
  mst_selected :: "selected_memory_record list"
  mst_used_episodic_tokens :: nat
  mst_used_semantic_tokens :: nat
  mst_ordinary_selected :: nat

definition selected_record ::
  "ranked_memory \<Rightarrow> memory_selection_lane \<Rightarrow> memory_selection_reason list \<Rightarrow>
     selected_memory_record" where
  "selected_record candidate lane reasons =
     \<lparr>sm_record_id = mr_id (rm_record candidate), sm_kind = mr_kind (rm_record candidate),
      sm_title = mr_title (rm_record candidate), sm_summary = mr_summary (rm_record candidate),
      sm_lane = lane, sm_rank_millionths = rm_rank_millionths candidate,
      sm_estimated_tokens = rm_estimated_tokens candidate, sm_reasons = reasons\<rparr>"

definition admit_step ::
  "memory_profile \<Rightarrow> memory_select_state \<Rightarrow> ranked_memory \<Rightarrow>
     (memory_selection_error, memory_select_state) result" where
  "admit_step profile st candidate =
     (let key = mr_id (rm_record candidate);
          set_item = (\<lambda>item. bt_modify key (\<lambda>_. item) (mst_evidence st)) in
      result_bind (ok_or MSE_InternalInvariant (bt_get (mst_evidence st) key)) (\<lambda>item.
      let item = item\<lparr>me_rank_millionths := Some (rm_rank_millionths candidate),
                      me_reasons := ranking_reasons candidate\<rparr> in
      if \<not> rm_pinned candidate \<and> mst_ordinary_selected st \<ge> mp_retrieval_count profile
      then Inr (st\<lparr>mst_evidence := set_item (item\<lparr>me_exclusion_reason :=
             Some (lit ''memory retrieval count limit reached'')\<rparr>)\<rparr>)
      else case choose_lane candidate profile (mst_used_episodic_tokens st)
                  (mst_used_semantic_tokens st) of
        None \<Rightarrow> Inr (st\<lparr>mst_evidence := set_item (item\<lparr>me_exclusion_reason :=
             Some (lit ''memory record does not fit the remaining token budgets'')\<rparr>)\<rparr>)
      | Some lane \<Rightarrow>
          result_bind
            (if lane = Lane_Semantic then Inr (mst_used_episodic_tokens st)
             else ok_or MSE_InternalInvariant
               (checked_add u32_max (mst_used_episodic_tokens st) (rm_estimated_tokens candidate)))
            (\<lambda>used_episodic.
          result_bind
            (if lane = Lane_Semantic
             then ok_or MSE_InternalInvariant
               (checked_add u32_max (mst_used_semantic_tokens st) (rm_estimated_tokens candidate))
             else Inr (mst_used_semantic_tokens st))
            (\<lambda>used_semantic.
          Inr \<lparr>mst_evidence = set_item (item\<lparr>me_selected := True, me_lane := Some lane,
                  me_exclusion_reason := None\<rparr>),
               mst_selected = mst_selected st @ [selected_record candidate lane (me_reasons item)],
               mst_used_episodic_tokens = used_episodic,
               mst_used_semantic_tokens = used_semantic,
               mst_ordinary_selected =
                 (if rm_pinned candidate then mst_ordinary_selected st
                  else saturating_add u32_max (mst_ordinary_selected st) 1)\<rparr>))))"

definition memory_select ::
  "(str \<Rightarrow> bool) \<Rightarrow> memory_record list \<Rightarrow> memory_profile \<Rightarrow> memory_selection_context \<Rightarrow>
     (memory_selection_error, memory_selection) result" where
  "memory_select hex_ok records profile context =
     result_bind (validate_profile hex_ok profile) (\<lambda>_.
     result_bind (guard_err (length records > MAX_MEMORY_RECORDS_PER_SELECTION) MSE_TooManyRecords) (\<lambda>_.
     result_bind (normalized_records records) (\<lambda>records.
     result_bind (normalized_lineage (mc_visible_message_ids context)) (\<lambda>lineage.
     result_bind (normalize_memory_scores records (mc_semantic_scores context)) (\<lambda>scores.
     let evidence = bt_collect (map (\<lambda>r. (mr_id r, initial_memory_evidence context r)) records) in
     result_bind (try_fold (rank_step profile context lineage scores) (evidence, []) records)
       (\<lambda>(evidence, ranked).
     result_bind
       (try_fold (admit_step profile)
         \<lparr>mst_evidence = evidence, mst_selected = [], mst_used_episodic_tokens = 0,
          mst_used_semantic_tokens = 0, mst_ordinary_selected = 0\<rparr>
         (sort_by cmp_ranked ranked))
       (\<lambda>st.
     Inr \<lparr>msel_selected = mst_selected st,
          msel_evidence = sort_by (cmp_on me_record_id) (map snd (mst_evidence st)),
          msel_used_episodic_tokens = mst_used_episodic_tokens st,
          msel_used_semantic_tokens = mst_used_semantic_tokens st\<rparr>)))))))"

end
