(* ===== verification/Memory_Engine_Facts.thy ===== *)
theory Memory_Engine_Facts
  imports Memory_Selection
begin

section \<open>What the memory engine guarantees\<close>

text \<open>
  The two loops of \<open>MemoryEngine::select\<close> are refined to pure functions, \<open>rank_all\<close> and \<open>admit\<close>, and
  a successful selection is shown to be a table over the sorted records.  The properties follow:
  independence of the input order, budgets and accounting, branch safety, complete evidence,
  maximality of the greedy admission, and that the internal invariant cannot be violated.
\<close>

subsection \<open>Normalised inputs\<close>

lemma index_lineage_Nil: "index_lineage d [] = Inr []"
  by (simp add: index_lineage_def)

lemma index_lineage_snoc:
  "index_lineage d (ids @ [x]) =
     result_bind (index_lineage d ids) (\<lambda>m.
       if bt_get m x \<noteq> None then Inl (d x) else Inr (bt_insert x (length ids) m))"
  by (simp add: index_lineage_def enumerate_append_eq try_fold_append cong: result_bind_cong)

lemma index_lineage_Inr:
  assumes "index_lineage d ids = Inr m"
  shows "distinct ids" and "bt_inv m" and "length m = length ids"
    and "bt_get m k = Some i \<longleftrightarrow> i < length ids \<and> ids ! i = k"
proof -
  have "distinct ids \<and> bt_inv m \<and> length m = length ids \<and>
    (\<forall>k i. bt_get m k = Some i \<longleftrightarrow> i < length ids \<and> ids ! i = k)"
    using assms
  proof (induction ids arbitrary: m rule: rev_induct)
    case (snoc x ids)
    then obtain m0 where m0: "index_lineage d ids = Inr m0" "bt_get m0 x = None"
      "m = bt_insert x (length ids) m0"
      by (auto simp: index_lineage_snoc result_simps split: if_splits)
    note ih = snoc.IH [OF m0(1)]
    have fresh: "x \<notin> set ids" using ih m0(2) by (metis in_set_conv_nth option.distinct(1))
    have "bt_get m k = Some i \<longleftrightarrow> i < length (ids @ [x]) \<and> (ids @ [x]) ! i = k" for k i
      using ih m0(2,3) fresh
      by (auto simp: btree.get_insert nth_append less_Suc_eq in_set_conv_nth)
    then show ?case using ih m0 fresh by (simp add: btree.inv_insert length_bt_insert)
  qed (simp add: index_lineage_Nil btree.inv_empty)
  then show "distinct ids" and "bt_inv m" and "length m = length ids"
    and "bt_get m k = Some i \<longleftrightarrow> i < length ids \<and> ids ! i = k" by simp_all
qed

lemma index_lineage_total: "distinct ids \<Longrightarrow> \<exists>m. index_lineage d ids = Inr m"
proof (induction ids rule: rev_induct)
  case (snoc x ids)
  then obtain m where m: "index_lineage d ids = Inr m" by auto
  with snoc.prems have "bt_get m x = None"
    using index_lineage_Inr(4) [OF m, of x] by (metis distinct_append in_set_conv_nth not_None_eq
        distinct.simps(2) disjoint_iff list.set_intros(1))
  with m show ?case by (simp add: index_lineage_snoc)
qed (simp add: index_lineage_Nil)

lemma normalized_records_Inr:
  "normalized_records records = Inr rs \<longleftrightarrow>
     distinct (map mr_id records) \<and> rs = sort_by (cmp_on mr_id) records"
proof -
  have "mset (map mr_id (sort_by (cmp_on mr_id) records)) = mset (map mr_id records)" by simp
  then have "distinct (map mr_id (sort_by (cmp_on mr_id) records)) = distinct (map mr_id records)"
    by (rule mset_eq_imp_distinct_iff)
  then show ?thesis
    using adjacent_dup_None_sorted [OF sorted_map_sort_by [of mr_id records]]
    by (auto simp: normalized_records_def Let_def split: option.splits)
qed

lemma normalized_records_sorted:
  assumes "normalized_records records = Inr rs"
  shows "sorted_wrt (<) (map mr_id rs)" and "set rs = set records" and "distinct (map mr_id rs)"
proof -
  show "set rs = set records" using assms by (simp add: normalized_records_Inr)
  have "mset (map mr_id rs) = mset (map mr_id records)"
    using assms by (simp add: normalized_records_Inr)
  then show "distinct (map mr_id rs)"
    using assms mset_eq_imp_distinct_iff normalized_records_Inr by blast
  then show "sorted_wrt (<) (map mr_id rs)"
    using assms sorted_map_sort_by [of mr_id records]
    by (simp add: normalized_records_Inr strict_sorted_iff)
qed

lemma normalized_records_perm:
  assumes "mset records = mset records'"
  shows "normalized_records records = normalized_records records'"
proof -
  let ?s = "sort_by (cmp_on mr_id)"
  have ids: "map mr_id (?s records) = map mr_id (?s records')"
  proof -
    have "sort (map mr_id records) = map mr_id (?s xs)" if "mset xs = mset records" for xs
      using that sorted_map_sort_by by (intro properties_for_sort) auto
    from this [of records] this [of records'] assms show ?thesis by simp
  qed
  show ?thesis
  proof (cases "distinct (map mr_id records)")
    case True
    then have inj: "inj_on mr_id (set records)" by (simp add: distinct_map)
    have "?s records = ?s records'"
      using assms inj by (intro by_key.sort_by_perm) (auto simp: cmp_on_def inj_on_def)
    then show ?thesis by (simp add: normalized_records_def)
  next
    case False
    then have "distinct (map mr_id (?s records)) \<longleftrightarrow> False"
      by (metis mset_eq_imp_distinct_iff mset_map mset_sort_by)
    then have "adjacent_dup (map mr_id (?s records)) \<noteq> None"
      using adjacent_dup_None_sorted [OF sorted_map_sort_by [of mr_id records]] by simp
    with ids show ?thesis by (auto simp: normalized_records_def Let_def)
  qed
qed

subsection \<open>The ranking loop\<close>

text \<open>The ranking loop without its evidence: skip what is not eligible, rank the rest.\<close>

fun rank_all ::
  "memory_profile \<Rightarrow> memory_selection_context \<Rightarrow> (str, nat) btree_map \<Rightarrow> (str, nat) btree_map \<Rightarrow>
     memory_record list \<Rightarrow> (memory_selection_error, ranked_memory list) result" where
  "rank_all profile context lineage scores [] = Inr []"
| "rank_all profile context lineage scores (r # rs) =
     (case source_range r context lineage of
        Inl _ \<Rightarrow> rank_all profile context lineage scores rs
      | Inr (_, end_index) \<Rightarrow>
          result_bind (rank_record profile context (length lineage) scores r end_index) (\<lambda>c.
          result_bind (rank_all profile context lineage scores rs) (\<lambda>cs. Inr (c # cs))))"

definition mark_range ::
  "memory_selection_context \<Rightarrow> (str, nat) btree_map \<Rightarrow> memory_record \<Rightarrow>
     memory_selection_evidence \<Rightarrow> memory_selection_evidence" where
  "mark_range context lineage r e = snd (eligible_range r context lineage e)"

lemma rank_loop:
  assumes "\<And>r. r \<in> set rs \<Longrightarrow> bt_get evidence (mr_id r) \<noteq> None"
  shows "try_fold (rank_step profile context lineage scores) (evidence, cs0) rs =
    result_bind (rank_all profile context lineage scores rs) (\<lambda>cs.
      Inr (fold (\<lambda>r. bt_modify (mr_id r) (mark_range context lineage r)) rs evidence, cs0 @ cs))"
  using assms
proof (induction rs arbitrary: evidence cs0)
  case (Cons r rs)
  obtain item where item: "bt_get evidence (mr_id r) = Some item" using Cons.prems [of r] by auto
  have const: "bt_modify (mr_id r) (\<lambda>_. f item) evidence = bt_modify (mr_id r) f evidence" for f
    using item by (rule bt_modify_const)
  have keys: "r' \<in> set rs \<Longrightarrow> bt_get (bt_modify (mr_id r) f evidence) (mr_id r') \<noteq> None" for r' f
    using Cons.prems [of r'] by (simp add: bt_get_modify item)
  show ?case
  proof (cases "source_range r context lineage")
    case (Inl reason)
    let ?f = "\<lambda>e. e\<lparr>me_exclusion_reason := Some reason\<rparr>"
    have "mark_range context lineage r = ?f"
      using Inl by (simp add: mark_range_def eligible_range_def fun_eq_iff)
    moreover have "rank_step profile context lineage scores (evidence, cs0) r =
        Inr (bt_modify (mr_id r) ?f evidence, cs0)"
      using Inl item const [of ?f] by (simp add: rank_step_def eligible_range_def)
    ultimately show ?thesis using Inl keys by (simp add: Cons.IH)
  next
    case (Inr rg)
    have "mark_range context lineage r = (\<lambda>e. e)"
      using Inr by (simp add: mark_range_def eligible_range_def fun_eq_iff)
    moreover have "rank_step profile context lineage scores (evidence, cs0) r =
        result_bind (rank_record profile context (length lineage) scores r (snd rg))
          (\<lambda>c. Inr (bt_modify (mr_id r) (\<lambda>e. e) evidence, cs0 @ [c]))"
      using Inr item const [of "\<lambda>e. e"]
      by (simp add: rank_step_def eligible_range_def split: prod.split)
    ultimately show ?thesis
      using Inr keys by (simp add: Cons.IH result_bind_assoc split: prod.split)
  qed
qed simp

lemma rank_all_Inr:
  assumes "rank_all profile context lineage scores rs = Inr cs"
  shows "map rm_record cs = filter (\<lambda>r. is_ok (source_range r context lineage)) rs"
    and "\<And>c. c \<in> set cs \<Longrightarrow> \<exists>i j. source_range (rm_record c) context lineage = Inr (i, j) \<and>
      rank_record profile context (length lineage) scores (rm_record c) j = Inr c"
proof -
  have "map rm_record cs = filter (\<lambda>r. is_ok (source_range r context lineage)) rs \<and>
    (\<forall>c \<in> set cs. \<exists>i j. source_range (rm_record c) context lineage = Inr (i, j) \<and>
      rank_record profile context (length lineage) scores (rm_record c) j = Inr c)"
    using assms
  proof (induction rs arbitrary: cs)
    case (Cons r rs)
    have rec: "rm_record c = r" if "rank_record profile context n scores r j = Inr c" for c n j
      using that by (auto simp: rank_record_def Let_def result_simps split: if_splits)
    show ?case
      using Cons.prems Cons.IH
      by (fastforce simp: result_simps rec split: sum.splits prod.splits)
  qed simp
  then show "map rm_record cs = filter (\<lambda>r. is_ok (source_range r context lineage)) rs"
    and "\<And>c. c \<in> set cs \<Longrightarrow> \<exists>i j. source_range (rm_record c) context lineage = Inr (i, j) \<and>
      rank_record profile context (length lineage) scores (rm_record c) j = Inr c" by blast+
qed

subsection \<open>The admission loop\<close>

text \<open>
  The decision on one candidate, given what has been admitted so far, and the decisions on a
  list of candidates.  A rejected candidate carries the reason the source writes down.
\<close>

type_synonym decision = "(str, memory_selection_lane) result"

definition decide ::
  "memory_profile \<Rightarrow> nat \<Rightarrow> nat \<Rightarrow> nat \<Rightarrow> ranked_memory \<Rightarrow> decision" where
  "decide profile used_episodic used_semantic ordinary c =
     (if \<not> rm_pinned c \<and> ordinary \<ge> mp_retrieval_count profile
      then Inl (lit ''memory retrieval count limit reached'')
      else ok_or (lit ''memory record does not fit the remaining token budgets'')
        (choose_lane c profile used_episodic used_semantic))"

definition episodic_cost :: "ranked_memory \<times> decision \<Rightarrow> nat" where
  "episodic_cost = (\<lambda>(c, d). case d of Inl _ \<Rightarrow> 0
     | Inr lane \<Rightarrow> if lane = Lane_Semantic then 0 else rm_estimated_tokens c)"

definition semantic_cost :: "ranked_memory \<times> decision \<Rightarrow> nat" where
  "semantic_cost = (\<lambda>(c, d). case d of Inl _ \<Rightarrow> 0
     | Inr lane \<Rightarrow> if lane = Lane_Semantic then rm_estimated_tokens c else 0)"

definition ordinary_count :: "ranked_memory \<times> decision \<Rightarrow> nat" where
  "ordinary_count = (\<lambda>(c, d). case d of Inl _ \<Rightarrow> 0 | Inr _ \<Rightarrow> if rm_pinned c then 0 else 1)"

fun admit ::
  "memory_profile \<Rightarrow> nat \<Rightarrow> nat \<Rightarrow> nat \<Rightarrow> ranked_memory list \<Rightarrow> (ranked_memory \<times> decision) list" where
  "admit profile ue us n [] = []"
| "admit profile ue us n (c # cs) =
     (let d = decide profile ue us n c in
      (c, d) # admit profile (ue + episodic_cost (c, d)) (us + semantic_cost (c, d))
                 (n + ordinary_count (c, d)) cs)"

definition mark_decision ::
  "ranked_memory \<times> decision \<Rightarrow> memory_selection_evidence \<Rightarrow> memory_selection_evidence" where
  "mark_decision = (\<lambda>(c, d) e.
     let e = e\<lparr>me_rank_millionths := Some (rm_rank_millionths c), me_reasons := ranking_reasons c\<rparr> in
     case d of
       Inl reason \<Rightarrow> e\<lparr>me_exclusion_reason := Some reason\<rparr>
     | Inr lane \<Rightarrow> e\<lparr>me_selected := True, me_lane := Some lane, me_exclusion_reason := None\<rparr>)"

definition decision_key :: "ranked_memory \<times> decision \<Rightarrow> str" where
  "decision_key = (\<lambda>(c, d). mr_id (rm_record c))"

definition selected_of :: "(ranked_memory \<times> decision) list \<Rightarrow> selected_memory_record list" where
  "selected_of ds = concat (map (\<lambda>(c, d).
     case d of Inl _ \<Rightarrow> [] | Inr lane \<Rightarrow> [selected_record c lane (ranking_reasons c)]) ds)"

lemma selected_of_simps [simp]:
  "selected_of [] = []"
  "selected_of ((c, Inl reason) # ds) = selected_of ds"
  "selected_of ((c, Inr lane) # ds) = selected_record c lane (ranking_reasons c) # selected_of ds"
  by (simp_all add: selected_of_def)

lemma map_fst_admit [simp]: "map fst (admit profile ue us n cs) = cs"
  by (induction cs arbitrary: ue us n) (simp_all add: Let_def)

lemma decide_Inr_fits:
  assumes "decide profile ue us n c = Inr lane"
  shows "ue + episodic_cost (c, Inr lane) \<le> max (max_tokens (mp_episodic_budget profile)) ue"
    and "us + semantic_cost (c, Inr lane) \<le> max (max_tokens (mp_semantic_budget profile)) us"
    and "ue \<le> u32_max \<Longrightarrow> ue + episodic_cost (c, Inr lane) \<le> u32_max"
    and "us \<le> u32_max \<Longrightarrow> us + semantic_cost (c, Inr lane) \<le> u32_max"
    and "n + ordinary_count (c, Inr lane) \<le> max (mp_retrieval_count profile) n"
    and "rm_pinned c \<longleftrightarrow> lane = Lane_Pinned"
  using assms
  by (auto simp: decide_def result_simps choose_lane_def fits_budget_def Let_def width_simps
      episodic_cost_def semantic_cost_def ordinary_count_def split: if_splits option.splits)

lemma admit_step_decide:
  assumes "bt_get (mst_evidence st) (mr_id (rm_record c)) \<noteq> None"
    and "mst_used_episodic_tokens st \<le> u32_max" and "mst_used_semantic_tokens st \<le> u32_max"
    and "mp_retrieval_count profile \<le> u32_max"
    and d: "d = decide profile (mst_used_episodic_tokens st) (mst_used_semantic_tokens st)
      (mst_ordinary_selected st) c"
  shows "admit_step profile st c = Inr
    \<lparr>mst_evidence = bt_modify (mr_id (rm_record c)) (mark_decision (c, d)) (mst_evidence st),
     mst_selected = mst_selected st @ selected_of [(c, d)],
     mst_used_episodic_tokens = mst_used_episodic_tokens st + episodic_cost (c, d),
     mst_used_semantic_tokens = mst_used_semantic_tokens st + semantic_cost (c, d),
     mst_ordinary_selected = mst_ordinary_selected st + ordinary_count (c, d)\<rparr>"
proof -
  let ?k = "mr_id (rm_record c)"
  obtain item where item: "bt_get (mst_evidence st) ?k = Some item" using assms(1) by auto
  have const: "bt_modify ?k (\<lambda>_. f item) (mst_evidence st) = bt_modify ?k f (mst_evidence st)" for f
    using item by (rule bt_modify_const)
  have mark: "bt_modify ?k (mark_decision (c, d)) (mst_evidence st) =
      bt_modify ?k (\<lambda>_. mark_decision (c, d) item) (mst_evidence st)"
    by (simp add: const)
  show ?thesis
  proof (cases "\<not> rm_pinned c \<and> mst_ordinary_selected st \<ge> mp_retrieval_count profile")
    case True
    then have "d = Inl (lit ''memory retrieval count limit reached'')" by (simp add: d decide_def)
    with True item show ?thesis
      unfolding mark by (simp add: admit_step_def Let_def mark_decision_def episodic_cost_def semantic_cost_def ordinary_count_def)
  next
    case False
    then have d': "d = ok_or (lit ''memory record does not fit the remaining token budgets'')
        (choose_lane c profile (mst_used_episodic_tokens st) (mst_used_semantic_tokens st))"
      unfolding d decide_def by (simp only: if_False)
    show ?thesis
    proof (cases "choose_lane c profile (mst_used_episodic_tokens st) (mst_used_semantic_tokens st)")
      case None
      with False item d' show ?thesis
        unfolding mark by (auto simp: admit_step_def Let_def mark_decision_def episodic_cost_def semantic_cost_def ordinary_count_def)
    next
      case (Some lane)
      with d' have dl: "d = Inr lane" by simp
      note fits = decide_Inr_fits [OF d [symmetric, unfolded dl]]
      have sat: "\<not> rm_pinned c \<Longrightarrow>
          saturating_add u32_max (mst_ordinary_selected st) 1 = mst_ordinary_selected st + 1"
        using False assms(4) by (intro saturating_add_exact) simp
      show ?thesis
        using False item Some fits(3,4) assms(2,3) sat unfolding mark unfolding dl
        by (cases lane) (auto simp: admit_step_def Let_def mark_decision_def episodic_cost_def semantic_cost_def
            ordinary_count_def checked_add_def)
    qed
  qed
qed

lemma admit_loop:
  assumes "\<And>c. c \<in> set cs \<Longrightarrow> bt_get (mst_evidence st) (mr_id (rm_record c)) \<noteq> None"
    and "mst_used_episodic_tokens st \<le> u32_max" and "mst_used_semantic_tokens st \<le> u32_max"
    and "mp_retrieval_count profile \<le> u32_max"
    and "ds = admit profile (mst_used_episodic_tokens st) (mst_used_semantic_tokens st)
      (mst_ordinary_selected st) cs"
  shows "try_fold (admit_step profile) st cs = Inr
    \<lparr>mst_evidence = fold (\<lambda>x. bt_modify (decision_key x) (mark_decision x)) ds (mst_evidence st),
     mst_selected = mst_selected st @ selected_of ds,
     mst_used_episodic_tokens = mst_used_episodic_tokens st + sum_list (map episodic_cost ds),
     mst_used_semantic_tokens = mst_used_semantic_tokens st + sum_list (map semantic_cost ds),
     mst_ordinary_selected = mst_ordinary_selected st + sum_list (map ordinary_count ds)\<rparr>"
  using assms
proof (induction cs arbitrary: st ds)
  case (Cons c cs)
  define d where "d = decide profile (mst_used_episodic_tokens st) (mst_used_semantic_tokens st)
      (mst_ordinary_selected st) c"
  have has: "bt_get (mst_evidence st) (mr_id (rm_record c)) \<noteq> None" using Cons.prems(1) by simp
  define st' where "st' =
    \<lparr>mst_evidence = bt_modify (mr_id (rm_record c)) (mark_decision (c, d)) (mst_evidence st),
     mst_selected = mst_selected st @ selected_of [(c, d)],
     mst_used_episodic_tokens = mst_used_episodic_tokens st + episodic_cost (c, d),
     mst_used_semantic_tokens = mst_used_semantic_tokens st + semantic_cost (c, d),
     mst_ordinary_selected = mst_ordinary_selected st + ordinary_count (c, d)\<rparr>"
  define ds' where "ds' = admit profile (mst_used_episodic_tokens st')
      (mst_used_semantic_tokens st') (mst_ordinary_selected st') cs"
  have step: "admit_step profile st c = Inr st'"
    unfolding st'_def by (rule admit_step_decide [OF has Cons.prems(2-4) d_def])
  have bounds: "mst_used_episodic_tokens st + episodic_cost (c, d) \<le> u32_max"
    "mst_used_semantic_tokens st + semantic_cost (c, d) \<le> u32_max"
    using decide_Inr_fits(3,4) [OF d_def [symmetric, THEN trans]] Cons.prems(2,3)
    by (cases d; simp add: episodic_cost_def semantic_cost_def)+
  have sel: "selected_of ((c, d) # xs) = selected_of [(c, d)] @ selected_of xs" for xs
    by (simp add: selected_of_def)
  have keys: "bt_get (bt_modify (mr_id (rm_record c)) f (mst_evidence st)) (mr_id (rm_record c')) \<noteq> None"
    if "c' \<in> set cs" for c' f
    using Cons.prems(1) [of c'] has that by (simp add: bt_get_modify)
  have ih: "try_fold (admit_step profile) st' cs = Inr
    \<lparr>mst_evidence = fold (\<lambda>x. bt_modify (decision_key x) (mark_decision x)) ds' (mst_evidence st'),
     mst_selected = mst_selected st' @ selected_of ds',
     mst_used_episodic_tokens = mst_used_episodic_tokens st' + sum_list (map episodic_cost ds'),
     mst_used_semantic_tokens = mst_used_semantic_tokens st' + sum_list (map semantic_cost ds'),
     mst_ordinary_selected = mst_ordinary_selected st' + sum_list (map ordinary_count ds')\<rparr>"
    by (rule Cons.IH) (use Cons.prems(4) bounds keys in \<open>simp_all add: st'_def ds'_def\<close>)
  have ds: "ds = (c, d) # ds'"
    using Cons.prems(5) by (simp add: Let_def d_def ds'_def st'_def)
  have "decision_key (c, d) = mr_id (rm_record c)" by (simp add: decision_key_def)
  with ih show ?case unfolding ds by (simp add: step sel [of ds'] st'_def)
qed (simp add: admit_step_def)

subsection \<open>A selection as a table over the records\<close>

definition evidence_of ::
  "memory_selection_context \<Rightarrow> (str, nat) btree_map \<Rightarrow> (ranked_memory \<times> decision) list \<Rightarrow>
     memory_record \<Rightarrow> memory_selection_evidence" where
  "evidence_of context lineage ds r =
     (let e = mark_range context lineage r (initial_memory_evidence context r) in
      case find (\<lambda>x. decision_key x = mr_id r) ds of None \<Rightarrow> e | Some x \<Rightarrow> mark_decision x e)"

definition selection_table ::
  "memory_selection_context \<Rightarrow> (str, nat) btree_map \<Rightarrow> memory_record list \<Rightarrow>
     (ranked_memory \<times> decision) list \<Rightarrow> memory_selection" where
  "selection_table context lineage rs ds =
     \<lparr>msel_selected = selected_of ds, msel_evidence = map (evidence_of context lineage ds) rs,
      msel_used_episodic_tokens = sum_list (map episodic_cost ds),
      msel_used_semantic_tokens = sum_list (map semantic_cost ds)\<rparr>"

lemma me_record_id_evidence_of [simp]: "me_record_id (evidence_of context lineage ds r) = mr_id r"
  by (auto simp: evidence_of_def mark_decision_def mark_range_def eligible_range_def
      initial_memory_evidence_def Let_def split: option.split sum.split)

lemma decision_keys:
  assumes "rank_all profile context lineage scores rs = Inr cs" and "distinct (map mr_id rs)"
  shows "distinct (map decision_key (admit profile ue us n (sort_by cmp_ranked cs)))"
    and "decision_key ` set (admit profile ue us n (sort_by cmp_ranked cs)) \<subseteq> mr_id ` set rs"
proof -
  let ?ds = "admit profile ue us n (sort_by cmp_ranked cs)" and ?id = "\<lambda>c. mr_id (rm_record c)"
  have "map decision_key ?ds = map ?id (map fst ?ds)"
    by (simp add: comp_def decision_key_def case_prod_unfold del: map_fst_admit)
  then have keys: "map decision_key ?ds = map ?id (sort_by cmp_ranked cs)" by simp
  have recs: "map ?id cs = map mr_id (filter (\<lambda>r. is_ok (source_range r context lineage)) rs)"
    using rank_all_Inr(1) [OF assms(1), THEN arg_cong [of _ _ "map mr_id"]] by (simp add: comp_def)
  have "distinct (map ?id cs)" unfolding recs using assms(2) by (rule distinct_map_filter)
  moreover have "mset (map ?id (sort_by cmp_ranked cs)) = mset (map ?id cs)" by simp
  ultimately show "distinct (map decision_key ?ds)"
    unfolding keys using mset_eq_imp_distinct_iff by blast
  have "set (map decision_key ?ds) \<subseteq> set (map mr_id rs)"
    unfolding keys using recs [THEN arg_cong [of _ _ set]] by auto
  then show "decision_key ` set ?ds \<subseteq> mr_id ` set rs" by simp
qed

lemma sort_evidence_table:
  assumes "sorted_wrt (<) (map mr_id rs)" and "\<And>r. me_record_id (f r) = mr_id r"
  shows "sort_by (cmp_on me_record_id) (map f rs) = map f rs"
proof (rule by_key.sort_by_sorted)
  have "sorted_wrt (\<lambda>x y. mr_id x < mr_id y) rs" using assms(1) by (simp add: sorted_wrt_map)
  then show "sorted_wrt (\<lambda>x y. cmp_on me_record_id x y \<noteq> Greater) (map f rs)"
    by (simp add: sorted_wrt_map assms(2) cmp_on_def sorted_wrt_mono_rel [rotated])
qed

lemma select_loops:
  assumes "sorted_wrt (<) (map mr_id rs)" and "mp_retrieval_count profile \<le> u32_max"
  shows "result_bind
     (try_fold (rank_step profile context lineage scores)
       (bt_collect (map (\<lambda>r. (mr_id r, initial_memory_evidence context r)) rs), []) rs)
     (\<lambda>(evidence, ranked). result_bind
       (try_fold (admit_step profile)
         \<lparr>mst_evidence = evidence, mst_selected = [], mst_used_episodic_tokens = 0,
          mst_used_semantic_tokens = 0, mst_ordinary_selected = 0\<rparr>
         (sort_by cmp_ranked ranked))
       (\<lambda>st. Inr \<lparr>msel_selected = mst_selected st,
          msel_evidence = sort_by (cmp_on me_record_id) (map snd (mst_evidence st)),
          msel_used_episodic_tokens = mst_used_episodic_tokens st,
          msel_used_semantic_tokens = mst_used_semantic_tokens st\<rparr>)) =
   result_bind (rank_all profile context lineage scores rs) (\<lambda>cs.
     Inr (selection_table context lineage rs (admit profile 0 0 0 (sort_by cmp_ranked cs))))"
proof (cases "rank_all profile context lineage scores rs")
  case (Inr cs)
  let ?e = "initial_memory_evidence context" and ?m = "mark_range context lineage"
  define ds where "ds = admit profile 0 0 0 (sort_by cmp_ranked cs)"
  have dist: "distinct (map mr_id rs)" using assms(1) strict_sorted_iff by blast
  note keys = decision_keys [OF Inr dist, of 0 0 0, folded ds_def]
  have marked: "fold (\<lambda>r. bt_modify (mr_id r) (?m r)) rs (map (\<lambda>r. (mr_id r, ?e r)) rs) =
      map (\<lambda>r. (mr_id r, ?m r (?e r))) rs"
  proof -
    have found: "find (\<lambda>x. mr_id x = mr_id r) rs = Some r" if "r \<in> set rs" for r
      using find_map_distinct [OF dist, of "mr_id r" r] that by simp
    show ?thesis
      unfolding fold_bt_modify_table [OF dist dist, of ?m] using found by (intro map_cong) simp_all
  qed
  have get1: "bt_get (map (\<lambda>r. (mr_id r, f r)) rs) (mr_id r) \<noteq> None" if "r \<in> set rs"
    for f :: "memory_record \<Rightarrow> memory_selection_evidence" and r
    unfolding bt_get_table [OF dist that] by simp
  have cs_rs: "rm_record ` set cs \<subseteq> set rs"
    using rank_all_Inr(1) [OF Inr, THEN arg_cong [of _ _ set]] by auto
  let ?st = "\<lparr>mst_evidence = map (\<lambda>r. (mr_id r, ?m r (?e r))) rs, mst_selected = [],
    mst_used_episodic_tokens = 0, mst_used_semantic_tokens = 0, mst_ordinary_selected = 0\<rparr>"
  have get2: "bt_get (mst_evidence ?st) (mr_id (rm_record c)) \<noteq> None"
    if "c \<in> set (sort_by cmp_ranked cs)" for c
    unfolding memory_select_state.select_convs
    by (rule get1) (use cs_rs that in \<open>auto simp del: not_None_eq\<close>)
  have table: "fold (\<lambda>x. bt_modify (decision_key x) (mark_decision x)) ds (mst_evidence ?st) =
      map (\<lambda>r. (mr_id r, evidence_of context lineage ds r)) rs"
    by (simp add: fold_bt_modify_table [OF dist keys(1)] evidence_of_def Let_def)
  have ds0: "ds = admit profile (mst_used_episodic_tokens ?st) (mst_used_semantic_tokens ?st)
      (mst_ordinary_selected ?st) (sort_by cmp_ranked cs)"
    by (simp add: ds_def)
  have loop2: "try_fold (admit_step profile) ?st (sort_by cmp_ranked cs) = Inr
    \<lparr>mst_evidence = map (\<lambda>r. (mr_id r, evidence_of context lineage ds r)) rs,
     mst_selected = selected_of ds, mst_used_episodic_tokens = sum_list (map episodic_cost ds),
     mst_used_semantic_tokens = sum_list (map semantic_cost ds),
     mst_ordinary_selected = sum_list (map ordinary_count ds)\<rparr>"
    using admit_loop [OF get2 _ _ assms(2) ds0] unfolding table by simp
  show ?thesis
    by (simp add: bt_collect_table [OF assms(1)] rank_loop [OF get1] Inr marked loop2 comp_def
        sort_evidence_table [OF assms(1)] selection_table_def ds_def [symmetric] del: not_None_eq)
next
  case (Inl e)
  have "distinct (map mr_id rs)" using assms(1) strict_sorted_iff by blast
  then show ?thesis
    using Inl by (subst rank_loop) (simp_all add: bt_collect_table [OF assms(1)] bt_get_table)
qed

lemma validate_profile_Inr:
  assumes "validate_profile hex_ok profile = Inr u"
  shows "memory_profile_validate hex_ok profile = Inr ()"
    and "mp_retrieval_count profile \<le> u32_max" and "0 < mp_retrieval_count profile"
    and "max_tokens (mp_episodic_budget profile) \<le> u32_max"
    and "max_tokens (mp_semantic_budget profile) \<le> u32_max"
proof -
  show v: "memory_profile_validate hex_ok profile = Inr ()"
    using assms by (auto simp: validate_profile_def result_simps)
  show "mp_retrieval_count profile \<le> u32_max" and "0 < mp_retrieval_count profile"
    and "max_tokens (mp_episodic_budget profile) \<le> u32_max"
    and "max_tokens (mp_semantic_budget profile) \<le> u32_max"
    using memory_profile_validate_counts [OF v] by (simp_all add: u32_max_def)
qed

text \<open>The whole of \<open>select\<close>, on every path, with the loops replaced by their pure counterparts.\<close>

lemma memory_select_refines:
  "memory_select hex_ok records profile context =
     result_bind (validate_profile hex_ok profile) (\<lambda>_.
     result_bind (guard_err (length records > MAX_MEMORY_RECORDS_PER_SELECTION) MSE_TooManyRecords) (\<lambda>_.
     result_bind (normalized_records records) (\<lambda>rs.
     result_bind (normalized_lineage (mc_visible_message_ids context)) (\<lambda>lineage.
     result_bind (normalize_memory_scores rs (mc_semantic_scores context)) (\<lambda>scores.
     result_bind (rank_all profile context lineage scores rs) (\<lambda>cs.
     Inr (selection_table context lineage rs (admit profile 0 0 0 (sort_by cmp_ranked cs)))))))))"
  unfolding memory_select_def
  by (intro result_bind_cong refl)
    (simp add: Let_def select_loops validate_profile_Inr normalized_records_sorted)

lemma memory_select_Inr:
  assumes "memory_select hex_ok records profile context = Inr sel"
  obtains rs lineage scores cs where
    "validate_profile hex_ok profile = Inr ()"
    "normalized_records records = Inr rs"
    "normalized_lineage (mc_visible_message_ids context) = Inr lineage"
    "normalize_memory_scores rs (mc_semantic_scores context) = Inr scores"
    "rank_all profile context lineage scores rs = Inr cs"
    "sel = selection_table context lineage rs (admit profile 0 0 0 (sort_by cmp_ranked cs))"
  using assms unfolding memory_select_refines by (auto simp: result_simps)

subsection \<open>Decisions\<close>

lemma decide_bounds:
  fixes profile ue us n c
  defines "d \<equiv> decide profile ue us n c"
  shows "ue + episodic_cost (c, d) \<le> max (max_tokens (mp_episodic_budget profile)) ue"
    and "us + semantic_cost (c, d) \<le> max (max_tokens (mp_semantic_budget profile)) us"
    and "n + ordinary_count (c, d) \<le> max (mp_retrieval_count profile) n"
proof -
  have "ue + episodic_cost (c, d) \<le> max (max_tokens (mp_episodic_budget profile)) ue \<and>
    us + semantic_cost (c, d) \<le> max (max_tokens (mp_semantic_budget profile)) us \<and>
    n + ordinary_count (c, d) \<le> max (mp_retrieval_count profile) n"
  proof (cases d)
    case (Inr lane)
    then show ?thesis using decide_Inr_fits(1,2,5) [of profile ue us n c lane] by (simp add: d_def)
  qed (simp add: episodic_cost_def semantic_cost_def ordinary_count_def)
  then show "ue + episodic_cost (c, d) \<le> max (max_tokens (mp_episodic_budget profile)) ue"
    and "us + semantic_cost (c, d) \<le> max (max_tokens (mp_semantic_budget profile)) us"
    and "n + ordinary_count (c, d) \<le> max (mp_retrieval_count profile) n" by blast+
qed

lemma admit_bounds:
  "ue + sum_list (map episodic_cost (admit profile ue us n cs))
     \<le> max (max_tokens (mp_episodic_budget profile)) ue \<and>
   us + sum_list (map semantic_cost (admit profile ue us n cs))
     \<le> max (max_tokens (mp_semantic_budget profile)) us \<and>
   n + sum_list (map ordinary_count (admit profile ue us n cs))
     \<le> max (mp_retrieval_count profile) n"
proof (induction cs arbitrary: ue us n)
  case (Cons c cs)
  define d where "d = decide profile ue us n c"
  define ds where "ds = admit profile (ue + episodic_cost (c, d)) (us + semantic_cost (c, d))
    (n + ordinary_count (c, d)) cs"
  have ds: "admit profile ue us n (c # cs) = (c, d) # ds" by (simp add: d_def ds_def Let_def)
  note ih = Cons.IH [of "ue + episodic_cost (c, d)" "us + semantic_cost (c, d)"
      "n + ordinary_count (c, d)", folded ds_def]
  note step = decide_bounds [where ue = ue and us = us and n = n and c = c and profile = profile,
      folded d_def]
  have mono: "u + a + b \<le> max m (u + a) \<Longrightarrow> u + a \<le> max m u \<Longrightarrow> u + (a + b) \<le> max m u"
    for a b m u :: nat
    by linarith
  show ?case
    unfolding ds list.map sum_list.Cons using ih step mono by blast
qed simp

lemma admit_Inr_lane:
  assumes "(c, Inr lane) \<in> set (admit profile ue us n cs)"
  shows "rm_pinned c \<longleftrightarrow> lane = Lane_Pinned"
  using assms
proof (induction cs arbitrary: ue us n)
  case (Cons c' cs)
  then show ?case using decide_Inr_fits(6) [of profile ue us n c' lane] by (auto simp: Let_def)
qed simp

lemma selected_of_costs:
  assumes "\<And>c lane. (c, Inr lane) \<in> set ds \<Longrightarrow> rm_pinned c \<longleftrightarrow> lane = Lane_Pinned"
  shows "sum_list (map episodic_cost ds) =
      sum_list (map sm_estimated_tokens (filter (\<lambda>s. sm_lane s \<noteq> Lane_Semantic) (selected_of ds)))"
    and "sum_list (map semantic_cost ds) =
      sum_list (map sm_estimated_tokens (filter (\<lambda>s. sm_lane s = Lane_Semantic) (selected_of ds)))"
    and "sum_list (map ordinary_count ds) =
      length (filter (\<lambda>s. sm_lane s \<noteq> Lane_Pinned) (selected_of ds))"
proof -
  have "sum_list (map episodic_cost ds) =
      sum_list (map sm_estimated_tokens (filter (\<lambda>s. sm_lane s \<noteq> Lane_Semantic) (selected_of ds))) \<and>
    sum_list (map semantic_cost ds) =
      sum_list (map sm_estimated_tokens (filter (\<lambda>s. sm_lane s = Lane_Semantic) (selected_of ds))) \<and>
    sum_list (map ordinary_count ds) =
      length (filter (\<lambda>s. sm_lane s \<noteq> Lane_Pinned) (selected_of ds))"
    using assms
  proof (induction ds)
    case (Cons x ds)
    obtain c d where x: "x = (c, d)" by (cases x)
    have ih: "sum_list (map episodic_cost ds) =
      sum_list (map sm_estimated_tokens (filter (\<lambda>s. sm_lane s \<noteq> Lane_Semantic) (selected_of ds))) \<and>
    sum_list (map semantic_cost ds) =
      sum_list (map sm_estimated_tokens (filter (\<lambda>s. sm_lane s = Lane_Semantic) (selected_of ds))) \<and>
    sum_list (map ordinary_count ds) =
      length (filter (\<lambda>s. sm_lane s \<noteq> Lane_Pinned) (selected_of ds))"
      by (rule Cons.IH) (simp add: Cons.prems)
    show ?case
    proof (cases d)
      case (Inl r)
      with ih x show ?thesis by (simp add: episodic_cost_def semantic_cost_def ordinary_count_def)
    next
      case (Inr lane)
      then have "rm_pinned c \<longleftrightarrow> lane = Lane_Pinned" using Cons.prems x by simp
      with Inr ih x show ?thesis
        by (simp add: episodic_cost_def semantic_cost_def ordinary_count_def selected_record_def)
    qed
  qed simp
  then show "sum_list (map episodic_cost ds) =
      sum_list (map sm_estimated_tokens (filter (\<lambda>s. sm_lane s \<noteq> Lane_Semantic) (selected_of ds)))"
    and "sum_list (map semantic_cost ds) =
      sum_list (map sm_estimated_tokens (filter (\<lambda>s. sm_lane s = Lane_Semantic) (selected_of ds)))"
    and "sum_list (map ordinary_count ds) =
      length (filter (\<lambda>s. sm_lane s \<noteq> Lane_Pinned) (selected_of ds))" by blast+
qed

lemma set_selected_of:
  "s \<in> set (selected_of ds) \<longleftrightarrow>
     (\<exists>c lane. (c, Inr lane) \<in> set ds \<and> s = selected_record c lane (ranking_reasons c))"
  by (fastforce simp: selected_of_def split: sum.splits)

lemma subseq_selected_of:
  "\<exists>cs. subseq cs (map fst ds) \<and> map sm_record_id (selected_of ds) = map (\<lambda>c. mr_id (rm_record c)) cs"
proof (induction ds)
  case (Cons x ds)
  then obtain cs where cs: "subseq cs (map fst ds)"
    "map sm_record_id (selected_of ds) = map (\<lambda>c. mr_id (rm_record c)) cs" by auto
  obtain c d where x: "x = (c, d)" by (cases x)
  show ?case
  proof (cases d)
    case (Inl r)
    with cs x show ?thesis by (auto intro: subseq_Cons')
  next
    case (Inr lane)
    with cs x have "subseq (c # cs) (map fst (x # ds))" by simp
    moreover have "map sm_record_id (selected_of (x # ds)) = map (\<lambda>c. mr_id (rm_record c)) (c # cs)"
      using Inr cs x by (simp add: selected_record_def)
    ultimately show ?thesis by blast
  qed
qed simp

lemma distinct_subseq: "distinct ys \<Longrightarrow> subseq xs ys \<Longrightarrow> distinct xs"
  by (metis distinct_nthsI subseq_conv_nths)

lemma distinct_selected_of:
  assumes "distinct (map decision_key ds)"
  shows "distinct (map sm_record_id (selected_of ds))"
proof -
  obtain cs where cs: "subseq cs (map fst ds)"
    "map sm_record_id (selected_of ds) = map (\<lambda>c. mr_id (rm_record c)) cs"
    using subseq_selected_of by blast
  have "distinct (map (\<lambda>c. mr_id (rm_record c)) (map fst ds))"
    using assms by (simp add: decision_key_def [abs_def] case_prod_unfold comp_def)
  moreover have "subseq (map (\<lambda>c. mr_id (rm_record c)) cs) (map (\<lambda>c. mr_id (rm_record c)) (map fst ds))"
    using cs(1) by (rule subseq_map)
  ultimately have "distinct (map (\<lambda>c. mr_id (rm_record c)) cs)" by (rule distinct_subseq)
  then show ?thesis by (simp add: cs(2))
qed

subsection \<open>Branch visibility\<close>

text \<open>
  A record may be used when it belongs to the conversation, is neither invalidated nor excluded,
  and its source range is a forward range of the visible lineage.
\<close>

definition branch_visible :: "memory_selection_context \<Rightarrow> memory_record \<Rightarrow> bool" where
  "branch_visible context r \<longleftrightarrow>
     mr_conversation_id r = mc_conversation_id context \<and> mr_invalidated_at r = None \<and>
     \<not> mr_excluded_from_conversation r \<and> \<not> mr_excluded_from_character r \<and>
     (\<exists>i j. i \<le> j \<and> j < length (mc_visible_message_ids context) \<and>
       mc_visible_message_ids context ! i = mr_source_start_message_id r \<and>
       mc_visible_message_ids context ! j = mr_source_end_message_id r)"

lemma normalized_lineage_Inr:
  assumes "normalized_lineage ids = Inr lineage"
  shows "index_lineage MSE_DuplicateLineageMessage ids = Inr lineage"
    and "length ids \<le> MAX_VISIBLE_MEMORY_LINEAGE_MESSAGES"
  using assms by (auto simp: normalized_lineage_def split: if_splits)

lemma source_range_visible:
  assumes "normalized_lineage (mc_visible_message_ids context) = Inr lineage"
  shows "is_ok (source_range r context lineage) \<longleftrightarrow> branch_visible context r"
proof -
  note get = index_lineage_Inr(4) [OF normalized_lineage_Inr(1) [OF assms]]
  have "is_ok (source_range r context lineage) \<longleftrightarrow>
     mr_conversation_id r = mc_conversation_id context \<and> mr_invalidated_at r = None \<and>
     \<not> mr_excluded_from_conversation r \<and> \<not> mr_excluded_from_character r \<and>
     (\<exists>i j. bt_get lineage (mr_source_start_message_id r) = Some i \<and>
       bt_get lineage (mr_source_end_message_id r) = Some j \<and> i \<le> j)"
    by (cases "bt_get lineage (mr_source_start_message_id r)";
        cases "bt_get lineage (mr_source_end_message_id r)") (simp_all add: source_range_def)
  moreover have "(\<exists>i j. (i < n \<and> P i) \<and> (j < n \<and> Q j) \<and> i \<le> j) \<longleftrightarrow>
      (\<exists>i j. i \<le> j \<and> j < n \<and> P i \<and> Q j)" for P Q :: "nat \<Rightarrow> bool" and n
    using le_less_trans by blast
  ultimately show ?thesis unfolding branch_visible_def get by simp
qed

lemma source_range_Inr:
  assumes "normalized_lineage (mc_visible_message_ids context) = Inr lineage"
    and "source_range r context lineage = Inr (i, j)"
  shows "i \<le> j" and "j < length lineage" and "branch_visible context r"
proof -
  note lin = index_lineage_Inr [OF normalized_lineage_Inr(1) [OF assms(1)]]
  show "i \<le> j" and "j < length lineage"
    using assms(2) lin(3,4) by (auto simp: source_range_def split: if_splits option.splits)
  show "branch_visible context r"
    using source_range_visible [OF assms(1), of r] assms(2) by simp
qed

subsection \<open>Scores and ranks stay in range\<close>

lemma normalized_recency_bound:
  assumes "j < n" and "n \<le> MAX_VISIBLE_MEMORY_LINEAGE_MESSAGES"
  shows "normalized_recency j n \<le> 1000000"
proof (cases "n \<le> 1")
  case False
  have "j * 1000000 \<le> u64_max"
    using assms by (simp add: MAX_VISIBLE_MEMORY_LINEAGE_MESSAGES_def u64_max_def)
  then have "(j * 1000000) mod (u64_max + 1) = j * 1000000" by simp
  moreover have "j * 1000000 div (n - 1) \<le> (n - 1) * 1000000 div (n - 1)"
    using assms(1) by (intro div_le_mono mult_le_mono1) simp
  ultimately show ?thesis using False by (simp add: normalized_recency_def try_from_or_def)
qed (simp add: normalized_recency_def)

lemma weight_to_millionths_Inr:
  assumes "float_in_range 0 1000000 w"
  shows "\<exists>m \<le> 1000000000000. weight_to_millionths w = Inr m"
proof -
  from assms obtain r where r: "w = Finite r" "0 \<le> r" "r \<le> 1000000" by (cases w) auto
  have "round_half_away (r * 1000000) \<le> round_half_away (of_int 1000000000000)"
    using r by (intro round_half_away_mono) auto
  then have "millionths_as u64_max w \<le> 1000000000000"
    using r by (simp only: millionths_as.simps round_half_away_of_int)
  with r show ?thesis by (auto simp: weight_to_millionths_def)
qed

lemma weighted_rank_Inr:
  assumes "a \<le> 1000000" and "b \<le> 1000000" and "c \<le> 1000000"
    and "\<And>w. w \<in> set (memory_profile_weights profile) \<Longrightarrow> float_in_range 0 1000000 w"
  shows "\<exists>rank. weighted_rank a b c profile = Inr rank"
proof -
  define step :: "nat \<Rightarrow> nat \<times> float \<Rightarrow> (memory_selection_error, nat) result"
    where "step = (\<lambda>total (component, weight).
       result_bind (weight_to_millionths weight) (\<lambda>weight_millionths.
       result_bind (ok_or MSE_RankingScoreOverflow (checked_mul u64_max component weight_millionths))
         (\<lambda>product. ok_or MSE_RankingScoreOverflow (checked_add u64_max total (product div 1000000)))))"
  have step: "\<exists>t'. step t (x, w) = Inr t' \<and> t' \<le> t + 1000000000000"
    if x: "x \<le> 1000000" and w: "float_in_range 0 1000000 w" and t: "t \<le> 2000000000000" for t x w
  proof -
    obtain m where m: "m \<le> 1000000000000" "weight_to_millionths w = Inr m"
      using weight_to_millionths_Inr [OF w] by auto
    have le: "x * m \<le> 1000000 * 1000000000000" using x m by (intro mult_le_mono)
    then have "x * m div 1000000 \<le> 1000000 * 1000000000000 div 1000000" by (rule div_le_mono)
    with m le t show ?thesis
      by (auto simp: step_def checked_mul_def checked_add_def u64_max_def)
  qed
  have ws: "float_in_range 0 1000000 (mp_recency_weight profile)"
    "float_in_range 0 1000000 (mp_similarity_weight profile)"
    "float_in_range 0 1000000 (mp_importance_weight profile)"
    using assms(4) by (simp_all add: memory_profile_weights_def)
  obtain t1 where t1: "step 0 (a, mp_recency_weight profile) = Inr t1" "t1 \<le> 1000000000000"
    using step [OF assms(1) ws(1), of 0] by auto
  obtain t2 where t2: "step t1 (b, mp_similarity_weight profile) = Inr t2" "t2 \<le> 2000000000000"
    using step [OF assms(2) ws(2), of t1] t1(2) by auto
  obtain t3 where t3: "step t2 (c, mp_importance_weight profile) = Inr t3"
    using step [OF assms(3) ws(3) t2(2)] by auto
  have "weighted_rank a b c profile = Inr t3"
    unfolding weighted_rank_def step_def [symmetric] by (simp add: t1 t2 t3)
  then show ?thesis by blast
qed

lemma weighted_rank_error: "weighted_rank a b c profile = Inl e \<Longrightarrow> e = MSE_RankingScoreOverflow"
  by (auto simp: weighted_rank_def weight_to_millionths_def result_simps split: if_splits)

lemma normalize_memory_scores_bound:
  assumes "normalize_memory_scores rs supplied = Inr scores" and "bt_get scores k = Some s"
  shows "s \<le> 1000000"
proof -
  have "bt_inv scores \<and> (\<forall>k s. bt_get scores k = Some s \<longrightarrow> s \<le> 1000000)"
    using assms(1) unfolding normalize_memory_scores_def Let_def
  proof (rule try_fold_invariant)
    fix m :: "(str, nat) btree_map" and score m'
    assume "bt_inv m \<and> (\<forall>k s. bt_get m k = Some s \<longrightarrow> s \<le> 1000000)"
    then show "(if mss_record_id score \<notin> mr_id ` set rs then Inr m
        else if \<not> is_finite (mss_score score) \<or> \<not> float_in_range 0 1 (mss_score score)
        then Inl (MSE_InvalidSemanticScore (mss_record_id score))
        else if bt_get m (mss_record_id score) \<noteq> None
        then Inl (MSE_DuplicateSemanticScore (mss_record_id score))
        else Inr (bt_insert (mss_record_id score) (score_to_millionths (mss_score score)) m)) = Inr m'
      \<Longrightarrow> bt_inv m' \<and> (\<forall>k s. bt_get m' k = Some s \<longrightarrow> s \<le> 1000000)"
      by (auto simp: btree.inv_insert btree.get_insert score_to_millionths_unit split: if_splits)
  qed (simp add: btree.inv_empty)
  with assms(2) show ?thesis by blast
qed

lemma normalize_memory_scores_keys:
  assumes "normalize_memory_scores rs supplied = Inr scores" and "r \<in> set rs"
  shows "bt_get scores (mr_id r) \<noteq> None \<longleftrightarrow> mr_id r \<in> mss_record_id ` set supplied"
proof -
  have "bt_inv scores \<and> (bt_get scores (mr_id r) \<noteq> None \<longleftrightarrow> mr_id r \<in> mss_record_id ` set supplied)"
    using assms(1)
  proof (induction supplied arbitrary: scores rule: rev_induct)
    case (snoc x xs)
    from snoc.prems obtain m where m: "normalize_memory_scores rs xs = Inr m"
      and step: "(if mss_record_id x \<notin> mr_id ` set rs then Inr m
        else if \<not> is_finite (mss_score x) \<or> \<not> float_in_range 0 1 (mss_score x)
        then Inl (MSE_InvalidSemanticScore (mss_record_id x))
        else if bt_get m (mss_record_id x) \<noteq> None
        then Inl (MSE_DuplicateSemanticScore (mss_record_id x))
        else Inr (bt_insert (mss_record_id x) (score_to_millionths (mss_score x)) m)) = Inr scores"
      by (auto simp: normalize_memory_scores_def Let_def try_fold_append result_simps)
    have "mss_record_id x \<noteq> mr_id r" if "mss_record_id x \<notin> mr_id ` set rs"
      using that assms(2) by auto
    with snoc.IH [OF m] step show ?case
      by (auto simp: btree.inv_insert btree.get_insert split: if_splits)
  qed (simp add: normalize_memory_scores_def btree.inv_empty)
  then show ?thesis by blast
qed

lemma normalize_memory_scores_total:
  assumes "\<And>s. s \<in> set supplied \<Longrightarrow> mss_record_id s \<in> mr_id ` set rs \<Longrightarrow> float_in_range 0 1 (mss_score s)"
    and "distinct (map mss_record_id (filter (\<lambda>s. mss_record_id s \<in> mr_id ` set rs) supplied))"
  shows "\<exists>scores. normalize_memory_scores rs supplied = Inr scores \<and> bt_inv scores \<and>
    fst ` set scores = mss_record_id ` {s \<in> set supplied. mss_record_id s \<in> mr_id ` set rs}"
  using assms
proof (induction supplied rule: rev_induct)
  case (snoc x xs)
  let ?known = "\<lambda>s. mss_record_id s \<in> mr_id ` set rs"
  have "\<exists>scores. normalize_memory_scores rs xs = Inr scores \<and> bt_inv scores \<and>
    fst ` set scores = mss_record_id ` {s \<in> set xs. ?known s}"
    using snoc.prems by (intro snoc.IH) auto
  then obtain m where m: "normalize_memory_scores rs xs = Inr m" "bt_inv m"
    "fst ` set m = mss_record_id ` {s \<in> set xs. ?known s}" by blast
  have fin: "float_in_range 0 1 f \<Longrightarrow> is_finite f" for f by (cases f) auto
  have fresh: "bt_get m (mss_record_id x) = None" if "?known x"
    using snoc.prems(2) that m(3) by (auto simp: map_of_eq_None_iff)
  have keys: "mss_record_id ` {s \<in> set (xs @ [x]). ?known s} =
    (if ?known x then insert (mss_record_id x) (fst ` set m) else fst ` set m)"
    using m(3) by auto
  show ?case
    using m(1,2) fresh fin snoc.prems(1) [of x] unfolding keys
    by (auto simp: normalize_memory_scores_def Let_def try_fold_append btree.inv_insert)
qed (simp add: normalize_memory_scores_def btree.inv_empty)

subsection \<open>Decisions and records correspond\<close>

lemma fst_set_admit: "fst ` set (admit profile ue us n cs) = set cs"
  by (metis list.set_map map_fst_admit)

lemma fst_decision: "(c, d) \<in> set (admit profile ue us n cs) \<Longrightarrow> c \<in> set cs"
  using fst_set_admit [of profile ue us n cs] by force

lemma decision_exists: "c \<in> set cs \<Longrightarrow> \<exists>d. (c, d) \<in> set (admit profile ue us n cs)"
  using fst_set_admit [of profile ue us n cs] by force

lemma decision_record:
  assumes "rank_all profile context lineage scores rs = Inr cs"
    and "(c, d) \<in> set (admit profile ue us n (sort_by cmp_ranked cs))"
  shows "rm_record c \<in> set rs" and "is_ok (source_range (rm_record c) context lineage)"
    and "\<exists>j. rank_record profile context (length lineage) scores (rm_record c) j = Inr c"
proof -
  have c: "c \<in> set cs" using fst_decision [OF assms(2)] by simp
  then have "rm_record c \<in> set (map rm_record cs)" by simp
  then show "rm_record c \<in> set rs" and "is_ok (source_range (rm_record c) context lineage)"
    unfolding rank_all_Inr(1) [OF assms(1)] by simp_all
  show "\<exists>j. rank_record profile context (length lineage) scores (rm_record c) j = Inr c"
    using rank_all_Inr(2) [OF assms(1) c] by blast
qed

lemma record_decision:
  assumes "rank_all profile context lineage scores rs = Inr cs" and "r \<in> set rs"
    and "is_ok (source_range r context lineage)"
  shows "\<exists>c d. (c, d) \<in> set (admit profile ue us n (sort_by cmp_ranked cs)) \<and> rm_record c = r"
proof -
  have "r \<in> set (map rm_record cs)" unfolding rank_all_Inr(1) [OF assms(1)] using assms(2,3) by simp
  then obtain c where "c \<in> set (sort_by cmp_ranked cs)" "rm_record c = r" by auto
  then show ?thesis using decision_exists by blast
qed

lemma rank_record_fields:
  assumes "rank_record profile context n scores r j = Inr c"
  shows "rm_record c = r" and "rm_estimated_tokens c = memory_tokens r (mc_token_estimates context)"
    and "rm_pinned c \<longleftrightarrow> mr_pinned r \<or> mr_kind r = CreatorPinned"
    and "rm_similarity_millionths c = bt_get scores (mr_id r)"
    and "rm_shared_ancestor c \<longleftrightarrow> mr_branch_id r \<noteq> mc_branch_id context"
  using assms by (auto simp: rank_record_def Let_def result_simps split: if_splits)

lemma evidence_of_decided:
  assumes "distinct (map decision_key ds)" and "(c, d) \<in> set ds"
    and "is_ok (source_range (rm_record c) context lineage)"
  shows "evidence_of context lineage ds (rm_record c) =
    mark_decision (c, d) (initial_memory_evidence context (rm_record c))"
proof -
  have "find (\<lambda>x. decision_key x = mr_id (rm_record c)) ds = Some (c, d)"
    using assms(1,2) find_map_distinct [of decision_key ds "mr_id (rm_record c)" "(c, d)"]
    by (simp add: decision_key_def)
  with assms(3) show ?thesis
    by (auto simp: evidence_of_def mark_range_def eligible_range_def split: sum.splits)
qed

lemma evidence_of_ineligible:
  assumes "\<And>c d. (c, d) \<in> set ds \<Longrightarrow> rm_record c \<in> set rs \<and> is_ok (source_range (rm_record c) context lineage)"
    and "distinct (map mr_id rs)" and "r \<in> set rs" and "source_range r context lineage = Inl reason"
  shows "evidence_of context lineage ds r =
    (initial_memory_evidence context r)\<lparr>me_exclusion_reason := Some reason\<rparr>"
proof -
  have "decision_key x \<noteq> mr_id r" if "x \<in> set ds" for x
  proof
    obtain c d where x: "x = (c, d)" by (cases x)
    assume "decision_key x = mr_id r"
    then have "rm_record c = r"
      using assms(1) [of c d] that x assms(2,3) by (auto simp: decision_key_def distinct_map inj_on_def)
    with assms(1) [of c d] that x assms(4) show False by auto
  qed
  then have "find (\<lambda>x. decision_key x = mr_id r) ds = None" by (auto simp: find_None_iff)
  with assms(4) show ?thesis
    by (simp add: evidence_of_def mark_range_def eligible_range_def)
qed

text \<open>
  A piece of evidence agrees with the selected records when it is marked selected exactly for one
  of them, repeats what is recorded there, and otherwise names a reason for the exclusion.
\<close>

definition evidence_agrees ::
  "selected_memory_record list \<Rightarrow> memory_selection_evidence \<Rightarrow> bool" where
  "evidence_agrees selected e \<longleftrightarrow>
     (if me_selected e
      then me_exclusion_reason e = None \<and>
        (\<exists>s \<in> set selected. sm_record_id s = me_record_id e \<and>
          me_lane e = Some (sm_lane s) \<and> me_rank_millionths e = Some (sm_rank_millionths s) \<and>
          me_estimated_tokens e = sm_estimated_tokens s \<and> me_reasons e = sm_reasons s)
      else me_exclusion_reason e \<noteq> None \<and> me_lane e = None \<and>
        me_record_id e \<notin> sm_record_id ` set selected)"

lemma selected_of_ids:
  "sm_record_id ` set (selected_of ds) = {mr_id (rm_record c) | c lane. (c, Inr lane) \<in> set ds}"
  by (force simp: set_selected_of selected_record_def)

lemma evidence_agrees_decided:
  assumes "distinct (map decision_key ds)" and "(c, d) \<in> set ds" and "rm_record c = r"
    and "is_ok (source_range r context lineage)"
    and "rm_estimated_tokens c = memory_tokens r (mc_token_estimates context)"
  shows "evidence_agrees (selected_of ds) (evidence_of context lineage ds r)"
proof -
  have ev: "evidence_of context lineage ds r = mark_decision (c, d) (initial_memory_evidence context r)"
    using evidence_of_decided [OF assms(1,2)] assms(3,4) by simp
  show ?thesis
  proof (cases d)
    case (Inl reason)
    have "mr_id r \<notin> sm_record_id ` set (selected_of ds)"
    proof
      assume "mr_id r \<in> sm_record_id ` set (selected_of ds)"
      then obtain c' lane where c': "(c', Inr lane) \<in> set ds" "mr_id r = mr_id (rm_record c')"
        unfolding selected_of_ids by blast
      then have "(c', Inr lane) = (c, d)"
        using assms(1-3) by (intro inj_onD [of decision_key "set ds"])
          (simp_all add: distinct_map decision_key_def)
      with Inl show False by simp
    qed
    with Inl ev show ?thesis
      by (simp add: evidence_agrees_def mark_decision_def initial_memory_evidence_def)
  next
    case (Inr lane)
    then have s: "selected_record c lane (ranking_reasons c) \<in> set (selected_of ds)"
      using assms(2) by (auto simp: set_selected_of)
    show ?thesis
      using Inr ev assms(3,5)
      by (simp add: evidence_agrees_def mark_decision_def initial_memory_evidence_def)
        (rule bexI [OF _ s], simp add: selected_record_def)
  qed
qed

lemma evidence_agrees_table:
  assumes "rank_all profile context lineage scores rs = Inr cs" and "distinct (map mr_id rs)"
    and "r \<in> set rs"
  defines "ds \<equiv> admit profile 0 0 0 (sort_by cmp_ranked cs)"
  shows "evidence_agrees (selected_of ds) (evidence_of context lineage ds r)"
proof (cases "source_range r context lineage")
  case (Inl reason)
  note rec = decision_record [OF assms(1), of _ _ 0 0 0, folded ds_def]
  have "mr_id r \<notin> sm_record_id ` set (selected_of ds)"
  proof
    assume "mr_id r \<in> sm_record_id ` set (selected_of ds)"
    then obtain c lane where c: "(c, Inr lane) \<in> set ds" "mr_id r = mr_id (rm_record c)"
      unfolding selected_of_ids by blast
    then have "r = rm_record c" using rec(1) assms(2,3) by (metis distinct_map inj_on_eq_iff)
    with rec(2) [OF c(1)] Inl show False by simp
  qed
  moreover have "evidence_of context lineage ds r =
      (initial_memory_evidence context r)\<lparr>me_exclusion_reason := Some reason\<rparr>"
    using rec assms(2,3) Inl by (intro evidence_of_ineligible) blast+
  ultimately show ?thesis by (simp add: evidence_agrees_def initial_memory_evidence_def)
next
  case (Inr rg)
  obtain c d where cd: "(c, d) \<in> set ds" "rm_record c = r"
    using record_decision [OF assms(1,3), of 0 0 0, folded ds_def] Inr by auto
  then obtain j where "rank_record profile context (length lineage) scores r j = Inr c"
    using decision_record(3) [OF assms(1), of c d 0 0 0, folded ds_def] by blast
  from rank_record_fields(2) [OF this] show ?thesis
    using decision_keys(1) [OF assms(1,2)] cd Inr
    by (intro evidence_agrees_decided) (simp_all add: ds_def)
qed

text \<open>Why a candidate was turned down, in terms of what has been admitted in the end.\<close>

lemma fits_budget_conv: "budget \<le> u32_max \<Longrightarrow> fits_budget used cost budget \<longleftrightarrow> used + cost \<le> budget"
  by (auto simp: fits_budget_def checked_add_def)

lemma admit_rejected:
  assumes "(c, Inl reason) \<in> set (admit profile ue us n cs)"
    and "max_tokens (mp_episodic_budget profile) \<le> u32_max"
    and "max_tokens (mp_semantic_budget profile) \<le> u32_max"
  shows "\<not> rm_pinned c \<and>
      mp_retrieval_count profile \<le> n + sum_list (map ordinary_count (admit profile ue us n cs)) \<or>
    max_tokens (mp_episodic_budget profile)
      < ue + sum_list (map episodic_cost (admit profile ue us n cs)) + rm_estimated_tokens c \<and>
    (\<not> rm_pinned c \<longrightarrow> rm_similarity_millionths c \<noteq> None \<longrightarrow>
      max_tokens (mp_semantic_budget profile)
        < us + sum_list (map semantic_cost (admit profile ue us n cs)) + rm_estimated_tokens c)"
  using assms(1)
proof (induction cs arbitrary: ue us n)
  case (Cons c' cs)
  define d where "d = decide profile ue us n c'"
  define ds where "ds = admit profile (ue + episodic_cost (c', d)) (us + semantic_cost (c', d))
    (n + ordinary_count (c', d)) cs"
  have ds: "admit profile ue us n (c' # cs) = (c', d) # ds" by (simp add: d_def ds_def Let_def)
  show ?case
  proof (cases "(c, Inl reason) \<in> set ds")
    case True
    from Cons.IH [OF True [unfolded ds_def], folded ds_def] show ?thesis
      unfolding ds by (simp add: add.assoc)
  next
    case False
    with Cons.prems ds have here: "c = c'" "d = Inl reason" by simp_all
    then have "decide profile ue us n c = Inl reason" by (simp add: d_def)
    then have "\<not> rm_pinned c \<and> mp_retrieval_count profile \<le> n \<or>
      max_tokens (mp_episodic_budget profile) < ue + rm_estimated_tokens c \<and>
      (\<not> rm_pinned c \<longrightarrow> rm_similarity_millionths c \<noteq> None \<longrightarrow>
        max_tokens (mp_semantic_budget profile) < us + rm_estimated_tokens c)"
      by (auto simp: decide_def choose_lane_def Let_def result_simps
          fits_budget_conv [OF assms(2)] fits_budget_conv [OF assms(3)] split: if_splits)
    then show ?thesis unfolding ds by auto
  qed
qed simp

text \<open>The order in which candidates are considered.\<close>

lemma total_comparator_ranked: "total_comparator cmp_ranked"
  unfolding cmp_ranked_def by (intro total_comparator_intros)

interpretation ranked_order: total_comparator cmp_ranked
  by (rule total_comparator_ranked)

lemma cmp_ranked_le:
  assumes "cmp_ranked c c' \<noteq> Greater"
  shows "rm_pinned c' \<longrightarrow> rm_pinned c"
    and "rm_pinned c = rm_pinned c' \<Longrightarrow> rm_rank_millionths c' \<le> rm_rank_millionths c"
  using assms
  by (auto simp: cmp_ranked_def cmp_then_def cmp_on_def cmp_desc_def cmp_def split: if_splits)

lemma sorted_selected_of:
  assumes "sorted_wrt (\<lambda>c c'. cmp_ranked c c' \<noteq> Greater) (map fst ds)"
    and "\<And>c lane. (c, Inr lane) \<in> set ds \<Longrightarrow> rm_pinned c \<longleftrightarrow> lane = Lane_Pinned"
  shows "sorted_wrt (\<lambda>s t. (sm_lane t = Lane_Pinned \<longrightarrow> sm_lane s = Lane_Pinned) \<and>
      ((sm_lane s = Lane_Pinned) = (sm_lane t = Lane_Pinned) \<longrightarrow>
        sm_rank_millionths t \<le> sm_rank_millionths s)) (selected_of ds)"
  using assms
proof (induction ds)
  case (Cons x ds)
  obtain c d where x: "x = (c, d)" by (cases x)
  have le: "cmp_ranked c c' \<noteq> Greater" if "(c', d') \<in> set ds" for c' d'
    using Cons.prems(1) that x by force
  have ih: "sorted_wrt (\<lambda>s t. (sm_lane t = Lane_Pinned \<longrightarrow> sm_lane s = Lane_Pinned) \<and>
      ((sm_lane s = Lane_Pinned) = (sm_lane t = Lane_Pinned) \<longrightarrow>
        sm_rank_millionths t \<le> sm_rank_millionths s)) (selected_of ds)"
    using Cons.prems by (intro Cons.IH) auto
  show ?case
  proof (cases d)
    case (Inl r)
    with x ih show ?thesis by simp
  next
    case (Inr lane)
    have pin: "rm_pinned c \<longleftrightarrow> lane = Lane_Pinned" using Cons.prems(2) x Inr by simp
    have "(lane' = Lane_Pinned \<longrightarrow> lane = Lane_Pinned) \<and>
        ((lane = Lane_Pinned) = (lane' = Lane_Pinned) \<longrightarrow> rm_rank_millionths c' \<le> rm_rank_millionths c)"
      if "(c', Inr lane') \<in> set ds" for c' lane'
      using cmp_ranked_le [OF le [OF that]] pin Cons.prems(2) [of c' lane'] that by auto
    with x Inr ih show ?thesis by (auto simp: set_selected_of selected_record_def)
  qed
qed simp

subsection \<open>Errors\<close>

lemma rank_record_error:
  assumes "rank_record profile context n scores r j = Inl e"
  shows "e = MSE_RankingScoreOverflow \<or> e = MSE_InvalidImportance (mr_id r)"
  using assms weighted_rank_error
  by (auto simp: rank_record_def Let_def result_simps split: if_splits)

lemma rank_all_error:
  assumes "rank_all profile context lineage scores rs = Inl e"
  shows "e = MSE_RankingScoreOverflow \<or> (\<exists>r \<in> set rs. e = MSE_InvalidImportance (mr_id r))"
  using assms
proof (induction rs)
  case (Cons r rs)
  then show ?case
    by (auto simp: result_simps split: sum.splits prod.splits dest: rank_record_error)
qed simp

lemma rank_all_total:
  assumes "normalized_lineage (mc_visible_message_ids context) = Inr lineage"
    and "\<And>k s. bt_get scores k = Some s \<Longrightarrow> s \<le> 1000000"
    and "\<And>w. w \<in> set (memory_profile_weights profile) \<Longrightarrow> float_in_range 0 1000000 w"
    and "\<And>r. r \<in> set rs \<Longrightarrow> mr_importance r \<le> 100"
  shows "\<exists>cs. rank_all profile context lineage scores rs = Inr cs"
  using assms(4)
proof (induction rs)
  case (Cons r rs)
  then obtain cs where cs: "rank_all profile context lineage scores rs = Inr cs" by auto
  show ?case
  proof (cases "source_range r context lineage")
    case (Inl reason)
    with cs show ?thesis by simp
  next
    case (Inr ij)
    obtain i j where ij: "ij = (i, j)" by (cases ij)
    have "length lineage \<le> MAX_VISIBLE_MEMORY_LINEAGE_MESSAGES"
      using index_lineage_Inr(3) [OF normalized_lineage_Inr(1) [OF assms(1)]]
        normalized_lineage_Inr(2) [OF assms(1)] by simp
    with source_range_Inr(2) [OF assms(1) Inr [unfolded ij]]
    have rec: "normalized_recency j (length lineage) \<le> 1000000" by (rule normalized_recency_bound)
    have imp: "mr_importance r * 10000 \<le> 1000000" using Cons.prems [of r] by simp
    have sim: "(case bt_get scores (mr_id r) of None \<Rightarrow> 0 | Some s \<Rightarrow> s) \<le> 1000000"
      using assms(2) by (simp split: option.split)
    obtain rank where "weighted_rank (normalized_recency j (length lineage))
        (case bt_get scores (mr_id r) of None \<Rightarrow> 0 | Some s \<Rightarrow> s) (mr_importance r * 10000) profile = Inr rank"
      using weighted_rank_Inr [OF rec sim imp, of profile] assms(3) by blast
    moreover have "\<not> mr_importance r > 100" using Cons.prems [of r] by simp
    ultimately have "\<exists>c. rank_record profile context (length lineage) scores r j = Inr c"
      by (auto simp: rank_record_def Let_def)
    with cs Inr ij show ?thesis by auto
  qed
qed simp

lemma index_lineage_error: "index_lineage d ids = Inl e \<Longrightarrow> \<exists>x \<in> set ids. e = d x"
  by (induction ids rule: rev_induct)
    (auto simp: index_lineage_Nil index_lineage_snoc result_simps split: if_splits)

lemma normalize_memory_scores_error:
  "normalize_memory_scores rs supplied = Inl e \<Longrightarrow>
     \<exists>s \<in> set supplied. e = MSE_InvalidSemanticScore (mss_record_id s) \<or>
       e = MSE_DuplicateSemanticScore (mss_record_id s)"
proof (induction supplied rule: rev_induct)
  case (snoc x xs)
  then show ?case
    by (auto simp: normalize_memory_scores_def Let_def try_fold_append result_simps split: if_splits)
qed (simp add: normalize_memory_scores_def)

lemma validate_profile_error:
  assumes "validate_profile hex_ok profile = Inl e"
  shows "\<exists>m. e = MSE_InvalidProfile m"
proof -
  have "\<not> list_ex (\<lambda>w. \<not> is_finite w \<or> float_less w (Finite 0)) (memory_profile_weights profile)"
    if "memory_profile_validate hex_ok profile = Inr ()"
    using memory_profile_validate_weights [OF that] by (fastforce simp: list_ex_iff)
  with assms show ?thesis by (auto simp: validate_profile_def result_simps)
qed

end
