(* ===== verification/Memory_Properties.thy ===== *)
theory Memory_Properties
  imports Memory_Invalidation
begin

section \<open>Properties of memory selection\<close>

text \<open>
  The guarantees of \<open>MemoryEngine::select\<close>, stated over \<^const>\<open>memory_select\<close>, and a small concrete
  selection at which each of them is applied.
\<close>

subsection \<open>A concrete selection\<close>

definition sample_provenance :: provenance where
  "sample_provenance =
     \<lparr>pv_source_kind = Generated, pv_source_id = None, pv_source_hash = None, pv_author = None,
      pv_license = None, pv_imported_at = None\<rparr>"

definition sample_memory_profile :: memory_profile where
  "sample_memory_profile =
     \<lparr>mp_id = lit ''p'', mp_name = lit ''n'', mp_schema_version = 1, mp_summary_task = lit ''t'',
      mp_embedding_task = None, mp_turns_per_summary = 4,
      mp_recent_raw_budget = \<lparr>max_tokens = 100\<rparr>, mp_episodic_budget = \<lparr>max_tokens = 5\<rparr>,
      mp_semantic_budget = \<lparr>max_tokens = 3\<rparr>, mp_retrieval_count = 2,
      mp_recency_weight = Finite 1, mp_similarity_weight = Finite 2,
      mp_importance_weight = Finite 1, mp_preserve_invalidated_records = True,
      mp_summary_schema = lit ''s'', mp_summary_template = None,
      mp_provenance = sample_provenance\<rparr>"

definition sample_memory_record :: "string \<Rightarrow> string \<Rightarrow> string \<Rightarrow> bool \<Rightarrow> memory_record" where
  "sample_memory_record rid start_id end_id pinned =
     \<lparr>mr_id = lit rid, mr_conversation_id = lit ''c'', mr_branch_id = lit ''b'',
      mr_source_start_message_id = lit start_id, mr_source_end_message_id = lit end_id,
      mr_kind = EpisodicEvent, mr_title = lit ''t'', mr_summary = lit ''abcdefgh'',
      mr_structured_data = \<lparr>vj_schema_version = 1, vj_value = Json_Null\<rparr>, mr_importance = 50,
      mr_keywords = [], mr_embedding_ref = None, mr_pinned = pinned,
      mr_excluded_from_conversation = False, mr_excluded_from_character = False,
      mr_created_at = 0, mr_updated_at = 0, mr_invalidated_at = None,
      mr_provenance = sample_provenance\<rparr>"

definition sample_memory_context :: memory_selection_context where
  "sample_memory_context =
     \<lparr>mc_conversation_id = lit ''c'', mc_branch_id = lit ''b'',
      mc_visible_message_ids = [lit ''m1'', lit ''m2'', lit ''m3''],
      mc_semantic_scores = [\<lparr>mss_record_id = lit ''r2'', mss_score = Finite (1 / 2)\<rparr>],
      mc_token_estimates = []\<rparr>"

definition sample_memory_records :: "memory_record list" where
  "sample_memory_records =
     [sample_memory_record ''r3'' ''m1'' ''m3'' False, sample_memory_record ''r1'' ''m1'' ''m2'' True,
      sample_memory_record ''r2'' ''m2'' ''m2'' False, sample_memory_record ''r4'' ''m2'' ''m9'' False,
      sample_memory_record ''r5'' ''m1'' ''m1'' False]"

definition no_hex :: "str \<Rightarrow> bool" where
  "no_hex s = False"

abbreviation sample_memory_select :: "(memory_selection_error, memory_selection) result" where
  "sample_memory_select \<equiv>
     memory_select no_hex sample_memory_records sample_memory_profile sample_memory_context"

lemma sample_memory_select_ok:
  obtains sel where "sample_memory_select = Inr sel"
    and "map sm_record_id (msel_selected sel) = [lit ''r1'', lit ''r2'', lit ''r3'']"
proof -
  have ok: "(case sample_memory_select of Inl _ \<Rightarrow> False
      | Inr sel \<Rightarrow> map sm_record_id (msel_selected sel) = [lit ''r1'', lit ''r2'', lit ''r3''])"
    by code_simp
  show thesis
  proof (cases sample_memory_select)
    case (Inl e)
    with ok show thesis by (simp only: sum.case)
  next
    case (Inr sel)
    with ok have "map sm_record_id (msel_selected sel) = [lit ''r1'', lit ''r2'', lit ''r3'']"
      by (simp only: sum.case)
    with Inr show thesis by (rule that)
  qed
qed

subsection \<open>Selections\<close>

text \<open>
  The selection does not depend on the order in which the records are supplied: permuting
  them gives the same selection, the same evidence, or the same error.
\<close>

lemma select_order_independent:
  assumes "mset records = mset records'"
  shows "memory_select hex_ok records profile context = memory_select hex_ok records' profile context"
  using normalized_records_perm [OF assms] mset_eq_length [OF assms] by (simp add: memory_select_def)

text \<open>
  C26. Budgets and accounting: the reported token counts are the sums over the selected records of
  the lanes that draw on each budget, neither exceeds the budget of the profile, and the records
  that are not pinned number at most the retrieval count.
\<close>

theorem memory_select_within_budgets:
  assumes "memory_select hex_ok records profile context = Inr sel"
  shows "msel_used_episodic_tokens sel = sum_list (map sm_estimated_tokens
        (filter (\<lambda>s. sm_lane s \<noteq> Lane_Semantic) (msel_selected sel))) \<and>
    msel_used_semantic_tokens sel = sum_list (map sm_estimated_tokens
        (filter (\<lambda>s. sm_lane s = Lane_Semantic) (msel_selected sel))) \<and>
    msel_used_episodic_tokens sel \<le> max_tokens (mp_episodic_budget profile) \<and>
    msel_used_semantic_tokens sel \<le> max_tokens (mp_semantic_budget profile) \<and>
    length (filter (\<lambda>s. sm_lane s \<noteq> Lane_Pinned) (msel_selected sel)) \<le> mp_retrieval_count profile"
proof -
  from assms obtain rs lineage scores cs where "rank_all profile context lineage scores rs = Inr cs"
    and sel: "sel = selection_table context lineage rs (admit profile 0 0 0 (sort_by cmp_ranked cs))"
    by (rule memory_select_Inr)
  let ?cs = "sort_by cmp_ranked cs"
  show ?thesis
    using selected_of_costs [OF admit_Inr_lane [of _ _ profile 0 0 0 ?cs]]
      admit_bounds [of 0 profile 0 0 ?cs]
    by (simp add: sel selection_table_def)
qed

theorem memory_select_within_budgets_witness:
  "\<exists>sel. sample_memory_select = Inr sel \<and>
     msel_used_episodic_tokens sel \<le> 5 \<and> msel_used_semantic_tokens sel \<le> 3"
proof -
  obtain sel where sel: "sample_memory_select = Inr sel" by (rule sample_memory_select_ok)
  have "msel_used_episodic_tokens sel \<le> max_tokens (mp_episodic_budget sample_memory_profile)"
    and "msel_used_semantic_tokens sel \<le> max_tokens (mp_semantic_budget sample_memory_profile)"
    using memory_select_within_budgets [OF sel] by blast+
  with sel show ?thesis by (simp add: sample_memory_profile_def)
qed

text \<open>
  C25. Branch safety: a selected record is one of the supplied records, carried over unchanged, and
  it is visible: it belongs to the conversation, is not invalidated and not excluded, and its
  source range is a forward range of the visible lineage.  No record is selected twice.
\<close>

theorem memory_select_branch_safe:
  assumes "memory_select hex_ok records profile context = Inr sel"
  shows "distinct (map sm_record_id (msel_selected sel)) \<and>
    (\<forall>s \<in> set (msel_selected sel). \<exists>r \<in> set records. branch_visible context r \<and>
      sm_record_id s = mr_id r \<and> sm_kind s = mr_kind r \<and> sm_title s = mr_title r \<and>
      sm_summary s = mr_summary r \<and>
      sm_estimated_tokens s = memory_tokens r (mc_token_estimates context) \<and>
      (sm_lane s = Lane_Pinned \<longleftrightarrow> mr_pinned r \<or> mr_kind r = CreatorPinned))"
proof -
  from assms obtain rs lineage scores cs where rs: "normalized_records records = Inr rs"
    and lin: "normalized_lineage (mc_visible_message_ids context) = Inr lineage"
    and cs: "rank_all profile context lineage scores rs = Inr cs"
    and sel: "sel = selection_table context lineage rs (admit profile 0 0 0 (sort_by cmp_ranked cs))"
    by (rule memory_select_Inr)
  let ?ds = "admit profile 0 0 0 (sort_by cmp_ranked cs)"
  have "distinct (map decision_key ?ds)"
    using decision_keys(1) [OF cs] normalized_records_sorted(3) [OF rs] by blast
  then have dist: "distinct (map sm_record_id (msel_selected sel))"
    by (simp add: sel selection_table_def distinct_selected_of)
  have "\<exists>r \<in> set records. branch_visible context r \<and>
      sm_record_id s = mr_id r \<and> sm_kind s = mr_kind r \<and> sm_title s = mr_title r \<and>
      sm_summary s = mr_summary r \<and>
      sm_estimated_tokens s = memory_tokens r (mc_token_estimates context) \<and>
      (sm_lane s = Lane_Pinned \<longleftrightarrow> mr_pinned r \<or> mr_kind r = CreatorPinned)"
    if s: "s \<in> set (msel_selected sel)" for s
  proof -
    from s obtain c lane where cl: "(c, Inr lane) \<in> set ?ds"
      and s_def: "s = selected_record c lane (ranking_reasons c)"
      by (auto simp: sel selection_table_def set_selected_of)
    note rec = decision_record [OF cs cl]
    obtain j where j: "rank_record profile context (length lineage) scores (rm_record c) j = Inr c"
      using rec(3) by blast
    have "branch_visible context (rm_record c)" using rec(2) source_range_visible [OF lin] by blast
    moreover have "rm_record c \<in> set records"
      using rec(1) normalized_records_sorted(2) [OF rs] by simp
    ultimately show ?thesis
      using rank_record_fields(2,3) [OF j] admit_Inr_lane [OF cl]
      by (intro bexI [of _ "rm_record c"]) (simp_all add: s_def selected_record_def)
  qed
  with dist show ?thesis by blast
qed

theorem memory_select_branch_safe_witness:
  "\<exists>sel. sample_memory_select = Inr sel \<and> length (msel_selected sel) = 3 \<and>
     distinct (map sm_record_id (msel_selected sel))"
proof -
  obtain sel where sel: "sample_memory_select = Inr sel"
    and ids: "map sm_record_id (msel_selected sel) = [lit ''r1'', lit ''r2'', lit ''r3'']"
    by (rule sample_memory_select_ok)
  have "length (map sm_record_id (msel_selected sel)) = 3" unfolding ids by simp
  with memory_select_branch_safe [OF sel, THEN conjunct1] sel show ?thesis by auto
qed

text \<open>The evidence names every record once, in id order, and agrees with the selection.\<close>

lemma select_evidence_complete:
  assumes "memory_select hex_ok records profile context = Inr sel"
  shows "map me_record_id (msel_evidence sel) = sort (map mr_id records) \<and>
    (\<forall>e \<in> set (msel_evidence sel). evidence_agrees (msel_selected sel) e)"
proof -
  from assms obtain rs lineage scores cs where rs: "normalized_records records = Inr rs"
    and cs: "rank_all profile context lineage scores rs = Inr cs"
    and sel: "sel = selection_table context lineage rs (admit profile 0 0 0 (sort_by cmp_ranked cs))"
    by (rule memory_select_Inr)
  note sorted_rs = normalized_records_sorted [OF rs]
  have "map me_record_id (msel_evidence sel) = map mr_id rs"
    by (simp add: sel selection_table_def)
  also have "\<dots> = sort (map mr_id records)"
    using rs sorted_rs(1) by (intro properties_for_sort [symmetric])
      (auto simp: normalized_records_Inr strict_sorted_iff)
  finally show ?thesis
    using evidence_agrees_table [OF cs sorted_rs(3)] by (simp add: sel selection_table_def)
qed

lemma select_maximal:
  assumes "memory_select hex_ok records profile context = Inr sel"
    and "r \<in> set records" and "branch_visible context r"
    and "mr_id r \<notin> sm_record_id ` set (msel_selected sel)"
  shows "(\<not> (mr_pinned r \<or> mr_kind r = CreatorPinned) \<and>
      length (filter (\<lambda>s. sm_lane s \<noteq> Lane_Pinned) (msel_selected sel)) = mp_retrieval_count profile) \<or>
    (max_tokens (mp_episodic_budget profile)
       < msel_used_episodic_tokens sel + memory_tokens r (mc_token_estimates context) \<and>
     (mr_id r \<in> mss_record_id ` set (mc_semantic_scores context) \<and>
       \<not> (mr_pinned r \<or> mr_kind r = CreatorPinned) \<longrightarrow>
       max_tokens (mp_semantic_budget profile)
         < msel_used_semantic_tokens sel + memory_tokens r (mc_token_estimates context)))"
proof -
  from assms(1) obtain rs lineage scores cs where
    prof: "validate_profile hex_ok profile = Inr ()"
    and rs: "normalized_records records = Inr rs"
    and lin: "normalized_lineage (mc_visible_message_ids context) = Inr lineage"
    and scores: "normalize_memory_scores rs (mc_semantic_scores context) = Inr scores"
    and cs: "rank_all profile context lineage scores rs = Inr cs"
    and sel: "sel = selection_table context lineage rs (admit profile 0 0 0 (sort_by cmp_ranked cs))"
    by (rule memory_select_Inr)
  define ds where "ds = admit profile 0 0 0 (sort_by cmp_ranked cs)"
  note sel = sel [folded ds_def]
  have r: "r \<in> set rs" using assms(2) normalized_records_sorted(2) [OF rs] by simp
  obtain c d where cd: "(c, d) \<in> set ds" "rm_record c = r"
    using record_decision [OF cs r, of 0 0 0, folded ds_def] source_range_visible [OF lin] assms(3)
    by blast
  obtain j where "rank_record profile context (length lineage) scores (rm_record c) j = Inr c"
    using decision_record(3) [OF cs, of c d 0 0 0, folded ds_def] cd(1) by blast
  note fields = rank_record_fields [OF this, unfolded cd(2)]
  have "\<exists>reason. d = Inl reason"
  proof (cases d)
    case (Inr lane)
    then have "selected_record c lane (ranking_reasons c) \<in> set (msel_selected sel)"
      using cd(1) by (auto simp: sel selection_table_def set_selected_of)
    then have "mr_id r \<in> sm_record_id ` set (msel_selected sel)"
      using cd(2) by (force simp: selected_record_def)
    with assms(4) show ?thesis by simp
  qed simp
  then obtain reason where reason: "(c, Inl reason) \<in> set (admit profile 0 0 0 (sort_by cmp_ranked cs))"
    using cd(1) ds_def by blast
  note why = admit_rejected [OF reason validate_profile_Inr(4,5) [OF prof], folded ds_def]
  note bounds = admit_bounds [of 0 profile 0 0 "sort_by cmp_ranked cs", folded ds_def]
  have count: "sum_list (map ordinary_count ds) =
      length (filter (\<lambda>s. sm_lane s \<noteq> Lane_Pinned) (msel_selected sel))"
    using selected_of_costs(3) [OF admit_Inr_lane [of _ _ profile 0 0 0 "sort_by cmp_ranked cs"]]
    by (simp add: ds_def sel selection_table_def)
  have scored: "mr_id r \<in> mss_record_id ` set (mc_semantic_scores context) \<Longrightarrow>
      bt_get scores (mr_id r) \<noteq> None"
    using normalize_memory_scores_keys [OF scores r] by blast
  show ?thesis
    using why bounds scored fields unfolding count by (auto simp: sel selection_table_def)
qed

lemma select_rank_order:
  assumes "memory_select hex_ok records profile context = Inr sel"
  shows "sorted_wrt (\<lambda>s t. (sm_lane t = Lane_Pinned \<longrightarrow> sm_lane s = Lane_Pinned) \<and>
      ((sm_lane s = Lane_Pinned) = (sm_lane t = Lane_Pinned) \<longrightarrow>
        sm_rank_millionths t \<le> sm_rank_millionths s)) (msel_selected sel)"
proof -
  from assms obtain rs lineage scores cs where
    sel: "sel = selection_table context lineage rs (admit profile 0 0 0 (sort_by cmp_ranked cs))"
    by (rule memory_select_Inr)
  show ?thesis
    using sorted_selected_of [of "admit profile 0 0 0 (sort_by cmp_ranked cs)"]
      ranked_order.sorted_sort_by [of cs] admit_Inr_lane
    by (simp add: sel selection_table_def)
qed

text \<open>
  The selection is greedy in rank order and maximal.  The selected records are in admission
  order: the pinned ones first, and within the pinned and the ordinary ones by falling rank.  A
  visible record that is not selected could not have been added: either it is not pinned and the
  retrieval count is used up, or it exceeds what is left of the episodic budget and, where it has a
  similarity score, of the semantic budget as well.  The evidence accounts for it: there is exactly
  one piece per supplied record, in id order, which repeats the lane, rank, tokens and reasons of a
  selected record and gives a reason for the exclusion of every other one.
\<close>

theorem memory_select_greedy:
  assumes "memory_select hex_ok records profile context = Inr sel"
  shows "sorted_wrt (\<lambda>s t. (sm_lane t = Lane_Pinned \<longrightarrow> sm_lane s = Lane_Pinned) \<and>
      ((sm_lane s = Lane_Pinned) = (sm_lane t = Lane_Pinned) \<longrightarrow>
        sm_rank_millionths t \<le> sm_rank_millionths s)) (msel_selected sel) \<and>
    (\<forall>r \<in> set records. branch_visible context r \<and> mr_id r \<notin> sm_record_id ` set (msel_selected sel) \<longrightarrow>
     (\<not> (mr_pinned r \<or> mr_kind r = CreatorPinned) \<and>
      length (filter (\<lambda>s. sm_lane s \<noteq> Lane_Pinned) (msel_selected sel)) = mp_retrieval_count profile) \<or>
    (max_tokens (mp_episodic_budget profile)
       < msel_used_episodic_tokens sel + memory_tokens r (mc_token_estimates context) \<and>
     (mr_id r \<in> mss_record_id ` set (mc_semantic_scores context) \<and>
       \<not> (mr_pinned r \<or> mr_kind r = CreatorPinned) \<longrightarrow>
       max_tokens (mp_semantic_budget profile)
         < msel_used_semantic_tokens sel + memory_tokens r (mc_token_estimates context)))) \<and>
    map me_record_id (msel_evidence sel) = sort (map mr_id records) \<and>
    (\<forall>e \<in> set (msel_evidence sel). evidence_agrees (msel_selected sel) e)"
  using select_rank_order [OF assms] select_maximal [OF assms] select_evidence_complete [OF assms] by blast

theorem memory_select_greedy_witness:
  "\<exists>sel. sample_memory_select = Inr sel \<and>
     (length (filter (\<lambda>s. sm_lane s \<noteq> Lane_Pinned) (msel_selected sel)) = 2 \<or>
      5 < msel_used_episodic_tokens sel + 2)"
proof -
  let ?r = "sample_memory_record ''r5'' ''m1'' ''m1'' False"
  obtain sel where sel: "sample_memory_select = Inr sel"
    and ids: "map sm_record_id (msel_selected sel) = [lit ''r1'', lit ''r2'', lit ''r3'']"
    by (rule sample_memory_select_ok)
  have "?r \<in> set sample_memory_records" by (simp add: sample_memory_records_def)
  moreover have "branch_visible sample_memory_context ?r"
    unfolding branch_visible_def
    by (auto simp: sample_memory_context_def sample_memory_record_def intro!: exI [of _ 0])
  moreover have "mr_id ?r \<notin> sm_record_id ` set (msel_selected sel)"
    unfolding set_map [symmetric] ids by code_simp
  ultimately have "length (filter (\<lambda>s. sm_lane s \<noteq> Lane_Pinned) (msel_selected sel)) =
      mp_retrieval_count sample_memory_profile \<or>
    max_tokens (mp_episodic_budget sample_memory_profile) <
      msel_used_episodic_tokens sel + memory_tokens ?r (mc_token_estimates sample_memory_context)"
    using memory_select_greedy [OF sel] by blast
  moreover have "memory_tokens ?r (mc_token_estimates sample_memory_context) = 2"
    by code_simp
  moreover have "mp_retrieval_count sample_memory_profile = 2"
    and "max_tokens (mp_episodic_budget sample_memory_profile) = 5"
    by (simp_all add: sample_memory_profile_def)
  ultimately show ?thesis using sel by (intro exI [of _ sel]) (simp only: simp_thms)
qed

text \<open>
  The two places where \<open>select\<close> reports a violated invariant, and its second check of the ranking
  weights, are unreachable for every input.
\<close>

lemma select_no_internal_error:
  "memory_select hex_ok records profile context \<noteq> Inl MSE_InternalInvariant \<and>
   memory_select hex_ok records profile context \<noteq> Inl MSE_InvalidRankingWeights"
proof -
  have nr: "normalized_records records = Inl e \<Longrightarrow> \<exists>i. e = MSE_DuplicateRecordId i" for e
    by (auto simp: normalized_records_def Let_def split: option.splits)
  have nl: "normalized_lineage ids = Inl e \<Longrightarrow>
      e = MSE_LineageTooLarge \<or> (\<exists>m. e = MSE_DuplicateLineageMessage m)" for ids e
    by (auto simp: normalized_lineage_def split: if_splits dest: index_lineage_error)
  show ?thesis
    unfolding memory_select_refines
    by (auto simp: result_simps dest!: validate_profile_error nr nl normalize_memory_scores_error
        rank_all_error)
qed

text \<open>
  Selection succeeds on every well-formed input: a valid profile with weights up to a million,
  distinct record ids and lineage messages within the limits, importances up to 100, and at most
  one score in the unit interval per known record.  In particular the fixed-point ranking cannot
  overflow its 64 bits there.
\<close>

lemma select_total:
  assumes "memory_profile_validate hex_ok profile = Inr ()"
    and "\<forall>w \<in> set (memory_profile_weights profile). float_in_range 0 1000000 w"
    and "length records \<le> MAX_MEMORY_RECORDS_PER_SELECTION" and "distinct (map mr_id records)"
    and "\<forall>r \<in> set records. mr_importance r \<le> 100"
    and "length (mc_visible_message_ids context) \<le> MAX_VISIBLE_MEMORY_LINEAGE_MESSAGES"
    and "distinct (mc_visible_message_ids context)"
    and "\<forall>s \<in> set (mc_semantic_scores context).
      mss_record_id s \<in> mr_id ` set records \<longrightarrow> float_in_range 0 1 (mss_score s)"
    and "distinct (map mss_record_id
      (filter (\<lambda>s. mss_record_id s \<in> mr_id ` set records) (mc_semantic_scores context)))"
  shows "\<exists>sel. memory_select hex_ok records profile context = Inr sel"
proof -
  have "\<not> list_ex (\<lambda>w. \<not> is_finite w \<or> float_less w (Finite 0)) (memory_profile_weights profile)"
    using memory_profile_validate_weights [OF assms(1)] by (fastforce simp: list_ex_iff)
  then have prof: "validate_profile hex_ok profile = Inr ()"
    using assms(1) by (simp add: validate_profile_def)
  have rs: "normalized_records records = Inr (sort_by (cmp_on mr_id) records)"
    using assms(4) by (simp add: normalized_records_Inr)
  obtain lineage where lin: "normalized_lineage (mc_visible_message_ids context) = Inr lineage"
    using index_lineage_total [OF assms(7)] assms(6) by (auto simp: normalized_lineage_def)
  obtain scores where
    scores: "normalize_memory_scores (sort_by (cmp_on mr_id) records) (mc_semantic_scores context) = Inr scores"
    using normalize_memory_scores_total [of "mc_semantic_scores context" "sort_by (cmp_on mr_id) records"]
      assms(8,9) by auto
  obtain cs where "rank_all profile context lineage scores (sort_by (cmp_on mr_id) records) = Inr cs"
    using rank_all_total [OF lin, of scores profile "sort_by (cmp_on mr_id) records"]
      normalize_memory_scores_bound [OF scores] assms(2,5) by auto
  with prof rs lin scores assms(3) show ?thesis by (simp add: memory_select_refines)
qed

text \<open>
  C34. Selection is a function of the set of records: permuting them gives the same selection, the same
  evidence, or the same error.  And it succeeds on every well-formed input: a valid profile with weights
  up to a million, distinct record ids and lineage messages within the limits, importances up to 100,
  and at most one score in the unit interval per known record.
\<close>

theorem memory_select_well_defined:
  "(mset records = mset records' \<longrightarrow>
      memory_select hex_ok records profile ctx = memory_select hex_ok records' profile ctx) \<and>
   (memory_profile_validate hex_ok profile = Inr () \<and>
    (\<forall>w \<in> set (memory_profile_weights profile). float_in_range 0 1000000 w) \<and>
    length records \<le> MAX_MEMORY_RECORDS_PER_SELECTION \<and> distinct (map mr_id records) \<and>
    (\<forall>r \<in> set records. mr_importance r \<le> 100) \<and>
    length (mc_visible_message_ids ctx) \<le> MAX_VISIBLE_MEMORY_LINEAGE_MESSAGES \<and>
    distinct (mc_visible_message_ids ctx) \<and>
    (\<forall>s \<in> set (mc_semantic_scores ctx). mss_record_id s \<in> mr_id ` set records \<longrightarrow> float_in_range 0 1 (mss_score s)) \<and>
    distinct (map mss_record_id (filter (\<lambda>s. mss_record_id s \<in> mr_id ` set records) (mc_semantic_scores ctx))) \<longrightarrow>
      (\<exists>sel. memory_select hex_ok records profile ctx = Inr sel))"
  using select_order_independent [of records records' hex_ok profile ctx]
    select_total [of hex_ok profile records ctx] by blast

theorem memory_select_well_defined_witness:
  "memory_select no_hex (rev sample_memory_records) sample_memory_profile sample_memory_context =
     sample_memory_select \<and> (\<exists>sel. sample_memory_select = Inr sel)"
proof -
  have "mset (rev sample_memory_records) = mset sample_memory_records" by simp
  then have perm: "memory_select no_hex (rev sample_memory_records) sample_memory_profile sample_memory_context = sample_memory_select"
    using memory_select_well_defined [of "rev sample_memory_records" sample_memory_records no_hex] by blast
  obtain sel where "sample_memory_select = Inr sel" by (rule sample_memory_select_ok)
  with perm show ?thesis by simp
qed

subsection \<open>Invalidation\<close>

text \<open>
  The invalidation plan is exact: it lists, once each and in id order, the records of the branch
  that are not yet invalidated and whose source range ends at or after the start of the rewind, all
  with the disposition the profile asks for.
\<close>

lemma invalidation_plan_exact:
  assumes "plan_memory_invalidation records profile conversation_id branch_id ids first_id = Inr actions"
  shows "sorted_wrt (<) (map mia_record_id actions) \<and>
    mia_record_id ` set actions = {mr_id r | r. r \<in> set records \<and> branch_owned conversation_id branch_id r \<and>
      (\<exists>i j. i \<le> j \<and> j < length ids \<and> ids ! i = first_id \<and> ids ! j = mr_source_end_message_id r)} \<and>
    mia_disposition ` set actions \<subseteq>
      {if mp_preserve_invalidated_records profile then PreserveAsInvalidated else Disposition_Delete}"
proof -
  from assms obtain lineage cut_at where lin: "index_lineage MIE_DuplicateLineageMessage ids = Inr lineage"
    and cut_at: "bt_get lineage first_id = Some cut_at" and dist: "distinct (map mr_id records)"
    and acts: "actions = sort_by (cmp_on mia_record_id)
      (map (\<lambda>r. \<lparr>mia_record_id = mr_id r, mia_disposition =
          (if mp_preserve_invalidated_records profile then PreserveAsInvalidated else Disposition_Delete)\<rparr>)
        (filter (\<lambda>r. branch_owned conversation_id branch_id r \<and>
          (\<exists>j \<ge> cut_at. bt_get lineage (mr_source_end_message_id r) = Some j)) records))"
    by (rule plan_memory_invalidation_Inr)
  have cut_iff: "ids ! i = first_id \<and> i < length ids \<longleftrightarrow> i = cut_at" for i
    using index_lineage_Inr(1,4) [OF lin] cut_at nth_eq_iff_index_eq by metis
  have reach: "(\<exists>j \<ge> cut_at. bt_get lineage k = Some j) \<longleftrightarrow>
      (\<exists>i j. i \<le> j \<and> j < length ids \<and> ids ! i = first_id \<and> ids ! j = k)" for k
    unfolding index_lineage_Inr(4) [OF lin] using cut_iff by (metis le_less_trans)
  have "distinct (map mia_record_id actions)"
    using dist by (simp add: acts comp_def distinct_map_filter)
  moreover have "sorted (map mia_record_id actions)" unfolding acts by (rule sorted_map_sort_by)
  ultimately have "sorted_wrt (<) (map mia_record_id actions)" by (simp add: strict_sorted_iff)
  moreover have "mia_record_id ` set actions = {mr_id r | r. r \<in> set records \<and>
      branch_owned conversation_id branch_id r \<and>
      (\<exists>j \<ge> cut_at. bt_get lineage (mr_source_end_message_id r) = Some j)}"
    unfolding acts set_sort_by set_map set_filter image_image by (simp add: setcompr_eq_image)
  ultimately show ?thesis unfolding reach by (simp add: acts image_subset_iff)
qed

abbreviation sample_invalidation ::
  "(memory_invalidation_error, memory_invalidation_action list) result" where
  "sample_invalidation \<equiv> plan_memory_invalidation
     [sample_memory_record ''r3'' ''m1'' ''m3'' False, sample_memory_record ''r1'' ''m1'' ''m1'' True,
      sample_memory_record ''r2'' ''m2'' ''m2'' False]
     sample_memory_profile (lit ''c'') (lit ''b'') [lit ''m1'', lit ''m2'', lit ''m3''] (lit ''m2'')"

lemma sample_invalidation_ok:
  "sample_invalidation = Inr [\<lparr>mia_record_id = lit ''r2'', mia_disposition = PreserveAsInvalidated\<rparr>,
     \<lparr>mia_record_id = lit ''r3'', mia_disposition = PreserveAsInvalidated\<rparr>]"
  by code_simp

text \<open>
  Rewind coherence: for a record of the branch that is not excluded, the plan names it exactly
  when selection on the rewound lineage, the messages before the start of the rewind, would no
  longer see it.  What the plan spares stays visible, and nothing invisible is spared.
\<close>

lemma rewind_coherent:
  assumes "plan_memory_invalidation records profile (mc_conversation_id context) branch_id
      (mc_visible_message_ids context) first_id = Inr actions"
    and "r \<in> set records" and "branch_owned (mc_conversation_id context) branch_id r"
    and "\<not> mr_excluded_from_conversation r" and "\<not> mr_excluded_from_character r"
  shows "mr_id r \<in> mia_record_id ` set actions \<longleftrightarrow>
    \<not> branch_visible (context\<lparr>mc_visible_message_ids :=
        takeWhile (\<lambda>m. m \<noteq> first_id) (mc_visible_message_ids context)\<rparr>) r"
proof -
  let ?ids = "mc_visible_message_ids context"
  from assms(1) obtain lineage cut_at where lin: "index_lineage MIE_DuplicateLineageMessage ?ids = Inr lineage"
    and cut_at: "bt_get lineage first_id = Some cut_at" and dist: "distinct (map mr_id records)"
    and ranges: "\<forall>r \<in> set records. branch_owned (mc_conversation_id context) branch_id r \<longrightarrow>
      (\<exists>i j. bt_get lineage (mr_source_start_message_id r) = Some i \<and>
        bt_get lineage (mr_source_end_message_id r) = Some j \<and> i \<le> j)"
    and acts: "actions = sort_by (cmp_on mia_record_id)
      (map (\<lambda>r. \<lparr>mia_record_id = mr_id r, mia_disposition =
          (if mp_preserve_invalidated_records profile then PreserveAsInvalidated else Disposition_Delete)\<rparr>)
        (filter (\<lambda>r. branch_owned (mc_conversation_id context) branch_id r \<and>
          (\<exists>j \<ge> cut_at. bt_get lineage (mr_source_end_message_id r) = Some j)) records))"
    by (rule plan_memory_invalidation_Inr)
  note get = index_lineage_Inr(4) [OF lin] and ids_distinct = index_lineage_Inr(1) [OF lin]
  obtain i j where ij: "i \<le> j" "i < length ?ids" "j < length ?ids"
    "?ids ! i = mr_source_start_message_id r" "?ids ! j = mr_source_end_message_id r"
    using ranges assms(2,3) unfolding get by blast
  have unique: "?ids ! k = ?ids ! l \<longleftrightarrow> k = l" if "k < length ?ids" "l < length ?ids" for k l
    using that ids_distinct nth_eq_iff_index_eq by blast
  have cut_len: "cut_at < length ?ids" "?ids ! cut_at = first_id" using cut_at unfolding get by auto
  have planned: "mr_id r \<in> mia_record_id ` set actions \<longleftrightarrow> cut_at \<le> j"
  proof -
    have "mr_id r \<in> mia_record_id ` set actions \<longleftrightarrow>
        (\<exists>j' \<ge> cut_at. bt_get lineage (mr_source_end_message_id r) = Some j')"
      using dist assms(2,3) by (force simp: acts distinct_map inj_on_def)
    also have "\<dots> \<longleftrightarrow> cut_at \<le> j" unfolding get using ij unique by metis
    finally show ?thesis .
  qed
  have take: "takeWhile (\<lambda>m. m \<noteq> first_id) ?ids = take cut_at ?ids"
    by (rule takeWhile_nth_take [OF ids_distinct cut_len])
  have "branch_visible (context\<lparr>mc_visible_message_ids := take cut_at ?ids\<rparr>) r \<longleftrightarrow>
      (\<exists>i' j'. i' \<le> j' \<and> j' < cut_at \<and> ?ids ! i' = mr_source_start_message_id r \<and>
        ?ids ! j' = mr_source_end_message_id r)"
    using assms(3-5) cut_len(1) by (simp add: branch_visible_def branch_owned_def) (metis le_less_trans nth_take)
  also have "\<dots> \<longleftrightarrow> j < cut_at"
    using ij cut_len(1) unique by (metis le_less_trans less_trans)
  finally show ?thesis unfolding take planned by auto
qed

text \<open>
  C35. The invalidation plan is exact: it lists, once each and in id order, the records of the branch
  that are not yet invalidated and whose source range ends at or after the start of the rewind, all
  with the disposition the profile asks for.  And it agrees with selection: a record of the branch that
  is not excluded is named exactly when selection on the rewound lineage would no longer see it.
\<close>

theorem plan_memory_invalidation_exact:
  assumes "plan_memory_invalidation records profile conversation_id branch_id ids first_id = Inr actions"
  shows "sorted_wrt (<) (map mia_record_id actions) \<and>
    mia_record_id ` set actions = {mr_id r | r. r \<in> set records \<and> branch_owned conversation_id branch_id r \<and>
      (\<exists>i j. i \<le> j \<and> j < length ids \<and> ids ! i = first_id \<and> ids ! j = mr_source_end_message_id r)} \<and>
    mia_disposition ` set actions \<subseteq>
      {if mp_preserve_invalidated_records profile then PreserveAsInvalidated else Disposition_Delete} \<and>
    (\<forall>r ctx. r \<in> set records \<and> branch_owned conversation_id branch_id r \<and> \<not> mr_excluded_from_conversation r \<and>
        \<not> mr_excluded_from_character r \<and> mc_conversation_id ctx = conversation_id \<and> mc_visible_message_ids ctx = ids \<longrightarrow>
      (mr_id r \<in> mia_record_id ` set actions \<longleftrightarrow>
        \<not> branch_visible (ctx\<lparr>mc_visible_message_ids := takeWhile (\<lambda>m. m \<noteq> first_id) ids\<rparr>) r))"
proof -
  have "mr_id r \<in> mia_record_id ` set actions \<longleftrightarrow>
      \<not> branch_visible (ctx\<lparr>mc_visible_message_ids := takeWhile (\<lambda>m. m \<noteq> first_id) ids\<rparr>) r"
    if "r \<in> set records" "branch_owned conversation_id branch_id r" "\<not> mr_excluded_from_conversation r"
      "\<not> mr_excluded_from_character r" "mc_conversation_id ctx = conversation_id" "mc_visible_message_ids ctx = ids" for r ctx
    using rewind_coherent [of records profile ctx branch_id first_id actions r] assms that by simp
  then show ?thesis using invalidation_plan_exact [OF assms] by blast
qed

theorem plan_memory_invalidation_exact_witness:
  "\<exists>actions. sample_invalidation = Inr actions \<and>
     mia_disposition ` set actions \<subseteq> {PreserveAsInvalidated} \<and> length actions = 2"
  using plan_memory_invalidation_exact [OF sample_invalidation_ok] sample_invalidation_ok
  by (intro exI conjI) (auto simp: sample_memory_profile_def)

end
