(* ===== verification/Hash_Framing.thy ===== *)
theory Hash_Framing
  imports Rust_Text
begin

section \<open>Length-prefixed hash inputs\<close>

text \<open>
  The engines derive identities and samples from SHA-256 over a sequence of fields.  A \<open>Sha256\<close>
  hasher is the byte sequence it has been fed, since \<open>update\<close> is specified to depend on the
  concatenation only; the digest function itself is a parameter of the definitions that finish a
  hash.  Each field is fed as its length in eight big-endian bytes followed by its bytes.

  The locale \<open>framing\<close> is the contract of such a field encoding, that the end of a field can be
  recognised; its lemma says that the fed bytes then determine the list of fields.
\<close>

type_synonym bytes = "nat list"

fun to_be_bytes :: "nat \<Rightarrow> nat \<Rightarrow> bytes" where
  "to_be_bytes 0 n = []"
| "to_be_bytes (Suc w) n = to_be_bytes w (n div 256) @ [n mod 256]"

text \<open>\<open>update_job_hash\<close> of memory.rs and \<open>update_hash_field\<close> of knowledge.rs have this body.\<close>

definition update_hash_field :: "bytes \<Rightarrow> bytes \<Rightarrow> bytes" where
  "update_hash_field hasher value =
     hasher @ to_be_bytes 8 (try_from_or u64_max u64_max (length value)) @ value"

lemma length_to_be_bytes [simp]: "length (to_be_bytes w n) = w"
  by (induction w arbitrary: n) simp_all

lemma to_be_bytes_inj:
  "to_be_bytes w m = to_be_bytes w n \<Longrightarrow> m < 256 ^ w \<Longrightarrow> n < 256 ^ w \<Longrightarrow> m = n"
proof (induction w arbitrary: m n)
  case (Suc w)
  then have "to_be_bytes w (m div 256) = to_be_bytes w (n div 256)" and "m mod 256 = n mod 256"
    by simp_all
  moreover have "m div 256 < 256 ^ w" and "n div 256 < 256 ^ w"
    using Suc.prems(2,3) by (simp_all add: div_less_iff_less_mult mult.commute)
  ultimately have "m div 256 = n div 256" and "m mod 256 = n mod 256" using Suc.IH by blast+
  then show ?case by (metis div_mult_mod_eq)
qed simp

locale framing =
  fixes feed :: "bytes \<Rightarrow> bytes \<Rightarrow> bytes" and frame_ok :: "bytes \<Rightarrow> bool"
  assumes feed_extends: "feed h v = h @ feed [] v"
    and feed_prefix_free:
      "frame_ok v \<Longrightarrow> frame_ok w \<Longrightarrow> feed [] v @ x = feed [] w @ y \<Longrightarrow> v = w \<and> x = y"
begin

lemma fold_feed: "fold (\<lambda>v h. feed h v) vs h = h @ fold (\<lambda>v h. feed h v) vs []"
proof (induction vs arbitrary: h)
  case (Cons v vs)
  have "fold (\<lambda>v h. feed h v) (v # vs) h = (h @ feed [] v) @ fold (\<lambda>v h. feed h v) vs []"
    using Cons [of "feed h v"] feed_extends [of h v] by simp
  moreover have "fold (\<lambda>v h. feed h v) (v # vs) [] = feed [] v @ fold (\<lambda>v h. feed h v) vs []"
    using Cons [of "feed [] v"] by simp
  ultimately show ?case by simp
qed simp

lemma fold_feed_Cons:
  "fold (\<lambda>v h. feed h v) (v # vs) [] = feed [] v @ fold (\<lambda>v h. feed h v) vs []"
  unfolding fold_simps by (rule fold_feed)

lemma fields_determined:
  assumes "\<forall>v \<in> set vs. frame_ok v" and "\<forall>w \<in> set ws. frame_ok w" and "length vs = length ws"
    and "fold (\<lambda>v h. feed h v) vs [] = fold (\<lambda>v h. feed h v) ws []"
  shows "vs = ws"
  using assms
proof (induction vs arbitrary: ws)
  case (Cons v vs)
  then obtain w ws' where ws: "ws = w # ws'" by (cases ws) auto
  have "feed [] v @ fold (\<lambda>v h. feed h v) vs [] = feed [] w @ fold (\<lambda>v h. feed h v) ws' []"
    using Cons.prems(4) unfolding ws fold_feed_Cons .
  then have eq: "v = w \<and> fold (\<lambda>v h. feed h v) vs [] = fold (\<lambda>v h. feed h v) ws' []"
    using Cons.prems(1,2) ws by (intro feed_prefix_free) simp_all
  have "vs = ws'"
    by (rule Cons.IH) (use Cons.prems(1-3) ws eq in simp_all)
  with eq ws show ?case by simp
qed simp

end

interpretation hash_fields: framing update_hash_field "\<lambda>v. length v \<le> u64_max"
proof
  fix h v w x y :: bytes
  show "update_hash_field h v = h @ update_hash_field [] v" by (simp add: update_hash_field_def)
  assume len: "length v \<le> u64_max" "length w \<le> u64_max"
    and eq: "update_hash_field [] v @ x = update_hash_field [] w @ y"
  have small: "n < 256 ^ 8" if "n \<le> u64_max" for n :: nat
    using that by (simp add: u64_max_def)
  have fields: "to_be_bytes 8 (length v) @ v @ x = to_be_bytes 8 (length w) @ w @ y"
    using eq len by (simp add: update_hash_field_def try_from_or_def)
  then have "to_be_bytes 8 (length v) = to_be_bytes 8 (length w)" and rest: "v @ x = w @ y"
    by (simp_all add: append_eq_append_conv)
  then have "length v = length w" using to_be_bytes_inj small len by blast
  with rest show "v = w \<and> x = y" by simp
qed

end
