(* ===== verification/Memory_Jobs.thy ===== *)
theory Memory_Jobs
  imports Memory_Validation Hash_Framing
begin

section \<open>Memory jobs\<close>

text \<open>
  The job functions of \<open>crates/orchestration/src/memory.rs\<close>: the redacted idempotency key, the
  decision to create or reuse a job, the status transitions, and the dispatch planner that
  respects the concurrency and rate limits of a task profile.

  The status transitions are also given as a step relation, and the histories a job can go
  through as the paths of that relation.  \<open>sha256\<close> and \<open>hex_encode\<close> stand for the digest and the
  encoder of the \<open>sha2\<close> and \<open>hex\<close> crates.
\<close>

definition MAX_MEMORY_JOB_IDEMPOTENCY_KEY_BYTES :: nat where
  "MAX_MEMORY_JOB_IDEMPOTENCY_KEY_BYTES = 256"

definition MAX_MEMORY_JOB_SOURCE_REVISION_BYTES :: nat where
  "MAX_MEMORY_JOB_SOURCE_REVISION_BYTES = 1024"

datatype memory_job_error =
    MJE_SourceRevisionTooLong
  | MJE_IncompleteProfileIdentity
  | MJE_InvalidIdempotencyKey
  | MJE_DuplicateExistingKey
  | MJE_IdempotencyConflict
  | MJE_InvalidStatusTransition
  | MJE_TaskKindMismatch
  | MJE_InvalidTaskProfile
  | MJE_DuplicateJobId str

subsection \<open>Idempotency keys\<close>

record memory_job_key_input =
  ki_kind :: memory_job_kind
  ki_conversation_id :: str
  ki_branch_id :: str
  ki_source_start_message_id :: str
  ki_source_end_message_id :: str
  ki_profile_id :: "str option"
  ki_profile_schema_version :: "nat option"
  ki_source_revision :: str

fun memory_job_kind_label :: "memory_job_kind \<Rightarrow> bytes" where
  "memory_job_kind_label Job_Summary = lit ''summary''"
| "memory_job_kind_label Job_Embedding = lit ''embedding''"
| "memory_job_kind_label Job_InvalidateRange = lit ''invalidate_range''"

text \<open>The fields in the order in which they are fed to the hasher.\<close>

definition memory_job_key_fields :: "memory_job_key_input \<Rightarrow> bytes list" where
  "memory_job_key_fields input =
     [lit ''lorepia-memory-job-v1'',
      memory_job_kind_label (ki_kind input),
      utf8 (ki_conversation_id input),
      utf8 (ki_branch_id input),
      utf8 (ki_source_start_message_id input),
      utf8 (ki_source_end_message_id input),
      (case ki_profile_id input of None \<Rightarrow> [] | Some profile_id \<Rightarrow> utf8 profile_id),
      to_be_bytes 4 (case ki_profile_schema_version input of None \<Rightarrow> 0 | Some v \<Rightarrow> v),
      utf8 (ki_source_revision input)]"

definition derive_memory_job_idempotency_key ::
  "(bytes \<Rightarrow> bytes) \<Rightarrow> (bytes \<Rightarrow> str) \<Rightarrow> memory_job_key_input \<Rightarrow> (memory_job_error, str) result" where
  "derive_memory_job_idempotency_key sha256 hex_encode input =
     (if str_len (ki_source_revision input) > MAX_MEMORY_JOB_SOURCE_REVISION_BYTES
      then Inl MJE_SourceRevisionTooLong
      else if (ki_profile_id input \<noteq> None) \<noteq> (ki_profile_schema_version input \<noteq> None)
      then Inl MJE_IncompleteProfileIdentity
      else
        let hasher = fold (\<lambda>value hasher. update_hash_field hasher value)
              (memory_job_key_fields input) [] in
        Inr (lit ''memory-job:v1:'' @ hex_encode (sha256 hasher)))"

subsection \<open>Enqueueing\<close>

record memory_job_request =
  jr_idempotency_key :: str
  jr_kind :: memory_job_kind
  jr_conversation_id :: str
  jr_branch_id :: str
  jr_source_start_message_id :: str
  jr_source_end_message_id :: str

datatype memory_job_enqueue_decision =
    Enqueue_Create
  | Enqueue_Reuse (reuse_job_id: str) (reuse_status: memory_job_status) (reuse_attempt: nat)

definition decide_memory_job_enqueue ::
  "memory_job list \<Rightarrow> memory_job_request \<Rightarrow> (memory_job_error, memory_job_enqueue_decision) result" where
  "decide_memory_job_enqueue existing request =
     (if jr_idempotency_key request = []
        \<or> str_len (jr_idempotency_key request) > MAX_MEMORY_JOB_IDEMPOTENCY_KEY_BYTES
      then Inl MJE_InvalidIdempotencyKey
      else case filter (\<lambda>job. mj_idempotency_key job = jr_idempotency_key request) existing of
        [] \<Rightarrow> Inr Enqueue_Create
      | job # others \<Rightarrow>
          if others \<noteq> [] then Inl MJE_DuplicateExistingKey
          else if mj_kind job \<noteq> jr_kind request
            \<or> mj_conversation_id job \<noteq> jr_conversation_id request
            \<or> mj_branch_id job \<noteq> jr_branch_id request
            \<or> mj_source_start_message_id job \<noteq> jr_source_start_message_id request
            \<or> mj_source_end_message_id job \<noteq> jr_source_end_message_id request
          then Inl MJE_IdempotencyConflict
          else Inr (Enqueue_Reuse (mj_id job) (mj_status job) (mj_attempt job)))"

subsection \<open>Status transitions\<close>

fun validate_memory_job_status_transition ::
  "memory_job_status \<Rightarrow> memory_job_status \<Rightarrow> (memory_job_error, unit) result" where
  "validate_memory_job_status_transition Job_Queued to =
     guard_err (to \<notin> {Job_Running, Job_Failed, Job_Cancelled}) MJE_InvalidStatusTransition"
| "validate_memory_job_status_transition Job_Running to =
     guard_err (to \<notin> {Job_Interrupted, Job_Succeeded, Job_Failed, Job_Cancelled})
       MJE_InvalidStatusTransition"
| "validate_memory_job_status_transition Job_Interrupted to =
     guard_err (to \<notin> {Job_Queued, Job_Cancelled}) MJE_InvalidStatusTransition"
| "validate_memory_job_status_transition _ to = Inl MJE_InvalidStatusTransition"

text \<open>
  The histories of a job: the statuses it has had, most recent first.  A job starts queued and
  moves by allowed transitions only.
\<close>

inductive job_history :: "memory_job_status list \<Rightarrow> bool" where
  created: "job_history [Job_Queued]"
| moved: "job_history (s # h) \<Longrightarrow> validate_memory_job_status_transition s s' = Inr () \<Longrightarrow>
    job_history (s' # s # h)"

inductive_cases job_history_ConsE: "job_history (s' # s # h)"

definition terminal_status :: "memory_job_status \<Rightarrow> bool" where
  "terminal_status s \<longleftrightarrow> s \<in> {Job_Succeeded, Job_Failed, Job_Cancelled}"

subsection \<open>Dispatch\<close>

record memory_job_dispatch_plan =
  dp_start_job_ids :: "str list"
  dp_running_jobs :: nat
  dp_remaining_rate_slots :: nat
  dp_blocked_by_concurrency :: bool
  dp_blocked_by_rate_limit :: bool

definition unique_jobs_step ::
  "str set \<times> str set \<Rightarrow> memory_job \<Rightarrow> (memory_job_error, str set \<times> str set) result" where
  "unique_jobs_step seen job =
     (case seen of (seen_job_ids, seen_keys) \<Rightarrow>
      if mj_id job \<in> seen_job_ids then Inl (MJE_DuplicateJobId (mj_id job))
      else if mj_idempotency_key job \<in> seen_keys then Inl MJE_DuplicateExistingKey
      else Inr (insert (mj_id job) seen_job_ids, insert (mj_idempotency_key job) seen_keys))"

definition cmp_queued :: "memory_job \<Rightarrow> memory_job \<Rightarrow> ordering" where
  "cmp_queued = cmp_then (cmp_on mj_created_at) (cmp_on mj_id)"

definition jobs_in :: "memory_job_kind \<Rightarrow> memory_job_status \<Rightarrow> memory_job list \<Rightarrow> memory_job list" where
  "jobs_in kind status jobs = filter (\<lambda>job. mj_kind job = kind \<and> mj_status job = status) jobs"

definition expected_task_kind ::
  "memory_job_kind \<Rightarrow> (memory_job_error, auxiliary_task_kind) result" where
  "expected_task_kind kind =
     (case kind of
        Job_Summary \<Rightarrow> Inr Task_MemorySummary
      | Job_Embedding \<Rightarrow> Inr Task_MemoryEmbedding
      | Job_InvalidateRange \<Rightarrow> Inl MJE_TaskKindMismatch)"

definition plan_memory_job_dispatch ::
  "memory_job list \<Rightarrow> memory_job_kind \<Rightarrow> task_profile \<Rightarrow> nat \<Rightarrow>
     (memory_job_error, memory_job_dispatch_plan) result" where
  "plan_memory_job_dispatch jobs kind profile requests_started_in_window =
     result_bind (expected_task_kind kind) (\<lambda>expected.
     if task_kind profile \<noteq> expected then Inl MJE_TaskKindMismatch
     else if task_concurrency_limit profile = 0 \<or> rl_requests (task_rate_limit profile) = 0
       \<or> rl_per_seconds (task_rate_limit profile) = 0
     then Inl MJE_InvalidTaskProfile
     else
       result_bind (try_fold unique_jobs_step ({}, {}) jobs) (\<lambda>_.
       let running_jobs = try_from_or u32_max u32_max (length (jobs_in kind Job_Running jobs));
           concurrency_slots = task_concurrency_limit profile - running_jobs;
           remaining_rate_slots = rl_requests (task_rate_limit profile) - requests_started_in_window;
           dispatch_count = min concurrency_slots remaining_rate_slots;
           queued = sort_by cmp_queued (jobs_in kind Job_Queued jobs) in
       Inr \<lparr>dp_start_job_ids = map mj_id (take dispatch_count queued),
            dp_running_jobs = running_jobs,
            dp_remaining_rate_slots = remaining_rate_slots,
            dp_blocked_by_concurrency = (concurrency_slots = 0),
            dp_blocked_by_rate_limit = (remaining_rate_slots = 0)\<rparr>))"

subsection \<open>Lemmas\<close>

lemma unique_jobs_loop:
  "try_fold unique_jobs_step (ids, keys) jobs = Inr seen \<Longrightarrow>
     distinct (map mj_id jobs) \<and> distinct (map mj_idempotency_key jobs) \<and> ids \<inter> mj_id ` set jobs = {}
     \<and> keys \<inter> mj_idempotency_key ` set jobs = {}"
proof (induction jobs arbitrary: ids keys)
  case (Cons job jobs)
  from Cons.prems obtain st where step: "unique_jobs_step (ids, keys) job = Inr st"
    and loop: "try_fold unique_jobs_step st jobs = Inr seen"
    by (auto simp: result_simps)
  from step have fresh: "mj_id job \<notin> ids" "mj_idempotency_key job \<notin> keys"
    and st: "st = (insert (mj_id job) ids, insert (mj_idempotency_key job) keys)"
    by (auto simp: unique_jobs_step_def split: if_splits)
  note rest = loop [unfolded st]
  from Cons.IH [OF rest] fresh show ?case by auto
qed simp

lemma total_comparator_queued: "total_comparator cmp_queued"
  unfolding cmp_queued_def by (intro total_comparator_intros)

interpretation queued_order: total_comparator cmp_queued
  by (rule total_comparator_queued)

lemma cmp_queued_not_Greater:
  "cmp_queued a b \<noteq> Greater \<longleftrightarrow>
     mj_created_at a < mj_created_at b \<or> mj_created_at a = mj_created_at b \<and> mj_id a \<le> mj_id b"
  by (auto simp: cmp_queued_def cmp_then_def cmp_on_def cmp_def)

lemma length_memory_job_kind_label: "length (memory_job_kind_label k) \<le> u64_max"
  by (cases k) (simp_all add: lit_def u64_max_def)

lemma memory_job_kind_label_inj: "memory_job_kind_label k = memory_job_kind_label k' \<Longrightarrow> k = k'"
  by (cases k; cases k') (simp_all add: lit_def)

lemma status_transition_Inr:
  "validate_memory_job_status_transition s s' = Inr u \<longleftrightarrow>
     s = Job_Queued \<and> s' \<in> {Job_Running, Job_Failed, Job_Cancelled} \<or>
     s = Job_Running \<and> s' \<in> {Job_Interrupted, Job_Succeeded, Job_Failed, Job_Cancelled} \<or>
     s = Job_Interrupted \<and> s' \<in> {Job_Queued, Job_Cancelled}"
  by (cases s) simp_all

text \<open>Counting along a history: a run needs a queueing, and a re-queueing needs an interruption.\<close>

lemma job_history_counts:
  assumes "job_history h"
  shows "count_list h Job_Running + (if hd h = Job_Queued then 1 else 0) \<le> count_list h Job_Queued"
    and "count_list h Job_Queued + (if hd h = Job_Interrupted then 1 else 0) \<le> 1 + count_list h Job_Interrupted"
    and "count_list h Job_Interrupted \<le> count_list h Job_Running"
proof -
  have "count_list h Job_Running + (if hd h = Job_Queued then 1 else 0) \<le> count_list h Job_Queued \<and>
    count_list h Job_Queued + (if hd h = Job_Interrupted then 1 else 0) \<le> 1 + count_list h Job_Interrupted \<and>
    count_list h Job_Interrupted + (if hd h = Job_Running then 1 else 0) \<le> count_list h Job_Running"
    using assms
  proof (induction rule: job_history.induct)
    case (moved s h s')
    then show ?case by (cases s; cases s') auto
  qed simp
  then show "count_list h Job_Running + (if hd h = Job_Queued then 1 else 0) \<le> count_list h Job_Queued"
    and "count_list h Job_Queued + (if hd h = Job_Interrupted then 1 else 0) \<le> 1 + count_list h Job_Interrupted"
    and "count_list h Job_Interrupted \<le> count_list h Job_Running"
    by auto
qed

end
