(* ===== verification/Memory_Job_Properties.thy ===== *)
theory Memory_Job_Properties
  imports Memory_Jobs
begin

section \<open>Properties of memory jobs\<close>

text \<open>
  What the job functions guarantee: keys that separate requests, replay-safe enqueueing, bounded
  retries along every history of statuses, and a dispatch plan within its limits that neither
  skips the queue nor idles.
\<close>

subsection \<open>Concrete jobs\<close>

definition sample_job :: "string \<Rightarrow> int \<Rightarrow> memory_job_status \<Rightarrow> memory_job" where
  "sample_job jid created status =
     \<lparr>mj_id = lit jid, mj_idempotency_key = lit (''key-'' @ jid), mj_kind = Job_Summary,
      mj_conversation_id = lit ''c'', mj_branch_id = lit ''b'',
      mj_source_start_message_id = lit ''m1'', mj_source_end_message_id = lit ''m2'',
      mj_status = status, mj_attempt = 0, mj_created_at = created, mj_updated_at = created,
      mj_error_code = None\<rparr>"

definition sample_task :: task_profile where
  "sample_task =
     \<lparr>task_id = lit ''t'', task_kind = Task_MemorySummary, task_route_id = lit ''r'',
      task_generation_preset_id = lit ''g'', task_fallback_route_ids = [],
      task_embedding_dimensions = None, task_timeout_ms = 1000,
      task_rate_limit = \<lparr>rl_requests = 5, rl_per_seconds = 60\<rparr>, task_concurrency_limit = 2\<rparr>"

definition sample_jobs :: "memory_job list" where
  "sample_jobs = [sample_job ''j3'' 30 Job_Queued, sample_job ''j1'' 10 Job_Running,
     sample_job ''j2'' 20 Job_Queued]"

definition sample_key_input :: "string \<Rightarrow> memory_job_key_input" where
  "sample_key_input branch =
     \<lparr>ki_kind = Job_Summary, ki_conversation_id = lit ''c'', ki_branch_id = lit branch,
      ki_source_start_message_id = lit ''m1'', ki_source_end_message_id = lit ''m2'',
      ki_profile_id = Some (lit ''p''), ki_profile_schema_version = Some 1,
      ki_source_revision = lit ''rev''\<rparr>"

subsection \<open>Idempotency keys\<close>

text \<open>What a Rust value of the input type satisfies: texts are valid and fit the address space, and a
  schema version fits 32 bits; and, what the type does not ensure, a profile id, where there is one, is not empty.\<close>

definition key_input_ok :: "memory_job_key_input \<Rightarrow> bool" where
  "key_input_ok i \<longleftrightarrow>
     (\<forall>t \<in> {ki_conversation_id i, ki_branch_id i, ki_source_start_message_id i,
         ki_source_end_message_id i, ki_source_revision i} \<union> set_option (ki_profile_id i).
       valid_text t \<and> str_len t \<le> usize_max) \<and>
     (\<forall>v \<in> set_option (ki_profile_schema_version i). v \<le> u32_max) \<and> ki_profile_id i \<noteq> Some []"

lemma utf8_inj_valid: "valid_text s \<Longrightarrow> valid_text t \<Longrightarrow> utf8 s = utf8 t \<Longrightarrow> s = t"
  using utf8_inj by blast

lemma utf8_eq_Nil: "utf8 t = [] \<longleftrightarrow> t = []"
  by (metis length_0_conv length_utf8 str_len_eq_0)

lemma memory_job_key_fields_ok:
  assumes "key_input_ok i" and "v \<in> set (memory_job_key_fields i)"
  shows "length v \<le> u64_max"
  using assms length_memory_job_kind_label [of "ki_kind i"]
  by (auto simp: memory_job_key_fields_def key_input_ok_def lit_def u64_max_def usize_max_def
      split: option.splits)

lemma key_input_okD:
  assumes "key_input_ok i"
  shows "valid_text (ki_conversation_id i)" and "valid_text (ki_branch_id i)"
    and "valid_text (ki_source_start_message_id i)" and "valid_text (ki_source_end_message_id i)"
    and "valid_text (ki_source_revision i)" and "ki_profile_id i = Some p \<Longrightarrow> valid_text p \<and> p \<noteq> []"
    and "ki_profile_schema_version i = Some v \<Longrightarrow> v < 256 ^ 4"
  using assms by (auto simp: key_input_ok_def u32_max_def)

lemma memory_job_key_fields_inj:
  assumes "memory_job_key_fields i = memory_job_key_fields j" and "key_input_ok i" and "key_input_ok j"
    and "(ki_profile_id i \<noteq> None) = (ki_profile_schema_version i \<noteq> None)"
    and "(ki_profile_id j \<noteq> None) = (ki_profile_schema_version j \<noteq> None)"
  shows "i = j"
proof (rule memory_job_key_input.equality)
  have eqs: "memory_job_kind_label (ki_kind i) = memory_job_kind_label (ki_kind j)"
    "utf8 (ki_conversation_id i) = utf8 (ki_conversation_id j)"
    "utf8 (ki_branch_id i) = utf8 (ki_branch_id j)"
    "utf8 (ki_source_start_message_id i) = utf8 (ki_source_start_message_id j)"
    "utf8 (ki_source_end_message_id i) = utf8 (ki_source_end_message_id j)"
    "utf8 (ki_source_revision i) = utf8 (ki_source_revision j)"
    and profile: "(case ki_profile_id i of None \<Rightarrow> [] | Some p \<Rightarrow> utf8 p) =
      (case ki_profile_id j of None \<Rightarrow> [] | Some p \<Rightarrow> utf8 p)"
    and version: "to_be_bytes 4 (case ki_profile_schema_version i of None \<Rightarrow> 0 | Some v \<Rightarrow> v) =
      to_be_bytes 4 (case ki_profile_schema_version j of None \<Rightarrow> 0 | Some v \<Rightarrow> v)"
    using assms(1) unfolding memory_job_key_fields_def list.inject by - (elim conjE, assumption)+
  note ok = key_input_okD [OF assms(2)] key_input_okD [OF assms(3)]
  show "ki_kind i = ki_kind j" by (rule memory_job_kind_label_inj [OF eqs(1)])
  show "ki_conversation_id i = ki_conversation_id j" by (rule utf8_inj_valid [OF ok(1,8) eqs(2)])
  show "ki_branch_id i = ki_branch_id j" by (rule utf8_inj_valid [OF ok(2,9) eqs(3)])
  show "ki_source_start_message_id i = ki_source_start_message_id j"
    by (rule utf8_inj_valid [OF ok(3,10) eqs(4)])
  show "ki_source_end_message_id i = ki_source_end_message_id j"
    by (rule utf8_inj_valid [OF ok(4,11) eqs(5)])
  show "ki_source_revision i = ki_source_revision j" by (rule utf8_inj_valid [OF ok(5,12) eqs(6)])
  show pid: "ki_profile_id i = ki_profile_id j"
  proof (cases "ki_profile_id i"; cases "ki_profile_id j")
    fix p q assume p: "ki_profile_id i = Some p" and q: "ki_profile_id j = Some q"
    have "p = q"
      by (rule utf8_inj_valid) (use profile p q ok(6) [OF p] ok(13) [OF q] in simp_all)
    with p q show ?thesis by simp
  qed (use profile ok(6,13) in \<open>auto simp: utf8_eq_Nil eq_commute [of "[]"]\<close>)
  have "(case ki_profile_schema_version i of None \<Rightarrow> 0 | Some v \<Rightarrow> v) =
      (case ki_profile_schema_version j of None \<Rightarrow> 0 | Some v \<Rightarrow> v)"
    by (rule to_be_bytes_inj [OF version]) (use ok(7,14) in \<open>auto split: option.split\<close>)
  then show "ki_profile_schema_version i = ki_profile_schema_version j"
    using pid assms(4,5)
    by (cases "ki_profile_schema_version i"; cases "ki_profile_schema_version j") auto
qed simp

text \<open>
  Different requests get different keys: if the digest does not collide on the two hash inputs
  and the hexadecimal encoding separates the two digests, equal keys come from equal key inputs.
\<close>

lemma key_separates:
  assumes "derive_memory_job_idempotency_key sha256 hex_encode i = Inr key"
    and "derive_memory_job_idempotency_key sha256 hex_encode j = Inr key"
    and "key_input_ok i" and "key_input_ok j"
    and "hex_encode a = hex_encode b \<Longrightarrow> a = b"
    and "sha256 x = sha256 y \<Longrightarrow> x = y"
    and "x = fold (\<lambda>v h. update_hash_field h v) (memory_job_key_fields i) []" and "a = sha256 x"
    and "y = fold (\<lambda>v h. update_hash_field h v) (memory_job_key_fields j) []" and "b = sha256 y"
  shows "i = j"
proof -
  have "key = lit ''memory-job:v1:'' @ hex_encode a" and "key = lit ''memory-job:v1:'' @ hex_encode b"
    using assms(1,2) unfolding assms(7-10)
    by (simp_all add: derive_memory_job_idempotency_key_def Let_def split: if_splits)
  then have "hex_encode a = hex_encode b" by simp
  then have "x = y" using assms(5,6,8,10) by simp
  then have "memory_job_key_fields i = memory_job_key_fields j"
    using memory_job_key_fields_ok assms(3,4) unfolding assms(7,9)
    by (intro hash_fields.fields_determined) (auto simp: memory_job_key_fields_def)
  then show ?thesis
    using assms(1-4) by (intro memory_job_key_fields_inj)
      (auto simp: derive_memory_job_idempotency_key_def split: if_splits)
qed

subsection \<open>Enqueueing and status\<close>

text \<open>
  Enqueueing is idempotent: when a request is told to create a job, and the job that is then
  stored has the key and the scope of the request, a replay of the request is told to reuse that
  job, with its current status and attempt, whatever other keys are stored meanwhile.
\<close>

lemma replay_reuses:
  assumes "decide_memory_job_enqueue existing request = Inr Enqueue_Create"
    and "mj_idempotency_key job = jr_idempotency_key request" and "mj_kind job = jr_kind request"
    and "mj_conversation_id job = jr_conversation_id request" and "mj_branch_id job = jr_branch_id request"
    and "mj_source_start_message_id job = jr_source_start_message_id request"
    and "mj_source_end_message_id job = jr_source_end_message_id request"
    and "\<forall>other \<in> set later. mj_idempotency_key other \<noteq> jr_idempotency_key request"
  shows "decide_memory_job_enqueue (existing @ job # later) request =
    Inr (Enqueue_Reuse (mj_id job) (mj_status job) (mj_attempt job))"
proof -
  have "filter (\<lambda>job. mj_idempotency_key job = jr_idempotency_key request) existing = []"
    using assms(1) by (auto simp: decide_memory_job_enqueue_def split: if_splits list.splits)
  moreover have "filter (\<lambda>job. mj_idempotency_key job = jr_idempotency_key request) later = []"
    using assms(8) by (simp add: filter_empty_conv)
  ultimately show ?thesis
    using assms(1-7) by (auto simp: decide_memory_job_enqueue_def split: if_splits)
qed

lemma empty_profile_collides:
  "derive_memory_job_idempotency_key sha256 hex_encode (k\<lparr>ki_profile_id := None, ki_profile_schema_version := None\<rparr>) =
   derive_memory_job_idempotency_key sha256 hex_encode (k\<lparr>ki_profile_id := Some [], ki_profile_schema_version := Some 0\<rparr>)"
  by (simp add: derive_memory_job_idempotency_key_def memory_job_key_fields_def)

text \<open>
  C36. Enqueueing is idempotent.  Different requests get different keys: if no profile id is the empty text, the digest does
  not collide on the two hash inputs and the hexadecimal encoding separates the two digests, equal keys come from equal
  key inputs.  The first condition is needed: a request without a profile has the key of the same request with an empty profile
  id and schema version 0.  When a request is told to create a job, and the job that is then stored has the key and
  the scope of the request, a replay of the request is told to reuse that job, with its current status
  and attempt, whatever other keys are stored meanwhile.
\<close>

theorem memory_job_idempotent:
  "(derive_memory_job_idempotency_key sha256 hex_encode i = Inr key \<and>
    derive_memory_job_idempotency_key sha256 hex_encode j = Inr key \<and> key_input_ok i \<and> key_input_ok j \<and>
    x = fold (\<lambda>v h. update_hash_field h v) (memory_job_key_fields i) [] \<and>
    y = fold (\<lambda>v h. update_hash_field h v) (memory_job_key_fields j) [] \<and>
    (hex_encode (sha256 x) = hex_encode (sha256 y) \<longrightarrow> sha256 x = sha256 y) \<and> (sha256 x = sha256 y \<longrightarrow> x = y) \<longrightarrow> i = j) \<and>
   derive_memory_job_idempotency_key sha256 hex_encode (k\<lparr>ki_profile_id := None, ki_profile_schema_version := None\<rparr>) =
     derive_memory_job_idempotency_key sha256 hex_encode (k\<lparr>ki_profile_id := Some [], ki_profile_schema_version := Some 0\<rparr>) \<and>
   (decide_memory_job_enqueue existing request = Inr Enqueue_Create \<and>
    mj_idempotency_key job = jr_idempotency_key request \<and> mj_kind job = jr_kind request \<and>
    mj_conversation_id job = jr_conversation_id request \<and> mj_branch_id job = jr_branch_id request \<and>
    mj_source_start_message_id job = jr_source_start_message_id request \<and>
    mj_source_end_message_id job = jr_source_end_message_id request \<and>
    (\<forall>other \<in> set later. mj_idempotency_key other \<noteq> jr_idempotency_key request) \<longrightarrow>
    decide_memory_job_enqueue (existing @ job # later) request =
      Inr (Enqueue_Reuse (mj_id job) (mj_status job) (mj_attempt job)))"
  using key_separates [of sha256 hex_encode i key j "sha256 x" "sha256 y" x y] replay_reuses [of existing request job later]
    empty_profile_collides [of sha256 hex_encode k]
  by blast

text \<open>The witness takes the identity for both functions, so that keys show their hash input.\<close>

definition sample_request :: memory_job_request where
  "sample_request =
     \<lparr>jr_idempotency_key = lit ''key-j9'', jr_kind = Job_Summary, jr_conversation_id = lit ''c'',
      jr_branch_id = lit ''b'', jr_source_start_message_id = lit ''m1'',
      jr_source_end_message_id = lit ''m2''\<rparr>"

theorem memory_job_idempotent_witness:
  "decide_memory_job_enqueue sample_jobs sample_request = Inr Enqueue_Create \<and>
   decide_memory_job_enqueue (sample_jobs @ [sample_job ''j9'' 40 Job_Queued]) sample_request =
     Inr (Enqueue_Reuse (lit ''j9'') Job_Queued 0) \<and>
   derive_memory_job_idempotency_key (\<lambda>b. b) (\<lambda>b. b) (sample_key_input ''b1'') \<noteq>
     derive_memory_job_idempotency_key (\<lambda>b. b) (\<lambda>b. b) (sample_key_input ''b2'')"
proof -
  let ?job = "sample_job ''j9'' 40 Job_Queued"
  have create: "decide_memory_job_enqueue sample_jobs sample_request = Inr Enqueue_Create" by code_simp
  have "mj_idempotency_key ?job = jr_idempotency_key sample_request \<and> mj_kind ?job = jr_kind sample_request \<and>
    mj_conversation_id ?job = jr_conversation_id sample_request \<and> mj_branch_id ?job = jr_branch_id sample_request \<and>
    mj_source_start_message_id ?job = jr_source_start_message_id sample_request \<and>
    mj_source_end_message_id ?job = jr_source_end_message_id sample_request"
    by (simp add: sample_job_def sample_request_def)
  then have reuse: "decide_memory_job_enqueue (sample_jobs @ ?job # []) sample_request =
      Inr (Enqueue_Reuse (mj_id ?job) (mj_status ?job) (mj_attempt ?job))"
    using create memory_job_idempotent [where existing = sample_jobs and request = sample_request and job = ?job and later = "[]"]
    by simp
  obtain key where key: "derive_memory_job_idempotency_key (\<lambda>b. b) (\<lambda>b. b) (sample_key_input ''b1'') = Inr key"
    by (simp add: derive_memory_job_idempotency_key_def sample_key_input_def
        MAX_MEMORY_JOB_SOURCE_REVISION_BYTES_def lit_def len_utf8_def Let_def)
  have ok: "key_input_ok (sample_key_input b)" if "b \<in> {''b1'', ''b2''}" for b
    using that by (auto simp: key_input_ok_def sample_key_input_def lit_def valid_text_def
        scalar_value_def len_utf8_def usize_max_def u32_max_def)
  have "sample_key_input ''b1'' \<noteq> sample_key_input ''b2''" by (simp add: sample_key_input_def lit_def)
  then have "derive_memory_job_idempotency_key (\<lambda>b. b) (\<lambda>b. b) (sample_key_input ''b1'') \<noteq>
     derive_memory_job_idempotency_key (\<lambda>b. b) (\<lambda>b. b) (sample_key_input ''b2'')"
    using memory_job_idempotent [where ?sha256.0 = "\<lambda>b. b" and hex_encode = "\<lambda>b. b" and key = key
      and i = "sample_key_input ''b1''" and j = "sample_key_input ''b2''"] key ok by fastforce
  with create reuse show ?thesis by (simp add: sample_job_def)
qed

text \<open>
  C37. Job histories: along every history of allowed transitions the job has run at most once more
  than it has been interrupted; a history that has reached a terminal status cannot be continued;
  and from every other status a terminal one can be reached, so no job is stuck.
\<close>

theorem job_history_bounded_retries:
  assumes "job_history h"
  shows "count_list h Job_Running \<le> count_list h Job_Interrupted + 1 \<and>
    (terminal_status (hd h) \<longleftrightarrow> \<not> (\<exists>s. job_history (s # h))) \<and>
    (\<not> terminal_status (hd h) \<longrightarrow> (\<exists>s. terminal_status s \<and> job_history (s # h)))"
proof -
  obtain s t where h: "h = s # t" using assms by (cases rule: job_history.cases) auto
  have step: "job_history (s' # h) \<longleftrightarrow> validate_memory_job_status_transition s s' = Inr ()" for s'
    using assms h by (auto intro: job_history.intros elim: job_history_ConsE)
  show ?thesis
    using job_history_counts(1,2) [OF assms] h unfolding step terminal_status_def
    by (cases s) auto
qed

theorem job_history_bounded_retries_witness:
  "job_history [Job_Running, Job_Queued, Job_Interrupted, Job_Running, Job_Queued] \<and>
   (\<exists>s. terminal_status s \<and>
     job_history [s, Job_Running, Job_Queued, Job_Interrupted, Job_Running, Job_Queued])"
proof -
  have h: "job_history [Job_Running, Job_Queued, Job_Interrupted, Job_Running, Job_Queued]"
    by (intro job_history.intros) simp_all
  with job_history_bounded_retries [OF h] show ?thesis by (simp add: terminal_status_def)
qed

subsection \<open>Dispatch\<close>

lemma dispatch_limits:
  assumes "plan_memory_job_dispatch jobs kind profile started = Inr plan"
    and "length jobs \<le> u32_max"
  shows "distinct (dp_start_job_ids plan) \<and>
    set (dp_start_job_ids plan) \<subseteq> mj_id ` set (jobs_in kind Job_Queued jobs) \<and>
    length (dp_start_job_ids plan) \<le> task_concurrency_limit profile - length (jobs_in kind Job_Running jobs) \<and>
    length (dp_start_job_ids plan) \<le> rl_requests (task_rate_limit profile) - started \<and>
    dp_running_jobs plan = length (jobs_in kind Job_Running jobs)"
proof -
  let ?q = "sort_by cmp_queued (jobs_in kind Job_Queued jobs)"
  let ?n = "min (task_concurrency_limit profile - length (jobs_in kind Job_Running jobs))
    (rl_requests (task_rate_limit profile) - started)"
  have "length (jobs_in kind Job_Running jobs) \<le> length jobs"
    unfolding jobs_in_def by (rule length_filter_le)
  with assms(2) have running: "try_from_or u32_max u32_max (length (jobs_in kind Job_Running jobs)) =
      length (jobs_in kind Job_Running jobs)" by (simp add: try_from_or_def)
  from assms(1) obtain seen where seen: "try_fold unique_jobs_step ({}, {}) jobs = Inr seen"
    and ids: "dp_start_job_ids plan = map mj_id (take ?n ?q)"
    and count: "dp_running_jobs plan = length (jobs_in kind Job_Running jobs)"
    by (auto simp: plan_memory_job_dispatch_def Let_def result_simps running split: if_splits)
  have "distinct (map mj_id (jobs_in kind Job_Queued jobs))"
    using unique_jobs_loop [OF seen] unfolding jobs_in_def by (intro distinct_map_filter) blast
  then have "distinct (take ?n (map mj_id ?q))" by (intro distinct_take) simp
  moreover have "set (take ?n ?q) \<subseteq> set (jobs_in kind Job_Queued jobs)"
    using set_take_subset [of ?n ?q] by simp
  ultimately show ?thesis unfolding ids count by (auto simp: take_map)
qed

lemma dispatch_fifo:
  assumes "plan_memory_job_dispatch jobs kind profile started = Inr plan"
    and "length jobs \<le> u32_max"
    and "waiting \<in> set (jobs_in kind Job_Queued jobs)" and "mj_id waiting \<notin> set (dp_start_job_ids plan)"
  shows "(\<forall>job \<in> set (jobs_in kind Job_Queued jobs). mj_id job \<in> set (dp_start_job_ids plan) \<longrightarrow>
      mj_created_at job < mj_created_at waiting \<or>
      mj_created_at job = mj_created_at waiting \<and> mj_id job \<le> mj_id waiting) \<and>
    (length (jobs_in kind Job_Running jobs) + length (dp_start_job_ids plan) \<ge> task_concurrency_limit profile \<or>
     started + length (dp_start_job_ids plan) \<ge> rl_requests (task_rate_limit profile))"
proof -
  let ?q = "sort_by cmp_queued (jobs_in kind Job_Queued jobs)"
  let ?n = "min (task_concurrency_limit profile - length (jobs_in kind Job_Running jobs))
    (rl_requests (task_rate_limit profile) - started)"
  have "length (jobs_in kind Job_Running jobs) \<le> length jobs"
    unfolding jobs_in_def by (rule length_filter_le)
  with assms(2) have running: "try_from_or u32_max u32_max (length (jobs_in kind Job_Running jobs)) =
      length (jobs_in kind Job_Running jobs)" by (simp add: try_from_or_def)
  from assms(1) obtain seen where seen: "try_fold unique_jobs_step ({}, {}) jobs = Inr seen"
    and ids: "dp_start_job_ids plan = map mj_id (take ?n ?q)"
    by (auto simp: plan_memory_job_dispatch_def Let_def result_simps running split: if_splits)
  have inj: "inj_on mj_id (set jobs)" using unique_jobs_loop [OF seen] by (simp add: distinct_map)
  have sub: "set (jobs_in kind Job_Queued jobs) \<subseteq> set jobs" by (auto simp: jobs_in_def)
  have behind: "waiting \<in> set (drop ?n ?q)"
    using assms(3,4) unfolding ids by (metis append_take_drop_id set_append UnE image_eqI set_map set_sort_by)
  have order: "sorted_wrt (\<lambda>x y. cmp_queued x y \<noteq> Greater) (take ?n ?q @ drop ?n ?q)"
    using queued_order.sorted_sort_by by simp
  have "cmp_queued job waiting \<noteq> Greater"
    if "job \<in> set (jobs_in kind Job_Queued jobs)" "mj_id job \<in> set (dp_start_job_ids plan)" for job
  proof -
    from that(2) obtain job' where "job' \<in> set (take ?n ?q)" "mj_id job' = mj_id job" unfolding ids by auto
    moreover have "job' \<in> set jobs" using calculation(1) sub set_take_subset [of ?n ?q] by auto
    ultimately have "job \<in> set (take ?n ?q)" using inj that(1) sub by (metis inj_on_def subsetD)
    then show ?thesis using order [unfolded sorted_wrt_append] behind by blast
  qed
  moreover have "length (take n xs) = n" if "x \<in> set (drop n xs)" for x n and xs :: "memory_job list"
    using that by (cases "n \<le> length xs") simp_all
  from this [OF behind] have "length (take ?n ?q) = ?n" .
  ultimately show ?thesis unfolding cmp_queued_not_Greater by (auto simp: ids)
qed

text \<open>
  A dispatch plan starts distinct queued jobs of the requested kind, never more than the
  concurrency limit leaves beside the running ones, nor more than the rate limit leaves in the
  window.  It is first-in first-out and does not idle: a started job is never younger, in
  \<open>(created_at, id)\<close> order, than a queued job of the kind that stays behind, and where one stays
  behind the plan has used up one of the two limits.
\<close>

theorem dispatch_correct:
  assumes "plan_memory_job_dispatch jobs kind profile started = Inr plan"
    and "length jobs \<le> u32_max"
  shows "distinct (dp_start_job_ids plan) \<and>
    set (dp_start_job_ids plan) \<subseteq> mj_id ` set (jobs_in kind Job_Queued jobs) \<and>
    length (dp_start_job_ids plan) \<le> task_concurrency_limit profile - length (jobs_in kind Job_Running jobs) \<and>
    length (dp_start_job_ids plan) \<le> rl_requests (task_rate_limit profile) - started \<and>
    dp_running_jobs plan = length (jobs_in kind Job_Running jobs) \<and>
    (\<forall>waiting \<in> set (jobs_in kind Job_Queued jobs). mj_id waiting \<notin> set (dp_start_job_ids plan) \<longrightarrow>
     (\<forall>job \<in> set (jobs_in kind Job_Queued jobs). mj_id job \<in> set (dp_start_job_ids plan) \<longrightarrow>
      mj_created_at job < mj_created_at waiting \<or>
      mj_created_at job = mj_created_at waiting \<and> mj_id job \<le> mj_id waiting) \<and>
    (length (jobs_in kind Job_Running jobs) + length (dp_start_job_ids plan) \<ge> task_concurrency_limit profile \<or>
     started + length (dp_start_job_ids plan) \<ge> rl_requests (task_rate_limit profile)))"
  using dispatch_limits [OF assms] dispatch_fifo [OF assms] by blast

theorem dispatch_correct_witness:
  "\<exists>plan. plan_memory_job_dispatch sample_jobs Job_Summary sample_task 3 = Inr plan \<and>
     (length (jobs_in Job_Summary Job_Running sample_jobs) + length (dp_start_job_ids plan) \<ge> 2 \<or>
      3 + length (dp_start_job_ids plan) \<ge> 5)"
proof -
  let ?w = "sample_job ''j3'' 30 Job_Queued"
  have ok: "(case plan_memory_job_dispatch sample_jobs Job_Summary sample_task 3 of
      Inl _ \<Rightarrow> False | Inr plan \<Rightarrow> dp_start_job_ids plan = [lit ''j2''])"
    by code_simp
  then obtain plan where plan: "plan_memory_job_dispatch sample_jobs Job_Summary sample_task 3 = Inr plan"
    and ids: "dp_start_job_ids plan = [lit ''j2'']"
    by (auto split: sum.splits)
  have "length sample_jobs \<le> u32_max" by (simp add: sample_jobs_def u32_max_def)
  moreover have "?w \<in> set (jobs_in Job_Summary Job_Queued sample_jobs)"
    by (simp add: jobs_in_def sample_jobs_def sample_job_def)
  moreover have "mj_id ?w \<notin> set (dp_start_job_ids plan)"
    unfolding ids by (simp add: sample_job_def lit_def)
  ultimately have "task_concurrency_limit sample_task \<le>
      length (jobs_in Job_Summary Job_Running sample_jobs) + length (dp_start_job_ids plan) \<or>
    rl_requests (task_rate_limit sample_task) \<le> 3 + length (dp_start_job_ids plan)"
    using dispatch_correct [OF plan] by blast
  with plan show ?thesis by (intro exI [of _ plan]) (simp add: sample_task_def)
qed

end
