(* ===== verification/Knowledge_Validation.thy ===== *)
theory Knowledge_Validation
  imports Domain_Validation
begin

section \<open>Validation of knowledge books\<close>

text \<open>
  \<open>ValidateOrchestration\<close> for \<open>KnowledgeBook\<close>, with \<open>validate_activation_rule\<close> and
  \<open>validate_knowledge_parent_graph\<close> (\<open>crates/domain/src/orchestration.rs\<close>).

  The graph check walks from every entry along its parents and marks what it has seen, so that
  each edge is followed once.  Its specification is \<open>rooted\<close>: the chain of parents of an entry
  ends, inside the book, at an entry without a parent.  The walk accepts a book with distinct
  ids exactly when all its entries are rooted.
\<close>

subsection \<open>Activation rules\<close>

text \<open>The node counter is threaded through the walk and returned.\<close>

fun validate_activation_rule ::
  "activation_rule \<Rightarrow> str \<Rightarrow> nat \<Rightarrow> nat \<Rightarrow> (validation_error, nat) result" where
  "validate_activation_rule rule path depth nodes =
     (if depth > 16 then Inl (validation_error_new path (lit ''activation nesting exceeds 16''))
      else let nodes = nodes + 1 in
      if nodes > 512 then
        Inl (validation_error_new path (lit ''activation expression exceeds 512 nodes''))
      else case rule of
        Rule_Keyword primary secondary _ _ _ \<Rightarrow>
          if primary = [] \<or> saturating_add usize_max (length primary) (length secondary) > 256 then
            Inl (validation_error_new path
              (lit ''keyword activation requires primary keys and at most 256 total keys''))
          else result_bind
            (try_for (\<lambda>(i, keyword).
               validate_text (path_index (path @ lit ''.keywords'') i) keyword 1 1024)
              (enumerate 0 (primary @ secondary)))
            (\<lambda>_. Inr nodes)
      | Rule_Regex patterns \<Rightarrow>
          if patterns = [] \<or> length patterns > 64 then
            Inl (validation_error_new path
              (lit ''regex activation requires between 1 and 64 patterns''))
          else result_bind
            (try_for (\<lambda>(i, pattern).
               map_err (\<lambda>e. validation_error_new
                   (path_index (path @ lit ''.patterns'') i @ lit ''.'' @ ve_path e) (ve_reason e))
                 (safe_regex_validate pattern))
              (enumerate 0 patterns))
            (\<lambda>_. Inr nodes)
      | Rule_Semantic threshold top_k \<Rightarrow>
          if \<not> is_finite threshold \<or> \<not> float_in_range 0 1 threshold \<or> top_k = 0 then
            Inl (validation_error_new path
              (lit ''semantic threshold must be within 0..=1 and top_k positive''))
          else Inr nodes
      | Rule_Condition expression \<Rightarrow>
          result_bind (validate_condition expression path) (\<lambda>_. Inr nodes)
      | Rule_Any rules \<Rightarrow>
          if rules = [] then
            Inl (validation_error_new path (lit ''composed activation requires at least one rule''))
          else try_fold
            (\<lambda>n (i, child). validate_activation_rule child (path_index path i) (depth + 1) n)
            nodes (enumerate 0 rules)
      | Rule_All rules \<Rightarrow>
          if rules = [] then
            Inl (validation_error_new path (lit ''composed activation requires at least one rule''))
          else try_fold
            (\<lambda>n (i, child). validate_activation_rule child (path_index path i) (depth + 1) n)
            nodes (enumerate 0 rules)
      | Rule_Always \<Rightarrow> Inr nodes
      | Rule_Manual \<Rightarrow> Inr nodes)"

declare validate_activation_rule.simps [simp del]

subsection \<open>The parent graph\<close>

datatype knowledge_parent_visit = Unseen | Active | Done

text \<open>
  The inner loop: follow the cursor until it leaves the graph or meets a finished entry.  An index
  outside the vector would panic; the branch is shown to be unreachable.
\<close>

function parent_walk ::
  "knowledge_entry list \<Rightarrow> (str, nat) btree_map \<Rightarrow> nat \<Rightarrow> knowledge_parent_visit list \<Rightarrow> nat list \<Rightarrow>
     nat option \<Rightarrow> (validation_error, knowledge_parent_visit list \<times> nat list) result" where
  "parent_walk entries entries_by_id root_index visits path cursor =
     (case cursor of
        None \<Rightarrow> Inr (visits, path)
      | Some index \<Rightarrow>
          if index \<ge> length visits then Inl (validation_error_new [] (lit ''index out of bounds''))
          else case visits ! index of
            Done \<Rightarrow> Inr (visits, path)
          | Active \<Rightarrow>
              Inl (validation_error_new
                (path_index (lit ''entries'') root_index @ lit ''.parent_id'')
                (lit ''parent graph contains a cycle''))
          | Unseen \<Rightarrow>
              (case ke_parent_id (entries ! index) of
                 None \<Rightarrow> parent_walk entries entries_by_id root_index (visits[index := Active])
                   (path @ [index]) None
               | Some parent_id \<Rightarrow>
                   (case bt_get entries_by_id parent_id of
                      None \<Rightarrow>
                        Inl (validation_error_new
                          (path_index (lit ''entries'') root_index @ lit ''.parent_id'')
                          (lit ''parent must reference an entry in the same book''))
                    | Some next \<Rightarrow> parent_walk entries entries_by_id root_index
                        (visits[index := Active]) (path @ [index]) (Some next))))"
  by pat_completeness auto

lemma count_Unseen_update:
  "index < length visits \<Longrightarrow> visits ! index = Unseen \<Longrightarrow>
     length (filter (\<lambda>v. v = Unseen) (visits[index := Active])) < length (filter (\<lambda>v. v = Unseen) visits)"
proof (induction visits arbitrary: index)
  case (Cons v visits)
  then show ?case by (cases index) auto
qed simp

termination parent_walk
  by (relation "measure (\<lambda>(_, _, _, visits, _, _). length (filter (\<lambda>v. v = Unseen) visits))")
    (auto simp: count_Unseen_update not_le)

declare parent_walk.simps [simp del]

definition parent_root_step ::
  "knowledge_entry list \<Rightarrow> (str, nat) btree_map \<Rightarrow> knowledge_parent_visit list \<Rightarrow> nat \<Rightarrow>
     (validation_error, knowledge_parent_visit list) result" where
  "parent_root_step entries entries_by_id visits root_index =
     (if visits ! root_index = Done then Inr visits
      else
        result_bind (parent_walk entries entries_by_id root_index visits [] (Some root_index))
          (\<lambda>(visits, path). Inr (fold (\<lambda>index visits. visits[index := Done]) path visits)))"

definition validate_knowledge_parent_graph ::
  "knowledge_entry list \<Rightarrow> (validation_error, unit) result" where
  "validate_knowledge_parent_graph entries =
     (let entries_by_id = bt_collect (map (\<lambda>(index, entry). (ke_id entry, index)) (enumerate 0 entries)) in
      result_bind
        (try_fold (parent_root_step entries entries_by_id) (replicate (length entries) Unseen)
          [0..<length entries])
        (\<lambda>_. Inr ()))"

subsection \<open>Books\<close>

definition validate_book_entry ::
  "str \<Rightarrow> nat \<times> knowledge_entry \<Rightarrow> (validation_error, unit) result" where
  "validate_book_entry book_id ie =
     (case ie of (i, entry) \<Rightarrow>
      let here = path_index (lit ''entries'') i in
      checks
        [reject_if (ke_book_id entry \<noteq> book_id) (here @ lit ''.book_id'')
           (lit ''must match the enclosing book''),
         validate_id (here @ lit ''.id'') (ke_id entry),
         validate_text (here @ lit ''.content'') (ke_content entry) 1 MAX_KNOWLEDGE_ENTRY_TEXT_CHARS,
         reject_if (ke_importance entry > 100 \<or> ke_activation_probability_basis_points entry > 10000)
           here (lit ''importance or activation probability is out of range''),
         result_bind (validate_activation_rule (ke_activation entry) (here @ lit ''.activation'') 0 0)
           (\<lambda>_. Inr ()),
         reject_if (ke_parent_id entry = Some (ke_id entry)) (here @ lit ''.parent_id'')
           (lit ''an entry cannot be its own parent'')])"

definition knowledge_book_validate :: "knowledge_book \<Rightarrow> (validation_error, unit) result" where
  "knowledge_book_validate b =
     checks
       [validate_id (lit ''id'') (kb_id b),
        validate_text (lit ''name'') (kb_name b) 1 MAX_NAME_CHARS,
        reject_if (kb_schema_version b = 0 \<or> length (kb_entries b) > DOMAIN_MAX_KNOWLEDGE_ENTRIES)
          (lit ''entries'')
          (lit ''schema must be positive and entries at most '' @ show_nat DOMAIN_MAX_KNOWLEDGE_ENTRIES),
        reject_if (kb_scan_depth b > 1024 \<or> kb_max_recursion_depth b > 16
            \<or> max_tokens (kb_token_budget b) > 10000000)
          (lit ''knowledge_book'')
          (lit ''scan depth, recursion depth, or token budget is out of range''),
        reject_if (\<not> kb_recursive b \<and> kb_max_recursion_depth b \<noteq> 0) (lit ''max_recursion_depth'')
          (lit ''must be zero when recursive retrieval is disabled''),
        try_for (validate_book_entry (kb_id b)) (enumerate 0 (kb_entries b)),
        reject_if (adjacent_dup (sort_by cmp (map ke_id (kb_entries b))) \<noteq> None) (lit ''entries'')
          (lit ''entry identifiers must be unique''),
        validate_knowledge_parent_graph (kb_entries b)]"

subsection \<open>The graph check decides rootedness\<close>

inductive rooted :: "knowledge_entry list \<Rightarrow> str \<Rightarrow> bool" for entries where
  root: "e \<in> set entries \<Longrightarrow> ke_parent_id e = None \<Longrightarrow> rooted entries (ke_id e)"
| child: "e \<in> set entries \<Longrightarrow> ke_parent_id e = Some p \<Longrightarrow> rooted entries p \<Longrightarrow> rooted entries (ke_id e)"

definition parent_edges :: "knowledge_entry list \<Rightarrow> (str \<times> str) set" where
  "parent_edges entries = {(ke_id e, p) | e p. e \<in> set entries \<and> ke_parent_id e = Some p}"

lemma rooted_edge: "(q, p) \<in> parent_edges entries \<Longrightarrow> rooted entries p \<Longrightarrow> rooted entries q"
  by (auto simp: parent_edges_def intro: rooted.child)

lemma rooted_trancl: "(q, p) \<in> (parent_edges entries)\<^sup>+ \<Longrightarrow> rooted entries p \<Longrightarrow> rooted entries q"
  by (induction rule: trancl_induct) (auto intro: rooted_edge)

lemma entry_unique:
  assumes "distinct (map ke_id entries)" and "e \<in> set entries" and "e' \<in> set entries"
    and "ke_id e = ke_id e'"
  shows "e = e'"
  using assms by (auto simp: distinct_map inj_on_def)

lemma rooted_not_cyclic:
  assumes "distinct (map ke_id entries)" and "rooted entries q"
  shows "(q, q) \<notin> (parent_edges entries)\<^sup>+"
  using assms(2)
proof (induction rule: rooted.induct)
  case (root e)
  have "(ke_id e, p) \<notin> parent_edges entries" for p
    using root entry_unique [OF assms(1)] by (fastforce simp: parent_edges_def)
  then show ?case by (metis tranclD)
next
  case (child e p)
  have only: "p' = p" if "(ke_id e, p') \<in> parent_edges entries" for p'
    using that child entry_unique [OF assms(1)] by (fastforce simp: parent_edges_def)
  have edge: "(ke_id e, p) \<in> parent_edges entries" using child by (auto simp: parent_edges_def)
  show ?case
  proof
    assume "(ke_id e, ke_id e) \<in> (parent_edges entries)\<^sup>+"
    then have "(p, ke_id e) \<in> (parent_edges entries)\<^sup>*" using only by (metis tranclD)
    then have "(p, p) \<in> (parent_edges entries)\<^sup>+" using edge by (rule rtrancl_into_trancl1)
    with child.IH show False ..
  qed
qed

lemma rooted_parent:
  assumes "distinct (map ke_id entries)" and "rooted entries (ke_id e)" and "e \<in> set entries"
    and "ke_parent_id e = Some p"
  shows "rooted entries p"
  using assms(2) assms entry_unique [OF assms(1)] by (cases rule: rooted.cases) fastforce+

lemma rooted_in_book: "rooted entries q \<Longrightarrow> q \<in> ke_id ` set entries"
  by (induction rule: rooted.induct) auto

lemma entries_by_id:
  assumes "distinct (map ke_id entries)"
  shows "bt_get (bt_collect (map (\<lambda>(index, entry). (ke_id entry, index)) (enumerate 0 entries))) p = Some i
    \<longleftrightarrow> i < length entries \<and> ke_id (entries ! i) = p"
proof -
  let ?kvs = "map (\<lambda>(index, entry). (ke_id entry, index)) (enumerate 0 entries)"
  have "map fst ?kvs = map ke_id (map snd (enumerate 0 entries))"
    by (simp add: case_prod_unfold comp_def del: map_snd_enumerate)
  then have "distinct (map fst ?kvs)" using assms by simp
  then have "bt_get (bt_collect ?kvs) p = Some i \<longleftrightarrow> (p, i) \<in> set ?kvs"
    by (simp add: bt_get_collect map_of_rev_distinct)
  also have "\<dots> \<longleftrightarrow> (\<exists>e. (i, e) \<in> set (enumerate 0 entries) \<and> ke_id e = p)" by force
  also have "\<dots> \<longleftrightarrow> i < length entries \<and> ke_id (entries ! i) = p"
    by (auto simp: in_set_enumerate_eq)
  finally show ?thesis .
qed

text \<open>
  The state of a walk: the active entries are those on the path, finished entries are rooted, and
  every entry on the path leads to the cursor, or is rooted when the cursor has left the graph.
\<close>

definition walk_inv ::
  "knowledge_entry list \<Rightarrow> knowledge_parent_visit list \<Rightarrow> nat list \<Rightarrow> nat option \<Rightarrow> bool" where
  "walk_inv entries visits path cursor \<longleftrightarrow>
     length visits = length entries \<and>
     set path = {i. i < length entries \<and> visits ! i = Active} \<and>
     (\<forall>i < length entries. visits ! i = Done \<longrightarrow> rooted entries (ke_id (entries ! i))) \<and>
     (case cursor of
        None \<Rightarrow> \<forall>i \<in> set path. rooted entries (ke_id (entries ! i))
      | Some k \<Rightarrow> k < length entries \<and>
          (\<forall>i \<in> set path. (ke_id (entries ! i), ke_id (entries ! k)) \<in> (parent_edges entries)\<^sup>+))"

lemma walk_inv_step:
  assumes inv: "walk_inv entries visits path (Some k)" and unseen: "visits ! k = Unseen"
    and edge: "cursor = None \<and> ke_parent_id (entries ! k) = None \<or>
      (\<exists>j. cursor = Some j \<and> j < length entries \<and> ke_parent_id (entries ! k) = Some (ke_id (entries ! j)))"
  shows "walk_inv entries (visits[k := Active]) (path @ [k]) cursor"
proof -
  have k: "k < length entries" and len: "length visits = length entries"
    and reach: "\<And>i. i \<in> set path \<Longrightarrow> (ke_id (entries ! i), ke_id (entries ! k)) \<in> (parent_edges entries)\<^sup>+"
    using inv by (auto simp: walk_inv_def)
  have lead: "case cursor of None \<Rightarrow> \<forall>i \<in> set (path @ [k]). rooted entries (ke_id (entries ! i))
      | Some j \<Rightarrow> j < length entries \<and>
          (\<forall>i \<in> set (path @ [k]). (ke_id (entries ! i), ke_id (entries ! j)) \<in> (parent_edges entries)\<^sup>+)"
  proof (cases cursor)
    case None
    then have "rooted entries (ke_id (entries ! k))" using edge k by (auto intro: rooted.root)
    then show ?thesis using None reach rooted_trancl by auto
  next
    case (Some j)
    then have "(ke_id (entries ! k), ke_id (entries ! j)) \<in> parent_edges entries"
      using edge k by (auto simp: parent_edges_def)
    then show ?thesis using Some edge reach by (auto intro: trancl_into_trancl)
  qed
  have "set (path @ [k]) = {i. i < length entries \<and> visits[k := Active] ! i = Active}"
    using inv k len by (auto simp: walk_inv_def nth_list_update split: if_splits)
  with inv k len lead show ?thesis
    by (simp add: walk_inv_def nth_list_update split: option.splits)
qed

text \<open>What a walk delivers: rooted entries only, or evidence that some entry is not.\<close>

lemma parent_walk_correct:
  assumes "distinct (map ke_id entries)" and "walk_inv entries visits path cursor"
    and "by_id = bt_collect (map (\<lambda>(index, entry). (ke_id entry, index)) (enumerate 0 entries))"
  shows "case parent_walk entries by_id root_index visits path cursor of
      Inl e \<Rightarrow> (\<exists>i < length entries. \<not> rooted entries (ke_id (entries ! i)))
    | Inr (visits', path') \<Rightarrow> walk_inv entries visits' path' None \<and>
        (\<forall>i < length entries. visits ! i \<noteq> Unseen \<longrightarrow> visits' ! i \<noteq> Unseen) \<and>
        (\<forall>k. cursor = Some k \<longrightarrow> visits' ! k \<noteq> Unseen)"
  using assms
proof (induction entries by_id root_index visits path cursor rule: parent_walk.induct)
  case (1 entries by_id root_index visits path cursor)
  note ids = 1(3) and inv = 1(4) and by_id = 1(5)
  note get = entries_by_id [OF ids, folded by_id]
  show ?case
  proof (cases cursor)
    case None
    with inv show ?thesis by (simp add: parent_walk.simps [of _ _ _ _ _ None])
  next
    case (Some k)
    then have k: "k < length visits" "length visits = length entries"
      and reach: "\<And>i. i \<in> set path \<Longrightarrow> (ke_id (entries ! i), ke_id (entries ! k)) \<in> (parent_edges entries)\<^sup>+"
      using inv by (auto simp: walk_inv_def)
    note walk = parent_walk.simps [of entries by_id root_index visits path cursor, unfolded Some]
    show ?thesis
    proof (cases "visits ! k")
      case Done
      then have "rooted entries (ke_id (entries ! k))" using inv k Some by (auto simp: walk_inv_def)
      then have "rooted entries (ke_id (entries ! i))" if "i \<in> set path" for i
        using rooted_trancl [OF reach [OF that]] by simp
      then have "walk_inv entries visits path None" using inv by (simp add: walk_inv_def)
      moreover have "parent_walk entries by_id root_index visits path cursor = Inr (visits, path)"
        unfolding Some walk using Done k by simp
      ultimately show ?thesis using Done Some by simp
    next
      case Active
      then have "k \<in> set path" using inv k by (auto simp: walk_inv_def)
      then have "\<not> rooted entries (ke_id (entries ! k))"
        using reach rooted_not_cyclic [OF ids] by blast
      moreover have "\<exists>e. parent_walk entries by_id root_index visits path cursor = Inl e"
        unfolding Some walk using Active k by simp
      ultimately show ?thesis using k by auto
    next
      case Unseen
      have grow: "\<forall>i < length entries. visits ! i \<noteq> Unseen \<longrightarrow> visits[k := Active] ! i \<noteq> Unseen"
        "visits[k := Active] ! k \<noteq> Unseen"
        using k by (simp_all add: nth_list_update)
      show ?thesis
      proof (cases "ke_parent_id (entries ! k)")
        case None
        have "walk_inv entries (visits[k := Active]) (path @ [k]) None"
          by (rule walk_inv_step [OF inv [unfolded Some] Unseen]) (simp add: None)
        moreover have "parent_walk entries by_id root_index visits path cursor =
            parent_walk entries by_id root_index (visits[k := Active]) (path @ [k]) None"
          unfolding Some walk using Unseen None k by simp
        ultimately show ?thesis
          using 1(1) [OF Some _ Unseen None ids _ by_id] k grow Some
          by (simp split: sum.splits prod.splits)
      next
        case parent: (Some p)
        show ?thesis
        proof (cases "bt_get by_id p")
          case None
          then have "p \<notin> ke_id ` set entries" using get by (metis image_iff in_set_conv_nth option.distinct(1))
          then have "\<not> rooted entries (ke_id (entries ! k))"
            using rooted_parent [OF ids _ _ parent] rooted_in_book k by (metis nth_mem)
          moreover have "\<exists>e. parent_walk entries by_id root_index visits path cursor = Inl e"
            unfolding Some walk using None parent Unseen k by simp
          ultimately show ?thesis using k by auto
        next
          case found: (Some j)
          then have j: "j < length entries" "ke_id (entries ! j) = p" using get by auto
          have "walk_inv entries (visits[k := Active]) (path @ [k]) (Some j)"
            by (rule walk_inv_step [OF inv [unfolded Some] Unseen]) (use j parent in simp)
          moreover have "parent_walk entries by_id root_index visits path cursor =
              parent_walk entries by_id root_index (visits[k := Active]) (path @ [k]) (Some j)"
            unfolding Some walk using Unseen parent found k by simp
          ultimately show ?thesis
            using 1(2) [OF Some _ Unseen parent found ids _ by_id] k grow Some by (simp split: sum.splits prod.splits)
        qed
      qed
    qed
  qed
qed

lemma fold_update_Done:
  "length (fold (\<lambda>index visits. visits[index := Done]) path visits) = length visits"
  "i < length visits \<Longrightarrow>
     fold (\<lambda>index visits. visits[index := Done]) path visits ! i = (if i \<in> set path then Done else visits ! i)"
  by (induction path arbitrary: visits) (auto simp: nth_list_update)

text \<open>Between two roots nothing is active, and everything up to the next root is finished.\<close>

lemma parent_root_step_correct:
  assumes "distinct (map ke_id entries)" and "walk_inv entries visits [] None" and "r < length entries"
    and "by_id = bt_collect (map (\<lambda>(index, entry). (ke_id entry, index)) (enumerate 0 entries))"
  shows "case parent_root_step entries by_id visits r of
      Inl e \<Rightarrow> (\<exists>i < length entries. \<not> rooted entries (ke_id (entries ! i)))
    | Inr visits' \<Rightarrow> walk_inv entries visits' [] None \<and> visits' ! r = Done \<and>
        (\<forall>i < length entries. visits ! i = Done \<longrightarrow> visits' ! i = Done)"
proof (cases "visits ! r = Done")
  case True
  with assms(2) show ?thesis by (simp add: parent_root_step_def)
next
  case False
  have "walk_inv entries visits [] (Some r)" using assms(2,3) by (simp add: walk_inv_def)
  note walk = parent_walk_correct [OF assms(1) this assms(4), of r]
  show ?thesis
  proof (cases "parent_walk entries by_id r visits [] (Some r)")
    case (Inl e)
    with walk False show ?thesis by (simp add: parent_root_step_def)
  next
    case (Inr vp)
    obtain visits1 path where vp: "vp = (visits1, path)" by (cases vp)
    let ?v = "fold (\<lambda>index visits. visits[index := Done]) path visits1"
    have inv: "walk_inv entries visits1 path None" and seen: "visits1 ! r \<noteq> Unseen"
      and mono: "\<forall>i < length entries. visits ! i \<noteq> Unseen \<longrightarrow> visits1 ! i \<noteq> Unseen"
      using walk Inr vp by simp_all
    have len: "length visits1 = length entries"
      and active: "\<And>i. i < length entries \<Longrightarrow> visits1 ! i = Active \<longleftrightarrow> i \<in> set path"
      using inv by (auto simp: walk_inv_def)
    have done_iff: "?v ! i = Done \<longleftrightarrow> visits1 ! i \<noteq> Unseen" if "i < length entries" for i
      using that len active [OF that] by (cases "visits1 ! i") (auto simp: fold_update_Done)
    have no_active: "?v ! i \<noteq> Active" if "i < length entries" for i
      using that len active [OF that] by (auto simp: fold_update_Done)
    have "walk_inv entries ?v [] None"
      using inv len no_active by (auto simp: walk_inv_def fold_update_Done split: if_splits)
    with False Inr vp seen mono done_iff assms(3) show ?thesis by (simp add: parent_root_step_def)
  qed
qed

lemma parent_graph_loop:
  assumes "distinct (map ke_id entries)" and "walk_inv entries visits [] None"
    and "\<forall>r \<in> set roots. r < length entries"
    and "by_id = bt_collect (map (\<lambda>(index, entry). (ke_id entry, index)) (enumerate 0 entries))"
  shows "case try_fold (parent_root_step entries by_id) visits roots of
      Inl e \<Rightarrow> (\<exists>i < length entries. \<not> rooted entries (ke_id (entries ! i)))
    | Inr visits' \<Rightarrow> (\<forall>r \<in> set roots. visits' ! r = Done) \<and>
        (\<forall>i < length entries. visits ! i = Done \<longrightarrow> visits' ! i = Done) \<and> walk_inv entries visits' [] None"
  using assms(2,3)
proof (induction roots arbitrary: visits)
  case (Cons r roots)
  note step = parent_root_step_correct [OF assms(1) Cons.prems(1) _ assms(4), of r]
  show ?case
  proof (cases "parent_root_step entries by_id visits r")
    case (Inl e)
    with step Cons.prems(2) show ?thesis by simp
  next
    case (Inr v)
    with step Cons.prems(2) have v: "walk_inv entries v [] None" "v ! r = Done"
      "\<forall>i < length entries. visits ! i = Done \<longrightarrow> v ! i = Done" by simp_all
    have "\<forall>r \<in> set roots. r < length entries" using Cons.prems(2) by simp
    from Cons.IH [OF v(1) this] show ?thesis
      using Inr v Cons.prems(2) by (simp split: sum.splits)
  qed
qed simp

lemma validate_knowledge_parent_graph_rooted:
  assumes "distinct (map ke_id entries)"
  shows "validate_knowledge_parent_graph entries = Inr () \<longleftrightarrow> (\<forall>e \<in> set entries. rooted entries (ke_id e))"
proof -
  let ?by_id = "bt_collect (map (\<lambda>(index, entry). (ke_id entry, index)) (enumerate 0 entries))"
  let ?init = "replicate (length entries) Unseen"
  let ?loop = "try_fold (parent_root_step entries ?by_id) ?init [0..<length entries]"
  have init: "walk_inv entries ?init [] None" by (simp add: walk_inv_def)
  note loop = parent_graph_loop [OF assms init _ refl, of "[0..<length entries]", simplified]
  have all: "(\<forall>e \<in> set entries. rooted entries (ke_id e)) \<longleftrightarrow>
      (\<forall>i < length entries. rooted entries (ke_id (entries ! i)))"
    by (simp add: all_set_conv_all_nth)
  show ?thesis
  proof (cases ?loop)
    case (Inl e)
    with loop show ?thesis unfolding all by (auto simp: validate_knowledge_parent_graph_def)
  next
    case (Inr v)
    with loop have "\<forall>r < length entries. v ! r = Done" and "walk_inv entries v [] None" by simp_all
    then show ?thesis
      unfolding all using Inr by (auto simp: validate_knowledge_parent_graph_def walk_inv_def)
  qed
qed

end
