(* ===== verification/Knowledge_Budget.thy ===== *)
theory Knowledge_Budget
  imports Knowledge_Validation Selection_Common
begin

section \<open>The work budget of knowledge selection\<close>

text \<open>
  \<open>KnowledgeWorkBudget\<close> of \<open>crates/orchestration/src/knowledge.rs\<close>: a meter, shared by all books of
  a generation, that every expensive operation is charged to before it runs.

  Two contracts of metered computations are stated here and used for the whole engine.  The locale
  \<open>meter\<close> is what a client may assume of a charge.  Its lemma \<open>priced\<close> says that the meter decides
  whether a computation finishes, but never what it computes: a computation that is built from
  charges has a price, and every budget that can pay it gives the same result.
\<close>

definition MAX_KNOWLEDGE_ENTRIES :: nat where "MAX_KNOWLEDGE_ENTRIES = 10000"
definition MAX_ACTIVATION_RULE_DEPTH :: nat where "MAX_ACTIVATION_RULE_DEPTH = 32"
definition MAX_ACTIVATION_RULE_NODES :: nat where "MAX_ACTIVATION_RULE_NODES = 1024"
definition MAX_REGEX_PATTERNS_PER_RULE :: nat where "MAX_REGEX_PATTERNS_PER_RULE = 64"
definition MAX_REGEX_PATTERN_BYTES :: nat where "MAX_REGEX_PATTERN_BYTES = 4 * 1024"
definition MAX_KNOWLEDGE_SCAN_CHARS :: nat where "MAX_KNOWLEDGE_SCAN_CHARS = 512 * 1024"
definition MAX_KNOWLEDGE_RECURSION_DEPTH :: nat where "MAX_KNOWLEDGE_RECURSION_DEPTH = 32"
definition MAX_ACTIVATION_PROBABILITY_BASIS_POINTS :: nat where
  "MAX_ACTIVATION_PROBABILITY_BASIS_POINTS = 10000"
definition MAX_TOTAL_REGEX_PATTERNS :: nat where "MAX_TOTAL_REGEX_PATTERNS = 1024"
definition MAX_TOTAL_REGEX_SOURCE_BYTES :: nat where "MAX_TOTAL_REGEX_SOURCE_BYTES = 256 * 1024"
definition MAX_TOTAL_REGEX_COMPILED_BYTES :: nat where
  "MAX_TOTAL_REGEX_COMPILED_BYTES = 16 * 1024 * 1024"
definition MAX_TOTAL_REGEX_DFA_BYTES :: nat where "MAX_TOTAL_REGEX_DFA_BYTES = 32 * 1024 * 1024"
definition MAX_REGEX_COMPILED_BYTES :: nat where "MAX_REGEX_COMPILED_BYTES = 2 * 1024 * 1024"
definition MAX_REGEX_DFA_BYTES :: nat where "MAX_REGEX_DFA_BYTES = 4 * 1024 * 1024"
definition MAX_GENERATION_KNOWLEDGE_WORK_BYTES :: nat where
  "MAX_GENERATION_KNOWLEDGE_WORK_BYTES = 64 * 1024 * 1024"

datatype knowledge_selection_error =
    KSE_InvalidBook str
  | KSE_TooManyEntries
  | KSE_DuplicateEntryId str
  | KSE_ForeignBookEntry str
  | KSE_RuleLimitExceeded str
  | KSE_InvalidRegex str str
  | KSE_DuplicateSemanticScore str
  | KSE_InvalidSemanticScore str
  | KSE_InvalidSemanticThreshold str
  | KSE_InvalidActivationProbability str
  | KSE_RecursionDepthLimitExceeded
  | KSE_ScanLimitExceeded

record knowledge_work_budget =
  max_work_bytes :: nat
  used_work_bytes :: nat

type_synonym 'a metered = "(knowledge_work_budget, knowledge_selection_error, 'a) stateful"

definition work_budget_default :: knowledge_work_budget where
  "work_budget_default =
     \<lparr>max_work_bytes = MAX_GENERATION_KNOWLEDGE_WORK_BYTES, used_work_bytes = 0\<rparr>"

definition with_max_work_bytes :: "nat \<Rightarrow> knowledge_work_budget" where
  "with_max_work_bytes n =
     \<lparr>max_work_bytes = min n MAX_GENERATION_KNOWLEDGE_WORK_BYTES, used_work_bytes = 0\<rparr>"

definition remaining_work_bytes :: "knowledge_work_budget \<Rightarrow> nat" where
  "remaining_work_bytes b = max_work_bytes b - used_work_bytes b"

definition charge_work_bytes :: "str \<Rightarrow> nat \<Rightarrow> unit metered" where
  "charge_work_bytes scope_id work_bytes b =
     (case checked_add usize_max (used_work_bytes b) work_bytes of
        None \<Rightarrow> (Inl (KSE_RuleLimitExceeded scope_id), b)
      | Some next \<Rightarrow>
          if next > max_work_bytes b then (Inl (KSE_RuleLimitExceeded scope_id), b)
          else (Inr (), b\<lparr>used_work_bytes := next\<rparr>))"

subsection \<open>Metered computations\<close>

definition can_pay :: "knowledge_work_budget \<Rightarrow> nat \<Rightarrow> bool" where
  "can_pay b n \<longleftrightarrow> used_work_bytes b + n \<le> max_work_bytes b \<and> used_work_bytes b + n \<le> usize_max"

definition pay :: "nat \<Rightarrow> knowledge_work_budget \<Rightarrow> knowledge_work_budget" where
  "pay n b = b\<lparr>used_work_bytes := used_work_bytes b + n\<rparr>"

text \<open>A computation is priced when a success has a price, and whoever can pay it succeeds alike.\<close>

definition priced :: "'a metered \<Rightarrow> bool" where
  "priced m \<longleftrightarrow> (\<forall>b x b'. can_pay b 0 \<longrightarrow> m b = (Inr x, b') \<longrightarrow>
     (\<exists>n. can_pay b n \<and> b' = pay n b \<and> (\<forall>c. can_pay c n \<longrightarrow> m c = (Inr x, pay n c))))"

text \<open>The meter only moves forward and never passes its limit, also when a computation fails.\<close>

definition meter_le :: "knowledge_work_budget \<Rightarrow> knowledge_work_budget \<Rightarrow> bool" where
  "meter_le b b' \<longleftrightarrow> max_work_bytes b' = max_work_bytes b \<and> used_work_bytes b \<le> used_work_bytes b' \<and>
     (used_work_bytes b \<le> max_work_bytes b \<longrightarrow> used_work_bytes b' \<le> max_work_bytes b')"

lemma meter_le_order: "reflp meter_le" "transp meter_le"
  by (auto simp: reflp_def transp_def meter_le_def)

lemma pay_pay [simp]: "pay n (pay m b) = pay (m + n) b"
  by (simp add: pay_def add.assoc)

lemma pay_0 [simp]: "pay 0 b = b"
  by (simp add: pay_def)

lemma can_pay_split: "can_pay b (m + n) \<longleftrightarrow> can_pay b m \<and> can_pay (pay m b) n"
  by (auto simp: can_pay_def pay_def)

locale meter =
  fixes charge :: "str \<Rightarrow> nat \<Rightarrow> unit metered"
  assumes charge_ok: "can_pay b n \<Longrightarrow> charge scope n b = (Inr (), pay n b)"
    and charge_refused: "\<not> can_pay b n \<Longrightarrow> \<exists>e. charge scope n b = (Inl e, b)"
begin

lemma priced_charge: "priced (charge scope n)"
  unfolding priced_def
proof (intro allI impI)
  fix b x b'
  assume "charge scope n b = (Inr x, b')"
  then have "can_pay b n" and "b' = pay n b"
    using charge_ok [of b n scope] charge_refused [of b n scope] by (cases "can_pay b n", auto)
  then show "\<exists>n'. can_pay b n' \<and> b' = pay n' b \<and>
      (\<forall>c. can_pay c n' \<longrightarrow> charge scope n c = (Inr x, pay n' c))"
    using charge_ok by auto
qed

lemma keeps_charge: "st_keeps meter_le (charge scope n)"
  unfolding st_keeps_def
proof
  fix b
  show "meter_le b (snd (charge scope n b))"
    using charge_ok [of b n scope] charge_refused [of b n scope]
    by (cases "can_pay b n") (auto simp: meter_le_def can_pay_def pay_def)
qed

end

interpretation work_meter: meter charge_work_bytes
  by unfold_locales
    (auto simp: charge_work_bytes_def can_pay_def pay_def checked_add_def)

subsection \<open>Composition\<close>

lemma priced_return: "priced (st_return x)"
  by (auto simp: priced_def intro!: exI [of _ 0])

lemma priced_fail: "priced (st_fail e)"
  by (simp add: priced_def)

lemma priced_lift: "priced (st_lift r)"
  by (auto simp: priced_def intro!: exI [of _ 0])

text \<open>The simplifier rewrites these three to partial applications of the pair constructor.\<close>

lemma priced_pair: "priced (Pair r)"
  using priced_lift [of r] by (simp add: st_lift_def)

lemma priced_bind:
  assumes "priced m" and "\<And>x. priced (f x)"
  shows "priced (st_bind m f)"
  unfolding priced_def
proof (intro allI impI)
  fix b y b'
  assume ok: "can_pay b 0" and "st_bind m f b = (Inr y, b')"
  then obtain x u where m: "m b = (Inr x, u)" and f: "f x u = (Inr y, b')"
    by (auto simp: result_simps)
  from assms(1) ok m obtain n1 where n1: "can_pay b n1" "u = pay n1 b"
    "\<And>c. can_pay c n1 \<Longrightarrow> m c = (Inr x, pay n1 c)" unfolding priced_def by blast
  have "can_pay u 0" using n1(1,2) by (simp add: can_pay_def pay_def)
  with assms(2) [of x] f obtain n2 where n2: "can_pay u n2" "b' = pay n2 u"
    "\<And>c. can_pay c n2 \<Longrightarrow> f x c = (Inr y, pay n2 c)" unfolding priced_def by blast
  have "st_bind m f c = (Inr y, pay (n1 + n2) c)" if "can_pay c (n1 + n2)" for c
    using that n1(3) [of c] n2(3) [of "pay n1 c"] by (simp add: can_pay_split st_bind_def)
  then show "\<exists>n. can_pay b n \<and> b' = pay n b \<and> (\<forall>c. can_pay c n \<longrightarrow> st_bind m f c = (Inr y, pay n c))"
    using n1(1,2) n2(1,2) by (intro exI [of _ "n1 + n2"]) (simp add: can_pay_split)
qed

lemma priced_for: "(\<And>x. x \<in> set xs \<Longrightarrow> priced (f x)) \<Longrightarrow> priced (st_for f xs)"
  by (induction xs) (simp_all add: priced_return priced_bind)

lemma priced_fold: "(\<And>b x. x \<in> set xs \<Longrightarrow> priced (f b x)) \<Longrightarrow> priced (st_fold f b xs)"
  by (induction xs arbitrary: b) (simp_all add: priced_return priced_bind)

lemmas priced_intros = priced_return priced_fail priced_lift priced_pair priced_bind priced_for priced_fold
  work_meter.priced_charge

lemma keeps_basic:
  "st_keeps meter_le (st_return x)" "st_keeps meter_le (st_fail e)" "st_keeps meter_le (st_lift r)"
  "st_keeps meter_le (Pair r)"
  using meter_le_order(1) by (simp_all add: st_keeps_def reflp_def)

lemmas keeps_intros = keeps_basic st_keeps_bind [OF meter_le_order(2)]
  st_keeps_for [OF meter_le_order] st_keeps_fold [OF meter_le_order] work_meter.keeps_charge

text \<open>Two budgets that both let a priced computation finish see the same value.\<close>

lemma priced_same_value:
  assumes "priced m" and "can_pay b 0" and "can_pay c 0" and "m b = (Inr x, b')" and "m c = (Inr y, c')"
  shows "x = y"
proof -
  obtain n where n: "can_pay b n" "\<And>d. can_pay d n \<Longrightarrow> m d = (Inr x, pay n d)"
    using assms(1,2,4) unfolding priced_def by blast
  obtain k where k: "can_pay c k" "\<And>d. can_pay d k \<Longrightarrow> m d = (Inr y, pay k d)"
    using assms(1,3,5) unfolding priced_def by blast
  define d where "d = \<lparr>max_work_bytes = usize_max, used_work_bytes = 0\<rparr>"
  have "can_pay d n" and "can_pay d k" using n(1) k(1) by (auto simp: d_def can_pay_def)
  with n(2) k(2) show ?thesis by fastforce
qed

end
