(* ===== verification/Knowledge_Activation.thy ===== *)
theory Knowledge_Activation
  imports Knowledge_Budget Hash_Framing "HOL-Library.Product_Lexorder"
begin

section \<open>Activation of knowledge entries\<close>

text \<open>
  The normalisation and rule evaluation of \<open>crates/orchestration/src/knowledge.rs\<close>: the engine's own
  rule limits, regular-expression compilation, similarity ranks, the growing scan text, keyword
  matching, conditions, and the deterministic probability gate.

  What comes from other crates is a field of \<open>engine_env\<close>: the Unicode tables, the builder and the
  matcher of the \<open>regex\<close> crate for some type of compiled expressions, and SHA-256.
\<close>

record 're engine_env =
  env_ucd :: ucd
  env_regex_build :: "str \<Rightarrow> bool \<Rightarrow> nat \<Rightarrow> nat \<Rightarrow> (str, 're) result"
  env_is_match :: "'re \<Rightarrow> str \<Rightarrow> bool"
  env_sha256 :: "bytes \<Rightarrow> bytes"

record knowledge_selection_context =
  kc_scan_texts :: "str list"
  kc_manual_entry_ids :: "str set"
  kc_semantic_scores :: "semantic_knowledge_score list"
  kc_variables :: variable_map
  kc_supported_capabilities :: "capability_key list"
  kc_token_estimates :: "(str, nat) btree_map"
  kc_activation_seed :: nat

type_synonym regex_key = "str \<times> bool"

record 're evaluation_context =
  ec_manual_entry_ids :: "str set"
  ec_semantic_scores :: "(str, nat) btree_map"
  ec_semantic_rank :: "(str, nat) btree_map"
  ec_variables :: variable_map
  ec_supported_capabilities :: "capability_key list"
  ec_regexes :: "(regex_key, 're) btree_map"
  ec_activation_seed :: nat

record activation_scan =
  as_original :: str
  as_lowercase :: str
  as_characters :: nat

subsection \<open>Book checks and their charges\<close>

definition validate_book :: "knowledge_book \<Rightarrow> (knowledge_selection_error, unit) result" where
  "validate_book book =
     checks
       [guard_err (length (kb_entries book) > MAX_KNOWLEDGE_ENTRIES) KSE_TooManyEntries,
        (case adjacent_dup (sort_by cmp (map ke_id (kb_entries book))) of
           Some duplicate \<Rightarrow> Inl (KSE_DuplicateEntryId duplicate)
         | None \<Rightarrow> Inr ()),
        map_err (\<lambda>e. KSE_InvalidBook (validation_error_to_string e)) (knowledge_book_validate book),
        guard_err (kb_max_recursion_depth book > MAX_KNOWLEDGE_RECURSION_DEPTH)
          KSE_RecursionDepthLimitExceeded]"

fun charge_activation_rule_normalization :: "activation_rule \<Rightarrow> str \<Rightarrow> unit metered"
and charge_activation_rules :: "activation_rule list \<Rightarrow> str \<Rightarrow> unit metered" where
  "charge_activation_rule_normalization rule entry_id =
     st_bind (charge_work_bytes entry_id 1) (\<lambda>_.
       case rule of
         Rule_Keyword primary secondary _ _ _ \<Rightarrow>
           st_for (\<lambda>keyword. charge_work_bytes entry_id (str_len keyword)) (primary @ secondary)
       | Rule_Regex patterns \<Rightarrow>
           st_for (\<lambda>pattern. charge_work_bytes entry_id (str_len (rx_pattern pattern))) patterns
       | Rule_Any rules \<Rightarrow> charge_activation_rules rules entry_id
       | Rule_All rules \<Rightarrow> charge_activation_rules rules entry_id
       | _ \<Rightarrow> st_return ())"
| "charge_activation_rules [] entry_id = st_return ()"
| "charge_activation_rules (r # rs) entry_id =
     st_bind (charge_activation_rule_normalization r entry_id) (\<lambda>_. charge_activation_rules rs entry_id)"

declare charge_activation_rule_normalization.simps [simp del]

text \<open>\<open>fields.into_iter().try_fold(start, usize::checked_add)\<close>.\<close>

definition checked_sum :: "'e \<Rightarrow> nat \<Rightarrow> nat list \<Rightarrow> ('e, nat) result" where
  "checked_sum overflow start ns = try_fold (\<lambda>total n. ok_or overflow (checked_add usize_max total n)) start ns"

definition charge_entry_normalization :: "knowledge_entry \<Rightarrow> unit metered" where
  "charge_entry_normalization entry =
     st_bind (st_lift (checked_sum (KSE_RuleLimitExceeded (ke_id entry)) 1
       [str_len (ke_id entry), str_len (ke_book_id entry), str_len (ke_name entry),
        str_len (ke_content entry),
        (case ke_parent_id entry of None \<Rightarrow> 0 | Some parent_id \<Rightarrow> str_len parent_id)])) (\<lambda>entry_bytes.
     st_bind (charge_work_bytes (ke_id entry) entry_bytes) (\<lambda>_.
     charge_activation_rule_normalization (ke_activation entry) (ke_id entry)))"

definition charge_book_normalization :: "knowledge_book \<Rightarrow> unit metered" where
  "charge_book_normalization book =
     st_bind (st_lift (checked_sum (KSE_RuleLimitExceeded (kb_id book)) (str_len (kb_id book))
       [str_len (kb_name book), length (kb_entries book)])) (\<lambda>bytes.
     st_bind (charge_work_bytes (kb_id book) bytes) (\<lambda>_.
     st_for charge_entry_normalization (kb_entries book)))"

fun visit_rule :: "activation_rule \<Rightarrow> nat \<Rightarrow> nat \<Rightarrow> (unit, nat) result"
and visit_rules :: "activation_rule list \<Rightarrow> nat \<Rightarrow> nat \<Rightarrow> (unit, nat) result" where
  "visit_rule rule depth nodes =
     result_bind (ok_or () (checked_add usize_max nodes 1)) (\<lambda>nodes.
     if depth > MAX_ACTIVATION_RULE_DEPTH \<or> nodes > MAX_ACTIVATION_RULE_NODES then Inl ()
     else case rule of
       Rule_Regex patterns \<Rightarrow>
         if length patterns > MAX_REGEX_PATTERNS_PER_RULE
           \<or> list_ex (\<lambda>pattern. str_len (rx_pattern pattern) > MAX_REGEX_PATTERN_BYTES) patterns
         then Inl () else Inr nodes
     | Rule_Semantic threshold _ \<Rightarrow>
         if \<not> is_finite threshold \<or> \<not> float_in_range 0 1 threshold then Inl () else Inr nodes
     | Rule_Any rules \<Rightarrow> if rules = [] then Inl () else visit_rules rules (depth + 1) nodes
     | Rule_All rules \<Rightarrow> if rules = [] then Inl () else visit_rules rules (depth + 1) nodes
     | _ \<Rightarrow> Inr nodes)"
| "visit_rules [] depth nodes = Inr nodes"
| "visit_rules (r # rs) depth nodes =
     result_bind (visit_rule r depth nodes) (\<lambda>nodes. visit_rules rs depth nodes)"

declare visit_rule.simps [simp del]

fun contains_invalid_semantic_threshold :: "activation_rule \<Rightarrow> bool" where
  "contains_invalid_semantic_threshold (Rule_Semantic threshold _) =
     (\<not> is_finite threshold \<or> \<not> float_in_range 0 1 threshold)"
| "contains_invalid_semantic_threshold (Rule_Any rules) = list_ex contains_invalid_semantic_threshold rules"
| "contains_invalid_semantic_threshold (Rule_All rules) = list_ex contains_invalid_semantic_threshold rules"
| "contains_invalid_semantic_threshold _ = False"

definition validate_rule :: "knowledge_entry \<Rightarrow> (knowledge_selection_error, unit) result" where
  "validate_rule entry =
     (case visit_rule (ke_activation entry) 1 0 of
        Inr _ \<Rightarrow> Inr ()
      | Inl _ \<Rightarrow>
          Inl (if contains_invalid_semantic_threshold (ke_activation entry)
               then KSE_InvalidSemanticThreshold (ke_id entry)
               else KSE_RuleLimitExceeded (ke_id entry)))"

definition normalized_entry :: "knowledge_book \<Rightarrow> knowledge_entry \<Rightarrow> (knowledge_selection_error, unit) result" where
  "normalized_entry book entry =
     (if ke_book_id entry \<noteq> kb_id book then Inl (KSE_ForeignBookEntry (ke_id entry))
      else if ke_activation_probability_basis_points entry > MAX_ACTIVATION_PROBABILITY_BASIS_POINTS
      then Inl (KSE_InvalidActivationProbability (ke_id entry))
      else validate_rule entry)"

definition normalized_entries ::
  "knowledge_book \<Rightarrow> (knowledge_selection_error, knowledge_entry list) result" where
  "normalized_entries book =
     (let entries = sort_by (cmp_on ke_id) (kb_entries book) in
      case adjacent_dup (map ke_id entries) of
        Some entry_id \<Rightarrow> Inl (KSE_DuplicateEntryId entry_id)
      | None \<Rightarrow> result_bind (try_for (normalized_entry book) entries) (\<lambda>_. Inr entries))"

subsection \<open>Regular expressions\<close>

fun collect_patterns :: "activation_rule \<Rightarrow> safe_regex list" where
  "collect_patterns (Rule_Regex patterns) = patterns"
| "collect_patterns (Rule_Any rules) = concat (map collect_patterns rules)"
| "collect_patterns (Rule_All rules) = concat (map collect_patterns rules)"
| "collect_patterns _ = []"

definition regex_key_of :: "safe_regex \<Rightarrow> regex_key" where
  "regex_key_of pattern = (rx_pattern pattern, rx_case_insensitive pattern)"

record regex_plan =
  rp_seen :: "regex_key set"
  rp_planned :: "(regex_key \<times> str) list"
  rp_total_source_bytes :: nat

definition plan_pattern ::
  "regex_plan \<Rightarrow> str \<times> safe_regex \<Rightarrow> (knowledge_selection_error, regex_plan) result" where
  "plan_pattern plan ep =
     (case ep of (entry_id, pattern) \<Rightarrow>
      let key = regex_key_of pattern in
      if key \<in> rp_seen plan then Inr plan
      else
        result_bind (ok_or (KSE_RuleLimitExceeded entry_id)
          (checked_add usize_max (rp_total_source_bytes plan) (str_len (rx_pattern pattern)))) (\<lambda>total.
        if length (rp_planned plan) \<ge> MAX_TOTAL_REGEX_PATTERNS \<or> total > MAX_TOTAL_REGEX_SOURCE_BYTES
        then Inl (KSE_RuleLimitExceeded entry_id)
        else Inr \<lparr>rp_seen = insert key (rp_seen plan),
                  rp_planned = rp_planned plan @ [(key, entry_id)],
                  rp_total_source_bytes = total\<rparr>))"

definition regex_memory_limits :: "nat \<Rightarrow> nat \<times> nat" where
  "regex_memory_limits regex_count =
     (let n = max regex_count 1 in
      (min MAX_REGEX_COMPILED_BYTES (MAX_TOTAL_REGEX_COMPILED_BYTES div n),
       min MAX_REGEX_DFA_BYTES (MAX_TOTAL_REGEX_DFA_BYTES div n)))"

definition compile_work :: "nat \<Rightarrow> nat \<Rightarrow> nat \<Rightarrow> nat \<Rightarrow> nat option" where
  "compile_work compiled_limit dfa_limit regex_count total_source_bytes =
     Option.bind (checked_add usize_max compiled_limit dfa_limit) (\<lambda>per_pattern.
     Option.bind (checked_mul usize_max per_pattern regex_count) (\<lambda>work.
     checked_add usize_max work total_source_bytes))"

definition compile_regexes ::
  "('re, 'z) engine_env_scheme \<Rightarrow> knowledge_entry list \<Rightarrow> (regex_key, 're) btree_map metered" where
  "compile_regexes env entries =
     st_bind (st_lift (try_fold plan_pattern
       \<lparr>rp_seen = {}, rp_planned = [], rp_total_source_bytes = 0\<rparr>
       (concat (map (\<lambda>entry. map (Pair (ke_id entry)) (collect_patterns (ke_activation entry))) entries))))
       (\<lambda>plan.
     let planned = rp_planned plan;
         (compiled_limit, dfa_limit) = regex_memory_limits (length planned) in
     st_bind
       (case planned of
          [] \<Rightarrow> st_return ()
        | (_, scope_id) # _ \<Rightarrow>
            st_bind (st_lift (ok_or (KSE_RuleLimitExceeded scope_id)
              (compile_work compiled_limit dfa_limit (length planned) (rp_total_source_bytes plan))))
              (\<lambda>work. charge_work_bytes scope_id work))
       (\<lambda>_. st_lift (try_fold (\<lambda>compiled (key, entry_id).
          result_bind
            (map_err (KSE_InvalidRegex entry_id)
              (env_regex_build env (fst key) (snd key) compiled_limit dfa_limit))
            (\<lambda>regex. Inr (bt_insert key regex compiled)))
          [] planned)))"

subsection \<open>Similarity scores\<close>

fun contains_semantic_rule :: "activation_rule \<Rightarrow> bool" where
  "contains_semantic_rule (Rule_Semantic _ _) = True"
| "contains_semantic_rule (Rule_Any rules) = list_ex contains_semantic_rule rules"
| "contains_semantic_rule (Rule_All rules) = list_ex contains_semantic_rule rules"
| "contains_semantic_rule _ = False"

definition score_step ::
  "str set \<Rightarrow> (str, nat) btree_map \<Rightarrow> semantic_knowledge_score \<Rightarrow>
     (knowledge_selection_error, (str, nat) btree_map) result" where
  "score_step semantic_entry_ids scores score =
     (if sks_entry_id score \<notin> semantic_entry_ids then Inr scores
      else if \<not> is_finite (sks_score score) \<or> \<not> float_in_range 0 1 (sks_score score)
      then Inl (KSE_InvalidSemanticScore (sks_entry_id score))
      else if bt_get scores (sks_entry_id score) \<noteq> None
      then Inl (KSE_DuplicateSemanticScore (sks_entry_id score))
      else Inr (bt_insert (sks_entry_id score) (score_to_millionths (sks_score score)) scores))"

definition cmp_scored :: "str \<times> nat \<Rightarrow> str \<times> nat \<Rightarrow> ordering" where
  "cmp_scored = cmp_then (cmp_desc snd) (cmp_on fst)"

definition semantic_ranks :: "(str, nat) btree_map \<Rightarrow> (str, nat) btree_map" where
  "semantic_ranks scores =
     bt_collect (map (\<lambda>(index, entry_id, _). (entry_id, index)) (enumerate 0 (sort_by cmp_scored scores)))"

definition normalize_semantic_scores ::
  "knowledge_entry list \<Rightarrow> semantic_knowledge_score list \<Rightarrow>
     (knowledge_selection_error, (str, nat) btree_map \<times> (str, nat) btree_map) result" where
  "normalize_semantic_scores entries supplied =
     (let semantic_entry_ids =
        ke_id ` set (filter (\<lambda>entry. ke_enabled entry \<and> contains_semantic_rule (ke_activation entry)) entries) in
      result_bind (try_fold (score_step semantic_entry_ids) [] supplied)
        (\<lambda>scores. Inr (scores, semantic_ranks scores)))"

subsection \<open>The scan text\<close>

definition append_scan_text ::
  "str \<times> nat \<Rightarrow> str \<Rightarrow> (knowledge_selection_error, str \<times> nat) result" where
  "append_scan_text st t =
     (case st of (scan, scan_characters) \<Rightarrow>
      result_bind (ok_or KSE_ScanLimitExceeded
        (Option.bind (checked_add usize_max scan_characters (if scan = [] then 0 else 1))
          (\<lambda>count. checked_add usize_max count (length t)))) (\<lambda>next_chars.
      if next_chars > MAX_KNOWLEDGE_SCAN_CHARS then Inl KSE_ScanLimitExceeded
      else Inr ((if scan = [] then scan else scan @ [10]) @ t, next_chars)))"

definition scan_from_texts ::
  "('re, 'z) engine_env_scheme \<Rightarrow> knowledge_book \<Rightarrow> str list \<Rightarrow> str \<Rightarrow> activation_scan metered" where
  "scan_from_texts env book scan_texts scope_id =
     (let texts = drop (length scan_texts - kb_scan_depth book) scan_texts in
      st_bind (st_lift (try_fold (\<lambda>total (index, t).
          ok_or (KSE_RuleLimitExceeded scope_id)
            (Option.bind (checked_add usize_max total (if index > 0 then 1 else 0))
              (\<lambda>total. checked_add usize_max total (str_len t))))
          0 (enumerate 0 texts))) (\<lambda>source_bytes.
      st_bind (st_lift (ok_or (KSE_RuleLimitExceeded scope_id) (checked_mul usize_max source_bytes 2)))
        (\<lambda>normalization_work.
      st_bind (charge_work_bytes scope_id normalization_work) (\<lambda>_.
      st_bind (st_lift (try_fold append_scan_text ([], 0) texts)) (\<lambda>(original, characters).
      st_return \<lparr>as_original = original, as_lowercase = str_to_lowercase (env_ucd env) original,
                 as_characters = characters\<rparr>)))))"

definition scan_append_text ::
  "('re, 'z) engine_env_scheme \<Rightarrow> activation_scan \<Rightarrow> str \<Rightarrow> str \<Rightarrow> activation_scan metered" where
  "scan_append_text env scan t scope_id =
     (let needs_separator = as_original scan \<noteq> [] in
      st_bind (st_lift (ok_or (KSE_RuleLimitExceeded scope_id)
        (Option.bind (checked_add usize_max (str_len t) (if needs_separator then 1 else 0))
          (\<lambda>bytes. checked_mul usize_max bytes 2)))) (\<lambda>source_bytes.
      st_bind (charge_work_bytes scope_id source_bytes) (\<lambda>_.
      st_bind (st_lift (append_scan_text (as_original scan, as_characters scan) t))
        (\<lambda>(original, characters).
      st_return
        \<lparr>as_original = original,
         as_lowercase = as_lowercase scan @ (if needs_separator then [10] else [])
           @ chars_to_lowercase (env_ucd env) t,
         as_characters = characters\<rparr>))))"

definition matching_text :: "activation_scan \<Rightarrow> bool \<Rightarrow> str" where
  "matching_text scan case_sensitive = (if case_sensitive then as_original scan else as_lowercase scan)"

subsection \<open>Rule evaluation\<close>

definition push_reason ::
  "knowledge_activation_reason list \<Rightarrow> knowledge_activation_reason \<Rightarrow> knowledge_activation_reason list" where
  "push_reason reasons reason = (if reason \<in> set reasons then reasons else reasons @ [reason])"

definition is_word_character :: "ucd \<Rightarrow> uchar \<Rightarrow> bool" where
  "is_word_character u c \<longleftrightarrow> ucd_alphanumeric u c \<or> c = 95"

definition contains_keyword :: "ucd \<Rightarrow> activation_scan \<Rightarrow> str \<Rightarrow> bool \<Rightarrow> bool \<Rightarrow> bool" where
  "contains_keyword u scan keyword case_sensitive whole_word =
     (let haystack = matching_text scan case_sensitive;
          needle = (if case_sensitive then keyword else str_to_lowercase u keyword) in
      if \<not> whole_word then contains haystack needle
      else list_ex (\<lambda>(before, after).
        (before = [] \<or> \<not> is_word_character u (last before)) \<and>
        (after = [] \<or> \<not> is_word_character u (hd after)))
        (match_indices haystack needle))"

fun first_keyword_match ::
  "ucd \<Rightarrow> activation_scan \<Rightarrow> str list \<Rightarrow> bool \<Rightarrow> bool \<Rightarrow> str \<Rightarrow> str option metered" where
  "first_keyword_match u scan [] case_sensitive whole_word entry_id = st_return None"
| "first_keyword_match u scan (keyword # keywords) case_sensitive whole_word entry_id =
     (if keyword = [] then first_keyword_match u scan keywords case_sensitive whole_word entry_id
      else
        st_bind (if case_sensitive then st_return () else charge_work_bytes entry_id (str_len keyword)) (\<lambda>_.
        st_bind (charge_work_bytes entry_id (str_len (matching_text scan case_sensitive))) (\<lambda>_.
        if contains_keyword u scan keyword case_sensitive whole_word then st_return (Some keyword)
        else first_keyword_match u scan keywords case_sensitive whole_word entry_id)))"

definition evaluate_keyword_rule ::
  "ucd \<Rightarrow> str list \<Rightarrow> str list \<Rightarrow> bool \<Rightarrow> bool \<Rightarrow> bool \<Rightarrow> str \<Rightarrow> activation_scan \<Rightarrow>
     knowledge_activation_reason list option metered" where
  "evaluate_keyword_rule u primary secondary selective case_sensitive whole_word entry_id scan =
     st_bind (first_keyword_match u scan primary case_sensitive whole_word entry_id) (\<lambda>primary_match.
       case primary_match of
         None \<Rightarrow> st_return None
       | Some matched \<Rightarrow>
           if \<not> selective then st_return (Some [Reason_Keyword matched])
           else st_bind (first_keyword_match u scan secondary case_sensitive whole_word entry_id)
             (\<lambda>secondary_match. case secondary_match of
                None \<Rightarrow> st_return None
              | Some other \<Rightarrow>
                  st_return (Some (push_reason [Reason_Keyword matched] (Reason_Keyword other)))))"

fun first_regex_match ::
  "('re, 'z) engine_env_scheme \<Rightarrow> ('re, 'y) evaluation_context_scheme \<Rightarrow> activation_scan \<Rightarrow> str \<Rightarrow>
     safe_regex list \<Rightarrow> knowledge_activation_reason list option metered" where
  "first_regex_match env context scan entry_id [] = st_return None"
| "first_regex_match env context scan entry_id (pattern # patterns) =
     st_bind (charge_work_bytes entry_id (str_len (as_original scan))) (\<lambda>_.
       if (case bt_get (ec_regexes context) (regex_key_of pattern) of
             None \<Rightarrow> False | Some regex \<Rightarrow> env_is_match env regex (as_original scan))
       then st_return (Some [Reason_Regex (rx_pattern pattern)])
       else first_regex_match env context scan entry_id patterns)"

text \<open>The decimal comparison reads an integer through \<open>as f64\<close>.\<close>

definition integer_greater_than :: "int \<Rightarrow> float \<Rightarrow> bool" where
  "integer_greater_than actual threshold = float_less threshold (i64_to_f64 actual)"

definition variable_equals :: "variable_value option \<Rightarrow> variable_value \<Rightarrow> bool" where
  "variable_equals actual expected =
     (case actual of None \<Rightarrow> False | Some v \<Rightarrow> variable_value_eq v expected)"

fun evaluate_condition :: "condition_expr \<Rightarrow> variable_map \<Rightarrow> capability_key list \<Rightarrow> bool" where
  "evaluate_condition Cond_True variables capabilities = True"
| "evaluate_condition Cond_False variables capabilities = False"
| "evaluate_condition (Cond_Equals variable v) variables capabilities =
     variable_equals (variable_map_get variables variable) v"
| "evaluate_condition (Cond_NotEquals variable v) variables capabilities =
     (\<not> variable_equals (variable_map_get variables variable) v)"
| "evaluate_condition (Cond_GreaterThan variable v) variables capabilities =
     (is_finite v \<and>
      (case variable_map_get variables variable of
         Some (VInteger actual) \<Rightarrow> integer_greater_than actual v
       | Some (VDecimal actual) \<Rightarrow> is_finite actual \<and> float_less v actual
       | _ \<Rightarrow> False))"
| "evaluate_condition (Cond_Contains variable v) variables capabilities =
     (case variable_map_get variables variable of
        Some (VText actual) \<Rightarrow> contains actual v
      | Some (VEnum actual) \<Rightarrow> contains actual v
      | Some (VStringList actual) \<Rightarrow> list_ex (\<lambda>item. item = v) actual
      | _ \<Rightarrow> False)"
| "evaluate_condition (Cond_Exists variable) variables capabilities =
     (variable_map_get variables variable \<noteq> None)"
| "evaluate_condition (Cond_ModelSupports capability) variables capabilities =
     (capability \<in> set capabilities)"
| "evaluate_condition (Cond_All expressions) variables capabilities =
     list_all (\<lambda>c. evaluate_condition c variables capabilities) expressions"
| "evaluate_condition (Cond_Any expressions) variables capabilities =
     list_ex (\<lambda>c. evaluate_condition c variables capabilities) expressions"
| "evaluate_condition (Cond_Not expression) variables capabilities =
     (\<not> evaluate_condition expression variables capabilities)"

fun evaluate_rule ::
  "('re, 'z) engine_env_scheme \<Rightarrow> ('re, 'y) evaluation_context_scheme \<Rightarrow> activation_scan \<Rightarrow> str \<Rightarrow>
     activation_rule \<Rightarrow> knowledge_activation_reason list option metered"
and evaluate_any ::
  "('re, 'z) engine_env_scheme \<Rightarrow> ('re, 'y) evaluation_context_scheme \<Rightarrow> activation_scan \<Rightarrow> str \<Rightarrow>
     activation_rule list \<Rightarrow> knowledge_activation_reason list \<Rightarrow> knowledge_activation_reason list option metered"
and evaluate_all ::
  "('re, 'z) engine_env_scheme \<Rightarrow> ('re, 'y) evaluation_context_scheme \<Rightarrow> activation_scan \<Rightarrow> str \<Rightarrow>
     activation_rule list \<Rightarrow> knowledge_activation_reason list \<Rightarrow> knowledge_activation_reason list option metered"
where
  "evaluate_rule env context scan entry_id Rule_Always = st_return (Some [Reason_Always])"
| "evaluate_rule env context scan entry_id Rule_Manual =
     st_return (if entry_id \<in> ec_manual_entry_ids context then Some [Reason_Manual] else None)"
| "evaluate_rule env context scan entry_id (Rule_Keyword primary secondary selective case_sensitive whole_word) =
     evaluate_keyword_rule (env_ucd env) primary secondary selective case_sensitive whole_word entry_id scan"
| "evaluate_rule env context scan entry_id (Rule_Regex patterns) =
     first_regex_match env context scan entry_id patterns"
| "evaluate_rule env context scan entry_id (Rule_Semantic threshold top_k) =
     st_return
       (case bt_get (ec_semantic_scores context) entry_id of
          None \<Rightarrow> None
        | Some score \<Rightarrow>
            (case bt_get (ec_semantic_rank context) entry_id of
               None \<Rightarrow> None
             | Some rank \<Rightarrow>
                 if score \<ge> score_to_millionths threshold \<and> rank < top_k
                 then Some [Reason_Semantic score] else None))"
| "evaluate_rule env context scan entry_id (Rule_Condition expression) =
     st_return
       (if evaluate_condition expression (ec_variables context) (ec_supported_capabilities context)
        then Some [Reason_Condition] else None)"
| "evaluate_rule env context scan entry_id (Rule_Any rules) =
     evaluate_any env context scan entry_id rules []"
| "evaluate_rule env context scan entry_id (Rule_All rules) =
     evaluate_all env context scan entry_id rules []"
| "evaluate_any env context scan entry_id [] reasons =
     st_return (if reasons = [] then None else Some reasons)"
| "evaluate_any env context scan entry_id (rule # rules) reasons =
     st_bind (evaluate_rule env context scan entry_id rule) (\<lambda>child_reasons.
       evaluate_any env context scan entry_id rules
         (case child_reasons of None \<Rightarrow> reasons | Some child \<Rightarrow> foldl push_reason reasons child))"
| "evaluate_all env context scan entry_id [] reasons = st_return (Some reasons)"
| "evaluate_all env context scan entry_id (rule # rules) reasons =
     st_bind (evaluate_rule env context scan entry_id rule) (\<lambda>child_reasons.
       case child_reasons of
         None \<Rightarrow> st_return None
       | Some child \<Rightarrow> evaluate_all env context scan entry_id rules (foldl push_reason reasons child))"

definition evaluate_activation ::
  "('re, 'z) engine_env_scheme \<Rightarrow> ('re, 'y) evaluation_context_scheme \<Rightarrow> activation_scan \<Rightarrow> knowledge_entry \<Rightarrow>
     knowledge_activation_reason list option metered" where
  "evaluate_activation env context scan entry =
     evaluate_rule env context scan (ke_id entry) (ke_activation entry)"

subsection \<open>The probability gate\<close>

definition probability_hash_input :: "knowledge_book \<Rightarrow> knowledge_entry \<Rightarrow> nat \<Rightarrow> bytes" where
  "probability_hash_input book entry seed =
     fold (\<lambda>value hasher. update_hash_field hasher value)
       [lit ''lorepia-knowledge-probability-v1'', utf8 (kb_id book), utf8 (ke_id entry), to_be_bytes 8 seed] []"

definition probability_allows ::
  "('re, 'z) engine_env_scheme \<Rightarrow> knowledge_book \<Rightarrow> knowledge_entry \<Rightarrow> nat \<Rightarrow> bool" where
  "probability_allows env book entry seed =
     (let probability = ke_activation_probability_basis_points entry in
      if probability = 0 then False
      else if probability = MAX_ACTIVATION_PROBABILITY_BASIS_POINTS then True
      else
        let digest = env_sha256 env (probability_hash_input book entry seed);
            sample = (digest ! 0 * 256 + digest ! 1) mod 10000 in
        sample < probability)"

end
