(* ===== verification/Knowledge_Metering.thy ===== *)
theory Knowledge_Metering
  imports Knowledge_Engine
begin

section \<open>The meter of the knowledge engine\<close>

text \<open>
  Every operation of the knowledge engine is priced and keeps the meter; what an operation gives under a sufficient
  budget is a property of the operation alone, \<open>runs_to\<close>.
\<close>

subsection \<open>Metering\<close>

lemma priced_charge_rules:
  "priced (charge_activation_rule_normalization r i)" "priced (charge_activation_rules rs i)"
proof (induction r i and rs i rule: charge_activation_rule_normalization_charge_activation_rules.induct)
  case (1 rule entry_id)
  then show ?case
    by (subst charge_activation_rule_normalization.simps)
      (auto intro!: priced_intros split: activation_rule.split)
qed (auto intro!: priced_intros)

lemma keeps_charge_rules:
  "st_keeps meter_le (charge_activation_rule_normalization r i)"
  "st_keeps meter_le (charge_activation_rules rs i)"
proof (induction r i and rs i rule: charge_activation_rule_normalization_charge_activation_rules.induct)
  case (1 rule entry_id)
  then show ?case
    by (subst charge_activation_rule_normalization.simps)
      (auto intro!: keeps_intros split: activation_rule.split)
qed (auto intro!: keeps_intros)

lemma priced_charge_book: "priced (charge_book_normalization book)"
  by (auto simp: charge_book_normalization_def charge_entry_normalization_def
      intro!: priced_intros priced_charge_rules)

lemma keeps_charge_book: "st_keeps meter_le (charge_book_normalization book)"
  by (auto simp: charge_book_normalization_def charge_entry_normalization_def
      intro!: keeps_intros keeps_charge_rules)

lemma priced_compile: "priced (compile_regexes env entries)"
  by (auto simp: compile_regexes_def Let_def intro!: priced_intros split: list.split prod.split)

lemma keeps_compile: "st_keeps meter_le (compile_regexes env entries)"
  by (auto simp: compile_regexes_def Let_def intro!: keeps_intros split: list.split prod.split)

lemma priced_scan:
  "priced (scan_from_texts env book scan_texts scope_id)" "priced (scan_append_text env scan t scope_id)"
  by (auto simp: scan_from_texts_def scan_append_text_def Let_def intro!: priced_intros split: prod.split)

lemma keeps_scan:
  "st_keeps meter_le (scan_from_texts env book scan_texts scope_id)"
  "st_keeps meter_le (scan_append_text env scan t scope_id)"
  by (auto simp: scan_from_texts_def scan_append_text_def Let_def intro!: keeps_intros split: prod.split)

lemma priced_keyword: "priced (first_keyword_match u scan ks cs ww i)"
  by (induction ks) (auto intro!: priced_intros)

lemma keeps_keyword: "st_keeps meter_le (first_keyword_match u scan ks cs ww i)"
  by (induction ks) (auto intro!: keeps_intros)

lemma priced_regex: "priced (first_regex_match env ctx scan i ps)"
  by (induction ps) (auto intro!: priced_intros)

lemma keeps_regex: "st_keeps meter_le (first_regex_match env ctx scan i ps)"
  by (induction ps) (auto intro!: keeps_intros)

lemma priced_evaluate:
  "priced (evaluate_rule env ctx scan i r)" "priced (evaluate_any env ctx scan i rs reasons)"
  "priced (evaluate_all env ctx scan i rs reasons)"
  by (induction env ctx scan i r and env ctx scan i rs reasons and env ctx scan i rs reasons
      rule: evaluate_rule_evaluate_any_evaluate_all.induct)
    (auto simp: evaluate_keyword_rule_def intro!: priced_intros priced_keyword priced_regex split: option.split)

lemma keeps_evaluate:
  "st_keeps meter_le (evaluate_rule env ctx scan i r)"
  "st_keeps meter_le (evaluate_any env ctx scan i rs reasons)"
  "st_keeps meter_le (evaluate_all env ctx scan i rs reasons)"
  by (induction env ctx scan i r and env ctx scan i rs reasons and env ctx scan i rs reasons
      rule: evaluate_rule_evaluate_any_evaluate_all.induct)
    (auto simp: evaluate_keyword_rule_def intro!: keeps_intros keeps_keyword keeps_regex split: option.split)

lemma priced_activation: "priced (evaluate_activation env ctx scan entry)"
  by (simp add: evaluate_activation_def priced_evaluate)

lemma keeps_activation: "st_keeps meter_le (evaluate_activation env ctx scan entry)"
  by (simp add: evaluate_activation_def keeps_evaluate)

lemma priced_rounds: "priced (recursive_rounds env ev book ctx entries depths activated scan frontier)"
  by (induction env ev book ctx entries depths activated scan frontier rule: recursive_rounds.induct)
    (auto simp: Let_def append_frontier_def recursive_step_def
      intro!: priced_intros priced_activation priced_scan split: option.split prod.split)

lemma keeps_rounds:
  "st_keeps meter_le (recursive_rounds env ev book ctx entries depths activated scan frontier)"
  by (induction env ev book ctx entries depths activated scan frontier rule: recursive_rounds.induct)
    (auto simp: Let_def append_frontier_def recursive_step_def
      intro!: keeps_intros keeps_activation keeps_scan split: option.split prod.split)

lemma priced_activate_entries: "priced (activate_entries env ev book ctx entries scan)"
  by (auto simp: activate_entries_def activate_step_def intro!: priced_intros priced_activation priced_rounds
      split: option.split)

lemma keeps_activate_entries: "st_keeps meter_le (activate_entries env ev book ctx entries scan)"
  by (auto simp: activate_entries_def activate_step_def intro!: keeps_intros keeps_activation keeps_rounds
      split: option.split)

lemma priced_exclusions:
  "priced (apply_activation_exclusions env ev book entries activated scan evidence)"
  by (auto simp: apply_activation_exclusions_def exclusion_step_def Let_def
      intro!: priced_intros priced_activation split: option.split)

lemma keeps_exclusions:
  "st_keeps meter_le (apply_activation_exclusions env ev book entries activated scan evidence)"
  by (auto simp: apply_activation_exclusions_def exclusion_step_def Let_def
      intro!: keeps_intros keeps_activation split: option.split)

lemma priced_select: "priced (select_with_budget env book ctx)"
  by (auto simp: select_with_budget_def Let_def intro!: priced_intros priced_charge_book priced_compile
      priced_scan priced_activate_entries priced_exclusions split: prod.split)

lemma keeps_select: "st_keeps meter_le (select_with_budget env book ctx)"
  by (auto simp: select_with_budget_def Let_def intro!: keeps_intros keeps_charge_book keeps_compile
      keeps_scan keeps_activate_entries keeps_exclusions split: prod.split)

subsection \<open>Runs with a sufficient budget\<close>

text \<open>\<open>runs_to m x\<close>: with a sufficient budget the computation gives \<open>x\<close>.\<close>

definition runs_to :: "'a metered \<Rightarrow> 'a \<Rightarrow> bool" where
  "runs_to m x \<longleftrightarrow> (\<exists>b b'. can_pay b 0 \<and> m b = (Inr x, b'))"

lemma runs_to_unique: "priced m \<Longrightarrow> runs_to m x \<Longrightarrow> runs_to m y \<Longrightarrow> x = y"
  unfolding runs_to_def by (elim exE conjE) (rule priced_same_value)

lemma priced_can_pay:
  assumes "priced m" and "can_pay b 0" and "m b = (Inr x, b')"
  shows "can_pay b' 0"
proof -
  obtain n where "can_pay b n" and "b' = pay n b"
    using assms(1) [unfolded priced_def, rule_format, OF assms(2,3)] by (elim exE conjE)
  then show ?thesis by (simp add: can_pay_def pay_def)
qed

end
