(* ===== verification/Knowledge_Rounds.thy ===== *)
theory Knowledge_Rounds
  imports Knowledge_Metering
begin

section \<open>The history of an activation\<close>

text \<open>
  What the knowledge engine scans in each round, described without the engine: the latest texts of the conversation, one per
  line, and after them the contents of all entries that were activated in earlier rounds, in the order of the rounds and of the ids in a
  round.  An entry is activated in the first round in which it fires.  The second half shows that the loops of the engine
  go through exactly these scans.
\<close>

subsection \<open>Scans\<close>

definition latest :: "nat \<Rightarrow> 'a list \<Rightarrow> 'a list" where
  "latest n xs = rev (take n (rev xs))"

definition add_line :: "str \<Rightarrow> str \<Rightarrow> str" where
  "add_line t line = (if t = [] then line else t @ [10] @ line)"

definition first_scan :: "('re, 'z) engine_env_scheme \<Rightarrow> str list \<Rightarrow> activation_scan" where
  "first_scan env texts =
     (let t = foldl add_line [] texts in
      \<lparr>as_original = t, as_lowercase = str_to_lowercase (env_ucd env) t, as_characters = length t\<rparr>)"

definition extend_scan :: "('re, 'z) engine_env_scheme \<Rightarrow> activation_scan \<Rightarrow> str \<Rightarrow> activation_scan" where
  "extend_scan env scan content =
     \<lparr>as_original = add_line (as_original scan) content,
      as_lowercase = as_lowercase scan @ (if as_original scan = [] then [] else [10]) @
        chars_to_lowercase (env_ucd env) content,
      as_characters = length (add_line (as_original scan) content)\<rparr>"

definition scan_with ::
  "('re, 'z) engine_env_scheme \<Rightarrow> knowledge_book \<Rightarrow> knowledge_selection_context \<Rightarrow> knowledge_entry list \<Rightarrow> activation_scan" where
  "scan_with env book ctx activated =
     foldl (extend_scan env) (first_scan env (latest (kb_scan_depth book) (kc_scan_texts ctx))) (map ke_content activated)"

subsection \<open>Rounds\<close>

definition fires ::
  "('re, 'z) engine_env_scheme \<Rightarrow> ('re, 'y) evaluation_context_scheme \<Rightarrow> knowledge_book \<Rightarrow>
     knowledge_selection_context \<Rightarrow> activation_scan \<Rightarrow> knowledge_entry \<Rightarrow> bool" where
  "fires env ev book ctx scan entry \<longleftrightarrow>
     ke_enabled entry \<and> probability_allows env book entry (kc_activation_seed ctx) \<and>
     (\<exists>reasons. runs_to (evaluate_activation env ev scan entry) (Some reasons))"

text \<open>The entries activated before round \<open>n\<close>; the first round is round 0.\<close>

fun activated_before ::
  "('re, 'z) engine_env_scheme \<Rightarrow> ('re, 'y) evaluation_context_scheme \<Rightarrow> knowledge_book \<Rightarrow>
     knowledge_selection_context \<Rightarrow> nat \<Rightarrow> knowledge_entry list" where
  "activated_before env ev book ctx 0 = []"
| "activated_before env ev book ctx (Suc n) =
     (let earlier = activated_before env ev book ctx n in
      earlier @ filter (\<lambda>e. e \<notin> set earlier \<and> fires env ev book ctx (scan_with env book ctx earlier) e)
        (sort_key ke_id (kb_entries book)))"

definition round_scan ::
  "('re, 'z) engine_env_scheme \<Rightarrow> ('re, 'y) evaluation_context_scheme \<Rightarrow> knowledge_book \<Rightarrow>
     knowledge_selection_context \<Rightarrow> nat \<Rightarrow> activation_scan" where
  "round_scan env ev book ctx n = scan_with env book ctx (activated_before env ev book ctx n)"

definition newly_activated ::
  "('re, 'z) engine_env_scheme \<Rightarrow> ('re, 'y) evaluation_context_scheme \<Rightarrow> knowledge_book \<Rightarrow>
     knowledge_selection_context \<Rightarrow> nat \<Rightarrow> knowledge_entry list" where
  "newly_activated env ev book ctx n =
     filter (\<lambda>e. e \<notin> set (activated_before env ev book ctx n) \<and> fires env ev book ctx (round_scan env ev book ctx n) e)
       (sort_key ke_id (kb_entries book))"

lemma activated_before_Suc:
  "activated_before env ev book ctx (Suc n) = activated_before env ev book ctx n @ newly_activated env ev book ctx n"
  by (simp add: Let_def newly_activated_def round_scan_def)

lemma round_scan_Suc:
  "round_scan env ev book ctx (Suc n) =
     foldl (extend_scan env) (round_scan env ev book ctx n) (map ke_content (newly_activated env ev book ctx n))"
  unfolding round_scan_def scan_with_def activated_before_Suc by simp

lemma activated_before_in_book: "set (activated_before env ev book ctx n) \<subseteq> set (kb_entries book)"
  by (induction n) (auto simp: Let_def)

lemma newly_activated_in_book: "set (newly_activated env ev book ctx n) \<subseteq> set (kb_entries book)"
  by (auto simp: newly_activated_def)

lemma distinct_ids_sort_key: "distinct (map ke_id (sort_key ke_id entries)) = distinct (map ke_id entries)"
  by (simp add: distinct_map)

lemma sort_by_strictly_sorted: "sorted_wrt (<) xs \<Longrightarrow> sort_by cmp xs = xs" for xs :: "'a::linorder list"
  by (intro strict_sorted_equal) (simp_all add: strict_sorted_iff sorted_sort_by_cmp)

lemma sorted_newly_activated:
  assumes "distinct (map ke_id (kb_entries book))"
  shows "sorted_wrt (<) (map ke_id (newly_activated env ev book ctx n))"
proof -
  have "distinct (map ke_id (sort_key ke_id (kb_entries book)))" using assms by (simp only: distinct_ids_sort_key)
  then show ?thesis
    unfolding newly_activated_def strict_sorted_iff by (simp add: sorted_filter distinct_map_filter)
qed

text \<open>A round that activates nothing is the last one.\<close>

lemma history_closed:
  assumes "newly_activated env ev book ctx n = []" and "n \<le> m"
  shows "activated_before env ev book ctx m = activated_before env ev book ctx n"
  using assms(2)
proof (induction m rule: dec_induct)
  case (step m)
  then have "newly_activated env ev book ctx m = newly_activated env ev book ctx n"
    by (simp add: newly_activated_def round_scan_def)
  with step.IH assms(1) show ?case by (simp only: activated_before_Suc append_Nil2)
qed simp

lemma round_scan_characters: "as_characters (round_scan env ev book ctx n) = length (as_original (round_scan env ev book ctx n))"
proof -
  have "as_characters (foldl (extend_scan env) scan ts) = length (as_original (foldl (extend_scan env) scan ts))"
    if "as_characters scan = length (as_original scan)" for scan ts
    using that by (induction ts arbitrary: scan) (simp_all add: extend_scan_def)
  then show ?thesis by (simp add: round_scan_def scan_with_def first_scan_def Let_def)
qed

subsection \<open>The engine builds these scans\<close>

lemma append_scan_text_line:
  "append_scan_text (t, length t) line = Inr (t', n) \<Longrightarrow> t' = add_line t line \<and> n = length t'"
  by (auto simp: append_scan_text_def add_line_def result_simps checked_add_def Option.bind_eq_Some_conv split: if_splits)

lemma append_scan_texts_lines:
  "try_fold append_scan_text (t, length t) texts = Inr (t', n) \<Longrightarrow> t' = foldl add_line t texts \<and> n = length t'"
proof (induction texts arbitrary: t)
  case (Cons line texts)
  then obtain s where step: "append_scan_text (t, length t) line = Inr s" and rest: "try_fold append_scan_text s texts = Inr (t', n)"
    by (auto simp: result_simps)
  from append_scan_text_line [of t line "fst s" "snd s"] step have "s = (add_line t line, length (add_line t line))"
    by (simp add: prod_eq_iff)
  with Cons.IH rest show ?case by simp
qed simp

lemma scan_from_texts_first:
  assumes "scan_from_texts env book texts scope_id b = (Inr scan, b')"
  shows "scan = first_scan env (latest (kb_scan_depth book) texts)"
proof -
  from assms obtain t n where "try_fold append_scan_text ([], 0) (drop (length texts - kb_scan_depth book) texts) = Inr (t, n)"
    and "scan = \<lparr>as_original = t, as_lowercase = str_to_lowercase (env_ucd env) t, as_characters = n\<rparr>"
    by (auto simp: scan_from_texts_def Let_def result_simps split: prod.splits)
  with append_scan_texts_lines [of "[]"] show ?thesis
    by (fastforce simp: first_scan_def latest_def rev_take Let_def)
qed

lemma scan_append_text_extends:
  assumes "scan_append_text env scan t scope_id b = (Inr scan', b')" and "as_characters scan = length (as_original scan)"
  shows "scan' = extend_scan env scan t"
proof -
  from assms(1) obtain o' n where app: "append_scan_text (as_original scan, as_characters scan) t = Inr (o', n)"
    and "scan' = \<lparr>as_original = o', as_lowercase = as_lowercase scan @ (if as_original scan \<noteq> [] then [10] else [])
           @ chars_to_lowercase (env_ucd env) t, as_characters = n\<rparr>"
    by (auto simp: scan_append_text_def Let_def result_simps split: prod.splits)
  with append_scan_text_line [of "as_original scan" t o' n] assms(2) show ?thesis by (simp add: extend_scan_def)
qed

lemma append_frontier_extends:
  assumes "append_frontier env entries scan (map ke_id es) b = (Inr scan', b')"
    and "as_characters scan = length (as_original scan)" and "set es \<subseteq> set entries" and "distinct (map ke_id entries)"
  shows "scan' = foldl (extend_scan env) scan (map ke_content es)"
  using assms(1-3)
proof (induction es arbitrary: scan b)
  case Nil
  then show ?case by (simp add: append_frontier_def)
next
  case (Cons e es)
  have "find (\<lambda>entry. ke_id entry = ke_id e) entries = Some e"
    unfolding find_map_distinct [OF assms(4)] using Cons.prems(3) by simp
  with Cons.prems(1) obtain scan1 b1 where step: "scan_append_text env scan (ke_content e) (ke_id e) b = (Inr scan1, b1)"
    and rest: "append_frontier env entries scan1 (map ke_id es) b1 = (Inr scan', b')"
    by (auto simp: append_frontier_def result_simps)
  note scan1 = scan_append_text_extends [OF step Cons.prems(2)]
  have "as_characters scan1 = length (as_original scan1)" by (simp add: scan1 extend_scan_def)
  from Cons.IH [OF rest this] Cons.prems(3) show ?case by (simp add: scan1)
qed

subsection \<open>The engine activates what fires\<close>

lemma fires_iff:
  assumes "runs_to (evaluate_activation env ev scan entry) result"
  shows "fires env ev book ctx scan entry \<longleftrightarrow>
    ke_enabled entry \<and> probability_allows env book entry (kc_activation_seed ctx) \<and> result \<noteq> None"
proof -
  have "(\<exists>reasons. runs_to (evaluate_activation env ev scan entry) (Some reasons)) \<longleftrightarrow> result \<noteq> None"
    using assms runs_to_unique [OF priced_activation assms] by (metis not_Some_eq)
  then show ?thesis by (simp add: fires_def)
qed

text \<open>The frontier of a round: the entries that fire and were not activated before, in the order of the book.\<close>

lemma recursive_step_fires:
  assumes "recursive_step env ev book ctx scan depth frontier (activated, nf) entry b = (Inr (activated', nf'), b')" and "can_pay b 0"
    and "bt_inv activated" and "fresh \<longleftrightarrow> bt_get activated (ke_id entry) = None \<and> fires env ev book ctx scan entry"
  shows "can_pay b' 0 \<and> bt_inv activated' \<and> nf' = nf @ (if fresh then [ke_id entry] else []) \<and>
    dom (map_of activated') = dom (map_of activated) \<union> (if fresh then {ke_id entry} else {})"
proof (cases "ke_enabled entry \<and> bt_get activated (ke_id entry) = None")
  case False
  with assms show ?thesis by (auto simp: recursive_step_def fires_def)
next
  case True
  with assms(1) obtain result where run: "evaluate_activation env ev scan entry b = (Inr result, b')"
    and out: "(case result of None \<Rightarrow> (activated, nf) | Some reasons \<Rightarrow>
        (if \<not> probability_allows env book entry (kc_activation_seed ctx) then (activated, nf)
         else (bt_insert (ke_id entry) \<lparr>ac_reasons = push_reason reasons (Reason_Recursive (recursive_trigger frontier entry)),
                 ac_recursion_depth = depth,
                 ac_estimated_tokens = estimated_tokens entry (kc_token_estimates ctx)\<rparr> activated,
               nf @ [ke_id entry]))) = (activated', nf')"
    by (auto simp: recursive_step_def result_simps split: option.splits)
  have "runs_to (evaluate_activation env ev scan entry) result" using run assms(2) by (auto simp: runs_to_def)
  note fires = fires_iff [OF this, of book ctx]
  have "can_pay b' 0" by (rule priced_can_pay [OF priced_activation assms(2) run])
  with out True assms(3,4) fires show ?thesis
    by (cases result) (auto simp: btree.inv_insert btree.get_insert dom_def split: if_splits)
qed

lemma recursive_round_fires:
  assumes "st_fold (recursive_step env ev book ctx scan depth frontier) (activated, []) entries b = (Inr (activated', nf), b')"
    and "can_pay b 0" and "distinct (map ke_id entries)" and "bt_inv activated"
  shows "nf = map ke_id (filter (\<lambda>e. bt_get activated (ke_id e) = None \<and> fires env ev book ctx scan e) entries) \<and>
    dom (map_of activated') = dom (map_of activated) \<union> set nf"
proof -
  let ?new = "\<lambda>e. bt_get activated (ke_id e) = None \<and> fires env ev book ctx scan e"
  let ?P = "\<lambda>pre st b. can_pay b 0 \<and> bt_inv (fst st) \<and> snd st = map ke_id (filter ?new pre) \<and>
    dom (map_of (fst st)) = dom (map_of activated) \<union> set (snd st)"
  have "?P entries (activated', nf) b'"
    using assms(1)
  proof (rule st_fold_prefix [where P = ?P])
    show "?P [] (activated, []) b" using assms(2,4) by simp
    fix pre x post st b st' b'
    assume split: "entries = pre @ x # post" and P: "?P pre st b"
      and step: "recursive_step env ev book ctx scan depth frontier st x b = (Inr st', b')"
    obtain a n a' n' where st: "st = (a, n)" "st' = (a', n')" by (cases st; cases st') auto
    have "ke_id x \<notin> set n" using assms(3) split P st by auto
    then have "ke_id x \<in> dom (map_of a) \<longleftrightarrow> ke_id x \<in> dom (map_of activated)" using P st by simp
    then have same: "bt_get a (ke_id x) = None \<longleftrightarrow> bt_get activated (ke_id x) = None" unfolding domIff by blast
    have "can_pay b' 0 \<and> bt_inv a' \<and> n' = n @ (if ?new x then [ke_id x] else []) \<and>
      dom (map_of a') = dom (map_of a) \<union> (if ?new x then {ke_id x} else {})"
      by (rule recursive_step_fires [where b = b and scan = scan and depth = depth and frontier = frontier and book = book and ctx = ctx])
        (use step st P same in auto)
    with P st show "?P (pre @ [x]) st' b'" by auto
  qed
  then show ?thesis by simp
qed

end
