(* ===== verification/Knowledge_Engine_Facts.thy ===== *)
theory Knowledge_Engine_Facts
  imports Knowledge_Rounds
begin

section \<open>How the knowledge engine works\<close>

text \<open>
  The lemmas under the properties of knowledge selection: activation rounds keep an invariant on the
  activated entries, follow the history of \<open>Knowledge_Rounds\<close> and end closed under activation, and the
  admission into the token budget is accounted for.
\<close>

subsection \<open>Activation\<close>

text \<open>
  What is known of an activated entry: it is an enabled entry of the book that passes the
  probability gate, its rule matched the scan of the round in which it was activated, and if it was activated in a later round it
  names an entry of the round before as the trigger.
\<close>

definition candidate_ok ::
  "('re, 'z) engine_env_scheme \<Rightarrow> ('re, 'y) evaluation_context_scheme \<Rightarrow> knowledge_book \<Rightarrow>
     knowledge_selection_context \<Rightarrow> knowledge_entry list \<Rightarrow> activated_map \<Rightarrow> str \<Rightarrow> activated_candidate \<Rightarrow> bool" where
  "candidate_ok env ev book ctx entries activated k c \<longleftrightarrow>
     (\<exists>entry \<in> set entries. ke_id entry = k \<and> ke_enabled entry \<and>
       probability_allows env book entry (kc_activation_seed ctx) \<and>
       ac_estimated_tokens c = estimated_tokens entry (kc_token_estimates ctx) \<and>
       (\<exists>reasons. runs_to (evaluate_activation env ev (round_scan env ev book ctx (ac_recursion_depth c)) entry)
           (Some reasons) \<and>
         (if ac_recursion_depth c = 0 then ac_reasons c = reasons
          else \<exists>p c'. ac_reasons c = push_reason reasons (Reason_Recursive p) \<and>
            bt_get activated p = Some c' \<and> ac_recursion_depth c' + 1 = ac_recursion_depth c)))"

definition activated_ok ::
  "('re, 'z) engine_env_scheme \<Rightarrow> ('re, 'y) evaluation_context_scheme \<Rightarrow> knowledge_book \<Rightarrow>
     knowledge_selection_context \<Rightarrow> knowledge_entry list \<Rightarrow> nat \<Rightarrow> activated_map \<Rightarrow> bool" where
  "activated_ok env ev book ctx entries n activated \<longleftrightarrow> bt_inv activated \<and>
     (\<forall>k c. bt_get activated k = Some c \<longrightarrow>
       ac_recursion_depth c \<le> n \<and> candidate_ok env ev book ctx entries activated k c)"

text \<open>A scan is exhausted for an entry when the entry is activated, or does not match, or is gated.\<close>

definition settled ::
  "('re, 'z) engine_env_scheme \<Rightarrow> ('re, 'y) evaluation_context_scheme \<Rightarrow> knowledge_book \<Rightarrow>
     knowledge_selection_context \<Rightarrow> activation_scan \<Rightarrow> activated_map \<Rightarrow> knowledge_entry \<Rightarrow> bool" where
  "settled env ev book ctx scan activated entry \<longleftrightarrow>
     \<not> ke_enabled entry \<or> bt_get activated (ke_id entry) \<noteq> None \<or>
     (\<exists>result. runs_to (evaluate_activation env ev scan entry) result \<and>
       (result = None \<or> \<not> probability_allows env book entry (kc_activation_seed ctx)))"

lemma candidate_ok_mono:
  assumes "candidate_ok env ev book ctx entries activated k c" and "map_of activated \<subseteq>\<^sub>m map_of activated'"
  shows "candidate_ok env ev book ctx entries activated' k c"
proof -
  have "bt_get activated p = Some c' \<Longrightarrow> bt_get activated' p = Some c'" for p c'
    using assms(2) by (metis domI map_le_def)
  with assms(1) show ?thesis unfolding candidate_ok_def by (meson)
qed

lemma settled_mono:
  assumes "settled env ev book ctx scan activated entry" and "dom (map_of activated) \<subseteq> dom (map_of activated')"
  shows "settled env ev book ctx scan activated' entry"
  using assms unfolding settled_def by blast

lemma bt_insert_extends:
  assumes "bt_inv m" and "bt_get m k = None"
  shows "map_of m \<subseteq>\<^sub>m map_of (bt_insert k v m)"
  using assms by (auto simp: map_le_def btree.get_insert)

lemma activated_ok_insert:
  assumes "activated_ok env ev book ctx entries n activated" and "bt_get activated k = None"
    and "candidate_ok env ev book ctx entries activated k c" and "ac_recursion_depth c \<le> n"
  shows "activated_ok env ev book ctx entries n (bt_insert k c activated)"
proof -
  have inv: "bt_inv activated" using assms(1) by (simp add: activated_ok_def)
  note mono = candidate_ok_mono [OF _ bt_insert_extends [OF inv assms(2)]]
  show ?thesis
    using assms inv unfolding activated_ok_def
    by (auto simp: btree.inv_insert btree.get_insert split: if_splits intro: mono)
qed

lemma activate_step_ok:
  assumes "activated_ok env ev book ctx entries 0 activated" and "can_pay b 0" and "entry \<in> set entries"
    and "bt_get activated (ke_id entry) = None"
    and "activate_step env ev book ctx (round_scan env ev book ctx 0) activated entry b = (Inr activated', b')"
  shows "activated_ok env ev book ctx entries 0 activated'" and "can_pay b' 0"
    and "settled env ev book ctx (round_scan env ev book ctx 0) activated' entry"
    and "map_of activated \<subseteq>\<^sub>m map_of activated'"
    and "dom (map_of activated') \<subseteq> insert (ke_id entry) (dom (map_of activated))"
proof -
  have inv: "bt_inv activated" using assms(1) by (simp add: activated_ok_def)
  have "activated_ok env ev book ctx entries 0 activated' \<and> can_pay b' 0 \<and>
    settled env ev book ctx (round_scan env ev book ctx 0) activated' entry \<and> map_of activated \<subseteq>\<^sub>m map_of activated' \<and>
    dom (map_of activated') \<subseteq> insert (ke_id entry) (dom (map_of activated))"
  proof (cases "ke_enabled entry")
    case False
    with assms show ?thesis by (simp add: activate_step_def settled_def subset_insertI)
  next
    case True
    with assms(5) obtain result where run: "evaluate_activation env ev (round_scan env ev book ctx 0) entry b = (Inr result, b')"
      and act: "activated' = (case result of None \<Rightarrow> activated | Some reasons \<Rightarrow>
        if probability_allows env book entry (kc_activation_seed ctx)
        then bt_insert (ke_id entry) \<lparr>ac_reasons = reasons, ac_recursion_depth = 0,
          ac_estimated_tokens = estimated_tokens entry (kc_token_estimates ctx)\<rparr> activated
        else activated)"
      by (auto simp: activate_step_def result_simps split: option.splits)
    have runs: "runs_to (evaluate_activation env ev (round_scan env ev book ctx 0) entry) result"
      using run assms(2) by (auto simp: runs_to_def)
    have pay: "can_pay b' 0" by (rule priced_can_pay [OF priced_activation assms(2) run])
    show ?thesis
    proof (cases "\<exists>reasons. result = Some reasons \<and> probability_allows env book entry (kc_activation_seed ctx)")
      case False
      then have "activated' = activated" using act by (auto split: option.splits)
      with False runs pay assms(1) show ?thesis by (auto simp: settled_def subset_insertI)
    next
      case hit: True
      then obtain reasons where reasons: "result = Some reasons" by blast
      define c where "c = \<lparr>ac_reasons = reasons, ac_recursion_depth = 0,
          ac_estimated_tokens = estimated_tokens entry (kc_token_estimates ctx)\<rparr>"
      have act': "activated' = bt_insert (ke_id entry) c activated" using act hit reasons by (simp add: c_def)
      have "candidate_ok env ev book ctx entries activated (ke_id entry) c"
        unfolding candidate_ok_def
        by (rule bexI [OF _ assms(3)]) (use True hit runs reasons in \<open>auto simp: c_def\<close>)
      then have "activated_ok env ev book ctx entries 0 activated'"
        unfolding act' by (intro activated_ok_insert assms(1,4)) (simp_all add: c_def)
      then show ?thesis
        using pay bt_insert_extends [OF inv assms(4)] inv
        by (auto simp: act' settled_def btree.get_insert split: if_splits)
    qed
  qed
  then show "activated_ok env ev book ctx entries 0 activated'" and "can_pay b' 0"
    and "settled env ev book ctx (round_scan env ev book ctx 0) activated' entry"
    and "map_of activated \<subseteq>\<^sub>m map_of activated'"
    and "dom (map_of activated') \<subseteq> insert (ke_id entry) (dom (map_of activated))" by blast+
qed

lemma first_round_ok:
  assumes "st_fold (activate_step env ev book ctx (round_scan env ev book ctx 0)) [] entries b = (Inr activated, b')"
    and "can_pay b 0" and "distinct (map ke_id entries)"
  shows "activated_ok env ev book ctx entries 0 activated" and "can_pay b' 0"
    and "\<forall>entry \<in> set entries. settled env ev book ctx (round_scan env ev book ctx 0) activated entry"
proof -
  let ?P = "\<lambda>pre activated b. activated_ok env ev book ctx entries 0 activated \<and> can_pay b 0 \<and>
    (\<forall>entry \<in> set pre. settled env ev book ctx (round_scan env ev book ctx 0) activated entry) \<and>
    dom (map_of activated) \<subseteq> ke_id ` set pre"
  have "?P entries activated b'"
    using assms(1)
  proof (rule st_fold_prefix [where P = ?P])
    show "?P [] [] b" using assms(2) by (simp add: activated_ok_def btree.inv_empty)
    fix pre x post activated b activated' b'
    assume split: "entries = pre @ x # post" and P: "?P pre activated b"
      and step: "activate_step env ev book ctx (round_scan env ev book ctx 0) activated x b = (Inr activated', b')"
    have "ke_id x \<notin> ke_id ` set pre" using assms(3) split by auto
    then have fresh: "bt_get activated (ke_id x) = None" using P by (meson domIff subsetD)
    have x: "x \<in> set entries" using split by simp
    from P have ok: "activated_ok env ev book ctx entries 0 activated" and pay: "can_pay b 0" by blast+
    note step_ok = activate_step_ok [OF ok pay x fresh step]
    have "dom (map_of activated) \<subseteq> dom (map_of activated')" using step_ok(4) by (rule map_le_implies_dom_le)
    then have "settled env ev book ctx (round_scan env ev book ctx 0) activated' entry" if "entry \<in> set pre" for entry
      using settled_mono P that by blast
    moreover have "dom (map_of activated') \<subseteq> ke_id ` set (pre @ [x])"
    proof -
      have "dom (map_of activated) \<subseteq> ke_id ` set pre" using P by blast
      with step_ok(5) have "dom (map_of activated') \<subseteq> insert (ke_id x) (ke_id ` set pre)" by (meson insert_mono subset_trans)
      then show ?thesis by simp
    qed
    ultimately show "?P (pre @ [x]) activated' b'" using step_ok(1-3) by simp
  qed
  then show "activated_ok env ev book ctx entries 0 activated" and "can_pay b' 0"
    and "\<forall>entry \<in> set entries. settled env ev book ctx (round_scan env ev book ctx 0) activated entry" by blast+
qed

lemma recursive_step_ok:
  assumes "activated_ok env ev book ctx entries depth activated" and "can_pay b 0" and "entry \<in> set entries"
    and "0 < depth" and "frontier \<noteq> []"
    and "\<forall>p \<in> set frontier. \<exists>c. bt_get activated p = Some c \<and> ac_recursion_depth c + 1 = depth"
    and "\<forall>p \<in> set nf. \<exists>c. bt_get activated p = Some c \<and> ac_recursion_depth c = depth"
    and "recursive_step env ev book ctx (round_scan env ev book ctx depth) depth frontier (activated, nf) entry b = (Inr (activated', nf'), b')"
  shows "activated_ok env ev book ctx entries depth activated' \<and> can_pay b' 0 \<and>
    settled env ev book ctx (round_scan env ev book ctx depth) activated' entry \<and> map_of activated \<subseteq>\<^sub>m map_of activated' \<and>
    (\<forall>p \<in> set nf'. \<exists>c. bt_get activated' p = Some c \<and> ac_recursion_depth c = depth)"
proof (cases "\<not> ke_enabled entry \<or> bt_get activated (ke_id entry) \<noteq> None")
  case True
  with assms show ?thesis by (auto simp: recursive_step_def settled_def)
next
  case False
  then have fresh: "bt_get activated (ke_id entry) = None" and enabled: "ke_enabled entry" by auto
  have inv: "bt_inv activated" using assms(1) by (simp add: activated_ok_def)
  define trigger where "trigger = recursive_trigger frontier entry"
  have "trigger \<in> set frontier"
    using assms(5) by (auto simp: trigger_def recursive_trigger_def split: option.split)
  then obtain c0 where c0: "bt_get activated trigger = Some c0" "ac_recursion_depth c0 + 1 = depth"
    using assms(6) by blast
  from assms(8) obtain result b1 where run1: "evaluate_activation env ev (round_scan env ev book ctx depth) entry b = (Inr result, b1)"
    and cont: "(case result of None \<Rightarrow> st_return (activated, nf)
        | Some reasons \<Rightarrow> st_return
            (if \<not> probability_allows env book entry (kc_activation_seed ctx) then (activated, nf)
             else (bt_insert (ke_id entry) \<lparr>ac_reasons = push_reason reasons (Reason_Recursive trigger),
                 ac_recursion_depth = depth,
                 ac_estimated_tokens = estimated_tokens entry (kc_token_estimates ctx)\<rparr> activated,
               nf @ [ke_id entry]))) b1 =
        ((Inr (activated', nf'), b') :: (knowledge_selection_error, activated_map \<times> str list) result \<times> _)"
    unfolding recursive_step_def trigger_def [symmetric] using fresh enabled
    by (auto simp: result_simps)
  have "b1 = b'" and out: "(activated', nf') = (case result of None \<Rightarrow> (activated, nf) | Some reasons \<Rightarrow>
      if \<not> probability_allows env book entry (kc_activation_seed ctx) then (activated, nf)
      else (bt_insert (ke_id entry) \<lparr>ac_reasons = push_reason reasons (Reason_Recursive trigger),
          ac_recursion_depth = depth,
          ac_estimated_tokens = estimated_tokens entry (kc_token_estimates ctx)\<rparr> activated,
        nf @ [ke_id entry]))"
    using cont by (cases result; simp)+
  note run = run1 [unfolded \<open>b1 = b'\<close>]
  have runs: "runs_to (evaluate_activation env ev (round_scan env ev book ctx depth) entry) result"
    using run assms(2) by (auto simp: runs_to_def)
  have pay: "can_pay b' 0" by (rule priced_can_pay [OF priced_activation assms(2) run])
  show ?thesis
  proof (cases "\<exists>reasons. result = Some reasons \<and> probability_allows env book entry (kc_activation_seed ctx)")
    case miss: False
    then have "activated' = activated" and "nf' = nf" using out by (auto split: option.splits)
    with miss runs pay assms(1,7) show ?thesis by (auto simp: settled_def)
  next
    case hit: True
    then obtain reasons where reasons: "result = Some reasons" by blast
    define c where "c = \<lparr>ac_reasons = push_reason reasons (Reason_Recursive trigger),
        ac_recursion_depth = depth, ac_estimated_tokens = estimated_tokens entry (kc_token_estimates ctx)\<rparr>"
    have act': "activated' = bt_insert (ke_id entry) c activated" and nf': "nf' = nf @ [ke_id entry]"
      using out hit reasons by (simp_all add: c_def)
    have "candidate_ok env ev book ctx entries activated (ke_id entry) c"
      unfolding candidate_ok_def
      by (rule bexI [OF _ assms(3)]) (use enabled hit runs reasons c0 assms(4) in \<open>auto simp: c_def\<close>)
    then have "activated_ok env ev book ctx entries depth activated'"
      unfolding act' by (intro activated_ok_insert assms(1) fresh) (simp_all add: c_def)
    then show ?thesis
      using pay bt_insert_extends [OF inv fresh] inv assms(7) fresh
      by (auto simp: act' nf' settled_def btree.get_insert c_def)
  qed
qed

lemma recursive_round_ok:
  assumes "st_fold (recursive_step env ev book ctx (round_scan env ev book ctx depth) depth frontier) (activated, []) entries b
      = (Inr (activated', nf), b')"
    and "activated_ok env ev book ctx entries depth activated" and "can_pay b 0"
    and "0 < depth" and "frontier \<noteq> []"
    and "\<forall>p \<in> set frontier. \<exists>c. bt_get activated p = Some c \<and> ac_recursion_depth c + 1 = depth"
  shows "activated_ok env ev book ctx entries depth activated' \<and> can_pay b' 0 \<and>
    (\<forall>entry \<in> set entries. settled env ev book ctx (round_scan env ev book ctx depth) activated' entry) \<and>
    (\<forall>p \<in> set nf. \<exists>c. bt_get activated' p = Some c \<and> ac_recursion_depth c = depth)"
proof -
  let ?P = "\<lambda>pre st b. activated_ok env ev book ctx entries depth (fst st) \<and> can_pay b 0 \<and>
    map_of activated \<subseteq>\<^sub>m map_of (fst st) \<and>
    (\<forall>entry \<in> set pre. settled env ev book ctx (round_scan env ev book ctx depth) (fst st) entry) \<and>
    (\<forall>p \<in> set (snd st). \<exists>c. bt_get (fst st) p = Some c \<and> ac_recursion_depth c = depth)"
  have "?P entries (activated', nf) b'"
    using assms(1)
  proof (rule st_fold_prefix [where P = ?P])
    show "?P [] (activated, []) b" using assms(2,3) by simp
    fix pre x post st b st' b'
    assume split: "entries = pre @ x # post" and P: "?P pre st b"
      and step: "recursive_step env ev book ctx (round_scan env ev book ctx depth) depth frontier st x b = (Inr st', b')"
    obtain a n a' n' where st: "st = (a, n)" "st' = (a', n')" by (cases st; cases st') auto
    have ext: "map_of activated \<subseteq>\<^sub>m map_of a" using P st by simp
    have front: "\<forall>p \<in> set frontier. \<exists>c. bt_get a p = Some c \<and> ac_recursion_depth c + 1 = depth"
      using assms(6) ext by (metis domI map_le_def)
    have "activated_ok env ev book ctx entries depth a' \<and> can_pay b' 0 \<and>
      settled env ev book ctx (round_scan env ev book ctx depth) a' x \<and> map_of a \<subseteq>\<^sub>m map_of a' \<and>
      (\<forall>p \<in> set n'. \<exists>c. bt_get a' p = Some c \<and> ac_recursion_depth c = depth)"
      by (rule recursive_step_ok [where b = b and nf = n and frontier = frontier])
        (use P split st step assms(4,5) front in simp_all)
    moreover from this have "settled env ev book ctx (round_scan env ev book ctx depth) a' entry" if "entry \<in> set pre" for entry
      using P st that settled_mono map_le_implies_dom_le by (metis fst_conv)
    ultimately show "?P (pre @ [x]) st' b'" using ext st by (auto intro: map_le_trans)
  qed
  then show ?thesis by simp
qed

lemma append_frontier_pay:
  assumes "append_frontier env entries scan frontier b = (Inr scan', b')" and "can_pay b 0"
  shows "can_pay b' 0"
proof (rule priced_can_pay [of "append_frontier env entries scan frontier", OF _ assms(2,1)])
  show "priced (append_frontier env entries scan frontier)"
    by (auto simp: append_frontier_def intro!: priced_intros priced_scan split: option.split)
qed

text \<open>The rounds of the engine are those of the history.\<close>

definition follows_history ::
  "('re, 'z) engine_env_scheme \<Rightarrow> ('re, 'y) evaluation_context_scheme \<Rightarrow> knowledge_book \<Rightarrow>
     knowledge_selection_context \<Rightarrow> nat \<Rightarrow> activated_map \<Rightarrow> bool" where
  "follows_history env ev book ctx n activated \<longleftrightarrow>
     dom (map_of activated) = ke_id ` set (activated_before env ev book ctx n)"

lemma follows_history_fresh:
  assumes "follows_history env ev book ctx n activated" and "distinct (map ke_id (kb_entries book))" and "e \<in> set (kb_entries book)"
  shows "bt_get activated (ke_id e) = None \<longleftrightarrow> e \<notin> set (activated_before env ev book ctx n)"
proof -
  have "bt_get activated (ke_id e) = None \<longleftrightarrow> ke_id e \<notin> ke_id ` set (activated_before env ev book ctx n)"
    using assms(1) unfolding follows_history_def by (metis domIff)
  also have "\<dots> \<longleftrightarrow> e \<notin> set (activated_before env ev book ctx n)"
    using activated_before_in_book [of env ev book ctx n] assms(2,3) by (auto simp: distinct_map inj_on_def)
  finally show ?thesis .
qed

lemma first_round_follows:
  assumes "activated_ok env ev book ctx entries 0 activated"
    and "\<forall>entry \<in> set entries. settled env ev book ctx (round_scan env ev book ctx 0) activated entry"
    and "entries = sort_key ke_id (kb_entries book)" and "distinct (map ke_id entries)"
  shows "follows_history env ev book ctx 1 activated" and "map fst activated = map ke_id (newly_activated env ev book ctx 0)"
proof -
  have fired: "k \<in> dom (map_of activated) \<longleftrightarrow> k \<in> ke_id ` set (newly_activated env ev book ctx 0)" for k
  proof
    assume "k \<in> dom (map_of activated)"
    then obtain c where "bt_get activated k = Some c" by auto
    then show "k \<in> ke_id ` set (newly_activated env ev book ctx 0)"
      using assms(1,3) by (force simp: activated_ok_def candidate_ok_def newly_activated_def fires_def)
  next
    assume "k \<in> ke_id ` set (newly_activated env ev book ctx 0)"
    then obtain e where e: "k = ke_id e" "e \<in> set entries" "fires env ev book ctx (round_scan env ev book ctx 0) e"
      by (auto simp: newly_activated_def assms(3))
    then have "settled env ev book ctx (round_scan env ev book ctx 0) activated e" using assms(2) by blast
    with e fires_iff show "k \<in> dom (map_of activated)" unfolding settled_def domIff by (metis fires_def)
  qed
  then show "follows_history env ev book ctx 1 activated"
    using activated_before_Suc [of env ev book ctx 0] by (auto simp: follows_history_def)
  have inv: "bt_inv activated" using assms(1) by (simp add: activated_ok_def)
  have "set (map fst activated) = set (map ke_id (newly_activated env ev book ctx 0))"
    using fired dom_map_of_conv_image_fst [of activated] by auto
  moreover have "sorted_wrt (<) (map fst activated)" using inv by (simp add: bt_inv_def)
  moreover have "sorted_wrt (<) (map ke_id (newly_activated env ev book ctx 0))"
    using assms(3,4) by (intro sorted_newly_activated) (simp only: distinct_ids_sort_key)
  ultimately show "map fst activated = map ke_id (newly_activated env ev book ctx 0)"
    by (intro strict_sorted_equal)
qed

lemma recursive_rounds_ok:
  assumes "recursive_rounds env ev book ctx entries [Suc k..<m] activated (round_scan env ev book ctx k)
      (map ke_id (newly_activated env ev book ctx k)) b = (Inr (activated', scan'), b')"
    and "activated_ok env ev book ctx entries k activated" and "can_pay b 0" and "k < m"
    and "\<forall>entry \<in> set entries. settled env ev book ctx (round_scan env ev book ctx k) activated entry"
    and "\<forall>e \<in> set (newly_activated env ev book ctx k). \<exists>c. bt_get activated (ke_id e) = Some c \<and> ac_recursion_depth c = k"
    and "follows_history env ev book ctx (Suc k) activated"
    and "entries = sort_key ke_id (kb_entries book)" and "distinct (map ke_id entries)"
  shows "activated_ok env ev book ctx entries (m - 1) activated' \<and> can_pay b' 0 \<and> scan' = round_scan env ev book ctx (m - 1) \<and>
    (\<forall>entry \<in> set entries. settled env ev book ctx scan' activated' entry)"
  using assms(1-7)
proof (induction "m - Suc k" arbitrary: k activated b)
  case 0
  then have "m - 1 = k" by simp
  with 0 show ?case by simp
next
  case (Suc n)
  let ?new = "newly_activated env ev book ctx"
  let ?f = "map ke_id (?new k)"
  have weaken: "activated_ok env ev book ctx entries k a \<Longrightarrow> k \<le> l \<Longrightarrow> activated_ok env ev book ctx entries l a" for l a
    by (fastforce simp: activated_ok_def)
  have upt: "[Suc k..<m] = Suc k # [Suc (Suc k)..<m]" using Suc.hyps(2) by (simp add: upt_conv_Cons)
  have book: "distinct (map ke_id (kb_entries book))" "set entries = set (kb_entries book)"
    using assms(9) unfolding assms(8) distinct_ids_sort_key by simp_all
  show ?case
  proof (cases "?new k = []")
    case True
    have "round_scan env ev book ctx (m - 1) = round_scan env ev book ctx k"
      unfolding round_scan_def by (subst history_closed [OF True]) (use Suc.prems(4) in simp_all)
    with True Suc.prems weaken [OF Suc.prems(2), of "m - 1"] show ?thesis by (simp add: upt)
  next
    case False
    have sorted: "sort_by cmp ?f = ?f"
      by (rule sort_by_strictly_sorted) (rule sorted_newly_activated [OF book(1)])
    from Suc.prems(1) False obtain scan1 b1 a1 nf b2 where
      app: "append_frontier env entries (round_scan env ev book ctx k) ?f b = (Inr scan1, b1)"
      and round: "st_fold (recursive_step env ev book ctx scan1 (Suc k) ?f) (activated, []) entries b1 = (Inr (a1, nf), b2)"
      and rest: "recursive_rounds env ev book ctx entries [Suc (Suc k)..<m] a1 scan1 nf b2 = (Inr (activated', scan'), b')"
      by (auto simp: upt Let_def result_simps sorted split: prod.splits)
    have scan1: "scan1 = round_scan env ev book ctx (Suc k)"
      unfolding round_scan_Suc
      by (rule append_frontier_extends [OF app round_scan_characters]) (use newly_activated_in_book book assms(9) in simp_all)
    have pay: "can_pay b1 0" by (rule append_frontier_pay [OF app Suc.prems(3)])
    have ok: "activated_ok env ev book ctx entries (Suc k) a1 \<and> can_pay b2 0 \<and>
      (\<forall>entry \<in> set entries. settled env ev book ctx (round_scan env ev book ctx (Suc k)) a1 entry) \<and>
      (\<forall>p \<in> set nf. \<exists>c. bt_get a1 p = Some c \<and> ac_recursion_depth c = Suc k)"
      by (rule recursive_round_ok [OF round [unfolded scan1]])
        (use weaken [OF Suc.prems(2)] pay False Suc.prems(6) in auto)
    have fired: "nf = map ke_id (filter (\<lambda>e. bt_get activated (ke_id e) = None \<and>
          fires env ev book ctx (round_scan env ev book ctx (Suc k)) e) entries) \<and>
        dom (map_of a1) = dom (map_of activated) \<union> set nf"
      using recursive_round_fires [OF round pay assms(9)] Suc.prems(2) by (simp add: activated_ok_def scan1)
    have nf: "nf = map ke_id (?new (Suc k))"
      using fired [THEN conjunct1] follows_history_fresh [OF Suc.prems(7) book(1)] book(2)
      by (auto simp: newly_activated_def assms(8) [symmetric] intro!: filter_cong arg_cong [where f = "map ke_id"])
    have "follows_history env ev book ctx (Suc (Suc k)) a1"
      using fired [THEN conjunct2] Suc.prems(7) unfolding follows_history_def activated_before_Suc nf by auto
    then show ?thesis
      using Suc.hyps(2) ok rest unfolding scan1 nf by (intro Suc.hyps(1)) auto
  qed
qed

lemma activate_entries_ok:
  assumes "activate_entries env ev book ctx entries (round_scan env ev book ctx 0) b = (Inr (activated, scan'), b')"
    and "can_pay b 0" and "distinct (map ke_id entries)" and "entries = sort_key ke_id (kb_entries book)"
    and "n = (if kb_recursive book then kb_max_recursion_depth book else 0)"
  shows "activated_ok env ev book ctx entries n activated \<and> can_pay b' 0 \<and> scan' = round_scan env ev book ctx n \<and>
    (\<forall>entry \<in> set entries. settled env ev book ctx scan' activated entry)"
proof -
  obtain act0 b0 where first: "st_fold (activate_step env ev book ctx (round_scan env ev book ctx 0)) [] entries b = (Inr act0, b0)"
    and rest: "(if kb_recursive book \<and> kb_max_recursion_depth book > 0
      then recursive_rounds env ev book ctx entries [1..<kb_max_recursion_depth book + 1] act0 (round_scan env ev book ctx 0) (map fst act0)
      else st_return (act0, round_scan env ev book ctx 0)) b0 = (Inr (activated, scan'), b')"
    using assms(1) by (auto simp: activate_entries_def result_simps)
  note ok0 = first_round_ok [OF first assms(2,3)]
  note follow = first_round_follows [OF ok0(1,3) assms(4,3)]
  show ?thesis
  proof (cases "kb_recursive book \<and> kb_max_recursion_depth book > 0")
    case True
    have "\<exists>c. bt_get act0 (ke_id e) = Some c \<and> ac_recursion_depth c = 0" if e: "e \<in> set (newly_activated env ev book ctx 0)" for e
    proof -
      from e follow(2) have "ke_id e \<in> fst ` set act0" by (metis image_eqI list.set_map)
      then obtain c where "bt_get act0 (ke_id e) = Some c" by (metis map_of_eq_None_iff not_Some_eq)
      then show ?thesis using ok0(1) by (auto simp: activated_ok_def)
    qed
    then have "activated_ok env ev book ctx entries (kb_max_recursion_depth book + 1 - 1) activated \<and> can_pay b' 0 \<and>
        scan' = round_scan env ev book ctx (kb_max_recursion_depth book + 1 - 1) \<and>
        (\<forall>entry \<in> set entries. settled env ev book ctx scan' activated entry)"
      using rest True follow ok0 assms(3,4)
      by (intro recursive_rounds_ok [where k = 0 and activated = act0 and b = b0]) simp_all
    moreover have "n = kb_max_recursion_depth book + 1 - 1" using True assms(5) by simp
    ultimately show ?thesis by blast
  next
    case False
    with rest have "activated = act0" "scan' = round_scan env ev book ctx 0" "b' = b0" "n = 0" using assms(5) by auto
    with ok0 show ?thesis by simp
  qed
qed

subsection \<open>Admission into the token budget\<close>

text \<open>
  The decision on one candidate, \<^term>\<open>None\<close> for admission or the reason for an exclusion, and the
  decisions on a list of candidates; the loop of the source refines them.
\<close>

definition budget_decide :: "knowledge_entry \<Rightarrow> activated_candidate \<Rightarrow> nat \<Rightarrow> nat \<Rightarrow> str option" where
  "budget_decide entry c limit used =
     (if (case tp_max_tokens (ke_token_policy entry) of None \<Rightarrow> False | Some l \<Rightarrow> ac_estimated_tokens c > l)
      then Some (lit ''entry exceeds its per-entry token limit'')
      else if used + ac_estimated_tokens c > u32_max then Some (lit ''knowledge token budget overflow'')
      else if used + ac_estimated_tokens c > limit
      then Some (lit ''entry does not fit the remaining knowledge token budget'')
      else None)"

fun budget_admit ::
  "(str \<Rightarrow> knowledge_entry) \<Rightarrow> (str \<Rightarrow> activated_candidate) \<Rightarrow> nat \<Rightarrow> nat \<Rightarrow> str list \<Rightarrow> (str \<times> str option) list" where
  "budget_admit ent cand limit used [] = []"
| "budget_admit ent cand limit used (k # ks) =
     (let d = budget_decide (ent k) (cand k) limit used in
      (k, d) # budget_admit ent cand limit (if d = None then used + ac_estimated_tokens (cand k) else used) ks)"

definition mark_budget ::
  "str \<times> str option \<Rightarrow> knowledge_selection_evidence \<Rightarrow> knowledge_selection_evidence" where
  "mark_budget = (\<lambda>(k, d) item. case d of
     None \<Rightarrow> item\<lparr>kse_selected := True, kse_exclusion_reason := None\<rparr>
   | Some reason \<Rightarrow> item\<lparr>kse_exclusion_reason := Some reason\<rparr>)"

definition selected_entry :: "knowledge_entry \<Rightarrow> activated_candidate \<Rightarrow> str \<Rightarrow> selected_knowledge_entry" where
  "selected_entry entry c k =
     \<lparr>sk_entry_id = k, sk_content = ke_content entry, sk_placement = ke_placement entry,
      sk_estimated_tokens = ac_estimated_tokens c, sk_recursion_depth = ac_recursion_depth c,
      sk_reasons = ac_reasons c\<rparr>"

definition admitted_keys :: "(str \<times> str option) list \<Rightarrow> str list" where
  "admitted_keys ds = map fst (filter (\<lambda>(k, d). d = None) ds)"

lemma map_fst_budget_admit [simp]: "map fst (budget_admit ent cand limit used ks) = ks"
  by (induction ks arbitrary: used) (simp_all add: Let_def)

lemma budget_admit_key: "(k, d) \<in> set (budget_admit ent cand limit used ks) \<Longrightarrow> k \<in> set ks"
  by (metis map_fst_budget_admit list.set_map image_eqI fst_conv)

lemma budget_admit_within:
  "used \<le> limit \<Longrightarrow> used + sum_list (map (\<lambda>k. ac_estimated_tokens (cand k))
     (admitted_keys (budget_admit ent cand limit used ks))) \<le> limit"
proof (induction ks arbitrary: used)
  case (Cons k ks)
  show ?case
  proof (cases "budget_decide (ent k) (cand k) limit used")
    case None
    then have "used + ac_estimated_tokens (cand k) \<le> limit" by (auto simp: budget_decide_def split: if_splits)
    from Cons.IH [OF this] None show ?thesis by (simp add: Let_def admitted_keys_def add.assoc)
  next
    case (Some reason)
    with Cons show ?thesis by (simp add: Let_def admitted_keys_def)
  qed
qed (simp add: admitted_keys_def)

lemma budget_admit_limit:
  "(k, None) \<in> set (budget_admit ent cand limit used ks) \<Longrightarrow>
     \<forall>l. tp_max_tokens (ke_token_policy (ent k)) = Some l \<longrightarrow> ac_estimated_tokens (cand k) \<le> l"
  by (induction ks arbitrary: used) (auto simp: Let_def budget_decide_def split: if_splits option.splits)

lemma budget_step_decide:
  assumes "bt_get (bs_evidence st) k \<noteq> None" and "key = k" and "bc_entry_id bc = k"
    and "d = budget_decide (the (bt_get by_id k)) (the (bt_get activated k)) (max_tokens (kb_token_budget book))
      (bs_used_tokens st)"
  shows "budget_step book by_id activated bc st =
    \<lparr>bs_evidence = bt_modify k (mark_budget (k, d)) (bs_evidence st),
     bs_selected = bs_selected st @ (if d = None
       then [selected_entry (the (bt_get by_id k)) (the (bt_get activated k)) k] else []),
     bs_used_tokens = (if d = None then bs_used_tokens st + ac_estimated_tokens (the (bt_get activated k))
       else bs_used_tokens st)\<rparr>"
proof -
  obtain item where item: "bt_get (bs_evidence st) k = Some item" using assms(1) by auto
  have mark: "bt_modify k (mark_budget (k, d)) (bs_evidence st) =
      bt_modify k (\<lambda>_. mark_budget (k, d) item) (bs_evidence st)"
    using bt_modify_const [OF item, of "mark_budget (k, d)"] by simp
  show ?thesis
    unfolding mark
    by (simp add: budget_step_def Let_def assms(3,4) item budget_decide_def mark_budget_def
        selected_entry_def checked_add_def not_le)
qed

lemma budget_loop:
  assumes "\<And>k. k \<in> set ks \<Longrightarrow> bt_get (bs_evidence st) k \<noteq> None"
    and "map bc_entry_id bcs = ks"
    and "ds = budget_admit (\<lambda>k. the (bt_get by_id k)) (\<lambda>k. the (bt_get activated k))
      (max_tokens (kb_token_budget book)) (bs_used_tokens st) ks"
  shows "fold (budget_step book by_id activated) bcs st =
    \<lparr>bs_evidence = fold (\<lambda>x. bt_modify (fst x) (mark_budget x)) ds (bs_evidence st),
     bs_selected = bs_selected st @
       map (\<lambda>k. selected_entry (the (bt_get by_id k)) (the (bt_get activated k)) k) (admitted_keys ds),
     bs_used_tokens = bs_used_tokens st +
       sum_list (map (\<lambda>k. ac_estimated_tokens (the (bt_get activated k))) (admitted_keys ds))\<rparr>"
  using assms
proof (induction bcs arbitrary: ks st ds)
  case Nil
  then show ?case by (simp add: admitted_keys_def)
next
  case (Cons bc bcs)
  then obtain k ks' where ks: "ks = k # ks'" and bc: "bc_entry_id bc = k" and ks': "map bc_entry_id bcs = ks'" by auto
  define d where "d = budget_decide (the (bt_get by_id k)) (the (bt_get activated k))
    (max_tokens (kb_token_budget book)) (bs_used_tokens st)"
  define st' where "st' =
    \<lparr>bs_evidence = bt_modify k (mark_budget (k, d)) (bs_evidence st),
     bs_selected = bs_selected st @ (if d = None
       then [selected_entry (the (bt_get by_id k)) (the (bt_get activated k)) k] else []),
     bs_used_tokens = (if d = None then bs_used_tokens st + ac_estimated_tokens (the (bt_get activated k))
       else bs_used_tokens st)\<rparr>"
  define ds' where "ds' = budget_admit (\<lambda>k. the (bt_get by_id k)) (\<lambda>k. the (bt_get activated k))
      (max_tokens (kb_token_budget book)) (bs_used_tokens st') ks'"
  have has: "bt_get (bs_evidence st) k \<noteq> None" using Cons.prems(1) ks by simp
  have step: "budget_step book by_id activated bc st = st'"
    unfolding st'_def by (rule budget_step_decide [OF has refl bc d_def])
  have keys: "bt_get (bs_evidence st') k' \<noteq> None" if "k' \<in> set ks'" for k'
    using Cons.prems(1) [of k'] has ks that by (auto simp: st'_def bt_get_modify)
  have ds: "ds = (k, d) # ds'"
    using Cons.prems(3) by (simp add: ks Let_def d_def ds'_def st'_def)
  have "fold (budget_step book by_id activated) (bc # bcs) st = fold (budget_step book by_id activated) bcs st'"
    by (simp add: step)
  also have "\<dots> = \<lparr>bs_evidence = fold (\<lambda>x. bt_modify (fst x) (mark_budget x)) ds' (bs_evidence st'),
     bs_selected = bs_selected st' @
       map (\<lambda>k. selected_entry (the (bt_get by_id k)) (the (bt_get activated k)) k) (admitted_keys ds'),
     bs_used_tokens = bs_used_tokens st' +
       sum_list (map (\<lambda>k. ac_estimated_tokens (the (bt_get activated k))) (admitted_keys ds'))\<rparr>"
    by (rule Cons.IH [OF keys ks' ds'_def])
  finally show ?case
    unfolding ds by (cases d) (simp_all add: st'_def admitted_keys_def)
qed

end
