(* ===== verification/Knowledge_Selection_Facts.thy ===== *)
theory Knowledge_Selection_Facts
  imports Knowledge_Engine_Facts
begin

section \<open>What a successful knowledge selection looks like\<close>

text \<open>
  The exclusion pass as a table over the entries, and \<open>select_with_budget\<close> taken apart: a success
  is determined by the normalised entries, the final activation map, the scan of the last round and the
  admission decisions.  The properties of the engine are read off that form.
\<close>

subsection \<open>The exclusion pass\<close>

definition excluded_item ::
  "('re, 'z) engine_env_scheme \<Rightarrow> ('re, 'y) evaluation_context_scheme \<Rightarrow> knowledge_book \<Rightarrow>
     (str, nat) btree_map \<Rightarrow> activated_map \<Rightarrow> activation_scan \<Rightarrow> knowledge_entry \<Rightarrow>
     knowledge_selection_evidence \<Rightarrow> bool" where
  "excluded_item env ev book estimates activated scan entry item \<longleftrightarrow>
     (let init = initial_knowledge_evidence estimates entry in
      if \<not> ke_enabled entry then item = init
      else case bt_get activated (ke_id entry) of
        Some c \<Rightarrow> item = init\<lparr>kse_reasons := ac_reasons c\<rparr>
      | None \<Rightarrow> \<exists>result. runs_to (evaluate_activation env ev scan entry) result \<and>
          item = init\<lparr>kse_exclusion_reason := Some
            (if result \<noteq> None \<and> \<not> probability_allows env book entry (ec_activation_seed ev)
             then lit ''deterministic activation probability gate''
             else lit ''activation rule did not match'')\<rparr>)"

lemma initial_evidence_get:
  assumes "distinct (map ke_id entries)" and "entry \<in> set entries"
  shows "bt_get (initial_evidence entries estimates) (ke_id entry) = Some (initial_knowledge_evidence estimates entry)"
proof -
  have dist: "distinct (map fst (map (\<lambda>entry. (ke_id entry, initial_knowledge_evidence estimates entry)) entries))"
    using assms(1) by (simp add: comp_def)
  show ?thesis
    unfolding initial_evidence_def bt_get_collect map_of_rev_distinct [OF dist]
    by (rule bt_get_table [OF assms])
qed

lemma exclusion_step_item:
  assumes "exclusion_step env ev book activated scan evidence entry b = (Inr evidence', b')" and "can_pay b 0"
    and "bt_get evidence (ke_id entry) = Some (initial_knowledge_evidence estimates entry)"
  shows "\<exists>item. excluded_item env ev book estimates activated scan entry item \<and>
    bt_get evidence' (ke_id entry) = Some item" and "map fst evidence' = map fst evidence"
    and "k \<noteq> ke_id entry \<Longrightarrow> bt_get evidence' k = bt_get evidence k" and "can_pay b' 0"
proof -
  let ?set = "\<lambda>item. bt_modify (ke_id entry) (\<lambda>_. item) evidence"
  have "(\<exists>item. excluded_item env ev book estimates activated scan entry item \<and>
    (evidence' = ?set item)) \<and> can_pay b' 0"
  proof (cases "ke_enabled entry \<and> bt_get activated (ke_id entry) = None")
    case True
    then obtain result where run: "evaluate_activation env ev scan entry b = (Inr result, b')"
      and ev': "evidence' = ?set ((initial_knowledge_evidence estimates entry)\<lparr>kse_exclusion_reason := Some
            (if result \<noteq> None \<and> \<not> probability_allows env book entry (ec_activation_seed ev)
             then lit ''deterministic activation probability gate''
             else lit ''activation rule did not match'')\<rparr>)"
      using assms(1,3) by (auto simp: exclusion_step_def Let_def result_simps)
    have "runs_to (evaluate_activation env ev scan entry) result"
      using run assms(2) by (auto simp: runs_to_def)
    moreover have "can_pay b' 0" by (rule priced_can_pay [OF priced_activation assms(2) run])
    ultimately show ?thesis
      using True ev' unfolding excluded_item_def Let_def by (intro conjI exI) auto
  next
    case False
    have same: "?set (initial_knowledge_evidence estimates entry) = evidence"
      by (rule bt_modify_same [OF assms(3)])
    show ?thesis
      using False assms same
      by (cases "ke_enabled entry")
        (auto simp: exclusion_step_def Let_def excluded_item_def split: option.splits)
  qed
  then obtain item where item: "excluded_item env ev book estimates activated scan entry item"
    and set': "evidence' = ?set item" and pay: "can_pay b' 0" by blast
  show "\<exists>item. excluded_item env ev book estimates activated scan entry item \<and>
    bt_get evidence' (ke_id entry) = Some item"
    using item by (intro exI [of _ item]) (simp add: set' bt_get_modify assms(3))
  show "map fst evidence' = map fst evidence" by (simp add: set')
  show "k \<noteq> ke_id entry \<Longrightarrow> bt_get evidence' k = bt_get evidence k" by (simp add: set' bt_get_modify)
  show "can_pay b' 0" by (rule pay)
qed

lemma exclusions_ok:
  assumes "apply_activation_exclusions env ev book entries activated scan
      (initial_evidence entries estimates) b = (Inr evidence, b')"
    and "can_pay b 0" and "distinct (map ke_id entries)"
  shows "(\<forall>entry \<in> set entries. \<exists>item. bt_get evidence (ke_id entry) = Some item \<and>
      excluded_item env ev book estimates activated scan entry item) \<and>
    map fst evidence = map fst (initial_evidence entries estimates)"
proof -
  let ?P = "\<lambda>pre m b. can_pay b 0 \<and> map fst m = map fst (initial_evidence entries estimates) \<and>
    (\<forall>entry \<in> set pre. \<exists>item. bt_get m (ke_id entry) = Some item \<and>
      excluded_item env ev book estimates activated scan entry item) \<and>
    (\<forall>entry \<in> set entries. ke_id entry \<notin> ke_id ` set pre \<longrightarrow>
      bt_get m (ke_id entry) = Some (initial_knowledge_evidence estimates entry))"
  have "?P entries evidence b'"
    using assms(1) unfolding apply_activation_exclusions_def
  proof (rule st_fold_prefix [where P = ?P])
    show "?P [] (initial_evidence entries estimates) b"
      using assms(2) initial_evidence_get [OF assms(3)] by simp
    fix pre x post m b m' b'
    assume split: "entries = pre @ x # post" and P: "?P pre m b"
      and step: "exclusion_step env ev book activated scan m x b = (Inr m', b')"
    have fresh: "ke_id x \<notin> ke_id ` set pre" using assms(3) split by auto
    with P split have get: "bt_get m (ke_id x) = Some (initial_knowledge_evidence estimates x)" by simp
    have pay: "can_pay b 0" using P by blast
    note item = exclusion_step_item [OF step pay get]
    have keep: "bt_get m' (ke_id e) = bt_get m (ke_id e)" if "ke_id e \<noteq> ke_id x" for e
      using item(3) that by blast
    show "?P (pre @ [x]) m' b'"
    proof (intro conjI ballI impI)
      fix entry assume "entry \<in> set (pre @ [x])"
      then consider "entry = x" | "entry \<in> set pre" "ke_id entry \<noteq> ke_id x"
        using fresh by (metis Un_iff empty_iff empty_set image_eqI insert_iff list.simps(15) set_append)
      then show "\<exists>item. bt_get m' (ke_id entry) = Some item \<and>
          excluded_item env ev book estimates activated scan entry item"
      proof cases
        case 1
        with item(1) show ?thesis by blast
      next
        case 2
        with keep [of entry] P show ?thesis by simp
      qed
    next
      fix entry assume "entry \<in> set entries" and "ke_id entry \<notin> ke_id ` set (pre @ [x])"
      with keep [of entry] P
      show "bt_get m' (ke_id entry) = Some (initial_knowledge_evidence estimates entry)" by simp
    qed (use item(2,4) P in auto)
  qed
  then show ?thesis by blast
qed

subsection \<open>A selection taken apart\<close>

text \<open>The evaluation context that \<open>select_with_budget\<close> builds for a book.\<close>

definition evaluation_of ::
  "('re, 'z) engine_env_scheme \<Rightarrow> knowledge_book \<Rightarrow> knowledge_selection_context \<Rightarrow> 're evaluation_context \<Rightarrow> bool" where
  "evaluation_of env book ctx ev \<longleftrightarrow> (\<exists>entries scores ranks regexes.
     normalized_entries book = Inr entries \<and> runs_to (compile_regexes env entries) regexes \<and>
     normalize_semantic_scores entries (kc_semantic_scores ctx) = Inr (scores, ranks) \<and>
     ev = \<lparr>ec_manual_entry_ids = kc_manual_entry_ids ctx, ec_semantic_scores = scores,
           ec_semantic_rank = ranks, ec_variables = kc_variables ctx,
           ec_supported_capabilities = kc_supported_capabilities ctx, ec_regexes = regexes,
           ec_activation_seed = kc_activation_seed ctx\<rparr>)"

lemma evaluation_of_unique:
  "evaluation_of env book ctx ev \<Longrightarrow> evaluation_of env book ctx ev' \<Longrightarrow> ev = ev'"
  unfolding evaluation_of_def by (elim exE conjE) (auto dest: runs_to_unique [OF priced_compile])

lemma normalized_entries_Inr:
  assumes "normalized_entries book = Inr entries"
  shows "entries = sort_by (cmp_on ke_id) (kb_entries book)" and "set entries = set (kb_entries book)"
    and "distinct (map ke_id entries)" and "sorted_wrt (<) (map ke_id entries)"
    and "map ke_id entries = sort (map ke_id (kb_entries book))"
proof -
  show eq: "entries = sort_by (cmp_on ke_id) (kb_entries book)"
    using assms by (auto simp: normalized_entries_def Let_def result_simps split: option.splits)
  then show "set entries = set (kb_entries book)" by simp
  have sorted: "sorted (map ke_id entries)" unfolding eq by (rule sorted_map_sort_by)
  have "adjacent_dup (map ke_id entries) = None"
    using assms by (auto simp: normalized_entries_def Let_def result_simps split: option.splits)
  with adjacent_dup_None_sorted [OF sorted] show dist: "distinct (map ke_id entries)" by simp
  with sorted show "sorted_wrt (<) (map ke_id entries)" by (simp add: strict_sorted_iff)
  show "map ke_id entries = sort (map ke_id (kb_entries book))"
    by (rule properties_for_sort [symmetric]) (simp_all add: sorted, simp add: eq)
qed

text \<open>The decisions on the activated entries, in admission order.\<close>

definition decisions ::
  "knowledge_book \<Rightarrow> knowledge_entry list \<Rightarrow> activated_map \<Rightarrow> (str \<times> str option) list" where
  "decisions book entries activated =
     (let by_id = bt_collect (map (\<lambda>entry. (ke_id entry, entry)) entries) in
      budget_admit (\<lambda>k. the (bt_get by_id k)) (\<lambda>k. the (bt_get activated k))
        (max_tokens (kb_token_budget book)) 0
        (map bc_entry_id (sort_by cmp_budget_candidate (map (budget_candidate_of by_id) activated))))"

text \<open>The final evidence of an entry, from what the exclusion pass left and its decision.\<close>

definition final_item ::
  "(str \<times> str option) list \<Rightarrow> knowledge_selection_evidence \<Rightarrow> knowledge_selection_evidence" where
  "final_item ds item =
     (case find (\<lambda>x. fst x = kse_entry_id item) ds of None \<Rightarrow> item | Some x \<Rightarrow> mark_budget x item)"

lemma decisions_keys:
  assumes "bt_inv activated"
  shows "set (map fst (decisions book entries activated)) = fst ` set activated"
    and "distinct (map fst (decisions book entries activated))"
proof -
  let ?by_id = "bt_collect (map (\<lambda>entry. (ke_id entry, entry)) entries)"
  have ids: "map bc_entry_id (map (budget_candidate_of ?by_id) activated) = map fst activated"
    by (simp add: budget_candidate_of_def Let_def case_prod_unfold comp_def)
  then have "bc_entry_id ` budget_candidate_of ?by_id ` set activated = fst ` set activated"
    by (metis image_set)
  then show "set (map fst (decisions book entries activated)) = fst ` set activated"
    by (simp add: decisions_def Let_def)
  have "distinct (map bc_entry_id (map (budget_candidate_of ?by_id) activated))"
    unfolding ids by (rule btree.keys_distinct [OF assms])
  then show "distinct (map fst (decisions book entries activated))" by (simp add: decisions_def Let_def)
qed

lemma by_id_get:
  assumes "distinct (map ke_id entries)" and "entry \<in> set entries"
  shows "bt_get (bt_collect (map (\<lambda>entry. (ke_id entry, entry)) entries)) (ke_id entry) = Some entry"
proof -
  have "distinct (map fst (map (\<lambda>entry. (ke_id entry, entry)) entries))" using assms(1) by (simp add: comp_def)
  then show ?thesis
    unfolding bt_get_collect by (simp only: map_of_rev_distinct bt_get_table [OF assms])
qed

lemma excluded_item_id: "excluded_item env ev book estimates activated scan entry item \<Longrightarrow> kse_entry_id item = ke_id entry"
  by (auto simp: excluded_item_def initial_knowledge_evidence_def Let_def split: if_splits option.splits)

lemma mark_budget_id [simp]: "kse_entry_id (mark_budget x item) = kse_entry_id item"
  by (simp add: mark_budget_def split: prod.split option.split)

lemma final_item_id [simp]: "kse_entry_id (final_item ds item) = kse_entry_id item"
  by (simp add: final_item_def split: option.split)

text \<open>The admission and the final sort, on the table that the exclusion pass leaves.\<close>

lemma apply_budget_table:
  assumes "sorted_wrt (<) (map ke_id entries)" and "bt_inv activated" and "fst ` set activated \<subseteq> ke_id ` set entries"
    and "\<And>e. e \<in> set entries \<Longrightarrow> kse_entry_id (item e) = ke_id e"
    and "evidence = map (\<lambda>e. (ke_id e, item e)) entries" and "ds = decisions book entries activated"
    and "by_id = bt_collect (map (\<lambda>entry. (ke_id entry, entry)) entries)"
  shows "apply_budget book entries activated evidence =
    \<lparr>bs_evidence = map (\<lambda>e. (ke_id e, final_item ds (item e))) entries,
     bs_selected = map (\<lambda>k. selected_entry (the (bt_get by_id k)) (the (bt_get activated k)) k) (admitted_keys ds),
     bs_used_tokens = sum_list (map (\<lambda>k. ac_estimated_tokens (the (bt_get activated k))) (admitted_keys ds))\<rparr>"
proof -
  let ?st = "\<lparr>bs_evidence = evidence, bs_selected = [], bs_used_tokens = 0\<rparr>"
  let ?bcs = "sort_by cmp_budget_candidate (map (budget_candidate_of by_id) activated)"
  have dist: "distinct (map ke_id entries)" using assms(1) by (simp add: strict_sorted_iff)
  have ds: "ds = budget_admit (\<lambda>k. the (bt_get by_id k)) (\<lambda>k. the (bt_get activated k))
      (max_tokens (kb_token_budget book)) (bs_used_tokens ?st) (map bc_entry_id ?bcs)"
    by (simp add: assms(6,7) decisions_def Let_def)
  have keys: "set (map bc_entry_id ?bcs) \<subseteq> ke_id ` set entries"
  proof -
    have "map fst ds = map bc_entry_id ?bcs" unfolding ds by (rule map_fst_budget_admit)
    with decisions_keys(1) [OF assms(2), of book entries] assms(3,6) show ?thesis by metis
  qed
  have "bt_get (bs_evidence ?st) k \<noteq> None" if k: "k \<in> set (map bc_entry_id ?bcs)" for k
  proof -
    obtain e where "e \<in> set entries" "k = ke_id e"
      using subsetD [OF keys k] by blast
    with bt_get_table [OF dist, of e item] show ?thesis by (simp add: assms(5))
  qed
  note loop = budget_loop [of _ ?st, OF this refl ds]
  have "fold (\<lambda>x. bt_modify (fst x) (mark_budget x)) ds (map (\<lambda>e. (ke_id e, item e)) entries) =
      map (\<lambda>e. (ke_id e, case find (\<lambda>x. fst x = ke_id e) ds of
        None \<Rightarrow> item e | Some x \<Rightarrow> mark_budget x (item e))) entries"
    by (rule fold_bt_modify_table [OF dist]) (use decisions_keys(2) [OF assms(2)] assms(6) in simp)
  also have "\<dots> = map (\<lambda>e. (ke_id e, final_item ds (item e))) entries"
    using assms(4) by (simp add: final_item_def)
  finally show ?thesis
    using loop by (simp add: apply_budget_def Let_def assms(5,7))
qed

lemma sort_evidence:
  assumes "sorted_wrt (<) (map ke_id entries)" and "\<And>e. e \<in> set entries \<Longrightarrow> kse_entry_id (item e) = ke_id e"
  shows "sort_by (cmp_on kse_entry_id) (map (\<lambda>e. final_item ds (item e)) entries) =
    map (\<lambda>e. final_item ds (item e)) entries"
proof (rule by_key.sort_by_sorted)
  have "map kse_entry_id (map (\<lambda>e. final_item ds (item e)) entries) = map ke_id entries" using assms(2) by simp
  moreover have "sorted (map ke_id entries)" using assms(1) by (simp add: strict_sorted_iff)
  ultimately have "sorted (map kse_entry_id (map (\<lambda>e. final_item ds (item e)) entries))" by (simp only:)
  then show "sorted_wrt (\<lambda>x y. cmp_on kse_entry_id x y \<noteq> Greater) (map (\<lambda>e. final_item ds (item e)) entries)"
    by (simp add: sorted_wrt_map cmp_on_def not_less)
qed

text \<open>The number of the last round that a book allows.\<close>

definition last_round :: "knowledge_book \<Rightarrow> nat" where
  "last_round book = (if kb_recursive book then kb_max_recursion_depth book else 0)"

text \<open>Everything a successful selection is made of.\<close>

definition selection_run ::
  "('re, 'z) engine_env_scheme \<Rightarrow> knowledge_book \<Rightarrow> knowledge_selection_context \<Rightarrow> knowledge_selection \<Rightarrow>
     knowledge_entry list \<Rightarrow> 're evaluation_context \<Rightarrow> activation_scan \<Rightarrow> activated_map \<Rightarrow>
     (knowledge_entry \<Rightarrow> knowledge_selection_evidence) \<Rightarrow> bool" where
  "selection_run env book ctx sel entries ev scan activated item \<longleftrightarrow>
     normalized_entries book = Inr entries \<and> evaluation_of env book ctx ev \<and>
     activated_ok env ev book ctx entries (last_round book) activated \<and>
     round_scan env ev book ctx (last_round book) = scan \<and>
     (\<forall>e \<in> set entries. settled env ev book ctx scan activated e) \<and>
     (\<forall>e \<in> set entries. excluded_item env ev book (kc_token_estimates ctx) activated scan e (item e)) \<and>
     (let by_id = bt_collect (map (\<lambda>entry. (ke_id entry, entry)) entries);
          ds = decisions book entries activated in
      sel =
        \<lparr>ks_selected = map (\<lambda>k. selected_entry (the (bt_get by_id k)) (the (bt_get activated k)) k) (admitted_keys ds),
         ks_evidence = map (\<lambda>e. final_item ds (item e)) entries,
         ks_used_tokens = sum_list (map (\<lambda>k. ac_estimated_tokens (the (bt_get activated k))) (admitted_keys ds)),
         ks_token_budget = max_tokens (kb_token_budget book)\<rparr>)"

lemma select_Inr:
  assumes "select_with_budget env book ctx b = (Inr sel, b')" and "can_pay b 0"
  obtains entries ev scan activated item where "selection_run env book ctx sel entries ev scan activated item"
proof -
  from assms(1) obtain b1 entries regexes b2 scores ranks ev scan0 b3 activated scan b4 evidence where
    b1: "charge_book_normalization book b = (Inr (), b1)"
    and entries: "normalized_entries book = Inr entries"
    and regexes: "compile_regexes env entries b1 = (Inr regexes, b2)"
    and scores: "normalize_semantic_scores entries (kc_semantic_scores ctx) = Inr (scores, ranks)"
    and ev: "ev = \<lparr>ec_manual_entry_ids = kc_manual_entry_ids ctx, ec_semantic_scores = scores,
           ec_semantic_rank = ranks, ec_variables = kc_variables ctx,
           ec_supported_capabilities = kc_supported_capabilities ctx, ec_regexes = regexes,
           ec_activation_seed = kc_activation_seed ctx\<rparr>"
    and scan0: "scan_from_texts env book (kc_scan_texts ctx)
      (case entries of [] \<Rightarrow> kb_id book | entry # _ \<Rightarrow> ke_id entry) b2 = (Inr scan0, b3)"
    and act: "activate_entries env ev book ctx entries scan0 b3 = (Inr (activated, scan), b4)"
    and excl: "apply_activation_exclusions env ev book entries activated scan
      (initial_evidence entries (kc_token_estimates ctx)) b4 = (Inr evidence, b')"
    and sel: "sel = (let st = apply_budget book entries activated evidence in
       \<lparr>ks_selected = bs_selected st, ks_evidence = sort_by (cmp_on kse_entry_id) (map snd (bs_evidence st)),
        ks_used_tokens = bs_used_tokens st, ks_token_budget = max_tokens (kb_token_budget book)\<rparr>)"
    unfolding select_with_budget_def Let_def st_bind_Inr_conv st_run_simps prod.inject
    by (auto simp: result_simps split: prod.splits)
  note norm = normalized_entries_Inr [OF entries]
  have pay1: "can_pay b1 0" by (rule priced_can_pay [OF priced_charge_book assms(2) b1])
  have pay2: "can_pay b2 0" by (rule priced_can_pay [OF priced_compile pay1 regexes])
  have pay3: "can_pay b3 0" by (rule priced_can_pay [OF priced_scan(1) pay2 scan0])
  have sorted: "entries = sort_key ke_id (kb_entries book)"
    using norm(2,3,4)
    by (intro sort_key_inj_key_eq [symmetric])
      (simp_all add: norm(1) distinct_map strict_sorted_iff)
  have "scan0 = round_scan env ev book ctx 0"
    using scan_from_texts_first [OF scan0] by (simp add: round_scan_def scan_with_def)
  note run = activate_entries_ok [OF act [unfolded this] pay3 norm(3) sorted last_round_def]
  then have acts: "activated_ok env ev book ctx entries (last_round book) activated" "can_pay b4 0"
    "\<forall>entry \<in> set entries. settled env ev book ctx scan activated entry" "scan = round_scan env ev book ctx (last_round book)"
    by blast+
  note excls = exclusions_ok [OF excl acts(2) norm(3)]
  have "evaluation_of env book ctx ev"
    unfolding evaluation_of_def runs_to_def
    by (intro exI conjI) (rule entries, rule pay1, rule regexes, rule scores, rule ev)
  define item where "item e = the (bt_get evidence (ke_id e))" for e :: knowledge_entry
  have items: "excluded_item env ev book (kc_token_estimates ctx) activated scan e (item e)"
    if "e \<in> set entries" for e
    using excls that by (force simp: item_def)
  then have ids: "kse_entry_id (item e) = ke_id e" if "e \<in> set entries" for e
    using that excluded_item_id by blast
  have keys: "map fst evidence = map ke_id entries"
    using excls [THEN conjunct2] unfolding initial_evidence_def bt_collect_table [OF norm(4)]
    by (simp add: comp_def)
  have table: "evidence = map (\<lambda>e. (ke_id e, item e)) entries"
  proof -
    have "evidence = map (\<lambda>k. (k, the (bt_get evidence k))) (map fst evidence)"
      by (rule table_of_keys) (simp add: keys norm(3))
    then show ?thesis unfolding keys by (simp add: item_def comp_def)
  qed
  have inv: "bt_inv activated" using acts(1) by (simp add: activated_ok_def)
  have sub: "fst ` set activated \<subseteq> ke_id ` set entries"
  proof
    fix k assume "k \<in> fst ` set activated"
    then obtain c where "bt_get activated k = Some c" using btree.bindings_get [OF inv] by (metis imageE prod.collapse)
    then show "k \<in> ke_id ` set entries" using acts(1) by (auto simp: activated_ok_def candidate_ok_def)
  qed
  note table' = apply_budget_table [OF norm(4) inv sub ids table refl refl, of book]
  have "selection_run env book ctx sel entries ev scan activated item"
    unfolding selection_run_def
    using entries \<open>evaluation_of env book ctx ev\<close> acts(1,3,4) items
    by (intro conjI) (simp_all add: sel table' Let_def comp_def sort_evidence [OF norm(4) ids])
  then show thesis by (rule that)
qed

subsection \<open>Reading off the selected entries\<close>

lemma admitted_keys_iff: "k \<in> set (admitted_keys ds) \<longleftrightarrow> (k, None) \<in> set ds"
  by (force simp: admitted_keys_def)

lemma distinct_admitted_keys: "distinct (map fst ds) \<Longrightarrow> distinct (admitted_keys ds)"
  by (simp add: admitted_keys_def distinct_map_filter)

text \<open>Each decision is about an activated entry of the book.\<close>

lemma decision_entry:
  assumes "activated_ok env ev book ctx entries n activated" and "distinct (map ke_id entries)"
    and "(k, d) \<in> set (decisions book entries activated)"
  obtains entry c where "entry \<in> set entries" and "ke_id entry = k" and "ke_enabled entry"
    and "bt_get activated k = Some c" and "candidate_ok env ev book ctx entries activated k c"
    and "ac_recursion_depth c \<le> n" and "ac_estimated_tokens c = estimated_tokens entry (kc_token_estimates ctx)"
    and "probability_allows env book entry (kc_activation_seed ctx)"
    and "bt_get (bt_collect (map (\<lambda>entry. (ke_id entry, entry)) entries)) k = Some entry"
proof -
  have inv: "bt_inv activated" using assms(1) by (simp add: activated_ok_def)
  have "k \<in> fst ` set activated"
    using decisions_keys(1) [OF inv, of book entries] assms(3) by force
  then obtain c where c: "bt_get activated k = Some c"
    using btree.bindings_get [OF inv] by (metis imageE prod.collapse)
  with assms(1) have ok: "candidate_ok env ev book ctx entries activated k c" and "ac_recursion_depth c \<le> n"
    by (auto simp: activated_ok_def)
  moreover from ok obtain entry where "entry \<in> set entries" "ke_id entry = k" "ke_enabled entry"
    "ac_estimated_tokens c = estimated_tokens entry (kc_token_estimates ctx)"
    "probability_allows env book entry (kc_activation_seed ctx)" unfolding candidate_ok_def by blast
  ultimately show thesis using that c by_id_get [OF assms(2)] by blast
qed

lemma selection_run_parts:
  assumes "selection_run env book ctx sel entries ev scan activated item"
  shows "normalized_entries book = Inr entries" and "evaluation_of env book ctx ev"
    and "activated_ok env ev book ctx entries (last_round book) activated"
    and "\<forall>e \<in> set entries. settled env ev book ctx scan activated e"
    and "\<forall>e \<in> set entries. excluded_item env ev book (kc_token_estimates ctx) activated scan e (item e)"
    and "bt_inv activated" and "set entries = set (kb_entries book)" and "distinct (map ke_id entries)"
    and "map sk_entry_id (ks_selected sel) = admitted_keys (decisions book entries activated)"
    and "ks_used_tokens sel = sum_list (map (\<lambda>k. ac_estimated_tokens (the (bt_get activated k)))
      (admitted_keys (decisions book entries activated)))"
    and "ks_token_budget sel = max_tokens (kb_token_budget book)"
    and "ks_evidence sel = map (\<lambda>e. final_item (decisions book entries activated) (item e)) entries"
    and "scan = round_scan env ev book ctx (last_round book)"
  using assms normalized_entries_Inr [of book entries]
  unfolding selection_run_def Let_def activated_ok_def by (simp_all add: selected_entry_def comp_def)

lemma selection_run_selected:
  assumes "selection_run env book ctx sel entries ev scan activated item" and "s \<in> set (ks_selected sel)"
  obtains entry c where "entry \<in> set entries" and "ke_enabled entry" and "bt_get activated (ke_id entry) = Some c"
    and "s = selected_entry entry c (ke_id entry)"
    and "candidate_ok env ev book ctx entries activated (ke_id entry) c"
    and "ac_recursion_depth c \<le> last_round book"
    and "ac_estimated_tokens c = estimated_tokens entry (kc_token_estimates ctx)"
    and "probability_allows env book entry (kc_activation_seed ctx)"
    and "\<forall>limit. tp_max_tokens (ke_token_policy entry) = Some limit \<longrightarrow> ac_estimated_tokens c \<le> limit"
proof -
  note parts = selection_run_parts [OF assms(1)]
  from assms obtain k where k: "(k, None) \<in> set (decisions book entries activated)"
    and s: "s = selected_entry (the (bt_get (bt_collect (map (\<lambda>entry. (ke_id entry, entry)) entries)) k))
      (the (bt_get activated k)) k"
    unfolding selection_run_def Let_def by (auto simp: admitted_keys_iff)
  obtain entry c where facts: "entry \<in> set entries" "ke_id entry = k" "ke_enabled entry"
      "bt_get activated k = Some c" "candidate_ok env ev book ctx entries activated k c"
      "ac_recursion_depth c \<le> last_round book"
      "ac_estimated_tokens c = estimated_tokens entry (kc_token_estimates ctx)"
      "probability_allows env book entry (kc_activation_seed ctx)"
    and by_id: "bt_get (bt_collect (map (\<lambda>entry. (ke_id entry, entry)) entries)) k = Some entry"
    by (rule decision_entry [OF parts(3,8) k])
  have "\<forall>limit. tp_max_tokens (ke_token_policy entry) = Some limit \<longrightarrow> ac_estimated_tokens c \<le> limit"
    using budget_admit_limit [OF k [unfolded decisions_def Let_def]] by_id facts(4) by simp
  with facts by_id s show thesis by (intro that [of entry c]) simp_all
qed

text \<open>A reason for an exclusion by the budget: the limit of the entry, or no room at the end.\<close>

lemma budget_admit_rejected:
  assumes "(k, Some reason) \<in> set (budget_admit ent cand limit used ks)" and "limit \<le> u32_max"
  shows "(\<exists>l. tp_max_tokens (ke_token_policy (ent k)) = Some l \<and> l < ac_estimated_tokens (cand k)) \<or>
    limit < used + sum_list (map (\<lambda>k. ac_estimated_tokens (cand k))
      (admitted_keys (budget_admit ent cand limit used ks))) + ac_estimated_tokens (cand k)"
  using assms(1)
proof (induction ks arbitrary: used)
  case (Cons j ks)
  define d where "d = budget_decide (ent j) (cand j) limit used"
  define used' where "used' = (if d = None then used + ac_estimated_tokens (cand j) else used)"
  have eq: "budget_admit ent cand limit used (j # ks) = (j, d) # budget_admit ent cand limit used' ks"
    by (simp add: Let_def d_def used'_def)
  have total: "used + sum_list (map (\<lambda>k. ac_estimated_tokens (cand k))
      (admitted_keys (budget_admit ent cand limit used (j # ks)))) =
    used' + sum_list (map (\<lambda>k. ac_estimated_tokens (cand k)) (admitted_keys (budget_admit ent cand limit used' ks)))"
    unfolding eq by (simp add: admitted_keys_def used'_def)
  show ?case
  proof (cases "(k, Some reason) \<in> set (budget_admit ent cand limit used' ks)")
    case True
    from Cons.IH [OF this] show ?thesis unfolding total .
  next
    case False
    with Cons.prems have jd: "j = k" "d = Some reason" unfolding eq by auto
    then have "used' = used" by (simp add: used'_def)
    moreover have "(\<exists>l. tp_max_tokens (ke_token_policy (ent k)) = Some l \<and> l < ac_estimated_tokens (cand k)) \<or>
        limit < used + ac_estimated_tokens (cand k)"
      using jd assms(2) unfolding d_def budget_decide_def by (auto split: if_splits option.splits)
    ultimately show ?thesis unfolding total by auto
  qed
qed simp

lemma find_decision:
  assumes "distinct (map fst ds)"
  shows "find (\<lambda>x. fst x = k) ds = Some x \<longleftrightarrow> x \<in> set ds \<and> fst x = k"
  by (rule find_map_distinct [OF assms])

lemma final_item_fields [simp]:
  "kse_reasons (final_item ds item) = kse_reasons item"
  "kse_estimated_tokens (final_item ds item) = kse_estimated_tokens item"
  by (simp_all add: final_item_def mark_budget_def split: option.split prod.split)

lemma find_selected:
  assumes "selection_run env book ctx sel entries ev scan activated item"
  shows "find (\<lambda>s. sk_entry_id s = k) (ks_selected sel) = Some s \<longleftrightarrow> s \<in> set (ks_selected sel) \<and> sk_entry_id s = k"
proof -
  note parts = selection_run_parts [OF assms]
  have "distinct (map sk_entry_id (ks_selected sel))"
    unfolding parts(9) by (intro distinct_admitted_keys decisions_keys(2) parts(6))
  then show ?thesis by (rule find_map_distinct)
qed

text \<open>The final evidence of an entry agrees with the selection.\<close>

lemma selection_run_agrees:
  assumes run: "selection_run env book ctx sel entries ev scan activated item" and e: "e \<in> set entries"
  shows "let f = final_item (decisions book entries activated) (item e) in
    (case find (\<lambda>s. sk_entry_id s = kse_entry_id f) (ks_selected sel) of
       Some s \<Rightarrow> kse_selected f \<and> kse_exclusion_reason f = None \<and>
         kse_estimated_tokens f = sk_estimated_tokens s \<and> kse_reasons f = sk_reasons s
     | None \<Rightarrow> \<not> kse_selected f \<and> kse_exclusion_reason f \<noteq> None)"
proof -
  note parts = selection_run_parts [OF run]
  let ?ds = "decisions book entries activated" and ?k = "ke_id e"
  have item: "excluded_item env ev book (kc_token_estimates ctx) activated scan e (item e)" using parts(5) e by blast
  have id: "kse_entry_id (item e) = ?k" by (rule excluded_item_id [OF item])
  have dist: "distinct (map fst ?ds)" by (rule decisions_keys(2) [OF parts(6)])
  have fresh: "\<not> kse_selected (item e)"
    "kse_estimated_tokens (item e) = estimated_tokens e (kc_token_estimates ctx)"
    using item by (auto simp: excluded_item_def initial_knowledge_evidence_def Let_def split: if_splits option.splits)
  show ?thesis
  proof (cases "(?k, None) \<in> set ?ds")
    case True
    then have "?k \<in> sk_entry_id ` set (ks_selected sel)" using parts(9) admitted_keys_iff by (metis set_map)
    then obtain s where "?k = sk_entry_id s" and s: "s \<in> set (ks_selected sel)" by (rule imageE)
    then have s: "s \<in> set (ks_selected sel)" "sk_entry_id s = ?k" by simp_all
    obtain e' c where e': "e' \<in> set entries" "ke_enabled e'" "bt_get activated (ke_id e') = Some c"
      "s = selected_entry e' c (ke_id e')" "ac_estimated_tokens c = estimated_tokens e' (kc_token_estimates ctx)"
      by (rule selection_run_selected [OF run s(1)])
    have "ke_id e' = ke_id e" using e'(4) s(2) by (simp add: selected_entry_def)
    with e'(1) e have "e' = e" by (intro entry_unique [OF parts(8)])
    moreover have "kse_reasons (item e) = ac_reasons c"
      using item e'(2,3) \<open>e' = e\<close> by (simp add: excluded_item_def Let_def)
    moreover have "find (\<lambda>x. fst x = ?k) ?ds = Some (?k, None)" using find_decision [OF dist] True by simp
    moreover have "find (\<lambda>s. sk_entry_id s = ?k) (ks_selected sel) = Some s" using find_selected [OF run] s by blast
    ultimately show ?thesis
      using fresh e'(4,5) by (simp add: id final_item_def mark_budget_def selected_entry_def)
  next
    case False
    then have "?k \<notin> sk_entry_id ` set (ks_selected sel)" using parts(9) admitted_keys_iff by (metis set_map)
    then have none: "find (\<lambda>s. sk_entry_id s = ?k) (ks_selected sel) = None"
      unfolding find_None_iff by (metis image_eqI)
    show ?thesis
    proof (cases "find (\<lambda>x. fst x = ?k) ?ds")
      case (Some x)
      then have "x \<in> set ?ds" "fst x = ?k" using find_decision [OF dist] by blast+
      with False obtain reason where "x = (?k, Some reason)" by (cases x; cases "snd x") auto
      with Some none fresh show ?thesis by (simp add: id final_item_def mark_budget_def)
    next
      case unknown: None
      then have "?k \<notin> set (map fst ?ds)" by (auto simp: find_None_iff)
      then have "bt_get activated ?k = None"
        unfolding decisions_keys(1) [OF parts(6)] by (simp add: map_of_eq_None_iff)
      then have "kse_exclusion_reason (item e) \<noteq> None"
        using item by (auto simp: excluded_item_def initial_knowledge_evidence_def Let_def split: if_splits)
      with unknown none fresh show ?thesis by (simp add: id final_item_def)
    qed
  qed
qed

end
