(* ===== verification/Knowledge_Order.thy ===== *)
theory Knowledge_Order
  imports Knowledge_Engine_Facts
begin

section \<open>The order of the entries of a book\<close>

text \<open>
  A book may list its entries in any order: validation accepts the same books, normalisation costs
  the same work, and everything after normalisation sees the entries in id order.  The paths that
  validation threads through only reach error messages, which is what \<open>same_success\<close> expresses.
\<close>

subsection \<open>Validation apart from its messages\<close>

definition same_success :: "('e, 'a) result \<Rightarrow> ('e, 'a) result \<Rightarrow> bool" where
  "same_success r r' \<longleftrightarrow> (\<forall>x. r = Inr x \<longleftrightarrow> r' = Inr x)"

lemma same_success_refl: "same_success r r"
  by (simp add: same_success_def)

lemma same_success_Inr: "same_success r r' \<Longrightarrow> r = Inr x \<Longrightarrow> r' = Inr x"
  unfolding same_success_def by blast

lemma same_success_Inl: "same_success (Inl e) (Inl e')"
  by (simp add: same_success_def)

lemma same_success_bind:
  "same_success r r' \<Longrightarrow> (\<And>x. same_success (f x) (g x)) \<Longrightarrow> same_success (result_bind r f) (result_bind r' g)"
  by (simp add: same_success_def result_simps)

lemma same_success_map_err: "same_success r r' \<Longrightarrow> same_success (map_err f r) (map_err g r')"
  by (simp add: same_success_def result_simps)

lemma same_success_reject: "same_success (reject_if b p m) (reject_if b p' m')"
  by (simp add: same_success_def)

lemma same_success_try_for:
  "(\<And>x. x \<in> set xs \<Longrightarrow> same_success (f x) (g x)) \<Longrightarrow> same_success (try_for f xs) (try_for g xs)"
  by (simp add: same_success_def)

lemma same_success_try_fold:
  "(\<And>s x. x \<in> set xs \<Longrightarrow> same_success (f s x) (g s x)) \<Longrightarrow> same_success (try_fold f s xs) (try_fold g s xs)"
  by (induction xs arbitrary: s) (simp_all add: same_success_refl same_success_bind)

lemmas same_success_intros = same_success_refl same_success_Inl same_success_bind same_success_map_err
  same_success_reject same_success_try_for same_success_try_fold

lemma same_success_text: "same_success (validate_text p v a b) (validate_text p' v a b)"
  by (simp add: validate_text_def same_success_intros)

lemma same_success_id: "same_success (validate_id p v) (validate_id p' v)"
  by (simp add: validate_id_def same_success_text)

lemma same_success_variable_ref: "same_success (validate_variable_ref v p) (validate_variable_ref v p')"
  unfolding validate_variable_ref_def
  by (auto intro!: same_success_intros same_success_id split: variable_scope.split option.split)

lemma same_success_variable_value: "same_success (validate_variable_value v p) (validate_variable_value v p')"
  by (cases v) (auto intro!: same_success_intros same_success_text)

lemma same_success_visit_condition: "same_success (visit_condition e p d n) (visit_condition e p' d n)"
proof (induction e p d n arbitrary: p' rule: visit_condition.induct)
  case (1 expression path depth nodes)
  show ?case
  proof (cases "depth > MAX_CONDITION_DEPTH \<or> nodes + 1 > MAX_CONDITION_NODES")
    case True
    then show ?thesis by (auto simp: visit_condition.simps [of expression] same_success_Inl)
  next
    case False
    with 1 show ?thesis
      by (subst (1 2) visit_condition.simps)
        (auto intro!: same_success_intros same_success_variable_ref same_success_variable_value same_success_text
          simp: Let_def split: condition_expr.split dest: set_enumerate_snd)
  qed
qed

lemma same_success_condition: "same_success (validate_condition e p) (validate_condition e p')"
  by (simp add: validate_condition_def same_success_intros same_success_visit_condition)

lemma same_success_activation_rule:
  "same_success (validate_activation_rule r p d n) (validate_activation_rule r p' d n)"
proof (induction r p d n arbitrary: p' rule: validate_activation_rule.induct)
  case (1 rule path depth nodes)
  show ?case
  proof (cases "depth > 16 \<or> nodes + 1 > 512")
    case True
    then show ?thesis by (auto simp: validate_activation_rule.simps [of rule] same_success_Inl)
  next
    case False
    with 1 show ?thesis
      by (subst (1 2) validate_activation_rule.simps)
        (auto intro!: same_success_intros same_success_condition same_success_text
          simp: Let_def split: activation_rule.split)
  qed
qed

lemma validate_book_entry_position:
  "validate_book_entry book_id (i, e) = Inr () \<Longrightarrow> validate_book_entry book_id (j, e) = Inr ()"
proof (rule same_success_Inr)
  show "same_success (validate_book_entry book_id (i, e)) (validate_book_entry book_id (j, e))"
    by (simp add: validate_book_entry_def Let_def same_success_intros same_success_id same_success_text
        same_success_activation_rule)
qed

subsection \<open>Permuted books\<close>

lemma rooted_set: "set entries = set es \<Longrightarrow> rooted entries q \<longleftrightarrow> rooted es q"
proof -
  have "rooted entries q \<Longrightarrow> set entries = set es \<Longrightarrow> rooted es q" for entries es
    by (induction rule: rooted.induct) (auto intro: rooted.intros)
  then show "set entries = set es \<Longrightarrow> rooted entries q \<longleftrightarrow> rooted es q" by metis
qed

lemma validate_book_perm:
  assumes "validate_book book = Inr ()" and "mset es = mset (kb_entries book)"
  shows "validate_book (book\<lparr>kb_entries := es\<rparr>) = Inr ()"
proof -
  have len: "length es = length (kb_entries book)" and set: "set es = set (kb_entries book)"
    using assms(2) mset_eq_length mset_eq_setD by blast+
  have "mset (map ke_id es) = mset (map ke_id (kb_entries book))" using assms(2) by simp
  then have dist: "distinct (map ke_id es) \<longleftrightarrow> distinct (map ke_id (kb_entries book))"
    by (rule mset_eq_imp_distinct_iff)
  from assms(1) have dom: "knowledge_book_validate book = Inr ()" and ids: "distinct (map ke_id (kb_entries book))"
    by (auto simp: validate_book_def result_simps adjacent_dup_sort_distinct split: option.splits)
  have "validate_book_entry (kb_id book) (i, e) = Inr ()" if "(i, e) \<in> set (enumerate 0 es)" for i e
  proof -
    have "e \<in> set (kb_entries book)" using that set by (auto dest: set_enumerate_snd)
    then obtain j where "(j, e) \<in> set (enumerate 0 (kb_entries book))" using set_enumerate_ex by metis
    moreover have "\<forall>(j, e) \<in> set (enumerate 0 (kb_entries book)). validate_book_entry (kb_id book) (j, e) = Inr ()"
      using dom by (auto simp: knowledge_book_validate_def result_simps)
    ultimately show ?thesis using validate_book_entry_position by blast
  qed
  moreover have "validate_knowledge_parent_graph es = Inr ()"
    using dom ids dist set rooted_set [OF set]
    by (simp add: validate_knowledge_parent_graph_rooted knowledge_book_validate_def result_simps)
  ultimately have "knowledge_book_validate (book\<lparr>kb_entries := es\<rparr>) = Inr ()"
    using dom ids dist len by (auto simp: knowledge_book_validate_def result_simps adjacent_dup_sort_distinct)
  with assms(1) ids dist len show ?thesis
    by (auto simp: validate_book_def result_simps adjacent_dup_sort_distinct split: option.splits)
qed

lemma normalized_entries_perm:
  assumes "normalized_entries book = Inr entries" and "mset es = mset (kb_entries book)"
  shows "normalized_entries (book\<lparr>kb_entries := es\<rparr>) = Inr entries"
proof -
  let ?sorted = "sort_by (cmp_on ke_id) (kb_entries book)"
  have none: "adjacent_dup (map ke_id ?sorted) = None" and all: "try_for (normalized_entry book) ?sorted = Inr ()"
    and eq: "entries = ?sorted"
    using assms(1) by (auto simp: normalized_entries_def Let_def result_simps split: option.splits)
  have "distinct (map ke_id (kb_entries book))"
    using none adjacent_dup_None_sorted [OF sorted_map_sort_by, of ke_id "kb_entries book"] by simp
  then have inj: "x = y" if "x \<in> set es" "y \<in> set es" "cmp_on ke_id x y = Equal" for x y
    using that mset_eq_setD [OF assms(2)] by (simp add: cmp_on_def entry_unique)
  have "sort_by (cmp_on ke_id) es = ?sorted" by (rule by_key.sort_by_perm [OF assms(2) inj])
  moreover have "normalized_entry (book\<lparr>kb_entries := es\<rparr>) = normalized_entry book"
    by (simp add: normalized_entry_def fun_eq_iff)
  ultimately show ?thesis using none all eq
    by (simp add: normalized_entries_def Let_def result_simps)
qed

subsection \<open>The price of a loop\<close>

definition costs :: "'a metered \<Rightarrow> 'a \<Rightarrow> nat \<Rightarrow> bool" where
  "costs m x n \<longleftrightarrow> n \<le> usize_max \<and> (\<forall>c. can_pay c n \<longrightarrow> m c = (Inr x, pay n c))"

lemma costs_unique: "costs m x n \<Longrightarrow> costs m y k \<Longrightarrow> n = k"
proof -
  define d where "d = \<lparr>max_work_bytes = usize_max, used_work_bytes = 0\<rparr>"
  assume n: "costs m x n" and k: "costs m y k"
  then have "can_pay d n" and "can_pay d k" by (simp_all add: costs_def d_def can_pay_def)
  with n k have "m d = (Inr x, pay n d)" and "m d = (Inr y, pay k d)" unfolding costs_def by blast+
  then show "n = k" by (simp add: pay_def d_def)
qed

lemma priced_costs:
  assumes "priced m" and "can_pay b 0" and "m b = (Inr x, b')"
  obtains n where "can_pay b n" and "b' = pay n b" and "costs m x n"
proof -
  obtain n where n: "can_pay b n" "b' = pay n b" "\<forall>c. can_pay c n \<longrightarrow> m c = (Inr x, pay n c)"
    using assms unfolding priced_def by blast
  moreover from n(1) have "n \<le> usize_max" by (simp add: can_pay_def)
  ultimately show thesis using that by (simp add: costs_def)
qed

lemma st_for_costs:
  assumes "\<And>x. x \<in> set xs \<Longrightarrow> priced (f x)" and "can_pay b 0" and "st_for f xs b = (Inr u, b')"
  shows "\<exists>p. (\<forall>x \<in> set xs. costs (f x) () (p x)) \<and> can_pay b (sum_list (map p xs)) \<and>
    b' = pay (sum_list (map p xs)) b"
  using assms
proof (induction xs arbitrary: b)
  case Nil
  then show ?case by simp
next
  case (Cons x xs)
  from Cons.prems(3) obtain b1 where step: "f x b = (Inr (), b1)" and rest: "st_for f xs b1 = (Inr u, b')"
    by (auto simp: result_simps)
  obtain n where n: "can_pay b n" "b1 = pay n b" "costs (f x) () n"
    by (rule priced_costs [of "f x", OF _ Cons.prems(2) step]) (simp_all add: Cons.prems(1))
  have "can_pay b1 0" using n(1,2) by (simp add: can_pay_def pay_def)
  from Cons.IH [OF _ this rest] Cons.prems(1) obtain p where
    p: "\<forall>x \<in> set xs. costs (f x) () (p x)" "can_pay b1 (sum_list (map p xs))" "b' = pay (sum_list (map p xs)) b1"
    by auto
  have same: "map (p(x := n)) xs = map p xs"
    using p(1) costs_unique [OF n(3)] by (auto simp: map_eq_conv)
  have total: "sum_list (map (p(x := n)) (x # xs)) = n + sum_list (map p xs)"
    by (simp only: list.map sum_list.Cons same fun_upd_same)
  have "can_pay b (n + sum_list (map p xs))" using n p(2) by (simp add: can_pay_split)
  moreover have "\<forall>y \<in> set (x # xs). costs (f y) () ((p(x := n)) y)" using n(3) p(1) by simp
  ultimately show ?case
    using n(2) p(3) by (intro exI [of _ "p(x := n)"]) (simp only: total pay_pay simp_thms)
qed

lemma st_for_pays:
  assumes "\<And>x. x \<in> set ys \<Longrightarrow> costs (f x) () (p x)" and "can_pay c (sum_list (map p ys))"
  shows "st_for f ys c = (Inr (), pay (sum_list (map p ys)) c)"
  using assms
proof (induction ys arbitrary: c)
  case (Cons y ys)
  have c: "can_pay c (p y)" "can_pay (pay (p y) c) (sum_list (map p ys))"
    using Cons.prems(2) by (simp_all add: can_pay_split)
  have "f y c = (Inr (), pay (p y) c)" using Cons.prems(1) [of y] c(1) by (simp add: costs_def)
  with Cons.IH [OF _ c(2)] Cons.prems(1) show ?case by (simp add: st_bind_def)
qed simp

lemma st_for_perm:
  assumes "\<And>x. x \<in> set xs \<Longrightarrow> priced (f x)" and "can_pay b 0" and "st_for f xs b = (Inr u, b')"
    and "mset ys = mset xs"
  shows "st_for f ys b = (Inr u, b')"
proof -
  obtain p where p: "\<forall>x \<in> set xs. costs (f x) () (p x)" "can_pay b (sum_list (map p xs))"
    "b' = pay (sum_list (map p xs)) b"
    using st_for_costs [OF assms(1-3)] by blast
  have "mset (map p ys) = mset (map p xs)" using assms(4) by simp
  then have sum: "sum_list (map p ys) = sum_list (map p xs)" by (metis sum_mset_sum_list)
  have "st_for f ys b = (Inr (), pay (sum_list (map p ys)) b)"
    using p mset_eq_setD [OF assms(4)] by (intro st_for_pays) (simp_all add: sum)
  then show ?thesis by (simp add: sum p(3))
qed

subsection \<open>After normalisation\<close>

lemma probability_allows_entries [simp]:
  "probability_allows env (book\<lparr>kb_entries := es\<rparr>) = probability_allows env book"
  by (simp add: probability_allows_def probability_hash_input_def fun_eq_iff)

lemma book_fields_entries:
  "kb_token_budget (book\<lparr>kb_entries := es\<rparr>) = kb_token_budget book"
  "kb_id (book\<lparr>kb_entries := es\<rparr>) = kb_id book"
  by simp_all

lemma step_entries:
  "activate_step env ev (book\<lparr>kb_entries := es\<rparr>) = activate_step env ev book"
  "recursive_step env ev (book\<lparr>kb_entries := es\<rparr>) = recursive_step env ev book"
  "exclusion_step env ev (book\<lparr>kb_entries := es\<rparr>) = exclusion_step env ev book"
  "budget_step (book\<lparr>kb_entries := es\<rparr>) = budget_step book"
  by (intro ext; unfold activate_step_def recursive_step_def exclusion_step_def budget_step_def
      probability_allows_entries book_fields_entries; rule refl)+

lemma recursive_rounds_entries [simp]:
  "recursive_rounds env ev (book\<lparr>kb_entries := es\<rparr>) ctx entries depths activated scan frontier =
   recursive_rounds env ev book ctx entries depths activated scan frontier"
  by (induction depths arbitrary: activated scan frontier)
    (simp_all add: step_entries case_prod_unfold Let_def)

lemma activate_entries_entries [simp]:
  "activate_entries env ev (book\<lparr>kb_entries := es\<rparr>) = activate_entries env ev book"
  by (intro ext) (simp add: activate_entries_def step_entries cong: if_cong)

lemma exclusions_entries [simp]:
  "apply_activation_exclusions env ev (book\<lparr>kb_entries := es\<rparr>) = apply_activation_exclusions env ev book"
  by (intro ext) (simp add: apply_activation_exclusions_def step_entries)

lemma apply_budget_entries [simp]: "apply_budget (book\<lparr>kb_entries := es\<rparr>) = apply_budget book"
  by (intro ext) (simp add: apply_budget_def step_entries)

lemma scan_from_texts_entries [simp]:
  "scan_from_texts env (book\<lparr>kb_entries := es\<rparr>) = scan_from_texts env book"
  by (simp add: scan_from_texts_def fun_eq_iff)

lemma charge_book_perm:
  assumes "charge_book_normalization book b = (Inr u, b')" and "can_pay b 0"
    and "mset es = mset (kb_entries book)"
  shows "charge_book_normalization (book\<lparr>kb_entries := es\<rparr>) b = (Inr u, b')"
proof -
  have len: "length es = length (kb_entries book)" using assms(3) by (rule mset_eq_length)
  from assms(1) obtain bytes b1 where
    sum: "checked_sum (KSE_RuleLimitExceeded (kb_id book)) (str_len (kb_id book))
      [str_len (kb_name book), length (kb_entries book)] = Inr bytes"
    and charge: "charge_work_bytes (kb_id book) bytes b = (Inr (), b1)"
    and entries: "st_for charge_entry_normalization (kb_entries book) b1 = (Inr u, b')"
    by (auto simp: charge_book_normalization_def result_simps)
  have "can_pay b1 0" by (rule priced_can_pay [OF work_meter.priced_charge assms(2) charge])
  then have "st_for charge_entry_normalization es b1 = (Inr u, b')"
    by (intro st_for_perm [OF _ _ entries assms(3)])
      (auto simp: charge_entry_normalization_def intro!: priced_intros priced_charge_rules)
  with sum charge len show ?thesis by (simp add: charge_book_normalization_def st_bind_def)
qed

lemma select_perm:
  assumes "select_with_budget env book ctx b = (Inr sel, b')" and "can_pay b 0"
    and "mset es = mset (kb_entries book)"
  shows "select_with_budget env (book\<lparr>kb_entries := es\<rparr>) ctx b = (Inr sel, b')"
proof -
  from assms(1) obtain b1 entries where valid: "validate_book book = Inr ()"
    and charge: "charge_book_normalization book b = (Inr (), b1)"
    and entries: "normalized_entries book = Inr entries"
    by (auto simp: select_with_budget_def result_simps)
  have lift: "st_bind (st_lift (Inr x)) f s = f x s" for x :: 'c and f and s :: knowledge_work_budget
    by (simp add: st_bind_def)
  note charged = st_bind_run(1) [of "charge_book_normalization _", OF charge]
    st_bind_run(1) [of "charge_book_normalization _", OF charge_book_perm [OF charge assms(2,3)]]
  show ?thesis
    using assms(1)
    unfolding select_with_budget_def valid validate_book_perm [OF valid assms(3)] lift charged
      entries normalized_entries_perm [OF entries assms(3)] book_fields_entries scan_from_texts_entries
      activate_entries_entries exclusions_entries apply_budget_entries .
qed

end
