(* ===== verification/Knowledge_Errors.thy ===== *)
theory Knowledge_Errors
  imports Knowledge_Engine
begin

section \<open>Which errors knowledge selection can report\<close>

text \<open>
  The engine repeats checks that the domain validation of the book has already made.  Here the
  errors of every metered operation are confined to a set, and the repeated checks are shown to be
  dead.
\<close>

definition fails_in :: "knowledge_selection_error set \<Rightarrow> 'a metered \<Rightarrow> bool" where
  "fails_in E m \<longleftrightarrow> (\<forall>b e b'. m b = (Inl e, b') \<longrightarrow> e \<in> E)"

lemma fails_in_return: "fails_in E (st_return x)"
  by (simp add: fails_in_def)

lemma fails_in_lift: "(\<And>e. r = Inl e \<Longrightarrow> e \<in> E) \<Longrightarrow> fails_in E (st_lift r)"
  by (simp add: fails_in_def)

lemma fails_in_pair: "(\<And>e. r = Inl e \<Longrightarrow> e \<in> E) \<Longrightarrow> fails_in E (Pair r)"
  by (simp add: fails_in_def)

lemma fails_in_pair_Inr [simp]: "fails_in E (Pair (Inr x))"
  by (simp add: fails_in_def)

lemma fails_in_bind: "fails_in E m \<Longrightarrow> (\<And>x. fails_in E (f x)) \<Longrightarrow> fails_in E (st_bind m f)"
  unfolding fails_in_def st_bind_Inl_conv by blast

lemma fails_in_bind_lift:
  assumes "\<And>e. r = Inl e \<Longrightarrow> e \<in> E" and "\<And>x. r = Inr x \<Longrightarrow> fails_in E (f x)"
  shows "fails_in E (st_bind (st_lift r) f)"
  using assms unfolding fails_in_def st_bind_Inl_conv by (metis prod.inject st_run_simps(3))

lemma fails_in_for: "(\<And>x. x \<in> set xs \<Longrightarrow> fails_in E (f x)) \<Longrightarrow> fails_in E (st_for f xs)"
  by (induction xs) (simp_all add: fails_in_return fails_in_bind)

lemma fails_in_fold: "(\<And>s x. x \<in> set xs \<Longrightarrow> fails_in E (f s x)) \<Longrightarrow> fails_in E (st_fold f s xs)"
  by (induction xs arbitrary: s) (simp_all add: fails_in_return fails_in_bind)

text \<open>The errors that the passes after normalisation can report.\<close>

definition pass_errors :: "knowledge_selection_error set" where
  "pass_errors = {KSE_ScanLimitExceeded} \<union> range KSE_RuleLimitExceeded \<union> {KSE_InvalidRegex i m | i m. True} \<union>
     range KSE_DuplicateSemanticScore \<union> range KSE_InvalidSemanticScore"

lemma pass_errors_intros [simp]:
  "KSE_ScanLimitExceeded \<in> pass_errors" "KSE_RuleLimitExceeded i \<in> pass_errors" "KSE_InvalidRegex i m \<in> pass_errors"
  "KSE_DuplicateSemanticScore i \<in> pass_errors" "KSE_InvalidSemanticScore i \<in> pass_errors"
  by (auto simp: pass_errors_def)

lemma fails_in_charge: "fails_in pass_errors (charge_work_bytes scope n)"
  by (auto simp: fails_in_def charge_work_bytes_def split: option.splits if_splits)

lemmas fails_intros = fails_in_return fails_in_bind fails_in_for fails_in_fold fails_in_charge

lemma fails_in_try_fold:
  assumes "\<And>u x e. f u x = Inl e \<Longrightarrow> e \<in> E"
  shows "fails_in E (st_lift (try_fold f s xs))" and "fails_in E (Pair (try_fold f s xs))"
  using try_fold_error [of f s xs] assms by (auto simp: fails_in_def)

lemma fails_in_charge_rules:
  "fails_in pass_errors (charge_activation_rule_normalization r i)" "fails_in pass_errors (charge_activation_rules rs i)"
proof (induction r i and rs i rule: charge_activation_rule_normalization_charge_activation_rules.induct)
  case (1 rule entry_id)
  then show ?case
    by (subst charge_activation_rule_normalization.simps)
      (auto intro!: fails_intros split: activation_rule.split)
qed (auto intro!: fails_intros)

lemma fails_in_checked_sum: "fails_in pass_errors (st_lift (checked_sum (KSE_RuleLimitExceeded i) n ns))"
  unfolding checked_sum_def by (rule fails_in_try_fold) (auto simp: result_simps)

lemma fails_in_charge_book: "fails_in pass_errors (charge_book_normalization book)"
  unfolding charge_book_normalization_def charge_entry_normalization_def
  by (intro fails_intros fails_in_charge_rules fails_in_checked_sum)

lemma plan_pattern_error: "plan_pattern plan ep = Inl e \<Longrightarrow> e \<in> pass_errors"
  by (auto simp: plan_pattern_def Let_def result_simps split: prod.splits if_splits)

lemma fails_in_compile: "fails_in pass_errors (compile_regexes env entries)"
  unfolding compile_regexes_def Let_def
  by (intro fails_intros fails_in_try_fold plan_pattern_error)
    (auto intro!: fails_intros fails_in_lift fails_in_try_fold
      simp: result_simps simp del: try_fold.simps split: list.split prod.split prod.splits)

lemma score_error: "score_step ids scores s = Inl e \<Longrightarrow> e \<in> pass_errors"
  by (auto simp: score_step_def split: if_splits)

lemma scores_error: "normalize_semantic_scores entries supplied = Inl e \<Longrightarrow> e \<in> pass_errors"
  by (auto simp: normalize_semantic_scores_def Let_def result_simps dest!: try_fold_error score_error)

lemma append_scan_error: "append_scan_text st t = Inl e \<Longrightarrow> e \<in> pass_errors"
  by (auto simp: append_scan_text_def result_simps split: prod.splits if_splits)

lemma fails_in_scan:
  "fails_in pass_errors (scan_from_texts env book texts i)" "fails_in pass_errors (scan_append_text env scan t i)"
  unfolding scan_from_texts_def scan_append_text_def Let_def
  by (auto intro!: fails_intros fails_in_lift fails_in_try_fold simp: result_simps
      split: prod.split prod.splits dest: append_scan_error)

lemma fails_in_keyword: "fails_in pass_errors (first_keyword_match u scan ks cs ww i)"
  by (induction ks) (auto intro!: fails_intros)

lemma fails_in_regex: "fails_in pass_errors (first_regex_match env ctx scan i ps)"
  by (induction ps) (auto intro!: fails_intros)

lemma fails_in_evaluate:
  "fails_in pass_errors (evaluate_rule env ctx scan i r)"
  "fails_in pass_errors (evaluate_any env ctx scan i rs reasons)"
  "fails_in pass_errors (evaluate_all env ctx scan i rs reasons)"
  by (induction env ctx scan i r and env ctx scan i rs reasons and env ctx scan i rs reasons
      rule: evaluate_rule_evaluate_any_evaluate_all.induct)
    (auto simp: evaluate_keyword_rule_def intro!: fails_intros fails_in_keyword fails_in_regex split: option.split)

lemma fails_in_activation: "fails_in pass_errors (evaluate_activation env ctx scan entry)"
  by (simp add: evaluate_activation_def fails_in_evaluate)

lemma fails_in_rounds:
  "fails_in pass_errors (recursive_rounds env ev book ctx entries depths activated scan frontier)"
  by (induction env ev book ctx entries depths activated scan frontier rule: recursive_rounds.induct)
    (auto simp: Let_def append_frontier_def recursive_step_def
      intro!: fails_intros fails_in_activation fails_in_scan split: option.split prod.split)

lemma fails_in_activate_entries: "fails_in pass_errors (activate_entries env ev book ctx entries scan)"
  by (auto simp: activate_entries_def activate_step_def intro!: fails_intros fails_in_activation fails_in_rounds
      split: option.split)

lemma fails_in_exclusions:
  "fails_in pass_errors (apply_activation_exclusions env ev book entries activated scan evidence)"
  by (auto simp: apply_activation_exclusions_def exclusion_step_def Let_def
      intro!: fails_intros fails_in_activation split: option.split)

subsection \<open>Dead checks\<close>

lemma validate_rule_children:
  assumes "validate_activation_rule (Rule_Any rules) p d n = Inr m \<or> validate_activation_rule (Rule_All rules) p d n = Inr m"
    and "child \<in> set rules"
  shows "\<exists>p d n m. validate_activation_rule child p d n = Inr m"
proof -
  from assms(1) have "try_fold (\<lambda>n (i, child). validate_activation_rule child (path_index p i) (d + 1) n)
      (n + 1) (enumerate 0 rules) = Inr m"
    by (auto simp: validate_activation_rule.simps [of "Rule_Any rules"] validate_activation_rule.simps [of "Rule_All rules"]
        split: if_splits)
  note all = try_fold_all [OF this]
  obtain i where "(i, child) \<in> set (enumerate 0 rules)"
    using assms(2) set_enumerate_ex by metis
  with all show ?thesis by fastforce
qed

lemma validate_activation_rule_thresholds:
  "validate_activation_rule r p d n = Inr m \<Longrightarrow> \<not> contains_invalid_semantic_threshold r"
proof (induction r arbitrary: p d n m rule: contains_invalid_semantic_threshold.induct)
  case (1 threshold top_k)
  then show ?case by (auto simp: validate_activation_rule.simps [of "Rule_Semantic _ _"] Let_def split: if_splits)
next
  case (2 rules)
  then show ?case using validate_rule_children by (simp add: list_ex_iff) blast
next
  case (3 rules)
  then show ?case using validate_rule_children by (simp add: list_ex_iff) blast
qed simp_all

lemma normalized_entries_error:
  assumes "validate_book book = Inr ()" and "normalized_entries book = Inl e"
  shows "e \<in> pass_errors"
proof -
  from assms(1) have dom: "knowledge_book_validate book = Inr ()"
    and nodup: "adjacent_dup (sort_by cmp (map ke_id (kb_entries book))) = None"
    by (auto simp: validate_book_def result_simps split: option.splits)
  have "distinct (map ke_id (kb_entries book))"
    using nodup unfolding adjacent_dup_sort_distinct .
  then have "adjacent_dup (map ke_id (sort_by (cmp_on ke_id) (kb_entries book))) = None"
    using adjacent_dup_None_sorted [OF sorted_map_sort_by, of ke_id "kb_entries book"] by simp
  with assms(2) obtain entry where "entry \<in> set (kb_entries book)" and err: "normalized_entry book entry = Inl e"
    by (auto simp: normalized_entries_def Let_def result_simps dest!: try_for_InlD)
  then obtain i where "(i, entry) \<in> set (enumerate 0 (kb_entries book))"
    using set_enumerate_ex by metis
  then have "validate_book_entry (kb_id book) (i, entry) = Inr ()"
    using dom by (auto simp: knowledge_book_validate_def result_simps)
  then have "ke_book_id entry = kb_id book" "ke_activation_probability_basis_points entry \<le> 10000"
    and "\<exists>p d n m. validate_activation_rule (ke_activation entry) p d n = Inr m"
    by (auto simp: validate_book_entry_def Let_def result_simps)
  with err show ?thesis
    using validate_activation_rule_thresholds
    by (auto simp: normalized_entry_def validate_rule_def MAX_ACTIVATION_PROBABILITY_BASIS_POINTS_def
        split: sum.splits if_splits)
qed

lemma validate_book_error:
  "validate_book book = Inl e \<Longrightarrow>
     e = KSE_TooManyEntries \<or> (\<exists>i. e = KSE_DuplicateEntryId i) \<or> (\<exists>m. e = KSE_InvalidBook m)"
  by (auto simp: validate_book_def knowledge_book_validate_def result_simps MAX_KNOWLEDGE_RECURSION_DEPTH_def
      split: option.splits)

lemma select_errors:
  assumes "select_with_budget env book ctx b = (Inl e, b')"
  shows "e = KSE_TooManyEntries \<or> (\<exists>i. e = KSE_DuplicateEntryId i) \<or> (\<exists>m. e = KSE_InvalidBook m) \<or> e \<in> pass_errors"
proof (cases "validate_book book")
  case (Inl e')
  with assms have "e = e'" by (auto simp: select_with_budget_def result_simps)
  with Inl validate_book_error show ?thesis by blast
next
  case (Inr u)
  have "fails_in pass_errors (select_with_budget env book ctx)"
    unfolding select_with_budget_def Let_def Inr
    using normalized_entries_error [of book] Inr scores_error
    by (auto intro!: fails_in_bind fails_in_return fails_in_charge_book fails_in_compile fails_in_scan
        fails_in_activate_entries fails_in_exclusions fails_in_lift split: prod.split)
  with assms show ?thesis unfolding fails_in_def by blast
qed

end
