(* ===== verification/Knowledge_Properties.thy ===== *)
theory Knowledge_Properties
  imports Knowledge_Selection_Facts Knowledge_Order Knowledge_Errors
begin

section \<open>Properties of the knowledge engine\<close>

text \<open>
  What a caller of \<open>KnowledgeEngine::select_with_budget\<close> may rely on: only matching entries are
  selected, the token budget holds, the evidence is complete and truthful, the order of the entries
  does not matter, and the work budget decides whether a selection finishes but never which one.
\<close>

subsection \<open>A concrete book\<close>

text \<open>An environment whose regular expressions are plain substrings and whose tables are ASCII.\<close>

definition sample_ucd :: ucd where
  "sample_ucd =
     \<lparr>ucd_lower = (\<lambda>c. [if is_ascii_uppercase c then c + 32 else c]),
      ucd_cased = (\<lambda>c. is_ascii_uppercase c \<or> is_ascii_lowercase c),
      ucd_case_ignorable = (\<lambda>c. c = 39), ucd_alphanumeric = is_ascii_alphanumeric\<rparr>"

definition sample_env :: "str engine_env" where
  "sample_env =
     \<lparr>env_ucd = sample_ucd, env_regex_build = (\<lambda>p _ _ _. Inr p), env_is_match = (\<lambda>re t. contains t re),
      env_sha256 = (\<lambda>b. replicate 32 0)\<rparr>"

definition sample_entry :: "string \<Rightarrow> string \<Rightarrow> bool \<Rightarrow> activation_rule \<Rightarrow> knowledge_entry" where
  "sample_entry eid content enabled rule =
     \<lparr>ke_id = lit eid, ke_book_id = lit ''book'', ke_name = lit ''n'', ke_content = lit content,
      ke_enabled = enabled, ke_activation = rule, ke_priority = 0, ke_importance = 50,
      ke_placement = RetrievedContext,
      ke_token_policy = \<lparr>tp_priority = 0, tp_min_tokens = None, tp_max_tokens = Some 40, tp_reserve_tokens = None\<rparr>,
      ke_parent_id = None, ke_activation_probability_basis_points = 10000,
      ke_provenance = \<lparr>pv_source_kind = Generated, pv_source_id = None, pv_source_hash = None,
        pv_author = None, pv_license = None, pv_imported_at = None\<rparr>\<rparr>"

definition keyword_rule :: "string \<Rightarrow> activation_rule" where
  "keyword_rule w = Rule_Keyword [lit w] [] False False True"

definition sample_entries :: "knowledge_entry list" where
  "sample_entries =
     [sample_entry ''e4'' ''never'' True (keyword_rule ''zebra''),
      sample_entry ''e2'' ''bones'' True (keyword_rule ''dog''),
      sample_entry ''e1'' ''chases the dog'' True (keyword_rule ''cat''),
      sample_entry ''e3'' ''a very long entry that is far too long to fit'' True Rule_Always,
      sample_entry ''e5'' ''off'' False Rule_Always]"

definition sample_book :: knowledge_book where
  "sample_book =
     \<lparr>kb_id = lit ''book'', kb_name = lit ''n'', kb_schema_version = 1, kb_entries = sample_entries,
      kb_scan_depth = 2, kb_token_budget = \<lparr>max_tokens = 8\<rparr>, kb_recursive = True, kb_max_recursion_depth = 2,
      kb_provenance = \<lparr>pv_source_kind = Generated, pv_source_id = None, pv_source_hash = None,
        pv_author = None, pv_license = None, pv_imported_at = None\<rparr>\<rparr>"

definition sample_knowledge_context :: knowledge_selection_context where
  "sample_knowledge_context =
     \<lparr>kc_scan_texts = [lit ''A CAT sat.''], kc_manual_entry_ids = {}, kc_semantic_scores = [],
      kc_variables = [], kc_supported_capabilities = [], kc_token_estimates = [], kc_activation_seed = 7\<rparr>"

abbreviation sample_knowledge_select ::
  "knowledge_book \<Rightarrow> (knowledge_selection_error, knowledge_selection) result \<times> knowledge_work_budget" where
  "sample_knowledge_select book \<equiv>
     select_with_budget sample_env book sample_knowledge_context work_budget_default"

lemma work_budget_default_pays: "can_pay work_budget_default 0"
  by code_simp

lemma sample_knowledge_select_ok:
  obtains sel b' where "sample_knowledge_select sample_book = (Inr sel, b')"
    and "map sk_entry_id (ks_selected sel) = [lit ''e2'', lit ''e1'']"
    and "map sk_recursion_depth (ks_selected sel) = [1, 0]"
proof -
  have ok: "(case fst (sample_knowledge_select sample_book) of Inl _ \<Rightarrow> False | Inr sel \<Rightarrow>
      map sk_entry_id (ks_selected sel) = [lit ''e2'', lit ''e1''] \<and>
      map sk_recursion_depth (ks_selected sel) = [1, 0])"
    by code_simp
  obtain r b' where run: "sample_knowledge_select sample_book = (r, b')" by (cases "sample_knowledge_select sample_book")
  with ok obtain sel where "r = Inr sel" by (cases r) simp_all
  with run ok that show thesis by simp
qed

subsection \<open>Evidence\<close>

text \<open>
  Agreement of one piece of evidence with a selection: it says selected exactly for the selected
  entries and then repeats their tokens and reasons; otherwise it gives a reason for the exclusion.
\<close>

definition knowledge_evidence_agrees ::
  "selected_knowledge_entry list \<Rightarrow> knowledge_selection_evidence \<Rightarrow> bool" where
  "knowledge_evidence_agrees selected e \<longleftrightarrow>
     (case find (\<lambda>s. sk_entry_id s = kse_entry_id e) selected of
        Some s \<Rightarrow> kse_selected e \<and> kse_exclusion_reason e = None \<and>
          kse_estimated_tokens e = sk_estimated_tokens s \<and> kse_reasons e = sk_reasons s
      | None \<Rightarrow> \<not> kse_selected e \<and> kse_exclusion_reason e \<noteq> None)"

lemma select_evidence:
  assumes "select_with_budget env book ctx b = (Inr sel, b')" and "can_pay b 0"
  shows "map kse_entry_id (ks_evidence sel) = sort (map ke_id (kb_entries book)) \<and>
    (\<forall>e \<in> set (ks_evidence sel). knowledge_evidence_agrees (ks_selected sel) e)"
proof -
  from assms obtain entries ev scan activated item where
    run: "selection_run env book ctx sel entries ev scan activated item" by (rule select_Inr)
  note parts = selection_run_parts [OF run]
  have ids: "kse_entry_id (item e) = ke_id e" if "e \<in> set entries" for e
    using parts(5) that excluded_item_id by blast
  then have "map kse_entry_id (ks_evidence sel) = map ke_id entries" by (simp add: parts(12))
  moreover have "knowledge_evidence_agrees (ks_selected sel) (final_item (decisions book entries activated) (item e))"
    if e: "e \<in> set entries" for e
    using selection_run_agrees [OF run e] unfolding knowledge_evidence_agrees_def Let_def .
  ultimately show ?thesis
    using normalized_entries_Inr(5) [OF parts(1)] by (auto simp: parts(12))
qed

subsection \<open>Selected entries\<close>

text \<open>
  C27. Selection is sound: no entry is selected twice, and every selected one is an enabled entry of
  the book, carried over unchanged, that passes the deterministic probability gate and whose rule
  matched, in the book's evaluation context, the scan of its round.  That scan is the latest texts of the context, as
  many as the scan depth, followed by the contents of the entries that fired in earlier rounds.  In the first round the
  reported reasons are exactly those of the rule; in a later one, which only a recursive book
  within its depth limit reaches, they also name the entry that triggered it.  The evidence is
  complete: one piece per entry of the book, in id order, each in agreement with the selection.
\<close>

theorem knowledge_select_sound:
  assumes "select_with_budget env book ctx b = (Inr sel, b')" and "can_pay b 0"
  shows "distinct (map sk_entry_id (ks_selected sel)) \<and>
    (\<exists>ev. evaluation_of env book ctx ev \<and> (\<forall>s \<in> set (ks_selected sel). \<exists>entry \<in> set (kb_entries book).
      ke_enabled entry \<and> probability_allows env book entry (kc_activation_seed ctx) \<and>
      sk_entry_id s = ke_id entry \<and> sk_content s = ke_content entry \<and> sk_placement s = ke_placement entry \<and>
      sk_estimated_tokens s = estimated_tokens entry (kc_token_estimates ctx) \<and>
      sk_recursion_depth s \<le> (if kb_recursive book then kb_max_recursion_depth book else 0) \<and>
      (\<exists>reasons. runs_to (evaluate_activation env ev (round_scan env ev book ctx (sk_recursion_depth s)) entry) (Some reasons) \<and>
        (if sk_recursion_depth s = 0 then sk_reasons s = reasons
         else \<exists>p \<in> ke_id ` set (kb_entries book). sk_reasons s = push_reason reasons (Reason_Recursive p))))) \<and>
    map kse_entry_id (ks_evidence sel) = sort (map ke_id (kb_entries book)) \<and>
    (\<forall>e \<in> set (ks_evidence sel). knowledge_evidence_agrees (ks_selected sel) e)"
proof -
  from assms obtain entries ev scan activated item where
    run: "selection_run env book ctx sel entries ev scan activated item" by (rule select_Inr)
  note parts = selection_run_parts [OF run]
  have "distinct (map sk_entry_id (ks_selected sel))"
    unfolding parts(9) by (intro distinct_admitted_keys decisions_keys(2) parts(6))
  moreover have "\<exists>entry \<in> set (kb_entries book).
      ke_enabled entry \<and> probability_allows env book entry (kc_activation_seed ctx) \<and>
      sk_entry_id s = ke_id entry \<and> sk_content s = ke_content entry \<and> sk_placement s = ke_placement entry \<and>
      sk_estimated_tokens s = estimated_tokens entry (kc_token_estimates ctx) \<and>
      sk_recursion_depth s \<le> (if kb_recursive book then kb_max_recursion_depth book else 0) \<and>
      (\<exists>reasons. runs_to (evaluate_activation env ev (round_scan env ev book ctx (sk_recursion_depth s)) entry) (Some reasons) \<and>
        (if sk_recursion_depth s = 0 then sk_reasons s = reasons
         else \<exists>p \<in> ke_id ` set (kb_entries book). sk_reasons s = push_reason reasons (Reason_Recursive p)))"
    if "s \<in> set (ks_selected sel)" for s
    using run that
  proof (rule selection_run_selected)
    fix entry c
    assume e: "entry \<in> set entries" "ke_enabled entry" and s: "s = selected_entry entry c (ke_id entry)"
      and c: "candidate_ok env ev book ctx entries activated (ke_id entry) c"
        "ac_recursion_depth c \<le> last_round book"
        "ac_estimated_tokens c = estimated_tokens entry (kc_token_estimates ctx)"
      and gate: "probability_allows env book entry (kc_activation_seed ctx)"
    obtain entry' reasons where e': "entry' \<in> set entries" "ke_id entry' = ke_id entry"
      and run: "runs_to (evaluate_activation env ev (round_scan env ev book ctx (ac_recursion_depth c)) entry') (Some reasons)"
      and why: "if ac_recursion_depth c = 0 then ac_reasons c = reasons
          else \<exists>p c'. ac_reasons c = push_reason reasons (Reason_Recursive p) \<and>
            bt_get activated p = Some c' \<and> ac_recursion_depth c' + 1 = ac_recursion_depth c"
      using c(1) unfolding candidate_ok_def by blast
    have "entry' = entry" using e' e(1) parts(8) by (metis entry_unique)
    have known: "p \<in> ke_id ` set (kb_entries book)" if "bt_get activated p = Some c'" for p c'
      using parts(3,7) that unfolding activated_ok_def candidate_ok_def by blast
    have why': "if ac_recursion_depth c = 0 then ac_reasons c = reasons
        else \<exists>p \<in> ke_id ` set (kb_entries book). ac_reasons c = push_reason reasons (Reason_Recursive p)"
      using why known by (auto split: if_splits)
    show ?thesis
      using e gate c(2,3) run why' \<open>entry' = entry\<close> parts(7)
      by (intro bexI [of _ entry] conjI exI [of _ reasons])
        (simp_all add: s selected_entry_def last_round_def split: if_splits)
  qed
  ultimately show ?thesis using parts(2) select_evidence [OF assms] by blast
qed

theorem knowledge_select_sound_witness:
  "\<exists>sel b'. sample_knowledge_select sample_book = (Inr sel, b') \<and> length (ks_selected sel) = 2 \<and>
     distinct (map sk_entry_id (ks_selected sel)) \<and>
     (\<forall>s \<in> set (ks_selected sel). sk_entry_id s \<in> ke_id ` set sample_entries \<and> sk_recursion_depth s \<le> 2)"
proof -
  obtain sel b' where run: "sample_knowledge_select sample_book = (Inr sel, b')"
    and ids: "map sk_entry_id (ks_selected sel) = [lit ''e2'', lit ''e1'']"
    by (rule sample_knowledge_select_ok)
  from ids have "length (map sk_entry_id (ks_selected sel)) = 2" by simp
  moreover note knowledge_select_sound [OF run work_budget_default_pays]
  then have "distinct (map sk_entry_id (ks_selected sel))"
    and "\<forall>s \<in> set (ks_selected sel). sk_entry_id s \<in> ke_id ` set (kb_entries sample_book) \<and>
      sk_recursion_depth s \<le> (if kb_recursive sample_book then kb_max_recursion_depth sample_book else 0)"
    by blast+
  ultimately show ?thesis using run by (intro exI conjI) (simp_all add: sample_book_def)
qed

text \<open>
  C28. Budgets: the reported token count is the sum over the selected entries and stays within the
  token budget of the book, and no selected entry exceeds its own limit.
\<close>

theorem knowledge_select_within_budget:
  assumes "select_with_budget env book ctx b = (Inr sel, b')" and "can_pay b 0"
  shows "ks_token_budget sel = max_tokens (kb_token_budget book) \<and>
    ks_used_tokens sel = sum_list (map sk_estimated_tokens (ks_selected sel)) \<and>
    ks_used_tokens sel \<le> ks_token_budget sel \<and>
    (\<forall>s \<in> set (ks_selected sel). \<exists>entry \<in> set (kb_entries book). ke_id entry = sk_entry_id s \<and>
      (\<forall>limit. tp_max_tokens (ke_token_policy entry) = Some limit \<longrightarrow> sk_estimated_tokens s \<le> limit))"
proof -
  from assms obtain entries ev scan activated item where
    run: "selection_run env book ctx sel entries ev scan activated item" by (rule select_Inr)
  note parts = selection_run_parts [OF run]
  let ?keys = "admitted_keys (decisions book entries activated)"
  have "sum_list (map (\<lambda>k. ac_estimated_tokens (the (bt_get activated k))) ?keys) \<le> max_tokens (kb_token_budget book)"
    unfolding decisions_def Let_def using budget_admit_within [of 0] by simp
  moreover have "map sk_estimated_tokens (ks_selected sel) =
      map (\<lambda>k. ac_estimated_tokens (the (bt_get activated k))) ?keys"
    using run by (simp add: selection_run_def Let_def selected_entry_def comp_def)
  moreover have "\<exists>entry \<in> set (kb_entries book). ke_id entry = sk_entry_id s \<and>
      (\<forall>limit. tp_max_tokens (ke_token_policy entry) = Some limit \<longrightarrow> sk_estimated_tokens s \<le> limit)"
    if "s \<in> set (ks_selected sel)" for s
    by (rule selection_run_selected [OF run that]) (use parts(7) in \<open>auto simp: selected_entry_def\<close>)
  ultimately show ?thesis by (simp add: parts(10,11))
qed

theorem knowledge_select_within_budget_witness:
  "\<exists>sel b'. sample_knowledge_select sample_book = (Inr sel, b') \<and>
     sum_list (map sk_estimated_tokens (ks_selected sel)) \<le> 8"
proof -
  obtain sel b' where run: "sample_knowledge_select sample_book = (Inr sel, b')"
    by (rule sample_knowledge_select_ok)
  have "sum_list (map sk_estimated_tokens (ks_selected sel)) \<le> max_tokens (kb_token_budget sample_book)"
    using knowledge_select_within_budget [OF run work_budget_default_pays] by simp
  with run show ?thesis by (intro exI conjI) (simp_all add: sample_book_def)
qed

text \<open>
  C29. Selection is maximal: every enabled entry that is not selected either does not match the final scan, which is
  the latest texts of the context followed by the contents of all entries that fired before the last round the book allows, or is refused by the probability gate, or
  exceeds its own token limit, or does not fit into what is left of the token budget.
\<close>

theorem knowledge_select_maximal:
  assumes "select_with_budget env book ctx b = (Inr sel, b')" and "can_pay b 0"
    and "max_tokens (kb_token_budget book) \<le> u32_max"
  shows "\<exists>ev. evaluation_of env book ctx ev \<and> (\<forall>entry \<in> set (kb_entries book).
    ke_enabled entry \<and> ke_id entry \<notin> sk_entry_id ` set (ks_selected sel) \<longrightarrow>
      runs_to (evaluate_activation env ev (round_scan env ev book ctx (last_round book)) entry) None \<or>
      \<not> probability_allows env book entry (kc_activation_seed ctx) \<or>
      (\<exists>limit. tp_max_tokens (ke_token_policy entry) = Some limit \<and>
        limit < estimated_tokens entry (kc_token_estimates ctx)) \<or>
      max_tokens (kb_token_budget book) < ks_used_tokens sel + estimated_tokens entry (kc_token_estimates ctx))"
proof -
  from assms obtain entries ev scan activated item where
    run: "selection_run env book ctx sel entries ev scan activated item" by (elim select_Inr)
  note parts = selection_run_parts [OF run]
  have "runs_to (evaluate_activation env ev (round_scan env ev book ctx (last_round book)) entry) None \<or>
      \<not> probability_allows env book entry (kc_activation_seed ctx) \<or>
      (\<exists>limit. tp_max_tokens (ke_token_policy entry) = Some limit \<and>
        limit < estimated_tokens entry (kc_token_estimates ctx)) \<or>
      max_tokens (kb_token_budget book) < ks_used_tokens sel + estimated_tokens entry (kc_token_estimates ctx)"
    if e: "entry \<in> set (kb_entries book)" "ke_enabled entry"
      "ke_id entry \<notin> sk_entry_id ` set (ks_selected sel)" for entry
  proof (cases "bt_get activated (ke_id entry)")
    case None
    then show ?thesis using parts(4,7) e(1,2) unfolding settled_def parts(13) by metis
  next
    case (Some c)
    then have "ke_id entry \<in> fst ` set activated" using btree.bindings_get [OF parts(6)] by force
    then obtain d where d: "(ke_id entry, d) \<in> set (decisions book entries activated)"
      unfolding decisions_keys(1) [OF parts(6), of book entries, symmetric] by auto
    moreover have "ke_id entry \<notin> set (admitted_keys (decisions book entries activated))"
      using e(3) parts(9) by (metis set_map)
    ultimately obtain reason where r: "(ke_id entry, Some reason) \<in> set (decisions book entries activated)"
      unfolding admitted_keys_iff by (cases d) auto
    obtain entry' c' where e': "entry' \<in> set entries" "ke_id entry' = ke_id entry"
      and c': "bt_get activated (ke_id entry) = Some c'"
        "ac_estimated_tokens c' = estimated_tokens entry' (kc_token_estimates ctx)"
      and by_id: "bt_get (bt_collect (map (\<lambda>entry. (ke_id entry, entry)) entries)) (ke_id entry) = Some entry'"
      by (rule decision_entry [OF parts(3,8) r])
    have "entry' = entry" using e' e(1) parts(7,8) by (metis entry_unique)
    from budget_admit_rejected [OF r [unfolded decisions_def Let_def] assms(3),
        folded decisions_def [unfolded Let_def]] this by_id c'
    show ?thesis by (simp add: parts(10))
  qed
  with parts(2) show ?thesis by blast
qed

theorem knowledge_select_maximal_witness:
  "\<exists>sel b'. sample_knowledge_select sample_book = (Inr sel, b') \<and> 8 < ks_used_tokens sel + 12"
proof -
  let ?e = "sample_entry ''e3'' ''a very long entry that is far too long to fit'' True Rule_Always"
  obtain sel b' where run: "sample_knowledge_select sample_book = (Inr sel, b')"
    and ids: "map sk_entry_id (ks_selected sel) = [lit ''e2'', lit ''e1'']"
    by (rule sample_knowledge_select_ok)
  have "max_tokens (kb_token_budget sample_book) \<le> u32_max" by code_simp
  note max = knowledge_select_maximal [OF run work_budget_default_pays this]
  have mem: "?e \<in> set (kb_entries sample_book)" and on: "ke_enabled ?e"
    by (simp_all add: sample_book_def sample_entries_def sample_entry_def)
  have out: "ke_id ?e \<notin> sk_entry_id ` set (ks_selected sel)"
    unfolding set_map [symmetric] ids by code_simp
  have cost: "estimated_tokens ?e (kc_token_estimates sample_knowledge_context) = 12"
    "tp_max_tokens (ke_token_policy ?e) = Some 40" "max_tokens (kb_token_budget sample_book) = 8"
    "probability_allows sample_env sample_book ?e (kc_activation_seed sample_knowledge_context)"
    by code_simp+
  have "\<not> runs_to (evaluate_activation sample_env ev scan ?e) None" for ev scan
    by (simp add: runs_to_def evaluate_activation_def sample_entry_def)
  with max mem on out run cost show ?thesis by (intro exI conjI) auto
qed

subsection \<open>Order and metering\<close>

text \<open>
  The order in which a book lists its entries does not matter: a permuted book is accepted as
  well, gives the same selection and evidence, and costs exactly the same work.
\<close>

lemma select_order_irrelevant:
  assumes "select_with_budget env book ctx b = (Inr sel, b')" and "can_pay b 0"
    and "mset entries = mset (kb_entries book)"
  shows "select_with_budget env (book\<lparr>kb_entries := entries\<rparr>) ctx b = (Inr sel, b')"
  using assms by (rule select_perm)

text \<open>A successful selection has a price, and every budget that can pay it gives the same selection.\<close>

lemma select_price:
  assumes "select_with_budget env book ctx b = (Inr sel, b')" and "can_pay b 0"
  shows "\<exists>n. n \<le> remaining_work_bytes b \<and> b' = b\<lparr>used_work_bytes := used_work_bytes b + n\<rparr> \<and>
    (\<forall>c. used_work_bytes c + n \<le> max_work_bytes c \<and> max_work_bytes c \<le> usize_max \<longrightarrow>
      select_with_budget env book ctx c = (Inr sel, c\<lparr>used_work_bytes := used_work_bytes c + n\<rparr>))"
proof -
  obtain n where n: "can_pay b n" "b' = pay n b"
    "\<forall>c. can_pay c n \<longrightarrow> select_with_budget env book ctx c = (Inr sel, pay n c)"
    using priced_select assms unfolding priced_def by blast
  then show ?thesis
    by (intro exI [of _ n]) (auto simp: can_pay_def pay_def remaining_work_bytes_def)
qed

lemma select_keeps_meter:
  assumes "used_work_bytes b \<le> max_work_bytes b"
  shows "(\<forall>r b'. select_with_budget env book ctx b = (r, b') \<longrightarrow>
      max_work_bytes b' = max_work_bytes b \<and> used_work_bytes b \<le> used_work_bytes b' \<and>
      used_work_bytes b' \<le> max_work_bytes b') \<and>
    (let b' = snd (st_for (\<lambda>(book, ctx). st_bind (select_with_budget env book ctx) (\<lambda>_. st_return ())) books b) in
      max_work_bytes b' = max_work_bytes b \<and> used_work_bytes b \<le> used_work_bytes b' \<and>
      used_work_bytes b' \<le> max_work_bytes b')"
proof -
  have "st_keeps meter_le (st_for (\<lambda>(book, ctx). st_bind (select_with_budget env book ctx) (\<lambda>_. st_return ())) books)"
    by (auto intro!: keeps_intros keeps_select)
  with keeps_select [of env book ctx] assms show ?thesis
    unfolding st_keeps_def meter_le_def Let_def by (metis snd_conv)
qed

text \<open>
  The work meter is safe and decides only whether a selection finishes.  Whatever the outcome, also
  on an error, a selection leaves the limit alone, never takes charged work back and never passes
  the limit, and so do the books of a generation that share one budget.  A successful selection has a price:
  it is charged exactly that, and every budget with that much left gives the same selection.
\<close>

theorem knowledge_meter_safe:
  assumes "used_work_bytes b \<le> max_work_bytes b"
  shows "(\<forall>r b'. select_with_budget env book ctx b = (r, b') \<longrightarrow>
      max_work_bytes b' = max_work_bytes b \<and> used_work_bytes b \<le> used_work_bytes b' \<and>
      used_work_bytes b' \<le> max_work_bytes b') \<and>
    (let b' = snd (st_for (\<lambda>(book, ctx). st_bind (select_with_budget env book ctx) (\<lambda>_. st_return ())) books b) in
      max_work_bytes b' = max_work_bytes b \<and> used_work_bytes b \<le> used_work_bytes b' \<and>
      used_work_bytes b' \<le> max_work_bytes b') \<and>
    (\<forall>sel b'. select_with_budget env book ctx b = (Inr sel, b') \<and> can_pay b 0 \<longrightarrow>
      (\<exists>n. n \<le> remaining_work_bytes b \<and> b' = b\<lparr>used_work_bytes := used_work_bytes b + n\<rparr> \<and>
        (\<forall>c. used_work_bytes c + n \<le> max_work_bytes c \<and> max_work_bytes c \<le> usize_max \<longrightarrow>
          select_with_budget env book ctx c = (Inr sel, c\<lparr>used_work_bytes := used_work_bytes c + n\<rparr>))))"
  using select_keeps_meter [OF assms] select_price by (intro conjI allI impI) (blast | fast)+

theorem knowledge_meter_safe_witness:
  "used_work_bytes (snd (select_with_budget sample_env sample_book sample_knowledge_context (with_max_work_bytes 100))) \<le> 100
   \<and> fst (select_with_budget sample_env sample_book sample_knowledge_context (with_max_work_bytes 100)) =
     Inl (KSE_RuleLimitExceeded (lit ''e3''))"
proof -
  have "used_work_bytes (with_max_work_bytes 100) \<le> max_work_bytes (with_max_work_bytes 100)"
    and limit: "max_work_bytes (with_max_work_bytes 100) = 100" by code_simp+
  from knowledge_meter_safe [OF this(1), of sample_env sample_book sample_knowledge_context "[]"] limit
  have "used_work_bytes (snd (select_with_budget sample_env sample_book sample_knowledge_context
      (with_max_work_bytes 100))) \<le> 100"
    by (metis prod.collapse)
  moreover have "(case fst (select_with_budget sample_env sample_book sample_knowledge_context (with_max_work_bytes 100))
    of Inl (KSE_RuleLimitExceeded i) \<Rightarrow> i = lit ''e3'' | _ \<Rightarrow> False)"
    by code_simp
  ultimately show ?thesis by (auto split: sum.splits knowledge_selection_error.splits)
qed

subsection \<open>Validation\<close>

text \<open>
  The engine's own repetitions of the domain checks are dead: a selection never fails because an
  entry belongs to another book, has a threshold or a probability out of range, or because the book
  recurses too deeply.
\<close>

lemma select_dead_errors:
  "fst (select_with_budget env book ctx b) \<noteq> Inl (KSE_ForeignBookEntry i) \<and>
   fst (select_with_budget env book ctx b) \<noteq> Inl (KSE_InvalidSemanticThreshold i) \<and>
   fst (select_with_budget env book ctx b) \<noteq> Inl (KSE_InvalidActivationProbability i) \<and>
   fst (select_with_budget env book ctx b) \<noteq> Inl KSE_RecursionDepthLimitExceeded"
proof -
  obtain r b' where run: "select_with_budget env book ctx b = (r, b')" by (cases "select_with_budget env book ctx b")
  show ?thesis
    using select_errors [of env book ctx b _ b'] by (auto simp: run pass_errors_def)
qed

text \<open>
  The parent check decides what it should: among entries with distinct ids it accepts exactly
  the parent graphs in which following the parents from every entry ends at an entry without one;
  so an accepted book has neither a missing parent nor a cycle.
\<close>

lemma parent_graph_decided:
  assumes "distinct (map ke_id entries)"
  shows "(validate_knowledge_parent_graph entries = Inr () \<longleftrightarrow> (\<forall>e \<in> set entries. rooted entries (ke_id e))) \<and>
    (validate_knowledge_parent_graph entries = Inr () \<longrightarrow>
      acyclic (parent_edges entries) \<and> snd ` parent_edges entries \<subseteq> ke_id ` set entries)"
proof -
  note decided = validate_knowledge_parent_graph_rooted [OF assms]
  have "acyclic (parent_edges entries)" if ok: "\<forall>e \<in> set entries. rooted entries (ke_id e)"
  proof (rule acyclicI, rule allI)
    fix q
    show "(q, q) \<notin> (parent_edges entries)\<^sup>+"
    proof
      assume cyc: "(q, q) \<in> (parent_edges entries)\<^sup>+"
      then obtain p where "(q, p) \<in> parent_edges entries" by (meson converse_tranclE)
      then have "rooted entries q" using ok by (auto simp: parent_edges_def)
      with rooted_not_cyclic [OF assms] cyc show False by blast
    qed
  qed
  moreover have "snd ` parent_edges entries \<subseteq> ke_id ` set entries" if ok: "\<forall>e \<in> set entries. rooted entries (ke_id e)"
  proof
    fix p assume "p \<in> snd ` parent_edges entries"
    then obtain e where "e \<in> set entries" "ke_parent_id e = Some p" by (auto simp: parent_edges_def)
    then show "p \<in> ke_id ` set entries" using rooted_parent [OF assms] ok rooted_in_book by blast
  qed
  ultimately show ?thesis using decided by blast
qed

text \<open>
  The domain validation decides what it should: among entries with distinct ids it accepts exactly the
  parent graphs in which following the parents from every entry ends at an entry without one, so an
  accepted book has neither a missing parent nor a cycle.  The engine's own repetitions of the domain
  checks are dead: a selection never fails because an entry belongs to another book, has a threshold or a
  probability out of range, or because the book recurses too deeply.
\<close>

theorem knowledge_validation_decides:
  "(distinct (map ke_id entries) \<longrightarrow>
     (validate_knowledge_parent_graph entries = Inr () \<longleftrightarrow> (\<forall>e \<in> set entries. rooted entries (ke_id e))) \<and>
     (validate_knowledge_parent_graph entries = Inr () \<longrightarrow>
       acyclic (parent_edges entries) \<and> snd ` parent_edges entries \<subseteq> ke_id ` set entries)) \<and>
   fst (select_with_budget env book ctx b) \<noteq> Inl (KSE_ForeignBookEntry i) \<and>
   fst (select_with_budget env book ctx b) \<noteq> Inl (KSE_InvalidSemanticThreshold i) \<and>
   fst (select_with_budget env book ctx b) \<noteq> Inl (KSE_InvalidActivationProbability i) \<and>
   fst (select_with_budget env book ctx b) \<noteq> Inl KSE_RecursionDepthLimitExceeded"
  using parent_graph_decided [of entries] select_dead_errors [of env book ctx b i] by blast

theorem knowledge_validation_decides_witness:
  "let es = [(sample_entry ''a'' ''x'' True Rule_Always)\<lparr>ke_parent_id := Some (lit ''b'')\<rparr>,
             (sample_entry ''b'' ''y'' True Rule_Always)\<lparr>ke_parent_id := Some (lit ''a'')\<rparr>] in
   \<not> (\<forall>e \<in> set es. rooted es (ke_id e))"
proof -
  let ?es = "[(sample_entry ''a'' ''x'' True Rule_Always)\<lparr>ke_parent_id := Some (lit ''b'')\<rparr>,
             (sample_entry ''b'' ''y'' True Rule_Always)\<lparr>ke_parent_id := Some (lit ''a'')\<rparr>]"
  have "distinct (map ke_id ?es)" by code_simp
  with knowledge_validation_decides [of ?es] have
    "validate_knowledge_parent_graph ?es = Inr () \<longleftrightarrow> (\<forall>e \<in> set ?es. rooted ?es (ke_id e))" by blast
  moreover have "\<not> is_ok (validate_knowledge_parent_graph ?es)" by code_simp
  ultimately show ?thesis by (auto simp: Let_def)
qed

end
