(* ===== verification/Knowledge_Matching.thy ===== *)
theory Knowledge_Matching
  imports Knowledge_Engine
begin

section \<open>What the activation rules match\<close>

text \<open>
  The meaning of the similarity and keyword rules, apart from how they are computed: ranks count
  the better scored entries, and a keyword match is an occurrence in the scan text.  The last
  subsection records two inputs on which the keyword search misses an occurrence.
\<close>

subsection \<open>Similarity ranks\<close>

interpretation scored_order: total_comparator cmp_scored
  unfolding cmp_scored_def by (intro total_comparator_intros)

text \<open>The entries that rank before a score \<open>s\<close> of entry \<open>k\<close>.\<close>

definition better_scored :: "(str, nat) btree_map \<Rightarrow> str \<Rightarrow> nat \<Rightarrow> str set" where
  "better_scored scores k s = {k'. \<exists>s'. bt_get scores k' = Some s' \<and> (s < s' \<or> s' = s \<and> k' < k)}"

lemma cmp_scored_iff:
  "cmp_scored (a, s) (b, t) = Less \<longleftrightarrow> t < s \<or> s = t \<and> a < b"
  "cmp_scored (a, s) (b, t) = Equal \<longleftrightarrow> s = t \<and> a = b"
  by (auto simp: cmp_scored_def cmp_then_def cmp_desc_def cmp_on_def cmp_def)

lemma sorted_prefix_set:
  assumes "sorted_wrt (\<lambda>x y. cmp_scored x y = Less) xs" and "i < length xs"
  shows "set (take i xs) = {x \<in> set xs. cmp_scored x (xs ! i) = Less}"
proof -
  have less: "cmp_scored (xs ! j) (xs ! k) = Less" if "j < k" "k < length xs" for j k
    using assms(1) that by (simp add: sorted_wrt_iff_nth_less)
  have ge: "cmp_scored (xs ! j) (xs ! i) \<noteq> Less" if "i \<le> j" "j < length xs" for j
    using less [of i j] that scored_order.c_refl scored_order.c_sym [of "xs ! i" "xs ! j"] by (cases "i = j") auto
  have "x \<in> set (take i xs) \<longleftrightarrow> x \<in> set xs \<and> cmp_scored x (xs ! i) = Less" for x
  proof
    assume "x \<in> set (take i xs)"
    then obtain j where "j < i" "x = xs ! j" using assms(2) by (auto simp: in_set_conv_nth)
    with less assms(2) show "x \<in> set xs \<and> cmp_scored x (xs ! i) = Less" by simp
  next
    assume x: "x \<in> set xs \<and> cmp_scored x (xs ! i) = Less"
    then obtain j where j: "j < length xs" "x = xs ! j" by (auto simp: in_set_conv_nth)
    with x ge have "j < i" by (meson not_less)
    with j show "x \<in> set (take i xs)" by (auto simp: in_set_conv_nth)
  qed
  then show ?thesis by blast
qed

lemma semantic_ranks_count:
  assumes inv: "bt_inv scores" and score: "bt_get scores k = Some s"
  shows "bt_get (semantic_ranks scores) k = Some (card (better_scored scores k s))"
proof -
  define xs where "xs = sort_by cmp_scored scores"
  have keys: "distinct (map fst xs)" unfolding xs_def by (simp add: btree.keys_distinct [OF inv])
  then have dist: "distinct xs" by (simp add: distinct_map)
  have sorted: "sorted_wrt (\<lambda>x y. cmp_scored x y = Less) xs"
    unfolding sorted_wrt_iff_nth_less
  proof (intro allI impI)
    fix i j assume ij: "i < j" "j < length xs"
    then have "cmp_scored (xs ! i) (xs ! j) \<noteq> Greater"
      using scored_order.sorted_sort_by [of scores, folded xs_def] by (simp add: sorted_wrt_iff_nth_less)
    moreover have "cmp_scored (xs ! i) (xs ! j) \<noteq> Equal"
      using ij nth_eq_iff_index_eq [OF dist, of i j]
        cmp_scored_iff(2) [of "fst (xs ! i)" "snd (xs ! i)" "fst (xs ! j)" "snd (xs ! j)"]
      by (auto simp: prod_eq_iff)
    ultimately show "cmp_scored (xs ! i) (xs ! j) = Less" by (cases "cmp_scored (xs ! i) (xs ! j)") auto
  qed
  have mem: "(k, s) \<in> set xs" using score btree.bindings_get [OF inv] by (simp add: xs_def)
  then obtain i where i: "i < length xs" "xs ! i = (k, s)" by (auto simp: in_set_conv_nth)
  have "better_scored scores k s = fst ` {x \<in> set xs. cmp_scored x (k, s) = Less}"
    by (rule set_eqI) (auto simp: better_scored_def btree.bindings_get [OF inv] xs_def cmp_scored_iff image_iff Bex_def)
  also have "\<dots> = fst ` set (take i xs)" using sorted_prefix_set [OF sorted i(1)] i(2) by simp
  finally have "card (better_scored scores k s) = card (set (take i (map fst xs)))" by (simp add: take_map)
  also have "\<dots> = i" using distinct_card [OF distinct_take [OF keys]] i(1) by simp
  finally have card: "card (better_scored scores k s) = i" .
  let ?kvs = "map (\<lambda>(index, entry_id, _). (entry_id, index)) (enumerate 0 xs)"
  have fsts: "map fst ?kvs = map fst xs"
    by (rule nth_equalityI) (auto simp: nth_enumerate_eq split: prod.split)
  then have "distinct (map fst ?kvs)" using keys by simp
  moreover have "(k, i) \<in> set ?kvs"
  proof -
    have "(i, k, s) \<in> set (enumerate 0 xs)" using i by (simp add: in_set_enumerate_eq)
    from imageI [OF this, of "\<lambda>(index, entry_id, _). (entry_id, index)"] show ?thesis by simp
  qed
  ultimately have "map_of ?kvs k = Some i" by (rule map_of_is_SomeI)
  with map_of_rev_distinct [OF \<open>distinct (map fst ?kvs)\<close>, of k] show ?thesis
    by (simp add: semantic_ranks_def bt_get_collect card xs_def)
qed

lemma normalize_semantic_scores_Inr:
  assumes "normalize_semantic_scores entries supplied = Inr (scores, ranks)"
  shows "bt_inv scores" and "ranks = semantic_ranks scores"
proof -
  from assms obtain ids where fold: "try_fold (score_step ids) [] supplied = Inr scores"
    and ranks: "ranks = semantic_ranks scores"
    by (auto simp: normalize_semantic_scores_def Let_def result_simps)
  show "ranks = semantic_ranks scores" by (rule ranks)
  show "bt_inv scores"
    by (rule try_fold_invariant [OF fold, where P = bt_inv])
      (auto simp: btree.inv_empty score_step_def btree.inv_insert split: if_splits)
qed

subsection \<open>Keyword occurrences\<close>

definition needle_of :: "ucd \<Rightarrow> str \<Rightarrow> bool \<Rightarrow> str" where
  "needle_of u keyword case_sensitive = (if case_sensitive then keyword else str_to_lowercase u keyword)"

text \<open>An occurrence of a keyword, between word boundaries where whole words are asked for.\<close>

definition keyword_occurs :: "ucd \<Rightarrow> activation_scan \<Rightarrow> str \<Rightarrow> bool \<Rightarrow> bool \<Rightarrow> bool" where
  "keyword_occurs u scan keyword case_sensitive whole_word \<longleftrightarrow>
     (\<exists>before after. matching_text scan case_sensitive = before @ needle_of u keyword case_sensitive @ after \<and>
       (whole_word \<longrightarrow> (before = [] \<or> \<not> is_word_character u (last before)) \<and>
         (after = [] \<or> \<not> is_word_character u (hd after))))"

text \<open>A text without a proper border cannot overlap another occurrence of itself.\<close>

definition unbordered :: "str \<Rightarrow> bool" where
  "unbordered needle \<longleftrightarrow> (\<forall>p. p \<noteq> [] \<and> p \<noteq> needle \<and> prefix p needle \<longrightarrow> \<not> suffix p needle)"

lemma unbordered_no_overlap:
  assumes "unbordered needle" and "needle @ r = x @ needle @ a" and "x \<noteq> []"
  shows "length needle \<le> length x"
proof -
  from assms(2) consider us where "needle = x @ us" "us @ r = needle @ a" | us where "needle @ us = x"
    unfolding append_eq_append_conv2 by blast
  then show ?thesis
  proof cases
    case 1
    from 1(2) consider vs where "us = needle @ vs" | vs where "us @ vs = needle"
      unfolding append_eq_append_conv2 by blast
    then show ?thesis
    proof cases
      case 1
      with \<open>needle = x @ us\<close> assms(3) have "length needle > length needle" by (metis append_Nil length_append
          length_greater_0_conv less_add_same_cancel2 trans_less_add1)
      then show ?thesis by simp
    next
      case 2
      have "prefix us needle" using 2 by (metis prefixI)
      moreover have "suffix us needle" using 1(1) by (metis suffixI)
      moreover have "us \<noteq> needle" using 1(1) assms(3) by (metis append_self_conv2)
      ultimately have "us = []" using assms(1) unfolding unbordered_def by blast
      with 1(1) show ?thesis by simp
    qed
  qed auto
qed

text \<open>Nor can an occurrence of a text of word characters, if a word boundary precedes it.\<close>

lemma word_no_overlap:
  assumes "list_all is_word needle" and "needle @ r = x @ needle @ a" and "x \<noteq> []" and "\<not> is_word (last x)"
  shows "length needle \<le> length x"
proof (rule ccontr)
  assume "\<not> length needle \<le> length x"
  then have inside: "length x - 1 < length needle" by simp
  have "(needle @ r) ! (length x - 1) = (x @ needle @ a) ! (length x - 1)" by (simp only: assms(2))
  with inside assms(3) have "x ! (length x - 1) = needle ! (length x - 1)" by (simp add: nth_append)
  with inside have "is_word (x ! (length x - 1))" using assms(1) by (metis list_all_length)
  with assms(3,4) show False by (simp add: last_conv_nth)
qed

text \<open>The needles for which the search for whole words misses nothing.\<close>

definition searchable :: "ucd \<Rightarrow> str \<Rightarrow> bool" where
  "searchable u needle \<longleftrightarrow> needle \<noteq> [] \<and> (unbordered needle \<or> list_all (is_word_character u) needle)"

lemma match_from_complete:
  assumes "\<And>r x a. needle @ r = x @ needle @ a \<Longrightarrow> x \<noteq> [] \<Longrightarrow> P (last x) \<Longrightarrow> length needle \<le> length x" and "needle \<noteq> []"
  shows "rest = x @ needle @ a \<Longrightarrow> x = [] \<or> P (last x) \<Longrightarrow> (before @ x, a) \<in> set (match_from needle before rest)"
proof (induction "length rest" arbitrary: before rest x rule: less_induct)
  case less
  have "rest \<noteq> []" using less.prems(1) assms(2) by simp
  then obtain c cs where rest: "rest = c # cs" by (meson list.exhaust)
  show ?case
  proof (cases "prefix needle rest")
    case True
    then obtain r where r: "rest = needle @ r" by (auto simp: prefix_def)
    then have unfold: "match_from needle before rest = (before, r) # match_from needle (before @ needle) r"
      using True assms(2) rest match_from_Cons [of needle before c cs] by (metis append_eq_conv_conj)
    show ?thesis
    proof (cases x)
      case Nil
      with less.prems r unfold show ?thesis by simp
    next
      case (Cons d ds)
      then have "length needle \<le> length x"
        using assms(1) [of r x a] less.prems r by simp
      then obtain y where y: "x = needle @ y"
        using less.prems r by (metis append_eq_append_conv_if append_take_drop_id)
      then have "r = y @ needle @ a" using less.prems r by simp
      moreover have "length r < length rest" using r assms(2) by simp
      moreover have "y = [] \<or> P (last y)" using less.prems(2) y by (cases y rule: rev_cases) auto
      ultimately have "((before @ needle) @ y, a) \<in> set (match_from needle (before @ needle) r)"
        using less.hyps by blast
      then show ?thesis unfolding unfold using y by simp
    qed
  next
    case False
    then obtain y where y: "x = c # y" using less.prems rest by (cases x) auto
    then have "cs = y @ needle @ a" using less.prems rest by simp
    moreover have "y = [] \<or> P (last y)" using less.prems(2) y by (cases y rule: rev_cases) auto
    ultimately have "((before @ [c]) @ y, a) \<in> set (match_from needle (before @ [c]) cs)"
      using less.hyps [of cs y "before @ [c]"] rest by simp
    then show ?thesis using False assms(2) rest y by (simp add: match_from_Cons)
  qed
qed

lemma searchable_complete:
  assumes "searchable u needle" and "before = [] \<or> \<not> is_word_character u (last before)"
  shows "(before, after) \<in> set (match_indices (before @ needle @ after) needle)"
proof -
  consider "unbordered needle" | "list_all (is_word_character u) needle" using assms(1) by (auto simp: searchable_def)
  then have "([] @ before, after) \<in> set (match_from needle [] (before @ needle @ after))"
  proof cases
    case 1
    then show ?thesis
      using assms(1) unbordered_no_overlap by (intro match_from_complete [where P = "\<lambda>_. True"]) (auto simp: searchable_def)
  next
    case 2
    then show ?thesis
      using assms word_no_overlap
      by (intro match_from_complete [where P = "\<lambda>c. \<not> is_word_character u c"]) (auto simp: searchable_def)
  qed
  then show ?thesis by (simp add: match_indices_def)
qed

lemma contains_keyword_occurs:
  assumes "contains_keyword u scan keyword cs ww"
  shows "keyword_occurs u scan keyword cs ww"
proof (cases ww)
  case True
  with assms show ?thesis
    by (fastforce simp: contains_keyword_def keyword_occurs_def needle_of_def Let_def list_ex_iff
        dest: match_indices_split)
next
  case False
  with assms show ?thesis
    by (auto simp: contains_keyword_def keyword_occurs_def needle_of_def Let_def contains_iff_sublist sublist_def)
qed

lemma contains_keyword_iff:
  assumes "ww \<longrightarrow> searchable u (needle_of u keyword cs)"
  shows "contains_keyword u scan keyword cs ww \<longleftrightarrow> keyword_occurs u scan keyword cs ww"
proof
  assume occ: "keyword_occurs u scan keyword cs ww"
  then obtain before after where split: "matching_text scan cs = before @ needle_of u keyword cs @ after"
    and words: "ww \<longrightarrow> (before = [] \<or> \<not> is_word_character u (last before)) \<and>
      (after = [] \<or> \<not> is_word_character u (hd after))"
    unfolding keyword_occurs_def by blast
  show "contains_keyword u scan keyword cs ww"
  proof (cases ww)
    case True
    then have "(before, after) \<in> set (match_indices (matching_text scan cs) (needle_of u keyword cs))"
      using searchable_complete [of u "needle_of u keyword cs" before after] assms split words by simp
    moreover have "(before = [] \<or> \<not> is_word_character u (last before)) \<and>
        (after = [] \<or> \<not> is_word_character u (hd after))" using True words by blast
    ultimately show ?thesis
      unfolding contains_keyword_def Let_def list_ex_iff needle_of_def if_P [OF True] not_not simp_thms
      using True by (simp only: if_True if_False not_True_eq_False) (rule bexI [rotated], assumption, simp)
  next
    case False
    with split show ?thesis
      by (auto simp: contains_keyword_def needle_of_def Let_def contains_iff_sublist sublist_def)
  qed
qed (rule contains_keyword_occurs)

lemma first_keyword_match_meaning:
  assumes "first_keyword_match u scan ws cs ww i b = (Inr r, b')"
  shows "case r of
    Some w \<Rightarrow> w \<in> set ws \<and> w \<noteq> [] \<and> contains_keyword u scan w cs ww
  | None \<Rightarrow> \<forall>w \<in> set ws. w \<noteq> [] \<longrightarrow> \<not> contains_keyword u scan w cs ww"
  using assms
proof (induction ws arbitrary: b)
  case (Cons w ws)
  show ?case
  proof (cases "w = []")
    case True
    with Cons.prems Cons.IH [of b] show ?thesis by (auto split: option.splits)
  next
    case False
    with Cons.prems obtain b1 where
      rest: "(if contains_keyword u scan w cs ww then st_return (Some w)
        else first_keyword_match u scan ws cs ww i) b1 = (Inr r, b')"
      by (auto simp: result_simps)
    with False Cons.IH [of b1] show ?thesis by (auto split: if_splits option.splits)
  qed
qed simp

subsection \<open>Properties\<close>

text \<open>
  The similarity rule is a top-k rule: a scored entry matches exactly when its score reaches the
  threshold and fewer than \<open>top_k\<close> scored entries rank before it, by higher score or, at equal
  scores, by smaller id; and the work meter is not touched.
\<close>

lemma semantic_rule_top_k:
  assumes "normalize_semantic_scores entries supplied = Inr (ec_semantic_scores ev, ec_semantic_rank ev)"
    and "bt_get (ec_semantic_scores ev) entry_id = Some s"
  shows "evaluate_rule env ev scan entry_id (Rule_Semantic threshold top_k) b =
    (Inr (if score_to_millionths threshold \<le> s \<and> card (better_scored (ec_semantic_scores ev) entry_id s) < top_k
          then Some [Reason_Semantic s] else None), b)"
proof -
  note norm = normalize_semantic_scores_Inr [OF assms(1)]
  from semantic_ranks_count [OF norm(1) assms(2)] norm(2) assms(2) show ?thesis by simp
qed

definition ascii_ucd :: ucd where
  "ascii_ucd =
     \<lparr>ucd_lower = (\<lambda>c. [if is_ascii_uppercase c then c + 32 else c]),
      ucd_cased = (\<lambda>c. is_ascii_uppercase c \<or> is_ascii_lowercase c),
      ucd_case_ignorable = (\<lambda>c. c = 39), ucd_alphanumeric = is_ascii_alphanumeric\<rparr>"

definition scan_of :: "str \<Rightarrow> str \<Rightarrow> activation_scan" where
  "scan_of original lowercase = \<lparr>as_original = original, as_lowercase = lowercase, as_characters = length original\<rparr>"

definition plain_env :: "ucd \<Rightarrow> unit engine_env" where
  "plain_env u =
     \<lparr>env_ucd = u, env_regex_build = (\<lambda>_ _ _ _. Inr ()), env_is_match = (\<lambda>_ _. False),
      env_sha256 = (\<lambda>b. replicate 32 0)\<rparr>"

definition scored_entry :: "string \<Rightarrow> knowledge_entry" where
  "scored_entry eid =
     \<lparr>ke_id = lit eid, ke_book_id = lit ''book'', ke_name = lit ''n'', ke_content = lit ''c'',
      ke_enabled = True, ke_activation = Rule_Semantic (Finite (1 / 2)) 1, ke_priority = 0, ke_importance = 50,
      ke_placement = RetrievedContext,
      ke_token_policy = \<lparr>tp_priority = 0, tp_min_tokens = None, tp_max_tokens = None, tp_reserve_tokens = None\<rparr>,
      ke_parent_id = None, ke_activation_probability_basis_points = 10000,
      ke_provenance = \<lparr>pv_source_kind = Generated, pv_source_id = None, pv_source_hash = None,
        pv_author = None, pv_license = None, pv_imported_at = None\<rparr>\<rparr>"

definition scored_context :: "unit evaluation_context" where
  "scored_context =
     \<lparr>ec_manual_entry_ids = {}, ec_semantic_scores = [(lit ''a'', 600000), (lit ''b'', 900000)],
      ec_semantic_rank = [(lit ''a'', 1), (lit ''b'', 0)], ec_variables = [],
      ec_supported_capabilities = [], ec_regexes = [], ec_activation_seed = 0\<rparr>"

lemma semantic_rule_top_k_example:
  "evaluate_rule (plain_env ascii_ucd) scored_context (scan_of [] []) (lit ''a'') (Rule_Semantic (Finite (1 / 2)) 1)
     work_budget_default = (Inr None, work_budget_default)"
proof -
  have norm: "normalize_semantic_scores [scored_entry ''a'', scored_entry ''b'']
      [\<lparr>sks_entry_id = lit ''a'', sks_score = Finite (3 / 5)\<rparr>, \<lparr>sks_entry_id = lit ''b'', sks_score = Finite (9 / 10)\<rparr>] =
    Inr (ec_semantic_scores scored_context, ec_semantic_rank scored_context)"
    by code_simp
  have "bt_get (ec_semantic_scores scored_context) (lit ''a'') = Some 600000" by code_simp
  note rule = semantic_rule_top_k [OF norm this, of "plain_env ascii_ucd" "scan_of [] []" "Finite (1 / 2)" 1 work_budget_default]
  have "better_scored (ec_semantic_scores scored_context) (lit ''a'') 600000 = {lit ''b''}"
    by (auto simp: better_scored_def scored_context_def lit_def split: if_splits)
  with rule show ?thesis by simp
qed

text \<open>
  Keyword search: a reported keyword is one of the rule's non-empty keywords and occurs in the
  scan text, in the requested case mode and between word boundaries when whole words are asked for.
  If none is reported, no keyword occurs that is searchable or need not be a whole word.
\<close>

lemma keyword_search_sound:
  assumes "first_keyword_match u scan words case_sensitive whole_word entry_id b = (Inr r, b')"
  shows "case r of
    Some w \<Rightarrow> w \<in> set words \<and> w \<noteq> [] \<and> keyword_occurs u scan w case_sensitive whole_word
  | None \<Rightarrow> \<forall>w \<in> set words. w \<noteq> [] \<and> (whole_word \<longrightarrow> searchable u (needle_of u w case_sensitive)) \<longrightarrow>
      \<not> keyword_occurs u scan w case_sensitive whole_word"
proof (cases r)
  case None
  with first_keyword_match_meaning [OF assms] contains_keyword_iff show ?thesis by (simp) blast
next
  case (Some w)
  with first_keyword_match_meaning [OF assms] contains_keyword_occurs show ?thesis by simp
qed

subsection \<open>Two missed occurrences\<close>

definition greek_ucd :: ucd where
  "greek_ucd =
     \<lparr>ucd_lower = (\<lambda>c. [if c = 913 then 945 else if c = 931 then 963 else c]),
      ucd_cased = (\<lambda>c. c \<in> {913, 931, 945, 962, 963}), ucd_case_ignorable = (\<lambda>c. False),
      ucd_alphanumeric = (\<lambda>c. c \<in> {913, 931, 945, 962, 963})\<rparr>"

text \<open>
  Two occurrences that the search misses.  The search for whole words looks at non-overlapping
  occurrences only: in \<open>xa a a\<close> it inspects the first \<open>a a\<close>, which is not a whole word, and then skips
  past the second, which is.  And the first scan text is lowered as a whole, which maps a final
  capital sigma to its final form, and so is the keyword, while the contents that recursive rounds
  append are lowered character by character, which does not: the same text matches in the first
  round and not in a later one.
\<close>

lemma keyword_search_gaps:
  "keyword_occurs ascii_ucd (scan_of (lit ''xa a a'') (lit ''xa a a'')) (lit ''a a'') True True \<and>
   \<not> contains_keyword ascii_ucd (scan_of (lit ''xa a a'') (lit ''xa a a'')) (lit ''a a'') True True \<and>
   (let word = [913, 931];
        fresh = scan_of word (str_to_lowercase greek_ucd word) in
    contains_keyword greek_ucd fresh word False False \<and>
    (case fst (scan_append_text (plain_env greek_ucd) (scan_of [] []) word (lit ''e'') work_budget_default) of
       Inl _ \<Rightarrow> False | Inr appended \<Rightarrow>
         as_original appended = word \<and> \<not> contains_keyword greek_ucd appended word False False))"
proof (intro conjI)
  have "matching_text (scan_of (lit ''xa a a'') (lit ''xa a a'')) True = lit ''xa '' @ needle_of ascii_ucd (lit ''a a'') True @ []"
    by code_simp
  moreover have "\<not> is_word_character ascii_ucd (last (lit ''xa ''))" by code_simp
  ultimately show "keyword_occurs ascii_ucd (scan_of (lit ''xa a a'') (lit ''xa a a'')) (lit ''a a'') True True"
    unfolding keyword_occurs_def by blast
qed code_simp+

text \<open>
  C38. Keyword search: a reported keyword is always one of the rule's non-empty keywords and occurs in the
  scan text, in the requested case mode and between word boundaries when whole words are asked for.
  If none is reported, no keyword occurs, except perhaps, among whole words, one that contains a character which is not
  a word character and also begins and ends with the same text (or that lower-casing makes empty).  Such keywords are missed: in
  \<open>xa a a\<close> the whole word \<open>a a\<close>; and a word that ends in a capital sigma matches the first scan of a text but not the same
  text appended by a recursive round.
\<close>

theorem keyword_search_correct:
  "(first_keyword_match u scan words case_sensitive whole_word entry_id b = (Inr r, b') \<longrightarrow>
    (case r of
       Some w \<Rightarrow> w \<in> set words \<and> w \<noteq> [] \<and> keyword_occurs u scan w case_sensitive whole_word
     | None \<Rightarrow> \<forall>w \<in> set words. w \<noteq> [] \<and> (whole_word \<longrightarrow> searchable u (needle_of u w case_sensitive)) \<longrightarrow>
         \<not> keyword_occurs u scan w case_sensitive whole_word)) \<and>
   keyword_occurs ascii_ucd (scan_of (lit ''xa a a'') (lit ''xa a a'')) (lit ''a a'') True True \<and>
   \<not> contains_keyword ascii_ucd (scan_of (lit ''xa a a'') (lit ''xa a a'')) (lit ''a a'') True True \<and>
   (let word = [913, 931];
        fresh = scan_of word (str_to_lowercase greek_ucd word) in
    contains_keyword greek_ucd fresh word False False \<and>
    (case fst (scan_append_text (plain_env greek_ucd) (scan_of [] []) word (lit ''e'') work_budget_default) of
       Inl _ \<Rightarrow> False | Inr appended \<Rightarrow>
         as_original appended = word \<and> \<not> contains_keyword greek_ucd appended word False False))"
  using keyword_search_gaps keyword_search_sound [of u scan words case_sensitive whole_word entry_id b r b'] by blast

theorem keyword_search_correct_witness:
  "\<not> keyword_occurs ascii_ucd (scan_of (lit ''levels bob'') (lit ''levels bob'')) (lit ''level'') True True \<and>
   keyword_occurs ascii_ucd (scan_of (lit ''levels bob'') (lit ''levels bob'')) (lit ''bob'') True True"
proof -
  let ?scan = "scan_of (lit ''levels bob'') (lit ''levels bob'')"
  let ?run = "\<lambda>w. first_keyword_match ascii_ucd ?scan [w] True True (lit ''e'') work_budget_default"
  have "(case fst (?run (lit ''level'')) of Inr None \<Rightarrow> True | _ \<Rightarrow> False)"
    "(case fst (?run (lit ''bob'')) of Inr (Some w) \<Rightarrow> w = lit ''bob'' | _ \<Rightarrow> False)" by code_simp+
  then obtain b c where run: "?run (lit ''level'') = (Inr None, b)" "?run (lit ''bob'') = (Inr (Some (lit ''bob'')), c)"
    by (cases "?run (lit ''level'')"; cases "?run (lit ''bob'')") (auto split: sum.splits option.splits)
  have "list_all (is_word_character ascii_ucd) (lit ''level'')" "lit ''level'' \<noteq> []" by code_simp+
  then have "searchable ascii_ucd (needle_of ascii_ucd (lit ''level'') True)" by (simp add: searchable_def needle_of_def)
  with run \<open>lit ''level'' \<noteq> []\<close> show ?thesis
    using keyword_search_correct [of ascii_ucd ?scan "[lit ''level'']" True True "lit ''e''" work_budget_default None b]
      keyword_search_correct [of ascii_ucd ?scan "[lit ''bob'']" True True "lit ''e''" work_budget_default "Some (lit ''bob'')" c]
    by simp
qed

end
