(* ===== verification/Rust_Parse.thy ===== *)
theory Rust_Parse
  imports Rust_Text Rust_Float
begin

section \<open>Splitting, trimming and parsing strings\<close>

text \<open>
  The string methods of the standard library that the portable text renderer uses: trimming,
  searching, splitting and replacing, and \<open>str::parse\<close> for integers and floats.

  Positions are positions in the list of characters.  Rust's byte offsets are used only to slice at
  the boundaries of ASCII delimiters, where the two correspond.
\<close>

subsection \<open>Characters\<close>

text \<open>\<open>char::is_whitespace\<close>: the Unicode property \<open>White_Space\<close>.\<close>

definition is_whitespace :: "uchar \<Rightarrow> bool" where
  "is_whitespace c \<longleftrightarrow>
     9 \<le> c \<and> c \<le> 13 \<or> c = 32 \<or> c = 133 \<or> c = 160 \<or> c = 5760 \<or> 8192 \<le> c \<and> c \<le> 8202 \<or>
     c = 8232 \<or> c = 8233 \<or> c = 8239 \<or> c = 8287 \<or> c = 12288"

text \<open>\<open>char::is_control\<close>: the Unicode category \<open>Cc\<close>.\<close>

definition is_control :: "uchar \<Rightarrow> bool" where
  "is_control c \<longleftrightarrow> c < 32 \<or> 127 \<le> c \<and> c < 160"

definition char_to_ascii_lowercase :: "uchar \<Rightarrow> uchar" where
  "char_to_ascii_lowercase c = (if is_ascii_uppercase c then c + 32 else c)"

definition to_ascii_lowercase :: "str \<Rightarrow> str" where
  "to_ascii_lowercase t = map char_to_ascii_lowercase t"

subsection \<open>Trimming and prefixes\<close>

definition trim_start :: "str \<Rightarrow> str" where
  "trim_start t = dropWhile is_whitespace t"

definition trim :: "str \<Rightarrow> str" where
  "trim t = rev (dropWhile is_whitespace (rev (trim_start t)))"

definition strip_prefix :: "str \<Rightarrow> str \<Rightarrow> str option" where
  "strip_prefix p t = (if prefix p t then Some (drop (length p) t) else None)"

text \<open>\<open>t.trim_start_matches(p)\<close> for a non-empty pattern.\<close>

function trim_start_matches :: "str \<Rightarrow> str \<Rightarrow> str" where
  "trim_start_matches p t =
     (if p \<noteq> [] \<and> prefix p t then trim_start_matches p (drop (length p) t) else t)"
  by pat_completeness auto
termination
  by (relation "measure (\<lambda>(p, t). length t)") (auto simp: prefix_def)

declare trim_start_matches.simps [simp del]

subsection \<open>Searching and splitting\<close>

definition slice :: "nat \<Rightarrow> nat \<Rightarrow> 'a list \<Rightarrow> 'a list" where
  "slice a b t = take (b - a) (drop a t)"

definition replace_range :: "str \<Rightarrow> nat \<Rightarrow> nat \<Rightarrow> str \<Rightarrow> str" where
  "replace_range t a b v = take a t @ v @ drop b t"

fun split_once :: "str \<Rightarrow> str \<Rightarrow> (str \<times> str) option" where
  "split_once sep [] = (if sep = [] then Some ([], []) else None)"
| "split_once sep (c # cs) =
     (if prefix sep (c # cs) then Some ([], drop (length sep) (c # cs))
      else map_option (\<lambda>(a, b). (c # a, b)) (split_once sep cs))"

definition str_find :: "str \<Rightarrow> str \<Rightarrow> nat option" where
  "str_find t needle = map_option (\<lambda>(a, b). length a) (split_once needle t)"

fun str_rfind :: "str \<Rightarrow> str \<Rightarrow> nat option" where
  "str_rfind [] needle = (if needle = [] then Some 0 else None)"
| "str_rfind (c # cs) needle =
     (case str_rfind cs needle of
        Some i \<Rightarrow> Some (Suc i)
      | None \<Rightarrow> if prefix needle (c # cs) then Some 0 else None)"

lemma split_once_Some: "split_once sep t = Some (a, b) \<Longrightarrow> t = a @ sep @ b"
  by (induction t arbitrary: a b) (auto simp: prefix_def split: if_splits)

lemma split_once_None: "split_once sep t = None \<longleftrightarrow> \<not> contains t sep"
  by (induction t) auto

text \<open>\<open>t.split(sep)\<close> for a non-empty separator.\<close>

function split :: "str \<Rightarrow> str \<Rightarrow> str list" where
  "split sep t =
     (if sep = [] then [t]
      else case split_once sep t of None \<Rightarrow> [t] | Some (a, b) \<Rightarrow> a # split sep b)"
  by pat_completeness auto
termination
  by (relation "measure (\<lambda>(sep, t). length t)") (auto dest: split_once_Some)

declare split.simps [simp del]

lemma split_nonempty [simp]: "split sep t \<noteq> []"
  by (subst split.simps) (auto split: option.split)

fun join :: "str \<Rightarrow> str list \<Rightarrow> str" where
  "join sep [] = []"
| "join sep [x] = x"
| "join sep (x # y # ys) = x @ sep @ join sep (y # ys)"

text \<open>\<open>t.replace(from, to)\<close> for a non-empty pattern: the pieces between its occurrences, joined.\<close>

definition str_replace :: "str \<Rightarrow> str \<Rightarrow> str \<Rightarrow> str" where
  "str_replace t old new = join new (split old t)"

lemma join_Cons: "ys \<noteq> [] \<Longrightarrow> join sep (x # ys) = x @ sep @ join sep ys"
  by (cases ys) simp_all

lemma join_split: "join sep (split sep t) = t"
proof (induction sep t rule: split.induct)
  case (1 sep t)
  show ?case
  proof (cases "sep = [] \<or> split_once sep t = None")
    case True
    then show ?thesis by (subst split.simps) auto
  next
    case False
    then obtain a b where ab: "split_once sep t = Some (a, b)" by auto
    have "split sep t = a # split sep b" using False ab by (subst split.simps) simp
    with 1 [OF _ ab] False ab show ?thesis
      by (auto simp: join_Cons dest: split_once_Some)
  qed
qed

subsection \<open>Integers\<close>

definition all_digits :: "str \<Rightarrow> bool" where
  "all_digits t \<longleftrightarrow> t \<noteq> [] \<and> list_all is_ascii_digit t"

text \<open>\<open>t.parse::<u64>()\<close>, with an optional plus sign.\<close>

definition parse_u64 :: "str \<Rightarrow> nat option" where
  "parse_u64 t =
     (let digits = (case t of c # cs \<Rightarrow> if c = 43 then cs else t | [] \<Rightarrow> []) in
      if all_digits digits \<and> read_nat digits \<le> u64_max then Some (read_nat digits) else None)"

definition i64_min :: int where "i64_min = - 9223372036854775808"
definition i64_max :: int where "i64_max = 9223372036854775807"

definition parse_i64 :: "str \<Rightarrow> int option" where
  "parse_i64 t =
     (let (negative, digits) =
        (case t of c # cs \<Rightarrow> if c = 43 then (False, cs) else if c = 45 then (True, cs) else (False, t)
         | [] \<Rightarrow> (False, []));
        v = (if negative then - int (read_nat digits) else int (read_nat digits)) in
      if all_digits digits \<and> i64_min \<le> v \<and> v \<le> i64_max then Some v else None)"

definition i64_saturate :: "int \<Rightarrow> int" where
  "i64_saturate v = max i64_min (min i64_max v)"

fun show_int :: "int \<Rightarrow> str" where
  "show_int i = (if i < 0 then lit ''-'' @ show_nat (nat (- i)) else show_nat (nat i))"

subsection \<open>Floats\<close>

text \<open>
  Rounding to binary64: the nearest multiple of the unit in the last place, ties to even, with
  gradual underflow below \<open>2 powi (- 1022)\<close> and overflow to infinity.
\<close>

definition round_half_even :: "rat \<Rightarrow> int" where
  "round_half_even r =
     (let q = \<lfloor>r\<rfloor>; d = r - of_int q in
      if d > 1 / 2 \<or> d = 1 / 2 \<and> odd q then q + 1 else q)"

text \<open>The exponent \<open>e\<close> with \<open>2 powi e \<le> r < 2 powi (e + 1)\<close>, for a positive rational.\<close>

definition rat_log2 :: "rat \<Rightarrow> int" where
  "rat_log2 r =
     (let (n, d) = quotient_of r;
          e = int (bit_length (nat n)) - int (bit_length (nat d)) in
      if 2 powi e \<le> r then e else e - 1)"

definition round_f64 :: "rat \<Rightarrow> float" where
  "round_f64 r =
     (if r = 0 then Finite 0
      else let e = max (rat_log2 \<bar>r\<bar> - 52) (- 1074);
               v = of_int (round_half_even (\<bar>r\<bar> / 2 powi e)) * 2 powi e in
        if rat_log2 v \<ge> 1024 then Infinite (r > 0)
        else Finite (if r < 0 then - v else v))"

fun float_sub :: "float \<Rightarrow> float \<Rightarrow> float" where
  "float_sub (Finite a) (Finite b) = round_f64 (a - b)"
| "float_sub (Finite a) (Infinite p) = Infinite (\<not> p)"
| "float_sub (Infinite p) (Finite b) = Infinite p"
| "float_sub (Infinite p) (Infinite q) = (if p = q then NaN else Infinite p)"
| "float_sub _ _ = NaN"

fun float_abs :: "float \<Rightarrow> float" where
  "float_abs (Finite a) = Finite \<bar>a\<bar>"
| "float_abs (Infinite p) = Infinite True"
| "float_abs NaN = NaN"

text \<open>
  \<open>t.parse::<f64>()\<close>: an optional sign, then \<open>inf\<close>, \<open>infinity\<close> or \<open>nan\<close> in any case, or digits with
  an optional point and exponent, at least one digit before the exponent.
\<close>

definition parse_exponent :: "str \<Rightarrow> int option" where
  "parse_exponent t =
     (let (negative, digits) =
        (case t of c # cs \<Rightarrow> if c = 43 then (False, cs) else if c = 45 then (True, cs) else (False, t)
         | [] \<Rightarrow> (False, [])) in
      if all_digits digits then Some (if negative then - int (read_nat digits) else int (read_nat digits))
      else None)"

definition parse_number :: "str \<Rightarrow> rat option" where
  "parse_number t =
     (let (whole, rest) = (takeWhile is_ascii_digit t, dropWhile is_ascii_digit t);
          (point, rest) = (case rest of c # cs \<Rightarrow> if c = 46 then (True, cs) else (False, rest) | [] \<Rightarrow> (False, []));
          (fraction, rest) =
            (if point then (takeWhile is_ascii_digit rest, dropWhile is_ascii_digit rest) else ([], rest));
          mantissa = (of_nat (read_nat (whole @ fraction)) :: rat) / 10 ^ length fraction in
      if whole = [] \<and> fraction = [] then None
      else case rest of
        [] \<Rightarrow> Some mantissa
      | c # cs \<Rightarrow>
          if c = 101 \<or> c = 69 then map_option (\<lambda>e. mantissa * 10 powi e) (parse_exponent cs)
          else None)"

definition parse_unsigned_f64 :: "bool \<Rightarrow> str \<Rightarrow> float option" where
  "parse_unsigned_f64 negative t =
     (let word = to_ascii_lowercase t in
      if word = lit ''inf'' \<or> word = lit ''infinity'' then Some (Infinite (\<not> negative))
      else if word = lit ''nan'' then Some NaN
      else map_option (\<lambda>r. round_f64 (if negative then - r else r)) (parse_number t))"

definition parse_f64 :: "str \<Rightarrow> float option" where
  "parse_f64 t =
     (case t of
        c # cs \<Rightarrow> if c = 43 then parse_unsigned_f64 False cs
          else if c = 45 then parse_unsigned_f64 True cs else parse_unsigned_f64 False t
      | [] \<Rightarrow> None)"

end
