(* ===== verification/Template.thy ===== *)
theory Template
  imports Knowledge_Activation Rust_Parse
begin

section \<open>Conditions and templates\<close>

text \<open>
  \<open>crates/orchestration/src/template.rs\<close>: the condition evaluator and the renderer that the prompt
  resolver uses.  Both validate first and then walk the validated tree; every missing input is an
  error, unlike in the knowledge engine, whose evaluator treats it as a condition that does not hold.

  How a decimal is printed (\<open>f64: Display\<close>) is a parameter \<open>show_decimal\<close>.
\<close>

record template_slot =
  ts_name :: str
  ts_value :: str

record template_environment =
  te_variables :: variable_map
  te_capabilities :: "capability_key list"
  te_character_name :: str
  te_user_name :: str
  te_persona_name :: "str option"
  te_persona_description :: "str option"
  te_current_date :: str
  te_current_time :: str
  te_slots :: "template_slot list"

datatype template_error =
    TE_Invalid str
  | TE_MissingVariable str
  | TE_IncompatibleVariable str
  | TE_MissingSlot str
  | TE_OutputLimit nat

subsection \<open>Variables\<close>

definition variable_label :: "variable_ref \<Rightarrow> str" where
  "variable_label variable =
     (case vr_namespace variable of
        None \<Rightarrow> vr_id variable
      | Some namespace \<Rightarrow> namespace @ lit ''.'' @ vr_id variable)"

definition incompatible :: "variable_ref \<Rightarrow> template_error" where
  "incompatible variable = TE_IncompatibleVariable (variable_label variable)"

definition require_variable ::
  "variable_map \<Rightarrow> variable_ref \<Rightarrow> (template_error, variable_value) result" where
  "require_variable variables variable =
     ok_or (TE_MissingVariable (variable_label variable)) (variable_map_get variables variable)"

fun format_variable :: "(float \<Rightarrow> str) \<Rightarrow> variable_value \<Rightarrow> str" where
  "format_variable show_decimal (VBool b) = (if b then lit ''true'' else lit ''false'')"
| "format_variable show_decimal (VInteger i) = show_int i"
| "format_variable show_decimal (VDecimal v) = show_decimal v"
| "format_variable show_decimal (VText v) = v"
| "format_variable show_decimal (VEnum v) = v"
| "format_variable show_decimal (VStringList vs) = join (lit '', '') vs"

fun built_in_value :: "built_in_template_value \<Rightarrow> template_environment \<Rightarrow> str" where
  "built_in_value CharacterName env = te_character_name env"
| "built_in_value UserName env = te_user_name env"
| "built_in_value PersonaName env = (case te_persona_name env of None \<Rightarrow> [] | Some v \<Rightarrow> v)"
| "built_in_value PersonaDescription env = (case te_persona_description env of None \<Rightarrow> [] | Some v \<Rightarrow> v)"
| "built_in_value CurrentDate env = te_current_date env"
| "built_in_value CurrentTime env = te_current_time env"

subsection \<open>Conditions\<close>

fun evaluate_condition_validated ::
  "condition_expr \<Rightarrow> variable_map \<Rightarrow> capability_key list \<Rightarrow> (template_error, bool) result"
and evaluate_all_of ::
  "condition_expr list \<Rightarrow> variable_map \<Rightarrow> capability_key list \<Rightarrow> (template_error, bool) result"
and evaluate_any_of ::
  "condition_expr list \<Rightarrow> variable_map \<Rightarrow> capability_key list \<Rightarrow> (template_error, bool) result" where
  "evaluate_condition_validated Cond_True variables capabilities = Inr True"
| "evaluate_condition_validated Cond_False variables capabilities = Inr False"
| "evaluate_condition_validated (Cond_Equals variable v) variables capabilities =
     result_bind (require_variable variables variable) (\<lambda>actual. Inr (variable_value_eq actual v))"
| "evaluate_condition_validated (Cond_NotEquals variable v) variables capabilities =
     result_bind (require_variable variables variable) (\<lambda>actual. Inr (\<not> variable_value_eq actual v))"
| "evaluate_condition_validated (Cond_GreaterThan variable v) variables capabilities =
     result_bind (require_variable variables variable) (\<lambda>actual.
     result_bind
       (case actual of
          VInteger i \<Rightarrow> Inr (i64_to_f64 i)
        | VDecimal d \<Rightarrow> Inr d
        | _ \<Rightarrow> Inl (incompatible variable)) (\<lambda>actual.
     Inr (float_less v actual)))"
| "evaluate_condition_validated (Cond_Contains variable v) variables capabilities =
     result_bind (require_variable variables variable) (\<lambda>actual.
       case actual of
         VText t \<Rightarrow> Inr (contains t v)
       | VEnum t \<Rightarrow> Inr (contains t v)
       | VStringList ts \<Rightarrow> Inr (v \<in> set ts)
       | _ \<Rightarrow> Inl (incompatible variable))"
| "evaluate_condition_validated (Cond_Exists variable) variables capabilities =
     Inr (variable_map_get variables variable \<noteq> None)"
| "evaluate_condition_validated (Cond_ModelSupports capability) variables capabilities =
     Inr (capability \<in> set capabilities)"
| "evaluate_condition_validated (Cond_All expressions) variables capabilities =
     evaluate_all_of expressions variables capabilities"
| "evaluate_condition_validated (Cond_Any expressions) variables capabilities =
     evaluate_any_of expressions variables capabilities"
| "evaluate_condition_validated (Cond_Not expression) variables capabilities =
     result_bind (evaluate_condition_validated expression variables capabilities) (\<lambda>b. Inr (\<not> b))"
| "evaluate_all_of [] variables capabilities = Inr True"
| "evaluate_all_of (e # es) variables capabilities =
     result_bind (evaluate_condition_validated e variables capabilities) (\<lambda>b.
       if b then evaluate_all_of es variables capabilities else Inr False)"
| "evaluate_any_of [] variables capabilities = Inr False"
| "evaluate_any_of (e # es) variables capabilities =
     result_bind (evaluate_condition_validated e variables capabilities) (\<lambda>b.
       if b then Inr True else evaluate_any_of es variables capabilities)"

definition template_condition ::
  "condition_expr \<Rightarrow> variable_map \<Rightarrow> capability_key list \<Rightarrow> (template_error, bool) result" where
  "template_condition expression variables capabilities =
     result_bind (map_err (\<lambda>e. TE_Invalid (validation_error_to_string e)) (condition_validate expression)) (\<lambda>_.
     evaluate_condition_validated expression variables capabilities)"

subsection \<open>Rendering\<close>

text \<open>The output and its running character count.\<close>

type_synonym render_state = "str \<times> nat"

definition append_bounded :: "nat \<Rightarrow> render_state \<Rightarrow> str \<Rightarrow> (template_error, render_state) result" where
  "append_bounded limit st v =
     (case st of (output, output_chars) \<Rightarrow>
      case checked_add usize_max output_chars (length v) of
        None \<Rightarrow> Inl (TE_OutputLimit (try_from_or u32_max u32_max limit))
      | Some next_count \<Rightarrow>
          if next_count > limit then Inl (TE_OutputLimit (try_from_or u32_max u32_max limit))
          else Inr (output @ v, next_count))"

definition append_joined ::
  "nat \<Rightarrow> str \<Rightarrow> render_state \<Rightarrow> nat \<times> str \<Rightarrow> (template_error, render_state) result" where
  "append_joined limit separator st iv =
     (case iv of (index, v) \<Rightarrow>
      result_bind (if index > 0 then append_bounded limit st separator else Inr st) (\<lambda>st.
      append_bounded limit st v))"

fun render_validated ::
  "(float \<Rightarrow> str) \<Rightarrow> template_environment \<Rightarrow> safe_template \<Rightarrow> (template_error, str) result"
and render_part ::
  "(float \<Rightarrow> str) \<Rightarrow> template_environment \<Rightarrow> nat \<Rightarrow> render_state \<Rightarrow> template_part \<Rightarrow>
     (template_error, render_state) result" where
  "render_validated show_decimal env (SafeTemplate parts max_output_chars) =
     result_bind (try_fold (render_part show_decimal env max_output_chars) ([], 0) parts)
       (\<lambda>(output, _). Inr output)"
| "render_part show_decimal env limit st (Part_Text v) = append_bounded limit st v"
| "render_part show_decimal env limit st (Part_Variable variable) =
     result_bind (require_variable (te_variables env) variable) (\<lambda>v.
     append_bounded limit st (format_variable show_decimal v))"
| "render_part show_decimal env limit st (Part_BuiltIn v) = append_bounded limit st (built_in_value v env)"
| "render_part show_decimal env limit st (Part_Slot slot_name) =
     result_bind (ok_or (TE_MissingSlot slot_name)
       (map_option ts_value (find (\<lambda>slot. ts_name slot = slot_name) (te_slots env)))) (\<lambda>v.
     append_bounded limit st v)"
| "render_part show_decimal env limit st (Part_Join variable separator) =
     result_bind (require_variable (te_variables env) variable) (\<lambda>v.
       case v of
         VStringList vs \<Rightarrow> try_fold (append_joined limit separator) st (enumerate 0 vs)
       | _ \<Rightarrow> Inl (incompatible variable))"
| "render_part show_decimal env limit st (Part_Conditional condition then_template else_template) =
     result_bind (evaluate_condition_validated condition (te_variables env) (te_capabilities env)) (\<lambda>b.
       if b then
         result_bind (render_validated show_decimal env then_template) (\<lambda>rendered.
         append_bounded limit st rendered)
       else case else_template of
         None \<Rightarrow> Inr st
       | Some selected \<Rightarrow>
           result_bind (render_validated show_decimal env selected) (\<lambda>rendered.
           append_bounded limit st rendered))"

definition render_safe_template ::
  "(float \<Rightarrow> str) \<Rightarrow> safe_template \<Rightarrow> template_environment \<Rightarrow> (template_error, str) result" where
  "render_safe_template show_decimal template env =
     result_bind (map_err (\<lambda>e. TE_Invalid (validation_error_to_string e)) (template_validate template)) (\<lambda>_.
     render_validated show_decimal env template)"

end
