(* ===== verification/Template_Properties.thy ===== *)
theory Template_Properties
  imports Template
begin

section \<open>Properties of conditions and templates\<close>

text \<open>
  The bounded renderer refines a plain expansion of the template, and the two condition evaluators
  of the program agree wherever the strict one succeeds.
\<close>

subsection \<open>Plain expansion\<close>

text \<open>What a template denotes when output limits are ignored.\<close>

fun expand ::
  "(float \<Rightarrow> str) \<Rightarrow> template_environment \<Rightarrow> safe_template \<Rightarrow> (template_error, str) result"
and expand_part ::
  "(float \<Rightarrow> str) \<Rightarrow> template_environment \<Rightarrow> template_part \<Rightarrow> (template_error, str) result" where
  "expand show_decimal env (SafeTemplate parts max_output_chars) =
     try_fold (\<lambda>out part. result_bind (expand_part show_decimal env part) (\<lambda>t. Inr (out @ t))) [] parts"
| "expand_part show_decimal env (Part_Text v) = Inr v"
| "expand_part show_decimal env (Part_Variable variable) =
     result_bind (require_variable (te_variables env) variable) (\<lambda>v. Inr (format_variable show_decimal v))"
| "expand_part show_decimal env (Part_BuiltIn v) = Inr (built_in_value v env)"
| "expand_part show_decimal env (Part_Slot slot_name) =
     ok_or (TE_MissingSlot slot_name) (map_option ts_value (find (\<lambda>slot. ts_name slot = slot_name) (te_slots env)))"
| "expand_part show_decimal env (Part_Join variable separator) =
     result_bind (require_variable (te_variables env) variable) (\<lambda>v.
       case v of VStringList vs \<Rightarrow> Inr (join separator vs) | _ \<Rightarrow> Inl (incompatible variable))"
| "expand_part show_decimal env (Part_Conditional condition then_template else_template) =
     result_bind (evaluate_condition_validated condition (te_variables env) (te_capabilities env)) (\<lambda>b.
       if b then expand show_decimal env then_template
       else case else_template of None \<Rightarrow> Inr [] | Some selected \<Rightarrow> expand show_decimal env selected)"

text \<open>A bounded step appends a text and keeps the count within the limit, or reports the limit.\<close>

definition render_ok :: "nat \<Rightarrow> render_state \<Rightarrow> bool" where
  "render_ok limit st \<longleftrightarrow> snd st = length (fst st) \<and> length (fst st) \<le> limit"

definition bounded_step ::
  "nat \<Rightarrow> render_state \<Rightarrow> (template_error, str) result \<Rightarrow> (template_error, render_state) result \<Rightarrow> bool" where
  "bounded_step limit st plain r \<longleftrightarrow>
     (case r of
        Inr st' \<Rightarrow> \<exists>t. plain = Inr t \<and> fst st' = fst st @ t \<and> render_ok limit st'
      | Inl e \<Rightarrow> (\<exists>n. e = TE_OutputLimit n) \<or> plain = Inl e)"

lemma append_bounded_step:
  "render_ok limit st \<Longrightarrow> bounded_step limit st (Inr v) (append_bounded limit st v)"
  by (cases st) (auto simp: bounded_step_def append_bounded_def checked_add_def render_ok_def)

lemma bounded_step_skip: "render_ok limit st \<Longrightarrow> bounded_step limit st (Inr []) (Inr st)"
  by (simp add: bounded_step_def)

lemma bounded_step_error: "bounded_step limit st (Inl e) (Inl e)"
  by (simp add: bounded_step_def)

lemma bounded_step_bind:
  assumes "bounded_step limit st (Inr t) r"
    and "\<And>st'. r = Inr st' \<Longrightarrow> fst st' = fst st @ t \<Longrightarrow> render_ok limit st' \<Longrightarrow> bounded_step limit st' (Inr u) (f st')"
  shows "bounded_step limit st (Inr (t @ u)) (result_bind r f)"
proof (cases r)
  case (Inl e)
  with assms(1) show ?thesis by (simp add: bounded_step_def)
next
  case (Inr st')
  with assms(1) have "fst st' = fst st @ t" "render_ok limit st'" by (auto simp: bounded_step_def)
  with assms(2) [OF Inr] Inr show ?thesis by (auto simp: bounded_step_def split: sum.splits)
qed

fun join_from :: "nat \<Rightarrow> str \<Rightarrow> str list \<Rightarrow> str" where
  "join_from n sep [] = []"
| "join_from n sep (x # xs) = ((if n > 0 then sep else []) @ x) @ join_from (Suc n) sep xs"

lemma join_from_join: "join_from 0 sep xs = join sep xs"
proof -
  have rest: "join_from (Suc n) sep ys = (if ys = [] then [] else sep @ join sep ys)" for n ys
    by (induction ys arbitrary: n) (auto simp: neq_Nil_conv)
  show ?thesis by (cases xs) (auto simp: rest neq_Nil_conv)
qed

lemma append_joined_step:
  "render_ok limit st \<Longrightarrow>
     bounded_step limit st (Inr ((if n > 0 then sep else []) @ v)) (append_joined limit sep st (n, v))"
  unfolding append_joined_def prod.case
  by (rule bounded_step_bind) (auto intro: append_bounded_step bounded_step_skip)

lemma join_step:
  "render_ok limit st \<Longrightarrow>
     bounded_step limit st (Inr (join_from n sep vs)) (try_fold (append_joined limit sep) st (enumerate n vs))"
proof (induction vs arbitrary: st n)
  case (Cons v vs)
  show ?case
    unfolding join_from.simps enumerate_simps try_fold.simps
    by (rule bounded_step_bind [OF append_joined_step [OF Cons.prems]]) (rule Cons.IH)
qed (simp add: bounded_step_skip)

definition expand_parts :: "(float \<Rightarrow> str) \<Rightarrow> template_environment \<Rightarrow> str \<Rightarrow> template_part list \<Rightarrow> (template_error, str) result" where
  "expand_parts show_decimal env out parts =
     try_fold (\<lambda>out part. result_bind (expand_part show_decimal env part) (\<lambda>t. Inr (out @ t))) out parts"

lemma parts_step:
  assumes "\<And>part st. part \<in> set parts \<Longrightarrow> render_ok limit st \<Longrightarrow>
      bounded_step limit st (expand_part show_decimal env part) (render_part show_decimal env limit st part)"
    and "render_ok limit st"
  shows "case try_fold (render_part show_decimal env limit) st parts of
    Inr st' \<Rightarrow> expand_parts show_decimal env (fst st) parts = Inr (fst st') \<and> render_ok limit st'
  | Inl e \<Rightarrow> (\<exists>n. e = TE_OutputLimit n) \<or> expand_parts show_decimal env (fst st) parts = Inl e"
  using assms
proof (induction parts arbitrary: st)
  case Nil
  then show ?case by (simp add: expand_parts_def)
next
  case (Cons part parts)
  have step: "bounded_step limit st (expand_part show_decimal env part) (render_part show_decimal env limit st part)"
    using Cons.prems by simp
  show ?case
  proof (cases "render_part show_decimal env limit st part")
    case (Inl e)
    with step show ?thesis by (auto simp: bounded_step_def expand_parts_def)
  next
    case (Inr st1)
    with step obtain t where t: "expand_part show_decimal env part = Inr t"
      "fst st1 = fst st @ t" "render_ok limit st1"
      by (auto simp: bounded_step_def)
    have "expand_parts show_decimal env (fst st) (part # parts) = expand_parts show_decimal env (fst st1) parts"
      by (simp add: expand_parts_def t)
    with Cons.IH [OF Cons.prems(1) t(3)] Inr show ?thesis by (auto split: sum.splits)
  qed
qed

lemma nested_step:
  assumes "case r of Inr out \<Rightarrow> plain = Inr out \<and> length out \<le> n
      | Inl e \<Rightarrow> (\<exists>n. e = TE_OutputLimit n) \<or> plain = Inl e" and "render_ok limit st"
  shows "bounded_step limit st plain (result_bind r (append_bounded limit st))"
proof (cases r)
  case (Inl e)
  with assms(1) show ?thesis by (auto simp: bounded_step_def)
next
  case (Inr out)
  with assms append_bounded_step show ?thesis by simp
qed

lemma render_refines:
  "case render_validated show_decimal env t of
     Inr out \<Rightarrow> expand show_decimal env t = Inr out \<and> length out \<le> tpl_max_output_chars t
   | Inl e \<Rightarrow> (\<exists>n. e = TE_OutputLimit n) \<or> expand show_decimal env t = Inl e"
  "render_ok limit st \<Longrightarrow>
     bounded_step limit st (expand_part show_decimal env part) (render_part show_decimal env limit st part)"
proof (induction show_decimal env t and show_decimal env limit st part rule: render_validated_render_part.induct)
  case (1 show_decimal env parts max_output_chars)
  have "render_ok max_output_chars ([], 0)" by (simp add: render_ok_def)
  with parts_step [of parts max_output_chars show_decimal env "([], 0)"] 1
  show ?case by (auto simp: expand_parts_def render_ok_def split: sum.splits)
next
  case (3 show_decimal env limit st variable)
  then show ?case
    by (cases "require_variable (te_variables env) variable") (simp_all add: bounded_step_error append_bounded_step)
next
  case (5 show_decimal env limit st slot_name)
  then show ?case
    by (cases "find (\<lambda>slot. ts_name slot = slot_name) (te_slots env)")
      (simp_all add: bounded_step_error append_bounded_step)
next
  case (6 show_decimal env limit st variable separator)
  then show ?case
    by (cases "require_variable (te_variables env) variable")
      (auto simp: bounded_step_error join_step join_from_join [symmetric] split: variable_value.split)
next
  case (7 show_decimal env limit st condition then_template else_template)
  then show ?case
    by (cases "evaluate_condition_validated condition (te_variables env) (te_capabilities env)"; cases else_template)
      (auto simp: bounded_step_error bounded_step_skip intro!: nested_step)
qed (simp_all add: append_bounded_step)

subsection \<open>The two condition evaluators\<close>

text \<open>Variable maps as validation leaves them: their decimals are finite.\<close>

definition finite_decimals :: "variable_map \<Rightarrow> bool" where
  "finite_decimals variables \<longleftrightarrow> (\<forall>b \<in> set variables. case vb_value b of VDecimal d \<Rightarrow> is_finite d | _ \<Rightarrow> True)"

lemma validate_variable_map_finite: "validate_variable_map variables path = Inr () \<Longrightarrow> finite_decimals variables"
proof -
  assume ok: "validate_variable_map variables path = Inr ()"
  have "\<forall>(i, b) \<in> set (enumerate 0 variables). \<exists>p. validate_variable_value (vb_value b) p = Inr ()"
    using ok by (fastforce simp: validate_variable_map_def result_simps)
  then have "\<forall>b \<in> set variables. \<exists>p. validate_variable_value (vb_value b) p = Inr ()"
    using ball_enumerate [of 0 variables "\<lambda>b. \<exists>p. validate_variable_value (vb_value b) p = Inr ()"] by simp
  then show ?thesis by (fastforce simp: finite_decimals_def split: variable_value.split)
qed

lemma finite_decimals_get:
  "finite_decimals variables \<Longrightarrow> variable_map_get variables key = Some (VDecimal d) \<Longrightarrow> is_finite d"
  by (induction variables key rule: variable_map_get.induct) (auto simp: finite_decimals_def split: if_splits)

text \<open>The thresholds of a validated condition are finite.\<close>

fun finite_thresholds :: "condition_expr \<Rightarrow> bool" where
  "finite_thresholds (Cond_GreaterThan _ v) = is_finite v"
| "finite_thresholds (Cond_All es) = list_all finite_thresholds es"
| "finite_thresholds (Cond_Any es) = list_all finite_thresholds es"
| "finite_thresholds (Cond_Not e) = finite_thresholds e"
| "finite_thresholds _ = True"

lemma visit_condition_children:
  assumes "visit_condition (Cond_All es) p d n = Inr m \<or> visit_condition (Cond_Any es) p d n = Inr m" and "e \<in> set es"
  shows "\<exists>p d n m. visit_condition e p d n = Inr m"
proof -
  from assms(1) have "try_fold (\<lambda>n (i, child). visit_condition child (path_index p i) (d + 1) n)
      (n + 1) (enumerate 0 es) = Inr m"
    by (auto simp: visit_condition.simps [of "Cond_All es"] visit_condition.simps [of "Cond_Any es"]
        Let_def split: if_splits)
  note all = try_fold_all [OF this]
  obtain i where "(i, e) \<in> set (enumerate 0 es)" using assms(2) set_enumerate_ex by metis
  with all show ?thesis by fastforce
qed

lemma visit_condition_finite: "visit_condition e p d n = Inr m \<Longrightarrow> finite_thresholds e"
proof (induction e arbitrary: p d n m rule: finite_thresholds.induct)
  case (1 variable v)
  then show ?case by (auto simp: visit_condition.simps [of "Cond_GreaterThan _ _"] Let_def result_simps split: if_splits)
next
  case (2 es)
  then show ?case using visit_condition_children by (simp add: list_all_iff) blast
next
  case (3 es)
  then show ?case using visit_condition_children by (simp add: list_all_iff) blast
next
  case (4 e)
  then show ?case by (auto simp: visit_condition.simps [of "Cond_Not _"] Let_def split: if_splits)
qed simp_all

lemma evaluators_agree:
  "evaluate_condition_validated e variables capabilities = Inr b \<Longrightarrow> finite_decimals variables \<Longrightarrow>
     finite_thresholds e \<Longrightarrow> evaluate_condition e variables capabilities = b"
  "evaluate_all_of es variables capabilities = Inr b \<Longrightarrow> finite_decimals variables \<Longrightarrow>
     list_all finite_thresholds es \<Longrightarrow> list_all (\<lambda>e. evaluate_condition e variables capabilities) es = b"
  "evaluate_any_of es variables capabilities = Inr b \<Longrightarrow> finite_decimals variables \<Longrightarrow>
     list_all finite_thresholds es \<Longrightarrow> list_ex (\<lambda>e. evaluate_condition e variables capabilities) es = b"
proof (induction e variables capabilities and es variables capabilities and es variables capabilities
    arbitrary: b and b and b
    rule: evaluate_condition_validated_evaluate_all_of_evaluate_any_of.induct)
  case (5 variable v variables capabilities)
  then show ?case
    by (cases "variable_map_get variables variable")
      (auto simp: require_variable_def result_simps integer_greater_than_def dest: finite_decimals_get
        split: variable_value.splits if_splits)
next
  case (6 variable v variables capabilities)
  then show ?case
    by (cases "variable_map_get variables variable")
      (auto simp: require_variable_def result_simps list_ex_iff split: variable_value.splits)
next
  case (13 e es variables capabilities)
  from "13.prems"(1) obtain x where x: "evaluate_condition_validated e variables capabilities = Inr x"
    by (auto simp: result_simps)
  show ?case using "13.IH"(1) [OF x] "13.IH"(2) [of x] "13.prems" x by (cases x) simp_all
next
  case (15 e es variables capabilities)
  from "15.prems"(1) obtain x where x: "evaluate_condition_validated e variables capabilities = Inr x"
    by (auto simp: result_simps)
  show ?case using "15.IH"(1) [OF x] "15.IH"(2) [of x] "15.prems" x by (cases x) simp_all
qed (auto simp: require_variable_def result_simps variable_equals_def split: if_splits)

subsection \<open>Properties\<close>

text \<open>
  C39. Rendering refines plain expansion: a rendered text is what the template expands to, and has at
  most the number of characters the template allows; a failure is the limit of some template or the
  very error of the expansion.
\<close>

theorem render_template_refines:
  "case render_safe_template show_decimal t env of
     Inr out \<Rightarrow> expand show_decimal env t = Inr out \<and> length out \<le> tpl_max_output_chars t \<and>
       length out \<le> MAX_TEMPLATE_OUTPUT_CHARS
   | Inl e \<Rightarrow> (\<exists>m. e = TE_Invalid m) \<or> (\<exists>n. e = TE_OutputLimit n) \<or> expand show_decimal env t = Inl e"
proof (cases "template_validate t")
  case (Inl e)
  then show ?thesis by (simp add: render_safe_template_def)
next
  case (Inr u)
  then have "tpl_max_output_chars t \<le> MAX_TEMPLATE_OUTPUT_CHARS"
    by (cases t) (auto simp: template_validate_def validate_template_def result_simps split: if_splits)
  with render_refines(1) [of show_decimal env t] Inr show ?thesis
    by (auto simp: render_safe_template_def split: sum.splits)
qed

text \<open>
  The two condition evaluators agree: whenever the strict evaluator of the templates accepts a
  condition over validated variables, the lenient evaluator of the knowledge engine gives the same
  truth value.
\<close>

theorem condition_evaluators_agree:
  assumes "template_condition e variables capabilities = Inr b"
    and "validate_variable_map variables path = Inr ()"
  shows "evaluate_condition e variables capabilities = b"
proof -
  from assms(1) obtain m where "visit_condition e (lit ''condition'') 0 0 = Inr m"
    and strict: "evaluate_condition_validated e variables capabilities = Inr b"
    by (auto simp: template_condition_def condition_validate_def validate_condition_def result_simps)
  then show ?thesis
    using evaluators_agree(1) [OF strict] visit_condition_finite validate_variable_map_finite [OF assms(2)] by blast
qed

definition sample_variable :: variable_ref where
  "sample_variable = \<lparr>vr_scope = Scope_Conversation, vr_namespace = None, vr_id = lit ''mood''\<rparr>"

theorem condition_evaluators_agree_witness:
  "evaluate_condition
     (Cond_All [Cond_Exists sample_variable, Cond_Not (Cond_GreaterThan sample_variable (Finite 5))])
     [\<lparr>vb_variable = sample_variable, vb_value = VInteger 3\<rparr>] [] = True"
proof (rule condition_evaluators_agree)
  show "template_condition (Cond_All [Cond_Exists sample_variable, Cond_Not (Cond_GreaterThan sample_variable (Finite 5))])
     [\<lparr>vb_variable = sample_variable, vb_value = VInteger 3\<rparr>] [] = Inr True" by code_simp
  show "validate_variable_map [\<lparr>vb_variable = sample_variable, vb_value = VInteger 3\<rparr>] (lit ''v'') = Inr ()"
    by code_simp
qed

end
