(* ===== verification/Prompt_Types.thy ===== *)
theory Prompt_Types
  imports Template
begin

section \<open>The data of prompt resolution\<close>

text \<open>
  Presets, blocks and controls, the context a prompt is resolved in, and the plan that results, as
  \<open>crates/domain/src/orchestration.rs\<close> declares them.
\<close>

subsection \<open>Blocks\<close>

datatype role_hint = Role_System | Role_Developer | Role_User | Role_Assistant | Role_ProviderDefault

datatype instruction_authority =
  Auth_Application | Auth_Creator | Auth_User | Auth_Conversation | Auth_ImportedContent

datatype prompt_block_kind =
    Kind_StaticInstruction | Kind_CharacterIdentity | Kind_CharacterDescription
  | Kind_CharacterPersonality | Kind_Scenario | Kind_UserPersona | Kind_DialogueExamples
  | Kind_WorldKnowledge | Kind_RetrievedMemory | Kind_ConversationSummary | Kind_HistorySlice
  | Kind_LatestUserTurn | Kind_AuthorNote | Kind_PostHistoryInstruction | Kind_AssistantPrefill
  | Kind_GroupContext

datatype placement_zone =
    Zone_ApplicationPolicy | Zone_PresetInstruction | Zone_CharacterContext | Zone_RetrievedContext
  | Zone_OlderHistory | Zone_RecentEnhancement | Zone_RecentHistory | Zone_PostHistory
  | Zone_LatestUser | Zone_AssistantPrefill

text \<open>The derived order of \<open>PlacementZone\<close> is the order of its variants.\<close>

fun placement_zone_index :: "placement_zone \<Rightarrow> nat" where
  "placement_zone_index Zone_ApplicationPolicy = 0"
| "placement_zone_index Zone_PresetInstruction = 1"
| "placement_zone_index Zone_CharacterContext = 2"
| "placement_zone_index Zone_RetrievedContext = 3"
| "placement_zone_index Zone_OlderHistory = 4"
| "placement_zone_index Zone_RecentEnhancement = 5"
| "placement_zone_index Zone_RecentHistory = 6"
| "placement_zone_index Zone_PostHistory = 7"
| "placement_zone_index Zone_LatestUser = 8"
| "placement_zone_index Zone_AssistantPrefill = 9"

lemma placement_zone_index_inj: "placement_zone_index a = placement_zone_index b \<Longrightarrow> a = b"
  by (cases a; cases b) simp_all

instantiation placement_zone :: linorder
begin

definition less_eq_placement_zone :: "placement_zone \<Rightarrow> placement_zone \<Rightarrow> bool" where
  "less_eq_placement_zone a b \<longleftrightarrow> placement_zone_index a \<le> placement_zone_index b"

definition less_placement_zone :: "placement_zone \<Rightarrow> placement_zone \<Rightarrow> bool" where
  "less_placement_zone a b \<longleftrightarrow> placement_zone_index a < placement_zone_index b"

instance
  by standard
    (auto simp: less_eq_placement_zone_def less_placement_zone_def intro: placement_zone_index_inj)

end

datatype history_selector =
    History_All
  | History_BeforeRecentTurns nat
  | History_RecentTurns nat
  | History_ExcludingLatestUser nat
  | History_RelativeMessageRange int "int option"
  | History_MessageRange str str
  | History_SinceSummary str

datatype overflow_policy =
    Overflow_Reject | Overflow_DropBlock | Overflow_TrimHead | Overflow_TrimTail
  | Overflow_KeepLatestItems | Overflow_Summarize | Overflow_ReduceKnowledgeEntries

datatype merge_policy = SeparateMessage | MergeWithPreviousSameRole

datatype character_field =
    Field_Name | Field_Description | Field_Personality | Field_Scenario | Field_FirstMessage
  | Field_DialogueExamples | Field_SystemInstruction | Field_PostHistoryInstruction

datatype block_source =
    Src_Template
  | Src_CharacterField character_field
  | Src_History
  | Src_LatestUser
  | Src_SelectedKnowledge
  | Src_SelectedMemory
  | Src_ConversationSummary
  | Src_AuthorNote
  | Src_UserPersona
  | Src_GroupContext

record prompt_block =
  pb_id :: str
  pb_name :: str
  pb_kind :: prompt_block_kind
  pb_enabled :: bool
  pb_role_hint :: role_hint
  pb_authority :: instruction_authority
  pb_template :: "safe_template option"
  pb_condition :: "condition_expr option"
  pb_source :: block_source
  pb_placement_zone :: placement_zone
  pb_history_selector :: "history_selector option"
  pb_token_policy :: token_policy
  pb_overflow_policy :: overflow_policy
  pb_merge_policy :: merge_policy
  pb_provenance :: provenance

subsection \<open>Controls, cache boundaries and presets\<close>

datatype variable_type = Type_Bool | Type_Integer | Type_Decimal | Type_Text | Type_Enum | Type_StringList

datatype control_kind =
    Control_Toggle | Control_Select | Control_MultiSelect | Control_Text | Control_Number
  | Control_Slider | Control_Section | Control_Caption | Control_Divider

record control_option =
  co_value :: variable_value
  co_label :: str

record control_spec =
  cs_id :: str
  cs_label :: str
  cs_description :: str
  cs_kind :: control_kind
  cs_value_type :: "variable_type option"
  cs_variable :: "variable_ref option"
  cs_default_value :: "variable_value option"
  cs_options :: "control_option list"
  cs_minimum :: "float option"
  cs_maximum :: "float option"
  cs_step :: "float option"
  cs_visible_when :: "condition_expr option"
  cs_scope :: variable_scope
  cs_sensitive :: bool
  cs_requires_regeneration :: bool

datatype cache_role_filter = Filter_All | Filter_SystemLike | Filter_ExactRole role_hint

datatype cache_ttl = Ttl_ProviderDefault | Ttl_Short | Ttl_Long

datatype cache_mode = Cache_Automatic | Cache_Explicit | Cache_Disabled

record cache_boundary =
  cb_id :: str
  cb_after_block_id :: str
  cb_role_filter :: cache_role_filter
  cb_ttl :: cache_ttl
  cb_mode :: cache_mode

record preset_metadata =
  pm_description :: str
  pm_tags :: "str list"
  pm_provenance :: provenance
  pm_created_at :: date_time
  pm_updated_at :: date_time
  pm_local_override_of :: "str option"

record prompt_preset =
  pp_id :: str
  pp_name :: str
  pp_schema_version :: nat
  pp_blocks :: "prompt_block list"
  pp_controls :: "control_spec list"
  pp_default_values :: variable_map
  pp_default_generation_preset_id :: "str option"
  pp_memory_profile_id :: "str option"
  pp_knowledge_book_ids :: "str list"
  pp_transform_set_ids :: "str list"
  pp_module_ids :: "str list"
  pp_cache_boundaries :: "cache_boundary list"
  pp_metadata :: preset_metadata

subsection \<open>The resolution context\<close>

record character_prompt_content =
  ch_character_id :: str
  ch_name :: str
  ch_aliases :: "str list"
  ch_description :: str
  ch_personality :: str
  ch_scenario :: str
  ch_first_message :: str
  ch_dialogue_examples :: "str list"
  ch_system_instruction :: str
  ch_post_history_instruction :: str
  ch_alternate_greetings :: "str list"
  ch_knowledge_book_ids :: "str list"
  ch_asset_ids :: "str list"

record persona_prompt_content =
  pe_persona_id :: str
  pe_name :: str
  pe_description :: str

datatype prompt_message_role = Msg_System | Msg_User | Msg_Assistant

record prompt_conversation_message =
  cm_id :: str
  cm_branch_id :: str
  cm_role :: prompt_message_role
  cm_content :: str
  cm_turn_index :: nat

record selected_knowledge =
  sk_entry_id :: str
  sk_content :: str
  sk_placement :: knowledge_placement
  sk_priority :: int
  sk_evidence :: "knowledge_activation_reason list"
  sk_provenance :: provenance

record selected_memory =
  sm_record_id :: str
  sm_branch_id :: str
  sm_content :: str
  sm_score_millionths :: nat
  sm_reason :: str
  sm_provenance :: provenance

record summary_boundary =
  sb_summary_id :: str
  sb_end_message_id :: str

record prompt_context_binding_evidence =
  be_binding_id :: str
  be_binding_revision :: nat
  be_document_sha256 :: str

record prompt_context_persona_evidence =
  pev_selection_revision :: nat
  pev_persona_id :: str
  pev_persona_revision_id :: str
  pev_persona_sha256 :: str

record prompt_summary_source_evidence =
  sse_summary_id :: str
  sse_record_branch_id :: str
  sse_source_start_message_id :: str
  sse_source_end_message_id :: str
  sse_state_revision :: nat
  sse_active_revision_id :: str
  sse_active_revision_sha256 :: str

record prompt_context_snapshot =
  sn_schema_version :: nat
  sn_conversation_id :: str
  sn_source_branch_id :: str
  sn_context_head_message_id :: "str option"
  sn_local_user_id_sha256 :: str
  sn_binding :: "prompt_context_binding_evidence option"
  sn_persona :: "prompt_context_persona_evidence option"
  sn_conversation_summary_id :: "str option"
  sn_summaries :: "prompt_summary_source_evidence list"
  sn_snapshot_sha256 :: str

record prompt_resolution_context =
  rc_conversation_id :: str
  rc_branch_id :: str
  rc_character :: character_prompt_content
  rc_persona :: "persona_prompt_content option"
  rc_user_name :: str
  rc_messages :: "prompt_conversation_message list"
  rc_latest_user_message_id :: str
  rc_selected_knowledge :: "selected_knowledge list"
  rc_selected_memory :: "selected_memory list"
  rc_summary_boundaries :: "summary_boundary list"
  rc_conversation_summary :: "str option"
  rc_author_note :: "str option"
  rc_group_context :: "str option"
  rc_variables :: variable_map
  rc_slots :: "template_slot list"
  rc_current_date :: str
  rc_current_time :: str
  rc_supported_capabilities :: "capability_key list"
  rc_session_seed :: "nat option"
  rc_context_snapshot :: "prompt_context_snapshot option"

datatype provider_message_role = PRole_System | PRole_Developer | PRole_User | PRole_Assistant

fun provider_message_role_index :: "provider_message_role \<Rightarrow> nat" where
  "provider_message_role_index PRole_System = 0"
| "provider_message_role_index PRole_Developer = 1"
| "provider_message_role_index PRole_User = 2"
| "provider_message_role_index PRole_Assistant = 3"

lemma provider_message_role_index_inj:
  "provider_message_role_index a = provider_message_role_index b \<Longrightarrow> a = b"
  by (cases a; cases b) simp_all

instantiation provider_message_role :: linorder
begin

definition less_eq_provider_message_role :: "provider_message_role \<Rightarrow> provider_message_role \<Rightarrow> bool" where
  "less_eq_provider_message_role a b \<longleftrightarrow> provider_message_role_index a \<le> provider_message_role_index b"

definition less_provider_message_role :: "provider_message_role \<Rightarrow> provider_message_role \<Rightarrow> bool" where
  "less_provider_message_role a b \<longleftrightarrow> provider_message_role_index a < provider_message_role_index b"

instance
  by standard
    (auto simp: less_eq_provider_message_role_def less_provider_message_role_def
      intro: provider_message_role_index_inj)

end

datatype unsupported_role_policy =
  Policy_Reject | Policy_MapDeveloperToSystem | Policy_MapSystemToDeveloper | Policy_UseProviderDefault

record provider_prompt_contract =
  pc_supported_roles :: "provider_message_role list"
  pc_provider_default_role :: provider_message_role
  pc_unsupported_role_policy :: unsupported_role_policy
  pc_supports_explicit_cache :: bool
  pc_max_cache_boundaries :: nat

record prompt_resolve_request =
  rq_preset :: prompt_preset
  rq_context :: prompt_resolution_context
  rq_provider :: provider_prompt_contract
  rq_generation_preset_id :: "str option"
  rq_max_context_tokens :: nat
  rq_reserved_output_tokens :: nat

subsection \<open>The resolved plan\<close>

record resolved_prompt_message =
  rm_sequence :: nat
  rm_block_id :: str
  rm_block_kind :: prompt_block_kind
  rm_requested_role :: role_hint
  rm_effective_role :: provider_message_role
  rm_authority :: instruction_authority
  rm_content :: str
  rm_estimated_tokens :: nat
  rm_source_message_ids :: "str list"
  rm_provenance :: provenance

datatype cache_directive_status =
  Cache_Applied | Cache_IgnoredUnsupported | Cache_IgnoredLimit | Cache_RemovedWithBlock

record resolved_cache_directive =
  cd_boundary_id :: str
  cd_after_block_id :: str
  cd_after_message_sequence :: "nat option"
  cd_role_filter :: cache_role_filter
  cd_ttl :: cache_ttl
  cd_mode :: cache_mode
  cd_status :: cache_directive_status
  cd_explanation :: str

datatype block_resolution_status =
    Status_Included | Status_ConditionFalse | Status_Disabled | Status_Empty
  | Status_DroppedForBudget | Status_TrimmedHead | Status_TrimmedTail | Status_ReducedItems
  | Status_Summarized

record prompt_block_source_trace =
  bs_authority :: instruction_authority
  bs_source_kind :: source_kind
  bs_source_id :: "str option"
  bs_source_revision :: "str option"
  bs_source_hash :: "str option"

datatype prompt_memory_selection_lane = PLane_Pinned | PLane_Semantic | PLane_Episodic

datatype prompt_memory_selection_reason =
    PReason_Pinned
  | PReason_CurrentBranch
  | PReason_SharedAncestor str
  | PReason_Recency nat
  | PReason_Similarity nat
  | PReason_Importance nat

record prompt_memory_selection_evidence =
  me_record_id :: str
  me_selected :: bool
  me_lane :: "prompt_memory_selection_lane option"
  me_rank_millionths :: "nat option"
  me_estimated_tokens :: nat
  me_reasons :: "prompt_memory_selection_reason list"
  me_exclusion_reason :: "str option"

record block_resolution_trace =
  bt_block_id :: str
  bt_block_kind :: prompt_block_kind
  bt_source :: prompt_block_source_trace
  bt_status :: block_resolution_status
  bt_original_estimated_tokens :: nat
  bt_final_estimated_tokens :: nat
  bt_produced_message_count :: nat
  bt_explanation :: str
  bt_knowledge_evidence :: "knowledge_selection_evidence list"
  bt_memory_record_ids :: "str list"
  bt_memory_evidence :: "prompt_memory_selection_evidence list"

record role_mapping_trace =
  rt_block_id :: str
  rt_requested_role :: role_hint
  rt_effective_role :: provider_message_role
  rt_explanation :: str

record overflow_trace =
  ot_block_id :: str
  ot_policy :: overflow_policy
  ot_tokens_before :: nat
  ot_tokens_after :: nat
  ot_explanation :: str

record prompt_resolution_trace =
  tr_estimator_id :: str
  tr_session_seed :: "nat option"
  tr_context_snapshot :: "prompt_context_snapshot option"
  tr_max_context_tokens :: nat
  tr_reserved_output_tokens :: nat
  tr_available_input_tokens :: nat
  tr_estimated_input_tokens :: nat
  tr_blocks :: "block_resolution_trace list"
  tr_role_mappings :: "role_mapping_trace list"
  tr_overflow :: "overflow_trace list"
  tr_warnings :: "str list"

record prompt_preview =
  pv_effective_messages :: "resolved_prompt_message list"
  pv_cache_directives :: "resolved_cache_directive list"
  pv_estimated_input_tokens :: nat
  pv_available_input_tokens :: nat

record resolved_prompt_plan =
  pl_schema_version :: nat
  pl_preset_id :: str
  pl_generation_preset_id :: "str option"
  pl_effective_messages :: "resolved_prompt_message list"
  pl_cache_directives :: "resolved_cache_directive list"
  pl_trace :: prompt_resolution_trace
  pl_preview :: prompt_preview
  pl_plan_hash :: str

subsection \<open>External code\<close>

text \<open>
  What prompt resolution calls outside the repository: the \<open>hex\<close> and \<open>sha2\<close> crates and the JSON
  encoders and parsers that \<open>serde\<close> derives.  An encoder returns the text of its error on failure.
  \<open>px_show_decimal\<close> is how the standard library prints a decimal.
\<close>

record prompt_env =
  px_hex_ok :: "str \<Rightarrow> bool"
  px_hex_encode :: "bytes \<Rightarrow> str"
  px_sha256 :: "bytes \<Rightarrow> bytes"
  px_show_decimal :: "float \<Rightarrow> str"
  px_json_value :: "variable_value \<Rightarrow> (str, str) result"
  px_json_snapshot :: "prompt_context_snapshot \<Rightarrow> (str, bytes) result"
  px_json_plan :: "resolved_prompt_plan \<Rightarrow> (str, bytes) result"
  px_memory_reasons :: "str \<Rightarrow> prompt_memory_selection_reason list option"

end
