(* ===== verification/Prompt_Validation.thy ===== *)
theory Prompt_Validation
  imports Prompt_Types
begin

section \<open>Validation of presets and resolve requests\<close>

text \<open>
  The validators of \<open>PromptPreset\<close> and \<open>PromptResolveRequest\<close> in
  \<open>crates/domain/src/orchestration.rs\<close>, in the order of the source: the first violation is returned.
\<close>

definition MAX_PROMPT_BLOCKS :: nat where "MAX_PROMPT_BLOCKS = 256"
definition MAX_PROMPT_CONTROLS :: nat where "MAX_PROMPT_CONTROLS = 256"
definition MAX_HISTORY_MESSAGES :: nat where "MAX_HISTORY_MESSAGES = 16384"
definition MAX_MEMORY_RECORDS :: nat where "MAX_MEMORY_RECORDS = 4096"
definition MAX_MODULE_COMPONENTS :: nat where "MAX_MODULE_COMPONENTS = 8192"

abbreviation has_duplicate :: "'a::linorder list \<Rightarrow> bool" where
  "has_duplicate xs \<equiv> adjacent_dup (sort_by cmp xs) \<noteq> None"

lemma has_duplicate_conv: "has_duplicate xs \<longleftrightarrow> \<not> distinct xs"
  by (simp add: adjacent_dup_sort_distinct [symmetric])

definition at_most :: "nat \<Rightarrow> string \<Rightarrow> str" where
  "at_most maximum what = lit ''must contain at most '' @ show_nat maximum @ lit '' '' @ lit what"

definition validate_id_list :: "str \<Rightarrow> str list \<Rightarrow> nat \<Rightarrow> (validation_error, unit) result" where
  "validate_id_list path vs maximum =
     checks
       [reject_if (length vs > maximum) path (at_most maximum ''identifiers''),
        try_for (\<lambda>(i, v). validate_id (path_index path i) v) (enumerate 0 vs),
        reject_if (has_duplicate vs) path (lit ''identifiers must be unique'')]"

subsection \<open>Blocks\<close>

fun prompt_block_kind_matches_source :: "prompt_block_kind \<Rightarrow> block_source \<Rightarrow> bool" where
  "prompt_block_kind_matches_source kind Src_History = (kind = Kind_HistorySlice)"
| "prompt_block_kind_matches_source kind Src_LatestUser = (kind = Kind_LatestUserTurn)"
| "prompt_block_kind_matches_source kind Src_SelectedKnowledge = (kind = Kind_WorldKnowledge)"
| "prompt_block_kind_matches_source kind Src_SelectedMemory = (kind = Kind_RetrievedMemory)"
| "prompt_block_kind_matches_source kind Src_ConversationSummary = (kind = Kind_ConversationSummary)"
| "prompt_block_kind_matches_source kind Src_AuthorNote = (kind = Kind_AuthorNote)"
| "prompt_block_kind_matches_source kind Src_UserPersona = (kind = Kind_UserPersona)"
| "prompt_block_kind_matches_source kind Src_GroupContext = (kind = Kind_GroupContext)"
| "prompt_block_kind_matches_source kind (Src_CharacterField field) =
     (case field of
        Field_Name \<Rightarrow> kind = Kind_CharacterIdentity
      | Field_Description \<Rightarrow> kind = Kind_CharacterDescription
      | Field_Personality \<Rightarrow> kind = Kind_CharacterPersonality
      | Field_Scenario \<Rightarrow> kind = Kind_Scenario
      | Field_DialogueExamples \<Rightarrow> kind = Kind_DialogueExamples
      | Field_SystemInstruction \<Rightarrow> kind = Kind_StaticInstruction
      | Field_PostHistoryInstruction \<Rightarrow> kind = Kind_PostHistoryInstruction
      | Field_FirstMessage \<Rightarrow> kind = Kind_StaticInstruction \<or> kind = Kind_AssistantPrefill)"
| "prompt_block_kind_matches_source kind Src_Template =
     (kind \<notin> set [Kind_CharacterIdentity, Kind_CharacterDescription, Kind_CharacterPersonality,
        Kind_Scenario, Kind_UserPersona, Kind_DialogueExamples, Kind_WorldKnowledge,
        Kind_RetrievedMemory, Kind_ConversationSummary, Kind_HistorySlice, Kind_LatestUserTurn,
        Kind_AuthorNote, Kind_PostHistoryInstruction, Kind_GroupContext])"

definition validate_block_kind :: "prompt_block \<Rightarrow> str \<Rightarrow> (validation_error, unit) result" where
  "validate_block_kind block path =
     (case pb_kind block of
        Kind_LatestUserTurn \<Rightarrow>
          reject_if
            (pb_placement_zone block \<noteq> Zone_LatestUser \<or> pb_source block \<noteq> Src_LatestUser \<or>
             \<not> pb_enabled block \<or> pb_template block \<noteq> None \<or> pb_history_selector block \<noteq> None \<or>
             pb_role_hint block \<noteq> Role_User \<or> pb_overflow_policy block \<noteq> Overflow_Reject) path
            (lit ''latest-user block must be enabled, fixed to latest_user, and reject overflow'')
      | Kind_AssistantPrefill \<Rightarrow>
          reject_if
            (pb_placement_zone block \<noteq> Zone_AssistantPrefill \<or> pb_role_hint block \<noteq> Role_Assistant)
            (path @ lit ''.placement_zone'')
            (lit ''assistant prefill must use the assistant-prefill zone'')
      | _ \<Rightarrow> Inr ())"

definition validate_prompt_block ::
  "(str \<Rightarrow> bool) \<Rightarrow> prompt_block \<Rightarrow> str \<Rightarrow> (validation_error, unit) result" where
  "validate_prompt_block hex_ok block path =
     checks
       [validate_id (path @ lit ''.id'') (pb_id block),
        validate_text (path @ lit ''.name'') (pb_name block) 1 MAX_NAME_CHARS,
        validate_optional (\<lambda>t. validate_template t (path @ lit ''.template'')) (pb_template block),
        validate_optional (\<lambda>c. validate_condition c (path @ lit ''.condition'')) (pb_condition block),
        reject_if
          (case (tp_min_tokens (pb_token_policy block), tp_max_tokens (pb_token_policy block)) of
             (Some minimum, Some maximum) \<Rightarrow> minimum > maximum | _ \<Rightarrow> False)
          (path @ lit ''.token_policy'') (lit ''minimum tokens must not exceed maximum tokens''),
        validate_block_kind block path,
        reject_if ((pb_source block = Src_History) \<noteq> (pb_history_selector block \<noteq> None))
          (path @ lit ''.history_selector'')
          (lit ''history selectors are required only for history sources''),
        reject_if (\<not> prompt_block_kind_matches_source (pb_kind block) (pb_source block))
          (path @ lit ''.source'') (lit ''prompt block kind and source are semantically inconsistent''),
        reject_if
          ((pb_placement_zone block = Zone_ApplicationPolicy) \<noteq> (pb_authority block = Auth_Application))
          (path @ lit ''.authority'')
          (lit ''application authority is reserved for the fixed application-policy zone''),
        validate_provenance hex_ok (pb_provenance block) (path @ lit ''.provenance'')]"

text \<open>The loop over the blocks carries the previous zone, the number of latest-user blocks and whether the previous block was a prefill.\<close>

definition validate_preset_block_step ::
  "(str \<Rightarrow> bool) \<Rightarrow> placement_zone \<times> nat \<times> bool \<Rightarrow> nat \<times> prompt_block \<Rightarrow>
     (validation_error, placement_zone \<times> nat \<times> bool) result" where
  "validate_preset_block_step hex_ok st ib =
     (case st of (previous_zone, latest_user_count, prefill_seen) \<Rightarrow>
      case ib of (index, block) \<Rightarrow>
      let path = path_index (lit ''blocks'') index in
      result_bind (validate_prompt_block hex_ok block path) (\<lambda>_.
      result_bind (reject_if (pb_placement_zone block < previous_zone) (path @ lit ''.placement_zone'')
        (lit ''blocks must be ordered by placement zone'')) (\<lambda>_.
      result_bind (reject_if prefill_seen path
        (lit ''assistant prefill must be the final block'')) (\<lambda>_.
      Inr (pb_placement_zone block,
        latest_user_count + (if pb_kind block = Kind_LatestUserTurn then 1 else 0),
        pb_kind block = Kind_AssistantPrefill)))))"

definition validate_prompt_preset_blocks ::
  "(str \<Rightarrow> bool) \<Rightarrow> prompt_preset \<Rightarrow> (validation_error, unit) result" where
  "validate_prompt_preset_blocks hex_ok preset =
     result_bind (try_fold (validate_preset_block_step hex_ok) (Zone_ApplicationPolicy, 0, False)
       (enumerate 0 (pp_blocks preset))) (\<lambda>(_, latest_user_count, _).
     checks
       [reject_if (has_duplicate (map pb_id (pp_blocks preset))) (lit ''blocks'')
          (lit ''block identifiers must be unique''),
        reject_if (latest_user_count \<noteq> 1) (lit ''blocks'')
          (lit ''exactly one latest-user block is required'')])"

subsection \<open>Controls\<close>

fun variable_value_type :: "variable_value \<Rightarrow> variable_type" where
  "variable_value_type (VBool _) = Type_Bool"
| "variable_value_type (VInteger _) = Type_Integer"
| "variable_value_type (VDecimal _) = Type_Decimal"
| "variable_value_type (VText _) = Type_Text"
| "variable_value_type (VEnum _) = Type_Enum"
| "variable_value_type (VStringList _) = Type_StringList"

definition control_kind_accepts :: "control_kind \<Rightarrow> variable_type \<Rightarrow> bool" where
  "control_kind_accepts kind t \<longleftrightarrow>
     (kind, t) \<in> set [(Control_Toggle, Type_Bool), (Control_Select, Type_Enum),
       (Control_MultiSelect, Type_StringList), (Control_Text, Type_Text),
       (Control_Number, Type_Integer), (Control_Number, Type_Decimal),
       (Control_Slider, Type_Integer), (Control_Slider, Type_Decimal)]"

definition validate_control_binding :: "control_spec \<Rightarrow> str \<Rightarrow> (validation_error, unit) result" where
  "validate_control_binding control path =
     (if cs_kind control \<in> set [Control_Section, Control_Caption, Control_Divider] then
        reject_if
          (cs_value_type control \<noteq> None \<or> cs_variable control \<noteq> None \<or>
           cs_default_value control \<noteq> None \<or> cs_options control \<noteq> [] \<or> cs_minimum control \<noteq> None \<or>
           cs_maximum control \<noteq> None \<or> cs_step control \<noteq> None \<or> cs_sensitive control) path
          (lit ''presentation-only controls cannot bind, default, constrain, or expose a value'')
      else
        result_bind (ok_or (validation_error_new (path @ lit ''.value_type'')
          (lit ''interactive controls require a declared value type'')) (cs_value_type control)) (\<lambda>value_type.
        result_bind (ok_or (validation_error_new (path @ lit ''.variable'')
          (lit ''interactive controls require a variable binding'')) (cs_variable control)) (\<lambda>variable.
        checks
          [validate_variable_ref variable (path @ lit ''.variable''),
           reject_if (vr_scope variable \<noteq> cs_scope control) (path @ lit ''.scope'')
             (lit ''control scope must match its variable binding''),
           reject_if (\<not> control_kind_accepts (cs_kind control) value_type) (path @ lit ''.value_type'')
             (lit ''value type is incompatible with the control kind'')])))"

definition validate_control_default :: "control_spec \<Rightarrow> str \<Rightarrow> (validation_error, unit) result" where
  "validate_control_default control path =
     validate_optional (\<lambda>v. checks
       [validate_variable_value v (path @ lit ''.default_value''),
        reject_if (case cs_value_type control of Some t \<Rightarrow> variable_value_type v \<noteq> t | None \<Rightarrow> False)
          (path @ lit ''.default_value'')
          (lit ''default value does not match the declared value type'')])
     (cs_default_value control)"

definition option_type_accepted :: "control_kind \<Rightarrow> variable_value \<Rightarrow> bool" where
  "option_type_accepted kind v =
     (case kind of
        Control_Select \<Rightarrow> variable_value_type v = Type_Enum
      | Control_MultiSelect \<Rightarrow> variable_value_type v = Type_Text \<or> variable_value_type v = Type_Enum
      | _ \<Rightarrow> False)"

definition encode_option_step ::
  "(variable_value \<Rightarrow> (str, str) result) \<Rightarrow> control_spec \<Rightarrow> str \<Rightarrow> str list \<Rightarrow> nat \<times> control_option \<Rightarrow>
     (validation_error, str list) result" where
  "encode_option_step json_value control path encoded_options iopt =
     (case iopt of (index, opt) \<Rightarrow>
      let here = path_index (path @ lit ''.options'') index in
      result_bind (checks
        [validate_variable_value (co_value opt) (here @ lit ''.value''),
         validate_text (here @ lit ''.label'') (co_label opt) 1 MAX_NAME_CHARS,
         reject_if (\<not> option_type_accepted (cs_kind control) (co_value opt)) (here @ lit ''.value'')
           (lit ''only select controls may declare compatible option values'')]) (\<lambda>_.
      result_bind (map_err (\<lambda>e. validation_error_new (here @ lit ''.value'')
        (lit ''cannot encode option value: '' @ e)) (json_value (co_value opt))) (\<lambda>encoded.
      Inr (encoded_options @ [encoded]))))"

definition text_option_is :: "str \<Rightarrow> control_option \<Rightarrow> bool" where
  "text_option_is v opt = (co_value opt = VText v \<or> co_value opt = VEnum v)"

definition validate_default_option :: "control_spec \<Rightarrow> str \<Rightarrow> (validation_error, unit) result" where
  "validate_default_option control path =
     (case (cs_kind control, cs_default_value control) of
        (Control_Select, Some default_value) \<Rightarrow>
          reject_if (\<not> list_ex (\<lambda>opt. variable_value_eq (co_value opt) default_value) (cs_options control))
            (path @ lit ''.default_value'')
            (lit ''select default value must be one of the declared options'')
      | (Control_MultiSelect, Some (VStringList default_values)) \<Rightarrow>
          try_for (\<lambda>(index, default_value).
              reject_if (\<not> list_ex (text_option_is default_value) (cs_options control))
                (path_index (path @ lit ''.default_value'') index)
                (lit ''multi-select defaults must be declared options''))
            (enumerate 0 default_values)
      | _ \<Rightarrow> Inr ())"

definition validate_control_options ::
  "(variable_value \<Rightarrow> (str, str) result) \<Rightarrow> control_spec \<Rightarrow> str \<Rightarrow> (validation_error, unit) result" where
  "validate_control_options json_value control path =
     result_bind (reject_if (length (cs_options control) > MAX_VARIABLE_LIST_ITEMS)
       (path @ lit ''.options'') (at_most MAX_VARIABLE_LIST_ITEMS ''options'')) (\<lambda>_.
     result_bind (try_fold (encode_option_step json_value control path) []
       (enumerate 0 (cs_options control))) (\<lambda>encoded_options.
     checks
       [reject_if (has_duplicate encoded_options) (path @ lit ''.options'')
          (lit ''option values must be unique''),
        reject_if (cs_kind control \<in> set [Control_Select, Control_MultiSelect] \<and> cs_options control = [])
          (path @ lit ''.options'') (lit ''select controls require at least one option''),
        validate_default_option control path]))"

definition numeric_default :: "control_spec \<Rightarrow> float option" where
  "numeric_default control =
     (case cs_default_value control of
        Some (VInteger i) \<Rightarrow> Some (i64_to_f64 i)
      | Some (VDecimal d) \<Rightarrow> Some d
      | _ \<Rightarrow> None)"

abbreviation is_some_and :: "('a \<Rightarrow> bool) \<Rightarrow> 'a option \<Rightarrow> bool" where
  "is_some_and p v \<equiv> (case v of Some x \<Rightarrow> p x | None \<Rightarrow> False)"

definition validate_control_numeric_bounds :: "control_spec \<Rightarrow> str \<Rightarrow> (validation_error, unit) result" where
  "validate_control_numeric_bounds control path =
     checks
       [reject_if
          (is_some_and (\<lambda>v. \<not> is_finite v) (cs_minimum control) \<or>
           is_some_and (\<lambda>v. \<not> is_finite v) (cs_maximum control) \<or>
           is_some_and (\<lambda>v. \<not> is_finite v \<or> \<not> float_less (Finite 0) v) (cs_step control)) path
          (lit ''numeric bounds must be finite and step must be positive''),
        reject_if
          (is_some_and (\<lambda>minimum. is_some_and (\<lambda>maximum. float_less maximum minimum) (cs_maximum control))
            (cs_minimum control)) path
          (lit ''minimum must not exceed maximum''),
        reject_if
          (cs_kind control \<notin> set [Control_Number, Control_Slider] \<and>
           (cs_minimum control \<noteq> None \<or> cs_maximum control \<noteq> None \<or> cs_step control \<noteq> None)) path
          (lit ''only number and slider controls may declare numeric bounds''),
        reject_if
          (cs_kind control = Control_Slider \<and> (cs_minimum control = None \<or> cs_maximum control = None)) path
          (lit ''slider controls require both minimum and maximum''),
        reject_if
          (is_some_and (\<lambda>v. is_some_and (\<lambda>minimum. float_less v minimum) (cs_minimum control) \<or>
             is_some_and (\<lambda>maximum. float_less maximum v) (cs_maximum control)) (numeric_default control))
          (path @ lit ''.default_value'')
          (lit ''numeric default value must fall within the declared bounds'')]"

definition validate_control ::
  "(variable_value \<Rightarrow> (str, str) result) \<Rightarrow> control_spec \<Rightarrow> str \<Rightarrow> (validation_error, unit) result" where
  "validate_control json_value control path =
     checks
       [validate_id (path @ lit ''.id'') (cs_id control),
        validate_text (path @ lit ''.label'') (cs_label control) 1 MAX_NAME_CHARS,
        validate_text (path @ lit ''.description'') (cs_description control) 0 4096,
        validate_control_binding control path,
        validate_control_default control path,
        validate_control_options json_value control path,
        validate_control_numeric_bounds control path,
        validate_optional (\<lambda>c. validate_condition c (path @ lit ''.visible_when'')) (cs_visible_when control)]"

definition validate_prompt_preset_controls ::
  "(variable_value \<Rightarrow> (str, str) result) \<Rightarrow> prompt_preset \<Rightarrow> (validation_error, unit) result" where
  "validate_prompt_preset_controls json_value preset =
     checks
       [try_for (\<lambda>(index, control). validate_control json_value control (path_index (lit ''controls'') index))
          (enumerate 0 (pp_controls preset)),
        reject_if (has_duplicate (map cs_id (pp_controls preset))) (lit ''controls'')
          (lit ''control identifiers must be unique'')]"

subsection \<open>Presets\<close>

definition validate_prompt_preset_references :: "prompt_preset \<Rightarrow> (validation_error, unit) result" where
  "validate_prompt_preset_references preset =
     checks
       [validate_variable_map (pp_default_values preset) (lit ''default_values''),
        validate_id_list (lit ''knowledge_book_ids'') (pp_knowledge_book_ids preset) 128,
        validate_id_list (lit ''transform_set_ids'') (pp_transform_set_ids preset) 128,
        validate_id_list (lit ''module_ids'') (pp_module_ids preset) 128,
        reject_if (length (pm_tags (pp_metadata preset)) > 64) (lit ''metadata.tags'')
          (lit ''must contain at most 64 tags''),
        try_for (\<lambda>(index, tag). validate_text (path_index (lit ''metadata.tags'') index) tag 1 128)
          (enumerate 0 (pm_tags (pp_metadata preset)))]"

definition validate_prompt_preset_cache_boundaries :: "prompt_preset \<Rightarrow> (validation_error, unit) result" where
  "validate_prompt_preset_cache_boundaries preset =
     checks
       [reject_if (length (pp_cache_boundaries preset) > 32) (lit ''cache_boundaries'')
          (lit ''must contain at most 32 boundaries''),
        try_for (\<lambda>(index, boundary). checks
            [validate_id (path_index (lit ''cache_boundaries'') index @ lit ''.id'') (cb_id boundary),
             reject_if (\<not> list_ex (\<lambda>block. pb_id block = cb_after_block_id boundary) (pp_blocks preset))
               (path_index (lit ''cache_boundaries'') index @ lit ''.after_block_id'')
               (lit ''must reference a block in the preset'')])
          (enumerate 0 (pp_cache_boundaries preset))]"

definition prompt_preset_validate :: "prompt_env \<Rightarrow> prompt_preset \<Rightarrow> (validation_error, unit) result" where
  "prompt_preset_validate env preset =
     checks
       [validate_id (lit ''id'') (pp_id preset),
        validate_text (lit ''name'') (pp_name preset) 1 MAX_NAME_CHARS,
        reject_if (pp_schema_version preset = 0) (lit ''schema_version'') (lit ''must be positive''),
        reject_if (pp_blocks preset = [] \<or> length (pp_blocks preset) > MAX_PROMPT_BLOCKS) (lit ''blocks'')
          (lit ''must contain between 1 and '' @ show_nat MAX_PROMPT_BLOCKS @ lit '' blocks''),
        reject_if (length (pp_controls preset) > MAX_PROMPT_CONTROLS) (lit ''controls'')
          (at_most MAX_PROMPT_CONTROLS ''controls''),
        validate_prompt_preset_references preset,
        validate_prompt_preset_blocks (px_hex_ok env) preset,
        validate_prompt_preset_controls (px_json_value env) preset,
        validate_prompt_preset_cache_boundaries preset,
        validate_provenance (px_hex_ok env) (pm_provenance (pp_metadata preset)) (lit ''metadata.provenance'')]"

end
