(* ===== verification/Request_Validation.thy ===== *)
theory Request_Validation
  imports Prompt_Validation
begin

section \<open>Validation of resolve requests\<close>

text \<open>
  \<open>PromptResolveRequest::validate\<close> of \<open>crates/domain/src/orchestration.rs\<close>: token limits, the provider
  contract, the conversation messages, selected knowledge and memory, summaries, slots, texts and the
  context snapshot with its fingerprint.
\<close>

definition validate_prompt_request_limits :: "prompt_resolve_request \<Rightarrow> (validation_error, unit) result" where
  "validate_prompt_request_limits request =
     checks
       [reject_if (rq_max_context_tokens request = 0) (lit ''max_context_tokens'') (lit ''must be positive''),
        reject_if (rq_reserved_output_tokens request \<ge> rq_max_context_tokens request)
          (lit ''reserved_output_tokens'') (lit ''must be smaller than the context limit'')]"

definition validate_provider_prompt_contract ::
  "provider_prompt_contract \<Rightarrow> (validation_error, unit) result" where
  "validate_provider_prompt_contract provider =
     checks
       [reject_if (pc_supported_roles provider = []) (lit ''provider.supported_roles'')
          (lit ''must contain at least one role''),
        reject_if
          (has_duplicate (pc_supported_roles provider) \<or>
           pc_provider_default_role provider \<notin> set (pc_supported_roles provider))
          (lit ''provider.supported_roles'')
          (lit ''roles must be unique and contain the provider default''),
        reject_if (pc_supports_explicit_cache provider \<noteq> (pc_max_cache_boundaries provider > 0))
          (lit ''provider.max_cache_boundaries'')
          (lit ''must be positive exactly when explicit caching is supported'')]"

definition validate_prompt_context_messages ::
  "prompt_resolution_context \<Rightarrow> (validation_error, unit) result" where
  "validate_prompt_context_messages ctx =
     checks
       [reject_if (length (rc_messages ctx) > MAX_HISTORY_MESSAGES) (lit ''context.messages'')
          (at_most MAX_HISTORY_MESSAGES ''messages''),
        reject_if (has_duplicate (map cm_id (rc_messages ctx))) (lit ''context.messages'')
          (lit ''message identifiers must be unique''),
        reject_if
          (\<not> is_some_and (\<lambda>m. cm_role m = Msg_User \<and> cm_branch_id m = rc_branch_id ctx \<and> cm_content m \<noteq> [])
            (find (\<lambda>m. cm_id m = rc_latest_user_message_id ctx) (rc_messages ctx)))
          (lit ''context.latest_user_message_id'')
          (lit ''must identify a non-empty user message on the active branch'')]"

definition validate_prompt_context_selection_ids ::
  "prompt_resolution_context \<Rightarrow> (validation_error, unit) result" where
  "validate_prompt_context_selection_ids ctx =
     checks
       [reject_if (length (rc_selected_knowledge ctx) > DOMAIN_MAX_KNOWLEDGE_ENTRIES)
          (lit ''context.selected_knowledge'') (at_most DOMAIN_MAX_KNOWLEDGE_ENTRIES ''entries''),
        reject_if (has_duplicate (map sk_entry_id (rc_selected_knowledge ctx)))
          (lit ''context.selected_knowledge'') (lit ''entry identifiers must be unique''),
        reject_if (length (rc_selected_memory ctx) > MAX_MEMORY_RECORDS)
          (lit ''context.selected_memory'') (at_most MAX_MEMORY_RECORDS ''records''),
        reject_if (has_duplicate (map sm_record_id (rc_selected_memory ctx)))
          (lit ''context.selected_memory'') (lit ''record identifiers must be unique'')]"

definition validate_prompt_context_summaries_and_slots ::
  "prompt_resolution_context \<Rightarrow> (validation_error, unit) result" where
  "validate_prompt_context_summaries_and_slots ctx =
     checks
       [reject_if (has_duplicate (map sb_summary_id (rc_summary_boundaries ctx)))
          (lit ''context.summary_boundaries'') (lit ''summary identifiers must be unique''),
        reject_if
          (list_ex (\<lambda>boundary. \<not> list_ex (\<lambda>m. cm_id m = sb_end_message_id boundary \<and>
               cm_branch_id m = rc_branch_id ctx) (rc_messages ctx))
            (rc_summary_boundaries ctx))
          (lit ''context.summary_boundaries'')
          (lit ''every summary boundary must reference an active-branch message''),
        reject_if (has_duplicate (map ts_name (rc_slots ctx))) (lit ''context.slots'')
          (lit ''template slot names must be unique''),
        reject_if (lit ''block_content'' \<in> set (map ts_name (rc_slots ctx))) (lit ''context.slots'')
          (lit ''`block_content` is reserved for block materialization'')]"

subsection \<open>The context snapshot\<close>

text \<open>
  The fingerprint covers every field but itself, so the encoder is given the snapshot with that field
  blanked.
\<close>

definition prompt_context_snapshot_sha256 ::
  "prompt_env \<Rightarrow> prompt_context_snapshot \<Rightarrow> (validation_error, str) result" where
  "prompt_context_snapshot_sha256 env snapshot =
     map_err (\<lambda>e. validation_error_new (lit ''context.context_snapshot'')
         (lit ''cannot encode prompt context snapshot: '' @ e))
       (result_bind (px_json_snapshot env (snapshot\<lparr>sn_snapshot_sha256 := []\<rparr>)) (\<lambda>encoded.
         Inr (px_hex_encode env (px_sha256 env encoded))))"

definition snapshot_path :: "string \<Rightarrow> str" where
  "snapshot_path field = lit ''context.context_snapshot.'' @ lit field"

definition validate_prompt_context_snapshot_header ::
  "prompt_env \<Rightarrow> prompt_context_snapshot \<Rightarrow> (validation_error, unit) result" where
  "validate_prompt_context_snapshot_header env snapshot =
     result_bind (checks
       [reject_if (sn_schema_version snapshot \<noteq> 1) (snapshot_path ''schema_version'')
          (lit ''unsupported prompt context snapshot schema''),
        validate_id (snapshot_path ''conversation_id'') (sn_conversation_id snapshot),
        validate_id (snapshot_path ''source_branch_id'') (sn_source_branch_id snapshot),
        validate_sha256 (px_hex_ok env) (snapshot_path ''local_user_id_sha256'') (sn_local_user_id_sha256 snapshot),
        validate_sha256 (px_hex_ok env) (snapshot_path ''snapshot_sha256'') (sn_snapshot_sha256 snapshot)]) (\<lambda>_.
     result_bind (prompt_context_snapshot_sha256 env snapshot) (\<lambda>fingerprint.
     reject_if (fingerprint \<noteq> sn_snapshot_sha256 snapshot) (snapshot_path ''snapshot_sha256'')
       (lit ''prompt context snapshot fingerprint does not match its evidence'')))"

definition validate_prompt_context_snapshot_binding ::
  "(str \<Rightarrow> bool) \<Rightarrow> prompt_context_binding_evidence option \<Rightarrow> (validation_error, unit) result" where
  "validate_prompt_context_snapshot_binding hex_ok =
     validate_optional (\<lambda>binding. checks
       [validate_id (snapshot_path ''binding.binding_id'') (be_binding_id binding),
        reject_if (be_binding_revision binding = 0) (snapshot_path ''binding.binding_revision'')
          (lit ''binding revision must be positive''),
        validate_sha256 hex_ok (snapshot_path ''binding.document_sha256'') (be_document_sha256 binding)])"

definition validate_prompt_context_snapshot_persona ::
  "(str \<Rightarrow> bool) \<Rightarrow> prompt_context_persona_evidence option \<Rightarrow> (validation_error, unit) result" where
  "validate_prompt_context_snapshot_persona hex_ok =
     validate_optional (\<lambda>persona. checks
       [reject_if (pev_selection_revision persona = 0) (snapshot_path ''persona.selection_revision'')
          (lit ''persona selection revision must be positive''),
        validate_id (snapshot_path ''persona.persona_id'') (pev_persona_id persona),
        validate_id (snapshot_path ''persona.persona_revision_id'') (pev_persona_revision_id persona),
        validate_sha256 hex_ok (snapshot_path ''persona.persona_sha256'') (pev_persona_sha256 persona)])"

definition validate_prompt_summary_source_evidence ::
  "(str \<Rightarrow> bool) \<Rightarrow> nat \<Rightarrow> prompt_summary_source_evidence \<Rightarrow> (validation_error, unit) result" where
  "validate_prompt_summary_source_evidence hex_ok index summary =
     (let here = path_index (snapshot_path ''summaries'') index in
      checks
        [validate_id (here @ lit ''.summary_id'') (sse_summary_id summary),
         validate_id (here @ lit ''.record_branch_id'') (sse_record_branch_id summary),
         validate_id (here @ lit ''.source_start_message_id'') (sse_source_start_message_id summary),
         validate_id (here @ lit ''.source_end_message_id'') (sse_source_end_message_id summary),
         reject_if (sse_state_revision summary = 0) (here @ lit ''.state_revision'')
           (lit ''memory state revision must be positive''),
         validate_id (here @ lit ''.active_revision_id'') (sse_active_revision_id summary),
         validate_sha256 hex_ok (here @ lit ''.active_revision_sha256'') (sse_active_revision_sha256 summary)])"

definition validate_prompt_context_snapshot_summaries ::
  "(str \<Rightarrow> bool) \<Rightarrow> prompt_context_snapshot \<Rightarrow> (validation_error, str list) result" where
  "validate_prompt_context_snapshot_summaries hex_ok snapshot =
     (let summary_ids = sort_by cmp (map sse_summary_id (sn_summaries snapshot)) in
      result_bind (checks
        [reject_if (length (sn_summaries snapshot) > MAX_PROMPT_BLOCKS) (snapshot_path ''summaries'')
           (at_most MAX_PROMPT_BLOCKS ''summary sources''),
         try_for (\<lambda>(index, summary). validate_prompt_summary_source_evidence hex_ok index summary)
           (enumerate 0 (sn_summaries snapshot)),
         reject_if (adjacent_dup summary_ids \<noteq> None) (snapshot_path ''summaries'')
           (lit ''summary source identifiers must be unique'')]) (\<lambda>_.
      Inr summary_ids))"

definition prompt_context_snapshot_differs_from_materialized ::
  "prompt_context_snapshot \<Rightarrow> prompt_resolution_context \<Rightarrow> str list \<Rightarrow> bool" where
  "prompt_context_snapshot_differs_from_materialized snapshot ctx summary_ids \<longleftrightarrow>
     sn_conversation_id snapshot \<noteq> rc_conversation_id ctx \<or>
     is_some_and (\<lambda>head. \<not> list_ex (\<lambda>m. cm_id m = head) (rc_messages ctx)) (sn_context_head_message_id snapshot) \<or>
     list_ex (\<lambda>boundary. sb_summary_id boundary \<notin> set summary_ids) (rc_summary_boundaries ctx) \<or>
     (sn_conversation_summary_id snapshot \<noteq> None) \<noteq> (rc_conversation_summary ctx \<noteq> None)"

definition validate_prompt_context_snapshot ::
  "prompt_env \<Rightarrow> prompt_context_snapshot \<Rightarrow> prompt_resolution_context option \<Rightarrow> (validation_error, unit) result" where
  "validate_prompt_context_snapshot env snapshot ctx =
     result_bind (checks
       [validate_prompt_context_snapshot_header env snapshot,
        validate_prompt_context_snapshot_binding (px_hex_ok env) (sn_binding snapshot),
        validate_prompt_context_snapshot_persona (px_hex_ok env) (sn_persona snapshot)]) (\<lambda>_.
     result_bind (validate_prompt_context_snapshot_summaries (px_hex_ok env) snapshot) (\<lambda>summary_ids.
     checks
       [reject_if (is_some_and (\<lambda>i. i \<notin> set summary_ids) (sn_conversation_summary_id snapshot))
          (snapshot_path ''conversation_summary_id'')
          (lit ''selected conversation summary must have exact source evidence''),
        reject_if
          (is_some_and (\<lambda>ctx. prompt_context_snapshot_differs_from_materialized snapshot ctx summary_ids) ctx)
          (lit ''context.context_snapshot'')
          (lit ''prompt context snapshot differs from the materialized context'')]))"

subsection \<open>Texts\<close>

definition character_path :: "string \<Rightarrow> str" where
  "character_path field = lit ''context.character.'' @ lit field"

definition validate_character_texts ::
  "string \<Rightarrow> str list \<Rightarrow> nat \<Rightarrow> (validation_error, unit) result" where
  "validate_character_texts field vs maximum_chars =
     try_for (\<lambda>(index, v). validate_text (path_index (character_path field) index) v 1 maximum_chars)
       (enumerate 0 vs)"

definition validate_character_prompt_text ::
  "character_prompt_content \<Rightarrow> (validation_error, unit) result" where
  "validate_character_prompt_text character =
     checks
       [validate_text (character_path ''character_id'') (ch_character_id character) 1 MAX_IDENTIFIER_CHARS,
        validate_text (character_path ''name'') (ch_name character) 1 MAX_NAME_CHARS,
        try_for (\<lambda>(field, v). validate_text (character_path field) v 0 MAX_BLOCK_TEXT_CHARS)
          [(''description'', ch_description character), (''personality'', ch_personality character),
           (''scenario'', ch_scenario character), (''first_message'', ch_first_message character),
           (''system_instruction'', ch_system_instruction character),
           (''post_history_instruction'', ch_post_history_instruction character)],
        reject_if
          (length (ch_aliases character) > 128 \<or> length (ch_dialogue_examples character) > 256 \<or>
           length (ch_alternate_greetings character) > 128 \<or> length (ch_knowledge_book_ids character) > 128 \<or>
           length (ch_asset_ids character) > MAX_MODULE_COMPONENTS)
          (lit ''context.character'') (lit ''character content collection exceeds its bound''),
        validate_character_texts ''aliases'' (ch_aliases character) MAX_NAME_CHARS,
        validate_character_texts ''dialogue_examples'' (ch_dialogue_examples character) MAX_BLOCK_TEXT_CHARS,
        validate_character_texts ''alternate_greetings'' (ch_alternate_greetings character) MAX_BLOCK_TEXT_CHARS]"

definition validate_prompt_context_material_text ::
  "prompt_resolution_context \<Rightarrow> (validation_error, unit) result" where
  "validate_prompt_context_material_text ctx =
     checks
       [try_for (\<lambda>(index, m). validate_text
            (path_index (lit ''context.messages'') index @ lit ''.content'') (cm_content m) 1 MAX_BLOCK_TEXT_CHARS)
          (enumerate 0 (rc_messages ctx)),
        try_for (\<lambda>(index, entry). checks
            [validate_text (path_index (lit ''context.selected_knowledge'') index @ lit ''.content'')
               (sk_content entry) 1 MAX_BLOCK_TEXT_CHARS,
             reject_if (sk_evidence entry = [])
               (path_index (lit ''context.selected_knowledge'') index @ lit ''.evidence'')
               (lit ''selected knowledge requires activation evidence'')])
          (enumerate 0 (rc_selected_knowledge ctx)),
        try_for (\<lambda>(index, r). checks
            [validate_text (path_index (lit ''context.selected_memory'') index @ lit ''.content'')
               (sm_content r) 1 MAX_BLOCK_TEXT_CHARS,
             validate_text (path_index (lit ''context.selected_memory'') index @ lit ''.reason'')
               (sm_reason r) 1 4096])
          (enumerate 0 (rc_selected_memory ctx)),
        try_for (\<lambda>(index, slot). checks
            [validate_text (path_index (lit ''context.slots'') index @ lit ''.name'') (ts_name slot) 1 MAX_NAME_CHARS,
             validate_text (path_index (lit ''context.slots'') index @ lit ''.value'') (ts_value slot) 0
               MAX_BLOCK_TEXT_CHARS])
          (enumerate 0 (rc_slots ctx))]"

definition validate_prompt_context_optional_text ::
  "prompt_resolution_context \<Rightarrow> (validation_error, unit) result" where
  "validate_prompt_context_optional_text ctx =
     checks
       [try_for (\<lambda>(field, v). validate_optional
            (\<lambda>v. validate_text (lit ''context.'' @ lit field) v 1 MAX_BLOCK_TEXT_CHARS) v)
          [(''conversation_summary'', rc_conversation_summary ctx), (''author_note'', rc_author_note ctx),
           (''group_context'', rc_group_context ctx)],
        validate_text (lit ''context.current_date'') (rc_current_date ctx) 1 MAX_NAME_CHARS,
        validate_text (lit ''context.current_time'') (rc_current_time ctx) 1 MAX_NAME_CHARS]"

definition validate_prompt_context_text ::
  "prompt_resolution_context \<Rightarrow> (validation_error, unit) result" where
  "validate_prompt_context_text ctx =
     checks
       [validate_text (lit ''context.user_name'') (rc_user_name ctx) 1 MAX_NAME_CHARS,
        validate_character_prompt_text (rc_character ctx),
        validate_prompt_context_material_text ctx,
        validate_prompt_context_optional_text ctx]"

subsection \<open>Requests\<close>

definition prompt_resolve_request_validate ::
  "prompt_env \<Rightarrow> prompt_resolve_request \<Rightarrow> (validation_error, unit) result" where
  "prompt_resolve_request_validate env request =
     checks
       [prompt_preset_validate env (rq_preset request),
        validate_prompt_request_limits request,
        validate_provider_prompt_contract (rq_provider request),
        validate_prompt_context_messages (rq_context request),
        validate_prompt_context_selection_ids (rq_context request),
        validate_prompt_context_summaries_and_slots (rq_context request),
        validate_prompt_context_text (rq_context request),
        validate_optional
          (\<lambda>snapshot. validate_prompt_context_snapshot env snapshot (Some (rq_context request)))
          (rc_context_snapshot (rq_context request)),
        validate_variable_map (rc_variables (rq_context request)) (lit ''context.variables'')]"

end
