(* ===== verification/Portable_Text.thy ===== *)
theory Portable_Text
  imports Prompt_Types
begin

section \<open>Portable text macros\<close>

text \<open>
  \<open>crates/orchestration/src/portable_text.rs\<close>: the deterministic renderer for the macros of imported
  character cards.  It expands \<open>{{#each}}\<close> blocks, then value macros, then conditional blocks from the
  inside out, each in a bounded number of passes; a replacement that would exceed the output limit
  gives up and returns the source.
\<close>

definition MAX_RENDER_PASSES :: nat where "MAX_RENDER_PASSES = 256"
definition MAX_RENDER_CHARS :: nat where "MAX_RENDER_CHARS = 262144"

abbreviation "open_braces \<equiv> lit ''{{''"
abbreviation "close_braces \<equiv> lit ''}}''"

definition replacement_would_exceed :: "str \<Rightarrow> nat \<Rightarrow> nat \<Rightarrow> str \<Rightarrow> bool" where
  "replacement_would_exceed source start stop replacement \<longleftrightarrow>
     length (take start source) + length replacement + length (drop stop source) > MAX_RENDER_CHARS"

subsection \<open>Values\<close>

definition bool_text :: "bool \<Rightarrow> str" where
  "bool_text b = (if b then lit ''1'' else lit ''0'')"

definition truthy :: "str \<Rightarrow> bool" where
  "truthy v \<longleftrightarrow>
     to_ascii_lowercase (trim v) \<notin> set [[], lit ''0'', lit ''false'', lit ''null'', lit ''none'']"

definition when_truthy :: "str \<Rightarrow> bool" where
  "when_truthy v \<longleftrightarrow> trim v = lit ''1'' \<or> trim v = lit ''true''"

text \<open>\<open>f64::EPSILON\<close> is \<open>2 powi (- 52)\<close>.\<close>

definition compare_values :: "str \<Rightarrow> str \<Rightarrow> int" where
  "compare_values left right =
     (case (parse_f64 (trim left), parse_f64 (trim right)) of
        (Some l, Some r) \<Rightarrow>
          if float_less (float_abs (float_sub l r)) (Finite (2 powi (- 52))) then 0
          else if float_less l r then - 1 else 1
      | _ \<Rightarrow>
          (case cmp (trim left) (trim right) of Less \<Rightarrow> - 1 | Equal \<Rightarrow> 0 | Greater \<Rightarrow> 1))"

fun portable_format_variable :: "(float \<Rightarrow> str) \<Rightarrow> variable_value \<Rightarrow> str" where
  "portable_format_variable show_decimal (VBool b) = bool_text b"
| "portable_format_variable show_decimal (VInteger i) = show_int i"
| "portable_format_variable show_decimal (VDecimal v) = show_decimal v"
| "portable_format_variable show_decimal (VText v) = v"
| "portable_format_variable show_decimal (VEnum v) = v"
| "portable_format_variable show_decimal (VStringList vs) = join (lit '','') vs"

fun find_map :: "('a \<Rightarrow> 'b option) \<Rightarrow> 'a list \<Rightarrow> 'b option" where
  "find_map f [] = None"
| "find_map f (x # xs) = (case f x of None \<Rightarrow> find_map f xs | Some y \<Rightarrow> Some y)"

definition portable_variable_value ::
  "prompt_env \<Rightarrow> prompt_resolution_context \<Rightarrow> str \<Rightarrow> str option" where
  "portable_variable_value env ctx requested =
     (let requested = trim requested;
          aliases = [requested,
            case strip_prefix (lit ''toggle_'') requested of Some v \<Rightarrow> v | None \<Rightarrow> requested] in
      find_map (\<lambda>binding.
        let vid = vr_id (vb_variable binding);
            qualified = map_option (\<lambda>namespace. namespace @ lit ''.'' @ vid)
              (vr_namespace (vb_variable binding)) in
        if list_ex (\<lambda>candidate. candidate = vid \<or> qualified = Some candidate) aliases
        then Some (portable_format_variable (px_show_decimal env) (vb_value binding)) else None)
      (rc_variables ctx))"

text \<open>The comparison operators of an arithmetic macro, in the order they are tried.\<close>

definition comparison_operators :: "(str \<times> (int \<Rightarrow> bool)) list" where
  "comparison_operators =
     [(lit ''>='', \<lambda>c. c \<ge> 0), (lit ''<='', \<lambda>c. c \<le> 0), (lit ''!='', \<lambda>c. c \<noteq> 0),
      (lit ''=='', \<lambda>c. c = 0), (lit ''='', \<lambda>c. c = 0), (lit ''>'', \<lambda>c. c > 0),
      (lit ''<'', \<lambda>c. c < 0)]"

text \<open>The sum or difference at one position, when both sides are integers.\<close>

definition split_arithmetic :: "str \<Rightarrow> nat \<Rightarrow> str option" where
  "split_arithmetic expression index =
     (if expression ! index = 43 \<or> expression ! index = 45 then
        (case (parse_i64 (take index expression), parse_i64 (drop (index + 1) expression)) of
           (Some left, Some right) \<Rightarrow>
             Some (show_int (i64_saturate
               (if expression ! index = 43 then left + right else left - right)))
         | _ \<Rightarrow> None)
      else None)"

definition evaluate_arithmetic :: "str \<Rightarrow> str" where
  "evaluate_arithmetic expression =
     (let expression = str_replace (trim expression) (lit '' '') [] in
      case find_map (\<lambda>(operator, holds).
          map_option (\<lambda>(left, right). bool_text (holds (compare_values left right)))
            (split_once operator expression)) comparison_operators of
        Some v \<Rightarrow> v
      | None \<Rightarrow>
          (case find_map (split_arithmetic expression) [1..<length expression] of
             Some v \<Rightarrow> v
           | None \<Rightarrow> expression))"

fun to_le_bytes :: "nat \<Rightarrow> nat \<Rightarrow> bytes" where
  "to_le_bytes 0 n = []"
| "to_le_bytes (Suc w) n = (n mod 256) # to_le_bytes w (n div 256)"

fun from_le_bytes :: "bytes \<Rightarrow> nat" where
  "from_le_bytes [] = 0"
| "from_le_bytes (b # bs) = b + 256 * from_le_bytes bs"

definition deterministic_number :: "prompt_env \<Rightarrow> nat option \<Rightarrow> str \<Rightarrow> str \<Rightarrow> nat \<Rightarrow> nat" where
  "deterministic_number env seed source token pass =
     from_le_bytes (take 8 (px_sha256 env
       (lit ''portable-character-macro-v1'' @ [0] @
        to_le_bytes 8 (case seed of None \<Rightarrow> 0 | Some s \<Rightarrow> s) @
        utf8 source @ [0] @ utf8 token @ to_le_bytes 8 pass)))"

subsection \<open>Value macros\<close>

definition is_block_token :: "str \<Rightarrow> bool" where
  "is_block_token token \<longleftrightarrow>
     (let token = trim token in prefix (lit ''#'') token \<or> prefix (lit ''/'') token \<or> token = lit ''else'')"

definition known_names :: "str list" where
  "known_names =
     map lit [''user'', ''char'', ''character'', ''date'', ''time'', ''getvar'', ''getglobalvar'',
       ''equal'', ''notequal'', ''greater'', ''greater_equal'', ''greaterequal'', ''less'',
       ''less_equal'', ''lessequal'', ''and'', ''or'', ''all'', ''any'', ''not'', ''contains'',
       ''startswith'', ''roll'', ''pick'', ''lastcharmessage'', ''lastmessageid'', ''chat_index'',
       ''raw'', ''slot'', ''?'']"

definition token_is_known :: "str \<Rightarrow> bool" where
  "token_is_known token \<longleftrightarrow>
     (let name = (case split_once (lit ''::'') (trim token) of
         None \<Rightarrow> trim token | Some (name, _) \<Rightarrow> trim name) in
      to_ascii_lowercase name \<in> set known_names \<or> prefix (lit ''? '') (trim_start token))"

function scan_token :: "str \<Rightarrow> nat \<Rightarrow> nat list \<Rightarrow> (nat \<times> nat \<times> str) option" where
  "scan_token source cursor stack =
     (if cursor + 1 < length source then
        if slice cursor (cursor + 2) source = open_braces then
          scan_token source (cursor + 2) (cursor # stack)
        else if slice cursor (cursor + 2) source = close_braces then
          (case stack of
             [] \<Rightarrow> scan_token source (cursor + 2) []
           | start # stack \<Rightarrow>
               let token = slice (start + 2) cursor source in
               if \<not> is_block_token token \<and> token_is_known token then Some (start, cursor + 2, token)
               else scan_token source (cursor + 2) stack)
        else scan_token source (cursor + 1) stack
      else None)"
  by pat_completeness auto
termination by (relation "measure (\<lambda>(source, cursor, stack). length source - cursor)") auto

declare scan_token.simps [simp del]

definition next_evaluable_token :: "str \<Rightarrow> (nat \<times> nat \<times> str) option" where
  "next_evaluable_token source = scan_token source 0 []"

definition first_two :: "str list \<Rightarrow> (str \<times> str) option" where
  "first_two args = (case args of a # b # _ \<Rightarrow> Some (a, b) | _ \<Rightarrow> None)"

definition first_arg :: "str list \<Rightarrow> str option" where
  "first_arg args = (case args of a # _ \<Rightarrow> Some a | [] \<Rightarrow> None)"

definition compare_args :: "(int \<Rightarrow> bool) \<Rightarrow> str list \<Rightarrow> str option" where
  "compare_args holds args = map_option (\<lambda>(a, b). bool_text (holds (compare_values a b))) (first_two args)"

definition evaluate_token ::
  "prompt_env \<Rightarrow> str \<Rightarrow> prompt_resolution_context \<Rightarrow> str \<Rightarrow> nat \<Rightarrow> str option" where
  "evaluate_token env token ctx source pass =
     (let token = trim token;
          parts = split (lit ''::'') token;
          name = to_ascii_lowercase (trim (hd parts));
          args = map trim (tl parts) in
      if name = lit ''user'' then Some (rc_user_name ctx)
      else if name \<in> set [lit ''char'', lit ''character''] then Some (ch_name (rc_character ctx))
      else if name = lit ''date'' then Some (rc_current_date ctx)
      else if name = lit ''time'' then Some (rc_current_time ctx)
      else if name \<in> set [lit ''getvar'', lit ''getglobalvar''] then
        Some (case Option.bind (first_arg args) (portable_variable_value env ctx) of
          Some v \<Rightarrow> v | None \<Rightarrow> lit ''0'')
      else if name = lit ''equal'' then compare_args (\<lambda>c. c = 0) args
      else if name = lit ''notequal'' then compare_args (\<lambda>c. c \<noteq> 0) args
      else if name = lit ''greater'' then compare_args (\<lambda>c. c > 0) args
      else if name \<in> set [lit ''greater_equal'', lit ''greaterequal''] then compare_args (\<lambda>c. c \<ge> 0) args
      else if name = lit ''less'' then compare_args (\<lambda>c. c < 0) args
      else if name \<in> set [lit ''less_equal'', lit ''lessequal''] then compare_args (\<lambda>c. c \<le> 0) args
      else if name \<in> set [lit ''and'', lit ''all''] then Some (bool_text (list_all truthy args))
      else if name \<in> set [lit ''or'', lit ''any''] then Some (bool_text (list_ex truthy args))
      else if name = lit ''not'' then
        Some (bool_text (case first_arg args of Some v \<Rightarrow> \<not> truthy v | None \<Rightarrow> True))
      else if name = lit ''contains'' then
        Some (bool_text (case first_two args of Some (v, needle) \<Rightarrow> contains v needle | None \<Rightarrow> False))
      else if name = lit ''startswith'' then
        Some (bool_text (case first_two args of Some (v, p) \<Rightarrow> prefix p v | None \<Rightarrow> False))
      else if name = lit ''roll'' then
        map_option (\<lambda>sides.
            show_nat (deterministic_number env (rc_session_seed ctx) source token pass mod max sides 1 + 1))
          (Option.bind (first_arg args) parse_u64)
      else if name = lit ''pick'' then
        Some (if args = [] then []
          else args ! (deterministic_number env (rc_session_seed ctx) source token pass mod length args))
      else if name = lit ''lastcharmessage'' then
        Some (case find (\<lambda>m. cm_role m = Msg_Assistant) (rev (rc_messages ctx)) of
          Some m \<Rightarrow> cm_content m | None \<Rightarrow> [])
      else if name \<in> set [lit ''lastmessageid'', lit ''chat_index''] then
        Some (show_nat (length (rc_messages ctx) - 1))
      else if name = lit ''raw'' then Some (case first_arg args of Some v \<Rightarrow> v | None \<Rightarrow> [])
      else if name = lit ''slot'' then
        Some (case Option.bind (first_arg args) (\<lambda>name. find (\<lambda>slot. ts_name slot = name) (rc_slots ctx)) of
          Some slot \<Rightarrow> ts_value slot | None \<Rightarrow> [])
      else if name = lit ''?'' then Some (evaluate_arithmetic (trim (join (lit ''::'') args)))
      else if prefix (lit ''? '') token then Some (evaluate_arithmetic (trim (drop 1 token)))
      else None)"

text \<open>
  A run of at most \<open>n\<close> expansion passes; \<open>None\<close> when a replacement would exceed the output limit.
\<close>

fun expand_tokens ::
  "prompt_env \<Rightarrow> prompt_resolution_context \<Rightarrow> str \<Rightarrow> nat \<Rightarrow> nat \<Rightarrow> str \<Rightarrow> str option" where
  "expand_tokens env ctx source 0 pass output = Some output"
| "expand_tokens env ctx source (Suc n) pass output =
     (case next_evaluable_token output of
        None \<Rightarrow> Some output
      | Some (start, stop, token) \<Rightarrow>
          (case evaluate_token env token ctx source pass of
             None \<Rightarrow> Some output
           | Some v \<Rightarrow>
               if replacement_would_exceed output start stop v then None
               else expand_tokens env ctx source n (pass + 1) (replace_range output start stop v)))"

subsection \<open>Each blocks\<close>

function token_end_from :: "str \<Rightarrow> nat \<Rightarrow> nat \<Rightarrow> nat option" where
  "token_end_from source depth cursor =
     (if cursor + 1 < length source then
        if slice cursor (cursor + 2) source = open_braces then token_end_from source (depth + 1) (cursor + 2)
        else if slice cursor (cursor + 2) source = close_braces then
          (if depth = 0 then None
           else if depth = 1 then Some (cursor + 2)
           else token_end_from source (depth - 1) (cursor + 2))
        else token_end_from source depth (cursor + 1)
      else None)"
  by pat_completeness auto
termination by (relation "measure (\<lambda>(source, depth, cursor). length source - cursor)") auto

declare token_end_from.simps [simp del]

definition nested_token_end :: "str \<Rightarrow> nat \<Rightarrow> nat option" where
  "nested_token_end source start =
     (if slice start (start + 2) source = open_braces then token_end_from source 0 start else None)"

text \<open>
  One \<open>{{#each {{array::a::b}} x}}body{{/each}}\<close> of the text: where it starts and ends, and what
  replaces it.
\<close>

definition each_block :: "str \<Rightarrow> (nat \<times> nat \<times> str) option" where
  "each_block output =
     Option.bind (str_rfind output (lit ''{{#each'')) (\<lambda>start.
     Option.bind (nested_token_end output start) (\<lambda>open_end.
     Option.bind (str_find (drop open_end output) (lit ''{{/each}}'')) (\<lambda>relative_close.
     let close_start = open_end + relative_close;
         close_end = close_start + 9;
         token = trim (slice (start + 2) (open_end - 2) output) in
     Option.bind (strip_prefix (lit ''#each'') token) (\<lambda>specification.
     let specification = trim specification in
     Option.bind (str_find specification (lit ''{{array::'')) (\<lambda>array_start.
     Option.bind (nested_token_end specification array_start) (\<lambda>array_end.
     let array = slice (array_start + 2) (array_end - 2) specification;
         variable = trim (drop array_end specification) in
     if variable = [] \<or> list_ex is_control variable then None
     else
       let vs = (case strip_prefix (lit ''array::'') array of
                   Some vs \<Rightarrow> take 128 (split (lit ''::'') vs) | None \<Rightarrow> []);
           body = slice open_end close_start output;
           slot = lit ''{{slot::'' @ variable @ lit ''}}'' in
       Some (start, close_end, concat (map (\<lambda>v. str_replace body slot v) vs))))))))"

fun each_passes :: "nat \<Rightarrow> str \<Rightarrow> str option" where
  "each_passes 0 output = Some output"
| "each_passes (Suc n) output =
     (case each_block output of
        None \<Rightarrow> Some output
      | Some (start, close_end, replacement) \<Rightarrow>
          if replacement_would_exceed output start close_end replacement then None
          else each_passes n (replace_range output start close_end replacement))"

definition render_each_blocks :: "str \<Rightarrow> str" where
  "render_each_blocks source =
     (case each_passes MAX_RENDER_PASSES source of Some output \<Rightarrow> output | None \<Rightarrow> source)"

subsection \<open>Conditional blocks\<close>

record block_match =
  bm_start :: nat
  bm_body_start :: nat
  bm_body_end :: nat
  bm_else :: "(nat \<times> nat) option"
  bm_end :: nat
  bm_token :: str

function flat_tokens_from :: "str \<Rightarrow> nat \<Rightarrow> (nat \<times> nat \<times> str) list" where
  "flat_tokens_from source cursor =
     (case str_find (drop cursor source) open_braces of
        None \<Rightarrow> []
      | Some relative_start \<Rightarrow>
          let start = cursor + relative_start; content_start = start + 2 in
          (case str_find (drop content_start source) close_braces of
             None \<Rightarrow> []
           | Some relative_end \<Rightarrow>
               let content_end = content_start + relative_end;
                   content = slice content_start content_end source;
                   rest = flat_tokens_from source (content_end + 2) in
               if contains content open_braces then rest
               else (start, content_end + 2, content) # rest))"
  by pat_completeness auto
termination
proof (relation "measure (\<lambda>(source, cursor). length source - cursor)", goal_cases)
  case (2 source cursor relative_start start content_start relative_end content_end content)
  have "drop cursor source \<noteq> []"
  proof
    assume "drop cursor source = []"
    with 2(1) show False by (simp add: str_find_def lit_def)
  qed
  with 2 show ?case by simp
qed simp

declare flat_tokens_from.simps [simp del]

definition flat_tokens :: "str \<Rightarrow> (nat \<times> nat \<times> str) list" where
  "flat_tokens source = flat_tokens_from source 0"

type_synonym open_block = "nat \<times> nat \<times> str \<times> (nat \<times> nat) option"

fun innermost_from :: "open_block list \<Rightarrow> (nat \<times> nat \<times> str) list \<Rightarrow> block_match option" where
  "innermost_from stack [] = None"
| "innermost_from stack ((start, stop, token) # tokens) =
     (let trimmed = trim token in
      if prefix (lit ''#if'') trimmed \<or> prefix (lit ''#when'') trimmed then
        innermost_from ((start, stop, token, None) # stack) tokens
      else if trimmed = lit '':else'' then
        innermost_from
          (case stack of [] \<Rightarrow> []
           | (open_start, open_end, open_token, _) # stack \<Rightarrow>
               (open_start, open_end, open_token, Some (start, stop)) # stack) tokens
      else if trimmed \<in> set [lit ''/'', lit ''/if'', lit ''/when''] then
        (case stack of
           [] \<Rightarrow> innermost_from [] tokens
         | (open_start, open_end, open_token, else_marker) # _ \<Rightarrow>
             Some \<lparr>bm_start = open_start, bm_body_start = open_end, bm_body_end = start,
               bm_else = else_marker, bm_end = stop, bm_token = open_token\<rparr>)
      else innermost_from stack tokens)"

definition innermost_block :: "str \<Rightarrow> block_match option" where
  "innermost_block source = innermost_from [] (flat_tokens source)"

text \<open>
  The statement of a \<open>#when\<close> is a stack, its last argument on top: an operator and its right operand
  are popped, some operators pop a left operand, and the result is pushed.
\<close>

definition pop :: "str list \<Rightarrow> str option \<times> str list" where
  "pop stack = (case stack of [] \<Rightarrow> (None, []) | v # rest \<Rightarrow> (Some v, rest))"

definition when_step ::
  "prompt_env \<Rightarrow> prompt_resolution_context \<Rightarrow> str \<Rightarrow> str \<Rightarrow> str list \<Rightarrow> str list" where
  "when_step env ctx operator condition rest =
     (let (left, popped) = pop rest;
          holds = (\<lambda>p. case left of Some v \<Rightarrow> p v | None \<Rightarrow> False);
          lookup = (\<lambda>name. portable_variable_value env ctx name);
          toggle = (\<lambda>name. portable_variable_value env ctx (lit ''toggle_'' @ name));
          comparison = compare_values (case left of Some v \<Rightarrow> v | None \<Rightarrow> []) condition in
      if operator = lit ''not'' then bool_text (\<not> when_truthy condition) # rest
      else if operator \<in> set [lit ''keep'', lit ''legacy''] then condition # rest
      else if operator = lit ''and'' then bool_text (holds when_truthy \<and> when_truthy condition) # popped
      else if operator = lit ''or'' then bool_text (holds when_truthy \<or> when_truthy condition) # popped
      else if operator \<in> set [lit ''is'', lit ''='', lit ''=='', lit ''===''] then
        bool_text (holds (\<lambda>v. v = condition)) # popped
      else if operator \<in> set [lit ''isnot'', lit ''!='', lit ''!==''] then
        bool_text (\<not> holds (\<lambda>v. v = condition)) # popped
      else if operator = lit ''var'' then
        bool_text (case lookup condition of Some v \<Rightarrow> when_truthy v | None \<Rightarrow> False) # rest
      else if operator = lit ''toggle'' then
        bool_text (case toggle condition of Some v \<Rightarrow> when_truthy v | None \<Rightarrow> False) # rest
      else if operator = lit ''vis'' then bool_text (Option.bind left lookup = Some condition) # popped
      else if operator = lit ''visnot'' then bool_text (Option.bind left lookup \<noteq> Some condition) # popped
      else if operator = lit ''tis'' then bool_text (Option.bind left toggle = Some condition) # popped
      else if operator = lit ''tisnot'' then bool_text (Option.bind left toggle \<noteq> Some condition) # popped
      else if operator = lit ''>'' then bool_text (comparison > 0) # popped
      else if operator = lit ''>='' then bool_text (comparison \<ge> 0) # popped
      else if operator = lit ''<'' then bool_text (comparison < 0) # popped
      else if operator = lit ''<='' then bool_text (comparison \<le> 0) # popped
      else bool_text (when_truthy condition) # rest)"

lemma length_when_step: "length (when_step env ctx operator condition rest) \<le> Suc (length rest)"
  by (cases rest) (simp_all add: when_step_def pop_def Let_def)

function when_loop :: "prompt_env \<Rightarrow> prompt_resolution_context \<Rightarrow> str list \<Rightarrow> str list" where
  "when_loop env ctx (condition # operator # rest) =
     when_loop env ctx (when_step env ctx operator condition rest)"
| "when_loop env ctx [v] = [v]"
| "when_loop env ctx [] = []"
  by pat_completeness auto
termination
  by (relation "measure (\<lambda>(env, ctx, stack). length stack)") (auto simp: less_Suc_eq_le length_when_step)

definition evaluate_when_expression :: "prompt_env \<Rightarrow> str list \<Rightarrow> prompt_resolution_context \<Rightarrow> bool" where
  "evaluate_when_expression env args ctx =
     (case when_loop env ctx (rev args) of [] \<Rightarrow> False | v # _ \<Rightarrow> when_truthy v)"

definition evaluate_block_condition :: "prompt_env \<Rightarrow> str \<Rightarrow> prompt_resolution_context \<Rightarrow> bool" where
  "evaluate_block_condition env token ctx =
     (let token = trim token in
      case (case strip_prefix (lit ''#if_pure'') token of
              Some v \<Rightarrow> Some v | None \<Rightarrow> strip_prefix (lit ''#if'') token) of
        Some condition \<Rightarrow> truthy (trim (trim_start_matches (lit ''::'') condition))
      | None \<Rightarrow>
          (case strip_prefix (lit ''#when'') token of
             None \<Rightarrow> False
           | Some condition \<Rightarrow>
               evaluate_when_expression env
                 (map trim (split (lit ''::'') (trim_start_matches (lit ''::'') condition))) ctx))"

definition block_replacement :: "prompt_env \<Rightarrow> prompt_resolution_context \<Rightarrow> str \<Rightarrow> block_match \<Rightarrow> str" where
  "block_replacement env ctx output block =
     (if evaluate_block_condition env (bm_token block) ctx then
        slice (bm_body_start block)
          (case bm_else block of Some (else_start, _) \<Rightarrow> else_start | None \<Rightarrow> bm_body_end block) output
      else case bm_else block of
        Some (_, else_end) \<Rightarrow> slice else_end (bm_body_end block) output
      | None \<Rightarrow> [])"

fun block_passes :: "prompt_env \<Rightarrow> prompt_resolution_context \<Rightarrow> str \<Rightarrow> nat \<Rightarrow> str \<Rightarrow> str option" where
  "block_passes env ctx source 0 output = Some output"
| "block_passes env ctx source (Suc n) output =
     (case innermost_block output of
        None \<Rightarrow> Some output
      | Some block \<Rightarrow>
          let replacement = block_replacement env ctx output block in
          if replacement_would_exceed output (bm_start block) (bm_end block) replacement then None
          else Option.bind
            (expand_tokens env ctx source MAX_RENDER_PASSES 0
              (replace_range output (bm_start block) (bm_end block) replacement))
            (block_passes env ctx source n))"

definition render_portable_text :: "prompt_env \<Rightarrow> str \<Rightarrow> prompt_resolution_context \<Rightarrow> str" where
  "render_portable_text env source ctx =
     (if \<not> contains source open_braces then source
      else
        case Option.bind (expand_tokens env ctx source MAX_RENDER_PASSES 0 (render_each_blocks source))
          (block_passes env ctx source MAX_RENDER_PASSES) of
          Some output \<Rightarrow> output
        | None \<Rightarrow> source)"

end
