(* ===== verification/Token_Estimation.thy ===== *)
theory Token_Estimation
  imports Prompt_Types
begin

section \<open>Token estimation and trimming\<close>

text \<open>
  The trait \<open>TokenEstimator\<close> of \<open>crates/orchestration/src/resolver.rs\<close> is a record of its methods, and
  the locale \<open>token_estimator\<close> states what the resolver relies on: an estimate is a \<open>u32\<close>, and the
  kept prefix or suffix is a part of the text that fits the tokens it was given.  The built-in
  estimator, which counts bytes in quanta of four, is shown to keep that contract.

  The rest are the routines that cut a list of messages down to a number of tokens, generic in the
  estimator: trimming text from one end, and keeping the latest items.
\<close>

subsection \<open>The estimator interface\<close>

record estimator =
  est_id :: str
  est_estimate_text :: "str \<Rightarrow> nat"
  est_keep_prefix :: "str \<Rightarrow> nat \<Rightarrow> str"
  est_keep_suffix :: "str \<Rightarrow> nat \<Rightarrow> str"

definition MESSAGE_OVERHEAD_TOKENS :: nat where "MESSAGE_OVERHEAD_TOKENS = 4"

definition estimate_message :: "estimator \<Rightarrow> str \<Rightarrow> nat" where
  "estimate_message e content = saturating_add u32_max (est_estimate_text e content) MESSAGE_OVERHEAD_TOKENS"

text \<open>\<open>xs.fold(0_u32, u32::saturating_add)\<close>.\<close>

definition saturating_sum :: "nat list \<Rightarrow> nat" where
  "saturating_sum xs = foldl (saturating_add u32_max) 0 xs"

text \<open>\<open>xs.sum::<u32>()\<close>, which wraps when overflow is not checked.\<close>

definition wrapping_sum :: "nat list \<Rightarrow> nat" where
  "wrapping_sum xs = sum_list xs mod 2 ^ 32"

lemma estimate_message_bounds: "1 \<le> estimate_message e t" "estimate_message e t \<le> u32_max"
  by (simp_all add: estimate_message_def MESSAGE_OVERHEAD_TOKENS_def saturating_add_def u32_max_def)

lemma foldl_saturating_add: "a \<le> m \<Longrightarrow> foldl (saturating_add m) a xs = min m (a + sum_list xs)"
  by (induction xs arbitrary: a) (auto simp: saturating_add_def min_def)

lemma saturating_sum_eq: "saturating_sum xs = min u32_max (sum_list xs)"
  by (simp add: saturating_sum_def foldl_saturating_add)

lemma saturating_sum_le: "saturating_sum xs \<le> u32_max"
  by (simp add: saturating_sum_eq)

lemma saturating_sum_exact: "saturating_sum xs < u32_max \<Longrightarrow> saturating_sum xs = sum_list xs"
  by (simp add: saturating_sum_eq min_def split: if_splits)

lemma wrapping_sum_exact: "sum_list xs \<le> u32_max \<Longrightarrow> wrapping_sum xs = sum_list xs"
  by (simp add: wrapping_sum_def u32_max_def)

subsection \<open>The built-in estimator\<close>

definition utf8_estimate_text :: "str \<Rightarrow> nat" where
  "utf8_estimate_text t = (if t = [] then 0 else try_from_or u32_max u32_max (div_ceil (str_len t) 4))"

definition max_token_bytes :: "nat \<Rightarrow> nat" where
  "max_token_bytes tokens = saturating_mul usize_max tokens 4"

text \<open>The loop over \<open>char_indices\<close>: \<open>index\<close> is the byte offset of the character.\<close>

fun keep_prefix_loop :: "nat \<Rightarrow> nat \<Rightarrow> str \<Rightarrow> str" where
  "keep_prefix_loop maximum_bytes index [] = []"
| "keep_prefix_loop maximum_bytes index (c # cs) =
     (let stop = index + len_utf8 c in
      if stop > maximum_bytes then [] else c # keep_prefix_loop maximum_bytes stop cs)"

definition keep_utf8_prefix :: "str \<Rightarrow> nat \<Rightarrow> str" where
  "keep_utf8_prefix t maximum_bytes =
     (if str_len t \<le> maximum_bytes then t else keep_prefix_loop maximum_bytes 0 t)"

fun keep_suffix_loop :: "nat \<Rightarrow> nat \<Rightarrow> str \<Rightarrow> str" where
  "keep_suffix_loop minimum_start index [] = []"
| "keep_suffix_loop minimum_start index (c # cs) =
     (if index \<ge> minimum_start then c # cs
      else keep_suffix_loop minimum_start (index + len_utf8 c) cs)"

definition keep_utf8_suffix :: "str \<Rightarrow> nat \<Rightarrow> str" where
  "keep_utf8_suffix t maximum_bytes =
     (if str_len t \<le> maximum_bytes then t else keep_suffix_loop (str_len t - maximum_bytes) 0 t)"

definition utf8_token_estimator :: estimator where
  "utf8_token_estimator =
     \<lparr>est_id = lit ''utf8_bytes_div_4_v1'',
      est_estimate_text = utf8_estimate_text,
      est_keep_prefix = (\<lambda>t tokens. keep_utf8_prefix t (max_token_bytes tokens)),
      est_keep_suffix = (\<lambda>t tokens. keep_utf8_suffix t (max_token_bytes tokens))\<rparr>"

lemma keep_prefix_loop_spec:
  "index \<le> maximum \<Longrightarrow> prefix (keep_prefix_loop maximum index t) t \<and>
     index + str_len (keep_prefix_loop maximum index t) \<le> maximum"
  by (induction t arbitrary: index) (auto simp: Let_def add.assoc [symmetric])

lemma keep_prefix_loop_longest:
  "prefix p t \<Longrightarrow> index + str_len p \<le> maximum \<Longrightarrow> prefix p (keep_prefix_loop maximum index t)"
proof (induction t arbitrary: index p)
  case (Cons c cs)
  then show ?case by (cases p) (auto simp: Let_def)
qed simp

lemma keep_suffix_loop_spec:
  "minimum_start \<le> index + str_len t \<Longrightarrow> suffix (keep_suffix_loop minimum_start index t) t \<and>
     str_len (keep_suffix_loop minimum_start index t) \<le> index + str_len t - minimum_start"
proof (induction t arbitrary: index)
  case (Cons c cs)
  show ?case
  proof (cases "index \<ge> minimum_start")
    case True
    then show ?thesis by simp
  next
    case False
    with Cons.IH [of "index + len_utf8 c"] Cons.prems show ?thesis
      by (auto simp: add.assoc suffix_Cons)
  qed
qed simp

lemma keep_suffix_loop_longest:
  assumes "suffix s t" and "minimum_start + str_len s \<le> index + str_len t"
  shows "suffix s (keep_suffix_loop minimum_start index t)"
  using assms
proof (induction t arbitrary: index)
  case (Cons c cs)
  show ?case
  proof (cases "index \<ge> minimum_start")
    case True
    then show ?thesis using Cons.prems by simp
  next
    case False
    then have "s \<noteq> c # cs" using Cons.prems(2) by auto
    then have "suffix s cs" using Cons.prems(1) by (simp add: suffix_Cons)
    with Cons.IH [of "index + len_utf8 c"] Cons.prems(2) False show ?thesis by (simp add: add.assoc)
  qed
qed simp

lemma keep_utf8_prefix_spec:
  "prefix (keep_utf8_prefix t m) t \<and> str_len (keep_utf8_prefix t m) \<le> m"
  using keep_prefix_loop_spec [of 0 m t] by (simp add: keep_utf8_prefix_def)

lemma keep_utf8_suffix_spec:
  "suffix (keep_utf8_suffix t m) t \<and> str_len (keep_utf8_suffix t m) \<le> m"
  using keep_suffix_loop_spec [of "str_len t - m" 0 t] by (auto simp: keep_utf8_suffix_def)

lemma keep_utf8_prefix_longest: "prefix p t \<Longrightarrow> str_len p \<le> m \<Longrightarrow> prefix p (keep_utf8_prefix t m)"
  using keep_prefix_loop_longest [of p t 0 m] by (simp add: keep_utf8_prefix_def)

lemma keep_utf8_suffix_longest: "suffix s t \<Longrightarrow> str_len s \<le> m \<Longrightarrow> suffix s (keep_utf8_suffix t m)"
  using keep_suffix_loop_longest [of s t "str_len t - m" 0] by (auto simp: keep_utf8_suffix_def)

lemma utf8_estimate_le_iff:
  assumes "n < u32_max"
  shows "utf8_estimate_text t \<le> n \<longleftrightarrow> str_len t \<le> 4 * n"
proof (cases "t = []")
  case False
  have "utf8_estimate_text t \<le> n \<longleftrightarrow> div_ceil (str_len t) 4 \<le> n"
    using False assms by (auto simp: utf8_estimate_text_def try_from_or_def)
  then show ?thesis by (simp add: div_ceil_mult mult.commute)
qed (simp add: utf8_estimate_text_def)

lemma utf8_estimate_bytes: "str_len t \<le> max_token_bytes n \<Longrightarrow> utf8_estimate_text t \<le> n"
proof -
  assume "str_len t \<le> max_token_bytes n"
  then have "div_ceil (str_len t) 4 \<le> n"
    by (simp add: div_ceil_mult max_token_bytes_def saturating_mul_def mult.commute)
  then show ?thesis by (auto simp: utf8_estimate_text_def try_from_or_def)
qed

subsection \<open>Draft messages and their costs\<close>

record draft_message =
  dm_requested_role :: role_hint
  dm_authority :: instruction_authority
  dm_content :: str
  dm_source_message_ids :: "str list"
  dm_source_memory_record_ids :: "str list"
  dm_provenance :: provenance

definition message_cost :: "estimator \<Rightarrow> draft_message \<Rightarrow> nat" where
  "message_cost e m = estimate_message e (dm_content m)"

definition estimated_tokens_with :: "estimator \<Rightarrow> draft_message list \<Rightarrow> nat" where
  "estimated_tokens_with e messages = saturating_sum (map (message_cost e) messages)"

datatype trim_direction = Trim_Head | Trim_Tail

fun trim_loop :: "estimator \<Rightarrow> trim_direction \<Rightarrow> nat \<Rightarrow> draft_message list \<Rightarrow> draft_message list" where
  "trim_loop e direction remaining [] = []"
| "trim_loop e direction remaining (m # ms) =
     (if remaining \<le> MESSAGE_OVERHEAD_TOKENS then []
      else if message_cost e m \<le> remaining then
        m # trim_loop e direction (remaining - message_cost e m) ms
      else
        let text_budget = remaining - MESSAGE_OVERHEAD_TOKENS;
            content = (case direction of
                Trim_Head \<Rightarrow> est_keep_suffix e (dm_content m) text_budget
              | Trim_Tail \<Rightarrow> est_keep_prefix e (dm_content m) text_budget) in
        if content \<noteq> [] then [m\<lparr>dm_content := content\<rparr>] else [])"

definition trim_messages :: "estimator \<Rightarrow> draft_message list \<Rightarrow> nat \<Rightarrow> trim_direction \<Rightarrow> draft_message list" where
  "trim_messages e messages target_tokens direction =
     (case direction of
        Trim_Head \<Rightarrow> rev (trim_loop e Trim_Head target_tokens (rev messages))
      | Trim_Tail \<Rightarrow> trim_loop e Trim_Tail target_tokens messages)"

text \<open>
  The loop of \<open>keep_latest_items\<close> walks the messages from the last to the first; the result is the
  index of the first message to keep.
\<close>

fun keep_from_loop :: "estimator \<Rightarrow> nat \<Rightarrow> nat \<Rightarrow> (nat \<times> draft_message) list \<Rightarrow> nat" where
  "keep_from_loop e remaining keep_from [] = keep_from"
| "keep_from_loop e remaining keep_from ((index, m) # rest) =
     (let cost = message_cost e m in
      if cost > remaining then keep_from else keep_from_loop e (remaining - cost) index rest)"

definition keep_latest_items :: "estimator \<Rightarrow> draft_message list \<Rightarrow> nat \<Rightarrow> draft_message list" where
  "keep_latest_items e messages target_tokens =
     drop (keep_from_loop e target_tokens (length messages) (rev (enumerate 0 messages))) messages"

subsection \<open>What trimming guarantees\<close>

lemma message_cost_bounds: "1 \<le> message_cost e m" "message_cost e m \<le> u32_max"
  unfolding message_cost_def by (rule estimate_message_bounds)+

lemma estimated_tokens_Nil [simp]: "estimated_tokens_with e [] = 0"
  by (simp add: estimated_tokens_with_def saturating_sum_def)

lemma estimated_tokens_eq: "estimated_tokens_with e ms = min u32_max (sum_list (map (message_cost e) ms))"
  by (simp add: estimated_tokens_with_def saturating_sum_eq)

lemma estimated_tokens_rev [simp]: "estimated_tokens_with e (rev ms) = estimated_tokens_with e ms"
  by (simp add: estimated_tokens_eq rev_map [symmetric])

text \<open>The trimmed part of a text: what is kept of it at the end where the direction cuts.\<close>

definition kept_part :: "trim_direction \<Rightarrow> str \<Rightarrow> str \<Rightarrow> bool" where
  "kept_part direction part t = (case direction of Trim_Head \<Rightarrow> suffix part t | Trim_Tail \<Rightarrow> prefix part t)"

text \<open>
  A trimmed list of messages: whole messages from the kept end, and at most one more whose text is
  cut at the far end.
\<close>

inductive trimmed :: "trim_direction \<Rightarrow> draft_message list \<Rightarrow> draft_message list \<Rightarrow> bool" for direction where
  nothing: "trimmed direction [] ms"
| cut: "kept_part direction content (dm_content m) \<Longrightarrow> content \<noteq> [] \<Longrightarrow>
    trimmed direction [m\<lparr>dm_content := content\<rparr>] (m # ms)"
| whole: "trimmed direction ks ms \<Longrightarrow> trimmed direction (m # ks) (m # ms)"

locale token_estimator =
  fixes e :: estimator
  assumes estimate_width: "est_estimate_text e t \<le> u32_max"
    and keep_prefix_part: "prefix (est_keep_prefix e t n) t"
    and keep_prefix_fits: "est_estimate_text e (est_keep_prefix e t n) \<le> n"
    and keep_suffix_part: "suffix (est_keep_suffix e t n) t"
    and keep_suffix_fits: "est_estimate_text e (est_keep_suffix e t n) \<le> n"
begin

lemma trim_loop_trimmed: "trimmed direction (trim_loop e direction remaining ms) ms"
proof (induction ms arbitrary: remaining)
  case (Cons m ms)
  let ?content = "case direction of
      Trim_Head \<Rightarrow> est_keep_suffix e (dm_content m) (remaining - MESSAGE_OVERHEAD_TOKENS)
    | Trim_Tail \<Rightarrow> est_keep_prefix e (dm_content m) (remaining - MESSAGE_OVERHEAD_TOKENS)"
  have "kept_part direction ?content (dm_content m)"
    using keep_prefix_part keep_suffix_part by (cases direction) (simp_all add: kept_part_def)
  then have "?content \<noteq> [] \<Longrightarrow> trimmed direction [m\<lparr>dm_content := ?content\<rparr>] (m # ms)" by (rule trimmed.cut)
  with Cons show ?case
    by (simp add: Let_def trimmed.nothing trimmed.whole)
qed (simp add: trimmed.nothing)

lemma cut_cost: "MESSAGE_OVERHEAD_TOKENS < remaining \<Longrightarrow>
  estimate_message e (case direction of
    Trim_Head \<Rightarrow> est_keep_suffix e t (remaining - MESSAGE_OVERHEAD_TOKENS)
  | Trim_Tail \<Rightarrow> est_keep_prefix e t (remaining - MESSAGE_OVERHEAD_TOKENS)) \<le> remaining"
  using keep_prefix_fits [of t "remaining - MESSAGE_OVERHEAD_TOKENS"]
    keep_suffix_fits [of t "remaining - MESSAGE_OVERHEAD_TOKENS"]
  by (cases direction) (auto simp: estimate_message_def saturating_add_def min_def)

lemma trim_loop_fits: "sum_list (map (message_cost e) (trim_loop e direction remaining ms)) \<le> remaining"
proof (induction ms arbitrary: remaining)
  case (Cons m ms)
  show ?case
    using Cons [of "remaining - message_cost e m"] cut_cost [where remaining = remaining and direction = direction and t = "dm_content m"]
    by (auto simp: Let_def message_cost_def)
qed simp

lemma trim_messages_fits: "estimated_tokens_with e (trim_messages e ms target direction) \<le> target"
  using trim_loop_fits [where remaining = target]
  by (cases direction) (simp_all add: trim_messages_def estimated_tokens_eq min.coboundedI2 rev_map [symmetric])

end

interpretation utf8_tokens: token_estimator utf8_token_estimator
proof
  fix t n
  show "est_estimate_text utf8_token_estimator t \<le> u32_max"
    by (simp add: utf8_token_estimator_def utf8_estimate_text_def try_from_or_def)
  show "prefix (est_keep_prefix utf8_token_estimator t n) t"
    and "est_estimate_text utf8_token_estimator (est_keep_prefix utf8_token_estimator t n) \<le> n"
    using keep_utf8_prefix_spec [of t "max_token_bytes n"]
    by (simp_all add: utf8_token_estimator_def utf8_estimate_bytes)
  show "suffix (est_keep_suffix utf8_token_estimator t n) t"
    and "est_estimate_text utf8_token_estimator (est_keep_suffix utf8_token_estimator t n) \<le> n"
    using keep_utf8_suffix_spec [of t "max_token_bytes n"]
    by (simp_all add: utf8_token_estimator_def utf8_estimate_bytes)
qed

subsection \<open>Keeping the latest items\<close>

text \<open>The reference: remove the oldest message while the rest is over the target.\<close>

fun remove_oldest :: "estimator \<Rightarrow> nat \<Rightarrow> draft_message list \<Rightarrow> draft_message list" where
  "remove_oldest e target [] = []"
| "remove_oldest e target (m # ms) =
     (if sum_list (map (message_cost e) (m # ms)) > target then remove_oldest e target ms else m # ms)"

text \<open>What the loop keeps of the reversed list: the longest prefix that fits.\<close>

fun latest_within :: "estimator \<Rightarrow> nat \<Rightarrow> draft_message list \<Rightarrow> draft_message list" where
  "latest_within e remaining [] = []"
| "latest_within e remaining (m # ms) =
     (if message_cost e m > remaining then [] else m # latest_within e (remaining - message_cost e m) ms)"

lemma keep_from_loop_latest:
  "keep_from_loop e remaining (length ms) (rev (enumerate 0 ms)) =
    length ms - length (latest_within e remaining (rev ms))"
proof (induction ms arbitrary: remaining rule: rev_induct)
  case (snoc m ms)
  then show ?case by (simp add: Let_def enumerate_append_eq)
qed simp

lemma latest_within_prefix: "\<exists>n. latest_within e remaining ms = take n ms"
proof (induction ms arbitrary: remaining)
  case (Cons m ms)
  then obtain n where "latest_within e (remaining - message_cost e m) ms = take n ms" by blast
  then show ?case by (cases "message_cost e m > remaining") (auto intro: exI [of _ 0] exI [of _ "Suc n"])
qed simp

lemma keep_latest_items_eq: "keep_latest_items e ms target = rev (latest_within e target (rev ms))"
proof -
  obtain n where n: "latest_within e target (rev ms) = take n (rev ms)" using latest_within_prefix by blast
  have "keep_latest_items e ms target = drop (length ms - length (take n (rev ms))) ms"
    using keep_from_loop_latest [of e target ms] n by (simp add: keep_latest_items_def)
  also have "\<dots> = rev (take n (rev ms))" by (simp add: rev_take min_def)
  finally show ?thesis using n by simp
qed

lemma latest_within_fits: "sum_list (map (message_cost e) (latest_within e remaining ms)) \<le> remaining"
proof (induction ms arbitrary: remaining)
  case (Cons m ms)
  from Cons [of "remaining - message_cost e m"] show ?case by (auto simp: not_less)
qed simp

lemma latest_within_all: "sum_list (map (message_cost e) ms) \<le> remaining \<Longrightarrow> latest_within e remaining ms = ms"
  by (induction ms arbitrary: remaining) (auto simp: le_diff_conv2)

lemma latest_within_snoc:
  "sum_list (map (message_cost e) ms) + message_cost e m > remaining \<Longrightarrow>
     latest_within e remaining (ms @ [m]) = latest_within e remaining ms"
  by (induction ms arbitrary: remaining) auto

lemma keep_latest_items_remove_oldest: "keep_latest_items e ms target = remove_oldest e target ms"
proof (induction ms)
  case (Cons m ms)
  have sums: "sum_list (map (message_cost e) (rev ms)) = sum_list (map (message_cost e) ms)"
    by (simp add: rev_map [symmetric])
  show ?case
  proof (cases "sum_list (map (message_cost e) (m # ms)) > target")
    case True
    then have "latest_within e target (rev ms @ [m]) = latest_within e target (rev ms)"
      using sums by (intro latest_within_snoc) simp
    with Cons True show ?thesis by (simp add: keep_latest_items_eq)
  next
    case False
    then have "latest_within e target (rev (m # ms)) = rev (m # ms)"
      using sums by (intro latest_within_all) simp
    with False show ?thesis by (simp add: keep_latest_items_eq)
  qed
qed (simp add: keep_latest_items_def)

lemma keep_latest_items_fits: "estimated_tokens_with e (keep_latest_items e ms target) \<le> target"
  using latest_within_fits [of e target "rev ms"]
  by (simp add: keep_latest_items_eq estimated_tokens_eq min.coboundedI2 rev_map [symmetric])

lemma keep_latest_items_suffix: "suffix (keep_latest_items e ms target) ms"
  by (simp add: keep_latest_items_def suffix_drop)

end
