(* ===== verification/Prompt_Resolver.thy ===== *)
theory Prompt_Resolver
  imports Request_Validation Portable_Text Token_Estimation
begin

section \<open>The prompt resolver\<close>

text \<open>
  \<open>PromptResolver::resolve\<close> of \<open>crates/orchestration/src/resolver.rs\<close> with \<open>resolver/compat.rs\<close> and
  \<open>resolver/history_budget.rs\<close>: every block of the preset is materialized into draft messages, blocks
  are cut to their maximum and then to the global budget, roles are mapped to what the provider
  supports, cache directives are resolved, and the result is sealed with a hash.

  A method that takes \<open>&mut self\<close> or \<open>&mut MaterializedBlock\<close> returns the new value.
\<close>

definition PROMPT_PLAN_SCHEMA_VERSION :: nat where "PROMPT_PLAN_SCHEMA_VERSION = 1"
definition BLOCK_CONTENT_SLOT :: str where "BLOCK_CONTENT_SLOT = lit ''block_content''"

datatype orchestration_error =
    OE_Invalid str
  | OE_Template template_error
  | OE_Materialization (oe_block_id: str) (oe_reason: str)
  | OE_UnsupportedRole str role_hint
  | OE_LatestUserMessageExceedsBudget nat nat
  | OE_OverflowRejected (oe_estimated_tokens: nat) (oe_available_tokens: nat)
  | OE_PlanSerialization str
  | OE_PlanHashMismatch

record materialized_block =
  mb_block :: prompt_block
  mb_original_index :: nat
  mb_messages :: "draft_message list"
  mb_status :: block_resolution_status
  mb_original_tokens :: nat
  mb_explanation :: str
  mb_knowledge_evidence :: "knowledge_selection_evidence list"
  mb_memory_evidence :: "prompt_memory_selection_evidence list"
  mb_overflow_trace :: "overflow_trace list"

definition materialized_empty :: "prompt_block \<Rightarrow> nat \<Rightarrow> materialized_block" where
  "materialized_empty block original_index =
     \<lparr>mb_block = block, mb_original_index = original_index, mb_messages = [], mb_status = Status_Included,
      mb_original_tokens = 0, mb_explanation = [], mb_knowledge_evidence = [], mb_memory_evidence = [],
      mb_overflow_trace = []\<rparr>"

abbreviation block_tokens :: "estimator \<Rightarrow> materialized_block \<Rightarrow> nat" where
  "block_tokens e b \<equiv> estimated_tokens_with e (mb_messages b)"

definition total_tokens :: "estimator \<Rightarrow> materialized_block list \<Rightarrow> nat" where
  "total_tokens e blocks = saturating_sum (map (block_tokens e) blocks)"

subsection \<open>Compatibility helpers\<close>

definition is_compat_block :: "prompt_block \<Rightarrow> bool" where
  "is_compat_block block =
     is_some_and (\<lambda>source. list_ex (\<lambda>p. prefix (lit p) source)
         [''imported-preset:'', ''imported-memory-preset:'', ''risu-preset:'', ''risu-memory-preset:''])
       (pv_source_id (pb_provenance block))"

definition render_compat_text ::
  "prompt_env \<Rightarrow> prompt_block \<Rightarrow> str \<Rightarrow> prompt_resolution_context \<Rightarrow> str" where
  "render_compat_text env block source ctx =
     (if is_compat_block block then render_portable_text env source ctx else source)"

definition resolve_offset :: "int \<Rightarrow> int \<Rightarrow> int" where
  "resolve_offset len offset = max 0 (min len (if offset < 0 then len + offset else offset))"

definition select_relative_message_range :: "'a list \<Rightarrow> int \<Rightarrow> int option \<Rightarrow> (str, 'a list) result" where
  "select_relative_message_range messages start stop =
     (let len = int (length messages);
          first = resolve_offset len start;
          final = (case stop of None \<Rightarrow> len | Some offset \<Rightarrow> resolve_offset len offset) in
      if first > final then Inl (lit ''relative history range start occurs after its end'')
      else Inr (slice (nat first) (nat final) messages))"

text \<open>The messages merged so far, last first.\<close>

definition merge_step :: "draft_message list \<Rightarrow> draft_message \<Rightarrow> draft_message list" where
  "merge_step merged message =
     (case merged of
        [] \<Rightarrow> [message]
      | previous # rest \<Rightarrow>
          if dm_requested_role previous = dm_requested_role message \<and>
             dm_authority previous = dm_authority message \<and>
             dm_provenance previous = dm_provenance message
          then previous\<lparr>dm_content := dm_content previous @ [10, 10] @ dm_content message,
              dm_source_message_ids := dm_source_message_ids previous @ dm_source_message_ids message,
              dm_source_memory_record_ids :=
                dm_source_memory_record_ids previous @ dm_source_memory_record_ids message\<rparr> # rest
          else message # merged)"

definition merge_same_role_messages :: "draft_message list \<Rightarrow> draft_message list" where
  "merge_same_role_messages messages = rev (foldl merge_step [] messages)"

subsection \<open>Block sources\<close>

definition template_environment_of ::
  "prompt_resolution_context \<Rightarrow> template_slot list \<Rightarrow> template_environment" where
  "template_environment_of ctx slots =
     \<lparr>te_variables = rc_variables ctx, te_capabilities = rc_supported_capabilities ctx,
      te_character_name = ch_name (rc_character ctx), te_user_name = rc_user_name ctx,
      te_persona_name = map_option pe_name (rc_persona ctx),
      te_persona_description = map_option pe_description (rc_persona ctx),
      te_current_date = rc_current_date ctx, te_current_time = rc_current_time ctx, te_slots = slots\<rparr>"

definition role_for_block :: "prompt_block \<Rightarrow> role_hint" where
  "role_for_block block =
     (if pb_kind block = Kind_AssistantPrefill then Role_Assistant
      else if pb_kind block = Kind_LatestUserTurn then Role_User
      else pb_role_hint block)"

fun character_field_text :: "prompt_resolution_context \<Rightarrow> character_field \<Rightarrow> str" where
  "character_field_text ctx Field_Name =
     (let c = rc_character ctx in
      if ch_aliases c = [] then ch_name c
      else ch_name c @ [10] @ lit ''Aliases: '' @ join (lit '', '') (ch_aliases c))"
| "character_field_text ctx Field_Description = ch_description (rc_character ctx)"
| "character_field_text ctx Field_Personality = ch_personality (rc_character ctx)"
| "character_field_text ctx Field_Scenario = ch_scenario (rc_character ctx)"
| "character_field_text ctx Field_FirstMessage = ch_first_message (rc_character ctx)"
| "character_field_text ctx Field_DialogueExamples = join [10, 10] (ch_dialogue_examples (rc_character ctx))"
| "character_field_text ctx Field_SystemInstruction = ch_system_instruction (rc_character ctx)"
| "character_field_text ctx Field_PostHistoryInstruction = ch_post_history_instruction (rc_character ctx)"

definition knowledge_matches_zone :: "knowledge_placement \<Rightarrow> placement_zone \<Rightarrow> bool" where
  "knowledge_matches_zone placement zone \<longleftrightarrow>
     (placement, zone) \<in> set [(RetrievedContext, Zone_RetrievedContext),
       (BeforeOlderHistory, Zone_OlderHistory), (BeforeRecentHistory, Zone_RecentEnhancement),
       (PostHistory, Zone_PostHistory)]"

definition authority_for_provenance :: "instruction_authority \<Rightarrow> provenance \<Rightarrow> instruction_authority" where
  "authority_for_provenance block_authority p =
     (if pv_source_kind p \<in> set [ImportedStandard, ImportedPackage] then Auth_ImportedContent
      else block_authority)"

definition default_draft :: "prompt_block \<Rightarrow> str \<Rightarrow> draft_message" where
  "default_draft block content =
     \<lparr>dm_requested_role = role_for_block block, dm_authority = pb_authority block, dm_content = content,
      dm_source_message_ids = [], dm_source_memory_record_ids = [], dm_provenance = pb_provenance block\<rparr>"

subsection \<open>History\<close>

text \<open>\<open>turns.get(i).copied().unwrap_or(u32::MAX)\<close> over the distinct turns in order.\<close>

definition turn_at :: "prompt_conversation_message list \<Rightarrow> nat \<Rightarrow> nat" where
  "turn_at messages recent =
     (let turns = remdups_adj (sort_by cmp (map cm_turn_index messages));
          start = length turns - recent in
      if start < length turns then turns ! start else u32_max)"

fun select_history ::
  "prompt_conversation_message list \<Rightarrow> history_selector \<Rightarrow> summary_boundary list \<Rightarrow>
     (str, prompt_conversation_message list) result" where
  "select_history messages History_All summaries = Inr messages"
| "select_history messages (History_BeforeRecentTurns recent_turns) summaries =
     Inr (filter (\<lambda>m. cm_turn_index m < turn_at messages recent_turns) messages)"
| "select_history messages (History_RecentTurns n) summaries =
     Inr (filter (\<lambda>m. cm_turn_index m \<ge> turn_at messages n) messages)"
| "select_history messages (History_ExcludingLatestUser n) summaries =
     Inr (filter (\<lambda>m. cm_turn_index m \<ge> turn_at messages n) messages)"
| "select_history messages (History_RelativeMessageRange start stop) summaries =
     select_relative_message_range messages start stop"
| "select_history messages (History_MessageRange start stop) summaries =
     result_bind (ok_or (lit ''history range start message is unavailable'')
       (position (\<lambda>m. cm_id m = start) messages)) (\<lambda>start_index.
     result_bind (ok_or (lit ''history range end message is unavailable'')
       (position (\<lambda>m. cm_id m = stop) messages)) (\<lambda>end_index.
     if start_index > end_index then Inl (lit ''history range start occurs after its end'')
     else Inr (slice start_index (end_index + 1) messages)))"
| "select_history messages (History_SinceSummary summary_id) summaries =
     result_bind (ok_or (lit ''summary boundary is unavailable'')
       (find (\<lambda>b. sb_summary_id b = summary_id) summaries)) (\<lambda>boundary.
     result_bind (ok_or (lit ''summary end message is unavailable'')
       (position (\<lambda>m. cm_id m = sb_end_message_id boundary) messages)) (\<lambda>end_index.
     Inr (drop (end_index + 1) messages)))"

fun history_role :: "prompt_message_role \<Rightarrow> role_hint" where
  "history_role Msg_System = Role_System"
| "history_role Msg_User = Role_User"
| "history_role Msg_Assistant = Role_Assistant"

definition cmp_history :: "prompt_conversation_message \<Rightarrow> prompt_conversation_message \<Rightarrow> ordering" where
  "cmp_history = cmp_then (cmp_on cm_turn_index) (cmp_on cm_id)"

definition includes_latest_user :: "prompt_block \<Rightarrow> bool" where
  "includes_latest_user block =
     (case pb_history_selector block of Some (History_RelativeMessageRange _ _) \<Rightarrow> True | _ \<Rightarrow> False)"

definition history_messages ::
  "prompt_resolve_request \<Rightarrow> prompt_block \<Rightarrow> (orchestration_error, draft_message list) result" where
  "history_messages request block =
     (let ctx = rq_context request in
      result_bind (ok_or (OE_Materialization (pb_id block) (lit ''history source requires a history selector''))
        (pb_history_selector block)) (\<lambda>selector.
      let messages = sort_by cmp_history
            (filter (\<lambda>m. cm_branch_id m = rc_branch_id ctx \<and>
                (includes_latest_user block \<or> cm_id m \<noteq> rc_latest_user_message_id ctx))
              (rc_messages ctx)) in
      result_bind (map_err (OE_Materialization (pb_id block))
        (select_history messages selector (rc_summary_boundaries ctx))) (\<lambda>selected.
      Inr (map (\<lambda>m.
          \<lparr>dm_requested_role = history_role (cm_role m), dm_authority = pb_authority block,
           dm_content = cm_content m, dm_source_message_ids = [cm_id m],
           dm_source_memory_record_ids = [], dm_provenance = pb_provenance block\<rparr>)
        selected))))"

subsection \<open>Materialization\<close>

definition cmp_selected_knowledge :: "selected_knowledge \<Rightarrow> selected_knowledge \<Rightarrow> ordering" where
  "cmp_selected_knowledge = cmp_then (cmp_desc sk_priority) (cmp_on sk_entry_id)"

definition cmp_selected_memory :: "selected_memory \<Rightarrow> selected_memory \<Rightarrow> ordering" where
  "cmp_selected_memory = cmp_then (cmp_desc sm_score_millionths) (cmp_on sm_record_id)"

definition knowledge_evidence_of :: "estimator \<Rightarrow> selected_knowledge \<Rightarrow> knowledge_selection_evidence" where
  "knowledge_evidence_of e entry =
     \<lparr>kse_entry_id = sk_entry_id entry, kse_selected = True, kse_reasons = sk_evidence entry,
      kse_estimated_tokens = est_estimate_text e (sk_content entry), kse_exclusion_reason = None\<rparr>"

fun is_similarity :: "prompt_memory_selection_reason \<Rightarrow> bool" where
  "is_similarity (PReason_Similarity _) = True"
| "is_similarity _ = False"

definition memory_evidence_of ::
  "prompt_env \<Rightarrow> estimator \<Rightarrow> selected_memory \<Rightarrow> prompt_memory_selection_evidence" where
  "memory_evidence_of env e r =
     (let reasons = (case px_memory_reasons env (sm_reason r) of Some rs \<Rightarrow> rs | None \<Rightarrow> []);
          lane = (if PReason_Pinned \<in> set reasons then PLane_Pinned
                  else if list_ex is_similarity reasons then PLane_Semantic
                  else PLane_Episodic) in
      \<lparr>me_record_id = sm_record_id r, me_selected = True, me_lane = Some lane,
       me_rank_millionths = Some (sm_score_millionths r),
       me_estimated_tokens = est_estimate_text e (sm_content r),
       me_reasons = reasons, me_exclusion_reason = None\<rparr>)"

definition materialize_source ::
  "prompt_env \<Rightarrow> estimator \<Rightarrow> prompt_resolve_request \<Rightarrow> prompt_block \<Rightarrow> materialized_block \<Rightarrow>
     (orchestration_error, draft_message list \<times> materialized_block) result" where
  "materialize_source env e request block materialized =
     (let ctx = rq_context request;
          missing = (\<lambda>reason. OE_Materialization (pb_id block) (lit reason));
          plain = (\<lambda>content. ([default_draft block content], materialized)) in
      case pb_source block of
        Src_Template \<Rightarrow>
          result_bind (ok_or (missing ''template source requires a template'') (pb_template block)) (\<lambda>template.
          result_bind (map_err OE_Template (render_safe_template (px_show_decimal env) template
            (template_environment_of ctx (rc_slots ctx)))) (\<lambda>rendered.
          Inr (plain (render_compat_text env block rendered ctx))))
      | Src_CharacterField field \<Rightarrow>
          Inr (plain (render_portable_text env (character_field_text ctx field) ctx))
      | Src_History \<Rightarrow>
          result_bind (history_messages request block) (\<lambda>messages. Inr (messages, materialized))
      | Src_LatestUser \<Rightarrow>
          result_bind (ok_or (missing ''latest user message is missing'')
            (find (\<lambda>m. cm_id m = rc_latest_user_message_id ctx) (rc_messages ctx))) (\<lambda>latest.
          Inr ([\<lparr>dm_requested_role = Role_User, dm_authority = pb_authority block,
             dm_content = cm_content latest, dm_source_message_ids = [cm_id latest],
             dm_source_memory_record_ids = [], dm_provenance = pb_provenance block\<rparr>], materialized))
      | Src_SelectedKnowledge \<Rightarrow>
          let entries = sort_by cmp_selected_knowledge
                (filter (\<lambda>entry. knowledge_matches_zone (sk_placement entry) (pb_placement_zone block))
                  (rc_selected_knowledge ctx)) in
          Inr (map (\<lambda>entry.
              \<lparr>dm_requested_role = role_for_block block,
               dm_authority = authority_for_provenance (pb_authority block) (sk_provenance entry),
               dm_content = render_portable_text env (sk_content entry) ctx,
               dm_source_message_ids = [], dm_source_memory_record_ids = [],
               dm_provenance = sk_provenance entry\<rparr>) entries,
            materialized\<lparr>mb_knowledge_evidence :=
              mb_knowledge_evidence materialized @ map (knowledge_evidence_of e) entries\<rparr>)
      | Src_SelectedMemory \<Rightarrow>
          let records = sort_by cmp_selected_memory (rc_selected_memory ctx) in
          Inr (map (\<lambda>r.
              \<lparr>dm_requested_role = role_for_block block,
               dm_authority = authority_for_provenance (pb_authority block) (sm_provenance r),
               dm_content = sm_content r, dm_source_message_ids = [],
               dm_source_memory_record_ids = [sm_record_id r],
               dm_provenance = sm_provenance r\<rparr>) records,
            materialized\<lparr>mb_memory_evidence := map (memory_evidence_of env e) records\<rparr>)
      | Src_ConversationSummary \<Rightarrow>
          result_bind (ok_or (missing ''conversation summary source is unavailable at this branch head'')
            (rc_conversation_summary ctx)) (\<lambda>content. Inr (plain content))
      | Src_AuthorNote \<Rightarrow>
          result_bind (ok_or (missing ''author note source is unavailable for this room'')
            (rc_author_note ctx)) (\<lambda>content. Inr (plain content))
      | Src_UserPersona \<Rightarrow>
          (case rc_persona ctx of
             None \<Rightarrow> Inr ([], materialized)
           | Some persona \<Rightarrow> Inr (plain (pe_name persona @ [10] @ pe_description persona)))
      | Src_GroupContext \<Rightarrow>
          result_bind (ok_or (missing ''group context source is unavailable for this room'')
            (rc_group_context ctx)) (\<lambda>content. Inr (plain content)))"

definition render_message ::
  "prompt_env \<Rightarrow> prompt_resolve_request \<Rightarrow> prompt_block \<Rightarrow> safe_template \<Rightarrow> draft_message \<Rightarrow>
     (orchestration_error, draft_message) result" where
  "render_message env request block template message =
     (let ctx = rq_context request;
          slots = filter (\<lambda>slot. ts_name slot \<noteq> BLOCK_CONTENT_SLOT) (rc_slots ctx) @
            [\<lparr>ts_name = BLOCK_CONTENT_SLOT, ts_value = dm_content message\<rparr>] in
      result_bind (map_err OE_Template (render_safe_template (px_show_decimal env) template
        (template_environment_of ctx slots))) (\<lambda>rendered.
      Inr (message\<lparr>dm_content := render_compat_text env block rendered ctx\<rparr>)))"

definition apply_block_template ::
  "prompt_env \<Rightarrow> prompt_resolve_request \<Rightarrow> prompt_block \<Rightarrow> draft_message list \<Rightarrow>
     (orchestration_error, draft_message list) result" where
  "apply_block_template env request block messages =
     (if pb_source block = Src_Template then Inr messages
      else case pb_template block of
        None \<Rightarrow> Inr messages
      | Some template \<Rightarrow> try_map (render_message env request block template) messages)"

definition with_status :: "block_resolution_status \<Rightarrow> string \<Rightarrow> materialized_block \<Rightarrow> materialized_block" where
  "with_status status explanation b = b\<lparr>mb_status := status, mb_explanation := lit explanation\<rparr>"

text \<open>The rest of \<open>materialize_block\<close>, once the source has produced its messages.\<close>

definition include_messages ::
  "prompt_env \<Rightarrow> estimator \<Rightarrow> prompt_resolve_request \<Rightarrow> prompt_block \<Rightarrow> materialized_block \<Rightarrow> draft_message list \<Rightarrow>
     (orchestration_error, materialized_block) result" where
  "include_messages env e request block materialized messages =
     (if messages = [] then
        Inr (with_status Status_Empty ''block source produced no content'' materialized)
      else
        let messages = (if is_compat_block block \<and> pb_template block \<noteq> None
              then merge_same_role_messages messages else messages) in
        result_bind (apply_block_template env request block messages) (\<lambda>messages.
        let messages = filter (\<lambda>m. dm_content m \<noteq> []) messages in
        if messages = [] then
          Inr (with_status Status_Empty ''rendered block was empty'' materialized)
        else
          let messages = (if pb_merge_policy block = MergeWithPreviousSameRole
                then merge_same_role_messages messages else messages) in
          Inr (materialized\<lparr>mb_messages := messages,
            mb_original_tokens := estimated_tokens_with e messages,
            mb_explanation := lit ''block included''\<rparr>)))"

definition materialize_block ::
  "prompt_env \<Rightarrow> estimator \<Rightarrow> prompt_resolve_request \<Rightarrow> prompt_block \<Rightarrow> nat \<Rightarrow>
     (orchestration_error, materialized_block) result" where
  "materialize_block env e request block original_index =
     (let materialized = materialized_empty block original_index in
      if \<not> pb_enabled block then Inr (with_status Status_Disabled ''block is disabled'' materialized)
      else
        result_bind
          (case pb_condition block of
             None \<Rightarrow> Inr True
           | Some condition \<Rightarrow> map_err OE_Template (template_condition condition
               (rc_variables (rq_context request)) (rc_supported_capabilities (rq_context request)))) (\<lambda>holds.
        if \<not> holds then
          Inr (with_status Status_ConditionFalse ''block condition evaluated to false'' materialized)
        else
          result_bind (materialize_source env e request block materialized) (\<lambda>(messages, materialized).
          include_messages env e request block materialized messages)))"

end
