(* ===== verification/Prompt_Planning.thy ===== *)
theory Prompt_Planning
  imports Prompt_Resolver
begin

section \<open>Budgets, roles, cache directives and the plan\<close>

text \<open>
  The second half of \<open>crates/orchestration/src/resolver.rs\<close>: what \<open>PromptResolver::resolve\<close> does with
  the materialized blocks.
\<close>

subsection \<open>Reducing a block\<close>

text \<open>Mark the last selected piece of knowledge evidence as removed.\<close>

definition deselect_evidence :: "knowledge_selection_evidence \<Rightarrow> knowledge_selection_evidence" where
  "deselect_evidence k =
     k\<lparr>kse_selected := False, kse_exclusion_reason := Some (lit ''removed by the prompt token budget'')\<rparr>"

fun deselect_first :: "knowledge_selection_evidence list \<Rightarrow> knowledge_selection_evidence list" where
  "deselect_first [] = []"
| "deselect_first (k # ks) = (if kse_selected k then deselect_evidence k # ks else k # deselect_first ks)"

definition deselect_last :: "knowledge_selection_evidence list \<Rightarrow> knowledge_selection_evidence list" where
  "deselect_last ks = rev (deselect_first (rev ks))"

function reduce_knowledge ::
  "estimator \<Rightarrow> nat \<Rightarrow> draft_message list \<Rightarrow> knowledge_selection_evidence list \<Rightarrow>
     draft_message list \<times> knowledge_selection_evidence list" where
  "reduce_knowledge e target messages evidence =
     (if length messages > 1 \<and> estimated_tokens_with e messages > target then
        reduce_knowledge e target (butlast messages) (deselect_last evidence)
      else (messages, evidence))"
  by pat_completeness auto
termination by (relation "measure (\<lambda>(e, target, messages, evidence). length messages)") auto

declare reduce_knowledge.simps [simp del]

definition summary_draft :: "prompt_block \<Rightarrow> str \<Rightarrow> draft_message list \<Rightarrow> draft_message" where
  "summary_draft block summary messages =
     \<lparr>dm_requested_role = role_for_block block, dm_authority = pb_authority block, dm_content = summary,
      dm_source_message_ids = concat (map dm_source_message_ids messages),
      dm_source_memory_record_ids = [], dm_provenance = pb_provenance block\<rparr>"

definition reduce_block ::
  "estimator \<Rightarrow> prompt_resolve_request \<Rightarrow> materialized_block \<Rightarrow> nat \<Rightarrow>
     (orchestration_error, materialized_block) result" where
  "reduce_block e request b target_tokens =
     (let before = block_tokens e b in
      if before \<le> target_tokens then Inr b
      else case pb_overflow_policy (mb_block b) of
        Overflow_Reject \<Rightarrow> Inl (OE_OverflowRejected before target_tokens)
      | Overflow_DropBlock \<Rightarrow>
          Inr (with_status Status_DroppedForBudget ''optional block dropped for token budget'' (b\<lparr>mb_messages := []\<rparr>))
      | Overflow_TrimHead \<Rightarrow>
          Inr (with_status Status_TrimmedHead ''oldest text trimmed for token budget''
            (b\<lparr>mb_messages := trim_messages e (mb_messages b) target_tokens Trim_Head\<rparr>))
      | Overflow_TrimTail \<Rightarrow>
          Inr (with_status Status_TrimmedTail ''trailing text trimmed for token budget''
            (b\<lparr>mb_messages := trim_messages e (mb_messages b) target_tokens Trim_Tail\<rparr>))
      | Overflow_KeepLatestItems \<Rightarrow>
          Inr (with_status Status_ReducedItems ''oldest history items removed for token budget''
            (b\<lparr>mb_messages := keep_latest_items e (mb_messages b) target_tokens\<rparr>))
      | Overflow_Summarize \<Rightarrow>
          (case rc_conversation_summary (rq_context request) of
             None \<Rightarrow> Inl (OE_Materialization (pb_id (mb_block b))
               (lit ''summarize overflow requires a precomputed summary''))
           | Some summary \<Rightarrow>
               let summary_tokens = estimate_message e summary in
               if summary_tokens \<ge> before \<or> summary_tokens > target_tokens then
                 Inl (OE_OverflowRejected before target_tokens)
               else Inr (with_status Status_Summarized ''raw history replaced by a precomputed summary''
                 (b\<lparr>mb_messages := [summary_draft (mb_block b) summary (mb_messages b)]\<rparr>)))
      | Overflow_ReduceKnowledgeEntries \<Rightarrow>
          (case reduce_knowledge e target_tokens (mb_messages b) (mb_knowledge_evidence b) of
             (messages, evidence) \<Rightarrow>
               if estimated_tokens_with e messages > target_tokens then
                 Inl (OE_OverflowRejected (estimated_tokens_with e messages) target_tokens)
               else Inr (with_status Status_ReducedItems ''lower-ranked knowledge entries removed''
                 (b\<lparr>mb_messages := messages, mb_knowledge_evidence := evidence\<rparr>))))"

definition push_overflow :: "nat \<Rightarrow> nat \<Rightarrow> string \<Rightarrow> materialized_block \<Rightarrow> materialized_block" where
  "push_overflow before after explanation b =
     b\<lparr>mb_overflow_trace := mb_overflow_trace b @
       [\<lparr>ot_block_id = pb_id (mb_block b), ot_policy = pb_overflow_policy (mb_block b),
         ot_tokens_before = before, ot_tokens_after = after, ot_explanation = lit explanation\<rparr>]\<rparr>"

definition enforce_block_maximum ::
  "estimator \<Rightarrow> prompt_resolve_request \<Rightarrow> materialized_block \<Rightarrow> (orchestration_error, materialized_block) result" where
  "enforce_block_maximum e request b =
     (case tp_max_tokens (pb_token_policy (mb_block b)) of
        None \<Rightarrow> Inr b
      | Some maximum \<Rightarrow>
          let before = block_tokens e b in
          if before \<le> maximum then Inr b
          else result_bind (reduce_block e request b maximum) (\<lambda>b.
            let after = block_tokens e b in
            if after > maximum then Inl (OE_OverflowRejected after maximum)
            else Inr (push_overflow before after ''applied the block maximum'' b)))"

subsection \<open>The global budget\<close>

definition reduction_phase :: "prompt_block \<Rightarrow> nat" where
  "reduction_phase block =
     (if pb_overflow_policy block = Overflow_DropBlock then 0
      else if pb_kind block = Kind_WorldKnowledge \<or> pb_overflow_policy block = Overflow_ReduceKnowledgeEntries then 1
      else if pb_kind block = Kind_HistorySlice \<and> pb_overflow_policy block = Overflow_Summarize then 2
      else if pb_kind block = Kind_DialogueExamples then 3
      else if pb_kind block = Kind_HistorySlice then 4
      else 5)"

type_synonym reduction_candidate = "nat \<times> nat \<times> nat \<times> nat"

text \<open>The derived order of the tuples, whose third component is wrapped in \<open>Reverse\<close>.\<close>

definition cmp_candidate :: "reduction_candidate \<Rightarrow> reduction_candidate \<Rightarrow> ordering" where
  "cmp_candidate =
     cmp_then (cmp_on fst) (cmp_then (cmp_on (\<lambda>c. fst (snd c)))
       (cmp_then (cmp_desc (\<lambda>c. fst (snd (snd c)))) (cmp_on (\<lambda>c. snd (snd (snd c))))))"

definition reduction_candidates :: "materialized_block list \<Rightarrow> reduction_candidate list" where
  "reduction_candidates blocks =
     sort_by cmp_candidate
       (map (\<lambda>(index, b). (reduction_phase (mb_block b), tp_priority (pb_token_policy (mb_block b)),
            mb_original_index b, index))
         (filter (\<lambda>(index, b). pb_kind (mb_block b) \<noteq> Kind_LatestUserTurn) (enumerate 0 blocks)))"

definition protected_tokens :: "token_policy \<Rightarrow> nat" where
  "protected_tokens policy =
     max (case tp_min_tokens policy of Some n \<Rightarrow> n | None \<Rightarrow> 0)
       (case tp_reserve_tokens policy of Some n \<Rightarrow> n | None \<Rightarrow> 0)"

text \<open>One round of the loop; once the total fits, the remaining rounds change nothing.\<close>

definition global_step ::
  "estimator \<Rightarrow> prompt_resolve_request \<Rightarrow> nat \<Rightarrow> materialized_block list \<times> nat \<Rightarrow> reduction_candidate \<Rightarrow>
     (orchestration_error, materialized_block list \<times> nat) result" where
  "global_step e request available st candidate =
     (case st of (blocks, total_now) \<Rightarrow>
      case candidate of (_, _, _, index) \<Rightarrow>
      let b = blocks ! index; before = block_tokens e b in
      if total_now \<le> available then Inr st
      else if before = 0 \<or> pb_overflow_policy (mb_block b) = Overflow_Reject then Inr st
      else
        let needed = total_now - available;
            target = max (before - needed) (protected_tokens (pb_token_policy (mb_block b))) in
        result_bind (reduce_block e request b target) (\<lambda>b.
        let after = block_tokens e b in
        Inr (blocks[index := push_overflow before after ''applied the global context budget'' b],
          total_now - (before - after))))"

definition enforce_global_budget ::
  "estimator \<Rightarrow> prompt_resolve_request \<Rightarrow> nat \<Rightarrow> materialized_block list \<Rightarrow>
     (orchestration_error, materialized_block list) result" where
  "enforce_global_budget e request available blocks =
     (let total_now = total_tokens e blocks in
      if total_now \<le> available then Inr blocks
      else result_bind (try_fold (global_step e request available) (blocks, total_now) (reduction_candidates blocks))
        (\<lambda>(blocks, total_now).
          if total_now > available then Inl (OE_OverflowRejected total_now available) else Inr blocks))"

subsection \<open>Roles\<close>

definition map_role ::
  "role_hint \<Rightarrow> instruction_authority \<Rightarrow> provider_prompt_contract \<Rightarrow>
     (role_hint, provider_message_role \<times> str) result" where
  "map_role requested authority contract =
     (let supports = (\<lambda>role. role \<in> set (pc_supported_roles contract));
          explicit = (\<lambda>desired.
            if supports desired then Inr (desired, lit ''requested role is supported'')
            else if desired = PRole_Developer \<and>
                pc_unsupported_role_policy contract = Policy_MapDeveloperToSystem \<and> supports PRole_System
              then Inr (PRole_System, lit ''developer role mapped to system because the provider lacks developer'')
            else if desired = PRole_System \<and>
                pc_unsupported_role_policy contract = Policy_MapSystemToDeveloper \<and> supports PRole_Developer
              then Inr (PRole_Developer, lit ''system role mapped to developer because the provider lacks system'')
            else if pc_unsupported_role_policy contract = Policy_UseProviderDefault
              then Inr (pc_provider_default_role contract, lit ''unsupported role mapped to the provider default'')
            else Inl requested) in
      if authority = Auth_ImportedContent \<and> requested \<in> set [Role_System, Role_Developer] then
        (if supports PRole_User then
           Inr (PRole_User, lit ''imported content privileged role downgraded to user'')
         else Inl requested)
      else case requested of
        Role_System \<Rightarrow> explicit PRole_System
      | Role_Developer \<Rightarrow> explicit PRole_Developer
      | Role_User \<Rightarrow> explicit PRole_User
      | Role_Assistant \<Rightarrow> explicit PRole_Assistant
      | Role_ProviderDefault \<Rightarrow> Inr (pc_provider_default_role contract, lit ''provider-default role selected''))"

subsection \<open>Effective messages\<close>

type_synonym message_state = "role_mapping_trace list \<times> resolved_prompt_message list"

definition emit_draft ::
  "estimator \<Rightarrow> prompt_resolve_request \<Rightarrow> message_state \<Rightarrow> prompt_block \<times> draft_message \<Rightarrow>
     (orchestration_error, message_state) result" where
  "emit_draft e request st bd =
     (case st of (role_mappings, effective_messages) \<Rightarrow>
      case bd of (block, draft) \<Rightarrow>
      result_bind (map_err (OE_UnsupportedRole (pb_id block))
        (map_role (dm_requested_role draft) (dm_authority draft) (rq_provider request)))
        (\<lambda>(effective_role, explanation).
      result_bind (guard_err (length effective_messages > u32_max) (OE_Invalid (lit ''too many messages''))) (\<lambda>_.
      Inr (role_mappings @
          [\<lparr>rt_block_id = pb_id block, rt_requested_role = dm_requested_role draft,
            rt_effective_role = effective_role, rt_explanation = explanation\<rparr>],
        effective_messages @
          [\<lparr>rm_sequence = length effective_messages, rm_block_id = pb_id block, rm_block_kind = pb_kind block,
            rm_requested_role = dm_requested_role draft, rm_effective_role = effective_role,
            rm_authority = dm_authority draft, rm_content = dm_content draft,
            rm_estimated_tokens = estimate_message e (dm_content draft),
            rm_source_message_ids = dm_source_message_ids draft, rm_provenance = dm_provenance draft\<rparr>]))))"

definition drafts_of :: "materialized_block list \<Rightarrow> (prompt_block \<times> draft_message) list" where
  "drafts_of blocks = concat (map (\<lambda>b. map (Pair (mb_block b)) (mb_messages b)) blocks)"

subsection \<open>Cache directives\<close>

type_synonym cache_state = "nat \<times> str list \<times> resolved_cache_directive list"

definition last_sequence :: "str \<Rightarrow> resolved_prompt_message list \<Rightarrow> nat option" where
  "last_sequence block_id messages =
     map_option rm_sequence (find (\<lambda>m. rm_block_id m = block_id) (rev messages))"

definition cache_step ::
  "prompt_resolve_request \<Rightarrow> resolved_prompt_message list \<Rightarrow> cache_state \<Rightarrow> cache_boundary \<Rightarrow> cache_state" where
  "cache_step request messages st boundary =
     (case st of (applied_count, warnings, directives) \<Rightarrow>
      let after = last_sequence (cb_after_block_id boundary) messages;
          quoted = lit ''cache boundary `'' @ cb_id boundary;
          directive = (\<lambda>status explanation.
            \<lparr>cd_boundary_id = cb_id boundary, cd_after_block_id = cb_after_block_id boundary,
             cd_after_message_sequence = after, cd_role_filter = cb_role_filter boundary,
             cd_ttl = cb_ttl boundary, cd_mode = cb_mode boundary, cd_status = status,
             cd_explanation = explanation\<rparr>) in
      if after = None then
        (applied_count, warnings, directives @ [directive Cache_RemovedWithBlock
          (lit ''the referenced block produced no final message'')])
      else if cb_mode boundary = Cache_Automatic then
        (applied_count, warnings, directives @ [directive Cache_Applied
          (lit ''provider automatic cache policy retained'')])
      else if \<not> pc_supports_explicit_cache (rq_provider request) then
        let warning = quoted @ lit ''` ignored because the provider lacks explicit caching'' in
        (applied_count, warnings @ [warning], directives @ [directive Cache_IgnoredUnsupported warning])
      else if applied_count \<ge> pc_max_cache_boundaries (rq_provider request) then
        let warning = quoted @ lit ''` ignored because the provider limit was reached'' in
        (applied_count, warnings @ [warning], directives @ [directive Cache_IgnoredLimit warning])
      else
        (saturating_add u32_max applied_count 1, warnings, directives @ [directive Cache_Applied
          (lit ''explicit provider cache boundary applied'')]))"

definition resolve_cache_directives ::
  "prompt_resolve_request \<Rightarrow> resolved_prompt_message list \<Rightarrow> resolved_cache_directive list \<times> str list" where
  "resolve_cache_directives request messages =
     (case foldl (cache_step request messages) (0, [], []) (pp_cache_boundaries (rq_preset request)) of
        (_, warnings, directives) \<Rightarrow> (directives, warnings))"

subsection \<open>Traces\<close>

text \<open>A record that the budget removed is no longer selected.\<close>

definition exclude_memory :: "prompt_memory_selection_evidence \<Rightarrow> prompt_memory_selection_evidence" where
  "exclude_memory m =
     m\<lparr>me_selected := False, me_lane := None,
       me_exclusion_reason := (case me_exclusion_reason m of
           Some reason \<Rightarrow> Some reason
         | None \<Rightarrow> Some (lit ''removed by the prompt token budget''))\<rparr>"

definition materialized_trace :: "estimator \<Rightarrow> materialized_block \<Rightarrow> block_resolution_trace" where
  "materialized_trace e b =
     (let selected_memory_ids = map fst (bt_collect
            (map (\<lambda>i. (i, ())) (concat (map dm_source_memory_record_ids (mb_messages b)))));
          block = mb_block b in
      \<lparr>bt_block_id = pb_id block, bt_block_kind = pb_kind block,
       bt_source = \<lparr>bs_authority = pb_authority block, bs_source_kind = pv_source_kind (pb_provenance block),
         bs_source_id = pv_source_id (pb_provenance block), bs_source_revision = None,
         bs_source_hash = pv_source_hash (pb_provenance block)\<rparr>,
       bt_status = mb_status b, bt_original_estimated_tokens = mb_original_tokens b,
       bt_final_estimated_tokens = block_tokens e b,
       bt_produced_message_count = try_from_or u32_max u32_max (length (mb_messages b)),
       bt_explanation = mb_explanation b, bt_knowledge_evidence = mb_knowledge_evidence b,
       bt_memory_record_ids = selected_memory_ids,
       bt_memory_evidence = map (\<lambda>m. if me_record_id m \<in> set selected_memory_ids then m else exclude_memory m)
         (mb_memory_evidence b)\<rparr>)"

subsection \<open>Resolution\<close>

text \<open>The hash covers every field but itself, so the encoder is given the plan with that field blanked.\<close>

definition canonical_plan_hash :: "prompt_env \<Rightarrow> resolved_prompt_plan \<Rightarrow> (orchestration_error, str) result" where
  "canonical_plan_hash env plan =
     result_bind (map_err OE_PlanSerialization (px_json_plan env (plan\<lparr>pl_plan_hash := []\<rparr>))) (\<lambda>canonical.
     Inr (px_hex_encode env (px_sha256 env canonical)))"

definition cmp_blocks :: "materialized_block \<Rightarrow> materialized_block \<Rightarrow> ordering" where
  "cmp_blocks =
     cmp_then (cmp_on (\<lambda>b. pb_placement_zone (mb_block b)))
       (cmp_then (cmp_on mb_original_index) (cmp_on (\<lambda>b. pb_id (mb_block b))))"

definition available_tokens :: "prompt_resolve_request \<Rightarrow> nat" where
  "available_tokens request = rq_max_context_tokens request - rq_reserved_output_tokens request"

definition is_latest_user_message :: "resolved_prompt_message \<Rightarrow> bool" where
  "is_latest_user_message m \<longleftrightarrow>
     rm_block_kind m = Kind_LatestUserTurn \<and> rm_effective_role m = PRole_User \<and> rm_content m \<noteq> []"

text \<open>The blocks as they are after both budgets, or the first error on the way.\<close>

definition budgeted_blocks ::
  "prompt_env \<Rightarrow> estimator \<Rightarrow> prompt_resolve_request \<Rightarrow> (orchestration_error, materialized_block list) result" where
  "budgeted_blocks env e request =
     result_bind (try_map (\<lambda>(index, block). materialize_block env e request block index)
       (enumerate 0 (pp_blocks (rq_preset request)))) (\<lambda>blocks.
     result_bind (try_map (enforce_block_maximum e request) (sort_by cmp_blocks blocks)) (\<lambda>blocks.
     let latest_tokens = wrapping_sum (map (block_tokens e)
           (filter (\<lambda>b. pb_kind (mb_block b) = Kind_LatestUserTurn) blocks)) in
     result_bind (guard_err (latest_tokens > available_tokens request)
       (OE_LatestUserMessageExceedsBudget latest_tokens (available_tokens request))) (\<lambda>_.
     enforce_global_budget e request (available_tokens request) blocks)))"

definition assemble_plan ::
  "prompt_env \<Rightarrow> estimator \<Rightarrow> prompt_resolve_request \<Rightarrow> materialized_block list \<Rightarrow> message_state \<Rightarrow>
     (orchestration_error, resolved_prompt_plan) result" where
  "assemble_plan env e request blocks st =
     (case st of (role_mappings, effective_messages) \<Rightarrow>
      case resolve_cache_directives request effective_messages of (cache_directives, cache_warnings) \<Rightarrow>
      let ctx = rq_context request;
          estimated = wrapping_sum (map rm_estimated_tokens effective_messages);
          trace = \<lparr>tr_estimator_id = est_id e, tr_session_seed = rc_session_seed ctx,
            tr_context_snapshot = rc_context_snapshot ctx,
            tr_max_context_tokens = rq_max_context_tokens request,
            tr_reserved_output_tokens = rq_reserved_output_tokens request,
            tr_available_input_tokens = available_tokens request,
            tr_estimated_input_tokens = estimated,
            tr_blocks = map (materialized_trace e) blocks,
            tr_role_mappings = role_mappings,
            tr_overflow = concat (map mb_overflow_trace blocks),
            tr_warnings = cache_warnings\<rparr>;
          preview = \<lparr>pv_effective_messages = effective_messages, pv_cache_directives = cache_directives,
            pv_estimated_input_tokens = estimated, pv_available_input_tokens = available_tokens request\<rparr>;
          plan = \<lparr>pl_schema_version = PROMPT_PLAN_SCHEMA_VERSION, pl_preset_id = pp_id (rq_preset request),
            pl_generation_preset_id = rq_generation_preset_id request,
            pl_effective_messages = effective_messages, pl_cache_directives = cache_directives,
            pl_trace = trace, pl_preview = preview, pl_plan_hash = []\<rparr> in
      result_bind (canonical_plan_hash env plan) (\<lambda>hash. Inr (plan\<lparr>pl_plan_hash := hash\<rparr>)))"

definition resolve ::
  "prompt_env \<Rightarrow> estimator \<Rightarrow> prompt_resolve_request \<Rightarrow> (orchestration_error, resolved_prompt_plan) result" where
  "resolve env e request =
     result_bind (map_err (\<lambda>err. OE_Invalid (validation_error_to_string err))
       (prompt_resolve_request_validate env request)) (\<lambda>_.
     result_bind (budgeted_blocks env e request) (\<lambda>blocks.
     result_bind (try_fold (emit_draft e request) ([], []) (drafts_of blocks)) (\<lambda>st.
     result_bind (guard_err (\<not> list_ex is_latest_user_message (snd st))
       (OE_Invalid (lit ''resolved plan does not contain the latest user message''))) (\<lambda>_.
     assemble_plan env e request blocks st))))"

definition resolve_prompt_plan ::
  "prompt_env \<Rightarrow> prompt_resolve_request \<Rightarrow> (orchestration_error, resolved_prompt_plan) result" where
  "resolve_prompt_plan env request = resolve env utf8_token_estimator request"

definition render_prompt_preview ::
  "prompt_env \<Rightarrow> prompt_resolve_request \<Rightarrow> (orchestration_error, prompt_preview) result" where
  "render_prompt_preview env request =
     result_bind (resolve_prompt_plan env request) (\<lambda>plan. Inr (pl_preview plan))"

subsection \<open>The default preset\<close>

definition default_block ::
  "str \<Rightarrow> string \<Rightarrow> string \<Rightarrow> prompt_block_kind \<Rightarrow> block_source \<Rightarrow> placement_zone \<Rightarrow> role_hint \<Rightarrow>
     overflow_policy \<Rightarrow> nat \<Rightarrow> prompt_block" where
  "default_block preset_id suff bname kind source zone role_hint overflow priority =
     \<lparr>pb_id = preset_id @ lit ''.'' @ lit suff, pb_name = lit bname, pb_kind = kind, pb_enabled = True,
      pb_role_hint = role_hint, pb_authority = Auth_Creator, pb_template = None, pb_condition = None,
      pb_source = source, pb_placement_zone = zone, pb_history_selector = None,
      pb_token_policy = \<lparr>tp_priority = priority, tp_min_tokens = None, tp_max_tokens = None,
        tp_reserve_tokens = None\<rparr>,
      pb_overflow_policy = overflow, pb_merge_policy = SeparateMessage,
      pb_provenance = \<lparr>pv_source_kind = ApplicationBuiltIn,
        pv_source_id = Some (lit ''lorepia.default_prompt_v1''), pv_source_hash = None, pv_author = None,
        pv_license = None, pv_imported_at = None\<rparr>\<rparr>"

definition default_prompt_preset :: "str \<Rightarrow> str \<Rightarrow> preset_metadata \<Rightarrow> prompt_preset" where
  "default_prompt_preset preset_id pname metadata =
     (let character = default_block preset_id ''character'' ''Character'' Kind_CharacterDescription
            (Src_CharacterField Field_Description) Zone_CharacterContext Role_System Overflow_TrimTail 900;
          history = (default_block preset_id ''history'' ''Recent conversation'' Kind_HistorySlice Src_History
            Zone_RecentHistory Role_ProviderDefault Overflow_KeepLatestItems 950)
              \<lparr>pb_history_selector := Some (History_RecentTurns 32)\<rparr>;
          latest = (default_block preset_id ''latest_user'' ''Latest user turn'' Kind_LatestUserTurn
            Src_LatestUser Zone_LatestUser Role_User Overflow_Reject 65535)\<lparr>pb_authority := Auth_User\<rparr> in
      \<lparr>pp_id = preset_id, pp_name = pname, pp_schema_version = 1, pp_blocks = [character, history, latest],
       pp_controls = [], pp_default_values = [], pp_default_generation_preset_id = None,
       pp_memory_profile_id = None, pp_knowledge_book_ids = [], pp_transform_set_ids = [],
       pp_module_ids = [], pp_cache_boundaries = [], pp_metadata = metadata\<rparr>)"

end
