(* ===== verification/Plan_Sealing.thy ===== *)
theory Plan_Sealing
  imports Prompt_Planning
begin

section \<open>Verifying and resealing a plan\<close>

text \<open>
  \<open>ResolvedPromptPlan::validate\<close> of \<open>crates/domain/src/orchestration.rs\<close>, and the functions of
  \<open>crates/orchestration/src/resolver.rs\<close> that check a sealed plan and seal a changed one:
  \<open>verify_resolved_prompt_plan\<close>, \<open>reseal_resolved_prompt_plan_with_estimator\<close> and
  \<open>reseal_prompt_resolution_evidence\<close>.
\<close>

subsection \<open>Validation of a plan\<close>

definition trace_path :: "nat \<Rightarrow> string \<Rightarrow> str" where
  "trace_path index field = path_index (lit ''trace.blocks'') index @ lit field"

definition messages_of_block :: "str \<Rightarrow> resolved_prompt_message list \<Rightarrow> resolved_prompt_message list" where
  "messages_of_block block_id messages = filter (\<lambda>m. rm_block_id m = block_id) messages"

definition validate_memory_evidence ::
  "nat \<Rightarrow> nat \<times> prompt_memory_selection_evidence \<Rightarrow> (validation_error, unit) result" where
  "validate_memory_evidence index im =
     (case im of (evidence_index, m) \<Rightarrow>
      let here = path_index (trace_path index ''.memory_evidence'') evidence_index in
      checks
        [reject_if (me_selected m \<and> (me_lane m = None \<or> me_rank_millionths m = None)) here
           (lit ''selected memory evidence requires a lane and rank''),
         reject_if (length (me_reasons m) > 16) (here @ lit ''.reasons'')
           (lit ''must contain at most 16 reasons''),
         validate_optional (\<lambda>reason. validate_text (here @ lit ''.exclusion_reason'') reason 1 1024)
           (me_exclusion_reason m)])"

definition validate_block_trace ::
  "(str \<Rightarrow> bool) \<Rightarrow> resolved_prompt_message list \<Rightarrow> nat \<times> block_resolution_trace \<Rightarrow>
     (validation_error, unit) result" where
  "validate_block_trace hex_ok messages it =
     (case it of (index, t) \<Rightarrow>
      let own = messages_of_block (bt_block_id t) messages in
      checks
        [validate_optional (\<lambda>v. validate_text (trace_path index ''.source.source_id'') v 1 1024)
           (bs_source_id (bt_source t)),
         validate_optional (\<lambda>v. validate_text (trace_path index ''.source.source_revision'') v 1 1024)
           (bs_source_revision (bt_source t)),
         validate_optional (\<lambda>v. validate_sha256 hex_ok (trace_path index ''.source.source_hash'') v)
           (bs_source_hash (bt_source t)),
         reject_if
           (bt_final_estimated_tokens t \<noteq> saturating_sum (map rm_estimated_tokens own) \<or>
            bt_produced_message_count t \<noteq> length own)
           (path_index (lit ''trace.blocks'') index)
           (lit ''final token and produced-message counts must match effective messages''),
         reject_if (length (bt_memory_evidence t) > MAX_MEMORY_RECORDS)
           (trace_path index ''.memory_evidence'') (at_most MAX_MEMORY_RECORDS ''records''),
         try_for (validate_memory_evidence index) (enumerate 0 (bt_memory_evidence t)),
         reject_if (has_duplicate (map me_record_id (bt_memory_evidence t)))
           (trace_path index ''.memory_evidence'') (lit ''record identifiers must be unique''),
         reject_if
           (sort_by cmp (bt_memory_record_ids t) \<noteq>
            sort_by cmp (map me_record_id (filter me_selected (bt_memory_evidence t))))
           (trace_path index ''.memory_record_ids'')
           (lit ''must exactly match selected memory evidence'')])"

definition validate_effective_message ::
  "(str \<Rightarrow> bool) \<Rightarrow> block_resolution_trace list \<Rightarrow> nat \<times> resolved_prompt_message \<Rightarrow>
     (validation_error, unit) result" where
  "validate_effective_message hex_ok blocks im =
     (case im of (index, m) \<Rightarrow>
      let here = path_index (lit ''effective_messages'') index in
      checks
        [reject_if (rm_sequence m \<noteq> index \<or> rm_content m = [] \<or> rm_estimated_tokens m = 0) here
           (lit ''message sequence, content, and token estimate are invalid''),
         validate_provenance hex_ok (rm_provenance m) (here @ lit ''.provenance''),
         reject_if (\<not> list_ex (\<lambda>t. bt_block_id t = rm_block_id m) blocks) (here @ lit ''.block_id'')
           (lit ''must reference a block resolution trace'')])"

definition plan_validate :: "prompt_env \<Rightarrow> resolved_prompt_plan \<Rightarrow> (validation_error, unit) result" where
  "plan_validate env plan =
     (let messages = pl_effective_messages plan; trace = pl_trace plan; preview = pl_preview plan;
          estimated = saturating_sum (map rm_estimated_tokens messages) in
      checks
        [reject_if (pl_schema_version plan \<noteq> PROMPT_PLAN_SCHEMA_VERSION) (lit ''schema_version'')
           (lit ''unsupported resolved prompt plan schema''),
         validate_sha256 (px_hex_ok env) (lit ''plan_hash'') (pl_plan_hash plan),
         validate_optional (\<lambda>snapshot. validate_prompt_context_snapshot env snapshot None) (tr_context_snapshot trace),
         reject_if
           (messages \<noteq> pv_effective_messages preview \<or> pl_cache_directives plan \<noteq> pv_cache_directives preview)
           (lit ''preview'') (lit ''preview must exactly match the effective request materialization''),
         reject_if (length (tr_blocks trace) > MAX_PROMPT_BLOCKS) (lit ''trace.blocks'')
           (at_most MAX_PROMPT_BLOCKS ''block traces''),
         try_for (validate_block_trace (px_hex_ok env) messages) (enumerate 0 (tr_blocks trace)),
         reject_if (has_duplicate (map bt_block_id (tr_blocks trace))) (lit ''trace.blocks'')
           (lit ''block identifiers must be unique''),
         try_for (validate_effective_message (px_hex_ok env) (tr_blocks trace)) (enumerate 0 messages),
         reject_if
           (estimated \<noteq> tr_estimated_input_tokens trace \<or> estimated \<noteq> pv_estimated_input_tokens preview \<or>
            estimated > tr_available_input_tokens trace \<or>
            tr_available_input_tokens trace \<noteq> pv_available_input_tokens preview)
           (lit ''estimated_input_tokens'')
           (lit ''token totals must agree and fit the available input budget''),
         reject_if
           (length (filter (\<lambda>m. rm_block_kind m = Kind_LatestUserTurn \<and> rm_effective_role m = PRole_User)
              messages) \<noteq> 1)
           (lit ''effective_messages'') (lit ''exactly one effective latest-user message is required''),
         reject_if
           (tr_max_context_tokens trace - tr_reserved_output_tokens trace \<noteq> tr_available_input_tokens trace)
           (lit ''trace.available_input_tokens'') (lit ''must equal context limit minus reserved output''),
         reject_if
           (list_ex (\<lambda>d. is_some_and (\<lambda>sequence. sequence \<ge> length messages) (cd_after_message_sequence d))
             (pl_cache_directives plan))
           (lit ''cache_directives'') (lit ''cache message sequence is outside the effective request'')])"

definition verify_resolved_prompt_plan ::
  "prompt_env \<Rightarrow> resolved_prompt_plan \<Rightarrow> (orchestration_error, unit) result" where
  "verify_resolved_prompt_plan env plan =
     result_bind (map_err (\<lambda>err. OE_Invalid (validation_error_to_string err)) (plan_validate env plan)) (\<lambda>_.
     result_bind (canonical_plan_hash env plan) (\<lambda>hash.
     guard_err (hash \<noteq> pl_plan_hash plan) OE_PlanHashMismatch))"

subsection \<open>Resealing after a transform\<close>

definition retext :: "estimator \<Rightarrow> resolved_prompt_message \<Rightarrow> str \<Rightarrow> resolved_prompt_message" where
  "retext e m content = m\<lparr>rm_content := content, rm_estimated_tokens := estimate_message e content\<rparr>"

definition is_protected_message :: "resolved_prompt_message \<Rightarrow> bool" where
  "is_protected_message m \<longleftrightarrow> rm_authority m = Auth_Application \<or> rm_block_kind m = Kind_LatestUserTurn"

text \<open>\<open>entry(block_id).and_modify(saturating_add).or_insert(tokens)\<close>, folded over the messages.\<close>

definition add_block_tokens :: "(str, nat) btree_map \<Rightarrow> resolved_prompt_message \<Rightarrow> (str, nat) btree_map" where
  "add_block_tokens totals m =
     (case bt_get totals (rm_block_id m) of
        Some n \<Rightarrow> bt_insert (rm_block_id m) (saturating_add u32_max n (rm_estimated_tokens m)) totals
      | None \<Rightarrow> bt_insert (rm_block_id m) (rm_estimated_tokens m) totals)"

definition recount :: "(str, nat) btree_map \<Rightarrow> block_resolution_trace \<Rightarrow> block_resolution_trace" where
  "recount totals t =
     t\<lparr>bt_final_estimated_tokens := (case bt_get totals (bt_block_id t) of Some n \<Rightarrow> n | None \<Rightarrow> 0)\<rparr>"

definition seal :: "prompt_env \<Rightarrow> resolved_prompt_plan \<Rightarrow> (orchestration_error, resolved_prompt_plan) result" where
  "seal env plan =
     result_bind (canonical_plan_hash env plan) (\<lambda>hash.
     let plan = plan\<lparr>pl_plan_hash := hash\<rparr> in
     result_bind (verify_resolved_prompt_plan env plan) (\<lambda>_. Inr plan))"

definition reseal_resolved_prompt_plan_with_estimator ::
  "prompt_env \<Rightarrow> resolved_prompt_plan \<Rightarrow> str list \<Rightarrow> estimator \<Rightarrow>
     (orchestration_error, resolved_prompt_plan) result" where
  "reseal_resolved_prompt_plan_with_estimator env original contents e =
     result_bind (verify_resolved_prompt_plan env original) (\<lambda>_.
     result_bind (guard_err (tr_estimator_id (pl_trace original) \<noteq> est_id e)
       (OE_Invalid (lit ''resolved plan estimator `'' @ tr_estimator_id (pl_trace original) @
          lit ''` does not match reseal estimator `'' @ est_id e @ lit ''`''))) (\<lambda>_.
     result_bind (guard_err (length contents \<noteq> length (pl_effective_messages original))
       (OE_Invalid (lit ''resolved prompt transform must preserve the exact message count''))) (\<lambda>_.
     result_bind (guard_err
       (list_ex (\<lambda>(m, content). content \<noteq> rm_content m \<and> is_protected_message m)
         (zip (pl_effective_messages original) contents))
       (OE_Invalid (lit ''resolved prompt transform cannot change application or latest-user content''))) (\<lambda>_.
     result_bind (guard_err ([] \<in> set contents)
       (OE_Invalid (lit ''resolved prompt transform cannot produce an empty message''))) (\<lambda>_.
     let messages = map2 (retext e) (pl_effective_messages original) contents;
         available = tr_available_input_tokens (pl_trace original);
         latest_user_tokens = saturating_sum (map rm_estimated_tokens
           (filter (\<lambda>m. rm_block_kind m = Kind_LatestUserTurn) messages));
         estimated = saturating_sum (map rm_estimated_tokens messages);
         totals = foldl add_block_tokens [] messages in
     result_bind (guard_err (latest_user_tokens > available)
       (OE_LatestUserMessageExceedsBudget latest_user_tokens available)) (\<lambda>_.
     result_bind (guard_err (estimated > available) (OE_OverflowRejected estimated available)) (\<lambda>_.
     seal env
       (original\<lparr>pl_effective_messages := messages,
         pl_trace := (pl_trace original)\<lparr>tr_blocks := map (recount totals) (tr_blocks (pl_trace original)),
           tr_estimated_input_tokens := estimated\<rparr>,
         pl_preview := \<lparr>pv_effective_messages = messages, pv_cache_directives = pl_cache_directives original,
           pv_estimated_input_tokens = estimated, pv_available_input_tokens = available\<rparr>\<rparr>))))))))"

definition reseal_resolved_prompt_plan ::
  "prompt_env \<Rightarrow> resolved_prompt_plan \<Rightarrow> str list \<Rightarrow> (orchestration_error, resolved_prompt_plan) result" where
  "reseal_resolved_prompt_plan env original contents =
     reseal_resolved_prompt_plan_with_estimator env original contents utf8_token_estimator"

subsection \<open>Adding evidence\<close>

fun revise_first :: "str \<Rightarrow> str \<Rightarrow> block_resolution_trace list \<Rightarrow> block_resolution_trace list option" where
  "revise_first block_id revision [] = None"
| "revise_first block_id revision (t # ts) =
     (if bt_block_id t = block_id
      then Some (t\<lparr>bt_source := (bt_source t)\<lparr>bs_source_revision := Some revision\<rparr>\<rparr> # ts)
      else map_option (Cons t) (revise_first block_id revision ts))"

definition revise_step ::
  "block_resolution_trace list \<Rightarrow> str \<times> str \<Rightarrow> (orchestration_error, block_resolution_trace list) result" where
  "revise_step blocks br =
     (case br of (block_id, revision) \<Rightarrow>
      ok_or (OE_Invalid (lit ''source revision references unknown prompt block `'' @ block_id @ lit ''`''))
        (revise_first block_id revision blocks))"

definition attach_memory_evidence ::
  "prompt_memory_selection_evidence list \<Rightarrow> block_resolution_trace \<Rightarrow>
     (orchestration_error, block_resolution_trace) result" where
  "attach_memory_evidence memory_evidence t =
     (if bt_block_kind t \<noteq> Kind_RetrievedMemory then Inr t
      else if list_ex (\<lambda>i. \<not> list_ex (\<lambda>m. me_record_id m = i) memory_evidence) (bt_memory_record_ids t) then
        Inl (OE_Invalid (lit ''memory trace selection has no matching engine evidence''))
      else Inr (t\<lparr>bt_memory_evidence :=
        map (\<lambda>m. if me_record_id m \<in> set (bt_memory_record_ids t) then m else exclude_memory m)
          memory_evidence\<rparr>))"

definition reseal_prompt_resolution_evidence ::
  "prompt_env \<Rightarrow> resolved_prompt_plan \<Rightarrow> (str, str) btree_map \<Rightarrow> prompt_memory_selection_evidence list \<Rightarrow>
     (orchestration_error, resolved_prompt_plan) result" where
  "reseal_prompt_resolution_evidence env original source_revisions memory_evidence =
     result_bind (verify_resolved_prompt_plan env original) (\<lambda>_.
     result_bind (try_fold revise_step (tr_blocks (pl_trace original)) source_revisions) (\<lambda>blocks.
     result_bind (try_map (attach_memory_evidence memory_evidence) blocks) (\<lambda>blocks.
     seal env (original\<lparr>pl_trace := (pl_trace original)\<lparr>tr_blocks := blocks\<rparr>\<rparr>))))"

end
