(* ===== verification/Provider_Contract.thy ===== *)
theory Provider_Contract
  imports Plan_Sealing
begin

section \<open>The provider prompt contract\<close>

text \<open>
  \<open>crates/providers/src/prompt_contract.rs\<close>: what an API family supports, and how a resolved plan is
  compiled for it.  The same compilation runs twice, for the preview and again for the execution,
  and the execution hash of the second run is compared with the one of the first.

  The canonical JSON encoder is the argument \<open>json\<close>; it fails with \<open>None\<close>.
\<close>

subsection \<open>Types\<close>

datatype api_family =
  OpenAiResponses | OpenAiChatCompletions | AnthropicMessages | GeminiGenerateContent | OllamaNative

datatype developer_role_capability = Developer_Supported | Developer_Unsupported | Developer_Unknown

datatype provider_wire_role = Wire_System | Wire_Developer | Wire_User | Wire_Assistant | Wire_Model

fun wire_role_as_str :: "provider_wire_role \<Rightarrow> str" where
  "wire_role_as_str Wire_System = lit ''system''"
| "wire_role_as_str Wire_Developer = lit ''developer''"
| "wire_role_as_str Wire_User = lit ''user''"
| "wire_role_as_str Wire_Assistant = lit ''assistant''"
| "wire_role_as_str Wire_Model = lit ''model''"

datatype provider_prompt_placement = Place_Message | Place_SystemInstruction

datatype provider_role_mapping_reason =
    ProviderDefaultResolved | DeveloperRoleUnsupportedByFamily | DeveloperRoleUnsupportedForRoute
  | DeveloperRoleCapabilityNotVerified | UnsupportedRoleMappedByContract

record provider_role_mapping =
  prm_requested_role :: role_hint
  prm_effective_role :: provider_message_role
  prm_authority :: instruction_authority
  prm_wire_role :: provider_wire_role
  prm_placement :: provider_prompt_placement
  prm_reason :: "provider_role_mapping_reason option"

datatype provider_cache_boundary_architecture =
  Arch_ProviderManaged | Arch_InlineBreakpoints | Arch_ExternalCachedContext | Arch_Unsupported

datatype provider_cache_boundary_strategy =
  ProviderManagedAutomatic | AnthropicInlineBreakpoint | CachingDisabled

datatype provider_cache_boundary_warning =
    PromptCachingUnavailable | ProviderManagedCachingHasNoExplicitBoundary
  | ExplicitCachedContextMustBeCreatedSeparately | RequestedCacheModeUnavailable
  | CacheDisableUnavailable | CacheBoundaryLimitExceeded | CacheBoundaryTargetWasRemoved
  | CacheRoleFilterUnavailable | RequestedCacheTtlUnavailable

datatype provider_cache_boundary_disposition =
    NoDirective
  | Mapped provider_cache_boundary_strategy
  | Ignored provider_cache_boundary_warning

record provider_cache_boundary_compilation =
  cbc_boundary_id :: str
  cbc_after_block_id :: str
  cbc_after_message_sequence :: "nat option"
  cbc_role_filter :: cache_role_filter
  cbc_ttl :: cache_ttl
  cbc_mode :: cache_mode
  cbc_disposition :: provider_cache_boundary_disposition

record provider_prompt_message =
  ppm_sequence :: nat
  ppm_block_id :: str
  ppm_effective_role :: provider_message_role
  ppm_wire_role :: provider_wire_role
  ppm_placement :: provider_prompt_placement
  ppm_estimated_tokens :: nat
  ppm_source_message_ids :: "str list"
  ppm_content :: str

record provider_compiled_prompt_plan =
  cpp_family :: api_family
  cpp_source_plan_hash :: str
  cpp_execution_hash :: str
  cpp_messages :: "provider_prompt_message list"
  cpp_cache_boundaries :: "provider_cache_boundary_compilation list"

record provider_prompt_message_preview =
  pmp_sequence :: nat
  pmp_block_id :: str
  pmp_effective_role :: provider_message_role
  pmp_wire_role :: provider_wire_role
  pmp_placement :: provider_prompt_placement
  pmp_estimated_tokens :: nat

record provider_compiled_prompt_preview =
  cpv_family :: api_family
  cpv_source_plan_hash :: str
  cpv_execution_hash :: str
  cpv_messages :: "provider_prompt_message_preview list"
  cpv_cache_boundaries :: "provider_cache_boundary_compilation list"

record provider_execution_message_identity =
  emi_sequence :: nat
  emi_block_id :: str
  emi_effective_role :: provider_message_role
  emi_wire_role :: provider_wire_role
  emi_placement :: provider_prompt_placement

record provider_execution_identity =
  exi_schema_version :: nat
  exi_source_plan_hash :: str
  exi_family :: api_family
  exi_messages :: "provider_execution_message_identity list"
  exi_cache_boundaries :: "provider_cache_boundary_compilation list"

datatype provider_prompt_tokenizer =
  OpenAiModelSpecific | AnthropicModelSpecific | GeminiModelSpecific | OllamaModelSpecific

record prompt_token_estimate =
  pte_tokens :: nat
  pte_exact :: bool

datatype provider_context_limit = Limit_Unknown | Limit_Observed nat

record provider_prompt_adapter_contract =
  ac_family :: api_family
  ac_tokenizer :: provider_prompt_tokenizer
  ac_context_limit :: provider_context_limit
  ac_cache_architecture :: provider_cache_boundary_architecture

datatype provider_prompt_contract_error =
    ZeroContextLimit | UnsupportedRole | InvalidResolvedPlan | ResolvedRoleContractMismatch
  | InconsistentDeveloperRoleMapping | CacheDialectFamilyMismatch | ExecutionIdentityEncoding
  | ExecutionPlanHashMismatch

datatype prompt_cache_wire_dialect =
    Dialect_Unsupported
  | Dialect_OpenAiAutomatic (supports_24_hour_retention: bool)
  | Dialect_Anthropic (supports_automatic: bool) (supports_explicit_breakpoints: bool) (supports_one_hour_ttl: bool)
  | Dialect_Gemini (supports_implicit: bool) (supports_explicit_context: bool)

subsection \<open>The adapter contract\<close>

definition tokenizer_estimate_text :: "provider_prompt_tokenizer \<Rightarrow> str \<Rightarrow> prompt_token_estimate" where
  "tokenizer_estimate_text tokenizer txt = \<lparr>pte_tokens = str_len txt, pte_exact = False\<rparr>"

fun context_limit_tokens :: "provider_context_limit \<Rightarrow> nat option" where
  "context_limit_tokens Limit_Unknown = None"
| "context_limit_tokens (Limit_Observed tokens) = Some tokens"

fun context_limit_from_tokens :: "nat option \<Rightarrow> (provider_prompt_contract_error, provider_context_limit) result" where
  "context_limit_from_tokens None = Inr Limit_Unknown"
| "context_limit_from_tokens (Some tokens) = (if tokens = 0 then Inl ZeroContextLimit else Inr (Limit_Observed tokens))"

definition adapter_for_family :: "api_family \<Rightarrow> provider_prompt_adapter_contract" where
  "adapter_for_family family =
     (let (tokenizer, cache_architecture) =
        (case family of
           OpenAiResponses \<Rightarrow> (OpenAiModelSpecific, Arch_ProviderManaged)
         | OpenAiChatCompletions \<Rightarrow> (OpenAiModelSpecific, Arch_ProviderManaged)
         | AnthropicMessages \<Rightarrow> (AnthropicModelSpecific, Arch_InlineBreakpoints)
         | GeminiGenerateContent \<Rightarrow> (GeminiModelSpecific, Arch_ExternalCachedContext)
         | OllamaNative \<Rightarrow> (OllamaModelSpecific, Arch_Unsupported)) in
      \<lparr>ac_family = family, ac_tokenizer = tokenizer, ac_context_limit = Limit_Unknown,
       ac_cache_architecture = cache_architecture\<rparr>)"

definition with_context_limit_tokens ::
  "provider_prompt_adapter_contract \<Rightarrow> nat option \<Rightarrow>
     (provider_prompt_contract_error, provider_prompt_adapter_contract) result" where
  "with_context_limit_tokens contract tokens =
     result_bind (context_limit_from_tokens tokens) (\<lambda>limit. Inr (contract\<lparr>ac_context_limit := limit\<rparr>))"

definition supports_developer :: "api_family \<Rightarrow> developer_role_capability \<Rightarrow> bool" where
  "supports_developer family developer_capability =
     (case family of
        OpenAiResponses \<Rightarrow> developer_capability \<noteq> Developer_Unsupported
      | OpenAiChatCompletions \<Rightarrow> developer_capability = Developer_Supported
      | _ \<Rightarrow> False)"

definition resolution_contract ::
  "provider_prompt_adapter_contract \<Rightarrow> developer_role_capability \<Rightarrow> provider_prompt_contract" where
  "resolution_contract contract developer_capability =
     (let (supports_explicit_cache, max_cache_boundaries) =
        (if ac_family contract = AnthropicMessages then (True, 4) else (False, 0)) in
      \<lparr>pc_supported_roles =
         (if supports_developer (ac_family contract) developer_capability
          then [PRole_System, PRole_Developer, PRole_User, PRole_Assistant]
          else [PRole_System, PRole_User, PRole_Assistant]),
       pc_provider_default_role = PRole_User,
       pc_unsupported_role_policy = Policy_MapDeveloperToSystem,
       pc_supports_explicit_cache = supports_explicit_cache,
       pc_max_cache_boundaries = max_cache_boundaries\<rparr>)"

subsection \<open>Roles\<close>

definition unsupported_role_reason ::
  "api_family \<Rightarrow> provider_message_role \<Rightarrow> developer_role_capability \<Rightarrow> provider_role_mapping_reason" where
  "unsupported_role_reason family role developer_capability =
     (if role \<noteq> PRole_Developer then UnsupportedRoleMappedByContract
      else if family \<in> set [OpenAiResponses, OpenAiChatCompletions] \<and> developer_capability = Developer_Unsupported
        then DeveloperRoleUnsupportedForRoute
      else if family = OpenAiChatCompletions \<and> developer_capability = Developer_Unknown
        then DeveloperRoleCapabilityNotVerified
      else DeveloperRoleUnsupportedByFamily)"

definition wire_mapping :: "api_family \<Rightarrow> provider_message_role \<Rightarrow> provider_wire_role \<times> provider_prompt_placement" where
  "wire_mapping family role =
     (if family \<in> set [AnthropicMessages, GeminiGenerateContent] \<and> role = PRole_System
        then (Wire_System, Place_SystemInstruction)
      else if family = GeminiGenerateContent \<and> role = PRole_Assistant then (Wire_Model, Place_Message)
      else case role of
        PRole_System \<Rightarrow> (Wire_System, Place_Message)
      | PRole_Developer \<Rightarrow> (Wire_Developer, Place_Message)
      | PRole_User \<Rightarrow> (Wire_User, Place_Message)
      | PRole_Assistant \<Rightarrow> (Wire_Assistant, Place_Message))"

text \<open>The role that a message asks for, before the roles of the family are considered.\<close>

definition requested_wire_role ::
  "provider_prompt_contract \<Rightarrow> role_hint \<Rightarrow> instruction_authority \<Rightarrow>
     provider_message_role \<times> provider_role_mapping_reason option" where
  "requested_wire_role contract requested_role authority =
     (if authority = Auth_ImportedContent \<and> requested_role \<in> set [Role_System, Role_Developer]
      then (PRole_User, Some UnsupportedRoleMappedByContract)
      else case requested_role of
        Role_System \<Rightarrow> (PRole_System, None)
      | Role_Developer \<Rightarrow> (PRole_Developer, None)
      | Role_User \<Rightarrow> (PRole_User, None)
      | Role_Assistant \<Rightarrow> (PRole_Assistant, None)
      | Role_ProviderDefault \<Rightarrow> (pc_provider_default_role contract, Some ProviderDefaultResolved))"

definition adapter_map_role ::
  "provider_prompt_adapter_contract \<Rightarrow> role_hint \<Rightarrow> instruction_authority \<Rightarrow> developer_role_capability \<Rightarrow>
     (provider_prompt_contract_error, provider_role_mapping) result" where
  "adapter_map_role adapter requested_role authority developer_capability =
     (let contract = resolution_contract adapter developer_capability;
          (resolved_role, reason) = requested_wire_role contract requested_role authority;
          finish = (\<lambda>effective_role reason.
            let (wire_role, placement) = wire_mapping (ac_family adapter) effective_role in
            Inr \<lparr>prm_requested_role = requested_role, prm_effective_role = effective_role,
              prm_authority = authority, prm_wire_role = wire_role, prm_placement = placement,
              prm_reason = reason\<rparr>);
          unsupported = Some (unsupported_role_reason (ac_family adapter) resolved_role developer_capability) in
      if resolved_role \<in> set (pc_supported_roles contract) then finish resolved_role reason
      else case pc_unsupported_role_policy contract of
        Policy_MapDeveloperToSystem \<Rightarrow>
          if resolved_role = PRole_Developer then finish PRole_System unsupported else Inl UnsupportedRole
      | Policy_MapSystemToDeveloper \<Rightarrow>
          if resolved_role = PRole_System then finish PRole_Developer unsupported else Inl UnsupportedRole
      | Policy_UseProviderDefault \<Rightarrow> finish (pc_provider_default_role contract) unsupported
      | Policy_Reject \<Rightarrow> Inl UnsupportedRole)"

datatype message_role = Message_System | Message_User | Message_Assistant

definition map_message_role :: "provider_prompt_adapter_contract \<Rightarrow> message_role \<Rightarrow> provider_role_mapping" where
  "map_message_role adapter role =
     (let requested_role = (case role of Message_System \<Rightarrow> Role_System | Message_User \<Rightarrow> Role_User
            | Message_Assistant \<Rightarrow> Role_Assistant);
          effective_role = (case role of Message_System \<Rightarrow> PRole_System | Message_User \<Rightarrow> PRole_User
            | Message_Assistant \<Rightarrow> PRole_Assistant);
          (wire_role, placement) = wire_mapping (ac_family adapter) effective_role in
      \<lparr>prm_requested_role = requested_role, prm_effective_role = effective_role,
       prm_authority = Auth_Conversation, prm_wire_role = wire_role, prm_placement = placement,
       prm_reason = None\<rparr>)"

subsection \<open>Cache boundaries\<close>

fun cache_dialect_matches_family :: "api_family \<Rightarrow> prompt_cache_wire_dialect \<Rightarrow> bool" where
  "cache_dialect_matches_family family Dialect_Unsupported = True"
| "cache_dialect_matches_family family (Dialect_OpenAiAutomatic _) =
     (family \<in> set [OpenAiResponses, OpenAiChatCompletions])"
| "cache_dialect_matches_family family (Dialect_Anthropic _ _ _) = (family = AnthropicMessages)"
| "cache_dialect_matches_family family (Dialect_Gemini _ _) = (family = GeminiGenerateContent)"

fun cache_disposition :: "cache_mode \<Rightarrow> prompt_cache_wire_dialect \<Rightarrow> provider_cache_boundary_disposition" where
  "cache_disposition mode Dialect_Unsupported = Ignored PromptCachingUnavailable"
| "cache_disposition mode (Dialect_OpenAiAutomatic _) =
     (case mode of
        Cache_Automatic \<Rightarrow> Mapped ProviderManagedAutomatic
      | Cache_Explicit \<Rightarrow> Ignored ProviderManagedCachingHasNoExplicitBoundary
      | Cache_Disabled \<Rightarrow> Ignored CacheDisableUnavailable)"
| "cache_disposition mode (Dialect_Anthropic automatic breakpoints _) =
     (if mode = Cache_Automatic \<and> automatic then Mapped ProviderManagedAutomatic
      else if mode = Cache_Explicit \<and> breakpoints then Mapped AnthropicInlineBreakpoint
      else if mode = Cache_Disabled then Mapped CachingDisabled
      else Ignored RequestedCacheModeUnavailable)"
| "cache_disposition mode (Dialect_Gemini implicit explicit) =
     (if mode = Cache_Automatic \<and> implicit then Mapped ProviderManagedAutomatic
      else if mode = Cache_Explicit \<and> explicit then Ignored ExplicitCachedContextMustBeCreatedSeparately
      else if mode = Cache_Disabled then Ignored CacheDisableUnavailable
      else Ignored RequestedCacheModeUnavailable)"

definition map_cache_boundary ::
  "provider_prompt_adapter_contract \<Rightarrow> cache_mode \<Rightarrow> prompt_cache_wire_dialect \<Rightarrow>
     (provider_prompt_contract_error, provider_cache_boundary_disposition) result" where
  "map_cache_boundary adapter mode dialect =
     result_bind (guard_err (\<not> cache_dialect_matches_family (ac_family adapter) dialect) CacheDialectFamilyMismatch)
       (\<lambda>_. Inr (cache_disposition mode dialect))"

definition compilation_of ::
  "resolved_cache_directive \<Rightarrow> provider_cache_boundary_disposition \<Rightarrow> provider_cache_boundary_compilation" where
  "compilation_of directive disposition =
     \<lparr>cbc_boundary_id = cd_boundary_id directive, cbc_after_block_id = cd_after_block_id directive,
      cbc_after_message_sequence = cd_after_message_sequence directive,
      cbc_role_filter = cd_role_filter directive, cbc_ttl = cd_ttl directive, cbc_mode = cd_mode directive,
      cbc_disposition = disposition\<rparr>"

definition lacks_one_hour_ttl :: "prompt_cache_wire_dialect \<Rightarrow> bool" where
  "lacks_one_hour_ttl dialect =
     (case dialect of Dialect_Anthropic _ _ one_hour \<Rightarrow> \<not> one_hour | _ \<Rightarrow> False)"

definition compile_cache_directive ::
  "provider_prompt_adapter_contract \<Rightarrow> resolved_cache_directive \<Rightarrow> prompt_cache_wire_dialect \<Rightarrow>
     (provider_prompt_contract_error, provider_cache_boundary_compilation) result" where
  "compile_cache_directive adapter directive dialect =
     result_bind (guard_err (\<not> cache_dialect_matches_family (ac_family adapter) dialect) CacheDialectFamilyMismatch) (\<lambda>_.
     result_bind
       (case cd_status directive of
          Cache_Applied \<Rightarrow>
            if cd_role_filter directive \<noteq> Filter_All \<and> cd_mode directive = Cache_Explicit
              then Inr (Ignored CacheRoleFilterUnavailable)
            else if cd_ttl directive = Ttl_Long \<and> lacks_one_hour_ttl dialect
              then Inr (Ignored RequestedCacheTtlUnavailable)
            else map_cache_boundary adapter (cd_mode directive) dialect
        | Cache_IgnoredUnsupported \<Rightarrow> Inr (Ignored PromptCachingUnavailable)
        | Cache_IgnoredLimit \<Rightarrow> Inr (Ignored CacheBoundaryLimitExceeded)
        | Cache_RemovedWithBlock \<Rightarrow> Inr (Ignored CacheBoundaryTargetWasRemoved)) (\<lambda>disposition.
     Inr (compilation_of directive disposition)))"

subsection \<open>Compiling a plan\<close>

definition compile_message ::
  "provider_prompt_adapter_contract \<Rightarrow> developer_role_capability \<Rightarrow> resolved_prompt_message \<Rightarrow>
     (provider_prompt_contract_error, provider_prompt_message) result" where
  "compile_message adapter developer_capability m =
     result_bind (adapter_map_role adapter (rm_requested_role m) (rm_authority m) developer_capability) (\<lambda>mapping.
     result_bind (guard_err (prm_effective_role mapping \<noteq> rm_effective_role m) ResolvedRoleContractMismatch) (\<lambda>_.
     Inr \<lparr>ppm_sequence = rm_sequence m, ppm_block_id = rm_block_id m, ppm_effective_role = rm_effective_role m,
       ppm_wire_role = prm_wire_role mapping, ppm_placement = prm_placement mapping,
       ppm_estimated_tokens = rm_estimated_tokens m, ppm_source_message_ids = rm_source_message_ids m,
       ppm_content = rm_content m\<rparr>))"

fun is_mapped :: "provider_cache_boundary_disposition \<Rightarrow> bool" where
  "is_mapped (Mapped _) = True"
| "is_mapped _ = False"

type_synonym cache_compilation_state = "nat \<times> provider_cache_boundary_compilation list"

definition is_applied_explicit :: "resolved_cache_directive \<Rightarrow> bool" where
  "is_applied_explicit directive \<longleftrightarrow> cd_status directive = Cache_Applied \<and> cd_mode directive = Cache_Explicit"

definition compile_cache_step ::
  "provider_prompt_adapter_contract \<Rightarrow> provider_prompt_contract \<Rightarrow> prompt_cache_wire_dialect \<Rightarrow>
     cache_compilation_state \<Rightarrow> resolved_cache_directive \<Rightarrow>
     (provider_prompt_contract_error, cache_compilation_state) result" where
  "compile_cache_step adapter contract dialect st directive =
     (case st of (applied_explicit_boundaries, cache_boundaries) \<Rightarrow>
      if pc_supports_explicit_cache contract \<and> is_applied_explicit directive \<and>
         applied_explicit_boundaries \<ge> pc_max_cache_boundaries contract then
        Inr (applied_explicit_boundaries,
          cache_boundaries @ [compilation_of directive (Ignored CacheBoundaryLimitExceeded)])
      else
        result_bind (compile_cache_directive adapter directive dialect) (\<lambda>compilation.
        Inr (if is_applied_explicit directive \<and> is_mapped (cbc_disposition compilation)
             then saturating_add u32_max applied_explicit_boundaries 1 else applied_explicit_boundaries,
          cache_boundaries @ [compilation])))"

definition execution_message_identity :: "provider_prompt_message \<Rightarrow> provider_execution_message_identity" where
  "execution_message_identity m =
     \<lparr>emi_sequence = ppm_sequence m, emi_block_id = ppm_block_id m, emi_effective_role = ppm_effective_role m,
      emi_wire_role = ppm_wire_role m, emi_placement = ppm_placement m\<rparr>"

definition provider_execution_hash ::
  "prompt_env \<Rightarrow> (provider_execution_identity \<Rightarrow> bytes option) \<Rightarrow> api_family \<Rightarrow> str \<Rightarrow>
     provider_prompt_message list \<Rightarrow> provider_cache_boundary_compilation list \<Rightarrow>
     (provider_prompt_contract_error, str) result" where
  "provider_execution_hash env json family source_plan_hash messages cache_boundaries =
     result_bind (ok_or ExecutionIdentityEncoding
       (json \<lparr>exi_schema_version = 1, exi_source_plan_hash = source_plan_hash, exi_family = family,
         exi_messages = map execution_message_identity messages, exi_cache_boundaries = cache_boundaries\<rparr>))
     (\<lambda>canonical_json. Inr (px_hex_encode env (px_sha256 env canonical_json)))"

definition compile_resolved_plan ::
  "prompt_env \<Rightarrow> (provider_execution_identity \<Rightarrow> bytes option) \<Rightarrow> provider_prompt_adapter_contract \<Rightarrow>
     resolved_prompt_plan \<Rightarrow> developer_role_capability \<Rightarrow> prompt_cache_wire_dialect \<Rightarrow>
     (provider_prompt_contract_error, provider_compiled_prompt_plan) result" where
  "compile_resolved_plan env json adapter plan developer_capability cache_dialect =
     result_bind (map_err (\<lambda>_. InvalidResolvedPlan) (verify_resolved_prompt_plan env plan)) (\<lambda>_.
     result_bind (try_map (compile_message adapter developer_capability) (pl_effective_messages plan)) (\<lambda>messages.
     result_bind (try_fold (compile_cache_step adapter (resolution_contract adapter developer_capability) cache_dialect)
       (0, []) (pl_cache_directives plan)) (\<lambda>(_, cache_boundaries).
     result_bind (provider_execution_hash env json (ac_family adapter) (pl_plan_hash plan) messages cache_boundaries)
       (\<lambda>execution_hash.
     Inr \<lparr>cpp_family = ac_family adapter, cpp_source_plan_hash = pl_plan_hash plan,
       cpp_execution_hash = execution_hash, cpp_messages = messages,
       cpp_cache_boundaries = cache_boundaries\<rparr>))))"

text \<open>The capability that the developer messages of a plan show, and the check that they agree.\<close>

definition observe_developer ::
  "developer_role_capability option \<Rightarrow> resolved_prompt_message \<Rightarrow>
     (provider_prompt_contract_error, developer_role_capability option) result" where
  "observe_developer current m =
     (if rm_requested_role m = Role_Developer \<and> rm_authority m \<noteq> Auth_ImportedContent then
        result_bind (case rm_effective_role m of
            PRole_Developer \<Rightarrow> Inr Developer_Supported
          | PRole_System \<Rightarrow> Inr Developer_Unsupported
          | _ \<Rightarrow> Inl InconsistentDeveloperRoleMapping) (\<lambda>observed.
        if is_some_and (\<lambda>c. c \<noteq> observed) current then Inl InconsistentDeveloperRoleMapping
        else Inr (Some observed))
      else Inr current)"

definition compile_resolved_plan_for_execution ::
  "prompt_env \<Rightarrow> (provider_execution_identity \<Rightarrow> bytes option) \<Rightarrow> provider_prompt_adapter_contract \<Rightarrow>
     resolved_prompt_plan \<Rightarrow> prompt_cache_wire_dialect \<Rightarrow>
     (provider_prompt_contract_error, provider_compiled_prompt_plan) result" where
  "compile_resolved_plan_for_execution env json adapter plan cache_dialect =
     result_bind (try_fold observe_developer None (pl_effective_messages plan)) (\<lambda>developer_capability.
     compile_resolved_plan env json adapter plan
       (case developer_capability of Some c \<Rightarrow> c | None \<Rightarrow> Developer_Unknown) cache_dialect)"

subsection \<open>The compiled plan\<close>

definition verify_execution_hash ::
  "provider_compiled_prompt_plan \<Rightarrow> str option \<Rightarrow> (provider_prompt_contract_error, unit) result" where
  "verify_execution_hash compiled expected =
     guard_err (is_some_and (\<lambda>hash. hash \<noteq> cpp_execution_hash compiled) expected) ExecutionPlanHashMismatch"

definition message_preview :: "provider_prompt_message \<Rightarrow> provider_prompt_message_preview" where
  "message_preview m =
     \<lparr>pmp_sequence = ppm_sequence m, pmp_block_id = ppm_block_id m, pmp_effective_role = ppm_effective_role m,
      pmp_wire_role = ppm_wire_role m, pmp_placement = ppm_placement m,
      pmp_estimated_tokens = ppm_estimated_tokens m\<rparr>"

definition compiled_preview :: "provider_compiled_prompt_plan \<Rightarrow> provider_compiled_prompt_preview" where
  "compiled_preview compiled =
     \<lparr>cpv_family = cpp_family compiled, cpv_source_plan_hash = cpp_source_plan_hash compiled,
      cpv_execution_hash = cpp_execution_hash compiled, cpv_messages = map message_preview (cpp_messages compiled),
      cpv_cache_boundaries = cpp_cache_boundaries compiled\<rparr>"

end
