(* ===== verification/Resolver_Facts.thy ===== *)
theory Resolver_Facts
  imports Plan_Sealing
begin

section \<open>Facts about the prompt resolver\<close>

text \<open>
  What validation gives, what every stage of the resolver keeps, and how the effective messages
  relate to the blocks they come from.
\<close>

subsection \<open>What a valid request guarantees\<close>

text \<open>The verdict of a text check does not depend on the path it reports.\<close>

lemma validate_text_Inr: "validate_text path v lo hi = Inr u \<longleftrightarrow> lo \<le> length v \<and> length v \<le> hi \<and> 0 \<notin> set v"
  by (auto simp: validate_text_def result_simps)

lemma validate_optional_Inr: "validate_optional f v = Inr u \<longleftrightarrow> (\<forall>x. v = Some x \<longrightarrow> f x = Inr ())"
  by (cases v) simp_all

definition provenance_ok :: "(str \<Rightarrow> bool) \<Rightarrow> provenance \<Rightarrow> bool" where
  "provenance_ok hex_ok p \<longleftrightarrow> validate_provenance hex_ok p [] = Inr ()"

lemma validate_sha256_path: "validate_sha256 hex_ok path v = Inr u \<longleftrightarrow> validate_sha256 hex_ok path' v = Inr u"
  by (simp add: validate_sha256_def)

lemma provenance_ok_path: "validate_provenance hex_ok p path = Inr u \<longleftrightarrow> provenance_ok hex_ok p"
  unfolding provenance_ok_def validate_provenance_def
  by (simp add: result_simps validate_optional_Inr validate_text_Inr validate_sha256_def)

lemma validate_preset_block_stepD:
  assumes "validate_preset_block_step hex_ok (zone, n, prefill) (i, block) = Inr (zone', n', prefill')"
  shows "\<exists>path. validate_prompt_block hex_ok block path = Inr ()"
    and "n' = n + (if pb_kind block = Kind_LatestUserTurn then 1 else 0)"
  using assms by (auto simp: validate_preset_block_step_def Let_def result_simps)

lemma validate_preset_block_fold:
  assumes "try_fold (validate_preset_block_step hex_ok) (zone, n, prefill) (enumerate k blocks) = Inr (zone', n', prefill')"
  shows "(\<forall>block \<in> set blocks. \<exists>path. validate_prompt_block hex_ok block path = Inr ()) \<and>
    n' = n + length (filter (\<lambda>block. pb_kind block = Kind_LatestUserTurn) blocks)"
  using assms
proof (induction blocks arbitrary: zone n prefill k)
  case (Cons block blocks)
  then obtain z m f where step: "validate_preset_block_step hex_ok (zone, n, prefill) (k, block) = Inr (z, m, f)"
    and rest: "try_fold (validate_preset_block_step hex_ok) (z, m, f) (enumerate (Suc k) blocks) = Inr (zone', n', prefill')"
    by (auto simp: result_simps)
  from Cons.IH [OF rest] validate_preset_block_stepD [OF step] show ?case by simp
qed simp

lemma preset_blocks_valid:
  assumes "validate_prompt_preset_blocks hex_ok preset = Inr ()"
  shows "\<forall>block \<in> set (pp_blocks preset). \<exists>path. validate_prompt_block hex_ok block path = Inr ()"
    and "distinct (map pb_id (pp_blocks preset))"
    and "length (filter (\<lambda>block. pb_kind block = Kind_LatestUserTurn) (pp_blocks preset)) = 1"
proof -
  from assms obtain zone n f where
      fold: "try_fold (validate_preset_block_step hex_ok) (Zone_ApplicationPolicy, 0, False)
        (enumerate 0 (pp_blocks preset)) = Inr (zone, n, f)"
    and "\<not> has_duplicate (map pb_id (pp_blocks preset))" and "n = 1"
    by (auto simp: validate_prompt_preset_blocks_def result_simps)
  with validate_preset_block_fold [OF fold]
  show "\<forall>block \<in> set (pp_blocks preset). \<exists>path. validate_prompt_block hex_ok block path = Inr ()"
    and "distinct (map pb_id (pp_blocks preset))"
    and "length (filter (\<lambda>block. pb_kind block = Kind_LatestUserTurn) (pp_blocks preset)) = 1"
    by (simp_all add: adjacent_dup_sort_distinct)
qed

lemma valid_block_facts:
  assumes "validate_prompt_block hex_ok block path = Inr ()"
  shows "provenance_ok hex_ok (pb_provenance block)"
    and "prompt_block_kind_matches_source (pb_kind block) (pb_source block)"
    and "pb_kind block = Kind_LatestUserTurn \<Longrightarrow>
      pb_source block = Src_LatestUser \<and> pb_enabled block \<and> pb_template block = None \<and>
      pb_overflow_policy block = Overflow_Reject"
  using assms
  by (auto simp: validate_prompt_block_def result_simps provenance_ok_path validate_block_kind_def)

lemma matches_latest_user: "prompt_block_kind_matches_source Kind_LatestUserTurn source \<longleftrightarrow> source = Src_LatestUser"
  by (cases source) (auto split: character_field.splits)

text \<open>The parts of a valid request that the resolver relies on.\<close>

lemma request_valid_parts:
  assumes "prompt_resolve_request_validate env request = Inr ()"
  shows "validate_prompt_preset_blocks (px_hex_ok env) (rq_preset request) = Inr ()"
    and "length (pp_blocks (rq_preset request)) \<le> MAX_PROMPT_BLOCKS"
    and "validate_prompt_context_messages (rq_context request) = Inr ()"
    and "validate_prompt_context_selection_ids (rq_context request) = Inr ()"
    and "validate_prompt_context_text (rq_context request) = Inr ()"
    and "validate_provider_prompt_contract (rq_provider request) = Inr ()"
    and "rc_context_snapshot (rq_context request) = Some snapshot \<Longrightarrow>
      validate_prompt_context_snapshot env snapshot (Some (rq_context request)) = Inr ()"
  using assms
  by (auto simp: prompt_resolve_request_validate_def prompt_preset_validate_def result_simps validate_optional_Inr)

lemma snapshot_valid_alone:
  "validate_prompt_context_snapshot env snapshot (Some ctx) = Inr () \<Longrightarrow>
     validate_prompt_context_snapshot env snapshot None = Inr ()"
  by (auto simp: validate_prompt_context_snapshot_def result_simps)

lemma latest_user_message:
  assumes "validate_prompt_context_messages ctx = Inr ()"
  obtains latest where "find (\<lambda>m. cm_id m = rc_latest_user_message_id ctx) (rc_messages ctx) = Some latest"
    and "cm_role latest = Msg_User" and "cm_content latest \<noteq> []"
  using assms by (auto simp: validate_prompt_context_messages_def result_simps split: option.splits)

lemma selection_ids_valid:
  assumes "validate_prompt_context_selection_ids ctx = Inr ()"
  shows "distinct (map sm_record_id (rc_selected_memory ctx))"
    and "length (rc_selected_memory ctx) \<le> MAX_MEMORY_RECORDS"
  using assms
  by (auto simp: validate_prompt_context_selection_ids_def result_simps adjacent_dup_sort_distinct)

lemma summary_nonempty:
  assumes "validate_prompt_context_text ctx = Inr ()" and "rc_conversation_summary ctx = Some summary"
  shows "summary \<noteq> []"
  using assms
  by (auto simp: validate_prompt_context_text_def validate_prompt_context_optional_text_def result_simps
      validate_optional_Inr validate_text_Inr)

subsection \<open>Messages through the stages\<close>

text \<open>Where a message comes from: its provenance is valid and its memory records are explained.\<close>

definition message_traced :: "(str \<Rightarrow> bool) \<Rightarrow> str set \<Rightarrow> draft_message \<Rightarrow> bool" where
  "message_traced hex_ok ids m \<longleftrightarrow>
     provenance_ok hex_ok (dm_provenance m) \<and> set (dm_source_memory_record_ids m) \<subseteq> ids"

definition message_ok :: "(str \<Rightarrow> bool) \<Rightarrow> str set \<Rightarrow> draft_message \<Rightarrow> bool" where
  "message_ok hex_ok ids m \<longleftrightarrow> message_traced hex_ok ids m \<and> dm_content m \<noteq> []"

lemma merge_step_keeps:
  assumes "\<And>p m c. P p \<Longrightarrow> P m \<Longrightarrow> P (p\<lparr>dm_content := dm_content p @ [10, 10] @ dm_content m,
      dm_source_message_ids := dm_source_message_ids p @ dm_source_message_ids m,
      dm_source_memory_record_ids := dm_source_memory_record_ids p @ dm_source_memory_record_ids m\<rparr>)"
    and "\<forall>m \<in> set merged. P m" and "P m"
  shows "\<forall>m \<in> set (merge_step merged m). P m"
  using assms by (cases merged) (auto simp: merge_step_def)

lemma merge_keeps:
  assumes "\<And>p m c. P p \<Longrightarrow> P m \<Longrightarrow> P (p\<lparr>dm_content := dm_content p @ [10, 10] @ dm_content m,
      dm_source_message_ids := dm_source_message_ids p @ dm_source_message_ids m,
      dm_source_memory_record_ids := dm_source_memory_record_ids p @ dm_source_memory_record_ids m\<rparr>)"
    and "\<forall>m \<in> set ms. P m"
  shows "\<forall>m \<in> set (merge_same_role_messages ms). P m"
proof -
  have "\<forall>m \<in> set (foldl merge_step merged ms). P m" if "\<forall>m \<in> set merged. P m" for merged
    using assms(2) that
  proof (induction ms arbitrary: merged)
    case (Cons m ms)
    have "\<forall>m \<in> set (merge_step merged m). P m"
      by (rule merge_step_keeps [of P]) (use assms(1) Cons.prems in simp_all)
    with Cons show ?case by simp
  qed simp
  from this [of "[]"] show ?thesis by (simp add: merge_same_role_messages_def)
qed

lemma merge_traced:
  "\<forall>m \<in> set ms. message_traced h ids m \<Longrightarrow> \<forall>m \<in> set (merge_same_role_messages ms). message_traced h ids m"
  by (rule merge_keeps [of "message_traced h ids"]) (auto simp: message_traced_def)

lemma merge_ok: "\<forall>m \<in> set ms. message_ok h ids m \<Longrightarrow> \<forall>m \<in> set (merge_same_role_messages ms). message_ok h ids m"
  by (rule merge_keeps [of "message_ok h ids"]) (auto simp: message_ok_def message_traced_def)

lemma merge_single [simp]: "merge_same_role_messages [m] = [m]"
  by (simp add: merge_same_role_messages_def merge_step_def)

lemma render_message_traced:
  "render_message env request block template m = Inr m' \<Longrightarrow> message_traced h ids m \<Longrightarrow> message_traced h ids m'"
  by (auto simp: render_message_def Let_def result_simps message_traced_def)

lemma list_all2_mem2: "list_all2 P xs ys \<Longrightarrow> y \<in> set ys \<Longrightarrow> \<exists>x \<in> set xs. P x y"
  by (induction rule: list_all2_induct) auto

lemma apply_block_template_traced:
  assumes "apply_block_template env request block ms = Inr ms'" and "\<forall>m \<in> set ms. message_traced h ids m"
  shows "\<forall>m \<in> set ms'. message_traced h ids m"
proof (cases "pb_source block = Src_Template \<or> pb_template block = None")
  case True
  with assms show ?thesis by (auto simp: apply_block_template_def split: if_splits)
next
  case False
  then obtain template where "pb_template block = Some template" by auto
  with False assms have "list_all2 (\<lambda>m m'. render_message env request block template m = Inr m') ms ms'"
    by (simp add: apply_block_template_def try_map_Inr_conv)
  then have "\<exists>m \<in> set ms. render_message env request block template m = Inr m'" if "m' \<in> set ms'" for m'
    using that by (rule list_all2_mem2)
  then show ?thesis using assms(2) render_message_traced by blast
qed

lemma trimmed_ok:
  "trimmed direction ks ms \<Longrightarrow> \<forall>m \<in> set ms. message_ok h ids m \<Longrightarrow> \<forall>k \<in> set ks. message_ok h ids k"
proof (induction rule: trimmed.induct)
  case (cut content m ms)
  then show ?case by (simp add: message_ok_def message_traced_def)
qed simp_all

lemma reduce_knowledge_spec:
  assumes "reduce_knowledge e target ms ks = (ms', ks')"
  shows "set ms' \<subseteq> set ms"
  using assms
proof (induction e target ms ks rule: reduce_knowledge.induct)
  case (1 e target ms ks)
  note step = reduce_knowledge.simps [of e target ms ks]
  show ?case
  proof (cases "length ms > 1 \<and> estimated_tokens_with e ms > target")
    case True
    with step "1.prems" have "reduce_knowledge e target (butlast ms) (deselect_last ks) = (ms', ks')" by simp
    from "1.IH" [OF True this] show ?thesis by (meson in_set_butlastD subset_iff)
  next
    case False
    with step "1.prems" show ?thesis by auto
  qed
qed

subsection \<open>Reducing a block\<close>

context token_estimator
begin

lemma trim_messages_ok:
  "\<forall>m \<in> set ms. message_ok h ids m \<Longrightarrow> \<forall>m \<in> set (trim_messages e ms target direction). message_ok h ids m"
  using trimmed_ok [OF trim_loop_trimmed, of ms h ids direction target]
    trimmed_ok [OF trim_loop_trimmed, of "rev ms" h ids direction target]
  by (cases direction) (simp_all add: trim_messages_def)

text \<open>A block that is over its target is within it afterwards; one that is not is left alone.\<close>

lemma reduce_block_fits:
  assumes "reduce_block e request b target = Inr b'"
  shows "if block_tokens e b \<le> target then b' = b else block_tokens e b' \<le> target"
  using assms trim_messages_fits [of "mb_messages b" target]
    keep_latest_items_fits [of e "mb_messages b" target]
  by (auto simp: reduce_block_def Let_def with_status_def summary_draft_def estimated_tokens_eq message_cost_def
      not_le not_less split: overflow_policy.splits option.splits prod.splits if_splits)

lemma reduce_block_frame:
  assumes "reduce_block e request b target = Inr b'"
  shows "mb_block b' = mb_block b" and "mb_original_index b' = mb_original_index b"
    and "mb_memory_evidence b' = mb_memory_evidence b"
  using assms
  by (auto simp: reduce_block_def Let_def with_status_def split: overflow_policy.splits option.splits prod.splits if_splits)

lemma reduce_block_ok:
  assumes "reduce_block e request b target = Inr b'"
    and "\<forall>m \<in> set (mb_messages b). message_ok h ids m"
    and "provenance_ok h (pb_provenance (mb_block b))"
    and "validate_prompt_context_text (rq_context request) = Inr ()"
  shows "\<forall>m \<in> set (mb_messages b'). message_ok h ids m"
proof -
  have latest: "\<forall>m \<in> set (keep_latest_items e (mb_messages b) target). message_ok h ids m"
    using assms(2) keep_latest_items_suffix [of e "mb_messages b" target] by (auto dest: set_mono_suffix)
  have summary: "message_ok h ids (summary_draft (mb_block b) summary (mb_messages b))"
    if "rc_conversation_summary (rq_context request) = Some summary" for summary
    using summary_nonempty [OF assms(4) that] assms(3)
    by (simp add: message_ok_def message_traced_def summary_draft_def)
  have knowledge: "\<forall>m \<in> set ms'. message_ok h ids m"
    if "reduce_knowledge e target (mb_messages b) (mb_knowledge_evidence b) = (ms', ks')" for ms' ks'
    using reduce_knowledge_spec [OF that] assms(2) by blast
  show ?thesis
    using assms(1,2) trim_messages_ok [OF assms(2), of target] latest summary knowledge
    by (auto simp: reduce_block_def Let_def with_status_def
        split: overflow_policy.splits option.splits prod.splits if_splits)
qed

end

end
