(* ===== verification/Materialization_Facts.thy ===== *)
theory Materialization_Facts
  imports Resolver_Facts
begin

section \<open>From blocks to effective messages\<close>

text \<open>
  The invariant of a materialized block, that materialization establishes it and that both budgets
  keep it; the exact accounting of the global budget; and the effective messages as the image of the
  drafts.
\<close>

subsection \<open>Materialization\<close>

definition evidence_ok :: "prompt_memory_selection_evidence list \<Rightarrow> bool" where
  "evidence_ok evidence \<longleftrightarrow>
     distinct (map me_record_id evidence) \<and> length evidence \<le> MAX_MEMORY_RECORDS \<and>
     (\<forall>m \<in> set evidence. me_selected m \<and> me_lane m \<noteq> None \<and> me_rank_millionths m \<noteq> None \<and>
        length (me_reasons m) \<le> 16 \<and> me_exclusion_reason m = None)"

text \<open>What validation does not check of the selected knowledge and memory, and a plan must satisfy.\<close>

definition selections_ok :: "prompt_env \<Rightarrow> prompt_resolution_context \<Rightarrow> bool" where
  "selections_ok env ctx \<longleftrightarrow>
     list_all (\<lambda>entry. provenance_ok (px_hex_ok env) (sk_provenance entry)) (rc_selected_knowledge ctx) \<and>
     list_all (\<lambda>r. provenance_ok (px_hex_ok env) (sm_provenance r) \<and>
       (case px_memory_reasons env (sm_reason r) of Some reasons \<Rightarrow> length reasons \<le> 16 | None \<Rightarrow> True))
       (rc_selected_memory ctx)"

definition latest_draft :: "prompt_resolution_context \<Rightarrow> prompt_block \<Rightarrow> draft_message option" where
  "latest_draft ctx block =
     map_option (\<lambda>latest.
       \<lparr>dm_requested_role = Role_User, dm_authority = pb_authority block, dm_content = cm_content latest,
        dm_source_message_ids = [cm_id latest], dm_source_memory_record_ids = [],
        dm_provenance = pb_provenance block\<rparr>)
     (find (\<lambda>m. cm_id m = rc_latest_user_message_id ctx) (rc_messages ctx))"

definition block_ids :: "materialized_block \<Rightarrow> str set" where
  "block_ids b = me_record_id ` set (mb_memory_evidence b)"

lemma memory_evidence_ok:
  assumes "selections_ok env ctx" and "validate_prompt_context_selection_ids ctx = Inr ()"
  shows "evidence_ok (map (memory_evidence_of env e) (sort_by cmp_selected_memory (rc_selected_memory ctx)))"
proof -
  have ids: "me_record_id \<circ> memory_evidence_of env e = sm_record_id"
    by (auto simp: memory_evidence_of_def Let_def)
  have "length (me_reasons (memory_evidence_of env e r)) \<le> 16" if "r \<in> set (rc_selected_memory ctx)" for r
    using assms(1) that by (auto simp: memory_evidence_of_def Let_def selections_ok_def list_all_iff split: option.splits)
  then show ?thesis
    using selection_ids_valid [OF assms(2)]
    by (auto simp: evidence_ok_def ids memory_evidence_of_def Let_def)
qed

lemma history_messages_traced:
  "history_messages request block = Inr ms \<Longrightarrow> provenance_ok h (pb_provenance block) \<Longrightarrow>
     \<forall>m \<in> set ms. message_traced h ids m"
  by (auto simp: history_messages_def Let_def result_simps message_traced_def)

lemma materialize_source_frame:
  assumes "materialize_source env e request block b = Inr (ms, b')"
  shows "mb_block b' = mb_block b" and "mb_original_index b' = mb_original_index b" and "mb_messages b' = mb_messages b"
  using assms
  by (cases "pb_source block"; auto simp: materialize_source_def Let_def result_simps split: option.splits)+

lemma materialize_source_traced:
  assumes "materialize_source env e request block b = Inr (ms, b')"
    and "mb_memory_evidence b = []"
    and "provenance_ok (px_hex_ok env) (pb_provenance block)"
    and "selections_ok env (rq_context request)"
    and "validate_prompt_context_selection_ids (rq_context request) = Inr ()"
  shows "\<forall>m \<in> set ms. message_traced (px_hex_ok env) (block_ids b') m"
    and "evidence_ok (mb_memory_evidence b')"
proof -
  have none: "evidence_ok []" by (simp add: evidence_ok_def)
  note memory = memory_evidence_ok [OF assms(4,5), of e]
  show "evidence_ok (mb_memory_evidence b')"
    using assms(1,2) none memory
    by (cases "pb_source block"; auto simp: materialize_source_def Let_def result_simps split: option.splits)
  have provenances: "\<And>entry. entry \<in> set (rc_selected_knowledge (rq_context request)) \<Longrightarrow>
      provenance_ok (px_hex_ok env) (sk_provenance entry)"
    "\<And>r. r \<in> set (rc_selected_memory (rq_context request)) \<Longrightarrow> provenance_ok (px_hex_ok env) (sm_provenance r)"
    using assms(4) by (auto simp: selections_ok_def list_all_iff)
  show "\<forall>m \<in> set ms. message_traced (px_hex_ok env) (block_ids b') m"
    using assms(1,3) provenances history_messages_traced [of request block]
    by (cases "pb_source block";
        auto simp: materialize_source_def Let_def result_simps message_traced_def default_draft_def block_ids_def
          memory_evidence_of_def image_image split: option.splits)
qed

definition block_ok :: "prompt_env \<Rightarrow> prompt_resolve_request \<Rightarrow> materialized_block \<Rightarrow> bool" where
  "block_ok env request b \<longleftrightarrow>
     mb_block b \<in> set (pp_blocks (rq_preset request)) \<and>
     (\<forall>m \<in> set (mb_messages b). message_ok (px_hex_ok env) (block_ids b) m) \<and>
     evidence_ok (mb_memory_evidence b)"

text \<open>Including the messages either leaves the block without any, or stores the rendered ones.\<close>

definition merge_before :: "prompt_block \<Rightarrow> draft_message list \<Rightarrow> draft_message list" where
  "merge_before block ms =
     (if is_compat_block block \<and> pb_template block \<noteq> None then merge_same_role_messages ms else ms)"

definition merge_after :: "prompt_block \<Rightarrow> draft_message list \<Rightarrow> draft_message list" where
  "merge_after block ms =
     (let ms = filter (\<lambda>m. dm_content m \<noteq> []) ms in
      if pb_merge_policy block = MergeWithPreviousSameRole then merge_same_role_messages ms else ms)"

lemma include_messages_cases:
  assumes "include_messages env e request block b ms = Inr b'"
  obtains (empty) status explanation where "b' = with_status status explanation b"
  | (included) rendered where "apply_block_template env request block (merge_before block ms) = Inr rendered"
      and "b' = b\<lparr>mb_messages := merge_after block rendered,
        mb_original_tokens := estimated_tokens_with e (merge_after block rendered),
        mb_explanation := lit ''block included''\<rparr>"
proof (cases "ms = []")
  case True
  with assms have "b' = with_status Status_Empty ''block source produced no content'' b"
    by (simp add: include_messages_def)
  then show ?thesis by (rule empty)
next
  case False
  have "include_messages env e request block b ms =
    result_bind (apply_block_template env request block (merge_before block ms)) (\<lambda>rendered.
      if filter (\<lambda>m. dm_content m \<noteq> []) rendered = [] then
        Inr (with_status Status_Empty ''rendered block was empty'' b)
      else Inr (b\<lparr>mb_messages := merge_after block rendered,
        mb_original_tokens := estimated_tokens_with e (merge_after block rendered),
        mb_explanation := lit ''block included''\<rparr>))"
    using False unfolding include_messages_def merge_before_def merge_after_def Let_def by (simp only: if_False)
  with assms obtain rendered where rendered: "apply_block_template env request block (merge_before block ms) = Inr rendered"
    and b': "b' = (if filter (\<lambda>m. dm_content m \<noteq> []) rendered = [] then
        with_status Status_Empty ''rendered block was empty'' b
      else b\<lparr>mb_messages := merge_after block rendered,
        mb_original_tokens := estimated_tokens_with e (merge_after block rendered),
        mb_explanation := lit ''block included''\<rparr>)"
    by (auto simp: result_bind_Inr_conv split: if_splits)
  show ?thesis
  proof (cases "filter (\<lambda>m. dm_content m \<noteq> []) rendered = []")
    case True
    with b' show ?thesis by (intro empty) simp
  next
    case False
    with b' rendered show ?thesis by (intro included) simp_all
  qed
qed

lemma include_messages_frame:
  assumes "include_messages env e request block b ms = Inr b'"
  shows "mb_block b' = mb_block b \<and> mb_original_index b' = mb_original_index b \<and>
    mb_memory_evidence b' = mb_memory_evidence b"
  using assms by (cases rule: include_messages_cases) (simp_all add: with_status_def)

lemma include_messages_ok:
  assumes "include_messages env e request block b ms = Inr b'" and "mb_messages b = []"
    and "\<forall>m \<in> set ms. message_traced h ids m"
  shows "\<forall>m \<in> set (mb_messages b'). message_ok h ids m"
  using assms(1)
proof (cases rule: include_messages_cases)
  case (included rendered)
  have "\<forall>m \<in> set (merge_before block ms). message_traced h ids m"
    using assms(3) merge_traced by (simp add: merge_before_def)
  then have "\<forall>m \<in> set (filter (\<lambda>m. dm_content m \<noteq> []) rendered). message_ok h ids m"
    using apply_block_template_traced [OF included(1)] by (simp add: message_ok_def)
  with merge_ok [OF this] included(2) show ?thesis by (simp add: merge_after_def Let_def)
qed (simp add: with_status_def assms(2))

text \<open>A materialized block is empty, or its messages come from its source.\<close>

lemma materialize_block_cases:
  assumes "materialize_block env e request block i = Inr b"
  obtains (empty) status explanation where "b = with_status status explanation (materialized_empty block i)"
  | (source) ms b1 where "materialize_source env e request block (materialized_empty block i) = Inr (ms, b1)"
      and "include_messages env e request block b1 ms = Inr b"
proof (cases "pb_enabled block")
  case False
  with assms have "b = with_status Status_Disabled ''block is disabled'' (materialized_empty block i)"
    by (simp add: materialize_block_def)
  then show ?thesis by (rule empty)
next
  case True
  with assms obtain holds where
    "(if \<not> holds then Inr (with_status Status_ConditionFalse ''block condition evaluated to false'' (materialized_empty block i))
      else result_bind (materialize_source env e request block (materialized_empty block i))
        (\<lambda>(ms, b1). include_messages env e request block b1 ms)) = Inr b"
    unfolding materialize_block_def Let_def by (auto simp only: result_bind_Inr_conv if_True if_False not_True_eq_False)
  then show ?thesis by (cases holds) (auto simp: result_bind_Inr_conv intro: empty source)
qed

lemma materialize_block_frame:
  assumes "materialize_block env e request block i = Inr b"
  shows "mb_block b = block" and "mb_original_index b = i"
proof -
  show "mb_block b = block" using assms
  proof (cases rule: materialize_block_cases)
    case (source ms b1)
    from materialize_source_frame(1) [OF source(1)] include_messages_frame [OF source(2)] show ?thesis
      by (simp add: materialized_empty_def)
  qed (simp add: with_status_def materialized_empty_def)
  show "mb_original_index b = i" using assms
  proof (cases rule: materialize_block_cases)
    case (source ms b1)
    from materialize_source_frame(2) [OF source(1)] include_messages_frame [OF source(2)] show ?thesis
      by (simp add: materialized_empty_def)
  qed (simp add: with_status_def materialized_empty_def)
qed

lemma materialize_block_ok:
  assumes "materialize_block env e request block i = Inr b"
    and "block \<in> set (pp_blocks (rq_preset request))"
    and "provenance_ok (px_hex_ok env) (pb_provenance block)"
    and "selections_ok env (rq_context request)"
    and "validate_prompt_context_selection_ids (rq_context request) = Inr ()"
  shows "block_ok env request b"
  using assms(1)
proof (cases rule: materialize_block_cases)
  case (empty status explanation)
  with assms(2) show ?thesis by (simp add: block_ok_def with_status_def materialized_empty_def evidence_ok_def)
next
  case (source ms b1)
  note frame = materialize_source_frame [OF source(1)] include_messages_frame [OF source(2)]
  have "mb_memory_evidence (materialized_empty block i) = []" by (simp add: materialized_empty_def)
  note traced = materialize_source_traced [OF source(1) this assms(3-5)]
  have "mb_messages b1 = []" using frame(3) by (simp add: materialized_empty_def)
  from include_messages_ok [OF source(2) this traced(1)] traced(2) frame assms(2) show ?thesis
    by (simp add: block_ok_def block_ids_def materialized_empty_def)
qed

end
