(* ===== verification/Budget_Facts.thy ===== *)
theory Budget_Facts
  imports Materialization_Facts
begin

section \<open>Budgets and effective messages\<close>

text \<open>
  Both budgets only ever reduce a block, and reducing keeps the invariant of the block; the global
  budget accounts exactly as long as the sum of all tokens fits its width.  The effective messages
  are the drafts of the final blocks, one by one.
\<close>

subsection \<open>Reduced blocks\<close>

text \<open>The tokens of a block without the saturation of \<open>u32\<close>.\<close>

definition true_tokens :: "estimator \<Rightarrow> materialized_block \<Rightarrow> nat" where
  "true_tokens e b = sum_list (map (message_cost e) (mb_messages b))"

lemma block_tokens_eq: "block_tokens e b = min u32_max (true_tokens e b)"
  by (simp add: estimated_tokens_eq true_tokens_def)

definition reduced ::
  "prompt_env \<Rightarrow> estimator \<Rightarrow> prompt_resolve_request \<Rightarrow> materialized_block \<Rightarrow> materialized_block \<Rightarrow> bool" where
  "reduced env e request b b' \<longleftrightarrow>
     mb_block b' = mb_block b \<and>
     (block_ok env request b \<longrightarrow> block_ok env request b') \<and>
     (pb_overflow_policy (mb_block b) = Overflow_Reject \<longrightarrow> mb_messages b' = mb_messages b) \<and>
     block_tokens e b' \<le> block_tokens e b"

lemma reduced_refl: "reduced env e request b b"
  by (simp add: reduced_def)

lemma reduced_trans: "reduced env e request a b \<Longrightarrow> reduced env e request b c \<Longrightarrow> reduced env e request a c"
  by (auto simp: reduced_def)

lemma push_overflow_simps [simp]:
  "mb_block (push_overflow before after why b) = mb_block b"
  "mb_messages (push_overflow before after why b) = mb_messages b"
  "mb_memory_evidence (push_overflow before after why b) = mb_memory_evidence b"
  by (simp_all add: push_overflow_def)

lemma reduced_push: "reduced env e request b b' \<Longrightarrow> reduced env e request b (push_overflow before after why b')"
  by (simp add: reduced_def block_ok_def block_ids_def)

context token_estimator
begin

lemma reduce_block_reduced:
  assumes step: "reduce_block e request b target = Inr b'"
    and valid: "prompt_resolve_request_validate env request = Inr ()"
  shows "reduced env e request b b'"
proof (cases "block_tokens e b \<le> target")
  case True
  then show ?thesis using reduce_block_fits [OF step] by (simp add: reduced_refl)
next
  case False
  note frame = reduce_block_frame [OF step]
  have "block_tokens e b' \<le> block_tokens e b" using reduce_block_fits [OF step] False by simp
  moreover have "pb_overflow_policy (mb_block b) \<noteq> Overflow_Reject"
    using step False by (auto simp: reduce_block_def Let_def)
  moreover have "block_ok env request b'" if "block_ok env request b"
  proof -
    from that have member: "mb_block b \<in> set (pp_blocks (rq_preset request))" by (simp add: block_ok_def)
    then obtain path where "validate_prompt_block (px_hex_ok env) (mb_block b) path = Inr ()"
      using preset_blocks_valid(1) [OF request_valid_parts(1) [OF valid]] by blast
    then have "provenance_ok (px_hex_ok env) (pb_provenance (mb_block b))" by (rule valid_block_facts(1))
    then have "\<forall>m \<in> set (mb_messages b'). message_ok (px_hex_ok env) (block_ids b) m"
      using reduce_block_ok [OF step _ _ request_valid_parts(5) [OF valid]] that by (simp add: block_ok_def)
    then show ?thesis using that frame by (simp add: block_ok_def block_ids_def)
  qed
  ultimately show ?thesis using frame by (simp add: reduced_def)
qed

lemma enforce_block_maximum_spec:
  assumes step: "enforce_block_maximum e request b = Inr b'"
    and valid: "prompt_resolve_request_validate env request = Inr ()"
  shows "reduced env e request b b'"
    and "tp_max_tokens (pb_token_policy (mb_block b)) = Some maximum \<Longrightarrow> block_tokens e b' \<le> maximum"
proof -
  have "reduced env e request b b' \<and>
    (tp_max_tokens (pb_token_policy (mb_block b)) = Some maximum \<longrightarrow> block_tokens e b' \<le> maximum)"
    using step reduce_block_reduced [OF _ valid]
    by (auto simp: enforce_block_maximum_def Let_def result_simps reduced_refl
        intro: reduced_push split: option.splits if_splits)
  then show "reduced env e request b b'"
    and "tp_max_tokens (pb_token_policy (mb_block b)) = Some maximum \<Longrightarrow> block_tokens e b' \<le> maximum"
    by simp_all
qed

subsection \<open>The global budget\<close>

lemma global_step_cases:
  assumes step: "global_step e request available (blocks, tot) (p, q, r, index) = Inr (blocks', tot')"
  obtains (same) "blocks' = blocks" "tot' = tot"
  | (reduce) target b where "reduce_block e request (blocks ! index) target = Inr b"
      and "blocks' = blocks[index := push_overflow (block_tokens e (blocks ! index)) (block_tokens e b)
        ''applied the global context budget'' b]"
      and "tot' = tot - (block_tokens e (blocks ! index) - block_tokens e b)"
proof (cases "tot \<le> available \<or> block_tokens e (blocks ! index) = 0 \<or>
    pb_overflow_policy (mb_block (blocks ! index)) = Overflow_Reject")
  case True
  with step have "(blocks', tot') = (blocks, tot)" by (auto simp: global_step_def Let_def split: if_splits)
  then show ?thesis by (intro same) simp_all
next
  case False
  let ?target = "max (block_tokens e (blocks ! index) - (tot - available))
    (protected_tokens (pb_token_policy (mb_block (blocks ! index))))"
  from False step have "result_bind (reduce_block e request (blocks ! index) ?target) (\<lambda>b.
      Inr (blocks[index := push_overflow (block_tokens e (blocks ! index)) (block_tokens e b)
          ''applied the global context budget'' b],
        tot - (block_tokens e (blocks ! index) - block_tokens e b))) = Inr (blocks', tot')"
    by (simp add: global_step_def Let_def)
  then show ?thesis by (elim result_bind_Inr_conv [THEN iffD1, elim_format] exE conjE) (rule reduce, assumption, blast+)
qed

lemma global_step_reduced:
  assumes step: "global_step e request available (blocks, tot) (p, q, r, index) = Inr (blocks', tot')"
    and valid: "prompt_resolve_request_validate env request = Inr ()" and "index < length blocks"
  shows "list_all2 (reduced env e request) blocks blocks'"
    and "sum_list (map (true_tokens e) blocks) \<le> u32_max \<Longrightarrow> tot = sum_list (map (true_tokens e) blocks) \<Longrightarrow>
      tot' = sum_list (map (true_tokens e) blocks') \<and> tot' \<le> tot"
proof -
  let ?b = "blocks ! index"
  from step have "list_all2 (reduced env e request) blocks blocks' \<and>
    (sum_list (map (true_tokens e) blocks) \<le> u32_max \<longrightarrow> tot = sum_list (map (true_tokens e) blocks) \<longrightarrow>
      tot' = sum_list (map (true_tokens e) blocks') \<and> tot' \<le> tot)"
  proof (cases rule: global_step_cases)
    case same
    then show ?thesis by (simp add: list_all2_refl reduced_refl)
  next
    case (reduce target b)
    let ?b' = "push_overflow (block_tokens e ?b) (block_tokens e b) ''applied the global context budget'' b"
    have red: "reduced env e request ?b ?b'" using reduce_block_reduced [OF reduce(1) valid] by (rule reduced_push)
    have rel: "list_all2 (reduced env e request) blocks blocks'"
      using reduce(2) red assms(3) by (auto simp: list_all2_conv_all_nth nth_list_update reduced_refl)
    have "tot' = sum_list (map (true_tokens e) blocks') \<and> tot' \<le> tot"
      if fits: "sum_list (map (true_tokens e) blocks) \<le> u32_max" and tot: "tot = sum_list (map (true_tokens e) blocks)"
    proof -
      have member: "true_tokens e ?b \<le> sum_list (map (true_tokens e) blocks)"
        using assms(3) by (intro member_le_sum_list) auto
      then have before: "block_tokens e ?b = true_tokens e ?b" using fits by (simp add: block_tokens_eq)
      have "block_tokens e b \<le> block_tokens e ?b" using red by (simp add: reduced_def)
      then have after: "true_tokens e ?b' = block_tokens e b" "block_tokens e b \<le> true_tokens e ?b"
        using reduce_block_fits [OF reduce(1)] before fits member
        by (auto simp: block_tokens_eq true_tokens_def min_def split: if_splits)
      have "sum_list (map (true_tokens e) blocks') = sum_list (map (true_tokens e) blocks) + true_tokens e ?b' - true_tokens e ?b"
        using reduce(2) assms(3) by (simp add: map_update sum_list_update)
      then show ?thesis using reduce(3) tot before after member by simp
    qed
    with rel show ?thesis by blast
  qed
  then show "list_all2 (reduced env e request) blocks blocks'"
    and "sum_list (map (true_tokens e) blocks) \<le> u32_max \<Longrightarrow> tot = sum_list (map (true_tokens e) blocks) \<Longrightarrow>
      tot' = sum_list (map (true_tokens e) blocks') \<and> tot' \<le> tot"
    by simp_all
qed

lemma global_fold:
  assumes "try_fold (global_step e request available) (blocks, tot) candidates = Inr (blocks', tot')"
    and valid: "prompt_resolve_request_validate env request = Inr ()"
    and "\<forall>(p, q, r, index) \<in> set candidates. index < length blocks"
  shows "list_all2 (reduced env e request) blocks blocks' \<and>
    (sum_list (map (true_tokens e) blocks) \<le> u32_max \<longrightarrow> tot = sum_list (map (true_tokens e) blocks) \<longrightarrow>
      tot' = sum_list (map (true_tokens e) blocks') \<and> tot' \<le> tot)"
  using assms(1,3)
proof (induction candidates arbitrary: blocks tot)
  case (Cons c candidates)
  obtain p q r index where c: "c = (p, q, r, index)" by (cases c)
  with Cons.prems obtain mid m where
      step: "global_step e request available (blocks, tot) (p, q, r, index) = Inr (mid, m)"
    and rest: "try_fold (global_step e request available) (mid, m) candidates = Inr (blocks', tot')"
    and index: "index < length blocks"
    by (auto simp: result_simps)
  note one = global_step_reduced [OF step valid index]
  have "length mid = length blocks" using one(1) by (simp add: list_all2_lengthD)
  with Cons.IH [OF rest] Cons.prems(2) have
      two: "list_all2 (reduced env e request) mid blocks'"
    and sums: "sum_list (map (true_tokens e) mid) \<le> u32_max \<Longrightarrow> m = sum_list (map (true_tokens e) mid) \<Longrightarrow>
      tot' = sum_list (map (true_tokens e) blocks') \<and> tot' \<le> m"
    by auto
  have "list_all2 (reduced env e request) blocks blocks'"
    using list_all2_trans [OF reduced_trans one(1) two] .
  with one(2) sums show ?case by fastforce
qed (simp add: list_all2_refl reduced_refl)

lemma reduction_candidates_index:
  "\<forall>(p, q, r, index) \<in> set (reduction_candidates blocks). index < length blocks"
  by (auto simp: reduction_candidates_def in_set_enumerate_eq)

lemma enforce_global_budget_spec:
  assumes step: "enforce_global_budget e request available blocks = Inr blocks'"
    and valid: "prompt_resolve_request_validate env request = Inr ()"
  shows "list_all2 (reduced env e request) blocks blocks'"
    and "sum_list (map (true_tokens e) blocks) \<le> u32_max \<Longrightarrow>
      sum_list (map (true_tokens e) blocks') \<le> available \<and>
      sum_list (map (true_tokens e) blocks') \<le> sum_list (map (true_tokens e) blocks)"
proof -
  have total: "total_tokens e blocks = sum_list (map (true_tokens e) blocks)"
    if "sum_list (map (true_tokens e) blocks) \<le> u32_max"
  proof -
    have "block_tokens e b = true_tokens e b" if "b \<in> set blocks" for b
      using member_le_sum_list [of "true_tokens e b" "map (true_tokens e) blocks"] that
        \<open>sum_list (map (true_tokens e) blocks) \<le> u32_max\<close> by (simp add: block_tokens_eq)
    then have "map (block_tokens e) blocks = map (true_tokens e) blocks" by (intro map_cong) simp_all
    then have "total_tokens e blocks = min u32_max (sum_list (map (true_tokens e) blocks))"
      by (simp only: total_tokens_def saturating_sum_eq)
    then show ?thesis using that by simp
  qed
  have "list_all2 (reduced env e request) blocks blocks' \<and>
    (sum_list (map (true_tokens e) blocks) \<le> u32_max \<longrightarrow>
      sum_list (map (true_tokens e) blocks') \<le> available \<and>
      sum_list (map (true_tokens e) blocks') \<le> sum_list (map (true_tokens e) blocks))"
  proof (cases "total_tokens e blocks \<le> available")
    case True
    with step total show ?thesis by (auto simp: enforce_global_budget_def list_all2_refl reduced_refl)
  next
    case False
    with step obtain tot' where
        fold: "try_fold (global_step e request available) (blocks, total_tokens e blocks)
          (reduction_candidates blocks) = Inr (blocks', tot')" and "tot' \<le> available"
      by (auto simp: enforce_global_budget_def result_simps split: if_splits)
    with global_fold [OF fold valid reduction_candidates_index] total show ?thesis by auto
  qed
  then show "list_all2 (reduced env e request) blocks blocks'"
    and "sum_list (map (true_tokens e) blocks) \<le> u32_max \<Longrightarrow>
      sum_list (map (true_tokens e) blocks') \<le> available \<and>
      sum_list (map (true_tokens e) blocks') \<le> sum_list (map (true_tokens e) blocks)"
    by simp_all
qed

end

end
