(* ===== verification/Plan_Facts.thy ===== *)
theory Plan_Facts
  imports Budget_Facts
begin

section \<open>The plan of a successful resolution\<close>

text \<open>
  A successful resolution goes through the stages in order; this theory collects what is known of
  the final blocks and of the effective messages made from them.
\<close>

subsection \<open>The latest user turn\<close>

definition latest_ok :: "prompt_resolve_request \<Rightarrow> materialized_block \<Rightarrow> bool" where
  "latest_ok request b \<longleftrightarrow>
     (pb_kind (mb_block b) = Kind_LatestUserTurn \<longrightarrow>
        set (mb_messages b) \<subseteq> set_option (latest_draft (rq_context request) (mb_block b)) \<and>
        length (mb_messages b) \<le> 1)"

lemma materialize_block_latest_ok:
  assumes "materialize_block env e request block i = Inr b"
    and "validate_prompt_block hex_ok block path = Inr ()"
  shows "latest_ok request b"
proof (cases "pb_kind block = Kind_LatestUserTurn")
  case False
  then show ?thesis using materialize_block_frame [OF assms(1)] by (simp add: latest_ok_def)
next
  case True
  note fixed = valid_block_facts(3) [OF assms(2) True]
  from assms(1) show ?thesis
  proof (cases rule: materialize_block_cases)
    case (empty status explanation)
    then show ?thesis by (simp add: latest_ok_def with_status_def materialized_empty_def)
  next
    case (source ms b1)
    from source(1) fixed obtain draft where
        ms: "ms = [draft]" and draft: "latest_draft (rq_context request) block = Some draft"
      by (auto simp: materialize_source_def Let_def result_simps latest_draft_def)
    note frame = materialize_source_frame [OF source(1)] materialize_block_frame [OF assms(1)]
    from source(2) show ?thesis
    proof (cases rule: include_messages_cases)
      case (empty status explanation)
      with frame show ?thesis by (simp add: latest_ok_def with_status_def materialized_empty_def)
    next
      case (included rendered)
      from included(1) fixed ms have "rendered = [draft]"
        by (simp add: apply_block_template_def merge_before_def)
      then have "mb_messages b = [] \<or> mb_messages b = [draft]" using included(2) by (simp add: merge_after_def Let_def merge_same_role_messages_def merge_step_def)
      with frame draft show ?thesis by (auto simp: latest_ok_def)
    qed
  qed
qed

lemma reduced_latest_ok:
  assumes "reduced env e request b b'" and "latest_ok request b"
    and "pb_kind (mb_block b) = Kind_LatestUserTurn \<Longrightarrow> pb_overflow_policy (mb_block b) = Overflow_Reject"
  shows "latest_ok request b'"
  using assms by (auto simp: latest_ok_def reduced_def)

subsection \<open>The final blocks\<close>

text \<open>All the tokens that the blocks hold before the global budget, without the saturation of \<open>u32\<close>.\<close>

definition unbudgeted_tokens :: "prompt_env \<Rightarrow> estimator \<Rightarrow> prompt_resolve_request \<Rightarrow> nat" where
  "unbudgeted_tokens env e request =
     (case result_bind (try_map (\<lambda>(index, block). materialize_block env e request block index)
         (enumerate 0 (pp_blocks (rq_preset request))))
         (\<lambda>blocks. try_map (enforce_block_maximum e request) (sort_by cmp_blocks blocks)) of
        Inr blocks \<Rightarrow> sum_list (map (true_tokens e) blocks)
      | Inl _ \<Rightarrow> 0)"

lemma try_map_materialize:
  assumes "try_map (\<lambda>(index, block). materialize_block env e request block index) (enumerate k blocks) = Inr ms"
  shows "map mb_block ms = blocks"
    and "\<forall>b \<in> set ms. \<exists>i. materialize_block env e request (mb_block b) i = Inr b"
proof -
  have "map mb_block ms = blocks \<and> (\<forall>b \<in> set ms. \<exists>i. materialize_block env e request (mb_block b) i = Inr b)"
    using assms
  proof (induction blocks arbitrary: k ms)
    case (Cons block blocks)
    then obtain b bs where b: "materialize_block env e request block k = Inr b"
      and bs: "try_map (\<lambda>(index, block). materialize_block env e request block index) (enumerate (Suc k) blocks) = Inr bs"
      and ms: "ms = b # bs"
      by (auto simp: result_simps)
    from Cons.IH [OF bs] b ms materialize_block_frame [OF b] show ?case by auto
  qed simp
  then show "map mb_block ms = blocks" and "\<forall>b \<in> set ms. \<exists>i. materialize_block env e request (mb_block b) i = Inr b"
    by simp_all
qed

lemma list_all2_map_block: "list_all2 (reduced env e request) bs bs' \<Longrightarrow> map mb_block bs' = map mb_block bs"
  by (induction rule: list_all2_induct) (simp_all add: reduced_def)

context token_estimator
begin

text \<open>
  The final blocks are the blocks of the preset, each a reduction of its materialized form; with
  exact accounting their tokens fit the budget, and every block keeps its own maximum.
\<close>

lemma budgeted_blocks_spec:
  assumes run: "budgeted_blocks env e request = Inr blocks"
    and valid: "prompt_resolve_request_validate env request = Inr ()"
  shows "mset (map mb_block blocks) = mset (pp_blocks (rq_preset request))"
    and "\<forall>b \<in> set blocks. latest_ok request b"
    and "selections_ok env (rq_context request) \<Longrightarrow> \<forall>b \<in> set blocks. block_ok env request b"
    and "\<forall>b \<in> set blocks. \<forall>maximum. tp_max_tokens (pb_token_policy (mb_block b)) = Some maximum \<longrightarrow>
      block_tokens e b \<le> maximum"
    and "unbudgeted_tokens env e request \<le> u32_max \<Longrightarrow>
      sum_list (map (true_tokens e) blocks) \<le> available_tokens request \<and>
      sum_list (map (true_tokens e) blocks) \<le> u32_max"
proof -
  from run obtain ms bs where
      ms: "try_map (\<lambda>(index, block). materialize_block env e request block index)
        (enumerate 0 (pp_blocks (rq_preset request))) = Inr ms"
    and bs: "try_map (enforce_block_maximum e request) (sort_by cmp_blocks ms) = Inr bs"
    and global: "enforce_global_budget e request (available_tokens request) bs = Inr blocks"
    by (auto simp: budgeted_blocks_def Let_def result_simps)
  note materialized = try_map_materialize [OF ms]
  have each: "list_all2 (\<lambda>b b'. enforce_block_maximum e request b = Inr b') (sort_by cmp_blocks ms) bs"
    using bs by (simp add: try_map_Inr_conv)
  then have one: "list_all2 (reduced env e request) (sort_by cmp_blocks ms) bs"
    by (rule list_all2_mono) (rule enforce_block_maximum_spec(1) [OF _ valid])
  note two = enforce_global_budget_spec(1) [OF global valid]
  have all: "list_all2 (reduced env e request) (sort_by cmp_blocks ms) blocks"
    using list_all2_trans [OF reduced_trans one two] .
  have blocks_eq: "map mb_block blocks = map mb_block (sort_by cmp_blocks ms)" by (rule list_all2_map_block [OF all])
  have "mset (map mb_block (sort_by cmp_blocks ms)) = mset (map mb_block ms)" by (metis mset_map mset_sort_by)
  with blocks_eq materialized(1)
  show perm: "mset (map mb_block blocks) = mset (pp_blocks (rq_preset request))" by simp
  have origin: "\<exists>m \<in> set ms. reduced env e request m b \<and> mb_block m \<in> set (pp_blocks (rq_preset request)) \<and>
      (\<exists>i. materialize_block env e request (mb_block m) i = Inr m)" if "b \<in> set blocks" for b
  proof -
    from list_all2_mem2 [OF all that] obtain m where m: "m \<in> set ms" "reduced env e request m b" by auto
    then have "mb_block m \<in> set (map mb_block ms)" by simp
    with m materialized show ?thesis by auto
  qed
  have block_valid: "\<exists>path. validate_prompt_block (px_hex_ok env) block path = Inr ()"
    if "block \<in> set (pp_blocks (rq_preset request))" for block
    using preset_blocks_valid(1) [OF request_valid_parts(1) [OF valid]] that by blast
  show "\<forall>b \<in> set blocks. latest_ok request b"
  proof
    fix b assume "b \<in> set blocks"
    from origin [OF this] obtain m i where m: "reduced env e request m b"
      "mb_block m \<in> set (pp_blocks (rq_preset request))" "materialize_block env e request (mb_block m) i = Inr m"
      by blast
    obtain path where path: "validate_prompt_block (px_hex_ok env) (mb_block m) path = Inr ()"
      using block_valid [OF m(2)] by blast
    show "latest_ok request b"
      by (rule reduced_latest_ok [OF m(1) materialize_block_latest_ok [OF m(3) path]])
        (use valid_block_facts(3) [OF path] in simp)
  qed
  show "\<forall>b \<in> set blocks. block_ok env request b" if selections: "selections_ok env (rq_context request)"
  proof
    fix b assume "b \<in> set blocks"
    from origin [OF this] obtain m i where m: "reduced env e request m b"
      "mb_block m \<in> set (pp_blocks (rq_preset request))" "materialize_block env e request (mb_block m) i = Inr m"
      by blast
    obtain path where path: "validate_prompt_block (px_hex_ok env) (mb_block m) path = Inr ()"
      using block_valid [OF m(2)] by blast
    have "block_ok env request m"
      using materialize_block_ok [OF m(3,2) valid_block_facts(1) [OF path] selections request_valid_parts(4) [OF valid]] .
    with m(1) show "block_ok env request b" by (simp add: reduced_def)
  qed
  show "\<forall>b \<in> set blocks. \<forall>maximum. tp_max_tokens (pb_token_policy (mb_block b)) = Some maximum \<longrightarrow>
      block_tokens e b \<le> maximum"
  proof (intro ballI allI impI)
    fix b maximum assume "b \<in> set blocks" and maximum: "tp_max_tokens (pb_token_policy (mb_block b)) = Some maximum"
    then obtain b1 where b1: "b1 \<in> set bs" "reduced env e request b1 b" using list_all2_mem2 [OF two] by blast
    then obtain b0 where b0: "enforce_block_maximum e request b0 = Inr b1" using list_all2_mem2 [OF each] by blast
    have "mb_block b0 = mb_block b"
      using enforce_block_maximum_spec(1) [OF b0 valid] b1(2) by (simp add: reduced_def)
    then have "block_tokens e b1 \<le> maximum" using enforce_block_maximum_spec(2) [OF b0 valid] maximum by simp
    with b1(2) show "block_tokens e b \<le> maximum" by (simp add: reduced_def)
  qed
  show "sum_list (map (true_tokens e) blocks) \<le> available_tokens request \<and> sum_list (map (true_tokens e) blocks) \<le> u32_max"
    if "unbudgeted_tokens env e request \<le> u32_max"
    using enforce_global_budget_spec(2) [OF global valid] that ms bs by (auto simp: unbudgeted_tokens_def)
qed

end

subsection \<open>Effective messages\<close>

text \<open>What one draft becomes: everything is copied, the role is mapped, the position is counted.\<close>

definition emitted ::
  "estimator \<Rightarrow> prompt_resolve_request \<Rightarrow> nat \<Rightarrow> prompt_block \<times> draft_message \<Rightarrow> resolved_prompt_message \<Rightarrow> bool" where
  "emitted e request i bd m \<longleftrightarrow>
     rm_sequence m = i \<and> rm_block_id m = pb_id (fst bd) \<and> rm_block_kind m = pb_kind (fst bd) \<and>
     rm_requested_role m = dm_requested_role (snd bd) \<and> rm_authority m = dm_authority (snd bd) \<and>
     rm_content m = dm_content (snd bd) \<and> rm_estimated_tokens m = message_cost e (snd bd) \<and>
     rm_source_message_ids m = dm_source_message_ids (snd bd) \<and> rm_provenance m = dm_provenance (snd bd) \<and>
     (\<exists>why. map_role (rm_requested_role m) (rm_authority m) (rq_provider request) = Inr (rm_effective_role m, why))"

lemma emit_draft_emitted:
  assumes "emit_draft e request (rs, ms) bd = Inr (rs', ms')"
  shows "\<exists>m. ms' = ms @ [m] \<and> emitted e request (length ms) bd m \<and> length ms \<le> u32_max"
  using assms by (cases bd) (auto simp: emit_draft_def result_simps emitted_def message_cost_def)

lemma emit_fold:
  assumes "try_fold (emit_draft e request) (rs, ms) ds = Inr (rs', ms')"
  shows "\<exists>new. ms' = ms @ new \<and> length new = length ds \<and>
    (\<forall>i < length ds. emitted e request (length ms + i) (ds ! i) (new ! i)) \<and>
    (length ms \<le> Suc u32_max \<longrightarrow> length ms' \<le> Suc u32_max)"
  using assms
proof (induction ds arbitrary: rs ms)
  case (Cons d ds)
  then obtain rs1 ms1 where step: "emit_draft e request (rs, ms) d = Inr (rs1, ms1)"
    and rest: "try_fold (emit_draft e request) (rs1, ms1) ds = Inr (rs', ms')"
    by (auto simp: result_simps)
  from emit_draft_emitted [OF step] obtain m where
    m: "ms1 = ms @ [m]" "emitted e request (length ms) d m" "length ms \<le> u32_max" by blast
  from Cons.IH [OF rest] obtain new where new: "ms' = ms1 @ new" "length new = length ds"
    "\<forall>i < length ds. emitted e request (length ms1 + i) (ds ! i) (new ! i)"
    "length ms1 \<le> Suc u32_max \<longrightarrow> length ms' \<le> Suc u32_max" by blast
  have "\<forall>i < length (d # ds). emitted e request (length ms + i) ((d # ds) ! i) ((m # new) ! i)"
    using m new by (auto simp: nth_Cons split: nat.split)
  with m new show ?case by (intro exI [of _ "m # new"]) simp
qed simp

definition all_emitted ::
  "estimator \<Rightarrow> prompt_resolve_request \<Rightarrow> (prompt_block \<times> draft_message) list \<Rightarrow> resolved_prompt_message list \<Rightarrow> bool" where
  "all_emitted e request ds ms \<longleftrightarrow>
     length ms = length ds \<and> (\<forall>i < length ds. emitted e request i (ds ! i) (ms ! i))"

lemma all_emitted_map:
  assumes "all_emitted e request ds ms" and "\<And>i bd m. emitted e request i bd m \<Longrightarrow> g m = h bd"
  shows "map g ms = map h ds"
proof (rule nth_equalityI)
  show "length (map g ms) = length (map h ds)" using assms(1) by (simp add: all_emitted_def)
  fix i assume "i < length (map g ms)"
  with assms(1) have "emitted e request i (ds ! i) (ms ! i)" and "i < length ds" and "i < length ms"
    by (simp_all add: all_emitted_def)
  with assms(2) [of i "ds ! i" "ms ! i"] show "map g ms ! i = map h ds ! i" by simp
qed

lemma all_emitted_mem:
  assumes "all_emitted e request ds ms" and "m \<in> set ms"
  obtains i bd where "bd \<in> set ds" and "emitted e request i bd m" and "i < length ms" and "ms ! i = m"
proof -
  from assms(2) obtain i where i: "i < length ms" "ms ! i = m" by (auto simp: in_set_conv_nth)
  with assms(1) have "i < length ds" and "emitted e request i (ds ! i) m" by (auto simp: all_emitted_def)
  with i show thesis by (intro that [of "ds ! i" i]) simp_all
qed

subsection \<open>Messages by block\<close>

lemma drafts_of_Cons: "drafts_of (b # bs) = map (Pair (mb_block b)) (mb_messages b) @ drafts_of bs"
  by (simp add: drafts_of_def)

lemma in_drafts_of: "bd \<in> set (drafts_of blocks) \<longleftrightarrow> (\<exists>b \<in> set blocks. fst bd = mb_block b \<and> snd bd \<in> set (mb_messages b))"
  by (cases bd) (auto simp: drafts_of_def)

lemma drafts_of_block:
  assumes "distinct (map (\<lambda>b. pb_id (mb_block b)) blocks)" and "b \<in> set blocks"
  shows "map snd (filter (\<lambda>bd. pb_id (fst bd) = pb_id (mb_block b)) (drafts_of blocks)) = mb_messages b"
  using assms
proof (induction blocks)
  case (Cons c blocks)
  have none: "filter (\<lambda>bd. pb_id (fst bd) = pb_id (mb_block c)) (drafts_of blocks) = []"
  proof (rule filter_False, rule ballI)
    fix bd assume "bd \<in> set (drafts_of blocks)"
    then obtain c' where "c' \<in> set blocks" "fst bd = mb_block c'" by (auto simp: in_drafts_of)
    moreover from this have "pb_id (mb_block c') \<in> (\<lambda>b. pb_id (mb_block b)) ` set blocks" by blast
    moreover have "pb_id (mb_block c) \<notin> (\<lambda>b. pb_id (mb_block b)) ` set blocks" using Cons.prems(1) by simp
    ultimately show "\<not> pb_id (fst bd) = pb_id (mb_block c)" by metis
  qed
  show ?case
  proof (cases "b = c")
    case True
    with none show ?thesis by (simp add: drafts_of_Cons filter_map comp_def)
  next
    case False
    with Cons.prems have "b \<in> set blocks" and "pb_id (mb_block c) \<noteq> pb_id (mb_block b)" by auto
    with Cons show ?thesis by (simp add: drafts_of_Cons filter_map comp_def)
  qed
qed simp

lemma messages_of_block_tokens:
  assumes "all_emitted e request (drafts_of blocks) ms"
    and "distinct (map (\<lambda>b. pb_id (mb_block b)) blocks)" and "b \<in> set blocks"
  shows "map rm_estimated_tokens (messages_of_block (pb_id (mb_block b)) ms) = map (message_cost e) (mb_messages b)"
proof -
  let ?id = "pb_id (mb_block b)"
  have "map (\<lambda>m. (rm_block_id m, rm_estimated_tokens m)) ms =
      map (\<lambda>bd. (pb_id (fst bd), message_cost e (snd bd))) (drafts_of blocks)"
    by (rule all_emitted_map [OF assms(1)]) (simp add: emitted_def)
  then have "map snd (filter (\<lambda>p. fst p = ?id) (map (\<lambda>m. (rm_block_id m, rm_estimated_tokens m)) ms)) =
      map snd (filter (\<lambda>p. fst p = ?id) (map (\<lambda>bd. (pb_id (fst bd), message_cost e (snd bd))) (drafts_of blocks)))"
    by simp
  then have "map rm_estimated_tokens (messages_of_block ?id ms) =
      map (message_cost e) (map snd (filter (\<lambda>bd. pb_id (fst bd) = ?id) (drafts_of blocks)))"
    by (simp add: filter_map comp_def messages_of_block_def)
  then show ?thesis using drafts_of_block [OF assms(2,3)] by simp
qed

lemma sum_drafts: "sum_list (map (\<lambda>bd. message_cost e (snd bd)) (drafts_of blocks)) = sum_list (map (true_tokens e) blocks)"
  by (induction blocks) (simp_all add: drafts_of_Cons drafts_of_def [of "[]"] true_tokens_def comp_def)

lemma all_emitted_sum:
  assumes "all_emitted e request (drafts_of blocks) ms"
  shows "sum_list (map rm_estimated_tokens ms) = sum_list (map (true_tokens e) blocks)"
proof -
  have "map rm_estimated_tokens ms = map (\<lambda>bd. message_cost e (snd bd)) (drafts_of blocks)"
    by (rule all_emitted_map [OF assms]) (simp add: emitted_def)
  then show ?thesis by (simp add: sum_drafts)
qed

lemma drafts_of_kind:
  "length (filter (\<lambda>bd. pb_kind (fst bd) = k) (drafts_of blocks)) =
     sum_list (map (\<lambda>b. length (mb_messages b)) (filter (\<lambda>b. pb_kind (mb_block b) = k) blocks))"
  by (induction blocks) (simp_all add: drafts_of_Cons drafts_of_def [of "[]"] filter_map comp_def)

lemma emitted_kind_count:
  assumes "all_emitted e request (drafts_of blocks) ms"
  shows "length (filter (\<lambda>m. rm_block_kind m = k) ms) =
    sum_list (map (\<lambda>b. length (mb_messages b)) (filter (\<lambda>b. pb_kind (mb_block b) = k) blocks))"
proof -
  have "map rm_block_kind ms = map (\<lambda>bd. pb_kind (fst bd)) (drafts_of blocks)"
    by (rule all_emitted_map [OF assms]) (simp add: emitted_def)
  then have "length (filter (\<lambda>x. x = k) (map rm_block_kind ms)) =
      length (filter (\<lambda>x. x = k) (map (\<lambda>bd. pb_kind (fst bd)) (drafts_of blocks)))"
    by simp
  then show ?thesis by (simp add: filter_map comp_def drafts_of_kind)
qed

end
