(* ===== verification/Plan_Verification.thy ===== *)
theory Plan_Verification
  imports Plan_Facts
begin

section \<open>A resolved plan passes its own verification\<close>

text \<open>
  The checks of \<open>ResolvedPromptPlan::validate\<close> one by one, for the plan that \<open>resolve\<close> assembles from
  the final blocks.
\<close>

subsection \<open>The parts of a plan\<close>

text \<open>What the digest functions promise: the hexadecimal form of a digest is a valid digest.\<close>

definition digests_valid :: "prompt_env \<Rightarrow> bool" where
  "digests_valid env \<longleftrightarrow>
     (\<forall>b. str_len (px_hex_encode env (px_sha256 env b)) = 64 \<and>
        \<not> list_ex is_ascii_uppercase (px_hex_encode env (px_sha256 env b)) \<and>
        px_hex_ok env (px_hex_encode env (px_sha256 env b)))"

lemma canonical_hash_ignores_hash [simp]:
  "canonical_plan_hash env (plan\<lparr>pl_plan_hash := h\<rparr>) = canonical_plan_hash env plan"
  by (simp add: canonical_plan_hash_def)

lemma canonical_hash_valid:
  "canonical_plan_hash env plan = Inr hash \<Longrightarrow> digests_valid env \<Longrightarrow>
     validate_sha256 (px_hex_ok env) path hash = Inr ()"
  by (auto simp: canonical_plan_hash_def result_simps digests_valid_def validate_sha256_def)

lemma resolve_cases:
  assumes "resolve env e request = Inr plan"
  obtains blocks rs where "prompt_resolve_request_validate env request = Inr ()"
    and "budgeted_blocks env e request = Inr blocks"
    and "all_emitted e request (drafts_of blocks) (pl_effective_messages plan)"
    and "list_ex is_latest_user_message (pl_effective_messages plan)"
    and "assemble_plan env e request blocks (rs, pl_effective_messages plan) = Inr plan"
proof -
  from assms obtain blocks rs ms where
      valid: "prompt_resolve_request_validate env request = Inr ()"
    and blocks: "budgeted_blocks env e request = Inr blocks"
    and fold: "try_fold (emit_draft e request) ([], []) (drafts_of blocks) = Inr (rs, ms)"
    and latest: "list_ex is_latest_user_message ms"
    and plan: "assemble_plan env e request blocks (rs, ms) = Inr plan"
    by (auto simp: resolve_def result_simps)
  have "pl_effective_messages plan = ms"
    using plan by (auto simp: assemble_plan_def Let_def result_simps split: prod.splits)
  moreover have "all_emitted e request (drafts_of blocks) ms"
    using emit_fold [OF fold] by (auto simp: all_emitted_def)
  ultimately show thesis using that valid blocks latest plan by simp
qed

lemma assemble_plan_parts:
  assumes "assemble_plan env e request blocks (rs, ms) = Inr plan"
  shows "pl_schema_version plan = PROMPT_PLAN_SCHEMA_VERSION"
    and "canonical_plan_hash env plan = Inr (pl_plan_hash plan)"
    and "pl_cache_directives plan = fst (resolve_cache_directives request ms)"
    and "pv_effective_messages (pl_preview plan) = ms"
    and "pv_cache_directives (pl_preview plan) = pl_cache_directives plan"
    and "pv_estimated_input_tokens (pl_preview plan) = wrapping_sum (map rm_estimated_tokens ms)"
    and "pv_available_input_tokens (pl_preview plan) = available_tokens request"
    and "tr_blocks (pl_trace plan) = map (materialized_trace e) blocks"
    and "tr_context_snapshot (pl_trace plan) = rc_context_snapshot (rq_context request)"
    and "tr_estimated_input_tokens (pl_trace plan) = wrapping_sum (map rm_estimated_tokens ms)"
    and "tr_available_input_tokens (pl_trace plan) = available_tokens request"
    and "tr_max_context_tokens (pl_trace plan) = rq_max_context_tokens request"
    and "tr_reserved_output_tokens (pl_trace plan) = rq_reserved_output_tokens request"
    and "tr_estimator_id (pl_trace plan) = est_id e"
proof -
  obtain directives warnings where cache: "resolve_cache_directives request ms = (directives, warnings)" by fastforce
  from assms obtain p hash where "canonical_plan_hash env p = Inr hash" and "plan = p\<lparr>pl_plan_hash := hash\<rparr>"
    by (auto simp: assemble_plan_def cache Let_def result_simps)
  then show "canonical_plan_hash env plan = Inr (pl_plan_hash plan)" by simp
qed (use assms in \<open>auto simp: assemble_plan_def Let_def result_simps split: prod.splits\<close>)

subsection \<open>Cache directives\<close>

lemma last_sequence_bound:
  assumes "all_emitted e request ds ms" and "last_sequence block_id ms = Some n"
  shows "n < length ms"
proof -
  from assms(2) obtain m where "find (\<lambda>m. rm_block_id m = block_id) (rev ms) = Some m" and n: "n = rm_sequence m"
    by (auto simp: last_sequence_def)
  then have "m \<in> set ms" by (metis find_Some_iff nth_mem set_rev)
  from all_emitted_mem [OF assms(1) \<open>m \<in> set ms\<close>] obtain i bd where "emitted e request i bd m" "i < length ms" by blast
  with n show ?thesis by (simp add: emitted_def)
qed

lemma cache_step_directives:
  "\<exists>d. snd (snd (cache_step request ms st boundary)) = snd (snd st) @ [d] \<and>
     cd_after_message_sequence d = last_sequence (cb_after_block_id boundary) ms"
  by (cases st) (simp add: cache_step_def Let_def)

lemma cache_fold_directives:
  "\<forall>d \<in> set (snd (snd (foldl (cache_step request ms) st boundaries))).
     d \<in> set (snd (snd st)) \<or> (\<exists>block_id. cd_after_message_sequence d = last_sequence block_id ms)"
proof (induction boundaries arbitrary: st)
  case (Cons boundary boundaries)
  from cache_step_directives [of request ms st boundary] obtain d where
      step: "set (snd (snd (cache_step request ms st boundary))) = insert d (set (snd (snd st)))"
    and d: "cd_after_message_sequence d = last_sequence (cb_after_block_id boundary) ms"
    by auto
  show ?case
  proof
    fix da assume "da \<in> set (snd (snd (foldl (cache_step request ms) st (boundary # boundaries))))"
    with Cons.IH [of "cache_step request ms st boundary"] step
    have "da = d \<or> da \<in> set (snd (snd st)) \<or> (\<exists>block_id. cd_after_message_sequence da = last_sequence block_id ms)"
      by (metis foldl_Cons insert_iff)
    with d show "da \<in> set (snd (snd st)) \<or> (\<exists>block_id. cd_after_message_sequence da = last_sequence block_id ms)"
      by blast
  qed
qed simp

lemma cache_directives_bound:
  assumes "all_emitted e request ds ms" and "d \<in> set (fst (resolve_cache_directives request ms))"
    and "cd_after_message_sequence d = Some n"
  shows "n < length ms"
proof -
  have "d \<in> set (snd (snd (foldl (cache_step request ms) (0, [], []) (pp_cache_boundaries (rq_preset request)))))"
    using assms(2) by (simp add: resolve_cache_directives_def case_prod_unfold)
  with cache_fold_directives [of request ms "(0, [], [])" "pp_cache_boundaries (rq_preset request)"]
  obtain block_id where "cd_after_message_sequence d = last_sequence block_id ms" by auto
  with assms(3) last_sequence_bound [OF assms(1)] show ?thesis by simp
qed

subsection \<open>Block traces\<close>

lemma map_exclude_ids:
  "map me_record_id (map (\<lambda>m. if me_record_id m \<in> K then m else exclude_memory m) ms) = map me_record_id ms"
  by (simp add: exclude_memory_def)

lemma selected_exclude_ids:
  "\<forall>m \<in> set ms. me_selected m \<Longrightarrow>
     map me_record_id (filter me_selected (map (\<lambda>m. if me_record_id m \<in> K then m else exclude_memory m) ms)) =
     filter (\<lambda>i. i \<in> K) (map me_record_id ms)"
  by (induction ms) (simp_all add: exclude_memory_def)

lemma sort_by_cmp_perm: "mset xs = mset ys \<Longrightarrow> sort_by cmp xs = sort_by cmp (ys :: 'a::linorder list)"
  by (metis mset_sort_by properties_for_sort sorted_sort_by_cmp)

lemma trace_memory_ids:
  assumes "block_ok env request b"
  shows "sort_by cmp (bt_memory_record_ids (materialized_trace e b)) =
    sort_by cmp (map me_record_id (filter me_selected (bt_memory_evidence (materialized_trace e b))))"
proof -
  let ?K = "map fst (bt_collect (map (\<lambda>i. (i, ())) (concat (map dm_source_memory_record_ids (mb_messages b)))))"
  have selected: "\<forall>m \<in> set (mb_memory_evidence b). me_selected m" and dist: "distinct (map me_record_id (mb_memory_evidence b))"
    using assms by (auto simp: block_ok_def evidence_ok_def)
  have "set ?K = (\<Union>m \<in> set (mb_messages b). set (dm_source_memory_record_ids m))"
    by (simp only: keys_bt_collect) (simp add: image_image)
  also have "\<dots> \<subseteq> me_record_id ` set (mb_memory_evidence b)"
    using assms by (auto simp: block_ok_def message_ok_def message_traced_def block_ids_def)
  finally have "set ?K = set (filter (\<lambda>i. i \<in> set ?K) (map me_record_id (mb_memory_evidence b)))"
    by (simp only: set_filter) auto
  moreover have "distinct ?K" 
    using bt_inv_collect unfolding bt_inv_def strict_sorted_iff by blast
  ultimately have "mset ?K = mset (filter (\<lambda>i. i \<in> set ?K) (map me_record_id (mb_memory_evidence b)))"
    using set_eq_iff_mset_eq_distinct distinct_filter [OF dist] by blast
  then show ?thesis
    unfolding materialized_trace_def Let_def block_resolution_trace.simps selected_exclude_ids [OF selected]
    by (rule sort_by_cmp_perm)
qed

lemma trace_evidence_valid:
  assumes "evidence_ok (mb_memory_evidence b)"
  shows "length (bt_memory_evidence (materialized_trace e b)) \<le> MAX_MEMORY_RECORDS"
    and "distinct (map me_record_id (bt_memory_evidence (materialized_trace e b)))"
    and "m \<in> set (bt_memory_evidence (materialized_trace e b)) \<Longrightarrow> validate_memory_evidence index (i, m) = Inr ()"
proof -
  have text_ok: "length (lit ''removed by the prompt token budget'') \<le> 1024" "lit ''removed by the prompt token budget'' \<noteq> []"
    "0 \<notin> set (lit ''removed by the prompt token budget'')"
    by code_simp+
  show "length (bt_memory_evidence (materialized_trace e b)) \<le> MAX_MEMORY_RECORDS"
    using assms by (simp add: materialized_trace_def Let_def evidence_ok_def)
  show "distinct (map me_record_id (bt_memory_evidence (materialized_trace e b)))"
    using assms unfolding materialized_trace_def Let_def block_resolution_trace.simps map_exclude_ids
    by (simp add: evidence_ok_def)
  assume "m \<in> set (bt_memory_evidence (materialized_trace e b))"
  then obtain m0 where "m0 \<in> set (mb_memory_evidence b)" and m: "m = m0 \<or> m = exclude_memory m0"
    by (auto simp: materialized_trace_def Let_def split: if_splits)
  then have "me_lane m0 \<noteq> None" "me_rank_millionths m0 \<noteq> None" "length (me_reasons m0) \<le> 16" "me_exclusion_reason m0 = None"
    using assms by (auto simp: evidence_ok_def)
  with m text_ok show "validate_memory_evidence index (i, m) = Inr ()"
    by (auto simp: validate_memory_evidence_def Let_def exclude_memory_def result_simps validate_text_Inr Suc_le_eq)
qed

lemma provenance_fields_valid:
  assumes "provenance_ok hex_ok p"
  shows "validate_optional (\<lambda>v. validate_text path v 1 1024) (pv_source_id p) = Inr ()"
    and "validate_optional (\<lambda>v. validate_sha256 hex_ok path' v) (pv_source_hash p) = Inr ()"
  using assms
  by (simp_all add: provenance_ok_def validate_provenance_def result_simps validate_optional_Inr validate_text_Inr
      validate_sha256_def)

text \<open>The trace of a final block agrees with the messages that the block produced.\<close>

lemma materialized_trace_valid:
  assumes emitted: "all_emitted e request (drafts_of blocks) ms"
    and dist: "distinct (map (\<lambda>b. pb_id (mb_block b)) blocks)" and mem: "b \<in> set blocks"
    and ok: "block_ok env request b" and provenance: "provenance_ok (px_hex_ok env) (pb_provenance (mb_block b))"
    and few: "length (mb_messages b) \<le> u32_max"
  shows "validate_block_trace (px_hex_ok env) ms (index, materialized_trace e b) = Inr ()"
proof -
  let ?t = "materialized_trace e b"
  let ?own = "messages_of_block (bt_block_id ?t) ms"
  have fields: "bt_block_id ?t = pb_id (mb_block b)"
    "bs_source_id (bt_source ?t) = pv_source_id (pb_provenance (mb_block b))"
    "bs_source_revision (bt_source ?t) = None"
    "bs_source_hash (bt_source ?t) = pv_source_hash (pb_provenance (mb_block b))"
    "bt_final_estimated_tokens ?t = block_tokens e b" "bt_produced_message_count ?t = length (mb_messages b)"
    using few by (simp_all add: materialized_trace_def Let_def try_from_or_def)
  have costs: "map rm_estimated_tokens ?own = map (message_cost e) (mb_messages b)"
    unfolding fields(1) by (rule messages_of_block_tokens [OF emitted dist mem])
  then have "length ?own = length (mb_messages b)" by (metis length_map)
  with costs fields have counts: "bt_final_estimated_tokens ?t = saturating_sum (map rm_estimated_tokens ?own)"
    "bt_produced_message_count ?t = length ?own"
    by (simp_all add: estimated_tokens_with_def)
  have evidence: "evidence_ok (mb_memory_evidence b)" using ok by (simp add: block_ok_def)
  note records = trace_evidence_valid [OF evidence, where e = e]
  have "\<forall>im \<in> set (enumerate 0 (bt_memory_evidence ?t)). validate_memory_evidence index im = Inr ()"
    using records(3) by (auto simp: in_set_enumerate_eq)
  then show ?thesis
    using counts records(1,2) trace_memory_ids [OF ok, of e] provenance_fields_valid [OF provenance] fields(2,3,4)
    unfolding validate_block_trace_def prod.case Let_def
    by (simp add: adjacent_dup_sort_distinct result_simps)
qed

subsection \<open>The whole plan\<close>

lemma effective_message_valid:
  assumes "all_emitted e request (drafts_of blocks) ms" and "\<forall>b \<in> set blocks. block_ok env request b"
    and "i < length ms"
  shows "validate_effective_message (px_hex_ok env) (map (materialized_trace e) blocks) (i, ms ! i) = Inr ()"
proof -
  have emitted: "emitted e request i (drafts_of blocks ! i) (ms ! i)" and "i < length (drafts_of blocks)"
    using assms(1,3) by (simp_all add: all_emitted_def)
  then have "drafts_of blocks ! i \<in> set (drafts_of blocks)" by simp
  then obtain b where b: "b \<in> set blocks" "fst (drafts_of blocks ! i) = mb_block b" "snd (drafts_of blocks ! i) \<in> set (mb_messages b)"
    by (auto simp: in_drafts_of)
  with assms(2) have "message_ok (px_hex_ok env) (block_ids b) (snd (drafts_of blocks ! i))" by (auto simp: block_ok_def)
  then have content: "rm_content (ms ! i) \<noteq> []" and provenance: "provenance_ok (px_hex_ok env) (rm_provenance (ms ! i))"
    using emitted by (simp_all add: emitted_def message_ok_def message_traced_def)
  have tokens: "rm_estimated_tokens (ms ! i) \<noteq> 0"
    using emitted message_cost_bounds(1) [of e "snd (drafts_of blocks ! i)"] by (auto simp: emitted_def)
  have "rm_block_id (ms ! i) = bt_block_id (materialized_trace e b)"
    using emitted b(2) by (simp add: emitted_def materialized_trace_def Let_def)
  with b(1) have "list_ex (\<lambda>t. bt_block_id t = rm_block_id (ms ! i)) (map (materialized_trace e) blocks)"
    by (auto simp: list_ex_iff)
  with content provenance tokens emitted show ?thesis
    by (simp add: validate_effective_message_def Let_def result_simps provenance_ok_path emitted_def)
qed

lemma one_latest_message:
  assumes emitted: "all_emitted e request (drafts_of blocks) ms"
    and perm: "mset (map mb_block blocks) = mset (pp_blocks (rq_preset request))"
    and valid: "prompt_resolve_request_validate env request = Inr ()"
    and latest: "\<forall>b \<in> set blocks. latest_ok request b"
    and found: "list_ex is_latest_user_message ms"
  obtains m where "filter (\<lambda>m. rm_block_kind m = Kind_LatestUserTurn) ms = [m]" and "is_latest_user_message m"
proof -
  let ?is = "\<lambda>block. pb_kind block = Kind_LatestUserTurn"
  have "length (filter ?is (map mb_block blocks)) = length (filter ?is (pp_blocks (rq_preset request)))"
    by (metis mset_filter perm size_mset)
  then have "length (filter (\<lambda>b. ?is (mb_block b)) blocks) = 1"
    using preset_blocks_valid(3) [OF request_valid_parts(1) [OF valid]] by (simp add: filter_map comp_def)
  then obtain b where b: "filter (\<lambda>b. ?is (mb_block b)) blocks = [b]" by (cases "filter (\<lambda>b. ?is (mb_block b)) blocks") auto
  then have "b \<in> set blocks" and "?is (mb_block b)" by (metis (mono_tags, lifting) filter_eq_ConsD in_set_conv_decomp)+
  with latest have "length (mb_messages b) \<le> 1" by (simp add: latest_ok_def)
  then have "length (filter (\<lambda>m. rm_block_kind m = Kind_LatestUserTurn) ms) \<le> 1"
    by (simp add: emitted_kind_count [OF emitted] b)
  moreover obtain m where m: "m \<in> set (filter (\<lambda>m. rm_block_kind m = Kind_LatestUserTurn) ms)" "is_latest_user_message m"
    using found by (auto simp: list_ex_iff is_latest_user_message_def)
  ultimately have "filter (\<lambda>m. rm_block_kind m = Kind_LatestUserTurn) ms = [m]"
    by (cases "filter (\<lambda>m. rm_block_kind m = Kind_LatestUserTurn) ms") auto
  with m(2) show thesis by (intro that)
qed

lemma sum_list_ge_length: "\<forall>x \<in> set xs. 1 \<le> f x \<Longrightarrow> length xs \<le> sum_list (map f xs)" for f :: "'a \<Rightarrow> nat"
  by (induction xs) auto

context token_estimator
begin

text \<open>Everything that holds of the blocks and messages behind a plan, under exact accounting.\<close>

lemma resolve_blocks:
  assumes "resolve env e request = Inr plan"
  obtains blocks rs where "prompt_resolve_request_validate env request = Inr ()"
    and "budgeted_blocks env e request = Inr blocks"
    and "all_emitted e request (drafts_of blocks) (pl_effective_messages plan)"
    and "list_ex is_latest_user_message (pl_effective_messages plan)"
    and "assemble_plan env e request blocks (rs, pl_effective_messages plan) = Inr plan"
    and "distinct (map (\<lambda>b. pb_id (mb_block b)) blocks)"
    and "length blocks \<le> MAX_PROMPT_BLOCKS"
    and "\<forall>b \<in> set blocks. provenance_ok (px_hex_ok env) (pb_provenance (mb_block b))"
proof -
  from assms obtain blocks rs where
      valid: "prompt_resolve_request_validate env request = Inr ()"
    and blocks: "budgeted_blocks env e request = Inr blocks"
    and rest: "all_emitted e request (drafts_of blocks) (pl_effective_messages plan)"
      "list_ex is_latest_user_message (pl_effective_messages plan)"
      "assemble_plan env e request blocks (rs, pl_effective_messages plan) = Inr plan"
    by (rule resolve_cases)
  note perm = budgeted_blocks_spec(1) [OF blocks valid]
  note preset = preset_blocks_valid [OF request_valid_parts(1) [OF valid]]
  have "mset (map pb_id (map mb_block blocks)) = mset (map pb_id (pp_blocks (rq_preset request)))"
    by (metis perm mset_map)
  with preset(2) have dist: "distinct (map (\<lambda>b. pb_id (mb_block b)) blocks)"
    by (metis (no_types, lifting) map_map comp_def map_eq_conv mset_eq_imp_distinct_iff)
  have "length blocks = length (pp_blocks (rq_preset request))" using perm by (metis length_map size_mset)
  with request_valid_parts(2) [OF valid] have few: "length blocks \<le> MAX_PROMPT_BLOCKS" by simp
  have "\<forall>b \<in> set blocks. mb_block b \<in> set (pp_blocks (rq_preset request))"
    using mset_eq_setD [OF perm] by auto
  with preset(1) valid_block_facts(1) have "\<forall>b \<in> set blocks. provenance_ok (px_hex_ok env) (pb_provenance (mb_block b))"
    by blast
  with that valid blocks rest dist few show thesis by blast
qed

lemma resolve_exact_tokens:
  assumes "resolve env e request = Inr plan" and "unbudgeted_tokens env e request \<le> u32_max"
  shows "sum_list (map rm_estimated_tokens (pl_effective_messages plan)) \<le> available_tokens request"
    and "sum_list (map rm_estimated_tokens (pl_effective_messages plan)) \<le> u32_max"
proof -
  from assms(1) obtain blocks where valid: "prompt_resolve_request_validate env request = Inr ()"
    and blocks: "budgeted_blocks env e request = Inr blocks"
    and emitted: "all_emitted e request (drafts_of blocks) (pl_effective_messages plan)"
    by (rule resolve_blocks)
  from budgeted_blocks_spec(5) [OF blocks valid assms(2)]
  show "sum_list (map rm_estimated_tokens (pl_effective_messages plan)) \<le> available_tokens request"
    and "sum_list (map rm_estimated_tokens (pl_effective_messages plan)) \<le> u32_max"
    by (simp_all add: all_emitted_sum [OF emitted])
qed

lemma resolve_valid_plan:
  assumes run: "resolve env e request = Inr plan" and digests: "digests_valid env"
    and selections: "selections_ok env (rq_context request)"
    and exact: "unbudgeted_tokens env e request \<le> u32_max"
  shows "plan_validate env plan = Inr ()"
proof -
  let ?ms = "pl_effective_messages plan"
  from run obtain blocks rs where valid: "prompt_resolve_request_validate env request = Inr ()"
    and blocks: "budgeted_blocks env e request = Inr blocks"
    and emitted: "all_emitted e request (drafts_of blocks) ?ms"
    and found: "list_ex is_latest_user_message ?ms"
    and plan: "assemble_plan env e request blocks (rs, ?ms) = Inr plan"
    and dist: "distinct (map (\<lambda>b. pb_id (mb_block b)) blocks)"
    and few: "length blocks \<le> MAX_PROMPT_BLOCKS"
    and provenance: "\<forall>b \<in> set blocks. provenance_ok (px_hex_ok env) (pb_provenance (mb_block b))"
    by (rule resolve_blocks)
  note parts = assemble_plan_parts [OF plan]
  note tokens = resolve_exact_tokens [OF run exact]
  have ok: "\<forall>b \<in> set blocks. block_ok env request b" by (rule budgeted_blocks_spec(3) [OF blocks valid selections])
  have totals: "saturating_sum (map rm_estimated_tokens ?ms) = wrapping_sum (map rm_estimated_tokens ?ms)"
    "wrapping_sum (map rm_estimated_tokens ?ms) \<le> available_tokens request"
    using tokens by (simp_all add: saturating_sum_eq wrapping_sum_exact)
  have traces: "validate_block_trace (px_hex_ok env) ?ms (i, materialized_trace e b) = Inr ()" if b: "b \<in> set blocks" for i b
  proof (rule materialized_trace_valid [OF emitted dist b])
    have "length (mb_messages b) \<le> true_tokens e b"
      unfolding true_tokens_def using message_cost_bounds(1) by (intro sum_list_ge_length) blast
    also have "\<dots> \<le> sum_list (map (true_tokens e) blocks)" using b by (intro member_le_sum_list) auto
    also have "\<dots> \<le> u32_max" using tokens(2) by (simp add: all_emitted_sum [OF emitted])
    finally show "length (mb_messages b) \<le> u32_max" .
  qed (use ok provenance b in auto)
  have messages: "validate_effective_message (px_hex_ok env) (map (materialized_trace e) blocks) im = Inr ()"
    if "im \<in> set (enumerate 0 ?ms)" for im
  proof -
    obtain i m where im: "im = (i, m)" by (rule prod.exhaust)
    with that have "i < length ?ms" and "m = ?ms ! i" by (simp_all add: in_set_enumerate_eq)
    then show ?thesis using effective_message_valid [OF emitted ok] im by simp
  qed
  have ids: "map bt_block_id (map (materialized_trace e) blocks) = map (\<lambda>b. pb_id (mb_block b)) blocks"
    by (simp add: materialized_trace_def Let_def)
  obtain m where m: "filter (\<lambda>m. rm_block_kind m = Kind_LatestUserTurn) ?ms = [m]" "is_latest_user_message m"
    by (rule one_latest_message [OF emitted budgeted_blocks_spec(1) [OF blocks valid] valid budgeted_blocks_spec(2) [OF blocks valid] found])
  have "filter (\<lambda>m. rm_block_kind m = Kind_LatestUserTurn \<and> rm_effective_role m = PRole_User) ?ms =
      filter (\<lambda>m. rm_effective_role m = PRole_User) (filter (\<lambda>m. rm_block_kind m = Kind_LatestUserTurn) ?ms)"
    by (simp add: conj_commute)
  then have one: "length (filter (\<lambda>m. rm_block_kind m = Kind_LatestUserTurn \<and> rm_effective_role m = PRole_User) ?ms) = 1"
    using m by (simp add: is_latest_user_message_def)
  have snapshot: "validate_optional (\<lambda>snapshot. validate_prompt_context_snapshot env snapshot None)
      (rc_context_snapshot (rq_context request)) = Inr ()"
    using request_valid_parts(7) [OF valid] snapshot_valid_alone by (auto simp: validate_optional_Inr)
  have cache: "\<not> list_ex (\<lambda>d. is_some_and (\<lambda>sequence. sequence \<ge> length ?ms) (cd_after_message_sequence d))
      (fst (resolve_cache_directives request ?ms))"
  proof -
    have "\<not> is_some_and (\<lambda>sequence. sequence \<ge> length ?ms) (cd_after_message_sequence d)"
      if "d \<in> set (fst (resolve_cache_directives request ?ms))" for d
      using cache_directives_bound [OF emitted that] by (cases "cd_after_message_sequence d") (auto simp: not_le)
    then show ?thesis by (auto simp: list_ex_iff)
  qed
  show ?thesis
    unfolding plan_validate_def Let_def checks_Inr_conv parts
    using totals traces messages one snapshot cache few dist ids canonical_hash_valid [OF parts(2) digests]
    by (auto simp: adjacent_dup_sort_distinct in_set_enumerate_eq available_tokens_def simp del: map_map)
qed

lemma resolve_verified:
  assumes "resolve env e request = Inr plan" and "digests_valid env"
    and "selections_ok env (rq_context request)" and "unbudgeted_tokens env e request \<le> u32_max"
  shows "verify_resolved_prompt_plan env plan = Inr ()"
proof -
  have "canonical_plan_hash env plan = Inr (pl_plan_hash plan)"
    using assms(1) by (rule resolve_blocks) (rule assemble_plan_parts(2))
  with resolve_valid_plan [OF assms] show ?thesis by (simp add: verify_resolved_prompt_plan_def)
qed

end

end
