(* ===== verification/Reseal_Facts.thy ===== *)
theory Reseal_Facts
  imports Plan_Verification
begin

section \<open>Facts about resealing\<close>

text \<open>
  What \<open>reseal_resolved_prompt_plan_with_estimator\<close> does to a plan: it replaces texts and counts
  again, and sealing a plan with its own texts gives the same plan.
\<close>

lemma seal_Inr:
  assumes "seal env p = Inr plan"
  shows "verify_resolved_prompt_plan env plan = Inr ()" and "plan = p\<lparr>pl_plan_hash := pl_plan_hash plan\<rparr>"
  using assms by (auto simp: seal_def Let_def result_simps)

lemma seal_sealed:
  assumes "verify_resolved_prompt_plan env plan = Inr ()"
  shows "seal env plan = Inr plan"
proof -
  have "canonical_plan_hash env plan = Inr (pl_plan_hash plan)"
    using assms by (auto simp: verify_resolved_prompt_plan_def result_simps)
  then show ?thesis using assms by (simp add: seal_def)
qed

lemma reseal_cases:
  assumes "reseal_resolved_prompt_plan_with_estimator env original contents e = Inr plan"
  obtains "verify_resolved_prompt_plan env original = Inr ()"
    and "length contents = length (pl_effective_messages original)"
    and "\<forall>i < length contents. is_protected_message (pl_effective_messages original ! i) \<longrightarrow>
      contents ! i = rm_content (pl_effective_messages original ! i)"
    and "pl_effective_messages plan = map2 (retext e) (pl_effective_messages original) contents"
    and "tr_available_input_tokens (pl_trace plan) = tr_available_input_tokens (pl_trace original)"
    and "pl_cache_directives plan = pl_cache_directives original"
    and "verify_resolved_prompt_plan env plan = Inr ()"
proof -
  let ?messages = "map2 (retext e) (pl_effective_messages original) contents"
  let ?estimated = "saturating_sum (map rm_estimated_tokens ?messages)"
  define p where "p = original\<lparr>pl_effective_messages := ?messages,
    pl_trace := (pl_trace original)\<lparr>tr_blocks := map (recount (foldl add_block_tokens [] ?messages)) (tr_blocks (pl_trace original)),
      tr_estimated_input_tokens := ?estimated\<rparr>,
    pl_preview := \<lparr>pv_effective_messages = ?messages, pv_cache_directives = pl_cache_directives original,
      pv_estimated_input_tokens = ?estimated, pv_available_input_tokens = tr_available_input_tokens (pl_trace original)\<rparr>\<rparr>"
  have run: "verify_resolved_prompt_plan env original = Inr () \<and>
      length contents = length (pl_effective_messages original) \<and>
      \<not> list_ex (\<lambda>(m, content). content \<noteq> rm_content m \<and> is_protected_message m)
        (zip (pl_effective_messages original) contents) \<and> seal env p = Inr plan"
    using assms unfolding reseal_resolved_prompt_plan_with_estimator_def Let_def p_def
    by (simp only: result_bind_Inr_conv guard_err_Inr_conv not_not) (elim exE conjE, intro conjI; simp)
  then have verified: "verify_resolved_prompt_plan env original = Inr ()"
    and len: "length contents = length (pl_effective_messages original)"
    and protected: "\<not> list_ex (\<lambda>(m, content). content \<noteq> rm_content m \<and> is_protected_message m)
      (zip (pl_effective_messages original) contents)"
    and sealed: "seal env p = Inr plan"
    by blast+
  have p: "pl_effective_messages p = ?messages"
      "tr_available_input_tokens (pl_trace p) = tr_available_input_tokens (pl_trace original)"
      "pl_cache_directives p = pl_cache_directives original"
    by (simp_all add: p_def)
  note fields = seal_Inr [OF sealed]
  have "pl_effective_messages plan = ?messages"
    and "tr_available_input_tokens (pl_trace plan) = tr_available_input_tokens (pl_trace original)"
    and "pl_cache_directives plan = pl_cache_directives original"
    using p arg_cong [OF fields(2), of pl_effective_messages] arg_cong [OF fields(2), of pl_trace]
      arg_cong [OF fields(2), of pl_cache_directives] by simp_all
  moreover have "\<forall>i < length contents. is_protected_message (pl_effective_messages original ! i) \<longrightarrow>
      contents ! i = rm_content (pl_effective_messages original ! i)"
    using protected len by (auto simp: list_ex_iff in_set_zip)
  ultimately show thesis using that verified len fields(1) by blast
qed

subsection \<open>Resealing a plan with its own texts\<close>

definition block_total :: "(str, nat) btree_map \<Rightarrow> str \<Rightarrow> nat" where
  "block_total totals block_id = (case bt_get totals block_id of Some n \<Rightarrow> n | None \<Rightarrow> 0)"

lemma add_block_tokens_total:
  assumes "bt_inv totals" and "rm_estimated_tokens m \<le> u32_max"
  shows "bt_inv (add_block_tokens totals m)"
    and "block_total (add_block_tokens totals m) block_id =
      (if rm_block_id m = block_id then saturating_add u32_max (block_total totals block_id) (rm_estimated_tokens m)
       else block_total totals block_id)"
  using assms
  by (auto simp: add_block_tokens_def block_total_def bt_get_insert bt_inv_insert saturating_add_def split: option.split)

lemma fold_block_tokens:
  assumes "bt_inv totals" and "\<forall>m \<in> set ms. rm_estimated_tokens m \<le> u32_max"
  shows "block_total (foldl add_block_tokens totals ms) block_id =
    foldl (saturating_add u32_max) (block_total totals block_id) (map rm_estimated_tokens (messages_of_block block_id ms))"
  using assms
proof (induction ms arbitrary: totals)
  case (Cons m ms)
  then have inv: "bt_inv (add_block_tokens totals m)" by (intro add_block_tokens_total(1)) simp_all
  show ?case using Cons.IH [OF inv] Cons.prems add_block_tokens_total(2) [of totals m block_id]
    by (simp add: messages_of_block_def)
qed (simp add: messages_of_block_def)

lemma recount_total:
  assumes "\<forall>m \<in> set ms. rm_estimated_tokens m \<le> u32_max"
  shows "recount (foldl add_block_tokens [] ms) t =
    t\<lparr>bt_final_estimated_tokens := saturating_sum (map rm_estimated_tokens (messages_of_block (bt_block_id t) ms))\<rparr>"
  using fold_block_tokens [OF btree.inv_empty assms, of "bt_block_id t"]
  by (simp add: recount_def block_total_def saturating_sum_def)

lemma mem_enumerate: "x \<in> set xs \<Longrightarrow> \<exists>i. (i, x) \<in> set (enumerate k xs)"
  by (induction xs arbitrary: k) auto

lemma plan_validate_parts:
  assumes "plan_validate env plan = Inr ()"
  shows "pv_effective_messages (pl_preview plan) = pl_effective_messages plan"
    and "pv_cache_directives (pl_preview plan) = pl_cache_directives plan"
    and "\<forall>t \<in> set (tr_blocks (pl_trace plan)). bt_final_estimated_tokens t =
      saturating_sum (map rm_estimated_tokens (messages_of_block (bt_block_id t) (pl_effective_messages plan)))"
    and "\<forall>m \<in> set (pl_effective_messages plan). rm_content m \<noteq> []"
    and "tr_estimated_input_tokens (pl_trace plan) = saturating_sum (map rm_estimated_tokens (pl_effective_messages plan))"
    and "pv_estimated_input_tokens (pl_preview plan) = saturating_sum (map rm_estimated_tokens (pl_effective_messages plan))"
    and "saturating_sum (map rm_estimated_tokens (pl_effective_messages plan)) \<le> tr_available_input_tokens (pl_trace plan)"
    and "pv_available_input_tokens (pl_preview plan) = tr_available_input_tokens (pl_trace plan)"
proof -
  note checked = assms [unfolded plan_validate_def Let_def checks_Inr_conv]
  let ?estimated = "saturating_sum (map rm_estimated_tokens (pl_effective_messages plan))"
  have "\<not> (?estimated \<noteq> tr_estimated_input_tokens (pl_trace plan) \<or> ?estimated \<noteq> pv_estimated_input_tokens (pl_preview plan) \<or>
      ?estimated > tr_available_input_tokens (pl_trace plan) \<or>
      tr_available_input_tokens (pl_trace plan) \<noteq> pv_available_input_tokens (pl_preview plan))"
    using checked by (simp only: list.set ball_simps reject_if_Inr simp_thms)
  then show "tr_estimated_input_tokens (pl_trace plan) = ?estimated"
    and "pv_estimated_input_tokens (pl_preview plan) = ?estimated"
    and "?estimated \<le> tr_available_input_tokens (pl_trace plan)"
    and "pv_available_input_tokens (pl_preview plan) = tr_available_input_tokens (pl_trace plan)"
    by (simp_all add: not_less)
  show "pv_effective_messages (pl_preview plan) = pl_effective_messages plan"
    and "pv_cache_directives (pl_preview plan) = pl_cache_directives plan"
    using checked by simp_all
  have traces: "validate_block_trace (px_hex_ok env) (pl_effective_messages plan) it = Inr ()"
    if "it \<in> set (enumerate 0 (tr_blocks (pl_trace plan)))" for it
    using checked that by (simp only: list.set ball_simps try_for_Inr_conv simp_thms)
  have messages: "validate_effective_message (px_hex_ok env) (tr_blocks (pl_trace plan)) im = Inr ()"
    if "im \<in> set (enumerate 0 (pl_effective_messages plan))" for im
    using checked that by (simp only: list.set ball_simps try_for_Inr_conv simp_thms)
  show "\<forall>t \<in> set (tr_blocks (pl_trace plan)). bt_final_estimated_tokens t =
      saturating_sum (map rm_estimated_tokens (messages_of_block (bt_block_id t) (pl_effective_messages plan)))"
  proof
    fix t assume "t \<in> set (tr_blocks (pl_trace plan))"
    then obtain i where "(i, t) \<in> set (enumerate 0 (tr_blocks (pl_trace plan)))"
      using mem_enumerate by metis
    from traces [OF this] show "bt_final_estimated_tokens t =
        saturating_sum (map rm_estimated_tokens (messages_of_block (bt_block_id t) (pl_effective_messages plan)))"
      unfolding validate_block_trace_def prod.case Let_def checks_Inr_conv by simp
  qed
  show "\<forall>m \<in> set (pl_effective_messages plan). rm_content m \<noteq> []"
  proof
    fix m assume "m \<in> set (pl_effective_messages plan)"
    then obtain i where "(i, m) \<in> set (enumerate 0 (pl_effective_messages plan))"
      using mem_enumerate by metis
    from messages [OF this] show "rm_content m \<noteq> []"
      unfolding validate_effective_message_def prod.case Let_def checks_Inr_conv by simp
  qed
qed

lemma reseal_own_contents:
  assumes verified: "verify_resolved_prompt_plan env plan = Inr ()"
    and estimator: "tr_estimator_id (pl_trace plan) = est_id e"
    and counted: "\<forall>m \<in> set (pl_effective_messages plan). rm_estimated_tokens m = estimate_message e (rm_content m)"
  shows "reseal_resolved_prompt_plan_with_estimator env plan (map rm_content (pl_effective_messages plan)) e = Inr plan"
proof -
  let ?ms = "pl_effective_messages plan"
  have "plan_validate env plan = Inr ()" using verified by (auto simp: verify_resolved_prompt_plan_def result_simps)
  note parts = plan_validate_parts [OF this]
  have texts: "map2 (retext e) ?ms (map rm_content ?ms) = ?ms"
    using counted by (intro nth_equalityI) (simp_all add: retext_def)
  have small: "\<forall>m \<in> set ?ms. rm_estimated_tokens m \<le> u32_max" using counted estimate_message_bounds(2) by simp
  have traces: "map (recount (foldl add_block_tokens [] ?ms)) (tr_blocks (pl_trace plan)) = tr_blocks (pl_trace plan)"
    using parts(3) by (intro map_idI) (simp add: recount_total [OF small])
  have "sum_list (map rm_estimated_tokens (filter (\<lambda>m. rm_block_kind m = Kind_LatestUserTurn) ?ms)) \<le> sum_list (map rm_estimated_tokens ?ms)"
    by (rule sum_list_filter_le_nat)
  with parts(7) have latest: "saturating_sum (map rm_estimated_tokens (filter (\<lambda>m. rm_block_kind m = Kind_LatestUserTurn) ?ms))
      \<le> tr_available_input_tokens (pl_trace plan)"
    by (simp add: saturating_sum_eq)
  have same: "plan\<lparr>pl_effective_messages := ?ms,
      pl_trace := (pl_trace plan)\<lparr>tr_blocks := tr_blocks (pl_trace plan),
        tr_estimated_input_tokens := saturating_sum (map rm_estimated_tokens ?ms)\<rparr>,
      pl_preview := \<lparr>pv_effective_messages = ?ms, pv_cache_directives = pl_cache_directives plan,
        pv_estimated_input_tokens = saturating_sum (map rm_estimated_tokens ?ms),
        pv_available_input_tokens = tr_available_input_tokens (pl_trace plan)\<rparr>\<rparr> = plan"
    using parts by simp
  have unchanged: "\<not> list_ex (\<lambda>(m, content). content \<noteq> rm_content m \<and> is_protected_message m) (zip ?ms (map rm_content ?ms))"
    by (auto simp: list_ex_iff in_set_zip)
  have "[] \<notin> set (map rm_content ?ms)" using parts(4) by auto
  then show ?thesis
    unfolding reseal_resolved_prompt_plan_with_estimator_def Let_def texts traces same
    using verified estimator unchanged latest parts(7) by (simp add: seal_sealed not_less)
qed

end
