(* ===== verification/Portable_Text_Properties.thy ===== *)
theory Portable_Text_Properties
  imports Portable_Text
begin

section \<open>Properties of the portable text renderer\<close>

text \<open>
  The renderer never produces more text than its limit unless the source was longer already.  It
  leaves text alone in which no macro is known, and also a text without blocks whose first known
  macro lacks the arguments that it cannot do without.
\<close>

subsection \<open>Length of the output\<close>

lemma length_replace_range:
  "\<not> replacement_would_exceed t start stop v \<Longrightarrow> length (replace_range t start stop v) \<le> MAX_RENDER_CHARS"
  by (simp add: replacement_would_exceed_def replace_range_def)

lemma expand_tokens_length:
  "expand_tokens env ctx source n pass t = Some out \<Longrightarrow> length out \<le> max (length t) MAX_RENDER_CHARS"
proof (induction n arbitrary: pass t)
  case (Suc n)
  then show ?case
    using length_replace_range
    by (fastforce split: option.splits if_splits)
qed simp

lemma each_passes_length:
  "each_passes n t = Some out \<Longrightarrow> length out \<le> max (length t) MAX_RENDER_CHARS"
proof (induction n arbitrary: t)
  case (Suc n)
  then show ?case
    using length_replace_range
    by (fastforce split: option.splits if_splits)
qed simp

lemma block_passes_length:
  "block_passes env ctx source n t = Some out \<Longrightarrow> length out \<le> max (length t) MAX_RENDER_CHARS"
proof (induction n arbitrary: t)
  case (Suc n)
  show ?case
  proof (cases "innermost_block t")
    case None
    with Suc.prems show ?thesis by simp
  next
    case (Some block)
    let ?r = "replace_range t (bm_start block) (bm_end block) (block_replacement env ctx t block)"
    from Suc.prems Some obtain mid where
        fits: "\<not> replacement_would_exceed t (bm_start block) (bm_end block) (block_replacement env ctx t block)"
      and mid: "expand_tokens env ctx source MAX_RENDER_PASSES 0 ?r = Some mid"
      and rest: "block_passes env ctx source n mid = Some out"
      by (auto simp: Let_def Option.bind_eq_Some_conv split: if_splits)
    have "length mid \<le> MAX_RENDER_CHARS"
      using expand_tokens_length [OF mid] length_replace_range [OF fits] by simp
    with Suc.IH [OF rest] show ?thesis by simp
  qed
qed simp

subsection \<open>Tokens are occurrences\<close>

text \<open>What stands between an opening and a later closing pair of braces.\<close>

definition macro_at :: "str \<Rightarrow> nat \<Rightarrow> nat \<Rightarrow> bool" where
  "macro_at t i j \<longleftrightarrow>
     slice i (i + 2) t = open_braces \<and> slice j (j + 2) t = close_braces \<and> i + 2 \<le> j \<and> j < length t"

definition each_macro :: "(str \<Rightarrow> bool) \<Rightarrow> str \<Rightarrow> bool" where
  "each_macro P t \<longleftrightarrow>
     list_all (\<lambda>i. list_all (\<lambda>j. macro_at t i j \<longrightarrow> P (slice (i + 2) j t)) [0..<length t]) [0..<length t]"

lemma each_macroD: "each_macro P t \<Longrightarrow> macro_at t i j \<Longrightarrow> P (slice (i + 2) j t)"
  by (auto simp: each_macro_def list_all_iff macro_at_def)

definition opens_block :: "str \<Rightarrow> bool" where
  "opens_block token \<longleftrightarrow> prefix (lit ''#if'') (trim token) \<or> prefix (lit ''#when'') (trim token)"

text \<open>The text opens no block.\<close>

definition blockless :: "str \<Rightarrow> bool" where
  "blockless t \<longleftrightarrow> \<not> contains t (lit ''{{#each'') \<and> each_macro (\<lambda>token. \<not> opens_block token) t"

text \<open>It opens no block, and no macro of it is known.\<close>

definition inert_text :: "str \<Rightarrow> bool" where
  "inert_text t \<longleftrightarrow> blockless t \<and> each_macro (\<lambda>token. \<not> token_is_known token) t"

lemma scan_token_sound:
  assumes "scan_token t cursor stack = Some (start, stop, token)"
    and "\<forall>i \<in> set stack. slice i (i + 2) t = open_braces \<and> i + 2 \<le> cursor"
  shows "\<exists>j. macro_at t start j \<and> token = slice (start + 2) j t \<and> token_is_known token"
  using assms
proof (induction t cursor stack rule: scan_token.induct)
  case (1 t cursor stack)
  note step = scan_token.simps [of t cursor stack]
  show ?case
  proof (cases "cursor + 1 < length t")
    case False
    with "1.prems"(1) step show ?thesis by simp
  next
    case in_text: True
    consider (left) "slice cursor (cursor + 2) t = open_braces"
      | (right) "slice cursor (cursor + 2) t \<noteq> open_braces" "slice cursor (cursor + 2) t = close_braces"
      | (neither) "slice cursor (cursor + 2) t \<noteq> open_braces" "slice cursor (cursor + 2) t \<noteq> close_braces"
      by blast
    then show ?thesis
    proof cases
      case left
      then show ?thesis using "1.IH"(1) [OF in_text] "1.prems" step in_text by fastforce
    next
      case neither
      then show ?thesis using "1.IH"(4) [OF in_text] "1.prems" step in_text by fastforce
    next
      case right
      show ?thesis
      proof (cases stack)
        case Nil
        then show ?thesis using "1.IH"(2) [OF in_text right Nil] "1.prems" step in_text right by auto
      next
        case (Cons s stack')
        show ?thesis
        proof (cases "\<not> is_block_token (slice (s + 2) cursor t) \<and> token_is_known (slice (s + 2) cursor t)")
          case True
          with "1.prems" step in_text right Cons have "start = s" and "token = slice (s + 2) cursor t"
            by (simp_all add: Let_def)
          with True "1.prems"(2) Cons in_text right(2) show ?thesis
            by (intro exI [of _ cursor]) (auto simp: macro_at_def)
        next
          case False
          then show ?thesis
            using "1.IH"(3) [OF in_text right Cons refl False] "1.prems" step in_text right Cons
            by (fastforce simp: Let_def)
        qed
      qed
    qed
  qed
qed

lemma next_evaluable_token_inert: "inert_text t \<Longrightarrow> next_evaluable_token t = None"
proof (rule ccontr)
  assume inert: "inert_text t" and "next_evaluable_token t \<noteq> None"
  then obtain start stop token where "scan_token t 0 [] = Some (start, stop, token)"
    by (auto simp: next_evaluable_token_def)
  from scan_token_sound [OF this] obtain j where "macro_at t start j" and "token_is_known (slice (start + 2) j t)"
    by auto
  with inert show False by (auto simp: inert_text_def dest: each_macroD)
qed

lemma str_find_slice:
  assumes "str_find (drop c t) needle = Some r" and "needle \<noteq> []"
  shows "slice (c + r) (c + r + length needle) t = needle" and "c + r < length t"
proof -
  from assms obtain a b where "split_once needle (drop c t) = Some (a, b)" and r: "r = length a"
    by (auto simp: str_find_def)
  then have t: "drop c t = a @ needle @ b" by (blast dest: split_once_Some)
  then have "drop (c + r) t = needle @ b" using r by (metis add.commute append_eq_conv_conj drop_drop)
  then show "slice (c + r) (c + r + length needle) t = needle" by (simp add: slice_def)
  have "drop c t \<noteq> []" and "length (drop c t) > length a" using t assms(2) by auto
  then show "c + r < length t" using r by simp
qed

lemma flat_tokens_sound:
  "(start, stop, token) \<in> set (flat_tokens_from t cursor) \<Longrightarrow>
     \<exists>j. macro_at t start j \<and> token = slice (start + 2) j t"
proof (induction t cursor rule: flat_tokens_from.induct)
  case (1 t cursor)
  note step = flat_tokens_from.simps [of t cursor]
  from "1.prems" step obtain r where r: "str_find (drop cursor t) open_braces = Some r"
    by (cases "str_find (drop cursor t) open_braces") auto
  with "1.prems" step obtain e where e: "str_find (drop (cursor + r + 2) t) close_braces = Some e"
    by (cases "str_find (drop (cursor + r + 2) t) close_braces") auto
  let ?j = "cursor + r + 2 + e"
  have at: "macro_at t (cursor + r) ?j"
    using str_find_slice [OF r] str_find_slice [OF e] by (simp add: macro_at_def lit_def)
  from "1.prems" r e step consider "(start, stop, token) \<in> set (flat_tokens_from t (?j + 2))"
    | "start = cursor + r" "token = slice (cursor + r + 2) ?j t"
    by (auto simp: Let_def split: if_splits)
  then show ?case
  proof cases
    case 1
    with "1.IH" [OF r refl refl e refl refl] show ?thesis by simp
  next
    case 2
    with at show ?thesis by blast
  qed
qed

lemma innermost_from_empty:
  "\<forall>(start, stop, token) \<in> set tokens. \<not> opens_block token \<Longrightarrow> innermost_from [] tokens = None"
  by (induction tokens) (auto simp: Let_def opens_block_def)

lemma innermost_block_blockless: "blockless t \<Longrightarrow> innermost_block t = None"
  unfolding innermost_block_def flat_tokens_def
  by (rule innermost_from_empty) (auto dest!: flat_tokens_sound each_macroD simp: blockless_def)

lemma str_rfind_None: "\<not> contains t needle \<Longrightarrow> str_rfind t needle = None"
  by (induction t) auto

lemma render_each_blocks_blockless: "blockless t \<Longrightarrow> render_each_blocks t = t"
  by (simp add: render_each_blocks_def MAX_RENDER_PASSES_def numeral_eq_Suc each_block_def
      blockless_def str_rfind_None)

text \<open>A text without blocks in which the expansion of values stops at once is returned as it is.\<close>

lemma blockless_kept:
  assumes "blockless source"
    and "expand_tokens env ctx source MAX_RENDER_PASSES 0 source = Some source"
  shows "render_portable_text env source ctx = source"
proof -
  have "block_passes env ctx source MAX_RENDER_PASSES source = Some source"
    using innermost_block_blockless [OF assms(1)] by (simp add: MAX_RENDER_PASSES_def numeral_eq_Suc)
  with assms(2) show ?thesis
    using render_each_blocks_blockless [OF assms(1)] by (simp add: render_portable_text_def)
qed

subsection \<open>Macros that cannot be evaluated\<close>

definition macro_parts :: "str \<Rightarrow> str list" where
  "macro_parts token = split (lit ''::'') (trim token)"

definition macro_name :: "str \<Rightarrow> str" where
  "macro_name token = to_ascii_lowercase (trim (hd (macro_parts token)))"

definition macro_args :: "str \<Rightarrow> str list" where
  "macro_args token = map trim (tl (macro_parts token))"

definition comparison_names :: "str list" where
  "comparison_names =
     map lit [''equal'', ''notequal'', ''greater'', ''greater_equal'', ''greaterequal'', ''less'',
       ''less_equal'', ''lessequal'']"

text \<open>A comparison with fewer than two arguments, or a roll without a number of sides.\<close>

definition starved :: "str \<Rightarrow> bool" where
  "starved token \<longleftrightarrow>
     macro_name token \<in> set comparison_names \<and> length (macro_args token) < 2 \<or>
     macro_name token = lit ''roll'' \<and> Option.bind (first_arg (macro_args token)) parse_u64 = None"

lemma hd_split: "sep \<noteq> [] \<Longrightarrow> hd (split sep t) = (case split_once sep t of None \<Rightarrow> t | Some (a, b) \<Rightarrow> a)"
  by (subst split.simps) (auto split: option.split)

lemma dropWhile_again: "\<not> P c \<Longrightarrow> dropWhile P (dropWhile P xs @ [c]) = dropWhile P xs @ [c]"
  by (induction xs) simp_all

lemma trim_idem [simp]: "trim (trim t) = trim t"
proof (cases "trim_start t")
  case Nil
  then show ?thesis by (simp add: trim_def) (simp add: trim_start_def)
next
  case (Cons c cs)
  then have c: "\<not> is_whitespace c" by (metis dropWhile_eq_Cons_conv trim_start_def)
  then have "trim t = c # rev (dropWhile is_whitespace (rev cs))"
    by (simp add: trim_def Cons dropWhile_append)
  then show ?thesis using c by (simp add: trim_def [of "_ # _"] trim_start_def dropWhile_again)
qed

lemma trim_question:
  assumes "prefix (lit ''? '') (trim_start t)"
  shows "trim t = lit ''?'' \<or> prefix (lit ''? '') (trim t)"
proof -
  from assms obtain u where u: "trim_start t = [63, 32] @ u" by (auto simp: prefix_def lit_def)
  have mark: "\<not> is_whitespace 63" and blank: "is_whitespace 32" by code_simp+
  show ?thesis
  proof (cases "\<forall>c \<in> set u. is_whitespace c")
    case True
    then have "dropWhile is_whitespace (rev u) = []" by simp
    with u mark blank show ?thesis by (simp add: trim_def dropWhile_append lit_def)
  next
    case False
    then show ?thesis using u by (simp add: trim_def dropWhile_append lit_def)
  qed
qed

lemma macro_name_once:
  "macro_name token = to_ascii_lowercase (case split_once (lit ''::'') (trim token) of
     None \<Rightarrow> trim token | Some (name, _) \<Rightarrow> trim name)"
  by (simp add: macro_name_def macro_parts_def hd_split lit_def split: option.split)

lemma token_is_knownD:
  assumes "token_is_known token"
  shows "macro_name token \<in> set known_names \<or> prefix (lit ''? '') (trim token)"
proof -
  have "split_once (lit ''::'') (lit ''?'') = None" and "to_ascii_lowercase (lit ''?'') \<in> set known_names"
    by code_simp+
  then have "trim token = lit ''?'' \<Longrightarrow> macro_name token \<in> set known_names" by (simp add: macro_name_once)
  with assms trim_question [of token] macro_name_once [of token] show ?thesis by (auto simp: token_is_known_def Let_def)
qed

text \<open>Such a macro is known and does not belong to a block.\<close>

lemma macro_name_Cons:
  assumes "trim token = c # cs" and "c \<noteq> 58" and "\<not> is_whitespace c"
  shows "\<exists>ds. macro_name token = char_to_ascii_lowercase c # ds"
proof -
  obtain xs where "hd (macro_parts token) = c # xs"
    using assms by (cases "split_once (lit ''::'') cs") (auto simp: macro_parts_def hd_split lit_def)
  moreover have "trim (c # xs) = c # rev (dropWhile is_whitespace (rev xs))"
    using assms(3) by (simp add: trim_def trim_start_def dropWhile_append)
  ultimately show ?thesis by (simp add: macro_name_def to_ascii_lowercase_def)
qed

lemma starved_known:
  assumes "starved token"
  shows "token_is_known token" and "\<not> is_block_token token"
proof -
  have names: "macro_name token \<in> set (lit ''roll'' # comparison_names)"
    using assms by (auto simp: starved_def)
  moreover have "set (lit ''roll'' # comparison_names) \<subseteq> set known_names" by code_simp
  ultimately show "token_is_known token"
    using macro_name_once [of token] by (auto simp: token_is_known_def Let_def)
  have first: "list_all (\<lambda>name. hd name \<noteq> 35 \<and> hd name \<noteq> 47 \<and> name \<noteq> lit ''else'') (lit ''roll'' # comparison_names)"
    by code_simp
  show "\<not> is_block_token token"
  proof
    assume "is_block_token token"
    then consider (mark) c cs where "trim token = c # cs" "c = 35 \<or> c = 47" | (else) "trim token = lit ''else''"
      by (auto simp: is_block_token_def Let_def prefix_def lit_def)
    then show False
    proof cases
      case mark
      moreover have "\<not> is_whitespace 35" "\<not> is_whitespace 47" by code_simp+
      ultimately obtain ds where "macro_name token = char_to_ascii_lowercase c # ds"
        using macro_name_Cons [of token c cs] by auto
      with mark(2) have "hd (macro_name token) = c" by (auto simp: char_to_ascii_lowercase_def is_ascii_uppercase_def)
      with mark(2) first names show False by (auto simp: list_all_iff)
    next
      case else
      moreover have "split_once (lit ''::'') (lit ''else'') = None" and "to_ascii_lowercase (lit ''else'') = lit ''else''"
        by code_simp+
      ultimately have "macro_name token = lit ''else''" by (simp add: macro_name_once)
      with first names show False by (auto simp: list_all_iff)
    qed
  qed
qed

lemma compare_args_None: "compare_args holds args = None \<longleftrightarrow> length args < 2"
  by (auto simp: compare_args_def first_two_def split: list.split)

lemma evaluate_token_None:
  assumes "token_is_known token"
  shows "evaluate_token env token ctx source pass = None \<longleftrightarrow> starved token"
proof -
  define name where "name = macro_name token"
  define args where "args = macro_args token"
  note parts = macro_parts_def [symmetric] macro_name_def [symmetric] macro_args_def [symmetric]
    name_def [symmetric] args_def [symmetric]
  show ?thesis
  proof (cases "name \<in> set known_names")
    case True
    then show ?thesis
      unfolding evaluate_token_def Let_def starved_def parts
      unfolding known_names_def comparison_names_def list.simps set_simps
      by (elim insertE emptyE) (simp_all add: lit_def compare_args_None)
  next
    case False
    with token_is_knownD [OF assms] have "prefix (lit ''? '') (trim token)" by (simp add: name_def)
    with False show ?thesis
      unfolding evaluate_token_def Let_def starved_def parts
      by (simp add: known_names_def comparison_names_def)
  qed
qed

lemma expand_starved:
  assumes "next_evaluable_token t = Some (start, stop, token)" and "starved token"
  shows "expand_tokens env ctx source n pass t = Some t"
  using assms evaluate_token_None [OF starved_known(1) [OF assms(2)], of env ctx source pass]
  by (cases n) simp_all



subsection \<open>The first macro of a text\<close>

definition braceless :: "str \<Rightarrow> bool" where
  "braceless t \<longleftrightarrow> list_all (\<lambda>c. c \<noteq> 123 \<and> c \<noteq> 125) t"

lemma scan_token_skip:
  "braceless u \<Longrightarrow> scan_token (t @ u @ v) (length t) stack = scan_token (t @ u @ v) (length t + length u) stack"
proof (induction u arbitrary: t)
  case (Cons c u)
  then have c: "c \<noteq> 123" "c \<noteq> 125" and u: "braceless u" by (simp_all add: braceless_def)
  have "scan_token (t @ (c # u) @ v) (length t) stack = scan_token (t @ (c # u) @ v) (length t + 1) stack"
  proof (cases "u @ v")
    case Nil
    then show ?thesis by (simp add: scan_token.simps)
  next
    case (Cons d w)
    then have "slice (length t) (length t + 2) (t @ (c # u) @ v) = [c, d]"
      by (simp add: slice_def)
    with c Cons show ?thesis by (subst scan_token.simps) (simp add: lit_def)
  qed
  with Cons.IH [OF u, of "t @ [c]"] show ?case by simp
qed simp

lemma first_macro_found:
  assumes "braceless before" and "braceless token" and "token_is_known token" and "\<not> is_block_token token"
  shows "next_evaluable_token (before @ open_braces @ token @ close_braces @ rest) =
    Some (length before, length before + 2 + length token + 2, token)"
    (is "next_evaluable_token ?t = _")
proof -
  let ?a = "length before" and ?b = "length before + 2 + length token"
  have "slice ?a (?a + 2) ?t = open_braces" and "slice ?b (?b + 2) ?t = close_braces"
      and "slice (?a + 2) ?b ?t = token" and len: "?a + 1 < length ?t" "?b + 1 < length ?t"
    by (simp_all add: slice_def lit_def)
  moreover have "scan_token ?t 0 [] = scan_token ?t ?a []"
    using scan_token_skip [OF assms(1), of "[]"] by simp
  moreover have "scan_token ?t (?a + 2) [?a] = scan_token ?t ?b [?a]"
    using scan_token_skip [OF assms(2), of "before @ open_braces" "close_braces @ rest" "[?a]"]
    by (simp add: lit_def)
  ultimately show ?thesis
    using assms(3,4) scan_token.simps [of ?t ?a "[]"] scan_token.simps [of ?t ?b "[?a]"]
    by (simp add: next_evaluable_token_def lit_def del: length_append)
qed

subsection \<open>A sample context\<close>

definition sample_prompt_env :: prompt_env where
  "sample_prompt_env =
     \<lparr>px_hex_ok = (\<lambda>t. True), px_hex_encode = (\<lambda>b. replicate 64 97), px_sha256 = (\<lambda>b. replicate 32 7),
      px_show_decimal = (\<lambda>f. lit ''0.5''), px_json_value = (\<lambda>v. Inr []),
      px_json_snapshot = (\<lambda>s. Inr []), px_json_plan = (\<lambda>p. Inr []), px_memory_reasons = (\<lambda>t. None)\<rparr>"

definition sample_character :: character_prompt_content where
  "sample_character =
     \<lparr>ch_character_id = lit ''guide'', ch_name = lit ''Guide'', ch_aliases = [],
      ch_description = lit ''{{char}} leads {{user}}.'', ch_personality = [], ch_scenario = [], ch_first_message = [],
      ch_dialogue_examples = [], ch_system_instruction = [], ch_post_history_instruction = [],
      ch_alternate_greetings = [], ch_knowledge_book_ids = [], ch_asset_ids = []\<rparr>"

definition sample_message :: "string \<Rightarrow> prompt_message_role \<Rightarrow> string \<Rightarrow> nat \<Rightarrow> prompt_conversation_message" where
  "sample_message mid role content turn =
     \<lparr>cm_id = lit mid, cm_branch_id = lit ''main'', cm_role = role, cm_content = lit content,
      cm_turn_index = turn\<rparr>"

definition sample_context :: prompt_resolution_context where
  "sample_context =
     \<lparr>rc_conversation_id = lit ''room'', rc_branch_id = lit ''main'', rc_character = sample_character,
      rc_persona = None, rc_user_name = lit ''Player'',
      rc_messages = [sample_message ''m1'' Msg_User ''Hello there.'' 0,
        sample_message ''m2'' Msg_Assistant ''Welcome to the gate.'' 0,
        sample_message ''m3'' Msg_User ''Open it.'' 1],
      rc_latest_user_message_id = lit ''m3'', rc_selected_knowledge = [], rc_selected_memory = [],
      rc_summary_boundaries = [], rc_conversation_summary = None, rc_author_note = None,
      rc_group_context = None, rc_variables = [], rc_slots = [], rc_current_date = lit ''2026-08-28'',
      rc_current_time = lit ''09:00'', rc_supported_capabilities = [], rc_session_seed = Some 7,
      rc_context_snapshot = None\<rparr>"

subsection \<open>Properties\<close>

text \<open>
  Rendering is bounded: the output has at most the number of characters of the limit, or of the
  source where the source is longer already.
\<close>

lemma render_bounded:
  "length (render_portable_text env source ctx) \<le> max (length source) MAX_RENDER_CHARS"
proof -
  have each: "length (render_each_blocks source) \<le> max (length source) MAX_RENDER_CHARS"
    using each_passes_length by (fastforce simp: render_each_blocks_def split: option.split)
  show ?thesis
  proof (cases "Option.bind (expand_tokens env ctx source MAX_RENDER_PASSES 0 (render_each_blocks source))
      (block_passes env ctx source MAX_RENDER_PASSES)")
    case None
    then show ?thesis by (simp add: render_portable_text_def)
  next
    case (Some out)
    then obtain mid where mid: "expand_tokens env ctx source MAX_RENDER_PASSES 0 (render_each_blocks source) = Some mid"
      and out: "block_passes env ctx source MAX_RENDER_PASSES mid = Some out"
      by (auto simp: Option.bind_eq_Some_conv)
    show ?thesis
      using Some each expand_tokens_length [OF mid] block_passes_length [OF out]
      by (simp add: render_portable_text_def max_def split: if_splits)
  qed
qed

lemma inert_text_kept:
  assumes "inert_text source"
  shows "render_portable_text env source ctx = source"
proof (rule blockless_kept)
  show "blockless source" using assms by (simp add: inert_text_def)
  show "expand_tokens env ctx source MAX_RENDER_PASSES 0 source = Some source"
    using next_evaluable_token_inert [OF assms] by (simp add: MAX_RENDER_PASSES_def numeral_eq_Suc)
qed

lemma starved_text_kept:
  assumes "braceless before" and "braceless token" and "starved token"
    and "source = before @ open_braces @ token @ close_braces @ rest" and "blockless source"
  shows "render_portable_text env source ctx = source"
  using assms(5)
proof (rule blockless_kept)
  have "next_evaluable_token source = Some (length before, length before + 2 + length token + 2, token)"
    unfolding assms(4) using assms(1,2) starved_known [OF assms(3)] by (rule first_macro_found)
  then show "expand_tokens env ctx source MAX_RENDER_PASSES 0 source = Some source"
    using assms(3) by (rule expand_starved)
qed

text \<open>
  C40. Rendering is bounded: the output has at most the number of characters of the limit, or of the source
  where that is longer already.  What is left alone: text in which no token between double braces has a
  known name and none opens a block is returned verbatim.  A known macro has no value exactly when it
  is starved: a comparison (\<open>equal\<close> and its like) with fewer than two arguments, or a \<open>roll\<close> whose first
  argument is missing or is not a number; every other known macro has a value, whatever its arguments.  And a
  starved macro stops the expansion of everything after it: a text without blocks whose first macro is
  starved is returned as it is, whatever macros follow.  So \<open>{{equal::1}} {{user}}\<close> is returned
  unchanged in every context, although \<open>{{user}}\<close> alone and \<open>{{not}} {{user}}\<close> are expanded.
\<close>

theorem portable_macros_left_alone:
  "(\<forall>source. length (render_portable_text env source ctx) \<le> max (length source) MAX_RENDER_CHARS) \<and>
   (\<forall>source. inert_text source \<longrightarrow> render_portable_text env source ctx = source) \<and>
   (\<forall>token source pass. token_is_known token \<longrightarrow>
      (evaluate_token env token ctx source pass = None \<longleftrightarrow> starved token)) \<and>
   (\<forall>before token rest.
      let source = before @ open_braces @ token @ close_braces @ rest in
      braceless before \<and> braceless token \<and> starved token \<and> blockless source \<longrightarrow>
      render_portable_text env source ctx = source) \<and>
   render_portable_text env (lit ''{{equal::1}} {{user}}'') ctx = lit ''{{equal::1}} {{user}}'' \<and>
   render_portable_text sample_prompt_env (lit ''{{user}}'') sample_context = lit ''Player'' \<and>
   render_portable_text sample_prompt_env (lit ''{{not}} {{user}}'') sample_context = lit ''1 Player''"
proof (intro conjI allI impI)
  show "length (render_portable_text env source ctx) \<le> max (length source) MAX_RENDER_CHARS" for source
    by (rule render_bounded)
  show "render_portable_text env source ctx = source" if "inert_text source" for source
    using that by (rule inert_text_kept)
  show "evaluate_token env token ctx source pass = None \<longleftrightarrow> starved token" if "token_is_known token" for token source pass
    using that by (rule evaluate_token_None)
  show "let source = before @ open_braces @ token @ close_braces @ rest in
      braceless before \<and> braceless token \<and> starved token \<and> blockless source \<longrightarrow>
      render_portable_text env source ctx = source" for before token rest
    using starved_text_kept [of before token _ rest env ctx] by (simp add: Let_def)
  show "render_portable_text env (lit ''{{equal::1}} {{user}}'') ctx = lit ''{{equal::1}} {{user}}''" by code_simp
  show "render_portable_text sample_prompt_env (lit ''{{user}}'') sample_context = lit ''Player''" by code_simp
  show "render_portable_text sample_prompt_env (lit ''{{not}} {{user}}'') sample_context = lit ''1 Player''" by code_simp
qed

theorem portable_macros_left_alone_witness:
  "render_portable_text sample_prompt_env (lit ''solo, {{muscular}}'') sample_context = lit ''solo, {{muscular}}'' \<and>
   evaluate_token sample_prompt_env (lit ''greater::2'') sample_context [] 0 = None \<and>
   render_portable_text sample_prompt_env (lit ''So {{greater::2}} {{char}}'') sample_context =
     lit ''So {{greater::2}} {{char}}''"
proof -
  let ?before = "lit ''So ''" and ?token = "lit ''greater::2''" and ?rest = "lit '' {{char}}''"
  have inert: "inert_text (lit ''solo, {{muscular}}'')" by code_simp
  have starved: "braceless ?before" "braceless ?token" "starved ?token" "token_is_known ?token"
    by code_simp+
  have source: "?before @ open_braces @ ?token @ close_braces @ ?rest = lit ''So {{greater::2}} {{char}}''"
    by (simp add: lit_def)
  have "blockless (lit ''So {{greater::2}} {{char}}'')" by code_simp
  with source inert starved portable_macros_left_alone [of sample_prompt_env sample_context] show ?thesis
    unfolding Let_def by metis
qed

end
