(* ===== verification/Resolver_Properties.thy ===== *)
theory Resolver_Properties
  imports Reseal_Facts Portable_Text_Properties
begin

section \<open>Properties of the prompt resolver\<close>

text \<open>
  What a caller of \<open>resolve_prompt_plan\<close> can rely on, for the built-in estimator: the laws of the
  locale of estimators are discharged by the interpretation \<open>utf8_tokens\<close>.
\<close>

subsection \<open>Roles\<close>

lemma map_role_supported:
  assumes "map_role requested authority contract = Inr (role, why)"
    and "pc_provider_default_role contract \<in> set (pc_supported_roles contract)"
  shows "role \<in> set (pc_supported_roles contract)"
  using assms by (cases requested) (auto simp: map_role_def Let_def split: if_splits)

lemma map_role_imported:
  assumes "map_role requested Auth_ImportedContent contract = Inr (role, why)"
    and "role = PRole_System \<or> role = PRole_Developer"
  shows "role = pc_provider_default_role contract \<and>
    (requested = Role_ProviderDefault \<or> pc_unsupported_role_policy contract = Policy_UseProviderDefault)"
  using assms by (cases requested) (auto simp: map_role_def Let_def split: if_splits)

lemma resolve_message_role:
  assumes "resolve env e request = Inr plan" and "m \<in> set (pl_effective_messages plan)"
  obtains why where "map_role (rm_requested_role m) (rm_authority m) (rq_provider request) = Inr (rm_effective_role m, why)"
    and "pc_provider_default_role (rq_provider request) \<in> set (pc_supported_roles (rq_provider request))"
proof -
  from assms(1) obtain blocks rs where valid: "prompt_resolve_request_validate env request = Inr ()"
    and emitted: "all_emitted e request (drafts_of blocks) (pl_effective_messages plan)"
    by (rule resolve_cases)
  from all_emitted_mem [OF emitted assms(2)] obtain i bd where "emitted e request i bd m" by blast
  then obtain why where "map_role (rm_requested_role m) (rm_authority m) (rq_provider request) = Inr (rm_effective_role m, why)"
    by (auto simp: emitted_def)
  moreover have "pc_provider_default_role (rq_provider request) \<in> set (pc_supported_roles (rq_provider request))"
    using request_valid_parts(6) [OF valid] by (simp add: validate_provider_prompt_contract_def result_simps)
  ultimately show thesis by (rule that)
qed

subsection \<open>The latest user message\<close>

lemma resolve_latest_message:
  assumes "resolve env utf8_token_estimator request = Inr plan"
  obtains m latest where "filter (\<lambda>m. rm_block_kind m = Kind_LatestUserTurn) (pl_effective_messages plan) = [m]"
    and "is_latest_user_message m"
    and "find (\<lambda>m. cm_id m = rc_latest_user_message_id (rq_context request)) (rc_messages (rq_context request)) = Some latest"
    and "rm_content m = cm_content latest" and "rm_source_message_ids m = [cm_id latest]"
proof -
  let ?ms = "pl_effective_messages plan"
  from assms obtain blocks rs where valid: "prompt_resolve_request_validate env request = Inr ()"
    and blocks: "budgeted_blocks env utf8_token_estimator request = Inr blocks"
    and emitted: "all_emitted utf8_token_estimator request (drafts_of blocks) ?ms"
    and found: "list_ex is_latest_user_message ?ms"
    by (rule resolve_cases)
  note spec = utf8_tokens.budgeted_blocks_spec [OF blocks valid]
  obtain m where m: "filter (\<lambda>m. rm_block_kind m = Kind_LatestUserTurn) ?ms = [m]" "is_latest_user_message m"
    by (rule one_latest_message [OF emitted spec(1) valid spec(2) found])
  from m(1) have "m \<in> set ?ms" and kind: "rm_block_kind m = Kind_LatestUserTurn"
    by (metis (mono_tags, lifting) filter_eq_ConsD in_set_conv_decomp)+
  from all_emitted_mem [OF emitted \<open>m \<in> set ?ms\<close>] obtain i bd
    where bd: "bd \<in> set (drafts_of blocks)" "emitted utf8_token_estimator request i bd m" by blast
  from bd(1) obtain b where b: "b \<in> set blocks" "fst bd = mb_block b" "snd bd \<in> set (mb_messages b)"
    by (auto simp: in_drafts_of)
  have "pb_kind (mb_block b) = Kind_LatestUserTurn" using bd(2) b(2) kind by (simp add: emitted_def)
  with spec(2) b(1,3) have "latest_draft (rq_context request) (mb_block b) = Some (snd bd)"
    by (auto simp: latest_ok_def)
  then obtain latest where
      "find (\<lambda>m. cm_id m = rc_latest_user_message_id (rq_context request)) (rc_messages (rq_context request)) = Some latest"
    and "dm_content (snd bd) = cm_content latest" and "dm_source_message_ids (snd bd) = [cm_id latest]"
    by (auto simp: latest_draft_def dest!: sym [of _ "snd bd"])
  with m bd(2) show thesis by (intro that [of m latest]) (simp_all add: emitted_def)
qed

lemma resolve_message_tokens:
  assumes "resolve env e request = Inr plan" and "m \<in> set (pl_effective_messages plan)"
  shows "rm_estimated_tokens m = estimate_message e (rm_content m)"
proof -
  from assms(1) obtain blocks rs where "all_emitted e request (drafts_of blocks) (pl_effective_messages plan)"
    by (rule resolve_cases)
  from all_emitted_mem [OF this assms(2)] obtain i bd where "emitted e request i bd m" by blast
  then show ?thesis by (simp add: emitted_def message_cost_def)
qed

subsection \<open>Block maxima\<close>

lemma resolve_block_maximum:
  assumes run: "resolve env utf8_token_estimator request = Inr plan"
    and exact: "unbudgeted_tokens env utf8_token_estimator request \<le> u32_max"
    and block: "block \<in> set (pp_blocks (rq_preset request))" "tp_max_tokens (pb_token_policy block) = Some maximum"
  shows "sum_list (map rm_estimated_tokens (messages_of_block (pb_id block) (pl_effective_messages plan))) \<le> maximum"
proof -
  from run obtain blocks rs where valid: "prompt_resolve_request_validate env request = Inr ()"
    and blocks: "budgeted_blocks env utf8_token_estimator request = Inr blocks"
    and emitted: "all_emitted utf8_token_estimator request (drafts_of blocks) (pl_effective_messages plan)"
    and dist: "distinct (map (\<lambda>b. pb_id (mb_block b)) blocks)"
    by (rule utf8_tokens.resolve_blocks)
  note spec = utf8_tokens.budgeted_blocks_spec [OF blocks valid]
  have "block \<in> set (map mb_block blocks)" using block(1) mset_eq_setD [OF spec(1)] by simp
  then obtain b where b: "b \<in> set blocks" "mb_block b = block" by auto
  have "true_tokens utf8_token_estimator b \<le> sum_list (map (true_tokens utf8_token_estimator) blocks)"
    using b(1) by (intro member_le_sum_list) auto
  with spec(5) [OF exact] have "true_tokens utf8_token_estimator b \<le> u32_max" by simp
  moreover have "block_tokens utf8_token_estimator b \<le> maximum" using spec(4) b block(2) by blast
  ultimately have "true_tokens utf8_token_estimator b \<le> maximum" by (simp add: block_tokens_eq)
  with messages_of_block_tokens [OF emitted dist b(1)] b(2) show ?thesis by (simp add: true_tokens_def)
qed

subsection \<open>The properties\<close>

text \<open>A request on the default preset, with room for 26 tokens: the history has to be reduced.\<close>

definition sample_metadata :: preset_metadata where
  "sample_metadata =
     \<lparr>pm_description = [], pm_tags = [],
      pm_provenance = \<lparr>pv_source_kind = UserCreated, pv_source_id = None, pv_source_hash = None, pv_author = None,
        pv_license = None, pv_imported_at = None\<rparr>,
      pm_created_at = 0, pm_updated_at = 0, pm_local_override_of = None\<rparr>"

definition sample_provider :: provider_prompt_contract where
  "sample_provider =
     \<lparr>pc_supported_roles = [PRole_System, PRole_User, PRole_Assistant], pc_provider_default_role = PRole_User,
      pc_unsupported_role_policy = Policy_Reject, pc_supports_explicit_cache = False, pc_max_cache_boundaries = 0\<rparr>"

definition sample_request :: prompt_resolve_request where
  "sample_request =
     \<lparr>rq_preset = default_prompt_preset (lit ''p'') (lit ''Default'') sample_metadata, rq_context = sample_context,
      rq_provider = sample_provider, rq_generation_preset_id = None, rq_max_context_tokens = 100,
      rq_reserved_output_tokens = 74\<rparr>"

definition sample_plan :: resolved_prompt_plan where
  "sample_plan = projr (resolve_prompt_plan sample_prompt_env sample_request)"

lemma sample_plan_resolved: "resolve_prompt_plan sample_prompt_env sample_request = Inr sample_plan"
proof -
  have "isl (resolve_prompt_plan sample_prompt_env sample_request) = False" by code_simp
  then show ?thesis by (simp add: sample_plan_def)
qed

lemma sample_plan_hypotheses:
  "digests_valid sample_prompt_env"
  "selections_ok sample_prompt_env (rq_context sample_request)"
  "unbudgeted_tokens sample_prompt_env utf8_token_estimator sample_request \<le> u32_max"
proof -
  have "str_len (replicate 64 97) = 64" "\<not> list_ex is_ascii_uppercase (replicate 64 97)" by code_simp+
  then show "digests_valid sample_prompt_env" by (simp add: digests_valid_def sample_prompt_env_def)
qed code_simp+

text \<open>
  The validation of a request does not look at the provenance of the selected knowledge and memory,
  nor count the reasons of a selected memory; the validation of a plan does.  So a selected memory
  whose source id is empty is resolved into a plan that no consumer accepts.
\<close>

definition gap_memory :: selected_memory where
  "gap_memory =
     \<lparr>sm_record_id = lit ''r1'', sm_branch_id = lit ''main'', sm_content = lit ''ok'', sm_score_millionths = 1,
      sm_reason = lit ''kept'',
      sm_provenance = (pm_provenance sample_metadata)\<lparr>pv_source_id := Some []\<rparr>\<rparr>"

definition gap_request :: prompt_resolve_request where
  "gap_request =
     (let preset = rq_preset sample_request;
          block = default_block (lit ''p'') ''memory'' ''Memory'' Kind_RetrievedMemory Src_SelectedMemory
            Zone_RetrievedContext Role_System Overflow_TrimTail 800 in
      sample_request\<lparr>rq_context := sample_context\<lparr>rc_selected_memory := [gap_memory]\<rparr>,
        rq_preset := preset\<lparr>pp_blocks := hd (pp_blocks preset) # block # tl (pp_blocks preset)\<rparr>,
        rq_max_context_tokens := 1000\<rparr>)"

lemma unchecked_selection_gap:
  "\<exists>plan. resolve_prompt_plan sample_prompt_env gap_request = Inr plan \<and>
     verify_resolved_prompt_plan sample_prompt_env plan \<noteq> Inr ()"
proof -
  have "(case resolve_prompt_plan sample_prompt_env gap_request of
      Inl _ \<Rightarrow> False | Inr plan \<Rightarrow> isl (verify_resolved_prompt_plan sample_prompt_env plan))" by code_simp
  then show ?thesis by (auto split: sum.splits)
qed

text \<open>
  C1. A plan that the resolver returns passes the verification that every consumer of plans runs:
  its preview, its traces, its token totals and its hash are right.  The hypotheses are that digests
  have the form of a digest, that the provenance of the selected knowledge and memory is well
  formed and a selected memory has at most 16 reasons (which the validation of the request does not check, see
  \<open>unchecked_selection_gap\<close>), and that the blocks hold less than 2 ^ 32 tokens in all.
\<close>

theorem resolve_plan_verified:
  assumes "resolve_prompt_plan env request = Inr plan"
    and "digests_valid env" and "selections_ok env (rq_context request)"
    and "unbudgeted_tokens env utf8_token_estimator request \<le> u32_max"
  shows "verify_resolved_prompt_plan env plan = Inr ()"
  using utf8_tokens.resolve_verified [OF _ assms(2-4)] assms(1) by (simp add: resolve_prompt_plan_def)

theorem resolve_plan_verified_witness: "verify_resolved_prompt_plan sample_prompt_env sample_plan = Inr ()"
  by (rule resolve_plan_verified [OF sample_plan_resolved sample_plan_hypotheses])

text \<open>
  C2. The messages of a resolved plan fit the budget: their estimates add up to the total that the
  plan reports, the total is at most the context limit less the reserved output, and the messages of
  every block with a maximum stay within it.
\<close>

theorem resolve_within_budget:
  assumes "resolve_prompt_plan env request = Inr plan"
    and "unbudgeted_tokens env utf8_token_estimator request \<le> u32_max"
  shows "tr_estimated_input_tokens (pl_trace plan) = sum_list (map rm_estimated_tokens (pl_effective_messages plan)) \<and>
    sum_list (map rm_estimated_tokens (pl_effective_messages plan)) + rq_reserved_output_tokens request
      \<le> rq_max_context_tokens request \<and>
    (\<forall>m \<in> set (pl_effective_messages plan). rm_estimated_tokens m = estimate_message utf8_token_estimator (rm_content m)) \<and>
    (\<forall>block \<in> set (pp_blocks (rq_preset request)). \<forall>maximum. tp_max_tokens (pb_token_policy block) = Some maximum \<longrightarrow>
      sum_list (map rm_estimated_tokens (messages_of_block (pb_id block) (pl_effective_messages plan))) \<le> maximum)"
proof (intro conjI ballI allI impI)
  have run: "resolve env utf8_token_estimator request = Inr plan" using assms(1) by (simp add: resolve_prompt_plan_def)
  note tokens = utf8_tokens.resolve_exact_tokens [OF run assms(2)]
  from run obtain blocks rs where valid: "prompt_resolve_request_validate env request = Inr ()"
    and plan: "assemble_plan env utf8_token_estimator request blocks (rs, pl_effective_messages plan) = Inr plan"
    by (rule resolve_cases)
  show "tr_estimated_input_tokens (pl_trace plan) = sum_list (map rm_estimated_tokens (pl_effective_messages plan))"
    using assemble_plan_parts(10) [OF plan] tokens(2) by (simp add: wrapping_sum_exact)
  have "rq_reserved_output_tokens request < rq_max_context_tokens request"
    using valid by (auto simp: prompt_resolve_request_validate_def validate_prompt_request_limits_def result_simps)
  with tokens(1) show "sum_list (map rm_estimated_tokens (pl_effective_messages plan)) + rq_reserved_output_tokens request
      \<le> rq_max_context_tokens request" by (simp add: available_tokens_def)
  show "rm_estimated_tokens m = estimate_message utf8_token_estimator (rm_content m)"
    if "m \<in> set (pl_effective_messages plan)" for m
    by (rule resolve_message_tokens [OF run that])
  show "sum_list (map rm_estimated_tokens (messages_of_block (pb_id block) (pl_effective_messages plan))) \<le> maximum"
    if "block \<in> set (pp_blocks (rq_preset request))" "tp_max_tokens (pb_token_policy block) = Some maximum" for block maximum
    by (rule resolve_block_maximum [OF run assms(2) that])
qed

theorem resolve_within_budget_witness:
  "sum_list (map rm_estimated_tokens (pl_effective_messages sample_plan)) + 74 \<le> 100"
  using resolve_within_budget [OF sample_plan_resolved sample_plan_hypotheses(3)] by (simp add: sample_request_def)

text \<open>
  C3. The latest user turn always arrives: a plan has exactly one message of that kind, with the
  role of the user and with the exact text of the latest user message of the conversation, whatever
  the preset does to other blocks.
\<close>

theorem resolve_latest_user_intact:
  assumes "resolve_prompt_plan env request = Inr plan"
  shows "\<exists>m latest. filter (\<lambda>m. rm_block_kind m = Kind_LatestUserTurn) (pl_effective_messages plan) = [m] \<and>
    rm_effective_role m = PRole_User \<and>
    find (\<lambda>c. cm_id c = rc_latest_user_message_id (rq_context request)) (rc_messages (rq_context request)) = Some latest \<and>
    cm_role latest = Msg_User \<and> rm_content m = cm_content latest \<and> rm_source_message_ids m = [cm_id latest]"
proof -
  have run: "resolve env utf8_token_estimator request = Inr plan" using assms by (simp add: resolve_prompt_plan_def)
  then have "validate_prompt_context_messages (rq_context request) = Inr ()"
    by (rule resolve_cases) (rule request_valid_parts(3))
  then obtain c where "find (\<lambda>m. cm_id m = rc_latest_user_message_id (rq_context request)) (rc_messages (rq_context request)) = Some c"
    and "cm_role c = Msg_User"
    by (rule latest_user_message)
  moreover from run obtain m latest where
      "filter (\<lambda>m. rm_block_kind m = Kind_LatestUserTurn) (pl_effective_messages plan) = [m]"
    and "is_latest_user_message m"
    and "find (\<lambda>m. cm_id m = rc_latest_user_message_id (rq_context request)) (rc_messages (rq_context request)) = Some latest"
    and "rm_content m = cm_content latest" and "rm_source_message_ids m = [cm_id latest]"
    by (rule resolve_latest_message)
  ultimately show ?thesis by (intro exI [of _ m] exI [of _ latest]) (simp add: is_latest_user_message_def)
qed

theorem resolve_latest_user_intact_witness:
  "\<exists>m. filter (\<lambda>m. rm_block_kind m = Kind_LatestUserTurn) (pl_effective_messages sample_plan) = [m] \<and>
    rm_content m = lit ''Open it.''"
proof -
  have "find (\<lambda>c. cm_id c = rc_latest_user_message_id (rq_context sample_request)) (rc_messages (rq_context sample_request)) =
      Some (sample_message ''m3'' Msg_User ''Open it.'' 1)" by code_simp
  then show ?thesis
    using resolve_latest_user_intact [OF sample_plan_resolved] by (auto simp: sample_message_def)
qed

text \<open>
  C16. Every message of a plan has a role that the provider supports, and imported content gets a
  privileged role only where the provider's default role is privileged and was asked for, by the
  message or by the policy for unsupported roles.
\<close>

theorem resolve_roles_supported:
  assumes "resolve_prompt_plan env request = Inr plan" and "m \<in> set (pl_effective_messages plan)"
  shows "rm_effective_role m \<in> set (pc_supported_roles (rq_provider request)) \<and>
    (rm_authority m = Auth_ImportedContent \<and> rm_effective_role m \<in> {PRole_System, PRole_Developer} \<longrightarrow>
      rm_effective_role m = pc_provider_default_role (rq_provider request) \<and>
      (rm_requested_role m = Role_ProviderDefault \<or>
        pc_unsupported_role_policy (rq_provider request) = Policy_UseProviderDefault))"
proof -
  have "resolve env utf8_token_estimator request = Inr plan" using assms(1) by (simp add: resolve_prompt_plan_def)
  then obtain why where role: "map_role (rm_requested_role m) (rm_authority m) (rq_provider request) = Inr (rm_effective_role m, why)"
    and "pc_provider_default_role (rq_provider request) \<in> set (pc_supported_roles (rq_provider request))"
    by (rule resolve_message_role [OF _ assms(2)])
  then have "rm_effective_role m \<in> set (pc_supported_roles (rq_provider request))" by (rule map_role_supported)
  moreover have "rm_effective_role m = pc_provider_default_role (rq_provider request) \<and>
      (rm_requested_role m = Role_ProviderDefault \<or>
        pc_unsupported_role_policy (rq_provider request) = Policy_UseProviderDefault)"
    if "rm_authority m = Auth_ImportedContent" "rm_effective_role m \<in> {PRole_System, PRole_Developer}"
    using map_role_imported role that by auto
  ultimately show ?thesis by blast
qed

theorem resolve_roles_supported_witness:
  "rm_effective_role (hd (pl_effective_messages sample_plan)) \<in> {PRole_System, PRole_User, PRole_Assistant}"
proof -
  have "pl_effective_messages sample_plan = [] \<longleftrightarrow> False" by code_simp
  then have "hd (pl_effective_messages sample_plan) \<in> set (pl_effective_messages sample_plan)" by simp
  from resolve_roles_supported [OF sample_plan_resolved this] show ?thesis
    by (simp add: sample_request_def sample_provider_def)
qed

text \<open>
  C17. Resealing after a text transform changes texts only: the new plan has the given texts and the
  messages otherwise as they were, recounted; application and latest-user texts are unchanged, the
  budget of the original plan holds, and the new plan verifies.
\<close>

theorem reseal_changes_texts_only:
  assumes "reseal_resolved_prompt_plan env original contents = Inr plan"
  shows "length contents = length (pl_effective_messages original) \<and>
    pl_effective_messages plan =
      map2 (\<lambda>m content. m\<lparr>rm_content := content, rm_estimated_tokens := estimate_message utf8_token_estimator content\<rparr>)
        (pl_effective_messages original) contents \<and>
    (\<forall>i < length contents. rm_authority (pl_effective_messages original ! i) = Auth_Application \<or>
        rm_block_kind (pl_effective_messages original ! i) = Kind_LatestUserTurn \<longrightarrow>
      contents ! i = rm_content (pl_effective_messages original ! i)) \<and>
    saturating_sum (map rm_estimated_tokens (pl_effective_messages plan)) \<le> tr_available_input_tokens (pl_trace original) \<and>
    verify_resolved_prompt_plan env plan = Inr ()"
proof -
  have "reseal_resolved_prompt_plan_with_estimator env original contents utf8_token_estimator = Inr plan"
    using assms by (simp add: reseal_resolved_prompt_plan_def)
  then show ?thesis
  proof (rule reseal_cases)
    assume parts: "length contents = length (pl_effective_messages original)"
      "\<forall>i < length contents. is_protected_message (pl_effective_messages original ! i) \<longrightarrow>
        contents ! i = rm_content (pl_effective_messages original ! i)"
      "pl_effective_messages plan = map2 (retext utf8_token_estimator) (pl_effective_messages original) contents"
      "tr_available_input_tokens (pl_trace plan) = tr_available_input_tokens (pl_trace original)"
      and verified: "verify_resolved_prompt_plan env plan = Inr ()"
    have "plan_validate env plan = Inr ()" using verified by (auto simp: verify_resolved_prompt_plan_def result_simps)
    from plan_validate_parts(7) [OF this] parts verified show ?thesis
      by (simp add: is_protected_message_def retext_def [abs_def])
  qed
qed

definition sample_contents :: "str list" where
  "sample_contents = map rm_content (pl_effective_messages sample_plan)"

lemma sample_reseal: "\<exists>plan. reseal_resolved_prompt_plan sample_prompt_env sample_plan ((sample_contents)[0 := lit ''Hi.'']) = Inr plan"
proof -
  have "isl (reseal_resolved_prompt_plan sample_prompt_env sample_plan ((sample_contents)[0 := lit ''Hi.''])) = False"
    by code_simp
  then show ?thesis by (cases "reseal_resolved_prompt_plan sample_prompt_env sample_plan ((sample_contents)[0 := lit ''Hi.''])") simp_all
qed

theorem reseal_changes_texts_only_witness:
  "\<exists>plan. reseal_resolved_prompt_plan sample_prompt_env sample_plan ((sample_contents)[0 := lit ''Hi.'']) = Inr plan \<and>
    verify_resolved_prompt_plan sample_prompt_env plan = Inr ()"
  using sample_reseal reseal_changes_texts_only by blast

text \<open>
  Resealing is the identity on a resolved plan and its own texts: nothing is lost by the round
  trip, the hash included.
\<close>

theorem reseal_own_texts_identity:
  assumes "resolve_prompt_plan env request = Inr plan"
    and "digests_valid env" and "selections_ok env (rq_context request)"
    and "unbudgeted_tokens env utf8_token_estimator request \<le> u32_max"
  shows "reseal_resolved_prompt_plan env plan (map rm_content (pl_effective_messages plan)) = Inr plan"
  unfolding reseal_resolved_prompt_plan_def
proof (rule reseal_own_contents)
  have run: "resolve env utf8_token_estimator request = Inr plan" using assms(1) by (simp add: resolve_prompt_plan_def)
  show "verify_resolved_prompt_plan env plan = Inr ()" by (rule utf8_tokens.resolve_verified [OF run assms(2-4)])
  show "tr_estimator_id (pl_trace plan) = est_id utf8_token_estimator"
    using run by (rule resolve_cases) (rule assemble_plan_parts(14))
  show "\<forall>m \<in> set (pl_effective_messages plan). rm_estimated_tokens m = estimate_message utf8_token_estimator (rm_content m)"
    using resolve_message_tokens [OF run] by blast
qed

theorem reseal_own_texts_identity_witness:
  "reseal_resolved_prompt_plan sample_prompt_env sample_plan (map rm_content (pl_effective_messages sample_plan)) = Inr sample_plan"
  by (rule reseal_own_texts_identity [OF sample_plan_resolved sample_plan_hypotheses])

end
