(* ===== verification/Provider_Properties.thy ===== *)
theory Provider_Properties
  imports Provider_Contract Resolver_Properties
begin

section \<open>From the resolver to the provider\<close>

text \<open>
  The resolver and the provider adapters map roles independently, from the same contract.  A plan
  that was resolved for the contract of an adapter compiles for that adapter, and the compilation
  for the preview and the one for the execution agree although the second has to infer the
  developer capability from the plan.
\<close>

subsection \<open>Roles\<close>

lemma resolution_contract_simps [simp]:
  "pc_provider_default_role (resolution_contract adapter cap) = PRole_User"
  "pc_unsupported_role_policy (resolution_contract adapter cap) = Policy_MapDeveloperToSystem"
  "role \<in> set (pc_supported_roles (resolution_contract adapter cap)) \<longleftrightarrow>
     role \<noteq> PRole_Developer \<or> supports_developer (ac_family adapter) cap"
  by (cases role; simp add: resolution_contract_def Let_def)+

lemma resolution_contract_cache:
  "pc_supports_explicit_cache (resolution_contract adapter cap) \<longleftrightarrow> ac_family adapter = AnthropicMessages"
  "pc_max_cache_boundaries (resolution_contract adapter cap) = (if ac_family adapter = AnthropicMessages then 4 else 0)"
  by (simp_all add: resolution_contract_def Let_def)

definition role_mapping_of ::
  "provider_prompt_adapter_contract \<Rightarrow> role_hint \<Rightarrow> instruction_authority \<Rightarrow> provider_message_role \<Rightarrow>
     provider_role_mapping_reason option \<Rightarrow> provider_role_mapping" where
  "role_mapping_of adapter requested authority role reason =
     \<lparr>prm_requested_role = requested, prm_effective_role = role, prm_authority = authority,
      prm_wire_role = fst (wire_mapping (ac_family adapter) role),
      prm_placement = snd (wire_mapping (ac_family adapter) role), prm_reason = reason\<rparr>"

text \<open>A role request depends on the developer capability only for developer messages that are not imported.\<close>

definition asks_developer :: "role_hint \<Rightarrow> instruction_authority \<Rightarrow> bool" where
  "asks_developer requested authority \<longleftrightarrow> requested = Role_Developer \<and> authority \<noteq> Auth_ImportedContent"

definition contract_role ::
  "provider_prompt_adapter_contract \<Rightarrow> developer_role_capability \<Rightarrow> role_hint \<Rightarrow> instruction_authority \<Rightarrow>
     provider_message_role" where
  "contract_role adapter cap requested authority =
     (if asks_developer requested authority then
        if supports_developer (ac_family adapter) cap then PRole_Developer else PRole_System
      else fst (requested_wire_role (resolution_contract adapter cap) requested authority))"

lemma map_role_contract:
  "\<exists>why. map_role requested authority (resolution_contract adapter cap) =
     Inr (contract_role adapter cap requested authority, why)"
  by (cases requested)
    (auto simp: map_role_def Let_def contract_role_def asks_developer_def requested_wire_role_def)

lemma adapter_map_role_contract:
  "\<exists>reason. adapter_map_role adapter requested authority cap =
     Inr (role_mapping_of adapter requested authority (contract_role adapter cap requested authority) reason)"
  by (cases requested)
    (auto simp: adapter_map_role_def Let_def contract_role_def asks_developer_def requested_wire_role_def
      role_mapping_of_def case_prod_unfold)

lemma contract_role_capability:
  assumes "supports_developer (ac_family adapter) cap = supports_developer (ac_family adapter) cap' \<or>
    \<not> asks_developer requested authority"
  shows "contract_role adapter cap requested authority = contract_role adapter cap' requested authority"
  using assms by (cases requested) (auto simp: contract_role_def asks_developer_def requested_wire_role_def)

subsection \<open>Messages\<close>

definition compiled_message :: "provider_prompt_adapter_contract \<Rightarrow> resolved_prompt_message \<Rightarrow> provider_prompt_message" where
  "compiled_message adapter m =
     \<lparr>ppm_sequence = rm_sequence m, ppm_block_id = rm_block_id m, ppm_effective_role = rm_effective_role m,
      ppm_wire_role = fst (wire_mapping (ac_family adapter) (rm_effective_role m)),
      ppm_placement = snd (wire_mapping (ac_family adapter) (rm_effective_role m)),
      ppm_estimated_tokens = rm_estimated_tokens m, ppm_source_message_ids = rm_source_message_ids m,
      ppm_content = rm_content m\<rparr>"

lemma compile_message_eq:
  "compile_message adapter cap m =
     (if rm_effective_role m = contract_role adapter cap (rm_requested_role m) (rm_authority m)
      then Inr (compiled_message adapter m) else Inl ResolvedRoleContractMismatch)"
proof -
  from adapter_map_role_contract obtain reason where "adapter_map_role adapter (rm_requested_role m) (rm_authority m) cap =
      Inr (role_mapping_of adapter (rm_requested_role m) (rm_authority m)
        (contract_role adapter cap (rm_requested_role m) (rm_authority m)) reason)" by blast
  then show ?thesis by (auto simp: compile_message_def role_mapping_of_def compiled_message_def guard_err_def)
qed

definition roles_follow ::
  "provider_prompt_adapter_contract \<Rightarrow> developer_role_capability \<Rightarrow> resolved_prompt_plan \<Rightarrow> bool" where
  "roles_follow adapter cap plan \<longleftrightarrow>
     (\<forall>m \<in> set (pl_effective_messages plan).
        rm_effective_role m = contract_role adapter cap (rm_requested_role m) (rm_authority m))"

lemma resolve_roles_follow:
  assumes "resolve env e request = Inr plan" and "rq_provider request = resolution_contract adapter cap"
  shows "roles_follow adapter cap plan"
  unfolding roles_follow_def
proof
  fix m assume "m \<in> set (pl_effective_messages plan)"
  with assms(1) obtain why where "map_role (rm_requested_role m) (rm_authority m) (rq_provider request) = Inr (rm_effective_role m, why)"
    by (rule resolve_message_role)
  then show "rm_effective_role m = contract_role adapter cap (rm_requested_role m) (rm_authority m)"
    using map_role_contract [of "rm_requested_role m" "rm_authority m" adapter cap] assms(2) by auto
qed

lemma try_map_total: "\<forall>x \<in> set xs. f x = Inr (g x) \<Longrightarrow> try_map f xs = Inr (map g xs)"
  by (induction xs) simp_all

lemma compile_messages_follow:
  assumes "roles_follow adapter cap plan"
  shows "try_map (compile_message adapter cap) (pl_effective_messages plan) =
    Inr (map (compiled_message adapter) (pl_effective_messages plan))"
  using assms by (intro try_map_total) (auto simp: compile_message_eq roles_follow_def)

subsection \<open>The observed capability\<close>

definition observed_capability :: "api_family \<Rightarrow> developer_role_capability \<Rightarrow> developer_role_capability" where
  "observed_capability family cap = (if supports_developer family cap then Developer_Supported else Developer_Unsupported)"

lemma supports_observed [simp]: "supports_developer family (observed_capability family cap) = supports_developer family cap"
  by (cases family; cases cap) (simp_all add: supports_developer_def observed_capability_def)

lemma observe_fold:
  assumes "\<forall>m \<in> set ms. rm_effective_role m = contract_role adapter cap (rm_requested_role m) (rm_authority m)"
    and "current = None \<or> current = Some (observed_capability (ac_family adapter) cap)"
  shows "\<exists>final. try_fold observe_developer current ms = Inr final \<and>
    (final = Some (observed_capability (ac_family adapter) cap) \<or>
     final = current \<and> (\<forall>m \<in> set ms. \<not> asks_developer (rm_requested_role m) (rm_authority m)))"
  using assms
proof (induction ms arbitrary: current)
  case (Cons m ms)
  show ?case
  proof (cases "asks_developer (rm_requested_role m) (rm_authority m)")
    case True
    then have "observe_developer current m = Inr (Some (observed_capability (ac_family adapter) cap))"
      using Cons.prems
      by (cases "supports_developer (ac_family adapter) cap")
        (auto simp: observe_developer_def asks_developer_def contract_role_def observed_capability_def)
    with Cons.IH [of "Some (observed_capability (ac_family adapter) cap)"] Cons.prems(1) show ?thesis by auto
  next
    case False
    then have "observe_developer current m = Inr current" by (auto simp: observe_developer_def asks_developer_def)
    with Cons.IH [of current] Cons.prems False show ?thesis by auto
  qed
qed simp

lemma compile_cache_step_capability:
  "compile_cache_step adapter (resolution_contract adapter cap) = compile_cache_step adapter (resolution_contract adapter cap')"
  by (intro ext) (simp add: compile_cache_step_def resolution_contract_cache)

lemma execution_compiles_same:
  assumes follow: "roles_follow adapter cap plan"
  shows "compile_resolved_plan_for_execution env json adapter plan dialect =
    compile_resolved_plan env json adapter plan cap dialect"
proof -
  from observe_fold [of "pl_effective_messages plan" adapter cap None] follow obtain final where
      fold: "try_fold observe_developer None (pl_effective_messages plan) = Inr final"
    and final: "final = Some (observed_capability (ac_family adapter) cap) \<or>
      final = None \<and> (\<forall>m \<in> set (pl_effective_messages plan). \<not> asks_developer (rm_requested_role m) (rm_authority m))"
    by (auto simp: roles_follow_def)
  let ?cap = "case final of Some c \<Rightarrow> c | None \<Rightarrow> Developer_Unknown"
  have "contract_role adapter ?cap (rm_requested_role m) (rm_authority m) =
      contract_role adapter cap (rm_requested_role m) (rm_authority m)" if "m \<in> set (pl_effective_messages plan)" for m
    using final that by (intro contract_role_capability) auto
  with follow have "roles_follow adapter ?cap plan" by (simp add: roles_follow_def)
  then have "try_map (compile_message adapter ?cap) (pl_effective_messages plan) =
      try_map (compile_message adapter cap) (pl_effective_messages plan)"
    using compile_messages_follow follow by simp
  then show ?thesis
    unfolding compile_resolved_plan_for_execution_def compile_resolved_plan_def fold
    using compile_cache_step_capability [of adapter ?cap cap] by simp
qed

subsection \<open>Cache boundaries\<close>

lemma compile_cache_directive_total:
  "cache_dialect_matches_family (ac_family adapter) dialect \<Longrightarrow>
     \<exists>c. compile_cache_directive adapter directive dialect = Inr c"
  by (auto simp: compile_cache_directive_def map_cache_boundary_def split: cache_directive_status.split)

lemma compile_cache_fold_total:
  assumes "cache_dialect_matches_family (ac_family adapter) dialect"
  shows "\<exists>final. try_fold (compile_cache_step adapter contract dialect) st directives = Inr final"
proof (induction directives arbitrary: st)
  case (Cons directive directives)
  obtain n acc where "st = (n, acc)" by fastforce
  moreover obtain c where "compile_cache_directive adapter directive dialect = Inr c"
    using compile_cache_directive_total [OF assms] by blast
  ultimately have "\<exists>st'. compile_cache_step adapter contract dialect st directive = Inr st'"
    by (simp add: compile_cache_step_def)
  then obtain st' where "compile_cache_step adapter contract dialect st directive = Inr st'" by blast
  with Cons.IH [of st'] show ?case by simp
qed simp

definition is_breakpoint :: "provider_cache_boundary_compilation \<Rightarrow> bool" where
  "is_breakpoint c \<longleftrightarrow> cbc_disposition c = Mapped AnthropicInlineBreakpoint"

lemma compile_cache_directive_breakpoint:
  assumes "compile_cache_directive adapter directive dialect = Inr c" and "is_breakpoint c"
  shows "is_applied_explicit directive" and "ac_family adapter = AnthropicMessages"
proof -
  have applied: "cd_status directive = Cache_Applied"
    and mapped: "map_cache_boundary adapter (cd_mode directive) dialect = Inr (Mapped AnthropicInlineBreakpoint)"
    using assms by (auto simp: compile_cache_directive_def result_simps compilation_of_def is_breakpoint_def
        split: cache_directive_status.splits if_splits)
  from mapped have "cd_mode directive = Cache_Explicit \<and> ac_family adapter = AnthropicMessages"
    by (cases dialect; cases "cd_mode directive") (auto simp: map_cache_boundary_def result_simps split: if_splits)
  with applied show "is_applied_explicit directive" and "ac_family adapter = AnthropicMessages"
    by (simp_all add: is_applied_explicit_def)
qed

text \<open>A dialect of another family is refused at the first directive.\<close>

lemma cache_fold_mismatch:
  assumes "\<not> cache_dialect_matches_family (ac_family adapter) dialect" and "directives \<noteq> []"
  shows "try_fold (compile_cache_step adapter (resolution_contract adapter cap) dialect) (0, []) directives =
    Inl CacheDialectFamilyMismatch"
  using assms
  by (cases directives)
    (auto simp: compile_cache_step_def compile_cache_directive_def resolution_contract_def)

lemma explicit_mapped:
  "cache_dialect_matches_family family dialect \<Longrightarrow> is_mapped (cache_disposition Cache_Explicit dialect) \<Longrightarrow>
     family = AnthropicMessages"
  by (cases dialect) (auto split: if_splits)

lemma compile_cache_directive_mapped:
  assumes "compile_cache_directive adapter directive dialect = Inr c" and "is_applied_explicit directive"
    and "is_mapped (cbc_disposition c)"
  shows "ac_family adapter = AnthropicMessages"
proof -
  from assms have "cache_dialect_matches_family (ac_family adapter) dialect"
      "cbc_disposition c \<in> {Ignored CacheRoleFilterUnavailable, Ignored RequestedCacheTtlUnavailable, cache_disposition Cache_Explicit dialect}"
    by (auto simp: compile_cache_directive_def map_cache_boundary_def compilation_of_def is_applied_explicit_def
      result_simps split: if_splits)
  with assms(3) explicit_mapped show ?thesis by auto
qed

lemma compile_cache_step_breakpoints:
  assumes step: "compile_cache_step adapter (resolution_contract adapter cap) dialect (n, acc) directive = Inr (n', acc')"
    and inv: "length (filter is_breakpoint acc) \<le> n" "n \<le> 4"
  shows "length (filter is_breakpoint acc') \<le> n' \<and> n' \<le> 4"
proof (cases "ac_family adapter = AnthropicMessages \<and> is_applied_explicit directive \<and> n \<ge> 4")
  case True
  with step inv show ?thesis
    by (auto simp: compile_cache_step_def resolution_contract_cache compilation_of_def is_breakpoint_def)
next
  case False
  with step have "\<exists>c. compile_cache_directive adapter directive dialect = Inr c \<and> acc' = acc @ [c] \<and>
      n' = (if is_applied_explicit directive \<and> is_mapped (cbc_disposition c) then saturating_add u32_max n 1 else n)"
    by (auto simp: compile_cache_step_def resolution_contract_cache result_simps split: if_splits)
  then obtain c where c: "compile_cache_directive adapter directive dialect = Inr c" "acc' = acc @ [c]"
      "n' = (if is_applied_explicit directive \<and> is_mapped (cbc_disposition c) then saturating_add u32_max n 1 else n)"
    by blast
  have "is_breakpoint c \<Longrightarrow> is_applied_explicit directive \<and> ac_family adapter = AnthropicMessages \<and> is_mapped (cbc_disposition c)"
    using compile_cache_directive_breakpoint [OF c(1)] by (auto simp: is_breakpoint_def)
  moreover have "is_applied_explicit directive \<and> is_mapped (cbc_disposition c) \<Longrightarrow> ac_family adapter = AnthropicMessages"
    using compile_cache_directive_mapped [OF c(1)] by simp
  ultimately show ?thesis using False inv c(2,3) by (auto simp: saturating_add_def u32_max_def)
qed

lemma compile_cache_breakpoints:
  assumes "try_fold (compile_cache_step adapter (resolution_contract adapter cap) dialect) (n, acc) directives = Inr (n', acc')"
    and "length (filter is_breakpoint acc) \<le> n" and "n \<le> 4"
  shows "length (filter is_breakpoint acc') \<le> 4"
  using assms
proof (induction directives arbitrary: n acc)
  case (Cons directive directives)
  then obtain n1 acc1 where step: "compile_cache_step adapter (resolution_contract adapter cap) dialect (n, acc) directive = Inr (n1, acc1)"
    and rest: "try_fold (compile_cache_step adapter (resolution_contract adapter cap) dialect) (n1, acc1) directives = Inr (n', acc')"
    by (auto simp: result_simps)
  from compile_cache_step_breakpoints [OF step Cons.prems(2,3)] Cons.IH [OF rest] show ?case by blast
qed simp

lemma compile_cache_directives_kept:
  assumes "try_fold (compile_cache_step adapter contract dialect) (n, acc) directives = Inr (n', acc')"
  shows "map cbc_boundary_id acc' = map cbc_boundary_id acc @ map cd_boundary_id directives"
  using assms
proof (induction directives arbitrary: n acc)
  case (Cons directive directives)
  then obtain n1 acc1 where step: "compile_cache_step adapter contract dialect (n, acc) directive = Inr (n1, acc1)"
    and rest: "try_fold (compile_cache_step adapter contract dialect) (n1, acc1) directives = Inr (n', acc')"
    by (auto simp: result_simps)
  from step have "map cbc_boundary_id acc1 = map cbc_boundary_id acc @ [cd_boundary_id directive]"
    by (auto simp: compile_cache_step_def compile_cache_directive_def compilation_of_def result_simps split: if_splits)
  with Cons.IH [OF rest] show ?case by simp
qed simp

lemma compile_resolved_plan_cases:
  assumes "compile_resolved_plan env json adapter plan cap dialect = Inr compiled"
  obtains n where "roles_follow adapter cap plan"
    and "cpp_messages compiled = map (compiled_message adapter) (pl_effective_messages plan)"
    and "try_fold (compile_cache_step adapter (resolution_contract adapter cap) dialect) (0, []) (pl_cache_directives plan) =
      Inr (n, cpp_cache_boundaries compiled)"
proof -
  from assms obtain messages n boundaries where
      messages: "try_map (compile_message adapter cap) (pl_effective_messages plan) = Inr messages"
    and cache: "try_fold (compile_cache_step adapter (resolution_contract adapter cap) dialect) (0, []) (pl_cache_directives plan) =
      Inr (n, boundaries)"
    and compiled: "cpp_messages compiled = messages" "cpp_cache_boundaries compiled = boundaries"
    by (auto simp: compile_resolved_plan_def result_simps)
  have follow: "roles_follow adapter cap plan"
    unfolding roles_follow_def
  proof
    fix m assume "m \<in> set (pl_effective_messages plan)"
    with messages obtain c where "compile_message adapter cap m = Inr c"
      by (auto simp: try_map_Inr_conv list_all2_conv_all_nth in_set_conv_nth)
    then show "rm_effective_role m = contract_role adapter cap (rm_requested_role m) (rm_authority m)"
      by (simp add: compile_message_eq split: if_splits)
  qed
  with compile_messages_follow messages compiled cache that show thesis by simp
qed

lemma contract_role_imported:
  "contract_role adapter cap requested Auth_ImportedContent \<in> {PRole_User, PRole_Assistant}"
  by (cases requested) (simp_all add: contract_role_def asks_developer_def requested_wire_role_def)

lemma wire_mapping_unprivileged:
  "role \<in> {PRole_User, PRole_Assistant} \<Longrightarrow>
     fst (wire_mapping family role) \<in> {Wire_User, Wire_Assistant, Wire_Model} \<and> snd (wire_mapping family role) = Place_Message"
  by (auto simp: wire_mapping_def)

lemma provider_execution_hash_total:
  assumes "\<And>identity. json identity \<noteq> None"
  shows "\<exists>hash. provider_execution_hash env json family plan_hash messages boundaries = Inr hash"
proof -
  let ?identity = "\<lparr>exi_schema_version = 1, exi_source_plan_hash = plan_hash, exi_family = family,
    exi_messages = map execution_message_identity messages, exi_cache_boundaries = boundaries\<rparr>"
  from assms [of ?identity] obtain b where "json ?identity = Some b" by blast
  then show ?thesis unfolding provider_execution_hash_def by simp
qed

subsection \<open>The properties\<close>

definition sample_json :: "provider_execution_identity \<Rightarrow> bytes option" where
  "sample_json identity = Some (replicate (length (exi_messages identity)) 1)"

definition sample_adapter :: provider_prompt_adapter_contract where
  "sample_adapter = adapter_for_family AnthropicMessages"

text \<open>Five explicit boundaries, one more than the provider allows.\<close>

definition sample_boundary :: "string \<Rightarrow> cache_boundary" where
  "sample_boundary i =
     \<lparr>cb_id = lit i, cb_after_block_id = lit ''p.character'', cb_role_filter = Filter_All,
      cb_ttl = Ttl_Short, cb_mode = Cache_Explicit\<rparr>"

definition anthropic_request :: prompt_resolve_request where
  "anthropic_request =
     sample_request\<lparr>rq_provider := resolution_contract sample_adapter Developer_Unknown,
       rq_preset := (rq_preset sample_request)\<lparr>pp_cache_boundaries :=
         map sample_boundary [''a'', ''b'', ''c'', ''d'', ''e'']\<rparr>\<rparr>"

definition anthropic_plan :: resolved_prompt_plan where
  "anthropic_plan = projr (resolve_prompt_plan sample_prompt_env anthropic_request)"

lemma anthropic_plan_resolved: "resolve_prompt_plan sample_prompt_env anthropic_request = Inr anthropic_plan"
proof -
  have "isl (resolve_prompt_plan sample_prompt_env anthropic_request) = False" by code_simp
  then show ?thesis by (simp add: anthropic_plan_def)
qed

text \<open>
  C7. A plan that was resolved for the contract of an adapter compiles for it, and the preview and
  the execution agree: the execution infers the developer capability from the plan, yet the result,
  execution hash included, is the one of the preview, so the hash check accepts it.  The only
  refusal, the same in both, is the one of a cache dialect of another family than the adapter's on a plan that
  has cache directives.  The hypotheses are those under which a resolved plan verifies: digests have the form of a
  digest, the provenance and the reasons of the selected knowledge and memory are well formed, and
  the blocks hold less than 2 ^ 32 tokens; and the JSON encoder of the execution identity succeeds.
\<close>

theorem provider_compilation_agrees:
  assumes "resolve_prompt_plan env request = Inr plan" and "rq_provider request = resolution_contract adapter cap"
    and "digests_valid env" and "selections_ok env (rq_context request)"
    and "unbudgeted_tokens env utf8_token_estimator request \<le> u32_max"
    and "\<And>identity. json identity \<noteq> None"
  shows "if cache_dialect_matches_family (ac_family adapter) dialect \<or> pl_cache_directives plan = [] then
    \<exists>compiled. compile_resolved_plan env json adapter plan cap dialect = Inr compiled \<and>
      compile_resolved_plan_for_execution env json adapter plan dialect = Inr compiled \<and>
      verify_execution_hash compiled (Some (cpv_execution_hash (compiled_preview compiled))) = Inr () \<and>
      map ppm_content (cpp_messages compiled) = map rm_content (pl_effective_messages plan)
    else compile_resolved_plan env json adapter plan cap dialect = Inl CacheDialectFamilyMismatch \<and>
      compile_resolved_plan_for_execution env json adapter plan dialect = Inl CacheDialectFamilyMismatch"
proof -
  have run: "resolve env utf8_token_estimator request = Inr plan" using assms(1) by (simp add: resolve_prompt_plan_def)
  note follow = resolve_roles_follow [OF run assms(2)]
  note same = execution_compiles_same [OF follow, of env json dialect]
  have verified: "verify_resolved_prompt_plan env plan = Inr ()" by (rule utf8_tokens.resolve_verified [OF run assms(3-5)])
  show ?thesis
  proof (cases "cache_dialect_matches_family (ac_family adapter) dialect \<or> pl_cache_directives plan = []")
    case True
    then obtain n boundaries where cache:
        "try_fold (compile_cache_step adapter (resolution_contract adapter cap) dialect) (0, []) (pl_cache_directives plan) = Inr (n, boundaries)"
      using compile_cache_fold_total by (metis surj_pair try_fold.simps(1))
    let ?messages = "map (compiled_message adapter) (pl_effective_messages plan)"
    obtain hash where "provider_execution_hash env json (ac_family adapter) (pl_plan_hash plan) ?messages boundaries = Inr hash"
      using provider_execution_hash_total [where json = json] assms(6) by blast
    with verified compile_messages_follow [OF follow] cache
    obtain compiled where compiled: "compile_resolved_plan env json adapter plan cap dialect = Inr compiled"
      and "cpp_messages compiled = ?messages"
      by (auto simp: compile_resolved_plan_def)
    moreover have "verify_execution_hash compiled (Some (cpv_execution_hash (compiled_preview compiled))) = Inr ()"
      by (simp add: verify_execution_hash_def compiled_preview_def)
    ultimately show ?thesis using True same by (auto simp: comp_def compiled_message_def)
  next
    case False
    then have "compile_resolved_plan env json adapter plan cap dialect = Inl CacheDialectFamilyMismatch"
      using verified compile_messages_follow [OF follow] cache_fold_mismatch
      by (simp add: compile_resolved_plan_def)
    with False same show ?thesis by simp
  qed
qed

theorem provider_compilation_agrees_witness:
  "(\<exists>compiled. compile_resolved_plan_for_execution sample_prompt_env sample_json sample_adapter anthropic_plan
     (Dialect_Anthropic True True False) = Inr compiled) \<and>
   compile_resolved_plan_for_execution sample_prompt_env sample_json sample_adapter anthropic_plan
     (Dialect_Gemini True True) = Inl CacheDialectFamilyMismatch"
proof -
  have hyps: "selections_ok sample_prompt_env (rq_context anthropic_request)"
      "unbudgeted_tokens sample_prompt_env utf8_token_estimator anthropic_request \<le> u32_max"
    and dialects: "cache_dialect_matches_family (ac_family sample_adapter) (Dialect_Anthropic True True False)"
      "\<not> cache_dialect_matches_family (ac_family sample_adapter) (Dialect_Gemini True True)"
    by code_simp+
  have provider: "rq_provider anthropic_request = resolution_contract sample_adapter Developer_Unknown"
    by (simp add: anthropic_request_def)
  have "sample_json identity \<noteq> None" for identity by (simp add: sample_json_def)
  note agrees = provider_compilation_agrees [where json = sample_json,
      OF anthropic_plan_resolved provider sample_plan_hypotheses(1) hyps this]
  have "length (pl_cache_directives anthropic_plan) = 5" by code_simp
  then have "pl_cache_directives anthropic_plan \<noteq> []" by auto
  with agrees [of "Dialect_Anthropic True True False"] agrees [of "Dialect_Gemini True True"] dialects show ?thesis
    by auto
qed

lemma compiled_imported:
  assumes "compile_resolved_plan env json adapter plan cap dialect = Inr compiled"
  shows "list_all2 (\<lambda>m c. ppm_content c = rm_content m \<and> ppm_effective_role c = rm_effective_role m \<and>
      (rm_authority m = Auth_ImportedContent \<longrightarrow>
        ppm_wire_role c \<in> {Wire_User, Wire_Assistant, Wire_Model} \<and> ppm_placement c = Place_Message))
    (pl_effective_messages plan) (cpp_messages compiled)"
proof -
  from assms obtain n where follow: "roles_follow adapter cap plan"
    and messages: "cpp_messages compiled = map (compiled_message adapter) (pl_effective_messages plan)"
    by (rule compile_resolved_plan_cases)
  have "rm_authority m = Auth_ImportedContent \<longrightarrow>
      ppm_wire_role (compiled_message adapter m) \<in> {Wire_User, Wire_Assistant, Wire_Model} \<and>
      ppm_placement (compiled_message adapter m) = Place_Message" if "m \<in> set (pl_effective_messages plan)" for m
  proof
    assume "rm_authority m = Auth_ImportedContent"
    then have "rm_effective_role m \<in> {PRole_User, PRole_Assistant}"
      using follow that contract_role_imported by (simp add: roles_follow_def)
    from wire_mapping_unprivileged [OF this] show "ppm_wire_role (compiled_message adapter m) \<in> {Wire_User, Wire_Assistant, Wire_Model} \<and>
      ppm_placement (compiled_message adapter m) = Place_Message" by (simp add: compiled_message_def)
  qed
  then show ?thesis by (simp add: messages list_all2_map2 list_all2_same compiled_message_def)
qed

lemma compiled_breakpoints:
  assumes "compile_resolved_plan env json adapter plan cap dialect = Inr compiled"
  shows "map cbc_boundary_id (cpp_cache_boundaries compiled) = map cd_boundary_id (pl_cache_directives plan) \<and>
    length (filter (\<lambda>c. cbc_disposition c = Mapped AnthropicInlineBreakpoint) (cpp_cache_boundaries compiled)) \<le> 4"
proof -
  from assms obtain n where cache: "try_fold (compile_cache_step adapter (resolution_contract adapter cap) dialect) (0, [])
      (pl_cache_directives plan) = Inr (n, cpp_cache_boundaries compiled)"
    by (rule compile_resolved_plan_cases)
  from compile_cache_breakpoints [OF cache] compile_cache_directives_kept [OF cache] show ?thesis
    by (simp add: is_breakpoint_def [abs_def])
qed

definition anthropic_compiled :: provider_compiled_prompt_plan where
  "anthropic_compiled = projr (compile_resolved_plan sample_prompt_env sample_json sample_adapter anthropic_plan
     Developer_Unknown (Dialect_Anthropic True True False))"

lemma anthropic_compiled_ok:
  "compile_resolved_plan sample_prompt_env sample_json sample_adapter anthropic_plan
     Developer_Unknown (Dialect_Anthropic True True False) = Inr anthropic_compiled"
proof -
  have "isl (compile_resolved_plan sample_prompt_env sample_json sample_adapter anthropic_plan
     Developer_Unknown (Dialect_Anthropic True True False)) = False" by code_simp
  then show ?thesis by (simp add: anthropic_compiled_def)
qed

text \<open>
  C8. What goes on the wire, for every adapter and every plan: a compiled plan has the messages of the
  resolved plan in order, and a message with the authority of imported content is sent as a user or
  assistant message, never as a system or developer message and never in the system instruction.
  It has one entry per cache directive, in order, and never more than four inline breakpoints.
\<close>

theorem compiled_plan_safe:
  assumes "compile_resolved_plan env json adapter plan cap dialect = Inr compiled"
  shows "list_all2 (\<lambda>m c. ppm_content c = rm_content m \<and> ppm_effective_role c = rm_effective_role m \<and>
      (rm_authority m = Auth_ImportedContent \<longrightarrow>
        ppm_wire_role c \<in> {Wire_User, Wire_Assistant, Wire_Model} \<and> ppm_placement c = Place_Message))
    (pl_effective_messages plan) (cpp_messages compiled) \<and>
    map cbc_boundary_id (cpp_cache_boundaries compiled) = map cd_boundary_id (pl_cache_directives plan) \<and>
    length (filter (\<lambda>c. cbc_disposition c = Mapped AnthropicInlineBreakpoint) (cpp_cache_boundaries compiled)) \<le> 4"
  using compiled_imported [OF assms] compiled_breakpoints [OF assms] by (rule conjI)

theorem compiled_plan_safe_witness:
  "map cbc_boundary_id (cpp_cache_boundaries anthropic_compiled) = map lit [''a'', ''b'', ''c'', ''d'', ''e''] \<and>
   length (filter (\<lambda>c. cbc_disposition c = Mapped AnthropicInlineBreakpoint) (cpp_cache_boundaries anthropic_compiled)) \<le> 4"
proof -
  have "map cd_boundary_id (pl_cache_directives anthropic_plan) = map lit [''a'', ''b'', ''c'', ''d'', ''e'']" by code_simp
  with compiled_plan_safe [OF anthropic_compiled_ok] show ?thesis by simp
qed

end
