(* ===== verification/Interaction_Types.thy ===== *)
theory Interaction_Types
  imports Template Hash_Framing
begin

section \<open>The data model of the interaction engine\<close>

text \<open>
  The types of \<open>crates/domain/src/orchestration.rs\<close> and \<open>crates/orchestration/src/interactions.rs\<close> that
  the declarative interaction engine works on: events, actions, rules, effects, proposals and the
  durable state, with the limits and failures of the engine.
\<close>

subsection \<open>Domain types\<close>

datatype interaction_event =
    Ev_ConversationOpened
  | Ev_ConversationStarted
  | Ev_BeforeGeneration
  | Ev_AfterGeneration
  | Ev_MessageCommitted
  | Ev_UserAction str
  | Ev_VariableChanged variable_ref
  | Ev_KnowledgeActivated str

datatype value_expr = Val_Literal variable_value | Val_Variable variable_ref

record choice_spec =
  chs_id :: str
  chs_label :: str
  chs_value :: variable_value
  chs_enabled_when :: "condition_expr option"

record proposal_spec =
  ps_id :: str
  ps_title :: str
  ps_body :: safe_template
  ps_expires_after_seconds :: "nat option"

record dice_expression =
  de_count :: nat
  de_sides :: nat
  de_modifier :: int

datatype ui_region = Region_Message | Region_Background | Region_CharacterPortrait | Region_StatusPanel | Region_Audio

datatype interaction_action =
    Act_SetVariable variable_ref value_expr
  | Act_IncrementVariable variable_ref int
  | Act_ActivateKnowledge str
  | Act_ShowAsset str ui_region
  | Act_PlayAudio str
  | Act_PresentChoices "choice_spec list"
  | Act_AppendVisibleSystemEvent safe_template
  | Act_RollDice dice_expression "variable_ref option"
  | Act_RequestUserApproval proposal_spec

record interaction_rule =
  ir_id :: str
  ir_name :: str
  ir_enabled :: bool
  ir_imported_author_enabled :: bool
  ir_event :: interaction_event
  ir_condition :: "condition_expr option"
  ir_actions :: "interaction_action list"
  ir_priority :: int
  ir_stop_after_match :: bool
  ir_provenance :: provenance

record interaction_rule_set =
  irs_id :: str
  irs_name :: str
  irs_schema_version :: nat
  irs_rules :: "interaction_rule list"
  irs_max_actions_per_event :: nat
  irs_provenance :: provenance

datatype interaction_effect =
    Eff_VariableSet variable_ref "variable_value option" variable_value
  | Eff_KnowledgeActivated str
  | Eff_AssetShown str ui_region
  | Eff_AudioRequested str
  | Eff_ChoicesPresented "choice_spec list"
  | Eff_VisibleSystemEvent str
  | Eff_DiceRolled dice_expression "nat list" int "variable_ref option"
  | Eff_ApprovalRequested (ea_rule_set_id: str) (ea_rule_id: str) (ea_proposal_id: str) (ea_title: str)
      (ea_body: str) (ea_expires_after_seconds: "nat option")

datatype interaction_proposal_status = Prop_Pending | Prop_Approved | Prop_Rejected | Prop_Expired

record interaction_proposal_record =
  ip_id :: str
  ip_rule_set_id :: str
  ip_rule_id :: str
  ip_proposal_id :: str
  ip_title :: str
  ip_body :: str
  ip_status :: interaction_proposal_status
  ip_source_revision :: nat
  ip_requested_at :: int
  ip_expires_at :: "int option"
  ip_decided_at :: "int option"

datatype interaction_proposal_decision = Decide_Approve | Decide_Reject

record interaction_state =
  is_variables :: variable_map
  is_manually_active_knowledge :: "str list"
  is_proposals :: "interaction_proposal_record list"
  is_revision :: nat

subsection \<open>Engine types\<close>

record interaction_limits =
  il_max_rule_sets :: nat
  il_max_rules :: nat
  il_max_actions_per_event :: nat
  il_max_actions_per_rule :: nat
  il_max_condition_depth :: nat
  il_max_condition_nodes :: nat
  il_max_template_depth :: nat
  il_max_template_parts :: nat
  il_max_variables :: nat
  il_max_proposals :: nat
  il_max_pending_proposals :: nat
  il_max_effects :: nat
  il_max_choices :: nat
  il_max_dice_count :: nat
  il_max_dice_sides :: nat
  il_max_text_chars :: nat
  il_max_identifier_bytes :: nat

definition MAX_INTERACTION_PROPOSALS :: nat where "MAX_INTERACTION_PROPOSALS = 256"
definition MAX_INTERACTION_NATIVE_TEXT_CHARS :: nat where "MAX_INTERACTION_NATIVE_TEXT_CHARS = 8 * 1024"
definition MAX_INTERACTION_NATIVE_TEXT_BYTES :: nat where "MAX_INTERACTION_NATIVE_TEXT_BYTES = 16 * 1024"
definition MAX_INTERACTION_PROPOSAL_TITLE_CHARS :: nat where "MAX_INTERACTION_PROPOSAL_TITLE_CHARS = 1024"
definition MAX_INTERACTION_PROPOSAL_BODY_CHARS :: nat where "MAX_INTERACTION_PROPOSAL_BODY_CHARS = 16 * 1024"
definition DEFAULT_MAX_PENDING_INTERACTION_PROPOSALS :: nat where "DEFAULT_MAX_PENDING_INTERACTION_PROPOSALS = 64"

definition interaction_limits_default :: interaction_limits where
  "interaction_limits_default =
     \<lparr>il_max_rule_sets = 64, il_max_rules = 256, il_max_actions_per_event = 256, il_max_actions_per_rule = 64,
      il_max_condition_depth = 16, il_max_condition_nodes = 512, il_max_template_depth = 16,
      il_max_template_parts = 512, il_max_variables = MAX_VARIABLES, il_max_proposals = MAX_INTERACTION_PROPOSALS,
      il_max_pending_proposals = DEFAULT_MAX_PENDING_INTERACTION_PROPOSALS, il_max_effects = 512, il_max_choices = 64,
      il_max_dice_count = 100, il_max_dice_sides = 10000, il_max_text_chars = MAX_INTERACTION_NATIVE_TEXT_CHARS,
      il_max_identifier_bytes = 128\<rparr>"

datatype interaction_failure_code =
    IF_InvalidLimits | IF_TooManyRuleSets | IF_TooManyRules | IF_DuplicateRuleSetId | IF_DuplicateRuleId
  | IF_InvalidIdentifier | IF_InvalidCondition | IF_InvalidTemplate | IF_InvalidAction | IF_UnsafeText
  | IF_ImportedScopeViolation | IF_StateLimitExceeded | IF_ProposalLimitExceeded | IF_DuplicateProposal
  | IF_UnknownProposal | IF_ProposalNotPending | IF_ProposalExpired | IF_RevisionConflict
  | IF_InvalidTimestamp | IF_EffectLimitExceeded | IF_MissingVariable | IF_TypeMismatch | IF_NumericOverflow

datatype interaction_failure = InteractionFailure (if_code: interaction_failure_code) (if_message: str)

type_synonym 'a interaction_result = "(interaction_failure, 'a) result"

text \<open>\<open>return Err(InteractionFailure::new(code, message))\<close> under a condition.\<close>

abbreviation fail_if :: "bool \<Rightarrow> interaction_failure_code \<Rightarrow> str \<Rightarrow> unit interaction_result" where
  "fail_if bad code message \<equiv> guard_err bad (InteractionFailure code message)"

definition interaction_limits_validate :: "interaction_limits \<Rightarrow> interaction_limits interaction_result" where
  "interaction_limits_validate limits =
     result_bind (fail_if
       (il_max_rule_sets limits = 0 \<or> il_max_rules limits = 0 \<or> il_max_actions_per_event limits = 0 \<or>
        il_max_actions_per_rule limits = 0 \<or> il_max_condition_depth limits = 0 \<or> il_max_condition_nodes limits = 0 \<or>
        il_max_template_depth limits = 0 \<or> il_max_template_parts limits = 0 \<or> il_max_variables limits = 0 \<or>
        il_max_variables limits > MAX_VARIABLES \<or> il_max_proposals limits = 0 \<or>
        il_max_proposals limits > MAX_INTERACTION_PROPOSALS \<or> il_max_pending_proposals limits = 0 \<or>
        il_max_pending_proposals limits > il_max_proposals limits \<or>
        il_max_pending_proposals limits > DEFAULT_MAX_PENDING_INTERACTION_PROPOSALS \<or>
        il_max_effects limits = 0 \<or> il_max_choices limits = 0 \<or> il_max_dice_count limits = 0 \<or>
        il_max_dice_sides limits < 2 \<or> il_max_text_chars limits = 0 \<or> il_max_identifier_bytes limits = 0)
       IF_InvalidLimits (lit ''interaction limits exceed hard safety bounds or are otherwise invalid''))
     (\<lambda>_. Inr limits)"

record interaction_template_values =
  itv_character_name :: "str option"
  itv_user_name :: "str option"
  itv_persona_name :: "str option"
  itv_persona_description :: "str option"
  itv_current_date :: "str option"
  itv_current_time :: "str option"

record interaction_context =
  ic_deterministic_seed :: nat
  ic_event_epoch_seconds :: int
  ic_model_capabilities :: "capability_key list"
  ic_template_values :: interaction_template_values

datatype interaction_rule_status =
    Rule_Applied | Rule_ConditionFalse | Rule_Disabled | Rule_PendingImportApproval
  | Rule_EventDidNotMatch | Rule_ActionBudgetExceeded | Rule_Failed

record interaction_rule_trace =
  irt_rule_id :: str
  irt_status :: interaction_rule_status
  irt_action_count :: nat
  irt_effect_count :: nat
  irt_state_changed :: bool
  irt_error :: "interaction_failure option"

record interaction_derived_event =
  ide_event :: interaction_event
  ide_source_rule_set_id :: str
  ide_source_rule_id :: str
  ide_source_action_ordinal :: nat
  ide_source_effect_ordinal :: nat

record interaction_outcome =
  io_state :: interaction_state
  io_effects :: "interaction_effect list"
  io_derived_events :: "interaction_derived_event list"
  io_trace :: "interaction_rule_trace list"
  io_state_changed :: bool

record interaction_proposal_decision_outcome =
  pdo_state :: interaction_state
  pdo_proposal :: interaction_proposal_record
  pdo_event_after_commit :: "interaction_event option"

record interaction_proposal_expiry_outcome =
  peo_state :: interaction_state
  peo_expired_proposals :: "interaction_proposal_record list"

record interaction_compiled_rule =
  icr_set_id :: str
  icr_rule :: interaction_rule
  icr_approved_for_execution :: bool
  icr_set_action_limit :: nat

record interaction_engine =
  ien_rules :: "interaction_compiled_rule list"
  ien_limits :: interaction_limits

text \<open>The digest, the hexadecimal encoder and the printer of decimals are parameters.\<close>

record interaction_env =
  ie_sha256 :: "bytes \<Rightarrow> bytes"
  ie_hex_encode :: "bytes \<Rightarrow> str"
  ie_show_decimal :: "float \<Rightarrow> str"

text \<open>\<open>InteractionState: PartialEq\<close>, which compares decimals as floats.\<close>

definition variable_binding_eq :: "variable_binding \<Rightarrow> variable_binding \<Rightarrow> bool" where
  "variable_binding_eq a b \<longleftrightarrow> vb_variable a = vb_variable b \<and> variable_value_eq (vb_value a) (vb_value b)"

definition interaction_state_eq :: "interaction_state \<Rightarrow> interaction_state \<Rightarrow> bool" where
  "interaction_state_eq a b \<longleftrightarrow>
     list_all2 variable_binding_eq (is_variables a) (is_variables b) \<and>
     is_manually_active_knowledge a = is_manually_active_knowledge b \<and>
     is_proposals a = is_proposals b \<and> is_revision a = is_revision b"

end
