(* ===== verification/Interaction_Validation.thy ===== *)
theory Interaction_Validation
  imports Interaction_Types
begin

section \<open>Validators, conditions and templates of the interaction engine\<close>

text \<open>
  The checks of \<open>interactions.rs\<close> with their own limits and messages, its condition evaluator, which
  treats a missing variable as a condition that does not hold and a variable of the wrong type as a
  failure, and its template renderer.
\<close>

subsection \<open>Text and identifiers\<close>

definition identifier_char :: "uchar \<Rightarrow> bool" where
  "identifier_char c \<longleftrightarrow> is_ascii_alphanumeric c \<or> c \<in> set (lit ''_-.'')"

definition ix_validate_identifier :: "string \<Rightarrow> str \<Rightarrow> interaction_limits \<Rightarrow> unit interaction_result" where
  "ix_validate_identifier label v limits =
     fail_if (v = [] \<or> str_len v > il_max_identifier_bytes limits \<or> \<not> list_all identifier_char v) IF_InvalidIdentifier
       (lit label @ lit '' must contain only ASCII letters, digits, `.`, `_`, or `-` and fit the configured limit'')"

definition disallowed_control :: "uchar \<Rightarrow> bool" where
  "disallowed_control c \<longleftrightarrow> is_control c \<and> c \<notin> set [10, 13, 9]"

definition ix_validate_text :: "string \<Rightarrow> str \<Rightarrow> interaction_limits \<Rightarrow> unit interaction_result" where
  "ix_validate_text label v limits =
     checks
       [fail_if (length v > il_max_text_chars limits) IF_UnsafeText
          (lit label @ lit '' exceeds the configured text limit''),
        fail_if (list_ex disallowed_control v) IF_UnsafeText
          (lit label @ lit '' contains disallowed control characters'')]"

text \<open>The markup check that \<open>validate_interaction_native_text\<close> and the legacy check share.\<close>

definition looks_like_markup :: "str \<Rightarrow> bool" where
  "looks_like_markup v \<longleftrightarrow>
     (let normalized = to_ascii_lowercase v in
      contains normalized (lit ''<'') \<and> contains normalized (lit ''>'') \<or>
      contains normalized (lit ''javascript:'') \<or> contains normalized (lit ''data:text/html''))"

definition validate_interaction_native_text :: "str \<Rightarrow> str \<Rightarrow> (validation_error, unit) result" where
  "validate_interaction_native_text path v =
     checks
       [reject_if (str_len v > MAX_INTERACTION_NATIVE_TEXT_BYTES \<or> length v > MAX_INTERACTION_NATIVE_TEXT_CHARS) path
          (lit ''must contain at most '' @ show_nat MAX_INTERACTION_NATIVE_TEXT_CHARS @
           lit '' Unicode scalars and '' @ show_nat MAX_INTERACTION_NATIVE_TEXT_BYTES @ lit '' UTF-8 bytes''),
        reject_if (list_ex disallowed_control v) path (lit ''contains disallowed control characters''),
        reject_if (looks_like_markup v) path (lit ''must remain plain native text'')]"

definition validate_native_plain_text :: "str \<Rightarrow> interaction_limits \<Rightarrow> unit interaction_result" where
  "validate_native_plain_text v limits =
     checks
       [ix_validate_text ''rendered native text'' v limits,
        map_err (\<lambda>_. InteractionFailure IF_UnsafeText
            (lit ''interaction output violates the canonical native plain-text contract''))
          (validate_interaction_native_text (lit ''rendered native text'') v)]"

definition between_message :: "string \<Rightarrow> nat \<Rightarrow> str" where
  "between_message label maximum_chars =
     lit label @ lit '' must contain between 1 and '' @ show_nat maximum_chars @ lit '' characters''"

definition validate_required_native_plain_text ::
  "string \<Rightarrow> str \<Rightarrow> nat \<Rightarrow> interaction_limits \<Rightarrow> unit interaction_result" where
  "validate_required_native_plain_text label v canonical_max_chars limits =
     checks
       [validate_native_plain_text v limits,
        fail_if (length v = 0 \<or> length v > canonical_max_chars) IF_UnsafeText
          (between_message label canonical_max_chars)]"

definition validate_legacy_stored_proposal_text :: "string \<Rightarrow> str \<Rightarrow> nat \<Rightarrow> unit interaction_result" where
  "validate_legacy_stored_proposal_text label v maximum_chars =
     checks
       [fail_if (length v = 0 \<or> length v > maximum_chars) IF_UnsafeText (between_message label maximum_chars),
        fail_if (list_ex disallowed_control v) IF_UnsafeText
          (lit label @ lit '' contains disallowed control characters''),
        fail_if (looks_like_markup v) IF_UnsafeText (lit label @ lit '' must remain plain native text'')]"

definition validate_epoch_seconds :: "string \<Rightarrow> int \<Rightarrow> unit interaction_result" where
  "validate_epoch_seconds label epoch_seconds =
     fail_if (epoch_seconds < 0) IF_InvalidTimestamp (lit label @ lit '' cannot be before the Unix epoch'')"

subsection \<open>Variables\<close>

definition ix_validate_variable_ref :: "variable_ref \<Rightarrow> interaction_limits \<Rightarrow> unit interaction_result" where
  "ix_validate_variable_ref variable limits =
     checks
       [ix_validate_identifier ''variable id'' (vr_id variable) limits,
        validate_optional (\<lambda>namespace. ix_validate_identifier ''variable namespace'' namespace limits)
          (vr_namespace variable),
        fail_if (vr_scope variable = Scope_Module \<and> vr_namespace variable = None) IF_InvalidIdentifier
          (lit ''module variables require a namespace'')]"

fun ix_validate_variable_value :: "variable_value \<Rightarrow> interaction_limits \<Rightarrow> unit interaction_result" where
  "ix_validate_variable_value (VDecimal v) limits =
     fail_if (\<not> is_finite v) IF_InvalidAction (lit ''decimal variable values must be finite'')"
| "ix_validate_variable_value (VText v) limits = ix_validate_text ''variable value'' v limits"
| "ix_validate_variable_value (VEnum v) limits = ix_validate_text ''variable value'' v limits"
| "ix_validate_variable_value (VStringList vs) limits =
     checks
       [fail_if (length vs > il_max_choices limits) IF_InvalidAction
          (lit ''string-list variable exceeds the configured item limit''),
        try_for (\<lambda>v. ix_validate_text ''string-list item'' v limits) vs]"
| "ix_validate_variable_value (VBool _) limits = Inr ()"
| "ix_validate_variable_value (VInteger _) limits = Inr ()"

definition is_imported :: "provenance \<Rightarrow> bool" where
  "is_imported p \<longleftrightarrow> pv_source_kind p \<in> set [ImportedPackage, ImportedStandard]"

definition validate_write_target :: "variable_ref \<Rightarrow> provenance \<Rightarrow> interaction_limits \<Rightarrow> unit interaction_result" where
  "validate_write_target target p limits =
     result_bind (ix_validate_variable_ref target limits) (\<lambda>_.
     if is_imported p then
       result_bind (ok_or (InteractionFailure IF_ImportedScopeViolation
         (lit ''imported rules that write variables require a provenance source ID'')) (pv_source_id p)) (\<lambda>expected.
       fail_if (vr_scope target \<noteq> Scope_Module \<or> vr_namespace target \<noteq> Some expected) IF_ImportedScopeViolation
         (lit ''an imported rule may write only its own namespaced module variables''))
     else Inr ())"

subsection \<open>Conditions\<close>

definition condition_enter :: "interaction_limits \<Rightarrow> nat \<Rightarrow> nat \<Rightarrow> nat interaction_result" where
  "condition_enter limits depth nodes =
     result_bind (fail_if (depth > il_max_condition_depth limits) IF_InvalidCondition
       (lit ''condition nesting exceeds the configured depth limit'')) (\<lambda>_.
     let nodes = saturating_add usize_max nodes 1 in
     result_bind (fail_if (nodes > il_max_condition_nodes limits) IF_InvalidCondition
       (lit ''condition node count exceeds the configured limit'')) (\<lambda>_.
     Inr nodes))"

fun walk_condition :: "interaction_limits \<Rightarrow> nat \<Rightarrow> nat \<Rightarrow> condition_expr \<Rightarrow> nat interaction_result" where
  "walk_condition limits depth nodes expression =
     result_bind (condition_enter limits depth nodes) (\<lambda>nodes.
     case expression of
       Cond_Equals variable v \<Rightarrow>
         result_bind (ix_validate_variable_ref variable limits) (\<lambda>_.
         result_bind (ix_validate_variable_value v limits) (\<lambda>_. Inr nodes))
     | Cond_NotEquals variable v \<Rightarrow>
         result_bind (ix_validate_variable_ref variable limits) (\<lambda>_.
         result_bind (ix_validate_variable_value v limits) (\<lambda>_. Inr nodes))
     | Cond_GreaterThan variable v \<Rightarrow>
         result_bind (ix_validate_variable_ref variable limits) (\<lambda>_.
         result_bind (fail_if (\<not> is_finite v) IF_InvalidCondition (lit ''condition numeric value must be finite'')) (\<lambda>_.
         Inr nodes))
     | Cond_Contains variable v \<Rightarrow>
         result_bind (ix_validate_variable_ref variable limits) (\<lambda>_.
         result_bind (ix_validate_text ''condition contains value'' v limits) (\<lambda>_. Inr nodes))
     | Cond_Exists variable \<Rightarrow>
         result_bind (ix_validate_variable_ref variable limits) (\<lambda>_. Inr nodes)
     | Cond_ModelSupports _ \<Rightarrow> Inr nodes
     | Cond_True \<Rightarrow> Inr nodes
     | Cond_False \<Rightarrow> Inr nodes
     | Cond_All expressions \<Rightarrow> try_fold (walk_condition limits (depth + 1)) nodes expressions
     | Cond_Any expressions \<Rightarrow> try_fold (walk_condition limits (depth + 1)) nodes expressions
     | Cond_Not inner \<Rightarrow> walk_condition limits (depth + 1) nodes inner)"

declare walk_condition.simps [simp del]

definition ix_validate_condition :: "condition_expr \<Rightarrow> interaction_limits \<Rightarrow> unit interaction_result" where
  "ix_validate_condition expression limits =
     result_bind (walk_condition limits 1 0 expression) (\<lambda>_. Inr ())"

definition mismatch :: "string \<Rightarrow> variable_ref \<Rightarrow> string \<Rightarrow> 'a interaction_result" where
  "mismatch before variable after =
     Inl (InteractionFailure IF_TypeMismatch (lit before @ vr_id variable @ lit after))"

fun evaluate_condition_inner ::
  "condition_expr \<Rightarrow> variable_map \<Rightarrow> capability_key list \<Rightarrow> bool interaction_result"
and evaluate_every :: "condition_expr list \<Rightarrow> variable_map \<Rightarrow> capability_key list \<Rightarrow> bool interaction_result"
and evaluate_some :: "condition_expr list \<Rightarrow> variable_map \<Rightarrow> capability_key list \<Rightarrow> bool interaction_result" where
  "evaluate_condition_inner Cond_True variables capabilities = Inr True"
| "evaluate_condition_inner Cond_False variables capabilities = Inr False"
| "evaluate_condition_inner (Cond_Equals variable v) variables capabilities =
     Inr (case variable_map_get variables variable of Some actual \<Rightarrow> variable_value_eq actual v | None \<Rightarrow> False)"
| "evaluate_condition_inner (Cond_NotEquals variable v) variables capabilities =
     Inr (case variable_map_get variables variable of Some actual \<Rightarrow> \<not> variable_value_eq actual v | None \<Rightarrow> True)"
| "evaluate_condition_inner (Cond_GreaterThan variable v) variables capabilities =
     (case variable_map_get variables variable of
        Some (VInteger current) \<Rightarrow> Inr (float_less v (i64_to_f64 current))
      | Some (VDecimal current) \<Rightarrow> Inr (float_less v current)
      | None \<Rightarrow> Inr False
      | Some _ \<Rightarrow> mismatch ''greater-than condition variable `'' variable ''` is not numeric'')"
| "evaluate_condition_inner (Cond_Contains variable v) variables capabilities =
     (case variable_map_get variables variable of
        Some (VText current) \<Rightarrow> Inr (contains current v)
      | Some (VEnum current) \<Rightarrow> Inr (contains current v)
      | Some (VStringList current) \<Rightarrow> Inr (v \<in> set current)
      | None \<Rightarrow> Inr False
      | Some _ \<Rightarrow> mismatch ''contains condition variable `'' variable ''` is not text or a string list'')"
| "evaluate_condition_inner (Cond_Exists variable) variables capabilities =
     Inr (variable_map_get variables variable \<noteq> None)"
| "evaluate_condition_inner (Cond_ModelSupports capability) variables capabilities =
     Inr (capability \<in> set capabilities)"
| "evaluate_condition_inner (Cond_All expressions) variables capabilities =
     evaluate_every expressions variables capabilities"
| "evaluate_condition_inner (Cond_Any expressions) variables capabilities =
     evaluate_some expressions variables capabilities"
| "evaluate_condition_inner (Cond_Not expression) variables capabilities =
     result_bind (evaluate_condition_inner expression variables capabilities) (\<lambda>b. Inr (\<not> b))"
| "evaluate_every [] variables capabilities = Inr True"
| "evaluate_every (e # es) variables capabilities =
     result_bind (evaluate_condition_inner e variables capabilities) (\<lambda>b.
       if b then evaluate_every es variables capabilities else Inr False)"
| "evaluate_some [] variables capabilities = Inr False"
| "evaluate_some (e # es) variables capabilities =
     result_bind (evaluate_condition_inner e variables capabilities) (\<lambda>b.
       if b then Inr True else evaluate_some es variables capabilities)"

definition evaluate_condition_ast ::
  "condition_expr \<Rightarrow> variable_map \<Rightarrow> capability_key list \<Rightarrow> interaction_limits \<Rightarrow> bool interaction_result" where
  "evaluate_condition_ast expression variables capabilities limits =
     result_bind (interaction_limits_validate limits) (\<lambda>limits.
     result_bind (ix_validate_condition expression limits) (\<lambda>_.
     evaluate_condition_inner expression variables capabilities))"

subsection \<open>Templates\<close>

definition count_part :: "interaction_limits \<Rightarrow> nat \<Rightarrow> nat interaction_result" where
  "count_part limits parts =
     (let parts = saturating_add usize_max parts 1 in
      result_bind (fail_if (parts > il_max_template_parts limits) IF_InvalidTemplate
        (lit ''template part count exceeds the configured limit'')) (\<lambda>_. Inr parts))"

definition enter_template :: "interaction_limits \<Rightarrow> nat \<Rightarrow> nat \<Rightarrow> unit interaction_result" where
  "enter_template limits depth max_output_chars =
     checks
       [fail_if (depth > il_max_template_depth limits) IF_InvalidTemplate
          (lit ''template nesting exceeds the configured depth limit''),
        fail_if (max_output_chars = 0 \<or> max_output_chars > il_max_text_chars limits) IF_InvalidTemplate
          (lit ''template output limit is zero or exceeds the engine text limit'')]"

fun walk_template :: "interaction_limits \<Rightarrow> nat \<Rightarrow> nat \<Rightarrow> safe_template \<Rightarrow> nat interaction_result"
and walk_part :: "interaction_limits \<Rightarrow> nat \<Rightarrow> nat \<Rightarrow> template_part \<Rightarrow> nat interaction_result" where
  "walk_template limits depth parts (SafeTemplate template_parts max_output_chars) =
     result_bind (enter_template limits depth max_output_chars) (\<lambda>_.
     try_fold (walk_part limits depth) parts template_parts)"
| "walk_part limits depth parts (Part_Text v) =
     result_bind (count_part limits parts) (\<lambda>parts.
     result_bind (ix_validate_text ''template text'' v limits) (\<lambda>_. Inr parts))"
| "walk_part limits depth parts (Part_Variable variable) =
     result_bind (count_part limits parts) (\<lambda>parts.
     result_bind (ix_validate_variable_ref variable limits) (\<lambda>_. Inr parts))"
| "walk_part limits depth parts (Part_Join variable separator) =
     result_bind (count_part limits parts) (\<lambda>parts.
     result_bind (ix_validate_variable_ref variable limits) (\<lambda>_.
     result_bind (ix_validate_text ''template join separator'' separator limits) (\<lambda>_. Inr parts)))"
| "walk_part limits depth parts (Part_BuiltIn _) = count_part limits parts"
| "walk_part limits depth parts (Part_Slot slot_name) =
     result_bind (count_part limits parts) (\<lambda>_.
     Inl (InteractionFailure IF_InvalidTemplate
       (lit ''interaction templates do not accept unresolved slot `'' @ slot_name @ lit ''`'')))"
| "walk_part limits depth parts (Part_Conditional condition then_template else_template) =
     result_bind (count_part limits parts) (\<lambda>parts.
     result_bind (ix_validate_condition condition limits) (\<lambda>_.
     result_bind (walk_template limits (depth + 1) parts then_template) (\<lambda>parts.
     case else_template of
       None \<Rightarrow> Inr parts
     | Some selected \<Rightarrow> walk_template limits (depth + 1) parts selected)))"

definition ix_validate_template :: "safe_template \<Rightarrow> interaction_limits \<Rightarrow> unit interaction_result" where
  "ix_validate_template template limits = result_bind (walk_template limits 1 0 template) (\<lambda>_. Inr ())"

fun ix_built_in_value :: "built_in_template_value \<Rightarrow> interaction_template_values \<Rightarrow> str option" where
  "ix_built_in_value CharacterName values = itv_character_name values"
| "ix_built_in_value UserName values = itv_user_name values"
| "ix_built_in_value PersonaName values = itv_persona_name values"
| "ix_built_in_value PersonaDescription values = itv_persona_description values"
| "ix_built_in_value CurrentDate values = itv_current_date values"
| "ix_built_in_value CurrentTime values = itv_current_time values"

text \<open>\<open>display_variable_value\<close> has the body of \<open>format_variable\<close> of template.rs.\<close>

definition display_variable_value :: "interaction_env \<Rightarrow> variable_value \<Rightarrow> str" where
  "display_variable_value env v = format_variable (ie_show_decimal env) v"

definition enforce_output_limit :: "interaction_limits \<Rightarrow> nat \<Rightarrow> nat \<Rightarrow> str \<Rightarrow> str interaction_result" where
  "enforce_output_limit limits starting_chars template_limit output =
     result_bind (fail_if (length output > il_max_text_chars limits \<or> length output - starting_chars > template_limit)
       IF_InvalidTemplate (lit ''interaction template exceeded its output limit'')) (\<lambda>_. Inr output)"

definition append_list_item ::
  "interaction_limits \<Rightarrow> nat \<Rightarrow> nat \<Rightarrow> str \<Rightarrow> str \<Rightarrow> nat \<times> str \<Rightarrow> str interaction_result" where
  "append_list_item limits starting_chars template_limit separator output iv =
     (case iv of (index, v) \<Rightarrow>
      enforce_output_limit limits starting_chars template_limit
        (output @ (if index > 0 then separator else []) @ v))"

definition missing_variable :: "string \<Rightarrow> variable_ref \<Rightarrow> interaction_failure" where
  "missing_variable before variable =
     InteractionFailure IF_MissingVariable (lit before @ vr_id variable @ lit ''` does not exist'')"

fun render_template_into ::
  "interaction_env \<Rightarrow> variable_map \<Rightarrow> interaction_context \<Rightarrow> interaction_limits \<Rightarrow> str \<Rightarrow> safe_template \<Rightarrow>
     str interaction_result"
and render_template_part ::
  "interaction_env \<Rightarrow> variable_map \<Rightarrow> interaction_context \<Rightarrow> interaction_limits \<Rightarrow> nat \<Rightarrow> nat \<Rightarrow> str \<Rightarrow>
     template_part \<Rightarrow> str interaction_result" where
  "render_template_into env variables ctx limits output (SafeTemplate parts max_output_chars) =
     try_fold (\<lambda>out part.
       result_bind (render_template_part env variables ctx limits (length output) max_output_chars out part) (\<lambda>out.
       enforce_output_limit limits (length output) max_output_chars out)) output parts"
| "render_template_part env variables ctx limits start limit output (Part_Text v) = Inr (output @ v)"
| "render_template_part env variables ctx limits start limit output (Part_Variable variable) =
     result_bind (ok_or (missing_variable ''template variable `'' variable) (variable_map_get variables variable)) (\<lambda>v.
     Inr (output @ display_variable_value env v))"
| "render_template_part env variables ctx limits start limit output (Part_BuiltIn v) =
     result_bind (ok_or (InteractionFailure IF_MissingVariable
         (lit ''required interaction template built-in value was not provided''))
       (ix_built_in_value v (ic_template_values ctx))) (\<lambda>v.
     Inr (output @ v))"
| "render_template_part env variables ctx limits start limit output (Part_Slot slot_name) =
     Inl (InteractionFailure IF_InvalidTemplate
       (lit ''unresolved interaction template slot `'' @ slot_name @ lit ''`''))"
| "render_template_part env variables ctx limits start limit output (Part_Join variable separator) =
     (case variable_map_get variables variable of
        Some (VStringList vs) \<Rightarrow> try_fold (append_list_item limits start limit separator) output (enumerate 0 vs)
      | Some _ \<Rightarrow> mismatch ''join template variable `'' variable ''` is not a string list''
      | None \<Rightarrow> Inl (missing_variable ''join template variable `'' variable))"
| "render_template_part env variables ctx limits start limit output (Part_Conditional condition then_template else_template) =
     result_bind (evaluate_condition_ast condition variables (ic_model_capabilities ctx) limits) (\<lambda>b.
       if b then render_template_into env variables ctx limits output then_template
       else case else_template of
         None \<Rightarrow> Inr output
       | Some selected \<Rightarrow> render_template_into env variables ctx limits output selected)"

definition ix_render_safe_template ::
  "interaction_env \<Rightarrow> safe_template \<Rightarrow> variable_map \<Rightarrow> interaction_context \<Rightarrow> interaction_limits \<Rightarrow>
     str interaction_result" where
  "ix_render_safe_template env template variables ctx limits =
     result_bind (ix_validate_template template limits) (\<lambda>_.
     result_bind (render_template_into env variables ctx limits [] template) (\<lambda>output.
     result_bind (validate_native_plain_text output limits) (\<lambda>_. Inr output)))"

subsection \<open>Events and actions\<close>

fun validate_event :: "interaction_event \<Rightarrow> interaction_limits \<Rightarrow> unit interaction_result" where
  "validate_event (Ev_UserAction action_id) limits = ix_validate_identifier ''action id'' action_id limits"
| "validate_event (Ev_VariableChanged variable) limits = ix_validate_variable_ref variable limits"
| "validate_event (Ev_KnowledgeActivated entry_id) limits =
     ix_validate_identifier ''knowledge entry id'' entry_id limits"
| "validate_event _ limits = Inr ()"

definition i64_checked :: "int \<Rightarrow> int option" where
  "i64_checked v = (if i64_min \<le> v \<and> v \<le> i64_max then Some v else None)"

definition validate_dice :: "dice_expression \<Rightarrow> interaction_limits \<Rightarrow> unit interaction_result" where
  "validate_dice expression limits =
     checks
       [fail_if (de_count expression = 0 \<or> de_count expression > il_max_dice_count limits \<or>
           de_sides expression < 2 \<or> de_sides expression > il_max_dice_sides limits) IF_InvalidAction
          (lit ''dice expression is outside the configured count or side limits''),
        (let maximum = Option.bind (i64_checked (int (de_count expression) * int (de_sides expression)))
               (\<lambda>v. i64_checked (v + de_modifier expression));
             minimum = i64_checked (int (de_count expression) + de_modifier expression) in
         fail_if (maximum = None \<or> minimum = None) IF_InvalidAction (lit ''dice expression total can overflow''))]"

definition validate_choice ::
  "interaction_limits \<Rightarrow> str set \<Rightarrow> choice_spec \<Rightarrow> str set interaction_result" where
  "validate_choice limits ids choice =
     result_bind (ix_validate_identifier ''choice id'' (chs_id choice) limits) (\<lambda>_.
     result_bind (validate_native_plain_text (chs_label choice) limits) (\<lambda>_.
     result_bind (ix_validate_variable_value (chs_value choice) limits) (\<lambda>_.
     result_bind (validate_optional (\<lambda>condition. ix_validate_condition condition limits) (chs_enabled_when choice)) (\<lambda>_.
     result_bind (fail_if (chs_id choice \<in> ids) IF_InvalidAction
       (lit ''duplicate choice id `'' @ chs_id choice @ lit ''`'')) (\<lambda>_.
     Inr (insert (chs_id choice) ids))))))"

fun validate_action :: "interaction_action \<Rightarrow> provenance \<Rightarrow> interaction_limits \<Rightarrow> unit interaction_result" where
  "validate_action (Act_SetVariable target v) p limits =
     result_bind (validate_write_target target p limits) (\<lambda>_.
     case v of
       Val_Literal literal \<Rightarrow> ix_validate_variable_value literal limits
     | Val_Variable variable \<Rightarrow> ix_validate_variable_ref variable limits)"
| "validate_action (Act_IncrementVariable target _) p limits = validate_write_target target p limits"
| "validate_action (Act_ActivateKnowledge entry_id) p limits =
     ix_validate_identifier ''knowledge entry id'' entry_id limits"
| "validate_action (Act_ShowAsset asset_id _) p limits = ix_validate_identifier ''asset id'' asset_id limits"
| "validate_action (Act_PlayAudio asset_id) p limits = ix_validate_identifier ''asset id'' asset_id limits"
| "validate_action (Act_PresentChoices choices) p limits =
     result_bind (fail_if (choices = [] \<or> length choices > il_max_choices limits) IF_InvalidAction
       (lit ''choice count is empty or exceeds the configured limit'')) (\<lambda>_.
     result_bind (try_fold (validate_choice limits) {} choices) (\<lambda>_. Inr ()))"
| "validate_action (Act_AppendVisibleSystemEvent txt) p limits = ix_validate_template txt limits"
| "validate_action (Act_RollDice expression target) p limits =
     result_bind (validate_dice expression limits) (\<lambda>_.
     validate_optional (\<lambda>target. validate_write_target target p limits) target)"
| "validate_action (Act_RequestUserApproval proposal) p limits =
     checks
       [ix_validate_identifier ''proposal id'' (ps_id proposal) limits,
        validate_required_native_plain_text ''proposal title'' (ps_title proposal)
          MAX_INTERACTION_PROPOSAL_TITLE_CHARS limits,
        ix_validate_template (ps_body proposal) limits,
        fail_if (ps_expires_after_seconds proposal = Some 0) IF_InvalidAction
          (lit ''approval expiry must be greater than zero'')]"

end
