(* ===== verification/Interaction_Random.thy ===== *)
theory Interaction_Random
  imports Interaction_Validation "HOL-Library.Word"
begin

section \<open>Deterministic dice\<close>

text \<open>
  The seed mixing and the SplitMix64 generator of \<open>interactions.rs\<close>, on 64-bit words.  The
  rejection loop of \<open>next_bounded\<close> has no bound in the source; it ends because the state of the
  generator runs through every 64-bit word and the word zero is mapped to zero, which is accepted.
\<close>

unbundle bit_operations_syntax

type_synonym u64 = "64 word"

subsection \<open>Seeds\<close>

definition stable_hash :: "bytes \<Rightarrow> u64" where
  "stable_hash bytes =
     foldl (\<lambda>hash byte. (hash XOR of_nat byte) * 0x00000100000001b3) 0xcbf29ce484222325 bytes"

definition mix_seed :: "u64 \<Rightarrow> u64 \<Rightarrow> u64" where
  "mix_seed left right = left XOR (right + 0x9e3779b97f4a7c15 + push_bit 6 left + drop_bit 2 left)"

fun variable_scope_seed :: "variable_scope \<Rightarrow> u64" where
  "variable_scope_seed Scope_App = 1"
| "variable_scope_seed Scope_User = 2"
| "variable_scope_seed Scope_Persona = 3"
| "variable_scope_seed Scope_Character = 4"
| "variable_scope_seed Scope_Conversation = 5"
| "variable_scope_seed Scope_Branch = 6"
| "variable_scope_seed Scope_Session = 7"
| "variable_scope_seed Scope_Turn = 8"
| "variable_scope_seed Scope_Module = 9"

fun event_discriminant :: "interaction_event \<Rightarrow> u64" where
  "event_discriminant Ev_ConversationOpened = 1"
| "event_discriminant Ev_ConversationStarted = 2"
| "event_discriminant Ev_BeforeGeneration = 3"
| "event_discriminant Ev_AfterGeneration = 4"
| "event_discriminant Ev_MessageCommitted = 5"
| "event_discriminant (Ev_UserAction _) = 6"
| "event_discriminant (Ev_VariableChanged _) = 7"
| "event_discriminant (Ev_KnowledgeActivated _) = 8"

definition event_seed :: "u64 \<Rightarrow> interaction_event \<Rightarrow> u64 \<Rightarrow> u64" where
  "event_seed seed event revision =
     (let mixed = mix_seed (mix_seed seed (event_discriminant event)) revision in
      case event of
        Ev_UserAction action_id \<Rightarrow> mix_seed mixed (stable_hash (utf8 action_id))
      | Ev_VariableChanged variable \<Rightarrow>
          let namespace = (case vr_namespace variable of None \<Rightarrow> 0 | Some v \<Rightarrow> stable_hash (utf8 v)) in
          mix_seed (mix_seed (mix_seed mixed (variable_scope_seed (vr_scope variable))) namespace)
            (stable_hash (utf8 (vr_id variable)))
      | Ev_KnowledgeActivated entry_id \<Rightarrow> mix_seed mixed (stable_hash (utf8 entry_id))
      | _ \<Rightarrow> mixed)"

subsection \<open>The generator\<close>

definition golden_gamma :: u64 where "golden_gamma = 0x9e3779b97f4a7c15"

text \<open>The output function of \<open>SplitMix64::next\<close>, on the advanced state.\<close>

definition mix64 :: "u64 \<Rightarrow> u64" where
  "mix64 v =
     (let v = (v XOR drop_bit 30 v) * 0xbf58476d1ce4e5b9;
          v = (v XOR drop_bit 27 v) * 0x94d049bb133111eb in
      v XOR drop_bit 31 v)"

definition split_mix_next :: "u64 \<Rightarrow> u64 \<times> u64" where
  "split_mix_next state = (let state = state + golden_gamma in (mix64 state, state))"

text \<open>How many more states there are until the state is zero.\<close>

definition steps_to_zero :: "u64 \<Rightarrow> nat" where
  "steps_to_zero state = unat (- (state + golden_gamma) * 0xf1de83e19937733d)"

lemma golden_gamma_inverse: "golden_gamma * 0xf1de83e19937733d = 1"
  by (simp add: golden_gamma_def)

lemma mix64_zero [simp]: "mix64 0 = 0"
  by (simp add: mix64_def)

lemma steps_to_zero_decreases:
  assumes "state + golden_gamma \<noteq> 0"
  shows "steps_to_zero (state + golden_gamma) < steps_to_zero state"
proof -
  let ?i = "0xf1de83e19937733d :: u64"
  let ?w = "- (state + golden_gamma) * ?i"
  have "?w * golden_gamma = - (state + golden_gamma) * (golden_gamma * ?i)" by (simp add: ac_simps)
  then have "?w * golden_gamma = - (state + golden_gamma)" by (simp only: golden_gamma_inverse mult_1_right)
  with assms have nonzero: "?w \<noteq> 0" by (metis mult_zero_left neg_equal_0_iff_equal)
  have "- (state + golden_gamma + golden_gamma) * j = - (state + golden_gamma) * j - golden_gamma * j" for j :: u64
    by (simp add: algebra_simps)
  then have "- (state + golden_gamma + golden_gamma) * ?i = ?w - 1" by (simp only: golden_gamma_inverse)
  then have "steps_to_zero (state + golden_gamma) = unat ?w - 1"
    by (simp only: steps_to_zero_def unat_minus_one [OF nonzero])
  moreover have "unat ?w > 0" using nonzero by (simp only: unat_gt_0 not_False_eq_True)
  ultimately show ?thesis unfolding steps_to_zero_def by linarith
qed

text \<open>
  The rejection loop: the first accepted value, and the state after it.  Its limit is positive for
  every divisor but zero; the source takes a remainder by the divisor before the loop, so that the
  loop is never entered with the limit zero.
\<close>

function next_accepted :: "u64 \<Rightarrow> u64 \<Rightarrow> u64 \<times> u64" where
  "next_accepted rejection_limit state =
     (case split_mix_next state of (v, state') \<Rightarrow>
      if v < rejection_limit \<or> rejection_limit = 0 then (v, state')
      else next_accepted rejection_limit state')"
  by pat_completeness auto

termination
proof (relation "measure (\<lambda>(limit, state). steps_to_zero state)", simp)
  fix limit state v state'
  assume next_v: "(v, state') = split_mix_next state" and rejected: "\<not> (v < limit \<or> limit = 0)"
  have "state' \<noteq> 0" using next_v rejected by (auto simp: split_mix_next_def Let_def word_gt_0)
  with next_v show "((limit, state'), limit, state) \<in> measure (\<lambda>(limit, state). steps_to_zero state)"
    using steps_to_zero_decreases by (simp add: split_mix_next_def Let_def)
qed

declare next_accepted.simps [simp del]

definition next_bounded :: "nat \<Rightarrow> u64 \<Rightarrow> nat \<times> u64" where
  "next_bounded upper_exclusive state =
     (let upper = (of_nat upper_exclusive :: u64);
          rejection_limit = - 1 - (- 1) mod upper in
      case next_accepted rejection_limit state of (v, state) \<Rightarrow>
        (try_from_or u32_max 0 (unat (v mod upper)), state))"

subsection \<open>Rolling\<close>

type_synonym roll_state = "u64 \<times> nat list \<times> int"

definition roll_step :: "nat \<Rightarrow> roll_state \<Rightarrow> nat \<Rightarrow> roll_state interaction_result" where
  "roll_step sides st i =
     (case st of (generator, rolls, sum_so_far) \<Rightarrow>
      case next_bounded sides generator of (v, generator) \<Rightarrow>
      let roll = v + 1 in
      result_bind (ok_or (InteractionFailure IF_NumericOverflow (lit ''dice total overflowed''))
        (i64_checked (sum_so_far + int roll))) (\<lambda>sum_so_far.
      Inr (generator, rolls @ [roll], sum_so_far)))"

definition roll_dice :: "dice_expression \<Rightarrow> u64 \<Rightarrow> (nat list \<times> int) interaction_result" where
  "roll_dice expression seed =
     result_bind (try_fold (roll_step (de_sides expression)) (seed, [], de_modifier expression) [0..<de_count expression])
       (\<lambda>(_, rolls, sum_so_far). Inr (rolls, sum_so_far))"

end
