(* ===== verification/Interaction_Engine.thy ===== *)
theory Interaction_Engine
  imports Interaction_Random
begin

section \<open>The interaction engine\<close>

text \<open>
  \<open>InteractionEngine::compile_with_options\<close> and \<open>handle_event\<close> of \<open>interactions.rs\<close>, and the life cycle of
  the approval proposals: requested by a rule, then approved, rejected or expired by the user or the
  clock, each under a compare-and-swap on the revision of the state.
\<close>

subsection \<open>The durable state\<close>

definition hash_framed_field :: "bytes \<Rightarrow> bytes \<Rightarrow> bytes interaction_result" where
  "hash_framed_field hasher v =
     result_bind (fail_if (length v > u64_max) IF_NumericOverflow (lit ''proposal hash field length overflowed'')) (\<lambda>_.
     Inr (hasher @ to_be_bytes 8 (length v) @ v))"

definition proposal_record_id :: "interaction_env \<Rightarrow> str \<Rightarrow> str \<Rightarrow> str \<Rightarrow> nat \<Rightarrow> str interaction_result" where
  "proposal_record_id env rule_set_id rule_id proposal_id source_revision =
     result_bind (try_fold hash_framed_field []
       [utf8 (lit ''lorepia.interaction-proposal.v1''), utf8 rule_set_id, utf8 rule_id, utf8 proposal_id]) (\<lambda>hasher.
     Inr (ie_hex_encode env (ie_sha256 env (hasher @ to_be_bytes 8 source_revision))))"

definition validate_binding :: "interaction_limits \<Rightarrow> variable_ref set \<Rightarrow> variable_binding \<Rightarrow> variable_ref set interaction_result" where
  "validate_binding limits seen b =
     result_bind (ix_validate_variable_ref (vb_variable b) limits) (\<lambda>_.
     result_bind (ix_validate_variable_value (vb_value b) limits) (\<lambda>_.
     result_bind (fail_if (vb_variable b \<in> seen) IF_StateLimitExceeded
       (lit ''interaction state contains duplicate variable bindings'')) (\<lambda>_.
     Inr (insert (vb_variable b) seen))))"

definition validate_active_entry :: "interaction_limits \<Rightarrow> str set \<Rightarrow> str \<Rightarrow> str set interaction_result" where
  "validate_active_entry limits seen entry_id =
     result_bind (ix_validate_identifier ''knowledge entry id'' entry_id limits) (\<lambda>_.
     result_bind (fail_if (entry_id \<in> seen) IF_StateLimitExceeded
       (lit ''interaction state contains duplicate active knowledge IDs'')) (\<lambda>_.
     Inr (insert entry_id seen)))"

text \<open>The checks on one proposal that do not depend on the others.\<close>

definition validate_proposal_fields ::
  "interaction_limits \<Rightarrow> nat \<Rightarrow> interaction_proposal_record \<Rightarrow> unit interaction_result" where
  "validate_proposal_fields limits revision p =
     checks
       [ix_validate_identifier ''proposal record id'' (ip_id p) limits,
        ix_validate_identifier ''proposal rule set id'' (ip_rule_set_id p) limits,
        ix_validate_identifier ''proposal rule id'' (ip_rule_id p) limits,
        ix_validate_identifier ''proposal id'' (ip_proposal_id p) limits,
        validate_legacy_stored_proposal_text ''proposal title'' (ip_title p) MAX_INTERACTION_PROPOSAL_TITLE_CHARS,
        validate_legacy_stored_proposal_text ''proposal body'' (ip_body p) MAX_INTERACTION_PROPOSAL_BODY_CHARS,
        validate_epoch_seconds ''proposal request time'' (ip_requested_at p),
        fail_if (ip_source_revision p > revision) IF_StateLimitExceeded
          (lit ''proposal source revision exceeds the durable interaction state revision''),
        fail_if (case ip_expires_at p of Some expires_at \<Rightarrow> expires_at < ip_requested_at p | None \<Rightarrow> False) IF_InvalidTimestamp
          (lit ''proposal expiration must not predate its request time''),
        (case ip_decided_at p of
           None \<Rightarrow> Inr ()
         | Some decided_at \<Rightarrow>
             checks
               [validate_epoch_seconds ''proposal decision time'' decided_at,
                fail_if (decided_at < ip_requested_at p \<or>
                    ip_status p \<noteq> Prop_Expired \<and>
                    (case ip_expires_at p of Some expires_at \<Rightarrow> decided_at \<ge> expires_at | None \<Rightarrow> False)) IF_InvalidTimestamp
                  (lit ''proposal decision time is outside its valid lifetime'')])]"

text \<open>The identifiers of the records and of the pending proposals, and the number of the latter.\<close>

type_synonym proposal_seen = "str set \<times> str set \<times> nat"

definition validate_proposal_status :: "interaction_proposal_record \<Rightarrow> proposal_seen \<Rightarrow> proposal_seen interaction_result" where
  "validate_proposal_status p seen =
     (case seen of (record_ids, pending_ids, pending_count) \<Rightarrow>
      case ip_status p of
        Prop_Pending \<Rightarrow>
          result_bind (fail_if (ip_decided_at p \<noteq> None) IF_ProposalNotPending
            (lit ''pending proposal has a decision timestamp'')) (\<lambda>_.
          result_bind (fail_if (ip_proposal_id p \<in> pending_ids) IF_DuplicateProposal
            (lit ''interaction state contains duplicate pending proposal IDs'')) (\<lambda>_.
          Inr (record_ids, insert (ip_proposal_id p) pending_ids, saturating_add usize_max pending_count 1)))
      | Prop_Expired \<Rightarrow>
          result_bind (fail_if (\<not> (case (ip_expires_at p, ip_decided_at p) of
              (Some expires_at, Some expired_at) \<Rightarrow> expired_at \<ge> expires_at | _ \<Rightarrow> False)) IF_InvalidTimestamp
            (lit ''expired proposal lacks a terminal timestamp at or after its deadline'')) (\<lambda>_.
          Inr seen)
      | _ \<Rightarrow>
          result_bind (fail_if (ip_decided_at p = None) IF_ProposalNotPending
            (lit ''decided proposal is missing its decision timestamp'')) (\<lambda>_.
          Inr seen))"

definition validate_proposal ::
  "interaction_env \<Rightarrow> interaction_limits \<Rightarrow> nat \<Rightarrow> proposal_seen \<Rightarrow> interaction_proposal_record \<Rightarrow>
     proposal_seen interaction_result" where
  "validate_proposal env limits revision seen p =
     result_bind (validate_proposal_fields limits revision p) (\<lambda>_.
     result_bind (validate_proposal_status p seen) (\<lambda>seen.
     result_bind (proposal_record_id env (ip_rule_set_id p) (ip_rule_id p) (ip_proposal_id p) (ip_source_revision p)) (\<lambda>expected.
     result_bind (fail_if (expected \<noteq> ip_id p) IF_DuplicateProposal
       (lit ''proposal record ID does not match its deterministic binding'')) (\<lambda>_.
     case seen of (record_ids, pending_ids, pending_count) \<Rightarrow>
     result_bind (fail_if (ip_id p \<in> record_ids) IF_DuplicateProposal
       (lit ''interaction state contains a duplicate proposal record ID'')) (\<lambda>_.
     Inr (insert (ip_id p) record_ids, pending_ids, pending_count))))))"

definition validate_interaction_state ::
  "interaction_env \<Rightarrow> interaction_state \<Rightarrow> interaction_limits \<Rightarrow> unit interaction_result" where
  "validate_interaction_state env state limits =
     result_bind (fail_if (length (is_variables state) > il_max_variables limits) IF_StateLimitExceeded
       (lit ''interaction variable count exceeds the configured limit'')) (\<lambda>_.
     result_bind (try_fold (validate_binding limits) {} (is_variables state)) (\<lambda>_.
     result_bind (fail_if (length (is_manually_active_knowledge state) > DOMAIN_MAX_KNOWLEDGE_ENTRIES) IF_StateLimitExceeded
       (lit ''active knowledge count exceeds the canonical domain limit'')) (\<lambda>_.
     result_bind (try_fold (validate_active_entry limits) {} (is_manually_active_knowledge state)) (\<lambda>_.
     result_bind (fail_if (length (is_proposals state) > il_max_proposals limits) IF_ProposalLimitExceeded
       (lit ''interaction proposal count exceeds the configured limit'')) (\<lambda>_.
     result_bind (try_fold (validate_proposal env limits (is_revision state)) ({}, {}, 0) (is_proposals state))
       (\<lambda>(_, _, pending_count).
     fail_if (pending_count > il_max_pending_proposals limits) IF_ProposalLimitExceeded
       (lit ''pending interaction proposal count exceeds the configured limit'')))))))"

subsection \<open>Compilation\<close>

definition ix_imported_source_id :: "provenance \<Rightarrow> str option interaction_result" where
  "ix_imported_source_id p =
     (if is_imported p then
        result_bind (ok_or (InteractionFailure IF_InvalidIdentifier
          (lit ''imported interaction content requires a provenance source ID'')) (pv_source_id p)) (\<lambda>source.
        Inr (Some source))
      else Inr None)"

definition rule_provenance_is_approved :: "provenance \<Rightarrow> provenance \<Rightarrow> str set \<Rightarrow> bool interaction_result" where
  "rule_provenance_is_approved set_provenance rule_provenance approved_import_source_ids =
     result_bind (ix_imported_source_id set_provenance) (\<lambda>set_source.
     result_bind (ix_imported_source_id rule_provenance) (\<lambda>rule_source.
     case set_source of
       Some source \<Rightarrow>
         result_bind (fail_if (rule_source \<noteq> Some source) IF_ImportedScopeViolation
           (lit ''an imported interaction rule set may contain only rules from the same imported source'')) (\<lambda>_.
         Inr (source \<in> approved_import_source_ids))
     | None \<Rightarrow> Inr (case rule_source of None \<Rightarrow> True | Some source \<Rightarrow> source \<in> approved_import_source_ids)))"

text \<open>The identifiers seen so far and the rules compiled so far.\<close>

type_synonym compile_state = "str set \<times> str set \<times> interaction_compiled_rule list"

definition compile_rule ::
  "interaction_limits \<Rightarrow> str set \<Rightarrow> interaction_rule_set \<Rightarrow> compile_state \<Rightarrow> interaction_rule \<Rightarrow>
     compile_state interaction_result" where
  "compile_rule limits approved rset st rule =
     (case st of (set_ids, ids, rules) \<Rightarrow>
      result_bind (ix_validate_identifier ''interaction rule id'' (ir_id rule) limits) (\<lambda>_.
      result_bind (ix_validate_text ''interaction rule name'' (ir_name rule) limits) (\<lambda>_.
      result_bind (fail_if (ir_id rule \<in> ids) IF_DuplicateRuleId
        (lit ''duplicate interaction rule id `'' @ ir_id rule @ lit ''`'')) (\<lambda>_.
      result_bind (validate_event (ir_event rule) limits) (\<lambda>_.
      result_bind (validate_optional (\<lambda>condition. ix_validate_condition condition limits) (ir_condition rule)) (\<lambda>_.
      result_bind (fail_if (length (ir_actions rule) > il_max_actions_per_rule limits) IF_InvalidAction
        (lit ''rule `'' @ ir_id rule @ lit ''` has '' @ show_nat (length (ir_actions rule)) @
         lit '' actions; limit is '' @ show_nat (il_max_actions_per_rule limits))) (\<lambda>_.
      result_bind (try_for (\<lambda>action. validate_action action (ir_provenance rule) limits) (ir_actions rule)) (\<lambda>_.
      result_bind (rule_provenance_is_approved (irs_provenance rset) (ir_provenance rule) approved) (\<lambda>approved_for_execution.
      Inr (set_ids, insert (ir_id rule) ids,
        rules @ [\<lparr>icr_set_id = irs_id rset, icr_rule = rule, icr_approved_for_execution = approved_for_execution,
          icr_set_action_limit = irs_max_actions_per_event rset\<rparr>]))))))))))"

definition compile_rule_set ::
  "interaction_limits \<Rightarrow> str set \<Rightarrow> compile_state \<Rightarrow> interaction_rule_set \<Rightarrow> compile_state interaction_result" where
  "compile_rule_set limits approved st rset =
     (case st of (set_ids, ids, rules) \<Rightarrow>
      result_bind (ix_validate_identifier ''interaction rule set id'' (irs_id rset) limits) (\<lambda>_.
      result_bind (ix_validate_text ''interaction rule set name'' (irs_name rset) limits) (\<lambda>_.
      result_bind (fail_if (irs_id rset \<in> set_ids) IF_DuplicateRuleSetId
        (lit ''duplicate interaction rule set id `'' @ irs_id rset @ lit ''`'')) (\<lambda>_.
      result_bind (fail_if
          (irs_max_actions_per_event rset = 0 \<or> irs_max_actions_per_event rset > il_max_actions_per_event limits) IF_InvalidLimits
        (lit ''rule set `'' @ irs_id rset @ lit ''` action limit must be within 1..='' @
         show_nat (il_max_actions_per_event limits))) (\<lambda>_.
      try_fold (compile_rule limits approved rset) (insert (irs_id rset) set_ids, ids, rules) (irs_rules rset))))))"

definition cmp_compiled_rule :: "interaction_compiled_rule \<Rightarrow> interaction_compiled_rule \<Rightarrow> ordering" where
  "cmp_compiled_rule =
     cmp_then (cmp_on (\<lambda>c. ir_priority (icr_rule c))) (cmp_on (\<lambda>c. ir_id (icr_rule c)))"

definition interaction_compile_with_options ::
  "interaction_rule_set list \<Rightarrow> interaction_limits \<Rightarrow> str set \<Rightarrow> interaction_engine interaction_result" where
  "interaction_compile_with_options rule_sets limits approved =
     result_bind (interaction_limits_validate limits) (\<lambda>limits.
     result_bind (fail_if (length rule_sets > il_max_rule_sets limits) IF_TooManyRuleSets
       (lit ''interaction rule set count '' @ show_nat (length rule_sets) @ lit '' exceeds limit '' @
        show_nat (il_max_rule_sets limits))) (\<lambda>_.
     let total_rules = sum_list (map (\<lambda>rset. length (irs_rules rset)) rule_sets) in
     result_bind (fail_if (total_rules > usize_max) IF_TooManyRules (lit ''interaction rule count overflowed'')) (\<lambda>_.
     result_bind (fail_if (total_rules > il_max_rules limits) IF_TooManyRules
       (lit ''interaction rule count '' @ show_nat total_rules @ lit '' exceeds limit '' @
        show_nat (il_max_rules limits))) (\<lambda>_.
     result_bind (try_fold (compile_rule_set limits approved) ({}, {}, []) rule_sets) (\<lambda>(_, _, rules).
     Inr \<lparr>ien_rules = sort_by cmp_compiled_rule rules, ien_limits = limits\<rparr>)))))"

definition interaction_compile ::
  "interaction_rule_set list \<Rightarrow> interaction_limits \<Rightarrow> interaction_engine interaction_result" where
  "interaction_compile rule_sets limits = interaction_compile_with_options rule_sets limits {}"

definition rule_count :: "interaction_engine \<Rightarrow> nat" where
  "rule_count engine = length (ien_rules engine)"

end
