(* ===== verification/Interaction_Events.thy ===== *)
theory Interaction_Events
  imports Interaction_Engine
begin

section \<open>Handling events and deciding proposals\<close>

text \<open>
  \<open>handle_event\<close> with \<open>apply_actions\<close>, and the decision and expiry of proposals.  A rule works on a copy
  of the state, which replaces the state only when all its actions succeed.
\<close>

subsection \<open>Actions\<close>

text \<open>The state and the effects of the rule so far.\<close>

type_synonym action_state = "interaction_state \<times> interaction_effect list"

definition set_variable :: "action_state \<Rightarrow> variable_ref \<Rightarrow> variable_value \<Rightarrow> action_state" where
  "set_variable st target v =
     (case st of (state, effects) \<Rightarrow>
      let previous = variable_map_get (is_variables state) target in
      (state\<lparr>is_variables := variable_map_insert target v (is_variables state)\<rparr>,
       if (case previous of Some p \<Rightarrow> variable_value_eq p v | None \<Rightarrow> False) then effects
       else effects @ [Eff_VariableSet target previous v]))"

fun resolve_value :: "value_expr \<Rightarrow> variable_map \<Rightarrow> variable_value interaction_result" where
  "resolve_value (Val_Literal v) variables = Inr v"
| "resolve_value (Val_Variable variable) variables =
     ok_or (missing_variable ''source variable `'' variable) (variable_map_get variables variable)"

definition increment_value :: "variable_map \<Rightarrow> variable_ref \<Rightarrow> int \<Rightarrow> int interaction_result" where
  "increment_value variables target amount =
     result_bind (case variable_map_get variables target of
         Some (VInteger v) \<Rightarrow> Inr v
       | None \<Rightarrow> Inr 0
       | Some _ \<Rightarrow> mismatch ''increment target `'' target ''` is not an integer'') (\<lambda>current.
     ok_or (InteractionFailure IF_NumericOverflow (lit ''increment target `'' @ vr_id target @ lit ''` overflowed''))
       (i64_checked (current + amount)))"

definition choice_enabled ::
  "interaction_context \<Rightarrow> interaction_limits \<Rightarrow> variable_map \<Rightarrow> choice_spec list \<Rightarrow> choice_spec \<Rightarrow>
     choice_spec list interaction_result" where
  "choice_enabled ctx limits variables rendered choice =
     result_bind (case chs_enabled_when choice of
         None \<Rightarrow> Inr True
       | Some condition \<Rightarrow> evaluate_condition_ast condition variables (ic_model_capabilities ctx) limits) (\<lambda>enabled.
     Inr (if enabled then rendered @ [choice] else rendered))"

definition is_pending :: "interaction_proposal_record \<Rightarrow> bool" where
  "is_pending p \<longleftrightarrow> ip_status p = Prop_Pending"

definition append_pending_proposal ::
  "interaction_env \<Rightarrow> interaction_state \<Rightarrow> str \<Rightarrow> str \<Rightarrow> proposal_spec \<Rightarrow> str \<Rightarrow> int \<Rightarrow> interaction_limits \<Rightarrow>
     interaction_state interaction_result" where
  "append_pending_proposal env state rule_set_id rule_id proposal rendered_body event_epoch_seconds limits =
     result_bind (validate_epoch_seconds ''interaction event time'' event_epoch_seconds) (\<lambda>_.
     result_bind (validate_required_native_plain_text ''proposal title'' (ps_title proposal)
       MAX_INTERACTION_PROPOSAL_TITLE_CHARS limits) (\<lambda>_.
     result_bind (validate_required_native_plain_text ''proposal body'' rendered_body
       MAX_INTERACTION_PROPOSAL_BODY_CHARS limits) (\<lambda>_.
     result_bind (fail_if (length (is_proposals state) \<ge> il_max_proposals limits) IF_ProposalLimitExceeded
       (lit ''interaction proposal audit limit has been reached'')) (\<lambda>_.
     result_bind (fail_if (length (filter is_pending (is_proposals state)) \<ge> il_max_pending_proposals limits)
       IF_ProposalLimitExceeded (lit ''pending interaction proposal limit has been reached'')) (\<lambda>_.
     result_bind (fail_if (list_ex (\<lambda>p. ip_proposal_id p = ps_id proposal \<and> is_pending p) (is_proposals state))
       IF_DuplicateProposal (lit ''proposal ID `'' @ ps_id proposal @ lit ''` already has a pending request'')) (\<lambda>_.
     result_bind (case ps_expires_after_seconds proposal of
         None \<Rightarrow> Inr None
       | Some seconds \<Rightarrow>
           result_bind (ok_or (InteractionFailure IF_NumericOverflow (lit ''proposal expiration time overflowed''))
             (i64_checked (event_epoch_seconds + int seconds))) (\<lambda>t. Inr (Some t))) (\<lambda>expires_at.
     result_bind (proposal_record_id env rule_set_id rule_id (ps_id proposal) (is_revision state)) (\<lambda>record_id.
     result_bind (fail_if (list_ex (\<lambda>p. ip_id p = record_id) (is_proposals state)) IF_DuplicateProposal
       (lit ''deterministic proposal record was already created'')) (\<lambda>_.
     Inr (state\<lparr>is_proposals := is_proposals state @
       [\<lparr>ip_id = record_id, ip_rule_set_id = rule_set_id, ip_rule_id = rule_id, ip_proposal_id = ps_id proposal,
         ip_title = ps_title proposal, ip_body = rendered_body, ip_status = Prop_Pending,
         ip_source_revision = is_revision state, ip_requested_at = event_epoch_seconds,
         ip_expires_at = expires_at, ip_decided_at = None\<rparr>]\<rparr>))))))))))"

record action_application =
  aa_rule_set_id :: str
  aa_rule_id :: str
  aa_provenance :: provenance
  aa_context :: interaction_context
  aa_seed :: u64
  aa_effect_ordinal_base :: nat

fun perform_action ::
  "interaction_env \<Rightarrow> interaction_limits \<Rightarrow> action_application \<Rightarrow> nat \<Rightarrow> action_state \<Rightarrow> interaction_action \<Rightarrow>
     action_state interaction_result" where
  "perform_action env limits app index (state, effects) (Act_SetVariable target v) =
     result_bind (resolve_value v (is_variables state)) (\<lambda>v. Inr (set_variable (state, effects) target v))"
| "perform_action env limits app index (state, effects) (Act_IncrementVariable target amount) =
     result_bind (increment_value (is_variables state) target amount) (\<lambda>v.
     Inr (set_variable (state, effects) target (VInteger v)))"
| "perform_action env limits app index (state, effects) (Act_ActivateKnowledge entry_id) =
     (if entry_id \<in> set (is_manually_active_knowledge state) then Inr (state, effects)
      else Inr (state\<lparr>is_manually_active_knowledge :=
            sort_by cmp (is_manually_active_knowledge state @ [entry_id])\<rparr>,
          effects @ [Eff_KnowledgeActivated entry_id]))"
| "perform_action env limits app index (state, effects) (Act_ShowAsset asset_id region) =
     Inr (state, effects @ [Eff_AssetShown asset_id region])"
| "perform_action env limits app index (state, effects) (Act_PlayAudio asset_id) =
     Inr (state, effects @ [Eff_AudioRequested asset_id])"
| "perform_action env limits app index (state, effects) (Act_PresentChoices choices) =
     result_bind (try_fold (choice_enabled (aa_context app) limits (is_variables state)) [] choices) (\<lambda>rendered.
     Inr (state, if rendered = [] then effects else effects @ [Eff_ChoicesPresented rendered]))"
| "perform_action env limits app index (state, effects) (Act_AppendVisibleSystemEvent txt) =
     result_bind (ix_render_safe_template env txt (is_variables state) (aa_context app) limits) (\<lambda>rendered.
     Inr (state, effects @ [Eff_VisibleSystemEvent rendered]))"
| "perform_action env limits app index (state, effects) (Act_RollDice expression target) =
     result_bind (roll_dice expression (mix_seed (aa_seed app) (of_nat index))) (\<lambda>(rolls, sum_of_rolls).
     case (case target of None \<Rightarrow> (state, effects)
         | Some variable \<Rightarrow> set_variable (state, effects) variable (VInteger sum_of_rolls)) of
       (state, effects) \<Rightarrow> Inr (state, effects @ [Eff_DiceRolled expression rolls sum_of_rolls target]))"
| "perform_action env limits app index (state, effects) (Act_RequestUserApproval proposal) =
     result_bind (ix_render_safe_template env (ps_body proposal) (is_variables state) (aa_context app) limits) (\<lambda>body.
     result_bind (append_pending_proposal env state (aa_rule_set_id app) (aa_rule_id app) proposal body
       (ic_event_epoch_seconds (aa_context app)) limits) (\<lambda>state.
     Inr (state, effects @ [Eff_ApprovalRequested (aa_rule_set_id app) (aa_rule_id app) (ps_id proposal)
       (ps_title proposal) body (ps_expires_after_seconds proposal)])))"

fun derived_event_of :: "interaction_effect \<Rightarrow> interaction_event option" where
  "derived_event_of (Eff_VariableSet target _ _) = Some (Ev_VariableChanged target)"
| "derived_event_of (Eff_KnowledgeActivated entry_id) = Some (Ev_KnowledgeActivated entry_id)"
| "derived_event_of _ = None"

definition derive_step ::
  "action_application \<Rightarrow> nat \<Rightarrow> interaction_derived_event list \<Rightarrow> nat \<times> interaction_effect \<Rightarrow>
     interaction_derived_event list interaction_result" where
  "derive_step app index derived ie =
     (case ie of (effect_ordinal, effect) \<Rightarrow>
      case derived_event_of effect of
        None \<Rightarrow> Inr derived
      | Some event \<Rightarrow>
          result_bind (fail_if (index > u32_max) IF_NumericOverflow (lit ''interaction action ordinal overflowed'')) (\<lambda>_.
          let ordinal = aa_effect_ordinal_base app + effect_ordinal in
          result_bind (fail_if (ordinal > u32_max) IF_NumericOverflow (lit ''interaction effect ordinal overflowed'')) (\<lambda>_.
          Inr (derived @ [\<lparr>ide_event = event, ide_source_rule_set_id = aa_rule_set_id app,
            ide_source_rule_id = aa_rule_id app, ide_source_action_ordinal = index,
            ide_source_effect_ordinal = ordinal\<rparr>]))))"

definition check_candidate :: "interaction_limits \<Rightarrow> action_state \<Rightarrow> unit interaction_result" where
  "check_candidate limits st =
     (case st of (state, effects) \<Rightarrow>
      checks
        [fail_if (length (is_variables state) > il_max_variables limits) IF_StateLimitExceeded
           (lit ''interaction variable count exceeds the configured limit''),
         fail_if (length (is_manually_active_knowledge state) > DOMAIN_MAX_KNOWLEDGE_ENTRIES) IF_StateLimitExceeded
           (lit ''active knowledge count exceeds the canonical domain limit''),
         fail_if (length (is_proposals state) > il_max_proposals limits) IF_ProposalLimitExceeded
           (lit ''interaction proposal count exceeds the configured limit''),
         fail_if (length effects > il_max_effects limits) IF_EffectLimitExceeded
           (lit ''interaction effect limit exceeded'')])"

definition action_step ::
  "interaction_env \<Rightarrow> interaction_limits \<Rightarrow> action_application \<Rightarrow>
     action_state \<times> interaction_derived_event list \<Rightarrow> nat \<times> interaction_action \<Rightarrow>
     (action_state \<times> interaction_derived_event list) interaction_result" where
  "action_step env limits app st ia =
     (case st of (current, derived) \<Rightarrow>
      case ia of (index, action) \<Rightarrow>
      result_bind (validate_action action (aa_provenance app) limits) (\<lambda>_.
      result_bind (perform_action env limits app index current action) (\<lambda>candidate.
      result_bind (try_fold (derive_step app index) derived
        (drop (length (snd current)) (enumerate 0 (snd candidate)))) (\<lambda>derived.
      result_bind (check_candidate limits candidate) (\<lambda>_.
      Inr (candidate, derived))))))"

definition apply_actions ::
  "interaction_env \<Rightarrow> interaction_limits \<Rightarrow> action_application \<Rightarrow> interaction_state \<Rightarrow> interaction_action list \<Rightarrow>
     (action_state \<times> interaction_derived_event list) interaction_result" where
  "apply_actions env limits app state actions =
     try_fold (action_step env limits app) ((state, []), []) (enumerate 0 actions)"

subsection \<open>Events\<close>

record event_run =
  er_state :: interaction_state
  er_effects :: "interaction_effect list"
  er_derived_events :: "interaction_derived_event list"
  er_trace :: "interaction_rule_trace list"
  er_executed_actions :: nat
  er_executed_by_set :: "(str, nat) btree_map"

definition rule_trace :: "interaction_rule \<Rightarrow> interaction_rule_status \<Rightarrow> interaction_rule_trace" where
  "rule_trace rule status =
     \<lparr>irt_rule_id = ir_id rule, irt_status = status, irt_action_count = 0, irt_effect_count = 0,
      irt_state_changed = False, irt_error = None\<rparr>"

definition failed_trace :: "interaction_rule \<Rightarrow> interaction_failure \<Rightarrow> interaction_rule_trace" where
  "failed_trace rule error = (rule_trace rule Rule_Failed)\<lparr>irt_error := Some error\<rparr>"

definition budget_trace :: "interaction_rule \<Rightarrow> interaction_rule_trace" where
  "budget_trace rule =
     (rule_trace rule Rule_ActionBudgetExceeded)\<lparr>irt_error := Some (InteractionFailure IF_InvalidAction
       (lit ''interaction action budget for this event was exhausted''))\<rparr>"

definition push_trace :: "event_run \<Rightarrow> interaction_rule_trace \<Rightarrow> event_run" where
  "push_trace run t = run\<lparr>er_trace := er_trace run @ [t]\<rparr>"

definition application_of ::
  "interaction_context \<Rightarrow> u64 \<Rightarrow> event_run \<Rightarrow> interaction_compiled_rule \<Rightarrow> action_application" where
  "application_of ctx seed run compiled =
     \<lparr>aa_rule_set_id = icr_set_id compiled, aa_rule_id = ir_id (icr_rule compiled),
      aa_provenance = ir_provenance (icr_rule compiled), aa_context = ctx,
      aa_seed = mix_seed seed (stable_hash (utf8 (ir_id (icr_rule compiled)))),
      aa_effect_ordinal_base = length (er_effects run)\<rparr>"

definition commit_rule ::
  "event_run \<Rightarrow> interaction_compiled_rule \<Rightarrow> nat \<Rightarrow> nat \<Rightarrow> action_state \<times> interaction_derived_event list \<Rightarrow> event_run" where
  "commit_rule run compiled next_action_count next_set_action_count candidate =
     (case candidate of ((candidate_state, candidate_effects), candidate_derived_events) \<Rightarrow>
      push_trace (run\<lparr>er_state := candidate_state, er_effects := er_effects run @ candidate_effects,
          er_derived_events := er_derived_events run @ candidate_derived_events,
          er_executed_actions := next_action_count,
          er_executed_by_set := bt_insert (icr_set_id compiled) next_set_action_count (er_executed_by_set run)\<rparr>)
        \<lparr>irt_rule_id = ir_id (icr_rule compiled), irt_status = Rule_Applied,
         irt_action_count = try_from_or u32_max u32_max (length (ir_actions (icr_rule compiled))),
         irt_effect_count = try_from_or u32_max u32_max (length candidate_effects),
         irt_state_changed = (\<not> interaction_state_eq candidate_state (er_state run)), irt_error = None\<rparr>)"

text \<open>One rule: the new run, and whether the loop stops after it.\<close>

definition execute_rule ::
  "interaction_env \<Rightarrow> interaction_limits \<Rightarrow> interaction_context \<Rightarrow> u64 \<Rightarrow> event_run \<Rightarrow> interaction_compiled_rule \<Rightarrow>
     event_run \<times> bool" where
  "execute_rule env limits ctx seed run compiled =
     (let rule = icr_rule compiled;
          next_action_count = saturating_add usize_max (er_executed_actions run) (length (ir_actions rule));
          next_set_action_count = saturating_add usize_max
            (case bt_get (er_executed_by_set run) (icr_set_id compiled) of Some n \<Rightarrow> n | None \<Rightarrow> 0)
            (length (ir_actions rule)) in
      if next_action_count > il_max_actions_per_event limits \<or> next_set_action_count > icr_set_action_limit compiled
      then (push_trace run (budget_trace rule), False)
      else case apply_actions env limits (application_of ctx seed run compiled) (er_state run) (ir_actions rule) of
        Inl error \<Rightarrow> (push_trace run (failed_trace rule error), False)
      | Inr candidate \<Rightarrow>
          if saturating_add usize_max (length (er_effects run)) (length (snd (fst candidate))) > il_max_effects limits then
            (push_trace run (failed_trace rule
              (InteractionFailure IF_EffectLimitExceeded (lit ''interaction effect limit exceeded''))), False)
          else (commit_rule run compiled next_action_count next_set_action_count candidate, ir_stop_after_match rule))"

definition run_rule ::
  "interaction_env \<Rightarrow> interaction_limits \<Rightarrow> interaction_event \<Rightarrow> interaction_context \<Rightarrow> u64 \<Rightarrow> event_run \<Rightarrow>
     interaction_compiled_rule \<Rightarrow> event_run \<times> bool" where
  "run_rule env limits event ctx seed run compiled =
     (let rule = icr_rule compiled; skip = (\<lambda>t. (push_trace run t, False)) in
      if \<not> ir_enabled rule then skip (rule_trace rule Rule_Disabled)
      else if \<not> icr_approved_for_execution compiled then skip (rule_trace rule Rule_PendingImportApproval)
      else if ir_event rule \<noteq> event then skip (rule_trace rule Rule_EventDidNotMatch)
      else case (case ir_condition rule of
          None \<Rightarrow> Inr True
        | Some condition \<Rightarrow>
            evaluate_condition_ast condition (is_variables (er_state run)) (ic_model_capabilities ctx) limits) of
        Inl error \<Rightarrow> skip (failed_trace rule error)
      | Inr False \<Rightarrow> skip (rule_trace rule Rule_ConditionFalse)
      | Inr True \<Rightarrow> execute_rule env limits ctx seed run compiled)"

fun run_rules ::
  "interaction_env \<Rightarrow> interaction_limits \<Rightarrow> interaction_event \<Rightarrow> interaction_context \<Rightarrow> u64 \<Rightarrow> event_run \<Rightarrow>
     interaction_compiled_rule list \<Rightarrow> event_run" where
  "run_rules env limits event ctx seed run [] = run"
| "run_rules env limits event ctx seed run (compiled # rest) =
     (case run_rule env limits event ctx seed run compiled of
        (run, stop) \<Rightarrow> if stop then run else run_rules env limits event ctx seed run rest)"

definition initial_run :: "interaction_state \<Rightarrow> event_run" where
  "initial_run state =
     \<lparr>er_state = state, er_effects = [], er_derived_events = [], er_trace = [], er_executed_actions = 0,
      er_executed_by_set = []\<rparr>"

definition next_revision :: "nat \<Rightarrow> nat interaction_result" where
  "next_revision revision =
     ok_or (InteractionFailure IF_NumericOverflow (lit ''interaction state revision overflowed''))
       (checked_add u64_max revision 1)"

definition handle_event ::
  "interaction_env \<Rightarrow> interaction_engine \<Rightarrow> interaction_state \<Rightarrow> interaction_event \<Rightarrow> interaction_context \<Rightarrow>
     interaction_outcome interaction_result" where
  "handle_event env engine state event ctx =
     result_bind (validate_interaction_state env state (ien_limits engine)) (\<lambda>_.
     result_bind (validate_event event (ien_limits engine)) (\<lambda>_.
     result_bind (validate_epoch_seconds ''interaction event time'' (ic_event_epoch_seconds ctx)) (\<lambda>_.
     let seed = event_seed (of_nat (ic_deterministic_seed ctx)) event (of_nat (is_revision state));
         run = run_rules env (ien_limits engine) event ctx seed (initial_run state) (ien_rules engine);
         state_changed = (\<not> interaction_state_eq (er_state run) state) in
     result_bind (if state_changed then next_revision (is_revision state) else Inr (is_revision (er_state run))) (\<lambda>revision.
     Inr \<lparr>io_state = (er_state run)\<lparr>is_revision := revision\<rparr>, io_effects = er_effects run,
       io_derived_events = er_derived_events run, io_trace = er_trace run, io_state_changed = state_changed\<rparr>))))"

subsection \<open>Decisions and expiry\<close>

definition revision_conflict :: "nat \<Rightarrow> nat \<Rightarrow> unit interaction_result" where
  "revision_conflict revision expected_revision =
     fail_if (revision \<noteq> expected_revision) IF_RevisionConflict
       (lit ''interaction state revision is '' @ show_nat revision @ lit ''; expected '' @ show_nat expected_revision)"

definition find_pending :: "interaction_state \<Rightarrow> str \<Rightarrow> nat interaction_result" where
  "find_pending state proposal_id =
     ok_or
       (if list_ex (\<lambda>p. ip_proposal_id p = proposal_id) (is_proposals state)
        then InteractionFailure IF_ProposalNotPending
          (lit ''interaction proposal `'' @ proposal_id @ lit ''` is no longer pending'')
        else InteractionFailure IF_UnknownProposal
          (lit ''interaction proposal `'' @ proposal_id @ lit ''` does not exist''))
       (position (\<lambda>p. ip_proposal_id p = proposal_id \<and> is_pending p) (is_proposals state))"

definition terminate_proposal ::
  "interaction_state \<Rightarrow> nat \<Rightarrow> interaction_proposal_status \<Rightarrow> int \<Rightarrow> interaction_state" where
  "terminate_proposal state index status now =
     state\<lparr>is_proposals := (is_proposals state)[index :=
       (is_proposals state ! index)\<lparr>ip_status := status, ip_decided_at := Some now\<rparr>]\<rparr>"

definition decide_pending ::
  "interaction_env \<Rightarrow> interaction_state \<Rightarrow> str \<Rightarrow> interaction_proposal_decision \<Rightarrow> nat \<Rightarrow> int \<Rightarrow>
     interaction_proposal_decision_outcome interaction_result" where
  "decide_pending env state proposal_id decision expected_revision now =
     result_bind (interaction_limits_validate interaction_limits_default) (\<lambda>limits.
     result_bind (validate_interaction_state env state limits) (\<lambda>_.
     result_bind (ix_validate_identifier ''proposal id'' proposal_id limits) (\<lambda>_.
     result_bind (validate_epoch_seconds ''proposal decision time'' now) (\<lambda>_.
     result_bind (revision_conflict (is_revision state) expected_revision) (\<lambda>_.
     result_bind (find_pending state proposal_id) (\<lambda>index.
     let current = is_proposals state ! index in
     result_bind (fail_if (now < ip_requested_at current) IF_InvalidTimestamp
       (lit ''proposal decision time precedes its request time'')) (\<lambda>_.
     result_bind (fail_if (case ip_expires_at current of Some expires_at \<Rightarrow> now \<ge> expires_at | None \<Rightarrow> False) IF_ProposalExpired
       (lit ''interaction proposal `'' @ proposal_id @ lit ''` has expired'')) (\<lambda>_.
     result_bind (next_revision (is_revision state)) (\<lambda>revision.
     let status = (case decision of Decide_Approve \<Rightarrow> Prop_Approved | Decide_Reject \<Rightarrow> Prop_Rejected);
         next_state = (terminate_proposal state index status now)\<lparr>is_revision := revision\<rparr>;
         proposal = is_proposals next_state ! index in
     Inr \<lparr>pdo_state = next_state, pdo_proposal = proposal,
       pdo_event_after_commit = (if decision = Decide_Approve then Some (Ev_UserAction (ip_proposal_id proposal)) else None)\<rparr>)))))))))"

definition approve_pending ::
  "interaction_env \<Rightarrow> interaction_state \<Rightarrow> str \<Rightarrow> nat \<Rightarrow> int \<Rightarrow> interaction_proposal_decision_outcome interaction_result" where
  "approve_pending env state proposal_id expected_revision now =
     decide_pending env state proposal_id Decide_Approve expected_revision now"

definition reject_pending ::
  "interaction_env \<Rightarrow> interaction_state \<Rightarrow> str \<Rightarrow> nat \<Rightarrow> int \<Rightarrow> interaction_proposal_decision_outcome interaction_result" where
  "reject_pending env state proposal_id expected_revision now =
     decide_pending env state proposal_id Decide_Reject expected_revision now"

definition is_due :: "int \<Rightarrow> interaction_proposal_record \<Rightarrow> bool" where
  "is_due now p \<longleftrightarrow> is_pending p \<and> (case ip_expires_at p of Some expires_at \<Rightarrow> now \<ge> expires_at | None \<Rightarrow> False)"

definition expire_index ::
  "int \<Rightarrow> interaction_state \<times> interaction_proposal_record list \<Rightarrow> nat \<Rightarrow>
     interaction_state \<times> interaction_proposal_record list" where
  "expire_index now st index =
     (case st of (state, expired) \<Rightarrow>
      let state = terminate_proposal state index Prop_Expired now in
      (state, expired @ [is_proposals state ! index]))"

definition expire_pending_proposals ::
  "interaction_env \<Rightarrow> interaction_state \<Rightarrow> nat \<Rightarrow> int \<Rightarrow> interaction_proposal_expiry_outcome interaction_result" where
  "expire_pending_proposals env state expected_revision now =
     result_bind (interaction_limits_validate interaction_limits_default) (\<lambda>limits.
     result_bind (validate_interaction_state env state limits) (\<lambda>_.
     result_bind (validate_epoch_seconds ''proposal expiry time'' now) (\<lambda>_.
     result_bind (revision_conflict (is_revision state) expected_revision) (\<lambda>_.
     let due_indices = map fst (filter (\<lambda>(index, p). is_due now p) (enumerate 0 (is_proposals state))) in
     if due_indices = [] then Inr \<lparr>peo_state = state, peo_expired_proposals = []\<rparr>
     else
       result_bind (next_revision (is_revision state)) (\<lambda>revision.
       case foldl (expire_index now) (state, []) due_indices of (next_state, expired_proposals) \<Rightarrow>
       let next_state = next_state\<lparr>is_revision := revision\<rparr> in
       result_bind (validate_interaction_state env next_state limits) (\<lambda>_.
       Inr \<lparr>peo_state = next_state, peo_expired_proposals = expired_proposals\<rparr>))))))"

definition expire_pending_proposal ::
  "interaction_env \<Rightarrow> interaction_state \<Rightarrow> str \<Rightarrow> nat \<Rightarrow> int \<Rightarrow> interaction_proposal_expiry_outcome interaction_result" where
  "expire_pending_proposal env state proposal_id expected_revision now =
     result_bind (interaction_limits_validate interaction_limits_default) (\<lambda>limits.
     result_bind (validate_interaction_state env state limits) (\<lambda>_.
     result_bind (ix_validate_identifier ''proposal id'' proposal_id limits) (\<lambda>_.
     result_bind (validate_epoch_seconds ''proposal expiry time'' now) (\<lambda>_.
     result_bind (revision_conflict (is_revision state) expected_revision) (\<lambda>_.
     result_bind (find_pending state proposal_id) (\<lambda>index.
     let current = is_proposals state ! index in
     result_bind (fail_if (now < ip_requested_at current) IF_InvalidTimestamp
       (lit ''proposal expiry time precedes its request time'')) (\<lambda>_.
     result_bind (fail_if (case ip_expires_at current of None \<Rightarrow> True | Some expires_at \<Rightarrow> now < expires_at) IF_InvalidTimestamp
       (lit ''interaction proposal `'' @ proposal_id @ lit ''` is not due'')) (\<lambda>_.
     result_bind (next_revision (is_revision state)) (\<lambda>revision.
     let next_state = (terminate_proposal state index Prop_Expired now)\<lparr>is_revision := revision\<rparr> in
     result_bind (validate_interaction_state env next_state limits) (\<lambda>_.
     Inr \<lparr>peo_state = next_state, peo_expired_proposals = [is_proposals next_state ! index]\<rparr>))))))))))"

end
