(* ===== verification/Interaction_Facts.thy ===== *)
theory Interaction_Facts
  imports Interaction_Events
begin

section \<open>What a valid interaction state is\<close>

text \<open>
  \<open>validate_interaction_state\<close> walks the variables, the active knowledge and the proposals with the
  sets of what it has seen.  Here the walk is replaced by what it decides: \<open>state_ok\<close>, a conjunction of
  conditions on the parts of the state, which the actions and the decisions are then shown to keep.
\<close>

subsection \<open>The checks as predicates\<close>

definition binding_ok :: "interaction_limits \<Rightarrow> variable_binding \<Rightarrow> bool" where
  "binding_ok limits b \<longleftrightarrow>
     ix_validate_variable_ref (vb_variable b) limits = Inr () \<and> ix_validate_variable_value (vb_value b) limits = Inr ()"

definition variables_ok :: "interaction_limits \<Rightarrow> variable_map \<Rightarrow> bool" where
  "variables_ok limits vs \<longleftrightarrow>
     length vs \<le> il_max_variables limits \<and> list_all (binding_ok limits) vs \<and> distinct (map vb_variable vs)"

definition entry_ok :: "interaction_limits \<Rightarrow> str \<Rightarrow> bool" where
  "entry_ok limits entry_id \<longleftrightarrow> ix_validate_identifier ''knowledge entry id'' entry_id limits = Inr ()"

definition knowledge_ok :: "interaction_limits \<Rightarrow> str list \<Rightarrow> bool" where
  "knowledge_ok limits ids \<longleftrightarrow>
     length ids \<le> DOMAIN_MAX_KNOWLEDGE_ENTRIES \<and> list_all (entry_ok limits) ids \<and> distinct ids"

definition proposal_status_ok :: "interaction_proposal_record \<Rightarrow> bool" where
  "proposal_status_ok p \<longleftrightarrow>
     (case ip_status p of
        Prop_Pending \<Rightarrow> ip_decided_at p = None
      | Prop_Expired \<Rightarrow>
          (case (ip_expires_at p, ip_decided_at p) of
             (Some expires_at, Some expired_at) \<Rightarrow> expired_at \<ge> expires_at | _ \<Rightarrow> False)
      | _ \<Rightarrow> ip_decided_at p \<noteq> None)"

definition proposal_ok :: "interaction_env \<Rightarrow> interaction_limits \<Rightarrow> nat \<Rightarrow> interaction_proposal_record \<Rightarrow> bool" where
  "proposal_ok env limits revision p \<longleftrightarrow>
     validate_proposal_fields limits revision p = Inr () \<and> proposal_status_ok p \<and>
     proposal_record_id env (ip_rule_set_id p) (ip_rule_id p) (ip_proposal_id p) (ip_source_revision p) = Inr (ip_id p)"

definition pending_ids :: "interaction_proposal_record list \<Rightarrow> str list" where
  "pending_ids ps = map ip_proposal_id (filter is_pending ps)"

definition proposals_ok ::
  "interaction_env \<Rightarrow> interaction_limits \<Rightarrow> nat \<Rightarrow> interaction_proposal_record list \<Rightarrow> bool" where
  "proposals_ok env limits revision ps \<longleftrightarrow>
     length ps \<le> il_max_proposals limits \<and> list_all (proposal_ok env limits revision) ps \<and>
     distinct (map ip_id ps) \<and> distinct (pending_ids ps) \<and> length (pending_ids ps) \<le> il_max_pending_proposals limits"

definition state_ok :: "interaction_env \<Rightarrow> interaction_limits \<Rightarrow> interaction_state \<Rightarrow> bool" where
  "state_ok env limits s \<longleftrightarrow>
     variables_ok limits (is_variables s) \<and> knowledge_ok limits (is_manually_active_knowledge s) \<and>
     proposals_ok env limits (is_revision s) (is_proposals s)"

subsection \<open>The walks decide them\<close>

lemma validate_bindings_conv:
  "(\<exists>T. try_fold (validate_binding limits) S vs = Inr T) \<longleftrightarrow>
     list_all (binding_ok limits) vs \<and> distinct (map vb_variable vs) \<and> S \<inter> vb_variable ` set vs = {}"
proof (induction vs arbitrary: S)
  case (Cons b vs)
  have "(\<exists>T. try_fold (validate_binding limits) S (b # vs) = Inr T) \<longleftrightarrow>
      binding_ok limits b \<and> vb_variable b \<notin> S \<and> (\<exists>T. try_fold (validate_binding limits) (insert (vb_variable b) S) vs = Inr T)"
    by (auto simp: validate_binding_def binding_ok_def result_simps)
  then show ?case by (auto simp: Cons.IH)
qed simp

lemma validate_entries_conv:
  "(\<exists>T. try_fold (validate_active_entry limits) S ids = Inr T) \<longleftrightarrow>
     list_all (entry_ok limits) ids \<and> distinct ids \<and> S \<inter> set ids = {}"
proof (induction ids arbitrary: S)
  case (Cons i ids)
  have "(\<exists>T. try_fold (validate_active_entry limits) S (i # ids) = Inr T) \<longleftrightarrow>
      entry_ok limits i \<and> i \<notin> S \<and> (\<exists>T. try_fold (validate_active_entry limits) (insert i S) ids = Inr T)"
    by (auto simp: validate_active_entry_def entry_ok_def result_simps)
  then show ?case by (auto simp: Cons.IH)
qed simp

lemma validate_proposal_status_conv:
  "validate_proposal_status p (R, P, n) = Inr seen \<longleftrightarrow>
     proposal_status_ok p \<and>
     (if is_pending p then ip_proposal_id p \<notin> P \<and> seen = (R, insert (ip_proposal_id p) P, saturating_add usize_max n 1)
      else seen = (R, P, n))"
  by (cases "ip_status p")
    (auto simp: validate_proposal_status_def proposal_status_ok_def is_pending_def result_simps split: option.splits)

lemma validate_proposal_conv:
  "validate_proposal env limits revision (R, P, n) p = Inr seen \<longleftrightarrow>
     proposal_ok env limits revision p \<and> ip_id p \<notin> R \<and>
     (if is_pending p then ip_proposal_id p \<notin> P \<and>
        seen = (insert (ip_id p) R, insert (ip_proposal_id p) P, saturating_add usize_max n 1)
      else seen = (insert (ip_id p) R, P, n))"
  by (auto simp: validate_proposal_def proposal_ok_def validate_proposal_status_conv result_simps split: if_splits)

lemma pending_ids_Cons:
  "pending_ids (p # ps) = (if is_pending p then ip_proposal_id p # pending_ids ps else pending_ids ps)"
  by (simp add: pending_ids_def)

lemma saturating_count: "n \<le> m \<Longrightarrow> min m (saturating_add m n 1 + k) = min m (n + Suc k)"
  by (simp add: saturating_add_def min_def)

lemma validate_proposals_conv:
  "n \<le> usize_max \<Longrightarrow>
   (\<exists>R' P'. try_fold (validate_proposal env limits revision) (R, P, n) ps = Inr (R', P', k)) \<longleftrightarrow>
     list_all (proposal_ok env limits revision) ps \<and> distinct (map ip_id ps) \<and> R \<inter> ip_id ` set ps = {} \<and>
     distinct (pending_ids ps) \<and> P \<inter> set (pending_ids ps) = {} \<and>
     k = min usize_max (n + length (pending_ids ps))"
proof (induction ps arbitrary: R P n)
  case (Cons p ps)
  show ?case
  proof (cases "is_pending p")
    case True
    have "(\<exists>R' P'. try_fold (validate_proposal env limits revision) (R, P, n) (p # ps) = Inr (R', P', k)) \<longleftrightarrow>
        proposal_ok env limits revision p \<and> ip_id p \<notin> R \<and> ip_proposal_id p \<notin> P \<and>
        (\<exists>R' P'. try_fold (validate_proposal env limits revision)
          (insert (ip_id p) R, insert (ip_proposal_id p) P, saturating_add usize_max n 1) ps = Inr (R', P', k))"
      using True by (auto simp: result_bind_Inr_conv validate_proposal_conv)
    then show ?thesis using True
      unfolding Cons.IH [OF saturating_add_le] saturating_count [OF Cons.prems] by (simp add: pending_ids_Cons) blast
  next
    case False
    have "(\<exists>R' P'. try_fold (validate_proposal env limits revision) (R, P, n) (p # ps) = Inr (R', P', k)) \<longleftrightarrow>
        proposal_ok env limits revision p \<and> ip_id p \<notin> R \<and>
        (\<exists>R' P'. try_fold (validate_proposal env limits revision) (insert (ip_id p) R, P, n) ps = Inr (R', P', k))"
      using False by (auto simp: result_bind_Inr_conv validate_proposal_conv)
    then show ?thesis using False
      unfolding Cons.IH [OF Cons.prems] by (simp add: pending_ids_Cons) blast
  qed
qed (auto simp: pending_ids_def min_def)

lemma limits_validate_same:
  "interaction_limits_validate limits = Inr l \<Longrightarrow> l = limits"
  by (auto simp: interaction_limits_validate_def result_simps)

lemma limits_validate_bounds:
  assumes "interaction_limits_validate limits = Inr l"
  shows "il_max_pending_proposals limits \<le> 64" "il_max_proposals limits \<le> 256" "il_max_dice_sides limits \<ge> 2"
  using assms
  by (auto simp: interaction_limits_validate_def result_simps MAX_INTERACTION_PROPOSALS_def
      DEFAULT_MAX_PENDING_INTERACTION_PROPOSALS_def)

lemma default_limits_valid: "interaction_limits_validate interaction_limits_default = Inr interaction_limits_default"
  by (simp add: interaction_limits_validate_def interaction_limits_default_def MAX_VARIABLES_def
      MAX_INTERACTION_PROPOSALS_def DEFAULT_MAX_PENDING_INTERACTION_PROPOSALS_def MAX_INTERACTION_NATIVE_TEXT_CHARS_def)

theorem validate_interaction_state_conv:
  assumes "interaction_limits_validate limits = Inr l"
  shows "validate_interaction_state env s limits = Inr u \<longleftrightarrow> state_ok env limits s"
proof -
  let ?walk = "try_fold (validate_proposal env limits (is_revision s)) ({}, {}, 0) (is_proposals s)"
  have small: "min usize_max k \<le> il_max_pending_proposals limits \<longleftrightarrow> k \<le> il_max_pending_proposals limits" for k
    using limits_validate_bounds(1) [OF assms] by (auto simp: usize_max_def min_def)
  have "(\<exists>R P k. ?walk = Inr (R, P, k) \<and> k \<le> il_max_pending_proposals limits) \<longleftrightarrow>
      (\<exists>k. (\<exists>R P. ?walk = Inr (R, P, k)) \<and> k \<le> il_max_pending_proposals limits)" by blast
  also have "\<dots> \<longleftrightarrow> list_all (proposal_ok env limits (is_revision s)) (is_proposals s) \<and>
      distinct (map ip_id (is_proposals s)) \<and> distinct (pending_ids (is_proposals s)) \<and>
      length (pending_ids (is_proposals s)) \<le> il_max_pending_proposals limits"
    by (subst validate_proposals_conv) (auto simp: small)
  finally have walk: "(\<exists>R P k. ?walk = Inr (R, P, k) \<and> k \<le> il_max_pending_proposals limits) \<longleftrightarrow>
      list_all (proposal_ok env limits (is_revision s)) (is_proposals s) \<and>
      distinct (map ip_id (is_proposals s)) \<and> distinct (pending_ids (is_proposals s)) \<and>
      length (pending_ids (is_proposals s)) \<le> il_max_pending_proposals limits" .
  have "validate_interaction_state env s limits = Inr u \<longleftrightarrow>
      length (is_variables s) \<le> il_max_variables limits \<and>
      (\<exists>T. try_fold (validate_binding limits) {} (is_variables s) = Inr T) \<and>
      length (is_manually_active_knowledge s) \<le> DOMAIN_MAX_KNOWLEDGE_ENTRIES \<and>
      (\<exists>T. try_fold (validate_active_entry limits) {} (is_manually_active_knowledge s) = Inr T) \<and>
      length (is_proposals s) \<le> il_max_proposals limits \<and>
      (\<exists>R P k. ?walk = Inr (R, P, k) \<and> k \<le> il_max_pending_proposals limits)"
    unfolding validate_interaction_state_def by (auto simp: result_bind_Inr_conv not_less)
  then show ?thesis
    unfolding walk validate_bindings_conv validate_entries_conv state_ok_def variables_ok_def knowledge_ok_def
      proposals_ok_def Int_empty_left by argo
qed

subsection \<open>Variables and knowledge\<close>

lemma replace_binding_ok:
  assumes "list_all (binding_ok limits) vs" "ix_validate_variable_value v limits = Inr ()"
  shows "list_all (binding_ok limits) (replace_binding key v vs)"
  using assms by (induction key v vs rule: replace_binding.induct) (auto simp: binding_ok_def)

lemma variable_map_insert_ok:
  assumes "variables_ok limits vs" "ix_validate_variable_ref key limits = Inr ()" "ix_validate_variable_value v limits = Inr ()"
    "length (variable_map_insert key v vs) \<le> il_max_variables limits"
  shows "variables_ok limits (variable_map_insert key v vs)"
proof -
  have "list_all (binding_ok limits) (variable_map_insert key v vs)"
  proof (cases "key \<in> vb_variable ` set vs")
    case True
    then show ?thesis using assms replace_binding_ok by (simp add: variable_map_insert_def variables_ok_def)
  next
    case False
    then show ?thesis using assms by (auto simp: variable_map_insert_def variables_ok_def list_all_iff binding_ok_def)
  qed
  then show ?thesis using assms variable_map_insert_distinct by (simp add: variables_ok_def)
qed

lemma variable_map_get_ok:
  "list_all (binding_ok limits) vs \<Longrightarrow> variable_map_get vs key = Some v \<Longrightarrow> ix_validate_variable_value v limits = Inr ()"
  by (induction vs) (auto simp: binding_ok_def split: if_splits)

lemma write_target_ref: "validate_write_target target p limits = Inr u \<Longrightarrow> ix_validate_variable_ref target limits = Inr ()"
  by (auto simp: validate_write_target_def result_simps)

lemma activate_ok:
  assumes "knowledge_ok limits ids" "entry_ok limits i" "i \<notin> set ids" "length ids < DOMAIN_MAX_KNOWLEDGE_ENTRIES"
  shows "knowledge_ok limits (sort_by cmp (ids @ [i]))"
  using assms by (auto simp: knowledge_ok_def list_all_iff)

subsection \<open>Proposals\<close>

text \<open>
  The documented behaviour of the digest and of its encoder: a SHA-256 digest has 32 bytes, and the
  encoder writes two lowercase hexadecimal digits for each byte.
\<close>

definition hex_digit :: "uchar \<Rightarrow> bool" where
  "hex_digit c \<longleftrightarrow> is_ascii_digit c \<or> 97 \<le> c \<and> c \<le> 102"

definition digest_contract :: "interaction_env \<Rightarrow> bool" where
  "digest_contract env \<longleftrightarrow>
     (\<forall>b. length (ie_sha256 env b) = 32) \<and>
     (\<forall>d. length (ie_hex_encode env d) = 2 * length d \<and> list_all hex_digit (ie_hex_encode env d))"

lemma hex_digit_identifier: "hex_digit c \<Longrightarrow> identifier_char c \<and> len_utf8 c = 1"
  by (auto simp: hex_digit_def identifier_char_def is_ascii_alphanumeric_def is_ascii_digit_def is_ascii_lowercase_def
      len_utf8_def)

lemma hex_text_identifier:
  "list_all hex_digit t \<Longrightarrow> list_all identifier_char t \<and> str_len t = length t"
  by (induction t) (auto simp: hex_digit_identifier)

lemma proposal_record_id_valid:
  assumes "digest_contract env" "64 \<le> il_max_identifier_bytes limits" "proposal_record_id env a b c n = Inr i"
  shows "ix_validate_identifier label i limits = Inr ()"
proof -
  obtain d where i: "i = ie_hex_encode env (ie_sha256 env d)"
    using assms(3) by (auto simp: proposal_record_id_def result_bind_Inr_conv)
  then have "length i = 64" and "list_all hex_digit i" using assms(1) by (simp_all add: digest_contract_def)
  then show ?thesis using hex_text_identifier [of i] assms(2) by (auto simp: ix_validate_identifier_def)
qed

lemma required_text_legacy:
  "validate_required_native_plain_text label v n limits = Inr u \<Longrightarrow>
     validate_legacy_stored_proposal_text label v n = Inr ()"
  by (auto simp: validate_required_native_plain_text_def validate_legacy_stored_proposal_text_def
      validate_native_plain_text_def validate_interaction_native_text_def result_simps)

text \<open>What a rule brings along for a proposal: the identifiers its compilation has checked.\<close>

definition application_ok :: "interaction_limits \<Rightarrow> action_application \<Rightarrow> bool" where
  "application_ok limits app \<longleftrightarrow>
     ix_validate_identifier ''proposal rule set id'' (aa_rule_set_id app) limits = Inr () \<and>
     ix_validate_identifier ''proposal rule id'' (aa_rule_id app) limits = Inr ()"

lemma append_pending_cases:
  assumes "append_pending_proposal env s rule_set_id rule_id proposal body now limits = Inr s'"
  obtains record_id expires_at where
    "0 \<le> now"
    "validate_legacy_stored_proposal_text ''proposal title'' (ps_title proposal) MAX_INTERACTION_PROPOSAL_TITLE_CHARS = Inr ()"
    "validate_legacy_stored_proposal_text ''proposal body'' body MAX_INTERACTION_PROPOSAL_BODY_CHARS = Inr ()"
    "length (is_proposals s) < il_max_proposals limits"
    "length (pending_ids (is_proposals s)) < il_max_pending_proposals limits"
    "ps_id proposal \<notin> set (pending_ids (is_proposals s))"
    "case expires_at of Some t \<Rightarrow> now \<le> t | None \<Rightarrow> True"
    "proposal_record_id env rule_set_id rule_id (ps_id proposal) (is_revision s) = Inr record_id"
    "record_id \<notin> ip_id ` set (is_proposals s)"
    "s' = s\<lparr>is_proposals := is_proposals s @
       [\<lparr>ip_id = record_id, ip_rule_set_id = rule_set_id, ip_rule_id = rule_id, ip_proposal_id = ps_id proposal,
         ip_title = ps_title proposal, ip_body = body, ip_status = Prop_Pending, ip_source_revision = is_revision s,
         ip_requested_at = now, ip_expires_at = expires_at, ip_decided_at = None\<rparr>]\<rparr>"
proof -
  have expiry: "case e of Some t \<Rightarrow> now \<le> t | None \<Rightarrow> True"
    if "(case ps_expires_after_seconds proposal of
         None \<Rightarrow> Inr None
       | Some seconds \<Rightarrow>
           result_bind (ok_or (InteractionFailure IF_NumericOverflow (lit ''proposal expiration time overflowed''))
             (i64_checked (now + int seconds))) (\<lambda>t. Inr (Some t))) = Inr e" for e
    using that by (auto simp: result_simps i64_checked_def split: option.splits if_splits)
  note facts = assms [unfolded append_pending_proposal_def result_bind_Inr_conv guard_err_Inr_conv not_le]
  from facts show thesis
    by (elim exE conjE)
      (rule that, auto simp: validate_epoch_seconds_def pending_ids_def list_ex_iff dest: required_text_legacy expiry)
qed

lemma append_pending_ok:
  assumes "append_pending_proposal env s (aa_rule_set_id app) (aa_rule_id app) proposal body now limits = Inr s'"
    and ok: "proposals_ok env limits (is_revision s) (is_proposals s)"
    and env: "digest_contract env" "64 \<le> il_max_identifier_bytes limits" and app: "application_ok limits app"
    and id: "ix_validate_identifier ''proposal id'' (ps_id proposal) limits = Inr ()"
  shows "proposals_ok env limits (is_revision s') (is_proposals s') \<and>
     (\<exists>p. s' = s\<lparr>is_proposals := is_proposals s @ [p]\<rparr> \<and> is_pending p)"
  using assms(1)
proof (cases rule: append_pending_cases)
  case (1 record_id expires_at)
  let ?p = "\<lparr>ip_id = record_id, ip_rule_set_id = aa_rule_set_id app, ip_rule_id = aa_rule_id app,
    ip_proposal_id = ps_id proposal, ip_title = ps_title proposal, ip_body = body, ip_status = Prop_Pending,
    ip_source_revision = is_revision s, ip_requested_at = now, ip_expires_at = expires_at, ip_decided_at = None\<rparr>"
  have "ix_validate_identifier ''proposal record id'' record_id limits = Inr ()"
    by (rule proposal_record_id_valid [OF env 1(8)])
  then have "validate_proposal_fields limits (is_revision s) ?p = Inr ()"
    using 1(1-3,7) app id by (auto simp: validate_proposal_fields_def application_ok_def validate_epoch_seconds_def split: option.splits)
  then have "proposal_ok env limits (is_revision s) ?p" using 1(8) by (simp add: proposal_ok_def proposal_status_ok_def)
  moreover have pending: "is_pending ?p" by (simp add: is_pending_def)
  moreover have "pending_ids (is_proposals s @ [?p]) = pending_ids (is_proposals s) @ [ps_id proposal]"
    using pending by (simp add: pending_ids_def)
  ultimately have "proposals_ok env limits (is_revision s) (is_proposals s @ [?p])"
    using ok 1(4-6,9) by (auto simp: proposals_ok_def)
  then show ?thesis using 1(10) pending by auto
qed

subsection \<open>Actions keep the state valid and write only what they may\<close>

definition writable :: "interaction_limits \<Rightarrow> provenance \<Rightarrow> variable_ref \<Rightarrow> bool" where
  "writable limits p target \<longleftrightarrow> validate_write_target target p limits = Inr ()"

text \<open>
  How the state may change while an event is handled: the revision stays, new pending proposals are
  appended, knowledge is only added, and of the variables only those that satisfy \<open>W\<close> change.
\<close>

definition evolves :: "(variable_ref \<Rightarrow> bool) \<Rightarrow> interaction_state \<Rightarrow> interaction_state \<Rightarrow> bool" where
  "evolves W s t \<longleftrightarrow>
     is_revision t = is_revision s \<and>
     (\<exists>new. is_proposals t = is_proposals s @ new \<and> list_all is_pending new) \<and>
     set (is_manually_active_knowledge s) \<subseteq> set (is_manually_active_knowledge t) \<and>
     (\<forall>v. W v \<or> variable_map_get (is_variables t) v = variable_map_get (is_variables s) v)"

lemma evolves_refl [simp]: "evolves W s s"
  by (simp add: evolves_def)

lemma evolves_trans:
  assumes "evolves W s t" "evolves W t u"
  shows "evolves W s u"
proof -
  obtain new1 new2 where "is_proposals t = is_proposals s @ new1" "list_all is_pending new1"
    "is_proposals u = is_proposals t @ new2" "list_all is_pending new2"
    using assms by (auto simp: evolves_def)
  then have "\<exists>new. is_proposals u = is_proposals s @ new \<and> list_all is_pending new"
    by (intro exI [of _ "new1 @ new2"]) simp
  then show ?thesis using assms unfolding evolves_def by (metis subset_trans)
qed

lemma evolves_mono: "evolves W s t \<Longrightarrow> (\<And>v. W v \<Longrightarrow> W' v) \<Longrightarrow> evolves W' s t"
  unfolding evolves_def by blast

lemma set_variable_ok:
  assumes ok: "state_ok env limits s" and allowed: "writable limits p target"
    and v: "ix_validate_variable_value v limits = Inr ()" and set: "set_variable (s, effects) target v = (t, effects')"
    and size: "length (is_variables t) \<le> il_max_variables limits"
  shows "state_ok env limits t \<and> evolves (writable limits p) s t"
proof -
  have t: "t = s\<lparr>is_variables := variable_map_insert target v (is_variables s)\<rparr>"
    using set by (auto simp: set_variable_def Let_def split: prod.splits)
  have "ix_validate_variable_ref target limits = Inr ()"
    using allowed write_target_ref by (auto simp: writable_def)
  with ok v size t have "variables_ok limits (is_variables t)" by (auto simp: state_ok_def intro: variable_map_insert_ok)
  moreover have "evolves (writable limits p) s t"
    using t allowed ok variable_map_get_insert [of "is_variables s" target v]
    by (auto simp: evolves_def state_ok_def variables_ok_def)
  ultimately show ?thesis using ok t by (simp add: state_ok_def)
qed

lemmas set_integer_ok = set_variable_ok [where v = "VInteger n" for n, OF _ _ ix_validate_variable_value.simps(6)]

lemma check_candidate_bounds:
  assumes "check_candidate limits (s, effects) = Inr u"
  shows "length (is_variables s) \<le> il_max_variables limits"
    "length (is_manually_active_knowledge s) \<le> DOMAIN_MAX_KNOWLEDGE_ENTRIES"
    "length effects \<le> il_max_effects limits"
  using assms by (simp_all add: check_candidate_def result_simps)

lemma perform_action_ok:
  assumes perform: "perform_action env limits app i (s, effects) action = Inr (t, effects')"
    and valid: "validate_action action (aa_provenance app) limits = Inr ()"
    and candidate: "check_candidate limits (t, effects') = Inr ()"
    and ok: "state_ok env limits s"
    and env: "digest_contract env" "64 \<le> il_max_identifier_bytes limits" and app: "application_ok limits app"
  shows "state_ok env limits t \<and> evolves (writable limits (aa_provenance app)) s t"
proof (cases action)
  case (Act_SetVariable target expr)
  obtain v where v: "resolve_value expr (is_variables s) = Inr v" "set_variable (s, effects) target v = (t, effects')"
    using perform Act_SetVariable by (auto simp: result_bind_Inr_conv)
  have "ix_validate_variable_value v limits = Inr ()"
  proof (cases expr)
    case (Val_Literal x)
    then show ?thesis using v valid Act_SetVariable by (simp add: result_bind_Inr_conv)
  next
    case (Val_Variable x)
    then show ?thesis using v ok variable_map_get_ok by (auto simp: state_ok_def variables_ok_def result_simps)
  qed
  moreover have "writable limits (aa_provenance app) target"
    using valid Act_SetVariable by (simp add: writable_def result_bind_Inr_conv)
  ultimately show ?thesis
    using set_variable_ok [OF ok] v(2) check_candidate_bounds(1) [OF candidate] by blast
next
  case (Act_IncrementVariable target amount)
  obtain v where "set_variable (s, effects) target (VInteger v) = (t, effects')"
    using perform Act_IncrementVariable by (auto simp: result_bind_Inr_conv)
  moreover have "writable limits (aa_provenance app) target"
    using valid Act_IncrementVariable by (simp add: writable_def)
  ultimately show ?thesis
    using set_integer_ok [OF ok] check_candidate_bounds(1) [OF candidate] by blast
next
  case (Act_ActivateKnowledge i)
  show ?thesis
  proof (cases "i \<in> set (is_manually_active_knowledge s)")
    case True
    then show ?thesis using perform ok Act_ActivateKnowledge by simp
  next
    case False
    then have t: "t = s\<lparr>is_manually_active_knowledge := sort_by cmp (is_manually_active_knowledge s @ [i])\<rparr>"
      using perform Act_ActivateKnowledge by simp
    moreover have "entry_ok limits i" using valid Act_ActivateKnowledge by (simp add: entry_ok_def)
    moreover have "length (is_manually_active_knowledge s) < DOMAIN_MAX_KNOWLEDGE_ENTRIES"
      using check_candidate_bounds(2) [OF candidate] t by simp
    ultimately show ?thesis using ok activate_ok False by (auto simp: state_ok_def evolves_def)
  qed
next
  case (Act_RollDice expression target)
  obtain n where
    "fst (case target of None \<Rightarrow> (s, effects) | Some variable \<Rightarrow> set_variable (s, effects) variable (VInteger n)) = t"
    using perform Act_RollDice by (auto simp: result_bind_Inr_conv case_prod_beta)
  then obtain effects0 where
    "(case target of None \<Rightarrow> (s, effects) | Some variable \<Rightarrow> set_variable (s, effects) variable (VInteger n)) =
       (t, effects0)" by (metis prod.collapse)
  moreover have "writable limits (aa_provenance app) x" if "target = Some x" for x
    using valid Act_RollDice that by (simp add: writable_def result_bind_Inr_conv)
  ultimately show ?thesis
    using set_integer_ok [OF ok] check_candidate_bounds(1) [OF candidate] ok by (cases target) auto
next
  case (Act_RequestUserApproval proposal)
  obtain body where "append_pending_proposal env s (aa_rule_set_id app) (aa_rule_id app) proposal body
      (ic_event_epoch_seconds (aa_context app)) limits = Inr t"
    using perform Act_RequestUserApproval by (auto simp: result_bind_Inr_conv)
  moreover have "ix_validate_identifier ''proposal id'' (ps_id proposal) limits = Inr ()"
    using valid Act_RequestUserApproval by (simp add: result_bind_Inr_conv)
  ultimately have "proposals_ok env limits (is_revision t) (is_proposals t) \<and>
      (\<exists>p. t = s\<lparr>is_proposals := is_proposals s @ [p]\<rparr> \<and> is_pending p)"
    using ok env app by (intro append_pending_ok) (auto simp: state_ok_def)
  then show ?thesis using ok by (auto simp: state_ok_def evolves_def)
qed (use perform ok in \<open>auto simp: result_bind_Inr_conv\<close>)

lemma apply_actions_ok:
  assumes acts: "apply_actions env limits app s actions = Inr ((t, effects), derived)"
    and ok: "state_ok env limits s"
    and env: "digest_contract env" "64 \<le> il_max_identifier_bytes limits" and app: "application_ok limits app"
  shows "state_ok env limits t \<and> evolves (writable limits (aa_provenance app)) s t"
proof -
  let ?P = "\<lambda>((t, effects), derived). state_ok env limits t \<and> evolves (writable limits (aa_provenance app)) s t"
  have "?P ((t, effects), derived)"
  proof (rule try_fold_invariant [where P = ?P])
    show "try_fold (action_step env limits app) ((s, []), []) (enumerate 0 actions) = Inr ((t, effects), derived)"
      using acts by (simp add: apply_actions_def)
    show "?P ((s, []), [])" using ok by simp
    fix st st' :: "action_state \<times> interaction_derived_event list" and ia
    assume P: "?P st" and step: "action_step env limits app st ia = Inr st'"
    obtain u eu du where st: "st = ((u, eu), du)" by (metis prod.collapse)
    obtain w ew dw where st': "st' = ((w, ew), dw)" by (metis prod.collapse)
    obtain i action where ia: "ia = (i, action)" by (cases ia)
    have "state_ok env limits w \<and> evolves (writable limits (aa_provenance app)) u w"
      using step P unfolding st st' ia action_step_def
      by (intro perform_action_ok [OF _ _ _ _ env app, of i u eu action w ew])
        (auto simp: result_bind_Inr_conv)
    then show "?P st'" using P evolves_trans by (auto simp: st st')
  qed
  then show ?thesis by simp
qed

subsection \<open>Events\<close>

definition compiled_ok :: "interaction_limits \<Rightarrow> interaction_compiled_rule \<Rightarrow> bool" where
  "compiled_ok limits c \<longleftrightarrow>
     ix_validate_identifier ''proposal rule set id'' (icr_set_id c) limits = Inr () \<and>
     ix_validate_identifier ''proposal rule id'' (ir_id (icr_rule c)) limits = Inr ()"

lemma application_of_ok: "compiled_ok limits c \<Longrightarrow> application_ok limits (application_of ctx seed run c)"
  by (simp add: compiled_ok_def application_ok_def application_of_def)

text \<open>A rule that handles the event and is reported as applied.\<close>

definition applied_rule ::
  "interaction_event \<Rightarrow> interaction_rule_trace list \<Rightarrow> interaction_compiled_rule \<Rightarrow> bool" where
  "applied_rule event trace c \<longleftrightarrow>
     ir_enabled (icr_rule c) \<and> icr_approved_for_execution c \<and> ir_event (icr_rule c) = event \<and>
     (\<exists>t \<in> set trace. irt_rule_id t = ir_id (icr_rule c) \<and> irt_status t = Rule_Applied)"

definition event_writable ::
  "interaction_limits \<Rightarrow> interaction_event \<Rightarrow> interaction_compiled_rule list \<Rightarrow> interaction_rule_trace list \<Rightarrow>
     variable_ref \<Rightarrow> bool" where
  "event_writable limits event rules trace v \<longleftrightarrow>
     (\<exists>c \<in> set rules. applied_rule event trace c \<and> writable limits (ir_provenance (icr_rule c)) v)"

lemma event_writable_mono:
  "event_writable limits event rules trace v \<Longrightarrow> set rules \<subseteq> set rules' \<Longrightarrow> set trace \<subseteq> set trace' \<Longrightarrow>
     event_writable limits event rules' trace' v"
  unfolding event_writable_def applied_rule_def by blast

text \<open>A rule either leaves everything but the report as it was, or commits what its actions did.\<close>

lemma run_rule_cases:
  assumes "run_rule env limits event ctx seed run c = (run', stop)"
  obtains (skipped) t where "run' = push_trace run t" "irt_status t \<noteq> Rule_Applied" "\<not> stop"
  | (committed) candidate n m where
      "ir_enabled (icr_rule c)" "icr_approved_for_execution c" "ir_event (icr_rule c) = event"
      "apply_actions env limits (application_of ctx seed run c) (er_state run) (ir_actions (icr_rule c)) = Inr candidate"
      "n = saturating_add usize_max (er_executed_actions run) (length (ir_actions (icr_rule c)))"
      "n \<le> il_max_actions_per_event limits" "m \<le> icr_set_action_limit c"
      "saturating_add usize_max (length (er_effects run)) (length (snd (fst candidate))) \<le> il_max_effects limits"
      "run' = commit_rule run c n m candidate"
  using assms unfolding run_rule_def Let_def
  by (auto split: if_splits sum.splits bool.splits simp: execute_rule_def Let_def rule_trace_def failed_trace_def
      budget_trace_def not_less)

definition run_ok :: "interaction_env \<Rightarrow> interaction_limits \<Rightarrow> event_run \<Rightarrow> bool" where
  "run_ok env limits run \<longleftrightarrow>
     state_ok env limits (er_state run) \<and> length (er_effects run) \<le> il_max_effects limits"

lemma run_rule_ok:
  assumes step: "run_rule env limits event ctx seed run c = (run', stop)" and run: "run_ok env limits run"
    and env: "digest_contract env" "64 \<le> il_max_identifier_bytes limits" and c: "compiled_ok limits c"
    and effects: "il_max_effects limits < usize_max"
  shows "run_ok env limits run' \<and> set (er_trace run) \<subseteq> set (er_trace run') \<and>
    evolves (event_writable limits event [c] (er_trace run')) (er_state run) (er_state run')"
  using step
proof (cases rule: run_rule_cases)
  case (skipped t)
  then show ?thesis using run by (auto simp: push_trace_def run_ok_def)
next
  case (committed candidate n m)
  obtain t effs derived where cand: "candidate = ((t, effs), derived)" by (metis prod.collapse)
  have acts: "state_ok env limits t \<and> evolves (writable limits (ir_provenance (icr_rule c))) (er_state run) t"
    using apply_actions_ok [of env limits "application_of ctx seed run c"] committed(4) run env
      application_of_ok [OF c] by (simp add: cand run_ok_def application_of_def)
  have parts: "er_state run' = t" "er_effects run' = er_effects run @ effs"
    "\<exists>r. er_trace run' = er_trace run @ [r] \<and> irt_rule_id r = ir_id (icr_rule c) \<and> irt_status r = Rule_Applied"
    using committed(9) by (simp_all add: cand commit_rule_def push_trace_def)
  then have writers: "writable limits (ir_provenance (icr_rule c)) v \<Longrightarrow> event_writable limits event [c] (er_trace run') v" for v
    using committed(1-3) by (auto simp: event_writable_def applied_rule_def)
  have "saturating_add usize_max (length (er_effects run)) (length effs) < usize_max"
    using committed(8) effects by (simp add: cand)
  then have "length (er_effects run') \<le> il_max_effects limits"
    using committed(8) saturating_add_less parts(2) by (simp add: cand)
  then show ?thesis using acts parts evolves_mono [OF _ writers] by (auto simp: run_ok_def)
qed

lemma run_rules_ok:
  assumes env: "digest_contract env" "64 \<le> il_max_identifier_bytes limits" and "list_all (compiled_ok limits) rules"
    and effects: "il_max_effects limits < usize_max" and "run_ok env limits run"
    and "run' = run_rules env limits event ctx seed run rules"
  shows "run_ok env limits run' \<and> set (er_trace run) \<subseteq> set (er_trace run') \<and>
    evolves (event_writable limits event rules (er_trace run')) (er_state run) (er_state run')"
  using assms(3,5,6)
proof (induction rules arbitrary: run)
  case (Cons c rules)
  obtain r stop where r: "run_rule env limits event ctx seed run c = (r, stop)" by fastforce
  note step = run_rule_ok [OF r Cons.prems(2) env _ effects]
  then have head: "run_ok env limits r \<and> set (er_trace run) \<subseteq> set (er_trace r) \<and>
      evolves (event_writable limits event [c] (er_trace r)) (er_state run) (er_state r)"
    using Cons.prems(1) by simp
  have tail: "run_ok env limits run' \<and> set (er_trace r) \<subseteq> set (er_trace run') \<and>
      evolves (event_writable limits event (c # rules) (er_trace run')) (er_state r) (er_state run')"
  proof (cases stop)
    case True
    then show ?thesis using head Cons.prems(3) r by simp
  next
    case False
    then have "run_ok env limits run' \<and> set (er_trace r) \<subseteq> set (er_trace run') \<and>
      evolves (event_writable limits event rules (er_trace run')) (er_state r) (er_state run')"
      using Cons r head by simp
    then show ?thesis using evolves_mono event_writable_mono by (metis order_refl set_subset_Cons)
  qed
  have "evolves (event_writable limits event (c # rules) (er_trace run')) (er_state run) (er_state r)"
  proof (rule evolves_mono)
    show "evolves (event_writable limits event [c] (er_trace r)) (er_state run) (er_state r)" using head by simp
    show "event_writable limits event (c # rules) (er_trace run') v" if "event_writable limits event [c] (er_trace r) v" for v
      using event_writable_mono [OF that] tail by simp
  qed
  then show ?case using head tail evolves_trans by blast
qed simp

lemma state_ok_revision:
  assumes "state_ok env limits s" "is_revision s \<le> n"
  shows "state_ok env limits (s\<lparr>is_revision := n\<rparr>)"
proof -
  have "proposal_ok env limits n p" if "proposal_ok env limits (is_revision s) p" for p
    using that assms(2) by (auto simp: proposal_ok_def validate_proposal_fields_def result_simps)
  then have "list_all (proposal_ok env limits n) (is_proposals s)"
    using assms(1) by (auto simp: state_ok_def proposals_ok_def list_all_iff)
  then show ?thesis using assms(1) by (simp add: state_ok_def proposals_ok_def)
qed

lemma next_revision_conv: "next_revision n = Inr m \<longleftrightarrow> m = n + 1 \<and> m \<le> u64_max"
  by (auto simp: next_revision_def result_simps width_simps)

end
