(* ===== verification/Step_Machines.thy ===== *)
theory Step_Machines
  imports Main
begin

section \<open>Machines that advance by steps\<close>

text \<open>
  Contracts shared by the durable state machines of the program.  The locale \<open>durable_machine\<close> is a state
  that is only ever replaced by the result of a step: an invariant and a preorder of histories that each
  step keeps.  A \<open>logged_run\<close> is a sequence of labelled steps with its log, and the locale \<open>logged_machine\<close>
  is an invariant of a state together with the log that led to it.
\<close>

locale durable_machine =
  fixes step :: "'s \<Rightarrow> 's \<Rightarrow> bool" and inv :: "'s \<Rightarrow> bool" and follows :: "'s \<Rightarrow> 's \<Rightarrow> bool"
  assumes step_inv: "inv s \<Longrightarrow> step s t \<Longrightarrow> inv t"
    and step_follows: "inv s \<Longrightarrow> step s t \<Longrightarrow> follows s t"
    and follows_refl: "follows s s"
    and follows_trans: "follows s t \<Longrightarrow> follows t u \<Longrightarrow> follows s u"
begin

lemma reachable:
  assumes "step\<^sup>*\<^sup>* s t" "inv s"
  shows "inv t \<and> follows s t"
  using assms
proof (induction rule: rtranclp_induct)
  case base
  then show ?case by (simp add: follows_refl)
next
  case (step t u)
  then show ?case using step_inv step_follows follows_trans by blast
qed

end

inductive logged_run :: "('s \<Rightarrow> 'l \<Rightarrow> 's \<Rightarrow> bool) \<Rightarrow> 's \<Rightarrow> 'l list \<Rightarrow> 's \<Rightarrow> bool" for step where
  run_start: "logged_run step s [] s"
| run_step: "logged_run step s log t \<Longrightarrow> step t l u \<Longrightarrow> logged_run step s (log @ [l]) u"

inductive_cases logged_run_NilE: "logged_run step s [] t"

lemma logged_run_Nil [simp]: "logged_run step s [] t \<longleftrightarrow> t = s"
  by (auto elim: logged_run_NilE intro: run_start)

lemma logged_run_snoc [simp]:
  "logged_run step s (log @ [l]) u \<longleftrightarrow> (\<exists>t. logged_run step s log t \<and> step t l u)"
  by (auto elim: logged_run.cases intro: run_step)

lemma logged_run_Cons:
  "step s l t \<Longrightarrow> logged_run step t log u \<Longrightarrow> logged_run step s (l # log) u"
proof (induction log arbitrary: u rule: rev_induct)
  case Nil
  then show ?case using run_step [OF run_start, of step s l t] by simp
next
  case (snoc m log)
  then obtain v where "logged_run step t log v" "step v m u" by auto
  with snoc show ?case by (metis append_Cons logged_run_snoc)
qed

locale logged_machine =
  fixes step :: "'s \<Rightarrow> 'l \<Rightarrow> 's \<Rightarrow> bool" and inv :: "'l list \<Rightarrow> 's \<Rightarrow> bool"
  assumes logged_step: "inv log s \<Longrightarrow> step s l t \<Longrightarrow> inv (log @ [l]) t"
begin

lemma logged_invariant:
  assumes "logged_run step s log t" "inv [] s"
  shows "inv log t"
  using assms by (induction rule: logged_run.induct) (auto intro: logged_step)

text \<open>An entry of the log was made by a step from a state that satisfied the invariant with the log
  before it.\<close>

lemma logged_entry:
  assumes "logged_run step s log t" "inv [] s" "i < length log"
  shows "\<exists>u v. inv (take i log) u \<and> step u (log ! i) v"
  using assms
proof (induction rule: logged_run.induct)
  case (run_step s log t l u)
  then show ?case
    using logged_invariant [of s log t] by (cases "i < length log") (auto simp: nth_append less_Suc_eq)
qed simp

end

end
