(* ===== verification/Interaction_Machine.thy ===== *)
theory Interaction_Machine
  imports Interaction_Facts Step_Machines
begin

section \<open>The life of an interaction state\<close>

text \<open>
  The operations of the engine as a state machine: an event handled by a compiled engine, a decision,
  the expiry of one proposal and the sweep of the expired ones.  The locale \<open>durable_machine\<close> is
  interpreted on the step relation of the engine.
\<close>

subsection \<open>Compiled engines\<close>

definition engine_ok :: "interaction_engine \<Rightarrow> bool" where
  "engine_ok engine \<longleftrightarrow>
     interaction_limits_validate (ien_limits engine) = Inr (ien_limits engine) \<and>
     list_all (compiled_ok (ien_limits engine)) (ien_rules engine)"

text \<open>Where a compiled rule comes from.\<close>

definition compiled_from ::
  "interaction_limits \<Rightarrow> str set \<Rightarrow> interaction_rule_set list \<Rightarrow> interaction_compiled_rule \<Rightarrow> bool" where
  "compiled_from limits approved sets c \<longleftrightarrow>
     compiled_ok limits c \<and>
     (\<exists>rset \<in> set sets. icr_rule c \<in> set (irs_rules rset) \<and> icr_set_id c = irs_id rset \<and>
        rule_provenance_is_approved (irs_provenance rset) (ir_provenance (icr_rule c)) approved =
          Inr (icr_approved_for_execution c))"

lemma compile_rule_from:
  assumes "compile_rule limits approved rset (set_ids, ids, rules) rule = Inr (set_ids', ids', rules')"
    "rule \<in> set (irs_rules rset)" "rset \<in> set sets" "ix_validate_identifier ''interaction rule set id'' (irs_id rset) limits = Inr ()"
    "list_all (compiled_from limits approved sets) rules"
  shows "list_all (compiled_from limits approved sets) rules'"
  using assms
  by (auto simp: compile_rule_def result_bind_Inr_conv compiled_from_def compiled_ok_def ix_validate_identifier_def)

lemma compile_rule_set_from:
  assumes "compile_rule_set limits approved (set_ids, ids, rules) rset = Inr (set_ids', ids', rules')" "rset \<in> set sets"
    "list_all (compiled_from limits approved sets) rules"
  shows "list_all (compiled_from limits approved sets) rules'"
proof -
  have id: "ix_validate_identifier ''interaction rule set id'' (irs_id rset) limits = Inr ()"
    and fold: "try_fold (compile_rule limits approved rset) (insert (irs_id rset) set_ids, ids, rules) (irs_rules rset) =
      Inr (set_ids', ids', rules')"
    using assms(1) by (auto simp: compile_rule_set_def result_bind_Inr_conv)
  have "(\<lambda>(_, _, rules). list_all (compiled_from limits approved sets) rules) (set_ids', ids', rules')"
    by (rule try_fold_invariant [OF fold])
      (use assms(2,3) id compile_rule_from in \<open>auto split: prod.splits\<close>)
  then show ?thesis by simp
qed

lemma compile_ok:
  assumes "interaction_compile_with_options sets limits approved = Inr engine"
  shows "engine_ok engine" "ien_limits engine = limits"
    "\<And>c. c \<in> set (ien_rules engine) \<Longrightarrow> compiled_from limits approved sets c"
proof -
  obtain set_ids ids rules where limits: "interaction_limits_validate limits = Inr limits"
    and fold: "try_fold (compile_rule_set limits approved) ({}, {}, []) sets = Inr (set_ids, ids, rules)"
    and engine: "engine = \<lparr>ien_rules = sort_by cmp_compiled_rule rules, ien_limits = limits\<rparr>"
    using assms by (auto simp: interaction_compile_with_options_def Let_def result_bind_Inr_conv dest: limits_validate_same)
  have "(\<lambda>(_, _, rules). list_all (compiled_from limits approved sets) rules) (set_ids, ids, rules)"
    by (rule try_fold_invariant [OF fold]) (use compile_rule_set_from in \<open>auto split: prod.splits\<close>)
  then have origin: "c \<in> set (ien_rules engine) \<Longrightarrow> compiled_from limits approved sets c" for c
    by (simp add: engine list_all_iff)
  show "compiled_from limits approved sets c" if "c \<in> set (ien_rules engine)" for c using that by (rule origin)
  show "ien_limits engine = limits" by (simp add: engine)
  then show "engine_ok engine" using origin limits by (simp add: engine_ok_def list_all_iff compiled_from_def)
qed

subsection \<open>Events\<close>

lemma handle_event_ok:
  assumes event: "handle_event env engine s event ctx = Inr outcome" and engine: "engine_ok engine"
    and env: "digest_contract env" "64 \<le> il_max_identifier_bytes (ien_limits engine)"
    and effects: "il_max_effects (ien_limits engine) < usize_max"
  shows "state_ok env (ien_limits engine) s" "state_ok env (ien_limits engine) (io_state outcome)"
    "length (io_effects outcome) \<le> il_max_effects (ien_limits engine)"
    "evolves (event_writable (ien_limits engine) event (ien_rules engine) (io_trace outcome)) s
       ((io_state outcome)\<lparr>is_revision := is_revision s\<rparr>)"
    "is_revision (io_state outcome) = (if io_state_changed outcome then is_revision s + 1 else is_revision s)"
    "is_revision (io_state outcome) \<le> max u64_max (is_revision s)"
    "io_state_changed outcome \<or> interaction_state_eq (io_state outcome) s"
proof -
  let ?limits = "ien_limits engine"
  have limits: "interaction_limits_validate ?limits = Inr ?limits" using engine by (simp add: engine_ok_def)
  obtain run revision where s: "validate_interaction_state env s ?limits = Inr ()"
    and run: "run = run_rules env ?limits event ctx
      (event_seed (of_nat (ic_deterministic_seed ctx)) event (of_nat (is_revision s))) (initial_run s) (ien_rules engine)"
    and revision: "(if \<not> interaction_state_eq (er_state run) s then next_revision (is_revision s)
      else Inr (is_revision (er_state run))) = Inr revision"
    and outcome: "outcome = \<lparr>io_state = (er_state run)\<lparr>is_revision := revision\<rparr>, io_effects = er_effects run,
       io_derived_events = er_derived_events run, io_trace = er_trace run,
       io_state_changed = (\<not> interaction_state_eq (er_state run) s)\<rparr>"
    using event unfolding handle_event_def Let_def by (auto simp: result_bind_Inr_conv)
  show ok: "state_ok env ?limits s" using s validate_interaction_state_conv [OF limits] by simp
  have run_ok: "run_ok env ?limits run \<and> set (er_trace (initial_run s)) \<subseteq> set (er_trace run) \<and>
      evolves (event_writable ?limits event (ien_rules engine) (er_trace run)) (er_state (initial_run s)) (er_state run)"
    using engine ok by (intro run_rules_ok [OF env _ effects _ run]) (simp_all add: engine_ok_def run_ok_def initial_run_def)
  then have same: "is_revision (er_state run) = is_revision s" by (simp add: evolves_def initial_run_def)
  then have rev: "is_revision (io_state outcome) =
      (if io_state_changed outcome then is_revision s + 1 else is_revision s)"
    using revision by (auto simp: outcome next_revision_conv split: if_splits)
  then show "is_revision (io_state outcome) = (if io_state_changed outcome then is_revision s + 1 else is_revision s)" .
  show "is_revision (io_state outcome) \<le> max u64_max (is_revision s)"
    using revision same by (auto simp: outcome next_revision_conv split: if_splits)
  show "state_ok env ?limits (io_state outcome)"
    using run_ok rev same state_ok_revision [of env ?limits "er_state run" revision]
    by (simp add: run_ok_def outcome split: if_splits)
  show "length (io_effects outcome) \<le> il_max_effects ?limits" using run_ok by (simp add: run_ok_def outcome)
  show "evolves (event_writable ?limits event (ien_rules engine) (io_trace outcome)) s
       ((io_state outcome)\<lparr>is_revision := is_revision s\<rparr>)"
    using run_ok same by (simp add: outcome initial_run_def evolves_def)
  show "io_state_changed outcome \<or> interaction_state_eq (io_state outcome) s"
    using revision by (auto simp: outcome interaction_state_eq_def split: if_splits)
qed

subsection \<open>Decisions\<close>

lemma pending_ids_update:
  assumes "i < length ps" "is_pending (ps ! i)" "\<not> is_pending q"
  shows "distinct (pending_ids ps) \<Longrightarrow> distinct (pending_ids (ps[i := q]))"
    "length (pending_ids (ps[i := q])) < length (pending_ids ps)"
proof -
  let ?a = "take i ps" let ?b = "drop (Suc i) ps"
  have ps: "pending_ids ps = pending_ids ?a @ ip_proposal_id (ps ! i) # pending_ids ?b"
    using assms(2) by (subst id_take_nth_drop [OF assms(1)]) (simp add: pending_ids_def)
  have new: "pending_ids (ps[i := q]) = pending_ids ?a @ pending_ids ?b"
    using assms(3) by (simp add: upd_conv_take_nth_drop [OF assms(1)] pending_ids_def)
  show "distinct (pending_ids ps) \<Longrightarrow> distinct (pending_ids (ps[i := q]))" unfolding new ps by simp
  show "length (pending_ids (ps[i := q])) < length (pending_ids ps)" unfolding new ps by simp
qed

text \<open>The moment of a terminal status fits the life time of the proposal.\<close>

definition timely :: "interaction_proposal_status \<Rightarrow> int \<Rightarrow> interaction_proposal_record \<Rightarrow> bool" where
  "timely status now p \<longleftrightarrow>
     0 \<le> now \<and> ip_requested_at p \<le> now \<and>
     (case status of
        Prop_Pending \<Rightarrow> False
      | Prop_Expired \<Rightarrow> (\<exists>t. ip_expires_at p = Some t \<and> t \<le> now)
      | _ \<Rightarrow> (\<forall>t. ip_expires_at p = Some t \<longrightarrow> now < t))"

lemma terminated_ok:
  assumes "proposal_ok env limits revision p" "timely status now p"
  shows "proposal_ok env limits revision (p\<lparr>ip_status := status, ip_decided_at := Some now\<rparr>)"
  using assms
  by (cases status)
    (auto simp: proposal_ok_def proposal_status_ok_def validate_proposal_fields_def timely_def validate_epoch_seconds_def
      result_simps split: option.splits)

lemma terminate_ok:
  assumes ok: "state_ok env limits s" and i: "i < length (is_proposals s)" "is_pending (is_proposals s ! i)"
    and timely: "timely status now (is_proposals s ! i)"
  shows "state_ok env limits (terminate_proposal s i status now)"
proof -
  let ?ps = "is_proposals s"
  let ?q = "(?ps ! i)\<lparr>ip_status := status, ip_decided_at := Some now\<rparr>"
  have "proposal_ok env limits (is_revision s) (?ps ! i)"
    using ok i(1) by (simp add: state_ok_def proposals_ok_def list_all_length)
  then have q: "proposal_ok env limits (is_revision s) ?q" using timely by (rule terminated_ok)
  then have "list_all (proposal_ok env limits (is_revision s)) (?ps[i := ?q])"
    using ok i(1) by (auto simp: state_ok_def proposals_ok_def list_all_length nth_list_update)
  moreover have "\<not> is_pending ?q" using timely by (auto simp: timely_def is_pending_def)
  note updated = pending_ids_update [OF i this]
  moreover have "map ip_id (?ps[i := ?q]) = map ip_id ?ps" by (simp add: map_update list_update_same_conv i(1))
  ultimately show ?thesis using ok by (simp add: state_ok_def proposals_ok_def terminate_proposal_def)
qed

lemma find_pending_Inr:
  assumes "find_pending s proposal_id = Inr i"
  shows "i < length (is_proposals s)" "is_pending (is_proposals s ! i)" "ip_proposal_id (is_proposals s ! i) = proposal_id"
  using assms position_SomeD [of _ "is_proposals s" i] by (auto simp: find_pending_def ok_or_Inr_conv)

abbreviation decided_status :: "interaction_proposal_decision \<Rightarrow> interaction_proposal_status" where
  "decided_status decision \<equiv> (case decision of Decide_Approve \<Rightarrow> Prop_Approved | Decide_Reject \<Rightarrow> Prop_Rejected)"

definition terminated :: "interaction_proposal_status \<Rightarrow> int \<Rightarrow> interaction_proposal_record \<Rightarrow> interaction_proposal_record" where
  "terminated status now p = p\<lparr>ip_status := status, ip_decided_at := Some now\<rparr>"

lemmas default_state_ok = validate_interaction_state_conv [OF default_limits_valid]

lemma decide_pending_cases:
  assumes "decide_pending env s proposal_id decision expected now = Inr outcome"
  obtains i where "state_ok env interaction_limits_default s" "is_revision s = expected" "expected < u64_max"
    "i < length (is_proposals s)" "is_pending (is_proposals s ! i)" "ip_proposal_id (is_proposals s ! i) = proposal_id"
    "timely (decided_status decision) now (is_proposals s ! i)"
    "pdo_state outcome = (terminate_proposal s i (decided_status decision) now)\<lparr>is_revision := expected + 1\<rparr>"
    "pdo_proposal outcome = terminated (decided_status decision) now (is_proposals s ! i)"
    "pdo_event_after_commit outcome = (if decision = Decide_Approve then Some (Ev_UserAction proposal_id) else None)"
proof -
  obtain i where i: "find_pending s proposal_id = Inr i" and ok: "state_ok env interaction_limits_default s"
    and expected: "is_revision s = expected" "expected < u64_max"
    and timely: "timely (decided_status decision) now (is_proposals s ! i)"
    and outcome: "outcome = (let next_state = (terminate_proposal s i (decided_status decision) now)\<lparr>is_revision := expected + 1\<rparr>;
        proposal = is_proposals next_state ! i in
       \<lparr>pdo_state = next_state, pdo_proposal = proposal,
        pdo_event_after_commit = (if decision = Decide_Approve then Some (Ev_UserAction (ip_proposal_id proposal)) else None)\<rparr>)"
    using assms unfolding decide_pending_def Let_def default_limits_valid result_bind_simps
    by (cases decision)
      (auto simp: result_bind_Inr_conv default_state_ok revision_conflict_def next_revision_conv timely_def
        validate_epoch_seconds_def not_less not_le split: option.splits)
  show thesis
    by (rule that [OF ok expected find_pending_Inr [OF i] timely])
      (use find_pending_Inr [OF i] in \<open>simp_all add: outcome Let_def terminate_proposal_def terminated_def\<close>)
qed

lemma expire_one_cases:
  assumes "expire_pending_proposal env s proposal_id expected now = Inr outcome"
  obtains i where "state_ok env interaction_limits_default s" "is_revision s = expected" "expected < u64_max"
    "i < length (is_proposals s)" "is_pending (is_proposals s ! i)" "ip_proposal_id (is_proposals s ! i) = proposal_id"
    "timely Prop_Expired now (is_proposals s ! i)"
    "peo_state outcome = (terminate_proposal s i Prop_Expired now)\<lparr>is_revision := expected + 1\<rparr>"
    "peo_expired_proposals outcome = [terminated Prop_Expired now (is_proposals s ! i)]"
proof -
  obtain i where i: "find_pending s proposal_id = Inr i" and ok: "state_ok env interaction_limits_default s"
    and expected: "is_revision s = expected" "expected < u64_max"
    and timely: "timely Prop_Expired now (is_proposals s ! i)"
    and outcome: "outcome = (let next_state = (terminate_proposal s i Prop_Expired now)\<lparr>is_revision := expected + 1\<rparr> in
       \<lparr>peo_state = next_state, peo_expired_proposals = [is_proposals next_state ! i]\<rparr>)"
    using assms unfolding expire_pending_proposal_def Let_def default_limits_valid result_bind_simps
    by (auto simp: result_bind_Inr_conv default_state_ok revision_conflict_def next_revision_conv timely_def
        validate_epoch_seconds_def not_less not_le split: option.splits)
  show thesis
    by (rule that [OF ok expected find_pending_Inr [OF i] timely])
      (use find_pending_Inr [OF i] in \<open>simp_all add: outcome Let_def terminate_proposal_def terminated_def\<close>)
qed

subsection \<open>The sweep\<close>

lemma due_timely:
  assumes "proposal_ok env limits revision p" "is_due now p"
  shows "timely Prop_Expired now p"
  using assms
  by (auto simp: proposal_ok_def validate_proposal_fields_def is_due_def timely_def validate_epoch_seconds_def result_simps
      split: option.splits)

lemma expire_indices:
  assumes "distinct is" "\<forall>i \<in> set is. i < length (is_proposals s) \<and> is_pending (is_proposals s ! i) \<and>
      timely Prop_Expired now (is_proposals s ! i)" "state_ok env limits s"
  shows "\<exists>t. foldl (expire_index now) (s, expired) is = (t, expired @ map (\<lambda>i. terminated Prop_Expired now (is_proposals s ! i)) is) \<and>
     state_ok env limits t \<and> is_revision t = is_revision s \<and> is_variables t = is_variables s \<and>
     is_manually_active_knowledge t = is_manually_active_knowledge s \<and> length (is_proposals t) = length (is_proposals s) \<and>
     (\<forall>i < length (is_proposals s). is_proposals t ! i =
        (if i \<in> set is then terminated Prop_Expired now (is_proposals s ! i) else is_proposals s ! i))"
  using assms
proof (induction "is" arbitrary: s expired)
  case (Cons i js)
  let ?s = "terminate_proposal s i Prop_Expired now"
  have i: "i < length (is_proposals s)" "is_pending (is_proposals s ! i)" "timely Prop_Expired now (is_proposals s ! i)"
    using Cons.prems(2) by auto
  have ok: "state_ok env limits ?s" using terminate_ok [OF Cons.prems(3) i] .
  have nth: "is_proposals ?s ! j = (if j = i then terminated Prop_Expired now (is_proposals s ! i) else is_proposals s ! j)" for j
    using i(1) by (simp add: terminate_proposal_def terminated_def nth_list_update)
  have same: "map (\<lambda>j. terminated Prop_Expired now (is_proposals ?s ! j)) js =
      map (\<lambda>j. terminated Prop_Expired now (is_proposals s ! j)) js"
    using Cons.prems(1) nth by auto
  have frame: "is_revision ?s = is_revision s" "is_variables ?s = is_variables s" "length (is_proposals ?s) = length (is_proposals s)"
    "is_manually_active_knowledge ?s = is_manually_active_knowledge s" by (simp_all add: terminate_proposal_def)
  have "distinct js" "\<forall>j \<in> set js. j < length (is_proposals ?s) \<and> is_pending (is_proposals ?s ! j) \<and>
      timely Prop_Expired now (is_proposals ?s ! j)" using Cons.prems(1,2) nth frame by auto
  from Cons.IH [OF this ok, of "expired @ [is_proposals ?s ! i]"]
  obtain t where t: "foldl (expire_index now) (?s, expired @ [is_proposals ?s ! i]) js =
      (t, (expired @ [is_proposals ?s ! i]) @ map (\<lambda>j. terminated Prop_Expired now (is_proposals s ! j)) js)"
    "state_ok env limits t" "is_revision t = is_revision s" "is_variables t = is_variables s"
    "is_manually_active_knowledge t = is_manually_active_knowledge s" "length (is_proposals t) = length (is_proposals s)"
    "\<forall>j < length (is_proposals s). is_proposals t ! j =
        (if j \<in> set js then terminated Prop_Expired now (is_proposals ?s ! j) else is_proposals ?s ! j)"
    unfolding same frame by blast
  have "\<forall>j < length (is_proposals s). is_proposals t ! j =
        (if j \<in> set (i # js) then terminated Prop_Expired now (is_proposals s ! j) else is_proposals s ! j)"
    using t(7) nth Cons.prems(1) by auto
  moreover have "foldl (expire_index now) (s, expired) (i # js) =
      (t, expired @ map (\<lambda>j. terminated Prop_Expired now (is_proposals s ! j)) (i # js))"
    using t(1) nth [of i] by (simp add: expire_index_def Let_def)
  ultimately show ?case using t(2-6) by blast
qed simp

definition sweep :: "int \<Rightarrow> interaction_proposal_record list \<Rightarrow> interaction_proposal_record list" where
  "sweep now ps = map (\<lambda>p. if is_due now p then terminated Prop_Expired now p else p) ps"

definition due_indices :: "int \<Rightarrow> interaction_proposal_record list \<Rightarrow> nat list" where
  "due_indices now ps = map fst (filter (\<lambda>(index, p). is_due now p) (enumerate 0 ps))"

lemma due_indices_facts:
  shows "distinct (due_indices now ps)" "set (due_indices now ps) = {i. i < length ps \<and> is_due now (ps ! i)}"
    "map (\<lambda>i. ps ! i) (due_indices now ps) = filter (is_due now) ps"
proof -
  show "distinct (due_indices now ps)"
    unfolding due_indices_def by (rule distinct_map_filter) (simp del: enumerate_simps)
  show "set (due_indices now ps) = {i. i < length ps \<and> is_due now (ps ! i)}"
    by (force simp: due_indices_def in_set_enumerate_eq image_iff)
  have "map (\<lambda>(i, p). ps ! i) (filter (\<lambda>(i, p). is_due now p) (enumerate 0 ps)) =
      map snd (filter (\<lambda>(i, p). is_due now p) (enumerate 0 ps))"
    by (auto simp: in_set_enumerate_eq)
  also have "\<dots> = filter (is_due now) (map snd (enumerate 0 ps))"
    by (simp only: filter_map comp_def case_prod_beta')
  finally show "map (\<lambda>i. ps ! i) (due_indices now ps) = filter (is_due now) ps"
    by (simp add: due_indices_def comp_def case_prod_beta')
qed

lemma sweep_fold:
  assumes ok: "state_ok env limits s"
  obtains t where "foldl (expire_index now) (s, []) (due_indices now (is_proposals s)) =
      (t, map (terminated Prop_Expired now) (filter (is_due now) (is_proposals s)))"
    "state_ok env limits t" "t = s\<lparr>is_proposals := sweep now (is_proposals s)\<rparr>"
proof -
  let ?ps = "is_proposals s"
  have "timely Prop_Expired now (?ps ! i)" if "i < length ?ps" "is_due now (?ps ! i)" for i
    using due_timely that ok by (auto simp: state_ok_def proposals_ok_def list_all_length)
  then have "\<forall>i \<in> set (due_indices now ?ps). i < length ?ps \<and> is_pending (?ps ! i) \<and> timely Prop_Expired now (?ps ! i)"
    by (auto simp: due_indices_facts is_due_def)
  from expire_indices [OF due_indices_facts(1) this ok, of "[]"]
  obtain t where t: "foldl (expire_index now) (s, []) (due_indices now ?ps) =
      (t, map (\<lambda>i. terminated Prop_Expired now (?ps ! i)) (due_indices now ?ps))" "state_ok env limits t"
    "is_revision t = is_revision s" "is_variables t = is_variables s"
    "is_manually_active_knowledge t = is_manually_active_knowledge s" "length (is_proposals t) = length ?ps"
    "\<forall>i < length ?ps. is_proposals t ! i =
        (if i \<in> set (due_indices now ?ps) then terminated Prop_Expired now (?ps ! i) else ?ps ! i)"
    by auto
  have "map (\<lambda>i. terminated Prop_Expired now (?ps ! i)) (due_indices now ?ps) =
      map (terminated Prop_Expired now) (map (\<lambda>i. ?ps ! i) (due_indices now ?ps))" by simp
  moreover have "is_proposals t = sweep now ?ps"
    by (rule nth_equalityI) (use t(6,7) in \<open>simp_all add: sweep_def due_indices_facts\<close>)
  then have "t = s\<lparr>is_proposals := sweep now ?ps\<rparr>" using t(3-5) by (intro interaction_state.equality) simp_all
  ultimately show thesis using that t(1,2) unfolding due_indices_facts(3) by simp
qed

lemma expire_sweep_conv:
  assumes ok: "state_ok env interaction_limits_default s" and now: "0 \<le> now"
  shows "expire_pending_proposals env s (is_revision s) now =
    (if filter (is_due now) (is_proposals s) = [] then Inr \<lparr>peo_state = s, peo_expired_proposals = []\<rparr>
     else result_bind (next_revision (is_revision s)) (\<lambda>revision.
       Inr \<lparr>peo_state = s\<lparr>is_proposals := sweep now (is_proposals s), is_revision := revision\<rparr>,
         peo_expired_proposals = map (terminated Prop_Expired now) (filter (is_due now) (is_proposals s))\<rparr>))"
proof -
  obtain t where t: "foldl (expire_index now) (s, []) (due_indices now (is_proposals s)) =
      (t, map (terminated Prop_Expired now) (filter (is_due now) (is_proposals s)))"
    "state_ok env interaction_limits_default t" "t = s\<lparr>is_proposals := sweep now (is_proposals s)\<rparr>"
    using sweep_fold [OF ok] .
  have "due_indices now (is_proposals s) = [] \<longleftrightarrow> filter (is_due now) (is_proposals s) = []"
    using due_indices_facts(3) [of "is_proposals s" now] by (metis map_is_Nil_conv)
  moreover have "validate_interaction_state env s interaction_limits_default = Inr ()" using ok default_state_ok by simp
  moreover have "validate_interaction_state env (t\<lparr>is_revision := revision\<rparr>) interaction_limits_default = Inr ()"
    if "next_revision (is_revision s) = Inr revision" for revision
    using that t(2,3) state_ok_revision [OF t(2), of revision] default_state_ok by (simp add: next_revision_conv)
  ultimately show ?thesis
    using ok now t(1,3)
    unfolding expire_pending_proposals_def due_indices_def [symmetric] default_limits_valid
    by (cases "next_revision (is_revision s)")
      (simp_all add: validate_epoch_seconds_def revision_conflict_def Let_def)
qed

subsection \<open>The state machine\<close>

inductive interaction_step :: "interaction_env \<Rightarrow> interaction_state \<Rightarrow> interaction_state \<Rightarrow> bool" for env where
  event: "interaction_compile_with_options sets interaction_limits_default approved = Inr engine \<Longrightarrow>
    handle_event env engine s e ctx = Inr outcome \<Longrightarrow> interaction_step env s (io_state outcome)"
| decide: "decide_pending env s proposal_id decision expected now = Inr outcome \<Longrightarrow>
    interaction_step env s (pdo_state outcome)"
| expire: "expire_pending_proposal env s proposal_id expected now = Inr outcome \<Longrightarrow>
    interaction_step env s (peo_state outcome)"
| expire_all: "expire_pending_proposals env s expected now = Inr outcome \<Longrightarrow>
    interaction_step env s (peo_state outcome)"

text \<open>What may become of a proposal: it is decided once, or it stays as it is.\<close>

definition proposal_follows :: "interaction_proposal_record \<Rightarrow> interaction_proposal_record \<Rightarrow> bool" where
  "proposal_follows p q \<longleftrightarrow>
     q = p \<or> is_pending p \<and> (\<exists>status now. status \<noteq> Prop_Pending \<and> q = terminated status now p)"

text \<open>
  How the audit trail of proposals and the revision may change: proposals are never removed or
  reordered, and a state with the same revision has the same proposals and active knowledge.
\<close>

definition history :: "interaction_state \<Rightarrow> interaction_state \<Rightarrow> bool" where
  "history s t \<longleftrightarrow>
     is_revision s \<le> is_revision t \<and> length (is_proposals s) \<le> length (is_proposals t) \<and>
     list_all2 proposal_follows (is_proposals s) (take (length (is_proposals s)) (is_proposals t)) \<and>
     (is_revision s = is_revision t \<longrightarrow>
        is_proposals t = is_proposals s \<and> is_manually_active_knowledge t = is_manually_active_knowledge s)"

lemma proposal_follows_refl [simp]: "proposal_follows p p"
  by (simp add: proposal_follows_def)

lemma proposal_follows_trans: "proposal_follows p q \<Longrightarrow> proposal_follows q r \<Longrightarrow> proposal_follows p r"
  by (auto simp: proposal_follows_def is_pending_def terminated_def)

lemma history_refl: "history s s"
  by (simp add: history_def list_all2_refl)

lemma history_trans:
  assumes "history s t" "history t u"
  shows "history s u"
proof -
  let ?n = "length (is_proposals s)"
  have "list_all2 proposal_follows (take ?n (is_proposals t)) (take ?n (take (length (is_proposals t)) (is_proposals u)))"
    using assms(2) by (intro list_all2_takeI) (simp add: history_def)
  then have second: "list_all2 proposal_follows (take ?n (is_proposals t)) (take ?n (is_proposals u))"
    using assms(1) by (simp add: history_def min_absorb1)
  have "list_all2 proposal_follows (is_proposals s) (take ?n (is_proposals t))" using assms(1) by (simp add: history_def)
  then have "list_all2 proposal_follows (is_proposals s) (take ?n (is_proposals u))"
    using second proposal_follows_trans by (metis (no_types, lifting) list_all2_trans)
  then show ?thesis using assms by (auto simp: history_def)
qed

lemma update_follows:
  "i < length ps \<Longrightarrow> is_pending (ps ! i) \<Longrightarrow> status \<noteq> Prop_Pending \<Longrightarrow>
     list_all2 proposal_follows ps (ps[i := terminated status now (ps ! i)])"
  by (auto simp: list_all2_conv_all_nth nth_list_update proposal_follows_def)

lemma sweep_follows: "list_all2 proposal_follows ps (sweep now ps)"
  by (auto simp: sweep_def list_all2_conv_all_nth proposal_follows_def is_due_def)

text \<open>A decision or an expiry of one proposal, under the next revision.\<close>

lemma terminate_step:
  assumes "state_ok env limits s" "i < length (is_proposals s)" "is_pending (is_proposals s ! i)"
    "timely status now (is_proposals s ! i)" "t = (terminate_proposal s i status now)\<lparr>is_revision := is_revision s + 1\<rparr>"
  shows "state_ok env limits t \<and> history s t"
proof -
  have "state_ok env limits t"
    using state_ok_revision [OF terminate_ok [OF assms(1-4)]] assms(5) by (simp add: terminate_proposal_def)
  moreover have "status \<noteq> Prop_Pending" using assms(4) by (auto simp: timely_def)
  then have "history s t" using update_follows assms(2,3,5) by (auto simp: history_def terminate_proposal_def terminated_def)
  ultimately show ?thesis ..
qed

lemma event_history:
  assumes evolves: "evolves W s (t\<lparr>is_revision := is_revision s\<rparr>)"
    and revision: "is_revision t = (if changed then is_revision s + 1 else is_revision s)"
    and unchanged: "changed \<or> interaction_state_eq t s"
  shows "history s t"
proof -
  obtain new where new: "is_proposals t = is_proposals s @ new" using evolves by (auto simp: evolves_def)
  have "is_revision s = is_revision t \<Longrightarrow> interaction_state_eq t s" using revision unchanged by (auto split: if_splits)
  then show ?thesis using revision by (auto simp: history_def new list_all2_refl interaction_state_eq_def)
qed

text \<open>The limits the program runs with.\<close>

lemma default_limits_facts:
  "64 \<le> il_max_identifier_bytes interaction_limits_default" "il_max_effects interaction_limits_default < usize_max"
  by (simp_all add: interaction_limits_default_def usize_max_def)

lemma interaction_step_ok:
  assumes "interaction_step env s t" "digest_contract env"
  shows "state_ok env interaction_limits_default t \<and> history s t"
  using assms(1)
proof (cases rule: interaction_step.cases)
  case (event sets approved engine e ctx outcome)
  note engine = compile_ok(1,2) [OF event(2)]
  note facts = handle_event_ok [OF event(3) engine(1) assms(2), unfolded engine(2), OF default_limits_facts]
  show ?thesis using facts(2) event_history [OF facts(4,5,7)] event(1) by simp
next
  case (decide proposal_id decision expected now outcome)
  from decide(2) show ?thesis
    by (cases rule: decide_pending_cases) (rule terminate_step, use decide(1) in simp_all)
next
  case (expire proposal_id expected now outcome)
  from expire(2) show ?thesis
    by (cases rule: expire_one_cases) (rule terminate_step, use expire(1) in simp_all)
next
  case (expire_all expected now outcome)
  then have ok: "state_ok env interaction_limits_default s" and now: "0 \<le> now" and expected: "expected = is_revision s"
    by (auto simp: expire_pending_proposals_def default_limits_valid result_bind_Inr_conv default_state_ok
        validate_epoch_seconds_def revision_conflict_def)
  show ?thesis
  proof (cases "filter (is_due now) (is_proposals s) = []")
    case True
    then show ?thesis using expire_all ok history_refl by (auto simp: expected expire_sweep_conv [OF ok now])
  next
    case False
    then have t: "t = s\<lparr>is_proposals := sweep now (is_proposals s), is_revision := is_revision s + 1\<rparr>"
      using expire_all by (auto simp: expected expire_sweep_conv [OF ok now] result_bind_Inr_conv next_revision_conv)
    have "state_ok env interaction_limits_default (s\<lparr>is_proposals := sweep now (is_proposals s)\<rparr>)"
      using sweep_fold [OF ok] by metis
    from state_ok_revision [OF this, of "is_revision s + 1"] have "state_ok env interaction_limits_default t"
      by (simp add: t)
    moreover have "history s t" using sweep_follows by (simp add: history_def t sweep_def)
    ultimately show ?thesis ..
  qed
qed

interpretation interaction_machine: durable_machine
  "\<lambda>s t. digest_contract env \<and> interaction_step env s t" "state_ok env interaction_limits_default" history for env
  by unfold_locales (use interaction_step_ok history_refl history_trans in blast)+

end
