(* ===== verification/Interaction_Properties.thy ===== *)
theory Interaction_Properties
  imports Interaction_Machine
begin

section \<open>Properties of the interaction engine\<close>

text \<open>
  The invariant and the history of the durable state over every sequence of operations, the
  decision of a proposal, the writes of imported rules, and the dice.
\<close>

lemma map_sum_InrD: "map_sum f g r = Inr y \<Longrightarrow> \<exists>x. r = Inr x \<and> g x = y"
  by (cases r) simp_all

subsection \<open>Dice\<close>

lemma next_accepted_less: "rejection_limit \<noteq> 0 \<Longrightarrow> next_accepted rejection_limit state = (v, state') \<Longrightarrow> v < rejection_limit"
  by (induction rejection_limit state rule: next_accepted.induct)
    (subst (asm) (2) next_accepted.simps, auto split: prod.splits if_splits)

lemma next_bounded_range:
  assumes "0 < sides" "sides \<le> u32_max"
  shows "fst (next_bounded sides state) < sides"
proof -
  obtain v state' where next_v: "next_accepted (- 1 - (- 1) mod (of_nat sides :: u64)) state = (v, state')" by fastforce
  have sides: "unat (of_nat sides :: u64) = sides"
    using assms(2) by (simp add: unsigned_of_nat take_bit_nat_eq_self_iff u32_max_def)
  then have "unat (v mod of_nat sides) < sides" using assms(1) by (simp add: unat_mod)
  then show ?thesis using next_v assms(2) by (simp add: next_bounded_def Let_def try_from_or_def)
qed

lemma roll_steps:
  assumes "0 < sides" "sides \<le> u32_max" "i64_min \<le> acc" "acc + int (length xs) * int sides \<le> i64_max"
  shows "\<exists>g' new. try_fold (roll_step sides) (g, rolls, acc) xs = Inr (g', rolls @ new, acc + int (sum_list new)) \<and>
     length new = length xs \<and> (\<forall>r \<in> set new. 1 \<le> r \<and> r \<le> sides)"
  using assms(3,4)
proof (induction xs arbitrary: g rolls acc)
  case (Cons x xs)
  obtain v h where v: "next_bounded sides g = (v, h)" by fastforce
  then have small: "v < sides" using next_bounded_range [OF assms(1,2), of g] by simp
  have "int (v + 1) + int (length xs) * int sides \<le> int (length (x # xs)) * int sides"
    using small by (simp add: algebra_simps)
  then have bound: "acc + int (v + 1) + int (length xs) * int sides \<le> i64_max" using Cons.prems(2) by linarith
  moreover have "0 \<le> int (length xs) * int sides" by simp
  ultimately have "acc + int (v + 1) \<le> i64_max" by linarith
  then have "i64_checked (acc + int (v + 1)) = Some (acc + int (v + 1))"
    using Cons.prems(1) by (simp add: i64_checked_def)
  then have step: "roll_step sides (g, rolls, acc) x = Inr (h, rolls @ [v + 1], acc + int (v + 1))"
    by (simp add: roll_step_def v Let_def)
  have "i64_min \<le> acc + int (v + 1)" using Cons.prems(1) by simp
  from Cons.IH [OF this bound, of h "rolls @ [v + 1]"] obtain g' new where
    "try_fold (roll_step sides) (h, rolls @ [v + 1], acc + int (v + 1)) xs =
       Inr (g', (rolls @ [v + 1]) @ new, acc + int (v + 1) + int (sum_list new))"
    "length new = length xs" "\<forall>r \<in> set new. 1 \<le> r \<and> r \<le> sides" by blast
  then show ?case using step small by (intro exI [of _ g'] exI [of _ "(v + 1) # new"]) simp
qed simp

text \<open>
  C33. Rolling a dice expression that passed validation always returns, with exactly the requested number of
  rolls, each between one and the number of sides, and their sum plus the modifier as the total.
\<close>

theorem roll_dice_correct:
  assumes "validate_dice expression limits = Inr ()" "de_sides expression \<le> u32_max" "i64_min \<le> de_modifier expression"
  shows "\<exists>rolls. roll_dice expression seed = Inr (rolls, de_modifier expression + int (sum_list rolls)) \<and>
    length rolls = de_count expression \<and> (\<forall>r \<in> set rolls. 1 \<le> r \<and> r \<le> de_sides expression)"
proof -
  have valid: "0 < de_sides expression"
    "de_modifier expression + int (length [0..<de_count expression]) * int (de_sides expression) \<le> i64_max"
    using assms(1) by (auto simp: validate_dice_def Let_def i64_checked_def result_simps split: if_splits)
  from roll_steps [OF valid(1) assms(2,3) valid(2), of seed "[]"] obtain g' rolls where
    "try_fold (roll_step (de_sides expression)) (seed, [], de_modifier expression) [0..<de_count expression] =
       Inr (g', rolls, de_modifier expression + int (sum_list rolls))"
    "length rolls = de_count expression" "\<forall>r \<in> set rolls. 1 \<le> r \<and> r \<le> de_sides expression" by auto
  then show ?thesis by (simp add: roll_dice_def)
qed

definition sample_dice :: dice_expression where
  "sample_dice = \<lparr>de_count = 3, de_sides = 6, de_modifier = 2\<rparr>"

theorem roll_dice_correct_witness:
  "\<exists>rolls. roll_dice sample_dice 42 = Inr (rolls, 2 + int (sum_list rolls)) \<and> length rolls = 3 \<and> set rolls \<subseteq> {1..6}"
proof -
  have "validate_dice sample_dice interaction_limits_default = Inr ()" by code_simp
  from roll_dice_correct [OF this, of 42] show ?thesis
    by (auto simp: sample_dice_def u32_max_def i64_min_def)
qed

subsection \<open>The durable state\<close>

lemma interaction_reachable:
  assumes "digest_contract env" "(interaction_step env)\<^sup>*\<^sup>* s t" "validate_interaction_state env s interaction_limits_default = Inr ()"
  shows "state_ok env interaction_limits_default t \<and> history s t"
proof -
  have "(\<lambda>s t. digest_contract env \<and> interaction_step env s t)\<^sup>*\<^sup>* s t" using assms(1,2) by simp
  then show ?thesis using interaction_machine.reachable assms(3) default_state_ok by blast
qed

lemma interaction_reachable_proposal:
  assumes "digest_contract env" "(interaction_step env)\<^sup>*\<^sup>* s t" "validate_interaction_state env s interaction_limits_default = Inr ()"
    "i < length (is_proposals s)"
  shows "i < length (is_proposals t) \<and>
    (is_proposals t ! i = is_proposals s ! i \<or>
     ip_status (is_proposals s ! i) = Prop_Pending \<and> is_revision s < is_revision t \<and>
     (\<exists>status now. status \<noteq> Prop_Pending \<and>
        is_proposals t ! i = (is_proposals s ! i)\<lparr>ip_status := status, ip_decided_at := Some now\<rparr>))"
proof -
  let ?p = "is_proposals s ! i" let ?q = "is_proposals t ! i"
  have h: "history s t" using interaction_reachable [OF assms(1-3)] by simp
  then have "proposal_follows ?p (take (length (is_proposals s)) (is_proposals t) ! i)"
    using assms(4) unfolding history_def by (blast intro: list_all2_nthD)
  then have follows: "proposal_follows ?p ?q" using assms(4) by simp
  have "i < length (is_proposals t)" using h assms(4) by (simp add: history_def)
  moreover have "is_revision s < is_revision t" if "?q \<noteq> ?p"
    using h that unfolding history_def by (metis order_le_less)
  ultimately show ?thesis using follows unfolding proposal_follows_def is_pending_def terminated_def by metis
qed

text \<open>
  C5. Starting from a state that the engine accepts, every sequence of handled events, decisions and
  expiries ends in a state that the engine accepts again: valid bindings, distinct active knowledge, records
  with their derived identifiers, consistent times and no more proposals than the limits allow.
  The proposals form an append-only audit trail: a record is never removed or moved, only a pending
  record changes, and only by receiving a terminal status and its time, under a higher revision.
\<close>

theorem interaction_life_cycle:
  assumes "digest_contract env" "(interaction_step env)\<^sup>*\<^sup>* s t" "validate_interaction_state env s interaction_limits_default = Inr ()"
  shows "validate_interaction_state env t interaction_limits_default = Inr () \<and> is_revision s \<le> is_revision t \<and>
    (\<forall>i < length (is_proposals s). i < length (is_proposals t) \<and>
      (is_proposals t ! i = is_proposals s ! i \<or>
       ip_status (is_proposals s ! i) = Prop_Pending \<and> is_revision s < is_revision t \<and>
       (\<exists>status now. status \<noteq> Prop_Pending \<and>
          is_proposals t ! i = (is_proposals s ! i)\<lparr>ip_status := status, ip_decided_at := Some now\<rparr>)))"
  using interaction_reachable [OF assms] interaction_reachable_proposal [OF assms] default_state_ok
  by (simp add: history_def)

definition sample_interaction_env :: interaction_env where
  "sample_interaction_env =
     \<lparr>ie_sha256 = (\<lambda>_. replicate 32 0), ie_hex_encode = (\<lambda>d. replicate (2 * length d) 48), ie_show_decimal = (\<lambda>_. [])\<rparr>"

definition sample_pending :: interaction_proposal_record where
  "sample_pending =
     \<lparr>ip_id = replicate 64 48, ip_rule_set_id = lit ''set'', ip_rule_id = lit ''rule'', ip_proposal_id = lit ''ask'',
      ip_title = lit ''Title'', ip_body = lit ''Body'', ip_status = Prop_Pending, ip_source_revision = 3,
      ip_requested_at = 100, ip_expires_at = Some 200, ip_decided_at = None\<rparr>"

definition sample_interaction_state :: interaction_state where
  "sample_interaction_state =
     \<lparr>is_variables = [], is_manually_active_knowledge = [], is_proposals = [sample_pending], is_revision = 4\<rparr>"

definition sample_approved_state :: interaction_state where
  "sample_approved_state =
     sample_interaction_state\<lparr>is_proposals := [sample_pending\<lparr>ip_status := Prop_Approved, ip_decided_at := Some 150\<rparr>],
       is_revision := 5\<rparr>"

lemma sample_interaction_facts:
  shows "digest_contract sample_interaction_env"
    "validate_interaction_state sample_interaction_env sample_interaction_state interaction_limits_default = Inr ()"
    "(interaction_step sample_interaction_env)\<^sup>*\<^sup>* sample_interaction_state sample_approved_state"
proof -
  show "digest_contract sample_interaction_env"
    by (simp add: digest_contract_def sample_interaction_env_def hex_digit_def is_ascii_digit_def list_all_iff)
  show "validate_interaction_state sample_interaction_env sample_interaction_state interaction_limits_default = Inr ()"
    by code_simp
  have "map_sum (\<lambda>_. ()) pdo_state
      (decide_pending sample_interaction_env sample_interaction_state (lit ''ask'') Decide_Approve 4 150) =
      Inr sample_approved_state" by code_simp
  from map_sum_InrD [OF this] obtain outcome where
    "decide_pending sample_interaction_env sample_interaction_state (lit ''ask'') Decide_Approve 4 150 = Inr outcome"
    "pdo_state outcome = sample_approved_state" by blast
  then show "(interaction_step sample_interaction_env)\<^sup>*\<^sup>* sample_interaction_state sample_approved_state"
    using interaction_step.decide by (metis r_into_rtranclp)
qed

theorem interaction_life_cycle_witness:
  "(interaction_step sample_interaction_env)\<^sup>*\<^sup>* sample_interaction_state sample_approved_state \<and>
   validate_interaction_state sample_interaction_env sample_approved_state interaction_limits_default = Inr () \<and>
   ip_status (is_proposals sample_interaction_state ! 0) = Prop_Pending \<and>
   is_revision sample_interaction_state < is_revision sample_approved_state"
proof -
  have "0 < length (is_proposals sample_interaction_state)"
    "is_proposals sample_approved_state ! 0 \<noteq> is_proposals sample_interaction_state ! 0"
    by (simp_all add: sample_approved_state_def sample_interaction_state_def sample_pending_def)
  then show ?thesis
    using interaction_life_cycle [OF sample_interaction_facts(1,3,2)] sample_interaction_facts(3) by blast
qed

subsection \<open>Decisions\<close>

lemma find_pending_gone:
  assumes ok: "state_ok env limits s" and i: "i < length (is_proposals s)" "is_pending (is_proposals s ! i)"
    and status: "status \<noteq> Prop_Pending" and r: "r = (terminate_proposal s i status now)\<lparr>is_revision := n\<rparr>"
    and id: "ip_proposal_id (is_proposals s ! i) = proposal_id"
  shows "\<exists>m. find_pending r proposal_id = Inl (InteractionFailure IF_ProposalNotPending m)"
proof -
  let ?ps = "is_proposals s"
  have r_ps: "is_proposals r = ?ps[i := terminated status now (?ps ! i)]"
    by (simp add: r terminate_proposal_def terminated_def)
  have once: "distinct (pending_ids ?ps)" using ok by (simp add: state_ok_def proposals_ok_def)
  have "pending_ids ?ps = pending_ids (take i ?ps) @ proposal_id # pending_ids (drop (Suc i) ?ps)"
    using i(2) id by (subst id_take_nth_drop [OF i(1)]) (simp add: pending_ids_def)
  moreover have "pending_ids (is_proposals r) = pending_ids (take i ?ps) @ pending_ids (drop (Suc i) ?ps)"
    using status by (simp add: r_ps upd_conv_take_nth_drop [OF i(1)] pending_ids_def is_pending_def terminated_def)
  ultimately have "proposal_id \<notin> set (pending_ids (is_proposals r))" using once by simp
  then have "position (\<lambda>p. ip_proposal_id p = proposal_id \<and> is_pending p) (is_proposals r) = None"
    by (auto simp: position_None pending_ids_def)
  moreover have "terminated status now (?ps ! i) \<in> set (is_proposals r)" using i(1) by (simp add: r_ps set_update_memI)
  then have "list_ex (\<lambda>p. ip_proposal_id p = proposal_id) (is_proposals r)"
    unfolding list_ex_iff by (rule bexI [rotated]) (simp add: id terminated_def)
  ultimately show ?thesis by (simp add: find_pending_def)
qed

text \<open>
  C18. A proposal is decided exactly once.  A successful decision is made on a pending proposal of the
  expected revision, before its deadline; it yields an accepted state under the next revision, and
  exactly an approval announces a user action, the one named by the proposal.  Every later decision
  on that proposal fails: with a revision conflict when it expects any other revision, and otherwise
  because the proposal is no longer pending.
\<close>

theorem decided_exactly_once:
  assumes decided: "decide_pending env s proposal_id decision expected now = Inr outcome" and now': "0 \<le> now'"
  shows "is_revision s = expected \<and> is_revision (pdo_state outcome) = expected + 1 \<and>
    validate_interaction_state env (pdo_state outcome) interaction_limits_default = Inr () \<and>
    pdo_event_after_commit outcome = (case decision of Decide_Approve \<Rightarrow> Some (Ev_UserAction proposal_id) | Decide_Reject \<Rightarrow> None) \<and>
    ip_status (pdo_proposal outcome) = (case decision of Decide_Approve \<Rightarrow> Prop_Approved | Decide_Reject \<Rightarrow> Prop_Rejected) \<and>
    (\<forall>deadline. ip_expires_at (pdo_proposal outcome) = Some deadline \<longrightarrow> now < deadline) \<and>
    (\<exists>m. decide_pending env (pdo_state outcome) proposal_id decision' expected' now' =
       Inl (InteractionFailure (if expected' = expected + 1 then IF_ProposalNotPending else IF_RevisionConflict) m))"
  using decided
proof (cases rule: decide_pending_cases)
  case (1 i)
  have status: "decided_status decision \<noteq> Prop_Pending" by (cases decision) simp_all
  have "state_ok env interaction_limits_default (pdo_state outcome)"
    using terminate_step [OF 1(1,4,5,7)] 1(2,8) by simp
  then have valid: "validate_interaction_state env (pdo_state outcome) interaction_limits_default = Inr ()"
    using default_state_ok by simp
  obtain m where gone: "find_pending (pdo_state outcome) proposal_id = Inl (InteractionFailure IF_ProposalNotPending m)"
    using find_pending_gone [OF 1(1,4,5) status 1(8,6)] by blast
  have "ix_validate_identifier ''proposal id'' proposal_id interaction_limits_default = Inr ()"
    using decided by (auto simp: decide_pending_def result_bind_Inr_conv default_limits_valid)
  then have "\<exists>m. decide_pending env (pdo_state outcome) proposal_id decision' expected' now' =
       Inl (InteractionFailure (if expected' = expected + 1 then IF_ProposalNotPending else IF_RevisionConflict) m)"
    using valid gone now' 1(8)
    by (simp add: decide_pending_def default_limits_valid validate_epoch_seconds_def revision_conflict_def)
  moreover have "\<forall>deadline. ip_expires_at (pdo_proposal outcome) = Some deadline \<longrightarrow> now < deadline"
    using 1(7,9) by (cases decision) (auto simp: timely_def terminated_def)
  ultimately show ?thesis using 1 valid by (cases decision) (simp_all add: terminated_def)
qed

theorem decided_exactly_once_witness:
  "\<exists>outcome m. decide_pending sample_interaction_env sample_interaction_state (lit ''ask'') Decide_Approve 4 150 = Inr outcome \<and>
     pdo_event_after_commit outcome = Some (Ev_UserAction (lit ''ask'')) \<and>
     decide_pending sample_interaction_env (pdo_state outcome) (lit ''ask'') Decide_Reject 5 160 =
       Inl (InteractionFailure IF_ProposalNotPending m)"
proof -
  have "\<not> isl (decide_pending sample_interaction_env sample_interaction_state (lit ''ask'') Decide_Approve 4 150)"
    by code_simp
  then obtain outcome where
    "decide_pending sample_interaction_env sample_interaction_state (lit ''ask'') Decide_Approve 4 150 = Inr outcome"
    by (cases "decide_pending sample_interaction_env sample_interaction_state (lit ''ask'') Decide_Approve 4 150") auto
  then show ?thesis using decided_exactly_once [of _ _ _ _ _ _ outcome 160 Decide_Reject 5] by fastforce
qed

text \<open>
  The sweep of expired proposals never fails on a state that the engine accepts, unless there is something to
  expire and the revision is exhausted.  It gives every pending proposal whose deadline has
  passed, and no other, the status expired, reports exactly those, and touches nothing else.
\<close>

theorem expiry_sweep_exact:
  assumes "validate_interaction_state env s interaction_limits_default = Inr ()" "0 \<le> now" "is_revision s < u64_max"
  shows "\<exists>outcome. expire_pending_proposals env s (is_revision s) now = Inr outcome \<and>
    is_proposals (peo_state outcome) =
      map (\<lambda>p. if is_due now p then p\<lparr>ip_status := Prop_Expired, ip_decided_at := Some now\<rparr> else p) (is_proposals s) \<and>
    peo_expired_proposals outcome =
      map (\<lambda>p. p\<lparr>ip_status := Prop_Expired, ip_decided_at := Some now\<rparr>) (filter (is_due now) (is_proposals s)) \<and>
    is_variables (peo_state outcome) = is_variables s \<and>
    is_manually_active_knowledge (peo_state outcome) = is_manually_active_knowledge s \<and>
    is_revision (peo_state outcome) = (if list_ex (is_due now) (is_proposals s) then is_revision s + 1 else is_revision s)"
proof -
  have ok: "state_ok env interaction_limits_default s" using assms(1) default_state_ok by simp
  show ?thesis
  proof (cases "filter (is_due now) (is_proposals s) = []")
    case True
    then have none: "\<not> is_due now p" if "p \<in> set (is_proposals s)" for p using that by (simp add: filter_empty_conv)
    then have "map (\<lambda>p. if is_due now p then p\<lparr>ip_status := Prop_Expired, ip_decided_at := Some now\<rparr> else p) (is_proposals s) =
        is_proposals s" by (simp add: map_idI)
    then show ?thesis using True none by (auto simp: expire_sweep_conv [OF ok assms(2)] list_ex_iff)
  next
    case False
    then have "list_ex (is_due now) (is_proposals s)" by (auto simp: filter_empty_conv list_ex_iff)
    moreover have "next_revision (is_revision s) = Inr (is_revision s + 1)" using assms(3) by (simp add: next_revision_conv)
    ultimately show ?thesis using False
      by (simp add: expire_sweep_conv [OF ok assms(2)] sweep_def terminated_def [abs_def])
  qed
qed

theorem expiry_sweep_exact_witness:
  "\<exists>outcome. expire_pending_proposals sample_interaction_env sample_interaction_state 4 200 = Inr outcome \<and>
     map ip_status (peo_expired_proposals outcome) = [Prop_Expired] \<and> is_revision (peo_state outcome) = 5"
proof -
  have "is_due 200 sample_pending" by (simp add: is_due_def is_pending_def sample_pending_def)
  then show ?thesis
    using expiry_sweep_exact [OF sample_interaction_facts(2), of 200]
    by (auto simp: sample_interaction_state_def u64_max_def)
qed

subsection \<open>Imported rules\<close>

lemma approved_import:
  assumes "rule_provenance_is_approved set_provenance rule_provenance approved = Inr True"
    "is_imported set_provenance \<or> is_imported rule_provenance"
  shows "is_imported rule_provenance \<and> (\<exists>source. pv_source_id rule_provenance = Some source \<and> source \<in> approved)"
  using assms
  by (auto simp: rule_provenance_is_approved_def ix_imported_source_id_def result_bind_Inr_conv result_simps
      split: if_splits option.splits)

lemma imported_writable:
  assumes "writable limits p v" "is_imported p" "pv_source_id p = Some source"
  shows "vr_scope v = Scope_Module \<and> vr_namespace v = Some source"
  using assms by (simp add: writable_def validate_write_target_def result_bind_Inr_conv)

text \<open>
  C12. Handling an event changes a variable only through a rule that is enabled, listens to the event and is reported
  as applied; when the rule or its set is imported, its source has been approved, and the
  variable is a module variable in the namespace of that source.
\<close>

theorem imported_rules_confined:
  assumes compiled: "interaction_compile_with_options sets interaction_limits_default approved = Inr engine"
    and event: "handle_event env engine s event ctx = Inr outcome" and env: "digest_contract env"
    and changed: "variable_map_get (is_variables (io_state outcome)) v \<noteq> variable_map_get (is_variables s) v"
  shows "\<exists>rset \<in> set sets. \<exists>rule \<in> set (irs_rules rset).
    ir_enabled rule \<and> ir_event rule = event \<and>
    (\<exists>t \<in> set (io_trace outcome). irt_rule_id t = ir_id rule \<and> irt_status t = Rule_Applied) \<and>
    (is_imported (irs_provenance rset) \<or> is_imported (ir_provenance rule) \<longrightarrow>
     (\<exists>source. pv_source_id (ir_provenance rule) = Some source \<and> source \<in> approved \<and>
        vr_scope v = Scope_Module \<and> vr_namespace v = Some source))"
proof -
  note engine = compile_ok [OF compiled]
  note facts = handle_event_ok [OF event engine(1) env, unfolded engine(2), OF default_limits_facts]
  have "event_writable interaction_limits_default event (ien_rules engine) (io_trace outcome) v"
    using facts(4) changed by (auto simp: evolves_def)
  then obtain c where c: "c \<in> set (ien_rules engine)" "applied_rule event (io_trace outcome) c"
    "writable interaction_limits_default (ir_provenance (icr_rule c)) v" by (auto simp: event_writable_def)
  then obtain rset where rset: "rset \<in> set sets" "icr_rule c \<in> set (irs_rules rset)"
    "rule_provenance_is_approved (irs_provenance rset) (ir_provenance (icr_rule c)) approved = Inr True"
    using engine(3) [OF c(1)] by (auto simp: compiled_from_def applied_rule_def)
  show ?thesis
    using rset(1,2) c(2) approved_import [OF rset(3)] imported_writable [OF c(3)]
    by (intro bexI [of _ rset] bexI [of _ "icr_rule c"]) (auto simp: applied_rule_def)
qed

definition sample_variable :: variable_ref where
  "sample_variable = \<lparr>vr_scope = Scope_Module, vr_namespace = Some (lit ''pack''), vr_id = lit ''mood''\<rparr>"

definition sample_import :: provenance where
  "sample_import = \<lparr>pv_source_kind = ImportedPackage, pv_source_id = Some (lit ''pack''), pv_source_hash = None,
     pv_author = None, pv_license = None, pv_imported_at = None\<rparr>"

definition sample_rule_set :: interaction_rule_set where
  "sample_rule_set =
     \<lparr>irs_id = lit ''set'', irs_name = lit ''Set'', irs_schema_version = 1,
      irs_rules = [\<lparr>ir_id = lit ''rule'', ir_name = lit ''Rule'', ir_enabled = True, ir_imported_author_enabled = True,
        ir_event = Ev_ConversationOpened, ir_condition = None,
        ir_actions = [Act_SetVariable sample_variable (Val_Literal (VInteger 1))],
        ir_priority = 0, ir_stop_after_match = False, ir_provenance = sample_import\<rparr>],
      irs_max_actions_per_event = 4, irs_provenance = sample_import\<rparr>"

definition sample_context :: interaction_context where
  "sample_context =
     \<lparr>ic_deterministic_seed = 7, ic_event_epoch_seconds = 120, ic_model_capabilities = [],
      ic_template_values = \<lparr>itv_character_name = None, itv_user_name = None, itv_persona_name = None,
        itv_persona_description = None, itv_current_date = None, itv_current_time = None\<rparr>\<rparr>"

definition sample_engine :: interaction_engine where
  "sample_engine =
     \<lparr>ien_rules = [\<lparr>icr_set_id = lit ''set'', icr_rule = hd (irs_rules sample_rule_set),
        icr_approved_for_execution = True, icr_set_action_limit = 4\<rparr>],
      ien_limits = interaction_limits_default\<rparr>"

definition sample_changed_state :: interaction_state where
  "sample_changed_state =
     sample_interaction_state\<lparr>is_variables := [\<lparr>vb_variable = sample_variable, vb_value = VInteger 1\<rparr>]\<rparr>"

lemma sample_engine_compiled:
  "interaction_compile_with_options [sample_rule_set] interaction_limits_default {lit ''pack''} = Inr sample_engine"
  by code_simp

lemma sample_run:
  "er_state (run_rules sample_interaction_env interaction_limits_default Ev_ConversationOpened sample_context seed
     (initial_run sample_interaction_state) (ien_rules sample_engine)) = sample_changed_state"
  by code_simp

lemma sample_event_handled:
  "\<exists>outcome. handle_event sample_interaction_env sample_engine sample_interaction_state Ev_ConversationOpened sample_context =
     Inr outcome \<and> io_state outcome = sample_changed_state\<lparr>is_revision := 5\<rparr>"
proof -
  have limits: "ien_limits sample_engine = interaction_limits_default" by (simp add: sample_engine_def)
  have "next_revision (is_revision sample_interaction_state) = Inr 5"
    by (simp add: next_revision_conv sample_interaction_state_def u64_max_def)
  moreover have "validate_epoch_seconds ''interaction event time'' (ic_event_epoch_seconds sample_context) = Inr ()"
    by (simp add: validate_epoch_seconds_def sample_context_def)
  moreover have "\<not> interaction_state_eq sample_changed_state sample_interaction_state"
    by (simp add: interaction_state_eq_def sample_changed_state_def sample_interaction_state_def)
  ultimately show ?thesis
    unfolding handle_event_def limits Let_def using sample_interaction_facts(2) by (simp add: sample_run)
qed

theorem imported_rules_confined_witness:
  "\<exists>outcome. handle_event sample_interaction_env sample_engine sample_interaction_state Ev_ConversationOpened sample_context =
       Inr outcome \<and> is_revision (io_state outcome) = 5 \<and>
     (\<exists>t \<in> set (io_trace outcome). irt_status t = Rule_Applied) \<and> vr_namespace sample_variable = Some (lit ''pack'')"
proof -
  obtain outcome where
    outcome: "handle_event sample_interaction_env sample_engine sample_interaction_state Ev_ConversationOpened sample_context = Inr outcome"
    and state: "io_state outcome = sample_changed_state\<lparr>is_revision := 5\<rparr>"
    using sample_event_handled by blast
  have "variable_map_get (is_variables (io_state outcome)) sample_variable \<noteq>
      variable_map_get (is_variables sample_interaction_state) sample_variable"
    by (simp add: state sample_changed_state_def sample_interaction_state_def)
  from imported_rules_confined [OF sample_engine_compiled outcome sample_interaction_facts(1) this]
  have "\<exists>t \<in> set (io_trace outcome). irt_status t = Rule_Applied" "vr_namespace sample_variable = Some (lit ''pack'')"
    by (auto simp: sample_rule_set_def sample_import_def is_imported_def)
  then show ?thesis using outcome state by (intro exI [of _ outcome]) simp
qed

end
