(* ===== verification/Transform_Pipeline.thy ===== *)
theory Transform_Pipeline
  imports Interaction_Validation
begin

section \<open>Text transforms\<close>

text \<open>
  \<open>crates/orchestration/src/transforms.rs\<close>: sets of bounded search-and-replace rules, compiled once and
  applied to a text in one phase of a generation.  The regular expressions are the \<open>regex\<close> crate, a
  parameter of the model; a match is given by the positions of its groups, counted in characters (the
  crate gives byte offsets, always on character boundaries).
\<close>

subsection \<open>Data\<close>

datatype transform_phase =
    UserInputForRequest | ResolvedPrompt | ProviderOutputCanonical | DisplayOnly | MemoryInput

record transform_rule =
  tr_id :: str
  tr_name :: str
  tr_enabled :: bool
  tr_imported_enabled :: bool
  tr_imported_author_enabled :: bool
  tr_phase :: transform_phase
  tr_order :: int
  tr_pattern :: safe_regex
  tr_replacement :: str
  tr_condition :: "condition_expr option"
  tr_max_replacements :: nat
  tr_input_limit :: nat
  tr_output_limit :: nat
  tr_provenance :: provenance

record transform_set =
  ts_id :: str
  ts_name :: str
  ts_schema_version :: nat
  ts_enabled :: bool
  ts_imported_author_enabled :: bool
  ts_rules :: "transform_rule list"
  ts_max_rules_per_phase :: nat
  ts_max_output_chars :: nat
  ts_provenance :: provenance

record transform_trace =
  tt_rule_id :: str
  tt_applied :: bool
  tt_replacements :: nat
  tt_input_chars :: nat
  tt_output_chars :: nat
  tt_error :: "str option"

record transform_limits =
  tl_max_sets :: nat
  tl_max_rules :: nat
  tl_max_rules_per_phase :: nat
  tl_max_input_chars :: nat
  tl_max_output_chars :: nat
  tl_max_pattern_chars :: nat
  tl_max_replacement_chars :: nat
  tl_max_replacements_per_rule :: nat
  tl_regex_size_limit_bytes :: nat
  tl_regex_dfa_size_limit_bytes :: nat
  tl_max_diff_chars :: nat
  tl_max_condition_depth :: nat
  tl_max_condition_nodes :: nat

definition transform_limits_default :: transform_limits where
  "transform_limits_default =
     \<lparr>tl_max_sets = 64, tl_max_rules = 512, tl_max_rules_per_phase = 128, tl_max_input_chars = 256 * 1024,
      tl_max_output_chars = 256 * 1024, tl_max_pattern_chars = 4 * 1024, tl_max_replacement_chars = 8 * 1024,
      tl_max_replacements_per_rule = 10000, tl_regex_size_limit_bytes = 4 * 1024 * 1024,
      tl_regex_dfa_size_limit_bytes = 2 * 1024 * 1024, tl_max_diff_chars = 8 * 1024,
      tl_max_condition_depth = 16, tl_max_condition_nodes = 512\<rparr>"

datatype transform_failure_code =
    TF_InvalidLimits | TF_TooManySets | TF_TooManyRules | TF_TooManyRulesForPhase | TF_DuplicateSetId
  | TF_DuplicateRuleId | TF_InvalidIdentifier | TF_InvalidRuleLimit | TF_PatternTooLarge
  | TF_ReplacementTooLarge | TF_InvalidRegex | TF_InvalidReplacement | TF_InputLimitExceeded
  | TF_OutputLimitExceeded | TF_ConditionFailed | TF_ImportedRuleMissingSource

datatype transform_failure = TransformFailure (tf_code: transform_failure_code) (tf_message: str)

type_synonym 'a transform_outcome = "(transform_failure, 'a) result"

text \<open>\<open>return Err(TransformFailure::new(code, message))\<close> under a condition.\<close>

abbreviation tfail_if :: "bool \<Rightarrow> transform_failure_code \<Rightarrow> str \<Rightarrow> unit transform_outcome" where
  "tfail_if bad code message \<equiv> guard_err bad (TransformFailure code message)"

datatype transform_rule_status =
    TS_Applied | TS_NoMatch | TS_Disabled | TS_PendingImportApproval | TS_ResolvedPromptDisabled
  | TS_ConditionFalse | TS_Failed

record transform_diff =
  td_unchanged_prefix_chars :: nat
  td_before_fragment :: str
  td_after_fragment :: str
  td_unchanged_suffix_chars :: nat
  td_truncated :: bool

record transform_rule_execution_audit =
  ta_set_id :: str
  ta_before_sha256 :: str
  ta_after_sha256 :: "str option"
  ta_failure_code :: "transform_failure_code option"

record transform_rule_report =
  trr_trace :: transform_trace
  trr_status :: transform_rule_status
  trr_diff :: "transform_diff option"
  trr_execution_audit :: "transform_rule_execution_audit option"

datatype transform_output_rendering = NativePlainText

record transform_result =
  txr_phase :: transform_phase
  txr_original :: str
  txr_output :: str
  txr_changed :: bool
  txr_rendering :: transform_output_rendering
  txr_reports :: "transform_rule_report list"
  txr_diff :: "transform_diff option"
  txr_error :: "transform_failure option"

datatype replacement_token = Tok_Literal str | Tok_CaptureIndex nat | Tok_CaptureName str

datatype 're compiled_pattern = Pattern_Ready 're "replacement_token list" | Pattern_Invalid transform_failure

record 're transform_compiled_rule =
  tcr_set_id :: str
  tcr_set_enabled :: bool
  tcr_rule :: transform_rule
  tcr_approved_for_execution :: bool
  tcr_output_limit_chars :: nat
  tcr_compiled :: "'re compiled_pattern"

record 're transform_pipeline =
  tp_rules :: "'re transform_compiled_rule list"
  tp_limits :: transform_limits

record transform_context =
  tc_variables :: variable_map
  tc_model_capabilities :: "capability_key list"

text \<open>
  The \<open>regex\<close> crate: the builder with its options, the number and the names of the groups of an
  expression, and the captures of its successive matches, by index and by name.
\<close>

type_synonym span = "nat \<times> nat"

record regex_captures =
  rc_get :: "nat \<Rightarrow> span option"
  rc_name :: "str \<Rightarrow> span option"

record 're transform_env =
  tx_regex_build :: "str \<Rightarrow> bool \<Rightarrow> nat \<Rightarrow> nat \<Rightarrow> (str, 're) result"
  tx_captures_len :: "'re \<Rightarrow> nat"
  tx_capture_names :: "'re \<Rightarrow> str option list"
  tx_captures_iter :: "'re \<Rightarrow> str \<Rightarrow> regex_captures list"
  tx_sha256 :: "bytes \<Rightarrow> bytes"
  tx_hex_encode :: "bytes \<Rightarrow> str"

subsection \<open>Limits and identifiers\<close>

definition transform_limits_validate :: "transform_limits \<Rightarrow> transform_limits transform_outcome" where
  "transform_limits_validate limits =
     result_bind (tfail_if
       (tl_max_sets limits = 0 \<or> tl_max_rules limits = 0 \<or> tl_max_rules_per_phase limits = 0 \<or>
        tl_max_input_chars limits = 0 \<or> tl_max_output_chars limits = 0 \<or> tl_max_pattern_chars limits = 0 \<or>
        tl_max_replacement_chars limits = 0 \<or> tl_max_replacements_per_rule limits = 0 \<or>
        tl_regex_size_limit_bytes limits = 0 \<or> tl_regex_dfa_size_limit_bytes limits = 0 \<or>
        tl_max_diff_chars limits = 0 \<or> tl_max_condition_depth limits = 0 \<or> tl_max_condition_nodes limits = 0)
       TF_InvalidLimits (lit ''all transform limits must be non-zero'')) (\<lambda>_. Inr limits)"

fun phase_index :: "transform_phase \<Rightarrow> nat" where
  "phase_index UserInputForRequest = 0"
| "phase_index ResolvedPrompt = 1"
| "phase_index ProviderOutputCanonical = 2"
| "phase_index DisplayOnly = 3"
| "phase_index MemoryInput = 4"

text \<open>The derived \<open>Debug\<close> of a phase, for a message.\<close>

fun phase_debug :: "transform_phase \<Rightarrow> str" where
  "phase_debug UserInputForRequest = lit ''UserInputForRequest''"
| "phase_debug ResolvedPrompt = lit ''ResolvedPrompt''"
| "phase_debug ProviderOutputCanonical = lit ''ProviderOutputCanonical''"
| "phase_debug DisplayOnly = lit ''DisplayOnly''"
| "phase_debug MemoryInput = lit ''MemoryInput''"

definition tx_validate_identifier :: "string \<Rightarrow> str \<Rightarrow> unit transform_outcome" where
  "tx_validate_identifier label v =
     tfail_if (v = [] \<or> str_len v > 128 \<or> \<not> list_all identifier_char v) TF_InvalidIdentifier
       (lit label @ lit '' must contain only ASCII letters, digits, `.`, `_`, or `-` and fit 128 bytes'')"

definition saturating_u32 :: "nat \<Rightarrow> nat" where
  "saturating_u32 v = try_from_or u32_max u32_max v"

subsection \<open>Replacements\<close>

definition invalid_replacement :: "str \<Rightarrow> 'a transform_outcome" where
  "invalid_replacement message = Inl (TransformFailure TF_InvalidReplacement message)"

text \<open>The literal text before a dollar sign or the end, when there is any.\<close>

definition push_literal :: "replacement_token list \<Rightarrow> str \<Rightarrow> replacement_token list" where
  "push_literal tokens literal = (if literal = [] then tokens else tokens @ [Tok_Literal literal])"

definition capture_token :: "('re, 'b) transform_env_scheme \<Rightarrow> 're \<Rightarrow> str \<Rightarrow> replacement_token transform_outcome" where
  "capture_token env regex capture =
     (if list_all is_ascii_digit capture then
        case parse_u64 capture of
          None \<Rightarrow> invalid_replacement (lit ''replacement capture index is too large'')
        | Some index \<Rightarrow>
            if index \<ge> tx_captures_len env regex then
              invalid_replacement (lit ''replacement references unknown capture `$'' @ capture @ lit ''`'')
            else Inr (Tok_CaptureIndex index)
      else if Some capture \<notin> set (tx_capture_names env regex) then
        invalid_replacement (lit ''replacement references unknown capture `$'' @ capture @ lit ''`'')
      else Inr (Tok_CaptureName capture))"

text \<open>The name after a dollar sign, and what follows it.\<close>

definition capture_word :: "uchar \<Rightarrow> bool" where
  "capture_word c \<longleftrightarrow> is_ascii_alphanumeric c \<or> c = of_char CHR ''_''"

definition split_capture :: "str \<Rightarrow> (str \<times> str) transform_outcome" where
  "split_capture rest =
     (if take 1 rest = lit ''{'' then
        let inner = tl rest; capture = takeWhile (\<lambda>c. c \<noteq> of_char CHR ''}'') inner in
        if length capture = length inner then invalid_replacement (lit ''replacement capture has no closing `}`'')
        else if capture = [] then invalid_replacement (lit ''replacement capture name cannot be empty'')
        else Inr (capture, drop (length capture + 1) inner)
      else
        let capture = takeWhile capture_word rest in
        if capture = [] then
          invalid_replacement (lit ''replacement `$` must be followed by `$`, a capture number, or a capture name'')
        else Inr (capture, drop (length capture) rest))"

lemma split_capture_shorter: "split_capture rest = Inr (capture, after) \<Longrightarrow> length after < length rest"
  by (cases rest) (auto simp: split_capture_def invalid_replacement_def Let_def split: if_splits)

function parse_replacement_from ::
  "('re, 'b) transform_env_scheme \<Rightarrow> 're \<Rightarrow> replacement_token list \<Rightarrow> str \<Rightarrow> str \<Rightarrow> replacement_token list transform_outcome" where
  "parse_replacement_from env regex tokens literal [] = Inr (push_literal tokens literal)"
| "parse_replacement_from env regex tokens literal (c # rest) =
     (if c \<noteq> of_char CHR ''$'' then parse_replacement_from env regex tokens (literal @ [c]) rest
      else
        let tokens = push_literal tokens literal in
        if rest = [] then
          invalid_replacement (lit ''replacement has a dangling `$`; use `$$` for a literal dollar sign'')
        else if hd rest = of_char CHR ''$'' then
          parse_replacement_from env regex (tokens @ [Tok_Literal (lit ''$'')]) [] (tl rest)
        else
          case split_capture rest of
            Inl e \<Rightarrow> Inl e
          | Inr (capture, after) \<Rightarrow>
              result_bind (capture_token env regex capture) (\<lambda>token.
              parse_replacement_from env regex (tokens @ [token]) [] after))"
  by pat_completeness auto

termination
  by (relation "measure (\<lambda>(env, regex, tokens, literal, rest). length rest)")
    (auto dest: split_capture_shorter)

definition parse_replacement ::
  "('re, 'b) transform_env_scheme \<Rightarrow> str \<Rightarrow> 're \<Rightarrow> replacement_token list transform_outcome" where
  "parse_replacement env source regex = parse_replacement_from env regex [] [] source"

text \<open>The output and its running character count.\<close>

type_synonym bounded_text = "str \<times> nat"

definition push_bounded :: "nat \<Rightarrow> bounded_text \<Rightarrow> str \<Rightarrow> bounded_text transform_outcome" where
  "push_bounded max_output_chars st v =
     (case st of (output, output_chars) \<Rightarrow>
      result_bind (ok_or (TransformFailure TF_OutputLimitExceeded (lit ''transform output length overflowed''))
        (checked_add usize_max output_chars (length v))) (\<lambda>next_chars.
      result_bind (tfail_if (next_chars > max_output_chars) TF_OutputLimitExceeded
        (lit ''transform output would exceed '' @ show_nat max_output_chars @ lit '' characters'')) (\<lambda>_.
      Inr (output @ v, next_chars))))"

definition span_text :: "str \<Rightarrow> span \<Rightarrow> str" where
  "span_text input sp = slice (fst sp) (snd sp) input"

definition expand_token ::
  "nat \<Rightarrow> str \<Rightarrow> regex_captures \<Rightarrow> bounded_text \<Rightarrow> replacement_token \<Rightarrow> bounded_text transform_outcome" where
  "expand_token max_output_chars input captures st token =
     (case token of
        Tok_Literal v \<Rightarrow> push_bounded max_output_chars st v
      | Tok_CaptureIndex index \<Rightarrow>
          (case rc_get captures index of
             Some sp \<Rightarrow> push_bounded max_output_chars st (span_text input sp) | None \<Rightarrow> Inr st)
      | Tok_CaptureName name \<Rightarrow>
          (case rc_name captures name of
             Some sp \<Rightarrow> push_bounded max_output_chars st (span_text input sp) | None \<Rightarrow> Inr st))"

definition expand_replacement ::
  "nat \<Rightarrow> str \<Rightarrow> regex_captures \<Rightarrow> replacement_token list \<Rightarrow> bounded_text \<Rightarrow> bounded_text transform_outcome" where
  "expand_replacement max_output_chars input captures replacement st =
     try_fold (expand_token max_output_chars input captures) st replacement"

text \<open>The loop over the matches, with the end of the last one and the number of replacements.\<close>

fun replace_matches ::
  "nat \<Rightarrow> nat \<Rightarrow> str \<Rightarrow> replacement_token list \<Rightarrow> bounded_text \<Rightarrow> nat \<Rightarrow> nat \<Rightarrow> regex_captures list \<Rightarrow>
     (bounded_text \<times> nat \<times> nat) transform_outcome" where
  "replace_matches max_replacements max_output_chars input replacement st last_end replacements [] =
     Inr (st, last_end, replacements)"
| "replace_matches max_replacements max_output_chars input replacement st last_end replacements (captures # rest) =
     (if replacements \<ge> max_replacements then Inr (st, last_end, replacements)
      else case rc_get captures 0 of
        None \<Rightarrow> replace_matches max_replacements max_output_chars input replacement st last_end replacements rest
      | Some whole_match \<Rightarrow>
          result_bind (push_bounded max_output_chars st (slice last_end (fst whole_match) input)) (\<lambda>st.
          result_bind (expand_replacement max_output_chars input captures replacement st) (\<lambda>st.
          replace_matches max_replacements max_output_chars input replacement st (snd whole_match)
            (saturating_add u32_max replacements 1) rest)))"

definition replace_bounded ::
  "('re, 'b) transform_env_scheme \<Rightarrow> 're \<Rightarrow> replacement_token list \<Rightarrow> str \<Rightarrow> nat \<Rightarrow> nat \<Rightarrow> (str \<times> nat) transform_outcome" where
  "replace_bounded env regex replacement input max_replacements max_output_chars =
     result_bind (replace_matches max_replacements max_output_chars input replacement ([], 0) 0 0
       (tx_captures_iter env regex input)) (\<lambda>(st, last_end, replacements).
     result_bind (push_bounded max_output_chars st (drop last_end input)) (\<lambda>(output, _).
     Inr (output, replacements)))"

subsection \<open>Compilation\<close>

definition invalid_pattern :: "transform_failure_code \<Rightarrow> transform_rule \<Rightarrow> str \<Rightarrow> 're compiled_pattern" where
  "invalid_pattern code rule message =
     Pattern_Invalid (TransformFailure code (lit ''rule `'' @ tr_id rule @ lit ''` '' @ message))"

definition compile_rule_pattern ::
  "('re, 'b) transform_env_scheme \<Rightarrow> transform_rule \<Rightarrow> transform_limits \<Rightarrow> 're compiled_pattern" where
  "compile_rule_pattern env rule limits =
     (if length (rx_pattern (tr_pattern rule)) > tl_max_pattern_chars limits then
        invalid_pattern TF_PatternTooLarge rule (lit ''regex pattern exceeds the configured character limit'')
      else if length (tr_replacement rule) > tl_max_replacement_chars limits then
        invalid_pattern TF_ReplacementTooLarge rule (lit ''replacement exceeds the configured character limit'')
      else
        case tx_regex_build env (rx_pattern (tr_pattern rule)) (rx_case_insensitive (tr_pattern rule))
            (tl_regex_size_limit_bytes limits) (tl_regex_dfa_size_limit_bytes limits) of
          Inl error \<Rightarrow> invalid_pattern TF_InvalidRegex rule (lit ''regex is invalid: '' @ error)
        | Inr regex \<Rightarrow>
            (case parse_replacement env (tr_replacement rule) regex of
               Inl error \<Rightarrow> Pattern_Invalid error
             | Inr replacement \<Rightarrow> Pattern_Ready regex replacement))"

definition tx_imported_source_id :: "provenance \<Rightarrow> str option transform_outcome" where
  "tx_imported_source_id p =
     (if is_imported p then
        result_bind (ok_or (TransformFailure TF_ImportedRuleMissingSource
          (lit ''imported transform content requires a provenance source ID'')) (pv_source_id p)) (\<lambda>source.
        Inr (Some source))
      else Inr None)"

definition transform_rule_is_approved :: "provenance \<Rightarrow> transform_rule \<Rightarrow> str set \<Rightarrow> bool transform_outcome" where
  "transform_rule_is_approved set_provenance rule approved_import_source_ids =
     result_bind (tx_imported_source_id set_provenance) (\<lambda>set_source.
     result_bind (tx_imported_source_id (tr_provenance rule)) (\<lambda>rule_source.
     case set_source of
       Some source \<Rightarrow>
         result_bind (tfail_if (rule_source \<noteq> Some source) TF_ImportedRuleMissingSource
           (lit ''an imported transform set may contain only rules from the same imported source'')) (\<lambda>_.
         Inr (tr_imported_enabled rule \<and> source \<in> approved_import_source_ids))
     | None \<Rightarrow>
         Inr (case rule_source of
            None \<Rightarrow> True
          | Some source \<Rightarrow> tr_imported_enabled rule \<and> source \<in> approved_import_source_ids)))"

text \<open>The rule identifiers, the rules per phase of the set and of all sets, and the rules compiled so far.\<close>

type_synonym 're rule_compile_state = "str set \<times> nat list \<times> nat list \<times> 're transform_compiled_rule list"

definition count_phase :: "nat list \<Rightarrow> transform_phase \<Rightarrow> nat list" where
  "count_phase counts phase =
     counts[phase_index phase := saturating_add usize_max (counts ! phase_index phase) 1]"

definition tx_compile_rule ::
  "('re, 'b) transform_env_scheme \<Rightarrow> transform_limits \<Rightarrow> str set \<Rightarrow> transform_set \<Rightarrow> 're rule_compile_state \<Rightarrow>
     transform_rule \<Rightarrow> 're rule_compile_state transform_outcome" where
  "tx_compile_rule env limits approved tset st rule =
     (case st of (rule_ids, set_phase_counts, phase_counts, rules) \<Rightarrow>
      result_bind (tx_validate_identifier ''transform rule id'' (tr_id rule)) (\<lambda>_.
      result_bind (tfail_if (tr_id rule \<in> rule_ids) TF_DuplicateRuleId
        (lit ''duplicate transform rule id `'' @ tr_id rule @ lit ''`'')) (\<lambda>_.
      let set_phase_counts = count_phase set_phase_counts (tr_phase rule);
          phase_counts = count_phase phase_counts (tr_phase rule) in
      result_bind (tfail_if (set_phase_counts ! phase_index (tr_phase rule) > ts_max_rules_per_phase tset \<or>
          phase_counts ! phase_index (tr_phase rule) > tl_max_rules_per_phase limits) TF_TooManyRulesForPhase
        (lit ''transform phase '' @ phase_debug (tr_phase rule) @ lit '' exceeds its configured rule limit'')) (\<lambda>_.
      result_bind (tfail_if
          (tr_input_limit rule = 0 \<or> tr_input_limit rule > tl_max_input_chars limits \<or> tr_output_limit rule = 0 \<or>
           tr_output_limit rule > ts_max_output_chars tset \<or> tr_max_replacements rule = 0 \<or>
           tr_max_replacements rule > tl_max_replacements_per_rule limits) TF_InvalidRuleLimit
        (lit ''transform rule `'' @ tr_id rule @ lit ''` has an invalid input, output, or replacement limit'')) (\<lambda>_.
      result_bind (transform_rule_is_approved (ts_provenance tset) rule approved) (\<lambda>approved_for_execution.
      Inr (insert (tr_id rule) rule_ids, set_phase_counts, phase_counts,
        rules @ [\<lparr>tcr_set_id = ts_id tset, tcr_set_enabled = ts_enabled tset, tcr_rule = rule,
          tcr_approved_for_execution = approved_for_execution,
          tcr_output_limit_chars = min (tr_output_limit rule) (ts_max_output_chars tset),
          tcr_compiled = compile_rule_pattern env rule limits\<rparr>])))))))"

type_synonym 're set_compile_state = "str set \<times> str set \<times> nat list \<times> 're transform_compiled_rule list"

definition within_message :: "transform_set \<Rightarrow> string \<Rightarrow> nat \<Rightarrow> str" where
  "within_message tset what limit =
     lit ''transform set `'' @ ts_id tset @ lit ''` '' @ lit what @ lit '' limit must be within 1..='' @ show_nat limit"

definition tx_compile_set ::
  "('re, 'b) transform_env_scheme \<Rightarrow> transform_limits \<Rightarrow> str set \<Rightarrow> 're set_compile_state \<Rightarrow> transform_set \<Rightarrow>
     're set_compile_state transform_outcome" where
  "tx_compile_set env limits approved st tset =
     (case st of (set_ids, rule_ids, phase_counts, rules) \<Rightarrow>
      result_bind (tx_validate_identifier ''transform set id'' (ts_id tset)) (\<lambda>_.
      result_bind (tfail_if (ts_id tset \<in> set_ids) TF_DuplicateSetId
        (lit ''duplicate transform set id `'' @ ts_id tset @ lit ''`'')) (\<lambda>_.
      result_bind (tfail_if (ts_max_rules_per_phase tset = 0 \<or> ts_max_rules_per_phase tset > tl_max_rules_per_phase limits)
        TF_InvalidRuleLimit (within_message tset ''phase rule'' (tl_max_rules_per_phase limits))) (\<lambda>_.
      result_bind (tfail_if (ts_max_output_chars tset = 0 \<or> ts_max_output_chars tset > tl_max_output_chars limits)
        TF_InvalidRuleLimit (within_message tset ''output'' (tl_max_output_chars limits))) (\<lambda>_.
      result_bind (try_fold (tx_compile_rule env limits approved tset) (rule_ids, replicate 5 0, phase_counts, rules)
        (ts_rules tset)) (\<lambda>(rule_ids, _, phase_counts, rules).
      Inr (insert (ts_id tset) set_ids, rule_ids, phase_counts, rules)))))))"

definition cmp_transform_rule :: "'re transform_compiled_rule \<Rightarrow> 're transform_compiled_rule \<Rightarrow> ordering" where
  "cmp_transform_rule =
     cmp_then (cmp_on (\<lambda>c. phase_index (tr_phase (tcr_rule c))))
       (cmp_then (cmp_on (\<lambda>c. tr_order (tcr_rule c)))
         (cmp_then (cmp_on (\<lambda>c. tr_id (tcr_rule c))) (cmp_on tcr_set_id)))"

definition transform_compile_with_options ::
  "('re, 'b) transform_env_scheme \<Rightarrow> transform_set list \<Rightarrow> transform_limits \<Rightarrow> str set \<Rightarrow>
     're transform_pipeline transform_outcome" where
  "transform_compile_with_options env sets limits approved =
     result_bind (transform_limits_validate limits) (\<lambda>limits.
     result_bind (tfail_if (length sets > tl_max_sets limits) TF_TooManySets
       (lit ''transform set count '' @ show_nat (length sets) @ lit '' exceeds limit '' @ show_nat (tl_max_sets limits))) (\<lambda>_.
     let total_rules = sum_list (map (\<lambda>tset. length (ts_rules tset)) sets) in
     result_bind (tfail_if (total_rules > usize_max) TF_TooManyRules (lit ''transform rule count overflowed'')) (\<lambda>_.
     result_bind (tfail_if (total_rules > tl_max_rules limits) TF_TooManyRules
       (lit ''transform rule count '' @ show_nat total_rules @ lit '' exceeds limit '' @ show_nat (tl_max_rules limits))) (\<lambda>_.
     result_bind (try_fold (tx_compile_set env limits approved) ({}, {}, replicate 5 0, []) sets) (\<lambda>(_, _, _, rules).
     Inr \<lparr>tp_rules = sort_by cmp_transform_rule rules, tp_limits = limits\<rparr>)))))"

definition transform_compile ::
  "('re, 'b) transform_env_scheme \<Rightarrow> transform_set list \<Rightarrow> transform_limits \<Rightarrow> 're transform_pipeline transform_outcome" where
  "transform_compile env sets limits = transform_compile_with_options env sets limits {}"

definition transform_rule_count :: "'re transform_pipeline \<Rightarrow> nat" where
  "transform_rule_count pipeline = length (tp_rules pipeline)"

subsection \<open>Reports and differences\<close>

definition transform_text_sha256 :: "('re, 'b) transform_env_scheme \<Rightarrow> str \<Rightarrow> str" where
  "transform_text_sha256 env txt = tx_hex_encode env (tx_sha256 env (utf8 txt))"

definition unapplied_trace :: "transform_rule \<Rightarrow> str \<Rightarrow> str option \<Rightarrow> transform_trace" where
  "unapplied_trace rule input error =
     \<lparr>tt_rule_id = tr_id rule, tt_applied = False, tt_replacements = 0,
      tt_input_chars = saturating_u32 (length input), tt_output_chars = saturating_u32 (length input), tt_error = error\<rparr>"

definition skipped_report ::
  "('re, 'b) transform_env_scheme \<Rightarrow> str \<Rightarrow> transform_rule \<Rightarrow> transform_rule_status \<Rightarrow> str \<Rightarrow> transform_rule_report" where
  "skipped_report env set_id rule status input =
     \<lparr>trr_trace = unapplied_trace rule input None, trr_status = status, trr_diff = None,
      trr_execution_audit = Some \<lparr>ta_set_id = set_id, ta_before_sha256 = transform_text_sha256 env input,
        ta_after_sha256 = Some (transform_text_sha256 env input), ta_failure_code = None\<rparr>\<rparr>"

definition failed_report ::
  "('re, 'b) transform_env_scheme \<Rightarrow> str \<Rightarrow> transform_rule \<Rightarrow> str \<Rightarrow> transform_failure \<Rightarrow> transform_rule_report" where
  "failed_report env set_id rule input error =
     \<lparr>trr_trace = unapplied_trace rule input (Some (tf_message error)), trr_status = TS_Failed, trr_diff = None,
      trr_execution_audit = Some \<lparr>ta_set_id = set_id, ta_before_sha256 = transform_text_sha256 env input,
        ta_after_sha256 = None, ta_failure_code = Some (tf_code error)\<rparr>\<rparr>"

definition common_prefix :: "str \<Rightarrow> str \<Rightarrow> nat" where
  "common_prefix a b = length (takeWhile (\<lambda>(l, r). l = r) (zip a b))"

definition make_diff :: "str \<Rightarrow> str \<Rightarrow> nat \<Rightarrow> transform_diff" where
  "make_diff before after max_fragment_chars =
     (let pre = common_prefix before after;
          maximum_suffix = min (length before - pre) (length after - pre);
          suf = length (takeWhile (\<lambda>(l, r). l = r) (take maximum_suffix (zip (rev before) (rev after))));
          before_middle = slice pre (length before - suf) before;
          after_middle = slice pre (length after - suf) after in
      \<lparr>td_unchanged_prefix_chars = saturating_u32 pre, td_before_fragment = take max_fragment_chars before_middle,
       td_after_fragment = take max_fragment_chars after_middle, td_unchanged_suffix_chars = saturating_u32 suf,
       td_truncated = (length before_middle > max_fragment_chars \<or> length after_middle > max_fragment_chars)\<rparr>)"

subsection \<open>Application\<close>

type_synonym apply_state = "str \<times> transform_rule_report list"

definition condition_limits :: "transform_limits \<Rightarrow> interaction_limits" where
  "condition_limits limits =
     interaction_limits_default\<lparr>il_max_condition_depth := tl_max_condition_depth limits,
       il_max_condition_nodes := tl_max_condition_nodes limits, il_max_text_chars := tl_max_output_chars limits\<rparr>"

text \<open>What follows the guards of a rule: the limit on its input, its pattern and the replacement.\<close>

definition replace_with_rule ::
  "('re, 'b) transform_env_scheme \<Rightarrow> transform_limits \<Rightarrow> 're transform_compiled_rule \<Rightarrow> apply_state \<Rightarrow> apply_state" where
  "replace_with_rule env limits compiled st =
     (case st of (output, reports) \<Rightarrow>
      let rule = tcr_rule compiled;
          failed = (\<lambda>error. (output, reports @ [failed_report env (tcr_set_id compiled) rule output error])) in
      if length output > tr_input_limit rule then
        failed (TransformFailure TF_InputLimitExceeded
          (lit ''rule `'' @ tr_id rule @ lit ''` input has '' @ show_nat (length output) @
           lit '' characters; limit is '' @ show_nat (tr_input_limit rule)))
      else case tcr_compiled compiled of
        Pattern_Invalid error \<Rightarrow> failed error
      | Pattern_Ready regex replacement \<Rightarrow>
          (case replace_bounded env regex replacement output (tr_max_replacements rule)
              (min (tcr_output_limit_chars compiled) (tl_max_output_chars limits)) of
             Inl error \<Rightarrow> failed error
           | Inr (candidate, replacements) \<Rightarrow>
               if replacements = 0 then
                 (output, reports @ [skipped_report env (tcr_set_id compiled) rule TS_NoMatch output])
               else
                 (candidate, reports @
                   [\<lparr>trr_trace = \<lparr>tt_rule_id = tr_id rule, tt_applied = True, tt_replacements = replacements,
                       tt_input_chars = saturating_u32 (length output),
                       tt_output_chars = saturating_u32 (length candidate), tt_error = None\<rparr>,
                     trr_status = TS_Applied, trr_diff = Some (make_diff output candidate (tl_max_diff_chars limits)),
                     trr_execution_audit = Some \<lparr>ta_set_id = tcr_set_id compiled,
                       ta_before_sha256 = transform_text_sha256 env output,
                       ta_after_sha256 = Some (transform_text_sha256 env candidate), ta_failure_code = None\<rparr>\<rparr>])))"

definition apply_rule ::
  "('re, 'b) transform_env_scheme \<Rightarrow> transform_limits \<Rightarrow> transform_phase \<Rightarrow> transform_context \<Rightarrow> bool \<Rightarrow>
     're transform_compiled_rule \<Rightarrow> apply_state \<Rightarrow> apply_state" where
  "apply_rule env limits phase ctx allow_resolved_prompt compiled st =
     (case st of (output, reports) \<Rightarrow>
      let rule = tcr_rule compiled;
          skip = (\<lambda>status. (output, reports @ [skipped_report env (tcr_set_id compiled) rule status output])) in
      if \<not> tcr_set_enabled compiled \<or> \<not> tr_enabled rule then skip TS_Disabled
      else if \<not> tcr_approved_for_execution compiled then skip TS_PendingImportApproval
      else if phase = ResolvedPrompt \<and> \<not> allow_resolved_prompt then skip TS_ResolvedPromptDisabled
      else case (case tr_condition rule of
          None \<Rightarrow> Inr True
        | Some condition \<Rightarrow> evaluate_condition_ast condition (tc_variables ctx) (tc_model_capabilities ctx)
            (condition_limits limits)) of
        Inl error \<Rightarrow> (output, reports @ [failed_report env (tcr_set_id compiled) rule output
            (TransformFailure TF_ConditionFailed (if_message error))])
      | Inr False \<Rightarrow> skip TS_ConditionFalse
      | Inr True \<Rightarrow> replace_with_rule env limits compiled st)"

definition transform_apply ::
  "('re, 'b) transform_env_scheme \<Rightarrow> 're transform_pipeline \<Rightarrow> transform_phase \<Rightarrow> str \<Rightarrow> transform_context \<Rightarrow> bool \<Rightarrow>
     transform_result" where
  "transform_apply env pipeline phase input ctx allow_resolved_prompt =
     (let limits = tp_limits pipeline in
      if length input > tl_max_input_chars limits then
        \<lparr>txr_phase = phase, txr_original = input, txr_output = input, txr_changed = False, txr_rendering = NativePlainText,
         txr_reports = [], txr_diff = None,
         txr_error = Some (TransformFailure TF_InputLimitExceeded
           (lit ''transform input has '' @ show_nat (length input) @ lit '' characters; limit is '' @
            show_nat (tl_max_input_chars limits)))\<rparr>
      else
        case fold (apply_rule env limits phase ctx allow_resolved_prompt)
            (filter (\<lambda>c. tr_phase (tcr_rule c) = phase) (tp_rules pipeline)) (input, []) of
          (output, reports) \<Rightarrow>
            \<lparr>txr_phase = phase, txr_original = input, txr_output = output, txr_changed = (output \<noteq> input),
             txr_rendering = NativePlainText, txr_reports = reports,
             txr_diff = (if output \<noteq> input then Some (make_diff input output (tl_max_diff_chars limits)) else None),
             txr_error = None\<rparr>)"

definition preview_transform_rule ::
  "('re, 'b) transform_env_scheme \<Rightarrow> transform_rule \<Rightarrow> str \<Rightarrow> transform_context \<Rightarrow> transform_limits \<Rightarrow> str set \<Rightarrow> bool \<Rightarrow>
     transform_result transform_outcome" where
  "preview_transform_rule env rule input ctx limits approved allow_resolved_prompt =
     (let tset = \<lparr>ts_id = lit ''preview'', ts_name = lit ''Transform preview'', ts_schema_version = 1, ts_enabled = True,
        ts_imported_author_enabled = False, ts_rules = [rule], ts_max_rules_per_phase = 1,
        ts_max_output_chars = tr_output_limit rule, ts_provenance = tr_provenance rule\<rparr> in
      result_bind (transform_compile_with_options env [tset] limits approved) (\<lambda>pipeline.
      Inr (transform_apply env pipeline (tr_phase rule) input ctx allow_resolved_prompt)))"

end
