(* ===== verification/Transform_Properties.thy ===== *)
theory Transform_Properties
  imports Transform_Pipeline
begin

section \<open>Properties of the text transforms\<close>

text \<open>
  The bounded replacement against a reference without bounds, the guards and the bounds of a whole
  pipeline, and the differences that the reports carry.
\<close>

subsection \<open>Replacement\<close>

text \<open>The text of a token and the replacement without limits.\<close>

definition token_text :: "str \<Rightarrow> regex_captures \<Rightarrow> replacement_token \<Rightarrow> str" where
  "token_text input captures token =
     (case token of
        Tok_Literal v \<Rightarrow> v
      | Tok_CaptureIndex index \<Rightarrow> (case rc_get captures index of Some sp \<Rightarrow> span_text input sp | None \<Rightarrow> [])
      | Tok_CaptureName name \<Rightarrow> (case rc_name captures name of Some sp \<Rightarrow> span_text input sp | None \<Rightarrow> []))"

definition expansion :: "str \<Rightarrow> regex_captures \<Rightarrow> replacement_token list \<Rightarrow> str" where
  "expansion input captures replacement = concat (map (token_text input captures) replacement)"

fun replace_all :: "str \<Rightarrow> replacement_token list \<Rightarrow> nat \<Rightarrow> regex_captures list \<Rightarrow> str" where
  "replace_all input replacement last_end [] = drop last_end input"
| "replace_all input replacement last_end (captures # rest) =
     (case rc_get captures 0 of
        None \<Rightarrow> replace_all input replacement last_end rest
      | Some sp \<Rightarrow> slice last_end (fst sp) input @ expansion input captures replacement @
          replace_all input replacement (snd sp) rest)"

definition is_match_of :: "regex_captures \<Rightarrow> bool" where
  "is_match_of captures \<longleftrightarrow> rc_get captures 0 \<noteq> None"

abbreviation too_long :: "transform_failure \<Rightarrow> bool" where
  "too_long e \<equiv> tf_code e = TF_OutputLimitExceeded"

text \<open>
  A computation that appends \<open>v\<close> to the text \<open>t\<close> within the limit \<open>m\<close>: its result is \<open>f\<close> of the whole text, or
  an error that says that the text would be too long.
\<close>

definition grows :: "nat \<Rightarrow> str \<Rightarrow> str \<Rightarrow> (str \<Rightarrow> 'r) \<Rightarrow> 'r transform_outcome \<Rightarrow> bool" where
  "grows m t v f r \<longleftrightarrow> (if length (t @ v) \<le> m then r = Inr (f (t @ v)) else \<exists>e. r = Inl e \<and> too_long e)"

abbreviation counted :: "str \<Rightarrow> bounded_text" where
  "counted t \<equiv> (t, length t)"

lemma grows_bind:
  assumes "grows m t v counted r" "length (t @ v) \<le> m \<Longrightarrow> grows m (t @ v) w f (k (counted (t @ v)))"
  shows "grows m t (v @ w) f (result_bind r k)"
  using assms by (cases "length (t @ v) \<le> m") (auto simp: grows_def)

lemma grows_Inr: "length t \<le> m \<Longrightarrow> r = f t \<Longrightarrow> grows m t [] f (Inr r)"
  by (simp add: grows_def)

lemma push_bounded_grows: "m \<le> usize_max \<Longrightarrow> grows m t v counted (push_bounded m (counted t) v)"
  by (cases "length t + length v \<le> usize_max") (auto simp: grows_def push_bounded_def checked_add_def)

lemma expand_token_grows:
  "m \<le> usize_max \<Longrightarrow> length t \<le> m \<Longrightarrow>
     grows m t (token_text input captures token) counted (expand_token m input captures (counted t) token)"
  by (auto simp: expand_token_def token_text_def push_bounded_grows grows_Inr [where f = counted]
      split: replacement_token.splits option.splits)

lemma expand_replacement_grows:
  assumes "m \<le> usize_max" "length t \<le> m"
  shows "grows m t (expansion input captures replacement) counted
    (expand_replacement m input captures replacement (counted t))"
  using assms(2)
proof (induction replacement arbitrary: t)
  case Nil
  then show ?case by (simp add: expand_replacement_def expansion_def grows_Inr [where f = counted])
next
  case (Cons token replacement)
  have "grows m t (token_text input captures token @ expansion input captures replacement) counted
     (result_bind (expand_token m input captures (counted t) token)
       (\<lambda>st. expand_replacement m input captures replacement st))"
    using expand_token_grows [OF assms(1) Cons.prems] Cons.IH by (rule grows_bind)
  then show ?case by (simp add: expand_replacement_def expansion_def)
qed

text \<open>The rest of \<open>replace_bounded\<close> after the loop.\<close>

definition finish_replace :: "nat \<Rightarrow> str \<Rightarrow> bounded_text \<times> nat \<times> nat \<Rightarrow> (str \<times> nat) transform_outcome" where
  "finish_replace m input = (\<lambda>(st, last_end, replacements).
     result_bind (push_bounded m st (drop last_end input)) (\<lambda>(output, _). Inr (output, replacements)))"

lemma finish_replace_grows:
  "m \<le> usize_max \<Longrightarrow> grows m t (drop last_end input) (\<lambda>out. (out, n)) (finish_replace m input (counted t, last_end, n))"
  using push_bounded_grows [of m t "drop last_end input"] by (auto simp: grows_def finish_replace_def)

lemma replace_matches_grows:
  assumes "m \<le> usize_max" "limit \<le> u32_max" "n \<le> limit" "length t \<le> m"
  shows "grows m t (replace_all input replacement last_end (take (limit - n) (filter is_match_of caps)))
    (\<lambda>out. (out, n + length (take (limit - n) (filter is_match_of caps))))
    (result_bind (replace_matches limit m input replacement (counted t) last_end n caps) (finish_replace m input))"
  using assms(3,4)
proof (induction caps arbitrary: t last_end n)
  case Nil
  then show ?case using finish_replace_grows [OF assms(1)] by simp
next
  case (Cons captures caps)
  show ?case
  proof (cases "n < limit \<and> is_match_of captures")
    case False
    show ?thesis
    proof (cases "n < limit")
      case True
      then have none: "\<not> is_match_of captures" using False by simp
      then have "rc_get captures 0 = None" unfolding is_match_of_def by blast
      then show ?thesis using True none Cons by simp
    next
      case False
      then show ?thesis using finish_replace_grows [OF assms(1)] Cons.prems(1) by simp
    qed
  next
    case True
    then obtain sp where sp: "rc_get captures 0 = Some sp" by (auto simp: is_match_of_def)
    let ?rest = "take (limit - Suc n) (filter is_match_of caps)"
    have count: "saturating_add u32_max n 1 = Suc n" using True assms(2) by (simp add: saturating_add_def)
    have split: "take (limit - n) (filter is_match_of (captures # caps)) = captures # ?rest"
      using True by (simp add: Suc_diff_Suc [symmetric])
    have tail: "grows m u (replace_all input replacement (snd sp) ?rest) (\<lambda>out. (out, Suc n + length ?rest))
      (result_bind (replace_matches limit m input replacement (counted u) (snd sp) (Suc n) caps) (finish_replace m input))"
      if "length u \<le> m" for u using Cons.IH [of "Suc n" u "snd sp"] True that by simp
    have "grows m t (slice last_end (fst sp) input @ expansion input captures replacement @
          replace_all input replacement (snd sp) ?rest) (\<lambda>out. (out, Suc n + length ?rest))
      (result_bind (push_bounded m (counted t) (slice last_end (fst sp) input)) (\<lambda>st.
       result_bind (expand_replacement m input captures replacement st) (\<lambda>st.
       result_bind (replace_matches limit m input replacement st (snd sp) (Suc n) caps) (finish_replace m input))))"
      by (intro grows_bind push_bounded_grows expand_replacement_grows tail assms(1))
    then show ?thesis using True sp count unfolding split by (simp add: result_bind_assoc)
  qed
qed

text \<open>The regular expression engine yields matches from left to right that do not overlap.\<close>

fun captures_in_order :: "nat \<Rightarrow> nat \<Rightarrow> regex_captures list \<Rightarrow> bool" where
  "captures_in_order len last_end [] \<longleftrightarrow> last_end \<le> len"
| "captures_in_order len last_end (captures # rest) \<longleftrightarrow>
     (case rc_get captures 0 of
        None \<Rightarrow> captures_in_order len last_end rest
      | Some sp \<Rightarrow> last_end \<le> fst sp \<and> fst sp \<le> snd sp \<and> captures_in_order len (snd sp) rest)"

lemma slice_slice_drop:
  "a \<le> b \<Longrightarrow> b \<le> c \<Longrightarrow> slice a b xs @ slice b c xs @ drop c xs = drop a xs"
proof -
  assume le: "a \<le> b" "b \<le> c"
  have "slice b c xs @ drop c xs = drop b xs"
    using le by (simp add: slice_def) (metis append_take_drop_id drop_drop le_add_diff_inverse2)
  moreover have "slice a b xs @ drop b xs = drop a xs"
    using le by (simp add: slice_def) (metis append_take_drop_id drop_drop le_add_diff_inverse2)
  ultimately show ?thesis by simp
qed

lemma replace_all_identity:
  "captures_in_order (length input) last_end caps \<Longrightarrow>
     replace_all input [Tok_CaptureIndex 0] last_end caps = drop last_end input"
  by (induction caps arbitrary: last_end)
    (auto simp: expansion_def token_text_def span_text_def slice_slice_drop split: option.splits)

lemma captures_in_order_le: "captures_in_order len last_end caps \<Longrightarrow> last_end \<le> len"
  by (induction caps arbitrary: last_end) (fastforce split: option.splits)+

lemma captures_in_order_take:
  "captures_in_order len last_end caps \<Longrightarrow> captures_in_order len last_end (take n (filter is_match_of caps))"
proof (induction caps arbitrary: last_end n)
  case (Cons captures caps)
  show ?case
  proof (cases "rc_get captures 0")
    case None
    then show ?thesis using Cons by (simp add: is_match_of_def)
  next
    case (Some sp)
    then show ?thesis using Cons captures_in_order_le [OF Cons.prems]
      by (cases n) (auto simp: is_match_of_def)
  qed
qed simp

text \<open>
  C24. Bounded replacement is replacement: for every regular expression engine, the result is the text
  with the first matches, up to the limit on their number, replaced by the expanded replacement and everything else
  kept, together with the number of replacements; and it fails, saying so, exactly when that text is longer than the
  output limit.  When the engine yields its matches in order, replacing them by themselves gives
  back the text.
\<close>

theorem replace_bounded_exact:
  assumes "max_output \<le> usize_max" "max_replacements \<le> u32_max"
  shows "(let matches = take max_replacements (filter is_match_of (tx_captures_iter env regex input));
      expected = replace_all input replacement 0 matches in
    if length expected \<le> max_output
    then replace_bounded env regex replacement input max_replacements max_output = Inr (expected, length matches)
    else \<exists>e. replace_bounded env regex replacement input max_replacements max_output = Inl e \<and>
      tf_code e = TF_OutputLimitExceeded) \<and>
    (captures_in_order (length input) 0 (tx_captures_iter env regex input) \<and> length input \<le> max_output \<longrightarrow>
     (\<exists>n. replace_bounded env regex [Tok_CaptureIndex 0] input max_replacements max_output = Inr (input, n)))"
proof -
  let ?matches = "take max_replacements (filter is_match_of (tx_captures_iter env regex input))"
  have main: "grows max_output [] (replace_all input replacement 0 ?matches) (\<lambda>out. (out, length ?matches))
      (replace_bounded env regex replacement input max_replacements max_output)" for replacement
    using replace_matches_grows [OF assms, of 0 "[]" input replacement 0 "tx_captures_iter env regex input"]
    unfolding replace_bounded_def finish_replace_def [symmetric] by simp
  have "replace_all input [Tok_CaptureIndex 0] 0 ?matches = input"
    if "captures_in_order (length input) 0 (tx_captures_iter env regex input)"
    using replace_all_identity [OF captures_in_order_take [OF that]] by simp
  then show ?thesis using main by (auto simp: grows_def Let_def)
qed

text \<open>An engine whose expressions are plain substrings.\<close>

definition sample_captures :: "str \<Rightarrow> str \<Rightarrow> regex_captures list" where
  "sample_captures pat t =
     map (\<lambda>(before, after). \<lparr>rc_get = (\<lambda>i. if i = 0 then Some (length before, length before + length pat) else None),
         rc_name = (\<lambda>_. None)\<rparr>) (match_indices t pat)"

definition sample_transform_env :: "str transform_env" where
  "sample_transform_env =
     \<lparr>tx_regex_build = (\<lambda>pat _ _ _. Inr pat), tx_captures_len = (\<lambda>_. 1), tx_capture_names = (\<lambda>_. [None]),
      tx_captures_iter = sample_captures, tx_sha256 = (\<lambda>_. replicate 32 0), tx_hex_encode = (\<lambda>d. replicate (2 * length d) 48)\<rparr>"

theorem replace_bounded_exact_witness:
  "replace_bounded sample_transform_env (lit ''cat'') [Tok_Literal (lit ''<''), Tok_CaptureIndex 0] (lit ''a cat, cat, cat'') 2 20 =
     Inr (lit ''a <cat, <cat, cat'', 2) \<and>
   (\<exists>n. replace_bounded sample_transform_env (lit ''cat'') [Tok_CaptureIndex 0] (lit ''a cat, cat, cat'') 2 20 =
     Inr (lit ''a cat, cat, cat'', n)) \<and>
   (\<exists>e. replace_bounded sample_transform_env (lit ''cat'') [Tok_Literal (lit ''tiger'')] (lit ''a cat, cat, cat'') 3 20 = Inl e \<and>
     tf_code e = TF_OutputLimitExceeded)"
proof -
  let ?t = "lit ''a cat, cat, cat''"
  let ?m = "\<lambda>k. take k (filter is_match_of (tx_captures_iter sample_transform_env (lit ''cat'') ?t))"
  have bounds: "(20 :: nat) \<le> usize_max" "(2 :: nat) \<le> u32_max" "(3 :: nat) \<le> u32_max"
    by (simp_all add: usize_max_def u32_max_def)
  have two: "length (?m 2) = 2" "replace_all ?t [Tok_Literal (lit ''<''), Tok_CaptureIndex 0] 0 (?m 2) = lit ''a <cat, <cat, cat''"
    and three: "length (replace_all ?t [Tok_Literal (lit ''tiger'')] 0 (?m 3)) = 21"
    and order: "captures_in_order (length ?t) 0 (tx_captures_iter sample_transform_env (lit ''cat'') ?t)"
    and len: "length ?t \<le> 20" "length (lit ''a <cat, <cat, cat'') \<le> 20"
    by code_simp+
  note exact = replace_bounded_exact [of 20 2 sample_transform_env "lit ''cat''" ?t "[Tok_Literal (lit ''<''), Tok_CaptureIndex 0]",
      unfolded Let_def two, OF bounds(1,2)]
  note long = replace_bounded_exact [of 20 3 sample_transform_env "lit ''cat''" ?t "[Tok_Literal (lit ''tiger'')]",
      unfolded Let_def three, OF bounds(1,3)]
  show ?thesis using exact long order len by simp
qed

subsection \<open>Differences\<close>

lemma common_prefix_facts:
  shows "take (common_prefix a b) a = take (common_prefix a b) b"
    "common_prefix a b \<le> length a" "common_prefix a b \<le> length b"
proof -
  show "take (common_prefix a b) a = take (common_prefix a b) b"
    by (induction a b rule: list_induct2') (auto simp: common_prefix_def)
  have "common_prefix a b \<le> length (zip a b)" unfolding common_prefix_def by (rule length_takeWhile_le)
  then show "common_prefix a b \<le> length a" "common_prefix a b \<le> length b" by simp_all
qed

text \<open>The text after a change, from the text before it and the difference.\<close>

definition patch :: "str \<Rightarrow> transform_diff \<Rightarrow> str" where
  "patch before d =
     take (td_unchanged_prefix_chars d) before @ td_after_fragment d @
     drop (length before - td_unchanged_suffix_chars d) before"

lemma split_at_ends:
  assumes "p + s \<le> length xs"
  shows "take p xs @ slice p (length xs - s) xs @ drop (length xs - s) xs = xs"
  using slice_slice_drop [of 0 p "length xs - s" xs] assms by (simp add: slice_def)

lemma make_diff_patch:
  assumes "\<not> td_truncated (make_diff before after n)" "length before \<le> u32_max"
  shows "patch before (make_diff before after n) = after"
proof -
  define p where "p = common_prefix before after"
  define m where "m = min (length before - p) (length after - p)"
  define s where "s = common_prefix (take m (rev before)) (take m (rev after))"
  have p: "take p before = take p after" "p \<le> length before" "p \<le> length after"
    using common_prefix_facts unfolding p_def by blast+
  have s_le: "s \<le> m" using common_prefix_facts(2) [of "take m (rev before)" "take m (rev after)"] by (simp add: s_def)
  then have ps: "p + s \<le> length before" "p + s \<le> length after" using p(2,3) by (auto simp: m_def)
  have "take s (rev before) = take s (rev after)"
    using common_prefix_facts(1) [of "take m (rev before)" "take m (rev after)"] s_le by (simp add: s_def min_def)
  then have "rev (take s (rev before)) = rev (take s (rev after))" by simp
  then have suffix: "drop (length before - s) before = drop (length after - s) after" by (simp add: rev_take)
  have diff: "make_diff before after n =
      \<lparr>td_unchanged_prefix_chars = saturating_u32 p,
       td_before_fragment = take n (slice p (length before - s) before),
       td_after_fragment = take n (slice p (length after - s) after), td_unchanged_suffix_chars = saturating_u32 s,
       td_truncated = (length (slice p (length before - s) before) > n \<or> length (slice p (length after - s) after) > n)\<rparr>"
    unfolding make_diff_def Let_def p_def [symmetric] m_def [symmetric] take_zip
    by (simp add: s_def common_prefix_def)
  have "saturating_u32 p = p" "saturating_u32 s = s"
    using assms(2) p(2) ps by (simp_all add: saturating_u32_def try_from_or_def)
  then have "patch before (make_diff before after n) = take p after @ slice p (length after - s) after @ drop (length after - s) after"
    using assms(1) p(1) suffix by (simp add: patch_def diff)
  then show ?thesis using split_at_ends [OF ps(2)] by simp
qed

subsection \<open>Pipelines\<close>

text \<open>Where a compiled rule comes from, and what its compilation has checked.\<close>

definition transform_from :: "transform_limits \<Rightarrow> str set \<Rightarrow> transform_set list \<Rightarrow> 're transform_compiled_rule \<Rightarrow> bool" where
  "transform_from limits approved sets c \<longleftrightarrow>
     (\<exists>tset \<in> set sets. tcr_rule c \<in> set (ts_rules tset) \<and> tcr_set_enabled c = ts_enabled tset \<and>
        transform_rule_is_approved (ts_provenance tset) (tcr_rule c) approved = Inr (tcr_approved_for_execution c))"

lemma tx_compile_rule_from:
  assumes "tx_compile_rule env limits approved tset (ids, sc, pc, rules) rule = Inr (ids', sc', pc', rules')"
    "rule \<in> set (ts_rules tset)" "tset \<in> set sets" "list_all (transform_from limits approved sets) rules"
  shows "list_all (transform_from limits approved sets) rules'"
  using assms by (auto simp: tx_compile_rule_def Let_def result_bind_Inr_conv transform_from_def)

lemma tx_compile_set_from:
  assumes "tx_compile_set env limits approved (sids, ids, pc, rules) tset = Inr (sids', ids', pc', rules')"
    "tset \<in> set sets" "list_all (transform_from limits approved sets) rules"
  shows "list_all (transform_from limits approved sets) rules'"
proof -
  obtain sc' where fold: "try_fold (tx_compile_rule env limits approved tset) (ids, replicate 5 0, pc, rules) (ts_rules tset) =
      Inr (ids', sc', pc', rules')"
    using assms(1) by (auto simp: tx_compile_set_def result_bind_Inr_conv)
  have "(\<lambda>(_, _, _, rules). list_all (transform_from limits approved sets) rules) (ids', sc', pc', rules')"
    by (rule try_fold_invariant [OF fold]) (use assms(2,3) tx_compile_rule_from in \<open>auto split: prod.splits\<close>)
  then show ?thesis by simp
qed

lemma transform_compile_ok:
  assumes "transform_compile_with_options env sets limits approved = Inr pipeline"
  shows "tp_limits pipeline = limits"
    "\<And>c. c \<in> set (tp_rules pipeline) \<Longrightarrow> transform_from limits approved sets c"
proof -
  have same: "transform_limits_validate limits = Inr l \<Longrightarrow> l = limits" for l
    by (auto simp: transform_limits_validate_def result_bind_Inr_conv)
  obtain sids ids pc rules where
    fold: "try_fold (tx_compile_set env limits approved) ({}, {}, replicate 5 0, []) sets = Inr (sids, ids, pc, rules)"
    and pipeline: "pipeline = \<lparr>tp_rules = sort_by cmp_transform_rule rules, tp_limits = limits\<rparr>"
    using assms by (auto simp: transform_compile_with_options_def Let_def result_bind_Inr_conv dest: same)
  have "(\<lambda>(_, _, _, rules). list_all (transform_from limits approved sets) rules) (sids, ids, pc, rules)"
    by (rule try_fold_invariant [OF fold]) (use tx_compile_set_from in \<open>auto split: prod.splits\<close>)
  then show "transform_from limits approved sets c" if "c \<in> set (tp_rules pipeline)" for c
    using that by (simp add: pipeline list_all_iff)
  show "tp_limits pipeline = limits" by (simp add: pipeline)
qed

text \<open>A rule that ran and changed the text, and a rule that did not.\<close>

definition rule_ran :: "transform_phase \<Rightarrow> bool \<Rightarrow> transform_rule_report list \<Rightarrow> 're transform_compiled_rule \<Rightarrow> bool" where
  "rule_ran phase allow reports c \<longleftrightarrow>
     tcr_set_enabled c \<and> tr_enabled (tcr_rule c) \<and> tcr_approved_for_execution c \<and> (phase = ResolvedPrompt \<longrightarrow> allow) \<and>
     (\<exists>r \<in> set reports. tt_rule_id (trr_trace r) = tr_id (tcr_rule c) \<and> trr_status r = TS_Applied)"

lemma push_bounded_counted:
  "push_bounded m st v = Inr st' \<Longrightarrow> snd st = length (fst st) \<Longrightarrow> snd st' = length (fst st') \<and> snd st' \<le> m"
  by (auto simp: push_bounded_def result_bind_Inr_conv ok_or_Inr_conv checked_add_Some_conv split: prod.splits)

lemma expand_replacement_counted:
  assumes "expand_replacement m input captures replacement st = Inr st'" "snd st = length (fst st)"
  shows "snd st' = length (fst st')"
  using assms unfolding expand_replacement_def
  by (rule try_fold_invariant [where P = "\<lambda>st. snd st = length (fst st)"])
    (auto simp: expand_token_def dest: push_bounded_counted split: replacement_token.splits option.splits)

lemma replace_matches_counted:
  assumes "replace_matches k m input replacement st last_end n caps = Inr (st', rest)" "snd st = length (fst st)"
  shows "snd st' = length (fst st')"
  using assms
proof (induction k m input replacement st last_end n caps rule: replace_matches.induct)
  case (2 k m input replacement st last_end n captures caps)
  show ?case
  proof (cases "n < k \<and> rc_get captures 0 \<noteq> None")
    case True
    then obtain sp u w where sp: "n < k" "rc_get captures 0 = Some sp"
      and u: "push_bounded m st (slice last_end (fst sp) input) = Inr u"
      and w: "expand_replacement m input captures replacement u = Inr w"
      and rest: "replace_matches k m input replacement w (snd sp) (saturating_add u32_max n 1) caps = Inr (st', rest)"
      using "2.prems"(1) by (auto simp: result_bind_Inr_conv)
    have "snd u = length (fst u)" using push_bounded_counted [OF u "2.prems"(2)] by simp
    then have "snd w = length (fst w)" using expand_replacement_counted [OF w] by simp
    then show ?thesis using "2.IH"(2) [OF _ sp(2) u w rest] sp(1) by simp
  next
    case False
    then show ?thesis using "2.prems" "2.IH"(1) by (cases "n < k"; cases "rc_get captures 0") auto
  qed
qed simp

lemma replace_bounded_length:
  assumes "replace_bounded env regex replacement input k m = Inr (out, n)"
  shows "length out \<le> m"
proof -
  obtain st last_end count where
    st: "replace_matches k m input replacement ([], 0) 0 0 (tx_captures_iter env regex input) = Inr (st, last_end, n)"
    and out: "push_bounded m st (drop last_end input) = Inr (out, count)"
    using assms by (auto simp: replace_bounded_def result_bind_Inr_conv)
  have "snd st = length (fst st)" using replace_matches_counted [OF st] by simp
  then show ?thesis using push_bounded_counted [OF out] by simp
qed

lemma apply_rule_cases:
  assumes "apply_rule env limits phase ctx allow c (t, reports) = (t', reports')"
  obtains (kept) r where "t' = t" "reports' = reports @ [r]" "tt_rule_id (trr_trace r) = tr_id (tcr_rule c)"
  | (replaced) r where "reports' = reports @ [r]" "tt_rule_id (trr_trace r) = tr_id (tcr_rule c)" "rule_ran phase allow [r] c"
      "length t' \<le> tl_max_output_chars limits"
proof (cases "\<exists>r. t' = t \<and> reports' = reports @ [r] \<and> tt_rule_id (trr_trace r) = tr_id (tcr_rule c)")
  case True
  then show ?thesis using kept by blast
next
  case False
  let ?limit = "min (tcr_output_limit_chars c) (tl_max_output_chars limits)"
  from False assms obtain regex replacement n r where
    guards: "tcr_set_enabled c" "tr_enabled (tcr_rule c)" "tcr_approved_for_execution c" "phase = ResolvedPrompt \<longrightarrow> allow"
    and run: "replace_bounded env regex replacement t (tr_max_replacements (tcr_rule c)) ?limit = Inr (t', n)"
    and r: "reports' = reports @ [r]" "tt_rule_id (trr_trace r) = tr_id (tcr_rule c)" "trr_status r = TS_Applied"
    unfolding apply_rule_def replace_with_rule_def Let_def
    by (auto simp: skipped_report_def failed_report_def unapplied_trace_def
        split: if_splits sum.splits bool.splits prod.splits compiled_pattern.splits)
  show ?thesis
    using replaced [OF r(1,2)] replace_bounded_length [OF run] guards r(3) by (simp add: rule_ran_def r(2))
qed

lemma apply_rules_ok:
  assumes "fold (apply_rule env limits phase ctx allow) rules (t, reports) = (t', reports')"
  shows "map (\<lambda>r. tt_rule_id (trr_trace r)) reports' =
      map (\<lambda>r. tt_rule_id (trr_trace r)) reports @ map (\<lambda>c. tr_id (tcr_rule c)) rules \<and>
    set reports \<subseteq> set reports' \<and>
    (t' = t \<or> length t' \<le> tl_max_output_chars limits \<and> (\<exists>c \<in> set rules. rule_ran phase allow reports' c))"
  using assms
proof (induction rules arbitrary: t reports)
  case (Cons c rules)
  obtain u us where step: "apply_rule env limits phase ctx allow c (t, reports) = (u, us)" by fastforce
  then have rest: "fold (apply_rule env limits phase ctx allow) rules (u, us) = (t', reports')" using Cons.prems by simp
  note IH = Cons.IH [OF rest]
  from step show ?case
  proof (cases rule: apply_rule_cases)
    case (kept r)
    then show ?thesis using IH by auto
  next
    case (replaced r)
    then have "rule_ran phase allow reports' c" using IH by (auto simp: rule_ran_def)
    then show ?thesis using IH replaced by auto
  qed
qed simp

lemma approved_transform:
  assumes "transform_rule_is_approved set_provenance rule approved = Inr True"
    "is_imported set_provenance \<or> is_imported (tr_provenance rule)"
  shows "tr_imported_enabled rule \<and> (\<exists>source. pv_source_id (tr_provenance rule) = Some source \<and> source \<in> approved)"
  using assms
  by (auto simp: transform_rule_is_approved_def tx_imported_source_id_def result_bind_Inr_conv result_simps
      split: if_splits option.splits)

text \<open>
  C23. Applying a pipeline is safe and accountable.  Either the text comes out as it went in, or it is within
  the output limit and was changed by an enabled rule of an enabled set that is reported as applied, for an imported
  rule with its own opt-in and an approved source, and for the resolved prompt only when the caller
  allows it.  Unless the input is too long, every rule of the phase has its report, in the order of the pipeline;
  and a difference that is not truncated turns the input into the output.
\<close>

theorem transform_apply_accountable:
  assumes compiled: "transform_compile_with_options env sets limits approved = Inr pipeline"
    and result: "result = transform_apply env pipeline phase input ctx allow"
  shows "(txr_output result = input \<or>
      length (txr_output result) \<le> tl_max_output_chars limits \<and> (phase = ResolvedPrompt \<longrightarrow> allow) \<and>
      (\<exists>tset \<in> set sets. \<exists>rule \<in> set (ts_rules tset). ts_enabled tset \<and> tr_enabled rule \<and> tr_phase rule = phase \<and>
        (\<exists>r \<in> set (txr_reports result). tt_rule_id (trr_trace r) = tr_id rule \<and> trr_status r = TS_Applied) \<and>
        (is_imported (ts_provenance tset) \<or> is_imported (tr_provenance rule) \<longrightarrow>
          tr_imported_enabled rule \<and>
          (\<exists>source. pv_source_id (tr_provenance rule) = Some source \<and> source \<in> approved)))) \<and>
    (length input \<le> tl_max_input_chars limits \<longrightarrow>
      map (\<lambda>r. tt_rule_id (trr_trace r)) (txr_reports result) =
        map (\<lambda>c. tr_id (tcr_rule c)) (filter (\<lambda>c. tr_phase (tcr_rule c) = phase) (tp_rules pipeline))) \<and>
    (\<forall>d. txr_diff result = Some d \<and> \<not> td_truncated d \<and> length input \<le> u32_max \<longrightarrow> patch input d = txr_output result)"
proof (cases "length input \<le> tl_max_input_chars limits")
  case False
  then show ?thesis using transform_compile_ok(1) [OF compiled] by (simp add: result transform_apply_def)
next
  case True
  let ?rules = "filter (\<lambda>c. tr_phase (tcr_rule c) = phase) (tp_rules pipeline)"
  note limits = transform_compile_ok(1) [OF compiled]
  obtain out reports where run: "fold (apply_rule env limits phase ctx allow) ?rules (input, []) = (out, reports)" by fastforce
  have parts: "txr_output result = out" "txr_reports result = reports"
    "txr_diff result = (if out \<noteq> input then Some (make_diff input out (tl_max_diff_chars limits)) else None)"
    using True run by (simp_all add: result transform_apply_def limits not_less)
  note applied = apply_rules_ok [OF run]
  have "\<exists>tset \<in> set sets. \<exists>rule \<in> set (ts_rules tset). ts_enabled tset \<and> tr_enabled rule \<and> tr_phase rule = phase \<and>
        (\<exists>r \<in> set reports. tt_rule_id (trr_trace r) = tr_id rule \<and> trr_status r = TS_Applied) \<and>
        (is_imported (ts_provenance tset) \<or> is_imported (tr_provenance rule) \<longrightarrow>
          tr_imported_enabled rule \<and> (\<exists>source. pv_source_id (tr_provenance rule) = Some source \<and> source \<in> approved))"
    if c: "c \<in> set ?rules" "rule_ran phase allow reports c" for c
  proof -
    obtain tset where tset: "tset \<in> set sets" "tcr_rule c \<in> set (ts_rules tset)" "ts_enabled tset"
      "transform_rule_is_approved (ts_provenance tset) (tcr_rule c) approved = Inr True"
      using transform_compile_ok(2) [OF compiled, of c] c by (auto simp: transform_from_def rule_ran_def)
    then show ?thesis using c approved_transform [OF tset(4)]
      by (intro bexI [of _ tset] bexI [of _ "tcr_rule c"]) (auto simp: rule_ran_def)
  qed
  moreover have "phase = ResolvedPrompt \<longrightarrow> allow" if "rule_ran phase allow reports c" for c :: "'a transform_compiled_rule"
    using that by (simp add: rule_ran_def)
  moreover have "patch input d = out"
    if "txr_diff result = Some d" "\<not> td_truncated d" "length input \<le> u32_max" for d
    using that parts(3) make_diff_patch by (auto split: if_splits)
  ultimately show ?thesis using applied unfolding parts(1,2) by (auto 0 3)
qed

definition sample_transform_source :: provenance where
  "sample_transform_source = \<lparr>pv_source_kind = ImportedPackage, pv_source_id = Some (lit ''pack''), pv_source_hash = None,
     pv_author = None, pv_license = None, pv_imported_at = None\<rparr>"

definition sample_transform_rule :: transform_rule where
  "sample_transform_rule =
     \<lparr>tr_id = lit ''rule'', tr_name = lit ''Rule'', tr_enabled = True, tr_imported_enabled = True,
      tr_imported_author_enabled = True, tr_phase = DisplayOnly, tr_order = 0,
      tr_pattern = \<lparr>rx_pattern = lit ''cat'', rx_case_insensitive = False\<rparr>, tr_replacement = lit ''${0}s'',
      tr_condition = None, tr_max_replacements = 5, tr_input_limit = 100, tr_output_limit = 100,
      tr_provenance = sample_transform_source\<rparr>"

definition sample_transform_set :: transform_set where
  "sample_transform_set =
     \<lparr>ts_id = lit ''set'', ts_name = lit ''Set'', ts_schema_version = 1, ts_enabled = True,
      ts_imported_author_enabled = True, ts_rules = [sample_transform_rule],
      ts_max_rules_per_phase = 2, ts_max_output_chars = 200, ts_provenance = sample_transform_source\<rparr>"

definition sample_pipeline :: "str transform_pipeline" where
  "sample_pipeline =
     \<lparr>tp_rules = [\<lparr>tcr_set_id = lit ''set'', tcr_set_enabled = True,
        tcr_rule = sample_transform_rule, tcr_approved_for_execution = True,
        tcr_output_limit_chars = 100,
        tcr_compiled = Pattern_Ready (lit ''cat'') [Tok_CaptureIndex 0, Tok_Literal (lit ''s'')]\<rparr>],
      tp_limits = transform_limits_default\<rparr>"

theorem transform_apply_accountable_witness:
  "let result = transform_apply sample_transform_env sample_pipeline DisplayOnly (lit ''a cat.'') \<lparr>tc_variables = [], tc_model_capabilities = []\<rparr> False in
     txr_output result = lit ''a cats.'' \<and> map (\<lambda>r. tt_rule_id (trr_trace r)) (txr_reports result) = [lit ''rule''] \<and>
     map_option (patch (lit ''a cat.'')) (txr_diff result) = Some (lit ''a cats.'')"
proof -
  let ?result = "transform_apply sample_transform_env sample_pipeline DisplayOnly (lit ''a cat.'') \<lparr>tc_variables = [], tc_model_capabilities = []\<rparr> False"
  have compiled: "transform_compile_with_options sample_transform_env [sample_transform_set] transform_limits_default {lit ''pack''} =
      Inr sample_pipeline" by code_simp
  have out: "txr_output ?result = lit ''a cats.''" by code_simp
  have "(case txr_diff ?result of Some d \<Rightarrow> \<not> td_truncated d | None \<Rightarrow> False)" by code_simp
  then obtain d where d: "txr_diff ?result = Some d" "\<not> td_truncated d" by (auto split: option.splits)
  have small: "length (lit ''a cat.'') \<le> u32_max" "length (lit ''a cat.'') \<le> tl_max_input_chars transform_limits_default"
    by code_simp+
  have ids: "map (\<lambda>c. tr_id (tcr_rule c)) (filter (\<lambda>c. tr_phase (tcr_rule c) = DisplayOnly) (tp_rules sample_pipeline)) = [lit ''rule'']"
    by code_simp
  show ?thesis
    using transform_apply_accountable [OF compiled refl, of DisplayOnly "lit ''a cat.''" "\<lparr>tc_variables = [], tc_model_capabilities = []\<rparr>" False]
      out d small ids unfolding Let_def by simp
qed

end
