(* ===== verification/Discovery_Types.thy ===== *)
theory Discovery_Types
  imports Rust_Parse "HOL-Library.Word"
begin

section \<open>Provider discovery: durable data\<close>

text \<open>
  The records and enumerations of \<open>crates/domain/src/discovery.rs\<close> and of the provider types it
  stores (\<open>crates/domain/src/provider.rs\<close>).  An identifier, a URL, a path and an origin are the text
  that their newtypes wrap.  An instant is its number of nanoseconds.

  The URL parser is the \<open>url\<close> package, whose answer is the record \<open>url_parts\<close> of the values that the
  code reads from it; \<open>chrono\<close>'s checked addition, JSON encoding, SHA-256 and the escapes of Rust's
  debug output, which depend on Unicode tables, are the other fields of \<open>discovery_env\<close>.
\<close>

subsection \<open>What lies outside the sources\<close>

type_synonym instant = int

record url_parts =
  url_scheme :: str
  url_host_str :: "str option"
  url_username :: str
  url_password :: "str option"
  url_path :: str
  url_query :: "str option"
  url_fragment :: "str option"
  url_origin_ascii :: str
  url_to_string :: str

subsection \<open>Provider types\<close>

datatype connection_config_value =
    ConfigText str
  | ConfigInteger int
  | ConfigBoolean bool

record connection_config_entry =
  cce_key :: str
  cce_value :: connection_config_value

datatype provider_network_mode = Public | LocalLoopback | ApprovedLocalNetwork

datatype ip_addr =
    V4 "8 word" "8 word" "8 word" "8 word"
  | V6 "16 word" "16 word" "16 word" "16 word" "16 word" "16 word" "16 word" "16 word"

record provider_local_network_approval =
  lna_origin :: str
  lna_addresses :: "ip_addr list"

datatype auth_binding = AuthNone | BearerHeader | HeaderApiKey str

datatype template_source = BuiltIn | SignedCatalog | UserDiscovered

subsection \<open>Errors and input\<close>

datatype discovery_contract_error = InvalidField (dce_field: str) (dce_reason: str)

record provider_discovery_connection_options =
  dco_values :: "connection_config_entry list"
  dco_api_base_path :: "str option"
  dco_timeout_seconds :: nat
  dco_network_mode :: provider_network_mode
  dco_local_network_approval :: "provider_local_network_approval option"
  dco_local_network_approved_at :: "instant option"

record sanitized_discovery_input =
  sdi_connection_id :: str
  sdi_display_name :: str
  sdi_site_url :: str
  sdi_docs_url :: "str option"
  sdi_credential_ref :: "str option"
  sdi_preferred_assistant :: "str option"
  sdi_connection_options :: provider_discovery_connection_options
  sdi_supplied_evidence_ids :: "str list"

subsection \<open>States and operations\<close>

datatype discovery_state =
    Draft
  | ResolvingKnownProvider
  | AwaitingTemplateSelection
  | FetchingDocuments
  | ExtractingEvidence
  | AwaitingMoreEvidence
  | AwaitingAssistantConsent
  | BuildingDeterministicManifestDraft
  | BuildingAssistantManifestDraft
  | ValidatingManifest
  | AwaitingCredentialOriginApproval
  | ListingModels
  | AwaitingProbeConsent
  | ProbingCapabilities
  | AwaitingReview
  | Committing
  | Compensating
  | Ready
  | Failed
  | Cancelled
  | Interrupted
  | UnknownOutcome

datatype discovery_operation_kind =
    ResolveKnownProvider
  | FetchDocuments
  | ExtractEvidence
  | BuildDeterministicManifestDraft
  | BuildAssistantManifestDraft
  | ValidateManifest
  | ListModels
  | ProbeCapabilities
  | AtomicCommit
  | Compensation

datatype discovery_side_effect_class = LocalDeterministic | ReadOnly | BillableExternal | Persistent

datatype discovery_interruption_outcome = ConfirmedNoExternalEffect | ExternalOutcomeUnknown

definition is_terminal :: "discovery_state \<Rightarrow> bool" where
  "is_terminal s \<longleftrightarrow> s \<in> {Ready, Failed, Cancelled}"

definition is_waiting_for_user :: "discovery_state \<Rightarrow> bool" where
  "is_waiting_for_user s \<longleftrightarrow>
     s \<in> {AwaitingTemplateSelection, AwaitingMoreEvidence, AwaitingAssistantConsent,
       AwaitingCredentialOriginApproval, AwaitingProbeConsent, AwaitingReview, Interrupted, UnknownOutcome}"

fun state_operation :: "discovery_state \<Rightarrow> discovery_operation_kind option" where
  "state_operation ResolvingKnownProvider = Some ResolveKnownProvider"
| "state_operation FetchingDocuments = Some FetchDocuments"
| "state_operation ExtractingEvidence = Some ExtractEvidence"
| "state_operation BuildingDeterministicManifestDraft = Some BuildDeterministicManifestDraft"
| "state_operation BuildingAssistantManifestDraft = Some BuildAssistantManifestDraft"
| "state_operation ValidatingManifest = Some ValidateManifest"
| "state_operation ListingModels = Some ListModels"
| "state_operation ProbingCapabilities = Some ProbeCapabilities"
| "state_operation Committing = Some AtomicCommit"
| "state_operation Compensating = Some Compensation"
| "state_operation _ = None"

fun side_effect_class :: "discovery_operation_kind \<Rightarrow> discovery_side_effect_class" where
  "side_effect_class BuildDeterministicManifestDraft = LocalDeterministic"
| "side_effect_class ResolveKnownProvider = ReadOnly"
| "side_effect_class FetchDocuments = ReadOnly"
| "side_effect_class ExtractEvidence = ReadOnly"
| "side_effect_class ValidateManifest = ReadOnly"
| "side_effect_class ListModels = ReadOnly"
| "side_effect_class BuildAssistantManifestDraft = BillableExternal"
| "side_effect_class ProbeCapabilities = BillableExternal"
| "side_effect_class AtomicCommit = Persistent"
| "side_effect_class Compensation = Persistent"

fun state_for_operation :: "discovery_operation_kind \<Rightarrow> discovery_state" where
  "state_for_operation ResolveKnownProvider = ResolvingKnownProvider"
| "state_for_operation FetchDocuments = FetchingDocuments"
| "state_for_operation ExtractEvidence = ExtractingEvidence"
| "state_for_operation BuildDeterministicManifestDraft = BuildingDeterministicManifestDraft"
| "state_for_operation BuildAssistantManifestDraft = BuildingAssistantManifestDraft"
| "state_for_operation ValidateManifest = ValidatingManifest"
| "state_for_operation ListModels = ListingModels"
| "state_for_operation ProbeCapabilities = ProbingCapabilities"
| "state_for_operation AtomicCommit = Committing"
| "state_for_operation Compensation = Compensating"

subsection \<open>Sessions\<close>

record discovery_recovery_checkpoint =
  drc_interrupted_state :: discovery_state
  drc_operation :: discovery_operation_kind

record discovery_approval_binding =
  dab_approval_id :: str
  dab_grant_sha256 :: str

record discovery_failure =
  df_code :: str
  df_message_key :: str
  df_recoverable :: bool

record provider_discovery_session =
  pds_id :: str
  pds_input :: sanitized_discovery_input
  pds_state :: discovery_state
  pds_revision :: nat
  pds_next_event_sequence :: nat
  pds_recovery :: "discovery_recovery_checkpoint option"
  pds_unknown_operation :: "discovery_operation_kind option"
  pds_manifest_sha256 :: "str option"
  pds_commit_plan_sha256 :: "str option"
  pds_commit_attempt_id :: "str option"
  pds_committed_connection_id :: "str option"
  pds_cancellation_pending :: bool
  pds_active_effect_approval :: "discovery_approval_binding option"
  pds_failure :: "discovery_failure option"

subsection \<open>Actions and effects\<close>

datatype discovery_fresh_evidence_source = DocumentUrl str | SanitizedCurl str

fun fresh_source_origin :: "discovery_fresh_evidence_source \<Rightarrow> str" where
  "fresh_source_origin (DocumentUrl origin) = origin"
| "fresh_source_origin (SanitizedCurl origin) = origin"

datatype discovery_assistant_checkpoint =
    CheckpointReady
  | CheckpointAwaitingAssistant
  | CheckpointAwaitingToolResult
  | CheckpointAwaitingMoreEvidence
  | CheckpointAwaitingRetryConsent
  | CheckpointDraftReady

datatype discovery_evidence_resolution = DeterministicDraftAvailable | AssistantRecommended | MoreEvidenceRequired

datatype discovery_unknown_outcome_resolution =
    ConfirmedNoEffect
  | ConfirmedCommitCompleted str
  | ConfirmedCompensated
  | ManuallyReconciledAsFailed

datatype provider_discovery_action =
    Begin
  | KnownProviderCandidatesResolved (candidate_count: nat)
  | SelectTemplate (candidate_id: str)
  | ContinueWithoutTemplate
  | DocumentsFetched (evidence_count: nat)
  | EvidenceExtracted discovery_evidence_resolution
  | SupplyMoreEvidence "str list"
  | SupplyFreshEvidence "str list" discovery_fresh_evidence_source
  | RequestAssistant
  | ApproveAssistant str str
  | DeclineAssistant
  | AssistantCheckpointed discovery_assistant_checkpoint
  | AssistantRequestedMoreEvidence nat
  | AssistantResumedWithEvidence str str
  | ManifestDraftBuilt str
  | ManifestValidated str bool
  | ApproveCredentialOrigin str
  | ModelsListed (model_count: nat) (probe_candidate_count: nat)
  | ApproveProbes str str
  | SkipProbes
  | ProbesCompleted
  | ApproveReview (review_approval_id: str) (review_commit_attempt_id: str) (review_commit_plan_sha256: str)
      (review_graph_sha256: str)
  | CommitSucceeded str
  | CommitFailedBeforeApply discovery_failure
  | CompensationRequired
  | CompensationSucceeded
  | CompensationFailed discovery_failure
  | ResumeCompensation
  | ExternalOutcomeBecameUnknown
  | Interrupt discovery_operation_kind discovery_interruption_outcome
  | RestartInterrupted
  | ResolveUnknownOutcome str discovery_unknown_outcome_resolution
  | Fail discovery_failure
  | Cancel

fun action_kind :: "provider_discovery_action \<Rightarrow> string" where
  "action_kind Begin = ''begin''"
| "action_kind (KnownProviderCandidatesResolved _) = ''known_provider_candidates_resolved''"
| "action_kind (SelectTemplate _) = ''select_template''"
| "action_kind ContinueWithoutTemplate = ''continue_without_template''"
| "action_kind (DocumentsFetched _) = ''documents_fetched''"
| "action_kind (EvidenceExtracted _) = ''evidence_extracted''"
| "action_kind (SupplyMoreEvidence _) = ''supply_more_evidence''"
| "action_kind (SupplyFreshEvidence _ _) = ''supply_fresh_evidence''"
| "action_kind RequestAssistant = ''request_assistant''"
| "action_kind (ApproveAssistant _ _) = ''approve_assistant''"
| "action_kind DeclineAssistant = ''decline_assistant''"
| "action_kind (AssistantCheckpointed _) = ''assistant_checkpointed''"
| "action_kind (AssistantRequestedMoreEvidence _) = ''assistant_requested_more_evidence''"
| "action_kind (AssistantResumedWithEvidence _ _) = ''assistant_resumed_with_evidence''"
| "action_kind (ManifestDraftBuilt _) = ''manifest_draft_built''"
| "action_kind (ManifestValidated _ _) = ''manifest_validated''"
| "action_kind (ApproveCredentialOrigin _) = ''approve_credential_origin''"
| "action_kind (ModelsListed _ _) = ''models_listed''"
| "action_kind (ApproveProbes _ _) = ''approve_probes''"
| "action_kind SkipProbes = ''skip_probes''"
| "action_kind ProbesCompleted = ''probes_completed''"
| "action_kind (ApproveReview _ _ _ _) = ''approve_review''"
| "action_kind (CommitSucceeded _) = ''commit_succeeded''"
| "action_kind (CommitFailedBeforeApply _) = ''commit_failed_before_apply''"
| "action_kind CompensationRequired = ''compensation_required''"
| "action_kind CompensationSucceeded = ''compensation_succeeded''"
| "action_kind (CompensationFailed _) = ''compensation_failed''"
| "action_kind ResumeCompensation = ''resume_compensation''"
| "action_kind ExternalOutcomeBecameUnknown = ''external_outcome_became_unknown''"
| "action_kind (Interrupt _ _) = ''interrupt''"
| "action_kind RestartInterrupted = ''restart_interrupted''"
| "action_kind (ResolveUnknownOutcome _ _) = ''resolve_unknown_outcome''"
| "action_kind (Fail _) = ''fail''"
| "action_kind Cancel = ''cancel''"

record discovery_action_envelope =
  dae_id :: str
  dae_expected_revision :: nat
  dae_request_sha256 :: str
  dae_action :: provider_discovery_action

datatype discovery_effect =
    EffectNone
  | EffectResolveKnownProvider
  | EffectFetchDocuments
  | EffectExtractEvidence
  | EffectBuildDeterministicManifestDraft
  | EffectBuildAssistantManifestDraft discovery_approval_binding
  | EffectValidateManifest
  | EffectListModels
  | EffectProbeCapabilities discovery_approval_binding
  | RequestCancellation discovery_operation_kind
  | CommitAtomically str str
  | RunCompensation str

datatype discovery_transition_error =
    RevisionConflict nat nat
  | InvalidTransition discovery_state string
  | UnknownOutcomeRequiresReconciliation
  | RevisionExhausted
  | SequenceExhausted
  | InvalidSession discovery_contract_error
  | InvalidAction discovery_contract_error

subsection \<open>Events and receipts\<close>

datatype discovery_progress_phase = ProviderCandidates | Documents | Evidence | Models | Probes

record discovery_progress =
  dp_phase :: discovery_progress_phase
  dp_completed :: nat
  dp_total :: "nat option"

datatype discovery_action_required =
    RequireSelectTemplate
  | RequireSupplyMoreEvidence
  | RequireApproveAssistant
  | RequireApproveCredentialOrigin
  | RequireApproveProbes
  | RequireReview
  | RequireRestartInterrupted discovery_operation_kind
  | RequireReconcileUnknownOutcome discovery_operation_kind

datatype discovery_warning =
    WarnAssistantDeclined
  | WarnProbesSkipped
  | WarnCompensationRequired
  | WarnExplicitRestartRequired
  | WarnUnknownExternalOutcome

datatype discovery_action_receipt_outcome = Applied | Rejected | OutcomeUnknown

record provider_discovery_event =
  pde_version :: nat
  pde_id :: str
  pde_session_id :: str
  pde_sequence :: nat
  pde_session_revision :: nat
  pde_state :: discovery_state
  pde_progress :: "discovery_progress option"
  pde_action_required :: "discovery_action_required option"
  pde_warning :: "discovery_warning option"
  pde_action_id :: str
  pde_failure :: "discovery_failure option"

record discovery_action_receipt =
  dar_action_id :: str
  dar_session_id :: str
  dar_action_kind :: str
  dar_request_sha256 :: str
  dar_expected_revision :: nat
  dar_resulting_revision :: nat
  dar_event_sequence :: nat
  dar_outcome :: discovery_action_receipt_outcome

record discovery_transition =
  dtr_previous_revision :: nat
  dtr_session :: provider_discovery_session
  dtr_event :: provider_discovery_event
  dtr_receipt :: discovery_action_receipt
  dtr_effect :: discovery_effect

subsection \<open>Grants, reviews and commit plans\<close>

datatype discovery_candidate_summary =
    CandidateProviderTemplate str nat
  | CandidateApiOrigin str
  | CandidateOfficialDocument str str
  | CandidateModelRoute str
  | CandidateManifestDraft nat str

record discovery_candidate =
  dca_id :: str
  dca_session_id :: str
  dca_summary :: discovery_candidate_summary
  dca_evidence_ids :: "str list"
  dca_created_at :: instant

record discovery_probe_budget =
  dpb_max_requests :: nat
  dpb_max_total_tokens_per_request :: nat
  dpb_max_output_tokens_per_request :: nat
  dpb_max_cost_micro_usd_per_request :: nat
  dpb_max_duration_millis_per_request :: nat
  dpb_max_calls_per_request :: nat

record discovery_assistant_consent =
  dac_assistant_route_id :: str
  dac_evidence_ids :: "str list"
  dac_allowed_document_origins :: "str list"
  dac_max_calls :: nat
  dac_max_input_tokens :: nat
  dac_max_output_tokens :: nat
  dac_max_tool_calls :: nat
  dac_max_retries :: nat
  dac_max_cost_micro_units :: nat

datatype discovery_approval_grant =
    TemplateSelection str
  | AssistantConsent discovery_assistant_consent
  | CredentialOrigin str auth_binding str
  | CapabilityProbe "str list" discovery_probe_budget
  | Review str str
  | UnknownOutcomeResolution discovery_operation_kind discovery_unknown_outcome_resolution

datatype discovery_review_change_kind = ReviewAdd | ReviewUpdate | ReviewDeprecate | ReviewPreserveMissing

record discovery_review_change =
  drv_kind :: discovery_review_change_kind
  drv_target_kind :: str
  drv_target_id :: str
  drv_summary_key :: str
  drv_evidence_ids :: "str list"

record discovery_review_diff =
  drd_sha256 :: str
  drd_graph_sha256 :: str
  drd_changes :: "discovery_review_change list"
  drd_unresolved_question_count :: nat
  drd_warning_count :: nat

record discovery_review_digest_payload =
  drp_graph_sha256 :: str
  drp_changes :: "discovery_review_change list"
  drp_unresolved_question_count :: nat
  drp_warning_count :: nat

record discovery_catalog_authority_binding =
  dcb_catalog_state_version :: nat
  dcb_template_id :: str
  dcb_template_version :: nat
  dcb_template_sha256 :: str
  dcb_expires_at :: instant

datatype discovery_previous_selection =
    NoPreviousSelection
  | RouteAndPreset "str option" str str

record discovery_commit_plan =
  dcp_attempt_id :: str
  dcp_session_id :: str
  dcp_expected_revision :: nat
  dcp_manifest_sha256 :: str
  dcp_graph_sha256 :: str
  dcp_template_id :: str
  dcp_template_version :: nat
  dcp_connection_id :: str
  dcp_model_route_ids :: "str list"
  dcp_credential_ref :: "str option"
  dcp_credential_approval_id :: "str option"
  dcp_review_sha256 :: str
  dcp_catalog_authority :: "discovery_catalog_authority_binding option"
  dcp_previous_selection :: discovery_previous_selection

datatype discovery_compensation_kind = RemoveCredentialSlot | RemoveConnectionGraph | RestorePreviousSelection

datatype discovery_compensation_status =
    CompensationPending
  | CompensationInProgress
  | CompensationCompleted
  | CompensationStepFailed
  | CompensationOutcomeUnknown

datatype discovery_compensation_target =
    TargetRemoveCredentialSlot str str
  | TargetRemoveConnectionGraph str
  | TargetRestorePreviousSelection discovery_previous_selection

fun compensation_target_kind :: "discovery_compensation_target \<Rightarrow> discovery_compensation_kind" where
  "compensation_target_kind (TargetRemoveCredentialSlot _ _) = RemoveCredentialSlot"
| "compensation_target_kind (TargetRemoveConnectionGraph _) = RemoveConnectionGraph"
| "compensation_target_kind (TargetRestorePreviousSelection _) = RestorePreviousSelection"

record discovery_compensation_step =
  dcs_action_id :: str
  dcs_ordinal :: nat
  dcs_kind :: discovery_compensation_kind
  dcs_target :: discovery_compensation_target
  dcs_status :: discovery_compensation_status

record discovery_env =
  env_url_parse :: "str \<Rightarrow> (str, url_parts) result"
  env_add_seconds :: "instant \<Rightarrow> int \<Rightarrow> instant option"
  env_str_debug :: "str \<Rightarrow> str"
  env_review_to_vec :: "discovery_review_digest_payload \<Rightarrow> (str, nat list) result"
  env_sha256_hex :: "nat list \<Rightarrow> str"

subsection \<open>States and operations correspond\<close>

lemma state_operation_for_operation [simp]: "state_operation (state_for_operation op) = Some op"
  by (cases op) simp_all

lemma state_operation_Some_conv: "state_operation s = Some op \<longleftrightarrow> s = state_for_operation op"
  by (cases s; cases op) simp_all

lemma terminal_or_waiting_no_operation: "is_terminal s \<or> is_waiting_for_user s \<Longrightarrow> state_operation s = None"
  by (auto simp: is_terminal_def is_waiting_for_user_def)

end
