(* ===== verification/Discovery_Validation.thy ===== *)
theory Discovery_Validation
  imports Discovery_Types "HOL-Library.Sublist"
begin

section \<open>Provider discovery: contracts of the durable data\<close>

text \<open>
  The validators of \<open>crates/domain/src/discovery.rs\<close> and the origin and path parsers of
  \<open>crates/domain/src/provider.rs\<close>, in the order of the sources.  A validator returns the first error
  that the code returns.
\<close>

unbundle bit_operations_syntax

abbreviation invalid_field :: "string \<Rightarrow> string \<Rightarrow> (discovery_contract_error, 'a) result" where
  "invalid_field f r \<equiv> Inl (InvalidField (lit f) (lit r))"

definition reject_field :: "bool \<Rightarrow> string \<Rightarrow> string \<Rightarrow> (discovery_contract_error, unit) result" where
  "reject_field bad f r = (if bad then invalid_field f r else Inr ())"

fun for_some :: "('a \<Rightarrow> ('e, unit) result) \<Rightarrow> 'a option \<Rightarrow> ('e, unit) result" where
  "for_some f None = Inr ()"
| "for_some f (Some x) = f x"

lemma reject_field_Inr [simp]: "reject_field bad f r = Inr u \<longleftrightarrow> \<not> bad"
  by (simp add: reject_field_def)

lemma reject_field_cases [simp]:
  "reject_field True f r = invalid_field f r"
  "reject_field False f r = Inr ()"
  by (simp_all add: reject_field_def)

lemma for_some_Inr_conv: "for_some f v = Inr () \<longleftrightarrow> (\<forall>x. v = Some x \<longrightarrow> f x = Inr ())"
  by (cases v) simp_all

subsection \<open>Constants\<close>

definition PROVIDER_DISCOVERY_EVENT_VERSION :: nat where "PROVIDER_DISCOVERY_EVENT_VERSION = 2"
definition DEFAULT_PROVIDER_DISCOVERY_TIMEOUT_SECONDS :: nat where "DEFAULT_PROVIDER_DISCOVERY_TIMEOUT_SECONDS = 60"
definition MAX_PROVIDER_DISCOVERY_CONNECTION_VALUES :: nat where "MAX_PROVIDER_DISCOVERY_CONNECTION_VALUES = 256"
definition MAX_PROVIDER_DISCOVERY_CONNECTION_TEXT_CHARS :: nat where
  "MAX_PROVIDER_DISCOVERY_CONNECTION_TEXT_CHARS = 8192"
definition PROVIDER_LOCAL_NETWORK_APPROVAL_TTL_SECONDS :: int where
  "PROVIDER_LOCAL_NETWORK_APPROVAL_TTL_SECONDS = 86400"

lemmas discovery_constants =
  MAX_PROVIDER_DISCOVERY_CONNECTION_VALUES_def MAX_PROVIDER_DISCOVERY_CONNECTION_TEXT_CHARS_def

subsection \<open>Text\<close>

definition validate_opaque_id :: "str \<Rightarrow> str \<Rightarrow> (discovery_contract_error, unit) result" where
  "validate_opaque_id label v =
     (if v = [] \<or> str_len v > 128 \<or> list_ex is_control v \<or> trim v \<noteq> v
      then Inl (InvalidField label (lit ''must be 1..=128 characters without surrounding whitespace or controls''))
      else Inr ())"

definition is_lower_hex :: "uchar \<Rightarrow> bool" where
  "is_lower_hex c \<longleftrightarrow> is_ascii_digit c \<or> 97 \<le> c \<and> c \<le> 102"

definition dsc_validate_sha256 :: "string \<Rightarrow> str \<Rightarrow> (discovery_contract_error, unit) result" where
  "dsc_validate_sha256 f v =
     reject_field (str_len v \<noteq> 64 \<or> \<not> list_all is_lower_hex (utf8 v)) f
       ''must be a lowercase hexadecimal SHA-256 digest''"

definition validate_bounded_text ::
  "string \<Rightarrow> str \<Rightarrow> nat \<Rightarrow> string \<Rightarrow> (discovery_contract_error, unit) result" where
  "validate_bounded_text f v max_chars reason =
     reject_field (v = [] \<or> trim v \<noteq> v \<or> length v > max_chars \<or> list_ex is_control v) f reason"

definition validate_opaque_reference :: "string \<Rightarrow> str \<Rightarrow> (discovery_contract_error, unit) result" where
  "validate_opaque_reference f v =
     reject_field (v = [] \<or> str_len v > 256 \<or> trim v \<noteq> v \<or> list_ex is_control v) f
       ''must be a bounded opaque reference''"

subsection \<open>URLs, origins and paths\<close>

definition http_url_parse :: "discovery_env \<Rightarrow> str \<Rightarrow> (str, str) result" where
  "http_url_parse env v =
     result_bind (env_url_parse env v) (\<lambda>url.
     if \<not> (url_scheme url = lit ''http'' \<or> url_scheme url = lit ''https'')
     then Inl (lit ''only http and https URLs are supported'')
     else if url_host_str url = None then Inl (lit ''URL must contain a host'')
     else if url_username url \<noteq> [] \<or> url_password url \<noteq> None then Inl (lit ''URL must not contain embedded credentials'')
     else Inr (url_to_string url))"

definition canonical_origin_parse :: "discovery_env \<Rightarrow> str \<Rightarrow> (str, str) result" where
  "canonical_origin_parse env v =
     result_bind (env_url_parse env v) (\<lambda>url.
     if \<not> (url_scheme url = lit ''http'' \<or> url_scheme url = lit ''https'')
     then Inl (lit ''only http and https origins are supported'')
     else if url_host_str url = None then Inl (lit ''origin must contain a host'')
     else if url_username url \<noteq> [] \<or> url_password url \<noteq> None
     then Inl (lit ''origin must not contain embedded credentials'')
     else if url_path url \<noteq> lit ''/'' \<or> url_query url \<noteq> None \<or> url_fragment url \<noteq> None
     then Inl (lit ''origin must not contain a path, query, or fragment'')
     else Inr (url_origin_ascii url))"

definition header_name_parse :: "str \<Rightarrow> (str, str) result" where
  "header_name_parse v =
     (if v = [] \<or> \<not> list_all (\<lambda>b. is_ascii_alphanumeric b \<or> b \<in> set (lit ''!#$%&'' @ [39] @ lit ''*+-.^_`|~'')) (utf8 v)
      then Inl (lit ''header name must be a non-empty RFC 9110 token'')
      else Inr (to_ascii_lowercase v))"

definition endpoint_path_parse :: "str \<Rightarrow> (str, str) result" where
  "endpoint_path_parse v =
     (let lower = to_ascii_lowercase v in
      if \<not> prefix (lit ''/'') v \<or> prefix (lit ''//'') v \<or> contains [92] v \<or> contains (lit ''?'') v \<or>
         contains (lit ''#'') v \<or> list_ex (\<lambda>segment. segment = lit ''..'') (split (lit ''/'') v) \<or>
         contains (lit ''%2e'') lower \<or> contains (lit ''%2f'') lower \<or> contains (lit ''%5c'') lower
      then Inl (lit ''endpoint must be a normalized absolute path'')
      else Inr v)"

definition validate_redacted_url :: "discovery_env \<Rightarrow> string \<Rightarrow> str \<Rightarrow> (discovery_contract_error, unit) result" where
  "validate_redacted_url env f v =
     result_bind (map_err (\<lambda>e. InvalidField (lit f) e) (env_url_parse env v)) (\<lambda>parsed.
     reject_field (url_query parsed \<noteq> None \<or> url_fragment parsed \<noteq> None) f
       ''persisted discovery URLs must not contain a query or fragment'')"

definition canonical_origin_for_http_url :: "discovery_env \<Rightarrow> str \<Rightarrow> (discovery_contract_error, str) result" where
  "canonical_origin_for_http_url env v =
     result_bind (map_err (\<lambda>e. InvalidField (lit ''site_url'') e) (env_url_parse env v)) (\<lambda>parsed.
     map_err (\<lambda>e. InvalidField (lit ''site_url'') e) (canonical_origin_parse env (url_origin_ascii parsed)))"

subsection \<open>Network authority\<close>

definition is_private_v4 :: "8 word \<Rightarrow> 8 word \<Rightarrow> 8 word \<Rightarrow> 8 word \<Rightarrow> bool" where
  "is_private_v4 a b c d \<longleftrightarrow> a = 10 \<or> a = 172 \<and> 16 \<le> b \<and> b \<le> 31 \<or> a = 192 \<and> b = 168"

fun is_private_network_address :: "ip_addr \<Rightarrow> bool" where
  "is_private_network_address (V4 a b c d) = is_private_v4 a b c d"
| "is_private_network_address (V6 s0 s1 s2 s3 s4 s5 s6 s7) \<longleftrightarrow> s0 AND 0xfe00 = 0xfc00"

text \<open>The display of an address: dotted decimal, or the segments in hexadecimal with the longest run of
  zeros compressed.\<close>

definition hex_digit :: "nat \<Rightarrow> uchar" where
  "hex_digit n = (if n < 10 then 48 + n else 87 + n)"

fun show_hex :: "nat \<Rightarrow> str" where
  "show_hex n = (if n < 16 then [hex_digit n] else show_hex (n div 16) @ [hex_digit (n mod 16)])"

declare show_hex.simps [simp del]

definition show_v4 :: "8 word \<Rightarrow> 8 word \<Rightarrow> 8 word \<Rightarrow> 8 word \<Rightarrow> str" where
  "show_v4 a b c d = join (lit ''.'') (map (\<lambda>octet. show_nat (unat octet)) [a, b, c, d])"

fun longest_zero_span :: "(nat \<times> nat) \<Rightarrow> (nat \<times> nat) \<Rightarrow> nat \<Rightarrow> nat list \<Rightarrow> nat \<times> nat" where
  "longest_zero_span longest current i [] = longest"
| "longest_zero_span longest (start, len) i (s # ss) =
     (if s = 0
      then let current = (if len = 0 then i else start, len + 1) in
           longest_zero_span (if snd longest < snd current then current else longest) current (i + 1) ss
      else longest_zero_span longest (0, 0) (i + 1) ss)"

definition fmt_subslice :: "nat list \<Rightarrow> str" where
  "fmt_subslice ss = join (lit '':'') (map show_hex ss)"

fun show_ip_addr :: "ip_addr \<Rightarrow> str" where
  "show_ip_addr (V4 a b c d) = show_v4 a b c d"
| "show_ip_addr (V6 s0 s1 s2 s3 s4 s5 s6 s7) =
     (let segments = map unat [s0, s1, s2, s3, s4, s5, s6, s7];
          octets = (\<lambda>s. (unat s div 256, unat s mod 256)) in
      if take 6 segments = [0, 0, 0, 0, 0, 65535]
      then lit ''::ffff:'' @ join (lit ''.'') (map show_nat [fst (octets s6), snd (octets s6), fst (octets s7), snd (octets s7)])
      else let (start, len) = longest_zero_span (0, 0) (0, 0) 0 segments in
           if len > 1 then fmt_subslice (take start segments) @ lit ''::'' @ fmt_subslice (drop (start + len) segments)
           else fmt_subslice segments)"

definition validate_approved_address ::
  "ip_addr set \<Rightarrow> ip_addr \<Rightarrow> (discovery_contract_error, ip_addr set) result" where
  "validate_approved_address addresses address =
     (if \<not> is_private_network_address address
      then Inl (InvalidField (lit ''connection_options.local_network_approval.addresses'')
             (show_ip_addr address @ lit '' is not an RFC1918 IPv4 or ULA IPv6 address''))
      else if address \<in> addresses
      then Inl (InvalidField (lit ''connection_options.local_network_approval.addresses'')
             (lit ''contains duplicate address '' @ show_ip_addr address))
      else Inr (insert address addresses))"

definition validate_local_network_approval ::
  "provider_local_network_approval \<Rightarrow> (discovery_contract_error, unit) result" where
  "validate_local_network_approval approval =
     result_bind (reject_field (\<not> (1 \<le> length (lna_addresses approval) \<and> length (lna_addresses approval) \<le> 16))
       ''connection_options.local_network_approval.addresses''
       ''must contain from 1 to 16 exact private IP addresses'') (\<lambda>_.
     result_bind (try_fold validate_approved_address {} (lna_addresses approval)) (\<lambda>_. Inr ()))"

definition provider_local_network_approval_is_active_at :: "discovery_env \<Rightarrow> instant \<Rightarrow> instant \<Rightarrow> bool" where
  "provider_local_network_approval_is_active_at env approved_at observed_at \<longleftrightarrow>
     approved_at \<le> observed_at \<and>
     (case env_add_seconds env approved_at PROVIDER_LOCAL_NETWORK_APPROVAL_TTL_SECONDS of
        None \<Rightarrow> False | Some expires_at \<Rightarrow> observed_at < expires_at)"

subsection \<open>Connection options\<close>

definition is_sensitive_configuration_key :: "str \<Rightarrow> bool" where
  "is_sensitive_configuration_key key =
     (let normalized = map char_to_ascii_lowercase (filter is_ascii_alphanumeric key) in
      normalized = lit ''authorization'' \<or> normalized = lit ''apikey'' \<or> suffix (lit ''apikey'') normalized \<or>
      contains (lit ''password'') normalized \<or> contains (lit ''secret'') normalized \<or>
      suffix (lit ''token'') normalized \<or> contains (lit ''credential'') normalized \<or> normalized = lit ''cookie'')"

definition SECRET_PREFIXES :: "str list" where
  "SECRET_PREFIXES = map lit [''sk-proj-'', ''sk-ant-'', ''sk-or-'', ''sk-'', ''AIza'', ''xoxb-'', ''xoxp-'', ''ghp_'',
     ''github_pat_'', ''AKIA'']"

definition looks_like_credential_material :: "str \<Rightarrow> bool" where
  "looks_like_credential_material v =
     (let lower = to_ascii_lowercase v in
      prefix (lit ''bearer '') lower \<or> prefix (lit ''basic '') lower \<or> contains (lit ''api_key='') lower \<or>
      contains (lit ''apikey='') lower \<or> contains (lit ''access_token='') lower \<or> contains (lit ''secret='') lower \<or>
      contains (lit ''password='') lower \<or> contains (lit ''-----begin private key-----'') lower \<or>
      contains (lit ''-----begin rsa private key-----'') lower \<or> list_ex (\<lambda>p. prefix p v) SECRET_PREFIXES)"

definition validate_connection_option_entry :: "connection_config_entry \<Rightarrow> (discovery_contract_error, unit) result" where
  "validate_connection_option_entry entry =
     (let field = lit ''connection_options.values['' @ cce_key entry @ lit '']'' in
      result_bind (validate_bounded_text ''connection_options.values.key'' (cce_key entry) 128
        ''must be a nonempty trimmed key of at most 128 characters'') (\<lambda>_.
      result_bind (reject_field (is_sensitive_configuration_key (cce_key entry)) ''connection_options.values.key''
        ''credential-like keys are forbidden; use credential_ref'') (\<lambda>_.
      case cce_value entry of
        ConfigText v \<Rightarrow>
          if trim v \<noteq> v \<or> length v > MAX_PROVIDER_DISCOVERY_CONNECTION_TEXT_CHARS \<or> list_ex is_control v
          then Inl (InvalidField field (lit ''text must be trimmed, control-free, and at most 8192 characters''))
          else if looks_like_credential_material v
          then Inl (InvalidField field (lit ''credential-like material is forbidden; use credential_ref''))
          else Inr ()
      | _ \<Rightarrow> Inr ())))"

definition validate_option_key ::
  "discovery_env \<Rightarrow> str set \<Rightarrow> connection_config_entry \<Rightarrow> (discovery_contract_error, str set) result" where
  "validate_option_key env keys entry =
     result_bind (validate_connection_option_entry entry) (\<lambda>_.
     if cce_key entry \<in> keys
     then Inl (InvalidField (lit ''connection_options.values'')
            (lit ''contains duplicate key '' @ env_str_debug env (cce_key entry)))
     else Inr (insert (cce_key entry) keys))"

definition validate_network_mode :: "provider_discovery_connection_options \<Rightarrow> (discovery_contract_error, unit) result" where
  "validate_network_mode options =
     (case (dco_network_mode options, dco_local_network_approval options, dco_local_network_approved_at options) of
        (ApprovedLocalNetwork, Some approval, _) \<Rightarrow> validate_local_network_approval approval
      | (ApprovedLocalNetwork, None, _) \<Rightarrow>
          invalid_field ''connection_options.local_network_approval'' ''is required for approved_local_network mode''
      | (_, Some _, _) \<Rightarrow>
          invalid_field ''connection_options.local_network_approval''
            ''must be absent unless network_mode is approved_local_network''
      | (_, None, Some _) \<Rightarrow>
          invalid_field ''connection_options.local_network_approved_at''
            ''must be absent unless network_mode is approved_local_network''
      | (_, None, None) \<Rightarrow> Inr ())"

definition connection_options_validate ::
  "discovery_env \<Rightarrow> provider_discovery_connection_options \<Rightarrow> (discovery_contract_error, unit) result" where
  "connection_options_validate env options =
     result_bind (reject_field (\<not> (1 \<le> dco_timeout_seconds options \<and> dco_timeout_seconds options \<le> 600))
       ''connection_options.timeout_seconds'' ''must be from 1 to 600 seconds'') (\<lambda>_.
     result_bind (reject_field (length (dco_values options) > MAX_PROVIDER_DISCOVERY_CONNECTION_VALUES)
       ''connection_options.values'' ''exceeds the 256-entry limit'') (\<lambda>_.
     result_bind (try_fold (validate_option_key env) {} (dco_values options)) (\<lambda>_.
     validate_network_mode options)))"

definition connection_options_default :: provider_discovery_connection_options where
  "connection_options_default =
     \<lparr>dco_values = [], dco_api_base_path = None, dco_timeout_seconds = DEFAULT_PROVIDER_DISCOVERY_TIMEOUT_SECONDS,
      dco_network_mode = Public, dco_local_network_approval = None, dco_local_network_approved_at = None\<rparr>"

definition issue_local_network_approval_at ::
  "discovery_env \<Rightarrow> provider_discovery_connection_options \<Rightarrow> instant \<Rightarrow>
     (discovery_contract_error, unit) result \<times> provider_discovery_connection_options" where
  "issue_local_network_approval_at env options approved_at =
     (case connection_options_validate env options of
        Inl e \<Rightarrow> (Inl e, options)
      | Inr _ \<Rightarrow>
          (Inr (), if dco_network_mode options = ApprovedLocalNetwork
                   then options\<lparr>dco_local_network_approved_at := Some approved_at\<rparr> else options))"

definition require_active_local_network_approval_at ::
  "discovery_env \<Rightarrow> provider_discovery_connection_options \<Rightarrow> instant \<Rightarrow> (discovery_contract_error, unit) result" where
  "require_active_local_network_approval_at env options observed_at =
     result_bind (connection_options_validate env options) (\<lambda>_.
     if dco_network_mode options \<noteq> ApprovedLocalNetwork then Inr ()
     else result_bind (ok_or (InvalidField (lit ''connection_options.local_network_approved_at'')
            (lit ''is missing; restart provider discovery to approve LAN access again''))
            (dco_local_network_approved_at options)) (\<lambda>approved_at.
          reject_field (\<not> provider_local_network_approval_is_active_at env approved_at observed_at)
            ''connection_options.local_network_approved_at''
            ''is expired or future-dated; restart provider discovery to approve LAN access again''))"

fun migrate_legacy_network_mode ::
  "provider_discovery_connection_options option \<Rightarrow> bool option \<Rightarrow>
     (discovery_contract_error, provider_discovery_connection_options) result" where
  "migrate_legacy_network_mode (Some options) (Some legacy) =
     (let legacy_mode = (if legacy then LocalLoopback else Public) in
      if dco_network_mode options \<noteq> legacy_mode
      then invalid_field ''connection_options.network_mode'' ''conflicts with the legacy local_network_mode value''
      else Inr options)"
| "migrate_legacy_network_mode (Some options) None = Inr options"
| "migrate_legacy_network_mode None legacy =
     Inr (if legacy = Some True then connection_options_default\<lparr>dco_network_mode := LocalLoopback\<rparr>
          else connection_options_default)"

subsection \<open>Input, failures and approvals\<close>

definition discovery_input_validate ::
  "discovery_env \<Rightarrow> sanitized_discovery_input \<Rightarrow> (discovery_contract_error, unit) result" where
  "discovery_input_validate env input =
     result_bind (validate_bounded_text ''connection_id'' (sdi_connection_id input) 128
       ''must be a bounded trimmed opaque connection identifier'') (\<lambda>_.
     result_bind (validate_bounded_text ''display_name'' (sdi_display_name input) 120
       ''must be a nonempty trimmed display name of at most 120 characters'') (\<lambda>_.
     result_bind (validate_redacted_url env ''site_url'' (sdi_site_url input)) (\<lambda>_.
     result_bind (for_some (validate_redacted_url env ''docs_url'') (sdi_docs_url input)) (\<lambda>_.
     result_bind (for_some (\<lambda>reference.
         result_bind (validate_opaque_reference ''credential_ref'' reference) (\<lambda>_.
         reject_field (reference \<noteq> sdi_connection_id input) ''credential_ref''
           ''must use the selected connection identifier as its native slot'')) (sdi_credential_ref input)) (\<lambda>_.
     result_bind (connection_options_validate env (sdi_connection_options input)) (\<lambda>_.
     reject_field (length (sdi_supplied_evidence_ids input) > 4096) ''supplied_evidence_ids''
       ''exceeds the 4096 evidence-reference limit''))))))"

definition is_stable_identifier :: "str \<Rightarrow> bool" where
  "is_stable_identifier v \<longleftrightarrow>
     v \<noteq> [] \<and> str_len v \<le> 128 \<and> list_all (\<lambda>b. is_ascii_alphanumeric b \<or> b \<in> {46, 95, 45}) (utf8 v)"

definition discovery_failure_validate :: "discovery_failure \<Rightarrow> (discovery_contract_error, unit) result" where
  "discovery_failure_validate failure =
     try_fold (\<lambda>_ (field, v). reject_field (\<not> is_stable_identifier v) field ''must be a bounded stable identifier'') ()
       [(''failure.code'', df_code failure), (''failure.message_key'', df_message_key failure)]"

definition approval_binding_validate :: "discovery_approval_binding \<Rightarrow> (discovery_contract_error, unit) result" where
  "approval_binding_validate binding = dsc_validate_sha256 ''approval_binding.grant_sha256'' (dab_grant_sha256 binding)"

definition validate_supplied_evidence_ids :: "str list \<Rightarrow> (discovery_contract_error, unit) result" where
  "validate_supplied_evidence_ids evidence_ids =
     result_bind (reject_field (evidence_ids = [] \<or> length evidence_ids > 4096) ''evidence_ids''
       ''must contain between 1 and 4096 evidence references'') (\<lambda>_.
     reject_field (card (set evidence_ids) \<noteq> length evidence_ids) ''evidence_ids''
       ''must not contain duplicate evidence references'')"

definition envelope_validate :: "discovery_action_envelope \<Rightarrow> (discovery_contract_error, unit) result" where
  "envelope_validate envelope =
     result_bind (dsc_validate_sha256 ''request_sha256'' (dae_request_sha256 envelope)) (\<lambda>_.
     case dae_action envelope of
       ApproveAssistant _ grant \<Rightarrow> dsc_validate_sha256 ''approval_grant_sha256'' grant
     | ApproveProbes _ grant \<Rightarrow> dsc_validate_sha256 ''approval_grant_sha256'' grant
     | _ \<Rightarrow> Inr ())"

end
