(* ===== verification/Discovery_Machine.thy ===== *)
theory Discovery_Machine
  imports Discovery_Validation
begin

section \<open>Provider discovery: the transition rules\<close>

text \<open>
  \<open>ProviderDiscoverySession\<close> of \<open>crates/domain/src/discovery.rs\<close>: its construction, its validation and
  \<open>apply\<close>, with one definition per arm of the transition table.  An arm takes the current session and
  returns the next one with the effect that the caller runs after the transaction and the warning of the
  event.  The identifier of the event, a fresh UUID in the code, is an argument of \<open>session_apply\<close>.
\<close>

subsection \<open>Sessions\<close>

definition session_new ::
  "discovery_env \<Rightarrow> str \<Rightarrow> sanitized_discovery_input \<Rightarrow> (discovery_contract_error, provider_discovery_session) result" where
  "session_new env session_id input =
     result_bind (discovery_input_validate env input) (\<lambda>_.
     Inr \<lparr>pds_id = session_id, pds_input = input, pds_state = Draft, pds_revision = 0, pds_next_event_sequence = 1,
       pds_recovery = None, pds_unknown_operation = None, pds_manifest_sha256 = None, pds_commit_plan_sha256 = None,
       pds_commit_attempt_id = None, pds_committed_connection_id = None, pds_cancellation_pending = False,
       pds_active_effect_approval = None, pds_failure = None\<rparr>)"

definition is_billable_operation :: "discovery_operation_kind \<Rightarrow> bool" where
  "is_billable_operation op \<longleftrightarrow> op \<in> {BuildAssistantManifestDraft, ProbeCapabilities}"

definition session_validate_failure :: "provider_discovery_session \<Rightarrow> (discovery_contract_error, unit) result" where
  "session_validate_failure s =
     for_some (\<lambda>failure.
       result_bind (discovery_failure_validate failure) (\<lambda>_.
       reject_field (pds_state s \<notin> {Compensating, Failed, Cancelled}) ''failure''
         ''is only valid for compensating, failed, or cancelled sessions'')) (pds_failure s)"

definition session_validate_recovery :: "provider_discovery_session \<Rightarrow> (discovery_contract_error, unit) result" where
  "session_validate_recovery s =
     (if pds_state s = Interrupted
      then result_bind (ok_or (InvalidField (lit ''recovery'')
             (lit ''interrupted sessions require a recovery checkpoint'')) (pds_recovery s)) (\<lambda>checkpoint.
           reject_field (state_operation (drc_interrupted_state checkpoint) \<noteq> Some (drc_operation checkpoint))
             ''recovery.operation'' ''must match the interrupted state'')
      else reject_field (pds_recovery s \<noteq> None) ''recovery'' ''is only valid while interrupted'')"

definition session_validate_unknown :: "provider_discovery_session \<Rightarrow> (discovery_contract_error, unit) result" where
  "session_validate_unknown s =
     (if pds_state s = UnknownOutcome
      then reject_field (pds_unknown_operation s = None) ''unknown_operation''
             ''unknown outcomes must identify the interrupted operation''
      else reject_field (pds_unknown_operation s \<noteq> None) ''unknown_operation'' ''is only valid for unknown outcomes'')"

definition approval_required :: "provider_discovery_session \<Rightarrow> bool" where
  "approval_required s =
     (case pds_state s of
        BuildingAssistantManifestDraft \<Rightarrow> True
      | ProbingCapabilities \<Rightarrow> True
      | Interrupted \<Rightarrow> (case pds_recovery s of None \<Rightarrow> False | Some c \<Rightarrow> is_billable_operation (drc_operation c))
      | _ \<Rightarrow> False)"

definition approval_allowed :: "provider_discovery_session \<Rightarrow> bool" where
  "approval_allowed s \<longleftrightarrow>
     approval_required s \<or>
     pds_state s = UnknownOutcome \<and>
       (case pds_unknown_operation s of None \<Rightarrow> False | Some op \<Rightarrow> is_billable_operation op)"

definition session_validate_approval :: "provider_discovery_session \<Rightarrow> (discovery_contract_error, unit) result" where
  "session_validate_approval s =
     reject_field (approval_required s \<and> pds_active_effect_approval s = None \<or>
         \<not> approval_allowed s \<and> pds_active_effect_approval s \<noteq> None)
       ''active_effect_approval'' ''must exist exactly while an approved billable effect is active or recoverable''"

definition session_validate_commit :: "provider_discovery_session \<Rightarrow> (discovery_contract_error, unit) result" where
  "session_validate_commit s =
     result_bind (reject_field (pds_state s \<in> {Committing, Compensating} \<and>
         (pds_commit_plan_sha256 s = None \<or> pds_commit_attempt_id s = None))
       ''commit'' ''commit and compensation states require a plan and attempt'') (\<lambda>_.
     reject_field (pds_state s = Ready \<and> pds_committed_connection_id s = None) ''committed_connection_id''
       ''ready sessions must identify the committed connection'')"

definition session_validate ::
  "discovery_env \<Rightarrow> provider_discovery_session \<Rightarrow> (discovery_contract_error, unit) result" where
  "session_validate env s =
     result_bind (discovery_input_validate env (pds_input s)) (\<lambda>_.
     result_bind (reject_field (pds_next_event_sequence s = 0) ''next_event_sequence'' ''must be positive'') (\<lambda>_.
     result_bind (for_some (dsc_validate_sha256 ''commit_plan_sha256'') (pds_commit_plan_sha256 s)) (\<lambda>_.
     result_bind (for_some (dsc_validate_sha256 ''manifest_sha256'') (pds_manifest_sha256 s)) (\<lambda>_.
     result_bind (for_some approval_binding_validate (pds_active_effect_approval s)) (\<lambda>_.
     result_bind (session_validate_failure s) (\<lambda>_.
     result_bind (session_validate_recovery s) (\<lambda>_.
     result_bind (session_validate_unknown s) (\<lambda>_.
     result_bind (session_validate_approval s) (\<lambda>_.
     session_validate_commit s)))))))))"

subsection \<open>Shared parts of the table\<close>

type_synonym transition_outcome =
  "(discovery_transition_error, provider_discovery_session \<times> discovery_effect \<times> discovery_warning option) result"

definition invalid_transition :: "discovery_state \<Rightarrow> string \<Rightarrow> (discovery_transition_error, 'a) result" where
  "invalid_transition state action = Inl (InvalidTransition state action)"

definition clear_recovery_markers :: "provider_discovery_session \<Rightarrow> provider_discovery_session" where
  "clear_recovery_markers s =
     s\<lparr>pds_recovery := None, pds_unknown_operation := None, pds_active_effect_approval := None\<rparr>"

definition is_operation_completion :: "discovery_state \<Rightarrow> provider_discovery_action \<Rightarrow> bool" where
  "is_operation_completion state action =
     (case action of
        KnownProviderCandidatesResolved _ \<Rightarrow> state = ResolvingKnownProvider
      | DocumentsFetched _ \<Rightarrow> state = FetchingDocuments
      | EvidenceExtracted _ \<Rightarrow> state = ExtractingEvidence
      | AssistantResumedWithEvidence _ _ \<Rightarrow> state = ExtractingEvidence
      | ManifestDraftBuilt _ \<Rightarrow> state \<in> {BuildingDeterministicManifestDraft, BuildingAssistantManifestDraft}
      | AssistantRequestedMoreEvidence _ \<Rightarrow> state = BuildingAssistantManifestDraft
      | ManifestValidated _ _ \<Rightarrow> state = ValidatingManifest
      | ModelsListed _ _ \<Rightarrow> state = ListingModels
      | ProbesCompleted \<Rightarrow> state = ProbingCapabilities
      | _ \<Rightarrow> False)"

definition required_field :: "'a option \<Rightarrow> string \<Rightarrow> string \<Rightarrow> (discovery_transition_error, 'a) result" where
  "required_field v field reason = ok_or (InvalidSession (InvalidField (lit field) (lit reason))) v"

definition effect_for_operation ::
  "provider_discovery_session \<Rightarrow> discovery_operation_kind \<Rightarrow> (discovery_transition_error, discovery_effect) result" where
  "effect_for_operation s op =
     (case op of
        ResolveKnownProvider \<Rightarrow> Inr EffectResolveKnownProvider
      | FetchDocuments \<Rightarrow> Inr EffectFetchDocuments
      | ExtractEvidence \<Rightarrow> Inr EffectExtractEvidence
      | BuildDeterministicManifestDraft \<Rightarrow> Inr EffectBuildDeterministicManifestDraft
      | BuildAssistantManifestDraft \<Rightarrow>
          result_bind (required_field (pds_active_effect_approval s) ''active_effect_approval''
            ''is required to restart assistant manifest generation'') (\<lambda>a. Inr (EffectBuildAssistantManifestDraft a))
      | ValidateManifest \<Rightarrow> Inr EffectValidateManifest
      | ListModels \<Rightarrow> Inr EffectListModels
      | ProbeCapabilities \<Rightarrow>
          result_bind (required_field (pds_active_effect_approval s) ''active_effect_approval''
            ''is required to restart capability probes'') (\<lambda>a. Inr (EffectProbeCapabilities a))
      | AtomicCommit \<Rightarrow>
          result_bind (required_field (pds_commit_attempt_id s) ''commit_attempt_id''
            ''is required to restart a commit'') (\<lambda>attempt.
          result_bind (required_field (pds_commit_plan_sha256 s) ''commit_plan_sha256''
            ''is required to restart a commit'') (\<lambda>plan. Inr (CommitAtomically attempt plan)))
      | Compensation \<Rightarrow>
          result_bind (required_field (pds_commit_attempt_id s) ''commit_attempt_id''
            ''is required to resume compensation'') (\<lambda>attempt. Inr (RunCompensation attempt)))"

definition cleanup_checkpoint :: discovery_recovery_checkpoint where
  "cleanup_checkpoint = \<lparr>drc_interrupted_state = Compensating, drc_operation = Compensation\<rparr>"

definition settled_state :: "provider_discovery_session \<Rightarrow> discovery_state" where
  "settled_state s = (if pds_cancellation_pending s then Cancelled else Failed)"

definition start_compensation :: "provider_discovery_session \<Rightarrow> provider_discovery_session \<Rightarrow> transition_outcome" where
  "start_compensation s t =
     result_bind (required_field (pds_commit_attempt_id s) ''commit_attempt_id'' ''is required to compensate'') (\<lambda>attempt.
     Inr (t\<lparr>pds_state := Compensating\<rparr>, RunCompensation attempt, Some WarnCompensationRequired))"

subsection \<open>Evidence and drafts\<close>

definition on_candidates_resolved :: "provider_discovery_session \<Rightarrow> nat \<Rightarrow> transition_outcome" where
  "on_candidates_resolved s n =
     (if n = 0 then Inr (s\<lparr>pds_state := FetchingDocuments\<rparr>, EffectFetchDocuments, None)
      else Inr (s\<lparr>pds_state := AwaitingTemplateSelection\<rparr>, EffectNone, None))"

fun on_evidence_extracted :: "provider_discovery_session \<Rightarrow> discovery_evidence_resolution \<Rightarrow> transition_outcome" where
  "on_evidence_extracted s DeterministicDraftAvailable =
     Inr (s\<lparr>pds_state := BuildingDeterministicManifestDraft\<rparr>, EffectBuildDeterministicManifestDraft, None)"
| "on_evidence_extracted s AssistantRecommended = Inr (s\<lparr>pds_state := AwaitingAssistantConsent\<rparr>, EffectNone, None)"
| "on_evidence_extracted s MoreEvidenceRequired = Inr (s\<lparr>pds_state := AwaitingMoreEvidence\<rparr>, EffectNone, None)"

definition start_assistant :: "provider_discovery_session \<Rightarrow> str \<Rightarrow> str \<Rightarrow> transition_outcome" where
  "start_assistant s approval_id grant =
     result_bind (map_err InvalidAction (dsc_validate_sha256 ''approval_grant_sha256'' grant)) (\<lambda>_.
     let approval = \<lparr>dab_approval_id = approval_id, dab_grant_sha256 = grant\<rparr> in
     Inr (s\<lparr>pds_active_effect_approval := Some approval, pds_state := BuildingAssistantManifestDraft\<rparr>,
       EffectBuildAssistantManifestDraft approval, None))"

definition on_assistant_resumed :: "provider_discovery_session \<Rightarrow> str \<Rightarrow> str \<Rightarrow> transition_outcome" where
  "on_assistant_resumed s approval_id grant =
     result_bind (map_err InvalidAction (dsc_validate_sha256 ''approval_grant_sha256'' grant)) (\<lambda>_.
     let approval = \<lparr>dab_approval_id = approval_id, dab_grant_sha256 = grant\<rparr> in
     result_bind (map_err InvalidAction (approval_binding_validate approval)) (\<lambda>_.
     Inr (s\<lparr>pds_active_effect_approval := Some approval, pds_state := BuildingAssistantManifestDraft\<rparr>,
       EffectBuildAssistantManifestDraft approval, None)))"

definition on_supply_more_evidence :: "provider_discovery_session \<Rightarrow> str list \<Rightarrow> transition_outcome" where
  "on_supply_more_evidence s evidence_ids =
     result_bind (map_err InvalidAction (validate_supplied_evidence_ids evidence_ids)) (\<lambda>_.
     Inr (s\<lparr>pds_state := ExtractingEvidence\<rparr>, EffectExtractEvidence, None))"

definition fresh_source_allowed ::
  "discovery_env \<Rightarrow> sanitized_discovery_input \<Rightarrow> discovery_fresh_evidence_source \<Rightarrow>
     (discovery_transition_error, bool) result" where
  "fresh_source_allowed env input source =
     (case dco_network_mode (sdi_connection_options input) of
        Public \<Rightarrow> Inr True
      | LocalLoopback \<Rightarrow>
          result_bind (map_err InvalidAction (canonical_origin_for_http_url env (sdi_site_url input))) (\<lambda>input_origin.
          Inr (fresh_source_origin source = input_origin))
      | ApprovedLocalNetwork \<Rightarrow>
          Inr (case source of
             SanitizedCurl origin \<Rightarrow>
               (case dco_local_network_approval (sdi_connection_options input) of
                  None \<Rightarrow> False | Some approval \<Rightarrow> origin = lna_origin approval)
           | DocumentUrl _ \<Rightarrow> False))"

definition on_supply_fresh_evidence ::
  "discovery_env \<Rightarrow> provider_discovery_session \<Rightarrow> str list \<Rightarrow> discovery_fresh_evidence_source \<Rightarrow> transition_outcome" where
  "on_supply_fresh_evidence env s evidence_ids source =
     result_bind (map_err InvalidAction (validate_supplied_evidence_ids evidence_ids)) (\<lambda>_.
     result_bind (fresh_source_allowed env (pds_input s) source) (\<lambda>source_allowed.
     if \<not> source_allowed
     then Inl (InvalidAction (InvalidField (lit ''fresh_evidence.source.origin'')
            (lit ''is outside the session network authority'')))
     else Inr (s\<lparr>pds_state := ExtractingEvidence\<rparr>, EffectExtractEvidence, None)))"

definition on_more_evidence_requested :: "provider_discovery_session \<Rightarrow> nat \<Rightarrow> transition_outcome" where
  "on_more_evidence_requested s question_count =
     (if question_count = 0 \<or> question_count > 128
      then Inl (InvalidAction (InvalidField (lit ''assistant_more_evidence.question_count'')
             (lit ''must contain between 1 and 128 questions'')))
      else Inr (s\<lparr>pds_active_effect_approval := None, pds_state := AwaitingMoreEvidence\<rparr>, EffectNone, None))"

definition on_manifest_draft_built :: "provider_discovery_session \<Rightarrow> str \<Rightarrow> transition_outcome" where
  "on_manifest_draft_built s manifest =
     result_bind (map_err InvalidAction (dsc_validate_sha256 ''manifest_sha256'' manifest)) (\<lambda>_.
     Inr (s\<lparr>pds_manifest_sha256 := Some manifest, pds_active_effect_approval := None, pds_state := ValidatingManifest\<rparr>,
       EffectValidateManifest, None))"

definition on_manifest_validated :: "provider_discovery_session \<Rightarrow> str \<Rightarrow> bool \<Rightarrow> transition_outcome" where
  "on_manifest_validated s manifest origin_approval_required =
     result_bind (map_err InvalidAction (dsc_validate_sha256 ''manifest_sha256'' manifest)) (\<lambda>_.
     if (case pds_manifest_sha256 s of None \<Rightarrow> False | Some drafted \<Rightarrow> drafted \<noteq> manifest)
     then Inl (InvalidAction (InvalidField (lit ''manifest_sha256'')
            (lit ''validated manifest does not match the persisted draft'')))
     else let t = s\<lparr>pds_manifest_sha256 := Some manifest\<rparr> in
          if origin_approval_required then Inr (t\<lparr>pds_state := AwaitingCredentialOriginApproval\<rparr>, EffectNone, None)
          else Inr (t\<lparr>pds_state := ListingModels\<rparr>, EffectListModels, None))"

subsection \<open>Probes and review\<close>

definition on_models_listed :: "provider_discovery_session \<Rightarrow> nat \<Rightarrow> transition_outcome" where
  "on_models_listed s probe_candidates =
     Inr (s\<lparr>pds_state := (if probe_candidates = 0 then AwaitingReview else AwaitingProbeConsent)\<rparr>, EffectNone, None)"

definition on_approve_probes :: "provider_discovery_session \<Rightarrow> str \<Rightarrow> str \<Rightarrow> transition_outcome" where
  "on_approve_probes s approval_id grant =
     result_bind (map_err InvalidAction (dsc_validate_sha256 ''approval_grant_sha256'' grant)) (\<lambda>_.
     let approval = \<lparr>dab_approval_id = approval_id, dab_grant_sha256 = grant\<rparr> in
     Inr (s\<lparr>pds_active_effect_approval := Some approval, pds_state := ProbingCapabilities\<rparr>,
       EffectProbeCapabilities approval, None))"

definition on_approve_review :: "provider_discovery_session \<Rightarrow> str \<Rightarrow> str \<Rightarrow> transition_outcome" where
  "on_approve_review s attempt plan =
     result_bind (map_err InvalidAction (dsc_validate_sha256 ''commit_plan_sha256'' plan)) (\<lambda>_.
     Inr (s\<lparr>pds_commit_plan_sha256 := Some plan, pds_commit_attempt_id := Some attempt, pds_state := Committing\<rparr>,
       CommitAtomically attempt plan, None))"

subsection \<open>Commit and compensation\<close>

definition commit_completed :: "provider_discovery_session \<Rightarrow> provider_discovery_session \<Rightarrow> str \<Rightarrow> transition_outcome" where
  "commit_completed s t connection =
     (if pds_cancellation_pending s then start_compensation s t
      else Inr (t\<lparr>pds_state := Ready, pds_committed_connection_id := Some connection, pds_cancellation_pending := False\<rparr>,
             EffectNone, None))"

definition on_commit_failed :: "provider_discovery_session \<Rightarrow> discovery_failure \<Rightarrow> transition_outcome" where
  "on_commit_failed s failure =
     result_bind (map_err InvalidAction (discovery_failure_validate failure)) (\<lambda>_.
     Inr (s\<lparr>pds_state := settled_state s, pds_failure := Some failure, pds_cancellation_pending := False,
       pds_active_effect_approval := None\<rparr>, EffectNone, None))"

definition on_compensation_failed :: "provider_discovery_session \<Rightarrow> discovery_failure \<Rightarrow> transition_outcome" where
  "on_compensation_failed s failure =
     (if pds_failure s \<noteq> None then invalid_transition (pds_state s) ''compensation_failed''
      else result_bind (map_err InvalidAction (discovery_failure_validate failure)) (\<lambda>_.
           Inr (s\<lparr>pds_failure := Some failure\<rparr>, EffectNone, None)))"

definition on_resume_compensation :: "provider_discovery_session \<Rightarrow> transition_outcome" where
  "on_resume_compensation s =
     (if pds_failure s = None then invalid_transition (pds_state s) ''resume_compensation''
      else result_bind (required_field (pds_commit_attempt_id s) ''commit_attempt_id''
             ''is required to resume compensation'') (\<lambda>attempt.
           Inr (s\<lparr>pds_failure := None\<rparr>, RunCompensation attempt, None)))"

definition on_compensation_succeeded :: "provider_discovery_session \<Rightarrow> transition_outcome" where
  "on_compensation_succeeded s =
     (if pds_failure s \<noteq> None then invalid_transition (pds_state s) ''compensation_succeeded''
      else Inr (s\<lparr>pds_state := settled_state s, pds_cancellation_pending := False, pds_active_effect_approval := None\<rparr>,
             EffectNone, None))"

definition on_outcome_unknown :: "provider_discovery_session \<Rightarrow> transition_outcome" where
  "on_outcome_unknown s =
     (if pds_state s = Compensating \<and> pds_failure s \<noteq> None
      then invalid_transition (pds_state s) ''external_outcome_became_unknown''
      else case state_operation (pds_state s) of
        None \<Rightarrow> invalid_transition (pds_state s) ''external_outcome_became_unknown''
      | Some op \<Rightarrow>
          Inr (s\<lparr>pds_state := UnknownOutcome, pds_unknown_operation := Some op, pds_recovery := None\<rparr>,
            EffectNone, Some WarnUnknownExternalOutcome))"

subsection \<open>Recovery\<close>

definition on_restart_interrupted :: "provider_discovery_session \<Rightarrow> transition_outcome" where
  "on_restart_interrupted s =
     result_bind (required_field (pds_recovery s) ''recovery'' ''is required to restart'') (\<lambda>checkpoint.
     result_bind (effect_for_operation s (drc_operation checkpoint)) (\<lambda>effect.
     Inr (s\<lparr>pds_state := drc_interrupted_state checkpoint, pds_recovery := None, pds_unknown_operation := None\<rparr>,
       effect, None)))"

definition on_confirmed_no_effect :: "provider_discovery_session \<Rightarrow> transition_outcome" where
  "on_confirmed_no_effect s =
     result_bind (required_field (pds_unknown_operation s) ''unknown_operation'' ''is required to reconcile'') (\<lambda>op.
     let t = s\<lparr>pds_unknown_operation := None\<rparr> in
     if pds_cancellation_pending s
     then if op \<in> {AtomicCommit, Compensation}
          then Inr (t\<lparr>pds_state := Interrupted, pds_recovery := Some cleanup_checkpoint\<rparr>,
                 EffectNone, Some WarnExplicitRestartRequired)
          else Inr (t\<lparr>pds_state := Cancelled, pds_recovery := None, pds_cancellation_pending := False\<rparr>, EffectNone, None)
     else Inr (t\<lparr>pds_state := Interrupted,
            pds_recovery := Some \<lparr>drc_interrupted_state = state_for_operation op, drc_operation = op\<rparr>\<rparr>,
            EffectNone, Some WarnExplicitRestartRequired))"

definition reconcile_settled :: "provider_discovery_session \<Rightarrow> transition_outcome" where
  "reconcile_settled s =
     Inr (s\<lparr>pds_state := settled_state s, pds_unknown_operation := None, pds_cancellation_pending := False,
       pds_active_effect_approval := None\<rparr>, EffectNone, None)"

fun on_resolve_unknown :: "provider_discovery_session \<Rightarrow> discovery_unknown_outcome_resolution \<Rightarrow> transition_outcome" where
  "on_resolve_unknown s ConfirmedNoEffect = on_confirmed_no_effect s"
| "on_resolve_unknown s (ConfirmedCommitCompleted connection) =
     (if pds_unknown_operation s \<noteq> Some AtomicCommit then invalid_transition (pds_state s) ''resolve_unknown_outcome''
      else commit_completed s (s\<lparr>pds_unknown_operation := None\<rparr>) connection)"
| "on_resolve_unknown s ConfirmedCompensated =
     (if pds_unknown_operation s \<noteq> Some Compensation \<and> pds_unknown_operation s \<noteq> Some AtomicCommit
      then invalid_transition (pds_state s) ''resolve_unknown_outcome''
      else reconcile_settled s)"
| "on_resolve_unknown s ManuallyReconciledAsFailed = reconcile_settled s"

subsection \<open>The table\<close>

definition apply_state_action ::
  "discovery_env \<Rightarrow> provider_discovery_session \<Rightarrow> provider_discovery_action \<Rightarrow> transition_outcome" where
  "apply_state_action env s action =
     (case (pds_state s, action) of
        (Draft, Begin) \<Rightarrow> Inr (s\<lparr>pds_state := ResolvingKnownProvider\<rparr>, EffectResolveKnownProvider, None)
      | (ResolvingKnownProvider, KnownProviderCandidatesResolved n) \<Rightarrow> on_candidates_resolved s n
      | (AwaitingTemplateSelection, SelectTemplate _) \<Rightarrow>
          Inr (s\<lparr>pds_state := ValidatingManifest\<rparr>, EffectValidateManifest, None)
      | (AwaitingTemplateSelection, ContinueWithoutTemplate) \<Rightarrow>
          Inr (s\<lparr>pds_state := FetchingDocuments\<rparr>, EffectFetchDocuments, None)
      | (FetchingDocuments, DocumentsFetched _) \<Rightarrow>
          Inr (s\<lparr>pds_state := ExtractingEvidence\<rparr>, EffectExtractEvidence, None)
      | (ExtractingEvidence, EvidenceExtracted resolution) \<Rightarrow> on_evidence_extracted s resolution
      | (ExtractingEvidence, AssistantResumedWithEvidence approval grant) \<Rightarrow> on_assistant_resumed s approval grant
      | (AwaitingMoreEvidence, SupplyMoreEvidence ids) \<Rightarrow> on_supply_more_evidence s ids
      | (AwaitingMoreEvidence, SupplyFreshEvidence ids source) \<Rightarrow> on_supply_fresh_evidence env s ids source
      | (AwaitingMoreEvidence, RequestAssistant) \<Rightarrow>
          Inr (s\<lparr>pds_state := AwaitingAssistantConsent\<rparr>, EffectNone, None)
      | (AwaitingAssistantConsent, ApproveAssistant approval grant) \<Rightarrow> start_assistant s approval grant
      | (AwaitingAssistantConsent, DeclineAssistant) \<Rightarrow>
          Inr (s\<lparr>pds_state := AwaitingMoreEvidence\<rparr>, EffectNone, Some WarnAssistantDeclined)
      | (BuildingDeterministicManifestDraft, ManifestDraftBuilt manifest) \<Rightarrow> on_manifest_draft_built s manifest
      | (BuildingAssistantManifestDraft, ManifestDraftBuilt manifest) \<Rightarrow> on_manifest_draft_built s manifest
      | (BuildingAssistantManifestDraft, AssistantCheckpointed _) \<Rightarrow> Inr (s, EffectNone, None)
      | (BuildingAssistantManifestDraft, AssistantRequestedMoreEvidence n) \<Rightarrow> on_more_evidence_requested s n
      | (ValidatingManifest, ManifestValidated manifest origin_required) \<Rightarrow> on_manifest_validated s manifest origin_required
      | (AwaitingCredentialOriginApproval, ApproveCredentialOrigin _) \<Rightarrow>
          Inr (s\<lparr>pds_state := ListingModels\<rparr>, EffectListModels, None)
      | (ListingModels, ModelsListed _ probe_candidates) \<Rightarrow> on_models_listed s probe_candidates
      | (AwaitingProbeConsent, ApproveProbes approval grant) \<Rightarrow> on_approve_probes s approval grant
      | (AwaitingProbeConsent, SkipProbes) \<Rightarrow> Inr (s\<lparr>pds_state := AwaitingReview\<rparr>, EffectNone, Some WarnProbesSkipped)
      | (ProbingCapabilities, ProbesCompleted) \<Rightarrow>
          Inr (s\<lparr>pds_active_effect_approval := None, pds_state := AwaitingReview\<rparr>, EffectNone, None)
      | (AwaitingReview, ApproveReview _ attempt plan _) \<Rightarrow> on_approve_review s attempt plan
      | (Committing, CommitSucceeded connection) \<Rightarrow> commit_completed s s connection
      | (Committing, CommitFailedBeforeApply failure) \<Rightarrow> on_commit_failed s failure
      | (Compensating, CompensationFailed failure) \<Rightarrow> on_compensation_failed s failure
      | (Compensating, ResumeCompensation) \<Rightarrow> on_resume_compensation s
      | (Committing, CompensationRequired) \<Rightarrow> start_compensation s s
      | (Compensating, CompensationSucceeded) \<Rightarrow> on_compensation_succeeded s
      | (Committing, ExternalOutcomeBecameUnknown) \<Rightarrow> on_outcome_unknown s
      | (Compensating, ExternalOutcomeBecameUnknown) \<Rightarrow> on_outcome_unknown s
      | (Interrupted, RestartInterrupted) \<Rightarrow> on_restart_interrupted s
      | (UnknownOutcome, ResolveUnknownOutcome _ resolution) \<Rightarrow> on_resolve_unknown s resolution
      | _ \<Rightarrow> invalid_transition (pds_state s) (action_kind action))"

subsection \<open>Cancellation, interruption and failure\<close>

definition apply_cancel :: "provider_discovery_session \<Rightarrow> transition_outcome" where
  "apply_cancel s =
     (if is_terminal (pds_state s) then invalid_transition (pds_state s) ''cancel''
      else if pds_state s = UnknownOutcome then Inl UnknownOutcomeRequiresReconciliation
      else if pds_state s = Compensating
      then Inr (s\<lparr>pds_cancellation_pending := True\<rparr>, EffectNone, Some WarnCompensationRequired)
      else case state_operation (pds_state s) of
        Some op \<Rightarrow>
          if pds_cancellation_pending s then Inr (s, EffectNone, None)
          else Inr (s\<lparr>pds_cancellation_pending := True\<rparr>, RequestCancellation op, None)
      | None \<Rightarrow> Inr (clear_recovery_markers (s\<lparr>pds_state := Cancelled\<rparr>), EffectNone, None))"

definition apply_interrupt ::
  "provider_discovery_session \<Rightarrow> discovery_operation_kind \<Rightarrow> discovery_interruption_outcome \<Rightarrow> transition_outcome" where
  "apply_interrupt s op outcome =
     (if state_operation (pds_state s) \<noteq> Some op \<or> pds_state s = Compensating \<and> pds_failure s \<noteq> None
      then invalid_transition (pds_state s) ''interrupt''
      else case outcome of
        ConfirmedNoExternalEffect \<Rightarrow>
          if pds_cancellation_pending s
          then if op \<in> {AtomicCommit, Compensation}
               then Inr (s\<lparr>pds_state := Interrupted, pds_recovery := Some cleanup_checkpoint, pds_unknown_operation := None\<rparr>,
                      EffectNone, Some WarnExplicitRestartRequired)
               else Inr (clear_recovery_markers (s\<lparr>pds_state := Cancelled, pds_cancellation_pending := False\<rparr>),
                      EffectNone, None)
          else Inr (s\<lparr>pds_state := Interrupted,
                 pds_recovery := Some \<lparr>drc_interrupted_state = pds_state s, drc_operation = op\<rparr>,
                 pds_unknown_operation := None\<rparr>, EffectNone, Some WarnExplicitRestartRequired)
      | ExternalOutcomeUnknown \<Rightarrow>
          Inr (s\<lparr>pds_state := UnknownOutcome, pds_recovery := None, pds_unknown_operation := Some op\<rparr>,
            EffectNone, Some WarnUnknownExternalOutcome))"

definition apply_fail :: "provider_discovery_session \<Rightarrow> discovery_failure \<Rightarrow> transition_outcome" where
  "apply_fail s failure =
     (if is_terminal (pds_state s) \<or> pds_state s \<in> {Committing, Compensating, UnknownOutcome}
      then invalid_transition (pds_state s) ''fail''
      else result_bind (map_err InvalidAction (discovery_failure_validate failure)) (\<lambda>_.
           Inr (clear_recovery_markers (s\<lparr>pds_state := settled_state s, pds_failure := Some failure,
             pds_cancellation_pending := False\<rparr>), EffectNone, None)))"

definition apply_ordinary ::
  "discovery_env \<Rightarrow> provider_discovery_session \<Rightarrow> provider_discovery_action \<Rightarrow> transition_outcome" where
  "apply_ordinary env s action =
     (if pds_cancellation_pending s \<and> state_operation (pds_state s) \<noteq> None \<and>
         pds_state s \<notin> {Committing, Compensating}
      then if \<not> is_operation_completion (pds_state s) action
           then invalid_transition (pds_state s) (action_kind action)
           else Inr (clear_recovery_markers (s\<lparr>pds_state := Cancelled, pds_cancellation_pending := False\<rparr>),
                  EffectNone, None)
      else apply_state_action env s action)"

definition apply_action ::
  "discovery_env \<Rightarrow> provider_discovery_session \<Rightarrow> provider_discovery_action \<Rightarrow> transition_outcome" where
  "apply_action env s action =
     (case action of
        Cancel \<Rightarrow> apply_cancel s
      | Interrupt op outcome \<Rightarrow> apply_interrupt s op outcome
      | Fail failure \<Rightarrow> apply_fail s failure
      | _ \<Rightarrow> apply_ordinary env s action)"

subsection \<open>Events\<close>

definition progress_for_action :: "provider_discovery_action \<Rightarrow> discovery_progress option" where
  "progress_for_action action =
     (case action of
        KnownProviderCandidatesResolved n \<Rightarrow> Some \<lparr>dp_phase = ProviderCandidates, dp_completed = n, dp_total = Some n\<rparr>
      | DocumentsFetched n \<Rightarrow> Some \<lparr>dp_phase = Documents, dp_completed = n, dp_total = None\<rparr>
      | ModelsListed n _ \<Rightarrow> Some \<lparr>dp_phase = Models, dp_completed = n, dp_total = Some n\<rparr>
      | ProbesCompleted \<Rightarrow> Some \<lparr>dp_phase = Probes, dp_completed = 1, dp_total = Some 1\<rparr>
      | _ \<Rightarrow> None)"

definition action_required_for :: "provider_discovery_session \<Rightarrow> discovery_action_required option" where
  "action_required_for s =
     (case pds_state s of
        AwaitingTemplateSelection \<Rightarrow> Some RequireSelectTemplate
      | AwaitingMoreEvidence \<Rightarrow> Some RequireSupplyMoreEvidence
      | AwaitingAssistantConsent \<Rightarrow> Some RequireApproveAssistant
      | AwaitingCredentialOriginApproval \<Rightarrow> Some RequireApproveCredentialOrigin
      | AwaitingProbeConsent \<Rightarrow> Some RequireApproveProbes
      | AwaitingReview \<Rightarrow> Some RequireReview
      | Interrupted \<Rightarrow> map_option (\<lambda>checkpoint. RequireRestartInterrupted (drc_operation checkpoint)) (pds_recovery s)
      | UnknownOutcome \<Rightarrow> map_option RequireReconcileUnknownOutcome (pds_unknown_operation s)
      | _ \<Rightarrow> None)"

subsection \<open>One revision-checked action\<close>

definition advance_counters ::
  "provider_discovery_session \<Rightarrow> provider_discovery_session \<Rightarrow> (discovery_transition_error, provider_discovery_session) result" where
  "advance_counters s t =
     result_bind (ok_or RevisionExhausted (checked_add u64_max (pds_revision s) 1)) (\<lambda>revision.
     result_bind (ok_or SequenceExhausted (checked_add u64_max (pds_next_event_sequence s) 1)) (\<lambda>sequence.
     Inr (t\<lparr>pds_revision := revision, pds_next_event_sequence := sequence\<rparr>)))"

definition session_apply ::
  "discovery_env \<Rightarrow> str \<Rightarrow> provider_discovery_session \<Rightarrow> discovery_action_envelope \<Rightarrow>
     (discovery_transition_error, discovery_transition) result" where
  "session_apply env event_id s envelope =
     result_bind (map_err InvalidSession (session_validate env s)) (\<lambda>_.
     result_bind (map_err InvalidAction (envelope_validate envelope)) (\<lambda>_.
     if dae_expected_revision envelope \<noteq> pds_revision s
     then Inl (RevisionConflict (dae_expected_revision envelope) (pds_revision s))
     else
     result_bind (apply_action env s (dae_action envelope)) (\<lambda>(changed, effect, warning).
     result_bind (advance_counters s changed) (\<lambda>t.
     result_bind (map_err InvalidSession (session_validate env t)) (\<lambda>_.
     Inr \<lparr>dtr_previous_revision = pds_revision s, dtr_session = t,
       dtr_event = \<lparr>pde_version = PROVIDER_DISCOVERY_EVENT_VERSION, pde_id = event_id, pde_session_id = pds_id s,
         pde_sequence = pds_next_event_sequence s, pde_session_revision = pds_revision t, pde_state = pds_state t,
         pde_progress = progress_for_action (dae_action envelope), pde_action_required = action_required_for t,
         pde_warning = warning, pde_action_id = dae_id envelope, pde_failure = pds_failure t\<rparr>,
       dtr_receipt = \<lparr>dar_action_id = dae_id envelope, dar_session_id = pds_id s,
         dar_action_kind = lit (action_kind (dae_action envelope)), dar_request_sha256 = dae_request_sha256 envelope,
         dar_expected_revision = dae_expected_revision envelope, dar_resulting_revision = pds_revision t,
         dar_event_sequence = pds_next_event_sequence s, dar_outcome = Applied\<rparr>,
       dtr_effect = effect\<rparr>)))))"

end
