(* ===== verification/Discovery_Table.thy ===== *)
theory Discovery_Table
  imports Discovery_Machine
begin

section \<open>Provider discovery: the table as a relation\<close>

text \<open>
  The specification of the transition rules: \<open>discovery_move\<close> says which session may follow which under an
  action, with the effect that is started.  An edge between two plain states changes the state only;
  the other rules name what else they change.  \<open>apply_action_move\<close> shows that the code's table implements
  the relation.
\<close>

inductive plain_edge :: "discovery_state \<Rightarrow> provider_discovery_action \<Rightarrow> discovery_state \<Rightarrow> discovery_effect \<Rightarrow> bool" where
  "plain_edge Draft Begin ResolvingKnownProvider EffectResolveKnownProvider"
| "plain_edge ResolvingKnownProvider (KnownProviderCandidatesResolved 0) FetchingDocuments EffectFetchDocuments"
| "n \<noteq> 0 \<Longrightarrow> plain_edge ResolvingKnownProvider (KnownProviderCandidatesResolved n) AwaitingTemplateSelection EffectNone"
| "plain_edge AwaitingTemplateSelection (SelectTemplate i) ValidatingManifest EffectValidateManifest"
| "plain_edge AwaitingTemplateSelection ContinueWithoutTemplate FetchingDocuments EffectFetchDocuments"
| "plain_edge FetchingDocuments (DocumentsFetched n) ExtractingEvidence EffectExtractEvidence"
| "plain_edge ExtractingEvidence (EvidenceExtracted DeterministicDraftAvailable) BuildingDeterministicManifestDraft EffectBuildDeterministicManifestDraft"
| "plain_edge ExtractingEvidence (EvidenceExtracted AssistantRecommended) AwaitingAssistantConsent EffectNone"
| "plain_edge ExtractingEvidence (EvidenceExtracted MoreEvidenceRequired) AwaitingMoreEvidence EffectNone"
| "plain_edge AwaitingMoreEvidence (SupplyMoreEvidence ids) ExtractingEvidence EffectExtractEvidence"
| "plain_edge AwaitingMoreEvidence (SupplyFreshEvidence ids source) ExtractingEvidence EffectExtractEvidence"
| "plain_edge AwaitingMoreEvidence RequestAssistant AwaitingAssistantConsent EffectNone"
| "plain_edge AwaitingAssistantConsent DeclineAssistant AwaitingMoreEvidence EffectNone"
| "plain_edge AwaitingCredentialOriginApproval (ApproveCredentialOrigin i) ListingModels EffectListModels"
| "plain_edge ListingModels (ModelsListed n 0) AwaitingReview EffectNone"
| "k \<noteq> 0 \<Longrightarrow> plain_edge ListingModels (ModelsListed n k) AwaitingProbeConsent EffectNone"
| "plain_edge AwaitingProbeConsent SkipProbes AwaitingReview EffectNone"

inductive_simps plain_edge_simps: "plain_edge p a q e"

definition quiet :: "provider_discovery_session \<Rightarrow> bool" where
  "quiet s \<longleftrightarrow> \<not> (pds_cancellation_pending s \<and> state_operation (pds_state s) \<noteq> None)"

inductive discovery_move ::
  "provider_discovery_session \<Rightarrow> provider_discovery_action \<Rightarrow> provider_discovery_session \<Rightarrow> discovery_effect \<Rightarrow> bool" where
  move_plain: "plain_edge (pds_state s) a q e \<Longrightarrow> quiet s \<Longrightarrow> discovery_move s a (s\<lparr>pds_state := q\<rparr>) e"
| move_checkpoint: "pds_state s = BuildingAssistantManifestDraft \<Longrightarrow> quiet s \<Longrightarrow>
    discovery_move s (AssistantCheckpointed c) s EffectNone"
| move_assistant: "pds_state s = AwaitingAssistantConsent \<and> a = ApproveAssistant i g \<or>
      pds_state s = ExtractingEvidence \<and> a = AssistantResumedWithEvidence i g \<Longrightarrow> quiet s \<Longrightarrow>
    discovery_move s a
      (s\<lparr>pds_active_effect_approval := Some \<lparr>dab_approval_id = i, dab_grant_sha256 = g\<rparr>,
         pds_state := BuildingAssistantManifestDraft\<rparr>)
      (EffectBuildAssistantManifestDraft \<lparr>dab_approval_id = i, dab_grant_sha256 = g\<rparr>)"
| move_probes: "pds_state s = AwaitingProbeConsent \<Longrightarrow>
    discovery_move s (ApproveProbes i g)
      (s\<lparr>pds_active_effect_approval := Some \<lparr>dab_approval_id = i, dab_grant_sha256 = g\<rparr>,
         pds_state := ProbingCapabilities\<rparr>)
      (EffectProbeCapabilities \<lparr>dab_approval_id = i, dab_grant_sha256 = g\<rparr>)"
| move_more: "pds_state s = BuildingAssistantManifestDraft \<Longrightarrow> quiet s \<Longrightarrow> 1 \<le> n \<Longrightarrow> n \<le> 128 \<Longrightarrow>
    discovery_move s (AssistantRequestedMoreEvidence n)
      (s\<lparr>pds_active_effect_approval := None, pds_state := AwaitingMoreEvidence\<rparr>) EffectNone"
| move_drafted: "pds_state s \<in> {BuildingDeterministicManifestDraft, BuildingAssistantManifestDraft} \<Longrightarrow> quiet s \<Longrightarrow>
    discovery_move s (ManifestDraftBuilt m)
      (s\<lparr>pds_manifest_sha256 := Some m, pds_active_effect_approval := None, pds_state := ValidatingManifest\<rparr>)
      EffectValidateManifest"
| move_validated: "pds_state s = ValidatingManifest \<Longrightarrow> quiet s \<Longrightarrow> pds_manifest_sha256 s \<in> {None, Some m} \<Longrightarrow>
    discovery_move s (ManifestValidated m required)
      (s\<lparr>pds_manifest_sha256 := Some m,
         pds_state := (if required then AwaitingCredentialOriginApproval else ListingModels)\<rparr>)
      (if required then EffectNone else EffectListModels)"
| move_probed: "pds_state s = ProbingCapabilities \<Longrightarrow> quiet s \<Longrightarrow>
    discovery_move s ProbesCompleted (s\<lparr>pds_active_effect_approval := None, pds_state := AwaitingReview\<rparr>) EffectNone"
| move_review: "pds_state s = AwaitingReview \<Longrightarrow>
    discovery_move s (ApproveReview i attempt plan g)
      (s\<lparr>pds_commit_plan_sha256 := Some plan, pds_commit_attempt_id := Some attempt, pds_state := Committing\<rparr>)
      (CommitAtomically attempt plan)"
| move_committed: "pds_state s = Committing \<and> a = CommitSucceeded c \<or>
      pds_state s = UnknownOutcome \<and> pds_unknown_operation s = Some AtomicCommit \<and>
        a = ResolveUnknownOutcome i (ConfirmedCommitCompleted c) \<Longrightarrow>
    \<not> pds_cancellation_pending s \<Longrightarrow>
    discovery_move s a
      (s\<lparr>pds_unknown_operation := None, pds_state := Ready, pds_committed_connection_id := Some c\<rparr>) EffectNone"
| move_compensate: "pds_state s = Committing \<and>
        (a = CompensationRequired \<or> pds_cancellation_pending s \<and> a = CommitSucceeded c) \<or>
      pds_state s = UnknownOutcome \<and> pds_unknown_operation s = Some AtomicCommit \<and> pds_cancellation_pending s \<and>
        a = ResolveUnknownOutcome i (ConfirmedCommitCompleted c) \<Longrightarrow>
    pds_commit_attempt_id s = Some attempt \<Longrightarrow>
    discovery_move s a (s\<lparr>pds_unknown_operation := None, pds_state := Compensating\<rparr>) (RunCompensation attempt)"
| move_compensation_failed: "pds_state s = Compensating \<Longrightarrow> pds_failure s = None \<Longrightarrow>
    discovery_move s (CompensationFailed f) (s\<lparr>pds_failure := Some f\<rparr>) EffectNone"
| move_compensation_resumed: "pds_state s = Compensating \<Longrightarrow> pds_failure s \<noteq> None \<Longrightarrow>
    pds_commit_attempt_id s = Some attempt \<Longrightarrow>
    discovery_move s ResumeCompensation (s\<lparr>pds_failure := None\<rparr>) (RunCompensation attempt)"
| move_settled: "pds_state s = Compensating \<and> pds_failure s = None \<and> a = CompensationSucceeded \<or>
      pds_state s = UnknownOutcome \<and> (a = ResolveUnknownOutcome i ManuallyReconciledAsFailed \<or>
        a = ResolveUnknownOutcome i ConfirmedCompensated \<and>
        pds_unknown_operation s \<in> {Some Compensation, Some AtomicCommit}) \<Longrightarrow>
    discovery_move s a
      (s\<lparr>pds_state := settled_state s, pds_unknown_operation := None, pds_cancellation_pending := False,
         pds_active_effect_approval := None\<rparr>) EffectNone"
| move_failed: "pds_state s = Committing \<and> a = CommitFailedBeforeApply f \<or>
      \<not> is_terminal (pds_state s) \<and> pds_state s \<notin> {Committing, Compensating, UnknownOutcome} \<and> a = Fail f \<Longrightarrow>
    discovery_move s a
      (s\<lparr>pds_state := settled_state s, pds_failure := Some f, pds_cancellation_pending := False, pds_recovery := None,
         pds_unknown_operation := None, pds_active_effect_approval := None\<rparr>) EffectNone"
| move_unknown: "state_operation (pds_state s) = Some op \<Longrightarrow> \<not> (pds_state s = Compensating \<and> pds_failure s \<noteq> None) \<Longrightarrow>
    a = Interrupt op ExternalOutcomeUnknown \<or>
      a = ExternalOutcomeBecameUnknown \<and> pds_state s \<in> {Committing, Compensating} \<Longrightarrow>
    discovery_move s a (s\<lparr>pds_state := UnknownOutcome, pds_recovery := None, pds_unknown_operation := Some op\<rparr>) EffectNone"
| move_interrupted: "state_operation (pds_state s) = Some op \<and> \<not> (pds_state s = Compensating \<and> pds_failure s \<noteq> None) \<and>
        a = Interrupt op ConfirmedNoExternalEffect \<or>
      pds_state s = UnknownOutcome \<and> pds_unknown_operation s = Some op \<and> a = ResolveUnknownOutcome i ConfirmedNoEffect \<Longrightarrow>
    (pds_cancellation_pending s \<longrightarrow> op \<in> {AtomicCommit, Compensation}) \<Longrightarrow>
    c = (if pds_cancellation_pending s then cleanup_checkpoint
         else \<lparr>drc_interrupted_state = state_for_operation op, drc_operation = op\<rparr>) \<Longrightarrow>
    discovery_move s a (s\<lparr>pds_state := Interrupted, pds_recovery := Some c, pds_unknown_operation := None\<rparr>) EffectNone"
| move_discarded: "pds_cancellation_pending s \<Longrightarrow> state_operation (pds_state s) = Some op \<Longrightarrow>
    op \<notin> {AtomicCommit, Compensation} \<Longrightarrow>
    a = Interrupt op ConfirmedNoExternalEffect \<or> is_operation_completion (pds_state s) a \<Longrightarrow>
    discovery_move s a
      (s\<lparr>pds_state := Cancelled, pds_cancellation_pending := False, pds_recovery := None, pds_unknown_operation := None,
         pds_active_effect_approval := None\<rparr>) EffectNone"
| move_reconciled: "pds_cancellation_pending s \<Longrightarrow> pds_state s = UnknownOutcome \<Longrightarrow> pds_unknown_operation s = Some op \<Longrightarrow>
    op \<notin> {AtomicCommit, Compensation} \<Longrightarrow>
    discovery_move s (ResolveUnknownOutcome i ConfirmedNoEffect)
      (s\<lparr>pds_unknown_operation := None, pds_state := Cancelled, pds_recovery := None, pds_cancellation_pending := False\<rparr>)
      EffectNone"
| move_restarted: "pds_state s = Interrupted \<Longrightarrow> pds_recovery s = Some c \<Longrightarrow>
    effect_for_operation s (drc_operation c) = Inr e \<Longrightarrow>
    discovery_move s RestartInterrupted
      (s\<lparr>pds_state := drc_interrupted_state c, pds_recovery := None, pds_unknown_operation := None\<rparr>) e"
| move_cancel_requested: "state_operation (pds_state s) = Some op \<Longrightarrow> op \<noteq> Compensation \<Longrightarrow> \<not> pds_cancellation_pending s \<Longrightarrow>
    discovery_move s Cancel (s\<lparr>pds_cancellation_pending := True\<rparr>) (RequestCancellation op)"
| move_cancel_recorded: "state_operation (pds_state s) = Some op \<Longrightarrow> op = Compensation \<or> pds_cancellation_pending s \<Longrightarrow>
    discovery_move s Cancel (s\<lparr>pds_cancellation_pending := True\<rparr>) EffectNone"
| move_cancelled: "state_operation (pds_state s) = None \<Longrightarrow> \<not> is_terminal (pds_state s) \<Longrightarrow> pds_state s \<noteq> UnknownOutcome \<Longrightarrow>
    discovery_move s Cancel
      (s\<lparr>pds_state := Cancelled, pds_recovery := None, pds_unknown_operation := None, pds_active_effect_approval := None\<rparr>)
      EffectNone"

subsection \<open>The code implements the table\<close>

lemmas arm_defs = on_candidates_resolved_def start_assistant_def on_assistant_resumed_def on_supply_more_evidence_def
  on_supply_fresh_evidence_def on_more_evidence_requested_def on_manifest_draft_built_def on_manifest_validated_def
  on_models_listed_def on_approve_probes_def on_approve_review_def commit_completed_def start_compensation_def
  on_commit_failed_def on_compensation_failed_def on_resume_compensation_def on_compensation_succeeded_def
  on_outcome_unknown_def on_restart_interrupted_def on_confirmed_no_effect_def reconcile_settled_def
  required_field_def invalid_transition_def

text \<open>The code leaves alone a marker that is already empty, where the table empties it.\<close>

lemma move_cong: "discovery_move s a t e \<Longrightarrow> t = t' \<Longrightarrow> discovery_move s a t' e"
  by simp

lemma session_valid_markers:
  assumes "session_validate env s = Inr ()"
  shows "pds_state s \<noteq> Interrupted \<Longrightarrow> pds_recovery s = None" "pds_state s \<noteq> UnknownOutcome \<Longrightarrow> pds_unknown_operation s = None"
    "pds_failure s \<noteq> None \<Longrightarrow> pds_state s \<in> {Compensating, Failed, Cancelled}"
    "\<not> approval_allowed s \<Longrightarrow> pds_active_effect_approval s = None"
    "approval_required s \<Longrightarrow> pds_active_effect_approval s \<noteq> None"
    "pds_state s = Interrupted \<Longrightarrow> \<exists>c. pds_recovery s = Some c \<and> drc_interrupted_state c = state_for_operation (drc_operation c)"
    "pds_state s = UnknownOutcome \<Longrightarrow> pds_unknown_operation s \<noteq> None"
    "pds_state s \<in> {Committing, Compensating} \<Longrightarrow> pds_commit_plan_sha256 s \<noteq> None \<and> pds_commit_attempt_id s \<noteq> None"
  using assms
  by (auto simp: session_validate_def session_validate_failure_def session_validate_recovery_def session_validate_unknown_def
      session_validate_approval_def session_validate_commit_def result_simps for_some_Inr_conv state_operation_Some_conv)

text \<open>The plain part of the table, then the arms of the draft, the probes, the commit and the recovery.\<close>

lemma plain_moves:
  assumes "apply_state_action env s action = Inr (t, e, w)"
    "pds_state s \<in> {Draft, ResolvingKnownProvider, AwaitingTemplateSelection, FetchingDocuments, AwaitingMoreEvidence,
       AwaitingCredentialOriginApproval, ListingModels}" "quiet s"
  shows "discovery_move s action t e"
  using assms(1,2)
  by (cases "pds_state s"; cases action)
    (auto simp: apply_state_action_def arm_defs result_simps fresh_source_allowed_def Let_def
       intro!: move_plain [OF _ assms(3)] simp: plain_edge_simps split: if_splits)

lemma evidence_extracted_move:
  "on_evidence_extracted s r = Inr (t, e, w) \<Longrightarrow> pds_state s = ExtractingEvidence \<Longrightarrow> quiet s \<Longrightarrow> discovery_move s (EvidenceExtracted r) t e"
  by (cases r) (auto intro!: move_plain simp: plain_edge_simps)

lemma evidence_moves:
  assumes "apply_state_action env s action = Inr (t, e, w)" "pds_state s \<in> {ExtractingEvidence, AwaitingAssistantConsent}" "quiet s"
  shows "discovery_move s action t e"
  using assms
  by (cases "pds_state s"; cases action)
    (auto simp: apply_state_action_def arm_defs result_simps Let_def plain_edge_simps
       intro: discovery_move.intros evidence_extracted_move)

lemmas move_validated_cases =
  move_validated [where required = True, simplified] move_validated [where required = False, simplified]

lemma draft_moves:
  assumes "apply_state_action env s action = Inr (t, e, w)"
    "pds_state s \<in> {BuildingDeterministicManifestDraft, BuildingAssistantManifestDraft, ValidatingManifest,
       AwaitingProbeConsent, ProbingCapabilities, AwaitingReview}" "quiet s"
  shows "discovery_move s action t e"
  using assms
  by (cases "pds_state s"; cases action)
    (auto simp: apply_state_action_def arm_defs result_simps Let_def plain_edge_simps
       intro: discovery_move.intros move_validated_cases split: if_splits option.splits)

lemma commit_completed_move:
  assumes "commit_completed s (s\<lparr>pds_unknown_operation := None\<rparr>) c = Inr (t, e, w)"
    "pds_state s = Committing \<and> a = CommitSucceeded c \<or>
     pds_state s = UnknownOutcome \<and> pds_unknown_operation s = Some AtomicCommit \<and>
       a = ResolveUnknownOutcome i (ConfirmedCommitCompleted c)"
  shows "discovery_move s a t e"
proof (cases "pds_cancellation_pending s")
  case True
  then obtain attempt where "pds_commit_attempt_id s = Some attempt"
    "t = s\<lparr>pds_unknown_operation := None, pds_state := Compensating\<rparr>" "e = RunCompensation attempt"
    using assms(1) by (auto simp: arm_defs result_simps)
  then show ?thesis using assms(2) True by (auto intro!: move_compensate)
next
  case False
  then have "e = EffectNone" "t = s\<lparr>pds_unknown_operation := None, pds_state := Ready, pds_committed_connection_id := Some c\<rparr>"
    using assms(1) by (auto simp: arm_defs)
  then show ?thesis using assms(2) False by (auto intro!: move_committed)
qed

lemma committing_moves:
  assumes "apply_state_action env s action = Inr (t, e, w)" "pds_state s = Committing" "session_validate env s = Inr ()"
  shows "discovery_move s action t e"
proof -
  note none = session_valid_markers(1,2) [OF assms(3)]
  then have empty: "s\<lparr>pds_unknown_operation := None\<rparr> = s" "pds_recovery s = None" "pds_unknown_operation s = None"
    using assms(2) by auto
  consider (committed) c where "action = CommitSucceeded c" "commit_completed s s c = Inr (t, e, w)"
    | (failed) f where "action = CommitFailedBeforeApply f" "on_commit_failed s f = Inr (t, e, w)"
    | (required) "action = CompensationRequired" "start_compensation s s = Inr (t, e, w)"
    | (unknown) "action = ExternalOutcomeBecameUnknown" "on_outcome_unknown s = Inr (t, e, w)"
    using assms(1,2) by (cases action) (auto simp: apply_state_action_def invalid_transition_def)
  then show ?thesis
  proof cases
    case committed
    then have "commit_completed s (s\<lparr>pds_unknown_operation := None\<rparr>) c = Inr (t, e, w)" unfolding empty(1) by simp
    then show ?thesis using committed(1) assms(2) by (intro commit_completed_move [of s c]) auto
  next
    case failed
    then show ?thesis using empty assms(2) by (auto simp: arm_defs result_simps intro!: move_cong [OF move_failed])
  next
    case required
    then show ?thesis using empty assms(2) by (auto simp: arm_defs result_simps intro!: move_cong [OF move_compensate])
  next
    case unknown
    then show ?thesis using empty assms(2) by (auto simp: arm_defs result_simps intro!: move_cong [OF move_unknown])
  qed
qed

lemma compensating_moves:
  assumes "apply_state_action env s action = Inr (t, e, w)" "pds_state s = Compensating" "session_validate env s = Inr ()"
  shows "discovery_move s action t e"
proof -
  note none = session_valid_markers(1,2) [OF assms(3)]
  then have empty: "pds_recovery s = None" "pds_unknown_operation s = None" using assms(2) by auto
  consider (failed) f where "action = CompensationFailed f" "on_compensation_failed s f = Inr (t, e, w)"
    | (resumed) "action = ResumeCompensation" "on_resume_compensation s = Inr (t, e, w)"
    | (succeeded) "action = CompensationSucceeded" "on_compensation_succeeded s = Inr (t, e, w)"
    | (unknown) "action = ExternalOutcomeBecameUnknown" "on_outcome_unknown s = Inr (t, e, w)"
    using assms(1,2) by (cases action) (auto simp: apply_state_action_def invalid_transition_def)
  then show ?thesis
  proof cases
    case failed
    then show ?thesis using assms(2) by (auto simp: arm_defs result_simps intro!: move_compensation_failed split: if_splits)
  next
    case resumed
    then show ?thesis using assms(2) by (auto simp: arm_defs result_simps intro!: move_compensation_resumed split: if_splits)
  next
    case succeeded
    then show ?thesis using empty assms(2)
      by (auto simp: arm_defs intro!: move_cong [OF move_settled] split: if_splits)
  next
    case unknown
    then show ?thesis using empty assms(2)
      by (auto simp: arm_defs intro!: move_cong [OF move_unknown] split: if_splits)
  qed
qed

lemma interrupted_moves:
  assumes "apply_state_action env s action = Inr (t, e, w)" "pds_state s = Interrupted"
  shows "discovery_move s action t e"
  using assms
  by (cases action) (auto simp: apply_state_action_def arm_defs result_simps intro!: move_restarted)

lemma confirmed_no_effect_move:
  assumes "on_confirmed_no_effect s = Inr (t, e, w)" "pds_state s = UnknownOutcome"
  shows "discovery_move s (ResolveUnknownOutcome i ConfirmedNoEffect) t e"
proof -
  obtain op where op: "pds_unknown_operation s = Some op"
    using assms(1) by (auto simp: arm_defs result_simps)
  show ?thesis
  proof (cases "pds_cancellation_pending s \<and> op \<notin> {AtomicCommit, Compensation}")
    case True
    then show ?thesis using assms op by (auto simp: arm_defs Let_def intro!: move_reconciled)
  next
    case False
    then show ?thesis using assms op
      by (auto simp: arm_defs Let_def intro!: move_cong [OF move_interrupted [of s op _ i]] split: if_splits)
  qed
qed

lemma unknown_moves:
  assumes "apply_state_action env s action = Inr (t, e, w)" "pds_state s = UnknownOutcome" "session_validate env s = Inr ()"
  shows "discovery_move s action t e"
proof -
  obtain i r where action: "action = ResolveUnknownOutcome i r" and r: "on_resolve_unknown s r = Inr (t, e, w)"
    using assms(1,2) by (cases action) (auto simp: apply_state_action_def invalid_transition_def)
  have settled: "discovery_move s action t e" if "reconcile_settled s = Inr (t, e, w)"
    "r = ManuallyReconciledAsFailed \<or>
     r = ConfirmedCompensated \<and> pds_unknown_operation s \<in> {Some Compensation, Some AtomicCommit}"
    using that action assms(2) by (auto simp: reconcile_settled_def intro!: move_settled)
  show ?thesis
  proof (cases r)
    case ConfirmedNoEffect
    then show ?thesis using r action assms(2) by (auto intro: confirmed_no_effect_move)
  next
    case (ConfirmedCommitCompleted c)
    then show ?thesis using r action assms(2)
      by (intro commit_completed_move [of s c t e w action i]) (auto simp: invalid_transition_def split: if_splits)
  qed (use r settled in \<open>auto simp: invalid_transition_def split: if_splits\<close>)
qed

subsection \<open>The refinement\<close>

lemma terminal_no_arm:
  "pds_state s = Ready \<or> pds_state s = Failed \<or> pds_state s = Cancelled \<Longrightarrow>
     apply_state_action env s action = Inl (InvalidTransition (pds_state s) (action_kind action))"
  by (auto simp: apply_state_action_def invalid_transition_def)

lemma apply_ordinary_move:
  assumes "apply_ordinary env s action = Inr (t, e, w)" "session_validate env s = Inr ()"
  shows "discovery_move s action t e"
proof (cases "pds_cancellation_pending s \<and> state_operation (pds_state s) \<noteq> None \<and> pds_state s \<notin> {Committing, Compensating}")
  case True
  then obtain op where "state_operation (pds_state s) = Some op" by auto
  then show ?thesis using True assms(1)
    by (auto simp: apply_ordinary_def invalid_transition_def clear_recovery_markers_def state_operation_Some_conv
      intro!: move_discarded split: if_splits)
next
  case False
  then have table: "apply_state_action env s action = Inr (t, e, w)" using assms(1) by (auto simp: apply_ordinary_def)
  show ?thesis
  proof (cases "pds_state s \<in> {Committing, Compensating, Interrupted, UnknownOutcome}")
    case True
    then show ?thesis
      using committing_moves [OF table] compensating_moves [OF table] interrupted_moves [OF table] unknown_moves [OF table]
        assms(2) by auto
  next
    case other: False
    then have "quiet s" using False by (auto simp: quiet_def)
    moreover have "pds_state s \<notin> {Ready, Failed, Cancelled}"
      using table by (auto simp: terminal_no_arm)
    ultimately have "pds_state s \<in> {Draft, ResolvingKnownProvider, AwaitingTemplateSelection, FetchingDocuments,
        AwaitingMoreEvidence, AwaitingCredentialOriginApproval, ListingModels} \<or>
      pds_state s \<in> {ExtractingEvidence, AwaitingAssistantConsent} \<or>
      pds_state s \<in> {BuildingDeterministicManifestDraft, BuildingAssistantManifestDraft, ValidatingManifest,
        AwaitingProbeConsent, ProbingCapabilities, AwaitingReview}"
      using other by (cases "pds_state s") simp_all
    then show ?thesis
      using \<open>quiet s\<close> plain_moves [OF table] evidence_moves [OF table] draft_moves [OF table] by argo
  qed
qed

lemma apply_interrupt_move:
  assumes "apply_interrupt s op outcome = Inr (t, e, w)"
  shows "discovery_move s (Interrupt op outcome) t e"
proof -
  have op: "state_operation (pds_state s) = Some op" "\<not> (pds_state s = Compensating \<and> pds_failure s \<noteq> None)"
    using assms by (auto simp: apply_interrupt_def invalid_transition_def split: if_splits)
  then have state: "pds_state s = state_for_operation op" by (simp add: state_operation_Some_conv)
  show ?thesis
  proof (cases outcome)
    case ExternalOutcomeUnknown
    then show ?thesis using assms op by (auto simp: apply_interrupt_def intro!: move_unknown)
  next
    case ConfirmedNoExternalEffect
    show ?thesis
    proof (cases "pds_cancellation_pending s \<and> op \<notin> {AtomicCommit, Compensation}")
      case True
      then show ?thesis using assms op ConfirmedNoExternalEffect
        by (auto simp: apply_interrupt_def clear_recovery_markers_def intro!: move_cong [OF move_discarded])
    next
      case False
      then show ?thesis using assms op ConfirmedNoExternalEffect state
        by (auto simp: apply_interrupt_def intro!: move_cong [OF move_interrupted [of s op]] split: if_splits)
    qed
  qed
qed

lemma apply_cancel_move:
  assumes "apply_cancel s = Inr (t, e, w)"
  shows "discovery_move s Cancel t e"
proof (cases "state_operation (pds_state s)")
  case None
  then show ?thesis using assms
    by (auto simp: apply_cancel_def invalid_transition_def clear_recovery_markers_def intro!: move_cancelled split: if_splits)
next
  case (Some op)
  then have state: "pds_state s = state_for_operation op" "pds_state s = Compensating \<longleftrightarrow> op = Compensation"
    using Some by (simp_all add: state_operation_Some_conv) (cases op, simp_all)
  show ?thesis
  proof (cases "op = Compensation \<or> pds_cancellation_pending s")
    case True
    then show ?thesis using assms Some state
      by (auto simp: apply_cancel_def invalid_transition_def intro!: move_cong [OF move_cancel_recorded] split: if_splits)
  next
    case False
    then show ?thesis using assms Some state
      by (auto simp: apply_cancel_def invalid_transition_def intro!: move_cancel_requested split: if_splits)
  qed
qed

lemma apply_fail_move:
  assumes "apply_fail s f = Inr (t, e, w)"
  shows "discovery_move s (Fail f) t e"
  using assms
  by (auto simp: apply_fail_def invalid_transition_def clear_recovery_markers_def result_simps
    intro!: move_failed split: if_splits)

lemma apply_action_move:
  assumes "apply_action env s action = Inr (t, e, w)" "session_validate env s = Inr ()"
  shows "discovery_move s action t e"
proof -
  consider (cancel) "action = Cancel" | (interrupt) op outcome where "action = Interrupt op outcome"
    | (failed) f where "action = Fail f" | (ordinary) "apply_action env s action = apply_ordinary env s action"
    by (cases action) (auto simp: apply_action_def)
  then show ?thesis
  proof cases
    case cancel
    then show ?thesis using assms(1) by (auto simp: apply_action_def intro: apply_cancel_move)
  next
    case interrupt
    then show ?thesis using assms(1) by (auto simp: apply_action_def intro: apply_interrupt_move)
  next
    case failed
    then show ?thesis using assms(1) by (auto simp: apply_action_def intro: apply_fail_move)
  next
    case ordinary
    then show ?thesis using assms by (metis apply_ordinary_move)
  qed
qed

end
