(* ===== verification/Discovery_Facts.thy ===== *)
theory Discovery_Facts
  imports Discovery_Table Step_Machines
begin

section \<open>Provider discovery: invariants of a session and its log\<close>

text \<open>
  A session advances by accepted envelopes only.  The log of a session holds each envelope with the
  transition it produced.  \<open>session_ok\<close> is the invariant of the session alone, \<open>log_ok\<close> the invariant that
  ties it to the log: the approvals that it holds were given in the log, and the commit it names was
  approved there once.
\<close>

subsection \<open>What a session holds in each phase\<close>

text \<open>The operation a session is at, also while it is interrupted or its outcome is unknown.\<close>

definition at_operation :: "provider_discovery_session \<Rightarrow> discovery_operation_kind option" where
  "at_operation s =
     (if pds_state s = Interrupted then map_option drc_operation (pds_recovery s)
      else if pds_state s = UnknownOutcome then pds_unknown_operation s
      else state_operation (pds_state s))"

definition in_commit :: "provider_discovery_session \<Rightarrow> bool" where
  "in_commit s \<longleftrightarrow> at_operation s \<in> {Some AtomicCommit, Some Compensation}"

definition commit_bound :: "provider_discovery_session \<Rightarrow> bool" where
  "commit_bound s \<longleftrightarrow>
     (pds_commit_plan_sha256 s = None \<longleftrightarrow> pds_commit_attempt_id s = None) \<and>
     (in_commit s \<or> pds_state s = Ready \<longrightarrow> pds_commit_attempt_id s \<noteq> None) \<and>
     (\<not> in_commit s \<and> \<not> is_terminal (pds_state s) \<longrightarrow> pds_commit_attempt_id s = None)"

definition manifest_bound :: "provider_discovery_session \<Rightarrow> bool" where
  "manifest_bound s \<longleftrightarrow>
     (pds_state s \<in> {AwaitingCredentialOriginApproval, AwaitingProbeConsent, AwaitingReview, Ready} \<or>
      at_operation s \<in> {Some ListModels, Some ProbeCapabilities, Some AtomicCommit, Some Compensation} \<longrightarrow>
      pds_manifest_sha256 s \<noteq> None)"

definition pending_bound :: "provider_discovery_session \<Rightarrow> bool" where
  "pending_bound s \<longleftrightarrow>
     (pds_cancellation_pending s \<longrightarrow> at_operation s \<noteq> None \<or> pds_state s = Cancelled) \<and>
     (pds_cancellation_pending s \<and> pds_state s = Interrupted \<longrightarrow> pds_recovery s = Some cleanup_checkpoint)"

definition connection_bound :: "provider_discovery_session \<Rightarrow> bool" where
  "connection_bound s \<longleftrightarrow> (pds_committed_connection_id s \<noteq> None \<longleftrightarrow> pds_state s = Ready)"

definition session_ok :: "discovery_env \<Rightarrow> provider_discovery_session \<Rightarrow> bool" where
  "session_ok env s \<longleftrightarrow>
     session_validate env s = Inr () \<and> pds_next_event_sequence s = pds_revision s + 1 \<and>
     commit_bound s \<and> manifest_bound s \<and> pending_bound s \<and> connection_bound s"

lemmas bound_defs = commit_bound_def manifest_bound_def pending_bound_def connection_bound_def in_commit_def

lemma at_operation_simps [simp]:
  "pds_state s = Interrupted \<Longrightarrow> at_operation s = map_option drc_operation (pds_recovery s)"
  "pds_state s = UnknownOutcome \<Longrightarrow> at_operation s = pds_unknown_operation s"
  "pds_state s \<noteq> Interrupted \<Longrightarrow> pds_state s \<noteq> UnknownOutcome \<Longrightarrow> at_operation s = state_operation (pds_state s)"
  by (simp_all add: at_operation_def)

lemma running:
  assumes "state_operation (pds_state s) = Some op"
  shows "at_operation s = Some op" "\<not> is_terminal (pds_state s)" "pds_state s \<notin> {Interrupted, UnknownOutcome, Ready, Failed, Cancelled}"
    "pds_state s \<notin> {AwaitingCredentialOriginApproval, AwaitingProbeConsent, AwaitingReview}"
proof -
  have "pds_state s = state_for_operation op" using assms by (simp add: state_operation_Some_conv)
  then show "at_operation s = Some op" "\<not> is_terminal (pds_state s)" "pds_state s \<notin> {Interrupted, UnknownOutcome, Ready, Failed, Cancelled}"
    "pds_state s \<notin> {AwaitingCredentialOriginApproval, AwaitingProbeConsent, AwaitingReview}"
    by (cases op; simp add: is_terminal_def)+
qed

lemma bounds_counters [simp]:
  "commit_bound (s\<lparr>pds_revision := r, pds_next_event_sequence := n\<rparr>) = commit_bound s"
  "manifest_bound (s\<lparr>pds_revision := r, pds_next_event_sequence := n\<rparr>) = manifest_bound s"
  "pending_bound (s\<lparr>pds_revision := r, pds_next_event_sequence := n\<rparr>) = pending_bound s"
  "connection_bound (s\<lparr>pds_revision := r, pds_next_event_sequence := n\<rparr>) = connection_bound s"
proof -
  have "at_operation (s\<lparr>pds_revision := r, pds_next_event_sequence := n\<rparr>) = at_operation s" by (simp add: at_operation_def)
  then show "commit_bound (s\<lparr>pds_revision := r, pds_next_event_sequence := n\<rparr>) = commit_bound s"
    "manifest_bound (s\<lparr>pds_revision := r, pds_next_event_sequence := n\<rparr>) = manifest_bound s"
    "pending_bound (s\<lparr>pds_revision := r, pds_next_event_sequence := n\<rparr>) = pending_bound s"
    "connection_bound (s\<lparr>pds_revision := r, pds_next_event_sequence := n\<rparr>) = connection_bound s"
    by (simp_all only: bound_defs) simp_all
qed

lemma settled_state_cases: "settled_state s = Cancelled \<or> settled_state s = Failed"
  by (simp add: settled_state_def)

subsection \<open>Every move keeps the bounds\<close>

lemma plain_edge_bounds:
  assumes "plain_edge p a q e"
  shows "p \<notin> {Interrupted, UnknownOutcome, Ready, Failed, Cancelled, Committing, Compensating}"
    "q \<notin> {Interrupted, UnknownOutcome, Ready, Failed, Cancelled, Committing, Compensating, ProbingCapabilities}"
    "q \<in> {AwaitingCredentialOriginApproval, AwaitingProbeConsent, AwaitingReview, ListingModels} \<Longrightarrow>
      p \<in> {AwaitingCredentialOriginApproval, AwaitingProbeConsent, ListingModels}"
  using assms by (auto simp: plain_edge_simps)

text \<open>The operation of the next session, for the moves that do not name both states.\<close>

lemma interrupted_source:
  assumes "state_operation (pds_state s) = Some op \<and> P \<or> pds_state s = UnknownOutcome \<and> pds_unknown_operation s = Some op \<and> Q"
  shows "at_operation s = Some op" "\<not> is_terminal (pds_state s)" "pds_state s \<noteq> Interrupted"
    "pds_state s \<notin> {AwaitingCredentialOriginApproval, AwaitingProbeConsent, AwaitingReview, Ready, Failed, Cancelled}"
  using assms running [of s op] by (auto simp: is_terminal_def)

lemma restarted_target:
  assumes "session_validate env s = Inr ()" "pds_state s = Interrupted" "pds_recovery s = Some c"
  shows "drc_interrupted_state c = state_for_operation (drc_operation c)"
    "state_operation (drc_interrupted_state c) = Some (drc_operation c)"
  using session_valid_markers(6) [OF assms(1,2)] assms(3) by auto

lemma move_commit_bound:
  assumes "discovery_move s a t e" "session_validate env s = Inr ()" "commit_bound s"
  shows "commit_bound t"
  using assms
proof (induction rule: discovery_move.induct)
  case (move_plain s a q e)
  then show ?case using plain_edge_bounds [OF move_plain(1)] by (cases "pds_state s"; cases q) (auto simp: bound_defs is_terminal_def)
next
  case (move_restarted s c e)
  then show ?case using restarted_target [OF _ move_restarted(1,2), of env]
    by (cases "drc_operation c") (auto simp: bound_defs is_terminal_def)
next
  case (move_unknown s op a)
  then show ?case using running [OF move_unknown(1)] by (auto simp: bound_defs is_terminal_def)
next
  case (move_interrupted s op a i c)
  then show ?case using interrupted_source [OF move_interrupted(1)]
    by (auto simp: bound_defs is_terminal_def cleanup_checkpoint_def)
next
  case (move_cancel_requested s op)
  then show ?case using running [of s op] by (auto simp: bound_defs is_terminal_def)
next
  case (move_cancel_recorded s op)
  then show ?case using running [of s op] by (auto simp: bound_defs is_terminal_def)
qed (auto simp: bound_defs is_terminal_def settled_state_def)

lemma move_manifest_bound:
  assumes "discovery_move s a t e" "session_validate env s = Inr ()" "manifest_bound s"
  shows "manifest_bound t"
  using assms
proof (induction rule: discovery_move.induct)
  case (move_plain s a q e)
  then show ?case using plain_edge_bounds [OF move_plain(1)] by (cases "pds_state s"; cases q) (auto simp: bound_defs)
next
  case (move_restarted s c e)
  then show ?case using restarted_target [OF _ move_restarted(1,2), of env]
    by (cases "drc_operation c") (auto simp: bound_defs)
next
  case (move_unknown s op a)
  then show ?case using running [OF move_unknown(1)] by (auto simp: bound_defs)
next
  case (move_interrupted s op a i c)
  then show ?case using interrupted_source [OF move_interrupted(1)]
    by (auto simp: bound_defs cleanup_checkpoint_def)
next
  case (move_cancel_requested s op)
  then show ?case using running [of s op] by (auto simp: bound_defs)
next
  case (move_cancel_recorded s op)
  then show ?case using running [of s op] by (auto simp: bound_defs)
qed (auto simp: bound_defs settled_state_def)

lemma move_pending_bound:
  assumes "discovery_move s a t e" "session_validate env s = Inr ()" "pending_bound s"
  shows "pending_bound t"
  using assms
proof (induction rule: discovery_move.induct)
  case (move_plain s a q e)
  then show ?case using plain_edge_bounds [OF move_plain(1)]
    by (cases "state_operation (pds_state s)") (auto simp: bound_defs quiet_def)
next
  case (move_restarted s c e)
  then show ?case using restarted_target [OF _ move_restarted(1,2), of env]
    by (cases "drc_operation c") (auto simp: bound_defs)
next
  case (move_cancel_requested s op)
  then show ?case using running [of s op] by (auto simp: bound_defs)
next
  case (move_cancel_recorded s op)
  then show ?case using running [of s op] by (auto simp: bound_defs)
qed (auto simp: bound_defs settled_state_def quiet_def)

lemma move_connection_bound:
  assumes "discovery_move s a t e" "session_validate env s = Inr ()" "connection_bound s"
  shows "connection_bound t"
  using assms
proof (induction rule: discovery_move.induct)
  case (move_plain s a q e)
  then show ?case using plain_edge_bounds [OF move_plain(1)] by (auto simp: connection_bound_def)
next
  case (move_restarted s c e)
  then show ?case using restarted_target [OF _ move_restarted(1,2), of env]
    by (cases "drc_operation c") (auto simp: connection_bound_def)
next
  case (move_interrupted s op a i c)
  then show ?case using interrupted_source [OF move_interrupted(1)] by (auto simp: connection_bound_def)
next
  case (move_failed s a f)
  then show ?case by (auto simp: connection_bound_def settled_state_def is_terminal_def)
qed (auto simp: connection_bound_def settled_state_def is_terminal_def)

subsection \<open>Accepted envelopes\<close>

type_synonym discovery_entry = "discovery_action_envelope \<times> discovery_transition"

definition discovery_step ::
  "discovery_env \<Rightarrow> provider_discovery_session \<Rightarrow> discovery_entry \<Rightarrow> provider_discovery_session \<Rightarrow> bool" where
  "discovery_step env s entry t \<longleftrightarrow>
     (\<exists>event_id. session_apply env event_id s (fst entry) = Inr (snd entry)) \<and> t = dtr_session (snd entry)"

lemma session_apply_accepted:
  assumes "session_apply env event_id s envelope = Inr tr"
  obtains u w where "session_validate env s = Inr ()" "envelope_validate envelope = Inr ()"
    "dae_expected_revision envelope = pds_revision s"
    "apply_action env s (dae_action envelope) = Inr (u, dtr_effect tr, w)"
    "discovery_move s (dae_action envelope) u (dtr_effect tr)"
    "dtr_session tr = u\<lparr>pds_revision := pds_revision s + 1, pds_next_event_sequence := pds_next_event_sequence s + 1\<rparr>"
    "session_validate env (dtr_session tr) = Inr ()"
    "pde_sequence (dtr_event tr) = pds_next_event_sequence s"
    "pde_state (dtr_event tr) = pds_state (dtr_session tr)"
    "dar_event_sequence (dtr_receipt tr) = pds_next_event_sequence s"
    "dar_resulting_revision (dtr_receipt tr) = pds_revision s + 1"
    "pds_revision s < u64_max" "pds_next_event_sequence s < u64_max"
proof -
  obtain u e w t where facts: "session_validate env s = Inr ()" "envelope_validate envelope = Inr ()"
    "dae_expected_revision envelope = pds_revision s" and act: "apply_action env s (dae_action envelope) = Inr (u, e, w)"
    and t: "advance_counters s u = Inr t" "session_validate env t = Inr ()" and tr: "dtr_session tr = t" "dtr_effect tr = e"
      "pde_sequence (dtr_event tr) = pds_next_event_sequence s" "pde_state (dtr_event tr) = pds_state t"
      "dar_event_sequence (dtr_receipt tr) = pds_next_event_sequence s" "dar_resulting_revision (dtr_receipt tr) = pds_revision t"
    using assms by (auto simp: session_apply_def result_simps split: if_splits)
  moreover have "discovery_move s (dae_action envelope) u e" using act facts(1) by (rule apply_action_move)
  moreover have "t = u\<lparr>pds_revision := pds_revision s + 1, pds_next_event_sequence := pds_next_event_sequence s + 1\<rparr>"
    "pds_revision s < u64_max" "pds_next_event_sequence s < u64_max"
    using t(1) by (auto simp: advance_counters_def result_simps width_simps)
  ultimately show ?thesis using that by simp
qed

lemma session_new_ok:
  assumes "session_new env session_id input = Inr s"
  shows "session_ok env s" "pds_revision s = 0" "pds_state s = Draft" "pds_active_effect_approval s = None"
    "pds_commit_attempt_id s = None" "pds_id s = session_id" "pds_input s = input"
  using assms
  by (auto simp: session_new_def result_simps session_ok_def session_validate_def session_validate_failure_def
      session_validate_recovery_def session_validate_unknown_def session_validate_approval_def session_validate_commit_def
      approval_required_def approval_allowed_def bound_defs is_terminal_def at_operation_def)

lemma discovery_step_ok:
  assumes "discovery_step env s entry t" "session_ok env s"
  shows "session_ok env t"
proof -
  obtain event_id where "session_apply env event_id s (fst entry) = Inr (snd entry)" and t: "t = dtr_session (snd entry)"
    using assms(1) by (auto simp: discovery_step_def)
  then obtain u where move: "discovery_move s (dae_action (fst entry)) u (dtr_effect (snd entry))"
    and valid: "session_validate env s = Inr ()" "session_validate env t = Inr ()"
    and t': "t = u\<lparr>pds_revision := pds_revision s + 1, pds_next_event_sequence := pds_next_event_sequence s + 1\<rparr>"
    by (auto elim: session_apply_accepted)
  have "commit_bound u" "manifest_bound u" "pending_bound u" "connection_bound u"
    using assms(2) move_commit_bound [OF move valid(1)] move_manifest_bound [OF move valid(1)]
      move_pending_bound [OF move valid(1)] move_connection_bound [OF move valid(1)] by (auto simp: session_ok_def)
  moreover have "pds_next_event_sequence s = pds_revision s + 1" using assms(2) by (simp add: session_ok_def)
  ultimately show ?thesis using valid(2) by (simp add: session_ok_def t')
qed

subsection \<open>Effects\<close>

fun effect_operation :: "discovery_effect \<Rightarrow> discovery_operation_kind option" where
  "effect_operation EffectResolveKnownProvider = Some ResolveKnownProvider"
| "effect_operation EffectFetchDocuments = Some FetchDocuments"
| "effect_operation EffectExtractEvidence = Some ExtractEvidence"
| "effect_operation EffectBuildDeterministicManifestDraft = Some BuildDeterministicManifestDraft"
| "effect_operation (EffectBuildAssistantManifestDraft _) = Some BuildAssistantManifestDraft"
| "effect_operation EffectValidateManifest = Some ValidateManifest"
| "effect_operation EffectListModels = Some ListModels"
| "effect_operation (EffectProbeCapabilities _) = Some ProbeCapabilities"
| "effect_operation (CommitAtomically _ _) = Some AtomicCommit"
| "effect_operation (RunCompensation _) = Some Compensation"
| "effect_operation EffectNone = None"
| "effect_operation (RequestCancellation _) = None"

lemma effect_for_operation_operation: "effect_for_operation s op = Inr e \<Longrightarrow> effect_operation e = Some op"
  by (cases op) (auto simp: effect_for_operation_def result_simps)

text \<open>An effect starts the operation of the state that the move enters; no other move starts one.\<close>

lemma move_effect_operation:
  assumes "discovery_move s a t e" "session_validate env s = Inr ()" "effect_operation e = Some op"
  shows "state_operation (pds_state t) = Some op"
  using assms
proof (induction rule: discovery_move.induct)
  case (move_plain s a q e)
  then show ?case by (auto simp: plain_edge_simps)
next
  case (move_restarted s c e)
  then show ?case using restarted_target [OF _ move_restarted(1,2), of env] effect_for_operation_operation by fastforce
qed (auto split: if_splits)

lemma move_cancellation_request:
  assumes "discovery_move s a t (RequestCancellation op)"
  shows "a = Cancel" "\<not> pds_cancellation_pending s" "pds_cancellation_pending t" "pds_state t = pds_state s"
    "state_operation (pds_state s) = Some op" "op \<noteq> Compensation"
proof -
  have "a = Cancel \<and> \<not> pds_cancellation_pending s \<and> pds_cancellation_pending t \<and> pds_state t = pds_state s \<and>
    state_operation (pds_state s) = Some op \<and> op \<noteq> Compensation"
    using assms
  proof (cases rule: discovery_move.cases)
    case (move_restarted c)
    then show ?thesis by (cases "drc_operation c") (auto simp: effect_for_operation_def result_simps)
  qed (auto simp: plain_edge_simps split: if_splits)
  then show "a = Cancel" "\<not> pds_cancellation_pending s" "pds_cancellation_pending t" "pds_state t = pds_state s"
    "state_operation (pds_state s) = Some op" "op \<noteq> Compensation" by auto
qed

text \<open>While an operation runs, another one starts only when its completion is reported.\<close>

lemma move_no_overlap:
  assumes "discovery_move s a t e" "effect_operation e \<noteq> None"
  shows "state_operation (pds_state s) = None \<or> is_operation_completion (pds_state s) a \<or>
    a \<in> {CompensationRequired, ResumeCompensation} \<or> (\<exists>c. a = CommitSucceeded c)"
  using assms
proof (cases rule: discovery_move.cases)
  case (move_plain q)
  then show ?thesis by (auto simp: plain_edge_simps is_operation_completion_def)
qed (auto simp: is_operation_completion_def split: if_splits)

subsection \<open>Approvals\<close>

fun granted_binding :: "provider_discovery_action \<Rightarrow> discovery_approval_binding option" where
  "granted_binding (ApproveAssistant i g) = Some \<lparr>dab_approval_id = i, dab_grant_sha256 = g\<rparr>"
| "granted_binding (AssistantResumedWithEvidence i g) = Some \<lparr>dab_approval_id = i, dab_grant_sha256 = g\<rparr>"
| "granted_binding (ApproveProbes i g) = Some \<lparr>dab_approval_id = i, dab_grant_sha256 = g\<rparr>"
| "granted_binding _ = None"

fun approved_commit :: "provider_discovery_action \<Rightarrow> (str \<times> str) option" where
  "approved_commit (ApproveReview _ attempt plan _) = Some (attempt, plan)"
| "approved_commit _ = None"

definition commit_pair :: "provider_discovery_session \<Rightarrow> (str \<times> str) list" where
  "commit_pair s = (case (pds_commit_attempt_id s, pds_commit_plan_sha256 s) of
     (Some attempt, Some plan) \<Rightarrow> [(attempt, plan)] | _ \<Rightarrow> [])"

definition granted :: "discovery_entry list \<Rightarrow> discovery_approval_binding set" where
  "granted entries = {b. \<exists>entry \<in> set entries. granted_binding (dae_action (fst entry)) = Some b}"

definition approved_commits :: "discovery_entry list \<Rightarrow> (str \<times> str) list" where
  "approved_commits entries = List.map_filter (\<lambda>entry. approved_commit (dae_action (fst entry))) entries"

definition log_ok :: "discovery_env \<Rightarrow> discovery_entry list \<Rightarrow> provider_discovery_session \<Rightarrow> bool" where
  "log_ok env entries s \<longleftrightarrow>
     session_ok env s \<and> pds_revision s = length entries \<and>
     (\<forall>b. pds_active_effect_approval s = Some b \<longrightarrow> b \<in> granted entries) \<and> approved_commits entries = commit_pair s"

lemma granted_snoc [simp]:
  "b \<in> granted (entries @ [entry]) \<longleftrightarrow> b \<in> granted entries \<or> granted_binding (dae_action (fst entry)) = Some b"
  by (auto simp: granted_def)

lemma approved_commits_snoc [simp]:
  "approved_commits (entries @ [entry]) =
     approved_commits entries @ (case approved_commit (dae_action (fst entry)) of None \<Rightarrow> [] | Some c \<Rightarrow> [c])"
  by (simp add: approved_commits_def map_filter_def split: option.split)

lemma move_approval:
  assumes "discovery_move s a t e" "pds_active_effect_approval t = Some b"
  shows "pds_active_effect_approval s = Some b \<or> granted_binding a = Some b"
  using assms by (cases rule: discovery_move.cases) auto

lemma completion_no_commit: "is_operation_completion st a \<Longrightarrow> approved_commit a = None"
  by (cases a) (auto simp: is_operation_completion_def)

lemma move_commit_pair:
  assumes "discovery_move s a t e"
  shows "approved_commit a = None \<and> commit_pair t = commit_pair s \<or>
    pds_state s = AwaitingReview \<and> (\<exists>c. approved_commit a = Some c \<and> commit_pair t = [c])"
  using assms
proof (cases rule: discovery_move.cases)
  case (move_plain q)
  then show ?thesis by (auto simp: plain_edge_simps commit_pair_def)
qed (auto simp: commit_pair_def dest: completion_no_commit)

lemma restart_authority:
  "effect_for_operation s op = Inr (EffectBuildAssistantManifestDraft b) \<Longrightarrow> pds_active_effect_approval s = Some b"
  "effect_for_operation s op = Inr (EffectProbeCapabilities b) \<Longrightarrow> pds_active_effect_approval s = Some b"
  "effect_for_operation s op = Inr (CommitAtomically x p) \<Longrightarrow>
     pds_commit_attempt_id s = Some x \<and> pds_commit_plan_sha256 s = Some p"
  "effect_for_operation s op = Inr (RunCompensation x) \<Longrightarrow> pds_commit_attempt_id s = Some x"
  by (cases op; simp add: effect_for_operation_def required_field_def result_simps)+

lemma move_effect_authorised:
  assumes "discovery_move s a t e"
  shows "e = EffectBuildAssistantManifestDraft b \<or> e = EffectProbeCapabilities b \<Longrightarrow>
      pds_active_effect_approval s = Some b \<or> granted_binding a = Some b"
    "e = CommitAtomically x p \<Longrightarrow>
      approved_commit a = Some (x, p) \<or> pds_commit_attempt_id s = Some x \<and> pds_commit_plan_sha256 s = Some p"
    "e = RunCompensation x \<Longrightarrow> pds_commit_attempt_id s = Some x"
proof -
  show "e = EffectBuildAssistantManifestDraft b \<or> e = EffectProbeCapabilities b \<Longrightarrow>
      pds_active_effect_approval s = Some b \<or> granted_binding a = Some b"
    using assms by (cases rule: discovery_move.cases) (auto simp: plain_edge_simps dest: restart_authority split: if_splits)
  show "e = CommitAtomically x p \<Longrightarrow>
      approved_commit a = Some (x, p) \<or> pds_commit_attempt_id s = Some x \<and> pds_commit_plan_sha256 s = Some p"
    using assms by (cases rule: discovery_move.cases) (auto simp: plain_edge_simps dest: restart_authority split: if_splits)
  show "e = RunCompensation x \<Longrightarrow> pds_commit_attempt_id s = Some x"
    using assms by (cases rule: discovery_move.cases) (auto simp: plain_edge_simps dest: restart_authority split: if_splits)
qed

lemma discovery_step_log:
  assumes "discovery_step env s entry t" "log_ok env entries s"
  shows "log_ok env (entries @ [entry]) t"
proof -
  obtain event_id where accepted: "session_apply env event_id s (fst entry) = Inr (snd entry)"
    and t: "t = dtr_session (snd entry)" using assms(1) by (auto simp: discovery_step_def)
  obtain u where move: "discovery_move s (dae_action (fst entry)) u (dtr_effect (snd entry))"
    and t': "t = u\<lparr>pds_revision := pds_revision s + 1, pds_next_event_sequence := pds_next_event_sequence s + 1\<rparr>"
    using accepted t by (auto elim: session_apply_accepted)
  have same: "commit_pair t = commit_pair u" "pds_active_effect_approval t = pds_active_effect_approval u"
    by (simp_all add: t' commit_pair_def)
  have "pds_state s = AwaitingReview \<Longrightarrow> commit_pair s = []"
    using assms(2) by (auto simp: log_ok_def session_ok_def commit_bound_def in_commit_def is_terminal_def commit_pair_def)
  then have "approved_commits (entries @ [entry]) = commit_pair t"
    using move_commit_pair [OF move] assms(2) same by (auto simp: log_ok_def)
  moreover have "session_ok env t" using discovery_step_ok assms by (auto simp: log_ok_def)
  moreover have "\<forall>b. pds_active_effect_approval t = Some b \<longrightarrow> b \<in> granted (entries @ [entry])"
    using move_approval [OF move] assms(2) same by (auto simp: log_ok_def)
  moreover have "pds_revision t = length (entries @ [entry])" using assms(2) by (simp add: t' log_ok_def)
  ultimately show ?thesis by (simp only: log_ok_def)
qed

interpretation discovery_log: logged_machine "discovery_step env" "log_ok env"
  by unfold_locales (rule discovery_step_log)

interpretation discovery_session: durable_machine "\<lambda>s t. \<exists>entry. discovery_step env s entry t" "session_ok env"
  "\<lambda>s t. pds_id t = pds_id s \<and> pds_input t = pds_input s \<and> pds_revision s \<le> pds_revision t"
proof unfold_locales
  fix s t
  assume ok: "session_ok env s" and step: "\<exists>entry. discovery_step env s entry t"
  then show "session_ok env t" using discovery_step_ok by blast
  obtain entry event_id where "session_apply env event_id s (fst entry) = Inr (snd entry)" "t = dtr_session (snd entry)"
    using step by (auto simp: discovery_step_def)
  then obtain u where move: "discovery_move s (dae_action (fst entry)) u (dtr_effect (snd entry))"
    and t: "t = u\<lparr>pds_revision := pds_revision s + 1, pds_next_event_sequence := pds_next_event_sequence s + 1\<rparr>"
    by (auto elim: session_apply_accepted)
  have "pds_id u = pds_id s \<and> pds_input u = pds_input s" using move by (cases rule: discovery_move.cases) auto
  then show "pds_id t = pds_id s \<and> pds_input t = pds_input s \<and> pds_revision s \<le> pds_revision t" by (simp add: t)
qed auto

lemma new_log_ok: "session_new env session_id input = Inr s \<Longrightarrow> log_ok env [] s"
  using session_new_ok [of env session_id input s]
  by (auto simp: log_ok_def approved_commits_def map_filter_def commit_pair_def)

end
