(* ===== verification/Discovery_Settling.thy ===== *)
theory Discovery_Settling
  imports Discovery_Facts
begin

section \<open>Provider discovery: every session can be settled\<close>

text \<open>
  From every session that is not terminal a terminal one is reached within two accepted actions: the table
  has no dead end.  \<open>wind_down\<close> names the actions.
\<close>

definition zero_sha256 :: str where "zero_sha256 = replicate 64 48"

definition stop_failure :: discovery_failure where
  "stop_failure = \<lparr>df_code = lit ''stopped'', df_message_key = lit ''discovery.stopped'', df_recoverable = False\<rparr>"

definition wind_down :: "provider_discovery_session \<Rightarrow> provider_discovery_action list" where
  "wind_down s =
     (case pds_state s of
        UnknownOutcome \<Rightarrow> [ResolveUnknownOutcome (lit ''operator'') ManuallyReconciledAsFailed]
      | Compensating \<Rightarrow> (if pds_failure s = None then [] else [ResumeCompensation]) @ [CompensationSucceeded]
      | Committing \<Rightarrow> [CommitFailedBeforeApply stop_failure]
      | _ \<Rightarrow> [Fail stop_failure])"

definition plain_envelope :: "provider_discovery_session \<Rightarrow> provider_discovery_action \<Rightarrow> discovery_action_envelope" where
  "plain_envelope s action =
     \<lparr>dae_id = lit ''action'', dae_expected_revision = pds_revision s, dae_request_sha256 = zero_sha256, dae_action = action\<rparr>"

lemma zero_sha256_ok [simp]: "dsc_validate_sha256 field zero_sha256 = Inr ()"
  by (simp add: dsc_validate_sha256_def zero_sha256_def str_len_def len_utf8_def utf8_def utf8_char_def is_lower_hex_def
      is_ascii_digit_def list_all_iff sum_list_replicate)

lemma stop_failure_ok [simp]: "discovery_failure_validate stop_failure = Inr ()"
  by (simp add: discovery_failure_validate_def stop_failure_def is_stable_identifier_def lit_def str_len_def len_utf8_def
      utf8_def utf8_char_def is_ascii_alphanumeric_def is_ascii_lowercase_def is_ascii_uppercase_def is_ascii_digit_def)

text \<open>An action that yields a valid session is accepted.\<close>

lemma accepted_step:
  assumes "session_ok env s" "apply_action env s action = Inr (u, e, w)" "pds_revision s + 1 < u64_max"
    "session_validate env (u\<lparr>pds_revision := pds_revision s + 1, pds_next_event_sequence := pds_revision s + 2\<rparr>) = Inr ()"
    "envelope_validate (plain_envelope s action) = Inr ()"
  shows "\<exists>tr. discovery_step env s (plain_envelope s action, tr)
    (u\<lparr>pds_revision := pds_revision s + 1, pds_next_event_sequence := pds_revision s + 2\<rparr>)"
proof -
  have counters: "pds_next_event_sequence s = pds_revision s + 1" "session_validate env s = Inr ()"
    using assms(1) by (auto simp: session_ok_def)
  have "advance_counters s u = Inr (u\<lparr>pds_revision := pds_revision s + 1, pds_next_event_sequence := pds_revision s + 2\<rparr>)"
    using assms(3) by (simp add: advance_counters_def counters checked_add_def)
  then have "\<exists>tr. session_apply env [] s (plain_envelope s action) = Inr tr \<and>
      dtr_session tr = u\<lparr>pds_revision := pds_revision s + 1, pds_next_event_sequence := pds_revision s + 2\<rparr>"
    using assms(2,4,5) counters by (simp add: session_apply_def plain_envelope_def)
  then show ?thesis by (auto simp: discovery_step_def)
qed

lemma plain_envelope_ok:
  "action \<in> {ResumeCompensation, CompensationSucceeded, Fail f, CommitFailedBeforeApply f, ResolveUnknownOutcome i r} \<Longrightarrow>
     envelope_validate (plain_envelope s action) = Inr ()"
  by (auto simp: envelope_validate_def plain_envelope_def)

text \<open>A session with empty markers is valid in a state that needs none.\<close>

lemma session_validate_parts:
  "session_validate env s = Inr () \<longleftrightarrow>
     discovery_input_validate env (pds_input s) = Inr () \<and> pds_next_event_sequence s \<noteq> 0 \<and>
     for_some (dsc_validate_sha256 ''commit_plan_sha256'') (pds_commit_plan_sha256 s) = Inr () \<and>
     for_some (dsc_validate_sha256 ''manifest_sha256'') (pds_manifest_sha256 s) = Inr () \<and>
     for_some approval_binding_validate (pds_active_effect_approval s) = Inr () \<and>
     session_validate_failure s = Inr () \<and> session_validate_recovery s = Inr () \<and> session_validate_unknown s = Inr () \<and>
     session_validate_approval s = Inr () \<and> session_validate_commit s = Inr ()"
  by (simp add: session_validate_def result_simps)

lemma settled_valid:
  assumes "session_validate env s = Inr ()" "pds_input u = pds_input s" "pds_next_event_sequence u \<noteq> 0"
    "pds_commit_plan_sha256 u = pds_commit_plan_sha256 s" "pds_manifest_sha256 u = pds_manifest_sha256 s"
    "pds_active_effect_approval u = None" "pds_recovery u = None" "pds_unknown_operation u = None"
    "pds_state u = Failed \<or> pds_state u = Cancelled" "pds_failure u \<in> {pds_failure s, Some stop_failure}"
  shows "session_validate env u = Inr ()"
proof -
  have "for_some discovery_failure_validate (pds_failure s) = Inr ()"
    using assms(1) by (cases "pds_failure s") (auto simp: session_validate_parts session_validate_failure_def result_simps)
  then have "for_some discovery_failure_validate (pds_failure u) = Inr ()" using assms(10) by auto
  then have "session_validate_failure u = Inr ()"
    using assms(9) by (cases "pds_failure u") (auto simp: session_validate_failure_def)
  moreover have "session_validate_recovery u = Inr ()" "session_validate_unknown u = Inr ()"
    "session_validate_approval u = Inr ()" "session_validate_commit u = Inr ()"
    using assms(6-9)
    by (auto simp: session_validate_recovery_def session_validate_unknown_def session_validate_approval_def
      session_validate_commit_def approval_required_def)
  ultimately show ?thesis using assms(1-6) by (simp add: session_validate_parts)
qed

lemma compensation_resumed_valid:
  assumes "session_validate env s = Inr ()" "pds_state s = Compensating"
  shows "session_validate env (s\<lparr>pds_failure := None, pds_revision := r, pds_next_event_sequence := Suc n\<rparr>) = Inr ()"
  using assms
  by (simp add: session_validate_parts session_validate_failure_def session_validate_recovery_def
      session_validate_unknown_def session_validate_approval_def session_validate_commit_def approval_required_def
      approval_allowed_def)

lemma settles_in_one:
  assumes ok: "session_ok env s" and room: "pds_revision s + 1 < u64_max" and open_state: "\<not> is_terminal (pds_state s)"
    and failure: "pds_state s = Compensating \<Longrightarrow> pds_failure s = None"
  shows "\<exists>action tr t. wind_down s = [action] \<and> discovery_step env s (plain_envelope s action, tr) t \<and> is_terminal (pds_state t)"
proof -
  note valid = ok [unfolded session_ok_def, THEN conjunct1]
  note markers = session_valid_markers(1,2) [OF valid]
  let ?next = "\<lambda>u. u\<lparr>pds_revision := pds_revision s + 1, pds_next_event_sequence := pds_revision s + 2\<rparr>"
  have step: ?thesis if action: "wind_down s = [action]" "apply_action env s action = Inr (u, e, w)"
    "pds_state u = settled_state s" "session_validate env (?next u) = Inr ()"
    "action \<in> {ResumeCompensation, CompensationSucceeded, Fail stop_failure, CommitFailedBeforeApply stop_failure,
       ResolveUnknownOutcome (lit ''operator'') ManuallyReconciledAsFailed}" for action u e w
  proof -
    obtain tr where "discovery_step env s (plain_envelope s action, tr) (?next u)"
      using accepted_step [OF ok action(2) room action(4) plain_envelope_ok [OF action(5)]] by auto
    moreover have "is_terminal (pds_state (?next u))" using action(3) settled_state_cases [of s] by (auto simp: is_terminal_def)
    ultimately show ?thesis using action(1) by blast
  qed
  have settled: "settled_state s = Failed \<or> settled_state s = Cancelled" using settled_state_cases [of s] by auto
  consider (unknown) "pds_state s = UnknownOutcome" | (compensating) "pds_state s = Compensating"
    | (committing) "pds_state s = Committing" | (other) "pds_state s \<notin> {UnknownOutcome, Compensating, Committing}" by blast
  then show ?thesis
  proof cases
    case unknown
    then show ?thesis using settled markers
      by (intro step [of "ResolveUnknownOutcome (lit ''operator'') ManuallyReconciledAsFailed"])
        (auto simp: wind_down_def apply_action_def apply_ordinary_def apply_state_action_def reconcile_settled_def
          intro!: settled_valid [OF valid])
  next
    case compensating
    then show ?thesis using settled markers failure
      by (intro step [of CompensationSucceeded])
        (auto simp: wind_down_def apply_action_def apply_ordinary_def apply_state_action_def on_compensation_succeeded_def
          intro!: settled_valid [OF valid])
  next
    case committing
    then show ?thesis using settled markers
      by (intro step [of "CommitFailedBeforeApply stop_failure"])
        (auto simp: wind_down_def apply_action_def apply_ordinary_def apply_state_action_def on_commit_failed_def
          intro!: settled_valid [OF valid])
  next
    case other
    then have "wind_down s = [Fail stop_failure]" by (auto simp: wind_down_def split: discovery_state.splits)
    then show ?thesis using other settled open_state
      by (intro step [of "Fail stop_failure"])
        (auto simp: apply_action_def apply_fail_def clear_recovery_markers_def intro!: settled_valid [OF valid])
  qed
qed

lemma settles_in_two:
  assumes ok: "session_ok env s" and room: "pds_revision s + 2 < u64_max" and open_state: "\<not> is_terminal (pds_state s)"
  shows "\<exists>entries t. logged_run (discovery_step env) s entries t \<and> is_terminal (pds_state t) \<and>
    map (\<lambda>entry. dae_action (fst entry)) entries = wind_down s \<and> length entries \<le> 2"
proof (cases "pds_state s = Compensating \<and> pds_failure s \<noteq> None")
  case False
  then obtain action tr t where "wind_down s = [action]" "discovery_step env s (plain_envelope s action, tr) t"
    "is_terminal (pds_state t)"
    using settles_in_one [OF ok _ open_state] room by auto
  then show ?thesis
    by (intro exI [of _ "[(plain_envelope s action, tr)]"] exI [of _ t]) (auto intro!: logged_run_Cons simp: plain_envelope_def)
next
  case True
  let ?u = "s\<lparr>pds_failure := None, pds_revision := pds_revision s + 1, pds_next_event_sequence := pds_revision s + 2\<rparr>"
  have valid: "session_validate env s = Inr ()" using ok by (simp add: session_ok_def)
  obtain attempt where "pds_commit_attempt_id s = Some attempt" using session_valid_markers(8) [OF valid] True by auto
  then have "apply_action env s ResumeCompensation = Inr (s\<lparr>pds_failure := None\<rparr>, RunCompensation attempt, None)"
    using True by (auto simp: apply_action_def apply_ordinary_def apply_state_action_def on_resume_compensation_def required_field_def)
  then obtain tr where first: "discovery_step env s (plain_envelope s ResumeCompensation, tr) ?u"
    using accepted_step [OF ok, of ResumeCompensation] room True plain_envelope_ok
      compensation_resumed_valid [OF valid, of "pds_revision s + 1" "pds_revision s + 1"] by fastforce
  have "session_ok env ?u" using discovery_step_ok [OF first ok] .
  moreover have "\<not> is_terminal (pds_state ?u)" "pds_revision ?u + 1 < u64_max" "wind_down ?u = [CompensationSucceeded]"
    "wind_down s = [ResumeCompensation, CompensationSucceeded]"
    using True room by (auto simp: is_terminal_def wind_down_def)
  ultimately obtain tr' t where "discovery_step env ?u (plain_envelope ?u CompensationSucceeded, tr') t" "is_terminal (pds_state t)"
    using settles_in_one [of env ?u] by auto
  then show ?thesis using first True
    by (intro exI [of _ "[(plain_envelope s ResumeCompensation, tr), (plain_envelope ?u CompensationSucceeded, tr')]"] exI [of _ t])
      (auto intro!: logged_run_Cons simp: plain_envelope_def wind_down_def)
qed

end
