(* ===== verification/Discovery_Grants.thy ===== *)
theory Discovery_Grants
  imports Discovery_Validation
begin

section \<open>Provider discovery: grants, reviews and commit plans\<close>

text \<open>
  The records that bind a user's approval to what is executed: candidates, approval grants with the probe
  budget, the review whose digest is recomputed, the commit plan and its compensation steps
  (\<open>crates/domain/src/discovery.rs\<close>).
\<close>

subsection \<open>Candidates\<close>

definition candidate_validate :: "discovery_env \<Rightarrow> discovery_candidate \<Rightarrow> (discovery_contract_error, unit) result" where
  "candidate_validate env candidate =
     result_bind (reject_field (length (dca_evidence_ids candidate) > 4096) ''candidate.evidence_ids''
       ''exceeds the 4096 evidence-reference limit'') (\<lambda>_.
     case dca_summary candidate of
       CandidateProviderTemplate _ template_version \<Rightarrow>
         reject_field (template_version = 0) ''candidate.template_version'' ''must be positive''
     | CandidateOfficialDocument url content \<Rightarrow>
         result_bind (validate_redacted_url env ''candidate.url'' url) (\<lambda>_.
         dsc_validate_sha256 ''candidate.content_sha256'' content)
     | CandidateModelRoute model_id \<Rightarrow>
         reject_field (model_id = [] \<or> str_len model_id > 512 \<or> list_ex is_control model_id) ''candidate.model_id''
           ''must be a bounded non-empty model identifier''
     | CandidateManifestDraft schema_version manifest \<Rightarrow>
         result_bind (reject_field (schema_version = 0) ''candidate.schema_version'' ''must be positive'') (\<lambda>_.
         dsc_validate_sha256 ''candidate.manifest_sha256'' manifest)
     | CandidateApiOrigin _ \<Rightarrow> Inr ())"

subsection \<open>The probe budget\<close>

definition PROBES_PER_ROUTE :: nat where "PROBES_PER_ROUTE = 5"
definition TOTAL_TOKENS_PER_REQUEST :: nat where "TOTAL_TOKENS_PER_REQUEST = 512"
definition OUTPUT_TOKENS_PER_REQUEST :: nat where "OUTPUT_TOKENS_PER_REQUEST = 32"
definition COST_MICRO_USD_PER_REQUEST :: nat where "COST_MICRO_USD_PER_REQUEST = 100000"
definition DURATION_MILLIS_PER_REQUEST :: nat where "DURATION_MILLIS_PER_REQUEST = 30000"
definition CALLS_PER_REQUEST :: nat where "CALLS_PER_REQUEST = 1"

lemmas probe_constants = PROBES_PER_ROUTE_def TOTAL_TOKENS_PER_REQUEST_def OUTPUT_TOKENS_PER_REQUEST_def
  COST_MICRO_USD_PER_REQUEST_def DURATION_MILLIS_PER_REQUEST_def CALLS_PER_REQUEST_def

definition probe_budget_validate :: "discovery_probe_budget \<Rightarrow> (discovery_contract_error, unit) result" where
  "probe_budget_validate budget =
     result_bind (reject_field (dpb_max_requests budget = 0 \<or> dpb_max_requests budget > 10000 \<or>
         dpb_max_total_tokens_per_request budget = 0 \<or> dpb_max_total_tokens_per_request budget > 4096 \<or>
         dpb_max_output_tokens_per_request budget = 0 \<or> dpb_max_output_tokens_per_request budget > 1024 \<or>
         dpb_max_output_tokens_per_request budget > dpb_max_total_tokens_per_request budget \<or>
         dpb_max_cost_micro_usd_per_request budget > 100000 \<or>
         dpb_max_duration_millis_per_request budget = 0 \<or> dpb_max_duration_millis_per_request budget > 60000 \<or>
         dpb_max_calls_per_request budget \<noteq> 1) ''approval.capability_probe.budget''
       ''requires bounded requests, tokens, cost, duration, and one call per request'') (\<lambda>_.
     try_fold (\<lambda>_ (field, v).
         result_bind (ok_or (InvalidField (lit field)
           (lit ''aggregate budget overflows its durable integer representation''))
           (checked_mul u64_max v (dpb_max_requests budget))) (\<lambda>_. Inr ())) ()
       [(''approval.capability_probe.aggregate_total_tokens'', dpb_max_total_tokens_per_request budget),
        (''approval.capability_probe.aggregate_output_tokens'', dpb_max_output_tokens_per_request budget),
        (''approval.capability_probe.aggregate_cost_micro_usd'', dpb_max_cost_micro_usd_per_request budget),
        (''approval.capability_probe.aggregate_duration_millis'', dpb_max_duration_millis_per_request budget)])"

definition u32_try_from :: "nat \<Rightarrow> nat option" where
  "u32_try_from n = (if n \<le> u32_max then Some n else None)"

definition standard_for_plan :: "nat \<Rightarrow> nat \<Rightarrow> (discovery_contract_error, discovery_probe_budget) result" where
  "standard_for_plan route_count probes_per_route =
     result_bind (reject_field (probes_per_route \<noteq> PROBES_PER_ROUTE) ''approval.capability_probe.probe_plan''
       ''probe plan does not match the supported capability set'') (\<lambda>_.
     result_bind (ok_or (InvalidField (lit ''approval.capability_probe.routes'')
       (lit ''route count exceeds the supported range'')) (u32_try_from route_count)) (\<lambda>routes.
     result_bind (ok_or (InvalidField (lit ''approval.capability_probe.probe_plan'')
       (lit ''probe count exceeds the supported range'')) (u32_try_from probes_per_route)) (\<lambda>probes.
     result_bind (ok_or (InvalidField (lit ''approval.capability_probe.max_requests'')
       (lit ''request count exceeds the supported range''))
       (case checked_mul u32_max routes probes of None \<Rightarrow> None | Some v \<Rightarrow> if v > 0 then Some v else None)) (\<lambda>requests.
     let budget = \<lparr>dpb_max_requests = requests, dpb_max_total_tokens_per_request = TOTAL_TOKENS_PER_REQUEST,
       dpb_max_output_tokens_per_request = OUTPUT_TOKENS_PER_REQUEST,
       dpb_max_cost_micro_usd_per_request = COST_MICRO_USD_PER_REQUEST,
       dpb_max_duration_millis_per_request = DURATION_MILLIS_PER_REQUEST,
       dpb_max_calls_per_request = CALLS_PER_REQUEST\<rparr> in
     result_bind (probe_budget_validate budget) (\<lambda>_. Inr budget)))))"

definition standard_for_route_count :: "nat \<Rightarrow> (discovery_contract_error, discovery_probe_budget) result" where
  "standard_for_route_count route_count = standard_for_plan route_count PROBES_PER_ROUTE"

subsection \<open>Approval grants\<close>

fun strictly_ascending :: "'a::linorder list \<Rightarrow> bool" where
  "strictly_ascending [] = True"
| "strictly_ascending [x] = True"
| "strictly_ascending (x # y # zs) = (x < y \<and> strictly_ascending (y # zs))"

definition assistant_consent_validate :: "discovery_assistant_consent \<Rightarrow> (discovery_contract_error, unit) result" where
  "assistant_consent_validate consent =
     result_bind (reject_field (dac_evidence_ids consent = [] \<or> length (dac_evidence_ids consent) > 128 \<or>
         dac_allowed_document_origins consent = [] \<or> length (dac_allowed_document_origins consent) > 32 \<or>
         dac_max_calls consent = 0 \<or> dac_max_calls consent > 64 \<or> dac_max_input_tokens consent = 0 \<or>
         dac_max_output_tokens consent = 0 \<or> dac_max_tool_calls consent = 0 \<or> dac_max_tool_calls consent > 32 \<or>
         dac_max_retries consent > 3 \<or> dac_max_cost_micro_units consent = 0 \<or>
         dac_max_cost_micro_units consent > 100000000) ''approval.assistant_consent''
       ''requires bounded evidence, origins, calls, tokens, tools, retries, and cost'') (\<lambda>_.
     reject_field (card (set (dac_evidence_ids consent)) \<noteq> length (dac_evidence_ids consent) \<or>
         \<not> strictly_ascending (map utf8 (dac_evidence_ids consent)))
       ''approval.assistant_consent.evidence_ids'' ''must be unique and sorted'')"

definition capability_probe_validate ::
  "str list \<Rightarrow> discovery_probe_budget \<Rightarrow> (discovery_contract_error, unit) result" where
  "capability_probe_validate routes budget =
     result_bind (reject_field (routes = [] \<or> length routes > 1000) ''approval.capability_probe''
       ''requires a bounded route set'') (\<lambda>_.
     result_bind (reject_field (\<not> strictly_ascending (map utf8 routes)) ''approval.capability_probe.model_route_ids''
       ''must be unique and sorted'') (\<lambda>_.
     result_bind (probe_budget_validate budget) (\<lambda>_.
     result_bind (standard_for_route_count (length routes)) (\<lambda>expected.
     reject_field (budget \<noteq> expected) ''approval.capability_probe.budget''
       ''must equal the standard budget for the approved route set''))))"

fun approval_grant_validate :: "discovery_approval_grant \<Rightarrow> (discovery_contract_error, unit) result" where
  "approval_grant_validate (AssistantConsent consent) = assistant_consent_validate consent"
| "approval_grant_validate (CredentialOrigin _ _ manifest) = dsc_validate_sha256 ''approval.manifest_sha256'' manifest"
| "approval_grant_validate (CapabilityProbe routes budget) = capability_probe_validate routes budget"
| "approval_grant_validate (Review review graph) =
     result_bind (dsc_validate_sha256 ''approval.review_sha256'' review) (\<lambda>_.
     dsc_validate_sha256 ''approval.graph_sha256'' graph)"
| "approval_grant_validate (TemplateSelection _) = Inr ()"
| "approval_grant_validate (UnknownOutcomeResolution _ _) = Inr ()"

subsection \<open>Reviews\<close>

definition discovery_review_sha256 ::
  "discovery_env \<Rightarrow> str \<Rightarrow> discovery_review_change list \<Rightarrow> nat \<Rightarrow> nat \<Rightarrow> (discovery_contract_error, str) result" where
  "discovery_review_sha256 env graph changes unresolved warnings =
     result_bind (map_err (\<lambda>e. InvalidField (lit ''review'') (lit ''could not encode canonical review payload: '' @ e))
       (env_review_to_vec env \<lparr>drp_graph_sha256 = graph, drp_changes = changes,
          drp_unresolved_question_count = unresolved, drp_warning_count = warnings\<rparr>)) (\<lambda>canonical.
     Inr (env_sha256_hex env canonical))"

definition review_diff_new ::
  "discovery_env \<Rightarrow> str \<Rightarrow> discovery_review_change list \<Rightarrow> nat \<Rightarrow> nat \<Rightarrow>
     (discovery_contract_error, discovery_review_diff) result" where
  "review_diff_new env graph changes unresolved warnings =
     result_bind (dsc_validate_sha256 ''review.graph_sha256'' graph) (\<lambda>_.
     result_bind (reject_field (length changes > 4096) ''review.changes'' ''exceeds the 4096 change limit'') (\<lambda>_.
     result_bind (discovery_review_sha256 env graph changes unresolved warnings) (\<lambda>sha256.
     Inr \<lparr>drd_sha256 = sha256, drd_graph_sha256 = graph, drd_changes = changes,
       drd_unresolved_question_count = unresolved, drd_warning_count = warnings\<rparr>)))"

definition review_computed_sha256 :: "discovery_env \<Rightarrow> discovery_review_diff \<Rightarrow> (discovery_contract_error, str) result" where
  "review_computed_sha256 env review =
     discovery_review_sha256 env (drd_graph_sha256 review) (drd_changes review)
       (drd_unresolved_question_count review) (drd_warning_count review)"

definition review_diff_validate :: "discovery_env \<Rightarrow> discovery_review_diff \<Rightarrow> (discovery_contract_error, unit) result" where
  "review_diff_validate env review =
     result_bind (dsc_validate_sha256 ''review.sha256'' (drd_sha256 review)) (\<lambda>_.
     result_bind (dsc_validate_sha256 ''review.graph_sha256'' (drd_graph_sha256 review)) (\<lambda>_.
     result_bind (reject_field (length (drd_changes review) > 4096) ''review.changes''
       ''exceeds the 4096 change limit'') (\<lambda>_.
     result_bind (review_computed_sha256 env review) (\<lambda>sha256.
     reject_field (sha256 \<noteq> drd_sha256 review) ''review.sha256''
       ''does not match the canonical review payload''))))"

subsection \<open>Commit plans and compensation\<close>

definition catalog_authority_validate ::
  "discovery_catalog_authority_binding \<Rightarrow> (discovery_contract_error, unit) result" where
  "catalog_authority_validate authority =
     result_bind (reject_field (dcb_catalog_state_version authority = 0) ''catalog_authority.catalog_state_version''
       ''must be positive for signed catalog authority'') (\<lambda>_.
     result_bind (reject_field (dcb_template_version authority = 0) ''catalog_authority.template_version''
       ''must be positive'') (\<lambda>_.
     dsc_validate_sha256 ''catalog_authority.template_sha256'' (dcb_template_sha256 authority)))"

fun previous_selection_validate :: "discovery_previous_selection \<Rightarrow> (discovery_contract_error, unit) result" where
  "previous_selection_validate NoPreviousSelection = Inr ()"
| "previous_selection_validate (RouteAndPreset profile route preset) =
     result_bind (for_some (validate_opaque_reference ''previous_selection.selected_provider_profile_id'') profile) (\<lambda>_.
     result_bind (validate_opaque_reference ''previous_selection.model_route_id'' route) (\<lambda>_.
     validate_opaque_reference ''previous_selection.generation_preset_id'' preset))"

definition commit_plan_validate :: "discovery_commit_plan \<Rightarrow> (discovery_contract_error, unit) result" where
  "commit_plan_validate plan =
     result_bind (dsc_validate_sha256 ''commit.manifest_sha256'' (dcp_manifest_sha256 plan)) (\<lambda>_.
     result_bind (dsc_validate_sha256 ''commit.graph_sha256'' (dcp_graph_sha256 plan)) (\<lambda>_.
     result_bind (dsc_validate_sha256 ''commit.review_sha256'' (dcp_review_sha256 plan)) (\<lambda>_.
     result_bind (for_some (\<lambda>authority.
         result_bind (catalog_authority_validate authority) (\<lambda>_.
         reject_field (dcb_template_id authority \<noteq> dcp_template_id plan \<or>
             dcb_template_version authority \<noteq> dcp_template_version plan)
           ''commit.catalog_authority'' ''must identify the exact committed template'')) (dcp_catalog_authority plan)) (\<lambda>_.
     result_bind (reject_field (dcp_template_version plan = 0) ''commit.template_version'' ''must be positive'') (\<lambda>_.
     result_bind (reject_field (dcp_model_route_ids plan = []) ''commit.model_route_ids''
       ''must contain at least one route'') (\<lambda>_.
     result_bind (reject_field ((dcp_credential_ref plan \<noteq> None) \<noteq> (dcp_credential_approval_id plan \<noteq> None))
       ''commit.credential_approval_id'' ''must be present exactly when a credential reference is linked'') (\<lambda>_.
     result_bind (reject_field (case dcp_credential_ref plan of None \<Rightarrow> False | Some r \<Rightarrow> r \<noteq> dcp_connection_id plan)
       ''commit.credential_ref'' ''must use the committed connection identifier as its native slot'') (\<lambda>_.
     previous_selection_validate (dcp_previous_selection plan)))))))))"

fun compensation_target_validate_against ::
  "discovery_compensation_target \<Rightarrow> discovery_commit_plan \<Rightarrow> (discovery_contract_error, unit) result" where
  "compensation_target_validate_against (TargetRemoveCredentialSlot connection credential) plan =
     result_bind (reject_field (connection \<noteq> dcp_connection_id plan \<or> dcp_credential_ref plan \<noteq> Some credential)
       ''compensation.target''
       ''credential removal must match the approved connection and credential reference'') (\<lambda>_.
     validate_opaque_reference ''compensation.target.credential_ref'' credential)"
| "compensation_target_validate_against (TargetRemoveConnectionGraph connection) plan =
     result_bind (reject_field (connection \<noteq> dcp_connection_id plan) ''compensation.target.connection_id''
       ''graph removal must match the approved connection'') (\<lambda>_.
     validate_opaque_reference ''compensation.target.connection_id'' connection)"
| "compensation_target_validate_against (TargetRestorePreviousSelection selection) plan =
     result_bind (reject_field (selection \<noteq> dcp_previous_selection plan) ''compensation.target.previous_selection''
       ''selection restore must match the approved pre-commit snapshot'') (\<lambda>_.
     previous_selection_validate selection)"

definition compensation_step_validate_against ::
  "discovery_compensation_step \<Rightarrow> discovery_commit_plan \<Rightarrow> (discovery_contract_error, unit) result" where
  "compensation_step_validate_against step plan =
     result_bind (reject_field (dcs_kind step \<noteq> compensation_target_kind (dcs_target step)) ''compensation.kind''
       ''must match the typed compensation target'') (\<lambda>_.
     compensation_target_validate_against (dcs_target step) plan)"

end
