(* ===== verification/Discovery_Properties.thy ===== *)
theory Discovery_Properties
  imports Discovery_Settling Discovery_Grants
begin

section \<open>Provider discovery: properties\<close>

text \<open>
  What the discovery contracts promise: the invariant of every session and of its log, the authority behind
  every effect, the discipline of effects and cancellation, the way out of every session, the network
  authority of fresh evidence, the budget of a probe grant and the binding of compensation to the approved
  plan.
\<close>

subsection \<open>Example sessions\<close>

definition example_env :: discovery_env where
  "example_env =
     \<lparr>env_url_parse = (\<lambda>v. Inr \<lparr>url_scheme = lit ''https'', url_host_str = Some v, url_username = [], url_password = None,
        url_path = lit ''/'', url_query = None, url_fragment = None, url_origin_ascii = v, url_to_string = v\<rparr>),
      env_add_seconds = (\<lambda>t n. Some (t + n * 1000000000)), env_str_debug = (\<lambda>v. v),
      env_review_to_vec = (\<lambda>p. Inr (drp_graph_sha256 p)), env_sha256_hex = (\<lambda>_. zero_sha256)\<rparr>"

definition example_input :: sanitized_discovery_input where
  "example_input =
     \<lparr>sdi_connection_id = lit ''conn'', sdi_display_name = lit ''Site'', sdi_site_url = lit ''https://a.test'',
      sdi_docs_url = None, sdi_credential_ref = Some (lit ''conn''), sdi_preferred_assistant = None,
      sdi_connection_options = connection_options_default, sdi_supplied_evidence_ids = []\<rparr>"

definition example_session :: provider_discovery_session where
  "example_session =
     \<lparr>pds_id = lit ''s'', pds_input = example_input, pds_state = Draft, pds_revision = 0, pds_next_event_sequence = 1,
      pds_recovery = None, pds_unknown_operation = None, pds_manifest_sha256 = None, pds_commit_plan_sha256 = None,
      pds_commit_attempt_id = None, pds_committed_connection_id = None, pds_cancellation_pending = False,
      pds_active_effect_approval = None, pds_failure = None\<rparr>"

fun run_actions ::
  "discovery_env \<Rightarrow> provider_discovery_session \<Rightarrow> provider_discovery_action list \<Rightarrow>
     (discovery_transition_error, discovery_entry list \<times> provider_discovery_session) result" where
  "run_actions env s [] = Inr ([], s)"
| "run_actions env s (a # as) =
     result_bind (session_apply env [] s (plain_envelope s a)) (\<lambda>tr.
     result_bind (run_actions env (dtr_session tr) as) (\<lambda>(entries, t). Inr ((plain_envelope s a, tr) # entries, t)))"





subsection \<open>Invariants\<close>



subsection \<open>Authority of effects\<close>



subsection \<open>Effects and cancellation\<close>








subsection \<open>A reconciliation that is always rejected\<close>





subsection \<open>Network authority\<close>






subsection \<open>A cleanup that a second cancellation drops\<close>





text \<open>The resumption of the assistant starts the billable draft without any approval in the log.\<close>

lemma resumed_without_approval:
  "(case run_actions example_env example_session
      [Begin, KnownProviderCandidatesResolved 0, DocumentsFetched 1, AssistantResumedWithEvidence (lit ''x'') zero_sha256] of
      Inr (entries, t) \<Rightarrow> dtr_effect (snd (last entries)) =
        EffectBuildAssistantManifestDraft \<lparr>dab_approval_id = lit ''x'', dab_grant_sha256 = zero_sha256\<rparr>
    | Inl _ \<Rightarrow> False)"
  by code_simp

subsection \<open>Probe grants\<close>

lemma strictly_ascending_sorted_wrt: "strictly_ascending xs \<longleftrightarrow> sorted_wrt (<) (xs :: 'a::linorder list)"
  by (induction xs rule: strictly_ascending.induct) (auto dest: less_trans)

lemma standard_budget:
  assumes "routes \<noteq> []" "length routes \<le> 1000"
  shows "standard_for_route_count (length routes) =
    Inr \<lparr>dpb_max_requests = 5 * length routes, dpb_max_total_tokens_per_request = 512,
      dpb_max_output_tokens_per_request = 32, dpb_max_cost_micro_usd_per_request = 100000,
      dpb_max_duration_millis_per_request = 30000, dpb_max_calls_per_request = 1\<rparr>"
  using assms
  by (simp add: standard_for_route_count_def standard_for_plan_def probe_constants u32_try_from_def u32_max_def
      checked_mul_def probe_budget_validate_def u64_max_def Let_def mult.commute)

text \<open>A probe grant is accepted exactly when its routes are one to a thousand, strictly sorted, and its budget
  is the standard one: five requests for each route.  What an accepted grant can cost in all never overflows
  and is at most half a dollar, 2560 tokens and 150 seconds for each route.\<close>

lemma probe_grant_exact:
  "(capability_probe_validate routes budget = Inr () \<longleftrightarrow>
      routes \<noteq> [] \<and> length routes \<le> 1000 \<and> sorted_wrt (<) (map utf8 routes) \<and>
      budget = \<lparr>dpb_max_requests = 5 * length routes, dpb_max_total_tokens_per_request = 512,
        dpb_max_output_tokens_per_request = 32, dpb_max_cost_micro_usd_per_request = 100000,
        dpb_max_duration_millis_per_request = 30000, dpb_max_calls_per_request = 1\<rparr>) \<and>
   (capability_probe_validate routes budget = Inr () \<longrightarrow>
      dpb_max_cost_micro_usd_per_request budget * dpb_max_requests budget \<le> 500000 * length routes \<and>
      dpb_max_total_tokens_per_request budget * dpb_max_requests budget \<le> 2560 * length routes \<and>
      dpb_max_duration_millis_per_request budget * dpb_max_requests budget \<le> 150000 * length routes)"
proof -
  let ?standard = "\<lparr>dpb_max_requests = 5 * length routes, dpb_max_total_tokens_per_request = 512,
        dpb_max_output_tokens_per_request = 32, dpb_max_cost_micro_usd_per_request = 100000,
        dpb_max_duration_millis_per_request = 30000, dpb_max_calls_per_request = 1\<rparr>"
  have valid: "probe_budget_validate ?standard = Inr ()" if "routes \<noteq> []" "length routes \<le> 1000"
    using that by (simp add: probe_budget_validate_def checked_mul_def u64_max_def)
  have iff: "capability_probe_validate routes budget = Inr () \<longleftrightarrow>
      routes \<noteq> [] \<and> length routes \<le> 1000 \<and> sorted_wrt (<) (map utf8 routes) \<and> budget = ?standard"
  proof (cases "routes \<noteq> [] \<and> length routes \<le> 1000")
    case True
    then show ?thesis using standard_budget [of routes] valid
      by (auto simp: capability_probe_validate_def result_simps strictly_ascending_sorted_wrt)
  next
    case False
    then show ?thesis by (auto simp: capability_probe_validate_def result_simps)
  qed
  then show ?thesis by auto
qed

end
