(* ===== verification/Sse_Framing.thy ===== *)
theory Sse_Framing
  imports Rust_Text "HOL-Library.Sublist"
begin

section \<open>Framing of server-sent events\<close>

text \<open>
  The buffer that splits the byte stream of a provider into events (\<open>crates/providers/src/sse.rs\<close>) and the
  separators of the adapters.  \<open>feed_chunk\<close> and \<open>finish_stream\<close> are the loops in which every adapter drives
  the buffer: extend, take events while a boundary is found, and drain at the end of the stream.
  \<open>split_events\<close> is the reference: the framing of the whole stream at once.
\<close>

subsection \<open>The buffer\<close>

type_synonym bytes = "nat list"

record sse_event_boundary =
  seb_event_len :: nat
  seb_separator_len :: nat

record sse_event_buffer =
  sbf_bytes :: bytes
  sbf_start :: nat
  sbf_scan_from :: nat

definition sse_buffer_default :: sse_event_buffer where
  "sse_buffer_default = \<lparr>sbf_bytes = [], sbf_start = 0, sbf_scan_from = 0\<rparr>"

definition extend_from_slice :: "sse_event_buffer \<Rightarrow> bytes \<Rightarrow> sse_event_buffer" where
  "extend_from_slice b bs = b\<lparr>sbf_bytes := sbf_bytes b @ bs\<rparr>"

definition active_bytes :: "sse_event_buffer \<Rightarrow> bytes" where
  "active_bytes b = drop (sbf_start b) (sbf_bytes b)"

definition buffer_is_empty :: "sse_event_buffer \<Rightarrow> bool" where
  "buffer_is_empty b \<longleftrightarrow> sbf_start b = length (sbf_bytes b)"

definition ends_with_cr :: "bytes \<Rightarrow> bool" where
  "ends_with_cr s \<longleftrightarrow> suffix [13] s"

definition separator_at :: "bytes \<Rightarrow> bool \<Rightarrow> nat \<Rightarrow> bytes \<Rightarrow> bool" where
  "separator_at bs end_of_stream position separator \<longleftrightarrow>
     prefix separator (drop position bs) \<and>
     (end_of_stream \<or> \<not> ends_with_cr separator \<or> position + length separator \<noteq> length bs)"

fun scan_positions :: "bytes \<Rightarrow> bytes list \<Rightarrow> bool \<Rightarrow> nat list \<Rightarrow> (nat \<times> bytes) option" where
  "scan_positions bs separators end_of_stream [] = None"
| "scan_positions bs separators end_of_stream (position # positions) =
     (case find (separator_at bs end_of_stream position) separators of
        Some separator \<Rightarrow> Some (position, separator)
      | None \<Rightarrow> scan_positions bs separators end_of_stream positions)"

definition separator_overlap :: "bytes list \<Rightarrow> nat" where
  "separator_overlap separators =
     fold max (map (\<lambda>s. if ends_with_cr s then length s else length s - 1) separators) 0"

definition next_boundary ::
  "sse_event_buffer \<Rightarrow> bytes list \<Rightarrow> bool \<Rightarrow> sse_event_boundary option \<times> sse_event_buffer" where
  "next_boundary b separators end_of_stream =
     (case scan_positions (sbf_bytes b) separators end_of_stream
         [max (sbf_scan_from b) (sbf_start b)..<length (sbf_bytes b)] of
        Some (position, separator) \<Rightarrow>
          (Some \<lparr>seb_event_len = position - sbf_start b, seb_separator_len = length separator\<rparr>, b)
      | None \<Rightarrow>
          (None, b\<lparr>sbf_scan_from := max (length (sbf_bytes b) - separator_overlap separators) (sbf_start b)\<rparr>))"

definition take_event :: "sse_event_buffer \<Rightarrow> sse_event_boundary \<Rightarrow> bytes \<times> sse_event_buffer" where
  "take_event b boundary =
     (let event_start = sbf_start b; event_end = event_start + seb_event_len boundary;
          start = event_end + seb_separator_len boundary in
      (take (event_end - event_start) (drop event_start (sbf_bytes b)), b\<lparr>sbf_start := start, sbf_scan_from := start\<rparr>))"

definition MIN_COMPACTION_BYTES :: nat where "MIN_COMPACTION_BYTES = 64 * 1024"

definition compact_if_worthwhile :: "sse_event_buffer \<Rightarrow> sse_event_buffer" where
  "compact_if_worthwhile b =
     (if sbf_start b = length (sbf_bytes b) then \<lparr>sbf_bytes = [], sbf_start = 0, sbf_scan_from = 0\<rparr>
      else if sbf_start b < MIN_COMPACTION_BYTES \<or> sbf_start b < length (sbf_bytes b) div 2 then b
      else \<lparr>sbf_bytes = drop (sbf_start b) (sbf_bytes b), sbf_start = 0, sbf_scan_from = 0\<rparr>)"

definition extend_chunk_and_find_boundary ::
  "sse_event_buffer \<Rightarrow> bytes \<Rightarrow> bytes list \<Rightarrow> sse_event_boundary option \<times> sse_event_buffer" where
  "extend_chunk_and_find_boundary b bs separators =
     (if bs = [] then (None, b)
      else next_boundary (extend_from_slice (compact_if_worthwhile b) bs) separators False)"

definition SSE_EVENT_SEPARATORS :: "bytes list" where
  "SSE_EVENT_SEPARATORS =
     [[13, 10, 13, 10], [10, 13, 10], [13, 13, 10], [13, 10, 10], [13, 10, 13], [10, 10], [10, 13], [13, 13]]"

subsection \<open>The reference\<close>

definition first_boundary :: "bool \<Rightarrow> bytes \<Rightarrow> (nat \<times> bytes) option" where
  "first_boundary end_of_stream bs = scan_positions bs SSE_EVENT_SEPARATORS end_of_stream [0..<length bs]"

lemma scan_positions_Some:
  "scan_positions bs seps eos ps = Some (p, s) \<Longrightarrow> p \<in> set ps \<and> s \<in> set seps \<and> separator_at bs eos p s"
  by (induction ps) (auto split: option.splits simp: find_Some_iff)

lemma separators_nonempty: "s \<in> set SSE_EVENT_SEPARATORS \<Longrightarrow> 0 < length s"
  by (auto simp: SSE_EVENT_SEPARATORS_def)

function split_events :: "bytes \<Rightarrow> bytes list \<times> bytes" where
  "split_events bs =
     (case first_boundary True bs of
        None \<Rightarrow> ([], bs)
      | Some (p, s) \<Rightarrow>
          (let (events, rest) = split_events (drop (p + length s) bs) in (take p bs # events, rest)))"
  by auto
termination
proof (relation "measure length")
  fix bs pair p s
  assume "first_boundary True bs = Some pair" "(p, s) = pair"
  then have "p \<in> set [0..<length bs]" "s \<in> set SSE_EVENT_SEPARATORS"
    unfolding first_boundary_def using scan_positions_Some by blast+
  then have "0 < length s" "p < length bs" using separators_nonempty by auto
  then have "length bs - (p + length s) < length bs" by linarith
  then show "(drop (p + length s) bs, bs) \<in> measure length" by simp
qed simp

declare split_events.simps [simp del]

subsection \<open>Driving the buffer\<close>

lemma next_boundary_Some:
  assumes "next_boundary b SSE_EVENT_SEPARATORS eos = (Some bd, b')"
  shows "b' = b" "sbf_start b < length (sbf_bytes b)" "0 < seb_separator_len bd"
proof -
  obtain p s where scan: "scan_positions (sbf_bytes b) SSE_EVENT_SEPARATORS eos
      [max (sbf_scan_from b) (sbf_start b)..<length (sbf_bytes b)] = Some (p, s)"
    and bd: "b' = b" "bd = \<lparr>seb_event_len = p - sbf_start b, seb_separator_len = length s\<rparr>"
    using assms by (auto simp: next_boundary_def split: option.splits prod.splits)
  then show "b' = b" "sbf_start b < length (sbf_bytes b)" "0 < seb_separator_len bd"
    using scan_positions_Some [OF scan] separators_nonempty [of s] by auto
qed

function drain_buffer :: "bool \<Rightarrow> sse_event_buffer \<Rightarrow> bytes list \<times> sse_event_buffer" where
  "drain_buffer eos b =
     (case next_boundary b SSE_EVENT_SEPARATORS eos of
        (None, b') \<Rightarrow> ([], b')
      | (Some bd, b') \<Rightarrow>
          (let (event, b'') = take_event b' bd; (events, last_b) = drain_buffer eos b'' in (event # events, last_b)))"
  by auto
termination
proof (relation "measure (\<lambda>(_, b). length (sbf_bytes b) - sbf_start b)")
  fix eos b found b' bd pair event b''
  assume "(found, b') = next_boundary b SSE_EVENT_SEPARATORS eos" "found = Some bd" "pair = take_event b' bd" "(event, b'') = pair"
  then have found: "next_boundary b SSE_EVENT_SEPARATORS eos = (Some bd, b')" and b'': "b'' = snd (take_event b' bd)"
    by (metis snd_conv)+
  have "sbf_bytes b'' = sbf_bytes b" "sbf_start b'' = sbf_start b + seb_event_len bd + seb_separator_len bd"
    using next_boundary_Some(1) [OF found] by (simp_all add: b'' take_event_def Let_def)
  then show "((eos, b''), (eos, b)) \<in> measure (\<lambda>(_, b). length (sbf_bytes b) - sbf_start b)"
    using next_boundary_Some(2,3) [OF found] by simp
qed simp

declare drain_buffer.simps [simp del]

definition feed_chunk :: "sse_event_buffer \<Rightarrow> bytes \<Rightarrow> bytes list \<times> sse_event_buffer" where
  "feed_chunk b chunk =
     (case extend_chunk_and_find_boundary b chunk SSE_EVENT_SEPARATORS of
        (None, b') \<Rightarrow> ([], b')
      | (Some bd, b') \<Rightarrow>
          (let (event, b'') = take_event b' bd; (events, last_b) = drain_buffer False b'' in (event # events, last_b)))"

fun feed_chunks :: "sse_event_buffer \<Rightarrow> bytes list \<Rightarrow> bytes list \<times> sse_event_buffer" where
  "feed_chunks b [] = ([], b)"
| "feed_chunks b (chunk # chunks) =
     (let (events, b') = feed_chunk b chunk; (later, last_b) = feed_chunks b' chunks in (events @ later, last_b))"

definition frame_stream :: "bytes list \<Rightarrow> bytes list \<times> bytes" where
  "frame_stream chunks =
     (let (events, b) = feed_chunks sse_buffer_default chunks; (later, last_b) = drain_buffer True b in
      (events @ later, active_bytes last_b))"

end
