(* ===== verification/Sse_Properties.thy ===== *)
theory Sse_Properties
  imports Sse_Framing
begin

section \<open>Framing of server-sent events: properties\<close>

text \<open>
  The events that the buffer yields do not depend on how the stream is cut into chunks.  Three facts carry
  the proof: a boundary found in an open stream stays the first boundary whatever follows, because of the
  shape of the separators (\<open>stable_separators\<close>); the part of the buffer before \<open>scan_from\<close> can never start a
  separator; and compaction changes the representation only.
\<close>

subsection \<open>Scanning\<close>

lemma scan_positions_skip:
  "(\<And>q s. q \<in> set ps \<Longrightarrow> s \<in> set seps \<Longrightarrow> \<not> separator_at bs eos q s) \<Longrightarrow>
     scan_positions bs seps eos (ps @ qs) = scan_positions bs seps eos qs"
  by (induction ps) (auto split: option.splits simp: find_Some_iff find_None_iff)

lemma scan_positions_map:
  assumes "\<And>q s. s \<in> set seps \<Longrightarrow> separator_at bs eos (f q) s = separator_at cs eos q s"
  shows "scan_positions bs seps eos (map f ps) = map_option (\<lambda>(p, s). (f p, s)) (scan_positions cs seps eos ps)"
proof (induction ps)
  case (Cons p ps)
  have "find (separator_at bs eos (f p)) seps = find (separator_at cs eos p) seps"
    by (intro find_cong) (use assms in auto)
  then show ?case using Cons by (simp split: option.split)
qed simp

lemma scan_positions_None:
  "scan_positions bs seps eos ps = None \<longleftrightarrow> (\<forall>q \<in> set ps. \<forall>s \<in> set seps. \<not> separator_at bs eos q s)"
  by (induction ps) (auto split: option.splits simp: find_Some_iff find_None_iff)

lemma scan_upt_Some:
  assumes "scan_positions bs seps eos [a..<n] = Some (p, s)"
  shows "a \<le> p" "p < n" "find (separator_at bs eos p) seps = Some s"
    "\<And>q s'. a \<le> q \<Longrightarrow> q < p \<Longrightarrow> s' \<in> set seps \<Longrightarrow> \<not> separator_at bs eos q s'"
proof -
  have "a \<le> p \<and> p < n \<and> find (separator_at bs eos p) seps = Some s \<and>
    (\<forall>q s'. a \<le> q \<and> q < p \<and> s' \<in> set seps \<longrightarrow> \<not> separator_at bs eos q s')"
    using assms
  proof (induction "n - a" arbitrary: a)
    case (Suc k)
    then have upt: "[a..<n] = a # [Suc a..<n]" "k = n - Suc a" by (auto simp: upt_conv_Cons)
    show ?case
    proof (cases "find (separator_at bs eos a) seps")
      case None
      then have "scan_positions bs seps eos [Suc a..<n] = Some (p, s)" using Suc.prems upt by simp
      from Suc.hyps(1) [OF upt(2) this] have later: "Suc a \<le> p" "p < n" "find (separator_at bs eos p) seps = Some s"
        "\<And>q s'. Suc a \<le> q \<Longrightarrow> q < p \<Longrightarrow> s' \<in> set seps \<Longrightarrow> \<not> separator_at bs eos q s'" by blast+
      moreover have "\<not> separator_at bs eos q s'" if "a \<le> q" "q < p" "s' \<in> set seps" for q s'
        using that None later(4) [of q s'] by (cases "q = a") (auto simp: find_None_iff)
      ultimately show ?thesis by auto
    next
      case (Some t)
      then show ?thesis using Suc.prems Suc.hyps(2) upt by auto
    qed
  qed simp
  then show "a \<le> p" "p < n" "find (separator_at bs eos p) seps = Some s"
    "\<And>q s'. a \<le> q \<Longrightarrow> q < p \<Longrightarrow> s' \<in> set seps \<Longrightarrow> \<not> separator_at bs eos q s'" by blast+
qed

lemma scan_uptI:
  assumes "a \<le> p" "p < n" "find (separator_at bs eos p) seps = Some s"
    "\<And>q s'. a \<le> q \<Longrightarrow> q < p \<Longrightarrow> s' \<in> set seps \<Longrightarrow> \<not> separator_at bs eos q s'"
  shows "scan_positions bs seps eos [a..<n] = Some (p, s)"
proof -
  have "[a..<n] = [a..<p] @ p # [Suc p..<n]" using assms(1,2) by (metis le_add_diff_inverse upt_add_eq_append upt_conv_Cons less_imp_le_nat)
  moreover have "scan_positions bs seps eos ([a..<p] @ p # [Suc p..<n]) = scan_positions bs seps eos (p # [Suc p..<n])"
    by (rule scan_positions_skip) (use assms(4) in auto)
  ultimately show ?thesis using assms(3) by simp
qed

subsection \<open>A boundary stays where it is\<close>

text \<open>Where a separator occurs inside another one, it ends in a carriage return at the end of that one, or
  one byte before it.\<close>

definition occurs_at :: "bytes \<Rightarrow> bytes \<Rightarrow> nat \<Rightarrow> bool" where
  "occurs_at s' s d \<longleftrightarrow> prefix s (drop d s') \<and> d \<le> length s'"

definition stable_pair :: "bytes \<Rightarrow> bytes \<Rightarrow> nat \<Rightarrow> bool" where
  "stable_pair s' s d \<longleftrightarrow>
     (occurs_at s' s d \<and> (d \<noteq> 0 \<or> s' \<noteq> s) \<longrightarrow>
       (d + length s < length s' \<longrightarrow> ends_with_cr s \<and> d + length s + 1 = length s') \<and>
       (ends_with_cr s' \<longrightarrow> ends_with_cr s \<and> d + length s = length s'))"

lemma stable_separators:
  assumes "s' \<in> set SSE_EVENT_SEPARATORS" "s \<in> set SSE_EVENT_SEPARATORS"
  shows "stable_pair s' s d"
proof -
  have "list_all (\<lambda>s'. list_all (\<lambda>s. list_all (stable_pair s' s) [0..<5]) SSE_EVENT_SEPARATORS) SSE_EVENT_SEPARATORS"
    by code_simp
  then have small: "d < 5 \<Longrightarrow> stable_pair s' s d" using assms by (simp add: list_all_iff)
  have "length s' < 5" using assms(1) by (auto simp: SSE_EVENT_SEPARATORS_def)
  then have "\<not> d < 5 \<Longrightarrow> stable_pair s' s d" by (simp add: stable_pair_def occurs_at_def)
  then show ?thesis using small by blast
qed

lemma prefix_take: "prefix s ys \<longleftrightarrow> take (length s) ys = s"
  by (metis append_eq_conv_conj prefix_def take_is_prefix)

lemma prefix_drop_append:
  "prefix s (drop q (xs @ ys)) \<Longrightarrow> q + length s \<le> length xs \<Longrightarrow> prefix s (drop q xs)"
  by (simp add: prefix_take)

lemma prefix_drop_append2: "prefix s (drop q xs) \<Longrightarrow> q \<le> length xs \<Longrightarrow> prefix s (drop q (xs @ ys))"
  by (auto simp: prefix_def)

lemma prefix_drop_length: "prefix s (drop q xs) \<Longrightarrow> s \<noteq> [] \<Longrightarrow> q + length s \<le> length xs"
  using prefix_length_le [of s "drop q xs"] by (cases "q \<le> length xs") auto

lemma prefix_inside:
  assumes "prefix s' (drop q zs)" "prefix s (drop (q + d) zs)" "d + length s \<le> length s'"
  shows "occurs_at s' s d"
proof -
  obtain t where t: "drop q zs = s' @ t" using assms(1) by (auto simp: prefix_def)
  have "drop (q + d) zs = drop d s' @ t" using t assms(3) by (metis add.commute drop_append drop_drop add_leD1 diff_is_0_eq' drop0)
  then have "prefix s (drop d s' @ t)" using assms(2) by simp
  then show ?thesis using assms(3) by (simp add: occurs_at_def prefix_take)
qed

text \<open>A separator that starts at or before a confirmed one and is not confirmed itself never becomes
  complete: it would contain the confirmed one.\<close>

lemma unconfirmed_never_completes:
  assumes found: "separator_at xs False p s" "s \<in> set SSE_EVENT_SEPARATORS" and q: "q \<le> p"
    and s': "s' \<in> set SSE_EVENT_SEPARATORS" "\<not> separator_at xs False q s'"
  shows "\<not> prefix s' (drop q (xs @ ys))"
proof
  assume match: "prefix s' (drop q (xs @ ys))"
  have s: "prefix s (drop p xs)" "\<not> ends_with_cr s \<or> p + length s \<noteq> length xs" using found(1) by (auto simp: separator_at_def)
  have len: "p + length s \<le> length xs" using prefix_drop_length [OF s(1)] separators_nonempty [OF found(2)] by auto
  have s_full: "prefix s (drop (q + (p - q)) (xs @ ys))" using prefix_drop_append2 [OF s(1)] len q by simp
  have other: "p - q \<noteq> 0 \<or> s' \<noteq> s" using found(1) s'(2) q by auto
  show False
  proof (cases "q + length s' \<le> length xs")
    case True
    then have "ends_with_cr s'" "q + length s' = length xs"
      using prefix_drop_append [OF match] s'(2) by (auto simp: separator_at_def)
    moreover have "occurs_at s' s (p - q)" by (rule prefix_inside [OF match s_full]) (use calculation len q in simp)
    ultimately have "ends_with_cr s" "p - q + length s = length s'"
      using stable_separators [OF s'(1) found(2), of "p - q"] other by (auto simp: stable_pair_def)
    then show False using s(2) q \<open>q + length s' = length xs\<close> by auto
  next
    case False
    then have inside: "p - q + length s < length s'" using len q by simp
    have "occurs_at s' s (p - q)" by (rule prefix_inside [OF match s_full]) (use inside in simp)
    then have "ends_with_cr s" "p - q + length s + 1 = length s'"
      using stable_separators [OF s'(1) found(2), of "p - q"] other inside by (auto simp: stable_pair_def)
    then show False using s(2) q False len by auto
  qed
qed

lemma first_boundary_stable:
  assumes "first_boundary False xs = Some (p, s)"
  shows "first_boundary True (xs @ ys) = Some (p, s)"
proof -
  note scan = scan_upt_Some [OF assms [unfolded first_boundary_def]]
  have found: "separator_at xs False p s" "s \<in> set SSE_EVENT_SEPARATORS"
    using scan(3) by (auto simp: find_Some_iff)
  have never: "\<not> separator_at (xs @ ys) True q s'"
    if "q \<le> p" "s' \<in> set SSE_EVENT_SEPARATORS" "\<not> separator_at xs False q s'" for q s'
    using unconfirmed_never_completes [OF found that] by (simp add: separator_at_def)
  have "separator_at (xs @ ys) True p s"
    using found(1) scan(2) by (auto simp: separator_at_def intro: prefix_drop_append2)
  moreover obtain i where "i < length SSE_EVENT_SEPARATORS" "s = SSE_EVENT_SEPARATORS ! i"
    "\<forall>j < i. \<not> separator_at xs False p (SSE_EVENT_SEPARATORS ! j)" using scan(3) by (auto simp: find_Some_iff)
  ultimately have "find (separator_at (xs @ ys) True p) SSE_EVENT_SEPARATORS = Some s"
    using never [of p] by (auto simp: find_Some_iff intro!: exI [of _ i])
  then show ?thesis unfolding first_boundary_def
    by (intro scan_uptI) (use scan(2,4) never in auto)
qed

subsection \<open>The buffer against the reference\<close>

definition buffer_ok :: "sse_event_buffer \<Rightarrow> bool" where
  "buffer_ok b \<longleftrightarrow>
     sbf_start b \<le> length (sbf_bytes b) \<and> sbf_scan_from b \<le> length (sbf_bytes b) \<and>
     (\<forall>q s ys. sbf_start b \<le> q \<and> q < sbf_scan_from b \<and> s \<in> set SSE_EVENT_SEPARATORS \<longrightarrow>
        \<not> prefix s (drop q (sbf_bytes b @ ys)))"

lemma scan_active:
  assumes "buffer_ok b"
  shows "scan_positions (sbf_bytes b) SSE_EVENT_SEPARATORS eos [max (sbf_scan_from b) (sbf_start b)..<length (sbf_bytes b)] =
    map_option (\<lambda>(p, s). (sbf_start b + p, s)) (first_boundary eos (active_bytes b))"
proof -
  let ?bs = "sbf_bytes b" and ?start = "sbf_start b" and ?from = "max (sbf_scan_from b) (sbf_start b)"
  have "?start \<le> ?from" "?from \<le> length ?bs" using assms by (auto simp: buffer_ok_def)
  then have "[?start..<length ?bs] = [?start..<?from] @ [?from..<length ?bs]"
    by (metis le_add_diff_inverse upt_add_eq_append)
  moreover have "\<not> separator_at ?bs eos q s" if "q \<in> set [?start..<?from]" "s \<in> set SSE_EVENT_SEPARATORS" for q s
  proof -
    have "?start \<le> q" "q < sbf_scan_from b" using that by auto
    then have "\<not> prefix s (drop q (?bs @ []))" using assms that(2) unfolding buffer_ok_def by blast
    then show ?thesis by (simp add: separator_at_def)
  qed
  ultimately have "scan_positions ?bs SSE_EVENT_SEPARATORS eos [?from..<length ?bs] =
      scan_positions ?bs SSE_EVENT_SEPARATORS eos [?start..<length ?bs]" by (metis scan_positions_skip)
  moreover have "[?start..<length ?bs] = map ((+) ?start) [0..<length (active_bytes b)]"
    by (intro nth_equalityI) (simp_all add: active_bytes_def)
  moreover have "separator_at ?bs eos (?start + q) s = separator_at (active_bytes b) eos q s" for q s
    using assms by (auto simp: separator_at_def active_bytes_def buffer_ok_def add.commute)
  ultimately show ?thesis by (simp add: first_boundary_def scan_positions_map [where f = "(+) ?start" and cs = "active_bytes b"])
qed

lemma next_boundary_active:
  assumes "buffer_ok b"
  shows "first_boundary eos (active_bytes b) = Some (p, s) \<Longrightarrow>
      next_boundary b SSE_EVENT_SEPARATORS eos = (Some \<lparr>seb_event_len = p, seb_separator_len = length s\<rparr>, b)"
    "first_boundary eos (active_bytes b) = None \<Longrightarrow>
      \<exists>b'. next_boundary b SSE_EVENT_SEPARATORS eos = (None, b') \<and> active_bytes b' = active_bytes b"
  using scan_active [OF assms, of eos] by (simp_all add: next_boundary_def active_bytes_def)

lemma separator_overlap_covers:
  assumes "s \<in> set SSE_EVENT_SEPARATORS"
  shows "length s \<le> separator_overlap SSE_EVENT_SEPARATORS + 1"
    "ends_with_cr s \<Longrightarrow> length s \<le> separator_overlap SSE_EVENT_SEPARATORS"
proof -
  have "list_all (\<lambda>s. length s \<le> separator_overlap SSE_EVENT_SEPARATORS + 1 \<and>
      (ends_with_cr s \<longrightarrow> length s \<le> separator_overlap SSE_EVENT_SEPARATORS)) SSE_EVENT_SEPARATORS" by code_simp
  then show "length s \<le> separator_overlap SSE_EVENT_SEPARATORS + 1"
    "ends_with_cr s \<Longrightarrow> length s \<le> separator_overlap SSE_EVENT_SEPARATORS"
    using assms by (auto simp: list_all_iff)
qed

text \<open>After a search that found nothing, only the last bytes of the buffer can start a separator.\<close>

lemma next_boundary_None_ok:
  assumes "buffer_ok b" "next_boundary b SSE_EVENT_SEPARATORS False = (None, b')"
  shows "buffer_ok b'" "active_bytes b' = active_bytes b" "first_boundary False (active_bytes b) = None"
proof -
  let ?bs = "sbf_bytes b" and ?from = "max (sbf_scan_from b) (sbf_start b)"
  have none: "scan_positions ?bs SSE_EVENT_SEPARATORS False [?from..<length ?bs] = None"
    and b': "b' = b\<lparr>sbf_scan_from := max (length ?bs - separator_overlap SSE_EVENT_SEPARATORS) (sbf_start b)\<rparr>"
    using assms(2) by (auto simp: next_boundary_def split: option.splits)
  show "active_bytes b' = active_bytes b" by (simp add: b' active_bytes_def)
  show "first_boundary False (active_bytes b) = None" using scan_active [OF assms(1), of False] none by simp
  have "\<not> prefix s (drop q (?bs @ ys))"
    if q: "sbf_start b \<le> q" "q < length ?bs - separator_overlap SSE_EVENT_SEPARATORS" and s: "s \<in> set SSE_EVENT_SEPARATORS" for q s ys
  proof (cases "q < sbf_scan_from b")
    case True
    then show ?thesis using assms(1) q(1) s unfolding buffer_ok_def by blast
  next
    case False
    then have "\<not> separator_at ?bs False q s" using none q s by (auto simp: scan_positions_None)
    moreover have "q + length s \<le> length ?bs" "ends_with_cr s \<Longrightarrow> q + length s \<noteq> length ?bs"
      using separator_overlap_covers [OF s] q(2) by linarith+
    ultimately show ?thesis using prefix_drop_append [of s q ?bs ys] by (auto simp: separator_at_def)
  qed
  then show "buffer_ok b'" using assms(1) by (auto simp: b' buffer_ok_def max_def split: if_splits)
qed

lemma take_event_ok:
  assumes "buffer_ok b" "first_boundary eos (active_bytes b) = Some (p, s)"
  shows "\<exists>b'. take_event b \<lparr>seb_event_len = p, seb_separator_len = length s\<rparr> = (take p (active_bytes b), b') \<and>
    buffer_ok b' \<and> active_bytes b' = drop (p + length s) (active_bytes b)"
proof -
  have "prefix s (drop p (active_bytes b))" "s \<in> set SSE_EVENT_SEPARATORS"
    using scan_upt_Some(3) [OF assms(2) [unfolded first_boundary_def]] by (auto simp: find_Some_iff separator_at_def)
  then have "p + length s \<le> length (active_bytes b)" using prefix_drop_length separators_nonempty by fastforce
  then show ?thesis using assms(1)
    by (auto simp: take_event_def Let_def active_bytes_def buffer_ok_def add.commute add.left_commute)
qed

text \<open>\<open>frames xs events rest\<close>: whatever follows \<open>xs\<close>, its framing starts with \<open>events\<close> and goes on from \<open>rest\<close>.\<close>

definition frames :: "bytes \<Rightarrow> bytes list \<Rightarrow> bytes \<Rightarrow> bool" where
  "frames xs events rest \<longleftrightarrow>
     (\<forall>ys. split_events (xs @ ys) = (events @ fst (split_events (rest @ ys)), snd (split_events (rest @ ys))))"

lemma frames_refl: "frames xs [] xs"
  by (simp add: frames_def)

lemma frames_append:
  assumes "frames xs events rest" "frames (rest @ chunk) later final"
  shows "frames (xs @ chunk) (events @ later) final"
  using assms by (auto simp: frames_def)

lemma frames_boundary:
  assumes "first_boundary False xs = Some (p, s)" "frames (drop (p + length s) xs) events rest"
  shows "frames xs (take p xs # events) rest"
proof -
  have scan: "p < length xs" "separator_at xs False p s" "s \<in> set SSE_EVENT_SEPARATORS"
    using scan_upt_Some(2,3) [OF assms(1) [unfolded first_boundary_def]] by (auto simp: find_Some_iff)
  then have "p + length s \<le> length xs"
    using prefix_drop_length separators_nonempty by (fastforce simp: separator_at_def)
  then have "split_events (xs @ ys) =
      (let (es, r) = split_events (drop (p + length s) xs @ ys) in (take p xs # es, r))" for ys
    using first_boundary_stable [OF assms(1), of ys] by (subst split_events.simps) simp
  then show ?thesis using assms(2) by (simp add: frames_def)
qed

lemma drain_open:
  assumes "buffer_ok b" "drain_buffer False b = (events, b')"
  shows "buffer_ok b' \<and> frames (active_bytes b) events (active_bytes b')"
  using assms
proof (induction "length (active_bytes b)" arbitrary: b b' events rule: less_induct)
  case less
  show ?case
  proof (cases "first_boundary False (active_bytes b)")
    case None
    then obtain c where "next_boundary b SSE_EVENT_SEPARATORS False = (None, c)" using next_boundary_active(2) less.prems(1) by blast
    then show ?thesis using less.prems next_boundary_None_ok [OF less.prems(1)] frames_refl
      by (auto simp: drain_buffer.simps [of False b])
  next
    case (Some found)
    then obtain p s where found: "first_boundary False (active_bytes b) = Some (p, s)" by (cases found) auto
    obtain c where c: "take_event b \<lparr>seb_event_len = p, seb_separator_len = length s\<rparr> = (take p (active_bytes b), c)"
      "buffer_ok c" "active_bytes c = drop (p + length s) (active_bytes b)"
      using take_event_ok [OF less.prems(1) found] by blast
    obtain es d where d: "drain_buffer False c = (es, d)" by (cases "drain_buffer False c")
    have "events = take p (active_bytes b) # es" "b' = d"
      using less.prems(2) c d next_boundary_active(1) [OF less.prems(1) found] by (auto simp: drain_buffer.simps [of False b])
    moreover have "length (active_bytes c) < length (active_bytes b)"
    proof -
      have "p < length (active_bytes b)" "0 < length s"
        using scan_positions_Some [OF found [unfolded first_boundary_def]] separators_nonempty by auto
      then show ?thesis unfolding c(3) length_drop by linarith
    qed
    ultimately show ?thesis
      using less.hyps [OF _ c(2) d] frames_boundary [OF found] c(3) by simp
  qed
qed

lemma drain_closed:
  assumes "buffer_ok b" "drain_buffer True b = (events, b')"
  shows "split_events (active_bytes b) = (events, active_bytes b')"
  using assms
proof (induction "active_bytes b" arbitrary: b b' events rule: split_events.induct)
  case 1
  show ?case
  proof (cases "first_boundary True (active_bytes b)")
    case None
    then obtain c where "next_boundary b SSE_EVENT_SEPARATORS True = (None, c)" "active_bytes c = active_bytes b"
      using next_boundary_active(2) [OF 1(2)] by blast
    then show ?thesis using 1(3) None by (simp add: drain_buffer.simps [of True b] split_events.simps [of "active_bytes b"])
  next
    case (Some found)
    then obtain p s where found: "first_boundary True (active_bytes b) = Some (p, s)" by (cases found) auto
    obtain c where c: "take_event b \<lparr>seb_event_len = p, seb_separator_len = length s\<rparr> = (take p (active_bytes b), c)"
      "buffer_ok c" "active_bytes c = drop (p + length s) (active_bytes b)"
      using take_event_ok [OF 1(2) found] by blast
    obtain es d where d: "drain_buffer True c = (es, d)" by (cases "drain_buffer True c")
    have "events = take p (active_bytes b) # es" "b' = d"
      using 1(3) c d next_boundary_active(1) [OF 1(2) found] by (auto simp: drain_buffer.simps [of True b])
    moreover have "split_events (active_bytes c) = (es, active_bytes d)"
      using 1(1) [OF found refl c(3) [symmetric] c(2) d] by simp
    ultimately show ?thesis using found c(3) by (simp add: split_events.simps [of "active_bytes b"])
  qed
qed

lemma compact_ok:
  assumes "buffer_ok b"
  shows "buffer_ok (compact_if_worthwhile b)" "active_bytes (compact_if_worthwhile b) = active_bytes b"
  using assms by (auto simp: compact_if_worthwhile_def buffer_ok_def active_bytes_def)

lemma extend_ok:
  assumes "buffer_ok b"
  shows "buffer_ok (extend_from_slice b bs)" "active_bytes (extend_from_slice b bs) = active_bytes b @ bs"
  using assms by (auto simp: extend_from_slice_def buffer_ok_def active_bytes_def)

text \<open>Feeding a chunk is draining the extended buffer.\<close>

lemma feed_chunk_drain:
  assumes "chunk \<noteq> []"
  shows "feed_chunk b chunk = drain_buffer False (extend_from_slice (compact_if_worthwhile b) chunk)"
  using assms by (simp add: feed_chunk_def extend_chunk_and_find_boundary_def
      drain_buffer.simps [of False "extend_from_slice (compact_if_worthwhile b) chunk"])

lemma feed_chunk_frames:
  assumes "buffer_ok b" "feed_chunk b chunk = (events, b')"
  shows "buffer_ok b' \<and> frames (active_bytes b @ chunk) events (active_bytes b')"
proof (cases "chunk = []")
  case True
  then show ?thesis using assms by (auto simp: feed_chunk_def extend_chunk_and_find_boundary_def frames_refl)
next
  case False
  note ok = compact_ok [OF assms(1)]
  show ?thesis
    using drain_open [OF extend_ok(1) [OF ok(1)]] assms(2) extend_ok(2) [OF ok(1)] ok(2) feed_chunk_drain [OF False] by metis
qed

lemma feed_chunks_frames:
  "buffer_ok b \<Longrightarrow> feed_chunks b chunks = (events, b') \<Longrightarrow>
     buffer_ok b' \<and> frames (active_bytes b @ concat chunks) events (active_bytes b')"
proof (induction chunks arbitrary: b b' events)
  case (Cons chunk chunks)
  obtain es c where c: "feed_chunk b chunk = (es, c)" by (cases "feed_chunk b chunk")
  obtain fs d where d: "feed_chunks c chunks = (fs, d)" by (cases "feed_chunks c chunks")
  have "events = es @ fs" "b' = d" using Cons.prems(2) c d by simp_all
  then show ?case
    using feed_chunk_frames [OF Cons.prems(1) c] Cons.IH [OF _ d] frames_append [of "active_bytes b @ chunk" es "active_bytes c"]
    by simp
qed (simp add: frames_refl)

lemma frame_stream_split: "frame_stream chunks = split_events (concat chunks)"
proof -
  have start: "buffer_ok sse_buffer_default" "active_bytes sse_buffer_default = []"
    by (simp_all add: buffer_ok_def sse_buffer_default_def active_bytes_def)
  obtain es b where b: "feed_chunks sse_buffer_default chunks = (es, b)" by (cases "feed_chunks sse_buffer_default chunks")
  obtain fs c where c: "drain_buffer True b = (fs, c)" by (cases "drain_buffer True b")
  have "buffer_ok b" "frames (concat chunks) es (active_bytes b)"
    using feed_chunks_frames [OF start(1) b] start(2) by simp_all
  then have "split_events (concat chunks @ []) = (es @ fs, active_bytes c)"
    using drain_closed [OF _ c] unfolding frames_def by (metis append_Nil2 fst_conv snd_conv)
  then show ?thesis using b c by (simp add: frame_stream_def)
qed

subsection \<open>Nothing is lost\<close>

lemma no_boundary_no_separator:
  assumes "first_boundary True bs = None" "s \<in> set SSE_EVENT_SEPARATORS"
  shows "\<not> sublist s bs"
proof
  assume "sublist s bs"
  then obtain xs ys where bs: "bs = xs @ s @ ys" by (auto simp: sublist_def)
  have "separator_at bs True (length xs) s" by (simp add: separator_at_def bs)
  moreover have "length xs < length bs" using separators_nonempty [OF assms(2)] by (simp add: bs)
  ultimately show False using assms by (auto simp: first_boundary_def scan_positions_None)
qed

lemma event_without_separator:
  assumes "first_boundary True bs = Some (p, s)" "s' \<in> set SSE_EVENT_SEPARATORS"
  shows "\<not> sublist s' (take p bs)"
proof
  note scan = scan_upt_Some [OF assms(1) [unfolded first_boundary_def]]
  assume "sublist s' (take p bs)"
  then obtain xs ys where split: "take p bs = xs @ s' @ ys" by (auto simp: sublist_def)
  then have "length (xs @ s' @ ys) = p" using scan(2) by (metis length_take less_imp_le_nat min.absorb2)
  then have "length xs < p" using separators_nonempty [OF assms(2)] by auto
  moreover have "bs = xs @ s' @ ys @ drop p bs" using split by (metis append_assoc append_take_drop_id)
  then have "prefix s' (drop (length xs) bs)" by (metis append_eq_conv_conj prefixI)
  ultimately show False using scan(4) [of "length xs" s'] assms(2) by (simp add: separator_at_def)
qed

lemma split_events_lossless:
  assumes "split_events bs = (events, rest)"
  shows "\<exists>ss. length ss = length events \<and> set ss \<subseteq> set SSE_EVENT_SEPARATORS \<and> concat (map2 (@) events ss) @ rest = bs"
    "s \<in> set SSE_EVENT_SEPARATORS \<Longrightarrow> x \<in> set (rest # events) \<Longrightarrow> \<not> sublist s x"
proof -
  have "(\<exists>ss. length ss = length events \<and> set ss \<subseteq> set SSE_EVENT_SEPARATORS \<and> concat (map2 (@) events ss) @ rest = bs) \<and>
    (\<forall>s \<in> set SSE_EVENT_SEPARATORS. \<forall>x \<in> set (rest # events). \<not> sublist s x)"
    using assms
  proof (induction bs arbitrary: events rule: split_events.induct)
    case (1 bs)
    show ?case
    proof (cases "first_boundary True bs")
      case None
      then show ?thesis using 1(2) no_boundary_no_separator by (auto simp: split_events.simps [of bs])
    next
      case (Some found)
      then obtain p s where found: "first_boundary True bs = Some (p, s)" by (cases found) auto
      obtain es where es: "split_events (drop (p + length s) bs) = (es, rest)" "events = take p bs # es"
        using 1(2) found by (auto simp: split_events.simps [of bs] split: prod.splits)
      have s: "s \<in> set SSE_EVENT_SEPARATORS" "prefix s (drop p bs)"
        using scan_positions_Some [OF found [unfolded first_boundary_def]] by (auto simp: separator_at_def)
      then have bs: "bs = take p bs @ s @ drop (p + length s) bs"
        by (metis add.commute append_eq_conv_conj append_take_drop_id drop_drop prefix_def)
      from 1(1) [OF found refl es(1)] obtain ss where "length ss = length es" "set ss \<subseteq> set SSE_EVENT_SEPARATORS"
        "concat (map2 (@) es ss) @ rest = drop (p + length s) bs"
        and clean: "\<forall>s \<in> set SSE_EVENT_SEPARATORS. \<forall>x \<in> set (rest # es). \<not> sublist s x" by blast
      then have "\<exists>ss. length ss = length events \<and> set ss \<subseteq> set SSE_EVENT_SEPARATORS \<and> concat (map2 (@) events ss) @ rest = bs"
        using s(1) bs es(2) by (intro exI [of _ "s # ss"]) simp
      moreover have "\<forall>s \<in> set SSE_EVENT_SEPARATORS. \<forall>x \<in> set (rest # events). \<not> sublist s x"
        using clean event_without_separator [OF found] es(2) by auto
      ultimately show ?thesis by blast
    qed
  qed
  then show "\<exists>ss. length ss = length events \<and> set ss \<subseteq> set SSE_EVENT_SEPARATORS \<and> concat (map2 (@) events ss) @ rest = bs"
    "s \<in> set SSE_EVENT_SEPARATORS \<Longrightarrow> x \<in> set (rest # events) \<Longrightarrow> \<not> sublist s x" by blast+
qed

text \<open>C11. The framing of a stream does not depend on its chunks: feeding them one by one and draining at the
  end gives the events and the remainder of the whole stream.  Nothing is lost: the events with their
  separators and the remainder are the stream, and neither an event nor the remainder contains a
  separator.\<close>

theorem sse_framing_exact:
  assumes "frame_stream chunks = (events, rest)"
  shows "split_events (concat chunks) = (events, rest) \<and>
    (\<exists>ss. length ss = length events \<and> set ss \<subseteq> set SSE_EVENT_SEPARATORS \<and> concat (map2 (@) events ss) @ rest = concat chunks) \<and>
    (\<forall>s \<in> set SSE_EVENT_SEPARATORS. \<forall>x \<in> set (rest # events). \<not> sublist s x)"
  using assms split_events_lossless [of "concat chunks" events rest] by (auto simp: frame_stream_split)

theorem sse_framing_exact_witness:
  "split_events (concat [[97, 13], [10, 13], [10, 98, 10], [13], [99]]) = ([[97], [98]], [99])"
proof -
  have "frame_stream [[97, 13], [10, 13], [10, 98, 10], [13], [99]] = ([[97], [98]], [99])" by code_simp
  then show ?thesis using sse_framing_exact by blast
qed

end
