(* ===== verification/Module_Types.thy ===== *)
theory Module_Types
  imports Prompt_Validation Rust_Parse "HOL-Library.Product_Lexorder"
begin

section \<open>Content modules: data\<close>

text \<open>
  The types of content modules: modules, revisions and bindings of
  \<open>crates/domain/src/orchestration.rs\<close>, the runtime profile of \<open>crates/domain/src/character.rs\<close> that a
  module may carry, and the reviews, plans and errors of \<open>crates/orchestration/src/modules.rs\<close>.
  A \<open>Sha256Digest\<close> is the string it wraps; \<open>sha256_digest_parse\<close> is its only constructor.
\<close>

type_synonym sha256_digest = str

subsection \<open>Scopes, capabilities and component references\<close>

datatype module_scope = MScope_App | MScope_User | MScope_Persona | MScope_Character | MScope_Conversation | MScope_Branch

datatype module_revision_resolution_mode = Mode_Active | Mode_Pinned

datatype content_capability =
    CCap_PromptFragments | CCap_Knowledge | CCap_Variables | CCap_Transforms | CCap_DeclarativeInteractions
  | CCap_PortableRuntime | CCap_ImageAssets | CCap_AudioAssets | CCap_VideoAssets | CCap_AttachmentAssets
  | CCap_HighRiskAssets

fun content_capability_index :: "content_capability \<Rightarrow> nat" where
  "content_capability_index CCap_PromptFragments = 0"
| "content_capability_index CCap_Knowledge = 1"
| "content_capability_index CCap_Variables = 2"
| "content_capability_index CCap_Transforms = 3"
| "content_capability_index CCap_DeclarativeInteractions = 4"
| "content_capability_index CCap_PortableRuntime = 5"
| "content_capability_index CCap_ImageAssets = 6"
| "content_capability_index CCap_AudioAssets = 7"
| "content_capability_index CCap_VideoAssets = 8"
| "content_capability_index CCap_AttachmentAssets = 9"
| "content_capability_index CCap_HighRiskAssets = 10"

lemma content_capability_index_inj: "content_capability_index a = content_capability_index b \<Longrightarrow> a = b"
  by (cases a; cases b) simp_all

instantiation content_capability :: linorder
begin

definition less_eq_content_capability :: "content_capability \<Rightarrow> content_capability \<Rightarrow> bool" where
  "less_eq_content_capability a b \<longleftrightarrow> content_capability_index a \<le> content_capability_index b"

definition less_content_capability :: "content_capability \<Rightarrow> content_capability \<Rightarrow> bool" where
  "less_content_capability a b \<longleftrightarrow> content_capability_index a < content_capability_index b"

instance
  by standard (auto simp: less_eq_content_capability_def less_content_capability_def intro: content_capability_index_inj)

end

datatype module_component_ref =
    Ref_PromptBlock str
  | Ref_Control str
  | Ref_KnowledgeBook str
  | Ref_TransformSet str
  | Ref_InteractionRuleSet str
  | Ref_Asset str

text \<open>The derived \<open>Ord\<close>: by the position of the variant, then by the identifier.\<close>

fun component_ref_key :: "module_component_ref \<Rightarrow> nat \<times> str" where
  "component_ref_key (Ref_PromptBlock i) = (0, i)"
| "component_ref_key (Ref_Control i) = (1, i)"
| "component_ref_key (Ref_KnowledgeBook i) = (2, i)"
| "component_ref_key (Ref_TransformSet i) = (3, i)"
| "component_ref_key (Ref_InteractionRuleSet i) = (4, i)"
| "component_ref_key (Ref_Asset i) = (5, i)"

lemma component_ref_key_inj: "component_ref_key a = component_ref_key b \<Longrightarrow> a = b"
  by (cases a; cases b) simp_all

instantiation module_component_ref :: linorder
begin

definition less_eq_module_component_ref :: "module_component_ref \<Rightarrow> module_component_ref \<Rightarrow> bool" where
  "less_eq_module_component_ref a b \<longleftrightarrow> component_ref_key a \<le> component_ref_key b"

definition less_module_component_ref :: "module_component_ref \<Rightarrow> module_component_ref \<Rightarrow> bool" where
  "less_module_component_ref a b \<longleftrightarrow> component_ref_key a < component_ref_key b"

instance
  by standard (auto simp: less_eq_module_component_ref_def less_module_component_ref_def intro: component_ref_key_inj)

end

subsection \<open>The portable runtime of a module\<close>

datatype portable_transform_phase = Portable_RequestContext | Portable_ProviderOutput | Portable_Display

record portable_text_transform =
  ptt_id :: str
  ptt_name :: str
  ptt_phase :: portable_transform_phase
  ptt_enabled :: bool
  ptt_pattern :: str
  ptt_replacement :: str
  ptt_flags :: str
  ptt_metadata :: "(str, str) btree_map"

datatype portable_runtime_capability =
    PCap_RuntimeCallbacks | PCap_ChatRead | PCap_ChatWrite | PCap_StateReadWrite | PCap_ProfileRead
  | PCap_LoreRead | PCap_UiWrite | PCap_ModelPrimary | PCap_ModelAuxiliary | PCap_Elevated

record portable_runtime_script =
  prs_id :: str
  prs_name :: str
  prs_event :: str
  prs_language :: str
  prs_source :: str
  prs_elevated_access :: bool
  prs_metadata :: "(str, str) btree_map"

record character_runtime_profile =
  crp_source_id :: "str option"
  crp_transform_set_id :: "str option"
  crp_transforms :: "portable_text_transform list"
  crp_scripts :: "portable_runtime_script list"
  crp_required_capabilities :: "portable_runtime_capability list option"
  crp_background_markup :: str
  crp_additional_text :: str
  crp_toggle_schema :: str
  crp_initial_variables :: "(str, str) btree_map"
  crp_metadata :: "(str, str) btree_map"

subsection \<open>Modules, revisions and bindings\<close>

record package_metadata =
  pkm_author :: "str option"
  pkm_license :: str
  pkm_redistribution_allowed :: bool
  pkm_homepage :: "str option"
  pkm_description :: str
  pkm_tags :: "str list"
  pkm_provenance :: provenance

record content_module =
  cm_id :: str
  cm_name :: str
  cm_version :: str
  cm_schema_version :: nat
  cm_prompt_fragments :: "prompt_block list"
  cm_knowledge_book_ids :: "str list"
  cm_control_specs :: "control_spec list"
  cm_transform_set_ids :: "str list"
  cm_interaction_rule_set_ids :: "str list"
  cm_asset_ids :: "str list"
  cm_portable_runtime :: "character_runtime_profile option"
  cm_imported_components_enabled :: bool
  cm_required_capabilities :: "content_capability list"
  cm_metadata :: package_metadata

record module_binding =
  mb_id :: str
  mb_module_id :: str
  mb_scope :: module_scope
  mb_target_id :: "str option"
  mb_conversation_id :: "str option"
  mb_priority :: int
  mb_resolution_mode :: module_revision_resolution_mode
  mb_pinned_revision_id :: "str option"
  mb_enabled :: bool
  mb_approved :: bool
  mb_package_import_approval_id :: "str option"
  mb_activation_approval_id :: "str option"
  mb_activation_review_sha256 :: "sha256_digest option"
  mb_activation_plan_sha256 :: "sha256_digest option"
  mb_variable_overrides :: variable_map
  mb_revision_id :: str
  mb_created_at :: date_time

record component_hash =
  ch_component :: module_component_ref
  ch_sha256 :: sha256_digest

record content_module_revision =
  cr_id :: str
  cr_module_id :: str
  cr_version :: str
  cr_source_hash :: sha256_digest
  cr_previous_revision_id :: "str option"
  cr_component_hashes :: "component_hash list"
  cr_created_at :: date_time

record module_conflict_candidate =
  mcc_module_id :: str
  mcc_revision_id :: str
  mcc_component_hash :: sha256_digest

record module_conflict =
  mcf_component :: module_component_ref
  mcf_candidates :: "module_conflict_candidate list"
  mcf_reason :: str

record module_conflict_resolution =
  mcr_component :: module_component_ref
  mcr_expected_candidates :: "module_conflict_candidate list"
  mcr_selected :: "module_conflict_candidate option"

text \<open>The derived \<open>Ord\<close> of a candidate, field by field.\<close>

definition cmp_conflict_candidate :: "module_conflict_candidate \<Rightarrow> module_conflict_candidate \<Rightarrow> ordering" where
  "cmp_conflict_candidate =
     cmp_then (cmp_on mcc_module_id) (cmp_then (cmp_on mcc_revision_id) (cmp_on mcc_component_hash))"

subsection \<open>Contexts, snapshots and import authority\<close>

record module_resolution_context =
  mrc_local_user_id :: str
  mrc_persona_id :: "str option"
  mrc_character_id :: "str option"
  mrc_conversation_id :: "str option"
  mrc_branch_id :: "str option"
  mrc_supported_capabilities :: "content_capability list"

record module_import_component_authority =
  mia_component :: module_component_ref
  mia_component_sha256 :: sha256_digest
  mia_package_component_id :: str
  mia_package_component_sha256 :: sha256_digest
  mia_committed_target_object_id :: str
  mia_committed_target_revision_id :: str
  mia_committed_result_sha256 :: sha256_digest
  mia_committed_content_sha256 :: "sha256_digest option"

definition cmp_component_authority ::
  "module_import_component_authority \<Rightarrow> module_import_component_authority \<Rightarrow> ordering" where
  "cmp_component_authority =
     cmp_then (cmp_on mia_component) (cmp_then (cmp_on mia_component_sha256)
     (cmp_then (cmp_on mia_package_component_id) (cmp_then (cmp_on mia_package_component_sha256)
     (cmp_then (cmp_on mia_committed_target_object_id) (cmp_then (cmp_on mia_committed_target_revision_id)
     (cmp_then (cmp_on mia_committed_result_sha256) (cmp_on mia_committed_content_sha256)))))))"

record module_import_approval_evidence =
  mie_approval_id :: str
  mie_approval_sha256 :: sha256_digest
  mie_import_id :: str
  mie_import_revision :: nat
  mie_package_id :: str
  mie_package_source_sha256 :: sha256_digest
  mie_selection_sha256 :: sha256_digest
  mie_capability_review_sha256 :: sha256_digest
  mie_module_id :: str
  mie_module_revision_id :: str
  mie_module_revision_source_sha256 :: sha256_digest
  mie_module_package_component_id :: str
  mie_module_package_component_sha256 :: sha256_digest
  mie_module_commit_result_sha256 :: sha256_digest
  mie_selected_package_component_ids :: "str list"
  mie_authorized_capabilities :: "content_capability list"
  mie_component_authorities :: "module_import_component_authority list"

record module_revision_snapshot =
  mrs_module :: content_module
  mrs_revision :: content_module_revision
  mrs_import_approval :: "module_import_approval_evidence option"

record reviewed_module_import_approval =
  ria_binding_id :: str
  ria_evidence :: module_import_approval_evidence

subsection \<open>Reviews and plans\<close>

datatype ignored_module_binding_reason = Ignored_Disabled | Ignored_AwaitingApproval | Ignored_DifferentTarget

fun ignored_reason_index :: "ignored_module_binding_reason \<Rightarrow> nat" where
  "ignored_reason_index Ignored_Disabled = 0"
| "ignored_reason_index Ignored_AwaitingApproval = 1"
| "ignored_reason_index Ignored_DifferentTarget = 2"

record ignored_module_binding =
  imb_binding_id :: str
  imb_reason :: ignored_module_binding_reason

record module_candidate_source =
  mcs_binding_id :: str
  mcs_module_id :: str
  mcs_revision_id :: str
  mcs_revision_source_sha256 :: sha256_digest
  mcs_scope :: module_scope
  mcs_target_id :: "str option"
  mcs_conversation_id :: "str option"
  mcs_priority :: int
  mcs_module_ordinal :: nat
  mcs_runtime_enabled_intent :: bool

record reviewed_module_candidate =
  rmc_candidate :: module_conflict_candidate
  rmc_sources :: "module_candidate_source list"

record reviewed_module_component =
  rmp_component :: module_component_ref
  rmp_candidates :: "reviewed_module_candidate list"

record module_merge_review =
  mrv_review_sha256 :: sha256_digest
  mrv_state_revision :: nat
  mrv_context :: module_resolution_context
  mrv_activation_binding_ids :: "str list"
  mrv_ordered_bindings :: "module_binding list"
  mrv_ignored_bindings :: "ignored_module_binding list"
  mrv_components :: "reviewed_module_component list"
  mrv_conflicts :: "module_conflict list"
  mrv_import_approvals :: "reviewed_module_import_approval list"
  mrv_effective_variable_overrides :: variable_map

record module_merge_resolution_set =
  mms_expected_review_sha256 :: sha256_digest
  mms_resolutions :: "module_conflict_resolution list"

record resolved_module_component =
  rsc_component :: module_component_ref
  rsc_sha256 :: sha256_digest
  rsc_selected_source :: module_candidate_source
  rsc_coalesced_sources :: "module_candidate_source list"
  rsc_runtime_enabled :: bool

record resolved_module_plan =
  rmpl_plan_sha256 :: sha256_digest
  rmpl_review_sha256 :: sha256_digest
  rmpl_expected_state_revision :: nat
  rmpl_activation_binding_ids :: "str list"
  rmpl_ordered_binding_ids :: "str list"
  rmpl_components :: "resolved_module_component list"
  rmpl_omitted_components :: "module_component_ref list"
  rmpl_import_approvals :: "reviewed_module_import_approval list"
  rmpl_effective_variable_overrides :: variable_map

record module_activation_approval =
  maa_approval_id :: str
  maa_expected_review_sha256 :: sha256_digest
  maa_expected_plan_sha256 :: sha256_digest

record approved_module_activation_plan =
  amp_approval_sha256 :: sha256_digest
  amp_approval_id :: str
  amp_plan :: resolved_module_plan

record applied_module_runtime_plan =
  arp_applied_plan_sha256 :: sha256_digest
  arp_source_approval :: approved_module_activation_plan
  arp_derived_from_plan_sha256 :: "sha256_digest option"
  arp_review :: module_merge_review
  arp_plan :: resolved_module_plan

subsection \<open>Differences and rollbacks\<close>

datatype module_component_change_kind = Change_Added | Change_Modified | Change_Removed

record module_component_change =
  mch_component :: module_component_ref
  mch_kind :: module_component_change_kind
  mch_previous_sha256 :: "sha256_digest option"
  mch_next_sha256 :: "sha256_digest option"

record module_capability_diff =
  mcd_added :: "content_capability list"
  mcd_removed :: "content_capability list"

record module_revision_diff =
  mrd_diff_sha256 :: sha256_digest
  mrd_module_id :: str
  mrd_from_revision_id :: str
  mrd_to_revision_id :: str
  mrd_from_source_sha256 :: sha256_digest
  mrd_to_source_sha256 :: sha256_digest
  mrd_component_changes :: "module_component_change list"
  mrd_capability_changes :: module_capability_diff
  mrd_metadata_changed_fields :: "str list"

record module_rollback_policy =
  mrp_state_revision :: nat
  mrp_maximum_module_schema_version :: nat
  mrp_scope_target_exists :: bool
  mrp_available_asset_ids :: "str list"
  mrp_supported_capabilities :: "content_capability list"
  mrp_quarantined_revision_ids :: "str list"
  mrp_unresolved_components :: "module_component_ref list"

datatype module_rollback_blocker =
    Blk_BindingDisabled
  | Blk_BindingAwaitingApproval
  | Blk_StaleBinding
  | Blk_DifferentModule
  | Blk_TargetAlreadyActive
  | Blk_TargetNotAncestor
  | Blk_CorruptRevisionLineage
  | Blk_CorruptSnapshot
  | Blk_UnsupportedSchemaVersion nat
  | Blk_ScopeTargetMissing
  | Blk_MissingAsset str
  | Blk_UnsupportedCapability content_capability
  | Blk_QuarantinedTarget
  | Blk_UnresolvedConflict module_component_ref

text \<open>The derived \<open>Ord\<close>: the position of the variant, then its payload.\<close>

fun rollback_blocker_key :: "module_rollback_blocker \<Rightarrow> nat \<times> nat \<times> str" where
  "rollback_blocker_key Blk_BindingDisabled = (0, 0, [])"
| "rollback_blocker_key Blk_BindingAwaitingApproval = (1, 0, [])"
| "rollback_blocker_key Blk_StaleBinding = (2, 0, [])"
| "rollback_blocker_key Blk_DifferentModule = (3, 0, [])"
| "rollback_blocker_key Blk_TargetAlreadyActive = (4, 0, [])"
| "rollback_blocker_key Blk_TargetNotAncestor = (5, 0, [])"
| "rollback_blocker_key Blk_CorruptRevisionLineage = (6, 0, [])"
| "rollback_blocker_key Blk_CorruptSnapshot = (7, 0, [])"
| "rollback_blocker_key (Blk_UnsupportedSchemaVersion v) = (8, v, [])"
| "rollback_blocker_key Blk_ScopeTargetMissing = (9, 0, [])"
| "rollback_blocker_key (Blk_MissingAsset a) = (10, 0, a)"
| "rollback_blocker_key (Blk_UnsupportedCapability c) = (11, content_capability_index c, [])"
| "rollback_blocker_key Blk_QuarantinedTarget = (12, 0, [])"
| "rollback_blocker_key (Blk_UnresolvedConflict c) = (13, component_ref_key c)"

record module_rollback_review =
  mrr_review_sha256 :: sha256_digest
  mrr_expected_state_revision :: nat
  mrr_binding_id :: str
  mrr_current_revision_id :: str
  mrr_current_source_sha256 :: sha256_digest
  mrr_target_revision_id :: str
  mrr_target_source_sha256 :: sha256_digest
  mrr_diff :: "module_revision_diff option"
  mrr_blockers :: "module_rollback_blocker list"
  mrr_eligible :: bool

record module_rollback_plan =
  rbp_plan_sha256 :: sha256_digest
  rbp_review_sha256 :: sha256_digest
  rbp_expected_state_revision :: nat
  rbp_binding_id :: str
  rbp_expected_current_revision_id :: str
  rbp_expected_current_source_sha256 :: sha256_digest
  rbp_target_revision_id :: str
  rbp_target_source_sha256 :: sha256_digest
  rbp_diff_sha256 :: sha256_digest

record approved_module_rollback_plan =
  arb_approval_sha256 :: sha256_digest
  arb_rollback :: module_rollback_plan
  arb_activation_review :: module_merge_review
  arb_activation :: approved_module_activation_plan

subsection \<open>Errors\<close>

datatype module_merge_error =
    MME_LimitExceeded str
  | MME_InvalidContext str
  | MME_InvalidBindingTarget str
  | MME_InvalidBinding str str
  | MME_DuplicateBinding str
  | MME_DuplicateRevision str
  | MME_MissingRevision str
  | MME_BindingRevisionMismatch str
  | MME_InvalidSnapshot str
  | MME_MissingImportApproval str
  | MME_InvalidImportApproval str str
  | MME_UnsupportedCapability content_capability
  | MME_CanonicalEncoding str
  | MME_ReviewHashMismatch
  | MME_InvalidReview str
  | MME_StaleReview
  | MME_UnresolvedConflict module_component_ref
  | MME_DuplicateResolution module_component_ref
  | MME_UnknownResolution module_component_ref
  | MME_StaleConflictCandidates module_component_ref
  | MME_UnknownConflictCandidate module_component_ref
  | MME_PlanHashMismatch
  | MME_InvalidActivationDraft str
  | MME_ActivationPlanRequired
  | MME_InvalidActivationApprovalId
  | MME_StaleActivationApproval
  | MME_ActivationApprovalHashMismatch
  | MME_InvalidRuntimeMaterialization str
  | MME_RuntimePlanHashMismatch
  | MME_RuntimeDerivationChanged
  | MME_RuntimeTargetBranchOverride
  | MME_DifferentModules
  | MME_CorruptRevisionIdentity
  | MME_DiffHashMismatch
  | MME_RollbackReviewHashMismatch
  | MME_StaleRollbackReview
  | MME_RollbackBlocked
  | MME_RollbackPlanHashMismatch
  | MME_RollbackActivationMismatch
  | MME_RollbackApprovalHashMismatch

type_synonym 'a merge_result = "(module_merge_error, 'a) result"

subsection \<open>Hash payloads and external code\<close>

text \<open>
  The payloads that are serialized and hashed.  \<open>mx_json\<close> is \<open>serde_json::to_vec\<close> on any of them: it returns the
  bytes or the text of its error.  \<open>mx_sha256\<close> and \<open>mx_hex_encode\<close> are those of \<open>sha2\<close> and \<open>hex\<close>,
  \<open>mx_hex_ok\<close> whether \<open>hex::decode\<close> succeeds, and \<open>mx_json_value\<close> is \<open>serde_json::to_string\<close> on a variable value.
\<close>

record module_merge_review_digest =
  mvd_state_revision :: nat
  mvd_context :: module_resolution_context
  mvd_activation_binding_ids :: "str list"
  mvd_ordered_bindings :: "module_binding list"
  mvd_ignored_bindings :: "ignored_module_binding list"
  mvd_components :: "reviewed_module_component list"
  mvd_conflicts :: "module_conflict list"
  mvd_import_approvals :: "reviewed_module_import_approval list"
  mvd_effective_variable_overrides :: variable_map

record resolved_module_plan_digest =
  rpd_review_sha256 :: sha256_digest
  rpd_expected_state_revision :: nat
  rpd_activation_binding_ids :: "str list"
  rpd_ordered_binding_ids :: "str list"
  rpd_components :: "resolved_module_component list"
  rpd_omitted_components :: "module_component_ref list"
  rpd_import_approvals :: "reviewed_module_import_approval list"
  rpd_effective_variable_overrides :: variable_map

record module_activation_approval_digest =
  mad_approval_id :: str
  mad_review_sha256 :: sha256_digest
  mad_plan_sha256 :: sha256_digest
  mad_expected_state_revision :: nat
  mad_activation_binding_ids :: "str list"

record applied_module_runtime_plan_digest =
  ard_source_approval_id :: str
  ard_source_approval_sha256 :: sha256_digest
  ard_source_activation_plan_sha256 :: sha256_digest
  ard_derived_from_plan_sha256 :: "sha256_digest option"
  ard_runtime_review_sha256 :: sha256_digest
  ard_runtime_plan_sha256 :: sha256_digest

record module_revision_diff_digest =
  mdd_module_id :: str
  mdd_from_revision_id :: str
  mdd_to_revision_id :: str
  mdd_from_source_sha256 :: sha256_digest
  mdd_to_source_sha256 :: sha256_digest
  mdd_component_changes :: "module_component_change list"
  mdd_capability_changes :: module_capability_diff
  mdd_metadata_changed_fields :: "str list"

record module_rollback_review_digest =
  rrd_expected_state_revision :: nat
  rrd_binding_id :: str
  rrd_current_revision_id :: str
  rrd_current_source_sha256 :: sha256_digest
  rrd_target_revision_id :: str
  rrd_target_source_sha256 :: sha256_digest
  rrd_diff :: "module_revision_diff option"
  rrd_blockers :: "module_rollback_blocker list"
  rrd_eligible :: bool

record module_rollback_plan_digest =
  rld_review_sha256 :: sha256_digest
  rld_expected_state_revision :: nat
  rld_binding_id :: str
  rld_expected_current_revision_id :: str
  rld_expected_current_source_sha256 :: sha256_digest
  rld_target_revision_id :: str
  rld_target_source_sha256 :: sha256_digest
  rld_diff_sha256 :: sha256_digest

record approved_module_rollback_digest =
  abd_rollback :: module_rollback_plan
  abd_activation_review :: module_merge_review
  abd_activation :: approved_module_activation_plan

datatype module_digest =
    Digest_MergeReview module_merge_review_digest
  | Digest_ResolvedPlan resolved_module_plan_digest
  | Digest_ActivationApproval module_activation_approval_digest
  | Digest_AppliedRuntimePlan applied_module_runtime_plan_digest
  | Digest_RevisionDiff module_revision_diff_digest
  | Digest_RollbackReview module_rollback_review_digest
  | Digest_RollbackPlan module_rollback_plan_digest
  | Digest_ApprovedRollback approved_module_rollback_digest

record module_env =
  mx_hex_ok :: "str \<Rightarrow> bool"
  mx_hex_encode :: "bytes \<Rightarrow> str"
  mx_sha256 :: "bytes \<Rightarrow> bytes"
  mx_json_value :: "variable_value \<Rightarrow> (str, str) result"
  mx_json :: "module_digest \<Rightarrow> (str, bytes) result"

definition SHA256_HEX_LENGTH :: nat where "SHA256_HEX_LENGTH = 64"

definition sha256_digest_parse :: "str \<Rightarrow> (str, sha256_digest) result" where
  "sha256_digest_parse value =
     (if str_len value \<noteq> SHA256_HEX_LENGTH \<or> \<not> list_all is_ascii_hexdigit value
      then Inl (lit ''SHA-256 digest must contain exactly '' @ show_nat SHA256_HEX_LENGTH @
        lit '' hexadecimal characters'')
      else Inr (to_ascii_lowercase value))"

definition canonical_sha256 :: "module_env \<Rightarrow> module_digest \<Rightarrow> sha256_digest merge_result" where
  "canonical_sha256 env value =
     result_bind (map_err MME_CanonicalEncoding (mx_json env value)) (\<lambda>bs.
     map_err MME_CanonicalEncoding (sha256_digest_parse (mx_hex_encode env (mx_sha256 env bs))))"

end
