(* ===== verification/Module_Validation.thy ===== *)
theory Module_Validation
  imports Module_Types
begin

section \<open>Content modules: validation\<close>

text \<open>
  \<open>ContentModule::validate\<close> of \<open>compatibility_validation.rs\<close>, \<open>ModuleBinding::validate\<close> and
  \<open>ContentModuleRevision::validate\<close> of \<open>orchestration.rs\<close>, and the checks of \<open>modules.rs\<close> that precede a merge:
  contexts, scope targets, revision snapshots and the authority of imported packages.
\<close>

definition MAX_MODULE_BINDINGS_PER_RESOLUTION :: nat where "MAX_MODULE_BINDINGS_PER_RESOLUTION = 4096"
definition MAX_MODULE_REVISIONS_PER_RESOLUTION :: nat where "MAX_MODULE_REVISIONS_PER_RESOLUTION = 4096"
definition MAX_MODULE_ACTIVATION_APPROVAL_ID_BYTES :: nat where "MAX_MODULE_ACTIVATION_APPROVAL_ID_BYTES = 256"

lemmas module_limits = MAX_MODULE_BINDINGS_PER_RESOLUTION_def MAX_MODULE_REVISIONS_PER_RESOLUTION_def
  MAX_MODULE_ACTIVATION_APPROVAL_ID_BYTES_def

subsection \<open>Modules, bindings and revisions\<close>

definition validate_module_fragment ::
  "module_env \<Rightarrow> nat \<times> prompt_block \<Rightarrow> (validation_error, unit) result" where
  "validate_module_fragment env iblock =
     (case iblock of (index, block) \<Rightarrow>
      let here = path_index (lit ''prompt_fragments'') index in
      checks
        [validate_prompt_block (mx_hex_ok env) block here,
         reject_if (pb_kind block = Kind_LatestUserTurn \<or> pb_placement_zone block = Zone_ApplicationPolicy) here
           (lit ''modules cannot replace fixed application or latest-user blocks'')])"

definition module_component_count :: "content_module \<Rightarrow> nat" where
  "module_component_count m =
     length (cm_prompt_fragments m) + length (cm_knowledge_book_ids m) + length (cm_control_specs m) +
     length (cm_transform_set_ids m) + length (cm_interaction_rule_set_ids m) + length (cm_asset_ids m)"

definition content_module_validate :: "module_env \<Rightarrow> content_module \<Rightarrow> (validation_error, unit) result" where
  "content_module_validate env m =
     checks
       [validate_id (lit ''id'') (cm_id m),
        validate_text (lit ''name'') (cm_name m) 1 MAX_NAME_CHARS,
        validate_text (lit ''version'') (cm_version m) 1 MAX_IDENTIFIER_CHARS,
        reject_if (cm_schema_version m = 0) (lit ''schema_version'') (lit ''must be positive''),
        reject_if (module_component_count m > MAX_MODULE_COMPONENTS) (lit ''components'')
          (at_most MAX_MODULE_COMPONENTS ''components''),
        validate_text (lit ''metadata.license'') (pkm_license (cm_metadata m)) 1 MAX_NAME_CHARS,
        validate_text (lit ''metadata.description'') (pkm_description (cm_metadata m)) 0 16384,
        validate_provenance (mx_hex_ok env) (pkm_provenance (cm_metadata m)) (lit ''metadata.provenance''),
        try_for (validate_module_fragment env) (enumerate 0 (cm_prompt_fragments m)),
        reject_if (adjacent_dup (sort_by cmp (map pb_id (cm_prompt_fragments m))) \<noteq> None) (lit ''prompt_fragments'')
          (lit ''block identifiers must be unique''),
        try_for (\<lambda>(index, control). validate_control (mx_json_value env) control (path_index (lit ''control_specs'') index))
          (enumerate 0 (cm_control_specs m)),
        reject_if (adjacent_dup (sort_by cmp (cm_required_capabilities m)) \<noteq> None) (lit ''required_capabilities'')
          (lit ''capabilities must be unique''),
        reject_if ((cm_portable_runtime m \<noteq> None) \<noteq> (CCap_PortableRuntime \<in> set (cm_required_capabilities m)))
          (lit ''portable_runtime'')
          (lit ''portable runtime content requires exactly one matching capability declaration'')]"

definition validate_module_binding_activation ::
  "module_env \<Rightarrow> module_binding \<Rightarrow> (validation_error, unit) result" where
  "validate_module_binding_activation env b =
     (case (mb_approved b, mb_activation_approval_id b, mb_activation_review_sha256 b, mb_activation_plan_sha256 b) of
        (False, None, None, None) \<Rightarrow> Inr ()
      | (True, Some approval_id, Some review_sha256, Some plan_sha256) \<Rightarrow>
          checks
            [validate_id (lit ''activation_approval_id'') approval_id,
             validate_sha256 (mx_hex_ok env) (lit ''activation_review_sha256'') review_sha256,
             validate_sha256 (mx_hex_ok env) (lit ''activation_plan_sha256'') plan_sha256]
      | _ \<Rightarrow> Inl (validation_error_new (lit ''approved'')
               (lit ''approval state requires one complete activation id, review hash, and plan hash tuple'')))"

definition validate_binding_scope :: "module_binding \<Rightarrow> (validation_error, unit) result" where
  "validate_binding_scope b =
     (let inconsistent = Inl (validation_error_new (lit ''target_id'')
            (lit ''module binding scope, target, and owning conversation are inconsistent'')) in
      case (mb_target_id b, mb_conversation_id b) of
        (None, None) \<Rightarrow> if mb_scope b \<in> {MScope_App, MScope_User} then Inr () else inconsistent
      | (Some target, None) \<Rightarrow>
          if mb_scope b \<in> {MScope_Persona, MScope_Character, MScope_Conversation}
          then validate_id (lit ''target_id'') target else inconsistent
      | (Some target, Some conversation_id) \<Rightarrow>
          if mb_scope b = MScope_Branch
          then checks [validate_id (lit ''target_id'') target, validate_id (lit ''conversation_id'') conversation_id]
          else inconsistent
      | (None, Some _) \<Rightarrow> inconsistent)"

definition validate_binding_pin :: "module_binding \<Rightarrow> (validation_error, unit) result" where
  "validate_binding_pin b =
     reject_if
       (\<not> (case (mb_resolution_mode b, mb_pinned_revision_id b) of
             (Mode_Active, None) \<Rightarrow> True
           | (Mode_Pinned, Some pinned) \<Rightarrow> pinned = mb_revision_id b
           | _ \<Rightarrow> False))
       (lit ''pinned_revision_id'')
       (lit ''pinned mode requires the exact resolved revision; active mode forbids a pin'')"

definition module_binding_validate :: "module_env \<Rightarrow> module_binding \<Rightarrow> (validation_error, unit) result" where
  "module_binding_validate env b =
     checks
       [validate_id (lit ''id'') (mb_id b),
        validate_id (lit ''module_id'') (mb_module_id b),
        validate_id (lit ''revision_id'') (mb_revision_id b),
        validate_binding_scope b,
        validate_binding_pin b,
        validate_optional (validate_id (lit ''package_import_approval_id'')) (mb_package_import_approval_id b),
        validate_module_binding_activation env b,
        validate_variable_map (mb_variable_overrides b) (lit ''variable_overrides'')]"

definition content_module_revision_validate :: "content_module_revision \<Rightarrow> (validation_error, unit) result" where
  "content_module_revision_validate r =
     checks
       [validate_id (lit ''id'') (cr_id r),
        validate_id (lit ''module_id'') (cr_module_id r),
        validate_text (lit ''version'') (cr_version r) 1 MAX_IDENTIFIER_CHARS,
        reject_if (cr_previous_revision_id r = Some (cr_id r)) (lit ''previous_revision_id'')
          (lit ''a revision cannot point to itself''),
        reject_if (length (cr_component_hashes r) > MAX_MODULE_COMPONENTS) (lit ''component_hashes'')
          (at_most MAX_MODULE_COMPONENTS ''entries''),
        reject_if (adjacent_dup (sort_by cmp (map ch_component (cr_component_hashes r))) \<noteq> None) (lit ''component_hashes'')
          (lit ''component references must be unique'')]"

subsection \<open>Contexts and targets\<close>

abbreviation blank_or_control :: "str \<Rightarrow> bool" where
  "blank_or_control value \<equiv> trim value = [] \<or> list_ex is_control value"

definition validate_resolution_context :: "module_resolution_context \<Rightarrow> unit merge_result" where
  "validate_resolution_context c =
     result_bind (try_for (\<lambda>(field, value).
         guard_err (is_some_and blank_or_control value)
           (MME_InvalidContext (lit field @ lit '' must be non-empty and free of control characters'')))
       [(''local_user_id'', Some (mrc_local_user_id c)), (''persona_id'', mrc_persona_id c),
        (''character_id'', mrc_character_id c), (''conversation_id'', mrc_conversation_id c),
        (''branch_id'', mrc_branch_id c)]) (\<lambda>_.
     guard_err (mrc_branch_id c \<noteq> None \<and> mrc_conversation_id c = None)
       (MME_InvalidContext (lit ''a branch context requires a conversation'')))"

definition binding_target_valid :: "module_binding \<Rightarrow> bool" where
  "binding_target_valid b =
     (case mb_scope b of
        MScope_App \<Rightarrow> mb_target_id b = None \<and> mb_conversation_id b = None
      | MScope_User \<Rightarrow> mb_target_id b = None \<and> mb_conversation_id b = None
      | MScope_Branch \<Rightarrow> mb_conversation_id b \<noteq> None \<and> is_some_and (\<lambda>t. \<not> blank_or_control t) (mb_target_id b)
      | _ \<Rightarrow> mb_conversation_id b = None \<and> is_some_and (\<lambda>t. \<not> blank_or_control t) (mb_target_id b))"

definition validate_binding_target :: "module_binding \<Rightarrow> unit merge_result" where
  "validate_binding_target b = guard_err (\<not> binding_target_valid b) (MME_InvalidBindingTarget (mb_id b))"

fun binding_applies :: "module_binding \<Rightarrow> module_resolution_context \<Rightarrow> bool" where
  "binding_applies b c =
     (case mb_scope b of
        MScope_App \<Rightarrow> True
      | MScope_User \<Rightarrow> True
      | MScope_Persona \<Rightarrow> mb_target_id b = mrc_persona_id c
      | MScope_Character \<Rightarrow> mb_target_id b = mrc_character_id c
      | MScope_Conversation \<Rightarrow> mb_target_id b = mrc_conversation_id c
      | MScope_Branch \<Rightarrow> mb_target_id b = mrc_branch_id c \<and> mb_conversation_id b = mrc_conversation_id c)"

declare binding_applies.simps [simp del]

definition validate_activation_approval_id :: "str \<Rightarrow> unit merge_result" where
  "validate_activation_approval_id approval_id =
     guard_err (trim approval_id = [] \<or> str_len approval_id > MAX_MODULE_ACTIVATION_APPROVAL_ID_BYTES \<or>
       list_ex is_control approval_id) MME_InvalidActivationApprovalId"

subsection \<open>Revision snapshots\<close>

definition module_component_refs :: "content_module \<Rightarrow> module_component_ref list" where
  "module_component_refs m =
     map (\<lambda>block. Ref_PromptBlock (pb_id block)) (cm_prompt_fragments m) @
     map (\<lambda>control. Ref_Control (cs_id control)) (cm_control_specs m) @
     map Ref_KnowledgeBook (cm_knowledge_book_ids m) @ map Ref_TransformSet (cm_transform_set_ids m) @
     map Ref_InteractionRuleSet (cm_interaction_rule_set_ids m) @ map Ref_Asset (cm_asset_ids m)"

definition module_components :: "content_module \<Rightarrow> module_component_ref list merge_result" where
  "module_components m =
     (let components = module_component_refs m in
      if length (remdups components) \<noteq> length components
      then Inl (MME_InvalidSnapshot (lit ''module component identifiers must be unique within each kind''))
      else Inr components)"

definition module_component_ordinals :: "content_module \<Rightarrow> (module_component_ref, nat) btree_map merge_result" where
  "module_component_ordinals m =
     result_bind (module_components m) (\<lambda>components.
     result_bind (try_map (\<lambda>(ordinal, component).
         if ordinal > u32_max then Inl (MME_LimitExceeded (lit ''module component'')) else Inr (component, ordinal))
       (enumerate 0 components)) (\<lambda>pairs.
     Inr (bt_collect pairs)))"

definition canonical_component_hashes :: "module_revision_snapshot \<Rightarrow> component_hash list merge_result" where
  "canonical_component_hashes snapshot =
     (let hashes = sort_by (cmp_on ch_component) (cr_component_hashes (mrs_revision snapshot)) in
      if adjacent_dup (map ch_component hashes) \<noteq> None
      then Inl (MME_InvalidSnapshot (lit ''revision component hashes contain a duplicate component''))
      else Inr hashes)"

definition validate_revision_snapshot :: "module_env \<Rightarrow> module_revision_snapshot \<Rightarrow> unit merge_result" where
  "validate_revision_snapshot env snapshot =
     (let m = mrs_module snapshot; r = mrs_revision snapshot in
      result_bind (map_err (\<lambda>e. MME_InvalidSnapshot (ve_path e @ lit '': '' @ ve_reason e)) (content_module_validate env m)) (\<lambda>_.
      result_bind (guard_err (cm_id m \<noteq> cr_module_id r \<or> cm_version m \<noteq> cr_version r)
        (MME_InvalidSnapshot (lit ''module identity or version does not match its immutable revision''))) (\<lambda>_.
      result_bind (guard_err (cr_previous_revision_id r = Some (cr_id r))
        (MME_InvalidSnapshot (lit ''revision cannot name itself as its predecessor''))) (\<lambda>_.
      result_bind (module_components m) (\<lambda>declared.
      result_bind (canonical_component_hashes snapshot) (\<lambda>hashed.
      guard_err (sort_by cmp declared \<noteq> map ch_component hashed)
        (MME_InvalidSnapshot (lit ''revision hashes do not exactly cover the module components''))))))))"

definition revision_map_step ::
  "module_env \<Rightarrow> (str, module_revision_snapshot) btree_map \<Rightarrow> module_revision_snapshot \<Rightarrow>
     (str, module_revision_snapshot) btree_map merge_result" where
  "revision_map_step env m snapshot =
     result_bind (validate_revision_snapshot env snapshot) (\<lambda>_.
     if bt_get m (cr_id (mrs_revision snapshot)) \<noteq> None
     then Inl (MME_DuplicateRevision (cr_id (mrs_revision snapshot)))
     else Inr (bt_insert (cr_id (mrs_revision snapshot)) snapshot m))"

definition validated_revision_map ::
  "module_env \<Rightarrow> module_revision_snapshot list \<Rightarrow> (str, module_revision_snapshot) btree_map merge_result" where
  "validated_revision_map env revisions = try_fold (revision_map_step env) [] revisions"

subsection \<open>Authority of imported packages\<close>

fun required_component_capability :: "module_component_ref \<Rightarrow> content_capability option" where
  "required_component_capability (Ref_PromptBlock _) = Some CCap_PromptFragments"
| "required_component_capability (Ref_Control _) = Some CCap_Variables"
| "required_component_capability (Ref_KnowledgeBook _) = Some CCap_Knowledge"
| "required_component_capability (Ref_TransformSet _) = Some CCap_Transforms"
| "required_component_capability (Ref_InteractionRuleSet _) = Some CCap_DeclarativeInteractions"
| "required_component_capability (Ref_Asset _) = None"

text \<open>\<open>Vec::dedup\<close>: runs of equal neighbours become one.\<close>

fun dedup :: "'a list \<Rightarrow> 'a list" where
  "dedup (x # y # xs) = (if x = y then dedup (y # xs) else x # dedup (y # xs))"
| "dedup xs = xs"

definition asset_authority_is_exact ::
  "module_import_approval_evidence \<Rightarrow> component_hash \<Rightarrow> module_import_component_authority \<Rightarrow> bool" where
  "asset_authority_is_exact evidence component authority =
     (case ch_component component of
        Ref_Asset i \<Rightarrow>
          mia_package_component_id authority = mie_module_package_component_id evidence \<and>
          mia_package_component_sha256 authority = mie_module_package_component_sha256 evidence \<and>
          mia_committed_target_object_id authority = i \<and>
          mia_committed_target_revision_id authority = ch_sha256 component \<and>
          mia_committed_result_sha256 authority = ch_sha256 component \<and>
          mia_committed_content_sha256 authority \<noteq> None
      | _ \<Rightarrow> mia_committed_content_sha256 authority = None)"

definition identifies_imported_revision :: "module_import_approval_evidence \<Rightarrow> module_revision_snapshot \<Rightarrow> bool" where
  "identifies_imported_revision evidence snapshot \<longleftrightarrow>
     mie_import_revision evidence \<noteq> 0 \<and>
     mie_module_id evidence = cm_id (mrs_module snapshot) \<and>
     mie_module_id evidence = cr_module_id (mrs_revision snapshot) \<and>
     mie_module_revision_id evidence = cr_id (mrs_revision snapshot) \<and>
     mie_module_revision_source_sha256 evidence = cr_source_hash (mrs_revision snapshot) \<and>
     pv_source_id (pkm_provenance (cm_metadata (mrs_module snapshot))) = Some (mie_package_id evidence) \<and>
     pv_source_hash (pkm_provenance (cm_metadata (mrs_module snapshot))) = Some (mie_package_source_sha256 evidence)"

definition validate_component_authority ::
  "(str \<Rightarrow> module_merge_error) \<Rightarrow> module_import_approval_evidence \<Rightarrow> component_hash \<Rightarrow> unit merge_result" where
  "validate_component_authority invalid evidence component =
     result_bind (ok_or (invalid (lit ''module component has no completed package authority''))
       (find (\<lambda>authority. mia_component authority = ch_component component) (mie_component_authorities evidence)))
       (\<lambda>authority.
     guard_err
       (mia_component_sha256 authority \<noteq> ch_sha256 component \<or>
        mia_package_component_id authority \<notin> set (mie_selected_package_component_ids evidence) \<or>
        trim (mia_package_component_id authority) = [] \<or>
        trim (mia_committed_target_object_id authority) = [] \<or>
        trim (mia_committed_target_revision_id authority) = [] \<or>
        \<not> asset_authority_is_exact evidence component authority)
       (invalid (lit ''module component authority differs from its exact committed revision'')))"

definition validate_import_evidence ::
  "module_binding \<Rightarrow> module_revision_snapshot \<Rightarrow> module_import_approval_evidence \<Rightarrow> unit merge_result" where
  "validate_import_evidence b snapshot evidence =
     (let invalid = MME_InvalidImportApproval (mb_id b);
          selected = mie_selected_package_component_ids evidence;
          authorized = mie_authorized_capabilities evidence;
          authorities = mie_component_authorities evidence;
          hashes = cr_component_hashes (mrs_revision snapshot) in
      checks
        [guard_err (mb_package_import_approval_id b \<noteq> Some (mie_approval_id evidence))
           (invalid (lit ''binding approval id does not match completed package authority'')),
         try_for (\<lambda>value. guard_err (blank_or_control value)
             (invalid (lit ''package authority contains an invalid identifier'')))
           [mie_approval_id evidence, mie_import_id evidence, mie_module_package_component_id evidence],
         guard_err (\<not> identifies_imported_revision evidence snapshot)
           (invalid (lit ''package authority does not identify the exact imported module revision'')),
         guard_err (sort_by cmp selected \<noteq> selected \<or> adjacent_dup selected \<noteq> None \<or>
             mie_module_package_component_id evidence \<notin> set selected)
           (invalid (lit ''selected package component identifiers are not canonical or omit the module'')),
         guard_err (dedup (sort_by cmp authorized) \<noteq> authorized \<or>
             list_ex (\<lambda>capability. capability \<notin> set authorized) (cm_required_capabilities (mrs_module snapshot)))
           (invalid (lit ''completed package authority does not cover required module capabilities'')),
         try_for (\<lambda>component. guard_err
             (is_some_and (\<lambda>capability. capability \<notin> set authorized) (required_component_capability (ch_component component)))
             (invalid (lit ''completed package authority lacks a component capability''))) hashes,
         guard_err (sort_by cmp_component_authority authorities \<noteq> authorities \<or>
             adjacent_dup (map mia_component authorities) \<noteq> None \<or> length authorities \<noteq> length hashes)
           (invalid (lit ''component package authorities are not canonical and exact'')),
         try_for (validate_component_authority invalid evidence) hashes])"

definition validate_module_import_approval ::
  "module_binding \<Rightarrow> module_revision_snapshot \<Rightarrow> module_import_approval_evidence option merge_result" where
  "validate_module_import_approval b snapshot =
     (if pv_source_kind (pkm_provenance (cm_metadata (mrs_module snapshot))) \<noteq> ImportedPackage
      then if mrs_import_approval snapshot \<noteq> None \<or> mb_package_import_approval_id b \<noteq> None
           then Inl (MME_InvalidImportApproval (mb_id b)
             (lit ''non-package modules must not carry package approval authority''))
           else Inr None
      else
      result_bind (ok_or (MME_MissingImportApproval (mb_id b)) (mrs_import_approval snapshot)) (\<lambda>evidence.
      result_bind (validate_import_evidence b snapshot evidence) (\<lambda>_.
      Inr (Some evidence))))"

end
