(* ===== verification/Module_Composition.thy ===== *)
theory Module_Composition
  imports Module_Validation
begin

section \<open>Content modules: composition\<close>

text \<open>
  Merging of module bindings in \<open>crates/orchestration/src/modules.rs\<close>: the review of all bindings that apply to a
  context, the resolution of its conflicts into a plan, the approval of an activation, and the runtime plans derived from
  it.  The \<open>verify\<close> functions are the \<open>verify_uncached\<close> of \<open>modules/verification.rs\<close>; the memo
  in front of them is in \<open>Verification_Cache\<close>.
\<close>

text \<open>\<open>collect::<BTreeSet<_>>()\<close>, as the list its iterator yields.\<close>

definition bt_set :: "'a::linorder list \<Rightarrow> 'a list" where
  "bt_set xs = map fst (bt_collect (map (\<lambda>x. (x, ())) xs))"

subsection \<open>Orders\<close>

fun scope_rank :: "module_scope \<Rightarrow> nat" where
  "scope_rank MScope_App = 0"
| "scope_rank MScope_User = 1"
| "scope_rank MScope_Persona = 2"
| "scope_rank MScope_Character = 3"
| "scope_rank MScope_Conversation = 4"
| "scope_rank MScope_Branch = 5"

definition binding_order :: "module_binding \<Rightarrow> module_binding \<Rightarrow> ordering" where
  "binding_order =
     cmp_then (cmp_on (\<lambda>b. scope_rank (mb_scope b))) (cmp_then (cmp_on mb_target_id)
     (cmp_then (cmp_on mb_conversation_id) (cmp_then (cmp_on mb_priority)
     (cmp_then (cmp_on mb_id) (cmp_then (cmp_on mb_module_id) (cmp_on mb_revision_id))))))"

definition candidate_source_order :: "module_candidate_source \<Rightarrow> module_candidate_source \<Rightarrow> ordering" where
  "candidate_source_order =
     cmp_then (cmp_on (\<lambda>s. scope_rank (mcs_scope s))) (cmp_then (cmp_on mcs_target_id)
     (cmp_then (cmp_on mcs_conversation_id) (cmp_then (cmp_on mcs_priority) (cmp_then (cmp_on mcs_binding_id)
     (cmp_then (cmp_on mcs_module_ordinal) (cmp_then (cmp_on mcs_module_id) (cmp_on mcs_revision_id)))))))"

definition resolved_component_order :: "resolved_module_component \<Rightarrow> resolved_module_component \<Rightarrow> ordering" where
  "resolved_component_order =
     cmp_then (\<lambda>l r. candidate_source_order (rsc_selected_source l) (rsc_selected_source r)) (cmp_on rsc_component)"

definition ignored_binding_order :: "ignored_module_binding \<Rightarrow> ignored_module_binding \<Rightarrow> ordering" where
  "ignored_binding_order = cmp_then (cmp_on imb_binding_id) (cmp_on (\<lambda>b. ignored_reason_index (imb_reason b)))"

definition compose_variable_overrides :: "module_binding list \<Rightarrow> variable_map" where
  "compose_variable_overrides bindings =
     fold (\<lambda>b effective. fold (\<lambda>v. variable_map_insert (vb_variable v) (vb_value v)) (mb_variable_overrides b) effective)
       bindings []"

subsection \<open>Hashes of reviews and plans\<close>

definition module_merge_review_sha256 :: "module_env \<Rightarrow> module_merge_review_digest \<Rightarrow> sha256_digest merge_result" where
  "module_merge_review_sha256 env digest = canonical_sha256 env (Digest_MergeReview digest)"

definition resolved_module_plan_sha256 :: "module_env \<Rightarrow> resolved_module_plan_digest \<Rightarrow> sha256_digest merge_result" where
  "resolved_module_plan_sha256 env digest = canonical_sha256 env (Digest_ResolvedPlan digest)"

definition module_activation_approval_sha256 ::
  "module_env \<Rightarrow> str \<Rightarrow> resolved_module_plan \<Rightarrow> sha256_digest merge_result" where
  "module_activation_approval_sha256 env approval_id plan =
     canonical_sha256 env (Digest_ActivationApproval
       \<lparr>mad_approval_id = approval_id, mad_review_sha256 = rmpl_review_sha256 plan, mad_plan_sha256 = rmpl_plan_sha256 plan,
        mad_expected_state_revision = rmpl_expected_state_revision plan,
        mad_activation_binding_ids = rmpl_activation_binding_ids plan\<rparr>)"

definition applied_module_runtime_plan_sha256 ::
  "module_env \<Rightarrow> approved_module_activation_plan \<Rightarrow> sha256_digest option \<Rightarrow> module_merge_review \<Rightarrow>
     resolved_module_plan \<Rightarrow> sha256_digest merge_result" where
  "applied_module_runtime_plan_sha256 env source_approval derived_from review plan =
     canonical_sha256 env (Digest_AppliedRuntimePlan
       \<lparr>ard_source_approval_id = amp_approval_id source_approval,
        ard_source_approval_sha256 = amp_approval_sha256 source_approval,
        ard_source_activation_plan_sha256 = rmpl_plan_sha256 (amp_plan source_approval),
        ard_derived_from_plan_sha256 = derived_from, ard_runtime_review_sha256 = mrv_review_sha256 review,
        ard_runtime_plan_sha256 = rmpl_plan_sha256 plan\<rparr>)"

definition review_digest :: "module_merge_review \<Rightarrow> module_merge_review_digest" where
  "review_digest r =
     \<lparr>mvd_state_revision = mrv_state_revision r, mvd_context = mrv_context r,
      mvd_activation_binding_ids = mrv_activation_binding_ids r, mvd_ordered_bindings = mrv_ordered_bindings r,
      mvd_ignored_bindings = mrv_ignored_bindings r, mvd_components = mrv_components r, mvd_conflicts = mrv_conflicts r,
      mvd_import_approvals = mrv_import_approvals r,
      mvd_effective_variable_overrides = mrv_effective_variable_overrides r\<rparr>"

definition plan_digest :: "resolved_module_plan \<Rightarrow> resolved_module_plan_digest" where
  "plan_digest p =
     \<lparr>rpd_review_sha256 = rmpl_review_sha256 p, rpd_expected_state_revision = rmpl_expected_state_revision p,
      rpd_activation_binding_ids = rmpl_activation_binding_ids p, rpd_ordered_binding_ids = rmpl_ordered_binding_ids p,
      rpd_components = rmpl_components p, rpd_omitted_components = rmpl_omitted_components p,
      rpd_import_approvals = rmpl_import_approvals p,
      rpd_effective_variable_overrides = rmpl_effective_variable_overrides p\<rparr>"

definition merge_review_verify :: "module_env \<Rightarrow> module_merge_review \<Rightarrow> unit merge_result" where
  "merge_review_verify env r =
     result_bind (module_merge_review_sha256 env (review_digest r)) (\<lambda>expected.
     guard_err (expected \<noteq> mrv_review_sha256 r) MME_ReviewHashMismatch)"

definition resolved_plan_verify :: "module_env \<Rightarrow> resolved_module_plan \<Rightarrow> unit merge_result" where
  "resolved_plan_verify env p =
     result_bind (resolved_module_plan_sha256 env (plan_digest p)) (\<lambda>expected.
     guard_err (expected \<noteq> rmpl_plan_sha256 p) MME_PlanHashMismatch)"

definition activation_plan_verify :: "module_env \<Rightarrow> approved_module_activation_plan \<Rightarrow> unit merge_result" where
  "activation_plan_verify env a =
     result_bind (resolved_plan_verify env (amp_plan a)) (\<lambda>_.
     result_bind (validate_activation_approval_id (amp_approval_id a)) (\<lambda>_.
     result_bind (guard_err (length (rmpl_activation_binding_ids (amp_plan a)) \<noteq> 1) MME_ActivationPlanRequired) (\<lambda>_.
     result_bind (module_activation_approval_sha256 env (amp_approval_id a) (amp_plan a)) (\<lambda>expected.
     guard_err (expected \<noteq> amp_approval_sha256 a) MME_ActivationApprovalHashMismatch))))"

subsection \<open>Review: bindings\<close>

definition check_binding_step :: "module_env \<Rightarrow> str list \<Rightarrow> module_binding \<Rightarrow> str list merge_result" where
  "check_binding_step env seen b =
     result_bind (guard_err (mb_id b \<in> set seen) (MME_DuplicateBinding (mb_id b))) (\<lambda>_.
     result_bind (validate_binding_target b) (\<lambda>_.
     result_bind (map_err (\<lambda>e. MME_InvalidBinding (mb_id b) (validation_error_to_string e)) (module_binding_validate env b)) (\<lambda>_.
     Inr (seen @ [mb_id b]))))"

definition ignored_reason ::
  "str list \<Rightarrow> module_resolution_context \<Rightarrow> module_binding \<Rightarrow> ignored_module_binding_reason option" where
  "ignored_reason activation_ids ctx b =
     (let activation_candidate = mb_id b \<in> set activation_ids in
      if \<not> mb_enabled b \<and> \<not> activation_candidate then Some Ignored_Disabled
      else if \<not> mb_approved b \<and> \<not> activation_candidate then Some Ignored_AwaitingApproval
      else if \<not> binding_applies b ctx then Some Ignored_DifferentTarget
      else None)"

record binding_partition =
  bpt_ordered :: "module_binding list"
  bpt_approvals :: "reviewed_module_import_approval list"
  bpt_ignored :: "ignored_module_binding list"

definition accept_binding ::
  "module_resolution_context \<Rightarrow> (str, module_revision_snapshot) btree_map \<Rightarrow> module_binding \<Rightarrow>
     module_import_approval_evidence option merge_result" where
  "accept_binding ctx revision_map b =
     result_bind (ok_or (MME_MissingRevision (mb_revision_id b)) (bt_get revision_map (mb_revision_id b))) (\<lambda>snapshot.
     result_bind (guard_err (cm_id (mrs_module snapshot) \<noteq> mb_module_id b \<or> cr_module_id (mrs_revision snapshot) \<noteq> mb_module_id b)
       (MME_BindingRevisionMismatch (mb_id b))) (\<lambda>_.
     result_bind (try_for (\<lambda>capability. guard_err (capability \<notin> set (mrc_supported_capabilities ctx))
         (MME_UnsupportedCapability capability)) (cm_required_capabilities (mrs_module snapshot))) (\<lambda>_.
     validate_module_import_approval b snapshot)))"

definition partition_step ::
  "str list \<Rightarrow> module_resolution_context \<Rightarrow> (str, module_revision_snapshot) btree_map \<Rightarrow> binding_partition \<Rightarrow>
     module_binding \<Rightarrow> binding_partition merge_result" where
  "partition_step activation_ids ctx revision_map st b =
     (case ignored_reason activation_ids ctx b of
        Some reason \<Rightarrow> Inr (st\<lparr>bpt_ignored := bpt_ignored st @ [\<lparr>imb_binding_id = mb_id b, imb_reason = reason\<rparr>]\<rparr>)
      | None \<Rightarrow>
          result_bind (accept_binding ctx revision_map b) (\<lambda>evidence.
          Inr (st\<lparr>bpt_ordered := bpt_ordered st @ [b],
            bpt_approvals := bpt_approvals st @
              (case evidence of None \<Rightarrow> [] | Some e \<Rightarrow> [\<lparr>ria_binding_id = mb_id b, ria_evidence = e\<rparr>])\<rparr>)))"

definition sorted_partition :: "binding_partition \<Rightarrow> binding_partition" where
  "sorted_partition st =
     \<lparr>bpt_ordered = sort_by binding_order (bpt_ordered st),
      bpt_approvals = sort_by (cmp_on ria_binding_id) (bpt_approvals st),
      bpt_ignored = sort_by ignored_binding_order (bpt_ignored st)\<rparr>"

subsection \<open>Review: components\<close>

type_synonym component_groups =
  "(module_component_ref, (sha256_digest, module_candidate_source list) btree_map) btree_map"

abbreviation or_default :: "'a list option \<Rightarrow> 'a list" where
  "or_default v \<equiv> (case v of None \<Rightarrow> [] | Some xs \<Rightarrow> xs)"

definition push_source ::
  "module_component_ref \<Rightarrow> sha256_digest \<Rightarrow> module_candidate_source \<Rightarrow> component_groups \<Rightarrow> component_groups" where
  "push_source component sha source grouped =
     (let hashes = or_default (bt_get grouped component) in
      bt_insert component (bt_insert sha (or_default (bt_get hashes sha) @ [source]) hashes) grouped)"

fun is_declarative_runtime :: "module_component_ref \<Rightarrow> bool" where
  "is_declarative_runtime (Ref_TransformSet _) = True"
| "is_declarative_runtime (Ref_InteractionRuleSet _) = True"
| "is_declarative_runtime _ = False"

definition candidate_source ::
  "module_binding \<Rightarrow> module_revision_snapshot \<Rightarrow> module_component_ref \<Rightarrow> nat \<Rightarrow> module_candidate_source" where
  "candidate_source b snapshot component ordinal =
     \<lparr>mcs_binding_id = mb_id b, mcs_module_id = mb_module_id b, mcs_revision_id = mb_revision_id b,
      mcs_revision_source_sha256 = cr_source_hash (mrs_revision snapshot), mcs_scope = mb_scope b,
      mcs_target_id = mb_target_id b, mcs_conversation_id = mb_conversation_id b, mcs_priority = mb_priority b,
      mcs_module_ordinal = ordinal,
      mcs_runtime_enabled_intent =
        cm_imported_components_enabled (mrs_module snapshot) \<and> is_declarative_runtime component\<rparr>"

definition group_component_step ::
  "module_binding \<Rightarrow> module_revision_snapshot \<Rightarrow> (module_component_ref, nat) btree_map \<Rightarrow> component_groups \<Rightarrow>
     component_hash \<Rightarrow> component_groups merge_result" where
  "group_component_step b snapshot ordinals grouped component =
     result_bind (ok_or (MME_InvalidSnapshot (lit ''revision hash has no declared module component''))
       (bt_get ordinals (ch_component component))) (\<lambda>ordinal.
     Inr (push_source (ch_component component) (ch_sha256 component)
       (candidate_source b snapshot (ch_component component) ordinal) grouped))"

definition group_binding_step ::
  "(str, module_revision_snapshot) btree_map \<Rightarrow> component_groups \<Rightarrow> module_binding \<Rightarrow> component_groups merge_result" where
  "group_binding_step revision_map grouped b =
     result_bind (ok_or (MME_MissingRevision (mb_revision_id b)) (bt_get revision_map (mb_revision_id b))) (\<lambda>snapshot.
     result_bind (module_component_ordinals (mrs_module snapshot)) (\<lambda>ordinals.
     result_bind (canonical_component_hashes snapshot) (\<lambda>hashes.
     try_fold (group_component_step b snapshot ordinals) grouped hashes)))"

definition reviewed_candidate ::
  "sha256_digest \<times> module_candidate_source list \<Rightarrow> reviewed_module_candidate merge_result" where
  "reviewed_candidate hash_group =
     (case hash_group of (component_hash, unsorted) \<Rightarrow>
      let sources = sort_by candidate_source_order unsorted in
      if sources = [] then Inl (MME_InvalidSnapshot (lit ''component candidate has no binding source''))
      else let representative = last sources in
        Inr \<lparr>rmc_candidate = \<lparr>mcc_module_id = mcs_module_id representative,
               mcc_revision_id = mcs_revision_id representative, mcc_component_hash = component_hash\<rparr>,
             rmc_sources = sources\<rparr>)"

definition review_component_step ::
  "reviewed_module_component list \<times> module_conflict list \<Rightarrow>
     module_component_ref \<times> (sha256_digest, module_candidate_source list) btree_map \<Rightarrow>
     (reviewed_module_component list \<times> module_conflict list) merge_result" where
  "review_component_step st component_group =
     (case (st, component_group) of ((components, conflicts), (component, hashes)) \<Rightarrow>
      result_bind (try_map reviewed_candidate hashes) (\<lambda>unsorted.
      let candidates = sort_by (\<lambda>l r. cmp_conflict_candidate (rmc_candidate l) (rmc_candidate r)) unsorted in
      Inr (components @ [\<lparr>rmp_component = component, rmp_candidates = candidates\<rparr>],
        if length candidates > 1
        then conflicts @ [\<lparr>mcf_component = component, mcf_candidates = map rmc_candidate candidates,
               mcf_reason = lit ''same component identifier has distinct immutable hashes''\<rparr>]
        else conflicts)))"

subsection \<open>Review\<close>

definition canonical_context :: "module_resolution_context \<Rightarrow> module_resolution_context" where
  "canonical_context ctx =
     ctx\<lparr>mrc_supported_capabilities := dedup (sort_by cmp (mrc_supported_capabilities ctx))\<rparr>"

definition seal_review :: "module_env \<Rightarrow> module_merge_review \<Rightarrow> module_merge_review merge_result" where
  "seal_review env r =
     result_bind (module_merge_review_sha256 env (review_digest r)) (\<lambda>sha. Inr (r\<lparr>mrv_review_sha256 := sha\<rparr>))"

definition check_review_limits ::
  "module_resolution_context \<Rightarrow> module_binding list \<Rightarrow> module_revision_snapshot list \<Rightarrow> str list \<Rightarrow> unit merge_result" where
  "check_review_limits ctx bindings revisions activation_ids =
     checks
       [validate_resolution_context ctx,
        guard_err (length bindings > MAX_MODULE_BINDINGS_PER_RESOLUTION) (MME_LimitExceeded (lit ''binding'')),
        guard_err (length revisions > MAX_MODULE_REVISIONS_PER_RESOLUTION) (MME_LimitExceeded (lit ''revision'')),
        guard_err (length (bt_set activation_ids) \<noteq> length activation_ids)
          (MME_InvalidActivationDraft (lit ''activation binding identifiers must be unique''))]"

definition review_module_merge_internal ::
  "module_env \<Rightarrow> nat \<Rightarrow> module_resolution_context \<Rightarrow> module_binding list \<Rightarrow> module_revision_snapshot list \<Rightarrow> str list \<Rightarrow>
     module_merge_review merge_result" where
  "review_module_merge_internal env state_revision ctx bindings revisions activation_ids =
     result_bind (check_review_limits ctx bindings revisions activation_ids) (\<lambda>_.
     result_bind (try_fold (check_binding_step env) [] bindings) (\<lambda>binding_ids.
     result_bind (guard_err (\<not> set activation_ids \<subseteq> set binding_ids)
       (MME_InvalidActivationDraft (lit ''activation review references an unknown binding''))) (\<lambda>_.
     result_bind (validated_revision_map env revisions) (\<lambda>revision_map.
     result_bind (try_fold (partition_step (bt_set activation_ids) ctx revision_map)
       \<lparr>bpt_ordered = [], bpt_approvals = [], bpt_ignored = []\<rparr> bindings) (\<lambda>unsorted.
     let partition = sorted_partition unsorted in
     result_bind (try_fold (group_binding_step revision_map) [] (bpt_ordered partition)) (\<lambda>grouped.
     result_bind (try_fold review_component_step ([], []) grouped) (\<lambda>(components, conflicts).
     seal_review env
       \<lparr>mrv_review_sha256 = [], mrv_state_revision = state_revision, mrv_context = canonical_context ctx,
        mrv_activation_binding_ids = bt_set activation_ids, mrv_ordered_bindings = bpt_ordered partition,
        mrv_ignored_bindings = bpt_ignored partition,
        mrv_components = sort_by (cmp_on rmp_component) components,
        mrv_conflicts = sort_by (cmp_on mcf_component) conflicts, mrv_import_approvals = bpt_approvals partition,
        mrv_effective_variable_overrides = compose_variable_overrides (bpt_ordered partition)\<rparr>)))))))"

definition review_module_merge ::
  "module_env \<Rightarrow> nat \<Rightarrow> module_resolution_context \<Rightarrow> module_binding list \<Rightarrow> module_revision_snapshot list \<Rightarrow>
     module_merge_review merge_result" where
  "review_module_merge env state_revision ctx bindings revisions =
     review_module_merge_internal env state_revision ctx bindings revisions []"

definition invalid_draft :: "string \<Rightarrow> module_merge_error" where
  "invalid_draft message = MME_InvalidActivationDraft (lit message)"

definition review_module_activation ::
  "module_env \<Rightarrow> nat option \<Rightarrow> module_resolution_context \<Rightarrow> module_binding list \<Rightarrow> module_binding \<Rightarrow>
     module_revision_snapshot list \<Rightarrow> module_merge_review merge_result" where
  "review_module_activation env expected_binding_revision ctx current_bindings proposed revisions =
     (let current_position = position (\<lambda>b. mb_id b = mb_id proposed) current_bindings in
      result_bind (checks
        [guard_err (expected_binding_revision = Some 0) (invalid_draft ''an existing binding revision must be positive''),
         map_err (\<lambda>e. MME_InvalidActivationDraft (validation_error_to_string e)) (module_binding_validate env proposed),
         guard_err (mb_enabled proposed \<or> mb_approved proposed)
           (invalid_draft ''a proposed activation must remain disabled and unapproved until commit''),
         guard_err ((expected_binding_revision \<noteq> None) \<noteq> (current_position \<noteq> None))
           (invalid_draft ''expected binding revision does not match current binding existence'')]) (\<lambda>_.
      review_module_merge_internal env (case expected_binding_revision of None \<Rightarrow> 0 | Some revision \<Rightarrow> revision) ctx
        (case current_position of Some i \<Rightarrow> current_bindings[i := proposed] | None \<Rightarrow> current_bindings @ [proposed])
        revisions [mb_id proposed]))"

subsection \<open>Resolution\<close>

definition resolution_step ::
  "(module_component_ref, module_conflict) btree_map \<Rightarrow> (module_component_ref, module_conflict_resolution) btree_map \<Rightarrow>
     module_conflict_resolution \<Rightarrow> (module_component_ref, module_conflict_resolution) btree_map merge_result" where
  "resolution_step conflict_map resolutions resolution =
     (if bt_get resolutions (mcr_component resolution) \<noteq> None then Inl (MME_DuplicateResolution (mcr_component resolution))
      else if bt_get conflict_map (mcr_component resolution) = None then Inl (MME_UnknownResolution (mcr_component resolution))
      else Inr (bt_insert (mcr_component resolution) resolution resolutions))"

definition select_candidate ::
  "(module_component_ref, module_conflict) btree_map \<Rightarrow> (module_component_ref, module_conflict_resolution) btree_map \<Rightarrow>
     reviewed_module_component \<Rightarrow> reviewed_module_candidate option merge_result" where
  "select_candidate conflict_map resolutions reviewed =
     (case rmp_candidates reviewed of
        [candidate] \<Rightarrow> Inr (Some candidate)
      | _ \<Rightarrow>
        result_bind (ok_or (MME_InvalidReview (lit ''multi-candidate component has no conflict review''))
          (bt_get conflict_map (rmp_component reviewed))) (\<lambda>conflict.
        result_bind (ok_or (MME_UnresolvedConflict (rmp_component reviewed))
          (bt_get resolutions (rmp_component reviewed))) (\<lambda>resolution.
        result_bind (guard_err (sort_by cmp_conflict_candidate (mcr_expected_candidates resolution) \<noteq>
            sort_by cmp_conflict_candidate (mcf_candidates conflict))
          (MME_StaleConflictCandidates (rmp_component reviewed))) (\<lambda>_.
        case mcr_selected resolution of
          None \<Rightarrow> Inr None
        | Some selected \<Rightarrow>
            result_bind (ok_or (MME_UnknownConflictCandidate (rmp_component reviewed))
              (find (\<lambda>candidate. rmc_candidate candidate = selected) (rmp_candidates reviewed))) (\<lambda>candidate.
            Inr (Some candidate))))))"

definition resolve_component_step ::
  "(module_component_ref, module_conflict) btree_map \<Rightarrow> (module_component_ref, module_conflict_resolution) btree_map \<Rightarrow>
     resolved_module_component list \<times> module_component_ref list \<Rightarrow> reviewed_module_component \<Rightarrow>
     (resolved_module_component list \<times> module_component_ref list) merge_result" where
  "resolve_component_step conflict_map resolutions st reviewed =
     (case st of (components, omitted) \<Rightarrow>
      result_bind (select_candidate conflict_map resolutions reviewed) (\<lambda>selected.
      case selected of
        None \<Rightarrow> Inr (components, omitted @ [rmp_component reviewed])
      | Some candidate \<Rightarrow>
          if rmc_sources candidate = []
          then Inl (MME_InvalidReview (lit ''reviewed candidate has no binding source''))
          else let source = last (rmc_sources candidate) in
            Inr (components @ [\<lparr>rsc_component = rmp_component reviewed,
                rsc_sha256 = mcc_component_hash (rmc_candidate candidate), rsc_selected_source = source,
                rsc_coalesced_sources = rmc_sources candidate,
                rsc_runtime_enabled = mcs_runtime_enabled_intent source\<rparr>], omitted)))"

definition check_all_resolved ::
  "module_conflict list \<Rightarrow> (module_component_ref, module_conflict_resolution) btree_map \<Rightarrow> unit merge_result" where
  "check_all_resolved conflicts resolutions =
     (if length resolutions \<noteq> length conflicts
      then result_bind (ok_or (MME_InvalidReview (lit ''conflict and resolution counts disagree''))
             (find (\<lambda>conflict. bt_get resolutions (mcf_component conflict) = None) conflicts)) (\<lambda>unresolved.
           Inl (MME_UnresolvedConflict (mcf_component unresolved)))
      else Inr ())"

definition seal_plan :: "module_env \<Rightarrow> resolved_module_plan \<Rightarrow> resolved_module_plan merge_result" where
  "seal_plan env p =
     result_bind (resolved_module_plan_sha256 env (plan_digest p)) (\<lambda>sha. Inr (p\<lparr>rmpl_plan_sha256 := sha\<rparr>))"

definition resolve_module_merge ::
  "module_env \<Rightarrow> module_merge_review \<Rightarrow> module_merge_resolution_set \<Rightarrow> resolved_module_plan merge_result" where
  "resolve_module_merge env review resolution_set =
     result_bind (merge_review_verify env review) (\<lambda>_.
     result_bind (guard_err (mms_expected_review_sha256 resolution_set \<noteq> mrv_review_sha256 review) MME_StaleReview) (\<lambda>_.
     let conflict_map = bt_collect (map (\<lambda>c. (mcf_component c, c)) (mrv_conflicts review)) in
     result_bind (try_fold (resolution_step conflict_map) [] (mms_resolutions resolution_set)) (\<lambda>resolutions.
     result_bind (try_fold (resolve_component_step conflict_map resolutions) ([], []) (mrv_components review)) (\<lambda>(components, omitted).
     result_bind (check_all_resolved (mrv_conflicts review) resolutions) (\<lambda>_.
     seal_plan env
       \<lparr>rmpl_plan_sha256 = [], rmpl_review_sha256 = mrv_review_sha256 review,
        rmpl_expected_state_revision = mrv_state_revision review,
        rmpl_activation_binding_ids = mrv_activation_binding_ids review,
        rmpl_ordered_binding_ids = map mb_id (mrv_ordered_bindings review),
        rmpl_components = sort_by resolved_component_order components,
        rmpl_omitted_components = sort_by cmp omitted, rmpl_import_approvals = mrv_import_approvals review,
        rmpl_effective_variable_overrides = mrv_effective_variable_overrides review\<rparr>)))))"

subsection \<open>Approval of an activation\<close>

definition approve_module_activation_plan ::
  "module_env \<Rightarrow> resolved_module_plan \<Rightarrow> module_activation_approval \<Rightarrow> approved_module_activation_plan merge_result" where
  "approve_module_activation_plan env plan approval =
     result_bind (resolved_plan_verify env plan) (\<lambda>_.
     result_bind (validate_activation_approval_id (maa_approval_id approval)) (\<lambda>_.
     result_bind (guard_err (length (rmpl_activation_binding_ids plan) \<noteq> 1) MME_ActivationPlanRequired) (\<lambda>_.
     result_bind (guard_err (maa_expected_review_sha256 approval \<noteq> rmpl_review_sha256 plan \<or>
         maa_expected_plan_sha256 approval \<noteq> rmpl_plan_sha256 plan) MME_StaleActivationApproval) (\<lambda>_.
     result_bind (module_activation_approval_sha256 env (maa_approval_id approval) plan) (\<lambda>sha.
     Inr \<lparr>amp_approval_sha256 = sha, amp_approval_id = maa_approval_id approval, amp_plan = plan\<rparr>)))))"

subsection \<open>Comparison of plans\<close>

text \<open>
  \<open>PartialEq\<close> of the values that contain variable maps: decimals are compared as floats, everything else is compared
  for identity.
\<close>

definition variable_map_eq :: "variable_map \<Rightarrow> variable_map \<Rightarrow> bool" where
  "variable_map_eq = list_all2 (\<lambda>l r. vb_variable l = vb_variable r \<and> variable_value_eq (vb_value l) (vb_value r))"

definition module_binding_eq :: "module_binding \<Rightarrow> module_binding \<Rightarrow> bool" where
  "module_binding_eq l r \<longleftrightarrow>
     variable_map_eq (mb_variable_overrides l) (mb_variable_overrides r) \<and>
     l\<lparr>mb_variable_overrides := []\<rparr> = r\<lparr>mb_variable_overrides := []\<rparr>"

definition resolved_module_plan_eq :: "resolved_module_plan \<Rightarrow> resolved_module_plan \<Rightarrow> bool" where
  "resolved_module_plan_eq l r \<longleftrightarrow>
     variable_map_eq (rmpl_effective_variable_overrides l) (rmpl_effective_variable_overrides r) \<and>
     l\<lparr>rmpl_effective_variable_overrides := []\<rparr> = r\<lparr>rmpl_effective_variable_overrides := []\<rparr>"

definition same_runtime_plan_selection :: "resolved_module_plan \<Rightarrow> resolved_module_plan \<Rightarrow> bool" where
  "same_runtime_plan_selection l r \<longleftrightarrow>
     rmpl_ordered_binding_ids l = rmpl_ordered_binding_ids r \<and>
     rmpl_components l = rmpl_components r \<and>
     rmpl_omitted_components l = rmpl_omitted_components r \<and>
     rmpl_import_approvals l = rmpl_import_approvals r \<and>
     variable_map_eq (rmpl_effective_variable_overrides l) (rmpl_effective_variable_overrides r)"

definition same_reviewed_inputs :: "module_merge_review \<Rightarrow> module_merge_review \<Rightarrow> bool" where
  "same_reviewed_inputs l r \<longleftrightarrow>
     mrv_state_revision l = mrv_state_revision r \<and>
     list_all2 module_binding_eq (mrv_ordered_bindings l) (mrv_ordered_bindings r) \<and>
     mrv_ignored_bindings l = mrv_ignored_bindings r \<and>
     mrv_components l = mrv_components r \<and>
     mrv_conflicts l = mrv_conflicts r \<and>
     mrv_import_approvals l = mrv_import_approvals r \<and>
     variable_map_eq (mrv_effective_variable_overrides l) (mrv_effective_variable_overrides r)"

lemma float_eqD: "float_eq a b \<Longrightarrow> a = b"
  by (cases a; cases b) auto

lemma variable_value_eqD: "variable_value_eq a b \<Longrightarrow> a = b"
  by (cases a; cases b) (auto dest: float_eqD)

lemma variable_map_eqD: "variable_map_eq a b \<Longrightarrow> a = b"
proof -
  have "l = r" if "vb_variable l = vb_variable r" "variable_value_eq (vb_value l) (vb_value r)" for l r :: variable_binding
    using that variable_value_eqD by (cases l; cases r) auto
  then show "variable_map_eq a b \<Longrightarrow> a = b"
    unfolding variable_map_eq_def by (auto simp: list_all2_conv_all_nth intro!: nth_equalityI)
qed

subsection \<open>Runtime plans\<close>

definition invalid_materialization :: "string \<Rightarrow> module_merge_error" where
  "invalid_materialization message = MME_InvalidRuntimeMaterialization (lit message)"

definition selection_resolution ::
  "resolved_module_plan \<Rightarrow> module_conflict \<Rightarrow> module_conflict_resolution merge_result" where
  "selection_resolution selection conflict =
     (let chosen = bt_get (bt_collect (map (\<lambda>c. (rsc_component c, c)) (rmpl_components selection))) (mcf_component conflict);
          is_omitted = mcf_component conflict \<in> set (rmpl_omitted_components selection);
          selected = map_option (\<lambda>c. \<lparr>mcc_module_id = mcs_module_id (rsc_selected_source c),
              mcc_revision_id = mcs_revision_id (rsc_selected_source c), mcc_component_hash = rsc_sha256 c\<rparr>) chosen in
      result_bind (guard_err ((chosen \<noteq> None) = is_omitted)
        (invalid_materialization ''plan does not select or omit each reviewed conflict exactly once'')) (\<lambda>_.
      result_bind (guard_err (is_some_and (\<lambda>candidate. candidate \<notin> set (mcf_candidates conflict)) selected)
        MME_RuntimeDerivationChanged) (\<lambda>_.
      Inr \<lparr>mcr_component = mcf_component conflict, mcr_expected_candidates = mcf_candidates conflict,
        mcr_selected = selected\<rparr>)))"

definition module_merge_resolution_set_for_selection ::
  "module_merge_review \<Rightarrow> resolved_module_plan \<Rightarrow> module_merge_resolution_set merge_result" where
  "module_merge_resolution_set_for_selection review selection =
     result_bind (try_map (selection_resolution selection) (mrv_conflicts review)) (\<lambda>resolutions.
     Inr \<lparr>mms_expected_review_sha256 = mrv_review_sha256 review, mms_resolutions = resolutions\<rparr>)"

definition module_merge_resolution_set_from_plan ::
  "module_env \<Rightarrow> module_merge_review \<Rightarrow> resolved_module_plan \<Rightarrow> module_merge_resolution_set merge_result" where
  "module_merge_resolution_set_from_plan env review plan =
     result_bind (merge_review_verify env review) (\<lambda>_.
     result_bind (resolved_plan_verify env plan) (\<lambda>_.
     result_bind (guard_err (rmpl_review_sha256 plan \<noteq> mrv_review_sha256 review \<or>
         rmpl_expected_state_revision plan \<noteq> mrv_state_revision review)
       (invalid_materialization ''resolved plan does not belong to its review'')) (\<lambda>_.
     module_merge_resolution_set_for_selection review plan)))"

definition validate_runtime_derivation_context ::
  "module_resolution_context \<Rightarrow> module_resolution_context \<Rightarrow> unit merge_result" where
  "validate_runtime_derivation_context source target =
     (if source = target then Inl (invalid_materialization ''runtime derivation requires a distinct target context'')
      else guard_err (mrc_local_user_id source \<noteq> mrc_local_user_id target \<or>
        dedup (sort_by cmp (mrc_supported_capabilities source)) \<noteq> dedup (sort_by cmp (mrc_supported_capabilities target)))
        MME_RuntimeDerivationChanged)"

definition runtime_plan_verify :: "module_env \<Rightarrow> applied_module_runtime_plan \<Rightarrow> unit merge_result" where
  "runtime_plan_verify env applied =
     (let review = arp_review applied; plan = arp_plan applied in
      result_bind (activation_plan_verify env (arp_source_approval applied)) (\<lambda>_.
      result_bind (merge_review_verify env review) (\<lambda>_.
      result_bind (resolved_plan_verify env plan) (\<lambda>_.
      result_bind (guard_err (mrv_activation_binding_ids review \<noteq> [] \<or> rmpl_activation_binding_ids plan \<noteq> [] \<or>
          rmpl_review_sha256 plan \<noteq> mrv_review_sha256 review \<or>
          rmpl_expected_state_revision plan \<noteq> mrv_state_revision review)
        (invalid_materialization ''runtime plans must resolve one no-pending-binding review'')) (\<lambda>_.
      result_bind (module_merge_resolution_set_from_plan env review plan) (\<lambda>resolutions.
      result_bind (resolve_module_merge env review resolutions) (\<lambda>reconstructed.
      result_bind (guard_err (\<not> resolved_module_plan_eq reconstructed plan)
        (invalid_materialization ''runtime plan differs from its reviewed resolution'')) (\<lambda>_.
      result_bind (applied_module_runtime_plan_sha256 env (arp_source_approval applied)
        (arp_derived_from_plan_sha256 applied) review plan) (\<lambda>expected.
      guard_err (expected \<noteq> arp_applied_plan_sha256 applied) MME_RuntimePlanHashMismatch)))))))))"

definition build_applied_module_runtime_plan ::
  "module_env \<Rightarrow> approved_module_activation_plan \<Rightarrow> sha256_digest option \<Rightarrow> module_merge_review \<Rightarrow>
     resolved_module_plan \<Rightarrow> applied_module_runtime_plan merge_result" where
  "build_applied_module_runtime_plan env source_approval derived_from review plan =
     result_bind (applied_module_runtime_plan_sha256 env source_approval derived_from review plan) (\<lambda>sha.
     let applied = \<lparr>arp_applied_plan_sha256 = sha, arp_source_approval = source_approval,
       arp_derived_from_plan_sha256 = derived_from, arp_review = review, arp_plan = plan\<rparr> in
     result_bind (runtime_plan_verify env applied) (\<lambda>_. Inr applied))"

definition materialize_approved_module_runtime_plan ::
  "module_env \<Rightarrow> approved_module_activation_plan \<Rightarrow> module_merge_review \<Rightarrow> applied_module_runtime_plan merge_result" where
  "materialize_approved_module_runtime_plan env source_approval runtime_review =
     result_bind (activation_plan_verify env source_approval) (\<lambda>_.
     result_bind (merge_review_verify env runtime_review) (\<lambda>_.
     result_bind (guard_err (mrv_activation_binding_ids runtime_review \<noteq> [])
       (invalid_materialization ''runtime review contains a pending activation'')) (\<lambda>_.
     result_bind (module_merge_resolution_set_for_selection runtime_review (amp_plan source_approval)) (\<lambda>resolutions.
     result_bind (resolve_module_merge env runtime_review resolutions) (\<lambda>plan.
     result_bind (guard_err (\<not> same_runtime_plan_selection plan (amp_plan source_approval)) MME_RuntimeDerivationChanged) (\<lambda>_.
     build_applied_module_runtime_plan env source_approval None runtime_review plan))))))"

definition overrides_target_branch :: "module_merge_review \<Rightarrow> bool" where
  "overrides_target_branch review =
     list_ex (\<lambda>b. mb_scope b = MScope_Branch \<and> mb_target_id b = mrc_branch_id (mrv_context review))
       (mrv_ordered_bindings review)"

definition derive_applied_module_runtime_plan ::
  "module_env \<Rightarrow> applied_module_runtime_plan \<Rightarrow> module_merge_review \<Rightarrow> applied_module_runtime_plan merge_result" where
  "derive_applied_module_runtime_plan env source target_review =
     result_bind (runtime_plan_verify env source) (\<lambda>_.
     result_bind (merge_review_verify env target_review) (\<lambda>_.
     result_bind (guard_err (mrv_activation_binding_ids target_review \<noteq> [])
       (invalid_materialization ''derived runtime review contains a pending activation'')) (\<lambda>_.
     result_bind (validate_runtime_derivation_context (mrv_context (arp_review source)) (mrv_context target_review)) (\<lambda>_.
     result_bind (guard_err (overrides_target_branch target_review) MME_RuntimeTargetBranchOverride) (\<lambda>_.
     result_bind (guard_err (\<not> same_reviewed_inputs (arp_review source) target_review) MME_RuntimeDerivationChanged) (\<lambda>_.
     result_bind (module_merge_resolution_set_for_selection target_review (arp_plan source)) (\<lambda>resolutions.
     result_bind (resolve_module_merge env target_review resolutions) (\<lambda>plan.
     result_bind (guard_err (\<not> same_runtime_plan_selection plan (arp_plan source)) MME_RuntimeDerivationChanged) (\<lambda>_.
     build_applied_module_runtime_plan env (arp_source_approval source) (Some (arp_applied_plan_sha256 source))
       target_review plan)))))))))"

end
