(* ===== verification/Module_Rollback.thy ===== *)
theory Module_Rollback
  imports Module_Composition
begin

section \<open>Content modules: differences and rollback\<close>

text \<open>
  The difference of two revisions and the rollback of a binding to an earlier revision, from
  \<open>crates/orchestration/src/modules.rs\<close>: the review with its blockers, the walk along the chain of predecessors, the
  plan, and its approval together with the activation of the target revision.
\<close>

subsection \<open>Differences of revisions\<close>

definition module_revision_diff_sha256 :: "module_env \<Rightarrow> module_revision_diff_digest \<Rightarrow> sha256_digest merge_result" where
  "module_revision_diff_sha256 env digest = canonical_sha256 env (Digest_RevisionDiff digest)"

definition diff_digest :: "module_revision_diff \<Rightarrow> module_revision_diff_digest" where
  "diff_digest d =
     \<lparr>mdd_module_id = mrd_module_id d, mdd_from_revision_id = mrd_from_revision_id d,
      mdd_to_revision_id = mrd_to_revision_id d, mdd_from_source_sha256 = mrd_from_source_sha256 d,
      mdd_to_source_sha256 = mrd_to_source_sha256 d, mdd_component_changes = mrd_component_changes d,
      mdd_capability_changes = mrd_capability_changes d, mdd_metadata_changed_fields = mrd_metadata_changed_fields d\<rparr>"

definition revision_diff_verify :: "module_env \<Rightarrow> module_revision_diff \<Rightarrow> unit merge_result" where
  "revision_diff_verify env d =
     result_bind (module_revision_diff_sha256 env (diff_digest d)) (\<lambda>expected.
     guard_err (expected \<noteq> mrd_diff_sha256 d) MME_DiffHashMismatch)"

type_synonym component_hashes = "(module_component_ref, sha256_digest) btree_map"

definition component_hash_map :: "component_hash list \<Rightarrow> component_hashes" where
  "component_hash_map hashes = bt_collect (map (\<lambda>h. (ch_component h, ch_sha256 h)) hashes)"

definition component_change ::
  "component_hashes \<Rightarrow> component_hashes \<Rightarrow> module_component_ref \<Rightarrow> module_component_change list" where
  "component_change from_hashes to_hashes component =
     (case (bt_get from_hashes component, bt_get to_hashes component) of
        (None, Some next_sha) \<Rightarrow> [\<lparr>mch_component = component, mch_kind = Change_Added,
            mch_previous_sha256 = None, mch_next_sha256 = Some next_sha\<rparr>]
      | (Some previous, None) \<Rightarrow> [\<lparr>mch_component = component, mch_kind = Change_Removed,
            mch_previous_sha256 = Some previous, mch_next_sha256 = None\<rparr>]
      | (Some previous, Some next_sha) \<Rightarrow>
          if previous \<noteq> next_sha
          then [\<lparr>mch_component = component, mch_kind = Change_Modified,
            mch_previous_sha256 = Some previous, mch_next_sha256 = Some next_sha\<rparr>]
          else []
      | (None, None) \<Rightarrow> [])"

definition component_changes :: "component_hashes \<Rightarrow> component_hashes \<Rightarrow> module_component_change list" where
  "component_changes from_hashes to_hashes =
     concat (map (component_change from_hashes to_hashes) (bt_set (map fst from_hashes @ map fst to_hashes)))"

definition capability_changes :: "content_capability list \<Rightarrow> content_capability list \<Rightarrow> module_capability_diff" where
  "capability_changes from_capabilities to_capabilities =
     \<lparr>mcd_added = filter (\<lambda>c. c \<notin> set from_capabilities) (bt_set to_capabilities),
      mcd_removed = filter (\<lambda>c. c \<notin> set to_capabilities) (bt_set from_capabilities)\<rparr>"

definition metadata_changed_fields :: "content_module \<Rightarrow> content_module \<Rightarrow> str list" where
  "metadata_changed_fields source target =
     (if cm_name source \<noteq> cm_name target then [lit ''name''] else []) @
     (if cm_version source \<noteq> cm_version target then [lit ''version''] else []) @
     (if cm_schema_version source \<noteq> cm_schema_version target then [lit ''schema_version''] else []) @
     (if cm_metadata source \<noteq> cm_metadata target then [lit ''metadata''] else [])"

definition seal_diff :: "module_env \<Rightarrow> module_revision_diff \<Rightarrow> module_revision_diff merge_result" where
  "seal_diff env d =
     result_bind (module_revision_diff_sha256 env (diff_digest d)) (\<lambda>sha. Inr (d\<lparr>mrd_diff_sha256 := sha\<rparr>))"

text \<open>Both snapshots are valid when they are compared, so that neither contains a float that differs from itself.\<close>

definition diff_module_revisions ::
  "module_env \<Rightarrow> module_revision_snapshot \<Rightarrow> module_revision_snapshot \<Rightarrow> module_revision_diff merge_result" where
  "diff_module_revisions env source target =
     result_bind (validate_revision_snapshot env source) (\<lambda>_.
     result_bind (validate_revision_snapshot env target) (\<lambda>_.
     result_bind (guard_err (cm_id (mrs_module source) \<noteq> cm_id (mrs_module target) \<or>
         cr_module_id (mrs_revision source) \<noteq> cr_module_id (mrs_revision target)) MME_DifferentModules) (\<lambda>_.
     result_bind (guard_err (cr_id (mrs_revision source) = cr_id (mrs_revision target) \<and> source \<noteq> target)
       MME_CorruptRevisionIdentity) (\<lambda>_.
     result_bind (canonical_component_hashes source) (\<lambda>from_hashes.
     result_bind (canonical_component_hashes target) (\<lambda>to_hashes.
     seal_diff env
       \<lparr>mrd_diff_sha256 = [], mrd_module_id = cm_id (mrs_module source),
        mrd_from_revision_id = cr_id (mrs_revision source), mrd_to_revision_id = cr_id (mrs_revision target),
        mrd_from_source_sha256 = cr_source_hash (mrs_revision source),
        mrd_to_source_sha256 = cr_source_hash (mrs_revision target),
        mrd_component_changes = component_changes (component_hash_map from_hashes) (component_hash_map to_hashes),
        mrd_capability_changes =
          capability_changes (cm_required_capabilities (mrs_module source)) (cm_required_capabilities (mrs_module target)),
        mrd_metadata_changed_fields = metadata_changed_fields (mrs_module source) (mrs_module target)\<rparr>))))))"

subsection \<open>The chain of predecessors\<close>

definition lineage_step ::
  "(str, content_module_revision) btree_map \<Rightarrow> content_module_revision \<Rightarrow>
     (unit, (str, content_module_revision) btree_map) result" where
  "lineage_step revisions revision =
     (if is_some_and (\<lambda>existing. existing \<noteq> revision) (bt_get revisions (cr_id revision)) then Inl ()
      else Inr (bt_insert (cr_id revision) revision revisions))"

function ancestor_walk ::
  "(str, content_module_revision) btree_map \<Rightarrow> str \<Rightarrow> str \<Rightarrow> str list \<Rightarrow> str option \<Rightarrow> (unit, bool) result" where
  "ancestor_walk revisions module_id target visited None = Inr False"
| "ancestor_walk revisions module_id target visited (Some i) =
     (if i \<in> set visited then Inl ()
      else if i = target then Inr True
      else case bt_get revisions i of
        None \<Rightarrow> Inl ()
      | Some revision \<Rightarrow>
          if cr_module_id revision \<noteq> module_id then Inl ()
          else ancestor_walk revisions module_id target (i # visited) (cr_previous_revision_id revision))"
  by pat_completeness auto

termination
proof (relation "measure (\<lambda>(revisions, module_id, target, visited, cursor). card (fst ` set revisions - set visited))",
    goal_cases)
  case (2 revisions module_id target visited i revision)
  then have "i \<in> fst ` set revisions - set visited" by (force dest: map_of_SomeD)
  then have "card (fst ` set revisions - set visited - {i}) < card (fst ` set revisions - set visited)"
    by (intro card_Diff1_less) auto
  moreover have "fst ` set revisions - set (i # visited) = fst ` set revisions - set visited - {i}" by auto
  ultimately show ?case by (simp only: in_measure case_prod_conv)
qed simp

definition target_is_ancestor ::
  "module_revision_snapshot \<Rightarrow> module_revision_snapshot \<Rightarrow> content_module_revision list \<Rightarrow> (unit, bool) result" where
  "target_is_ancestor current target known_revisions =
     result_bind (try_fold lineage_step [] (known_revisions @ [mrs_revision current, mrs_revision target])) (\<lambda>revisions.
     ancestor_walk revisions (cr_module_id (mrs_revision current)) (cr_id (mrs_revision target)) []
       (cr_previous_revision_id (mrs_revision current)))"

subsection \<open>Rollback review\<close>

definition module_rollback_review_sha256 ::
  "module_env \<Rightarrow> module_rollback_review_digest \<Rightarrow> sha256_digest merge_result" where
  "module_rollback_review_sha256 env digest = canonical_sha256 env (Digest_RollbackReview digest)"

definition rollback_review_digest :: "module_rollback_review \<Rightarrow> module_rollback_review_digest" where
  "rollback_review_digest r =
     \<lparr>rrd_expected_state_revision = mrr_expected_state_revision r, rrd_binding_id = mrr_binding_id r,
      rrd_current_revision_id = mrr_current_revision_id r, rrd_current_source_sha256 = mrr_current_source_sha256 r,
      rrd_target_revision_id = mrr_target_revision_id r, rrd_target_source_sha256 = mrr_target_source_sha256 r,
      rrd_diff = mrr_diff r, rrd_blockers = mrr_blockers r, rrd_eligible = mrr_eligible r\<rparr>"

definition rollback_review_verify :: "module_env \<Rightarrow> module_rollback_review \<Rightarrow> unit merge_result" where
  "rollback_review_verify env r =
     result_bind (module_rollback_review_sha256 env (rollback_review_digest r)) (\<lambda>expected.
     guard_err (expected \<noteq> mrr_review_sha256 r) MME_RollbackReviewHashMismatch)"

abbreviation block_if :: "bool \<Rightarrow> module_rollback_blocker \<Rightarrow> module_rollback_blocker list" where
  "block_if blocked blocker \<equiv> (if blocked then [blocker] else [])"

definition policy_blockers ::
  "module_binding \<Rightarrow> module_revision_snapshot \<Rightarrow> module_revision_snapshot \<Rightarrow> module_rollback_policy \<Rightarrow>
     module_rollback_blocker list" where
  "policy_blockers b current target policy =
     block_if (\<not> mb_enabled b) Blk_BindingDisabled @
     block_if (\<not> mb_approved b) Blk_BindingAwaitingApproval @
     block_if (mb_revision_id b \<noteq> cr_id (mrs_revision current)) Blk_StaleBinding @
     block_if (mb_module_id b \<noteq> cm_id (mrs_module current) \<or> cm_id (mrs_module current) \<noteq> cm_id (mrs_module target) \<or>
       cr_module_id (mrs_revision current) \<noteq> cr_module_id (mrs_revision target)) Blk_DifferentModule @
     block_if (cr_id (mrs_revision current) = cr_id (mrs_revision target)) Blk_TargetAlreadyActive @
     block_if (\<not> mrp_scope_target_exists policy) Blk_ScopeTargetMissing @
     block_if (cm_schema_version (mrs_module target) > mrp_maximum_module_schema_version policy)
       (Blk_UnsupportedSchemaVersion (cm_schema_version (mrs_module target))) @
     map Blk_UnsupportedCapability
       (filter (\<lambda>c. c \<notin> set (mrp_supported_capabilities policy)) (cm_required_capabilities (mrs_module target))) @
     map Blk_MissingAsset
       (filter (\<lambda>a. a \<notin> set (mrp_available_asset_ids policy)) (cm_asset_ids (mrs_module target))) @
     block_if (cr_id (mrs_revision target) \<in> set (mrp_quarantined_revision_ids policy)) Blk_QuarantinedTarget @
     map Blk_UnresolvedConflict (mrp_unresolved_components policy)"

definition lineage_blockers ::
  "module_revision_snapshot \<Rightarrow> module_revision_snapshot \<Rightarrow> content_module_revision list \<Rightarrow> module_rollback_blocker list" where
  "lineage_blockers current target known_revisions =
     (case target_is_ancestor current target known_revisions of
        Inr True \<Rightarrow> []
      | Inr False \<Rightarrow> [Blk_TargetNotAncestor]
      | Inl _ \<Rightarrow> [Blk_CorruptRevisionLineage])"

definition rollback_diff ::
  "module_env \<Rightarrow> module_revision_snapshot \<Rightarrow> module_revision_snapshot \<Rightarrow> module_revision_diff option" where
  "rollback_diff env current target =
     (if is_ok (validate_revision_snapshot env current) \<and> is_ok (validate_revision_snapshot env target) \<and>
         cm_id (mrs_module current) = cm_id (mrs_module target)
      then (case diff_module_revisions env current target of Inr diff \<Rightarrow> Some diff | Inl _ \<Rightarrow> None)
      else None)"

definition rollback_blockers ::
  "module_env \<Rightarrow> module_binding \<Rightarrow> module_revision_snapshot \<Rightarrow> module_revision_snapshot \<Rightarrow>
     content_module_revision list \<Rightarrow> module_rollback_policy \<Rightarrow> module_rollback_blocker list" where
  "rollback_blockers env b current target known_revisions policy =
     dedup (sort_by (cmp_on rollback_blocker_key)
       (policy_blockers b current target policy @
        block_if (\<not> is_ok (validate_revision_snapshot env current) \<or> \<not> is_ok (validate_revision_snapshot env target))
          Blk_CorruptSnapshot @
        lineage_blockers current target known_revisions @
        block_if (rollback_diff env current target = None) Blk_CorruptSnapshot))"

definition seal_rollback_review :: "module_env \<Rightarrow> module_rollback_review \<Rightarrow> module_rollback_review merge_result" where
  "seal_rollback_review env r =
     result_bind (module_rollback_review_sha256 env (rollback_review_digest r)) (\<lambda>sha. Inr (r\<lparr>mrr_review_sha256 := sha\<rparr>))"

definition review_module_rollback ::
  "module_env \<Rightarrow> module_binding \<Rightarrow> module_revision_snapshot \<Rightarrow> module_revision_snapshot \<Rightarrow>
     content_module_revision list \<Rightarrow> module_rollback_policy \<Rightarrow> module_rollback_review merge_result" where
  "review_module_rollback env b current target known_revisions policy =
     (let diff = rollback_diff env current target;
          blockers = rollback_blockers env b current target known_revisions policy in
      seal_rollback_review env
        \<lparr>mrr_review_sha256 = [], mrr_expected_state_revision = mrp_state_revision policy, mrr_binding_id = mb_id b,
         mrr_current_revision_id = cr_id (mrs_revision current),
         mrr_current_source_sha256 = cr_source_hash (mrs_revision current),
         mrr_target_revision_id = cr_id (mrs_revision target),
         mrr_target_source_sha256 = cr_source_hash (mrs_revision target),
         mrr_diff = diff, mrr_blockers = blockers, mrr_eligible = (blockers = [] \<and> diff \<noteq> None)\<rparr>)"

subsection \<open>Rollback plan and approval\<close>

definition module_rollback_plan_sha256 :: "module_env \<Rightarrow> module_rollback_plan_digest \<Rightarrow> sha256_digest merge_result" where
  "module_rollback_plan_sha256 env digest = canonical_sha256 env (Digest_RollbackPlan digest)"

definition rollback_plan_digest :: "module_rollback_plan \<Rightarrow> module_rollback_plan_digest" where
  "rollback_plan_digest p =
     \<lparr>rld_review_sha256 = rbp_review_sha256 p, rld_expected_state_revision = rbp_expected_state_revision p,
      rld_binding_id = rbp_binding_id p, rld_expected_current_revision_id = rbp_expected_current_revision_id p,
      rld_expected_current_source_sha256 = rbp_expected_current_source_sha256 p,
      rld_target_revision_id = rbp_target_revision_id p, rld_target_source_sha256 = rbp_target_source_sha256 p,
      rld_diff_sha256 = rbp_diff_sha256 p\<rparr>"

definition rollback_plan_verify :: "module_env \<Rightarrow> module_rollback_plan \<Rightarrow> unit merge_result" where
  "rollback_plan_verify env p =
     result_bind (module_rollback_plan_sha256 env (rollback_plan_digest p)) (\<lambda>expected.
     guard_err (expected \<noteq> rbp_plan_sha256 p) MME_RollbackPlanHashMismatch)"

definition seal_rollback_plan :: "module_env \<Rightarrow> module_rollback_plan \<Rightarrow> module_rollback_plan merge_result" where
  "seal_rollback_plan env p =
     result_bind (module_rollback_plan_sha256 env (rollback_plan_digest p)) (\<lambda>sha. Inr (p\<lparr>rbp_plan_sha256 := sha\<rparr>))"

definition prepare_module_rollback ::
  "module_env \<Rightarrow> module_rollback_review \<Rightarrow> sha256_digest \<Rightarrow> module_rollback_plan merge_result" where
  "prepare_module_rollback env review expected_review_sha256 =
     result_bind (rollback_review_verify env review) (\<lambda>_.
     result_bind (guard_err (expected_review_sha256 \<noteq> mrr_review_sha256 review) MME_StaleRollbackReview) (\<lambda>_.
     result_bind (guard_err (\<not> mrr_eligible review) MME_RollbackBlocked) (\<lambda>_.
     result_bind (ok_or MME_RollbackBlocked (mrr_diff review)) (\<lambda>diff.
     result_bind (revision_diff_verify env diff) (\<lambda>_.
     seal_rollback_plan env
       \<lparr>rbp_plan_sha256 = [], rbp_review_sha256 = mrr_review_sha256 review,
        rbp_expected_state_revision = mrr_expected_state_revision review, rbp_binding_id = mrr_binding_id review,
        rbp_expected_current_revision_id = mrr_current_revision_id review,
        rbp_expected_current_source_sha256 = mrr_current_source_sha256 review,
        rbp_target_revision_id = mrr_target_revision_id review,
        rbp_target_source_sha256 = mrr_target_source_sha256 review, rbp_diff_sha256 = mrd_diff_sha256 diff\<rparr>)))))"

definition validate_rollback_activation ::
  "module_rollback_plan \<Rightarrow> module_merge_review \<Rightarrow> resolved_module_plan \<Rightarrow> unit merge_result" where
  "validate_rollback_activation rollback review plan =
     result_bind (guard_err
       (mrv_state_revision review \<noteq> rbp_expected_state_revision rollback \<or>
        mrv_activation_binding_ids review \<noteq> [rbp_binding_id rollback] \<or>
        rmpl_expected_state_revision plan \<noteq> rbp_expected_state_revision rollback \<or>
        rmpl_activation_binding_ids plan \<noteq> [rbp_binding_id rollback] \<or>
        rmpl_review_sha256 plan \<noteq> mrv_review_sha256 review) MME_RollbackActivationMismatch) (\<lambda>_.
     result_bind (ok_or MME_RollbackActivationMismatch
       (find (\<lambda>b. mb_id b = rbp_binding_id rollback) (mrv_ordered_bindings review))) (\<lambda>proposed.
     guard_err
       (mb_resolution_mode proposed \<noteq> Mode_Pinned \<or>
        mb_pinned_revision_id proposed \<noteq> Some (rbp_target_revision_id rollback) \<or>
        mb_revision_id proposed \<noteq> rbp_target_revision_id rollback \<or> mb_enabled proposed \<or> mb_approved proposed \<or>
        mb_activation_approval_id proposed \<noteq> None \<or> mb_activation_review_sha256 proposed \<noteq> None \<or>
        mb_activation_plan_sha256 proposed \<noteq> None) MME_RollbackActivationMismatch))"

definition approved_module_rollback_sha256 ::
  "module_env \<Rightarrow> module_rollback_plan \<Rightarrow> module_merge_review \<Rightarrow> approved_module_activation_plan \<Rightarrow> sha256_digest merge_result" where
  "approved_module_rollback_sha256 env rollback review activation =
     canonical_sha256 env (Digest_ApprovedRollback
       \<lparr>abd_rollback = rollback, abd_activation_review = review, abd_activation = activation\<rparr>)"

definition approved_rollback_verify :: "module_env \<Rightarrow> approved_module_rollback_plan \<Rightarrow> unit merge_result" where
  "approved_rollback_verify env a =
     result_bind (rollback_plan_verify env (arb_rollback a)) (\<lambda>_.
     result_bind (merge_review_verify env (arb_activation_review a)) (\<lambda>_.
     result_bind (activation_plan_verify env (arb_activation a)) (\<lambda>_.
     result_bind (validate_rollback_activation (arb_rollback a) (arb_activation_review a) (amp_plan (arb_activation a))) (\<lambda>_.
     result_bind (approved_module_rollback_sha256 env (arb_rollback a) (arb_activation_review a) (arb_activation a)) (\<lambda>expected.
     guard_err (expected \<noteq> arb_approval_sha256 a) MME_RollbackApprovalHashMismatch)))))"

definition approve_module_rollback_plan ::
  "module_env \<Rightarrow> module_rollback_review \<Rightarrow> sha256_digest \<Rightarrow> module_merge_review \<Rightarrow> module_merge_resolution_set \<Rightarrow>
     module_activation_approval \<Rightarrow> approved_module_rollback_plan merge_result" where
  "approve_module_rollback_plan env rollback_review expected_rollback_review_sha256 activation_review resolution_set approval =
     result_bind (prepare_module_rollback env rollback_review expected_rollback_review_sha256) (\<lambda>rollback.
     result_bind (merge_review_verify env activation_review) (\<lambda>_.
     result_bind (resolve_module_merge env activation_review resolution_set) (\<lambda>activation_plan.
     result_bind (validate_rollback_activation rollback activation_review activation_plan) (\<lambda>_.
     result_bind (approve_module_activation_plan env activation_plan approval) (\<lambda>activation.
     result_bind (approved_module_rollback_sha256 env rollback activation_review activation) (\<lambda>sha.
     Inr \<lparr>arb_approval_sha256 = sha, arb_rollback = rollback, arb_activation_review = activation_review,
       arb_activation = activation\<rparr>))))))"

end
