(* ===== verification/Module_Facts.thy ===== *)
theory Module_Facts
  imports Module_Rollback
begin

section \<open>Content modules: lemmas\<close>

text \<open>
  Closed forms of the loops of a merge review, and the shape of the reviews it returns.
\<close>

subsection \<open>Ordered sets\<close>

lemma set_bt_set [simp]: "set (bt_set xs) = set xs"
  unfolding bt_set_def by (subst keys_bt_collect) (auto simp: image_image)

lemma sorted_bt_set: "sorted_wrt (<) (bt_set xs)"
  using bt_inv_collect unfolding bt_set_def bt_inv_def by blast

lemma distinct_bt_set: "distinct (bt_set xs)"
  using sorted_bt_set strict_sorted_iff by blast

lemma bt_set_cong: "set xs = set ys \<Longrightarrow> bt_set xs = bt_set ys"
  by (rule strict_sorted_equal [OF sorted_bt_set sorted_bt_set]) simp

lemma set_dedup [simp]: "set (dedup xs) = set xs"
  by (induction xs rule: dedup.induct) auto

lemma dedup_sort_distinct: "dedup (sort_by cmp xs) = xs \<Longrightarrow> sorted (xs :: 'a::linorder list)"
proof -
  have "sorted (dedup ys)" if "sorted ys" for ys :: "'a list"
    using that by (induction ys rule: dedup.induct) (auto split: if_splits)
  then show "dedup (sort_by cmp xs) = xs \<Longrightarrow> sorted xs" by (metis sorted_sort_by_cmp)
qed

lemma dedup_Nil_iff [simp]: "dedup xs = [] \<longleftrightarrow> xs = []"
  by (metis set_dedup set_empty)

lemma sort_by_Nil_iff [simp]: "sort_by c xs = [] \<longleftrightarrow> xs = []"
  by (metis length_0_conv length_sort_by)

lemma distinct_map_perm: "mset xs = mset ys \<Longrightarrow> distinct (map f xs) = distinct (map f ys)"
  by (rule mset_eq_imp_distinct_iff) simp

subsection \<open>The loops over bindings and revisions\<close>

definition binding_ok :: "module_env \<Rightarrow> module_binding \<Rightarrow> bool" where
  "binding_ok env b \<longleftrightarrow> binding_target_valid b \<and> module_binding_validate env b = Inr ()"

lemma check_bindings_iff:
  "try_fold (check_binding_step env) seen bs = Inr ids \<longleftrightarrow>
     (\<forall>b \<in> set bs. binding_ok env b) \<and> distinct (map mb_id bs) \<and> set seen \<inter> mb_id ` set bs = {} \<and> ids = seen @ map mb_id bs"
proof (induction bs arbitrary: seen)
  case (Cons b bs)
  have "check_binding_step env seen b = Inr s \<longleftrightarrow> mb_id b \<notin> set seen \<and> binding_ok env b \<and> s = seen @ [mb_id b]" for s
    by (auto simp: check_binding_step_def validate_binding_target_def binding_ok_def result_simps)
  then show ?case by (auto simp: result_simps Cons.IH)
qed auto

abbreviation revision_id :: "module_revision_snapshot \<Rightarrow> str" where
  "revision_id r \<equiv> cr_id (mrs_revision r)"

lemma revision_map_iff:
  assumes "bt_inv m"
  shows "try_fold (revision_map_step env) m rs = Inr m' \<longleftrightarrow>
     (\<forall>r \<in> set rs. validate_revision_snapshot env r = Inr ()) \<and> distinct (map (\<lambda>r. cr_id (mrs_revision r)) rs) \<and>
     fst ` set m \<inter> (\<lambda>r. cr_id (mrs_revision r)) ` set rs = {} \<and>
     m' = fold (\<lambda>(k, v). bt_insert k v) (map (\<lambda>r. (cr_id (mrs_revision r), r)) rs) m"
  using assms
proof (induction rs arbitrary: m)
  case (Cons r rs)
  let ?k = "cr_id (mrs_revision r)"
  have step: "revision_map_step env m r = Inr n \<longleftrightarrow>
      validate_revision_snapshot env r = Inr () \<and> ?k \<notin> fst ` set m \<and> n = bt_insert ?k r m" for n
    by (auto simp: revision_map_step_def result_simps map_of_eq_None_iff)
  have "bt_inv (bt_insert ?k r m)" using Cons.prems by (rule bt_inv_insert)
  note IH = Cons.IH [OF this]
  show ?case by (auto simp: result_simps step IH)
qed auto

lemma validated_revision_map_iff:
  "validated_revision_map env rs = Inr m \<longleftrightarrow>
     (\<forall>r \<in> set rs. validate_revision_snapshot env r = Inr ()) \<and> distinct (map revision_id rs) \<and>
     m = bt_collect (map (\<lambda>r. (revision_id r, r)) rs)"
  using revision_map_iff [OF btree.inv_empty, of env rs m]
  by (simp add: validated_revision_map_def bt_collect_def)

lemma bt_collect_perm:
  assumes "mset xs = mset ys" "distinct (map fst xs)"
  shows "bt_collect xs = bt_collect ys"
proof (rule btree.bindings_ext [OF bt_inv_collect bt_inv_collect])
  fix k
  have ys: "distinct (map fst ys)" using assms by (metis mset_eq_imp_distinct_iff mset_map)
  have "map_of xs k = map_of ys k"
    using assms(1) map_of_eq_Some_iff [OF assms(2)] map_of_eq_Some_iff [OF ys] mset_eq_setD by (metis not_Some_eq)
  then show "bt_get (bt_collect xs) k = bt_get (bt_collect ys) k"
    by (simp add: bt_get_collect map_of_rev_distinct assms(2) ys)
qed

abbreviation accepted_bindings :: "str list \<Rightarrow> module_resolution_context \<Rightarrow> module_binding list \<Rightarrow> module_binding list" where
  "accepted_bindings activation_ids ctx bs \<equiv> filter (\<lambda>b. ignored_reason activation_ids ctx b = None) bs"

definition ignored_of :: "str list \<Rightarrow> module_resolution_context \<Rightarrow> module_binding list \<Rightarrow> ignored_module_binding list" where
  "ignored_of activation_ids ctx bs =
     map (\<lambda>b. \<lparr>imb_binding_id = mb_id b, imb_reason = the (ignored_reason activation_ids ctx b)\<rparr>)
       (filter (\<lambda>b. ignored_reason activation_ids ctx b \<noteq> None) bs)"

definition approval_of ::
  "module_resolution_context \<Rightarrow> (str, module_revision_snapshot) btree_map \<Rightarrow> module_binding \<Rightarrow> reviewed_module_import_approval list" where
  "approval_of ctx rm b =
     (case accept_binding ctx rm b of Inr (Some e) \<Rightarrow> [\<lparr>ria_binding_id = mb_id b, ria_evidence = e\<rparr>] | _ \<Rightarrow> [])"

lemma partition_iff:
  "try_fold (partition_step acts ctx rm) st bs = Inr st' \<longleftrightarrow>
     (\<forall>b \<in> set (accepted_bindings acts ctx bs). is_ok (accept_binding ctx rm b)) \<and>
     st' = \<lparr>bpt_ordered = bpt_ordered st @ accepted_bindings acts ctx bs,
       bpt_approvals = bpt_approvals st @ concat (map (approval_of ctx rm) (accepted_bindings acts ctx bs)),
       bpt_ignored = bpt_ignored st @ ignored_of acts ctx bs\<rparr>"
proof (induction bs arbitrary: st)
  case (Cons b bs)
  have step: "partition_step acts ctx rm st b = Inr u \<longleftrightarrow>
      (ignored_reason acts ctx b = None \<longrightarrow> is_ok (accept_binding ctx rm b)) \<and>
      u = \<lparr>bpt_ordered = bpt_ordered st @ accepted_bindings acts ctx [b],
        bpt_approvals = bpt_approvals st @ concat (map (approval_of ctx rm) (accepted_bindings acts ctx [b])),
        bpt_ignored = bpt_ignored st @ ignored_of acts ctx [b]\<rparr>" for u
    by (cases "ignored_reason acts ctx b"; cases "accept_binding ctx rm b")
      (auto simp: partition_step_def approval_of_def ignored_of_def split: option.splits)
  show ?case by (auto simp: result_simps step Cons.IH ignored_of_def)
qed (auto simp: ignored_of_def)

subsection \<open>Orders\<close>

lemma total_binding_order: "total_comparator binding_order"
  unfolding binding_order_def by (intro total_comparator_intros)

lemma total_source_order: "total_comparator candidate_source_order"
  unfolding candidate_source_order_def by (intro total_comparator_intros)

lemma total_ignored_order: "total_comparator ignored_binding_order"
  unfolding ignored_binding_order_def by (intro total_comparator_intros)

lemma total_candidate_order: "total_comparator cmp_conflict_candidate"
  unfolding cmp_conflict_candidate_def by (intro total_comparator_intros)

lemma cmp_conflict_candidate_Equal: "cmp_conflict_candidate a b = Equal \<longleftrightarrow> a = b"
  by (auto simp: cmp_conflict_candidate_def cmp_then_def cmp_on_def)

lemma sort_by_perm_key:
  assumes "total_comparator c" "mset xs = mset ys" "distinct (map key xs)"
    "\<And>x y. c x y = Equal \<Longrightarrow> key x = key y"
  shows "sort_by c xs = sort_by c ys"
proof -
  have "x = y" if "x \<in> set xs" "y \<in> set xs" "c x y = Equal" for x y
    using assms(3,4) that by (auto simp: distinct_map inj_on_def)
  then show ?thesis using total_comparator.sort_by_perm [OF assms(1,2)] by blast
qed

lemma approvals_distinct:
  "distinct (map mb_id bs) \<Longrightarrow> distinct (map ria_binding_id (concat (map (approval_of ctx rm) bs))) \<and>
     set (map ria_binding_id (concat (map (approval_of ctx rm) bs))) \<subseteq> mb_id ` set bs"
proof (induction bs)
  case (Cons b bs)
  have "approval_of ctx rm b = [] \<or> (\<exists>x. approval_of ctx rm b = [x] \<and> ria_binding_id x = mb_id b)"
    by (auto simp: approval_of_def split: sum.splits option.splits)
  with Cons show ?case by auto blast
qed simp

lemma sorted_partition_perm:
  assumes "mset bs = mset bs'" "distinct (map mb_id bs)"
  shows "sorted_partition \<lparr>bpt_ordered = accepted_bindings acts ctx bs,
      bpt_approvals = concat (map (approval_of ctx rm) (accepted_bindings acts ctx bs)), bpt_ignored = ignored_of acts ctx bs\<rparr> =
    sorted_partition \<lparr>bpt_ordered = accepted_bindings acts ctx bs',
      bpt_approvals = concat (map (approval_of ctx rm) (accepted_bindings acts ctx bs')), bpt_ignored = ignored_of acts ctx bs'\<rparr>"
proof -
  let ?f = "accepted_bindings acts ctx"
  have "sort_by binding_order (?f bs) = sort_by binding_order (?f bs')"
    by (rule sort_by_perm_key [where key = mb_id, OF total_binding_order])
      (use assms in \<open>simp_all add: distinct_map_filter binding_order_def cmp_then_def cmp_on_def\<close>)
  moreover have "sort_by (cmp_on ria_binding_id) (concat (map (approval_of ctx rm) (?f bs))) =
      sort_by (cmp_on ria_binding_id) (concat (map (approval_of ctx rm) (?f bs')))"
  proof (rule sort_by_perm_key [where key = ria_binding_id, OF total_comparator_cmp_on])
    show "mset (concat (map (approval_of ctx rm) (?f bs))) = mset (concat (map (approval_of ctx rm) (?f bs')))"
      using assms(1) by (simp add: mset_concat flip: sum_mset_sum_list)
    show "distinct (map ria_binding_id (concat (map (approval_of ctx rm) (?f bs))))"
      using approvals_distinct assms(2) by (simp add: distinct_map_filter)
  qed (simp add: cmp_on_def)
  moreover have "sort_by ignored_binding_order (ignored_of acts ctx bs) = sort_by ignored_binding_order (ignored_of acts ctx bs')"
    by (rule sort_by_perm_key [where key = imb_binding_id, OF total_ignored_order])
      (use assms in \<open>simp_all add: ignored_of_def comp_def distinct_map_filter ignored_binding_order_def cmp_then_def cmp_on_def\<close>)
  ultimately show ?thesis by (simp add: sorted_partition_def)
qed

subsection \<open>The review after its checks\<close>

definition review_inputs_ok ::
  "module_env \<Rightarrow> module_resolution_context \<Rightarrow> module_binding list \<Rightarrow> module_revision_snapshot list \<Rightarrow> str list \<Rightarrow> bool" where
  "review_inputs_ok env ctx bs rs acts \<longleftrightarrow>
     check_review_limits ctx bs rs acts = Inr () \<and> (\<forall>b \<in> set bs. binding_ok env b) \<and> distinct (map mb_id bs) \<and>
     set acts \<subseteq> mb_id ` set bs \<and> (\<forall>r \<in> set rs. validate_revision_snapshot env r = Inr ()) \<and> distinct (map revision_id rs)"

abbreviation revision_table :: "module_revision_snapshot list \<Rightarrow> (str, module_revision_snapshot) btree_map" where
  "revision_table rs \<equiv> bt_collect (map (\<lambda>r. (revision_id r, r)) rs)"

abbreviation review_partition ::
  "module_resolution_context \<Rightarrow> (str, module_revision_snapshot) btree_map \<Rightarrow> str list \<Rightarrow> module_binding list \<Rightarrow> binding_partition" where
  "review_partition ctx rm acts bs \<equiv> sorted_partition \<lparr>bpt_ordered = accepted_bindings acts ctx bs,
      bpt_approvals = concat (map (approval_of ctx rm) (accepted_bindings acts ctx bs)), bpt_ignored = ignored_of acts ctx bs\<rparr>"

definition review_tail ::
  "module_env \<Rightarrow> nat \<Rightarrow> module_resolution_context \<Rightarrow> str list \<Rightarrow> (str, module_revision_snapshot) btree_map \<Rightarrow>
     binding_partition \<Rightarrow> module_merge_review merge_result" where
  "review_tail env state_revision ctx acts rm parts =
     result_bind (try_fold (group_binding_step rm) [] (bpt_ordered parts)) (\<lambda>grouped.
     result_bind (try_fold review_component_step ([], []) grouped) (\<lambda>(components, conflicts).
     seal_review env
       \<lparr>mrv_review_sha256 = [], mrv_state_revision = state_revision, mrv_context = canonical_context ctx,
        mrv_activation_binding_ids = acts, mrv_ordered_bindings = bpt_ordered parts,
        mrv_ignored_bindings = bpt_ignored parts,
        mrv_components = sort_by (cmp_on rmp_component) components,
        mrv_conflicts = sort_by (cmp_on mcf_component) conflicts, mrv_import_approvals = bpt_approvals parts,
        mrv_effective_variable_overrides = compose_variable_overrides (bpt_ordered parts)\<rparr>))"

lemma review_iff:
  "review_module_merge_internal env state_revision ctx bs rs acts = Inr review \<longleftrightarrow>
     review_inputs_ok env ctx bs rs acts \<and>
     (\<forall>b \<in> set (accepted_bindings (bt_set acts) ctx bs). is_ok (accept_binding ctx (revision_table rs) b)) \<and>
     review_tail env state_revision ctx (bt_set acts) (revision_table rs)
       (review_partition ctx (revision_table rs) (bt_set acts) bs) = Inr review"
proof -
  have "review_module_merge_internal env state_revision ctx bs rs acts =
     result_bind (check_review_limits ctx bs rs acts) (\<lambda>_.
     result_bind (try_fold (check_binding_step env) [] bs) (\<lambda>binding_ids.
     result_bind (guard_err (\<not> set acts \<subseteq> set binding_ids)
       (MME_InvalidActivationDraft (lit ''activation review references an unknown binding''))) (\<lambda>_.
     result_bind (validated_revision_map env rs) (\<lambda>rm.
     result_bind (try_fold (partition_step (bt_set acts) ctx rm) \<lparr>bpt_ordered = [], bpt_approvals = [], bpt_ignored = []\<rparr> bs)
       (\<lambda>unsorted. review_tail env state_revision ctx (bt_set acts) rm (sorted_partition unsorted))))))"
    by (simp add: review_module_merge_internal_def review_tail_def Let_def)
  then show ?thesis
    by (auto simp: result_simps check_bindings_iff validated_revision_map_iff partition_iff review_inputs_ok_def)
qed

lemma review_inputs_ok_perm:
  assumes "mset bs = mset bs'" "mset rs = mset rs'" "review_inputs_ok env ctx bs rs acts"
  shows "review_inputs_ok env ctx bs' rs' acts"
proof -
  have "length bs = length bs'" "length rs = length rs'" using assms by (auto dest: mset_eq_length)
  moreover have "set bs = set bs'" "set rs = set rs'" using assms by (auto dest: mset_eq_setD)
  moreover have "distinct (map mb_id bs) = distinct (map mb_id bs')" "distinct (map revision_id rs) = distinct (map revision_id rs')"
    by (rule distinct_map_perm [OF assms(1)], rule distinct_map_perm [OF assms(2)])
  ultimately show ?thesis using assms(3) by (simp add: review_inputs_ok_def check_review_limits_def)
qed

lemma review_perm:
  assumes "mset bs = mset bs'" "mset rs = mset rs'"
    "review_module_merge_internal env state_revision ctx bs rs acts = Inr review"
  shows "review_module_merge_internal env state_revision ctx bs' rs' acts = Inr review"
proof -
  have ok: "review_inputs_ok env ctx bs rs acts" using assms(3) by (simp add: review_iff)
  have table: "revision_table rs' = revision_table rs"
    using ok assms(2) by (intro bt_collect_perm [symmetric]) (auto simp: review_inputs_ok_def comp_def)
  have "review_partition ctx (revision_table rs) (bt_set acts) bs' = review_partition ctx (revision_table rs) (bt_set acts) bs"
    using ok assms(1) by (intro sorted_partition_perm [symmetric]) (auto simp: review_inputs_ok_def)
  moreover have "set bs = set bs'" using assms(1) by (rule mset_eq_setD)
  ultimately show ?thesis
    using assms(3) review_inputs_ok_perm [OF assms(1,2) ok] unfolding review_iff table by simp
qed

subsection \<open>Groups of candidates\<close>

definition sourced ::
  "(str, module_revision_snapshot) btree_map \<Rightarrow> module_binding list \<Rightarrow> module_component_ref \<Rightarrow> sha256_digest \<Rightarrow>
     module_candidate_source \<Rightarrow> bool" where
  "sourced rm bs component sha source \<longleftrightarrow>
     (\<exists>b \<in> set bs. \<exists>snapshot ordinal. bt_get rm (mb_revision_id b) = Some snapshot \<and>
        source = candidate_source b snapshot component ordinal \<and>
        \<lparr>ch_component = component, ch_sha256 = sha\<rparr> \<in> set (cr_component_hashes (mrs_revision snapshot)))"

definition groups_ok ::
  "(str, module_revision_snapshot) btree_map \<Rightarrow> module_binding list \<Rightarrow> component_groups \<Rightarrow> bool" where
  "groups_ok rm bs grouped \<longleftrightarrow> bt_inv grouped \<and>
     (\<forall>component hashes. bt_get grouped component = Some hashes \<longrightarrow> hashes \<noteq> [] \<and> bt_inv hashes \<and>
        (\<forall>sha sources. bt_get hashes sha = Some sources \<longrightarrow>
           sources \<noteq> [] \<and> (\<forall>source \<in> set sources. sourced rm bs component sha source)))"

lemma bt_insert_not_Nil [simp]: "bt_insert k v m \<noteq> []"
  by (induction m rule: bt_insert.induct) auto

lemma push_source_ok:
  assumes "groups_ok rm bs grouped" "sourced rm bs component sha source"
  shows "groups_ok rm bs (push_source component sha source grouped)"
proof -
  let ?hashes = "or_default (bt_get grouped component)"
  have inv: "bt_inv grouped" using assms(1) by (simp add: groups_ok_def)
  have hashes: "bt_inv ?hashes" "\<And>sha' sources. bt_get ?hashes sha' = Some sources \<Longrightarrow>
      sources \<noteq> [] \<and> (\<forall>source \<in> set sources. sourced rm bs component sha' source)"
    using assms(1) btree.inv_empty by (auto simp: groups_ok_def split: option.splits)
  let ?new = "bt_insert sha (or_default (bt_get ?hashes sha) @ [source]) ?hashes"
  have new: "sources \<noteq> [] \<and> (\<forall>source \<in> set sources. sourced rm bs component sha' source)"
    if "bt_get ?new sha' = Some sources" for sha' sources
    using that hashes assms(2) by (auto simp: btree.get_insert [OF hashes(1)] split: if_splits option.splits)
  show ?thesis
    unfolding groups_ok_def push_source_def Let_def
  proof (intro conjI allI impI)
    show "bt_inv (bt_insert component ?new grouped)" using inv by (rule bt_inv_insert)
    fix c hs assume got: "bt_get (bt_insert component ?new grouped) c = Some hs"
    then have cases: "c = component \<and> hs = ?new \<or> c \<noteq> component \<and> bt_get grouped c = Some hs"
      by (auto simp: btree.get_insert [OF inv] split: if_splits)
    then show "hs \<noteq> []" using assms(1) bt_insert_not_Nil by (metis groups_ok_def)
    show "bt_inv hs" using cases assms(1) bt_inv_insert [OF hashes(1)] by (auto simp: groups_ok_def)
    fix sha' sources assume "bt_get hs sha' = Some sources"
    moreover have "\<And>c hs sha' sources. bt_get grouped c = Some hs \<Longrightarrow> bt_get hs sha' = Some sources \<Longrightarrow>
        sources \<noteq> [] \<and> (\<forall>source \<in> set sources. sourced rm bs c sha' source)"
      using assms(1) unfolding groups_ok_def by blast
    ultimately have "sources \<noteq> [] \<and> (\<forall>source \<in> set sources. sourced rm bs c sha' source)"
      using cases new by blast
    then show "sources \<noteq> []" and "\<forall>source \<in> set sources. sourced rm bs c sha' source" by auto
  qed
qed

lemma canonical_hashes_set:
  "canonical_component_hashes snapshot = Inr hashes \<Longrightarrow> set hashes = set (cr_component_hashes (mrs_revision snapshot))"
  by (auto simp: canonical_component_hashes_def Let_def split: if_splits)

lemma group_binding_ok:
  assumes "groups_ok rm bs grouped" "b \<in> set bs" "group_binding_step rm grouped b = Inr grouped'"
  shows "groups_ok rm bs grouped'"
proof -
  obtain snapshot ordinals hashes where snapshot: "bt_get rm (mb_revision_id b) = Some snapshot"
    and hashes: "canonical_component_hashes snapshot = Inr hashes"
    and run: "try_fold (group_component_step b snapshot ordinals) grouped hashes = Inr grouped'"
    using assms(3) by (auto simp: group_binding_step_def result_simps)
  show ?thesis
  proof (rule try_fold_invariant [OF run])
    show "groups_ok rm bs grouped" by (rule assms(1))
    fix g h g' assume h: "h \<in> set hashes" and g: "groups_ok rm bs g" and step: "group_component_step b snapshot ordinals g h = Inr g'"
    then obtain ordinal where g': "g' = push_source (ch_component h) (ch_sha256 h)
        (candidate_source b snapshot (ch_component h) ordinal) g"
      by (auto simp: group_component_step_def result_simps)
    have "\<lparr>ch_component = ch_component h, ch_sha256 = ch_sha256 h\<rparr> = h" by (cases h) simp
    then have "\<lparr>ch_component = ch_component h, ch_sha256 = ch_sha256 h\<rparr> \<in> set (cr_component_hashes (mrs_revision snapshot))"
      using h canonical_hashes_set [OF hashes] by metis
    then have "sourced rm bs (ch_component h) (ch_sha256 h) (candidate_source b snapshot (ch_component h) ordinal)"
      using assms(2) snapshot unfolding sourced_def by blast
    then show "groups_ok rm bs g'" unfolding g' by (rule push_source_ok [OF g])
  qed
qed

lemma grouped_ok: "try_fold (group_binding_step rm) [] bs = Inr grouped \<Longrightarrow> groups_ok rm bs grouped"
proof (rule try_fold_invariant [where P = "groups_ok rm bs"])
  show "groups_ok rm bs []" by (simp add: groups_ok_def btree.inv_empty)
qed (auto intro: group_binding_ok)

subsection \<open>Reviewed components\<close>

definition candidate_of :: "sha256_digest \<Rightarrow> module_candidate_source \<Rightarrow> module_conflict_candidate" where
  "candidate_of sha source =
     \<lparr>mcc_module_id = mcs_module_id source, mcc_revision_id = mcs_revision_id source, mcc_component_hash = sha\<rparr>"

abbreviation contested :: "reviewed_module_component \<Rightarrow> bool" where
  "contested reviewed \<equiv> length (rmp_candidates reviewed) > 1"

definition conflict_of :: "reviewed_module_component \<Rightarrow> module_conflict" where
  "conflict_of reviewed =
     \<lparr>mcf_component = rmp_component reviewed, mcf_candidates = map rmc_candidate (rmp_candidates reviewed),
      mcf_reason = lit ''same component identifier has distinct immutable hashes''\<rparr>"

definition candidate_ok ::
  "(str, module_revision_snapshot) btree_map \<Rightarrow> module_binding list \<Rightarrow> module_component_ref \<Rightarrow> reviewed_module_candidate \<Rightarrow> bool" where
  "candidate_ok rm bs component candidate \<longleftrightarrow>
     rmc_sources candidate \<noteq> [] \<and>
     rmc_candidate candidate = candidate_of (mcc_component_hash (rmc_candidate candidate)) (last (rmc_sources candidate)) \<and>
     (\<forall>source \<in> set (rmc_sources candidate). sourced rm bs component (mcc_component_hash (rmc_candidate candidate)) source)"

definition component_ok ::
  "(str, module_revision_snapshot) btree_map \<Rightarrow> module_binding list \<Rightarrow> reviewed_module_component \<Rightarrow> bool" where
  "component_ok rm bs reviewed \<longleftrightarrow>
     rmp_candidates reviewed \<noteq> [] \<and> distinct (map rmc_candidate (rmp_candidates reviewed)) \<and>
     (\<forall>candidate \<in> set (rmp_candidates reviewed). candidate_ok rm bs (rmp_component reviewed) candidate)"

lemma reviewed_candidate_Inr:
  "reviewed_candidate (sha, sources) = Inr candidate \<longleftrightarrow> sources \<noteq> [] \<and>
     rmc_sources candidate = sort_by candidate_source_order sources \<and>
     rmc_candidate candidate = candidate_of sha (last (rmc_sources candidate))"
  by (cases candidate) (auto simp: reviewed_candidate_def candidate_of_def Let_def)

lemma reviewed_candidates_ok:
  assumes "groups_ok rm bs grouped" "(component, hashes) \<in> set grouped" "try_map reviewed_candidate hashes = Inr unsorted"
  shows "component_ok rm bs \<lparr>rmp_component = component,
    rmp_candidates = sort_by (\<lambda>l r. cmp_conflict_candidate (rmc_candidate l) (rmc_candidate r)) unsorted\<rparr>"
proof -
  have "bt_get grouped component = Some hashes"
    using assms(1,2) by (simp add: groups_ok_def btree.bindings_get)
  then have hashes: "hashes \<noteq> []" "bt_inv hashes" "\<And>sha sources. (sha, sources) \<in> set hashes \<Longrightarrow>
      \<forall>source \<in> set sources. sourced rm bs component sha source"
    using assms(1) by (auto simp: groups_ok_def btree.bindings_get)
  have zip: "list_all2 (\<lambda>g c. reviewed_candidate g = Inr c) hashes unsorted" using assms(3) by (simp add: try_map_Inr_conv)
  have hash: "map (\<lambda>c. mcc_component_hash (rmc_candidate c)) unsorted = map fst hashes"
    using zip by (induction rule: list_all2_induct) (auto simp: reviewed_candidate_Inr candidate_of_def)
  have "distinct (map (\<lambda>c. mcc_component_hash (rmc_candidate c)) unsorted)"
    using btree.keys_distinct [OF hashes(2)] hash by simp
  then have "distinct (map rmc_candidate unsorted)" by (auto simp: distinct_map inj_on_def)
  moreover have "candidate_ok rm bs component c" if mem: "c \<in> set unsorted" for c
  proof -
    obtain i where i: "i < length unsorted" "c = unsorted ! i" using mem by (auto simp: in_set_conv_nth)
    obtain sha sources where pair: "hashes ! i = (sha, sources)" by (cases "hashes ! i")
    then have g: "(sha, sources) \<in> set hashes" "reviewed_candidate (sha, sources) = Inr c"
      using i zip list_all2_lengthD [OF zip] nth_mem [of i hashes] list_all2_nthD2 [OF zip i(1)] by simp_all
    then show ?thesis
      using hashes(3) [OF g(1)] by (auto simp: reviewed_candidate_Inr candidate_ok_def candidate_of_def)
  qed
  moreover have "unsorted \<noteq> []" using zip hashes(1) by auto
  ultimately show ?thesis by (simp add: component_ok_def)
qed

lemma review_components_run:
  assumes "try_fold review_component_step (cs, fs) grouped = Inr (cs', fs')"
    "\<And>component hashes. (component, hashes) \<in> set grouped \<Longrightarrow> (component, hashes) \<in> set all_groups" "groups_ok rm bs all_groups"
  shows "\<exists>new. cs' = cs @ new \<and> fs' = fs @ map conflict_of (filter contested new) \<and>
    map rmp_component new = map fst grouped \<and> (\<forall>reviewed \<in> set new. component_ok rm bs reviewed)"
  using assms(1,2)
proof (induction grouped arbitrary: cs fs)
  case (Cons g grouped)
  obtain component hashes where g: "g = (component, hashes)" by (cases g)
  obtain unsorted where unsorted: "try_map reviewed_candidate hashes = Inr unsorted"
    using Cons.prems(1) by (auto simp: g review_component_step_def result_simps)
  let ?one = "\<lparr>rmp_component = component,
    rmp_candidates = sort_by (\<lambda>l r. cmp_conflict_candidate (rmc_candidate l) (rmc_candidate r)) unsorted\<rparr>"
  have "review_component_step (cs, fs) g = Inr (cs @ [?one], fs @ map conflict_of (filter contested [?one]))"
    using unsorted by (simp add: g review_component_step_def Let_def conflict_of_def)
  then have "try_fold review_component_step (cs @ [?one], fs @ map conflict_of (filter contested [?one])) grouped = Inr (cs', fs')"
    using Cons.prems(1) by (simp only: try_fold.simps result_bind_simps)
  then obtain new where "cs' = (cs @ [?one]) @ new"
    "fs' = (fs @ map conflict_of (filter contested [?one])) @ map conflict_of (filter contested new)"
    "map rmp_component new = map fst grouped" "\<forall>reviewed \<in> set new. component_ok rm bs reviewed"
    using Cons.IH Cons.prems(2) by (meson list.set_intros(2))
  moreover have "component_ok rm bs ?one"
    by (rule reviewed_candidates_ok [OF assms(3) _ unsorted]) (use Cons.prems(2) g in simp)
  ultimately show ?case by (intro exI [of _ "?one # new"]) (simp add: g)
qed simp

subsection \<open>The shape of a review\<close>

definition review_shape ::
  "module_env \<Rightarrow> (str, module_revision_snapshot) btree_map \<Rightarrow> module_merge_review \<Rightarrow> bool" where
  "review_shape env rm r \<longleftrightarrow>
     merge_review_verify env r = Inr () \<and> sorted_wrt (<) (map rmp_component (mrv_components r)) \<and>
     (\<forall>reviewed \<in> set (mrv_components r). component_ok rm (mrv_ordered_bindings r) reviewed) \<and>
     mrv_conflicts r = map conflict_of (filter contested (mrv_components r))"

lemma sort_by_key_sorted: "sorted_wrt (<) (map f xs) \<Longrightarrow> sort_by (cmp_on f) xs = xs"
  by (rule by_key.sort_by_sorted) (auto simp: sorted_wrt_map cmp_on_def elim!: sorted_wrt_mono_rel [rotated])

lemma seal_review_Inr:
  "seal_review env r = Inr r' \<longleftrightarrow> (\<exists>sha. r' = r\<lparr>mrv_review_sha256 := sha\<rparr>) \<and> merge_review_verify env r' = Inr ()"
proof -
  have "review_digest (r\<lparr>mrv_review_sha256 := sha\<rparr>) = review_digest r" for sha by (simp add: review_digest_def)
  then show ?thesis by (auto simp: seal_review_def merge_review_verify_def result_simps)
qed

lemma sorted_map_filter_wrt: "sorted_wrt (<) (map f xs) \<Longrightarrow> sorted_wrt (<) (map f (filter p xs))"
  by (induction xs) auto

lemma review_tail_shape:
  assumes "review_tail env state_revision ctx acts rm parts = Inr review"
  shows "review_shape env rm review \<and> mrv_ordered_bindings review = bpt_ordered parts \<and>
    mrv_activation_binding_ids review = acts"
proof -
  obtain grouped components conflicts where grouped: "try_fold (group_binding_step rm) [] (bpt_ordered parts) = Inr grouped"
    and run: "try_fold review_component_step ([], []) grouped = Inr (components, conflicts)"
    and seal: "seal_review env
       \<lparr>mrv_review_sha256 = [], mrv_state_revision = state_revision, mrv_context = canonical_context ctx,
        mrv_activation_binding_ids = acts, mrv_ordered_bindings = bpt_ordered parts,
        mrv_ignored_bindings = bpt_ignored parts,
        mrv_components = sort_by (cmp_on rmp_component) components,
        mrv_conflicts = sort_by (cmp_on mcf_component) conflicts, mrv_import_approvals = bpt_approvals parts,
        mrv_effective_variable_overrides = compose_variable_overrides (bpt_ordered parts)\<rparr> = Inr review"
    using assms by (auto simp: review_tail_def result_simps)
  have ok: "groups_ok rm (bpt_ordered parts) grouped" using grouped by (rule grouped_ok)
  have shape: "conflicts = map conflict_of (filter contested components)" "map rmp_component components = map fst grouped"
    "\<forall>reviewed \<in> set components. component_ok rm (bpt_ordered parts) reviewed"
    using review_components_run [OF run _ ok] by auto
  have sorted: "sorted_wrt (<) (map rmp_component components)"
    using ok shape(2) by (simp add: groups_ok_def bt_inv_def)
  have key: "map mcf_component conflicts = map rmp_component (filter contested components)"
    unfolding shape(1) by (simp add: conflict_of_def comp_def)
  have "sorted_wrt (<) (map mcf_component conflicts)" unfolding key by (rule sorted_map_filter_wrt [OF sorted])
  then have "sort_by (cmp_on mcf_component) conflicts = conflicts" by (rule sort_by_key_sorted)
  with seal sorted shape sort_by_key_sorted [OF sorted] show ?thesis
    by (auto simp: seal_review_Inr review_shape_def)
qed

lemma review_shaped:
  assumes "review_module_merge_internal env state_revision ctx bs rs acts = Inr review"
  shows "review_shape env (revision_table rs) review"
    "set (mrv_ordered_bindings review) = set (accepted_bindings (bt_set acts) ctx bs)"
    "mrv_activation_binding_ids review = bt_set acts"
  using assms review_tail_shape unfolding review_iff by (force simp: sorted_partition_def)+

subsection \<open>Supported capabilities\<close>

lemma dedup_sorted_strict: "sorted xs \<Longrightarrow> sorted_wrt (<) (dedup (xs :: 'a::linorder list))"
  by (induction xs rule: dedup.induct) (auto simp: less_le)

lemma dedup_sort_cong: "set xs = set ys \<Longrightarrow> dedup (sort_by cmp xs) = dedup (sort_by cmp (ys :: 'a::linorder list))"
  by (rule strict_sorted_equal) (simp_all add: dedup_sorted_strict sorted_sort_by_cmp)

lemma binding_applies_capabilities [simp]:
  "binding_applies b (ctx\<lparr>mrc_supported_capabilities := cs\<rparr>) = binding_applies b ctx"
  by (cases "mb_scope b") (simp_all add: binding_applies.simps)

lemma review_capabilities:
  assumes "set cs = set (mrc_supported_capabilities ctx)"
  shows "review_module_merge_internal env state_revision (ctx\<lparr>mrc_supported_capabilities := cs\<rparr>) bs rs acts =
    review_module_merge_internal env state_revision ctx bs rs acts"
proof -
  let ?ctx = "ctx\<lparr>mrc_supported_capabilities := cs\<rparr>"
  have canonical: "canonical_context ?ctx = canonical_context ctx"
    using dedup_sort_cong [OF assms] by (cases ctx) (simp add: canonical_context_def)
  have limits: "check_review_limits ?ctx bs rs acts = check_review_limits ctx bs rs acts"
    by (simp add: check_review_limits_def validate_resolution_context_def)
  have accept: "accept_binding ?ctx rm b = accept_binding ctx rm b" for rm b
    using assms by (simp add: accept_binding_def)
  have reason: "ignored_reason ids ?ctx b = ignored_reason ids ctx b" for ids b by (simp add: ignored_reason_def)
  have step: "partition_step ids ?ctx rm = partition_step ids ctx rm" for ids rm
    by (intro ext) (simp only: partition_step_def accept reason)
  show ?thesis unfolding review_module_merge_internal_def canonical limits step ..
qed

subsection \<open>Accepted bindings\<close>

definition import_covers :: "module_binding \<Rightarrow> module_revision_snapshot \<Rightarrow> component_hash \<Rightarrow> bool" where
  "import_covers b snapshot h \<longleftrightarrow>
     (\<exists>evidence authority. mrs_import_approval snapshot = Some evidence \<and>
        mb_package_import_approval_id b = Some (mie_approval_id evidence) \<and> identifies_imported_revision evidence snapshot \<and>
        authority \<in> set (mie_component_authorities evidence) \<and> mia_component authority = ch_component h \<and>
        mia_component_sha256 authority = ch_sha256 h \<and>
        mia_package_component_id authority \<in> set (mie_selected_package_component_ids evidence))"

abbreviation is_imported :: "module_revision_snapshot \<Rightarrow> bool" where
  "is_imported snapshot \<equiv> pv_source_kind (pkm_provenance (cm_metadata (mrs_module snapshot))) = ImportedPackage"

lemma import_approval_covers:
  assumes "validate_module_import_approval b snapshot = Inr e" "is_imported snapshot"
    "h \<in> set (cr_component_hashes (mrs_revision snapshot))"
  shows "import_covers b snapshot h"
proof -
  obtain evidence where evidence: "mrs_import_approval snapshot = Some evidence"
    "validate_import_evidence b snapshot evidence = Inr ()"
    using assms(1,2) by (auto simp: validate_module_import_approval_def result_simps)
  then have "validate_component_authority (MME_InvalidImportApproval (mb_id b)) evidence h = Inr ()"
    and binding: "mb_package_import_approval_id b = Some (mie_approval_id evidence)" "identifies_imported_revision evidence snapshot"
    using assms(3) by (auto simp: validate_import_evidence_def Let_def result_simps)
  then obtain authority where found: "find (\<lambda>a. mia_component a = ch_component h) (mie_component_authorities evidence) = Some authority"
    and exact: "mia_component_sha256 authority = ch_sha256 h"
      "mia_package_component_id authority \<in> set (mie_selected_package_component_ids evidence)"
    by (auto simp: validate_component_authority_def result_simps)
  have "authority \<in> set (mie_component_authorities evidence)" "mia_component authority = ch_component h"
    using found by (auto simp: find_Some_iff)
  then show ?thesis using evidence(1) binding exact unfolding import_covers_def by blast
qed

lemma accept_binding_facts:
  assumes "is_ok (accept_binding ctx rm b)"
  shows "\<exists>snapshot e. bt_get rm (mb_revision_id b) = Some snapshot \<and> mb_module_id b = cm_id (mrs_module snapshot) \<and>
    set (cm_required_capabilities (mrs_module snapshot)) \<subseteq> set (mrc_supported_capabilities ctx) \<and>
    validate_module_import_approval b snapshot = Inr e"
  using assms by (auto simp: is_ok_conv accept_binding_def result_simps)

lemma revision_table_get:
  assumes "bt_get (revision_table rs) i = Some snapshot"
  shows "snapshot \<in> set rs \<and> revision_id snapshot = i"
  using assms map_of_SomeD [of "rev (map (\<lambda>r. (revision_id r, r)) rs)" i snapshot] by (auto simp: bt_get_collect)

lemma sourced_authorised:
  assumes "review_module_merge_internal env state_revision ctx bs rs acts = Inr review"
    "sourced (revision_table rs) (mrv_ordered_bindings review) component sha source"
  shows "\<exists>b \<in> set bs. \<exists>snapshot \<in> set rs. \<exists>ordinal. source = candidate_source b snapshot component ordinal \<and>
    mb_revision_id b = revision_id snapshot \<and> mb_module_id b = cm_id (mrs_module snapshot) \<and>
    (mb_id b \<in> set acts \<or> mb_enabled b \<and> mb_approved b) \<and> binding_applies b ctx \<and>
    set (cm_required_capabilities (mrs_module snapshot)) \<subseteq> set (mrc_supported_capabilities ctx) \<and>
    \<lparr>ch_component = component, ch_sha256 = sha\<rparr> \<in> set (cr_component_hashes (mrs_revision snapshot)) \<and>
    (is_imported snapshot \<longrightarrow> import_covers b snapshot \<lparr>ch_component = component, ch_sha256 = sha\<rparr>)"
proof -
  obtain b snapshot ordinal where b: "b \<in> set (mrv_ordered_bindings review)"
    and get: "bt_get (revision_table rs) (mb_revision_id b) = Some snapshot"
    and source: "source = candidate_source b snapshot component ordinal"
    and hash: "\<lparr>ch_component = component, ch_sha256 = sha\<rparr> \<in> set (cr_component_hashes (mrs_revision snapshot))"
    using assms(2) by (auto simp: sourced_def)
  have accepted: "b \<in> set bs" "ignored_reason (bt_set acts) ctx b = None"
    using b review_shaped(2) [OF assms(1)] by auto
  then have "is_ok (accept_binding ctx (revision_table rs) b)" using assms(1) by (simp add: review_iff)
  then obtain e where facts: "mb_module_id b = cm_id (mrs_module snapshot)"
    "set (cm_required_capabilities (mrs_module snapshot)) \<subseteq> set (mrc_supported_capabilities ctx)"
    "validate_module_import_approval b snapshot = Inr e"
    using accept_binding_facts get by fastforce
  moreover have "(mb_id b \<in> set acts \<or> mb_enabled b \<and> mb_approved b) \<and> binding_applies b ctx"
    using accepted(2) by (auto simp: ignored_reason_def Let_def split: if_splits)
  ultimately show ?thesis
    using accepted(1) source hash revision_table_get [OF get] import_approval_covers [OF facts(3)]
    by (intro bexI [of _ b] bexI [of _ snapshot] exI [of _ ordinal]) auto
qed

end
