(* ===== verification/Module_Resolution_Facts.thy ===== *)
theory Module_Resolution_Facts
  imports Module_Facts
begin

section \<open>Content modules: lemmas on resolution\<close>

text \<open>
  Closed forms of the loops of \<open>resolve_module_merge\<close>, and the reconstruction of the choices of a plan.
\<close>

subsection \<open>Choices\<close>

definition resolved_of :: "reviewed_module_component \<Rightarrow> reviewed_module_candidate \<Rightarrow> resolved_module_component" where
  "resolved_of reviewed candidate =
     \<lparr>rsc_component = rmp_component reviewed, rsc_sha256 = mcc_component_hash (rmc_candidate candidate),
      rsc_selected_source = last (rmc_sources candidate), rsc_coalesced_sources = rmc_sources candidate,
      rsc_runtime_enabled = mcs_runtime_enabled_intent (last (rmc_sources candidate))\<rparr>"

type_synonym choice = "reviewed_module_component \<Rightarrow> reviewed_module_candidate option"

definition picked :: "choice \<Rightarrow> reviewed_module_component list \<Rightarrow> resolved_module_component list" where
  "picked ch reviewed = map (\<lambda>r. resolved_of r (the (ch r))) (filter (\<lambda>r. ch r \<noteq> None) reviewed)"

definition left_out :: "choice \<Rightarrow> reviewed_module_component list \<Rightarrow> module_component_ref list" where
  "left_out ch reviewed = map rmp_component (filter (\<lambda>r. ch r = None) reviewed)"

definition choice_of ::
  "(module_component_ref, module_conflict) btree_map \<Rightarrow> (module_component_ref, module_conflict_resolution) btree_map \<Rightarrow> choice" where
  "choice_of cm rs reviewed = (case select_candidate cm rs reviewed of Inr selected \<Rightarrow> selected | Inl _ \<Rightarrow> None)"

definition choice_ok :: "reviewed_module_candidate option merge_result \<Rightarrow> bool" where
  "choice_ok selection \<longleftrightarrow> (\<exists>selected. selection = Inr selected \<and> (\<forall>c. selected = Some c \<longrightarrow> rmc_sources c \<noteq> []))"

lemma resolve_components_iff:
  "try_fold (resolve_component_step cm rs) (cs, os) reviewed = Inr (cs', os') \<longleftrightarrow>
     (\<forall>r \<in> set reviewed. choice_ok (select_candidate cm rs r)) \<and>
     cs' = cs @ picked (choice_of cm rs) reviewed \<and> os' = os @ left_out (choice_of cm rs) reviewed"
proof (induction reviewed arbitrary: cs os)
  case (Cons r reviewed)
  have step: "resolve_component_step cm rs (cs, os) r = Inr (cs', os') \<longleftrightarrow> choice_ok (select_candidate cm rs r) \<and>
      cs' = cs @ picked (choice_of cm rs) [r] \<and> os' = os @ left_out (choice_of cm rs) [r]" for cs' os'
    by (cases "select_candidate cm rs r")
      (auto simp: resolve_component_step_def choice_ok_def choice_of_def picked_def left_out_def resolved_of_def Let_def
        split: option.splits)
  have "try_fold (resolve_component_step cm rs) (cs, os) (r # reviewed) = Inr (cs', os') \<longleftrightarrow>
      (\<exists>ds ps. resolve_component_step cm rs (cs, os) r = Inr (ds, ps) \<and>
        try_fold (resolve_component_step cm rs) (ds, ps) reviewed = Inr (cs', os'))"
    by (auto simp: result_simps)
  then show ?case unfolding step Cons.IH by (auto simp: picked_def left_out_def)
qed (auto simp: picked_def left_out_def)

lemma resolutions_iff:
  assumes "bt_inv m"
  shows "try_fold (resolution_step cm) m rs = Inr m' \<longleftrightarrow>
     distinct (map mcr_component rs) \<and> fst ` set m \<inter> mcr_component ` set rs = {} \<and>
     (\<forall>r \<in> set rs. bt_get cm (mcr_component r) \<noteq> None) \<and>
     m' = fold (\<lambda>(k, v). bt_insert k v) (map (\<lambda>r. (mcr_component r, r)) rs) m"
  using assms
proof (induction rs arbitrary: m)
  case (Cons r rs)
  have step: "resolution_step cm m r = Inr n \<longleftrightarrow>
      mcr_component r \<notin> fst ` set m \<and> bt_get cm (mcr_component r) \<noteq> None \<and> n = bt_insert (mcr_component r) r m" for n
    by (auto simp: resolution_step_def map_of_eq_None_iff)
  have "bt_inv (bt_insert (mcr_component r) r m)" using Cons.prems by (rule bt_inv_insert)
  note IH = Cons.IH [OF this]
  show ?case by (auto simp: result_simps step IH)
qed auto

abbreviation resolution_table :: "module_conflict_resolution list \<Rightarrow> (module_component_ref, module_conflict_resolution) btree_map" where
  "resolution_table rs \<equiv> bt_collect (map (\<lambda>r. (mcr_component r, r)) rs)"

abbreviation conflict_table :: "module_conflict list \<Rightarrow> (module_component_ref, module_conflict) btree_map" where
  "conflict_table cs \<equiv> bt_collect (map (\<lambda>c. (mcf_component c, c)) cs)"

lemma resolutions_collect:
  "try_fold (resolution_step cm) [] rs = Inr m \<longleftrightarrow>
     distinct (map mcr_component rs) \<and> (\<forall>r \<in> set rs. bt_get cm (mcr_component r) \<noteq> None) \<and> m = resolution_table rs"
  using resolutions_iff [OF btree.inv_empty, of cm rs m] by (auto simp: bt_collect_def)

lemma seal_plan_Inr:
  "seal_plan env p = Inr p' \<longleftrightarrow> (\<exists>sha. p' = p\<lparr>rmpl_plan_sha256 := sha\<rparr>) \<and> resolved_plan_verify env p' = Inr ()"
proof -
  have "plan_digest (p\<lparr>rmpl_plan_sha256 := sha\<rparr>) = plan_digest p" for sha by (simp add: plan_digest_def)
  then show ?thesis by (auto simp: seal_plan_def resolved_plan_verify_def result_simps)
qed

definition plan_of :: "module_merge_review \<Rightarrow> choice \<Rightarrow> resolved_module_plan" where
  "plan_of review ch =
     \<lparr>rmpl_plan_sha256 = [], rmpl_review_sha256 = mrv_review_sha256 review,
      rmpl_expected_state_revision = mrv_state_revision review,
      rmpl_activation_binding_ids = mrv_activation_binding_ids review,
      rmpl_ordered_binding_ids = map mb_id (mrv_ordered_bindings review),
      rmpl_components = sort_by resolved_component_order (picked ch (mrv_components review)),
      rmpl_omitted_components = sort_by cmp (left_out ch (mrv_components review)),
      rmpl_import_approvals = mrv_import_approvals review,
      rmpl_effective_variable_overrides = mrv_effective_variable_overrides review\<rparr>"

lemma resolve_iff:
  "resolve_module_merge env review rset = Inr plan \<longleftrightarrow>
     (let cm = conflict_table (mrv_conflicts review); rs = resolution_table (mms_resolutions rset) in
      merge_review_verify env review = Inr () \<and> mms_expected_review_sha256 rset = mrv_review_sha256 review \<and>
      distinct (map mcr_component (mms_resolutions rset)) \<and>
      (\<forall>r \<in> set (mms_resolutions rset). bt_get cm (mcr_component r) \<noteq> None) \<and>
      (\<forall>r \<in> set (mrv_components review). choice_ok (select_candidate cm rs r)) \<and>
      check_all_resolved (mrv_conflicts review) rs = Inr () \<and>
      seal_plan env (plan_of review (choice_of cm rs)) = Inr plan)"
proof -
  have tail: "result_bind (try_fold (resolve_component_step cm rs) ([], []) reviewed)
        (\<lambda>(components, omitted). F components omitted) = Inr plan \<longleftrightarrow>
      (\<forall>r \<in> set reviewed. choice_ok (select_candidate cm rs r)) \<and>
      F (picked (choice_of cm rs) reviewed) (left_out (choice_of cm rs) reviewed) = Inr plan" for cm rs reviewed F
    using resolve_components_iff [of cm rs "[]" "[]" reviewed] by (auto simp: result_simps)
  show ?thesis
    unfolding resolve_module_merge_def Let_def
    by (auto simp: result_bind_Inr_conv [where r = "merge_review_verify env review"] result_bind_Inr_conv [where r = "guard_err _ _"]
        result_bind_Inr_conv [where r = "try_fold (resolution_step _) _ _"] result_bind_Inr_conv [where r = "check_all_resolved _ _"]
        resolutions_collect tail plan_of_def)
qed

subsection \<open>Choices on a shaped review\<close>

lemma shape_distinct:
  assumes "review_shape env rm review"
  shows "distinct (map rmp_component (mrv_components review))"
    "distinct (map mcf_component (mrv_conflicts review))"
proof -
  show d: "distinct (map rmp_component (mrv_components review))"
    using assms by (auto simp: review_shape_def strict_sorted_iff)
  have "map mcf_component (mrv_conflicts review) = map rmp_component (filter contested (mrv_components review))"
    using assms by (simp add: review_shape_def conflict_of_def comp_def)
  then show "distinct (map mcf_component (mrv_conflicts review))" using d by (simp add: distinct_map_filter)
qed

lemma table_get:
  assumes "distinct (map key xs)"
  shows "bt_get (bt_collect (map (\<lambda>x. (key x, x)) xs)) k = Some x \<longleftrightarrow> x \<in> set xs \<and> key x = k"
proof -
  have d: "distinct (map fst (map (\<lambda>x. (key x, x)) xs))" using assms by (simp add: comp_def)
  then show ?thesis
    using map_of_eq_Some_iff [OF d, of k x] by (auto simp: bt_get_collect map_of_rev_distinct)
qed

lemma conflict_table_get:
  assumes "review_shape env rm review" "r \<in> set (mrv_components review)" "contested r"
  shows "bt_get (conflict_table (mrv_conflicts review)) (rmp_component r) = Some (conflict_of r)"
  using assms shape_distinct(2) [OF assms(1)] by (subst table_get) (auto simp: review_shape_def conflict_of_def)

lemma length_bt_collect: "distinct (map fst kvs) \<Longrightarrow> length (bt_collect kvs) = length kvs"
proof -
  assume d: "distinct (map fst kvs)"
  have "length (bt_collect kvs) = card (fst ` set (bt_collect kvs))"
    using btree.keys_distinct [OF bt_inv_collect, of kvs] by (metis distinct_card length_map set_map)
  also have "\<dots> = card (fst ` set kvs)" using keys_bt_collect [of kvs] by simp
  also have "\<dots> = length kvs" using d by (metis distinct_card length_map set_map)
  finally show ?thesis .
qed

lemma select_uncontested: "component_ok rm bs r \<Longrightarrow> \<not> contested r \<Longrightarrow>
    \<exists>c. rmp_candidates r = [c] \<and> select_candidate cm rs r = Inr (Some c)"
  by (cases "rmp_candidates r") (auto simp: component_ok_def select_candidate_def)

lemma select_contested:
  "contested r \<Longrightarrow> select_candidate cm rs r =
     result_bind (ok_or (MME_InvalidReview (lit ''multi-candidate component has no conflict review'')) (bt_get cm (rmp_component r))) (\<lambda>conflict.
     result_bind (ok_or (MME_UnresolvedConflict (rmp_component r)) (bt_get rs (rmp_component r))) (\<lambda>resolution.
     result_bind (guard_err (sort_by cmp_conflict_candidate (mcr_expected_candidates resolution) \<noteq>
       sort_by cmp_conflict_candidate (mcf_candidates conflict)) (MME_StaleConflictCandidates (rmp_component r))) (\<lambda>_.
     case mcr_selected resolution of
       None \<Rightarrow> Inr None
     | Some selected \<Rightarrow> result_bind (ok_or (MME_UnknownConflictCandidate (rmp_component r))
         (find (\<lambda>candidate. rmc_candidate candidate = selected) (rmp_candidates r))) (\<lambda>candidate. Inr (Some candidate)))))"
  by (auto simp: select_candidate_def split: list.splits)

lemma select_member: "select_candidate cm rs r = Inr (Some c) \<Longrightarrow> c \<in> set (rmp_candidates r)"
proof (cases "contested r")
  case True
  assume "select_candidate cm rs r = Inr (Some c)"
  then show ?thesis
    unfolding select_contested [OF True] by (auto simp: result_simps find_Some_iff split: option.splits)
next
  case False
  assume "select_candidate cm rs r = Inr (Some c)"
  then show ?thesis
    using False by (cases "rmp_candidates r") (auto simp: select_candidate_def result_simps split: option.splits)
qed

lemma sort_candidates_eq:
  "sort_by cmp_conflict_candidate xs = sort_by cmp_conflict_candidate ys \<longleftrightarrow> mset xs = mset ys"
  using total_comparator.sort_by_perm [OF total_candidate_order, of xs ys] mset_sort_by
  by (metis cmp_conflict_candidate_Equal)

text \<open>What a resolution says of a contested component.\<close>

lemma select_contested_shaped:
  assumes "review_shape env rm review" "r \<in> set (mrv_components review)" "contested r" "distinct (map mcr_component rs)"
  shows "select_candidate (conflict_table (mrv_conflicts review)) (resolution_table rs) r = Inr selected \<longleftrightarrow>
    (\<exists>resolution \<in> set rs. mcr_component resolution = rmp_component r \<and>
       mset (mcr_expected_candidates resolution) = mset (map rmc_candidate (rmp_candidates r)) \<and>
       mcr_selected resolution = map_option rmc_candidate selected \<and> set_option selected \<subseteq> set (rmp_candidates r))"
proof -
  have "component_ok rm (mrv_ordered_bindings review) r" using assms(1,2) by (auto simp: review_shape_def)
  then have d: "distinct (map rmc_candidate (rmp_candidates r))" by (simp add: component_ok_def)
  have "select_candidate (conflict_table (mrv_conflicts review)) (resolution_table rs) r = Inr selected \<longleftrightarrow>
    (\<exists>resolution. bt_get (resolution_table rs) (rmp_component r) = Some resolution \<and>
       mset (mcr_expected_candidates resolution) = mset (map rmc_candidate (rmp_candidates r)) \<and>
       mcr_selected resolution = map_option rmc_candidate selected \<and> set_option selected \<subseteq> set (rmp_candidates r))"
    unfolding select_contested [OF assms(3)] conflict_table_get [OF assms(1-3)]
    by (cases "bt_get (resolution_table rs) (rmp_component r)"; cases selected)
      (auto simp: result_simps sort_candidates_eq conflict_of_def find_map_distinct [OF d] split: option.splits)
  then show ?thesis by (auto simp: table_get [OF assms(4)])
qed

subsection \<open>Plans of a shaped review\<close>

definition choice_matches :: "module_merge_review \<Rightarrow> choice \<Rightarrow> bool" where
  "choice_matches review ch \<longleftrightarrow>
     (\<forall>r \<in> set (mrv_components review). (ch r = None \<longrightarrow> contested r) \<and> (\<forall>c. ch r = Some c \<longrightarrow> c \<in> set (rmp_candidates r)))"

lemma resolve_choice:
  assumes "review_shape env rm review" "resolve_module_merge env review rset = Inr plan"
  shows "\<exists>ch. choice_matches review ch \<and> seal_plan env (plan_of review ch) = Inr plan \<and>
    (\<forall>r \<in> set (mrv_components review). contested r \<longrightarrow>
       (\<exists>resolution \<in> set (mms_resolutions rset). mcr_component resolution = rmp_component r \<and>
          mset (mcr_expected_candidates resolution) = mset (map rmc_candidate (rmp_candidates r)) \<and>
          mcr_selected resolution = map_option rmc_candidate (ch r)))"
proof -
  let ?cm = "conflict_table (mrv_conflicts review)" and ?rs = "resolution_table (mms_resolutions rset)"
  let ?ch = "choice_of ?cm ?rs"
  have run: "distinct (map mcr_component (mms_resolutions rset))"
    "\<And>r. r \<in> set (mrv_components review) \<Longrightarrow> choice_ok (select_candidate ?cm ?rs r)"
    "seal_plan env (plan_of review ?ch) = Inr plan"
    using assms(2) unfolding resolve_iff Let_def by auto
  have selected: "select_candidate ?cm ?rs r = Inr (?ch r)" if "r \<in> set (mrv_components review)" for r
    using run(2) [OF that] by (auto simp: choice_ok_def choice_of_def)
  have ok: "component_ok rm (mrv_ordered_bindings review) r" if "r \<in> set (mrv_components review)" for r
    using assms(1) that by (simp add: review_shape_def)
  have "choice_matches review ?ch"
    unfolding choice_matches_def
  proof (intro ballI conjI impI allI)
    fix r assume r: "r \<in> set (mrv_components review)"
    show "contested r" if "?ch r = None"
      using select_uncontested [OF ok [OF r], of ?cm ?rs] selected [OF r] that by auto
    show "c \<in> set (rmp_candidates r)" if "?ch r = Some c" for c
      using select_member [of ?cm ?rs r c] selected [OF r] that by simp
  qed
  moreover have "\<exists>resolution \<in> set (mms_resolutions rset). mcr_component resolution = rmp_component r \<and>
      mset (mcr_expected_candidates resolution) = mset (map rmc_candidate (rmp_candidates r)) \<and>
      mcr_selected resolution = map_option rmc_candidate (?ch r)"
    if "r \<in> set (mrv_components review)" "contested r" for r
    using select_contested_shaped [OF assms(1) that run(1), of "?ch r"] selected [OF that(1)] by auto
  ultimately show ?thesis using run(3) by blast
qed

definition resolution_for :: "choice \<Rightarrow> reviewed_module_component \<Rightarrow> module_conflict_resolution" where
  "resolution_for ch r =
     \<lparr>mcr_component = rmp_component r, mcr_expected_candidates = map rmc_candidate (rmp_candidates r),
      mcr_selected = map_option rmc_candidate (ch r)\<rparr>"

lemma plan_of_lookup:
  assumes "review_shape env rm review" "choice_matches review ch" "r \<in> set (mrv_components review)"
  shows "bt_get (bt_collect (map (\<lambda>c. (rsc_component c, c)) (rmpl_components (plan_of review ch)))) (rmp_component r) =
      map_option (resolved_of r) (ch r)"
    and "rmp_component r \<in> set (rmpl_omitted_components (plan_of review ch)) \<longleftrightarrow> ch r = None"
proof -
  have d: "distinct (map rmp_component (mrv_components review))" using shape_distinct [OF assms(1)] by simp
  then have unique: "r' = r" if "r' \<in> set (mrv_components review)" "rmp_component r' = rmp_component r" for r'
    using that assms(3) by (auto simp: distinct_map inj_on_def)
  then show "rmp_component r \<in> set (rmpl_omitted_components (plan_of review ch)) \<longleftrightarrow> ch r = None"
    using assms(3) by (auto simp: plan_of_def left_out_def)
  let ?cs = "rmpl_components (plan_of review ch)"
  have "map rsc_component (picked ch (mrv_components review)) = map rmp_component (filter (\<lambda>r. ch r \<noteq> None) (mrv_components review))"
    by (simp add: picked_def resolved_of_def comp_def)
  then have cs: "distinct (map rsc_component ?cs)" using d by (simp add: plan_of_def distinct_map_filter)
  have mem: "x \<in> set ?cs \<longleftrightarrow> (\<exists>r' \<in> set (mrv_components review). \<exists>c. ch r' = Some c \<and> x = resolved_of r' c)" for x
    by (force simp: plan_of_def picked_def)
  have "bt_get (bt_collect (map (\<lambda>c. (rsc_component c, c)) ?cs)) (rmp_component r) = Some x \<longleftrightarrow>
      map_option (resolved_of r) (ch r) = Some x" for x
  proof -
    have "rsc_component (resolved_of r' c) = rmp_component r'" for r' c by (simp add: resolved_of_def)
    then show ?thesis
      unfolding table_get [OF cs] mem using assms(3) by (auto dest: unique)
  qed
  then show "bt_get (bt_collect (map (\<lambda>c. (rsc_component c, c)) ?cs)) (rmp_component r) = map_option (resolved_of r) (ch r)"
    by (metis option.exhaust)
qed

subsection \<open>Reconstruction of the choices\<close>

definition choices_set :: "module_merge_review \<Rightarrow> choice \<Rightarrow> module_merge_resolution_set" where
  "choices_set review ch =
     \<lparr>mms_expected_review_sha256 = mrv_review_sha256 review,
      mms_resolutions = map (resolution_for ch) (filter contested (mrv_components review))\<rparr>"

lemma selection_resolution_of:
  assumes "review_shape env rm review" "choice_matches review ch" "r \<in> set (mrv_components review)" "contested r"
    "rmpl_components plan = rmpl_components (plan_of review ch)"
    "rmpl_omitted_components plan = rmpl_omitted_components (plan_of review ch)"
  shows "selection_resolution plan (conflict_of r) = Inr (resolution_for ch r)"
proof -
  note lookup = plan_of_lookup [OF assms(1-3), folded assms(5,6)]
  have rebuilt: "\<lparr>mcc_module_id = mcs_module_id (rsc_selected_source (resolved_of r c)),
      mcc_revision_id = mcs_revision_id (rsc_selected_source (resolved_of r c)),
      mcc_component_hash = rsc_sha256 (resolved_of r c)\<rparr> = rmc_candidate c" and mem: "c \<in> set (rmp_candidates r)"
    if "ch r = Some c" for c
  proof -
    show "c \<in> set (rmp_candidates r)" using assms(2,3) that by (auto simp: choice_matches_def)
    then have "candidate_ok rm (mrv_ordered_bindings review) (rmp_component r) c"
      using assms(1,3) by (auto simp: review_shape_def component_ok_def)
    then have "rmc_candidate c = candidate_of (mcc_component_hash (rmc_candidate c)) (last (rmc_sources c))"
      by (simp add: candidate_ok_def)
    then show "\<lparr>mcc_module_id = mcs_module_id (rsc_selected_source (resolved_of r c)),
      mcc_revision_id = mcs_revision_id (rsc_selected_source (resolved_of r c)),
      mcc_component_hash = rsc_sha256 (resolved_of r c)\<rparr> = rmc_candidate c"
      by (simp add: candidate_of_def resolved_of_def)
  qed
  have component: "mcf_component (conflict_of r) = rmp_component r" by (simp add: conflict_of_def)
  show ?thesis
    unfolding selection_resolution_def component lookup Let_def
    using rebuilt mem
    by (cases "ch r") (auto simp: resolution_for_def conflict_of_def option.map_comp comp_def simp del: option.map_comp)
qed

lemma selection_set_of:
  assumes "review_shape env rm review" "choice_matches review ch"
    "rmpl_components plan = rmpl_components (plan_of review ch)"
    "rmpl_omitted_components plan = rmpl_omitted_components (plan_of review ch)"
  shows "module_merge_resolution_set_for_selection review plan = Inr (choices_set review ch)"
proof -
  have "list_all2 (\<lambda>x y. selection_resolution plan x = Inr y) (map conflict_of rs) (map (resolution_for ch) rs)"
    if "set rs \<subseteq> {r \<in> set (mrv_components review). contested r}" for rs
    using that by (induction rs) (auto intro: selection_resolution_of [OF assms(1,2) _ _ assms(3,4)])
  from this [of "filter contested (mrv_components review)"]
  have "try_map (selection_resolution plan) (mrv_conflicts review) =
      Inr (map (resolution_for ch) (filter contested (mrv_components review)))"
    using assms(1) by (auto simp: review_shape_def try_map_Inr_conv)
  then show ?thesis by (simp add: module_merge_resolution_set_for_selection_def choices_set_def)
qed

lemma resolve_choices:
  assumes "review_shape env rm review" "choice_matches review ch" "seal_plan env (plan_of review ch) = Inr plan"
  shows "resolve_module_merge env review (choices_set review ch) = Inr plan"
proof -
  let ?res = "map (resolution_for ch) (filter contested (mrv_components review))"
  let ?cm = "conflict_table (mrv_conflicts review)" and ?rs = "resolution_table ?res"
  have keys: "map mcr_component ?res = map mcf_component (mrv_conflicts review)"
    using assms(1) by (simp add: review_shape_def resolution_for_def conflict_of_def comp_def)
  have d: "distinct (map mcr_component ?res)" unfolding keys by (rule shape_distinct(2) [OF assms(1)])
  have sel: "select_candidate ?cm ?rs r = Inr (ch r)" if r: "r \<in> set (mrv_components review)" for r
  proof (cases "contested r")
    case True
    have "set_option (ch r) \<subseteq> set (rmp_candidates r)" using assms(2) r by (auto simp: choice_matches_def)
    then show ?thesis
      using r True by (subst select_contested_shaped [OF assms(1) r True d]) (force simp: resolution_for_def)
  next
    case False
    have ok: "component_ok rm (mrv_ordered_bindings review) r" using assms(1) r by (simp add: review_shape_def)
    then obtain c where c: "rmp_candidates r = [c]" "select_candidate ?cm ?rs r = Inr (Some c)"
      using select_uncontested False by blast
    moreover have "ch r = Some c" using assms(2) r False c(1) by (cases "ch r") (auto simp: choice_matches_def)
    ultimately show ?thesis by simp
  qed
  have sources: "rmc_sources c \<noteq> []" if "r \<in> set (mrv_components review)" "ch r = Some c" for r c
    using assms(1,2) that by (auto simp: choice_matches_def review_shape_def component_ok_def candidate_ok_def)
  have "picked (choice_of ?cm ?rs) (mrv_components review) = picked ch (mrv_components review)"
    "left_out (choice_of ?cm ?rs) (mrv_components review) = left_out ch (mrv_components review)"
    using sel by (auto simp: picked_def left_out_def choice_of_def intro!: map_cong filter_cong)
  then have plan: "seal_plan env (plan_of review (choice_of ?cm ?rs)) = Inr plan" using assms(3) by (simp add: plan_of_def)
  have "length ?rs = length (mrv_conflicts review)"
    using d keys by (subst length_bt_collect) (auto simp: comp_def dest: arg_cong [where f = length])
  then have counted: "check_all_resolved (mrv_conflicts review) ?rs = Inr ()" by (simp add: check_all_resolved_def)
  have known: "bt_get ?cm (mcr_component r) \<noteq> None" if "r \<in> set ?res" for r
    using that conflict_table_get [OF assms(1)] by (auto simp: resolution_for_def)
  show ?thesis
    unfolding resolve_iff Let_def
    using assms(1) d plan counted known sel sources by (auto simp: choices_set_def review_shape_def choice_ok_def)
qed

lemma plan_component_sources:
  assumes "review_shape env rm review" "resolve_module_merge env review rset = Inr plan" "c \<in> set (rmpl_components plan)"
  shows "rsc_coalesced_sources c \<noteq> []"
proof -
  obtain ch where ch: "choice_matches review ch" "seal_plan env (plan_of review ch) = Inr plan"
    using resolve_choice [OF assms(1,2)] by blast
  then obtain r candidate where "r \<in> set (mrv_components review)" "ch r = Some candidate" "c = resolved_of r candidate"
    using assms(3) by (auto simp: seal_plan_Inr plan_of_def picked_def)
  then show ?thesis
    using ch(1) assms(1) by (auto simp: choice_matches_def review_shape_def component_ok_def candidate_ok_def resolved_of_def)
qed

lemma plan_decisions:
  assumes "seal_plan env (plan_of review ch) = Inr plan"
  shows "mset (map rsc_component (rmpl_components plan) @ rmpl_omitted_components plan) =
      mset (map rmp_component (mrv_components review))"
    and "\<And>r candidate. r \<in> set (mrv_components review) \<Longrightarrow> ch r = Some candidate \<Longrightarrow>
      \<exists>c \<in> set (rmpl_components plan). rsc_component c = rmp_component r \<and>
        rsc_sha256 c = mcc_component_hash (rmc_candidate candidate)"
    and "\<And>r. r \<in> set (mrv_components review) \<Longrightarrow> ch r = None \<Longrightarrow> rmp_component r \<in> set (rmpl_omitted_components plan)"
proof -
  have plan: "mset (rmpl_components plan) = mset (picked ch (mrv_components review))"
    "mset (rmpl_omitted_components plan) = mset (left_out ch (mrv_components review))"
    using assms by (auto simp: seal_plan_Inr plan_of_def)
  have "mset (map rsc_component (picked ch rs) @ left_out ch rs) = mset (map rmp_component rs)" for rs
    by (induction rs) (auto simp: picked_def left_out_def resolved_of_def)
  then show "mset (map rsc_component (rmpl_components plan) @ rmpl_omitted_components plan) =
      mset (map rmp_component (mrv_components review))"
    using plan by simp
  fix r assume r: "r \<in> set (mrv_components review)"
  show "rmp_component r \<in> set (rmpl_omitted_components plan)" if "ch r = None"
    using r that mset_eq_setD [OF plan(2)] by (auto simp: left_out_def)
  fix candidate assume "ch r = Some candidate"
  then have "resolved_of r candidate \<in> set (picked ch (mrv_components review))" using r by (force simp: picked_def)
  then show "\<exists>c \<in> set (rmpl_components plan). rsc_component c = rmp_component r \<and>
      rsc_sha256 c = mcc_component_hash (rmc_candidate candidate)"
    using mset_eq_setD [OF plan(1)] by (intro bexI [of _ "resolved_of r candidate"]) (simp_all add: resolved_of_def)
qed

subsection \<open>Runtime plans\<close>

lemma build_runtime_plan:
  "build_applied_module_runtime_plan env approval derived_from review plan = Inr applied \<Longrightarrow>
     runtime_plan_verify env applied = Inr () \<and> arp_source_approval applied = approval \<and> arp_review applied = review \<and>
     arp_plan applied = plan \<and> arp_derived_from_plan_sha256 applied = derived_from"
  by (auto simp: build_applied_module_runtime_plan_def Let_def result_simps)

end
