(* ===== verification/Verification_Cache.thy ===== *)
theory Verification_Cache
  imports Module_Composition
begin

section \<open>The verification memo\<close>

text \<open>
  \<open>crates/orchestration/src/modules/verification_cache.rs\<close>: a bounded memo in front of the \<open>verify\<close> functions of reviews and
  plans.  It keeps the values that were verified, with the length of their serialization, and evicts the oldest ones.
  A value is looked up and, if it is not found, verified without holding the lock, so that the memo may have changed when
  the result is entered: \<open>compute\<close> is given the memo it starts from and returns the one it leaves behind.
  The two booleans say whether the lock could be taken, first and second time.

  The contract of a memo is the locale \<open>verification_memo\<close>: values that compare equal verify alike.  The result of an operation
  is \<open>None\<close> if it would not return, because a loop does not end or a subtraction underflows.

  The comparison of the code does not tell the two zeros of a float apart, while their serializations differ; here they are one
  value, so that what is said below leaves out values that differ in the sign of a zero.
\<close>

definition MAX_ENTRIES :: nat where "MAX_ENTRIES = 12"
definition MAX_SERIALIZED_BYTES :: nat where "MAX_SERIALIZED_BYTES = 67108864"

record 'v memo =
  mem_entries :: "('v \<times> nat) list"
  mem_bytes :: nat

partial_function (option) evict :: "nat \<Rightarrow> 'v memo \<Rightarrow> 'v memo option" where
  "evict n c =
     (if length (mem_entries c) \<ge> MAX_ENTRIES \<or> mem_bytes c + n > MAX_SERIALIZED_BYTES
      then (case mem_entries c of
              [] \<Rightarrow> evict n c
            | oldest # rest \<Rightarrow>
                if snd oldest \<le> mem_bytes c then evict n \<lparr>mem_entries = rest, mem_bytes = mem_bytes c - snd oldest\<rparr>
                else None)
      else Some c)"

declare evict.simps [code]

definition touch :: "nat \<Rightarrow> 'v memo \<Rightarrow> 'v memo" where
  "touch i c = c\<lparr>mem_entries := take i (mem_entries c) @ drop (Suc i) (mem_entries c) @ [mem_entries c ! i]\<rparr>"

definition remember :: "('v \<Rightarrow> (str, nat) result) \<Rightarrow> bool \<Rightarrow> 'v \<Rightarrow> 'v memo \<Rightarrow> 'v memo option" where
  "remember size_of locked value c =
     (case size_of value of
        Inr n \<Rightarrow>
          if n \<le> MAX_SERIALIZED_BYTES \<and> locked
          then map_option (\<lambda>d. \<lparr>mem_entries = mem_entries d @ [(value, n)], mem_bytes = mem_bytes d + n\<rparr>) (evict n c)
          else Some c
      | Inl _ \<Rightarrow> Some c)"

definition memo_verify ::
  "('v \<Rightarrow> 'v \<Rightarrow> bool) \<Rightarrow> ('v \<Rightarrow> (str, nat) result) \<Rightarrow> bool \<times> bool \<Rightarrow> 'v \<Rightarrow>
     ('v memo \<Rightarrow> (('e, unit) result \<times> 'v memo) option) \<Rightarrow> 'v memo \<Rightarrow> (('e, unit) result \<times> 'v memo) option" where
  "memo_verify same size_of locks value compute c =
     (case (if fst locks then position (\<lambda>entry. same (fst entry) value) (mem_entries c) else None) of
        Some i \<Rightarrow> Some (Inr (), touch i c)
      | None \<Rightarrow>
          (case compute c of
             None \<Rightarrow> None
           | Some (Inl e, c') \<Rightarrow> Some (Inl e, c')
           | Some (Inr _, c') \<Rightarrow> map_option (\<lambda>d. (Inr (), d)) (remember size_of (snd locks) value c')))"

subsection \<open>The contract\<close>

definition memo_ok :: "('v \<Rightarrow> ('e, unit) result) \<Rightarrow> 'v memo \<Rightarrow> bool" where
  "memo_ok check c \<longleftrightarrow> (\<forall>entry \<in> set (mem_entries c). check (fst entry) = Inr ()) \<and>
     mem_bytes c = sum_list (map snd (mem_entries c)) \<and> mem_bytes c \<le> MAX_SERIALIZED_BYTES \<and> length (mem_entries c) \<le> MAX_ENTRIES"

definition computes :: "('v \<Rightarrow> ('e, unit) result) \<Rightarrow> 'v \<Rightarrow> ('v memo \<Rightarrow> (('e, unit) result \<times> 'v memo) option) \<Rightarrow> bool" where
  "computes check value compute \<longleftrightarrow>
     (\<forall>c. memo_ok check c \<longrightarrow> (\<exists>c'. compute c = Some (check value, c') \<and> memo_ok check c'))"

lemma evict_returns:
  assumes "memo_ok check c" "n \<le> MAX_SERIALIZED_BYTES"
  shows "\<exists>d. evict n c = Some d \<and> memo_ok check d \<and> length (mem_entries d) < MAX_ENTRIES \<and>
    mem_bytes d + n \<le> MAX_SERIALIZED_BYTES \<and> suffix (mem_entries d) (mem_entries c)"
  using assms(1)
proof (induction "length (mem_entries c)" arbitrary: c)
  case 0
  then have "mem_entries c = []" "mem_bytes c = 0" by (simp_all add: memo_ok_def)
  then show ?case using 0 assms(2) by (subst evict.simps) (simp add: MAX_ENTRIES_def)
next
  case (Suc k)
  then obtain oldest rest where entries: "mem_entries c = oldest # rest" by (cases "mem_entries c") auto
  let ?d = "\<lparr>mem_entries = rest, mem_bytes = mem_bytes c - snd oldest\<rparr>"
  have d: "memo_ok check ?d" "snd oldest \<le> mem_bytes c" using Suc.prems entries by (auto simp: memo_ok_def)
  show ?case
  proof (cases "length (mem_entries c) \<ge> MAX_ENTRIES \<or> mem_bytes c + n > MAX_SERIALIZED_BYTES")
    case True
    then have "evict n c = evict n ?d" using entries d(2) by (subst evict.simps) simp
    moreover have "k = length (mem_entries ?d)" using Suc.hyps(2) entries by simp
    ultimately show ?thesis using Suc.hyps(1) [OF _ d(1)] entries by (auto simp: suffix_Cons)
  next
    case False
    then have "evict n c = Some c" by (subst evict.simps) simp
    then show ?thesis using False Suc.prems by auto
  qed
qed

lemma touch_ok:
  assumes "memo_ok check c" "i < length (mem_entries c)"
  shows "memo_ok check (touch i c)"
proof -
  have "mset (mem_entries (touch i c)) = mset (mem_entries c)"
    using id_take_nth_drop [OF assms(2)] by (simp add: touch_def) (metis mset_append mset.simps(2) union_mset_add_mset_right)
  then have "set (mem_entries (touch i c)) = set (mem_entries c)" "length (mem_entries (touch i c)) = length (mem_entries c)"
    "sum_list (map snd (mem_entries (touch i c))) = sum_list (map snd (mem_entries c))"
    by (auto dest: mset_eq_setD mset_eq_length simp flip: sum_mset_sum_list)
  moreover have "mem_bytes (touch i c) = mem_bytes c" by (simp add: touch_def)
  ultimately show ?thesis using assms(1) by (simp add: memo_ok_def)
qed

lemma remember_ok:
  assumes "memo_ok check c" "check value = Inr ()"
  shows "\<exists>d. remember size_of locked value c = Some d \<and> memo_ok check d"
proof (cases "size_of value")
  case (Inr n)
  show ?thesis
  proof (cases "n \<le> MAX_SERIALIZED_BYTES \<and> locked")
    case True
    then show ?thesis using evict_returns [OF assms(1), of n] assms(2) Inr by (auto simp: remember_def memo_ok_def)
  qed (use Inr assms in \<open>auto simp: remember_def\<close>)
qed (use assms in \<open>auto simp: remember_def\<close>)

locale verification_memo =
  fixes same :: "'v \<Rightarrow> 'v \<Rightarrow> bool" and check :: "'v \<Rightarrow> ('e, unit) result"
  assumes same_check: "same a b \<Longrightarrow> check a = check b"
begin

lemma transparent:
  assumes "memo_ok check c" "computes check x compute"
  shows "\<exists>d. memo_verify same size_of locks x compute c = Some (check x, d) \<and> memo_ok check d"
proof (cases "if fst locks then position (\<lambda>entry. same (fst entry) x) (mem_entries c) else None")
  case None
  obtain c' where c': "compute c = Some (check x, c')" "memo_ok check c'"
    using assms by (auto simp: computes_def)
  show ?thesis
  proof (cases "check x")
    case (Inr u)
    then show ?thesis using None c' remember_ok [OF c'(2), of x size_of "snd locks"] by (auto simp: memo_verify_def)
  qed (use None c' in \<open>auto simp: memo_verify_def\<close>)
next
  case (Some i)
  then have i: "i < length (mem_entries c)" "same (fst (mem_entries c ! i)) x"
    by (auto split: if_splits dest!: position_SomeD)
  then have "check x = Inr ()" using assms(1) same_check nth_mem [OF i(1)] by (metis memo_ok_def)
  then show ?thesis using Some touch_ok [OF assms(1) i(1)] by (simp add: memo_verify_def)
qed

end

subsection \<open>The memo of module reviews and plans\<close>

text \<open>The values that are memoised, their \<open>verify_uncached\<close> and their \<open>PartialEq\<close>.\<close>

datatype memo_value =
    Memo_Review module_merge_review
  | Memo_Plan resolved_module_plan
  | Memo_Activation approved_module_activation_plan
  | Memo_Runtime applied_module_runtime_plan

fun verify_uncached :: "module_env \<Rightarrow> memo_value \<Rightarrow> unit merge_result" where
  "verify_uncached env (Memo_Review r) = merge_review_verify env r"
| "verify_uncached env (Memo_Plan p) = resolved_plan_verify env p"
| "verify_uncached env (Memo_Activation a) = activation_plan_verify env a"
| "verify_uncached env (Memo_Runtime r) = runtime_plan_verify env r"

definition module_merge_review_eq :: "module_merge_review \<Rightarrow> module_merge_review \<Rightarrow> bool" where
  "module_merge_review_eq l r \<longleftrightarrow>
     list_all2 module_binding_eq (mrv_ordered_bindings l) (mrv_ordered_bindings r) \<and>
     variable_map_eq (mrv_effective_variable_overrides l) (mrv_effective_variable_overrides r) \<and>
     l\<lparr>mrv_ordered_bindings := [], mrv_effective_variable_overrides := []\<rparr> =
       r\<lparr>mrv_ordered_bindings := [], mrv_effective_variable_overrides := []\<rparr>"

definition activation_plan_eq :: "approved_module_activation_plan \<Rightarrow> approved_module_activation_plan \<Rightarrow> bool" where
  "activation_plan_eq l r \<longleftrightarrow>
     amp_approval_sha256 l = amp_approval_sha256 r \<and> amp_approval_id l = amp_approval_id r \<and>
     resolved_module_plan_eq (amp_plan l) (amp_plan r)"

definition runtime_plan_eq :: "applied_module_runtime_plan \<Rightarrow> applied_module_runtime_plan \<Rightarrow> bool" where
  "runtime_plan_eq l r \<longleftrightarrow>
     arp_applied_plan_sha256 l = arp_applied_plan_sha256 r \<and> activation_plan_eq (arp_source_approval l) (arp_source_approval r) \<and>
     arp_derived_from_plan_sha256 l = arp_derived_from_plan_sha256 r \<and> module_merge_review_eq (arp_review l) (arp_review r) \<and>
     resolved_module_plan_eq (arp_plan l) (arp_plan r)"

fun memo_same :: "memo_value \<Rightarrow> memo_value \<Rightarrow> bool" where
  "memo_same (Memo_Review l) (Memo_Review r) = module_merge_review_eq l r"
| "memo_same (Memo_Plan l) (Memo_Plan r) = resolved_module_plan_eq l r"
| "memo_same (Memo_Activation l) (Memo_Activation r) = activation_plan_eq l r"
| "memo_same (Memo_Runtime l) (Memo_Runtime r) = runtime_plan_eq l r"
| "memo_same _ _ = False"

text \<open>\<open>ApprovedModuleActivationPlan::verify_uncached\<close> with the memoised verification of the plan inside it.\<close>

definition review_verify_cached ::
  "module_env \<Rightarrow> (memo_value \<Rightarrow> (str, nat) result) \<Rightarrow> bool \<times> bool \<Rightarrow> module_merge_review \<Rightarrow> memo_value memo \<Rightarrow>
     (unit merge_result \<times> memo_value memo) option" where
  "review_verify_cached env size_of locks r =
     memo_verify memo_same size_of locks (Memo_Review r) (\<lambda>c. Some (merge_review_verify env r, c))"

definition plan_verify_cached ::
  "module_env \<Rightarrow> (memo_value \<Rightarrow> (str, nat) result) \<Rightarrow> bool \<times> bool \<Rightarrow> resolved_module_plan \<Rightarrow> memo_value memo \<Rightarrow>
     (unit merge_result \<times> memo_value memo) option" where
  "plan_verify_cached env size_of locks p =
     memo_verify memo_same size_of locks (Memo_Plan p) (\<lambda>c. Some (resolved_plan_verify env p, c))"

definition activation_verify_cached ::
  "module_env \<Rightarrow> (memo_value \<Rightarrow> (str, nat) result) \<Rightarrow> bool \<times> bool \<Rightarrow> bool \<times> bool \<Rightarrow> approved_module_activation_plan \<Rightarrow>
     memo_value memo \<Rightarrow> (unit merge_result \<times> memo_value memo) option" where
  "activation_verify_cached env size_of inner_locks locks a =
     memo_verify memo_same size_of locks (Memo_Activation a) (\<lambda>c.
       case plan_verify_cached env size_of inner_locks (amp_plan a) c of
         None \<Rightarrow> None
       | Some (Inl e, c') \<Rightarrow> Some (Inl e, c')
       | Some (Inr _, c') \<Rightarrow> Some
           (result_bind (validate_activation_approval_id (amp_approval_id a)) (\<lambda>_.
            result_bind (guard_err (length (rmpl_activation_binding_ids (amp_plan a)) \<noteq> 1) MME_ActivationPlanRequired) (\<lambda>_.
            result_bind (module_activation_approval_sha256 env (amp_approval_id a) (amp_plan a)) (\<lambda>expected.
            guard_err (expected \<noteq> amp_approval_sha256 a) MME_ActivationApprovalHashMismatch))), c'))"

lemma module_binding_eqD: "module_binding_eq l r \<Longrightarrow> l = r"
  by (cases l; cases r) (auto simp: module_binding_eq_def dest: variable_map_eqD)

lemma resolved_module_plan_eqD: "resolved_module_plan_eq l r \<Longrightarrow> l = r"
  by (cases l; cases r) (auto simp: resolved_module_plan_eq_def dest: variable_map_eqD)

lemma module_merge_review_eqD: "module_merge_review_eq l r \<Longrightarrow> l = r"
proof -
  assume eq: "module_merge_review_eq l r"
  then have "mrv_ordered_bindings l = mrv_ordered_bindings r"
    unfolding module_merge_review_eq_def by (metis (mono_tags) list.rel_eq list_all2_mono module_binding_eqD)
  with eq show "l = r" by (cases l; cases r) (auto simp: module_merge_review_eq_def dest: variable_map_eqD)
qed

lemma activation_plan_eqD: "activation_plan_eq l r \<Longrightarrow> l = r"
  by (cases l; cases r) (auto simp: activation_plan_eq_def dest: resolved_module_plan_eqD)

lemma runtime_plan_eqD: "runtime_plan_eq l r \<Longrightarrow> l = r"
  by (cases l; cases r)
    (auto simp: runtime_plan_eq_def dest: activation_plan_eqD resolved_module_plan_eqD module_merge_review_eqD)

lemma memo_sameD: "memo_same a b \<Longrightarrow> a = b"
  by (cases a; cases b)
    (auto dest: activation_plan_eqD resolved_module_plan_eqD module_merge_review_eqD runtime_plan_eqD)

interpretation module_memo: verification_memo memo_same "verify_uncached env" for env
  by unfold_locales (auto dest: memo_sameD)

lemma plan_verify_cached_computes:
  assumes "memo_ok (verify_uncached env) c"
  shows "\<exists>d. plan_verify_cached env size_of locks p c = Some (resolved_plan_verify env p, d) \<and> memo_ok (verify_uncached env) d"
  using module_memo.transparent [OF assms, of "Memo_Plan p" "\<lambda>c. Some (resolved_plan_verify env p, c)"]
  by (simp add: plan_verify_cached_def computes_def)

lemma review_verify_cached_computes:
  assumes "memo_ok (verify_uncached env) c"
  shows "\<exists>d. review_verify_cached env size_of locks r c = Some (merge_review_verify env r, d) \<and> memo_ok (verify_uncached env) d"
  using module_memo.transparent [OF assms, of "Memo_Review r" "\<lambda>c. Some (merge_review_verify env r, c)"]
  by (simp add: review_verify_cached_def computes_def)

lemma activation_verify_cached_computes:
  assumes "memo_ok (verify_uncached env) c"
  shows "\<exists>d. activation_verify_cached env size_of inner_locks locks a c = Some (activation_plan_verify env a, d) \<and>
    memo_ok (verify_uncached env) d"
proof -
  let ?compute = "\<lambda>c. case plan_verify_cached env size_of inner_locks (amp_plan a) c of
         None \<Rightarrow> None
       | Some (Inl e, c') \<Rightarrow> Some (Inl e, c')
       | Some (Inr _, c') \<Rightarrow> Some
           (result_bind (validate_activation_approval_id (amp_approval_id a)) (\<lambda>_.
            result_bind (guard_err (length (rmpl_activation_binding_ids (amp_plan a)) \<noteq> 1) MME_ActivationPlanRequired) (\<lambda>_.
            result_bind (module_activation_approval_sha256 env (amp_approval_id a) (amp_plan a)) (\<lambda>expected.
            guard_err (expected \<noteq> amp_approval_sha256 a) MME_ActivationApprovalHashMismatch))), c')"
  have "\<exists>d. ?compute c = Some (activation_plan_verify env a, d) \<and> memo_ok (verify_uncached env) d"
    if c: "memo_ok (verify_uncached env) c" for c
  proof -
    obtain d where "plan_verify_cached env size_of inner_locks (amp_plan a) c = Some (resolved_plan_verify env (amp_plan a), d)"
      "memo_ok (verify_uncached env) d" using plan_verify_cached_computes [OF c] by blast
    then show ?thesis by (cases "resolved_plan_verify env (amp_plan a)") (simp_all add: activation_plan_verify_def)
  qed
  then have "computes (verify_uncached env) (Memo_Activation a) ?compute" by (simp add: computes_def)
  from module_memo.transparent [OF assms this, of size_of locks] show ?thesis by (simp add: activation_verify_cached_def)
qed

end
