(* ===== verification/Module_Properties.thy ===== *)
theory Module_Properties
  imports Module_Resolution_Facts Verification_Cache
begin

section \<open>Properties of module composition\<close>

text \<open>
  What a user who reviews and approves a module composition can rely on.  The examples use an encoder that
  forgets its input, so that every digest is the same.
\<close>

subsection \<open>An example\<close>

definition example_digest :: sha256_digest where
  "example_digest = replicate 64 48"

definition example_module_env :: module_env where
  "example_module_env =
     \<lparr>mx_hex_ok = (\<lambda>_. True), mx_hex_encode = (\<lambda>_. example_digest), mx_sha256 = (\<lambda>bs. bs), mx_json_value = (\<lambda>_. Inr []),
      mx_json = (\<lambda>_. Inr [])\<rparr>"

definition example_provenance :: provenance where
  "example_provenance = \<lparr>pv_source_kind = UserCreated, pv_source_id = None, pv_source_hash = None, pv_author = None,
     pv_license = None, pv_imported_at = None\<rparr>"

definition example_module :: "string \<Rightarrow> content_module" where
  "example_module i =
     \<lparr>cm_id = lit i, cm_name = lit i, cm_version = lit ''1'', cm_schema_version = 1, cm_prompt_fragments = [],
      cm_knowledge_book_ids = [lit i], cm_control_specs = [], cm_transform_set_ids = [lit ''shared''],
      cm_interaction_rule_set_ids = [], cm_asset_ids = [], cm_portable_runtime = None,
      cm_imported_components_enabled = True, cm_required_capabilities = [CCap_Transforms],
      cm_metadata = \<lparr>pkm_author = None, pkm_license = lit ''MIT'', pkm_redistribution_allowed = True, pkm_homepage = None,
        pkm_description = [], pkm_tags = [], pkm_provenance = example_provenance\<rparr>\<rparr>"

definition example_snapshot :: "string \<Rightarrow> string \<Rightarrow> string option \<Rightarrow> module_revision_snapshot" where
  "example_snapshot i r previous =
     \<lparr>mrs_module = example_module i,
      mrs_revision = \<lparr>cr_id = lit r, cr_module_id = lit i, cr_version = lit ''1'', cr_source_hash = example_digest,
        cr_previous_revision_id = map_option lit previous,
        cr_component_hashes = [\<lparr>ch_component = Ref_TransformSet (lit ''shared''), ch_sha256 = lit r\<rparr>,
          \<lparr>ch_component = Ref_KnowledgeBook (lit i), ch_sha256 = example_digest\<rparr>],
        cr_created_at = 0\<rparr>,
      mrs_import_approval = None\<rparr>"

definition example_binding :: "string \<Rightarrow> string \<Rightarrow> string \<Rightarrow> module_scope \<Rightarrow> module_binding" where
  "example_binding b i r scope =
     \<lparr>mb_id = lit b, mb_module_id = lit i, mb_scope = scope, mb_target_id = None, mb_conversation_id = None, mb_priority = 0,
      mb_resolution_mode = Mode_Active, mb_pinned_revision_id = None, mb_enabled = True, mb_approved = True,
      mb_package_import_approval_id = None, mb_activation_approval_id = Some (lit ''a''),
      mb_activation_review_sha256 = Some example_digest, mb_activation_plan_sha256 = Some example_digest,
      mb_variable_overrides = [], mb_revision_id = lit r, mb_created_at = 0\<rparr>"

definition example_context :: module_resolution_context where
  "example_context = \<lparr>mrc_local_user_id = lit ''u'', mrc_persona_id = None, mrc_character_id = None,
     mrc_conversation_id = None, mrc_branch_id = None, mrc_supported_capabilities = [CCap_Transforms, CCap_Knowledge]\<rparr>"

abbreviation first_module :: module_revision_snapshot where "first_module \<equiv> example_snapshot ''m1'' ''r1'' None"
abbreviation second_module :: module_revision_snapshot where "second_module \<equiv> example_snapshot ''m2'' ''r2'' None"
abbreviation first_binding :: module_binding where "first_binding \<equiv> example_binding ''b1'' ''m1'' ''r1'' MScope_User"
abbreviation second_binding :: module_binding where "second_binding \<equiv> example_binding ''b2'' ''m2'' ''r2'' MScope_App"

text \<open>The user keeps the transform set of the second module.\<close>

definition example_resolution :: module_conflict_resolution where
  "example_resolution =
     \<lparr>mcr_component = Ref_TransformSet (lit ''shared''),
      mcr_expected_candidates =
        [\<lparr>mcc_module_id = lit ''m2'', mcc_revision_id = lit ''r2'', mcc_component_hash = lit ''r2''\<rparr>,
         \<lparr>mcc_module_id = lit ''m1'', mcc_revision_id = lit ''r1'', mcc_component_hash = lit ''r1''\<rparr>],
      mcr_selected = Some \<lparr>mcc_module_id = lit ''m2'', mcc_revision_id = lit ''r2'', mcc_component_hash = lit ''r2''\<rparr>\<rparr>"

definition example_resolutions :: module_merge_resolution_set where
  "example_resolutions = \<lparr>mms_expected_review_sha256 = example_digest, mms_resolutions = [example_resolution]\<rparr>"

lemma example_run:
  obtains review plan where "review_module_merge_internal example_module_env 1 example_context [first_binding, second_binding]
       [first_module, second_module] [] = Inr review"
    "resolve_module_merge example_module_env review example_resolutions = Inr plan"
    "map rsc_component (rmpl_components plan) =
       [Ref_KnowledgeBook (lit ''m2''), Ref_TransformSet (lit ''shared''), Ref_KnowledgeBook (lit ''m1'')]"
    "map rsc_runtime_enabled (rmpl_components plan) = [False, True, False]"
    "map rmp_component (filter contested (mrv_components review)) = [Ref_TransformSet (lit ''shared'')]"
proof -
  have "(case review_module_merge_internal example_module_env 1 example_context [first_binding, second_binding]
       [first_module, second_module] [] of
      Inl _ \<Rightarrow> False
    | Inr review \<Rightarrow> (case resolve_module_merge example_module_env review example_resolutions of
        Inl _ \<Rightarrow> False
      | Inr plan \<Rightarrow> map rsc_component (rmpl_components plan) =
           [Ref_KnowledgeBook (lit ''m2''), Ref_TransformSet (lit ''shared''), Ref_KnowledgeBook (lit ''m1'')] \<and>
          map rsc_runtime_enabled (rmpl_components plan) = [False, True, False] \<and>
          map rmp_component (filter contested (mrv_components review)) = [Ref_TransformSet (lit ''shared'')]))"
    by code_simp
  then show thesis by (auto split: sum.splits intro: that)
qed

subsection \<open>Reviews\<close>

text \<open>C14. A merge review does not depend on the order in which bindings, revisions and supported capabilities are listed:
  when the review succeeds, every permutation of its inputs gives the same review, hash included.\<close>

theorem module_review_order_independent:
  assumes "review_module_merge_internal env state_revision ctx bs rs acts = Inr review"
    "mset bs' = mset bs" "mset rs' = mset rs" "set capabilities = set (mrc_supported_capabilities ctx)"
  shows "review_module_merge_internal env state_revision (ctx\<lparr>mrc_supported_capabilities := capabilities\<rparr>) bs' rs' acts = Inr review"
  using review_capabilities [OF assms(4)] review_perm [OF assms(2,3) [symmetric] assms(1)] by simp

theorem module_review_order_independent_witness:
  "\<exists>review. review_module_merge_internal example_module_env 1 example_context [first_binding, second_binding]
       [first_module, second_module] [] = Inr review \<and>
     review_module_merge_internal example_module_env 1
       (example_context\<lparr>mrc_supported_capabilities := [CCap_Knowledge, CCap_Transforms, CCap_Knowledge]\<rparr>)
       [second_binding, first_binding] [second_module, first_module] [] = Inr review"
proof -
  obtain review where review: "review_module_merge_internal example_module_env 1 example_context [first_binding, second_binding]
       [first_module, second_module] [] = Inr review"
    by (rule example_run)
  have "set [CCap_Knowledge, CCap_Transforms, CCap_Knowledge] = set (mrc_supported_capabilities example_context)"
    by (auto simp: example_context_def)
  from module_review_order_independent [OF review _ _ this, of "[second_binding, first_binding]" "[second_module, first_module]"]
  show ?thesis using review by (simp add: add_mset_commute)
qed

subsection \<open>Plans\<close>

text \<open>C9. Nothing enters a plan without authority.  Every source of a component of a resolved plan is a binding that
  applies to the context and is enabled and approved, or is the candidate of the activation; its revision
  is the one the binding names, declares the component with exactly the hash of the plan, needs supported capabilities only
  and, if it was imported, is covered component by component by the package import that the binding names.
  A component runs only if its selected source is declarative and its module asked for it.\<close>

theorem module_plan_authorised:
  assumes "review_module_merge_internal env state_revision ctx bs rs acts = Inr review"
    "resolve_module_merge env review rset = Inr plan" "c \<in> set (rmpl_components plan)" "source \<in> set (rsc_coalesced_sources c)"
  shows "rsc_selected_source c \<in> set (rsc_coalesced_sources c) \<and>
    rsc_runtime_enabled c = mcs_runtime_enabled_intent (rsc_selected_source c) \<and>
    (\<exists>b \<in> set bs. \<exists>snapshot \<in> set rs. mcs_binding_id source = mb_id b \<and> mb_revision_id b = revision_id snapshot \<and>
       mb_module_id b = cm_id (mrs_module snapshot) \<and>
       (mb_id b \<in> set acts \<or> mb_enabled b \<and> mb_approved b) \<and> binding_applies b ctx \<and>
       set (cm_required_capabilities (mrs_module snapshot)) \<subseteq> set (mrc_supported_capabilities ctx) \<and>
       \<lparr>ch_component = rsc_component c, ch_sha256 = rsc_sha256 c\<rparr> \<in> set (cr_component_hashes (mrs_revision snapshot)) \<and>
       (mcs_runtime_enabled_intent source \<longrightarrow>
          cm_imported_components_enabled (mrs_module snapshot) \<and> is_declarative_runtime (rsc_component c)) \<and>
       (is_imported snapshot \<longrightarrow> import_covers b snapshot \<lparr>ch_component = rsc_component c, ch_sha256 = rsc_sha256 c\<rparr>))"
proof -
  have shape: "review_shape env (revision_table rs) review" using assms(1) by (rule review_shaped)
  then obtain ch where ch: "choice_matches review ch" "seal_plan env (plan_of review ch) = Inr plan"
    using resolve_choice [OF _ assms(2)] by blast
  then have "c \<in> set (picked ch (mrv_components review))" using assms(3) by (auto simp: seal_plan_Inr plan_of_def)
  then obtain r candidate where r: "r \<in> set (mrv_components review)" "ch r = Some candidate" "c = resolved_of r candidate"
    by (auto simp: picked_def)
  then have "candidate_ok (revision_table rs) (mrv_ordered_bindings review) (rmp_component r) candidate"
    using ch(1) shape by (auto simp: choice_matches_def review_shape_def component_ok_def)
  then have candidate: "rmc_sources candidate \<noteq> []"
    "sourced (revision_table rs) (mrv_ordered_bindings review) (rsc_component c) (rsc_sha256 c) source"
    using assms(4) r(3) by (auto simp: candidate_ok_def resolved_of_def)
  have "mcs_binding_id (candidate_source b snapshot k ordinal) = mb_id b \<and>
      (mcs_runtime_enabled_intent (candidate_source b snapshot k ordinal) \<longrightarrow>
        cm_imported_components_enabled (mrs_module snapshot) \<and> is_declarative_runtime k)" for b snapshot k ordinal
    by (simp add: candidate_source_def)
  with sourced_authorised [OF assms(1) candidate(2)] candidate(1) r(3) show ?thesis
    by (simp add: resolved_of_def) blast
qed

theorem module_plan_authorised_witness:
  "\<exists>review plan c. review_module_merge_internal example_module_env 1 example_context [first_binding, second_binding]
       [first_module, second_module] [] = Inr review \<and>
     resolve_module_merge example_module_env review example_resolutions = Inr plan \<and> c \<in> set (rmpl_components plan) \<and>
     rsc_runtime_enabled c \<and> rsc_selected_source c \<in> set (rsc_coalesced_sources c)"
proof -
  obtain review plan where run: "review_module_merge_internal example_module_env 1 example_context [first_binding, second_binding]
       [first_module, second_module] [] = Inr review"
    "resolve_module_merge example_module_env review example_resolutions = Inr plan"
    "map rsc_runtime_enabled (rmpl_components plan) = [False, True, False]"
    by (rule example_run)
  then obtain c where c: "c \<in> set (rmpl_components plan)" "rsc_runtime_enabled c"
    by (metis in_set_conv_nth length_map list.set_intros nth_map)
  obtain source where "source \<in> set (rsc_coalesced_sources c)"
    using plan_component_sources [OF review_shaped(1) [OF run(1)] run(2) c(1)] by fastforce
  from module_plan_authorised [OF run(1,2) c(1) this] c run show ?thesis by blast
qed

text \<open>C19. Conflicts are decided explicitly and nothing is lost.  A plan selects or omits every reviewed component exactly
  once.  A component with a single candidate is always selected.  For a component on which revisions
  disagree there is a resolution that names exactly the reviewed candidates, and the plan has the candidate it selects,
  or omits the component if it selects none.\<close>

theorem module_conflicts_explicit:
  assumes "review_module_merge_internal env state_revision ctx bs rs acts = Inr review"
    "resolve_module_merge env review rset = Inr plan"
  shows "mset (map rsc_component (rmpl_components plan) @ rmpl_omitted_components plan) =
      mset (map rmp_component (mrv_components review)) \<and>
    distinct (map rmp_component (mrv_components review)) \<and>
    (\<forall>r \<in> set (mrv_components review).
       (\<forall>candidate. rmp_candidates r = [candidate] \<longrightarrow>
          (\<exists>c \<in> set (rmpl_components plan). rsc_component c = rmp_component r \<and>
             rsc_sha256 c = mcc_component_hash (rmc_candidate candidate))) \<and>
       (contested r \<longrightarrow>
          (\<exists>resolution \<in> set (mms_resolutions rset). mcr_component resolution = rmp_component r \<and>
             mset (mcr_expected_candidates resolution) = mset (map rmc_candidate (rmp_candidates r)) \<and>
             (case mcr_selected resolution of
                None \<Rightarrow> rmp_component r \<in> set (rmpl_omitted_components plan)
              | Some selected \<Rightarrow> \<exists>c \<in> set (rmpl_components plan). rsc_component c = rmp_component r \<and>
                  rsc_sha256 c = mcc_component_hash selected))))"
proof -
  have shape: "review_shape env (revision_table rs) review" using assms(1) by (rule review_shaped)
  obtain ch where ch: "choice_matches review ch" "seal_plan env (plan_of review ch) = Inr plan"
    and explicit: "\<And>r. r \<in> set (mrv_components review) \<Longrightarrow> contested r \<Longrightarrow>
       \<exists>resolution \<in> set (mms_resolutions rset). mcr_component resolution = rmp_component r \<and>
          mset (mcr_expected_candidates resolution) = mset (map rmc_candidate (rmp_candidates r)) \<and>
          mcr_selected resolution = map_option rmc_candidate (ch r)"
    using resolve_choice [OF shape assms(2)] by blast
  note all = plan_decisions(1) [OF ch(2)] and selected = plan_decisions(2) [OF ch(2)] and omitted = plan_decisions(3) [OF ch(2)]
  have single: "ch r = Some candidate" if "r \<in> set (mrv_components review)" "rmp_candidates r = [candidate]" for r candidate
    using ch(1) that by (cases "ch r") (auto simp: choice_matches_def)
  have decided: "case mcr_selected resolution of
      None \<Rightarrow> rmp_component r \<in> set (rmpl_omitted_components plan)
    | Some selected \<Rightarrow> \<exists>c \<in> set (rmpl_components plan). rsc_component c = rmp_component r \<and>
        rsc_sha256 c = mcc_component_hash selected"
    if "r \<in> set (mrv_components review)" "mcr_selected resolution = map_option rmc_candidate (ch r)" for r resolution
    using that selected omitted by (cases "ch r") auto
  show ?thesis
  proof (intro conjI ballI allI impI)
    fix r assume r: "r \<in> set (mrv_components review)"
    show "\<exists>c \<in> set (rmpl_components plan). rsc_component c = rmp_component r \<and>
        rsc_sha256 c = mcc_component_hash (rmc_candidate candidate)" if "rmp_candidates r = [candidate]" for candidate
      using selected single r that by blast
    assume "contested r"
    then obtain resolution where res: "resolution \<in> set (mms_resolutions rset)" "mcr_component resolution = rmp_component r"
      "mset (mcr_expected_candidates resolution) = mset (map rmc_candidate (rmp_candidates r))"
      "mcr_selected resolution = map_option rmc_candidate (ch r)" using explicit [OF r] by blast
    with decided [OF r res(4)] show "\<exists>resolution \<in> set (mms_resolutions rset). mcr_component resolution = rmp_component r \<and>
        mset (mcr_expected_candidates resolution) = mset (map rmc_candidate (rmp_candidates r)) \<and>
        (case mcr_selected resolution of
           None \<Rightarrow> rmp_component r \<in> set (rmpl_omitted_components plan)
         | Some selected \<Rightarrow> \<exists>c \<in> set (rmpl_components plan). rsc_component c = rmp_component r \<and>
             rsc_sha256 c = mcc_component_hash selected)" by blast
  qed (use all shape_distinct(1) [OF shape] in auto)
qed

theorem module_conflicts_explicit_witness:
  "\<exists>review plan c. review_module_merge_internal example_module_env 1 example_context [first_binding, second_binding]
       [first_module, second_module] [] = Inr review \<and>
     resolve_module_merge example_module_env review example_resolutions = Inr plan \<and> c \<in> set (rmpl_components plan) \<and>
     rsc_component c = Ref_TransformSet (lit ''shared'') \<and> rsc_sha256 c = lit ''r2''"
proof -
  obtain review plan where run: "review_module_merge_internal example_module_env 1 example_context [first_binding, second_binding]
       [first_module, second_module] [] = Inr review"
    "resolve_module_merge example_module_env review example_resolutions = Inr plan"
    "map rmp_component (filter contested (mrv_components review)) = [Ref_TransformSet (lit ''shared'')]"
    by (rule example_run)
  have "Ref_TransformSet (lit ''shared'') \<in> set (map rmp_component (filter contested (mrv_components review)))"
    unfolding run(3) by simp
  then obtain r where r: "r \<in> set (mrv_components review)" "contested r" "rmp_component r = Ref_TransformSet (lit ''shared'')"
    by auto
  have "set (mms_resolutions example_resolutions) = {example_resolution}" by (simp add: example_resolutions_def)
  with module_conflicts_explicit [OF run(1,2)] r have "\<exists>c \<in> set (rmpl_components plan). rsc_component c = rmp_component r \<and>
      rsc_sha256 c = lit ''r2''"
    by (fastforce simp: example_resolution_def)
  with run(1,2) r(3) show ?thesis by auto
qed

text \<open>C21. The choices of a plan can be recovered from it: the resolution set that the program reconstructs from a
  review and a plan resolved from it is accepted and resolves the review to the same plan.\<close>

theorem module_choices_roundtrip:
  assumes "review_module_merge_internal env state_revision ctx bs rs acts = Inr review"
    "resolve_module_merge env review rset = Inr plan"
  shows "\<exists>choices. module_merge_resolution_set_from_plan env review plan = Inr choices \<and>
    resolve_module_merge env review choices = Inr plan"
proof -
  have shape: "review_shape env (revision_table rs) review" using assms(1) by (rule review_shaped)
  obtain ch where ch: "choice_matches review ch" "seal_plan env (plan_of review ch) = Inr plan"
    using resolve_choice [OF shape assms(2)] by blast
  have "merge_review_verify env review = Inr ()" using shape by (simp add: review_shape_def)
  moreover have "resolved_plan_verify env plan = Inr ()" "rmpl_review_sha256 plan = mrv_review_sha256 review"
    "rmpl_expected_state_revision plan = mrv_state_revision review"
    using ch(2) by (auto simp: seal_plan_Inr plan_of_def)
  moreover have "module_merge_resolution_set_for_selection review plan = Inr (choices_set review ch)"
    using ch(2) by (intro selection_set_of [OF shape ch(1)]) (auto simp: seal_plan_Inr plan_of_def)
  ultimately show ?thesis
    using resolve_choices [OF shape ch] by (auto simp: module_merge_resolution_set_from_plan_def)
qed

theorem module_choices_roundtrip_witness:
  "\<exists>review plan choices. resolve_module_merge example_module_env review example_resolutions = Inr plan \<and>
     module_merge_resolution_set_from_plan example_module_env review plan = Inr choices \<and>
     resolve_module_merge example_module_env review choices = Inr plan"
proof -
  obtain review plan where run: "review_module_merge_internal example_module_env 1 example_context [first_binding, second_binding]
       [first_module, second_module] [] = Inr review"
    "resolve_module_merge example_module_env review example_resolutions = Inr plan"
    by (rule example_run)
  from module_choices_roundtrip [OF this] run(2) show ?thesis by blast
qed

subsection \<open>Runtime plans\<close>

text \<open>The runtime plans that an approved activation leads to: one is materialized, and plans for other contexts are derived from
  those already applied.\<close>

inductive runtime_chain :: "module_env \<Rightarrow> approved_module_activation_plan \<Rightarrow> applied_module_runtime_plan \<Rightarrow> bool"
  for env approval where
  materialized: "materialize_approved_module_runtime_plan env approval review = Inr applied \<Longrightarrow> runtime_chain env approval applied"
| derived: "runtime_chain env approval source \<Longrightarrow> derive_applied_module_runtime_plan env source review = Inr applied \<Longrightarrow>
    runtime_chain env approval applied"

text \<open>C13. Runtime plans never leave their approval.  Every runtime plan that is materialized from an approved activation or
  derived, step by step, from such a plan passes verification, still carries that approval, has no pending activation, and selects
  exactly the approved components, omissions, bindings, import approvals and variable overrides.\<close>

theorem runtime_plan_inherits_approval:
  assumes "runtime_chain env approval applied"
  shows "runtime_plan_verify env applied = Inr () \<and> arp_source_approval applied = approval \<and>
    mrv_activation_binding_ids (arp_review applied) = [] \<and>
    rmpl_components (arp_plan applied) = rmpl_components (amp_plan approval) \<and>
    rmpl_omitted_components (arp_plan applied) = rmpl_omitted_components (amp_plan approval) \<and>
    rmpl_ordered_binding_ids (arp_plan applied) = rmpl_ordered_binding_ids (amp_plan approval) \<and>
    rmpl_import_approvals (arp_plan applied) = rmpl_import_approvals (amp_plan approval) \<and>
    rmpl_effective_variable_overrides (arp_plan applied) = rmpl_effective_variable_overrides (amp_plan approval)"
  using assms
proof (induction rule: runtime_chain.induct)
  case (materialized review applied)
  then show ?case
    by (auto simp: materialize_approved_module_runtime_plan_def result_simps same_runtime_plan_selection_def
        dest!: build_runtime_plan variable_map_eqD)
next
  case (derived source review applied)
  then show ?case
    by (auto simp: derive_applied_module_runtime_plan_def result_simps same_runtime_plan_selection_def
        dest!: build_runtime_plan variable_map_eqD)
qed

text \<open>In the example a proposed binding is reviewed, approved, committed, applied, and its plan is then derived for a persona.\<close>

definition proposed_binding :: module_binding where
  "proposed_binding = second_binding\<lparr>mb_enabled := False, mb_approved := False, mb_activation_approval_id := None,
     mb_activation_review_sha256 := None, mb_activation_plan_sha256 := None\<rparr>"

definition no_resolutions :: module_merge_resolution_set where
  "no_resolutions = \<lparr>mms_expected_review_sha256 = example_digest, mms_resolutions = []\<rparr>"

definition example_activation :: "(module_merge_error, approved_module_activation_plan) result" where
  "example_activation =
     result_bind (review_module_activation example_module_env None example_context [] proposed_binding [second_module]) (\<lambda>review.
     result_bind (resolve_module_merge example_module_env review no_resolutions) (\<lambda>plan.
     approve_module_activation_plan example_module_env plan \<lparr>maa_approval_id = lit ''a'',
       maa_expected_review_sha256 = example_digest, maa_expected_plan_sha256 = example_digest\<rparr>))"

definition example_runtime :: "(module_merge_error, approved_module_activation_plan \<times> applied_module_runtime_plan) result" where
  "example_runtime =
     result_bind example_activation (\<lambda>approval.
     result_bind (review_module_merge example_module_env 1 example_context [second_binding] [second_module]) (\<lambda>review.
     result_bind (materialize_approved_module_runtime_plan example_module_env approval review) (\<lambda>applied.
     result_bind (review_module_merge example_module_env 1 (example_context\<lparr>mrc_persona_id := Some (lit ''p'')\<rparr>)
       [second_binding] [second_module]) (\<lambda>other.
     result_bind (derive_applied_module_runtime_plan example_module_env applied other) (\<lambda>derived.
     Inr (approval, derived))))))"

theorem runtime_plan_inherits_approval_witness:
  "\<exists>approval applied. runtime_chain example_module_env approval applied \<and>
     map rsc_component (rmpl_components (amp_plan approval)) = [Ref_KnowledgeBook (lit ''m2''), Ref_TransformSet (lit ''shared'')] \<and>
     rmpl_components (arp_plan applied) = rmpl_components (amp_plan approval)"
proof -
  have "(case example_runtime of Inl _ \<Rightarrow> False | Inr (approval, applied) \<Rightarrow>
      map rsc_component (rmpl_components (amp_plan approval)) = [Ref_KnowledgeBook (lit ''m2''), Ref_TransformSet (lit ''shared'')])"
    by code_simp
  then obtain approval applied where run: "example_runtime = Inr (approval, applied)" and
    components: "map rsc_component (rmpl_components (amp_plan approval)) = [Ref_KnowledgeBook (lit ''m2''), Ref_TransformSet (lit ''shared'')]"
    by (auto split: sum.splits)
  have "runtime_chain example_module_env approval applied"
    using run unfolding example_runtime_def by (auto simp: result_simps intro: runtime_chain.intros)
  with components runtime_plan_inherits_approval [OF this] show ?thesis
    by (intro exI [of _ approval] exI [of _ applied]) simp
qed

subsection \<open>The verification memo\<close>

text \<open>The verification memo changes nothing but speed.  On a memo that holds only verified values, the
  memoised verification of a review, of a plan and of an approved activation, which verifies its plan through the same memo,
  always returns, with the result of the verification itself, whichever locks could be taken; a failed verification is
  never remembered, and the memo keeps at most twelve entries of together at most 64 MiB.\<close>

theorem verification_memo_transparent:
  assumes "memo_ok (verify_uncached env) c"
  shows "(\<exists>d. review_verify_cached env size_of locks r c = Some (merge_review_verify env r, d) \<and> memo_ok (verify_uncached env) d) \<and>
    (\<exists>d. plan_verify_cached env size_of locks p c = Some (resolved_plan_verify env p, d) \<and> memo_ok (verify_uncached env) d) \<and>
    (\<exists>d. activation_verify_cached env size_of inner_locks locks a c = Some (activation_plan_verify env a, d) \<and>
       memo_ok (verify_uncached env) d)"
  using review_verify_cached_computes plan_verify_cached_computes activation_verify_cached_computes assms by blast

definition empty_memo :: "memo_value memo" where
  "empty_memo = \<lparr>mem_entries = [], mem_bytes = 0\<rparr>"

definition example_plan :: resolved_module_plan where
  "example_plan = \<lparr>rmpl_plan_sha256 = example_digest, rmpl_review_sha256 = example_digest, rmpl_expected_state_revision = 1,
     rmpl_activation_binding_ids = [lit ''b1''], rmpl_ordered_binding_ids = [lit ''b1''], rmpl_components = [],
     rmpl_omitted_components = [], rmpl_import_approvals = [], rmpl_effective_variable_overrides = []\<rparr>"

theorem verification_memo_transparent_witness:
  "\<exists>d. plan_verify_cached example_module_env (\<lambda>_. Inr 10) (True, True) example_plan empty_memo = Some (Inr (), d) \<and>
     mem_entries d = [(Memo_Plan example_plan, 10)] \<and>
     (\<exists>e. plan_verify_cached example_module_env (\<lambda>_. Inr 10) (True, False) example_plan d = Some (Inr (), e))"
proof -
  have fresh: "memo_ok (verify_uncached example_module_env) empty_memo" by (simp add: memo_ok_def empty_memo_def)
  have ok: "resolved_plan_verify example_module_env example_plan = Inr ()" by code_simp
  obtain d where d: "plan_verify_cached example_module_env (\<lambda>_. Inr 10) (True, True) example_plan empty_memo = Some (Inr (), d)"
    "memo_ok (verify_uncached example_module_env) d"
    using verification_memo_transparent [OF fresh] ok by metis
  moreover have "evict 10 empty_memo = Some empty_memo"
    by (subst evict.simps) (simp add: empty_memo_def MAX_ENTRIES_def MAX_SERIALIZED_BYTES_def)
  then have "mem_entries d = [(Memo_Plan example_plan, 10)]"
    using d(1) ok by (auto simp: plan_verify_cached_def memo_verify_def remember_def empty_memo_def MAX_SERIALIZED_BYTES_def)
  moreover have "\<exists>e. plan_verify_cached example_module_env (\<lambda>_. Inr 10) (True, False) example_plan d = Some (Inr (), e)"
    using verification_memo_transparent [OF d(2)] ok by metis
  ultimately show ?thesis by blast
qed

end
