(* ===== verification/Module_Rollback_Properties.thy ===== *)
theory Module_Rollback_Properties
  imports Module_Properties
begin

section \<open>Properties of module differences and rollbacks\<close>

text \<open>
  The difference of two revisions is exact and can be replayed in both directions; an approved rollback leads to an
  ancestor of the active revision and to nothing else.
\<close>

subsection \<open>Differences\<close>

abbreviation hash_of :: "module_revision_snapshot \<Rightarrow> module_component_ref \<Rightarrow> sha256_digest option" where
  "hash_of snapshot \<equiv> map_of (map (\<lambda>h. (ch_component h, ch_sha256 h)) (cr_component_hashes (mrs_revision snapshot)))"

definition replay :: "module_component_change list \<Rightarrow> (module_component_ref \<rightharpoonup> sha256_digest) \<Rightarrow> (module_component_ref \<rightharpoonup> sha256_digest)" where
  "replay changes m = fold (\<lambda>c m. m(mch_component c := mch_next_sha256 c)) changes m"

definition revert :: "module_component_change list \<Rightarrow> (module_component_ref \<rightharpoonup> sha256_digest) \<Rightarrow> (module_component_ref \<rightharpoonup> sha256_digest)" where
  "revert changes m = fold (\<lambda>c m. m(mch_component c := mch_previous_sha256 c)) changes m"

lemma fold_update_exact:
  assumes "\<And>k. k \<notin> key ` set cs \<Longrightarrow> m k = n k" "\<And>c. c \<in> set cs \<Longrightarrow> val c = n (key c)"
  shows "fold (\<lambda>c m. m(key c := val c)) cs m = n"
  using assms
proof (induction cs arbitrary: m)
  case (Cons c cs)
  have "(m(key c := val c)) k = n k" if "k \<notin> key ` set cs" for k
    using that Cons.prems(1) [of k] Cons.prems(2) [of c] by auto
  then have "fold (\<lambda>c m. m(key c := val c)) cs (m(key c := val c)) = n" using Cons.prems(2) by (intro Cons.IH) simp_all
  then show ?case by (simp only: fold.simps comp_apply)
qed auto

lemma component_changes_mem:
  "c \<in> set (component_changes F T) \<longleftrightarrow>
     bt_get F (mch_component c) \<noteq> bt_get T (mch_component c) \<and>
     mch_previous_sha256 c = bt_get F (mch_component c) \<and> mch_next_sha256 c = bt_get T (mch_component c) \<and>
     mch_kind c = (if bt_get F (mch_component c) = None then Change_Added
       else if bt_get T (mch_component c) = None then Change_Removed else Change_Modified)"
proof -
  have one: "c \<in> set (component_change F T k) \<longleftrightarrow> mch_component c = k \<and> bt_get F k \<noteq> bt_get T k \<and>
      mch_previous_sha256 c = bt_get F k \<and> mch_next_sha256 c = bt_get T k \<and>
      mch_kind c = (if bt_get F k = None then Change_Added else if bt_get T k = None then Change_Removed else Change_Modified)" for k
    by (cases c) (auto simp: component_change_def split: option.splits)
  have "k \<in> set (bt_set (map fst F @ map fst T))" if "bt_get F k \<noteq> bt_get T k" for k
    using that by (auto simp: map_of_eq_None_iff image_iff) (metis fst_conv map_of_eq_None_iff map_of_SomeD option.exhaust)+
  moreover have "c \<in> set (component_changes F T) \<longleftrightarrow>
      (\<exists>k \<in> set (bt_set (map fst F @ map fst T)). c \<in> set (component_change F T k))" by (auto simp: component_changes_def)
  ultimately show ?thesis unfolding one by blast
qed

lemma component_changes_sorted: "sorted_wrt (<) (map mch_component (component_changes F T))"
proof -
  have one: "component_change F T k = [] \<or> (\<exists>c. component_change F T k = [c] \<and> mch_component c = k)" for k
    by (auto simp: component_change_def split: option.splits)
  have "sorted_wrt (<) (map mch_component (concat (map (component_change F T) ks))) \<and>
      set (map mch_component (concat (map (component_change F T) ks))) \<subseteq> set ks" if "sorted_wrt (<) ks" for ks
    using that
  proof (induction ks)
    case (Cons k ks)
    then show ?case using one [of k] by auto blast
  qed simp
  from this [OF sorted_bt_set] show ?thesis by (simp add: component_changes_def)
qed

lemma hash_map_of:
  assumes "canonical_component_hashes snapshot = Inr hashes"
  shows "bt_get (component_hash_map hashes) = hash_of snapshot"
proof -
  let ?raw = "cr_component_hashes (mrs_revision snapshot)"
  have hashes: "hashes = sort_by (cmp_on ch_component) ?raw" "adjacent_dup (map ch_component hashes) = None"
    using assms by (auto simp: canonical_component_hashes_def Let_def split: if_splits)
  then have "distinct (map ch_component hashes)"
    using adjacent_dup_None_sorted [OF sorted_map_sort_by [of ch_component ?raw]] by simp
  then have d: "distinct (map fst (map (\<lambda>h. (ch_component h, ch_sha256 h)) hashes))"
    "distinct (map fst (map (\<lambda>h. (ch_component h, ch_sha256 h)) ?raw))" using hashes(1) by (simp_all add: comp_def)
  have "component_hash_map hashes = component_hash_map ?raw"
    unfolding component_hash_map_def using hashes(1) d(1) by (intro bt_collect_perm) simp_all
  then show ?thesis using map_of_rev_distinct [OF d(2)] by (simp add: component_hash_map_def bt_get_collect fun_eq_iff)
qed

lemma diff_facts:
  assumes "diff_module_revisions env source target = Inr d"
  shows "revision_diff_verify env d = Inr ()"
    "\<exists>F T. bt_get F = hash_of source \<and> bt_get T = hash_of target \<and> mrd_component_changes d = component_changes F T"
    "mrd_capability_changes d =
       capability_changes (cm_required_capabilities (mrs_module source)) (cm_required_capabilities (mrs_module target))"
proof -
  obtain hs ht where hashes: "canonical_component_hashes source = Inr hs" "canonical_component_hashes target = Inr ht"
    and seal: "seal_diff env
       \<lparr>mrd_diff_sha256 = [], mrd_module_id = cm_id (mrs_module source),
        mrd_from_revision_id = cr_id (mrs_revision source), mrd_to_revision_id = cr_id (mrs_revision target),
        mrd_from_source_sha256 = cr_source_hash (mrs_revision source),
        mrd_to_source_sha256 = cr_source_hash (mrs_revision target),
        mrd_component_changes = component_changes (component_hash_map hs) (component_hash_map ht),
        mrd_capability_changes =
          capability_changes (cm_required_capabilities (mrs_module source)) (cm_required_capabilities (mrs_module target)),
        mrd_metadata_changed_fields = metadata_changed_fields (mrs_module source) (mrs_module target)\<rparr> = Inr d"
    using assms by (auto simp: diff_module_revisions_def result_simps)
  then show "revision_diff_verify env d = Inr ()"
    by (auto simp: seal_diff_def revision_diff_verify_def diff_digest_def result_simps)
  show "\<exists>F T. bt_get F = hash_of source \<and> bt_get T = hash_of target \<and> mrd_component_changes d = component_changes F T"
    using seal hash_map_of [OF hashes(1)] hash_map_of [OF hashes(2)]
    by (intro exI [of _ "component_hash_map hs"] exI [of _ "component_hash_map ht"]) (auto simp: seal_diff_def result_simps)
  show "mrd_capability_changes d =
       capability_changes (cm_required_capabilities (mrs_module source)) (cm_required_capabilities (mrs_module target))"
    using seal by (auto simp: seal_diff_def result_simps)
qed

text \<open>C20. The difference of two revisions is exact.  Replaying its component changes on the source revision gives the
  components and hashes of the target, reverting them on the target gives those of the source; it lists each changed component
  once, in order, and no unchanged one; its capability changes are the two set differences; and it passes its own verification.\<close>

theorem module_diff_exact:
  assumes "diff_module_revisions env source target = Inr d"
  shows "replay (mrd_component_changes d) (hash_of source) = hash_of target \<and>
    revert (mrd_component_changes d) (hash_of target) = hash_of source \<and>
    sorted_wrt (<) (map mch_component (mrd_component_changes d)) \<and>
    (\<forall>c \<in> set (mrd_component_changes d). mch_previous_sha256 c \<noteq> mch_next_sha256 c) \<and>
    set (mcd_added (mrd_capability_changes d)) =
      set (cm_required_capabilities (mrs_module target)) - set (cm_required_capabilities (mrs_module source)) \<and>
    set (mcd_removed (mrd_capability_changes d)) =
      set (cm_required_capabilities (mrs_module source)) - set (cm_required_capabilities (mrs_module target)) \<and>
    revision_diff_verify env d = Inr ()"
proof -
  obtain F T where maps: "bt_get F = hash_of source" "bt_get T = hash_of target"
    and changes: "mrd_component_changes d = component_changes F T"
    using diff_facts(2) [OF assms] by blast
  let ?cs = "component_changes F T"
  have unchanged: "bt_get F k = bt_get T k" if "k \<notin> mch_component ` set ?cs" for k
  proof (rule ccontr)
    assume differ: "bt_get F k \<noteq> bt_get T k"
    let ?c = "\<lparr>mch_component = k, mch_kind = if bt_get F k = None then Change_Added
      else if bt_get T k = None then Change_Removed else Change_Modified,
      mch_previous_sha256 = bt_get F k, mch_next_sha256 = bt_get T k\<rparr>"
    have "?c \<in> set ?cs" using differ by (simp only: component_changes_mem module_component_change.simps) simp
    then show False using that by force
  qed
  have sides: "mch_next_sha256 c = bt_get T (mch_component c)" "mch_previous_sha256 c = bt_get F (mch_component c)"
    if "c \<in> set ?cs" for c using that by (simp_all add: component_changes_mem)
  have "replay ?cs (bt_get F) = bt_get T"
    unfolding replay_def by (rule fold_update_exact) (fact unchanged, fact sides(1))
  moreover have "revert ?cs (bt_get T) = bt_get F"
    unfolding revert_def by (rule fold_update_exact) (fact unchanged [symmetric], fact sides(2))
  moreover have "\<forall>c \<in> set ?cs. mch_previous_sha256 c \<noteq> mch_next_sha256 c" by (simp add: component_changes_mem)
  moreover have "set (filter (\<lambda>c. c \<notin> set xs) (bt_set ys)) = set ys - set xs" for xs ys :: "content_capability list" by auto
  ultimately show ?thesis
    using diff_facts(1,3) [OF assms] component_changes_sorted [of F T]
    unfolding maps [symmetric] changes by (simp add: capability_changes_def)
qed

theorem module_diff_exact_witness:
  "\<exists>d. diff_module_revisions example_module_env (example_snapshot ''m1'' ''r1'' None) (example_snapshot ''m1'' ''r2'' (Some ''r1'')) = Inr d \<and>
     length (mrd_component_changes d) = 1 \<and>
     replay (mrd_component_changes d) (hash_of (example_snapshot ''m1'' ''r1'' None)) =
       hash_of (example_snapshot ''m1'' ''r2'' (Some ''r1''))"
proof -
  have "(case diff_module_revisions example_module_env (example_snapshot ''m1'' ''r1'' None)
      (example_snapshot ''m1'' ''r2'' (Some ''r1'')) of Inl _ \<Rightarrow> False | Inr d \<Rightarrow> length (mrd_component_changes d) = 1)"
    by code_simp
  then obtain d where d: "diff_module_revisions example_module_env (example_snapshot ''m1'' ''r1'' None)
      (example_snapshot ''m1'' ''r2'' (Some ''r1'')) = Inr d" "length (mrd_component_changes d) = 1"
    by (auto split: sum.splits)
  from module_diff_exact [OF d(1)] d show ?thesis by blast
qed

subsection \<open>Ancestors\<close>

text \<open>The predecessor relation of a set of revisions of one module, and what the walk decides about it.\<close>

definition predecessor :: "content_module_revision set \<Rightarrow> str \<Rightarrow> (str \<times> str) set" where
  "predecessor revisions module_id =
     {(cr_id r, p) | r p. r \<in> revisions \<and> cr_module_id r = module_id \<and> cr_previous_revision_id r = Some p}"

definition next_revision :: "(str, content_module_revision) btree_map \<Rightarrow> str \<Rightarrow> (str \<times> str) set" where
  "next_revision revisions module_id =
     {(i, p). \<exists>r. bt_get revisions i = Some r \<and> cr_module_id r = module_id \<and> cr_previous_revision_id r = Some p}"

lemma ancestor_walk_decides:
  "ancestor_walk revisions module_id target visited cursor = Inr found \<Longrightarrow>
     found \<longleftrightarrow> (\<exists>i. cursor = Some i \<and> (i, target) \<in> (next_revision revisions module_id)\<^sup>*)"
proof (induction revisions module_id target visited cursor rule: ancestor_walk.induct)
  case (2 revisions module_id target visited i)
  let ?R = "next_revision revisions module_id"
  show ?case
  proof (cases "i = target")
    case False
    with 2 obtain r where r: "bt_get revisions i = Some r" "cr_module_id r = module_id"
      and IH: "found \<longleftrightarrow> (\<exists>j. cr_previous_revision_id r = Some j \<and> (j, target) \<in> ?R\<^sup>*)"
      by (auto split: if_splits option.splits)
    have "(i, target) \<in> ?R\<^sup>* \<longleftrightarrow> (\<exists>j. (i, j) \<in> ?R \<and> (j, target) \<in> ?R\<^sup>*)"
      using False by (metis converse_rtranclE converse_rtrancl_into_rtrancl)
    with IH r show ?thesis by (auto simp: next_revision_def)
  qed (use 2 in \<open>auto split: if_splits\<close>)
qed simp

lemma lineage_run:
  assumes "try_fold lineage_step m rs = Inr m'" "bt_inv m"
  shows "bt_inv m' \<and> (\<forall>i r. bt_get m' i = Some r \<longrightarrow> bt_get m i = Some r \<or> r \<in> set rs \<and> cr_id r = i)"
  using assms
proof (induction rs arbitrary: m)
  case (Cons r rs)
  have "lineage_step m r = Inr n \<Longrightarrow> n = bt_insert (cr_id r) r m" for n by (auto simp: lineage_step_def split: if_splits)
  then have "try_fold lineage_step (bt_insert (cr_id r) r m) rs = Inr m'"
    using Cons.prems(1) by (auto simp: result_bind_Inr_conv)
  then have IH: "bt_inv m' \<and> (\<forall>i r'. bt_get m' i = Some r' \<longrightarrow>
      bt_get (bt_insert (cr_id r) r m) i = Some r' \<or> r' \<in> set rs \<and> cr_id r' = i)"
    by (rule Cons.IH) (rule bt_inv_insert [OF Cons.prems(2)])
  have "bt_get (bt_insert (cr_id r) r m) i = Some r' \<Longrightarrow> bt_get m i = Some r' \<or> r' = r \<and> cr_id r' = i" for i r'
    by (auto simp: btree.get_insert [OF Cons.prems(2)] split: if_splits)
  with IH show ?case by (metis list.set_intros)
qed simp

lemma target_is_ancestor_sound:
  assumes "target_is_ancestor current target known = Inr True"
  shows "(revision_id current, revision_id target) \<in>
    (predecessor (set known \<union> {mrs_revision current, mrs_revision target}) (cr_module_id (mrs_revision current)))\<^sup>+"
proof -
  let ?rs = "known @ [mrs_revision current, mrs_revision target]" and ?m = "cr_module_id (mrs_revision current)"
  obtain revisions where run: "try_fold lineage_step [] ?rs = Inr revisions"
    and walk: "ancestor_walk revisions ?m (revision_id target) [] (cr_previous_revision_id (mrs_revision current)) = Inr True"
    using assms by (auto simp: target_is_ancestor_def result_simps)
  have "next_revision revisions ?m \<subseteq> predecessor (set ?rs) ?m"
    using lineage_run [OF run btree.inv_empty] by (fastforce simp: next_revision_def predecessor_def)
  then have star: "(next_revision revisions ?m)\<^sup>* \<subseteq> (predecessor (set ?rs) ?m)\<^sup>*" by (rule rtrancl_mono)
  obtain i where i: "cr_previous_revision_id (mrs_revision current) = Some i"
    "(i, revision_id target) \<in> (next_revision revisions ?m)\<^sup>*"
    using ancestor_walk_decides [OF walk] by auto
  have "(revision_id current, i) \<in> predecessor (set ?rs) ?m" using i(1) by (auto simp: predecessor_def)
  moreover have "(i, revision_id target) \<in> (predecessor (set ?rs) ?m)\<^sup>*" using i(2) star by auto
  moreover have "set ?rs = set known \<union> {mrs_revision current, mrs_revision target}" by auto
  ultimately show ?thesis by (metis rtrancl_into_trancl2)
qed

subsection \<open>Rollback\<close>

lemma rollback_unblocked:
  assumes "rollback_blockers env b current target known policy = []"
  shows "policy_blockers b current target policy = []" "target_is_ancestor current target known = Inr True"
    "validate_revision_snapshot env target = Inr ()"
proof -
  have "policy_blockers b current target policy = [] \<and> lineage_blockers current target known = [] \<and>
      is_ok (validate_revision_snapshot env current) \<and> is_ok (validate_revision_snapshot env target)"
    using assms by (simp add: rollback_blockers_def split: if_splits)
  then show "policy_blockers b current target policy = []" "target_is_ancestor current target known = Inr True"
    "validate_revision_snapshot env target = Inr ()"
    by (auto simp: lineage_blockers_def is_ok_conv split: sum.splits bool.splits)
qed

lemma prepared_rollback:
  assumes "review_module_rollback env b current target known policy = Inr review"
    "prepare_module_rollback env review expected = Inr plan"
  shows "rollback_blockers env b current target known policy = []" "expected = mrr_review_sha256 review"
    "rollback_plan_verify env plan = Inr ()" "rbp_binding_id plan = mb_id b"
    "rbp_target_revision_id plan = revision_id target" "rbp_expected_current_revision_id plan = revision_id current"
    "rbp_expected_state_revision plan = mrp_state_revision policy"
  using assms
  by (auto simp: review_module_rollback_def seal_rollback_review_def prepare_module_rollback_def seal_rollback_plan_def
      rollback_plan_verify_def rollback_plan_digest_def Let_def result_simps)

lemma approved_activation_verifies:
  "approve_module_activation_plan env plan approval = Inr activation \<Longrightarrow> activation_plan_verify env activation = Inr () \<and> amp_plan activation = plan"
  by (auto simp: approve_module_activation_plan_def activation_plan_verify_def result_simps)

text \<open>C10. An approved rollback is what was reviewed.  If the rollback of a binding was reviewed and then approved, the
  binding was enabled, approved and on the current revision; the target is a valid revision of the same module that the chain
  of predecessors of the current one reaches, is not quarantined and needs no missing asset and no unsupported capability; the approval
  passes its own verification; and the activation it carries has the same binding, pinned to the target and not yet enabled.\<close>

theorem module_rollback_safe:
  assumes "review_module_rollback env b current target known policy = Inr review"
    "approve_module_rollback_plan env review expected activation_review rset approval = Inr approved"
  shows "approved_rollback_verify env approved = Inr () \<and> expected = mrr_review_sha256 review \<and>
    mb_enabled b \<and> mb_approved b \<and> mb_revision_id b = revision_id current \<and> mb_module_id b = cm_id (mrs_module target) \<and>
    revision_id target \<noteq> revision_id current \<and>
    (revision_id current, revision_id target) \<in>
      (predecessor (set known \<union> {mrs_revision current, mrs_revision target}) (cr_module_id (mrs_revision current)))\<^sup>+ \<and>
    validate_revision_snapshot env target = Inr () \<and>
    revision_id target \<notin> set (mrp_quarantined_revision_ids policy) \<and>
    set (cm_asset_ids (mrs_module target)) \<subseteq> set (mrp_available_asset_ids policy) \<and>
    set (cm_required_capabilities (mrs_module target)) \<subseteq> set (mrp_supported_capabilities policy) \<and>
    mrp_unresolved_components policy = [] \<and>
    rmpl_activation_binding_ids (amp_plan (arb_activation approved)) = [mb_id b] \<and>
    (\<exists>proposed \<in> set (mrv_ordered_bindings activation_review). mb_id proposed = mb_id b \<and>
       mb_pinned_revision_id proposed = Some (revision_id target) \<and> mb_revision_id proposed = revision_id target \<and>
       \<not> mb_enabled proposed \<and> \<not> mb_approved proposed)"
proof -
  obtain plan activation_plan where plan: "prepare_module_rollback env review expected = Inr plan"
    and verify: "merge_review_verify env activation_review = Inr ()"
    and valid: "validate_rollback_activation plan activation_review activation_plan = Inr ()"
    and activation: "approve_module_activation_plan env activation_plan approval = Inr (arb_activation approved)"
    and parts: "arb_rollback approved = plan" "arb_activation_review approved = activation_review"
      "approved_module_rollback_sha256 env plan activation_review (arb_activation approved) = Inr (arb_approval_sha256 approved)"
    using assms(2) by (auto simp: approve_module_rollback_plan_def result_simps)
  note prepared = prepared_rollback [OF assms(1) plan]
  note unblocked = rollback_unblocked [OF prepared(1)]
  note approved = approved_activation_verifies [OF activation]
  have "approved_rollback_verify env approved = Inr ()"
    using parts verify valid approved prepared(3) by (simp add: approved_rollback_verify_def result_simps)
  moreover have "\<exists>proposed \<in> set (mrv_ordered_bindings activation_review). mb_id proposed = mb_id b \<and>
       mb_pinned_revision_id proposed = Some (revision_id target) \<and> mb_revision_id proposed = revision_id target \<and>
       \<not> mb_enabled proposed \<and> \<not> mb_approved proposed"
    "rmpl_activation_binding_ids (amp_plan (arb_activation approved)) = [mb_id b]"
    using valid approved prepared(4,5)
    by (auto simp: validate_rollback_activation_def result_simps find_Some_iff)
  moreover have "mb_enabled b \<and> mb_approved b \<and> mb_revision_id b = revision_id current \<and> mb_module_id b = cm_id (mrs_module target) \<and>
    revision_id target \<noteq> revision_id current \<and> revision_id target \<notin> set (mrp_quarantined_revision_ids policy) \<and>
    set (cm_asset_ids (mrs_module target)) \<subseteq> set (mrp_available_asset_ids policy) \<and>
    set (cm_required_capabilities (mrs_module target)) \<subseteq> set (mrp_supported_capabilities policy) \<and>
    mrp_unresolved_components policy = []"
    using unblocked(1) by (auto simp: policy_blockers_def filter_empty_conv split: if_splits)
  ultimately show ?thesis
    using prepared(2) unblocked(3) target_is_ancestor_sound [OF unblocked(2)] by blast
qed

text \<open>In the example the second revision of a module is active and is rolled back to the first.\<close>

definition active_revision :: module_revision_snapshot where
  "active_revision = example_snapshot ''m1'' ''r2'' (Some ''r1'')"

definition active_binding :: module_binding where
  "active_binding = example_binding ''b1'' ''m1'' ''r2'' MScope_User"

definition rollback_binding :: module_binding where
  "rollback_binding = active_binding\<lparr>mb_enabled := False, mb_approved := False, mb_activation_approval_id := None,
     mb_activation_review_sha256 := None, mb_activation_plan_sha256 := None, mb_resolution_mode := Mode_Pinned,
     mb_pinned_revision_id := Some (lit ''r1''), mb_revision_id := lit ''r1''\<rparr>"

definition example_policy :: module_rollback_policy where
  "example_policy = \<lparr>mrp_state_revision = 1, mrp_maximum_module_schema_version = 1, mrp_scope_target_exists = True,
     mrp_available_asset_ids = [], mrp_supported_capabilities = [CCap_Transforms], mrp_quarantined_revision_ids = [],
     mrp_unresolved_components = []\<rparr>"

definition example_rollback ::
  "(module_merge_error, module_rollback_review \<times> module_merge_review \<times> approved_module_rollback_plan) result" where
  "example_rollback =
     result_bind (review_module_rollback example_module_env active_binding active_revision first_module [] example_policy) (\<lambda>review.
     result_bind (review_module_activation example_module_env (Some 1) example_context [active_binding] rollback_binding
       [first_module]) (\<lambda>activation_review.
     result_bind (approve_module_rollback_plan example_module_env review example_digest activation_review no_resolutions
       \<lparr>maa_approval_id = lit ''a'', maa_expected_review_sha256 = example_digest, maa_expected_plan_sha256 = example_digest\<rparr>)
       (\<lambda>approved. Inr (review, activation_review, approved))))"

theorem module_rollback_safe_witness:
  "\<exists>review activation_review approved.
     review_module_rollback example_module_env active_binding active_revision first_module [] example_policy = Inr review \<and>
     approve_module_rollback_plan example_module_env review example_digest activation_review no_resolutions
       \<lparr>maa_approval_id = lit ''a'', maa_expected_review_sha256 = example_digest, maa_expected_plan_sha256 = example_digest\<rparr> =
       Inr approved \<and>
     rmpl_activation_binding_ids (amp_plan (arb_activation approved)) = [mb_id active_binding]"
proof -
  have "is_ok example_rollback" by code_simp
  then obtain review activation_review approved where run:
    "review_module_rollback example_module_env active_binding active_revision first_module [] example_policy = Inr review"
    "approve_module_rollback_plan example_module_env review example_digest activation_review no_resolutions
       \<lparr>maa_approval_id = lit ''a'', maa_expected_review_sha256 = example_digest, maa_expected_plan_sha256 = example_digest\<rparr> =
       Inr approved"
    unfolding example_rollback_def is_ok_conv by (auto simp: result_simps)
  from module_rollback_safe [OF this] run show ?thesis by blast
qed

end
