(* ===== verification/Spec2Isabelle.thy ===== *)
theory Spec2Isabelle
  imports Memory_Properties Memory_Job_Properties Knowledge_Properties Knowledge_Matching Template_Properties
    Provider_Properties Interaction_Properties Transform_Properties
    Discovery_Properties Sse_Properties Module_Rollback_Properties
begin

text \<open>
  LorePia: the orchestration engines, content modules, provider discovery and event framing.

  LorePia is a local chat application for language models.  Before each request the program
  composes a prompt from a preset, the history of the conversation, the long-term memory and the
  knowledge books, and hands it to a provider; around a request it runs declarative interaction rules and
  text transforms.  All of this is the work of the crate \<open>crates/orchestration\<close>, on the data types and validators
  of \<open>crates/domain/src/orchestration.rs\<close>, and of \<open>crates/providers/src/prompt_contract.rs\<close>, which
  turns a resolved prompt into the messages of a provider.  A new provider is set up by the durable state
  machine of \<open>crates/domain/src/discovery.rs\<close>, and its streamed answers are cut into events by
  \<open>crates/providers/src/sse.rs\<close>.  Everything there is deterministic and pure up to an explicit state, and it decides
  what the model gets to see, what imported content may do and which billable or persistent effects a discovery may
  cause, so it is what this development models.  The rest of the program (storage, transports, shell, user
  interface) calls it.

  \<^bold>\<open>How the parts interact.\<close>  The memory and knowledge engines select records and entries; the
  resolver places them, the history and the blocks of the preset into a plan within the token budget, rendering block
  texts with the template and portable text renderers; the plan is sealed by a hash, may be resealed
  with transformed texts, and is compiled for the adapter of a provider.  Interaction rules change variables, activate
  knowledge and ask for approvals; transforms rewrite texts in five phases.  Which transforms, rules, books and prompt fragments are in
  force is decided by content modules: bindings of module revisions are merged into a reviewed plan.  Discovery runs beside
  this: each accepted action advances a session, appends one event to its log and asks the caller for at most one effect.

  \<^bold>\<open>Theories and the code they model.\<close>

  \<^item> \<open>Prelude\<close>, \<open>Rust_Text\<close>, \<open>Rust_Float\<close>, \<open>Rust_Collections\<close>, \<open>Rust_Parse\<close>: the parts of Rust and its
    standard library that the code uses.  Results are sums with \<open>Inl\<close> the error and \<open>result_bind\<close> for the
    question mark operator; loops that return early are \<open>try_fold\<close>, chains of checks are \<open>checks\<close>.  Strings are lists
    of code points with their UTF-8 length, lower-casing, searching and number parsing written out.
    Machine integers are naturals or integers with the checked, saturating or wrapping operation the
    code calls, and 64-bit words where the code mixes bits.  A \<open>BTreeMap\<close> is a sorted association
    list, proved to satisfy the locale \<open>ordered_map\<close>; comparison functions passed to sorting satisfy
    the locale \<open>total_comparator\<close>.
  \<^item> \<open>Domain_Types\<close>, \<open>Domain_Validation\<close>: types and validators of \<open>orchestration.rs\<close> and
    \<open>compatibility_validation.rs\<close> shared by the engines (identifiers, templates, conditions, variables).
  \<^item> \<open>Memory_Validation\<close>, \<open>Selection_Common\<close>, \<open>Memory_Selection\<close>, \<open>Memory_Invalidation\<close>,
    \<open>Hash_Framing\<close> (locale \<open>framing\<close>), \<open>Memory_Jobs\<close>: the memory engine of \<open>memory.rs\<close>: selection of memories for a
    prompt, invalidation after a rewind, and the queue of background memory jobs.  The lemmas are in
    \<open>Memory_Engine_Facts\<close>, the properties in \<open>Memory_Properties\<close> and \<open>Memory_Job_Properties\<close>: a selected
    memory belongs to the branch, the selection obeys its budgets, does not depend on the order of
    the store, leaves out nothing that fits, explains every candidate and always ends; jobs have
    injective idempotency keys, bounded retries and are dispatched in order within the limits.
  \<^item> \<open>Knowledge_Validation\<close>, \<open>Knowledge_Budget\<close>, \<open>Knowledge_Activation\<close>, \<open>Knowledge_Engine\<close>: the
    knowledge engine of \<open>knowledge.rs\<close>: activation rules, keyword search, recursive activation, the
    token budget of a book and the work meter (locale \<open>meter\<close>) that several books share.  The lemmas
    are in \<open>Knowledge_Metering\<close> (runs under the work budget), \<open>Knowledge_Rounds\<close> (the text that each
    round scans: the latest texts, then the contents of the entries that fired before), \<open>Knowledge_Engine_Facts\<close>, \<open>Knowledge_Selection_Facts\<close>, \<open>Knowledge_Order\<close> and
    \<open>Knowledge_Errors\<close>, the properties in \<open>Knowledge_Properties\<close> and \<open>Knowledge_Matching\<close>.
  \<^item> \<open>Template\<close>, \<open>Template_Properties\<close>: the condition evaluator and template renderer of
    \<open>template.rs\<close>, proved to refine an unbounded expansion and to agree with the condition evaluator
    of the knowledge engine.
  \<^item> \<open>Portable_Text\<close>, \<open>Portable_Text_Properties\<close>: the macro renderer of \<open>portable_text.rs\<close>: its
    output is bounded, text without known macros is returned verbatim, and so is text without blocks
    whose first macro is a comparison or a roll that lacks its arguments.
  \<^item> \<open>Prompt_Types\<close>, \<open>Prompt_Validation\<close>, \<open>Request_Validation\<close>: presets, resolve requests and plans of
    \<open>orchestration.rs\<close> with \<open>PromptPreset::validate\<close> and \<open>PromptResolveRequest::validate\<close>.
  \<^item> \<open>Token_Estimation\<close>, \<open>Prompt_Resolver\<close>, \<open>Prompt_Planning\<close>, \<open>Plan_Sealing\<close>: \<open>resolver.rs\<close> with
    \<open>resolver/compat.rs\<close> and \<open>resolver/history_budget.rs\<close>.  The estimator trait is the locale
    \<open>token_estimator\<close>, interpreted on the built-in estimator as \<open>utf8_tokens\<close>.  Blocks are materialized, reduced to their own
    and to the global budget, mapped to roles, traced, hashed and verified; \<open>reseal\<close> replaces texts.
    \<open>Resolver_Facts\<close>, \<open>Materialization_Facts\<close>, \<open>Budget_Facts\<close>, \<open>Plan_Facts\<close>, \<open>Plan_Verification\<close> and
    \<open>Reseal_Facts\<close> lead to \<open>Resolver_Properties\<close>: a resolved plan passes the verification of its consumers,
    fits the budget, contains the latest user message intact and only supported roles; resealing changes texts only and is
    the identity on the texts of the plan.
  \<^item> \<open>Provider_Contract\<close>, \<open>Provider_Properties\<close>: \<open>prompt_contract.rs\<close>.  A plan resolved for an adapter
    compiles for it, the preview and the execution agree on the hash, imported content is never
    privileged on the wire, and inline cache breakpoints are bounded.
  \<^item> \<open>Interaction_Types\<close>, \<open>Interaction_Validation\<close>, \<open>Interaction_Random\<close>, \<open>Interaction_Engine\<close>,
    \<open>Interaction_Events\<close>: the interaction engine of \<open>interactions.rs\<close>: compilation of rules, handling of
    events with every action, the dice, and the decision and expiry of proposals.
    \<open>Interaction_Facts\<close> replaces the validation of the durable state by the predicate \<open>state_ok\<close> and
    shows that actions keep it; \<open>Interaction_Machine\<close> has the operations as the step relation
    \<open>interaction_step\<close> and interprets the locale \<open>durable_machine\<close> of \<open>Step_Machines\<close> on it; \<open>Interaction_Properties\<close> draws
    the conclusions: reachable states are valid, proposals are an append-only audit trail decided once, imported
    rules write only their own namespace, the expiry sweep is exact, and dice rolls always end in range.
  \<^item> \<open>Transform_Pipeline\<close>, \<open>Transform_Properties\<close>: \<open>transforms.rs\<close>: compilation of transform rules, replacement templates,
    bounded replacement, reports and differences.  Bounded replacement equals an unbounded reference,
    and a pipeline changes a text only through an enabled and approved rule.
  \<^item> \<open>Module_Types\<close>, \<open>Module_Validation\<close>, \<open>Module_Composition\<close>, \<open>Module_Rollback\<close>: content modules of \<open>modules.rs\<close> and
    \<open>modules/verification.rs\<close>, on the modules, revisions and bindings of \<open>orchestration.rs\<close>: validation, the authority of
    imported packages, the merge review with its conflicts, its resolution into a plan, the approval of an activation, the runtime
    plans materialized and derived from it, differences of revisions and the rollback to an ancestor.  \<open>Module_Facts\<close> replaces the
    loops of the review by their closed forms and names the shape of every review, \<open>Module_Resolution_Facts\<close> describes a
    resolution as a choice for each component.  \<open>Module_Properties\<close> and \<open>Module_Rollback_Properties\<close>: a review does not depend on
    the order of its inputs, nothing enters a plan without authority, conflicts are decided explicitly and can be
    recovered from the plan, runtime plans never leave their approval, differences replay and revert exactly, and an approved
    rollback is the reviewed one.
  \<^item> \<open>Verification_Cache\<close>: the memo of \<open>modules/verification_cache.rs\<close> in front of the verification of reviews and plans, with the
    locale \<open>verification_memo\<close>, interpreted on the values that are memoised: every lookup returns, with the
    result of the verification itself, and the memo stays within its limits.
  \<^item> \<open>Step_Machines\<close>: the two interfaces of the durable state machines, \<open>durable_machine\<close> (an invariant and a
    relation that every step keeps) and \<open>logged_machine\<close> (an invariant between a state and the log that led to it).
  \<^item> \<open>Discovery_Types\<close>, \<open>Discovery_Validation\<close>, \<open>Discovery_Machine\<close>, \<open>Discovery_Grants\<close>: provider discovery of
    \<open>discovery.rs\<close>: the session with its states, checkpoints and approvals, its validators, the handlers of all
    actions (approvals, probing, assistant manifests, review, commit, compensation, interruption, restart, cancellation,
    reconciliation), and the validators and digest of the approval grants.  \<open>Discovery_Table\<close> states the
    intended transitions as the relation \<open>discovery_move\<close> and shows that the handlers refine it;
    \<open>Discovery_Facts\<close> interprets both machine locales on \<open>discovery_step\<close>; \<open>Discovery_Settling\<close> names the
    actions that end a session.  \<open>Discovery_Properties\<close>: every session of a log is valid and its events are numbered
    without gaps, every billable or persistent effect is covered by an approval in the log, at most one commit is
    approved, an effect is only asked for in its state, every session can be brought to its end, and
    fresh evidence stays inside the authority of the session.
  \<^item> \<open>Sse_Framing\<close>, \<open>Sse_Properties\<close>: the framing of server-sent events of \<open>sse.rs\<close>: however
    the bytes are cut into chunks, the events are those of the whole stream.

  \<^bold>\<open>Parameters and hypotheses.\<close>  Third-party code is an argument of the definitions that use it: the regular
  expression engine (\<open>engine_env\<close>, \<open>transform_env\<close>), the SHA-256 digest and its hexadecimal encoder, the JSON
  encoder and the printing of decimals (\<open>prompt_env\<close>, \<open>interaction_env\<close>, \<open>module_env\<close>).  What a theorem needs of them is a named
  hypothesis of that theorem: \<open>digests_valid\<close> and \<open>digest_contract\<close> (length and alphabet of a
  digest), \<open>captures_in_order\<close> (matches come from left to right and do not overlap).  \<open>selections_ok\<close> and
  \<open>unbudgeted_tokens\<close> are bounds on the input that the code does not check itself; \<open>unchecked_selection_gap\<close>
  shows that the first is needed for a resolved plan to verify.

  \<^bold>\<open>Bounds.\<close>  \<open>usize\<close> has 64 bits, and the two zeros of a float are one value.  No function takes fuel: every loop of the modelled code is
  structural recursion on its data, a recursion bounded by a number the code itself bounds, or proved
  to end; the rejection loop of the dice ends because the state of its generator runs through all
  64-bit words, and the walk along the predecessors of a revision because it visits none twice.  The eviction
  loop of the memo is a partial function, proved to return.  The remainder by the number of sides would panic for zero sides, which the
  validation that precedes every roll excludes.

  \<^bold>\<open>Not modelled.\<close>  Storage (SQL statements run by SQLite), provider transports (HTTP and JSON of remote
  services), the import of archives and images (third-party decoders), the shell and the user
  interface.  The import planning of packages (\<open>package.rs\<close>) starts from what the archive reader finds and is left for an
  extension.  The memo is threaded through the verification of reviews, plans and approved activations; a runtime plan is
  verified without it.
\<close>

end
